(* ===== verification/Prelude.thy ===== *)
theory Prelude
  imports Main "HOL-Library.Word"
begin

text \<open>
  What every component shares.

  \<^item> The integer types of the runtime. JavaScript's bitwise operators work on 32-bit
    integers, so every intermediate of the code that goes through \<open>|\<close>, \<open>&\<close>, \<open><<\<close>,
    \<open>>>>\<close> is a \<open>u32\<close>; the elements of a \<open>Uint8Array\<close> are \<open>u8\<close>; the code
    units of a string are \<open>u16\<close>. Storing a 32-bit value into a \<open>Uint8Array\<close> keeps
    its low eight bits (\<open>ucast\<close>). An integer-valued JavaScript number is an \<open>int\<close>.
  \<^item> The result of a call: \<open>None\<close> when it does not return, \<open>Some (Inl e)\<close> when it
    throws \<open>e\<close>, \<open>Some (Inr v)\<close> when it returns \<open>v\<close>.
  \<^item> Reads outside an array, which JavaScript answers with \<open>undefined\<close>.
  \<^item> \<open>splice\<close>, the specification of a run of stores into a typed array.
\<close>

unbundle bit_operations_syntax

type_synonym u8 = "8 word"
type_synonym u16 = "16 word"
type_synonym u32 = "32 word"

text \<open>A JavaScript string is its list of UTF-16 code units.\<close>
type_synonym jstring = "u16 list"

named_theorems splice_simps "stores into a typed array as splices"

section \<open>Results\<close>

text \<open>
  The errors the runtime raises: \<open>indexOutOfRange\<close> builds a RangeError from the reader's
  position, the length asked for and the length of the buffer; \<open>InvalidArrayLength\<close> is the
  RangeError of the engine for a typed array it cannot allocate; a TypeError carries its message,
  or the empty one where the engine words it; the others are plain Errors.
\<close>

datatype js_error =
    RangeError nat nat nat
  | InvalidArrayLength
  | InvalidVarint
  | InvalidWireType u32 nat
  | InvalidEncoding
  | TypeError string

type_synonym 'a res = "(js_error + 'a) option"

abbreviation ok :: "'a \<Rightarrow> 'a res" where
  "ok x \<equiv> Some (Inr x)"

abbreviation throw :: "js_error \<Rightarrow> 'a res" where
  "throw e \<equiv> Some (Inl e)"

text \<open>Sequencing: an exception or a call that does not return ends the caller too.\<close>

definition bindr :: "'a res \<Rightarrow> ('a \<Rightarrow> 'b res) \<Rightarrow> 'b res" where
  "bindr x f = (case x of None \<Rightarrow> None | Some (Inl e) \<Rightarrow> Some (Inl e) | Some (Inr a) \<Rightarrow> f a)"

lemma bindr_simps [simp]:
  "bindr None f = None"
  "bindr (throw e) f = throw e"
  "bindr (ok a) f = f a"
  by (simp_all add: bindr_def)

lemma bindr_assoc: "bindr (bindr x f) g = bindr x (\<lambda>a. bindr (f a) g)"
  by (auto simp: bindr_def split: option.splits sum.splits)

lemma bindr_eq_ok: "bindr x f = ok b \<longleftrightarrow> (\<exists>a. x = ok a \<and> f a = ok b)"
  by (auto simp: bindr_def split: option.splits sum.splits)

lemma bindr_eq_None: "bindr x f = None \<longleftrightarrow> x = None \<or> (\<exists>a. x = ok a \<and> f a = None)"
  by (auto simp: bindr_def split: option.splits sum.splits)

lemma bindr_cong [fundef_cong]:
  "x = y \<Longrightarrow> (\<And>a. y = ok a \<Longrightarrow> f a = g a) \<Longrightarrow> bindr x f = bindr y g"
  by (auto simp: bindr_def split: option.splits sum.splits)

text \<open>Recursive calls of a \<open>partial_function\<close> may stand on either side of \<open>bindr\<close>.\<close>

lemma bindr_as_bind:
  "bindr x f = Option.bind x (case_sum (\<lambda>e. Some (Inl e)) f)"
  by (auto simp: bindr_def split: option.splits sum.splits)

lemma bindr_mono [partial_function_mono]:
  assumes B: "mono_option B" and C: "\<And>y. mono_option (\<lambda>f. C y f)"
  shows "mono_option (\<lambda>f. bindr (B f) (\<lambda>y. C y f))"
proof -
  have "mono_option (\<lambda>f. case_sum (\<lambda>e. Some (Inl e)) (\<lambda>y. C y f) s)" for s
    using C by (cases s) (simp_all add: monotone_def flat_ord_def)
  then show ?thesis
    unfolding bindr_as_bind by (intro bind_mono B)
qed

section \<open>Arrays\<close>

text \<open>
  \<open>buf[i] & m\<close> reads \<open>undefined\<close> beyond the end of the array, which the bitwise operator
  turns into 0; the comparison \<open>buf[i] < 128\<close> is false there.
\<close>

definition byte_at :: "u8 list \<Rightarrow> nat \<Rightarrow> u32" where
  "byte_at buf i = (if i < length buf then ucast (buf ! i) else 0)"

definition byte_lt128 :: "u8 list \<Rightarrow> nat \<Rightarrow> bool" where
  "byte_lt128 buf i \<longleftrightarrow> i < length buf \<and> buf ! i < 128"

text \<open>
  \<open>arr[i] = v\<close> on a plain array: within the array it replaces, at or beyond the end it
  extends the array (the holes read as \<open>undefined\<close>, which the readers of this array turn
  into 0).
\<close>

definition arr_set :: "'a::zero list \<Rightarrow> nat \<Rightarrow> 'a \<Rightarrow> 'a list" where
  "arr_set xs i v =
     (if i < length xs then xs[i := v] else xs @ replicate (i - length xs) 0 @ [v])"

lemma arr_set_append [simp]: "i = length xs \<Longrightarrow> arr_set xs i v = xs @ [v]"
  by (simp add: arr_set_def)

lemma length_arr_set [simp]: "length (arr_set xs i v) = max (length xs) (Suc i)"
  by (auto simp: arr_set_def)

lemma take_arr_set [simp]:
  "i \<le> length xs \<Longrightarrow> take (Suc i) (arr_set xs i v) = take i xs @ [v]"
  by (auto simp: arr_set_def take_Suc_conv_app_nth)

lemma take_arr_set_Suc:
  "i \<le> length xs \<Longrightarrow> take (Suc (Suc i)) (arr_set (arr_set xs i v) (Suc i) w) = take i xs @ [v, w]"
  by simp

text \<open>
  A run of stores \<open>buf[p] = b0; buf[p + 1] = b1; ...\<close> into a \<open>Uint8Array\<close>. A store
  outside a typed array is ignored, which is what \<open>buf[p := b]\<close> does in HOL.
\<close>

definition splice :: "'a list \<Rightarrow> nat \<Rightarrow> 'a list \<Rightarrow> 'a list" where
  "splice buf p bs = take p buf @ bs @ drop (p + length bs) buf"

lemma length_splice [simp]:
  "p + length bs \<le> length buf \<Longrightarrow> length (splice buf p bs) = length buf"
  by (simp add: splice_def)

lemma splice_Nil [simp]: "splice buf p [] = buf"
  by (simp add: splice_def)

lemma list_update_splice [splice_simps]: "p < length buf \<Longrightarrow> buf[p := b] = splice buf p [b]"
  by (simp add: splice_def upd_conv_take_nth_drop)

lemma splice_splice [splice_simps]:
  "p + length xs \<le> length buf \<Longrightarrow> q = p + length xs \<Longrightarrow>
   splice (splice buf p xs) q ys = splice buf p (xs @ ys)"
  by (simp add: splice_def ac_simps)

lemma splice_all: "length bs = length buf \<Longrightarrow> splice buf 0 bs = bs"
  by (simp add: splice_def)

section \<open>Bytes in a buffer\<close>

definition bytes_at :: "'a list \<Rightarrow> nat \<Rightarrow> 'a list \<Rightarrow> bool" where
  "bytes_at buf p bs \<longleftrightarrow> p + length bs \<le> length buf \<and> (\<forall>i < length bs. buf ! (p + i) = bs ! i)"

lemma bytes_at_bound: "bytes_at buf p bs \<Longrightarrow> p + length bs \<le> length buf"
  by (simp add: bytes_at_def)

lemma bytes_at_nth: "bytes_at buf p bs \<Longrightarrow> i < length bs \<Longrightarrow> p + i < length buf \<and> buf ! (p + i) = bs ! i"
  by (auto simp: bytes_at_def)

lemma bytes_at_byte: "bytes_at buf p bs \<Longrightarrow> i < length bs \<Longrightarrow> byte_at buf (p + i) = ucast (bs ! i)"
  by (simp add: byte_at_def bytes_at_nth)

lemma bytes_at_append:
  "bytes_at buf p (xs @ ys) \<longleftrightarrow> bytes_at buf p xs \<and> bytes_at buf (p + length xs) ys"
proof (intro iffI conjI)
  assume l: "bytes_at buf p (xs @ ys)"
  then show "bytes_at buf p xs"
    by (auto simp: bytes_at_def nth_append)
  show "bytes_at buf (p + length xs) ys"
    unfolding bytes_at_def
  proof (intro conjI allI impI)
    show "p + length xs + length ys \<le> length buf" using l by (simp add: bytes_at_def)
    fix i assume "i < length ys"
    then show "buf ! (p + length xs + i) = ys ! i"
      using bytes_at_nth [OF l, of "length xs + i"] by (simp add: add.assoc)
  qed
next
  assume "bytes_at buf p xs \<and> bytes_at buf (p + length xs) ys"
  then have x: "bytes_at buf p xs" and y: "bytes_at buf (p + length xs) ys" by simp_all
  show "bytes_at buf p (xs @ ys)"
    unfolding bytes_at_def
  proof (intro conjI allI impI)
    show "p + length (xs @ ys) \<le> length buf" using bytes_at_bound [OF y] by simp
    fix i assume i: "i < length (xs @ ys)"
    show "buf ! (p + i) = (xs @ ys) ! i"
    proof (cases "i < length xs")
      case True
      then show ?thesis using bytes_at_nth [OF x] by (simp add: nth_append)
    next
      case False
      then show ?thesis
        using bytes_at_nth [OF y, of "i - length xs"] i by (simp add: nth_append)
    qed
  qed
qed

lemma bytes_at_Nil [simp]: "bytes_at buf p [] \<longleftrightarrow> p \<le> length buf"
  by (simp add: bytes_at_def)

lemma bytes_at_self [simp]: "bytes_at bs 0 bs"
  by (simp add: bytes_at_def)

lemma bytes_at_take: "bytes_at buf p bs \<Longrightarrow> take (length bs) (drop p buf) = bs"
  by (auto simp: bytes_at_def intro: nth_equalityI)

section \<open>Words\<close>

text \<open>Disjoint bits: \<open>or\<close> adds.\<close>

lemma word_or_push:
  "a < 2 ^ k \<Longrightarrow>
   (word_of_nat a :: 'a::len word) OR push_bit k (word_of_nat b) = word_of_nat (a + b * 2 ^ k)"
proof -
  assume a: "a < 2 ^ k"
  have "a OR push_bit k b = a + push_bit k b"
    by (rule disjunctive_add [symmetric])
      (use a in \<open>auto simp: bit_simps not_le simp flip: take_bit_nat_eq_self_iff\<close>,
        metis bit_take_bit_iff leD)
  then have "word_of_nat (a OR push_bit k b) = (word_of_nat (a + b * 2 ^ k) :: 'a word)"
    by (simp add: push_bit_eq_mult)
  then show ?thesis
    by (simp only: of_nat_or_eq of_nat_push_bit)
qed

lemma word_and_mask_numerals:
  "take_bit 4 x = x AND (15::u32)" "take_bit 5 x = x AND (31::u32)"
  "take_bit 6 x = x AND (63::u32)" "take_bit 7 x = x AND (127::u32)"
  "take_bit 8 x = x AND (255::u32)" "take_bit 10 x = x AND (1023::u32)"
  by (simp_all add: take_bit_eq_mask mask_eq_exp_minus_1)

lemma byte_widen: "(ucast (ucast (x::u32) :: u8) :: u32) = x AND 255"
  by (rule bit_word_eqI) (auto simp: bit_simps simp flip: word_and_mask_numerals)

lemma push_drop_and:
  "push_bit k (drop_bit k x AND m) = x AND push_bit k m" for x :: "'a::len word"
  by (rule bit_word_eqI) (auto simp: bit_simps)

lemma u32_and_ones: "x AND 4294967295 = (x::u32)"
proof -
  have "(4294967295::u32) = - 1" by simp
  then show ?thesis by (simp only: bit.conj_one_right)
qed

lemma unat_shr7: "unat (drop_bit 7 v) = unat v div 128" for v :: "'a::len word"
  by (simp only: unat_drop_bit_eq) (simp add: drop_bit_eq_div)

lemma unat_shr7_less: "(127::u32) < v \<Longrightarrow> unat (drop_bit 7 v) < unat v"
proof -
  assume "127 < v"
  then have "127 < unat v" by (simp add: word_less_nat_alt)
  then have "unat v div 128 < unat v" by simp
  then show ?thesis by (simp only: unat_shr7)
qed

lemma unat_shr7_less_nz: "(v::u32) \<noteq> 0 \<Longrightarrow> unat (drop_bit 7 v) < unat v"
proof -
  assume "v \<noteq> 0"
  then have "0 < unat v" by (simp add: unat_gt_0)
  then have "unat v div 128 < unat v" by simp
  then show ?thesis by (simp only: unat_shr7)
qed

text \<open>
  Bitwise code over words as arithmetic over the natural numbers they stand for. The
  collection \<open>nat_bits\<close> turns a term built from \<open>word_of_nat\<close> by masks, shifts and
  conversions into \<open>word_of_nat\<close> of an arithmetic term.
\<close>

named_theorems nat_bits "masks, shifts and conversions of words as arithmetic"

lemma u32_bound: "unat x < 4294967296" for x :: u32
proof -
  have "unat x < 2 ^ LENGTH(32)" by (rule unsigned_less)
  then show ?thesis by simp
qed

lemma and_mask_nat: "(word_of_nat n :: u32) AND mask k = word_of_nat (n mod 2 ^ k)"
proof -
  have "take_bit k (word_of_nat n :: u32) = word_of_nat (take_bit k n)"
    by (rule bit_word_eqI) (simp add: bit_simps)
  then show ?thesis by (simp only: take_bit_eq_mask [symmetric] take_bit_eq_mod [of _ n])
qed

lemma and_numerals_nat [nat_bits]:
  "(word_of_nat n :: u32) AND 7 = word_of_nat (n mod 8)"
  "(word_of_nat n :: u32) AND 15 = word_of_nat (n mod 16)"
  "(word_of_nat n :: u32) AND 31 = word_of_nat (n mod 32)"
  "(word_of_nat n :: u32) AND 63 = word_of_nat (n mod 64)"
  "(word_of_nat n :: u32) AND 127 = word_of_nat (n mod 128)"
  "(word_of_nat n :: u32) AND 1023 = word_of_nat (n mod 1024)"
  using and_mask_nat [of n 3] and_mask_nat [of n 4] and_mask_nat [of n 5] and_mask_nat [of n 6]
    and_mask_nat [of n 7] and_mask_nat [of n 10]
  by (simp_all add: mask_eq_exp_minus_1)

lemma drop_bit_nat [nat_bits]:
  "n < 4294967296 \<Longrightarrow> drop_bit k (word_of_nat n :: u32) = word_of_nat (n div 2 ^ k)"
proof -
  assume n: "n < 4294967296"
  then have "n div 2 ^ k < 4294967296" by (meson div_le_dividend le_less_trans)
  moreover have "unat (drop_bit k (word_of_nat n :: u32)) = drop_bit k (unat (word_of_nat n :: u32))"
    by (rule unsigned_drop_bit_eq [unfolded take_bit_length_eq] | simp add: unat_drop_bit_eq)+
  ultimately show ?thesis
    using n by (simp add: word_unat_eq_iff unat_of_nat drop_bit_eq_div del: drop_bit_Suc)
qed

lemma word_less_nat [nat_bits]:
  "a < 4294967296 \<Longrightarrow> b < 4294967296 \<Longrightarrow> (word_of_nat a :: u32) < word_of_nat b \<longleftrightarrow> a < b"
  by (simp add: word_less_nat_alt unat_of_nat)

lemma ucast_u8_nat [nat_bits]:
  "n < 4294967296 \<Longrightarrow> (ucast (word_of_nat n :: u32) :: u8) = word_of_nat n"
  by (simp add: word_unat_eq_iff unsigned_ucast_eq unat_of_nat take_bit_eq_mod)

lemma ucast_u16_nat [nat_bits]:
  "n < 4294967296 \<Longrightarrow> (ucast (word_of_nat n :: u32) :: u16) = word_of_nat n"
  by (simp add: word_unat_eq_iff unsigned_ucast_eq unat_of_nat take_bit_eq_mod)

lemma widen_u8_nat [nat_bits]: "n < 256 \<Longrightarrow> (ucast (word_of_nat n :: u8) :: u32) = word_of_nat n"
  by (simp add: word_unat_eq_iff unsigned_ucast_eq unat_of_nat take_bit_eq_mod)

lemma widen_u16_unat: "(ucast (c :: u16) :: u32) = word_of_nat (unat c)"
  by simp

lemma widen_u8_unat: "(ucast (b :: u8) :: u32) = word_of_nat (unat b)"
  by simp

lemma unat_u8: "unat (b :: u8) < 256"
proof -
  have "unat b < 2 ^ LENGTH(8)" by (rule unsigned_less)
  then show ?thesis by simp
qed

lemma unat_u16: "unat (c :: u16) < 65536"
proof -
  have "unat c < 2 ^ LENGTH(16)" by (rule unsigned_less)
  then show ?thesis by simp
qed

end
