(* ===== verification/LongBits.thy ===== *)
theory LongBits
  imports Prelude
begin

text \<open>
  \<open>protobufjs/src/util/longbits.js\<close>, bundled in \<open>qml_ipc.mjs\<close>: a 64-bit integer as two
  32-bit halves, and its conversions from and to JavaScript numbers. The bundle contains no
  \<open>long\<close> module, so \<open>util.Long\<close> is null where the bundle runs and every 64-bit field
  is a plain number. A number is a double: \<open>toNumber\<close> rounds its sum to 53 significant
  bits, which \<open>f64_round\<close> writes out. The lemmas show that a \<open>LongBits\<close> made from an
  integer is that integer modulo \<open>2 ^ 64\<close>, that integers of magnitude up to \<open>2 ^ 53\<close>
  come back unchanged and others need not, and that the zig-zag and hash codings are
  bijections.
\<close>

record LongBits =
  lo :: u32
  hi :: u32

definition LongBits_val :: "LongBits \<Rightarrow> nat" where
  "LongBits_val b = unat (lo b) + 2 ^ 32 * unat (hi b)"

section \<open>Doubles\<close>

text \<open>
  The double nearest to a natural number, ties to even: \<open>f64_shift n\<close> is the number of bits
  of \<open>n\<close> beyond the 53 a double keeps.
\<close>

fun f64_shift :: "nat \<Rightarrow> nat" where
  "f64_shift n = (if n < 2 ^ 53 then 0 else Suc (f64_shift (n div 2)))"

declare f64_shift.simps [simp del]

definition f64_round :: "nat \<Rightarrow> nat" where
  "f64_round n =
     (let k = f64_shift n; q = n div 2 ^ k; r = n mod 2 ^ k
      in (if 2 * r > 2 ^ k \<or> 2 * r = 2 ^ k \<and> odd q then q + 1 else q) * 2 ^ k)"

section \<open>The operations\<close>

definition LongBits_zero :: LongBits where
  "LongBits_zero = \<lparr>lo = 0, hi = 0\<rparr>"

definition LongBits_fromNumber :: "int \<Rightarrow> LongBits" where
  "LongBits_fromNumber v =
     (if v = 0 then LongBits_zero
      else
        let sign = v < 0;
            value = (if sign then - v else v);
            l = (word_of_int value :: u32);
            h = (word_of_int ((value - uint l) div 4294967296) :: u32)
        in if sign
           then let h = NOT h; l = NOT l
                in if unat l + 1 > 4294967295
                   then if unat h + 1 > 4294967295 then \<lparr>lo = 0, hi = 0\<rparr>
                        else \<lparr>lo = 0, hi = h + 1\<rparr>
                   else \<lparr>lo = l + 1, hi = h\<rparr>
           else \<lparr>lo = l, hi = h\<rparr>)"

text \<open>A 64-bit field holds a number or an object with \<open>low\<close> and \<open>high\<close>.\<close>

datatype long_value = Num int | LowHigh int int

definition LongBits_from :: "long_value \<Rightarrow> LongBits" where
  "LongBits_from v =
     (case v of
        Num n \<Rightarrow> LongBits_fromNumber n
      | LowHigh l h \<Rightarrow>
          if l \<noteq> 0 \<or> h \<noteq> 0 then \<lparr>lo = word_of_int l, hi = word_of_int h\<rparr> else LongBits_zero)"

definition LongBits_toNumber :: "bool \<Rightarrow> LongBits \<Rightarrow> int" where
  "LongBits_toNumber uns b =
     (if \<not> uns \<and> drop_bit 31 (hi b) \<noteq> 0
      then let l = NOT (lo b) + 1;
               h = NOT (hi b);
               h = (if l = 0 then h + 1 else h)
           in - int (f64_round (unat l + unat h * 4294967296))
      else int (f64_round (unat (lo b) + unat (hi b) * 4294967296)))"

definition LongBits_toLong :: "LongBits \<Rightarrow> long_value" where
  "LongBits_toLong b = LowHigh (sint (lo b)) (sint (hi b))"

definition LongBits_zzEncode :: "LongBits \<Rightarrow> LongBits" where
  "LongBits_zzEncode b =
     (let mask = signed_drop_bit 31 (hi b);
          h = (push_bit 1 (hi b) OR drop_bit 31 (lo b)) XOR mask;
          l = push_bit 1 (lo b) XOR mask
      in \<lparr>lo = l, hi = h\<rparr>)"

definition LongBits_zzDecode :: "LongBits \<Rightarrow> LongBits" where
  "LongBits_zzDecode b =
     (let mask = - (lo b AND 1);
          l = (drop_bit 1 (lo b) OR push_bit 31 (hi b)) XOR mask;
          h = drop_bit 1 (hi b) XOR mask
      in \<lparr>lo = l, hi = h\<rparr>)"

definition LongBits_length :: "LongBits \<Rightarrow> nat" where
  "LongBits_length b =
     (let part0 = lo b;
          part1 = drop_bit 28 (lo b) OR push_bit 4 (hi b);
          part2 = drop_bit 24 (hi b)
      in if part2 = 0
         then if part1 = 0
              then if part0 < 16384 then if part0 < 128 then 1 else 2
                   else if part0 < 2097152 then 3 else 4
              else if part1 < 16384 then if part1 < 128 then 5 else 6
                   else if part1 < 2097152 then 7 else 8
         else if part2 < 128 then 9 else 10)"

text \<open>The hash of a 64-bit value is the string of its eight bytes, low byte first.\<close>

definition LongBits_toHash :: "LongBits \<Rightarrow> jstring" where
  "LongBits_toHash b =
     [ucast (lo b AND 255), ucast (drop_bit 8 (lo b) AND 255),
      ucast (drop_bit 16 (lo b) AND 255), ucast (drop_bit 24 (lo b)),
      ucast (hi b AND 255), ucast (drop_bit 8 (hi b) AND 255),
      ucast (drop_bit 16 (hi b) AND 255), ucast (drop_bit 24 (hi b))]"

text \<open>\<open>charCodeAt\<close> beyond the end is NaN, which the bitwise operators read as 0.\<close>

definition code_at :: "jstring \<Rightarrow> nat \<Rightarrow> u32" where
  "code_at s i = (if i < length s then ucast (s ! i) else 0)"

definition LongBits_fromHash :: "jstring \<Rightarrow> LongBits" where
  "LongBits_fromHash h =
     (if h = replicate 8 0 then LongBits_zero
      else
        \<lparr>lo = code_at h 0 OR push_bit 8 (code_at h 1) OR push_bit 16 (code_at h 2)
              OR push_bit 24 (code_at h 3),
         hi = code_at h 4 OR push_bit 8 (code_at h 5) OR push_bit 16 (code_at h 6)
              OR push_bit 24 (code_at h 7)\<rparr>)"

section \<open>Values\<close>

lemma LongBits_eqI: "lo a = lo b \<Longrightarrow> hi a = hi b \<Longrightarrow> a = (b::LongBits)"
  by simp

lemma LongBits_val_less: "LongBits_val b < 2 ^ 64"
  using u32_bound [of "lo b"] u32_bound [of "hi b"] by (simp add: LongBits_val_def)

lemma LongBits_val_div: "LongBits_val b div 2 ^ 32 = unat (hi b)"
  and LongBits_val_mod: "LongBits_val b mod 2 ^ 32 = unat (lo b)"
  using u32_bound [of "lo b"] by (simp_all add: LongBits_val_def)

lemma LongBits_val_inj: "LongBits_val a = LongBits_val b \<Longrightarrow> a = b"
  by (metis LongBits_eqI LongBits_val_div LongBits_val_mod word_unat_eq_iff)

lemma unat_NOT: "unat (NOT x) = 2 ^ 32 - 1 - unat x" for x :: u32
proof -
  have "NOT x = - 1 - x" by (simp add: not_eq_complement eq_diff_eq)
  then have "unat (NOT x) = unat (- 1 - x)" by simp
  also have "\<dots> = unat (- 1 :: u32) - unat x"
    by (rule unat_sub) (simp add: word_order.extremum)
  finally show ?thesis by (simp add: unsigned_minus_1_eq_mask mask_eq_exp_minus_1)
qed


lemma LongBits_val_NOT:
  "LongBits_val \<lparr>lo = NOT l, hi = NOT h\<rparr> = 2 ^ 64 - 1 - LongBits_val \<lparr>lo = l, hi = h\<rparr>"
  using u32_bound [of l] u32_bound [of h] by (simp add: LongBits_val_def unat_NOT)

text \<open>\<open>++lo\<close> with its carry adds one to the whole value, modulo \<open>2 ^ 64\<close>.\<close>

definition LongBits_inc :: "u32 \<Rightarrow> u32 \<Rightarrow> LongBits" where
  "LongBits_inc l h =
     (if unat l + 1 > 4294967295
      then if unat h + 1 > 4294967295 then \<lparr>lo = 0, hi = 0\<rparr> else \<lparr>lo = 0, hi = h + 1\<rparr>
      else \<lparr>lo = l + 1, hi = h\<rparr>)"

lemma unat_Suc_no_wrap: "unat x + 1 \<le> 4294967295 \<Longrightarrow> unat (x + 1) = unat x + 1" for x :: u32
  by (simp add: unat_word_ariths)

lemma LongBits_val_inc:
  "LongBits_val (LongBits_inc l h) = (LongBits_val \<lparr>lo = l, hi = h\<rparr> + 1) mod 2 ^ 64"
proof -
  consider (no) "unat l + 1 \<le> 4294967295" | (lo) "unat l = 4294967295" "unat h + 1 \<le> 4294967295"
    | (both) "unat l = 4294967295" "unat h = 4294967295"
    using u32_bound [of l] u32_bound [of h] by fastforce
  then show ?thesis
  proof cases
    case no
    then show ?thesis
      using u32_bound [of h]
      by (simp add: LongBits_inc_def LongBits_val_def unat_Suc_no_wrap not_less)
  next
    case lo
    then show ?thesis
      by (simp add: LongBits_inc_def LongBits_val_def unat_Suc_no_wrap not_less)
  next
    case both
    then show ?thesis by (simp add: LongBits_inc_def LongBits_val_def)
  qed
qed

lemma split_halves:
  assumes "0 \<le> v"
  shows "LongBits_val \<lparr>lo = word_of_int v,
           hi = word_of_int ((v - uint (word_of_int v :: u32)) div 4294967296)\<rparr> = nat (v mod 2 ^ 64)"
proof -
  have u: "uint (word_of_int v :: u32) = v mod 2 ^ 32"
    by (simp add: uint_word_of_int take_bit_eq_mod)
  have "(v - v mod 2 ^ 32) div 2 ^ 32 = v div 2 ^ 32"
    by (simp add: minus_mod_eq_mult_div)
  then have h: "uint (word_of_int ((v - v mod 2 ^ 32) div 2 ^ 32) :: u32) = v div 2 ^ 32 mod 2 ^ 32"
    by (simp add: uint_word_of_int take_bit_eq_mod)
  have "v mod 2 ^ 64 = 2 ^ 32 * (v div 2 ^ 32 mod 2 ^ 32) + v mod 2 ^ 32"
    using mod_mult2_eq' [of v "2 ^ 32" "2 ^ 32"] by (simp add: zmod_zmult2_eq)
  then have "int (LongBits_val \<lparr>lo = word_of_int v,
      hi = word_of_int ((v - uint (word_of_int v :: u32)) div 4294967296)\<rparr>) = v mod 2 ^ 64"
    using u h by (simp add: LongBits_val_def)
  then show ?thesis by (metis nat_int)
qed

lemma LongBits_val_fromNumber: "LongBits_val (LongBits_fromNumber v) = nat (v mod 2 ^ 64)"
proof -
  consider (zero) "v = 0" | (pos) "0 < v" | (neg) "v < 0" by linarith
  then show ?thesis
  proof cases
    case zero
    then show ?thesis by (simp add: LongBits_fromNumber_def LongBits_zero_def LongBits_val_def)
  next
    case pos
    then show ?thesis
      using split_halves [of v] by (simp add: LongBits_fromNumber_def Let_def)
  next
    case neg
    define l h where "l = (word_of_int (- v) :: u32)"
      and "h = (word_of_int ((- v - uint l) div 4294967296) :: u32)"
    have "LongBits_fromNumber v = LongBits_inc (NOT l) (NOT h)"
      using neg by (simp add: LongBits_fromNumber_def LongBits_inc_def l_def h_def Let_def)
    then have "LongBits_val (LongBits_fromNumber v)
        = (2 ^ 64 - 1 - LongBits_val \<lparr>lo = l, hi = h\<rparr> + 1) mod 2 ^ 64"
      by (simp only: LongBits_val_inc LongBits_val_NOT)
    also have "LongBits_val \<lparr>lo = l, hi = h\<rparr> = nat ((- v) mod 2 ^ 64)"
      using split_halves [of "- v"] neg by (simp add: l_def h_def)
    also have "(2 ^ 64 - 1 - nat ((- v) mod 2 ^ 64) + 1) mod 2 ^ 64 = nat (v mod 2 ^ 64)"
      by (simp add: zmod_zminus1_eq_if nat_diff_distrib) linarith?
    finally show ?thesis .
  qed
qed

section \<open>Numbers and back\<close>

lemma f64_round_small [simp]: "n < 9007199254740992 \<Longrightarrow> f64_round n = n"
  by (simp add: f64_round_def f64_shift.simps)

lemma f64_round_exact [simp]: "n \<le> 9007199254740992 \<Longrightarrow> f64_round n = n"
  by (cases "n = 9007199254740992") (simp_all add: f64_round_def f64_shift.simps)

text \<open>Rounding moves a number by at most half a unit in the last place.\<close>

lemma f64_round_error:
  "\<bar>int (f64_round n) - int n\<bar> * 2 \<le> 2 ^ f64_shift n"
proof -
  define k q r where "k = f64_shift n" and "q = n div 2 ^ k" and "r = n mod 2 ^ k"
  have n: "int n = int q * 2 ^ k + int r"
    by (metis div_mult_mod_eq of_nat_add of_nat_mult of_nat_numeral of_nat_power q_def r_def)
  have r: "int r < 2 ^ k"
    by (metis mod_less_divisor of_nat_less_iff of_nat_numeral of_nat_power r_def zero_less_numeral zero_less_power)
  show ?thesis
  proof (cases "2 * r > 2 ^ k \<or> 2 * r = 2 ^ k \<and> odd q")
    case True
    then have "int (f64_round n) = (int q + 1) * 2 ^ k" and "2 ^ k \<le> 2 * r"
      by (auto simp: f64_round_def Let_def algebra_simps
          k_def [symmetric] q_def [symmetric] r_def [symmetric])
    moreover from this(2) have "2 ^ k \<le> 2 * int r"
      by (metis of_nat_le_iff of_nat_mult of_nat_numeral of_nat_power)
    ultimately
    show ?thesis using n r by (simp add: k_def [symmetric] algebra_simps abs_le_iff)
  next
    case False
    then have "int (f64_round n) = int q * 2 ^ k" and "2 * r \<le> 2 ^ k"
      by (auto simp: f64_round_def Let_def k_def [symmetric] q_def [symmetric] r_def [symmetric])
    then have "2 * int r \<le> 2 ^ k"
      by (metis of_nat_le_iff of_nat_mult of_nat_numeral of_nat_power)
    then show ?thesis using n \<open>int (f64_round n) = int q * 2 ^ k\<close> by (simp add: k_def [symmetric])
  qed
qed

lemma LongBits_toNumber_val:
  "LongBits_toNumber True b = int (f64_round (LongBits_val b))"
  by (simp add: LongBits_toNumber_def LongBits_val_def mult.commute)

lemma hi_sign: "drop_bit 31 (hi b) \<noteq> 0 \<longleftrightarrow> 2 ^ 63 \<le> LongBits_val b"
proof -
  have "drop_bit 31 (hi b) = 0 \<longleftrightarrow> unat (hi b) div 2 ^ 31 = 0"
    by (simp only: word_unat_eq_iff unat_drop_bit_eq unat_0) (simp only: drop_bit_eq_div)
  then show ?thesis
    using u32_bound [of "lo b"] by (auto simp: LongBits_val_def div_eq_0_iff not_less)
qed

text \<open>The magnitude of a negative value: complement and add one.\<close>

lemma neg_magnitude:
  assumes "LongBits_val b \<noteq> 0"
  shows "unat (NOT (lo b) + 1) + 4294967296 * unat (if NOT (lo b) + 1 = 0 then NOT (hi b) + 1 else NOT (hi b))
    = 2 ^ 64 - LongBits_val b"
proof (cases "lo b = 0")
  case True
  then have "unat (hi b) \<noteq> 0" using assms by (simp add: LongBits_val_def)
  then have "unat (NOT (hi b) + 1) = 4294967296 - unat (hi b)"
    using u32_bound [of "hi b"] by (subst unat_Suc_no_wrap) (simp_all add: unat_NOT)
  moreover have "NOT (lo b) + 1 = 0" using True by simp
  ultimately show ?thesis using True by (simp add: LongBits_val_def)
next
  case False
  then have l: "unat (lo b) \<noteq> 0" by (simp add: unat_eq_0)
  then have u: "unat (NOT (lo b) + 1) = 4294967296 - unat (lo b)"
    using u32_bound [of "lo b"] by (subst unat_Suc_no_wrap) (simp_all add: unat_NOT)
  then have "NOT (lo b) + 1 \<noteq> 0"
    using l u32_bound [of "lo b"] by (metis diff_is_0_eq not_le unat_0)
  then show ?thesis
    using u l u32_bound [of "lo b"] u32_bound [of "hi b"] by (simp add: LongBits_val_def unat_NOT)
qed

lemma LongBits_toNumber_signed:
  "LongBits_toNumber False b =
     (if LongBits_val b < 2 ^ 63 then int (f64_round (LongBits_val b))
      else - int (f64_round (2 ^ 64 - LongBits_val b)))"
proof (cases "LongBits_val b < 2 ^ 63")
  case True
  then have "drop_bit 31 (hi b) = 0" using hi_sign [of b] by simp
  with True show ?thesis by (simp add: LongBits_toNumber_def LongBits_val_def mult.commute)
next
  case False
  then have "drop_bit 31 (hi b) \<noteq> 0" and nz: "LongBits_val b \<noteq> 0" using hi_sign [of b] by auto
  then show ?thesis
    using False neg_magnitude [OF nz] by (simp add: LongBits_toNumber_def Let_def mult.commute)
qed

lemma toNumber_fromNumber_unsigned:
  assumes "0 \<le> v" "v \<le> 9007199254740992"
  shows "LongBits_toNumber True (LongBits_fromNumber v) = v"
  using assms by (simp add: LongBits_toNumber_val LongBits_val_fromNumber nat_le_iff)

lemma toNumber_fromNumber_signed:
  assumes "\<bar>v\<bar> \<le> 9007199254740992"
  shows "LongBits_toNumber False (LongBits_fromNumber v) = v"
proof (cases "0 \<le> v")
  case True
  then show ?thesis
    using assms by (simp add: LongBits_toNumber_signed LongBits_val_fromNumber nat_le_iff)
next
  case False
  have "(v + 2 ^ 64) mod 2 ^ 64 = v + 2 ^ 64"
    using False assms by (intro mod_pos_pos_trivial) auto
  then have "nat (v mod 2 ^ 64) = 2 ^ 64 - nat (- v)"
    using False assms by simp
  then show ?thesis
    using False assms by (simp add: LongBits_toNumber_signed LongBits_val_fromNumber nat_le_iff)
qed

section \<open>Zig-zag\<close>

text \<open>Both codings, bit by bit.\<close>

lemma bit_smear_sign: "n < 32 \<Longrightarrow> bit (signed_drop_bit 31 x) n \<longleftrightarrow> bit x 31" for x :: u32
  by (cases n) (simp_all add: bit_signed_drop_bit_iff)

lemma bit_smear_low: "n < 32 \<Longrightarrow> bit (- (x AND 1)) n \<longleftrightarrow> bit x 0" for x :: u32
  by (simp add: and_one_eq mod2_eq_if bit_0 bit_minus_1_iff)

lemma bit_zzEncode:
  assumes "n < 32"
  shows "bit (lo (LongBits_zzEncode b)) n \<longleftrightarrow> ((0 < n \<and> bit (lo b) (n - 1)) \<noteq> bit (hi b) 31)"
    and "bit (hi (LongBits_zzEncode b)) n \<longleftrightarrow>
      ((if n = 0 then bit (lo b) 31 else bit (hi b) (n - 1)) \<noteq> bit (hi b) 31)"
proof -
  have "bit (drop_bit 31 (lo b)) n \<longleftrightarrow> n = 0 \<and> bit (lo b) 31"
    by (cases n) (auto simp: bit_drop_bit_eq dest: bit_imp_le_length)
  then show "bit (hi (LongBits_zzEncode b)) n \<longleftrightarrow>
      ((if n = 0 then bit (lo b) 31 else bit (hi b) (n - 1)) \<noteq> bit (hi b) 31)"
    unfolding LongBits_zzEncode_def Let_def LongBits.select_convs bit_xor_iff bit_or_iff
    using assms by (auto simp: bit_smear_sign bit_push_bit_iff Suc_le_eq simp del: push_bit_Suc)
  show "bit (lo (LongBits_zzEncode b)) n \<longleftrightarrow> ((0 < n \<and> bit (lo b) (n - 1)) \<noteq> bit (hi b) 31)"
    unfolding LongBits_zzEncode_def Let_def LongBits.select_convs bit_xor_iff bit_or_iff
    using assms by (auto simp: bit_smear_sign bit_push_bit_iff Suc_le_eq simp del: push_bit_Suc)
qed

lemma bit_zzDecode:
  assumes "n < 32"
  shows "bit (lo (LongBits_zzDecode b)) n \<longleftrightarrow>
      ((if n = 31 then bit (hi b) 0 else bit (lo b) (Suc n)) \<noteq> bit (lo b) 0)"
    and "bit (hi (LongBits_zzDecode b)) n \<longleftrightarrow> ((n < 31 \<and> bit (hi b) (Suc n)) \<noteq> bit (lo b) 0)"
proof -
  have *: "bit (drop_bit 1 x) n \<longleftrightarrow> n < 31 \<and> bit x (Suc n)" for x :: u32
    using assms by (auto simp: bit_drop_bit_eq simp del: drop_bit_Suc dest: bit_imp_le_length)
  have **: "bit (push_bit 31 (hi b)) n \<longleftrightarrow> n = 31 \<and> bit (hi b) 0"
    using assms by (auto simp: bit_push_bit_iff)
  show "bit (lo (LongBits_zzDecode b)) n \<longleftrightarrow>
      ((if n = 31 then bit (hi b) 0 else bit (lo b) (Suc n)) \<noteq> bit (lo b) 0)"
    unfolding LongBits_zzDecode_def Let_def LongBits.select_convs bit_xor_iff bit_or_iff * **
    using assms by (auto simp: bit_smear_low)
  show "bit (hi (LongBits_zzDecode b)) n \<longleftrightarrow> ((n < 31 \<and> bit (hi b) (Suc n)) \<noteq> bit (lo b) 0)"
    unfolding LongBits_zzDecode_def Let_def LongBits.select_convs bit_xor_iff *
    using assms by (auto simp: bit_smear_low)
qed

lemma zzDecode_zzEncode: "LongBits_zzDecode (LongBits_zzEncode b) = b"
proof (rule LongBits_eqI; rule bit_word_eqI)
  fix n :: nat assume n: "n < LENGTH(32)"
  then consider "n = 31" | "Suc n < 32" by fastforce
  then have "bit (lo (LongBits_zzDecode (LongBits_zzEncode b))) n = bit (lo b) n
      \<and> bit (hi (LongBits_zzDecode (LongBits_zzEncode b))) n = bit (hi b) n"
    by cases (auto simp: bit_zzDecode bit_zzEncode)
  then show "bit (lo (LongBits_zzDecode (LongBits_zzEncode b))) n = bit (lo b) n"
    and "bit (hi (LongBits_zzDecode (LongBits_zzEncode b))) n = bit (hi b) n" by simp_all
qed

lemma zzEncode_zzDecode: "LongBits_zzEncode (LongBits_zzDecode b) = b"
proof (rule LongBits_eqI; rule bit_word_eqI)
  fix n :: nat assume n: "n < LENGTH(32)"
  then have "bit (lo (LongBits_zzEncode (LongBits_zzDecode b))) n = bit (lo b) n
      \<and> bit (hi (LongBits_zzEncode (LongBits_zzDecode b))) n = bit (hi b) n"
    by (cases n) (auto simp: bit_zzDecode bit_zzEncode)
  then show "bit (lo (LongBits_zzEncode (LongBits_zzDecode b))) n = bit (lo b) n"
    and "bit (hi (LongBits_zzEncode (LongBits_zzDecode b))) n = bit (hi b) n" by simp_all
qed

section \<open>Hashes and Longs\<close>

lemma LongBits_fromHash_alt:
  "LongBits_fromHash h =
     \<lparr>lo = code_at h 0 OR push_bit 8 (code_at h 1) OR push_bit 16 (code_at h 2)
           OR push_bit 24 (code_at h 3),
      hi = code_at h 4 OR push_bit 8 (code_at h 5) OR push_bit 16 (code_at h 6)
           OR push_bit 24 (code_at h 7)\<rparr>"
  by (simp add: LongBits_fromHash_def LongBits_zero_def code_at_def)

lemma byte_of_word: "(ucast (ucast (x AND 255) :: u16) :: u32) = x AND 255" for x :: u32
  unfolding word_and_mask_numerals [symmetric]
  by (rule bit_word_eqI) (auto simp: bit_simps)

lemma top_byte: "drop_bit 24 x = drop_bit 24 x AND 255" for x :: u32
  by (rule bit_word_eqI) (auto simp: bit_simps simp flip: word_and_mask_numerals dest: bit_imp_le_length)

lemma bytes_of_word:
  "x AND 255 OR push_bit 8 (drop_bit 8 x AND 255) OR push_bit 16 (drop_bit 16 x AND 255)
     OR push_bit 24 (drop_bit 24 x AND 255) = x" for x :: u32
  by (simp add: push_drop_and u32_and_ones del: push_bit_and flip: bit.conj_disj_distrib)

lemma LongBits_toHash_bytes:
  "LongBits_toHash b =
     map (\<lambda>(w, k). ucast (drop_bit k w AND 255))
       [(lo b, 0), (lo b, 8), (lo b, 16), (lo b, 24), (hi b, 0), (hi b, 8), (hi b, 16), (hi b, 24)]"
  using top_byte [of "lo b"] top_byte [of "hi b"] by (simp add: LongBits_toHash_def)

lemma fromHash_toHash: "LongBits_fromHash (LongBits_toHash b) = b"
  by (simp add: LongBits_toHash_bytes LongBits_fromHash_alt code_at_def byte_of_word bytes_of_word
      del: push_bit_and)

lemma from_toLong: "LongBits_from (LongBits_toLong b) = b"
proof (cases "sint (lo b) = 0 \<and> sint (hi b) = 0")
  case True
  then have "lo b = 0" "hi b = 0" by (simp_all add: signed_eq_0_iff)
  then show ?thesis by (simp add: LongBits_from_def LongBits_toLong_def LongBits_zero_def)
qed (auto simp: LongBits_from_def LongBits_toLong_def)

end
