(* ===== verification/Varint.thy ===== *)
theory Varint
  imports LongBits
begin

text \<open>
  The variable-length integer encoding of \<open>protobufjs/src/writer.js\<close>: seven bits a byte,
  low bits first, the top bit of a byte set when another follows. \<open>varint_bytes\<close> is the
  specification, over natural numbers; the two loops of the writer are shown to store exactly
  these bytes, and the length computations of \<open>uint32\<close> and \<open>LongBits.length\<close> to count
  them.
\<close>

fun varint_bytes :: "nat \<Rightarrow> u8 list" where
  "varint_bytes n =
     (if n < 128 then [word_of_nat n]
      else word_of_nat (n mod 128 + 128) # varint_bytes (n div 128))"

declare varint_bytes.simps [simp del]

section \<open>The loops of the writer\<close>

text \<open>\<open>writeVarint32(val, buf, pos)\<close>; a store keeps the low eight bits.\<close>

function writeVarint32 :: "u32 \<Rightarrow> u8 list \<Rightarrow> nat \<Rightarrow> u8 list" where
  "writeVarint32 val buf pos =
     (if val > 127
      then writeVarint32 (drop_bit 7 val) (buf[pos := ucast (val AND 127 OR 128)]) (pos + 1)
      else buf[pos := ucast val])"
  by pat_completeness auto
termination
  by (relation "measure (\<lambda>(val, buf, pos). unat val)") (auto simp: unat_shr7_less)

text \<open>
  \<open>writeVarint64(val, buf, pos)\<close> is two loops over the two halves, and it overwrites
  \<open>val\<close>, the \<open>LongBits\<close> object of the operation: its new value is part of the result.
\<close>

function writeVarint64_lo :: "LongBits \<Rightarrow> u8 list \<Rightarrow> nat \<Rightarrow> u8 list \<times> LongBits" where
  "writeVarint64_lo val buf pos =
     (if lo val > 127
      then writeVarint64_lo (val\<lparr>lo := drop_bit 7 (lo val)\<rparr>)
             (buf[pos := ucast (lo val AND 127 OR 128)]) (pos + 1)
      else (buf[pos := ucast (lo val)], val))"
  by pat_completeness auto
termination
  by (relation "measure (\<lambda>(val, buf, pos). unat (lo val))") (auto simp: unat_shr7_less)

function writeVarint64 :: "LongBits \<Rightarrow> u8 list \<Rightarrow> nat \<Rightarrow> u8 list \<times> LongBits" where
  "writeVarint64 val buf pos =
     (if hi val \<noteq> 0
      then writeVarint64
             \<lparr>lo = drop_bit 7 (lo val) OR push_bit 25 (hi val), hi = drop_bit 7 (hi val)\<rparr>
             (buf[pos := ucast (lo val AND 127 OR 128)]) (pos + 1)
      else writeVarint64_lo val buf pos)"
  by pat_completeness auto
termination
  by (relation "measure (\<lambda>(val, buf, pos). unat (hi val))") (auto simp: unat_shr7_less_nz)

declare writeVarint32.simps [simp del] writeVarint64_lo.simps [simp del]
  writeVarint64.simps [simp del]

text \<open>The length \<open>write_uint32\<close> gives its operation.\<close>

definition varint32_length :: "u32 \<Rightarrow> nat" where
  "varint32_length v =
     (if v < 128 then 1 else if v < 16384 then 2 else if v < 2097152 then 3
      else if v < 268435456 then 4 else 5)"

section \<open>Lengths\<close>

lemma varint_bytes_small: "n < 128 \<Longrightarrow> varint_bytes n = [word_of_nat n]"
  by (subst varint_bytes.simps) simp

lemma varint_bytes_big:
  "128 \<le> n \<Longrightarrow> varint_bytes n = word_of_nat (n mod 128 + 128) # varint_bytes (n div 128)"
  by (subst varint_bytes.simps) simp

lemma varint_bytes_not_Nil [simp]: "varint_bytes n \<noteq> []"
  by (subst varint_bytes.simps) simp

lemma length_varint_bytes_pos [simp]: "0 < length (varint_bytes n)"
  by (metis length_greater_0_conv varint_bytes_not_Nil)

lemma length_varint_bytes_step:
  "length (varint_bytes n) = (if n < 128 then 1 else Suc (length (varint_bytes (n div 128))))"
  by (subst varint_bytes.simps) simp

lemma length_varint_bytes_bound: "n < 128 ^ Suc k \<Longrightarrow> length (varint_bytes n) \<le> Suc k"
proof (induction k arbitrary: n)
  case 0
  then show ?case by (simp add: varint_bytes_small)
next
  case (Suc k)
  show ?case
  proof (cases "n < 128")
    case False
    have "n div 128 < 128 ^ Suc k" using Suc.prems by (simp add: less_mult_imp_div_less mult.commute)
    from Suc.IH [OF this] False show ?thesis by (simp add: varint_bytes_big)
  qed (simp add: varint_bytes_small)
qed

lemma length_varint_bytes_exact:
  assumes "128 ^ k \<le> n" "n < 128 ^ Suc k"
  shows "length (varint_bytes n) = Suc k"
  using assms
proof (induction k arbitrary: n)
  case 0
  then show ?case by (simp add: varint_bytes_small)
next
  case (Suc k)
  have "128 ^ k \<le> n div 128" using div_le_mono [OF Suc.prems(1), of 128] by simp
  moreover have "n div 128 < 128 ^ Suc k"
    using Suc.prems(2) by (simp add: less_mult_imp_div_less mult.commute)
  ultimately have "length (varint_bytes (n div 128)) = Suc k" by (rule Suc.IH)
  moreover have "128 * 1 \<le> (128::nat) * 128 ^ k" by (rule mult_le_mono2) simp
  then have "128 \<le> n" using Suc.prems(1) unfolding power_Suc by linarith
  ultimately show ?case by (simp add: varint_bytes_big)
qed

lemma varint32_length_eq: "varint32_length v = length (varint_bytes (unat v))"
proof -
  have b: "unat v < 4294967296" by (rule u32_bound)
  show ?thesis
    unfolding varint32_length_def word_less_nat_alt
    using b length_varint_bytes_exact [of 1 "unat v"] length_varint_bytes_exact [of 2 "unat v"]
      length_varint_bytes_exact [of 3 "unat v"] length_varint_bytes_exact [of 4 "unat v"]
      varint_bytes_small [of "unat v"]
    by (simp add: not_less)
qed


section \<open>The loops store the encoding\<close>

lemma word_and_127: "v AND 127 = word_of_nat (unat v mod 128)" for v :: u32
proof -
  have "unat (take_bit 7 v) = unat v mod 2 ^ 7"
    by (simp only: unsigned_take_bit_eq) (simp only: take_bit_eq_mod)
  then show ?thesis
    unfolding word_and_mask_numerals [symmetric] by (simp add: word_unat_eq_iff unat_of_nat)
qed

lemma ucast_of_nat_byte: "n < 4294967296 \<Longrightarrow> (ucast (word_of_nat n :: u32) :: u8) = word_of_nat n"
  by (simp add: word_unat_eq_iff unsigned_ucast_eq unat_of_nat take_bit_eq_mod)

lemma cont_byte: "(ucast (v AND 127 OR 128) :: u8) = word_of_nat (unat v mod 128 + 128)" for v :: u32
proof -
  have "v AND 127 OR 128 = word_of_nat (unat v mod 128 + 1 * 2 ^ 7)"
    using word_or_push [of "unat v mod 128" 7 1, where 'a = 32] by (simp add: word_and_127)
  moreover have "unat v mod 128 + 128 < 4294967296" by (simp add: less_imp_le_nat trans_less_add1)
  ultimately show ?thesis
    using ucast_of_nat_byte [of "unat v mod 128 + 128"] by simp
qed

lemma writeVarint32_splice:
  "pos + length (varint_bytes (unat val)) \<le> length buf \<Longrightarrow>
   writeVarint32 val buf pos = splice buf pos (varint_bytes (unat val))"
proof (induction val buf pos rule: writeVarint32.induct)
  case (1 val buf pos)
  show ?case
  proof (cases "val > 127")
    case True
    then have big: "128 \<le> unat val" by (simp add: word_less_nat_alt)
    have l: "length (varint_bytes (unat val)) = Suc (length (varint_bytes (unat val div 128)))"
      using big by (simp add: varint_bytes_big)
    have "writeVarint32 val buf pos =
        writeVarint32 (drop_bit 7 val) (buf[pos := ucast (val AND 127 OR 128)]) (pos + 1)"
      using True by (simp add: writeVarint32.simps [of val buf pos])
    also have "\<dots> = splice (buf[pos := ucast (val AND 127 OR 128)]) (pos + 1)
        (varint_bytes (unat val div 128))"
      using "1.IH" [OF True] "1.prems" l by (simp add: unat_shr7 del: drop_bit_Suc)
    also have "\<dots> = splice buf pos (varint_bytes (unat val))"
      using "1.prems" l by (simp add: splice_simps cont_byte varint_bytes_big [OF big])
    finally show ?thesis .
  next
    case False
    then have "unat val < 128" by (simp add: word_less_nat_alt)
    then show ?thesis
      using False "1.prems"
      by (simp add: writeVarint32.simps [of val buf pos] varint_bytes_small splice_simps)
  qed
qed

lemma writeVarint64_lo_splice:
  "hi val = 0 \<Longrightarrow> pos + length (varint_bytes (unat (lo val))) \<le> length buf \<Longrightarrow>
   fst (writeVarint64_lo val buf pos) = splice buf pos (varint_bytes (unat (lo val)))"
proof (induction val buf pos rule: writeVarint64_lo.induct)
  case (1 val buf pos)
  show ?case
  proof (cases "lo val > 127")
    case True
    then have big: "128 \<le> unat (lo val)" by (simp add: word_less_nat_alt)
    have l: "length (varint_bytes (unat (lo val))) = Suc (length (varint_bytes (unat (lo val) div 128)))"
      using big by (simp add: varint_bytes_big)
    have "fst (writeVarint64_lo val buf pos) =
        splice (buf[pos := ucast (lo val AND 127 OR 128)]) (pos + 1) (varint_bytes (unat (lo val) div 128))"
      using "1.IH" [OF True] "1.prems" True l
      by (simp add: writeVarint64_lo.simps [of val buf pos] unat_shr7 del: drop_bit_Suc)
    also have "\<dots> = splice buf pos (varint_bytes (unat (lo val)))"
      using "1.prems" l by (simp add: splice_simps cont_byte varint_bytes_big [OF big])
    finally show ?thesis .
  next
    case False
    then have "unat (lo val) < 128" by (simp add: word_less_nat_alt)
    then show ?thesis
      using False "1.prems"
      by (simp add: writeVarint64_lo.simps [of val buf pos] varint_bytes_small splice_simps)
  qed
qed

lemma mult_pow25_split: "b * 2 ^ 25 = b mod 128 * 2 ^ 25 + b div 128 * (2 ^ 32 :: nat)"
proof -
  have "b * 2 ^ 25 = (b mod 128 + 128 * (b div 128)) * 2 ^ 25" by simp
  also have "\<dots> = b mod 128 * 2 ^ 25 + b div 128 * 2 ^ 32"
    by (simp only: distrib_right) simp
  finally show ?thesis .
qed

lemma pow32_split: "2 ^ 32 * b = 128 * (2 ^ 25 * (b :: nat))"
  by simp

lemma shr7_halves:
  assumes "a < 2 ^ 32"
  shows "(a div 128 + b * 2 ^ 25) mod 2 ^ 32 = a div 128 + b mod 128 * (2 ^ 25 :: nat)"
proof -
  have "a div 128 + b * 2 ^ 25 = a div 128 + b mod 128 * 2 ^ 25 + b div 128 * 2 ^ 32"
    by (simp only: mult_pow25_split [of b])
  moreover have "a div 128 + b mod 128 * 2 ^ 25 < 2 ^ 32"
    using assms mod_less_divisor [of 128 b] by simp
  ultimately show ?thesis by (simp only: mod_mult_self1 mod_less)
qed

lemma shr7_value:
  "a div 128 + b mod 128 * 2 ^ 25 + 2 ^ 32 * (b div 128) = (a + 2 ^ 32 * b) div (128::nat)"
proof -
  have "(a + 2 ^ 32 * b) div 128 = (a + 128 * (b * 2 ^ 25)) div 128" by simp
  also have "\<dots> = a div 128 + b * 2 ^ 25" by (subst div_mult_self2) simp_all
  finally show ?thesis by (simp only: mult_pow25_split [of b]) simp
qed

lemma LongBits_val_shr7:
  "LongBits_val \<lparr>lo = drop_bit 7 l OR push_bit 25 h, hi = drop_bit 7 h\<rparr> =
   LongBits_val \<lparr>lo = l, hi = h\<rparr> div 128"
proof -
  have "drop_bit 7 l = word_of_nat (unat l div 128)"
    by (simp only: word_unat_eq_iff unat_shr7 unat_of_nat) (use u32_bound [of l] in simp)
  moreover have "unat l div 128 < 2 ^ 25" using u32_bound [of l] by (simp add: less_mult_imp_div_less)
  ultimately have "drop_bit 7 l OR push_bit 25 h = word_of_nat (unat l div 128 + unat h * 2 ^ 25)"
    using word_or_push [of "unat l div 128" 25 "unat h", where 'a = 32] by simp
  then have "unat (drop_bit 7 l OR push_bit 25 h) = (unat l div 128 + unat h * 2 ^ 25) mod 2 ^ 32"
    by (simp only: unat_of_nat) simp
  also have "\<dots> = unat l div 128 + unat h mod 128 * 2 ^ 25"
    using u32_bound [of l] by (intro shr7_halves) simp
  finally show ?thesis
    using shr7_value [of "unat l" "unat h"] by (simp only: LongBits_val_def LongBits.select_convs unat_shr7)
qed

lemma writeVarint64_splice:
  "pos + length (varint_bytes (LongBits_val val)) \<le> length buf \<Longrightarrow>
   fst (writeVarint64 val buf pos) = splice buf pos (varint_bytes (LongBits_val val))"
proof (induction val buf pos rule: writeVarint64.induct)
  case (1 val buf pos)
  show ?case
  proof (cases "hi val = 0")
    case True
    then show ?thesis
      using "1.prems" writeVarint64_lo_splice [OF True]
      by (simp add: writeVarint64.simps [of val buf pos] LongBits_val_def)
  next
    case False
    then have "128 \<le> LongBits_val val"
      using unat_gt_0 [of "hi val"] by (simp add: LongBits_val_def)
    note big = varint_bytes_big [OF this]
    have v: "LongBits_val \<lparr>lo = drop_bit 7 (lo val) OR push_bit 25 (hi val), hi = drop_bit 7 (hi val)\<rparr>
        = LongBits_val val div 128"
      using LongBits_val_shr7 [of "lo val" "hi val"] by (simp add: LongBits_val_def)
    have "unat (lo val) mod 128 = LongBits_val val mod 128"
      by (simp only: LongBits_val_def mod_mult_self2 pow32_split)
    then have b: "(ucast (lo val AND 127 OR 128) :: u8) = word_of_nat (LongBits_val val mod 128 + 128)"
      by (simp add: cont_byte)
    have "fst (writeVarint64 val buf pos) =
        splice (buf[pos := ucast (lo val AND 127 OR 128)]) (pos + 1) (varint_bytes (LongBits_val val div 128))"
      using "1.IH" [OF False] "1.prems" False
      by (simp add: writeVarint64.simps [of val buf pos] v big del: drop_bit_Suc push_bit_Suc)
    also have "\<dots> = splice buf pos (varint_bytes (LongBits_val val))"
      using "1.prems" by (simp add: splice_simps b big)
    finally show ?thesis .
  qed
qed

section \<open>\<open>LongBits.length\<close>\<close>

lemma unat_part1:
  assumes "unat h < 2 ^ 24"
  shows "unat (drop_bit 28 l OR push_bit 4 h) = LongBits_val \<lparr>lo = l, hi = h\<rparr> div 2 ^ 28"
proof -
  have d: "unat (drop_bit 28 l) = unat l div 2 ^ 28"
    by (simp only: unat_drop_bit_eq) (simp only: drop_bit_eq_div)
  then have "drop_bit 28 l = word_of_nat (unat l div 2 ^ 28)"
    by (simp only: word_unat_eq_iff unat_of_nat) (use u32_bound [of l] in simp)
  moreover have "unat l div 2 ^ 28 < 2 ^ 4" using u32_bound [of l] by (simp add: less_mult_imp_div_less)
  ultimately have "drop_bit 28 l OR push_bit 4 h = word_of_nat (unat l div 2 ^ 28 + unat h * 2 ^ 4)"
    using word_or_push [of "unat l div 2 ^ 28" 4 "unat h", where 'a = 32] by simp
  then have "unat (drop_bit 28 l OR push_bit 4 h) = unat l div 2 ^ 28 + unat h * 2 ^ 4"
    using assms \<open>unat l div 2 ^ 28 < 2 ^ 4\<close> by (simp only: unat_of_nat) simp
  also have "\<dots> = (unat l + 2 ^ 28 * (unat h * 2 ^ 4)) div 2 ^ 28"
    by (subst div_mult_self2) simp_all
  finally show ?thesis by (simp add: LongBits_val_def mult.commute)
qed

lemma LongBits_length_eq: "LongBits_length b = length (varint_bytes (LongBits_val b))"
proof -
  define v where "v = LongBits_val b"
  note len = length_varint_bytes_exact [where n = v]
  have less: "v < 2 ^ 64" unfolding v_def by (rule LongBits_val_less)
  have u2: "unat (drop_bit 24 (hi b)) = unat (hi b) div 2 ^ 24"
    by (simp only: unat_drop_bit_eq) (simp only: drop_bit_eq_div)
  have p2: "unat (drop_bit 24 (hi b)) = v div 2 ^ 56"
    using div_mult2_eq [of v "2 ^ 32" "2 ^ 24"] by (simp add: u2 v_def LongBits_val_div [simplified])
  show ?thesis
  proof (cases "v < 2 ^ 56")
    case False
    then have nz: "drop_bit 24 (hi b) \<noteq> 0"
      using p2 by (auto simp: word_unat_eq_iff div_eq_0_iff)
    have "drop_bit 24 (hi b) < 128 \<longleftrightarrow> v < 2 ^ 63"
      unfolding word_less_nat_alt p2 by (simp add: div_less_iff_less_mult)
    then show ?thesis
      using nz False less len [of 8] len [of 9]
      by (simp add: LongBits_length_def Let_def v_def [symmetric] not_less)
  next
    case True
    then have z: "drop_bit 24 (hi b) = 0"
      using p2 by (simp add: word_unat_eq_iff)
    have h: "unat (hi b) < 2 ^ 24"
      using True LongBits_val_div [of b] by (simp add: v_def [symmetric] div_less_iff_less_mult)
    have p1: "unat (drop_bit 28 (lo b) OR push_bit 4 (hi b)) = v div 2 ^ 28"
      using unat_part1 [OF h, of "lo b"] by (simp add: v_def LongBits_val_def)
    have c: "drop_bit 28 (lo b) OR push_bit 4 (hi b) < w \<longleftrightarrow> v < unat w * 2 ^ 28" for w :: u32
      unfolding word_less_nat_alt p1 by (simp add: div_less_iff_less_mult)
    have c0: "drop_bit 28 (lo b) OR push_bit 4 (hi b) = 0 \<longleftrightarrow> v < 2 ^ 28"
      unfolding word_unat_eq_iff p1 by (simp add: div_eq_0_iff)
    show ?thesis
    proof (cases "v < 2 ^ 28")
      case False
      then show ?thesis
        using True z len [of 4] len [of 5] len [of 6] len [of 7]
        by (simp add: LongBits_length_def Let_def v_def [symmetric] c c0 not_less
            del: push_bit_Suc drop_bit_Suc)
    next
      case small: True
      then have "unat (lo b) = v" using u32_bound [of "lo b"] unfolding v_def LongBits_val_def by (cases "unat (hi b)") simp_all
      then have l: "lo b < w \<longleftrightarrow> v < unat w" for w :: u32 by (simp add: word_less_nat_alt)
      show ?thesis
        using small z c0 len [of 1] len [of 2] len [of 3] varint_bytes_small [of v]
        by (simp add: LongBits_length_def Let_def v_def [symmetric] l not_less
            del: push_bit_Suc drop_bit_Suc)
    qed
  qed
qed

end
