(* ===== verification/Utf8.thy ===== *)
theory Utf8
  imports Prelude
begin

text \<open>
  \<open>@protobufjs/utf8\<close>, bundled in \<open>qml_ipc.mjs\<close>: the length of a string in UTF-8, the
  loop that writes it and the loop that reads it back. A string is its list of UTF-16 code
  units, so a surrogate that has no partner is a value of the model as of the language; the
  code encodes it in three bytes. \<open>utf8_bytes\<close> is the specification of the writer.

  The reader collects code units in an array \<open>chunk\<close> and turns the array into a string
  whenever more than 8191 are in it. The lemmas show that reading inverts writing for strings
  of up to 16384 code units and for strings of any length without a surrogate pair, and that
  the bound is sharp: the array is not shortened between two chunks, so a pair that crosses
  the end of one chunk leaves its second half in the next.
\<close>

section \<open>The code\<close>

abbreviation is_high :: "u16 \<Rightarrow> bool" where
  "is_high c \<equiv> c AND 64512 = 55296"

abbreviation is_low :: "u16 \<Rightarrow> bool" where
  "is_low c \<equiv> c AND 64512 = 56320"

text \<open>\<open>string.charCodeAt(i + 1)\<close> at the end of the string is NaN: no partner.\<close>

definition low_follows :: "jstring \<Rightarrow> bool" where
  "low_follows cs = (case cs of c2 # _ \<Rightarrow> is_low c2 | [] \<Rightarrow> False)"

fun utf8_length :: "jstring \<Rightarrow> nat" where
  "utf8_length [] = 0"
| "utf8_length (c # cs) =
     (if c < 128 then 1 + utf8_length cs
      else if c < 2048 then 2 + utf8_length cs
      else if is_high c \<and> low_follows cs then 4 + utf8_length (tl cs)
      else 3 + utf8_length cs)"

text \<open>The code point of a surrogate pair.\<close>

definition pair_code :: "u16 \<Rightarrow> u16 \<Rightarrow> u32" where
  "pair_code c1 c2 = 65536 + push_bit 10 (ucast c1 AND 1023) + (ucast c2 AND 1023)"

text \<open>\<open>utf8.write(string, buffer, offset)\<close>: the buffer and the offset after the loop.\<close>

fun utf8_write_loop :: "jstring \<Rightarrow> u8 list \<Rightarrow> nat \<Rightarrow> u8 list \<times> nat" where
  "utf8_write_loop [] buf off = (buf, off)"
| "utf8_write_loop (c # cs) buf off =
     (let c1 = (ucast c :: u32) in
      if c < 128 then utf8_write_loop cs (buf[off := ucast c1]) (off + 1)
      else if c < 2048 then
        utf8_write_loop cs
          (buf[off := ucast (drop_bit 6 c1 OR 192), off + 1 := ucast (c1 AND 63 OR 128)]) (off + 2)
      else if is_high c \<and> low_follows cs then
        let c1 = pair_code c (hd cs) in
        utf8_write_loop (tl cs)
          (buf[off := ucast (drop_bit 18 c1 OR 240),
               off + 1 := ucast (drop_bit 12 c1 AND 63 OR 128),
               off + 2 := ucast (drop_bit 6 c1 AND 63 OR 128),
               off + 3 := ucast (c1 AND 63 OR 128)]) (off + 4)
      else
        utf8_write_loop cs
          (buf[off := ucast (drop_bit 12 c1 OR 224),
               off + 1 := ucast (drop_bit 6 c1 AND 63 OR 128),
               off + 2 := ucast (c1 AND 63 OR 128)]) (off + 3))"

definition utf8_write :: "jstring \<Rightarrow> u8 list \<Rightarrow> nat \<Rightarrow> u8 list \<times> nat" where
  "utf8_write s buf offset =
     (let (buf', off) = utf8_write_loop s buf offset in (buf', off - offset))"

text \<open>
  \<open>utf8.read(buffer, start, end)\<close>. \<open>parts\<close> is null until the first chunk is full.
  \<open>String.fromCharCode\<close> keeps the low sixteen bits of every number it is given, so the
  array \<open>chunk\<close> holds \<open>u16\<close> values; \<open>>>\<close> on the possibly negative \<open>t\<close> is the
  arithmetic shift.
\<close>

record read_state =
  rs_start :: nat
  rs_chunk :: jstring
  rs_i :: nat
  rs_parts :: "jstring list option"

text \<open>
  Beyond the end of the array the first byte is \<open>undefined\<close>: no comparison with it holds, and the
  last branch takes it for 0. The other bytes only meet bitwise operators.
\<close>

definition utf8_read_one :: "u8 list \<Rightarrow> read_state \<Rightarrow> read_state" where
  "utf8_read_one buf s =
     (let start = rs_start s; chunk = rs_chunk s; i = rs_i s;
          inside = (start < length buf); t = byte_at buf start; start = start + 1
      in if inside \<and> t < 128 then
           s\<lparr>rs_start := start, rs_chunk := arr_set chunk i (ucast t), rs_i := i + 1\<rparr>
         else if t > 191 \<and> t < 224 then
           s\<lparr>rs_start := start + 1,
             rs_chunk := arr_set chunk i
               (ucast (push_bit 6 (t AND 31) OR (byte_at buf start AND 63))),
             rs_i := i + 1\<rparr>
         else if t > 239 \<and> t < 365 then
           let t = (push_bit 18 (t AND 7) OR push_bit 12 (byte_at buf start AND 63)
                    OR push_bit 6 (byte_at buf (start + 1) AND 63)
                    OR (byte_at buf (start + 2) AND 63)) - 65536
           in s\<lparr>rs_start := start + 3,
                rs_chunk := arr_set (arr_set chunk i (ucast (55296 + signed_drop_bit 10 t)))
                  (i + 1) (ucast (56320 + (t AND 1023))),
                rs_i := i + 2\<rparr>
         else
           s\<lparr>rs_start := start + 2,
             rs_chunk := arr_set chunk i
               (ucast (push_bit 12 (t AND 15) OR push_bit 6 (byte_at buf start AND 63)
                       OR (byte_at buf (start + 1) AND 63))),
             rs_i := i + 1\<rparr>)"

definition utf8_flush :: "read_state \<Rightarrow> read_state" where
  "utf8_flush s =
     (if rs_i s > 8191
      then s\<lparr>rs_parts := Some ((case rs_parts s of None \<Rightarrow> [] | Some ps \<Rightarrow> ps) @ [rs_chunk s]),
             rs_i := 0\<rparr>
      else s)"

lemma rs_start_read_one: "rs_start s < rs_start (utf8_read_one buf s)" for s :: read_state
  by (simp add: utf8_read_one_def Let_def)

lemma rs_start_flush [simp]: "rs_start (utf8_flush s) = rs_start s" for s :: read_state
  by (simp add: utf8_flush_def)

function utf8_read_loop :: "u8 list \<Rightarrow> nat \<Rightarrow> read_state \<Rightarrow> read_state" where
  "utf8_read_loop buf end s =
     (if rs_start s < end then utf8_read_loop buf end (utf8_flush (utf8_read_one buf s)) else s)"
  by pat_completeness auto
termination
proof (relation "measure (\<lambda>(buf, end, s). end - rs_start s)")
  fix buf :: "u8 list" and e and s :: read_state assume "rs_start s < e"
  then show "((buf, e, utf8_flush (utf8_read_one buf s)), buf, e, s) \<in> measure (\<lambda>(buf, e, s). e - rs_start s)"
    using rs_start_read_one [of s buf] by simp
qed simp

declare utf8_read_loop.simps [simp del]

definition utf8_read :: "u8 list \<Rightarrow> nat \<Rightarrow> nat \<Rightarrow> jstring" where
  "utf8_read buf start end =
     (if end - start < 1 then []
      else
        let s = utf8_read_loop buf end \<lparr>rs_start = start, rs_chunk = [], rs_i = 0, rs_parts = None\<rparr>
        in case rs_parts s of
             Some ps \<Rightarrow>
               concat (if rs_i s \<noteq> 0 then ps @ [take (rs_i s) (rs_chunk s)] else ps)
           | None \<Rightarrow> take (rs_i s) (rs_chunk s))"

section \<open>Specification of the encoding\<close>

text \<open>One character: a single code unit, or a pair. Its encoding by arithmetic.\<close>

definition pair_nat :: "u16 \<Rightarrow> u16 \<Rightarrow> nat" where
  "pair_nat c1 c2 = 65536 + unat c1 mod 1024 * 1024 + unat c2 mod 1024"

definition unit_bytes :: "nat \<Rightarrow> u8 list" where
  "unit_bytes n =
     (if n < 128 then [word_of_nat n]
      else if n < 2048 then [word_of_nat (n div 64 + 192), word_of_nat (n mod 64 + 128)]
      else [word_of_nat (n div 4096 + 224), word_of_nat (n div 64 mod 64 + 128),
            word_of_nat (n mod 64 + 128)])"

definition pair_bytes :: "nat \<Rightarrow> u8 list" where
  "pair_bytes n =
     [word_of_nat (n div 262144 + 240), word_of_nat (n div 4096 mod 64 + 128),
      word_of_nat (n div 64 mod 64 + 128), word_of_nat (n mod 64 + 128)]"

definition is_pair :: "u16 \<Rightarrow> jstring \<Rightarrow> bool" where
  "is_pair c cs \<longleftrightarrow> \<not> c < 2048 \<and> is_high c \<and> low_follows cs"

fun utf8_bytes :: "jstring \<Rightarrow> u8 list" where
  "utf8_bytes [] = []"
| "utf8_bytes (c # cs) =
     (if is_pair c cs then pair_bytes (pair_nat c (hd cs)) @ utf8_bytes (tl cs)
      else unit_bytes (unat c) @ utf8_bytes cs)"

lemma length_unit_bytes:
  "length (unit_bytes n) = (if n < 128 then 1 else if n < 2048 then 2 else 3)"
  by (simp add: unit_bytes_def)

lemma length_pair_bytes [simp]: "length (pair_bytes n) = 4"
  by (simp add: pair_bytes_def)

lemma utf8_length_eq: "utf8_length s = length (utf8_bytes s)"
  by (induction s rule: utf8_length.induct)
    (auto simp: is_pair_def length_unit_bytes word_less_nat_alt)

lemma utf8_length_0: "utf8_length s = 0 \<longleftrightarrow> s = []"
  by (cases s) auto

section \<open>Writing\<close>

lemma or_add_nat [nat_bits]:
  "a < 64 \<Longrightarrow> (word_of_nat a :: u32) OR 128 = word_of_nat (a + 128)"
  "a < 32 \<Longrightarrow> (word_of_nat a :: u32) OR 192 = word_of_nat (a + 192)"
  "a < 16 \<Longrightarrow> (word_of_nat a :: u32) OR 224 = word_of_nat (a + 224)"
  "a < 8 \<Longrightarrow> (word_of_nat a :: u32) OR 240 = word_of_nat (a + 240)"
  using word_or_push [of a 6 2, where 'a = 32] word_or_push [of a 5 6, where 'a = 32]
    word_or_push [of a 4 14, where 'a = 32] word_or_push [of a 3 30, where 'a = 32]
  by simp_all

lemma pair_nat_bound: "pair_nat a b < 1114112" "65536 \<le> pair_nat a b"
  using mod_less_divisor [of 1024 "unat a"] mod_less_divisor [of 1024 "unat b"]
  by (simp_all add: pair_nat_def del: mod_less_divisor)

lemma pair_code_nat: "pair_code a b = word_of_nat (pair_nat a b)"
  unfolding pair_code_def pair_nat_def widen_u16_unat
  by (simp only: nat_bits of_nat_push_bit [symmetric]) (simp add: push_bit_eq_mult)

text \<open>The bytes the code computes, for a number below the bound of its branch.\<close>

lemma code_bytes:
  "n < 2048 \<Longrightarrow> (ucast (drop_bit 6 (word_of_nat n :: u32) OR 192) :: u8) = word_of_nat (n div 64 + 192)"
  "n < 65536 \<Longrightarrow> (ucast (drop_bit 12 (word_of_nat n :: u32) OR 224) :: u8) = word_of_nat (n div 4096 + 224)"
  "n < 2097152 \<Longrightarrow> (ucast (drop_bit 18 (word_of_nat n :: u32) OR 240) :: u8) = word_of_nat (n div 262144 + 240)"
  "(ucast ((word_of_nat n :: u32) AND 63 OR 128) :: u8) = word_of_nat (n mod 64 + 128)"
  "n < 4294967296 \<Longrightarrow>
     (ucast (drop_bit 6 (word_of_nat n :: u32) AND 63 OR 128) :: u8) = word_of_nat (n div 64 mod 64 + 128)"
  "n < 4294967296 \<Longrightarrow>
     (ucast (drop_bit 12 (word_of_nat n :: u32) AND 63 OR 128) :: u8) = word_of_nat (n div 4096 mod 64 + 128)"
  by (simp_all add: nat_bits less_mult_imp_div_less del: of_nat_add)

lemma write_unit:
  assumes "off + length (unit_bytes (unat c)) \<le> length buf" "\<not> is_pair c cs"
  shows "utf8_write_loop (c # cs) buf off =
    utf8_write_loop cs (splice buf off (unit_bytes (unat c))) (off + length (unit_bytes (unat c)))"
proof -
  have c: "unat c < 65536" by (rule unat_u16)
  have narrow: "(ucast (ucast c :: u32) :: u8) = word_of_nat (unat c)"
    using ucast_u8_nat [of "unat c"] c by simp
  consider "unat c < 128" | "128 \<le> unat c" "unat c < 2048" | "2048 \<le> unat c" by linarith
  then show ?thesis
  proof cases
    case 1
    then show ?thesis
      using assms narrow by (simp add: Let_def splice_simps unit_bytes_def word_less_nat_alt)
  next
    case 2
    then show ?thesis
      using assms code_bytes(1,4) [of "unat c"]
      by (simp add: Let_def splice_simps unit_bytes_def word_less_nat_alt del: of_nat_add)
  next
    case 3
    then show ?thesis
      using assms c code_bytes(2,4,5) [of "unat c"]
      by (auto simp: Let_def is_pair_def splice_simps unit_bytes_def word_less_nat_alt
          numeral_3_eq_3 simp del: of_nat_add)
  qed
qed

lemma write_pair:
  assumes "off + 4 \<le> length buf" "is_pair c cs"
  shows "utf8_write_loop (c # cs) buf off =
    utf8_write_loop (tl cs) (splice buf off (pair_bytes (pair_nat c (hd cs)))) (off + 4)"
proof -
  have "\<not> c < 128" using assms(2) by (auto simp: is_pair_def word_less_nat_alt)
  then show ?thesis
    using assms pair_nat_bound [of c "hd cs"]
    by (simp add: Let_def is_pair_def splice_simps pair_bytes_def pair_code_nat code_bytes
        del: of_nat_add)
qed

lemma utf8_write_loop_splice:
  "off + length (utf8_bytes s) \<le> length buf \<Longrightarrow>
   utf8_write_loop s buf off = (splice buf off (utf8_bytes s), off + length (utf8_bytes s))"
proof (induction "length s" arbitrary: s buf off rule: less_induct)
  case less
  show ?case
  proof (cases s)
    case (Cons c cs)
    show ?thesis
    proof (cases "is_pair c cs")
      case True
      have "length (tl cs) < length s" using Cons by simp
      from less.hyps [OF this] show ?thesis
        using less.prems Cons True by (simp add: write_pair splice_simps del: utf8_write_loop.simps)
    next
      case False
      have "length cs < length s" using Cons by simp
      from less.hyps [OF this] show ?thesis
        using less.prems Cons False by (simp add: write_unit splice_simps del: utf8_write_loop.simps)
    qed
  qed simp
qed

lemma utf8_write_eq:
  "offset + length (utf8_bytes s) \<le> length buf \<Longrightarrow>
   utf8_write s buf offset = (splice buf offset (utf8_bytes s), utf8_length s)"
  by (simp add: utf8_write_def utf8_write_loop_splice utf8_length_eq)

section \<open>Reading\<close>

text \<open>
  What one turn of the reading loop does with an encoded character: its code units are stored
  in the chunk. \<open>utf8_feed\<close> runs the loop over the characters of a string, without bytes.
\<close>

fun arr_sets :: "jstring \<Rightarrow> nat \<Rightarrow> jstring \<Rightarrow> jstring" where
  "arr_sets xs i [] = xs"
| "arr_sets xs i (u # us) = arr_sets (arr_set xs i u) (i + 1) us"

definition put_units :: "jstring \<Rightarrow> nat \<Rightarrow> read_state \<Rightarrow> read_state" where
  "put_units us n s =
     s\<lparr>rs_start := rs_start s + n, rs_chunk := arr_sets (rs_chunk s) (rs_i s) us,
       rs_i := rs_i s + length us\<rparr>"

lemma or_push_nat:
  "b < 2 ^ k \<Longrightarrow> push_bit k (word_of_nat a :: u32) OR word_of_nat b = word_of_nat (a * 2 ^ k + b)"
  using word_or_push [of b k a, where 'a = 32] by (simp add: or.commute add.commute)

lemma mod_offset:
  "(n + 128) mod 64 = n mod (64::nat)"
  "n < 32 \<Longrightarrow> (n + 192) mod 32 = (n::nat)"
  "n < 16 \<Longrightarrow> (n + 224) mod 16 = (n::nat)"
  "n < 8 \<Longrightarrow> (n + 240) mod 8 = (n::nat)"
  using mod_mult_self2 [of n 64 2] mod_mult_self2 [of n 32 6] mod_mult_self2 [of n 16 14]
    mod_mult_self2 [of n 8 30] by simp_all

lemma regroup_64: "q * 64 + r = d \<Longrightarrow> d * k + m = n \<Longrightarrow> q * (64 * k) + (r * k + m) = (n::nat)"
proof -
  have "q * (64 * k) + (r * k + m) = (q * 64 + r) * k + m" by (simp add: distrib_left mult.commute)
  then show "q * 64 + r = d \<Longrightarrow> d * k + m = n \<Longrightarrow> ?thesis" by simp
qed

lemma base64_digits:
  "n div 64 * 64 + n mod 64 = (n::nat)"
  "n div 4096 * 4096 + (n div 64 mod 64 * 64 + n mod 64) = (n::nat)"
  "n div 262144 * 262144 + (n div 4096 mod 64 * 4096 + (n div 64 mod 64 * 64 + n mod 64)) = (n::nat)"
proof -
  have d: "n div 4096 = n div 64 div 64" "n div 262144 = n div 4096 div 64"
    by (simp_all add: div_mult2_eq [symmetric])
  show 1: "n div 64 * 64 + n mod 64 = n" by simp
  have "n div 64 div 64 * 64 + n div 64 mod 64 = n div 64" by (rule div_mult_mod_eq)
  from regroup_64 [OF this, of 64 "n mod 64" n] 1
  show 2: "n div 4096 * 4096 + (n div 64 mod 64 * 64 + n mod 64) = n" unfolding d(1) by simp
  have "n div 4096 div 64 * 64 + n div 4096 mod 64 = n div 4096" by (rule div_mult_mod_eq)
  from regroup_64 [OF this, of 4096 "n div 64 mod 64 * 64 + n mod 64" n] 2
  show "n div 262144 * 262144 + (n div 4096 mod 64 * 4096 + (n div 64 mod 64 * 64 + n mod 64)) = n"
    unfolding d(2) by simp
qed

lemma digit_sums:
  "a mod 64 * 64 + b mod 64 < 2 ^ 12"
  "a mod 64 * 4096 + (b mod 64 * 64 + c mod 64) < (2 ^ 18 :: nat)"
  using mod_less_divisor [of 64 a] mod_less_divisor [of 64 b] mod_less_divisor [of 64 c] by simp_all

lemma read_step_1:
  assumes "byte_at buf (rs_start s) = word_of_nat n" "n < 128" "rs_start s < length buf"
  shows "utf8_read_one buf s = put_units [word_of_nat n] 1 s"
  using assms word_less_nat [of n 128] ucast_u16_nat [of n]
  by (simp add: utf8_read_one_def put_units_def Let_def)

lemma read_step_2:
  assumes "byte_at buf (rs_start s) = word_of_nat (n div 64 + 192)"
    and "byte_at buf (rs_start s + 1) = word_of_nat (n mod 64 + 128)"
    and n: "128 \<le> n" "n < 2048"
  shows "utf8_read_one buf s = put_units [word_of_nat n] 2 s"
proof -
  define t where "t = n div 64 + 192"
  have t: "191 < t" "t < 224" using n by (auto simp: t_def)
  have "(n div 64 + 192) mod 32 * 2 ^ 6 + (n mod 64 + 128) mod 64 = n"
    using n base64_digits(1) [of n] by (simp add: mod_offset)
  then have v: "push_bit 6 ((word_of_nat t :: u32) AND 31) OR ((word_of_nat (n mod 64 + 128) :: u32) AND 63) = word_of_nat n"
    unfolding t_def by (simp only: nat_bits) (simp add: or_push_nat digit_sums [simplified] del: of_nat_add of_nat_mult)
  have c: "\<not> (word_of_nat t :: u32) < 128" "(word_of_nat t :: u32) > 191" "(word_of_nat t :: u32) < 224"
    using t word_less_nat [of t 128] word_less_nat [of 191 t] word_less_nat [of t 224] by simp_all
  show ?thesis
    using assms(1,2) c n ucast_u16_nat [of n]
    by (simp add: utf8_read_one_def put_units_def Let_def t_def [symmetric] v del: of_nat_add push_bit_and)
qed

lemma read_step_3:
  assumes "byte_at buf (rs_start s) = word_of_nat (n div 4096 + 224)"
    and "byte_at buf (rs_start s + 1) = word_of_nat (n div 64 mod 64 + 128)"
    and "byte_at buf (rs_start s + 2) = word_of_nat (n mod 64 + 128)"
    and n: "2048 \<le> n" "n < 65536"
  shows "utf8_read_one buf s = put_units [word_of_nat n] 3 s"
proof -
  define t where "t = n div 4096 + 224"
  have t: "223 < t" "t < 240" using n by (auto simp: t_def)
  have "(n div 4096 + 224) mod 16 * 2 ^ 12 + ((n div 64 mod 64 + 128) mod 64 * 2 ^ 6 + (n mod 64 + 128) mod 64) = n"
    using n base64_digits(2) [of n] by (simp add: mod_offset)
  then have v: "push_bit 12 ((word_of_nat t :: u32) AND 15)
      OR push_bit 6 ((word_of_nat (n div 64 mod 64 + 128) :: u32) AND 63)
      OR ((word_of_nat (n mod 64 + 128) :: u32) AND 63) = word_of_nat n"
    unfolding t_def or.assoc by (simp only: nat_bits) (simp add: or_push_nat digit_sums [simplified] del: of_nat_add of_nat_mult)
  have c: "\<not> (word_of_nat t :: u32) < 128" "\<not> (word_of_nat t :: u32) < 224" "\<not> (word_of_nat t :: u32) > 239"
    using t word_less_nat [of t 128] word_less_nat [of 239 t] word_less_nat [of t 224] by simp_all
  show ?thesis
    using assms(1,2,3) c n ucast_u16_nat [of n]
    by (simp add: utf8_read_one_def put_units_def Let_def t_def [symmetric] v numeral_3_eq_3
        del: of_nat_add push_bit_and)
qed

lemma bit_nat_31: "n < 2147483648 \<Longrightarrow> \<not> bit n 31" for n :: nat
  by (simp add: bit_iff_odd)

lemma signed_shift_nat: "n < 2147483648 \<Longrightarrow> signed_drop_bit 10 (word_of_nat n :: u32) = word_of_nat (n div 1024)"
proof -
  assume n: "n < 2147483648"
  have "signed_drop_bit 10 (word_of_nat n :: u32) = drop_bit 10 (word_of_nat n)"
  proof (rule bit_word_eqI)
    fix i :: nat assume "i < LENGTH(32)"
    have "\<not> bit (word_of_nat n :: u32) 31"
      using n bit_nat_31 [of n] by (simp add: bit_simps)
    moreover have "\<not> bit (word_of_nat n :: u32) j" if "31 < j" for j
      using that by (auto dest: bit_imp_le_length)
    ultimately show "bit (signed_drop_bit 10 (word_of_nat n :: u32)) i = bit (drop_bit 10 (word_of_nat n :: u32)) i"
      by (auto simp: bit_signed_drop_bit_iff bit_drop_bit_eq)
  qed
  then show ?thesis using n by (simp add: drop_bit_nat)
qed

lemma read_step_4:
  assumes "byte_at buf (rs_start s) = word_of_nat (n div 262144 + 240)"
    and "byte_at buf (rs_start s + 1) = word_of_nat (n div 4096 mod 64 + 128)"
    and "byte_at buf (rs_start s + 2) = word_of_nat (n div 64 mod 64 + 128)"
    and "byte_at buf (rs_start s + 3) = word_of_nat (n mod 64 + 128)"
    and n: "65536 \<le> n" "n < 1114112"
  shows "utf8_read_one buf s =
    put_units [word_of_nat (55296 + (n - 65536) div 1024), word_of_nat (56320 + (n - 65536) mod 1024)] 4 s"
proof -
  define t where "t = n div 262144 + 240"
  have t: "239 < t" "t < 248" using n by (auto simp: t_def)
  have "(n div 262144 + 240) mod 8 * 2 ^ 18 + ((n div 4096 mod 64 + 128) mod 64 * 2 ^ 12
      + ((n div 64 mod 64 + 128) mod 64 * 2 ^ 6 + (n mod 64 + 128) mod 64)) = n"
    using n base64_digits(3) [of n] by (simp add: mod_offset)
  then have v: "push_bit 18 ((word_of_nat t :: u32) AND 7)
      OR push_bit 12 ((word_of_nat (n div 4096 mod 64 + 128) :: u32) AND 63)
      OR push_bit 6 ((word_of_nat (n div 64 mod 64 + 128) :: u32) AND 63)
      OR ((word_of_nat (n mod 64 + 128) :: u32) AND 63) = word_of_nat n"
    unfolding t_def or.assoc by (simp only: nat_bits) (simp add: or_push_nat digit_sums [simplified] del: of_nat_add of_nat_mult)
  have c: "\<not> (word_of_nat t :: u32) < 128" "\<not> (word_of_nat t :: u32) < 224"
      "(word_of_nat t :: u32) > 239" "(word_of_nat t :: u32) < 365"
    using t word_less_nat [of t 128] word_less_nat [of 239 t] word_less_nat [of t 224]
      word_less_nat [of t 365] by simp_all
  have d: "(word_of_nat n :: u32) - 65536 = word_of_nat (n - 65536)"
    using n by (simp add: of_nat_diff)
  have u: "(ucast (55296 + signed_drop_bit 10 (word_of_nat (n - 65536) :: u32)) :: u16) =
        word_of_nat (55296 + (n - 65536) div 1024)"
      "(ucast (56320 + ((word_of_nat (n - 65536) :: u32) AND 1023)) :: u16) =
        word_of_nat (56320 + (n - 65536) mod 1024)"
    using n ucast_u16_nat [of "55296 + (n - 65536) div 1024"] ucast_u16_nat [of "56320 + (n - 65536) mod 1024"]
    by (simp_all add: signed_shift_nat nat_bits del: of_nat_diff)
  have a: "byte_at buf (rs_start s + 1 + 1) = word_of_nat (n div 64 mod 64 + 128)"
      "byte_at buf (rs_start s + 1 + 2) = word_of_nat (n mod 64 + 128)"
    using assms(3,4) by (simp_all only: add.assoc one_add_one numeral_plus_one one_plus_numeral semiring_norm)
  have r: "utf8_read_one buf s = s\<lparr>rs_start := rs_start s + 1 + 3,
      rs_chunk := arr_set (arr_set (rs_chunk s) (rs_i s) (word_of_nat (55296 + (n - 65536) div 1024)))
        (rs_i s + 1) (word_of_nat (56320 + (n - 65536) mod 1024)),
      rs_i := rs_i s + 2\<rparr>"
    using c(1,2,3,4) unfolding utf8_read_one_def Let_def assms(1,2) a t_def [symmetric] v d u
    by (simp only: if_True if_False simp_thms)
  then show ?thesis by (simp add: put_units_def)
qed

section \<open>The loop over a string\<close>

text \<open>One character is read at a time: its units, and the rest of the string.\<close>

definition char_units :: "u16 \<Rightarrow> jstring \<Rightarrow> jstring" where
  "char_units c cs = (if is_pair c cs then [c, hd cs] else [c])"

definition char_rest :: "u16 \<Rightarrow> jstring \<Rightarrow> jstring" where
  "char_rest c cs = (if is_pair c cs then tl cs else cs)"

definition char_bytes :: "u16 \<Rightarrow> jstring \<Rightarrow> u8 list" where
  "char_bytes c cs = (if is_pair c cs then pair_bytes (pair_nat c (hd cs)) else unit_bytes (unat c))"

lemma length_char_rest [simp]: "length (char_rest c cs) < Suc (length cs)"
  by (simp add: char_rest_def less_Suc_eq_le)

lemma utf8_bytes_Cons: "utf8_bytes (c # cs) = char_bytes c cs @ utf8_bytes (char_rest c cs)"
  by (simp add: char_bytes_def char_rest_def)

lemma char_split: "char_units c cs @ char_rest c cs = c # cs"
  by (auto simp: char_units_def char_rest_def is_pair_def low_follows_def split: list.splits)

lemma char_units_length: "length (char_units c cs) = 1 \<or> length (char_units c cs) = 2"
  by (simp add: char_units_def)

lemma surrogate_split: "c = (c AND 64512) OR word_of_nat (unat c mod 1024)" for c :: u16
proof -
  have "c AND 1023 = take_bit 10 c" by (simp add: take_bit_eq_mask mask_eq_exp_minus_1)
  moreover have "unat (take_bit 10 c) = unat c mod 2 ^ 10"
    by (simp only: unsigned_take_bit_eq) (simp only: take_bit_eq_mod)
  ultimately have m: "c AND 1023 = word_of_nat (unat c mod 1024)"
    using unat_u16 [of c] by (simp add: word_unat_eq_iff unat_of_nat)
  have "(64512 OR 1023 :: u16) = - 1" by simp
  then have "c = c AND (64512 OR 1023)" by (simp only: bit.conj_one_right)
  then show ?thesis by (simp only: bit.conj_disj_distrib m)
qed

lemma surrogate_half:
  fixes c :: u16
  assumes "c AND 64512 = word_of_nat (k * 1024)" "k < 64"
  shows "unat c = k * 1024 + unat c mod 1024"
proof -
  have "c = word_of_nat (unat c mod 1024) OR push_bit 10 (word_of_nat k)"
    by (rule trans [OF surrogate_split], subst assms(1))
      (simp add: or.commute push_bit_of_nat [symmetric] push_bit_eq_mult)
  also have "\<dots> = word_of_nat (unat c mod 1024 + k * 2 ^ 10)"
    by (rule word_or_push) simp
  finally have "unat c = unat (word_of_nat (unat c mod 1024 + k * 2 ^ 10) :: u16)"
    by (rule arg_cong)
  then have "unat c = (unat c mod 1024 + k * 1024) mod 65536"
    by (simp only: unat_of_nat) simp
  moreover have "unat c mod 1024 + k * 1024 < 65536"
    using mod_less_divisor [of 1024 "unat c"] assms(2) by linarith
  ultimately show ?thesis by simp
qed

lemma high_half: "is_high c \<Longrightarrow> unat c = 55296 + unat c mod 1024"
  using surrogate_half [of c 54] by simp

lemma low_half: "is_low c \<Longrightarrow> unat c = 56320 + unat c mod 1024"
  using surrogate_half [of c 55] by simp

lemma read_unit:
  assumes "bytes_at buf (rs_start s) (unit_bytes (unat c))"
  shows "utf8_read_one buf s = put_units [c] (length (unit_bytes (unat c))) s"
proof -
  have c: "unat c < 65536" by (rule unat_u16)
  note b = bytes_at_byte [OF assms]
  have i: "rs_start s < length buf"
    using assms by (auto simp: bytes_at_def unit_bytes_def split: if_splits)
  consider "unat c < 128" | "128 \<le> unat c" "unat c < 2048" | "2048 \<le> unat c" by linarith
  then show ?thesis
  proof cases
    case 1
    then show ?thesis
      using b [of 0] i read_step_1 [of buf s "unat c"] by (simp add: unit_bytes_def widen_u8_nat del: of_nat_unat) simp
  next
    case 2
    then show ?thesis
      using b [of 0] b [of 1] read_step_2 [of buf s "unat c"]
      by (simp add: unit_bytes_def widen_u8_nat less_mult_imp_div_less numeral_2_eq_2 del: of_nat_add)
  next
    case 3
    then show ?thesis
      using b [of 0] b [of 1] b [of 2] read_step_3 [of buf s "unat c"] c
      by (simp add: unit_bytes_def widen_u8_nat less_mult_imp_div_less numeral_3_eq_3 del: of_nat_add)
  qed
qed

lemma read_char:
  assumes "bytes_at buf (rs_start s) (char_bytes c cs)"
  shows "utf8_read_one buf s = put_units (char_units c cs) (length (char_bytes c cs)) s"
proof (cases "is_pair c cs")
  case False
  then show ?thesis using assms read_unit [of buf s c] by (simp add: char_bytes_def char_units_def)
next
  case True
  then obtain d ds where cs: "cs = d # ds" "is_low d" "is_high c"
    by (auto simp: is_pair_def low_follows_def split: list.splits)
  define n where "n = pair_nat c d"
  have n: "65536 \<le> n" "n < 1114112" using pair_nat_bound by (simp_all add: n_def)
  have "(n - 65536) div 1024 = unat c mod 1024" "(n - 65536) mod 1024 = unat d mod 1024"
    by (simp_all add: n_def pair_nat_def)
  then have u: "word_of_nat (55296 + (n - 65536) div 1024) = c" "word_of_nat (56320 + (n - 65536) mod 1024) = d"
    using high_half [OF cs(3)] low_half [OF cs(2)] by (simp_all del: of_nat_add)
  have l: "char_bytes c cs = pair_bytes n" using True cs by (simp add: char_bytes_def n_def)
  note b = bytes_at_byte [OF assms [unfolded l]]
  have d: "n div 262144 + 240 < 256" using n by simp
  have four: "(4::nat) = Suc (Suc (Suc (Suc 0)))" by simp
  show ?thesis
    unfolding l using b [of 0] b [of 1] b [of 2] b [of 3] n d read_step_4 [of buf s n] u True cs
    by (simp add: pair_bytes_def widen_u8_nat char_units_def nth_Cons_numeral four del: of_nat_add)
qed

section \<open>The loop over a string\<close>

text \<open>The loop over the encoding of a string, character by character, without the bytes.\<close>

function utf8_feed :: "jstring \<Rightarrow> read_state \<Rightarrow> read_state" where
  "utf8_feed [] s = s"
| "utf8_feed (c # cs) s =
     utf8_feed (char_rest c cs)
       (utf8_flush (put_units (char_units c cs) (length (char_bytes c cs)) s))"
  by pat_completeness auto
termination by (relation "measure (\<lambda>(cs, s). length cs)") auto

lemma rs_start_put [simp]: "rs_start (put_units us n s) = rs_start s + n"
  by (simp add: put_units_def)

lemma length_char_bytes_pos: "0 < length (char_bytes c cs)"
  by (simp add: char_bytes_def pair_bytes_def unit_bytes_def)

lemma utf8_read_loop_feed:
  "bytes_at buf (rs_start s) (utf8_bytes str) \<Longrightarrow>
   utf8_read_loop buf (rs_start s + length (utf8_bytes str)) s = utf8_feed str s"
proof (induction str s rule: utf8_feed.induct)
  case (1 s)
  then show ?case by (simp add: utf8_read_loop.simps [of buf _ s])
next
  case (2 c cs s)
  let ?s = "utf8_flush (put_units (char_units c cs) (length (char_bytes c cs)) s)"
  have b: "bytes_at buf (rs_start s) (char_bytes c cs)"
    "bytes_at buf (rs_start ?s) (utf8_bytes (char_rest c cs))"
    using "2.prems" by (simp_all add: utf8_bytes_Cons bytes_at_append del: utf8_bytes.simps)
  have "rs_start s < rs_start s + length (utf8_bytes (c # cs))"
    using length_char_bytes_pos [of c cs] by (simp add: utf8_bytes_Cons del: utf8_bytes.simps)
  then have "utf8_read_loop buf (rs_start s + length (utf8_bytes (c # cs))) s =
      utf8_read_loop buf (rs_start s + length (utf8_bytes (c # cs))) ?s"
    by (simp only: utf8_read_loop.simps [of buf _ s] if_True read_char [OF b(1)])
  also have "\<dots> = utf8_read_loop buf (rs_start ?s + length (utf8_bytes (char_rest c cs))) ?s"
    by (simp add: utf8_bytes_Cons add.assoc del: utf8_bytes.simps)
  also have "\<dots> = utf8_feed (char_rest c cs) ?s" by (rule "2.IH" [OF b(2)])
  finally show ?case by simp
qed

text \<open>The string a state of the loop stands for.\<close>

definition rs_done :: "read_state \<Rightarrow> jstring" where
  "rs_done s = (case rs_parts s of None \<Rightarrow> [] | Some ps \<Rightarrow> concat ps)"

definition rs_out :: "read_state \<Rightarrow> jstring" where
  "rs_out s = rs_done s @ take (rs_i s) (rs_chunk s)"

definition rs_init :: "nat \<Rightarrow> read_state" where
  "rs_init start = \<lparr>rs_start = start, rs_chunk = [], rs_i = 0, rs_parts = None\<rparr>"

lemma utf8_read_out:
  "utf8_read buf start end =
     (if end - start < 1 then [] else rs_out (utf8_read_loop buf end (rs_init start)))"
  by (auto simp: utf8_read_def rs_out_def rs_done_def rs_init_def Let_def split: option.splits)

lemma utf8_read_feed:
  "bytes_at buf start (utf8_bytes str) \<Longrightarrow>
   utf8_read buf start (start + length (utf8_bytes str)) = rs_out (utf8_feed str (rs_init start))"
  using utf8_read_loop_feed [of buf "rs_init start" str] utf8_length_0 [of str]
  by (cases "str = []")
    (simp_all add: utf8_read_out rs_init_def rs_out_def rs_done_def utf8_length_eq Suc_le_eq)

section \<open>Reading inverts writing\<close>

lemma arr_sets_eq: "i \<le> length xs \<Longrightarrow> arr_sets xs i us = take i xs @ us @ drop (i + length us) xs"
proof (induction us arbitrary: xs i)
  case (Cons u us)
  have "drop (Suc (i + length us)) (arr_set xs i u) = drop (Suc (i + length us)) xs"
    using Cons.prems by (simp add: arr_set_def)
  then show ?case using Cons.prems Cons.IH [of "Suc i" "arr_set xs i u"] by simp
qed simp

lemma take_arr_sets: "i \<le> length xs \<Longrightarrow> take (i + length us) (arr_sets xs i us) = take i xs @ us"
  by (simp add: arr_sets_eq)

lemma length_arr_sets:
  "i \<le> length xs \<Longrightarrow> length (arr_sets xs i us) = max (length xs) (i + length us)"
  by (simp add: arr_sets_eq)

fun has_pair :: "jstring \<Rightarrow> bool" where
  "has_pair [] \<longleftrightarrow> False"
| "has_pair (c # cs) \<longleftrightarrow> is_pair c cs \<or> has_pair cs"

text \<open>Strings for which no chunk is converted with a leftover in it.\<close>

definition chunk_safe :: "jstring \<Rightarrow> bool" where
  "chunk_safe str \<longleftrightarrow> length str \<le> 16384 \<or> \<not> has_pair str"

text \<open>
  The invariant of the loop, before the characters \<open>str\<close>: a chunk that has grown to 8193
  code units (a pair crossed its end) can only be refilled after 8192 more.
\<close>

definition rs_inv :: "read_state \<Rightarrow> jstring \<Rightarrow> bool" where
  "rs_inv s str \<longleftrightarrow>
     rs_i s \<le> length (rs_chunk s) \<and> rs_i s \<le> 8191 \<and> length (rs_chunk s) \<le> 8193 \<and>
     (length (rs_chunk s) = 8193 \<longrightarrow> 8193 \<le> length (rs_done s)) \<and>
     (length (rs_done s) + rs_i s + length str \<le> 16384
      \<or> length (rs_chunk s) \<le> 8192 \<and> \<not> has_pair str)"

lemma length_char_split:
  "length (char_units c cs) + length (char_rest c cs) = Suc (length cs)"
  using arg_cong [OF char_split [of c cs], of length] by simp

lemma has_pair_rest: "\<not> has_pair (c # cs) \<Longrightarrow> char_units c cs = [c] \<and> char_rest c cs = cs"
  by (simp add: char_units_def char_rest_def)

lemma rs_done_flush:
  "rs_done (utf8_flush s) = (if rs_i s > 8191 then rs_done s @ rs_chunk s else rs_done s)"
  by (simp add: utf8_flush_def rs_done_def split: option.splits)

lemma feed_step:
  fixes n :: nat
  assumes inv: "rs_inv s (c # cs)"
  defines "s' \<equiv> utf8_flush (put_units (char_units c cs) n s)"
  shows "rs_inv s' (char_rest c cs) \<and> rs_out s' = rs_out s @ char_units c cs"
proof -
  define us where "us = char_units c cs"
  define p where "p = put_units us n s"
  have i: "rs_i s \<le> length (rs_chunk s)" "rs_i s \<le> 8191" "length (rs_chunk s) \<le> 8193"
    using inv by (simp_all add: rs_inv_def)
  have p: "rs_i p = rs_i s + length us" "rs_done p = rs_done s"
      "length (rs_chunk p) = max (length (rs_chunk s)) (rs_i s + length us)"
      "rs_chunk p = arr_sets (rs_chunk s) (rs_i s) us"
    using i by (simp_all add: p_def put_units_def rs_done_def length_arr_sets)
  then have pt: "take (rs_i p) (rs_chunk p) = take (rs_i s) (rs_chunk s) @ us"
    using take_arr_sets [OF i(1)] by simp
  have l: "length us + length (char_rest c cs) = Suc (length cs)"
    by (simp add: us_def length_char_split)
  have us: "length us = 1 \<or> length us = 2" unfolding us_def by (rule char_units_length)
  have np: "\<not> has_pair (c # cs) \<Longrightarrow> length us = 1 \<and> \<not> has_pair (char_rest c cs)"
    by (simp add: us_def has_pair_rest del: has_pair.simps) simp
  show ?thesis
  proof (cases "rs_i p > 8191")
    case False
    then have "s' = p" by (simp add: s'_def p_def [unfolded us_def, symmetric] utf8_flush_def)
    moreover have "rs_out p = rs_out s @ us" by (simp add: rs_out_def p(2) pt)
    moreover have "rs_inv p (char_rest c cs)"
      using inv False p(1-3) l us np i unfolding rs_inv_def by (auto simp: max_def)
    ultimately show ?thesis by (simp add: us_def)
  next
    case True
    have full: "length (rs_chunk p) = rs_i p"
      using True inv p(1-3) l us np i unfolding rs_inv_def by (auto simp: max_def)
    have s': "rs_i s' = 0" "rs_chunk s' = rs_chunk p" "rs_done s' = rs_done s @ rs_chunk p"
      using True p(2) by (simp_all add: s'_def p_def [unfolded us_def, symmetric] utf8_flush_def rs_done_def
          split: option.splits)
    have "rs_chunk p = take (rs_i s) (rs_chunk s) @ us" using pt full by simp
    then have "rs_out s' = rs_out s @ us" by (simp add: rs_out_def s')
    moreover have "rs_inv s' (char_rest c cs)"
      using inv True full p(1-3) l us np i s' unfolding rs_inv_def by (auto simp: max_def)
    ultimately show ?thesis by (simp add: us_def)
  qed
qed

lemma feed_out: "rs_inv s str \<Longrightarrow> rs_out (utf8_feed str s) = rs_out s @ str"
proof (induction str s rule: utf8_feed.induct)
  case (2 c cs s)
  then show ?case using feed_step [OF "2.prems"] char_split [of c cs] by simp
qed simp

lemma utf8_read_bytes:
  assumes "bytes_at buf start (utf8_bytes str)" "chunk_safe str"
  shows "utf8_read buf start (start + length (utf8_bytes str)) = str"
proof -
  have "rs_inv (rs_init start) str"
    using assms(2) by (simp add: rs_inv_def rs_init_def rs_done_def chunk_safe_def)
  from feed_out [OF this] show ?thesis
    using utf8_read_feed [OF assms(1)] by (simp add: rs_init_def rs_out_def rs_done_def)
qed

section \<open>The bound is sharp\<close>

text \<open>
  A run of ASCII characters that does not fill the chunk; then a string whose only pair is at
  the positions 8191 and 8192 and that fills the next chunk exactly.
\<close>

lemma char_ascii:
  "a < 128 \<Longrightarrow> char_units a cs = [a] \<and> char_rest a cs = cs \<and> length (char_bytes a cs) = 1"
  by (auto simp: char_units_def char_rest_def char_bytes_def is_pair_def length_unit_bytes word_less_nat_alt)

lemma feed_ascii:
  assumes "a < 128"
  shows "rs_i s \<le> length (rs_chunk s) \<Longrightarrow> rs_i s + n \<le> 8191 \<Longrightarrow>
    utf8_feed (replicate n a @ cs) s = utf8_feed cs (put_units (replicate n a) n s)"
proof (induction n arbitrary: s)
  case 0
  then show ?case by (simp add: put_units_def)
next
  case (Suc n)
  have "utf8_flush (put_units [a] 1 s) = put_units [a] 1 s"
    using Suc.prems by (simp add: utf8_flush_def put_units_def)
  then have "utf8_feed (replicate (Suc n) a @ cs) s =
      utf8_feed (replicate n a @ cs) (put_units [a] 1 s)"
    using char_ascii [OF assms] by simp
  also have "\<dots> = utf8_feed cs (put_units (replicate n a) n (put_units [a] 1 s))"
    using Suc.prems by (intro Suc.IH) (simp_all add: put_units_def)
  also have "put_units (replicate n a) n (put_units [a] 1 s) = put_units (replicate (Suc n) a) (Suc n) s"
    by (simp add: put_units_def)
  finally show ?case .
qed

lemma feed_leftover:
  assumes a: "a < 128" and h: "is_high h" and l: "is_low l" and n: "n \<le> 8191" "8191 \<le> n"
  shows "rs_out (utf8_feed (replicate n a @ [h, l] @ replicate (Suc n) a) (rs_init start))
    = replicate n a @ [h, l] @ replicate (Suc n) a @ [l]"
proof -
  have pair: "is_pair h (l # cs)" for cs
  proof -
    have "unat h = 55296 + unat h mod 1024" by (rule high_half [OF h])
    then have "2048 \<le> unat h" by linarith
    then show ?thesis using h l by (simp add: is_pair_def low_follows_def word_less_nat_alt)
  qed
  define s1 where "s1 = put_units (replicate n a) n (rs_init start)"
  define s2 where "s2 = utf8_flush (put_units [h, l] 4 s1)"
  define s3 where "s3 = put_units (replicate n a) n s2"
  define s4 where "s4 = utf8_flush (put_units [a] 1 s3)"
  have s1: "rs_i s1 = n" "rs_chunk s1 = replicate n a" "rs_parts s1 = None"
    by (simp_all add: s1_def put_units_def rs_init_def arr_sets_eq)
  have s2: "rs_i s2 = 0" "rs_chunk s2 = replicate n a @ [h, l]"
      "rs_parts s2 = Some [replicate n a @ [h, l]]"
    using s1 n by (simp_all add: s2_def put_units_def utf8_flush_def arr_sets_eq del: arr_sets.simps)
  have s3: "rs_i s3 = n" "rs_chunk s3 = replicate n a @ [h, l]"
      "rs_parts s3 = Some [replicate n a @ [h, l]]"
    using s2 by (simp_all add: s3_def put_units_def arr_sets_eq del: arr_sets.simps)
  have s4: "rs_i s4 = 0" "rs_parts s4 = Some [replicate n a @ [h, l], replicate n a @ [a, l]]"
    using s3 n by (simp_all add: s4_def put_units_def utf8_flush_def arr_sets_eq del: arr_sets.simps)
  have r: "replicate (Suc n) a = replicate n a @ [a]" by (simp add: replicate_append_same)
  have "utf8_feed (replicate n a @ [h, l] @ replicate (Suc n) a) (rs_init start) =
      utf8_feed ([h, l] @ replicate (Suc n) a) s1"
    unfolding s1_def using a n by (intro feed_ascii) (simp_all add: rs_init_def)
  also have "\<dots> = utf8_feed (replicate (Suc n) a) s2"
    using pair by (simp add: s2_def char_units_def char_rest_def char_bytes_def)
  also have "\<dots> = utf8_feed [a] s3"
    unfolding r s3_def using a s2 n by (intro feed_ascii) simp_all
  also have "\<dots> = s4" using char_ascii [OF a] by (simp add: s4_def)
  finally have "rs_out (utf8_feed (replicate n a @ [h, l] @ replicate (Suc n) a) (rs_init start))
      = (replicate n a @ [h, l]) @ replicate n a @ [a, l]"
    using s4 by (simp add: rs_out_def rs_done_def)
  then show ?thesis by (simp add: r del: replicate.simps)
qed

lemma utf8_read_leftover:
  assumes "a < 128" "is_high h" "is_low l" "n \<le> 8191" "8191 \<le> n"
  defines "s \<equiv> replicate n a @ [h, l] @ replicate (Suc n) a"
  shows "utf8_read (utf8_bytes s) 0 (length (utf8_bytes s)) = s @ [l]"
  using feed_leftover [OF assms(1-5), of 0] utf8_read_feed [of "utf8_bytes s" 0 s]
  by (simp add: s_def del: replicate.simps utf8_feed.simps)

end
