(* ===== verification/Writer.thy ===== *)
theory Writer
  imports Varint Utf8
begin

text \<open>
  \<open>protobufjs/src/writer.js\<close>, bundled in \<open>qml_ipc.mjs\<close>: a writer collects operations,
  each with the number of bytes it will store, and \<open>finish\<close> allocates a buffer of the summed
  length and runs them. An operation is its function together with its argument
  (\<open>op_fn\<close>) and its length; the chain from \<open>head.next\<close> to \<open>tail\<close> is a list, and the
  empty operations that serve as list heads are left out. \<open>fork\<close> pushes the writer's state on
  a stack and \<open>ldelim\<close> pops it and inserts what was written since, preceded by its length.

  The lemmas show that the recorded length of every operation is the number of bytes it
  stores, that \<open>finish\<close> returns the concatenation of those bytes, and what each writing
  method appends (\<open>emits\<close>). Objects written by reference stay shared: \<open>writeVarint64\<close>
  overwrites the \<open>LongBits\<close> object of its operation, so \<open>finish\<close> also returns the
  writer it leaves behind.
\<close>

section \<open>Operations\<close>

datatype op_fn =
    WriteByte u32
  | WriteVarint32 u32
  | WriteVarint64 LongBits
  | WriteFixed32 u32
  | WriteFloatLE u32
  | WriteDoubleLE "64 word"
  | WriteBytes "u8 list"
  | WriteUtf8 jstring

record op =
  op_fn :: op_fn
  op_len :: nat

text \<open>
  \<open>writeFloat_f32_cpy\<close> and \<open>writeDouble_f64_cpy\<close> copy the bytes of a float through a
  shared typed array, low byte first: a float is modelled by its bit pattern.
\<close>

definition writeFloatLE :: "u32 \<Rightarrow> u8 list \<Rightarrow> nat \<Rightarrow> u8 list" where
  "writeFloatLE v buf pos =
     buf[pos := ucast v, pos + 1 := ucast (drop_bit 8 v),
         pos + 2 := ucast (drop_bit 16 v), pos + 3 := ucast (drop_bit 24 v)]"

definition writeDoubleLE :: "64 word \<Rightarrow> u8 list \<Rightarrow> nat \<Rightarrow> u8 list" where
  "writeDoubleLE v buf pos =
     buf[pos := ucast v, pos + 1 := ucast (drop_bit 8 v),
         pos + 2 := ucast (drop_bit 16 v), pos + 3 := ucast (drop_bit 24 v),
         pos + 4 := ucast (drop_bit 32 v), pos + 5 := ucast (drop_bit 40 v),
         pos + 6 := ucast (drop_bit 48 v), pos + 7 := ucast (drop_bit 56 v)]"

definition writeByte :: "u32 \<Rightarrow> u8 list \<Rightarrow> nat \<Rightarrow> u8 list" where
  "writeByte val buf pos = buf[pos := ucast (val AND 255)]"

definition writeFixed32 :: "u32 \<Rightarrow> u8 list \<Rightarrow> nat \<Rightarrow> u8 list" where
  "writeFixed32 val buf pos =
     buf[pos := ucast (val AND 255), pos + 1 := ucast (drop_bit 8 val AND 255),
         pos + 2 := ucast (drop_bit 16 val AND 255), pos + 3 := ucast (drop_bit 24 val)]"

fun writeBytes :: "u8 list \<Rightarrow> u8 list \<Rightarrow> nat \<Rightarrow> u8 list" where
  "writeBytes [] buf pos = buf"
| "writeBytes (b # bs) buf pos = writeBytes bs (buf[pos := b]) (pos + 1)"

text \<open>\<open>head.fn(head.val, buf, pos)\<close>: the buffer and the operation's argument afterwards.\<close>

fun run_op :: "op_fn \<Rightarrow> u8 list \<Rightarrow> nat \<Rightarrow> u8 list \<times> op_fn" where
  "run_op (WriteByte v) buf pos = (writeByte v buf pos, WriteByte v)"
| "run_op (WriteVarint32 v) buf pos = (writeVarint32 v buf pos, WriteVarint32 v)"
| "run_op (WriteVarint64 v) buf pos =
     (let (buf, v) = writeVarint64 v buf pos in (buf, WriteVarint64 v))"
| "run_op (WriteFixed32 v) buf pos = (writeFixed32 v buf pos, WriteFixed32 v)"
| "run_op (WriteFloatLE v) buf pos = (writeFloatLE v buf pos, WriteFloatLE v)"
| "run_op (WriteDoubleLE v) buf pos = (writeDoubleLE v buf pos, WriteDoubleLE v)"
| "run_op (WriteBytes v) buf pos = (writeBytes v buf pos, WriteBytes v)"
| "run_op (WriteUtf8 v) buf pos = (fst (utf8_write v buf pos), WriteUtf8 v)"

section \<open>The writer\<close>

record Writer =
  w_len :: nat
  w_ops :: "op list"
  w_states :: "(nat \<times> op list) list"

definition Writer_create :: Writer where
  "Writer_create = \<lparr>w_len = 0, w_ops = [], w_states = []\<rparr>"

definition w_push :: "op_fn \<Rightarrow> nat \<Rightarrow> Writer \<Rightarrow> Writer" where
  "w_push fn len w =
     w\<lparr>w_ops := w_ops w @ [\<lparr>op_fn = fn, op_len = len\<rparr>], w_len := w_len w + len\<rparr>"

definition w_uint32 :: "int \<Rightarrow> Writer \<Rightarrow> Writer" where
  "w_uint32 v w =
     (let value = (word_of_int v :: u32) in w_push (WriteVarint32 value) (varint32_length value) w)"

definition w_int32 :: "int \<Rightarrow> Writer \<Rightarrow> Writer" where
  "w_int32 v w =
     (if v < 0 then w_push (WriteVarint64 (LongBits_fromNumber v)) 10 w else w_uint32 v w)"

definition w_sint32 :: "int \<Rightarrow> Writer \<Rightarrow> Writer" where
  "w_sint32 v w =
     (let value = (word_of_int v :: u32)
      in w_uint32 (uint (push_bit 1 value XOR signed_drop_bit 31 value)) w)"

definition w_uint64 :: "int \<Rightarrow> Writer \<Rightarrow> Writer" where
  "w_uint64 v w =
     (let bits = LongBits_from (Num v) in w_push (WriteVarint64 bits) (LongBits_length bits) w)"

definition w_int64 :: "int \<Rightarrow> Writer \<Rightarrow> Writer" where
  "w_int64 = w_uint64"

definition w_sint64 :: "int \<Rightarrow> Writer \<Rightarrow> Writer" where
  "w_sint64 v w =
     (let bits = LongBits_zzEncode (LongBits_from (Num v))
      in w_push (WriteVarint64 bits) (LongBits_length bits) w)"

definition w_bool :: "bool \<Rightarrow> Writer \<Rightarrow> Writer" where
  "w_bool v w = w_push (WriteByte (if v then 1 else 0)) 1 w"

definition w_fixed32 :: "int \<Rightarrow> Writer \<Rightarrow> Writer" where
  "w_fixed32 v w = w_push (WriteFixed32 (word_of_int v)) 4 w"

definition w_fixed64 :: "int \<Rightarrow> Writer \<Rightarrow> Writer" where
  "w_fixed64 v w =
     (let bits = LongBits_from (Num v)
      in w_push (WriteFixed32 (hi bits)) 4 (w_push (WriteFixed32 (lo bits)) 4 w))"

definition w_float :: "u32 \<Rightarrow> Writer \<Rightarrow> Writer" where
  "w_float v w = w_push (WriteFloatLE v) 4 w"

definition w_double :: "64 word \<Rightarrow> Writer \<Rightarrow> Writer" where
  "w_double v w = w_push (WriteDoubleLE v) 8 w"

text \<open>\<open>bytes\<close> of an array; \<open>value.length >>> 0\<close>.\<close>

definition w_bytes :: "u8 list \<Rightarrow> Writer \<Rightarrow> Writer" where
  "w_bytes v w =
     (let len = length v mod 2 ^ 32
      in if len = 0 then w_push (WriteByte 0) 1 w
         else w_push (WriteBytes v) len (w_uint32 (int len) w))"

definition w_string :: "jstring \<Rightarrow> Writer \<Rightarrow> Writer" where
  "w_string v w =
     (let len = utf8_length v
      in if len \<noteq> 0 then w_push (WriteUtf8 v) len (w_uint32 (int len) w)
         else w_push (WriteByte 0) 1 w)"

definition w_fork :: "Writer \<Rightarrow> Writer" where
  "w_fork w = \<lparr>w_len = 0, w_ops = [], w_states = (w_len w, w_ops w) # w_states w\<rparr>"

definition w_reset :: "Writer \<Rightarrow> Writer" where
  "w_reset w =
     (case w_states w of
        (len, ops) # states \<Rightarrow> \<lparr>w_len = len, w_ops = ops, w_states = states\<rparr>
      | [] \<Rightarrow> \<lparr>w_len = 0, w_ops = [], w_states = []\<rparr>)"

definition w_ldelim :: "Writer \<Rightarrow> Writer" where
  "w_ldelim w =
     (let ops = w_ops w; len = w_len w; w = w_uint32 (int len) (w_reset w)
      in if len \<noteq> 0 then w\<lparr>w_ops := w_ops w @ ops, w_len := w_len w + len\<rparr> else w)"

fun run_ops :: "op list \<Rightarrow> u8 list \<Rightarrow> nat \<Rightarrow> u8 list \<times> op list" where
  "run_ops [] buf pos = (buf, [])"
| "run_ops (x # xs) buf pos =
     (let (buf, fn) = run_op (op_fn x) buf pos; (buf, ys) = run_ops xs buf (pos + op_len x)
      in (buf, x\<lparr>op_fn := fn\<rparr> # ys))"

definition w_finish :: "Writer \<Rightarrow> u8 list \<times> Writer" where
  "w_finish w =
     (let (buf, ops) = run_ops (w_ops w) (replicate (w_len w) 0) 0 in (buf, w\<lparr>w_ops := ops\<rparr>))"

text \<open>The bytes a method makes of a new writer.\<close>

abbreviation written :: "(Writer \<Rightarrow> Writer) \<Rightarrow> u8 list" where
  "written f \<equiv> fst (w_finish (f Writer_create))"

section \<open>What an operation stores\<close>

definition le32_bytes :: "u32 \<Rightarrow> u8 list" where
  "le32_bytes v = [ucast v, ucast (drop_bit 8 v), ucast (drop_bit 16 v), ucast (drop_bit 24 v)]"

definition le64_bytes :: "64 word \<Rightarrow> u8 list" where
  "le64_bytes v =
     [ucast v, ucast (drop_bit 8 v), ucast (drop_bit 16 v), ucast (drop_bit 24 v),
      ucast (drop_bit 32 v), ucast (drop_bit 40 v), ucast (drop_bit 48 v), ucast (drop_bit 56 v)]"

fun op_bytes :: "op_fn \<Rightarrow> u8 list" where
  "op_bytes (WriteByte v) = [ucast v]"
| "op_bytes (WriteVarint32 v) = varint_bytes (unat v)"
| "op_bytes (WriteVarint64 v) = varint_bytes (LongBits_val v)"
| "op_bytes (WriteFixed32 v) = le32_bytes v"
| "op_bytes (WriteFloatLE v) = le32_bytes v"
| "op_bytes (WriteDoubleLE v) = le64_bytes v"
| "op_bytes (WriteBytes v) = v"
| "op_bytes (WriteUtf8 v) = utf8_bytes v"

lemma ucast_byte_255: "(ucast (v AND 255) :: u8) = ucast v" for v :: u32
  unfolding word_and_mask_numerals [symmetric] by (rule bit_word_eqI) (auto simp: bit_simps)

lemma writeBytes_splice: "pos + length bs \<le> length buf \<Longrightarrow> writeBytes bs buf pos = splice buf pos bs"
  by (induction bs buf pos rule: writeBytes.induct) (simp_all add: splice_simps)

lemma run_op_splice:
  "pos + length (op_bytes fn) \<le> length buf \<Longrightarrow> fst (run_op fn buf pos) = splice buf pos (op_bytes fn)"
  by (cases fn)
    (simp_all add: writeByte_def writeFixed32_def writeFloatLE_def writeDoubleLE_def le32_bytes_def
      le64_bytes_def writeVarint32_splice writeVarint64_splice utf8_write_eq writeBytes_splice
      ucast_byte_255 splice_simps case_prod_unfold)

section \<open>\<open>finish\<close>\<close>

definition op_ok :: "op \<Rightarrow> bool" where
  "op_ok x \<longleftrightarrow> op_len x = length (op_bytes (op_fn x))"

definition ops_out :: "op list \<Rightarrow> u8 list" where
  "ops_out xs = concat (map (\<lambda>x. op_bytes (op_fn x)) xs)"

definition w_out :: "Writer \<Rightarrow> u8 list" where
  "w_out w = ops_out (w_ops w)"

text \<open>The invariant of the writer: every length it records is the length of what is stored.\<close>

definition level_ok :: "nat \<times> op list \<Rightarrow> bool" where
  "level_ok l \<longleftrightarrow> list_all op_ok (snd l) \<and> fst l = length (ops_out (snd l))"

definition w_ok :: "Writer \<Rightarrow> bool" where
  "w_ok w \<longleftrightarrow> level_ok (w_len w, w_ops w) \<and> list_all level_ok (w_states w)"

lemma ops_out_simps [simp]:
  "ops_out [] = []"
  "ops_out (x # xs) = op_bytes (op_fn x) @ ops_out xs"
  "ops_out (xs @ ys) = ops_out xs @ ops_out ys"
  by (simp_all add: ops_out_def)

lemma run_ops_splice:
  "list_all op_ok xs \<Longrightarrow> pos + length (ops_out xs) \<le> length buf \<Longrightarrow>
   fst (run_ops xs buf pos) = splice buf pos (ops_out xs)"
proof (induction xs arbitrary: buf pos)
  case (Cons x xs)
  then have "op_len x = length (op_bytes (op_fn x))" by (simp add: op_ok_def)
  then show ?case
    using Cons by (simp add: case_prod_unfold Let_def run_op_splice splice_simps)
qed simp

lemma w_finish_out: "w_ok w \<Longrightarrow> fst (w_finish w) = w_out w"
  by (simp add: w_finish_def case_prod_unfold run_ops_splice w_ok_def level_ok_def w_out_def splice_all)

section \<open>What the methods append\<close>

text \<open>
  \<open>emits f bs\<close>: the method \<open>f\<close> appends operations that store \<open>bs\<close>, leaves the stack of
  states alone and keeps the invariant.
\<close>

definition emits :: "(Writer \<Rightarrow> Writer) \<Rightarrow> u8 list \<Rightarrow> bool" where
  "emits f bs \<longleftrightarrow>
     (\<forall>w. w_out (f w) = w_out w @ bs \<and> w_len (f w) = w_len w + length bs \<and>
          w_states (f w) = w_states w \<and> (w_ok w \<longrightarrow> w_ok (f w)))"

named_theorems emits_intros "what a writing method appends"

lemma w_ok_create [simp]: "w_ok Writer_create"
  by (simp add: w_ok_def level_ok_def Writer_create_def)

lemma emits_finish:
  assumes "emits f bs"
  shows "fst (w_finish (f Writer_create)) = bs"
proof -
  have "w_ok (f Writer_create)" using assms by (simp add: emits_def)
  then show ?thesis
    using assms by (simp add: w_finish_out emits_def w_out_def Writer_create_def)
qed

lemma emits_push: "length (op_bytes fn) = len \<Longrightarrow> emits (w_push fn len) (op_bytes fn)"
  by (auto simp: emits_def w_push_def w_out_def w_ok_def level_ok_def op_ok_def)

lemma emits_comp: "emits g bs \<Longrightarrow> emits f as \<Longrightarrow> emits (\<lambda>w. g (f w)) (as @ bs)"
  by (simp add: emits_def)

lemma emits_id: "emits (\<lambda>w. w) []"
  by (simp add: emits_def)

definition uint32_bytes :: "int \<Rightarrow> u8 list" where
  "uint32_bytes v = varint_bytes (nat (v mod 2 ^ 32))"

definition int64_bytes :: "int \<Rightarrow> u8 list" where
  "int64_bytes v = varint_bytes (nat (v mod 2 ^ 64))"

definition int32_bytes :: "int \<Rightarrow> u8 list" where
  "int32_bytes v = (if v < 0 then int64_bytes v else uint32_bytes v)"

definition delim :: "u8 list \<Rightarrow> u8 list" where
  "delim bs = uint32_bytes (int (length bs)) @ bs"

definition string_bytes :: "jstring \<Rightarrow> u8 list" where
  "string_bytes s = delim (utf8_bytes s)"

lemma unat_word_of_int: "unat (word_of_int v :: u32) = nat (v mod 2 ^ 32)"
  by (simp add: unat_eq_nat_uint uint_word_of_int)

lemma emits_uint32 [emits_intros]: "emits (w_uint32 v) (uint32_bytes v)"
proof -
  have "emits (w_push (WriteVarint32 (word_of_int v)) (varint32_length (word_of_int v)))
      (op_bytes (WriteVarint32 (word_of_int v)))"
    by (rule emits_push) (simp add: varint32_length_eq)
  then show ?thesis
    by (simp only: w_uint32_def [abs_def] uint32_bytes_def unat_word_of_int [symmetric] Let_def op_bytes.simps)
qed

lemma emits_varint64:
  "length (varint_bytes (LongBits_val b)) = n \<Longrightarrow>
   emits (w_push (WriteVarint64 b) n) (varint_bytes (LongBits_val b))"
  using emits_push [of "WriteVarint64 b" n] by simp

lemma emits_uint64 [emits_intros]: "emits (w_uint64 v) (int64_bytes v)"
  using emits_varint64 [of "LongBits_fromNumber v" "LongBits_length (LongBits_fromNumber v)"]
  by (simp add: w_uint64_def [abs_def] LongBits_from_def LongBits_length_eq int64_bytes_def
      LongBits_val_fromNumber)

lemma emits_int64 [emits_intros]: "emits (w_int64 v) (int64_bytes v)"
  unfolding w_int64_def by (rule emits_uint64)

lemma emits_int32 [emits_intros]:
  assumes "- (2 ^ 63) \<le> v"
  shows "emits (w_int32 v) (int32_bytes v)"
proof (cases "v < 0")
  case True
  have "v mod 2 ^ 64 = v + 2 ^ 64"
    using True assms mod_pos_pos_trivial [of "v + 2 ^ 64" "2 ^ 64"] by simp
  then have "length (varint_bytes (LongBits_val (LongBits_fromNumber v))) = 10"
    using True assms by (simp add: LongBits_val_fromNumber length_varint_bytes_exact [of 9, simplified])
  then show ?thesis
    using True emits_varint64 [of "LongBits_fromNumber v" 10]
    by (simp add: w_int32_def [abs_def] int32_bytes_def int64_bytes_def LongBits_val_fromNumber)
next
  case False
  then show ?thesis
    using emits_uint32 [of v] by (simp add: w_int32_def [abs_def] int32_bytes_def)
qed

lemma emits_bool [emits_intros]: "emits (w_bool v) [if v then 1 else 0]"
  using emits_push [of "WriteByte (if v then 1 else 0)" 1]
  by (cases v) (simp_all add: w_bool_def [abs_def])

lemma emits_float [emits_intros]: "emits (w_float v) (le32_bytes v)"
  using emits_push [of "WriteFloatLE v" 4] by (simp add: w_float_def [abs_def] le32_bytes_def)

lemma emits_double [emits_intros]: "emits (w_double v) (le64_bytes v)"
  using emits_push [of "WriteDoubleLE v" 8] by (simp add: w_double_def [abs_def] le64_bytes_def)

lemma utf8_bytes_Nil [simp]: "utf8_bytes s = [] \<longleftrightarrow> s = []"
  using utf8_length_0 [of s] by (simp add: utf8_length_eq)

lemma emits_string [emits_intros]: "emits (w_string v) (string_bytes v)"
proof (cases "v = []")
  case True
  then show ?thesis
    using emits_push [of "WriteByte 0" 1]
    by (simp add: w_string_def [abs_def] string_bytes_def delim_def uint32_bytes_def varint_bytes_small)
next
  case False
  have "emits (\<lambda>w. w_push (WriteUtf8 v) (utf8_length v) (w_uint32 (int (utf8_length v)) w))
      (uint32_bytes (int (utf8_length v)) @ op_bytes (WriteUtf8 v))"
    by (intro emits_comp emits_push emits_uint32) (simp add: utf8_length_eq)
  then show ?thesis
    using False by (simp add: w_string_def [abs_def] string_bytes_def delim_def utf8_length_eq Let_def)
qed

text \<open>A forked section comes out preceded by its length.\<close>

lemma emits_delim [emits_intros]:
  assumes f: "emits f bs"
  shows "emits (\<lambda>w. w_ldelim (f (w_fork w))) (delim bs)"
  unfolding emits_def
proof
  fix w :: Writer
  define x where "x = f (w_fork w)"
  have fork: "w_out (w_fork w) = []" "w_len (w_fork w) = 0" "w_states (w_fork w) = (w_len w, w_ops w) # w_states w"
    by (simp_all add: w_fork_def w_out_def)
  then have x: "ops_out (w_ops x) = bs" "w_len x = length bs" "w_states x = (w_len w, w_ops w) # w_states w"
    using f by (simp_all add: emits_def x_def flip: w_out_def)
  have ok: "list_all op_ok (w_ops x)" if "w_ok w"
  proof -
    have "w_ok (w_fork w)" using that by (simp add: w_ok_def w_fork_def level_ok_def)
    then have "w_ok x" using f unfolding emits_def x_def by blast
    then show ?thesis by (simp add: w_ok_def level_ok_def)
  qed
  define u where "u = w_uint32 (int (length bs)) w"
  have u: "w_out u = w_out w @ uint32_bytes (int (length bs))"
      "w_len u = w_len w + length (uint32_bytes (int (length bs)))"
      "w_states u = w_states w" "w_ok w \<Longrightarrow> w_ok u"
    using emits_uint32 [of "int (length bs)"] by (simp_all add: emits_def u_def)
  have r: "w_reset x = w" by (simp add: w_reset_def x)
  have l: "w_ldelim x = (if bs = [] then u else u\<lparr>w_ops := w_ops u @ w_ops x, w_len := w_len u + length bs\<rparr>)"
    unfolding w_ldelim_def Let_def r by (simp add: x u_def)
  show "w_out (w_ldelim (f (w_fork w))) = w_out w @ delim bs \<and>
      w_len (w_ldelim (f (w_fork w))) = w_len w + length (delim bs) \<and>
      w_states (w_ldelim (f (w_fork w))) = w_states w \<and>
      (w_ok w \<longrightarrow> w_ok (w_ldelim (f (w_fork w))))"
    using u x ok unfolding x_def [symmetric] l delim_def
    by (auto simp: w_out_def w_ok_def level_ok_def)
qed

lemma emits_sint32 [emits_intros]:
  "emits (w_sint32 v) (uint32_bytes (uint (push_bit 1 (word_of_int v) XOR signed_drop_bit 31 (word_of_int v :: u32))))"
  unfolding w_sint32_def [abs_def] Let_def by (rule emits_uint32)

lemma emits_sint64 [emits_intros]:
  "emits (w_sint64 v) (varint_bytes (LongBits_val (LongBits_zzEncode (LongBits_fromNumber v))))"
  using emits_varint64 [of "LongBits_zzEncode (LongBits_fromNumber v)"]
  by (simp add: w_sint64_def [abs_def] LongBits_from_def LongBits_length_eq Let_def)

lemma emits_fixed32 [emits_intros]: "emits (w_fixed32 v) (le32_bytes (word_of_int v))"
  using emits_push [of "WriteFixed32 (word_of_int v)" 4] by (simp add: w_fixed32_def [abs_def] le32_bytes_def)

lemma emits_fixed64 [emits_intros]:
  "emits (w_fixed64 v)
     (le32_bytes (lo (LongBits_fromNumber v)) @ le32_bytes (hi (LongBits_fromNumber v)))"
proof -
  have "emits (\<lambda>w. w_push (WriteFixed32 (hi (LongBits_fromNumber v))) 4
      (w_push (WriteFixed32 (lo (LongBits_fromNumber v))) 4 w))
    (op_bytes (WriteFixed32 (lo (LongBits_fromNumber v))) @ op_bytes (WriteFixed32 (hi (LongBits_fromNumber v))))"
    by (intro emits_comp emits_push) (simp_all add: le32_bytes_def)
  then show ?thesis by (simp add: w_fixed64_def [abs_def] LongBits_from_def Let_def)
qed

lemma emits_bytes [emits_intros]:
  assumes "length v < 4294967296"
  shows "emits (w_bytes v) (delim v)"
proof (cases "v = []")
  case True
  then show ?thesis
    using emits_push [of "WriteByte 0" 1]
    by (simp add: w_bytes_def [abs_def] delim_def uint32_bytes_def varint_bytes_small)
next
  case False
  have "emits (\<lambda>w. w_push (WriteBytes v) (length v) (w_uint32 (int (length v)) w))
      (uint32_bytes (int (length v)) @ op_bytes (WriteBytes v))"
    by (intro emits_comp emits_push emits_uint32) simp
  then show ?thesis using False assms by (simp add: w_bytes_def [abs_def] delim_def Let_def)
qed

lemma w_ok_fork: "w_ok w \<Longrightarrow> w_ok (w_fork w)"
  by (simp add: w_ok_def w_fork_def level_ok_def)

lemma w_ok_reset: "w_ok w \<Longrightarrow> w_ok (w_reset w)"
  by (cases "w_states w") (auto simp: w_ok_def w_reset_def level_ok_def)

lemma w_ok_uint32: "w_ok w \<Longrightarrow> w_ok (w_uint32 v w)"
  using emits_uint32 by (simp add: emits_def)

lemma w_ok_ldelim: "w_ok w \<Longrightarrow> w_ok (w_ldelim w)"
  using w_ok_uint32 [OF w_ok_reset, of w "int (w_len w)"]
  by (auto simp: w_ldelim_def Let_def w_ok_def level_ok_def)

lemma emits_ok: "emits f bs \<Longrightarrow> w_ok w \<Longrightarrow> w_ok (f w)"
  by (simp add: emits_def)

end
