(* ===== verification/Reader.thy ===== *)
theory Reader
  imports Writer
begin

text \<open>
  \<open>protobufjs/src/reader.js\<close>: a cursor over a \<open>Uint8Array\<close>. A method takes the reader
  and returns its value with the moved reader, or throws. Reads past the end of the array
  give \<open>undefined\<close> (\<open>byte_at\<close>, \<open>byte_lt128\<close>), and the code checks the position
  against \<open>len\<close> only where the model does.

  The second half relates the reader to the writer: \<open>reads rd bs v\<close> says that \<open>rd\<close>
  returns \<open>v\<close> wherever the bytes \<open>bs\<close> lie in the buffer and stops right behind them,
  and \<open>advances rd\<close> that a call that returns has moved the cursor forward, to at most
  one byte behind the end.
\<close>

record Reader =
  r_buf :: "u8 list"
  r_pos :: nat
  r_len :: nat

definition Reader_create :: "u8 list \<Rightarrow> Reader" where
  "Reader_create buffer = \<lparr>r_buf = buffer, r_pos = 0, r_len = length buffer\<rparr>"

text \<open>What a call returns, without the reader it leaves.\<close>

abbreviation returned :: "('a \<times> Reader) res \<Rightarrow> 'a res" where
  "returned x \<equiv> map_option (map_sum id fst) x"

text \<open>\<open>indexOutOfRange(reader, writeLength)\<close>; a missing or zero length counts as 1.\<close>

definition out_of_range :: "Reader \<Rightarrow> nat \<Rightarrow> js_error" where
  "out_of_range r n = RangeError (r_pos r) (if n = 0 then 1 else n) (r_len r)"

abbreviation r_byte :: "Reader \<Rightarrow> u32" where
  "r_byte r \<equiv> byte_at (r_buf r) (r_pos r)"

abbreviation r_last :: "Reader \<Rightarrow> bool" where
  "r_last r \<equiv> byte_lt128 (r_buf r) (r_pos r)"

definition r_move :: "nat \<Rightarrow> Reader \<Rightarrow> Reader" where
  "r_move n r = r\<lparr>r_pos := r_pos r + n\<rparr>"

section \<open>32-bit numbers\<close>

text \<open>
  \<open>read_uint32\<close>: up to five bytes; a fifth byte with its continuation bit set makes the
  method skip five more without looking at them.
\<close>

definition r_uint32 :: "Reader \<Rightarrow> (u32 \<times> Reader) res" where
  "r_uint32 r =
     (let value = r_byte r AND 127; last = r_last r; r = r_move 1 r in
      if last then ok (value, r) else
      let value = value OR push_bit 7 (r_byte r AND 127); last = r_last r; r = r_move 1 r in
      if last then ok (value, r) else
      let value = value OR push_bit 14 (r_byte r AND 127); last = r_last r; r = r_move 1 r in
      if last then ok (value, r) else
      let value = value OR push_bit 21 (r_byte r AND 127); last = r_last r; r = r_move 1 r in
      if last then ok (value, r) else
      let value = value OR push_bit 28 (r_byte r AND 15); last = r_last r; r = r_move 1 r in
      if last then ok (value, r) else
      let r = r_move 5 r in
      if r_pos r > r_len r then throw (out_of_range (r\<lparr>r_pos := r_len r\<rparr>) 10)
      else ok (value, r))"

definition map_res :: "('a \<Rightarrow> 'b) \<Rightarrow> ('a \<times> Reader) res \<Rightarrow> ('b \<times> Reader) res" where
  "map_res f x = bindr x (\<lambda>(a, r). ok (f a, r))"

text \<open>A field of type \<open>uint32\<close> holds the number itself.\<close>

definition r_uint32_number :: "Reader \<Rightarrow> (int \<times> Reader) res" where
  "r_uint32_number r = map_res uint (r_uint32 r)"

definition r_int32 :: "Reader \<Rightarrow> (int \<times> Reader) res" where
  "r_int32 r = map_res sint (r_uint32 r)"

definition r_sint32 :: "Reader \<Rightarrow> (int \<times> Reader) res" where
  "r_sint32 r = map_res (\<lambda>value. sint (drop_bit 1 value XOR - (value AND 1))) (r_uint32 r)"

definition r_bool :: "Reader \<Rightarrow> (bool \<times> Reader) res" where
  "r_bool r = map_res (\<lambda>value. value \<noteq> 0) (r_uint32 r)"

section \<open>64-bit numbers\<close>

definition put_lo :: "nat \<Rightarrow> u32 \<Rightarrow> LongBits \<Rightarrow> LongBits" where
  "put_lo i b bits = bits\<lparr>lo := lo bits OR push_bit (i * 7) (b AND 127)\<rparr>"

definition put_hi :: "nat \<Rightarrow> u32 \<Rightarrow> LongBits \<Rightarrow> LongBits" where
  "put_hi i b bits = bits\<lparr>hi := hi bits OR push_bit (i * 7 + 3) (b AND 127)\<rparr>"

text \<open>
  The loops of \<open>readLongVarint\<close>, from \<open>i\<close> up to \<open>n\<close>, with or without the check of the
  position. The flag of the result says whether the loop has returned from the function.
\<close>

function long_loop :: "bool \<Rightarrow> (nat \<Rightarrow> u32 \<Rightarrow> LongBits \<Rightarrow> LongBits) \<Rightarrow> nat \<Rightarrow> nat \<Rightarrow> LongBits \<Rightarrow>
    Reader \<Rightarrow> (bool \<times> LongBits \<times> Reader) res" where
  "long_loop check put i n bits r =
     (if i < n then
        if check \<and> r_pos r \<ge> r_len r then throw (out_of_range r 1)
        else if r_last r then ok (True, put i (r_byte r) bits, r_move 1 r)
        else long_loop check put (i + 1) n (put i (r_byte r) bits) (r_move 1 r)
      else ok (False, bits, r))"
  by pat_completeness auto
termination by (relation "measure (\<lambda>(check, put, i, n, bits, r). n - i)") auto

declare long_loop.simps [simp del]

definition readLongVarint_hi :: "LongBits \<Rightarrow> Reader \<Rightarrow> (LongBits \<times> Reader) res" where
  "readLongVarint_hi bits r =
     bindr (long_loop (\<not> r_len r > r_pos r + 4) put_hi 0 5 bits r) (\<lambda>(stopped, bits, r).
       if stopped then ok (bits, r) else throw InvalidVarint)"

definition readLongVarint :: "Reader \<Rightarrow> (LongBits \<times> Reader) res" where
  "readLongVarint r =
     (if r_len r > r_pos r + 4 then
        bindr (long_loop False put_lo 0 4 LongBits_zero r) (\<lambda>(stopped, bits, r).
          if stopped then ok (bits, r)
          else
            let bits = \<lparr>lo = lo bits OR push_bit 28 (r_byte r AND 127),
                        hi = hi bits OR drop_bit 4 (r_byte r AND 127)\<rparr>
            in if r_last r then ok (bits, r_move 1 r) else readLongVarint_hi bits (r_move 1 r))
      else
        bindr (long_loop True put_lo 0 3 LongBits_zero r) (\<lambda>(stopped, bits, r).
          if stopped then ok (bits, r) else ok (put_lo 3 (r_byte r) bits, r_move 1 r)))"

definition r_int64 :: "Reader \<Rightarrow> (int \<times> Reader) res" where
  "r_int64 r = map_res (LongBits_toNumber False) (readLongVarint r)"

definition r_uint64 :: "Reader \<Rightarrow> (int \<times> Reader) res" where
  "r_uint64 r = map_res (LongBits_toNumber True) (readLongVarint r)"

definition r_sint64 :: "Reader \<Rightarrow> (int \<times> Reader) res" where
  "r_sint64 r = map_res (\<lambda>b. LongBits_toNumber False (LongBits_zzDecode b)) (readLongVarint r)"

section \<open>Fixed width\<close>

definition readFixed32_end :: "u8 list \<Rightarrow> nat \<Rightarrow> u32" where
  "readFixed32_end buf e =
     byte_at buf (e - 4) OR push_bit 8 (byte_at buf (e - 3)) OR push_bit 16 (byte_at buf (e - 2))
       OR push_bit 24 (byte_at buf (e - 1))"

definition r_fixed32 :: "Reader \<Rightarrow> (int \<times> Reader) res" where
  "r_fixed32 r =
     (if r_pos r + 4 > r_len r then throw (out_of_range r 4)
      else ok (uint (readFixed32_end (r_buf r) (r_pos r + 4)), r_move 4 r))"

definition r_sfixed32 :: "Reader \<Rightarrow> (int \<times> Reader) res" where
  "r_sfixed32 r =
     (if r_pos r + 4 > r_len r then throw (out_of_range r 4)
      else ok (sint (readFixed32_end (r_buf r) (r_pos r + 4)), r_move 4 r))"

definition readFixed64 :: "Reader \<Rightarrow> (LongBits \<times> Reader) res" where
  "readFixed64 r =
     (if r_pos r + 8 > r_len r then throw (out_of_range r 8)
      else ok (\<lparr>lo = readFixed32_end (r_buf r) (r_pos r + 4),
                hi = readFixed32_end (r_buf r) (r_pos r + 8)\<rparr>, r_move 8 r))"

definition r_fixed64 :: "Reader \<Rightarrow> (int \<times> Reader) res" where
  "r_fixed64 r = map_res (LongBits_toNumber True) (readFixed64 r)"

definition r_sfixed64 :: "Reader \<Rightarrow> (int \<times> Reader) res" where
  "r_sfixed64 r = map_res (LongBits_toNumber False) (readFixed64 r)"

text \<open>
  \<open>util.float.readFloatLE\<close> and \<open>readDoubleLE\<close> copy the bytes into the typed array they
  share with a \<open>Float32Array\<close> or \<open>Float64Array\<close>; a float is its bit pattern here.
\<close>

definition readFloatLE :: "u8 list \<Rightarrow> nat \<Rightarrow> u32" where
  "readFloatLE buf pos =
     byte_at buf pos OR push_bit 8 (byte_at buf (pos + 1)) OR push_bit 16 (byte_at buf (pos + 2))
       OR push_bit 24 (byte_at buf (pos + 3))"

definition readDoubleLE :: "u8 list \<Rightarrow> nat \<Rightarrow> 64 word" where
  "readDoubleLE buf pos =
     ucast (readFloatLE buf pos) OR push_bit 32 (ucast (readFloatLE buf (pos + 4)))"

definition r_float :: "Reader \<Rightarrow> (u32 \<times> Reader) res" where
  "r_float r =
     (if r_pos r + 4 > r_len r then throw (out_of_range r 4)
      else ok (readFloatLE (r_buf r) (r_pos r), r_move 4 r))"

text \<open>The error of \<open>read_double\<close> names a length of 4.\<close>

definition r_double :: "Reader \<Rightarrow> (64 word \<times> Reader) res" where
  "r_double r =
     (if r_pos r + 8 > r_len r then throw (out_of_range r 4)
      else ok (readDoubleLE (r_buf r) (r_pos r), r_move 8 r))"

section \<open>Length-delimited data\<close>

definition r_bytes :: "Reader \<Rightarrow> (u8 list \<times> Reader) res" where
  "r_bytes r =
     bindr (r_uint32 r) (\<lambda>(len, r).
       let n = unat len in
       if r_pos r + n > r_len r then throw (out_of_range r n)
       else ok (take n (drop (r_pos r) (r_buf r)), r_move n r))"

definition r_string :: "Reader \<Rightarrow> (jstring \<times> Reader) res" where
  "r_string r = map_res (\<lambda>bytes. utf8_read bytes 0 (length bytes)) (r_bytes r)"

section \<open>Skipping\<close>

text \<open>\<open>skip(length)\<close> and \<open>skip()\<close>.\<close>

definition r_skip :: "nat \<Rightarrow> Reader \<Rightarrow> Reader res" where
  "r_skip n r = (if r_pos r + n > r_len r then throw (out_of_range r n) else ok (r_move n r))"

function r_skip_varint :: "Reader \<Rightarrow> Reader res" where
  "r_skip_varint r =
     (if r_pos r \<ge> r_len r then throw (out_of_range r 1)
      else if r_byte r AND 128 \<noteq> 0 then r_skip_varint (r_move 1 r)
      else ok (r_move 1 r))"
  by pat_completeness auto
termination by (relation "measure (\<lambda>r. r_len r - r_pos r)") (auto simp: r_move_def)

declare r_skip_varint.simps [simp del]

text \<open>
  \<open>skipType(wireType)\<close> with the loop of a group: \<open>skip_types (Some w)\<close> is the call
  \<open>skipType(w)\<close>, \<open>skip_types None\<close> its loop from the next tag on.
\<close>

partial_function (option) skip_types :: "u32 option \<Rightarrow> Reader \<Rightarrow> Reader res" where
  "skip_types t r =
     (case t of
        None \<Rightarrow>
          bindr (r_uint32 r) (\<lambda>(tag, r).
            if tag AND 7 = 4 then ok r
            else bindr (skip_types (Some (tag AND 7)) r) (\<lambda>r. skip_types None r))
      | Some w \<Rightarrow>
          if w = 0 then r_skip_varint r
          else if w = 1 then r_skip 8 r
          else if w = 2 then bindr (r_uint32 r) (\<lambda>(n, r). r_skip (unat n) r)
          else if w = 3 then skip_types None r
          else if w = 5 then r_skip 4 r
          else throw (InvalidWireType w (r_pos r)))"

definition r_skipType :: "u32 \<Rightarrow> Reader \<Rightarrow> Reader res" where
  "r_skipType w r = skip_types (Some w) r"

section \<open>Progress\<close>

text \<open>
  A method that returns has moved the cursor by at least one byte and no further than the end
  of the buffer, or one behind it: the only read that can step over the end is the fourth byte of
  a truncated 64-bit number. The buffer never changes.
\<close>

definition same_buf :: "Reader \<Rightarrow> Reader \<Rightarrow> bool" where
  "same_buf r r' \<longleftrightarrow> r_buf r' = r_buf r \<and> r_len r' = r_len r"

definition r_wf :: "Reader \<Rightarrow> bool" where
  "r_wf r \<longleftrightarrow> r_len r = length (r_buf r) \<and> r_pos r \<le> r_len r + 1"

definition advances :: "(Reader \<Rightarrow> ('a \<times> Reader) res) \<Rightarrow> nat \<Rightarrow> bool" where
  "advances rd slack \<longleftrightarrow>
     (\<forall>r. r_wf r \<longrightarrow> rd r \<noteq> None \<and>
       (\<forall>v r'. rd r = ok (v, r') \<longrightarrow>
          r_pos r < r_pos r' \<and> r_pos r' \<le> r_len r + slack \<and> same_buf r r'))"

named_theorems advances_intros "methods of the reader move the cursor forward"

lemma same_buf_refl [simp]: "same_buf r r"
  by (simp add: same_buf_def)

lemma same_buf_trans: "same_buf r s \<Longrightarrow> same_buf s t \<Longrightarrow> same_buf r t"
  by (simp add: same_buf_def)

lemma r_move_simps [simp]:
  "r_buf (r_move n r) = r_buf r" "r_len (r_move n r) = r_len r" "r_pos (r_move n r) = r_pos r + n"
  "r_move m (r_move n r) = r_move (n + m) r" "same_buf r (r_move n r)" "r_move 0 r = r"
  by (simp_all add: r_move_def same_buf_def)

lemma byte_lt128_bound: "byte_lt128 buf i \<Longrightarrow> i < length buf"
  by (simp add: byte_lt128_def)

lemma advancesD:
  assumes "advances rd slack" "r_wf r"
  shows "rd r \<noteq> None"
    and "rd r = ok (v, r') \<Longrightarrow> r_pos r < r_pos r' \<and> r_pos r' \<le> r_len r + slack \<and> same_buf r r'"
  using assms by (auto simp: advances_def)

lemma advances_weaken: "advances rd slack \<Longrightarrow> slack \<le> slack' \<Longrightarrow> advances rd slack'"
  by (fastforce simp: advances_def)

lemma advances_wf: "advances rd 1 \<Longrightarrow> r_wf r \<Longrightarrow> rd r = ok (v, r') \<Longrightarrow> r_wf r'"
  using advancesD(2) [of rd 1 r v r'] by (auto simp: r_wf_def same_buf_def)

lemma map_res_eq_ok: "map_res f x = ok (b, r) \<longleftrightarrow> (\<exists>a. x = ok (a, r) \<and> b = f a)"
  by (auto simp: map_res_def bindr_eq_ok)

lemma map_res_eq_None: "map_res f x = None \<longleftrightarrow> x = None"
  by (auto simp: map_res_def bindr_eq_None)

lemma advances_map: "advances rd slack \<Longrightarrow> advances (\<lambda>r. map_res f (rd r)) slack"
  by (auto simp: advances_def map_res_eq_ok map_res_eq_None)

lemma advances_uint32 [advances_intros]: "advances r_uint32 0"
  unfolding advances_def r_uint32_def Let_def r_wf_def
  by (auto dest: byte_lt128_bound split: if_splits)

lemma advances_uint32_number [advances_intros]: "advances r_uint32_number 0"
  unfolding r_uint32_number_def [abs_def] by (intro advances_map advances_uint32)

lemma advances_int32 [advances_intros]: "advances r_int32 0"
  unfolding r_int32_def [abs_def] by (intro advances_map advances_uint32)

lemma advances_sint32 [advances_intros]: "advances r_sint32 0"
  unfolding r_sint32_def [abs_def] by (intro advances_map advances_uint32)

lemma advances_bool [advances_intros]: "advances r_bool 0"
  unfolding r_bool_def [abs_def] by (intro advances_map advances_uint32)

lemma long_loop_not_None [simp]: "long_loop check put i n bits r \<noteq> None"
  by (induction check put i n bits r rule: long_loop.induct) (subst long_loop.simps, simp)

lemma long_loop_ok:
  "long_loop check put i n bits r = ok (stopped, bits', r') \<Longrightarrow> i \<le> n \<Longrightarrow>
   r_len r = length (r_buf r) \<Longrightarrow>
   same_buf r r' \<and> r_pos r \<le> r_pos r' \<and>
   (stopped \<longrightarrow> r_pos r < r_pos r' \<and> r_pos r' \<le> r_len r) \<and>
   (\<not> stopped \<longrightarrow> r_pos r' = r_pos r + (n - i) \<and> (check \<and> i < n \<longrightarrow> r_pos r' \<le> r_len r))"
proof (induction check put i n bits r rule: long_loop.induct)
  case (1 check put i n bits r)
  show ?case
  proof (cases "i < n")
    case False
    then show ?thesis using 1(2-4) by (subst (asm) long_loop.simps) auto
  next
    case True
    show ?thesis
    proof (cases "(check \<and> r_pos r \<ge> r_len r) \<or> r_last r")
      case stop: True
      then show ?thesis
        using True 1(2-4) by (subst (asm) long_loop.simps)
          (auto dest: byte_lt128_bound split: if_splits simp: same_buf_def)
    next
      case go: False
      then have "long_loop check put (i + 1) n (put i (r_byte r) bits) (r_move 1 r) = ok (stopped, bits', r')"
        using True 1(2) by (subst (asm) long_loop.simps) auto
      from 1(1) [OF True _ _ this] True go 1(4) show ?thesis
        by (auto simp: same_buf_def)
    qed
  qed
qed

lemma long_loop_end:
  assumes "r_wf r" "long_loop check put 0 n bits r = ok (stopped, bits', r')"
  shows "same_buf r r'" "r_pos r \<le> r_pos r'"
    "stopped \<Longrightarrow> r_pos r < r_pos r' \<and> r_pos r' \<le> r_len r"
    "\<not> stopped \<Longrightarrow> r_pos r' = r_pos r + n \<and> (check \<and> 0 < n \<longrightarrow> r_pos r' \<le> r_len r)"
  using long_loop_ok [OF assms(2)] assms(1) by (auto simp: r_wf_def)

lemma advances_hi: "advances (readLongVarint_hi bits) 0"
  unfolding advances_def readLongVarint_hi_def
  by (auto simp: bindr_eq_ok bindr_eq_None split: if_splits dest: long_loop_end)

text \<open>The two halves of \<open>readLongVarint\<close>: with more than four bytes left, and with fewer.\<close>

definition readLongVarint_fast :: "bool \<times> LongBits \<times> Reader \<Rightarrow> (LongBits \<times> Reader) res" where
  "readLongVarint_fast = (\<lambda>(stopped, bits, r).
     if stopped then ok (bits, r)
     else
       let bits = \<lparr>lo = lo bits OR push_bit 28 (r_byte r AND 127),
                   hi = hi bits OR drop_bit 4 (r_byte r AND 127)\<rparr>
       in if r_last r then ok (bits, r_move 1 r) else readLongVarint_hi bits (r_move 1 r))"

lemma readLongVarint_alt:
  "readLongVarint r =
     (if r_len r > r_pos r + 4 then
        bindr (long_loop False put_lo 0 4 LongBits_zero r) readLongVarint_fast
      else
        bindr (long_loop True put_lo 0 3 LongBits_zero r) (\<lambda>(stopped, bits, r).
          if stopped then ok (bits, r) else ok (put_lo 3 (r_byte r) bits, r_move 1 r)))"
  by (simp add: readLongVarint_def readLongVarint_fast_def)

lemma readLongVarint_fast_ok:
  assumes "r_wf s" "\<not> stopped \<Longrightarrow> r_pos s < r_len s"
  shows "readLongVarint_fast (stopped, bits, s) \<noteq> None"
    and "readLongVarint_fast (stopped, bits, s) = ok (v, r') \<Longrightarrow>
      r_pos s \<le> r_pos r' \<and> (\<not> stopped \<longrightarrow> r_pos s < r_pos r' \<and> r_pos r' \<le> r_len s) \<and> same_buf s r' \<and>
      (stopped \<longrightarrow> r' = s)"
proof -
  have wf: "\<not> stopped \<Longrightarrow> r_wf (r_move 1 s)" using assms by (simp add: r_wf_def)
  show "readLongVarint_fast (stopped, bits, s) \<noteq> None"
    using advancesD(1) [OF advances_hi wf] by (simp add: readLongVarint_fast_def Let_def)
  assume a: "readLongVarint_fast (stopped, bits, s) = ok (v, r')"
  show "r_pos s \<le> r_pos r' \<and> (\<not> stopped \<longrightarrow> r_pos s < r_pos r' \<and> r_pos r' \<le> r_len s) \<and> same_buf s r' \<and>
      (stopped \<longrightarrow> r' = s)"
  proof (cases stopped)
    case True
    then show ?thesis using a by (simp add: readLongVarint_fast_def)
  next
    case False
    then show ?thesis
      using a assms advancesD(2) [OF advances_hi wf]
      by (fastforce simp: readLongVarint_fast_def Let_def same_buf_def split: if_splits)
  qed
qed

lemma advances_readLongVarint: "advances readLongVarint 1"
  unfolding advances_def
proof (intro allI impI)
  fix r assume wf: "r_wf r"
  show "readLongVarint r \<noteq> None \<and> (\<forall>v r'. readLongVarint r = ok (v, r') \<longrightarrow>
      r_pos r < r_pos r' \<and> r_pos r' \<le> r_len r + 1 \<and> same_buf r r')"
  proof (cases "r_len r > r_pos r + 4")
    case True
    have s: "r_wf s \<and> (\<not> stopped \<longrightarrow> r_pos s < r_len s) \<and> r_pos r < r_pos s \<and> r_pos s \<le> r_len r \<and> same_buf r s"
      if l: "long_loop False put_lo 0 4 LongBits_zero r = ok (stopped, bits, s)" for stopped bits s
      using long_loop_end [OF wf l] wf True by (cases stopped) (auto simp: r_wf_def same_buf_def)
    have "readLongVarint r \<noteq> None"
      using s readLongVarint_fast_ok(1) by (auto simp: readLongVarint_alt True bindr_eq_None)
    moreover have "r_pos r < r_pos r' \<and> r_pos r' \<le> r_len r + 1 \<and> same_buf r r'"
      if "readLongVarint r = ok (v, r')" for v r'
    proof -
      from that obtain stopped bits s where
        l: "long_loop False put_lo 0 4 LongBits_zero r = ok (stopped, bits, s)"
        and f: "readLongVarint_fast (stopped, bits, s) = ok (v, r')"
        by (auto simp: readLongVarint_alt True bindr_eq_ok)
      show ?thesis using s [OF l] readLongVarint_fast_ok(2) [OF _ _ f]
        by (cases stopped) (auto simp: same_buf_def)
    qed
    ultimately show ?thesis by blast
  next
    case False
    have s: "r_pos r \<le> r_pos s \<and> (stopped \<longrightarrow> r_pos r < r_pos s) \<and> r_pos s \<le> r_len r \<and> same_buf r s"
      if l: "long_loop True put_lo 0 3 LongBits_zero r = ok (stopped, bits, s)" for stopped bits s
      using long_loop_end [OF wf l] by (cases stopped) auto
    have "readLongVarint r \<noteq> None"
      using False by (auto simp: readLongVarint_alt bindr_eq_None split: if_splits)
    moreover have "r_pos r < r_pos r' \<and> r_pos r' \<le> r_len r + 1 \<and> same_buf r r'"
      if "readLongVarint r = ok (v, r')" for v r'
    proof -
      from that False obtain stopped bits s where
        l: "long_loop True put_lo 0 3 LongBits_zero r = ok (stopped, bits, s)"
        and g: "(if stopped then ok (bits, s) else ok (put_lo 3 (r_byte s) bits, r_move 1 s)) = ok (v, r')"
        by (auto simp: readLongVarint_alt bindr_eq_ok)
      from g have f: "r' = (if stopped then s else r_move 1 s)" by (simp split: if_splits)
      show ?thesis using s [OF l] f by (auto simp: same_buf_def)
    qed
    ultimately show ?thesis by blast
  qed
qed

lemma advances_int64 [advances_intros]: "advances r_int64 1"
  unfolding r_int64_def [abs_def] by (intro advances_map advances_readLongVarint)

lemma advances_uint64 [advances_intros]: "advances r_uint64 1"
  unfolding r_uint64_def [abs_def] by (intro advances_map advances_readLongVarint)

lemma advances_sint64 [advances_intros]: "advances r_sint64 1"
  unfolding r_sint64_def [abs_def] by (intro advances_map advances_readLongVarint)

lemma advances_fixed32 [advances_intros]: "advances r_fixed32 0"
  by (auto simp: advances_def r_fixed32_def)

lemma advances_sfixed32 [advances_intros]: "advances r_sfixed32 0"
  by (auto simp: advances_def r_sfixed32_def)

lemma advances_readFixed64: "advances readFixed64 0"
  by (auto simp: advances_def readFixed64_def)

lemma advances_fixed64 [advances_intros]: "advances r_fixed64 0"
  unfolding r_fixed64_def [abs_def] by (intro advances_map advances_readFixed64)

lemma advances_sfixed64 [advances_intros]: "advances r_sfixed64 0"
  unfolding r_sfixed64_def [abs_def] by (intro advances_map advances_readFixed64)

lemma advances_float [advances_intros]: "advances r_float 0"
  by (auto simp: advances_def r_float_def)

lemma advances_double [advances_intros]: "advances r_double 0"
  by (auto simp: advances_def r_double_def)

lemma advances_bytes: "advances r_bytes 0"
  unfolding advances_def
proof (intro allI impI conjI)
  fix r assume wf: "r_wf r"
  show "r_bytes r \<noteq> None"
    using advancesD(1) [OF advances_uint32 wf] by (auto simp: r_bytes_def bindr_eq_None Let_def split: if_splits)
  fix v r' assume "r_bytes r = ok (v, r')"
  then obtain n s where u: "r_uint32 r = ok (n, s)" and s: "r' = r_move (unat n) s" "r_pos s + unat n \<le> r_len s"
    by (auto simp: r_bytes_def bindr_eq_ok Let_def split: if_splits)
  show "r_pos r < r_pos r'" "r_pos r' \<le> r_len r + 0" "same_buf r r'"
    using advancesD(2) [OF advances_uint32 wf u] s by (auto simp: same_buf_def)
qed

lemma advances_string [advances_intros]: "advances r_string 0"
  unfolding r_string_def [abs_def] by (intro advances_map advances_bytes)

text \<open>Skipping an unknown field ends too, for groups nested to any depth.\<close>

definition skips :: "(Reader \<Rightarrow> Reader res) \<Rightarrow> Reader \<Rightarrow> bool" where
  "skips sk r \<longleftrightarrow> sk r \<noteq> None \<and>
     (\<forall>r'. sk r = ok r' \<longrightarrow> r_pos r < r_pos r' \<and> r_pos r' \<le> r_len r \<and> same_buf r r')"

lemma r_skip_varint_more:
  "r_pos r < r_len r \<and> r_byte r AND 128 \<noteq> 0 \<Longrightarrow> r_skip_varint r = r_skip_varint (r_move 1 r)"
  by (subst r_skip_varint.simps) simp

lemma r_skip_varint_last:
  "\<not> (r_pos r < r_len r \<and> r_byte r AND 128 \<noteq> 0) \<Longrightarrow> r_skip_varint r = (if r_pos r \<ge> r_len r then throw (out_of_range r 1) else ok (r_move 1 r))"
  by (subst r_skip_varint.simps) auto

lemma skips_varint_step:
  assumes c: "r_pos r < r_len r \<and> r_byte r AND 128 \<noteq> 0" and s: "skips r_skip_varint (r_move 1 r)"
  shows "skips r_skip_varint r"
  using s unfolding skips_def r_skip_varint_more [OF c] by (auto simp only: r_move_simps same_buf_def)

lemma skips_varint: "skips r_skip_varint r"
proof (induction r rule: r_skip_varint.induct)
  case (1 r)
  show ?case
  proof (cases "r_pos r < r_len r \<and> r_byte r AND 128 \<noteq> 0")
    case True
    show ?thesis by (rule skips_varint_step [OF True]) (rule 1, use True in auto)
  next
    case False
    show ?thesis unfolding skips_def r_skip_varint_last [OF False] by auto
  qed
qed

lemma skips_n: "0 < n \<Longrightarrow> skips (r_skip n) r"
  by (auto simp: skips_def r_skip_def)

lemma skips_bindr:
  assumes "rd r \<noteq> None"
    and "\<And>v s. rd r = ok (v, s) \<Longrightarrow>
      r_pos r < r_pos s \<and> same_buf r s \<and> f (v, s) \<noteq> None \<and>
      (\<forall>r'. f (v, s) = ok r' \<longrightarrow> r_pos s \<le> r_pos r' \<and> r_pos r' \<le> r_len s \<and> same_buf s r')"
  shows "skips (\<lambda>r. bindr (rd r) f) r"
  unfolding skips_def
proof (intro conjI allI impI)
  show "bindr (rd r) f \<noteq> None" using assms by (auto simp: bindr_eq_None)
  fix r' assume "bindr (rd r) f = ok r'"
  then obtain v s where "rd r = ok (v, s)" "f (v, s) = ok r'" by (auto simp: bindr_eq_ok)
  with assms(2) show "r_pos r < r_pos r'" "r_pos r' \<le> r_len r" "same_buf r r'"
    by (fastforce simp: same_buf_def)+
qed

lemma skips_cong: "sk r = sk' r \<Longrightarrow> skips sk r \<longleftrightarrow> skips sk' r"
  by (simp add: skips_def)

definition skip_rank :: "u32 option \<Rightarrow> nat" where
  "skip_rank t = (case t of None \<Rightarrow> 0 | Some _ \<Rightarrow> 1)"

lemma skip_types_end:
  assumes "r_wf r"
  shows "skips (skip_types t) r"
  using assms
proof (induction "2 * (r_len r + 1 - r_pos r) + skip_rank t" arbitrary: t r rule: less_induct)
  case (less t r)
  note u = advancesD [OF advances_uint32 \<open>r_wf r\<close>]
  have moved: "skips (skip_types t') s" "r_wf s"
    if "r_pos r < r_pos s" "r_pos s \<le> r_len s" "same_buf r s" for t' s
  proof -
    show "r_wf s" using that less.prems by (simp add: r_wf_def same_buf_def)
    moreover have "2 * (r_len s + 1 - r_pos s) + skip_rank t' < 2 * (r_len r + 1 - r_pos r) + skip_rank t"
      using that by (auto simp: skip_rank_def same_buf_def split: option.splits)
    ultimately show "skips (skip_types t') s" by (intro less.hyps)
  qed
  show ?case
  proof (cases t)
    case None
    have "skips (\<lambda>r. bindr (r_uint32 r) (\<lambda>(tag, r).
            if tag AND 7 = 4 then ok r
            else bindr (skip_types (Some (tag AND 7)) r) (\<lambda>r. skip_types None r))) r"
    proof (rule skips_bindr)
      show "r_uint32 r \<noteq> None" by (rule u)
      fix tag s assume "r_uint32 r = ok (tag, s)"
      then have s: "r_pos r < r_pos s" "r_pos s \<le> r_len s" "same_buf r s"
        using u(2) by (auto simp: same_buf_def)
      have m: "skips (skip_types (Some w)) s" for w by (rule moved [OF s])
      have m2: "skips (skip_types None) s'" if "skip_types (Some w) s = ok s'" for w s'
        using m [of w] that s by (intro moved) (auto simp: skips_def same_buf_def)
      have g: "bindr (skip_types (Some w) s) (skip_types None) \<noteq> None" for w
        using m m2 by (auto simp: bindr_eq_None skips_def)
      have h: "r_pos s \<le> r_pos r' \<and> r_pos r' \<le> r_len s \<and> same_buf s r'"
        if "bindr (skip_types (Some w) s) (skip_types None) = ok r'" for w r'
      proof -
        from that obtain s' where 1: "skip_types (Some w) s = ok s'" and 2: "skip_types None s' = ok r'"
          by (auto simp: bindr_eq_ok)
        show ?thesis
          using m [of w] m2 [OF 1] 1 2 by (auto simp: skips_def same_buf_def)
      qed
      show "r_pos r < r_pos s \<and> same_buf r s \<and>
          (case (tag, s) of (tag, r) \<Rightarrow> if tag AND 7 = 4 then ok r
            else bindr (skip_types (Some (tag AND 7)) r) (\<lambda>r. skip_types None r)) \<noteq> None \<and>
          (\<forall>r'. (case (tag, s) of (tag, r) \<Rightarrow> if tag AND 7 = 4 then ok r
            else bindr (skip_types (Some (tag AND 7)) r) (\<lambda>r. skip_types None r)) = ok r' \<longrightarrow>
             r_pos s \<le> r_pos r' \<and> r_pos r' \<le> r_len s \<and> same_buf s r')"
        using s g h by (cases "tag AND 7 = 4") simp_all
    qed
    then show ?thesis
      by (rule skips_cong [THEN iffD1, rotated]) (simp add: None skip_types.simps [of None])
  next
    case (Some w)
    have "skips (\<lambda>r. bindr (r_uint32 r) (\<lambda>(n, r). r_skip (unat n) r)) r"
    proof (rule skips_bindr)
      show "r_uint32 r \<noteq> None" by (rule u)
      fix n s assume "r_uint32 r = ok (n, s)"
      from u(2) [OF this]
      show "r_pos r < r_pos s \<and> same_buf r s \<and> (case (n, s) of (n, r) \<Rightarrow> r_skip (unat n) r) \<noteq> None \<and>
          (\<forall>r'. (case (n, s) of (n, r) \<Rightarrow> r_skip (unat n) r) = ok r' \<longrightarrow>
             r_pos s \<le> r_pos r' \<and> r_pos r' \<le> r_len s \<and> same_buf s r')"
        by (auto simp: r_skip_def)
    qed
    moreover have "skips (skip_types None) r" if "t \<noteq> None"
      using that less.prems by (intro less.hyps) (auto simp: skip_rank_def)
    moreover have "skips (\<lambda>r. throw (InvalidWireType w (r_pos r))) r"
      by (simp add: skips_def)
    ultimately have "skips (\<lambda>r. if w = 0 then r_skip_varint r
          else if w = 1 then r_skip 8 r
          else if w = 2 then bindr (r_uint32 r) (\<lambda>(n, r). r_skip (unat n) r)
          else if w = 3 then skip_types None r
          else if w = 5 then r_skip 4 r
          else throw (InvalidWireType w (r_pos r))) r"
      using Some skips_varint [of r] skips_n [of 8 r] skips_n [of 4 r]
      by (cases "w = 0"; cases "w = 1"; cases "w = 2"; cases "w = 3"; cases "w = 5") simp_all
    then show ?thesis
      by (rule skips_cong [THEN iffD1, rotated]) (simp add: Some skip_types.simps [of "Some w"])
  qed
qed

lemma skips_skipType: "r_wf r \<Longrightarrow> skips (r_skipType w) r"
  unfolding r_skipType_def [abs_def] by (rule skip_types_end)

end
