(* ===== verification/Wire.thy ===== *)
theory Wire
  imports Reader
begin

text \<open>
  The reader against the writer: each method of the reader returns what the method of the
  writer with the same name stored (\<open>emits\<close> in the theory of the writer), for every value
  the type of the field has. The lemmas are collected in \<open>reads_intros\<close>.
\<close>

definition reads :: "(Reader \<Rightarrow> ('a \<times> Reader) res) \<Rightarrow> u8 list \<Rightarrow> 'a \<Rightarrow> bool" where
  "reads rd bs v \<longleftrightarrow>
     (\<forall>r. r_len r = length (r_buf r) \<longrightarrow> bytes_at (r_buf r) (r_pos r) bs \<longrightarrow>
        rd r = ok (v, r_move (length bs) r))"

named_theorems reads_intros "what a reading method returns"

lemma readsD:
  "reads rd bs v \<Longrightarrow> r_len r = length (r_buf r) \<Longrightarrow> bytes_at (r_buf r) (r_pos r) bs \<Longrightarrow>
   rd r = ok (v, r_move (length bs) r)"
  by (simp add: reads_def)

lemma reads_map: "reads rd bs v \<Longrightarrow> w = f v \<Longrightarrow> reads (\<lambda>r. map_res f (rd r)) bs w"
  by (simp add: reads_def map_res_def)

section \<open>The bytes of a varint\<close>

definition varint_digit :: "nat \<Rightarrow> nat \<Rightarrow> nat" where
  "varint_digit n i = n div 128 ^ i mod 128 + (if n < 128 ^ Suc i then 0 else 128)"

lemma varint_digit_less: "varint_digit n i < 256"
proof -
  have "n div 128 ^ i mod 128 < 128" by simp
  moreover have "a < 128 \<Longrightarrow> a + (if P then 0 else 128) < 256" for a :: nat and P by simp
  ultimately show ?thesis unfolding varint_digit_def by blast
qed

lemma varint_nth:
  "i = 0 \<or> 128 ^ i \<le> n \<Longrightarrow>
   i < length (varint_bytes n) \<and> varint_bytes n ! i = word_of_nat (varint_digit n i)"
proof (induction i arbitrary: n)
  case 0
  then show ?case
    by (cases "n < 128") (simp_all add: varint_bytes_small varint_bytes_big varint_digit_def)
next
  case (Suc i)
  have "128 * 1 \<le> (128 :: nat) * 128 ^ i" by (rule mult_le_mono2) simp
  then have "128 \<le> n" if "128 ^ Suc i \<le> n"
    using that unfolding power_Suc by linarith
  then have n: "128 \<le> n" using Suc.prems by blast
  have "i = 0 \<or> 128 ^ i \<le> n div 128"
    using Suc.prems by (simp add: less_eq_div_iff_mult_less_eq mult.commute)
  moreover have "varint_digit (n div 128) i = varint_digit n (Suc i)"
    by (simp add: varint_digit_def div_mult2_eq div_less_iff_less_mult mult.commute)
  ultimately show ?case
    using Suc.IH [of "n div 128"] n by (simp add: varint_bytes_big)
qed

lemma varint_at:
  assumes "bytes_at buf p (varint_bytes n)" "i = 0 \<or> 128 ^ i \<le> n"
  shows "byte_at buf (p + i) = word_of_nat (varint_digit n i)"
    and "byte_at buf (p + i) AND 127 = word_of_nat (n div 128 ^ i mod 128)"
    and "byte_lt128 buf (p + i) \<longleftrightarrow> n < 128 ^ Suc i"
proof -
  have b: "p + i < length buf" "buf ! (p + i) = word_of_nat (varint_digit n i)"
    using varint_nth [OF assms(2)] bytes_at_nth [OF assms(1), of i] by simp_all
  have l: "varint_digit n i < 256" by (rule varint_digit_less)
  show 1: "byte_at buf (p + i) = word_of_nat (varint_digit n i)"
    unfolding byte_at_def using b widen_u8_nat [OF l] by simp
  have "varint_digit n i mod 128 = n div 128 ^ i mod 128"
    by (simp add: varint_digit_def)
  then show "byte_at buf (p + i) AND 127 = word_of_nat (n div 128 ^ i mod 128)"
    unfolding 1 by (simp only: nat_bits)
  have "unat (word_of_nat (varint_digit n i) :: u8) = varint_digit n i"
    using l by (simp add: unat_of_nat)
  then have "byte_lt128 buf (p + i) \<longleftrightarrow> varint_digit n i < 128"
    unfolding byte_lt128_def b(2) word_less_nat_alt using b(1) by simp
  then show "byte_lt128 buf (p + i) \<longleftrightarrow> n < 128 ^ Suc i"
    by (auto simp: varint_digit_def not_less)
qed

text \<open>One more digit of seven bits.\<close>

lemma or_digit:
  "(word_of_nat (n mod 2 ^ k) :: u32) OR push_bit k (word_of_nat (n div 2 ^ k mod 2 ^ j)) =
   word_of_nat (n mod 2 ^ (k + j))"
proof -
  have "n mod 2 ^ k + n div 2 ^ k mod 2 ^ j * 2 ^ k = n mod 2 ^ (k + j)"
    using mod_mult2_eq [of n "2 ^ k" "2 ^ j"] by (simp add: power_add mult.commute add.commute)
  then show ?thesis by (subst word_or_push) simp_all
qed

lemma or_digit_numerals:
  "(word_of_nat (n mod 128) :: u32) OR push_bit 7 (word_of_nat (n div 128 mod 128)) =
   word_of_nat (n mod 16384)"
  "(word_of_nat (n mod 16384) :: u32) OR push_bit 14 (word_of_nat (n div 16384 mod 128)) =
   word_of_nat (n mod 2097152)"
  "(word_of_nat (n mod 2097152) :: u32) OR push_bit 21 (word_of_nat (n div 2097152 mod 128)) =
   word_of_nat (n mod 268435456)"
  "(word_of_nat (n mod 268435456) :: u32) OR push_bit 28 (word_of_nat (n div 268435456 mod 16)) =
   word_of_nat (n mod 4294967296)"
  using or_digit [of n 7 7] or_digit [of n 14 7] or_digit [of n 21 7] or_digit [of n 28 4]
  by simp_all

lemma word_of_nat_mod32: "(word_of_nat (n mod 4294967296) :: u32) = word_of_nat n"
  by (simp add: word_unat_eq_iff unat_of_nat)

section \<open>32-bit numbers\<close>

text \<open>
  Up to five bytes the number itself; the ten bytes of a negative number give its low 32 bits.
\<close>

lemma varint_length_small:
  "n < 128 \<Longrightarrow> length (varint_bytes n) = 1"
  "128 \<le> n \<Longrightarrow> n < 16384 \<Longrightarrow> length (varint_bytes n) = 2"
  "16384 \<le> n \<Longrightarrow> n < 2097152 \<Longrightarrow> length (varint_bytes n) = 3"
  "2097152 \<le> n \<Longrightarrow> n < 268435456 \<Longrightarrow> length (varint_bytes n) = 4"
  "268435456 \<le> n \<Longrightarrow> n < 34359738368 \<Longrightarrow> length (varint_bytes n) = 5"
  "9223372036854775808 \<le> n \<Longrightarrow> n < 18446744073709551616 \<Longrightarrow> length (varint_bytes n) = 10"
  using length_varint_bytes_exact [of 0 n] varint_bytes_small [of n] length_varint_bytes_exact [of 1 n]
    length_varint_bytes_exact [of 2 n] length_varint_bytes_exact [of 3 n]
    length_varint_bytes_exact [of 4 n] length_varint_bytes_exact [of 9 n]
  by simp_all

lemma r_move_Suc:
  "r_move (Suc (Suc 0)) r = r_move 2 r" "r_move (Suc (Suc (Suc 0))) r = r_move 3 r"
  "r_move (Suc (Suc (Suc (Suc 0)))) r = r_move 4 r"
  "r_move (Suc (Suc (Suc (Suc (Suc 0))))) r = r_move 5 r"
  "r_move (Suc (Suc (Suc (Suc (Suc 5))))) r = r_move 10 r"
  by (simp_all add: eval_nat_numeral)

lemma reads_uint32_word:
  assumes "n < 4294967296 \<or> 9223372036854775808 \<le> n \<and> n < 18446744073709551616"
  shows "reads r_uint32 (varint_bytes n) (word_of_nat n)"
  unfolding reads_def
proof (intro allI impI)
  fix r :: Reader
  assume len: "r_len r = length (r_buf r)" and b: "bytes_at (r_buf r) (r_pos r) (varint_bytes n)"
  note at = varint_at [OF b]
  have at0: "r_byte r AND 127 = word_of_nat (n mod 128)" "r_last r \<longleftrightarrow> n < 128"
    using at(2,3) [of 0] by simp_all
  have at1: "r_byte (r_move 1 r) AND 127 = word_of_nat (n div 128 mod 128)"
    "r_last (r_move 1 r) \<longleftrightarrow> n < 16384" if "128 \<le> n"
    using at(2,3) [of 1] that by simp_all
  have at2: "r_byte (r_move 1 (r_move 1 r)) AND 127 = word_of_nat (n div 16384 mod 128)"
    "r_last (r_move 1 (r_move 1 r)) \<longleftrightarrow> n < 2097152" if "16384 \<le> n"
    using at(2,3) [of "Suc (Suc 0)"] that by simp_all
  have at3: "r_byte (r_move 1 (r_move 1 (r_move 1 r))) AND 127 = word_of_nat (n div 2097152 mod 128)"
    "r_last (r_move 1 (r_move 1 (r_move 1 r))) \<longleftrightarrow> n < 268435456" if "2097152 \<le> n"
    using at(2,3) [of "Suc (Suc (Suc 0))"] that by simp_all
  have at4: "r_byte (r_move 1 (r_move 1 (r_move 1 (r_move 1 r)))) AND 15 =
      word_of_nat (n div 268435456 mod 16)"
    "r_last (r_move 1 (r_move 1 (r_move 1 (r_move 1 r)))) \<longleftrightarrow> n < 34359738368" if "268435456 \<le> n"
  proof -
    have "(a mod 128 + 128) mod 16 = a mod (16 :: nat)" for a
      using mod_mult_self2 [of "a mod 128" 16 8] by (simp add: mod_mod_cancel)
    then have "varint_digit n 4 mod 16 = n div 268435456 mod 16"
      by (simp add: varint_digit_def mod_mod_cancel)
    moreover have "byte_at (r_buf r) (r_pos r + 4) AND 15 = word_of_nat (varint_digit n 4 mod 16)"
    proof -
      have "(4::nat) = 0 \<or> 128 ^ 4 \<le> n" using that by simp
      from at(1) [OF this] show ?thesis by (simp only: and_numerals_nat)
    qed
    moreover have "r_pos r + 4 = Suc (Suc (Suc (Suc (r_pos r))))" by simp
    ultimately show "r_byte (r_move 1 (r_move 1 (r_move 1 (r_move 1 r)))) AND 15 =
        word_of_nat (n div 268435456 mod 16)"
      by (simp only: r_move_simps) simp
    show "r_last (r_move 1 (r_move 1 (r_move 1 (r_move 1 r)))) \<longleftrightarrow> n < 34359738368"
      using at(3) [of "Suc (Suc (Suc (Suc 0)))"] that by simp
  qed
  have ten: "r_pos r + 10 \<le> r_len r" if "9223372036854775808 \<le> n" "n < 18446744073709551616"
    using bytes_at_bound [OF b] len varint_length_small(6) [OF that] by simp
  have small: "word_of_nat (n mod m) = (word_of_nat n :: u32)" if "n < m" for m
    using that by simp
  have move: "r_move 0 r = r" by simp
  consider "n < 128" | "128 \<le> n" "n < 16384" | "16384 \<le> n" "n < 2097152"
    | "2097152 \<le> n" "n < 268435456" | "268435456 \<le> n" "n < 4294967296"
    | "9223372036854775808 \<le> n" "n < 18446744073709551616"
    using assms by linarith
  then show "r_uint32 r = ok (word_of_nat n, r_move (length (varint_bytes n)) r)"
  proof cases
    case 1
    then show ?thesis using at0 by (simp add: r_uint32_def varint_length_small)
  next
    case 2
    then have "r_uint32 r = ok (word_of_nat n, r_move 1 (r_move 1 r))"
      using at0 at1 or_digit_numerals(1) [of n] by (simp add: r_uint32_def Let_def del: push_bit_and)
    then show ?thesis using 2 by (simp add: varint_length_small r_move_Suc)
  next
    case 3
    then have "r_uint32 r = ok (word_of_nat n, r_move 1 (r_move 1 (r_move 1 r)))"
      using at0 at1 at2 or_digit_numerals(1,2) [of n]
      by (simp add: r_uint32_def Let_def del: push_bit_and)
    then show ?thesis using 3 by (simp add: varint_length_small r_move_Suc)
  next
    case 4
    then have "r_uint32 r = ok (word_of_nat n, r_move 1 (r_move 1 (r_move 1 (r_move 1 r))))"
      using at0 at1 at2 at3 or_digit_numerals(1,2,3) [of n]
      by (simp add: r_uint32_def Let_def del: push_bit_and)
    then show ?thesis using 4 by (simp add: varint_length_small r_move_Suc)
  next
    case 5
    then have "r_uint32 r = ok (word_of_nat n, r_move 1 (r_move 1 (r_move 1 (r_move 1 (r_move 1 r)))))"
      using at0 at1 at2 at3 at4 or_digit_numerals(1,2,3,4) [of n]
      by (simp add: r_uint32_def Let_def del: push_bit_and)
    then show ?thesis using 5 by (simp add: varint_length_small r_move_Suc)
  next
    case 6
    then have "r_uint32 r = ok (word_of_nat n,
        r_move 5 (r_move 1 (r_move 1 (r_move 1 (r_move 1 (r_move 1 r))))))"
      using at0 at1 at2 at3 at4 or_digit_numerals(1,2,3,4) [of n] ten
      by (simp add: r_uint32_def Let_def word_of_nat_mod32 del: push_bit_and)
    then show ?thesis using 6 by (simp add: varint_length_small r_move_Suc)
  qed
qed

section \<open>64-bit numbers\<close>

text \<open>
  One loop of \<open>readLongVarint\<close> from digit \<open>d + i\<close> on; \<open>S j\<close> is the state of \<open>bits\<close>
  after \<open>j\<close> rounds.
\<close>

lemma long_loop_digits:
  assumes b: "bytes_at (r_buf r) p (varint_bytes n)" and len: "r_len r = length (r_buf r)"
    and put: "\<And>j x. j < k \<Longrightarrow> x AND 127 = word_of_nat (n div 128 ^ (d + j) mod 128) \<Longrightarrow>
      put j x (S j) = S (Suc j)"
    and i: "i \<le> k" "0 < k" "d + i = 0 \<or> 128 ^ (d + i) \<le> n" "r_pos r = p + (d + i)"
  shows "long_loop check put i k (S i) r =
    (if n < 128 ^ (d + k)
     then ok (True, S (length (varint_bytes n) - d), r_move (length (varint_bytes n) - d - i) r)
     else ok (False, S k, r_move (k - i) r))"
  using b len i
proof (induction "k - i" arbitrary: i r)
  case 0
  then have "i = k" "128 ^ (d + k) \<le> n" by auto
  then show ?case by (simp add: long_loop.simps)
next
  case (Suc m)
  note at = varint_at [OF Suc.prems(1) Suc.prems(5)]
  have pos: "r_pos r < r_len r"
    using varint_nth [OF Suc.prems(5)] bytes_at_bound [OF Suc.prems(1)] Suc.prems by simp
  have digit: "put i (r_byte r) (S i) = S (Suc i)"
    by (rule put) (use Suc.hyps at Suc.prems in simp_all)
  have last: "r_last r \<longleftrightarrow> n < 128 ^ Suc (d + i)"
    using at Suc.prems by simp
  have i: "i < k" using Suc.hyps by simp
  show ?case
  proof (cases "n < 128 ^ Suc (d + i)")
    case True
    have l: "length (varint_bytes n) = Suc (d + i)"
    proof (cases "d + i = 0")
      case True
      then show ?thesis using \<open>n < 128 ^ Suc (d + i)\<close> by (simp add: varint_bytes_small)
    next
      case False
      then show ?thesis using True Suc.prems(5) by (intro length_varint_bytes_exact) auto
    qed
    have "(128 :: nat) ^ Suc (d + i) \<le> 128 ^ (d + k)"
      using i by (intro power_increasing) simp_all
    then have "n < 128 ^ (d + k)" using True by linarith
    then show ?thesis
      using i pos digit last True l by (simp add: long_loop.simps [of check put i])
  next
    case False
    have step: "long_loop check put i k (S i) r = long_loop check put (Suc i) k (S (Suc i)) (r_move 1 r)"
      using i pos digit last False by (simp add: long_loop.simps [of check put i])
    have "length (varint_bytes n) - d - Suc i + 1 = length (varint_bytes n) - d - i"
    proof -
      have "Suc (d + i) < length (varint_bytes n)"
        using varint_nth [of "Suc (d + i)" n] False by (simp add: not_less)
      then show ?thesis by arith
    qed
    moreover have "k - Suc i + 1 = k - i" using i by simp
    moreover have "long_loop check put (Suc i) k (S (Suc i)) (r_move 1 r) =
      (if n < 128 ^ (d + k)
       then ok (True, S (length (varint_bytes n) - d), r_move (length (varint_bytes n) - d - Suc i) (r_move 1 r))
       else ok (False, S k, r_move (k - Suc i) (r_move 1 r)))"
      by (rule Suc.hyps(1)) (use Suc.hyps Suc.prems i False in simp_all)
    ultimately show ?thesis unfolding step by (simp add: add.commute)
  qed
qed

definition LongBits_of :: "nat \<Rightarrow> LongBits" where
  "LongBits_of n = \<lparr>lo = word_of_nat n, hi = word_of_nat (n div 2 ^ 32)\<rparr>"

lemma LongBits_val_of: "n < 2 ^ 64 \<Longrightarrow> LongBits_val (LongBits_of n) = n"
  by (simp add: LongBits_val_def LongBits_of_def unat_of_nat take_bit_nat_eq_self_iff)

definition lo_state :: "nat \<Rightarrow> nat \<Rightarrow> LongBits" where
  "lo_state n j = \<lparr>lo = word_of_nat (n mod 2 ^ (j * 7)), hi = 0\<rparr>"

definition hi_state :: "nat \<Rightarrow> nat \<Rightarrow> LongBits" where
  "hi_state n j = \<lparr>lo = word_of_nat n, hi = word_of_nat (n div 2 ^ 32 mod 2 ^ (j * 7 + 3))\<rparr>"

lemma pow128: "128 ^ j = (2 :: nat) ^ (j * 7)"
proof -
  have "(128 :: nat) = 2 ^ 7" by simp
  then show ?thesis by (simp only: power_mult [symmetric] mult.commute)
qed

lemma put_lo_state:
  "x AND 127 = word_of_nat (n div 128 ^ j mod 128) \<Longrightarrow> put_lo j x (lo_state n j) = lo_state n (Suc j)"
  using or_digit [of n "j * 7" 7]
  by (simp add: put_lo_def lo_state_def pow128 add.commute del: push_bit_and)

lemma pow_hi: "(128 :: nat) ^ (5 + j) = 2 ^ 32 * 2 ^ (j * 7 + 3)"
proof -
  have "(128 :: nat) ^ (5 + j) = 2 ^ ((5 + j) * 7)" by (rule pow128)
  also have "(5 + j) * 7 = 32 + (j * 7 + 3)" by simp
  also have "(2 :: nat) ^ (32 + (j * 7 + 3)) = 2 ^ 32 * 2 ^ (j * 7 + 3)" by (rule power_add)
  finally show ?thesis .
qed

lemma put_hi_state:
  assumes "x AND 127 = word_of_nat (n div 128 ^ (5 + j) mod 128)"
  shows "put_hi j x (hi_state n j) = hi_state n (Suc j)"
proof -
  have "n div 128 ^ (5 + j) = n div 2 ^ 32 div 2 ^ (j * 7 + 3)"
    by (simp only: pow_hi div_mult2_eq)
  moreover have "j * 7 + 3 + 7 = Suc j * 7 + 3" by simp
  ultimately show ?thesis
    using or_digit [of "n div 2 ^ 32" "j * 7 + 3" 7] assms
    by (simp only: put_hi_def hi_state_def) (simp del: push_bit_and)
qed

lemma lo_state_all: "n < 128 ^ j \<Longrightarrow> j \<le> 4 \<Longrightarrow> lo_state n j = LongBits_of n"
proof -
  assume n: "n < 128 ^ j" and j: "j \<le> 4"
  have "(2 :: nat) ^ (j * 7) \<le> 2 ^ 32" using j by (intro power_increasing) simp_all
  then have "n div 2 ^ 32 = 0" using n by (simp add: pow128)
  then show ?thesis using n by (simp add: lo_state_def LongBits_of_def pow128)
qed

lemma hi_state_all: "n < 128 ^ (5 + j) \<Longrightarrow> hi_state n j = LongBits_of n"
proof -
  assume n: "n < 128 ^ (5 + j)"
  then have "n < 2 ^ 32 * 2 ^ (j * 7 + 3)" by (simp only: pow_hi)
  then have "n div 2 ^ 32 < 2 ^ (j * 7 + 3)" by (simp only: less_mult_imp_div_less mult.commute)
  then show ?thesis by (simp only: hi_state_def LongBits_of_def mod_less)
qed

lemma varint_length_bound: "n < 128 ^ length (varint_bytes n)"
  using varint_nth [of "length (varint_bytes n)" n] by (simp add: not_less [symmetric]) (metis less_irrefl not_less)

lemma word_32_mod: "(word_of_nat (n mod 2 ^ (32 + k)) :: u32) = word_of_nat n"
proof -
  have "n mod 2 ^ (32 + k) mod 2 ^ 32 = n mod 2 ^ 32"
    by (rule mod_mod_cancel) (simp add: power_add)
  then show ?thesis by (simp add: word_unat_eq_iff unat_of_nat take_bit_eq_mod)
qed

lemma reads_readLongVarint:
  assumes n: "n < 2 ^ 64"
  shows "reads readLongVarint (varint_bytes n) (LongBits_of n)"
  unfolding reads_def
proof (intro allI impI)
  fix r :: Reader
  assume len: "r_len r = length (r_buf r)" and b: "bytes_at (r_buf r) (r_pos r) (varint_bytes n)"
  let ?l = "length (varint_bytes n)"
  have bound: "r_pos r + ?l \<le> r_len r" using bytes_at_bound [OF b] len by simp
  have zero: "LongBits_zero = lo_state n 0" by (simp add: LongBits_zero_def lo_state_def)
  have lo: "long_loop check put_lo 0 k LongBits_zero r =
      (if n < 128 ^ k then ok (True, lo_state n ?l, r_move ?l r)
       else ok (False, lo_state n k, r_move k r))" if "0 < k" for check k
    using long_loop_digits [OF b len, of k 0 put_lo "lo_state n" 0 check] that
    by (simp add: put_lo_state zero)
  have all: "lo_state n ?l = LongBits_of n" if k: "n < 128 ^ k" "k \<le> 4" for k
  proof (rule lo_state_all [OF varint_length_bound])
    have "?l \<le> max 1 k"
    proof (cases k)
      case 0
      then show ?thesis using k by (simp add: varint_bytes_small)
    next
      case (Suc m)
      then show ?thesis using length_varint_bytes_bound [of n m] k by simp
    qed
    then show "?l \<le> 4" using k by auto
  qed
  have hi: "readLongVarint_hi (hi_state n 0) (r_move 5 r) = ok (LongBits_of n, r_move ?l r)"
    if big: "128 ^ 5 \<le> n"
  proof -
    have "?l > 5" using varint_nth [of 5 n] big by simp
    moreover have "n < 128 ^ (5 + (?l - 5))" using varint_length_bound [of n] \<open>?l > 5\<close> by simp
    moreover have "n < 128 ^ (5 + 5)" using n by simp
    moreover have "long_loop check put_hi 0 5 (hi_state n 0) (r_move 5 r) =
        (if n < 128 ^ (5 + 5) then ok (True, hi_state n (?l - 5), r_move (?l - 5 - 0) (r_move 5 r))
         else ok (False, hi_state n 5, r_move (5 - 0) (r_move 5 r)))" for check
      by (rule long_loop_digits [where p = "r_pos r"]) (use b len big in \<open>simp_all add: put_hi_state\<close>)
    ultimately show ?thesis
      by (simp add: readLongVarint_hi_def hi_state_all)
  qed
  have mid: "LongBits.make (lo (lo_state n 4) OR push_bit 28 (r_byte (r_move 4 r) AND 127))
        (hi (lo_state n 4) OR drop_bit 4 (r_byte (r_move 4 r) AND 127)) = hi_state n 0"
    and last: "r_last (r_move 4 r) \<longleftrightarrow> n < 128 ^ 5" if "128 ^ 4 \<le> n"
  proof -
    have four: "(4::nat) = 0 \<or> 128 ^ 4 \<le> n" using that by simp
    have d: "r_byte (r_move 4 r) AND 127 = word_of_nat (n div 2 ^ 28 mod 2 ^ 7)"
      using varint_at(2) [OF b four] by simp
    have "a mod 128 div 16 = a div 16 mod (8 :: nat)" for a using mod_mult2_eq [of a 16 8] by simp
    moreover have "n div 268435456 div 16 = n div 4294967296" by (simp flip: div_mult2_eq)
    ultimately have "n div 268435456 mod 128 div 16 = n div 4294967296 mod 8" by simp
    then show "LongBits.make (lo (lo_state n 4) OR push_bit 28 (r_byte (r_move 4 r) AND 127))
        (hi (lo_state n 4) OR drop_bit 4 (r_byte (r_move 4 r) AND 127)) = hi_state n 0"
      using or_digit [of n 28 7] word_32_mod [of n 3]
      by (simp add: LongBits.make_def lo_state_def hi_state_def d [simplified] nat_bits del: push_bit_and drop_bit_and)
    show "r_last (r_move 4 r) \<longleftrightarrow> n < 128 ^ 5"
      using varint_at(3) [OF b four] by simp
  qed
  show "readLongVarint r = ok (LongBits_of n, r_move ?l r)"
  proof (cases "r_len r > r_pos r + 4")
    case True
    show ?thesis
    proof (cases "n < 128 ^ 4")
      case True
      then show ?thesis
        using \<open>r_len r > r_pos r + 4\<close> lo [of 4 False] all [of 4] by (simp add: readLongVarint_def)
    next
      case False
      then have big: "128 ^ 4 \<le> n" by simp
      have "readLongVarint r = (if n < 128 ^ 5 then ok (hi_state n 0, r_move 5 r)
          else readLongVarint_hi (hi_state n 0) (r_move 5 r))"
        using \<open>r_len r > r_pos r + 4\<close> lo [of 4 False] False mid [OF big, symmetric] last [OF big]
        by (simp add: readLongVarint_def LongBits.make_def)
      moreover have "?l = 5" "hi_state n 0 = LongBits_of n" if "n < 128 ^ 5"
        using that big length_varint_bytes_exact [of 4 n] hi_state_all [of n 0] by simp_all
      ultimately show ?thesis using hi by (cases "n < 128 ^ 5") simp_all
    qed
  next
    case False
    show ?thesis
    proof (cases "n < 128 ^ 3")
      case True
      then show ?thesis
        using False lo [of 3 True] all [of 3] by (simp add: readLongVarint_def)
    next
      case big: False
      have "?l \<le> 4" using bound False by simp
      have small: "n < 128 ^ 4"
        using varint_nth [of 4 n] \<open>?l \<le> 4\<close> by (cases "128 ^ 4 \<le> n") simp_all
      then have l: "?l = 4" using big length_varint_bytes_exact [of 3 n] by simp
      have "put_lo 3 (r_byte (r_move 3 r)) (lo_state n 3) = lo_state n 4"
        using put_lo_state [of _ n 3] varint_at(2) [OF b, of 3] big by simp
      then show ?thesis
        using False big lo [of 3 True] all [of 4] small l by (simp add: readLongVarint_def)
    qed
  qed
qed


section \<open>Fields\<close>

lemma word_of_nat_signed:
  "(word_of_nat (nat (v mod 18446744073709551616)) :: u32) = word_of_int v"
  "(word_of_nat (nat (v mod 4294967296)) :: u32) = word_of_int v"
proof -
  have "v mod 18446744073709551616 mod 4294967296 = v mod 4294967296"
    by (rule mod_mod_cancel) simp
  then show "(word_of_nat (nat (v mod 18446744073709551616)) :: u32) = word_of_int v"
    by (simp only: of_nat_nat pos_mod_sign zero_less_numeral word_of_int_eq_iff take_bit_eq_mod) simp
  show "(word_of_nat (nat (v mod 4294967296)) :: u32) = word_of_int v"
    by (simp only: of_nat_nat pos_mod_sign zero_less_numeral word_of_int_eq_iff take_bit_eq_mod) simp
qed

lemma uint_of_number: "0 \<le> v \<Longrightarrow> v < 4294967296 \<Longrightarrow> uint (word_of_int v :: u32) = v"
  by (simp add: unsigned_of_int take_bit_int_eq_self_iff)

lemma sint_of_number: "- 2147483648 \<le> v \<Longrightarrow> v < 2147483648 \<Longrightarrow> sint (word_of_int v :: u32) = v"
  by (simp add: signed_of_int signed_take_bit_int_eq_self_iff)

lemma reads_varint32:
  "reads r_uint32 (uint32_bytes v) (word_of_int v)"
  "v < 0 \<Longrightarrow> - 9223372036854775808 \<le> v \<Longrightarrow> reads r_uint32 (int64_bytes v) (word_of_int v)"
proof -
  have "nat (v mod 4294967296) < 4294967296" by (simp add: nat_less_iff)
  then show "reads r_uint32 (uint32_bytes v) (word_of_int v)"
    using reads_uint32_word [of "nat (v mod 4294967296)"]
    by (simp only: uint32_bytes_def word_of_nat_signed) simp
  assume v: "v < 0" "- 9223372036854775808 \<le> v"
  then have "v mod 18446744073709551616 = v + 18446744073709551616"
    using mod_pos_pos_trivial [of "v + 18446744073709551616" 18446744073709551616] by simp
  then have "9223372036854775808 \<le> nat (v mod 18446744073709551616)"
    "nat (v mod 18446744073709551616) < 18446744073709551616"
    using v by simp_all
  then show "reads r_uint32 (int64_bytes v) (word_of_int v)"
    using reads_uint32_word [of "nat (v mod 18446744073709551616)"]
    by (simp only: int64_bytes_def word_of_nat_signed) simp
qed

lemma reads_uint32_number [reads_intros]:
  "0 \<le> v \<Longrightarrow> v < 4294967296 \<Longrightarrow> reads r_uint32_number (uint32_bytes v) v"
  unfolding r_uint32_number_def [abs_def]
  by (rule reads_map, rule reads_varint32) (simp only: uint_of_number)

lemma reads_int32 [reads_intros]:
  assumes v: "- 2147483648 \<le> v" "v < 2147483648"
  shows "reads r_int32 (int32_bytes v) v"
proof -
  have "reads r_uint32 (int32_bytes v) (word_of_int v)"
    using reads_varint32 [of v] v by (simp add: int32_bytes_def)
  then show ?thesis
    unfolding r_int32_def [abs_def] by (rule reads_map) (simp only: sint_of_number [OF v])
qed

lemma reads_bool [reads_intros]: "reads r_bool [if v then 1 else 0] v"
proof -
  have "reads r_bool (varint_bytes (if v then 1 else 0)) v"
    unfolding r_bool_def [abs_def] by (rule reads_map, rule reads_uint32_word) (cases v; simp)+
  then show ?thesis by (cases v) (simp_all add: varint_bytes_small)
qed

lemma reads_int64 [reads_intros]:
  assumes v: "\<bar>v\<bar> \<le> 9007199254740992"
  shows "reads r_int64 (int64_bytes v) v"
  unfolding r_int64_def [abs_def] int64_bytes_def
proof (rule reads_map, rule reads_readLongVarint)
  show l: "nat (v mod 2 ^ 64) < 2 ^ 64" by (simp add: nat_less_iff)
  have "LongBits_of (nat (v mod 2 ^ 64)) = LongBits_fromNumber v"
    by (rule LongBits_val_inj) (simp only: LongBits_val_fromNumber LongBits_val_of [OF l])
  then show "v = LongBits_toNumber False (LongBits_of (nat (v mod 2 ^ 64)))"
    using toNumber_fromNumber_signed [OF v] by simp
qed

lemma reads_uint64 [reads_intros]:
  assumes v: "0 \<le> v" "v \<le> 9007199254740992"
  shows "reads r_uint64 (int64_bytes v) v"
  unfolding r_uint64_def [abs_def] int64_bytes_def
proof (rule reads_map, rule reads_readLongVarint)
  show l: "nat (v mod 2 ^ 64) < 2 ^ 64" by (simp add: nat_less_iff)
  have "LongBits_of (nat (v mod 2 ^ 64)) = LongBits_fromNumber v"
    by (rule LongBits_val_inj) (simp only: LongBits_val_fromNumber LongBits_val_of [OF l])
  then show "v = LongBits_toNumber True (LongBits_of (nat (v mod 2 ^ 64)))"
    using toNumber_fromNumber_unsigned [OF v] by simp
qed

lemma le32_value:
  "(ucast (ucast v :: u8) :: u32) OR push_bit 8 (ucast (ucast (drop_bit 8 v) :: u8))
     OR push_bit 16 (ucast (ucast (drop_bit 16 v) :: u8))
     OR push_bit 24 (ucast (ucast (drop_bit 24 v) :: u8)) = v" for v :: u32
  by (simp only: byte_widen push_drop_and) (simp flip: bit.conj_disj_distrib add: u32_and_ones)

lemma readFloatLE_bytes: "bytes_at buf p (le32_bytes v) \<Longrightarrow> readFloatLE buf p = v"
  using bytes_at_byte [of buf p "le32_bytes v" 0] bytes_at_byte [of buf p "le32_bytes v" 1]
    bytes_at_byte [of buf p "le32_bytes v" 2] bytes_at_byte [of buf p "le32_bytes v" 3] le32_value [of v]
  by (simp add: readFloatLE_def le32_bytes_def)

lemma reads_float [reads_intros]: "reads r_float (le32_bytes v) v"
  unfolding reads_def r_float_def
  by (auto simp: readFloatLE_bytes dest!: bytes_at_bound) (auto simp: le32_bytes_def)

lemma le64_halves: "le64_bytes v = le32_bytes (ucast v) @ le32_bytes (ucast (drop_bit 32 v))"
  by (simp add: le64_bytes_def le32_bytes_def) (auto intro!: bit_word_eqI simp: bit_simps)

lemma reads_double [reads_intros]: "reads r_double (le64_bytes v) v"
proof -
  have "(ucast (ucast v :: u32) :: 64 word) OR push_bit 32 (ucast (ucast (drop_bit 32 v) :: u32)) = v"
    by (rule bit_word_eqI) (auto simp: bit_simps not_less)
  note whole = this
  have len: "length (le32_bytes x) = 4" for x by (simp add: le32_bytes_def)
  have "readDoubleLE buf p = v" if "bytes_at buf p (le64_bytes v)" for buf p
  proof -
    from that have "bytes_at buf p (le32_bytes (ucast v))"
      and "bytes_at buf (p + 4) (le32_bytes (ucast (drop_bit 32 v)))"
      by (simp_all add: le64_halves bytes_at_append len)
    from this [THEN readFloatLE_bytes] whole show ?thesis by (simp only: readDoubleLE_def)
  qed
  then show ?thesis
    unfolding reads_def r_double_def
    by (auto dest!: bytes_at_bound) (auto simp: le64_halves len)
qed

lemma reads_delim_length:
  assumes "length bs < 2 ^ 32"
  shows "reads r_uint32 (uint32_bytes (int (length bs))) (word_of_nat (length bs))"
proof -
  have "nat (int (length bs) mod 2 ^ 32) = length bs" using assms by simp
  then show ?thesis
    using reads_uint32_word [of "length bs"] assms by (simp add: uint32_bytes_def)
qed

lemma reads_bytes: "length bs < 2 ^ 32 \<Longrightarrow> reads r_bytes (delim bs) bs"
  unfolding reads_def
proof (intro allI impI)
  fix r :: Reader
  assume l: "length bs < 2 ^ 32" and len: "r_len r = length (r_buf r)"
    and b: "bytes_at (r_buf r) (r_pos r) (delim bs)"
  let ?u = "uint32_bytes (int (length bs))"
  have "bytes_at (r_buf r) (r_pos r) ?u" and d: "bytes_at (r_buf r) (r_pos r + length ?u) bs"
    using b by (simp_all add: delim_def bytes_at_append)
  then have "r_uint32 r = ok (word_of_nat (length bs), r_move (length ?u) r)"
    using readsD [OF reads_delim_length [OF l]] len by blast
  then show "r_bytes r = ok (bs, r_move (length (delim bs)) r)"
    using bytes_at_bound [OF d] bytes_at_take [OF d] len l
    by (simp add: r_bytes_def delim_def unat_of_nat take_bit_nat_eq_self_iff Let_def)
qed

lemma reads_string [reads_intros]:
  assumes "chunk_safe s" "utf8_length s < 2 ^ 32"
  shows "reads r_string (string_bytes s) s"
  unfolding r_string_def [abs_def] string_bytes_def
  by (rule reads_map, rule reads_bytes)
    (use assms utf8_read_bytes [of "utf8_bytes s" 0 s] in \<open>simp_all add: utf8_length_eq\<close>)

lemma zig_zag32:
  "drop_bit 1 (push_bit 1 x XOR signed_drop_bit 31 x) XOR
     - ((push_bit 1 x XOR signed_drop_bit 31 x) AND 1) = (x :: u32)"
proof -
  define z where "z = push_bit 1 x XOR signed_drop_bit 31 x"
  have z: "bit z m \<longleftrightarrow> (1 \<le> m \<and> bit x (m - 1)) \<noteq> bit x 31" if "m < 32" for m
    using that bit_smear_sign [OF that, of x]
    by (simp only: z_def bit_xor_iff bit_push_bit_iff) simp
  have "drop_bit 1 z XOR - (z AND 1) = x"
  proof (rule bit_word_eqI)
    fix n assume n: "n < LENGTH(32)"
    then have n: "n < 32" by simp
    have over: "\<not> bit z 32" "\<not> bit x 32" by (simp_all add: bit_word.rep_eq flip: not_le)
    have "bit (drop_bit 1 z) n \<longleftrightarrow> bit z (Suc n)" by (simp only: bit_drop_bit_eq o_def) simp
    moreover have "bit (- (z AND 1)) n \<longleftrightarrow> bit z 0" by (rule bit_smear_low [OF n])
    ultimately show "bit (drop_bit 1 z XOR - (z AND 1)) n \<longleftrightarrow> bit x n"
      using z [of 0] z [of "Suc n"] n over
      by (cases "n = 31") (auto simp only: bit_xor_iff, simp_all)
  qed
  then show ?thesis by (simp only: z_def)
qed

lemma reads_sint32 [reads_intros]:
  assumes "- 2147483648 \<le> v" "v < 2147483648"
  shows "reads r_sint32 (uint32_bytes (uint (push_bit 1 (word_of_int v) XOR signed_drop_bit 31 (word_of_int v :: u32)))) v"
  unfolding r_sint32_def [abs_def]
  by (rule reads_map, rule reads_varint32) (simp only: word_of_int_uint zig_zag32 sint_of_number [OF assms])

lemma reads_sint64 [reads_intros]:
  assumes "\<bar>v\<bar> \<le> 9007199254740992"
  shows "reads r_sint64 (varint_bytes (LongBits_val (LongBits_zzEncode (LongBits_fromNumber v)))) v"
  unfolding r_sint64_def [abs_def]
proof (rule reads_map, rule reads_readLongVarint)
  let ?b = "LongBits_zzEncode (LongBits_fromNumber v)"
  show l: "LongBits_val ?b < 2 ^ 64" by (rule LongBits_val_less)
  have "LongBits_of (LongBits_val ?b) = ?b"
    by (rule LongBits_val_inj) (rule LongBits_val_of [OF l])
  then show "v = LongBits_toNumber False (LongBits_zzDecode (LongBits_of (LongBits_val ?b)))"
    by (simp add: zzDecode_zzEncode toNumber_fromNumber_signed [OF assms])
qed

lemma readFixed32_end_eq: "4 \<le> e \<Longrightarrow> readFixed32_end buf e = readFloatLE buf (e - 4)"
  by (auto simp: readFixed32_end_def readFloatLE_def le_iff_add numeral_eq_Suc)

lemma length_le32 [simp]: "length (le32_bytes v) = 4"
  by (simp add: le32_bytes_def)

lemma reads_fixed32 [reads_intros]:
  "0 \<le> v \<Longrightarrow> v < 4294967296 \<Longrightarrow> reads r_fixed32 (le32_bytes (word_of_int v)) v"
  unfolding reads_def r_fixed32_def
  by (auto simp: readFixed32_end_eq readFloatLE_bytes uint_of_number dest: bytes_at_bound)

lemma reads_sfixed32 [reads_intros]:
  "- 2147483648 \<le> v \<Longrightarrow> v < 2147483648 \<Longrightarrow> reads r_sfixed32 (le32_bytes (word_of_int v)) v"
  unfolding reads_def r_sfixed32_def
  by (auto simp: readFixed32_end_eq readFloatLE_bytes sint_of_number dest: bytes_at_bound)

lemma reads_readFixed64:
  "reads readFixed64 (le32_bytes (lo b) @ le32_bytes (hi b)) b"
  unfolding reads_def readFixed64_def
  by (auto simp: readFixed32_end_eq readFloatLE_bytes bytes_at_append add.commute [of 4]
      dest: bytes_at_bound)

lemma reads_fixed64 [reads_intros]:
  assumes "0 \<le> v" "v \<le> 9007199254740992"
  shows "reads r_fixed64 (le32_bytes (lo (LongBits_fromNumber v)) @ le32_bytes (hi (LongBits_fromNumber v))) v"
  unfolding r_fixed64_def [abs_def]
  by (rule reads_map [OF reads_readFixed64]) (simp add: toNumber_fromNumber_unsigned [OF assms])

lemma reads_sfixed64 [reads_intros]:
  assumes "\<bar>v\<bar> \<le> 9007199254740992"
  shows "reads r_sfixed64 (le32_bytes (lo (LongBits_fromNumber v)) @ le32_bytes (hi (LongBits_fromNumber v))) v"
  unfolding r_sfixed64_def [abs_def]
  by (rule reads_map [OF reads_readFixed64]) (simp add: toNumber_fromNumber_signed [OF assms])

section \<open>Writing and reading back\<close>

lemma bytes_at_prefix: "bytes_at (xs @ ys) 0 xs"
  using bytes_at_append [of "xs @ ys" 0 xs ys] bytes_at_self [of "xs @ ys"] by simp

lemma write_read: "emits f bs \<Longrightarrow> reads rd bs v \<Longrightarrow> returned (rd (Reader_create (written f))) = ok v"
  using readsD [of rd bs v "Reader_create bs"] by (simp add: emits_finish Reader_create_def)

end
