(* ===== verification/JsObject.thy ===== *)
theory JsObject
  imports Prelude
begin

text \<open>
  A plain object: its own properties in the order \<open>Object.keys\<close> lists them, which puts the
  array indices first, ascending, and the other keys in the order of their insertion. Assigning a
  primitive to the key \<open>__proto__\<close> runs the setter of \<open>Object.prototype\<close>, which ignores it.
  The lemmas show that an assignment keeps the keys distinct and changes one entry.
\<close>

definition proto_key :: jstring where
  "proto_key = [95, 95, 112, 114, 111, 116, 111, 95, 95]"

definition decimal :: "jstring \<Rightarrow> nat" where
  "decimal s = foldl (\<lambda>n c. 10 * n + (unat c - 48)) 0 s"

definition array_index :: "jstring \<Rightarrow> nat option" where
  "array_index s =
     (if s \<noteq> [] \<and> list_all (\<lambda>c. 48 \<le> c \<and> c \<le> 57) s \<and> (hd s = 48 \<longrightarrow> s = [48]) \<and> decimal s < 4294967295
      then Some (decimal s) else None)"

fun insert_index :: "nat \<Rightarrow> jstring \<times> 'v \<Rightarrow> (jstring \<times> 'v) list \<Rightarrow> (jstring \<times> 'v) list" where
  "insert_index n kv [] = [kv]"
| "insert_index n kv (x # xs) =
     (case array_index (fst x) of
        Some i \<Rightarrow> if i < n then x # insert_index n kv xs else kv # x # xs
      | None \<Rightarrow> kv # x # xs)"

definition js_put :: "jstring \<times> 'v \<Rightarrow> (jstring \<times> 'v) list \<Rightarrow> (jstring \<times> 'v) list" where
  "js_put kv obj =
     (if fst kv = proto_key then obj
      else if fst kv \<in> fst ` set obj
      then map (\<lambda>x. if fst x = fst kv then kv else x) obj
      else case array_index (fst kv) of None \<Rightarrow> obj @ [kv] | Some n \<Rightarrow> insert_index n kv obj)"

lemma insert_index_props:
  "set (insert_index n kv xs) = insert kv (set xs)"
  "fst kv \<notin> fst ` set xs \<Longrightarrow> distinct (map fst xs) \<Longrightarrow> distinct (map fst (insert_index n kv xs))"
  by (induction xs) (auto split: option.split)

lemma js_put_distinct: "distinct (map fst xs) \<Longrightarrow> distinct (map fst (js_put kv xs))"
proof -
  have "map fst (map (\<lambda>x. if fst x = fst kv then kv else x) xs) = map fst xs"
    by (induction xs) auto
  then show "distinct (map fst xs) \<Longrightarrow> distinct (map fst (js_put kv xs))"
    by (auto simp: js_put_def insert_index_props split: option.split simp del: map_map)
qed

lemma fst_mem: "(a, b) \<in> set xs \<Longrightarrow> a \<in> fst ` set xs"
  by force

lemma js_put_lookup:
  assumes "distinct (map fst xs)" "fst kv \<noteq> proto_key"
  shows "map_of (js_put kv xs) = (map_of xs)(fst kv \<mapsto> snd kv)"
proof (rule ext)
  fix k
  have d: "distinct (map fst (js_put kv xs))" by (rule js_put_distinct [OF assms(1)])
  have s: "set (js_put kv xs) = {x \<in> set xs. fst x \<noteq> fst kv} \<union> {kv}"
    using assms(2) by (auto simp: js_put_def insert_index_props dest: fst_mem split: option.split)
  show "map_of (js_put kv xs) k = ((map_of xs)(fst kv \<mapsto> snd kv)) k"
  proof (cases "map_of (js_put kv xs) k")
    case None
    then have "k \<notin> fst ` set (js_put kv xs)" by (simp add: map_of_eq_None_iff)
    then have "k \<noteq> fst kv" "k \<notin> fst ` set xs" by (auto simp: s)
    then show ?thesis using None by (metis fun_upd_other map_of_eq_None_iff)
  next
    case (Some v)
    then have "(k, v) \<in> set (js_put kv xs)" by (rule map_of_SomeD)
    then have "(k, v) = kv \<or> k \<noteq> fst kv \<and> (k, v) \<in> set xs" by (auto simp: s)
    then show ?thesis using Some assms(1) by auto
  qed
qed

text \<open>
  An object that assigning its entries one by one to an empty object gives back: its keys are
  distinct, none is \<open>__proto__\<close>, and they come in the order of \<open>Object.keys\<close>.
\<close>

definition js_object :: "(jstring \<times> 'v) list \<Rightarrow> bool" where
  "js_object xs \<longleftrightarrow> fold js_put xs [] = xs"

end
