(* ===== verification/Codec.thy ===== *)
theory Codec
  imports Wire JsObject
begin

text \<open>
  What the generated message classes share. Every \<open>X.encode\<close> is a sequence of the same few
  forms (an optional field, a repeated field, a map) over the writer, every \<open>X.decode\<close> the
  same loop over tags with a switch of its own; the forms are written once here and the classes
  instantiate them.

  Two interfaces carry the proofs: \<open>field_codec\<close>, a pair of a writing and a reading method
  that agree on some bytes, and \<open>message_codec\<close>, a class whose \<open>encode\<close> emits what its
  \<open>decode\<close> parses. Every message codec is a field codec again, as a length-delimited
  submessage (\<open>sublocale\<close>).
\<close>

section \<open>The forms of \<open>encode\<close>\<close>

text \<open>\<open>if (message.f != null && hasOwnProperty) writer.uint32(tag).put(message.f)\<close>\<close>

definition put_opt :: "int \<Rightarrow> ('a \<Rightarrow> Writer \<Rightarrow> Writer) \<Rightarrow> 'a option \<Rightarrow> Writer \<Rightarrow> Writer" where
  "put_opt tag put x w = (case x of None \<Rightarrow> w | Some v \<Rightarrow> put v (w_uint32 tag w))"

text \<open>\<open>for (i = 0; i < message.f.length; ++i) writer.uint32(tag).put(message.f[i])\<close>\<close>

definition put_all :: "int \<Rightarrow> ('a \<Rightarrow> Writer \<Rightarrow> Writer) \<Rightarrow> 'a list \<Rightarrow> Writer \<Rightarrow> Writer" where
  "put_all tag put xs w = fold (\<lambda>v w. put v (w_uint32 tag w)) xs w"

text \<open>\<open>M.encode(v, writer.fork()).ldelim()\<close>\<close>

definition put_sub :: "('a \<Rightarrow> Writer \<Rightarrow> Writer) \<Rightarrow> 'a \<Rightarrow> Writer \<Rightarrow> Writer" where
  "put_sub enc v w = w_ldelim (enc v (w_fork w))"

text \<open>One entry of a map: \<open>writer.fork().uint32(10).string(key).uint32(18).string(value).ldelim()\<close>.\<close>

definition put_entry :: "jstring \<times> jstring \<Rightarrow> Writer \<Rightarrow> Writer" where
  "put_entry kv w =
     w_ldelim (w_string (snd kv) (w_uint32 18 (w_string (fst kv) (w_uint32 10 (w_fork w)))))"

section \<open>The loop of \<open>decode\<close>\<close>

text \<open>
  \<open>while (reader.pos < end) { let tag = reader.uint32(); switch (tag >>> 3) ... }\<close>. The switch
  of a message is the argument \<open>step\<close>. The loop has no bound of its own, so that it returns is
  a theorem (\<open>decode_loop_total\<close>).
\<close>

partial_function (option) decode_loop ::
    "(u32 \<Rightarrow> Reader \<Rightarrow> 'm \<Rightarrow> ('m \<times> Reader) res) \<Rightarrow> nat \<Rightarrow> Reader \<Rightarrow> 'm \<Rightarrow> ('m \<times> Reader) res" where
  "decode_loop step limit r m =
     (if r_pos r < limit then
        bindr (r_uint32 r) (\<lambda>(tag, r).
          bindr (step tag r m) (\<lambda>(m, r). decode_loop step limit r m))
      else ok (m, r))"

text \<open>\<open>end = length === undefined ? reader.len : reader.pos + length\<close>\<close>

definition decode_with ::
    "(u32 \<Rightarrow> Reader \<Rightarrow> 'm \<Rightarrow> ('m \<times> Reader) res) \<Rightarrow> 'm \<Rightarrow> Reader \<Rightarrow> nat option \<Rightarrow> ('m \<times> Reader) res" where
  "decode_with step new r bound =
     (let limit = (case bound of None \<Rightarrow> r_len r | Some n \<Rightarrow> r_pos r + n)
      in decode_loop step limit r new)"

text \<open>The number of a field in its tag, and the default case of the switch.\<close>

definition tag_no :: "u32 \<Rightarrow> u32" where
  "tag_no tag = drop_bit 3 tag"

definition skip_field :: "u32 \<Rightarrow> Reader \<Rightarrow> 'm \<Rightarrow> ('m \<times> Reader) res" where
  "skip_field tag r m = bindr (r_skipType (tag AND 7) r) (\<lambda>r. ok (m, r))"

text \<open>\<open>M.decode(reader, reader.uint32())\<close>\<close>

definition get_sub :: "(Reader \<Rightarrow> nat option \<Rightarrow> ('m \<times> Reader) res) \<Rightarrow> Reader \<Rightarrow> ('m \<times> Reader) res" where
  "get_sub dec r = bindr (r_uint32 r) (\<lambda>(n, r). dec r (Some (unat n)))"

text \<open>
  The inner loop over an entry of a map, with its variables \<open>key\<close> and \<open>value\<close>, and
  \<open>let end2 = reader.uint32() + reader.pos\<close>.
\<close>

definition entry_step :: "u32 \<Rightarrow> Reader \<Rightarrow> jstring \<times> jstring \<Rightarrow> ((jstring \<times> jstring) \<times> Reader) res" where
  "entry_step tag r kv =
     (if tag_no tag = 1 then map_res (\<lambda>key. (key, snd kv)) (r_string r)
      else if tag_no tag = 2 then map_res (\<lambda>value. (fst kv, value)) (r_string r)
      else skip_field tag r kv)"

definition get_entry :: "Reader \<Rightarrow> ((jstring \<times> jstring) \<times> Reader) res" where
  "get_entry = get_sub (decode_with entry_step ([], []))"

section \<open>Plain objects as maps\<close>

text \<open>
  A map field is a plain object from strings to strings.
\<close>

type_synonym js_map = "(jstring \<times> jstring) list"

section \<open>Bytes\<close>

definition field_bytes :: "int \<Rightarrow> ('a \<Rightarrow> u8 list) \<Rightarrow> 'a \<Rightarrow> u8 list" where
  "field_bytes tag bytes v = uint32_bytes tag @ bytes v"

definition opt_bytes :: "int \<Rightarrow> ('a \<Rightarrow> u8 list) \<Rightarrow> 'a option \<Rightarrow> u8 list" where
  "opt_bytes tag bytes x = (case x of None \<Rightarrow> [] | Some v \<Rightarrow> field_bytes tag bytes v)"

definition all_bytes :: "int \<Rightarrow> ('a \<Rightarrow> u8 list) \<Rightarrow> 'a list \<Rightarrow> u8 list" where
  "all_bytes tag bytes xs = concat (map (field_bytes tag bytes) xs)"

definition opt_ok :: "('a \<Rightarrow> bool) \<Rightarrow> 'a option \<Rightarrow> bool" where
  "opt_ok valid x = (case x of None \<Rightarrow> True | Some v \<Rightarrow> valid v)"

text \<open>A later occurrence of a singular field replaces an earlier one.\<close>

definition or_else :: "'a option \<Rightarrow> 'a option \<Rightarrow> 'a option" where
  "or_else x y = (case x of None \<Rightarrow> y | Some v \<Rightarrow> Some v)"

lemma or_else_simps [simp]:
  "or_else None y = y" "or_else (Some v) y = Some v" "or_else x None = x"
  by (simp_all add: or_else_def split: option.split)

section \<open>Progress of the loop\<close>

text \<open>
  \<open>progress step\<close>: a round of the loop returns and never moves the cursor back, and leaves it
  inside the buffer or one byte behind it.
\<close>

definition moves :: "Reader \<Rightarrow> ('m \<times> Reader) res \<Rightarrow> bool" where
  "moves r x \<longleftrightarrow> x \<noteq> None \<and>
     (\<forall>m' r'. x = ok (m', r') \<longrightarrow> r_pos r \<le> r_pos r' \<and> r_wf r' \<and> same_buf r r')"

definition progress :: "(u32 \<Rightarrow> Reader \<Rightarrow> 'm \<Rightarrow> ('m \<times> Reader) res) \<Rightarrow> bool" where
  "progress step \<longleftrightarrow> (\<forall>tag r m. r_wf r \<longrightarrow> moves r (step tag r m))"

lemma moves_field:
  assumes "advances rd 1" "r_wf r"
  shows "moves r (map_res f (rd r))"
  unfolding moves_def
proof (intro conjI allI impI)
  show "map_res f (rd r) \<noteq> None" using advancesD(1) [OF assms] by (simp add: map_res_eq_None)
  fix m' r' assume "map_res f (rd r) = ok (m', r')"
  then obtain a where "rd r = ok (a, r')" by (auto simp: map_res_eq_ok)
  from advancesD(2) [OF assms this]
  show "r_pos r \<le> r_pos r'" "r_wf r'" "same_buf r r'"
    using assms(2) by (auto simp: r_wf_def same_buf_def)
qed

lemma moves_skip:
  assumes "r_wf r"
  shows "moves r (skip_field tag r m)"
  unfolding moves_def
proof (intro conjI allI impI)
  note sk = skips_skipType [OF assms, of "tag AND 7"]
  show "skip_field tag r m \<noteq> None" using sk by (auto simp: skip_field_def bindr_eq_None skips_def)
  fix m' r' assume "skip_field tag r m = ok (m', r')"
  then have "r_skipType (tag AND 7) r = ok r'" by (auto simp: skip_field_def bindr_eq_ok)
  then show "r_pos r \<le> r_pos r'" "r_wf r'" "same_buf r r'"
    using sk assms by (auto simp: skips_def r_wf_def same_buf_def)
qed

lemma moves_if: "(b \<Longrightarrow> moves r x) \<Longrightarrow> (\<not> b \<Longrightarrow> moves r y) \<Longrightarrow> moves r (if b then x else y)"
  by simp

lemma progressI: "(\<And>tag r m. r_wf r \<Longrightarrow> moves r (step tag r m)) \<Longrightarrow> progress step"
  by (simp add: progress_def)

lemma decode_loop_total:
  assumes "progress step" "r_wf r"
  shows "decode_loop step limit r m \<noteq> None \<and>
    (\<forall>m' r'. decode_loop step limit r m = ok (m', r') \<longrightarrow>
       r_pos r \<le> r_pos r' \<and> r_wf r' \<and> same_buf r r')"
  using assms(2)
proof (induction "r_len r + 1 - r_pos r" arbitrary: r m rule: less_induct)
  case less
  show ?case
  proof (cases "r_pos r < limit")
    case False
    then show ?thesis using less.prems by (subst (1 2) decode_loop.simps) simp
  next
    case True
    define rest where "rest = (\<lambda>(m, r). decode_loop step limit r m)"
    note unfold = decode_loop.simps [of step limit r m, folded rest_def]
    have tag: "r_wf s \<and> r_pos r < r_pos s \<and> same_buf r s" if "r_uint32 r = ok (tag, s)" for tag s
      using advancesD(2) [OF advances_uint32 less.prems that] less.prems
      by (auto simp: r_wf_def same_buf_def)
    have rest: "rest (m', s') \<noteq> None \<and> (\<forall>m'' r'. rest (m', s') = ok (m'', r') \<longrightarrow>
        r_pos s' \<le> r_pos r' \<and> r_wf r' \<and> same_buf s' r')"
      "r_pos s \<le> r_pos s' \<and> r_wf s' \<and> same_buf s s'"
      if u: "r_uint32 r = ok (tag, s)" and st: "step tag s m = ok (m', s')" for tag s m' s'
    proof -
      show s': "r_pos s \<le> r_pos s' \<and> r_wf s' \<and> same_buf s s'"
        using assms(1) tag [OF u] st by (auto simp: progress_def moves_def)
      then have "r_len s' + 1 - r_pos s' < r_len r + 1 - r_pos r"
        using tag [OF u] by (auto simp: r_wf_def same_buf_def)
      from less.hyps [OF this] s'
      show "rest (m', s') \<noteq> None \<and> (\<forall>m'' r'. rest (m', s') = ok (m'', r') \<longrightarrow>
        r_pos s' \<le> r_pos r' \<and> r_wf r' \<and> same_buf s' r')"
        by (simp add: rest_def)
    qed
    have "decode_loop step limit r m \<noteq> None"
      using True advancesD(1) [OF advances_uint32 less.prems] assms(1) tag rest(1)
      by (auto simp: unfold bindr_eq_None progress_def moves_def)
    moreover have "r_pos r \<le> r_pos r' \<and> r_wf r' \<and> same_buf r r'"
      if "decode_loop step limit r m = ok (m'', r')" for m'' r'
    proof -
      from that True obtain tag s m' s' where
        u: "r_uint32 r = ok (tag, s)" and st: "step tag s m = ok (m', s')" and rs: "rest (m', s') = ok (m'', r')"
        by (auto simp: unfold bindr_eq_ok)
      show ?thesis using tag [OF u] rest [OF u st] rs by (auto simp: same_buf_def)
    qed
    ultimately show ?thesis by blast
  qed
qed

lemma decode_with_total:
  assumes "progress step" "r_wf r"
  shows "decode_with step new r bound \<noteq> None"
    and "decode_with step new r bound = ok (m', r') \<Longrightarrow> r_pos r \<le> r_pos r' \<and> r_wf r' \<and> same_buf r r'"
  using decode_loop_total [OF assms] by (auto simp: decode_with_def Let_def)

text \<open>A loop that returns has come to its limit.\<close>

lemma decode_loop_limit:
  fixes step :: "u32 \<Rightarrow> Reader \<Rightarrow> 'm \<Rightarrow> ('m \<times> Reader) res"
  assumes "decode_loop step limit r m = ok (m', r')"
  shows "limit \<le> r_pos r'"
proof -
  let ?P = "\<lambda>step limit r m x. case x of Inl e \<Rightarrow> True | Inr (m', r') \<Rightarrow> limit \<le> r_pos r'"
  have "?P step limit r m (Inr (m', r') :: js_error + 'm \<times> Reader)"
    using assms
  proof (rule decode_loop.raw_induct [where P = ?P, rotated])
    fix loop :: "(u32 \<Rightarrow> Reader \<Rightarrow> 'm \<Rightarrow> ('m \<times> Reader) res) \<Rightarrow> nat \<Rightarrow> Reader \<Rightarrow> 'm \<Rightarrow> ('m \<times> Reader) res"
      and step limit r m x
    assume hyp: "\<And>step limit r m x. loop step limit r m = Some x \<Longrightarrow> ?P step limit r m x"
      and body: "(if r_pos r < limit then bindr (r_uint32 r) (\<lambda>(tag, r). bindr (step tag r m)
        (\<lambda>(m, r). loop step limit r m)) else ok (m, r)) = Some x"
    show "?P step limit r m x"
    proof (cases x)
      case (Inr y)
      show ?thesis
      proof (cases "r_pos r < limit")
        case True
        then obtain u n where "loop step limit u n = Some x"
          using body Inr by (auto simp: bindr_eq_ok)
        then show ?thesis by (rule hyp)
      next
        case False
        then show ?thesis using body by auto
      qed
    qed simp
  qed
  then show ?thesis by simp
qed

lemma advances_sub:
  assumes "progress step"
  shows "advances (get_sub (decode_with step new)) 1"
  unfolding advances_def
proof (intro allI impI)
  fix r assume wf: "r_wf r"
  have tag: "r_wf s \<and> r_pos r < r_pos s \<and> same_buf r s" if "r_uint32 r = ok (n, s)" for n s
    using advancesD(2) [OF advances_uint32 wf that] wf by (auto simp: r_wf_def same_buf_def)
  have "get_sub (decode_with step new) r \<noteq> None"
    using advancesD(1) [OF advances_uint32 wf] tag decode_with_total(1) [OF assms]
    by (auto simp: get_sub_def bindr_eq_None)
  moreover have "r_pos r < r_pos r' \<and> r_pos r' \<le> r_len r + 1 \<and> same_buf r r'"
    if "get_sub (decode_with step new) r = ok (v, r')" for v r'
  proof -
    from that obtain n s where u: "r_uint32 r = ok (n, s)"
      and d: "decode_with step new s (Some (unat n)) = ok (v, r')"
      by (auto simp: get_sub_def bindr_eq_ok)
    from tag [OF u] decode_with_total(2) [OF assms _ d] show ?thesis
      by (auto simp: r_wf_def same_buf_def)
  qed
  ultimately show "get_sub (decode_with step new) r \<noteq> None \<and>
      (\<forall>v r'. get_sub (decode_with step new) r = ok (v, r') \<longrightarrow>
        r_pos r < r_pos r' \<and> r_pos r' \<le> r_len r + 1 \<and> same_buf r r')"
    by blast
qed

text \<open>The methods a field is read with, with the slack a switch allows.\<close>

lemma advances_field:
  "advances r_uint32_number 1" "advances r_int32 1" "advances r_bool 1" "advances r_string 1"
  "advances r_float 1" "advances r_double 1" "advances r_int64 1" "advances r_uint64 1"
  "progress step \<Longrightarrow> advances (get_sub (decode_with step new)) 1"
  by (rule advances_int64 | rule advances_uint64 | (rule advances_sub, assumption)
      | (rule advances_weaken, rule advances_intros, simp))+

lemma progress_entry: "progress entry_step"
  by (rule progressI)
    (simp only: entry_step_def, intro moves_if moves_field moves_skip advances_field)

lemma advances_entry: "advances get_entry 1"
  unfolding get_entry_def by (rule advances_sub [OF progress_entry])

text \<open>The branches of a switch, as rewrite rules.\<close>

lemma moves_branches:
  assumes "r_wf r"
  shows "moves r (map_res f1 (r_uint32_number r))" "moves r (map_res f2 (r_int32 r))"
    "moves r (map_res f3 (r_bool r))" "moves r (map_res f4 (r_string r))"
    "moves r (map_res f5 (r_float r))" "moves r (map_res f6 (r_double r))"
    "moves r (map_res f7 (r_int64 r))" "moves r (map_res f8 (r_uint64 r))"
    "moves r (map_res f9 (get_entry r))" "moves r (skip_field tag r m)"
  by (rule moves_field [OF _ assms] moves_skip [OF assms] advances_field advances_entry)+

lemma moves_if_split: "moves r (if b then x else y) \<longleftrightarrow> (if b then moves r x else moves r y)"
  by simp

section \<open>What a loop parses\<close>

text \<open>
  \<open>parses step bs a b\<close>: wherever the loop meets the bytes \<open>bs\<close> with the message in the
  state \<open>a\<close>, it comes out behind them with the state \<open>b\<close>.
\<close>

definition parses :: "(u32 \<Rightarrow> Reader \<Rightarrow> 'm \<Rightarrow> ('m \<times> Reader) res) \<Rightarrow> u8 list \<Rightarrow> 'm \<Rightarrow> 'm \<Rightarrow> bool" where
  "parses step bs a b \<longleftrightarrow>
     (\<forall>r limit. r_len r = length (r_buf r) \<longrightarrow> bytes_at (r_buf r) (r_pos r) bs \<longrightarrow>
        r_pos r + length bs \<le> limit \<longrightarrow>
        decode_loop step limit r a = decode_loop step limit (r_move (length bs) r) b)"

lemma parses_Nil: "a = b \<Longrightarrow> parses step [] a b"
  by (simp add: parses_def)

lemma parses_append:
  assumes "parses step xs a b" "parses step ys b c"
  shows "parses step (xs @ ys) a c"
  unfolding parses_def
proof (intro allI impI)
  fix r :: Reader and limit
  assume len: "r_len r = length (r_buf r)" and at: "bytes_at (r_buf r) (r_pos r) (xs @ ys)"
    and limit: "r_pos r + length (xs @ ys) \<le> limit"
  have "decode_loop step limit r a = decode_loop step limit (r_move (length xs) r) b"
    using assms(1) len at limit by (simp add: parses_def bytes_at_append)
  also have "\<dots> = decode_loop step limit (r_move (length ys) (r_move (length xs) r)) c"
    using assms(2) len at limit by (simp add: parses_def bytes_at_append del: r_move_simps(4))
  finally show "decode_loop step limit r a = decode_loop step limit (r_move (length (xs @ ys)) r) c"
    by simp
qed

text \<open>One field: its tag and its bytes.\<close>

lemma parses_field:
  assumes rd: "reads rd (bytes v) v"
    and step: "\<And>r. step (word_of_int tag) r a = map_res f (rd r)"
  shows "parses step (field_bytes tag bytes v) a (f v)"
  unfolding parses_def
proof (intro allI impI)
  fix r :: Reader and limit
  let ?u = "uint32_bytes tag"
  assume len: "r_len r = length (r_buf r)" and at: "bytes_at (r_buf r) (r_pos r) (field_bytes tag bytes v)"
    and limit: "r_pos r + length (field_bytes tag bytes v) \<le> limit"
  have u: "r_uint32 r = ok (word_of_int tag, r_move (length ?u) r)"
    using at len by (intro readsD [OF reads_varint32(1)]) (simp_all add: field_bytes_def bytes_at_append)
  have "rd (r_move (length ?u) r) = ok (v, r_move (length (bytes v)) (r_move (length ?u) r))"
    using at len by (intro readsD [OF rd]) (simp_all add: field_bytes_def bytes_at_append)
  then have s: "step (word_of_int tag) (r_move (length ?u) r) a =
      ok (f v, r_move (length (field_bytes tag bytes v)) r)"
    by (simp add: step map_res_def field_bytes_def)
  have "0 < length ?u" unfolding uint32_bytes_def by (rule length_varint_bytes_pos)
  then have "r_pos r < limit" using limit unfolding field_bytes_def length_append by linarith
  then show "decode_loop step limit r a =
      decode_loop step limit (r_move (length (field_bytes tag bytes v)) r) (f v)"
    by (subst decode_loop.simps) (simp add: u s)
qed

lemma parses_decode:
  assumes "parses step bs a b"
  shows "reads (get_sub (decode_with step a)) (delim bs) b \<or> 2 ^ 32 \<le> length bs"
    and "decode_with step a (Reader_create bs) None = ok (b, r_move (length bs) (Reader_create bs))"
proof -
  have stop: "decode_loop step limit r b = ok (b, r)" if "limit \<le> r_pos r" for limit r
    using that by (subst decode_loop.simps) simp
  then show "decode_with step a (Reader_create bs) None = ok (b, r_move (length bs) (Reader_create bs))"
    using assms by (simp add: decode_with_def parses_def Reader_create_def Let_def)
  show "reads (get_sub (decode_with step a)) (delim bs) b \<or> 2 ^ 32 \<le> length bs"
  proof (cases "2 ^ 32 \<le> length bs")
    case False
    then have small: "length bs < 2 ^ 32" by simp
    have "reads (get_sub (decode_with step a)) (delim bs) b"
      unfolding reads_def
    proof (intro allI impI)
      fix r :: Reader
      let ?u = "uint32_bytes (int (length bs))"
      assume len: "r_len r = length (r_buf r)" and at: "bytes_at (r_buf r) (r_pos r) (delim bs)"
      then have u: "r_uint32 r = ok (word_of_nat (length bs), r_move (length ?u) r)"
        by (intro readsD [OF reads_delim_length [OF small]]) (simp_all add: delim_def bytes_at_append)
      have "unat (word_of_nat (length bs) :: u32) = length bs"
        using small by (simp add: unat_of_nat take_bit_nat_eq_self_iff)
      moreover have "decode_loop step (r_pos (r_move (length ?u) r) + length bs) (r_move (length ?u) r) a =
          decode_loop step (r_pos (r_move (length ?u) r) + length bs) (r_move (length bs) (r_move (length ?u) r)) b"
        using assms len at by (simp add: parses_def delim_def bytes_at_append del: r_move_simps(4))
      ultimately show "get_sub (decode_with step a) r = ok (b, r_move (length (delim bs)) r)"
        by (simp add: get_sub_def u decode_with_def Let_def stop delim_def)
    qed
    then show ?thesis by simp
  qed simp
qed

text \<open>A component of a record, by its selector and its update.\<close>

definition lens :: "('m \<Rightarrow> 'a) \<Rightarrow> ('a \<Rightarrow> 'm \<Rightarrow> 'm) \<Rightarrow> bool" where
  "lens get upd \<longleftrightarrow>
     (\<forall>m x y. get (upd x m) = x \<and> upd x (upd y m) = upd x m \<and> upd (get m) m = m)"

lemma parses_to: "parses step bs a c \<Longrightarrow> c = b \<Longrightarrow> parses step bs a b"
  by simp

text \<open>The effect of one field on the message: the specification of the merge.\<close>

definition merge_opt :: "('m \<Rightarrow> 'a option) \<Rightarrow> ('a option \<Rightarrow> 'm \<Rightarrow> 'm) \<Rightarrow> 'a option \<Rightarrow> 'm \<Rightarrow> 'm" where
  "merge_opt get upd x a = upd (or_else x (get a)) a"

definition merge_all :: "('m \<Rightarrow> 'a list) \<Rightarrow> ('a list \<Rightarrow> 'm \<Rightarrow> 'm) \<Rightarrow> 'a list \<Rightarrow> 'm \<Rightarrow> 'm" where
  "merge_all get upd xs a = upd (get a @ xs) a"

definition merge_into :: "('m \<Rightarrow> 'b) \<Rightarrow> ('b \<Rightarrow> 'm \<Rightarrow> 'm) \<Rightarrow> ('a \<Rightarrow> 'b \<Rightarrow> 'b) \<Rightarrow> 'a list \<Rightarrow> 'm \<Rightarrow> 'm" where
  "merge_into get upd add xs a = upd (fold add xs (get a)) a"

lemmas merge_defs = merge_opt_def merge_all_def merge_into_def

section \<open>Fields\<close>

locale field_codec =
  fixes put :: "'a \<Rightarrow> Writer \<Rightarrow> Writer"
    and rd :: "Reader \<Rightarrow> ('a \<times> Reader) res"
    and bytes :: "'a \<Rightarrow> u8 list"
    and valid :: "'a \<Rightarrow> bool"
  assumes put_emits: "valid v \<Longrightarrow> emits (put v) (bytes v)"
    and rd_reads: "valid v \<Longrightarrow> reads rd (bytes v) v"
begin

lemma emits_field: "valid v \<Longrightarrow> emits (\<lambda>w. put v (w_uint32 tag w)) (field_bytes tag bytes v)"
  unfolding field_bytes_def by (rule emits_comp [OF put_emits emits_uint32])

lemma emits_opt: "opt_ok valid x \<Longrightarrow> emits (put_opt tag put x) (opt_bytes tag bytes x)"
  by (cases x) (simp_all add: put_opt_def [abs_def] opt_bytes_def opt_ok_def emits_id emits_field)

lemma emits_all: "list_all valid xs \<Longrightarrow> emits (put_all tag put xs) (all_bytes tag bytes xs)"
proof (induction xs)
  case Nil
  then show ?case by (simp add: put_all_def [abs_def] all_bytes_def emits_id)
next
  case (Cons v xs)
  then have "emits (\<lambda>w. put_all tag put xs (put v (w_uint32 tag w)))
      (field_bytes tag bytes v @ all_bytes tag bytes xs)"
    by (intro emits_comp emits_field) simp_all
  then show ?case by (simp add: put_all_def [abs_def] all_bytes_def)
qed

lemma parses_opt:
  assumes "opt_ok valid x" "lens get upd"
    and "\<And>r a. step (word_of_int tag) r a = map_res (\<lambda>v. upd (Some v) a) (rd r)"
  shows "parses step (opt_bytes tag bytes x) a (merge_opt get upd x a)"
proof (cases x)
  case None
  then show ?thesis using assms(2) by (simp add: opt_bytes_def parses_Nil lens_def merge_opt_def)
next
  case (Some v)
  then have "reads rd (bytes v) v" using assms(1) rd_reads by (simp add: opt_ok_def)
  from parses_field [of rd bytes v step tag a "\<lambda>v. upd (Some v) a", OF this assms(3)]
  show ?thesis using Some by (simp add: opt_bytes_def merge_opt_def)
qed

lemma parses_fold:
  assumes "list_all valid xs" "\<And>r a. step (word_of_int tag) r a = map_res (\<lambda>v. add v a) (rd r)"
  shows "parses step (all_bytes tag bytes xs) a (fold add xs a)"
  using assms(1)
proof (induction xs arbitrary: a)
  case Nil
  then show ?case by (simp add: all_bytes_def parses_Nil)
next
  case (Cons v xs)
  have "parses step (field_bytes tag bytes v @ all_bytes tag bytes xs) a (fold add xs (add v a))"
  proof (rule parses_append)
    show "parses step (field_bytes tag bytes v) a (add v a)"
      using parses_field [of rd bytes v step tag a "\<lambda>v. add v a"] Cons.prems assms(2) rd_reads by simp
    show "parses step (all_bytes tag bytes xs) (add v a) (fold add xs (add v a))"
      using Cons by simp
  qed
  then show ?case by (simp add: all_bytes_def)
qed

lemma parses_into:
  assumes "list_all valid xs" "lens get upd"
    and "\<And>r a. step (word_of_int tag) r a = map_res (\<lambda>v. upd (add v (get a)) a) (rd r)"
  shows "parses step (all_bytes tag bytes xs) a (merge_into get upd add xs a)"
proof -
  have "fold (\<lambda>v a. upd (add v (get a)) a) xs a = upd (fold add xs (get a)) a"
    using assms(2) by (induction xs arbitrary: a) (simp_all add: lens_def)
  then show ?thesis using parses_fold [OF assms(1), of step tag, OF assms(3), of a]
    by (simp add: merge_into_def)
qed

lemma parses_all:
  assumes "list_all valid xs" "lens get upd"
    and "\<And>r a. step (word_of_int tag) r a = map_res (\<lambda>v. upd (get a @ [v]) a) (rd r)"
  shows "parses step (all_bytes tag bytes xs) a (merge_all get upd xs a)"
proof -
  have "fold (\<lambda>v ys. ys @ [v]) xs ys = ys @ xs" for ys :: "'a list"
    by (induction xs arbitrary: ys) simp_all
  then show ?thesis
    using parses_into [OF assms(1,2), of step tag "\<lambda>v ys. ys @ [v]" a] assms(3)
    by (simp add: merge_into_def merge_all_def)
qed

text \<open>The same behind what has been written and parsed before.\<close>

lemma then_emits_opt:
  "emits f as \<Longrightarrow> opt_ok valid x \<Longrightarrow> emits (\<lambda>w. put_opt tag put x (f w)) (as @ opt_bytes tag bytes x)"
  by (rule emits_comp [OF emits_opt])

lemma then_emits_all:
  "emits f as \<Longrightarrow> list_all valid xs \<Longrightarrow> emits (\<lambda>w. put_all tag put xs (f w)) (as @ all_bytes tag bytes xs)"
  by (rule emits_comp [OF emits_all])

lemma then_parses_opt:
  "parses step bs a b \<Longrightarrow> opt_ok valid x \<Longrightarrow> lens get upd \<Longrightarrow>
   (\<And>r a. step (word_of_int tag) r a = map_res (\<lambda>v. upd (Some v) a) (rd r)) \<Longrightarrow>
   parses step (bs @ opt_bytes tag bytes x) a (merge_opt get upd x b)"
  by (rule parses_append [OF _ parses_opt])

lemma then_parses_all:
  "parses step bs a b \<Longrightarrow> list_all valid xs \<Longrightarrow> lens get upd \<Longrightarrow>
   (\<And>r a. step (word_of_int tag) r a = map_res (\<lambda>v. upd (get a @ [v]) a) (rd r)) \<Longrightarrow>
   parses step (bs @ all_bytes tag bytes xs) a (merge_all get upd xs b)"
  by (rule parses_append [OF _ parses_all])

lemma then_parses_into:
  "parses step bs a b \<Longrightarrow> list_all valid xs \<Longrightarrow> lens get upd \<Longrightarrow>
   (\<And>r a. step (word_of_int tag) r a = map_res (\<lambda>v. upd (add v (get a)) a) (rd r)) \<Longrightarrow>
   parses step (bs @ all_bytes tag bytes xs) a (merge_into get upd add xs b)"
  by (rule parses_append [OF _ parses_into])

lemmas emits_forms = emits_opt emits_all then_emits_opt then_emits_all

end

section \<open>The types of fields\<close>

definition uint32_ok :: "int \<Rightarrow> bool" where
  "uint32_ok v \<longleftrightarrow> 0 \<le> v \<and> v < 4294967296"

definition int32_ok :: "int \<Rightarrow> bool" where
  "int32_ok v \<longleftrightarrow> - 2147483648 \<le> v \<and> v < 2147483648"

text \<open>A 64-bit field is a double, exact up to \<open>2 ^ 53\<close>.\<close>

definition uint64_ok :: "int \<Rightarrow> bool" where
  "uint64_ok v \<longleftrightarrow> 0 \<le> v \<and> v \<le> 9007199254740992"

definition int64_ok :: "int \<Rightarrow> bool" where
  "int64_ok v \<longleftrightarrow> \<bar>v\<bar> \<le> 9007199254740992"

definition string_ok :: "jstring \<Rightarrow> bool" where
  "string_ok s \<longleftrightarrow> chunk_safe s \<and> utf8_length s < 4294967296"

abbreviation always :: "'a \<Rightarrow> bool" where
  "always x \<equiv> True"

lemma opt_ok_always [simp]: "opt_ok always x"
  by (cases x) (simp_all add: opt_ok_def)

lemma list_all_always [simp]: "list_all always xs"
  by (induction xs) simp_all

definition bool_bytes :: "bool \<Rightarrow> u8 list" where
  "bool_bytes v = [if v then 1 else 0]"

interpretation uint32: field_codec w_uint32 r_uint32_number uint32_bytes uint32_ok
  by unfold_locales (auto simp: uint32_ok_def intro: emits_uint32 reads_uint32_number)

interpretation int32: field_codec w_int32 r_int32 int32_bytes int32_ok
  by unfold_locales (auto simp: int32_ok_def intro!: emits_int32 reads_int32)

interpretation uint64: field_codec w_uint64 r_uint64 int64_bytes uint64_ok
  by unfold_locales (auto simp: uint64_ok_def intro: emits_uint64 reads_uint64)

interpretation int64: field_codec w_int64 r_int64 int64_bytes int64_ok
  by unfold_locales (auto simp: int64_ok_def intro: emits_int64 reads_int64)

interpretation bool: field_codec w_bool r_bool bool_bytes always
  by unfold_locales (simp_all only: bool_bytes_def emits_bool reads_bool)

interpretation float: field_codec w_float r_float le32_bytes always
  by unfold_locales (auto intro: emits_float reads_float)

interpretation double: field_codec w_double r_double le64_bytes always
  by unfold_locales (auto intro: emits_double reads_double)

interpretation string: field_codec w_string r_string string_bytes string_ok
  by unfold_locales (auto simp: string_ok_def intro: emits_string reads_string)

text \<open>
  \<open>encodeDelimited\<close> calls \<open>ldelim\<close> without \<open>fork\<close>, which on a fresh writer puts the length
  before everything written.
\<close>

lemma ldelim_fresh:
  assumes "emits f bs"
  shows "fst (w_finish (w_ldelim (f Writer_create))) = delim bs"
proof -
  have x: "w_states (f Writer_create) = []" "w_out (f Writer_create) = bs"
    "w_len (f Writer_create) = length bs" "w_ok (f Writer_create)"
    using assms w_ok_create by (auto simp: emits_def Writer_create_def w_out_def)
  define u where "u = w_uint32 (int (length bs)) Writer_create"
  have u: "w_out u = uint32_bytes (int (length bs))" "w_len u = length (uint32_bytes (int (length bs)))" "w_ok u"
    using emits_uint32 [of "int (length bs)"] w_ok_create
    by (auto simp: emits_def u_def Writer_create_def w_out_def)
  have r: "w_reset (f Writer_create) = Writer_create"
    unfolding w_reset_def x(1) by (simp add: Writer_create_def)
  have l: "w_ldelim (f Writer_create) =
      (if bs = [] then u else u\<lparr>w_ops := w_ops u @ w_ops (f Writer_create), w_len := w_len u + length bs\<rparr>)"
    unfolding w_ldelim_def Let_def r by (simp add: x u_def)
  have "w_ok (w_ldelim (f Writer_create))" "w_out (w_ldelim (f Writer_create)) = delim bs"
    using u x unfolding l delim_def by (auto simp: w_out_def w_ok_def level_ok_def)
  then show ?thesis by (simp add: w_finish_out)
qed

section \<open>Messages\<close>

locale message_codec =
  fixes encode :: "'m \<Rightarrow> Writer \<Rightarrow> Writer"
    and decode :: "Reader \<Rightarrow> nat option \<Rightarrow> ('m \<times> Reader) res"
    and step :: "u32 \<Rightarrow> Reader \<Rightarrow> 'm \<Rightarrow> ('m \<times> Reader) res"
    and new :: 'm
    and bytes :: "'m \<Rightarrow> u8 list"
    and valid :: "'m \<Rightarrow> bool"
    and merge :: "'m \<Rightarrow> 'm \<Rightarrow> 'm"
  assumes decode_eq: "decode = decode_with step new"
    and encode_emits: "valid m \<Longrightarrow> emits (encode m) (bytes m)"
    and step_parses: "valid m \<Longrightarrow> parses step (bytes m) a (merge a m)"
    and merge_new: "valid m \<Longrightarrow> merge new m = m"
    and step_progress: "progress step"
begin

lemma finish_encode: "valid m \<Longrightarrow> fst (w_finish (encode m Writer_create)) = bytes m"
  by (rule emits_finish [OF encode_emits])

lemma decode_bytes:
  assumes "valid m"
  shows "decode (Reader_create (bytes m)) None = ok (m, r_move (length (bytes m)) (Reader_create (bytes m)))"
  using parses_decode(2) [OF step_parses [OF assms, of new]] merge_new [OF assms]
  by (simp add: decode_eq)

lemma decode_encode:
  assumes "valid m"
  shows "map_option (map_sum id fst) (decode (Reader_create (fst (w_finish (encode m Writer_create)))) None) = ok m"
  using decode_bytes [OF assms] by (simp add: finish_encode [OF assms])

lemma decode_append:
  assumes "valid a" "valid b"
  shows "map_option (map_sum id fst) (decode (Reader_create (bytes a @ bytes b)) None) = ok (merge a b)"
  using parses_decode(2) [OF parses_append [OF step_parses [OF assms(1), of new] step_parses [OF assms(2)]]]
    merge_new [OF assms(1)]
  by (simp add: decode_eq)

lemma decode_around:
  assumes "valid a" "valid b" "\<And>c. parses step bs c c"
  shows "map_option (map_sum id fst) (decode (Reader_create (bytes a @ bs @ bytes b)) None) = ok (merge a b)"
  using parses_decode(2) [OF parses_append [OF step_parses [OF assms(1), of new]
      parses_append [OF assms(3) step_parses [OF assms(2)]]]] merge_new [OF assms(1)]
  by (simp add: decode_eq)

lemma decode_end:
  assumes "decode (Reader_create bs) None = ok (m, r)"
  shows "length bs \<le> r_pos r" "r_pos r \<le> length bs + 1" "r_buf r = bs"
proof -
  have wf: "r_wf (Reader_create bs)" by (simp add: r_wf_def Reader_create_def)
  have d: "decode_with step new (Reader_create bs) None = ok (m, r)"
    using assms by (simp add: decode_eq)
  show "r_pos r \<le> length bs + 1" "r_buf r = bs"
    using decode_with_total(2) [OF step_progress wf d] by (auto simp: r_wf_def same_buf_def Reader_create_def)
  show "length bs \<le> r_pos r"
    using decode_loop_limit [of step "r_len (Reader_create bs)" "Reader_create bs" new] d
    by (simp add: decode_with_def Reader_create_def)
qed

lemma decode_total: "decode (Reader_create bs) bound \<noteq> None"
  using decode_with_total(1) [OF step_progress, of "Reader_create bs" new bound]
  by (simp add: decode_eq r_wf_def Reader_create_def)

lemma advances_decode: "advances (get_sub decode) 1"
  unfolding decode_eq by (rule advances_sub [OF step_progress])

lemma reads_sub: "valid m \<Longrightarrow> length (bytes m) < 4294967296 \<Longrightarrow> reads (get_sub decode) (delim (bytes m)) m"
  using parses_decode(1) [OF step_parses [of m new]] merge_new [of m] by (simp add: decode_eq)

lemma delimited:
  assumes "valid m" "length (bytes m) < 4294967296"
  shows "map_option (map_sum id fst)
    (get_sub decode (Reader_create (fst (w_finish (w_ldelim (encode m Writer_create)))))) = ok m"
  using readsD [OF reads_sub [OF assms], of "Reader_create (delim (bytes m))"]
  by (simp add: ldelim_fresh [OF encode_emits [OF assms(1)]] Reader_create_def)

lemma moves_decode: "r_wf r \<Longrightarrow> moves r (map_res f (get_sub decode r))"
  by (rule moves_field [OF advances_decode])

end

sublocale message_codec \<subseteq> sub: field_codec "put_sub encode" "get_sub decode" "\<lambda>m. delim (bytes m)"
  "\<lambda>m. valid m \<and> length (bytes m) < 4294967296"
proof unfold_locales
  fix m assume m: "valid m \<and> length (bytes m) < 4294967296"
  then show "emits (put_sub encode m) (delim (bytes m))"
    unfolding put_sub_def [abs_def] by (intro emits_delim encode_emits) simp
  from m show "reads (get_sub decode) (delim (bytes m)) m"
    by (intro reads_sub) simp_all
qed

section \<open>Map entries\<close>

definition entry_bytes :: "jstring \<times> jstring \<Rightarrow> u8 list" where
  "entry_bytes kv = field_bytes 10 string_bytes (fst kv) @ field_bytes 18 string_bytes (snd kv)"

definition entry_ok :: "jstring \<times> jstring \<Rightarrow> bool" where
  "entry_ok kv \<longleftrightarrow> string_ok (fst kv) \<and> string_ok (snd kv) \<and> length (entry_bytes kv) < 4294967296"

lemma parses_entry:
  assumes "string_ok (fst kv)" "string_ok (snd kv)"
  shows "parses entry_step (entry_bytes kv) a kv"
proof -
  have "parses entry_step (field_bytes 10 string_bytes (fst kv)) a (fst kv, snd a)"
    using parses_field [of r_string string_bytes "fst kv" entry_step 10 a "\<lambda>k. (k, snd a)"]
      string.rd_reads [OF assms(1)]
    by (simp add: entry_step_def tag_no_def)
  moreover have "parses entry_step (field_bytes 18 string_bytes (snd kv)) (fst kv, snd a) (fst kv, snd kv)"
    using parses_field [of r_string string_bytes "snd kv" entry_step 18 "(fst kv, snd a)" "\<lambda>v. (fst kv, v)"]
      string.rd_reads [OF assms(2)]
    by (simp add: entry_step_def tag_no_def)
  ultimately show ?thesis
    unfolding entry_bytes_def by (intro parses_append) simp_all
qed

interpretation entry: field_codec put_entry get_entry "\<lambda>kv. delim (entry_bytes kv)" entry_ok
proof unfold_locales
  fix kv assume kv: "entry_ok kv"
  show "emits (put_entry kv) (delim (entry_bytes kv))"
    unfolding put_entry_def [abs_def] entry_bytes_def field_bytes_def
    by (rule emits_delim [of "\<lambda>w. w_string (snd kv) (w_uint32 18 (w_string (fst kv) (w_uint32 10 w)))"])
      (use kv in \<open>intro emits_comp emits_uint32 string.put_emits; simp add: entry_ok_def\<close>)
  show "reads get_entry (delim (entry_bytes kv)) kv"
    using parses_decode(1) [OF parses_entry [of kv "([], [])"]] kv
    by (simp add: get_entry_def entry_ok_def)
qed

definition map_ok :: "js_map \<Rightarrow> bool" where
  "map_ok xs \<longleftrightarrow> list_all entry_ok xs \<and> js_object xs"

end
