(* ===== verification/Unknown.thy ===== *)
theory Unknown
  imports Codec
begin

text \<open>
  Fields a class does not know. \<open>Reader.skipType\<close> steps over the payload of any wire type;
  \<open>unknown\<close> is the shape of such a payload, a group holding fields again to any depth, and
  \<open>skip_unknown\<close> says that skipping ends exactly behind it. A \<open>decode\<close> that meets an unknown
  field goes on as if it were not there (\<open>parses_unknown\<close>): an older client reads what a newer
  daemon sends.
\<close>

datatype unknown =
    UVarint nat
  | UFixed64 "u8 list"
  | UDelim "u8 list"
  | UGroup "(nat \<times> unknown) list"
  | UFixed32 "u8 list"

fun wire_type :: "unknown \<Rightarrow> nat" where
  "wire_type (UVarint n) = 0"
| "wire_type (UFixed64 bs) = 1"
| "wire_type (UDelim bs) = 2"
| "wire_type (UGroup us) = 3"
| "wire_type (UFixed32 bs) = 5"

definition tag_of :: "nat \<Rightarrow> nat \<Rightarrow> nat" where
  "tag_of number wire = 8 * number + wire"

text \<open>A group ends with a tag of wire type 4; its number is not looked at, here it is 1.\<close>

fun payload :: "unknown \<Rightarrow> u8 list" where
  "payload (UVarint n) = varint_bytes n"
| "payload (UFixed64 bs) = bs"
| "payload (UDelim bs) = delim bs"
| "payload (UGroup us) =
     concat (map (\<lambda>(number, u). varint_bytes (tag_of number (wire_type u)) @ payload u) us) @
     varint_bytes (tag_of 1 4)"
| "payload (UFixed32 bs) = bs"

fun unknown_ok :: "unknown \<Rightarrow> bool" where
  "unknown_ok (UVarint n) \<longleftrightarrow> True"
| "unknown_ok (UFixed64 bs) \<longleftrightarrow> length bs = 8"
| "unknown_ok (UDelim bs) \<longleftrightarrow> length bs < 4294967296"
| "unknown_ok (UGroup us) \<longleftrightarrow> (\<forall>(number, u) \<in> set us. number < 536870912 \<and> unknown_ok u)"
| "unknown_ok (UFixed32 bs) \<longleftrightarrow> length bs = 4"

section \<open>Skipping a payload\<close>

lemma wire_type_less: "wire_type u < 8" "wire_type u \<noteq> 4"
  by (cases u; simp)+

lemma tag_of_type:
  assumes "number < 536870912" "wire < 8"
  shows "(word_of_nat (tag_of number wire) :: u32) AND 7 = word_of_nat wire"
    and "tag_of number wire < 4294967296"
  using assms unfolding and_numerals_nat(1) by (simp_all add: tag_of_def)

lemma reads_tag:
  assumes "number < 536870912" "wire < 8"
  shows "reads r_uint32 (varint_bytes (tag_of number wire)) (word_of_nat (tag_of number wire))"
  using tag_of_type(2) [OF assms] by (intro reads_uint32_word) simp

lemma continuation_bit:
  "n < 256 \<Longrightarrow> (word_of_nat n :: u32) AND 128 \<noteq> 0 \<longleftrightarrow> 128 \<le> n"
proof -
  assume "n < 256"
  then have "n div 128 = 0 \<or> n div 128 = 1" by linarith
  then have "odd (n div 128) \<longleftrightarrow> 128 \<le> n" by auto
  then have "bit n 7 \<longleftrightarrow> 128 \<le> n" by (simp add: bit_iff_odd)
  then have "bit (word_of_nat n :: u32) 7 \<longleftrightarrow> 128 \<le> n" by (simp add: bit_simps)
  then show ?thesis
    using and_exp_eq_0_iff_not_bit [of "word_of_nat n :: u32" 7] by simp
qed

lemma skip_varint_bytes:
  assumes "r_len r = length (r_buf r)" "bytes_at (r_buf r) (r_pos r) (varint_bytes n)"
  shows "r_skip_varint r = ok (r_move (length (varint_bytes n)) r)"
  using assms
proof (induction n arbitrary: r rule: varint_bytes.induct)
  case (1 n)
  have pos: "r_pos r < r_len r"
    using bytes_at_bound [OF 1(3)] 1(2) length_varint_bytes_pos [of n] by linarith
  have byte: "r_byte r = word_of_nat (varint_digit n 0)"
    using varint_at(1) [OF 1(3), of 0] by simp
  show ?case
  proof (cases "n < 128")
    case True
    then have "r_byte r AND 128 = 0"
      using continuation_bit [of n] by (simp add: byte varint_digit_def)
    then show ?thesis
      using True pos by (simp add: r_skip_varint.simps [of r] varint_bytes_small)
  next
    case False
    then have "128 \<le> varint_digit n 0" by (simp add: varint_digit_def)
    then have "r_byte r AND 128 \<noteq> 0"
      unfolding byte using continuation_bit [OF varint_digit_less] by blast
    then have "r_skip_varint r = r_skip_varint (r_move 1 r)"
      using pos by (intro r_skip_varint_more) simp
    also have "\<dots> = ok (r_move (length (varint_bytes (n div 128))) (r_move 1 r))"
    proof (rule 1(1) [OF False])
      show "r_len (r_move 1 r) = length (r_buf (r_move 1 r))" using 1(2) by simp
      show "bytes_at (r_buf (r_move 1 r)) (r_pos (r_move 1 r)) (varint_bytes (n div 128))"
        using 1(3) False bytes_at_append [of "r_buf r" "r_pos r" "[word_of_nat (n mod 128 + 128)]" "varint_bytes (n div 128)"]
        by (simp add: varint_bytes_big [of n])
    qed
    finally show ?thesis using False by (simp add: varint_bytes_big)
  qed
qed

definition skipped :: "unknown \<Rightarrow> bool" where
  "skipped u \<longleftrightarrow> (\<forall>r. r_len r = length (r_buf r) \<longrightarrow> bytes_at (r_buf r) (r_pos r) (payload u) \<longrightarrow>
     skip_types (Some (word_of_nat (wire_type u))) r = ok (r_move (length (payload u)) r))"

lemma skipped_group:
  assumes "\<forall>(number, u) \<in> set us. number < 536870912 \<and> skipped u"
    and "r_len r = length (r_buf r)" "bytes_at (r_buf r) (r_pos r) (payload (UGroup us))"
  shows "skip_types None r = ok (r_move (length (payload (UGroup us))) r)"
  using assms
proof (induction us arbitrary: r)
  case Nil
  have u: "r_uint32 r = ok (word_of_nat (tag_of 1 4), r_move (length (varint_bytes (tag_of 1 4))) r)"
    using Nil by (intro readsD [OF reads_tag]) simp_all
  then show ?case
    by (subst skip_types.simps) (simp add: u tag_of_type)
next
  case (Cons x us)
  obtain number u where x: "x = (number, u)" by (cases x)
  let ?t = "varint_bytes (tag_of number (wire_type u))"
  have ok: "number < 536870912" "skipped u" using Cons.prems(1) x by simp_all
  have at: "bytes_at (r_buf r) (r_pos r) ?t" "bytes_at (r_buf r) (r_pos r + length ?t) (payload u)"
    "bytes_at (r_buf r) (r_pos r + length ?t + length (payload u)) (payload (UGroup us))"
    using Cons.prems(3) by (simp_all add: x bytes_at_append add.assoc)
  have t: "r_uint32 r = ok (word_of_nat (tag_of number (wire_type u)), r_move (length ?t) r)"
    using at Cons.prems(2) by (intro readsD [OF reads_tag [OF ok(1) wire_type_less(1)]]) simp_all
  have s: "skip_types (Some (word_of_nat (wire_type u))) (r_move (length ?t) r) =
      ok (r_move (length (payload u)) (r_move (length ?t) r))"
    using ok(2) at Cons.prems(2) by (simp add: skipped_def)
  have g: "skip_types None (r_move (length (payload u)) (r_move (length ?t) r)) =
      ok (r_move (length (payload (UGroup us))) (r_move (length (payload u)) (r_move (length ?t) r)))"
    by (rule Cons.IH) (use Cons.prems at in \<open>simp_all add: add.assoc\<close>)
  have "(word_of_nat (wire_type u) :: u32) \<noteq> 4"
    by (cases u) simp_all
  then show ?case
    using s g by (subst skip_types.simps)
      (simp add: t tag_of_type [OF ok(1) wire_type_less(1)] x add.assoc)
qed

lemma skip_unknown: "unknown_ok u \<Longrightarrow> skipped u"
proof (induction u)
  case (UVarint n)
  then show ?case by (simp add: skipped_def skip_types.simps [of "Some _"] skip_varint_bytes)
next
  case (UFixed64 bs)
  then show ?case by (auto simp: skipped_def skip_types.simps [of "Some _"] r_skip_def dest: bytes_at_bound)
next
  case (UDelim bs)
  show ?case
    unfolding skipped_def
  proof (intro allI impI)
    fix r :: Reader
    let ?u = "uint32_bytes (int (length bs))"
    assume len: "r_len r = length (r_buf r)" and at: "bytes_at (r_buf r) (r_pos r) (payload (UDelim bs))"
    have n: "length bs < 4294967296" using UDelim by simp
    have u: "r_uint32 r = ok (word_of_nat (length bs), r_move (length ?u) r)"
      using at len n by (intro readsD [OF reads_delim_length]) (simp_all add: delim_def bytes_at_append)
    have "unat (word_of_nat (length bs) :: u32) = length bs"
      using n by (simp add: unat_of_nat take_bit_nat_eq_self_iff)
    then show "skip_types (Some (word_of_nat (wire_type (UDelim bs)))) r =
        ok (r_move (length (payload (UDelim bs))) r)"
      using bytes_at_bound [OF at] len
      by (subst skip_types.simps) (simp add: u r_skip_def delim_def)
  qed
next
  case (UGroup us)
  then have "\<forall>(number, u) \<in> set us. number < 536870912 \<and> skipped u"
    by fastforce
  from skipped_group [OF this] show ?case
    by (simp add: skipped_def skip_types.simps [of "Some _"] del: payload.simps)
next
  case (UFixed32 bs)
  then show ?case by (auto simp: skipped_def skip_types.simps [of "Some _"] r_skip_def dest: bytes_at_bound)
qed

section \<open>Unknown fields\<close>

definition unknown_bytes :: "nat \<Rightarrow> unknown \<Rightarrow> u8 list" where
  "unknown_bytes number u = varint_bytes (tag_of number (wire_type u)) @ payload u"

lemma parses_unknown:
  assumes "number < 536870912" "unknown_ok u"
    and step: "\<And>r. step (word_of_nat (tag_of number (wire_type u))) r a =
      skip_field (word_of_nat (tag_of number (wire_type u))) r a"
  shows "parses step (unknown_bytes number u) a a"
  unfolding parses_def
proof (intro allI impI)
  fix r :: Reader and limit
  let ?t = "varint_bytes (tag_of number (wire_type u))"
  assume len: "r_len r = length (r_buf r)" and at: "bytes_at (r_buf r) (r_pos r) (unknown_bytes number u)"
    and limit: "r_pos r + length (unknown_bytes number u) \<le> limit"
  have t: "r_uint32 r = ok (word_of_nat (tag_of number (wire_type u)), r_move (length ?t) r)"
    using at len by (intro readsD [OF reads_tag [OF assms(1) wire_type_less(1)]])
      (simp_all add: unknown_bytes_def bytes_at_append)
  have "skip_types (Some (word_of_nat (wire_type u))) (r_move (length ?t) r) =
      ok (r_move (length (payload u)) (r_move (length ?t) r))"
    using skip_unknown [OF assms(2)] at len by (simp add: skipped_def unknown_bytes_def bytes_at_append)
  then have s: "step (word_of_nat (tag_of number (wire_type u))) (r_move (length ?t) r) a =
      ok (a, r_move (length (unknown_bytes number u)) r)"
    by (simp add: step skip_field_def r_skipType_def unknown_bytes_def
        tag_of_type [OF assms(1) wire_type_less(1)])
  have "r_pos r < limit"
    using limit length_varint_bytes_pos [of "tag_of number (wire_type u)"]
    unfolding unknown_bytes_def length_append by linarith
  then show "decode_loop step limit r a =
      decode_loop step limit (r_move (length (unknown_bytes number u)) r) a"
    by (subst decode_loop.simps) (simp add: t s)
qed

lemma tag_no_of:
  assumes "number < 536870912" "wire < 8"
  shows "tag_no (word_of_nat (tag_of number wire)) = word_of_nat number"
  unfolding tag_no_def drop_bit_nat [OF tag_of_type(2) [OF assms]] using assms by (simp add: tag_of_def)

lemma number_eq:
  assumes "number < 536870912" "k < 536870912"
  shows "(word_of_nat number :: u32) = word_of_nat k \<longleftrightarrow> number = k"
  using assms by (simp add: word_unat_eq_iff unat_of_nat take_bit_nat_eq_self_iff)

end
