(* ===== verification/Daemon.thy ===== *)
theory Daemon
  imports Codec
begin

text \<open>
  The messages about the daemon itself: errors, status, rules, shutdown, reindexing, and
  the events it sends without being asked.

  A message is a record with one component per field of its class: an \<open>option\<close> for a
  singular field (\<open>None\<close> while the object has no property of its own and reads the default
  of its prototype), a list for a repeated one, the entries of the object for a map; a class without
  fields is a type with one value. \<open>X_new\<close> is what the constructor makes, \<open>X_encode\<close>
  and \<open>X_decode\<close> are the methods, \<open>X_decode_field\<close> the switch of \<open>X.decode\<close>. The
  specification is \<open>X_bytes\<close>, the bytes on the wire, \<open>X_valid\<close>, the values the types of
  the fields have, and \<open>X_merge a m\<close>, the message \<open>a\<close> after the bytes of \<open>m\<close> have
  been decoded into it.
\<close>

subsection \<open>ErrorResponse\<close>

record ErrorResponse =
  ErrorResponse_code :: "int option"
  ErrorResponse_message :: "jstring option"

definition ErrorResponse_new :: ErrorResponse where
  "ErrorResponse_new = \<lparr>ErrorResponse_code = None, ErrorResponse_message = None\<rparr>"

definition ErrorResponse_encode :: "ErrorResponse \<Rightarrow> Writer \<Rightarrow> Writer" where
  "ErrorResponse_encode message writer =
     (let writer = put_opt 8 w_uint32 (ErrorResponse_code message) writer;
          writer = put_opt 18 w_string (ErrorResponse_message message) writer
      in writer)"

definition ErrorResponse_decode_field :: "u32 \<Rightarrow> Reader \<Rightarrow> ErrorResponse \<Rightarrow> (ErrorResponse \<times> Reader) res" where
  "ErrorResponse_decode_field tag reader message =
     (if tag_no tag = 1 then map_res (\<lambda>v. message\<lparr>ErrorResponse_code := Some v\<rparr>) (r_uint32_number reader)
      else if tag_no tag = 2 then map_res (\<lambda>v. message\<lparr>ErrorResponse_message := Some v\<rparr>) (r_string reader)
      else skip_field tag reader message)"

definition ErrorResponse_decode :: "Reader \<Rightarrow> nat option \<Rightarrow> (ErrorResponse \<times> Reader) res" where
  "ErrorResponse_decode = decode_with ErrorResponse_decode_field ErrorResponse_new"

definition ErrorResponse_encodeDelimited :: "ErrorResponse \<Rightarrow> Writer \<Rightarrow> Writer" where
  "ErrorResponse_encodeDelimited message writer = w_ldelim (ErrorResponse_encode message writer)"

definition ErrorResponse_decodeDelimited :: "Reader \<Rightarrow> (ErrorResponse \<times> Reader) res" where
  "ErrorResponse_decodeDelimited = get_sub ErrorResponse_decode"

definition ErrorResponse_bytes :: "ErrorResponse \<Rightarrow> u8 list" where
  "ErrorResponse_bytes m =
     opt_bytes 8 uint32_bytes (ErrorResponse_code m) @
     opt_bytes 18 string_bytes (ErrorResponse_message m)"

definition ErrorResponse_valid :: "ErrorResponse \<Rightarrow> bool" where
  "ErrorResponse_valid m \<longleftrightarrow> opt_ok uint32_ok (ErrorResponse_code m) \<and>
     opt_ok string_ok (ErrorResponse_message m)"

definition ErrorResponse_merge :: "ErrorResponse \<Rightarrow> ErrorResponse \<Rightarrow> ErrorResponse" where
  "ErrorResponse_merge a m =
     a\<lparr>ErrorResponse_code := or_else (ErrorResponse_code m) (ErrorResponse_code a),
       ErrorResponse_message := or_else (ErrorResponse_message m) (ErrorResponse_message a)\<rparr>"

lemma ErrorResponse_emits:
  assumes "ErrorResponse_valid m"
  shows "emits (ErrorResponse_encode m) (ErrorResponse_bytes m)"
  unfolding ErrorResponse_encode_def [abs_def] ErrorResponse_bytes_def Let_def append_assoc [symmetric]
  by (rule string.then_emits_opt, rule uint32.emits_opt)
    (simp_all add: assms [unfolded ErrorResponse_valid_def map_ok_def])

lemma ErrorResponse_parses:
  assumes "ErrorResponse_valid m"
  shows "parses ErrorResponse_decode_field (ErrorResponse_bytes m) a (ErrorResponse_merge a m)"
  unfolding ErrorResponse_bytes_def append_assoc [symmetric]
  by (rule parses_to,
      rule string.then_parses_opt [where get = ErrorResponse_message and upd = "\<lambda>x m. m\<lparr>ErrorResponse_message := x\<rparr>"],
      rule uint32.parses_opt [where get = ErrorResponse_code and upd = "\<lambda>x m. m\<lparr>ErrorResponse_code := x\<rparr>"])
    (simp_all add: assms [unfolded ErrorResponse_valid_def map_ok_def] ErrorResponse_decode_field_def tag_no_def lens_def
      merge_defs ErrorResponse_merge_def)

lemma ErrorResponse_merge_new: "ErrorResponse_valid m \<Longrightarrow> ErrorResponse_merge ErrorResponse_new m = m"
  by (simp add: ErrorResponse_merge_def ErrorResponse_new_def ErrorResponse_valid_def map_ok_def js_object_def)

lemma ErrorResponse_progress: "progress ErrorResponse_decode_field"
  by (rule progressI)
    (simp add: ErrorResponse_decode_field_def moves_if_split moves_branches)

interpretation ErrorResponse_codec: message_codec ErrorResponse_encode ErrorResponse_decode ErrorResponse_decode_field ErrorResponse_new ErrorResponse_bytes
  ErrorResponse_valid ErrorResponse_merge
  by unfold_locales
    (simp_all add: ErrorResponse_decode_def ErrorResponse_progress ErrorResponse_emits ErrorResponse_parses ErrorResponse_merge_new)

subsection \<open>StatusRequest\<close>

datatype StatusRequest = StatusRequest_new

definition StatusRequest_encode :: "StatusRequest \<Rightarrow> Writer \<Rightarrow> Writer" where
  "StatusRequest_encode message writer = writer"

definition StatusRequest_decode_field :: "u32 \<Rightarrow> Reader \<Rightarrow> StatusRequest \<Rightarrow> (StatusRequest \<times> Reader) res" where
  "StatusRequest_decode_field tag reader message = skip_field tag reader message"

definition StatusRequest_decode :: "Reader \<Rightarrow> nat option \<Rightarrow> (StatusRequest \<times> Reader) res" where
  "StatusRequest_decode = decode_with StatusRequest_decode_field StatusRequest_new"

definition StatusRequest_encodeDelimited :: "StatusRequest \<Rightarrow> Writer \<Rightarrow> Writer" where
  "StatusRequest_encodeDelimited message writer = w_ldelim (StatusRequest_encode message writer)"

definition StatusRequest_decodeDelimited :: "Reader \<Rightarrow> (StatusRequest \<times> Reader) res" where
  "StatusRequest_decodeDelimited = get_sub StatusRequest_decode"

definition StatusRequest_bytes :: "StatusRequest \<Rightarrow> u8 list" where
  "StatusRequest_bytes m = []"

definition StatusRequest_valid :: "StatusRequest \<Rightarrow> bool" where
  "StatusRequest_valid m \<longleftrightarrow> True"

definition StatusRequest_merge :: "StatusRequest \<Rightarrow> StatusRequest \<Rightarrow> StatusRequest" where
  "StatusRequest_merge a m = m"

lemma StatusRequest_emits: "emits (StatusRequest_encode m) (StatusRequest_bytes m)"
  by (simp add: StatusRequest_encode_def [abs_def] StatusRequest_bytes_def emits_id)

lemma StatusRequest_parses: "parses StatusRequest_decode_field (StatusRequest_bytes m) a (StatusRequest_merge a m)"
  by (cases a; cases m) (simp add: StatusRequest_bytes_def StatusRequest_merge_def parses_Nil)

lemma StatusRequest_merge_new: "StatusRequest_valid m \<Longrightarrow> StatusRequest_merge StatusRequest_new m = m"
  by (simp add: StatusRequest_merge_def)

lemma StatusRequest_progress: "progress StatusRequest_decode_field"
  by (rule progressI)
    (simp add: StatusRequest_decode_field_def moves_if_split moves_branches)

interpretation StatusRequest_codec: message_codec StatusRequest_encode StatusRequest_decode StatusRequest_decode_field StatusRequest_new StatusRequest_bytes
  StatusRequest_valid StatusRequest_merge
  by unfold_locales
    (simp_all add: StatusRequest_decode_def StatusRequest_progress StatusRequest_emits StatusRequest_parses StatusRequest_merge_new)

subsection \<open>StatusResponse\<close>

record StatusResponse =
  StatusResponse_state :: "int option"
  StatusResponse_filesIndexed :: "int option"
  StatusResponse_tagsTotal :: "int option"
  StatusResponse_indexSizeMb :: "u32 option"
  StatusResponse_warnings :: "jstring list"
  StatusResponse_uptimeSeconds :: "int option"

definition StatusResponse_new :: StatusResponse where
  "StatusResponse_new = \<lparr>StatusResponse_state = None, StatusResponse_filesIndexed = None,
     StatusResponse_tagsTotal = None, StatusResponse_indexSizeMb = None,
     StatusResponse_warnings = [], StatusResponse_uptimeSeconds = None\<rparr>"

definition StatusResponse_encode :: "StatusResponse \<Rightarrow> Writer \<Rightarrow> Writer" where
  "StatusResponse_encode message writer =
     (let writer = put_opt 8 w_int32 (StatusResponse_state message) writer;
          writer = put_opt 16 w_uint64 (StatusResponse_filesIndexed message) writer;
          writer = put_opt 24 w_uint64 (StatusResponse_tagsTotal message) writer;
          writer = put_opt 37 w_float (StatusResponse_indexSizeMb message) writer;
          writer = put_all 42 w_string (StatusResponse_warnings message) writer;
          writer = put_opt 48 w_int64 (StatusResponse_uptimeSeconds message) writer
      in writer)"

definition StatusResponse_decode_field :: "u32 \<Rightarrow> Reader \<Rightarrow> StatusResponse \<Rightarrow> (StatusResponse \<times> Reader) res" where
  "StatusResponse_decode_field tag reader message =
     (if tag_no tag = 1 then map_res (\<lambda>v. message\<lparr>StatusResponse_state := Some v\<rparr>) (r_int32 reader)
      else if tag_no tag = 2 then map_res (\<lambda>v. message\<lparr>StatusResponse_filesIndexed := Some v\<rparr>) (r_uint64 reader)
      else if tag_no tag = 3 then map_res (\<lambda>v. message\<lparr>StatusResponse_tagsTotal := Some v\<rparr>) (r_uint64 reader)
      else if tag_no tag = 4 then map_res (\<lambda>v. message\<lparr>StatusResponse_indexSizeMb := Some v\<rparr>) (r_float reader)
      else if tag_no tag = 5 then map_res (\<lambda>v. message\<lparr>StatusResponse_warnings := StatusResponse_warnings message @ [v]\<rparr>) (r_string reader)
      else if tag_no tag = 6 then map_res (\<lambda>v. message\<lparr>StatusResponse_uptimeSeconds := Some v\<rparr>) (r_int64 reader)
      else skip_field tag reader message)"

definition StatusResponse_decode :: "Reader \<Rightarrow> nat option \<Rightarrow> (StatusResponse \<times> Reader) res" where
  "StatusResponse_decode = decode_with StatusResponse_decode_field StatusResponse_new"

definition StatusResponse_encodeDelimited :: "StatusResponse \<Rightarrow> Writer \<Rightarrow> Writer" where
  "StatusResponse_encodeDelimited message writer = w_ldelim (StatusResponse_encode message writer)"

definition StatusResponse_decodeDelimited :: "Reader \<Rightarrow> (StatusResponse \<times> Reader) res" where
  "StatusResponse_decodeDelimited = get_sub StatusResponse_decode"

definition StatusResponse_bytes :: "StatusResponse \<Rightarrow> u8 list" where
  "StatusResponse_bytes m =
     opt_bytes 8 int32_bytes (StatusResponse_state m) @
     opt_bytes 16 int64_bytes (StatusResponse_filesIndexed m) @
     opt_bytes 24 int64_bytes (StatusResponse_tagsTotal m) @
     opt_bytes 37 le32_bytes (StatusResponse_indexSizeMb m) @
     all_bytes 42 string_bytes (StatusResponse_warnings m) @
     opt_bytes 48 int64_bytes (StatusResponse_uptimeSeconds m)"

definition StatusResponse_valid :: "StatusResponse \<Rightarrow> bool" where
  "StatusResponse_valid m \<longleftrightarrow> opt_ok int32_ok (StatusResponse_state m) \<and>
     opt_ok uint64_ok (StatusResponse_filesIndexed m) \<and>
     opt_ok uint64_ok (StatusResponse_tagsTotal m) \<and>
     list_all string_ok (StatusResponse_warnings m) \<and>
     opt_ok int64_ok (StatusResponse_uptimeSeconds m)"

definition StatusResponse_merge :: "StatusResponse \<Rightarrow> StatusResponse \<Rightarrow> StatusResponse" where
  "StatusResponse_merge a m =
     a\<lparr>StatusResponse_state := or_else (StatusResponse_state m) (StatusResponse_state a),
       StatusResponse_filesIndexed := or_else (StatusResponse_filesIndexed m) (StatusResponse_filesIndexed a),
       StatusResponse_tagsTotal := or_else (StatusResponse_tagsTotal m) (StatusResponse_tagsTotal a),
       StatusResponse_indexSizeMb := or_else (StatusResponse_indexSizeMb m) (StatusResponse_indexSizeMb a),
       StatusResponse_warnings := StatusResponse_warnings a @ StatusResponse_warnings m,
       StatusResponse_uptimeSeconds := or_else (StatusResponse_uptimeSeconds m) (StatusResponse_uptimeSeconds a)\<rparr>"

lemma StatusResponse_emits:
  assumes "StatusResponse_valid m"
  shows "emits (StatusResponse_encode m) (StatusResponse_bytes m)"
  unfolding StatusResponse_encode_def [abs_def] StatusResponse_bytes_def Let_def append_assoc [symmetric]
  by (rule int64.then_emits_opt, rule string.then_emits_all, rule float.then_emits_opt,
      rule uint64.then_emits_opt, rule uint64.then_emits_opt, rule int32.emits_opt)
    (simp_all add: assms [unfolded StatusResponse_valid_def map_ok_def])

lemma StatusResponse_parses:
  assumes "StatusResponse_valid m"
  shows "parses StatusResponse_decode_field (StatusResponse_bytes m) a (StatusResponse_merge a m)"
  unfolding StatusResponse_bytes_def append_assoc [symmetric]
  by (rule parses_to,
      rule int64.then_parses_opt [where get = StatusResponse_uptimeSeconds and upd = "\<lambda>x m. m\<lparr>StatusResponse_uptimeSeconds := x\<rparr>"],
      rule string.then_parses_all [where get = StatusResponse_warnings and upd = "\<lambda>x m. m\<lparr>StatusResponse_warnings := x\<rparr>"],
      rule float.then_parses_opt [where get = StatusResponse_indexSizeMb and upd = "\<lambda>x m. m\<lparr>StatusResponse_indexSizeMb := x\<rparr>"],
      rule uint64.then_parses_opt [where get = StatusResponse_tagsTotal and upd = "\<lambda>x m. m\<lparr>StatusResponse_tagsTotal := x\<rparr>"],
      rule uint64.then_parses_opt [where get = StatusResponse_filesIndexed and upd = "\<lambda>x m. m\<lparr>StatusResponse_filesIndexed := x\<rparr>"],
      rule int32.parses_opt [where get = StatusResponse_state and upd = "\<lambda>x m. m\<lparr>StatusResponse_state := x\<rparr>"])
    (simp_all add: assms [unfolded StatusResponse_valid_def map_ok_def] StatusResponse_decode_field_def tag_no_def lens_def
      merge_defs StatusResponse_merge_def)

lemma StatusResponse_merge_new: "StatusResponse_valid m \<Longrightarrow> StatusResponse_merge StatusResponse_new m = m"
  by (simp add: StatusResponse_merge_def StatusResponse_new_def StatusResponse_valid_def map_ok_def js_object_def)

lemma StatusResponse_progress: "progress StatusResponse_decode_field"
  by (rule progressI)
    (simp add: StatusResponse_decode_field_def moves_if_split moves_branches)

interpretation StatusResponse_codec: message_codec StatusResponse_encode StatusResponse_decode StatusResponse_decode_field StatusResponse_new StatusResponse_bytes
  StatusResponse_valid StatusResponse_merge
  by unfold_locales
    (simp_all add: StatusResponse_decode_def StatusResponse_progress StatusResponse_emits StatusResponse_parses StatusResponse_merge_new)

subsection \<open>ShutdownRequest\<close>

datatype ShutdownRequest = ShutdownRequest_new

definition ShutdownRequest_encode :: "ShutdownRequest \<Rightarrow> Writer \<Rightarrow> Writer" where
  "ShutdownRequest_encode message writer = writer"

definition ShutdownRequest_decode_field :: "u32 \<Rightarrow> Reader \<Rightarrow> ShutdownRequest \<Rightarrow> (ShutdownRequest \<times> Reader) res" where
  "ShutdownRequest_decode_field tag reader message = skip_field tag reader message"

definition ShutdownRequest_decode :: "Reader \<Rightarrow> nat option \<Rightarrow> (ShutdownRequest \<times> Reader) res" where
  "ShutdownRequest_decode = decode_with ShutdownRequest_decode_field ShutdownRequest_new"

definition ShutdownRequest_encodeDelimited :: "ShutdownRequest \<Rightarrow> Writer \<Rightarrow> Writer" where
  "ShutdownRequest_encodeDelimited message writer = w_ldelim (ShutdownRequest_encode message writer)"

definition ShutdownRequest_decodeDelimited :: "Reader \<Rightarrow> (ShutdownRequest \<times> Reader) res" where
  "ShutdownRequest_decodeDelimited = get_sub ShutdownRequest_decode"

definition ShutdownRequest_bytes :: "ShutdownRequest \<Rightarrow> u8 list" where
  "ShutdownRequest_bytes m = []"

definition ShutdownRequest_valid :: "ShutdownRequest \<Rightarrow> bool" where
  "ShutdownRequest_valid m \<longleftrightarrow> True"

definition ShutdownRequest_merge :: "ShutdownRequest \<Rightarrow> ShutdownRequest \<Rightarrow> ShutdownRequest" where
  "ShutdownRequest_merge a m = m"

lemma ShutdownRequest_emits: "emits (ShutdownRequest_encode m) (ShutdownRequest_bytes m)"
  by (simp add: ShutdownRequest_encode_def [abs_def] ShutdownRequest_bytes_def emits_id)

lemma ShutdownRequest_parses: "parses ShutdownRequest_decode_field (ShutdownRequest_bytes m) a (ShutdownRequest_merge a m)"
  by (cases a; cases m) (simp add: ShutdownRequest_bytes_def ShutdownRequest_merge_def parses_Nil)

lemma ShutdownRequest_merge_new: "ShutdownRequest_valid m \<Longrightarrow> ShutdownRequest_merge ShutdownRequest_new m = m"
  by (simp add: ShutdownRequest_merge_def)

lemma ShutdownRequest_progress: "progress ShutdownRequest_decode_field"
  by (rule progressI)
    (simp add: ShutdownRequest_decode_field_def moves_if_split moves_branches)

interpretation ShutdownRequest_codec: message_codec ShutdownRequest_encode ShutdownRequest_decode ShutdownRequest_decode_field ShutdownRequest_new ShutdownRequest_bytes
  ShutdownRequest_valid ShutdownRequest_merge
  by unfold_locales
    (simp_all add: ShutdownRequest_decode_def ShutdownRequest_progress ShutdownRequest_emits ShutdownRequest_parses ShutdownRequest_merge_new)

subsection \<open>ShutdownResponse\<close>

datatype ShutdownResponse = ShutdownResponse_new

definition ShutdownResponse_encode :: "ShutdownResponse \<Rightarrow> Writer \<Rightarrow> Writer" where
  "ShutdownResponse_encode message writer = writer"

definition ShutdownResponse_decode_field :: "u32 \<Rightarrow> Reader \<Rightarrow> ShutdownResponse \<Rightarrow> (ShutdownResponse \<times> Reader) res" where
  "ShutdownResponse_decode_field tag reader message = skip_field tag reader message"

definition ShutdownResponse_decode :: "Reader \<Rightarrow> nat option \<Rightarrow> (ShutdownResponse \<times> Reader) res" where
  "ShutdownResponse_decode = decode_with ShutdownResponse_decode_field ShutdownResponse_new"

definition ShutdownResponse_encodeDelimited :: "ShutdownResponse \<Rightarrow> Writer \<Rightarrow> Writer" where
  "ShutdownResponse_encodeDelimited message writer = w_ldelim (ShutdownResponse_encode message writer)"

definition ShutdownResponse_decodeDelimited :: "Reader \<Rightarrow> (ShutdownResponse \<times> Reader) res" where
  "ShutdownResponse_decodeDelimited = get_sub ShutdownResponse_decode"

definition ShutdownResponse_bytes :: "ShutdownResponse \<Rightarrow> u8 list" where
  "ShutdownResponse_bytes m = []"

definition ShutdownResponse_valid :: "ShutdownResponse \<Rightarrow> bool" where
  "ShutdownResponse_valid m \<longleftrightarrow> True"

definition ShutdownResponse_merge :: "ShutdownResponse \<Rightarrow> ShutdownResponse \<Rightarrow> ShutdownResponse" where
  "ShutdownResponse_merge a m = m"

lemma ShutdownResponse_emits: "emits (ShutdownResponse_encode m) (ShutdownResponse_bytes m)"
  by (simp add: ShutdownResponse_encode_def [abs_def] ShutdownResponse_bytes_def emits_id)

lemma ShutdownResponse_parses: "parses ShutdownResponse_decode_field (ShutdownResponse_bytes m) a (ShutdownResponse_merge a m)"
  by (cases a; cases m) (simp add: ShutdownResponse_bytes_def ShutdownResponse_merge_def parses_Nil)

lemma ShutdownResponse_merge_new: "ShutdownResponse_valid m \<Longrightarrow> ShutdownResponse_merge ShutdownResponse_new m = m"
  by (simp add: ShutdownResponse_merge_def)

lemma ShutdownResponse_progress: "progress ShutdownResponse_decode_field"
  by (rule progressI)
    (simp add: ShutdownResponse_decode_field_def moves_if_split moves_branches)

interpretation ShutdownResponse_codec: message_codec ShutdownResponse_encode ShutdownResponse_decode ShutdownResponse_decode_field ShutdownResponse_new ShutdownResponse_bytes
  ShutdownResponse_valid ShutdownResponse_merge
  by unfold_locales
    (simp_all add: ShutdownResponse_decode_def ShutdownResponse_progress ShutdownResponse_emits ShutdownResponse_parses ShutdownResponse_merge_new)

subsection \<open>ReindexFileRequest\<close>

record ReindexFileRequest =
  ReindexFileRequest_path :: "jstring option"

definition ReindexFileRequest_new :: ReindexFileRequest where
  "ReindexFileRequest_new = \<lparr>ReindexFileRequest_path = None\<rparr>"

definition ReindexFileRequest_encode :: "ReindexFileRequest \<Rightarrow> Writer \<Rightarrow> Writer" where
  "ReindexFileRequest_encode message writer =
     (let writer = put_opt 10 w_string (ReindexFileRequest_path message) writer
      in writer)"

definition ReindexFileRequest_decode_field :: "u32 \<Rightarrow> Reader \<Rightarrow> ReindexFileRequest \<Rightarrow> (ReindexFileRequest \<times> Reader) res" where
  "ReindexFileRequest_decode_field tag reader message =
     (if tag_no tag = 1 then map_res (\<lambda>v. message\<lparr>ReindexFileRequest_path := Some v\<rparr>) (r_string reader)
      else skip_field tag reader message)"

definition ReindexFileRequest_decode :: "Reader \<Rightarrow> nat option \<Rightarrow> (ReindexFileRequest \<times> Reader) res" where
  "ReindexFileRequest_decode = decode_with ReindexFileRequest_decode_field ReindexFileRequest_new"

definition ReindexFileRequest_encodeDelimited :: "ReindexFileRequest \<Rightarrow> Writer \<Rightarrow> Writer" where
  "ReindexFileRequest_encodeDelimited message writer = w_ldelim (ReindexFileRequest_encode message writer)"

definition ReindexFileRequest_decodeDelimited :: "Reader \<Rightarrow> (ReindexFileRequest \<times> Reader) res" where
  "ReindexFileRequest_decodeDelimited = get_sub ReindexFileRequest_decode"

definition ReindexFileRequest_bytes :: "ReindexFileRequest \<Rightarrow> u8 list" where
  "ReindexFileRequest_bytes m =
     opt_bytes 10 string_bytes (ReindexFileRequest_path m)"

definition ReindexFileRequest_valid :: "ReindexFileRequest \<Rightarrow> bool" where
  "ReindexFileRequest_valid m \<longleftrightarrow> opt_ok string_ok (ReindexFileRequest_path m)"

definition ReindexFileRequest_merge :: "ReindexFileRequest \<Rightarrow> ReindexFileRequest \<Rightarrow> ReindexFileRequest" where
  "ReindexFileRequest_merge a m =
     a\<lparr>ReindexFileRequest_path := or_else (ReindexFileRequest_path m) (ReindexFileRequest_path a)\<rparr>"

lemma ReindexFileRequest_emits:
  assumes "ReindexFileRequest_valid m"
  shows "emits (ReindexFileRequest_encode m) (ReindexFileRequest_bytes m)"
  unfolding ReindexFileRequest_encode_def [abs_def] ReindexFileRequest_bytes_def Let_def append_assoc [symmetric]
  by (rule string.emits_opt)
    (simp_all add: assms [unfolded ReindexFileRequest_valid_def map_ok_def])

lemma ReindexFileRequest_parses:
  assumes "ReindexFileRequest_valid m"
  shows "parses ReindexFileRequest_decode_field (ReindexFileRequest_bytes m) a (ReindexFileRequest_merge a m)"
  unfolding ReindexFileRequest_bytes_def append_assoc [symmetric]
  by (rule parses_to,
      rule string.parses_opt [where get = ReindexFileRequest_path and upd = "\<lambda>x m. m\<lparr>ReindexFileRequest_path := x\<rparr>"])
    (simp_all add: assms [unfolded ReindexFileRequest_valid_def map_ok_def] ReindexFileRequest_decode_field_def tag_no_def lens_def
      merge_defs ReindexFileRequest_merge_def)

lemma ReindexFileRequest_merge_new: "ReindexFileRequest_valid m \<Longrightarrow> ReindexFileRequest_merge ReindexFileRequest_new m = m"
  by (simp add: ReindexFileRequest_merge_def ReindexFileRequest_new_def ReindexFileRequest_valid_def map_ok_def js_object_def)

lemma ReindexFileRequest_progress: "progress ReindexFileRequest_decode_field"
  by (rule progressI)
    (simp add: ReindexFileRequest_decode_field_def moves_if_split moves_branches)

interpretation ReindexFileRequest_codec: message_codec ReindexFileRequest_encode ReindexFileRequest_decode ReindexFileRequest_decode_field ReindexFileRequest_new ReindexFileRequest_bytes
  ReindexFileRequest_valid ReindexFileRequest_merge
  by unfold_locales
    (simp_all add: ReindexFileRequest_decode_def ReindexFileRequest_progress ReindexFileRequest_emits ReindexFileRequest_parses ReindexFileRequest_merge_new)

subsection \<open>ReindexFileResponse\<close>

datatype ReindexFileResponse = ReindexFileResponse_new

definition ReindexFileResponse_encode :: "ReindexFileResponse \<Rightarrow> Writer \<Rightarrow> Writer" where
  "ReindexFileResponse_encode message writer = writer"

definition ReindexFileResponse_decode_field :: "u32 \<Rightarrow> Reader \<Rightarrow> ReindexFileResponse \<Rightarrow> (ReindexFileResponse \<times> Reader) res" where
  "ReindexFileResponse_decode_field tag reader message = skip_field tag reader message"

definition ReindexFileResponse_decode :: "Reader \<Rightarrow> nat option \<Rightarrow> (ReindexFileResponse \<times> Reader) res" where
  "ReindexFileResponse_decode = decode_with ReindexFileResponse_decode_field ReindexFileResponse_new"

definition ReindexFileResponse_encodeDelimited :: "ReindexFileResponse \<Rightarrow> Writer \<Rightarrow> Writer" where
  "ReindexFileResponse_encodeDelimited message writer = w_ldelim (ReindexFileResponse_encode message writer)"

definition ReindexFileResponse_decodeDelimited :: "Reader \<Rightarrow> (ReindexFileResponse \<times> Reader) res" where
  "ReindexFileResponse_decodeDelimited = get_sub ReindexFileResponse_decode"

definition ReindexFileResponse_bytes :: "ReindexFileResponse \<Rightarrow> u8 list" where
  "ReindexFileResponse_bytes m = []"

definition ReindexFileResponse_valid :: "ReindexFileResponse \<Rightarrow> bool" where
  "ReindexFileResponse_valid m \<longleftrightarrow> True"

definition ReindexFileResponse_merge :: "ReindexFileResponse \<Rightarrow> ReindexFileResponse \<Rightarrow> ReindexFileResponse" where
  "ReindexFileResponse_merge a m = m"

lemma ReindexFileResponse_emits: "emits (ReindexFileResponse_encode m) (ReindexFileResponse_bytes m)"
  by (simp add: ReindexFileResponse_encode_def [abs_def] ReindexFileResponse_bytes_def emits_id)

lemma ReindexFileResponse_parses: "parses ReindexFileResponse_decode_field (ReindexFileResponse_bytes m) a (ReindexFileResponse_merge a m)"
  by (cases a; cases m) (simp add: ReindexFileResponse_bytes_def ReindexFileResponse_merge_def parses_Nil)

lemma ReindexFileResponse_merge_new: "ReindexFileResponse_valid m \<Longrightarrow> ReindexFileResponse_merge ReindexFileResponse_new m = m"
  by (simp add: ReindexFileResponse_merge_def)

lemma ReindexFileResponse_progress: "progress ReindexFileResponse_decode_field"
  by (rule progressI)
    (simp add: ReindexFileResponse_decode_field_def moves_if_split moves_branches)

interpretation ReindexFileResponse_codec: message_codec ReindexFileResponse_encode ReindexFileResponse_decode ReindexFileResponse_decode_field ReindexFileResponse_new ReindexFileResponse_bytes
  ReindexFileResponse_valid ReindexFileResponse_merge
  by unfold_locales
    (simp_all add: ReindexFileResponse_decode_def ReindexFileResponse_progress ReindexFileResponse_emits ReindexFileResponse_parses ReindexFileResponse_merge_new)

subsection \<open>ReloadRulesRequest\<close>

datatype ReloadRulesRequest = ReloadRulesRequest_new

definition ReloadRulesRequest_encode :: "ReloadRulesRequest \<Rightarrow> Writer \<Rightarrow> Writer" where
  "ReloadRulesRequest_encode message writer = writer"

definition ReloadRulesRequest_decode_field :: "u32 \<Rightarrow> Reader \<Rightarrow> ReloadRulesRequest \<Rightarrow> (ReloadRulesRequest \<times> Reader) res" where
  "ReloadRulesRequest_decode_field tag reader message = skip_field tag reader message"

definition ReloadRulesRequest_decode :: "Reader \<Rightarrow> nat option \<Rightarrow> (ReloadRulesRequest \<times> Reader) res" where
  "ReloadRulesRequest_decode = decode_with ReloadRulesRequest_decode_field ReloadRulesRequest_new"

definition ReloadRulesRequest_encodeDelimited :: "ReloadRulesRequest \<Rightarrow> Writer \<Rightarrow> Writer" where
  "ReloadRulesRequest_encodeDelimited message writer = w_ldelim (ReloadRulesRequest_encode message writer)"

definition ReloadRulesRequest_decodeDelimited :: "Reader \<Rightarrow> (ReloadRulesRequest \<times> Reader) res" where
  "ReloadRulesRequest_decodeDelimited = get_sub ReloadRulesRequest_decode"

definition ReloadRulesRequest_bytes :: "ReloadRulesRequest \<Rightarrow> u8 list" where
  "ReloadRulesRequest_bytes m = []"

definition ReloadRulesRequest_valid :: "ReloadRulesRequest \<Rightarrow> bool" where
  "ReloadRulesRequest_valid m \<longleftrightarrow> True"

definition ReloadRulesRequest_merge :: "ReloadRulesRequest \<Rightarrow> ReloadRulesRequest \<Rightarrow> ReloadRulesRequest" where
  "ReloadRulesRequest_merge a m = m"

lemma ReloadRulesRequest_emits: "emits (ReloadRulesRequest_encode m) (ReloadRulesRequest_bytes m)"
  by (simp add: ReloadRulesRequest_encode_def [abs_def] ReloadRulesRequest_bytes_def emits_id)

lemma ReloadRulesRequest_parses: "parses ReloadRulesRequest_decode_field (ReloadRulesRequest_bytes m) a (ReloadRulesRequest_merge a m)"
  by (cases a; cases m) (simp add: ReloadRulesRequest_bytes_def ReloadRulesRequest_merge_def parses_Nil)

lemma ReloadRulesRequest_merge_new: "ReloadRulesRequest_valid m \<Longrightarrow> ReloadRulesRequest_merge ReloadRulesRequest_new m = m"
  by (simp add: ReloadRulesRequest_merge_def)

lemma ReloadRulesRequest_progress: "progress ReloadRulesRequest_decode_field"
  by (rule progressI)
    (simp add: ReloadRulesRequest_decode_field_def moves_if_split moves_branches)

interpretation ReloadRulesRequest_codec: message_codec ReloadRulesRequest_encode ReloadRulesRequest_decode ReloadRulesRequest_decode_field ReloadRulesRequest_new ReloadRulesRequest_bytes
  ReloadRulesRequest_valid ReloadRulesRequest_merge
  by unfold_locales
    (simp_all add: ReloadRulesRequest_decode_def ReloadRulesRequest_progress ReloadRulesRequest_emits ReloadRulesRequest_parses ReloadRulesRequest_merge_new)

subsection \<open>ReloadRulesResponse\<close>

record ReloadRulesResponse =
  ReloadRulesResponse_rulesLoaded :: "int option"
  ReloadRulesResponse_errors :: "jstring list"

definition ReloadRulesResponse_new :: ReloadRulesResponse where
  "ReloadRulesResponse_new = \<lparr>ReloadRulesResponse_rulesLoaded = None, ReloadRulesResponse_errors = []\<rparr>"

definition ReloadRulesResponse_encode :: "ReloadRulesResponse \<Rightarrow> Writer \<Rightarrow> Writer" where
  "ReloadRulesResponse_encode message writer =
     (let writer = put_opt 8 w_uint32 (ReloadRulesResponse_rulesLoaded message) writer;
          writer = put_all 18 w_string (ReloadRulesResponse_errors message) writer
      in writer)"

definition ReloadRulesResponse_decode_field :: "u32 \<Rightarrow> Reader \<Rightarrow> ReloadRulesResponse \<Rightarrow> (ReloadRulesResponse \<times> Reader) res" where
  "ReloadRulesResponse_decode_field tag reader message =
     (if tag_no tag = 1 then map_res (\<lambda>v. message\<lparr>ReloadRulesResponse_rulesLoaded := Some v\<rparr>) (r_uint32_number reader)
      else if tag_no tag = 2 then map_res (\<lambda>v. message\<lparr>ReloadRulesResponse_errors := ReloadRulesResponse_errors message @ [v]\<rparr>) (r_string reader)
      else skip_field tag reader message)"

definition ReloadRulesResponse_decode :: "Reader \<Rightarrow> nat option \<Rightarrow> (ReloadRulesResponse \<times> Reader) res" where
  "ReloadRulesResponse_decode = decode_with ReloadRulesResponse_decode_field ReloadRulesResponse_new"

definition ReloadRulesResponse_encodeDelimited :: "ReloadRulesResponse \<Rightarrow> Writer \<Rightarrow> Writer" where
  "ReloadRulesResponse_encodeDelimited message writer = w_ldelim (ReloadRulesResponse_encode message writer)"

definition ReloadRulesResponse_decodeDelimited :: "Reader \<Rightarrow> (ReloadRulesResponse \<times> Reader) res" where
  "ReloadRulesResponse_decodeDelimited = get_sub ReloadRulesResponse_decode"

definition ReloadRulesResponse_bytes :: "ReloadRulesResponse \<Rightarrow> u8 list" where
  "ReloadRulesResponse_bytes m =
     opt_bytes 8 uint32_bytes (ReloadRulesResponse_rulesLoaded m) @
     all_bytes 18 string_bytes (ReloadRulesResponse_errors m)"

definition ReloadRulesResponse_valid :: "ReloadRulesResponse \<Rightarrow> bool" where
  "ReloadRulesResponse_valid m \<longleftrightarrow> opt_ok uint32_ok (ReloadRulesResponse_rulesLoaded m) \<and>
     list_all string_ok (ReloadRulesResponse_errors m)"

definition ReloadRulesResponse_merge :: "ReloadRulesResponse \<Rightarrow> ReloadRulesResponse \<Rightarrow> ReloadRulesResponse" where
  "ReloadRulesResponse_merge a m =
     a\<lparr>ReloadRulesResponse_rulesLoaded := or_else (ReloadRulesResponse_rulesLoaded m) (ReloadRulesResponse_rulesLoaded a),
       ReloadRulesResponse_errors := ReloadRulesResponse_errors a @ ReloadRulesResponse_errors m\<rparr>"

lemma ReloadRulesResponse_emits:
  assumes "ReloadRulesResponse_valid m"
  shows "emits (ReloadRulesResponse_encode m) (ReloadRulesResponse_bytes m)"
  unfolding ReloadRulesResponse_encode_def [abs_def] ReloadRulesResponse_bytes_def Let_def append_assoc [symmetric]
  by (rule string.then_emits_all, rule uint32.emits_opt)
    (simp_all add: assms [unfolded ReloadRulesResponse_valid_def map_ok_def])

lemma ReloadRulesResponse_parses:
  assumes "ReloadRulesResponse_valid m"
  shows "parses ReloadRulesResponse_decode_field (ReloadRulesResponse_bytes m) a (ReloadRulesResponse_merge a m)"
  unfolding ReloadRulesResponse_bytes_def append_assoc [symmetric]
  by (rule parses_to,
      rule string.then_parses_all [where get = ReloadRulesResponse_errors and upd = "\<lambda>x m. m\<lparr>ReloadRulesResponse_errors := x\<rparr>"],
      rule uint32.parses_opt [where get = ReloadRulesResponse_rulesLoaded and upd = "\<lambda>x m. m\<lparr>ReloadRulesResponse_rulesLoaded := x\<rparr>"])
    (simp_all add: assms [unfolded ReloadRulesResponse_valid_def map_ok_def] ReloadRulesResponse_decode_field_def tag_no_def lens_def
      merge_defs ReloadRulesResponse_merge_def)

lemma ReloadRulesResponse_merge_new: "ReloadRulesResponse_valid m \<Longrightarrow> ReloadRulesResponse_merge ReloadRulesResponse_new m = m"
  by (simp add: ReloadRulesResponse_merge_def ReloadRulesResponse_new_def ReloadRulesResponse_valid_def map_ok_def js_object_def)

lemma ReloadRulesResponse_progress: "progress ReloadRulesResponse_decode_field"
  by (rule progressI)
    (simp add: ReloadRulesResponse_decode_field_def moves_if_split moves_branches)

interpretation ReloadRulesResponse_codec: message_codec ReloadRulesResponse_encode ReloadRulesResponse_decode ReloadRulesResponse_decode_field ReloadRulesResponse_new ReloadRulesResponse_bytes
  ReloadRulesResponse_valid ReloadRulesResponse_merge
  by unfold_locales
    (simp_all add: ReloadRulesResponse_decode_def ReloadRulesResponse_progress ReloadRulesResponse_emits ReloadRulesResponse_parses ReloadRulesResponse_merge_new)

subsection \<open>LaunchGUIRequest\<close>

record LaunchGUIRequest =
  LaunchGUIRequest_path :: "jstring option"

definition LaunchGUIRequest_new :: LaunchGUIRequest where
  "LaunchGUIRequest_new = \<lparr>LaunchGUIRequest_path = None\<rparr>"

definition LaunchGUIRequest_encode :: "LaunchGUIRequest \<Rightarrow> Writer \<Rightarrow> Writer" where
  "LaunchGUIRequest_encode message writer =
     (let writer = put_opt 10 w_string (LaunchGUIRequest_path message) writer
      in writer)"

definition LaunchGUIRequest_decode_field :: "u32 \<Rightarrow> Reader \<Rightarrow> LaunchGUIRequest \<Rightarrow> (LaunchGUIRequest \<times> Reader) res" where
  "LaunchGUIRequest_decode_field tag reader message =
     (if tag_no tag = 1 then map_res (\<lambda>v. message\<lparr>LaunchGUIRequest_path := Some v\<rparr>) (r_string reader)
      else skip_field tag reader message)"

definition LaunchGUIRequest_decode :: "Reader \<Rightarrow> nat option \<Rightarrow> (LaunchGUIRequest \<times> Reader) res" where
  "LaunchGUIRequest_decode = decode_with LaunchGUIRequest_decode_field LaunchGUIRequest_new"

definition LaunchGUIRequest_encodeDelimited :: "LaunchGUIRequest \<Rightarrow> Writer \<Rightarrow> Writer" where
  "LaunchGUIRequest_encodeDelimited message writer = w_ldelim (LaunchGUIRequest_encode message writer)"

definition LaunchGUIRequest_decodeDelimited :: "Reader \<Rightarrow> (LaunchGUIRequest \<times> Reader) res" where
  "LaunchGUIRequest_decodeDelimited = get_sub LaunchGUIRequest_decode"

definition LaunchGUIRequest_bytes :: "LaunchGUIRequest \<Rightarrow> u8 list" where
  "LaunchGUIRequest_bytes m =
     opt_bytes 10 string_bytes (LaunchGUIRequest_path m)"

definition LaunchGUIRequest_valid :: "LaunchGUIRequest \<Rightarrow> bool" where
  "LaunchGUIRequest_valid m \<longleftrightarrow> opt_ok string_ok (LaunchGUIRequest_path m)"

definition LaunchGUIRequest_merge :: "LaunchGUIRequest \<Rightarrow> LaunchGUIRequest \<Rightarrow> LaunchGUIRequest" where
  "LaunchGUIRequest_merge a m =
     a\<lparr>LaunchGUIRequest_path := or_else (LaunchGUIRequest_path m) (LaunchGUIRequest_path a)\<rparr>"

lemma LaunchGUIRequest_emits:
  assumes "LaunchGUIRequest_valid m"
  shows "emits (LaunchGUIRequest_encode m) (LaunchGUIRequest_bytes m)"
  unfolding LaunchGUIRequest_encode_def [abs_def] LaunchGUIRequest_bytes_def Let_def append_assoc [symmetric]
  by (rule string.emits_opt)
    (simp_all add: assms [unfolded LaunchGUIRequest_valid_def map_ok_def])

lemma LaunchGUIRequest_parses:
  assumes "LaunchGUIRequest_valid m"
  shows "parses LaunchGUIRequest_decode_field (LaunchGUIRequest_bytes m) a (LaunchGUIRequest_merge a m)"
  unfolding LaunchGUIRequest_bytes_def append_assoc [symmetric]
  by (rule parses_to,
      rule string.parses_opt [where get = LaunchGUIRequest_path and upd = "\<lambda>x m. m\<lparr>LaunchGUIRequest_path := x\<rparr>"])
    (simp_all add: assms [unfolded LaunchGUIRequest_valid_def map_ok_def] LaunchGUIRequest_decode_field_def tag_no_def lens_def
      merge_defs LaunchGUIRequest_merge_def)

lemma LaunchGUIRequest_merge_new: "LaunchGUIRequest_valid m \<Longrightarrow> LaunchGUIRequest_merge LaunchGUIRequest_new m = m"
  by (simp add: LaunchGUIRequest_merge_def LaunchGUIRequest_new_def LaunchGUIRequest_valid_def map_ok_def js_object_def)

lemma LaunchGUIRequest_progress: "progress LaunchGUIRequest_decode_field"
  by (rule progressI)
    (simp add: LaunchGUIRequest_decode_field_def moves_if_split moves_branches)

interpretation LaunchGUIRequest_codec: message_codec LaunchGUIRequest_encode LaunchGUIRequest_decode LaunchGUIRequest_decode_field LaunchGUIRequest_new LaunchGUIRequest_bytes
  LaunchGUIRequest_valid LaunchGUIRequest_merge
  by unfold_locales
    (simp_all add: LaunchGUIRequest_decode_def LaunchGUIRequest_progress LaunchGUIRequest_emits LaunchGUIRequest_parses LaunchGUIRequest_merge_new)

subsection \<open>LaunchGUIResponse\<close>

record LaunchGUIResponse =
  LaunchGUIResponse_alreadyRunning :: "bool option"

definition LaunchGUIResponse_new :: LaunchGUIResponse where
  "LaunchGUIResponse_new = \<lparr>LaunchGUIResponse_alreadyRunning = None\<rparr>"

definition LaunchGUIResponse_encode :: "LaunchGUIResponse \<Rightarrow> Writer \<Rightarrow> Writer" where
  "LaunchGUIResponse_encode message writer =
     (let writer = put_opt 8 w_bool (LaunchGUIResponse_alreadyRunning message) writer
      in writer)"

definition LaunchGUIResponse_decode_field :: "u32 \<Rightarrow> Reader \<Rightarrow> LaunchGUIResponse \<Rightarrow> (LaunchGUIResponse \<times> Reader) res" where
  "LaunchGUIResponse_decode_field tag reader message =
     (if tag_no tag = 1 then map_res (\<lambda>v. message\<lparr>LaunchGUIResponse_alreadyRunning := Some v\<rparr>) (r_bool reader)
      else skip_field tag reader message)"

definition LaunchGUIResponse_decode :: "Reader \<Rightarrow> nat option \<Rightarrow> (LaunchGUIResponse \<times> Reader) res" where
  "LaunchGUIResponse_decode = decode_with LaunchGUIResponse_decode_field LaunchGUIResponse_new"

definition LaunchGUIResponse_encodeDelimited :: "LaunchGUIResponse \<Rightarrow> Writer \<Rightarrow> Writer" where
  "LaunchGUIResponse_encodeDelimited message writer = w_ldelim (LaunchGUIResponse_encode message writer)"

definition LaunchGUIResponse_decodeDelimited :: "Reader \<Rightarrow> (LaunchGUIResponse \<times> Reader) res" where
  "LaunchGUIResponse_decodeDelimited = get_sub LaunchGUIResponse_decode"

definition LaunchGUIResponse_bytes :: "LaunchGUIResponse \<Rightarrow> u8 list" where
  "LaunchGUIResponse_bytes m =
     opt_bytes 8 bool_bytes (LaunchGUIResponse_alreadyRunning m)"

definition LaunchGUIResponse_valid :: "LaunchGUIResponse \<Rightarrow> bool" where
  "LaunchGUIResponse_valid m \<longleftrightarrow> True"

definition LaunchGUIResponse_merge :: "LaunchGUIResponse \<Rightarrow> LaunchGUIResponse \<Rightarrow> LaunchGUIResponse" where
  "LaunchGUIResponse_merge a m =
     a\<lparr>LaunchGUIResponse_alreadyRunning := or_else (LaunchGUIResponse_alreadyRunning m) (LaunchGUIResponse_alreadyRunning a)\<rparr>"

lemma LaunchGUIResponse_emits:
  assumes "LaunchGUIResponse_valid m"
  shows "emits (LaunchGUIResponse_encode m) (LaunchGUIResponse_bytes m)"
  unfolding LaunchGUIResponse_encode_def [abs_def] LaunchGUIResponse_bytes_def Let_def append_assoc [symmetric]
  by (rule bool.emits_opt)
    (simp_all add: assms [unfolded LaunchGUIResponse_valid_def map_ok_def])

lemma LaunchGUIResponse_parses:
  assumes "LaunchGUIResponse_valid m"
  shows "parses LaunchGUIResponse_decode_field (LaunchGUIResponse_bytes m) a (LaunchGUIResponse_merge a m)"
  unfolding LaunchGUIResponse_bytes_def append_assoc [symmetric]
  by (rule parses_to,
      rule bool.parses_opt [where get = LaunchGUIResponse_alreadyRunning and upd = "\<lambda>x m. m\<lparr>LaunchGUIResponse_alreadyRunning := x\<rparr>"])
    (simp_all add: assms [unfolded LaunchGUIResponse_valid_def map_ok_def] LaunchGUIResponse_decode_field_def tag_no_def lens_def
      merge_defs LaunchGUIResponse_merge_def)

lemma LaunchGUIResponse_merge_new: "LaunchGUIResponse_valid m \<Longrightarrow> LaunchGUIResponse_merge LaunchGUIResponse_new m = m"
  by (simp add: LaunchGUIResponse_merge_def LaunchGUIResponse_new_def LaunchGUIResponse_valid_def map_ok_def js_object_def)

lemma LaunchGUIResponse_progress: "progress LaunchGUIResponse_decode_field"
  by (rule progressI)
    (simp add: LaunchGUIResponse_decode_field_def moves_if_split moves_branches)

interpretation LaunchGUIResponse_codec: message_codec LaunchGUIResponse_encode LaunchGUIResponse_decode LaunchGUIResponse_decode_field LaunchGUIResponse_new LaunchGUIResponse_bytes
  LaunchGUIResponse_valid LaunchGUIResponse_merge
  by unfold_locales
    (simp_all add: LaunchGUIResponse_decode_def LaunchGUIResponse_progress LaunchGUIResponse_emits LaunchGUIResponse_parses LaunchGUIResponse_merge_new)

subsection \<open>FileTaggedEvent\<close>

record FileTaggedEvent =
  FileTaggedEvent_path :: "jstring option"
  FileTaggedEvent_added :: "jstring list"
  FileTaggedEvent_removed :: "jstring list"

definition FileTaggedEvent_new :: FileTaggedEvent where
  "FileTaggedEvent_new = \<lparr>FileTaggedEvent_path = None, FileTaggedEvent_added = [], FileTaggedEvent_removed = []\<rparr>"

definition FileTaggedEvent_encode :: "FileTaggedEvent \<Rightarrow> Writer \<Rightarrow> Writer" where
  "FileTaggedEvent_encode message writer =
     (let writer = put_opt 10 w_string (FileTaggedEvent_path message) writer;
          writer = put_all 18 w_string (FileTaggedEvent_added message) writer;
          writer = put_all 26 w_string (FileTaggedEvent_removed message) writer
      in writer)"

definition FileTaggedEvent_decode_field :: "u32 \<Rightarrow> Reader \<Rightarrow> FileTaggedEvent \<Rightarrow> (FileTaggedEvent \<times> Reader) res" where
  "FileTaggedEvent_decode_field tag reader message =
     (if tag_no tag = 1 then map_res (\<lambda>v. message\<lparr>FileTaggedEvent_path := Some v\<rparr>) (r_string reader)
      else if tag_no tag = 2 then map_res (\<lambda>v. message\<lparr>FileTaggedEvent_added := FileTaggedEvent_added message @ [v]\<rparr>) (r_string reader)
      else if tag_no tag = 3 then map_res (\<lambda>v. message\<lparr>FileTaggedEvent_removed := FileTaggedEvent_removed message @ [v]\<rparr>) (r_string reader)
      else skip_field tag reader message)"

definition FileTaggedEvent_decode :: "Reader \<Rightarrow> nat option \<Rightarrow> (FileTaggedEvent \<times> Reader) res" where
  "FileTaggedEvent_decode = decode_with FileTaggedEvent_decode_field FileTaggedEvent_new"

definition FileTaggedEvent_encodeDelimited :: "FileTaggedEvent \<Rightarrow> Writer \<Rightarrow> Writer" where
  "FileTaggedEvent_encodeDelimited message writer = w_ldelim (FileTaggedEvent_encode message writer)"

definition FileTaggedEvent_decodeDelimited :: "Reader \<Rightarrow> (FileTaggedEvent \<times> Reader) res" where
  "FileTaggedEvent_decodeDelimited = get_sub FileTaggedEvent_decode"

definition FileTaggedEvent_bytes :: "FileTaggedEvent \<Rightarrow> u8 list" where
  "FileTaggedEvent_bytes m =
     opt_bytes 10 string_bytes (FileTaggedEvent_path m) @
     all_bytes 18 string_bytes (FileTaggedEvent_added m) @
     all_bytes 26 string_bytes (FileTaggedEvent_removed m)"

definition FileTaggedEvent_valid :: "FileTaggedEvent \<Rightarrow> bool" where
  "FileTaggedEvent_valid m \<longleftrightarrow> opt_ok string_ok (FileTaggedEvent_path m) \<and>
     list_all string_ok (FileTaggedEvent_added m) \<and>
     list_all string_ok (FileTaggedEvent_removed m)"

definition FileTaggedEvent_merge :: "FileTaggedEvent \<Rightarrow> FileTaggedEvent \<Rightarrow> FileTaggedEvent" where
  "FileTaggedEvent_merge a m =
     a\<lparr>FileTaggedEvent_path := or_else (FileTaggedEvent_path m) (FileTaggedEvent_path a),
       FileTaggedEvent_added := FileTaggedEvent_added a @ FileTaggedEvent_added m,
       FileTaggedEvent_removed := FileTaggedEvent_removed a @ FileTaggedEvent_removed m\<rparr>"

lemma FileTaggedEvent_emits:
  assumes "FileTaggedEvent_valid m"
  shows "emits (FileTaggedEvent_encode m) (FileTaggedEvent_bytes m)"
  unfolding FileTaggedEvent_encode_def [abs_def] FileTaggedEvent_bytes_def Let_def append_assoc [symmetric]
  by (rule string.then_emits_all, rule string.then_emits_all, rule string.emits_opt)
    (simp_all add: assms [unfolded FileTaggedEvent_valid_def map_ok_def])

lemma FileTaggedEvent_parses:
  assumes "FileTaggedEvent_valid m"
  shows "parses FileTaggedEvent_decode_field (FileTaggedEvent_bytes m) a (FileTaggedEvent_merge a m)"
  unfolding FileTaggedEvent_bytes_def append_assoc [symmetric]
  by (rule parses_to,
      rule string.then_parses_all [where get = FileTaggedEvent_removed and upd = "\<lambda>x m. m\<lparr>FileTaggedEvent_removed := x\<rparr>"],
      rule string.then_parses_all [where get = FileTaggedEvent_added and upd = "\<lambda>x m. m\<lparr>FileTaggedEvent_added := x\<rparr>"],
      rule string.parses_opt [where get = FileTaggedEvent_path and upd = "\<lambda>x m. m\<lparr>FileTaggedEvent_path := x\<rparr>"])
    (simp_all add: assms [unfolded FileTaggedEvent_valid_def map_ok_def] FileTaggedEvent_decode_field_def tag_no_def lens_def
      merge_defs FileTaggedEvent_merge_def)

lemma FileTaggedEvent_merge_new: "FileTaggedEvent_valid m \<Longrightarrow> FileTaggedEvent_merge FileTaggedEvent_new m = m"
  by (simp add: FileTaggedEvent_merge_def FileTaggedEvent_new_def FileTaggedEvent_valid_def map_ok_def js_object_def)

lemma FileTaggedEvent_progress: "progress FileTaggedEvent_decode_field"
  by (rule progressI)
    (simp add: FileTaggedEvent_decode_field_def moves_if_split moves_branches)

interpretation FileTaggedEvent_codec: message_codec FileTaggedEvent_encode FileTaggedEvent_decode FileTaggedEvent_decode_field FileTaggedEvent_new FileTaggedEvent_bytes
  FileTaggedEvent_valid FileTaggedEvent_merge
  by unfold_locales
    (simp_all add: FileTaggedEvent_decode_def FileTaggedEvent_progress FileTaggedEvent_emits FileTaggedEvent_parses FileTaggedEvent_merge_new)

subsection \<open>IndexUpdatedEvent\<close>

record IndexUpdatedEvent =
  IndexUpdatedEvent_filesTotal :: "int option"
  IndexUpdatedEvent_tagsTotal :: "int option"

definition IndexUpdatedEvent_new :: IndexUpdatedEvent where
  "IndexUpdatedEvent_new = \<lparr>IndexUpdatedEvent_filesTotal = None, IndexUpdatedEvent_tagsTotal = None\<rparr>"

definition IndexUpdatedEvent_encode :: "IndexUpdatedEvent \<Rightarrow> Writer \<Rightarrow> Writer" where
  "IndexUpdatedEvent_encode message writer =
     (let writer = put_opt 8 w_uint64 (IndexUpdatedEvent_filesTotal message) writer;
          writer = put_opt 16 w_uint64 (IndexUpdatedEvent_tagsTotal message) writer
      in writer)"

definition IndexUpdatedEvent_decode_field :: "u32 \<Rightarrow> Reader \<Rightarrow> IndexUpdatedEvent \<Rightarrow> (IndexUpdatedEvent \<times> Reader) res" where
  "IndexUpdatedEvent_decode_field tag reader message =
     (if tag_no tag = 1 then map_res (\<lambda>v. message\<lparr>IndexUpdatedEvent_filesTotal := Some v\<rparr>) (r_uint64 reader)
      else if tag_no tag = 2 then map_res (\<lambda>v. message\<lparr>IndexUpdatedEvent_tagsTotal := Some v\<rparr>) (r_uint64 reader)
      else skip_field tag reader message)"

definition IndexUpdatedEvent_decode :: "Reader \<Rightarrow> nat option \<Rightarrow> (IndexUpdatedEvent \<times> Reader) res" where
  "IndexUpdatedEvent_decode = decode_with IndexUpdatedEvent_decode_field IndexUpdatedEvent_new"

definition IndexUpdatedEvent_encodeDelimited :: "IndexUpdatedEvent \<Rightarrow> Writer \<Rightarrow> Writer" where
  "IndexUpdatedEvent_encodeDelimited message writer = w_ldelim (IndexUpdatedEvent_encode message writer)"

definition IndexUpdatedEvent_decodeDelimited :: "Reader \<Rightarrow> (IndexUpdatedEvent \<times> Reader) res" where
  "IndexUpdatedEvent_decodeDelimited = get_sub IndexUpdatedEvent_decode"

definition IndexUpdatedEvent_bytes :: "IndexUpdatedEvent \<Rightarrow> u8 list" where
  "IndexUpdatedEvent_bytes m =
     opt_bytes 8 int64_bytes (IndexUpdatedEvent_filesTotal m) @
     opt_bytes 16 int64_bytes (IndexUpdatedEvent_tagsTotal m)"

definition IndexUpdatedEvent_valid :: "IndexUpdatedEvent \<Rightarrow> bool" where
  "IndexUpdatedEvent_valid m \<longleftrightarrow> opt_ok uint64_ok (IndexUpdatedEvent_filesTotal m) \<and>
     opt_ok uint64_ok (IndexUpdatedEvent_tagsTotal m)"

definition IndexUpdatedEvent_merge :: "IndexUpdatedEvent \<Rightarrow> IndexUpdatedEvent \<Rightarrow> IndexUpdatedEvent" where
  "IndexUpdatedEvent_merge a m =
     a\<lparr>IndexUpdatedEvent_filesTotal := or_else (IndexUpdatedEvent_filesTotal m) (IndexUpdatedEvent_filesTotal a),
       IndexUpdatedEvent_tagsTotal := or_else (IndexUpdatedEvent_tagsTotal m) (IndexUpdatedEvent_tagsTotal a)\<rparr>"

lemma IndexUpdatedEvent_emits:
  assumes "IndexUpdatedEvent_valid m"
  shows "emits (IndexUpdatedEvent_encode m) (IndexUpdatedEvent_bytes m)"
  unfolding IndexUpdatedEvent_encode_def [abs_def] IndexUpdatedEvent_bytes_def Let_def append_assoc [symmetric]
  by (rule uint64.then_emits_opt, rule uint64.emits_opt)
    (simp_all add: assms [unfolded IndexUpdatedEvent_valid_def map_ok_def])

lemma IndexUpdatedEvent_parses:
  assumes "IndexUpdatedEvent_valid m"
  shows "parses IndexUpdatedEvent_decode_field (IndexUpdatedEvent_bytes m) a (IndexUpdatedEvent_merge a m)"
  unfolding IndexUpdatedEvent_bytes_def append_assoc [symmetric]
  by (rule parses_to,
      rule uint64.then_parses_opt [where get = IndexUpdatedEvent_tagsTotal and upd = "\<lambda>x m. m\<lparr>IndexUpdatedEvent_tagsTotal := x\<rparr>"],
      rule uint64.parses_opt [where get = IndexUpdatedEvent_filesTotal and upd = "\<lambda>x m. m\<lparr>IndexUpdatedEvent_filesTotal := x\<rparr>"])
    (simp_all add: assms [unfolded IndexUpdatedEvent_valid_def map_ok_def] IndexUpdatedEvent_decode_field_def tag_no_def lens_def
      merge_defs IndexUpdatedEvent_merge_def)

lemma IndexUpdatedEvent_merge_new: "IndexUpdatedEvent_valid m \<Longrightarrow> IndexUpdatedEvent_merge IndexUpdatedEvent_new m = m"
  by (simp add: IndexUpdatedEvent_merge_def IndexUpdatedEvent_new_def IndexUpdatedEvent_valid_def map_ok_def js_object_def)

lemma IndexUpdatedEvent_progress: "progress IndexUpdatedEvent_decode_field"
  by (rule progressI)
    (simp add: IndexUpdatedEvent_decode_field_def moves_if_split moves_branches)

interpretation IndexUpdatedEvent_codec: message_codec IndexUpdatedEvent_encode IndexUpdatedEvent_decode IndexUpdatedEvent_decode_field IndexUpdatedEvent_new IndexUpdatedEvent_bytes
  IndexUpdatedEvent_valid IndexUpdatedEvent_merge
  by unfold_locales
    (simp_all add: IndexUpdatedEvent_decode_def IndexUpdatedEvent_progress IndexUpdatedEvent_emits IndexUpdatedEvent_parses IndexUpdatedEvent_merge_new)

subsection \<open>DaemonStateChangedEvent\<close>

record DaemonStateChangedEvent =
  DaemonStateChangedEvent_state :: "jstring option"

definition DaemonStateChangedEvent_new :: DaemonStateChangedEvent where
  "DaemonStateChangedEvent_new = \<lparr>DaemonStateChangedEvent_state = None\<rparr>"

definition DaemonStateChangedEvent_encode :: "DaemonStateChangedEvent \<Rightarrow> Writer \<Rightarrow> Writer" where
  "DaemonStateChangedEvent_encode message writer =
     (let writer = put_opt 10 w_string (DaemonStateChangedEvent_state message) writer
      in writer)"

definition DaemonStateChangedEvent_decode_field :: "u32 \<Rightarrow> Reader \<Rightarrow> DaemonStateChangedEvent \<Rightarrow> (DaemonStateChangedEvent \<times> Reader) res" where
  "DaemonStateChangedEvent_decode_field tag reader message =
     (if tag_no tag = 1 then map_res (\<lambda>v. message\<lparr>DaemonStateChangedEvent_state := Some v\<rparr>) (r_string reader)
      else skip_field tag reader message)"

definition DaemonStateChangedEvent_decode :: "Reader \<Rightarrow> nat option \<Rightarrow> (DaemonStateChangedEvent \<times> Reader) res" where
  "DaemonStateChangedEvent_decode = decode_with DaemonStateChangedEvent_decode_field DaemonStateChangedEvent_new"

definition DaemonStateChangedEvent_encodeDelimited :: "DaemonStateChangedEvent \<Rightarrow> Writer \<Rightarrow> Writer" where
  "DaemonStateChangedEvent_encodeDelimited message writer = w_ldelim (DaemonStateChangedEvent_encode message writer)"

definition DaemonStateChangedEvent_decodeDelimited :: "Reader \<Rightarrow> (DaemonStateChangedEvent \<times> Reader) res" where
  "DaemonStateChangedEvent_decodeDelimited = get_sub DaemonStateChangedEvent_decode"

definition DaemonStateChangedEvent_bytes :: "DaemonStateChangedEvent \<Rightarrow> u8 list" where
  "DaemonStateChangedEvent_bytes m =
     opt_bytes 10 string_bytes (DaemonStateChangedEvent_state m)"

definition DaemonStateChangedEvent_valid :: "DaemonStateChangedEvent \<Rightarrow> bool" where
  "DaemonStateChangedEvent_valid m \<longleftrightarrow> opt_ok string_ok (DaemonStateChangedEvent_state m)"

definition DaemonStateChangedEvent_merge :: "DaemonStateChangedEvent \<Rightarrow> DaemonStateChangedEvent \<Rightarrow> DaemonStateChangedEvent" where
  "DaemonStateChangedEvent_merge a m =
     a\<lparr>DaemonStateChangedEvent_state := or_else (DaemonStateChangedEvent_state m) (DaemonStateChangedEvent_state a)\<rparr>"

lemma DaemonStateChangedEvent_emits:
  assumes "DaemonStateChangedEvent_valid m"
  shows "emits (DaemonStateChangedEvent_encode m) (DaemonStateChangedEvent_bytes m)"
  unfolding DaemonStateChangedEvent_encode_def [abs_def] DaemonStateChangedEvent_bytes_def Let_def append_assoc [symmetric]
  by (rule string.emits_opt)
    (simp_all add: assms [unfolded DaemonStateChangedEvent_valid_def map_ok_def])

lemma DaemonStateChangedEvent_parses:
  assumes "DaemonStateChangedEvent_valid m"
  shows "parses DaemonStateChangedEvent_decode_field (DaemonStateChangedEvent_bytes m) a (DaemonStateChangedEvent_merge a m)"
  unfolding DaemonStateChangedEvent_bytes_def append_assoc [symmetric]
  by (rule parses_to,
      rule string.parses_opt [where get = DaemonStateChangedEvent_state and upd = "\<lambda>x m. m\<lparr>DaemonStateChangedEvent_state := x\<rparr>"])
    (simp_all add: assms [unfolded DaemonStateChangedEvent_valid_def map_ok_def] DaemonStateChangedEvent_decode_field_def tag_no_def lens_def
      merge_defs DaemonStateChangedEvent_merge_def)

lemma DaemonStateChangedEvent_merge_new: "DaemonStateChangedEvent_valid m \<Longrightarrow> DaemonStateChangedEvent_merge DaemonStateChangedEvent_new m = m"
  by (simp add: DaemonStateChangedEvent_merge_def DaemonStateChangedEvent_new_def DaemonStateChangedEvent_valid_def map_ok_def js_object_def)

lemma DaemonStateChangedEvent_progress: "progress DaemonStateChangedEvent_decode_field"
  by (rule progressI)
    (simp add: DaemonStateChangedEvent_decode_field_def moves_if_split moves_branches)

interpretation DaemonStateChangedEvent_codec: message_codec DaemonStateChangedEvent_encode DaemonStateChangedEvent_decode DaemonStateChangedEvent_decode_field DaemonStateChangedEvent_new DaemonStateChangedEvent_bytes
  DaemonStateChangedEvent_valid DaemonStateChangedEvent_merge
  by unfold_locales
    (simp_all add: DaemonStateChangedEvent_decode_def DaemonStateChangedEvent_progress DaemonStateChangedEvent_emits DaemonStateChangedEvent_parses DaemonStateChangedEvent_merge_new)

subsection \<open>ShowWindowEvent\<close>

record ShowWindowEvent =
  ShowWindowEvent_path :: "jstring option"

definition ShowWindowEvent_new :: ShowWindowEvent where
  "ShowWindowEvent_new = \<lparr>ShowWindowEvent_path = None\<rparr>"

definition ShowWindowEvent_encode :: "ShowWindowEvent \<Rightarrow> Writer \<Rightarrow> Writer" where
  "ShowWindowEvent_encode message writer =
     (let writer = put_opt 10 w_string (ShowWindowEvent_path message) writer
      in writer)"

definition ShowWindowEvent_decode_field :: "u32 \<Rightarrow> Reader \<Rightarrow> ShowWindowEvent \<Rightarrow> (ShowWindowEvent \<times> Reader) res" where
  "ShowWindowEvent_decode_field tag reader message =
     (if tag_no tag = 1 then map_res (\<lambda>v. message\<lparr>ShowWindowEvent_path := Some v\<rparr>) (r_string reader)
      else skip_field tag reader message)"

definition ShowWindowEvent_decode :: "Reader \<Rightarrow> nat option \<Rightarrow> (ShowWindowEvent \<times> Reader) res" where
  "ShowWindowEvent_decode = decode_with ShowWindowEvent_decode_field ShowWindowEvent_new"

definition ShowWindowEvent_encodeDelimited :: "ShowWindowEvent \<Rightarrow> Writer \<Rightarrow> Writer" where
  "ShowWindowEvent_encodeDelimited message writer = w_ldelim (ShowWindowEvent_encode message writer)"

definition ShowWindowEvent_decodeDelimited :: "Reader \<Rightarrow> (ShowWindowEvent \<times> Reader) res" where
  "ShowWindowEvent_decodeDelimited = get_sub ShowWindowEvent_decode"

definition ShowWindowEvent_bytes :: "ShowWindowEvent \<Rightarrow> u8 list" where
  "ShowWindowEvent_bytes m =
     opt_bytes 10 string_bytes (ShowWindowEvent_path m)"

definition ShowWindowEvent_valid :: "ShowWindowEvent \<Rightarrow> bool" where
  "ShowWindowEvent_valid m \<longleftrightarrow> opt_ok string_ok (ShowWindowEvent_path m)"

definition ShowWindowEvent_merge :: "ShowWindowEvent \<Rightarrow> ShowWindowEvent \<Rightarrow> ShowWindowEvent" where
  "ShowWindowEvent_merge a m =
     a\<lparr>ShowWindowEvent_path := or_else (ShowWindowEvent_path m) (ShowWindowEvent_path a)\<rparr>"

lemma ShowWindowEvent_emits:
  assumes "ShowWindowEvent_valid m"
  shows "emits (ShowWindowEvent_encode m) (ShowWindowEvent_bytes m)"
  unfolding ShowWindowEvent_encode_def [abs_def] ShowWindowEvent_bytes_def Let_def append_assoc [symmetric]
  by (rule string.emits_opt)
    (simp_all add: assms [unfolded ShowWindowEvent_valid_def map_ok_def])

lemma ShowWindowEvent_parses:
  assumes "ShowWindowEvent_valid m"
  shows "parses ShowWindowEvent_decode_field (ShowWindowEvent_bytes m) a (ShowWindowEvent_merge a m)"
  unfolding ShowWindowEvent_bytes_def append_assoc [symmetric]
  by (rule parses_to,
      rule string.parses_opt [where get = ShowWindowEvent_path and upd = "\<lambda>x m. m\<lparr>ShowWindowEvent_path := x\<rparr>"])
    (simp_all add: assms [unfolded ShowWindowEvent_valid_def map_ok_def] ShowWindowEvent_decode_field_def tag_no_def lens_def
      merge_defs ShowWindowEvent_merge_def)

lemma ShowWindowEvent_merge_new: "ShowWindowEvent_valid m \<Longrightarrow> ShowWindowEvent_merge ShowWindowEvent_new m = m"
  by (simp add: ShowWindowEvent_merge_def ShowWindowEvent_new_def ShowWindowEvent_valid_def map_ok_def js_object_def)

lemma ShowWindowEvent_progress: "progress ShowWindowEvent_decode_field"
  by (rule progressI)
    (simp add: ShowWindowEvent_decode_field_def moves_if_split moves_branches)

interpretation ShowWindowEvent_codec: message_codec ShowWindowEvent_encode ShowWindowEvent_decode ShowWindowEvent_decode_field ShowWindowEvent_new ShowWindowEvent_bytes
  ShowWindowEvent_valid ShowWindowEvent_merge
  by unfold_locales
    (simp_all add: ShowWindowEvent_decode_def ShowWindowEvent_progress ShowWindowEvent_emits ShowWindowEvent_parses ShowWindowEvent_merge_new)

end
