(* ===== verification/Query.thy ===== *)
theory Query
  imports Codec
begin

text \<open>
  The messages of the index: searches and their results, tags, metadata, related files,
  globs, and saved searches.

  A message is a record with one component per field of its class: an \<open>option\<close> for a
  singular field (\<open>None\<close> while the object has no property of its own and reads the default
  of its prototype), a list for a repeated one, the entries of the object for a map; a class without
  fields is a type with one value. \<open>X_new\<close> is what the constructor makes, \<open>X_encode\<close>
  and \<open>X_decode\<close> are the methods, \<open>X_decode_field\<close> the switch of \<open>X.decode\<close>. The
  specification is \<open>X_bytes\<close>, the bytes on the wire, \<open>X_valid\<close>, the values the types of
  the fields have, and \<open>X_merge a m\<close>, the message \<open>a\<close> after the bytes of \<open>m\<close> have
  been decoded into it.
\<close>

subsection \<open>SearchRequest\<close>

record SearchRequest =
  SearchRequest_tags :: "jstring list"
  SearchRequest_tagsAny :: "bool option"
  SearchRequest_tagExclude :: "jstring list"
  SearchRequest_metaFilters :: js_map
  SearchRequest_ftsQuery :: "jstring option"
  SearchRequest_limit :: "int option"
  SearchRequest_offset :: "int option"
  SearchRequest_sortBy :: "jstring list"
  SearchRequest_vectorQuery :: "jstring option"

definition SearchRequest_new :: SearchRequest where
  "SearchRequest_new = \<lparr>SearchRequest_tags = [], SearchRequest_tagsAny = None, SearchRequest_tagExclude = [],
     SearchRequest_metaFilters = [], SearchRequest_ftsQuery = None, SearchRequest_limit =
     None, SearchRequest_offset = None, SearchRequest_sortBy = [],
     SearchRequest_vectorQuery = None\<rparr>"

definition SearchRequest_encode :: "SearchRequest \<Rightarrow> Writer \<Rightarrow> Writer" where
  "SearchRequest_encode message writer =
     (let writer = put_all 10 w_string (SearchRequest_tags message) writer;
          writer = put_opt 16 w_bool (SearchRequest_tagsAny message) writer;
          writer = put_all 26 w_string (SearchRequest_tagExclude message) writer;
          writer = put_all 34 put_entry (SearchRequest_metaFilters message) writer;
          writer = put_opt 42 w_string (SearchRequest_ftsQuery message) writer;
          writer = put_opt 48 w_uint32 (SearchRequest_limit message) writer;
          writer = put_opt 56 w_uint32 (SearchRequest_offset message) writer;
          writer = put_all 66 w_string (SearchRequest_sortBy message) writer;
          writer = put_opt 74 w_string (SearchRequest_vectorQuery message) writer
      in writer)"

definition SearchRequest_decode_field :: "u32 \<Rightarrow> Reader \<Rightarrow> SearchRequest \<Rightarrow> (SearchRequest \<times> Reader) res" where
  "SearchRequest_decode_field tag reader message =
     (if tag_no tag = 1 then map_res (\<lambda>v. message\<lparr>SearchRequest_tags := SearchRequest_tags message @ [v]\<rparr>) (r_string reader)
      else if tag_no tag = 2 then map_res (\<lambda>v. message\<lparr>SearchRequest_tagsAny := Some v\<rparr>) (r_bool reader)
      else if tag_no tag = 3 then map_res (\<lambda>v. message\<lparr>SearchRequest_tagExclude := SearchRequest_tagExclude message @ [v]\<rparr>) (r_string reader)
      else if tag_no tag = 4 then map_res (\<lambda>v. message\<lparr>SearchRequest_metaFilters := js_put v (SearchRequest_metaFilters message)\<rparr>) (get_entry reader)
      else if tag_no tag = 5 then map_res (\<lambda>v. message\<lparr>SearchRequest_ftsQuery := Some v\<rparr>) (r_string reader)
      else if tag_no tag = 6 then map_res (\<lambda>v. message\<lparr>SearchRequest_limit := Some v\<rparr>) (r_uint32_number reader)
      else if tag_no tag = 7 then map_res (\<lambda>v. message\<lparr>SearchRequest_offset := Some v\<rparr>) (r_uint32_number reader)
      else if tag_no tag = 8 then map_res (\<lambda>v. message\<lparr>SearchRequest_sortBy := SearchRequest_sortBy message @ [v]\<rparr>) (r_string reader)
      else if tag_no tag = 9 then map_res (\<lambda>v. message\<lparr>SearchRequest_vectorQuery := Some v\<rparr>) (r_string reader)
      else skip_field tag reader message)"

definition SearchRequest_decode :: "Reader \<Rightarrow> nat option \<Rightarrow> (SearchRequest \<times> Reader) res" where
  "SearchRequest_decode = decode_with SearchRequest_decode_field SearchRequest_new"

definition SearchRequest_encodeDelimited :: "SearchRequest \<Rightarrow> Writer \<Rightarrow> Writer" where
  "SearchRequest_encodeDelimited message writer = w_ldelim (SearchRequest_encode message writer)"

definition SearchRequest_decodeDelimited :: "Reader \<Rightarrow> (SearchRequest \<times> Reader) res" where
  "SearchRequest_decodeDelimited = get_sub SearchRequest_decode"

definition SearchRequest_bytes :: "SearchRequest \<Rightarrow> u8 list" where
  "SearchRequest_bytes m =
     all_bytes 10 string_bytes (SearchRequest_tags m) @
     opt_bytes 16 bool_bytes (SearchRequest_tagsAny m) @
     all_bytes 26 string_bytes (SearchRequest_tagExclude m) @
     all_bytes 34 (\<lambda>kv. delim (entry_bytes kv)) (SearchRequest_metaFilters m) @
     opt_bytes 42 string_bytes (SearchRequest_ftsQuery m) @
     opt_bytes 48 uint32_bytes (SearchRequest_limit m) @
     opt_bytes 56 uint32_bytes (SearchRequest_offset m) @
     all_bytes 66 string_bytes (SearchRequest_sortBy m) @
     opt_bytes 74 string_bytes (SearchRequest_vectorQuery m)"

definition SearchRequest_valid :: "SearchRequest \<Rightarrow> bool" where
  "SearchRequest_valid m \<longleftrightarrow> list_all string_ok (SearchRequest_tags m) \<and>
     list_all string_ok (SearchRequest_tagExclude m) \<and>
     map_ok (SearchRequest_metaFilters m) \<and>
     opt_ok string_ok (SearchRequest_ftsQuery m) \<and>
     opt_ok uint32_ok (SearchRequest_limit m) \<and>
     opt_ok uint32_ok (SearchRequest_offset m) \<and>
     list_all string_ok (SearchRequest_sortBy m) \<and>
     opt_ok string_ok (SearchRequest_vectorQuery m)"

definition SearchRequest_merge :: "SearchRequest \<Rightarrow> SearchRequest \<Rightarrow> SearchRequest" where
  "SearchRequest_merge a m =
     a\<lparr>SearchRequest_tags := SearchRequest_tags a @ SearchRequest_tags m,
       SearchRequest_tagsAny := or_else (SearchRequest_tagsAny m) (SearchRequest_tagsAny a),
       SearchRequest_tagExclude := SearchRequest_tagExclude a @ SearchRequest_tagExclude m,
       SearchRequest_metaFilters := fold js_put (SearchRequest_metaFilters m) (SearchRequest_metaFilters a),
       SearchRequest_ftsQuery := or_else (SearchRequest_ftsQuery m) (SearchRequest_ftsQuery a),
       SearchRequest_limit := or_else (SearchRequest_limit m) (SearchRequest_limit a),
       SearchRequest_offset := or_else (SearchRequest_offset m) (SearchRequest_offset a),
       SearchRequest_sortBy := SearchRequest_sortBy a @ SearchRequest_sortBy m,
       SearchRequest_vectorQuery := or_else (SearchRequest_vectorQuery m) (SearchRequest_vectorQuery a)\<rparr>"

lemma SearchRequest_emits:
  assumes "SearchRequest_valid m"
  shows "emits (SearchRequest_encode m) (SearchRequest_bytes m)"
  unfolding SearchRequest_encode_def [abs_def] SearchRequest_bytes_def Let_def append_assoc [symmetric]
  by (rule string.then_emits_opt, rule string.then_emits_all, rule uint32.then_emits_opt,
      rule uint32.then_emits_opt, rule string.then_emits_opt, rule entry.then_emits_all,
      rule string.then_emits_all, rule bool.then_emits_opt, rule string.emits_all)
    (simp_all add: assms [unfolded SearchRequest_valid_def map_ok_def])

lemma SearchRequest_parses:
  assumes "SearchRequest_valid m"
  shows "parses SearchRequest_decode_field (SearchRequest_bytes m) a (SearchRequest_merge a m)"
  unfolding SearchRequest_bytes_def append_assoc [symmetric]
  by (rule parses_to,
      rule string.then_parses_opt [where get = SearchRequest_vectorQuery and upd = "\<lambda>x m. m\<lparr>SearchRequest_vectorQuery := x\<rparr>"],
      rule string.then_parses_all [where get = SearchRequest_sortBy and upd = "\<lambda>x m. m\<lparr>SearchRequest_sortBy := x\<rparr>"],
      rule uint32.then_parses_opt [where get = SearchRequest_offset and upd = "\<lambda>x m. m\<lparr>SearchRequest_offset := x\<rparr>"],
      rule uint32.then_parses_opt [where get = SearchRequest_limit and upd = "\<lambda>x m. m\<lparr>SearchRequest_limit := x\<rparr>"],
      rule string.then_parses_opt [where get = SearchRequest_ftsQuery and upd = "\<lambda>x m. m\<lparr>SearchRequest_ftsQuery := x\<rparr>"],
      rule entry.then_parses_into [where get = SearchRequest_metaFilters and upd = "\<lambda>x m. m\<lparr>SearchRequest_metaFilters := x\<rparr>" and add = js_put],
      rule string.then_parses_all [where get = SearchRequest_tagExclude and upd = "\<lambda>x m. m\<lparr>SearchRequest_tagExclude := x\<rparr>"],
      rule bool.then_parses_opt [where get = SearchRequest_tagsAny and upd = "\<lambda>x m. m\<lparr>SearchRequest_tagsAny := x\<rparr>"],
      rule string.parses_all [where get = SearchRequest_tags and upd = "\<lambda>x m. m\<lparr>SearchRequest_tags := x\<rparr>"])
    (simp_all add: assms [unfolded SearchRequest_valid_def map_ok_def] SearchRequest_decode_field_def tag_no_def lens_def
      merge_defs SearchRequest_merge_def)

lemma SearchRequest_merge_new: "SearchRequest_valid m \<Longrightarrow> SearchRequest_merge SearchRequest_new m = m"
  by (simp add: SearchRequest_merge_def SearchRequest_new_def SearchRequest_valid_def map_ok_def js_object_def)

lemma SearchRequest_progress: "progress SearchRequest_decode_field"
  by (rule progressI)
    (simp add: SearchRequest_decode_field_def moves_if_split moves_branches)

interpretation SearchRequest_codec: message_codec SearchRequest_encode SearchRequest_decode SearchRequest_decode_field SearchRequest_new SearchRequest_bytes
  SearchRequest_valid SearchRequest_merge
  by unfold_locales
    (simp_all add: SearchRequest_decode_def SearchRequest_progress SearchRequest_emits SearchRequest_parses SearchRequest_merge_new)

subsection \<open>FileResult\<close>

record FileResult =
  FileResult_path :: "jstring option"
  FileResult_tags :: "jstring list"
  FileResult_metadata :: js_map
  FileResult_score :: "64 word option"
  FileResult_mtime :: "int option"
  FileResult_sizeBytes :: "int option"
  FileResult_isLink :: "bool option"
  FileResult_linkTarget :: "jstring option"

definition FileResult_new :: FileResult where
  "FileResult_new = \<lparr>FileResult_path = None, FileResult_tags = [], FileResult_metadata = [],
     FileResult_score = None, FileResult_mtime = None, FileResult_sizeBytes = None,
     FileResult_isLink = None, FileResult_linkTarget = None\<rparr>"

definition FileResult_encode :: "FileResult \<Rightarrow> Writer \<Rightarrow> Writer" where
  "FileResult_encode message writer =
     (let writer = put_opt 10 w_string (FileResult_path message) writer;
          writer = put_all 18 w_string (FileResult_tags message) writer;
          writer = put_all 26 put_entry (FileResult_metadata message) writer;
          writer = put_opt 33 w_double (FileResult_score message) writer;
          writer = put_opt 40 w_int64 (FileResult_mtime message) writer;
          writer = put_opt 48 w_int64 (FileResult_sizeBytes message) writer;
          writer = put_opt 56 w_bool (FileResult_isLink message) writer;
          writer = put_opt 66 w_string (FileResult_linkTarget message) writer
      in writer)"

definition FileResult_decode_field :: "u32 \<Rightarrow> Reader \<Rightarrow> FileResult \<Rightarrow> (FileResult \<times> Reader) res" where
  "FileResult_decode_field tag reader message =
     (if tag_no tag = 1 then map_res (\<lambda>v. message\<lparr>FileResult_path := Some v\<rparr>) (r_string reader)
      else if tag_no tag = 2 then map_res (\<lambda>v. message\<lparr>FileResult_tags := FileResult_tags message @ [v]\<rparr>) (r_string reader)
      else if tag_no tag = 3 then map_res (\<lambda>v. message\<lparr>FileResult_metadata := js_put v (FileResult_metadata message)\<rparr>) (get_entry reader)
      else if tag_no tag = 4 then map_res (\<lambda>v. message\<lparr>FileResult_score := Some v\<rparr>) (r_double reader)
      else if tag_no tag = 5 then map_res (\<lambda>v. message\<lparr>FileResult_mtime := Some v\<rparr>) (r_int64 reader)
      else if tag_no tag = 6 then map_res (\<lambda>v. message\<lparr>FileResult_sizeBytes := Some v\<rparr>) (r_int64 reader)
      else if tag_no tag = 7 then map_res (\<lambda>v. message\<lparr>FileResult_isLink := Some v\<rparr>) (r_bool reader)
      else if tag_no tag = 8 then map_res (\<lambda>v. message\<lparr>FileResult_linkTarget := Some v\<rparr>) (r_string reader)
      else skip_field tag reader message)"

definition FileResult_decode :: "Reader \<Rightarrow> nat option \<Rightarrow> (FileResult \<times> Reader) res" where
  "FileResult_decode = decode_with FileResult_decode_field FileResult_new"

definition FileResult_encodeDelimited :: "FileResult \<Rightarrow> Writer \<Rightarrow> Writer" where
  "FileResult_encodeDelimited message writer = w_ldelim (FileResult_encode message writer)"

definition FileResult_decodeDelimited :: "Reader \<Rightarrow> (FileResult \<times> Reader) res" where
  "FileResult_decodeDelimited = get_sub FileResult_decode"

definition FileResult_bytes :: "FileResult \<Rightarrow> u8 list" where
  "FileResult_bytes m =
     opt_bytes 10 string_bytes (FileResult_path m) @
     all_bytes 18 string_bytes (FileResult_tags m) @
     all_bytes 26 (\<lambda>kv. delim (entry_bytes kv)) (FileResult_metadata m) @
     opt_bytes 33 le64_bytes (FileResult_score m) @
     opt_bytes 40 int64_bytes (FileResult_mtime m) @
     opt_bytes 48 int64_bytes (FileResult_sizeBytes m) @
     opt_bytes 56 bool_bytes (FileResult_isLink m) @
     opt_bytes 66 string_bytes (FileResult_linkTarget m)"

definition FileResult_valid :: "FileResult \<Rightarrow> bool" where
  "FileResult_valid m \<longleftrightarrow> opt_ok string_ok (FileResult_path m) \<and>
     list_all string_ok (FileResult_tags m) \<and>
     map_ok (FileResult_metadata m) \<and>
     opt_ok int64_ok (FileResult_mtime m) \<and>
     opt_ok int64_ok (FileResult_sizeBytes m) \<and>
     opt_ok string_ok (FileResult_linkTarget m)"

definition FileResult_merge :: "FileResult \<Rightarrow> FileResult \<Rightarrow> FileResult" where
  "FileResult_merge a m =
     a\<lparr>FileResult_path := or_else (FileResult_path m) (FileResult_path a),
       FileResult_tags := FileResult_tags a @ FileResult_tags m,
       FileResult_metadata := fold js_put (FileResult_metadata m) (FileResult_metadata a),
       FileResult_score := or_else (FileResult_score m) (FileResult_score a),
       FileResult_mtime := or_else (FileResult_mtime m) (FileResult_mtime a),
       FileResult_sizeBytes := or_else (FileResult_sizeBytes m) (FileResult_sizeBytes a),
       FileResult_isLink := or_else (FileResult_isLink m) (FileResult_isLink a),
       FileResult_linkTarget := or_else (FileResult_linkTarget m) (FileResult_linkTarget a)\<rparr>"

lemma FileResult_emits:
  assumes "FileResult_valid m"
  shows "emits (FileResult_encode m) (FileResult_bytes m)"
  unfolding FileResult_encode_def [abs_def] FileResult_bytes_def Let_def append_assoc [symmetric]
  by (rule string.then_emits_opt, rule bool.then_emits_opt, rule int64.then_emits_opt,
      rule int64.then_emits_opt, rule double.then_emits_opt, rule entry.then_emits_all,
      rule string.then_emits_all, rule string.emits_opt)
    (simp_all add: assms [unfolded FileResult_valid_def map_ok_def])

lemma FileResult_parses:
  assumes "FileResult_valid m"
  shows "parses FileResult_decode_field (FileResult_bytes m) a (FileResult_merge a m)"
  unfolding FileResult_bytes_def append_assoc [symmetric]
  by (rule parses_to,
      rule string.then_parses_opt [where get = FileResult_linkTarget and upd = "\<lambda>x m. m\<lparr>FileResult_linkTarget := x\<rparr>"],
      rule bool.then_parses_opt [where get = FileResult_isLink and upd = "\<lambda>x m. m\<lparr>FileResult_isLink := x\<rparr>"],
      rule int64.then_parses_opt [where get = FileResult_sizeBytes and upd = "\<lambda>x m. m\<lparr>FileResult_sizeBytes := x\<rparr>"],
      rule int64.then_parses_opt [where get = FileResult_mtime and upd = "\<lambda>x m. m\<lparr>FileResult_mtime := x\<rparr>"],
      rule double.then_parses_opt [where get = FileResult_score and upd = "\<lambda>x m. m\<lparr>FileResult_score := x\<rparr>"],
      rule entry.then_parses_into [where get = FileResult_metadata and upd = "\<lambda>x m. m\<lparr>FileResult_metadata := x\<rparr>" and add = js_put],
      rule string.then_parses_all [where get = FileResult_tags and upd = "\<lambda>x m. m\<lparr>FileResult_tags := x\<rparr>"],
      rule string.parses_opt [where get = FileResult_path and upd = "\<lambda>x m. m\<lparr>FileResult_path := x\<rparr>"])
    (simp_all add: assms [unfolded FileResult_valid_def map_ok_def] FileResult_decode_field_def tag_no_def lens_def
      merge_defs FileResult_merge_def)

lemma FileResult_merge_new: "FileResult_valid m \<Longrightarrow> FileResult_merge FileResult_new m = m"
  by (simp add: FileResult_merge_def FileResult_new_def FileResult_valid_def map_ok_def js_object_def)

lemma FileResult_progress: "progress FileResult_decode_field"
  by (rule progressI)
    (simp add: FileResult_decode_field_def moves_if_split moves_branches)

interpretation FileResult_codec: message_codec FileResult_encode FileResult_decode FileResult_decode_field FileResult_new FileResult_bytes
  FileResult_valid FileResult_merge
  by unfold_locales
    (simp_all add: FileResult_decode_def FileResult_progress FileResult_emits FileResult_parses FileResult_merge_new)

subsection \<open>SearchResponse\<close>

record SearchResponse =
  SearchResponse_files :: "FileResult list"
  SearchResponse_total :: "int option"

definition SearchResponse_new :: SearchResponse where
  "SearchResponse_new = \<lparr>SearchResponse_files = [], SearchResponse_total = None\<rparr>"

definition SearchResponse_encode :: "SearchResponse \<Rightarrow> Writer \<Rightarrow> Writer" where
  "SearchResponse_encode message writer =
     (let writer = put_all 10 (put_sub FileResult_encode) (SearchResponse_files message) writer;
          writer = put_opt 16 w_uint32 (SearchResponse_total message) writer
      in writer)"

definition SearchResponse_decode_field :: "u32 \<Rightarrow> Reader \<Rightarrow> SearchResponse \<Rightarrow> (SearchResponse \<times> Reader) res" where
  "SearchResponse_decode_field tag reader message =
     (if tag_no tag = 1 then map_res (\<lambda>v. message\<lparr>SearchResponse_files := SearchResponse_files message @ [v]\<rparr>) (get_sub FileResult_decode reader)
      else if tag_no tag = 2 then map_res (\<lambda>v. message\<lparr>SearchResponse_total := Some v\<rparr>) (r_uint32_number reader)
      else skip_field tag reader message)"

definition SearchResponse_decode :: "Reader \<Rightarrow> nat option \<Rightarrow> (SearchResponse \<times> Reader) res" where
  "SearchResponse_decode = decode_with SearchResponse_decode_field SearchResponse_new"

definition SearchResponse_encodeDelimited :: "SearchResponse \<Rightarrow> Writer \<Rightarrow> Writer" where
  "SearchResponse_encodeDelimited message writer = w_ldelim (SearchResponse_encode message writer)"

definition SearchResponse_decodeDelimited :: "Reader \<Rightarrow> (SearchResponse \<times> Reader) res" where
  "SearchResponse_decodeDelimited = get_sub SearchResponse_decode"

definition SearchResponse_bytes :: "SearchResponse \<Rightarrow> u8 list" where
  "SearchResponse_bytes m =
     all_bytes 10 (\<lambda>v. delim (FileResult_bytes v)) (SearchResponse_files m) @
     opt_bytes 16 uint32_bytes (SearchResponse_total m)"

definition SearchResponse_valid :: "SearchResponse \<Rightarrow> bool" where
  "SearchResponse_valid m \<longleftrightarrow> list_all (\<lambda>v. FileResult_valid v \<and> length (FileResult_bytes v) < 4294967296) (SearchResponse_files m) \<and>
     opt_ok uint32_ok (SearchResponse_total m)"

definition SearchResponse_merge :: "SearchResponse \<Rightarrow> SearchResponse \<Rightarrow> SearchResponse" where
  "SearchResponse_merge a m =
     a\<lparr>SearchResponse_files := SearchResponse_files a @ SearchResponse_files m,
       SearchResponse_total := or_else (SearchResponse_total m) (SearchResponse_total a)\<rparr>"

lemma SearchResponse_emits:
  assumes "SearchResponse_valid m"
  shows "emits (SearchResponse_encode m) (SearchResponse_bytes m)"
  unfolding SearchResponse_encode_def [abs_def] SearchResponse_bytes_def Let_def append_assoc [symmetric]
  by (rule uint32.then_emits_opt, rule FileResult_codec.sub.emits_all)
    (simp_all add: assms [unfolded SearchResponse_valid_def map_ok_def])

lemma SearchResponse_parses:
  assumes "SearchResponse_valid m"
  shows "parses SearchResponse_decode_field (SearchResponse_bytes m) a (SearchResponse_merge a m)"
  unfolding SearchResponse_bytes_def append_assoc [symmetric]
  by (rule parses_to,
      rule uint32.then_parses_opt [where get = SearchResponse_total and upd = "\<lambda>x m. m\<lparr>SearchResponse_total := x\<rparr>"],
      rule FileResult_codec.sub.parses_all [where get = SearchResponse_files and upd = "\<lambda>x m. m\<lparr>SearchResponse_files := x\<rparr>"])
    (simp_all add: assms [unfolded SearchResponse_valid_def map_ok_def] SearchResponse_decode_field_def tag_no_def lens_def
      merge_defs SearchResponse_merge_def)

lemma SearchResponse_merge_new: "SearchResponse_valid m \<Longrightarrow> SearchResponse_merge SearchResponse_new m = m"
  by (simp add: SearchResponse_merge_def SearchResponse_new_def SearchResponse_valid_def map_ok_def js_object_def)

lemma SearchResponse_progress: "progress SearchResponse_decode_field"
  by (rule progressI)
    (simp add: SearchResponse_decode_field_def moves_if_split moves_branches FileResult_codec.moves_decode)

interpretation SearchResponse_codec: message_codec SearchResponse_encode SearchResponse_decode SearchResponse_decode_field SearchResponse_new SearchResponse_bytes
  SearchResponse_valid SearchResponse_merge
  by unfold_locales
    (simp_all add: SearchResponse_decode_def SearchResponse_progress SearchResponse_emits SearchResponse_parses SearchResponse_merge_new)

subsection \<open>TagRequest\<close>

record TagRequest =
  TagRequest_paths :: "jstring list"
  TagRequest_tags :: "jstring list"
  TagRequest_operation :: "int option"

definition TagRequest_new :: TagRequest where
  "TagRequest_new = \<lparr>TagRequest_paths = [], TagRequest_tags = [], TagRequest_operation = None\<rparr>"

definition TagRequest_encode :: "TagRequest \<Rightarrow> Writer \<Rightarrow> Writer" where
  "TagRequest_encode message writer =
     (let writer = put_all 10 w_string (TagRequest_paths message) writer;
          writer = put_all 18 w_string (TagRequest_tags message) writer;
          writer = put_opt 24 w_int32 (TagRequest_operation message) writer
      in writer)"

definition TagRequest_decode_field :: "u32 \<Rightarrow> Reader \<Rightarrow> TagRequest \<Rightarrow> (TagRequest \<times> Reader) res" where
  "TagRequest_decode_field tag reader message =
     (if tag_no tag = 1 then map_res (\<lambda>v. message\<lparr>TagRequest_paths := TagRequest_paths message @ [v]\<rparr>) (r_string reader)
      else if tag_no tag = 2 then map_res (\<lambda>v. message\<lparr>TagRequest_tags := TagRequest_tags message @ [v]\<rparr>) (r_string reader)
      else if tag_no tag = 3 then map_res (\<lambda>v. message\<lparr>TagRequest_operation := Some v\<rparr>) (r_int32 reader)
      else skip_field tag reader message)"

definition TagRequest_decode :: "Reader \<Rightarrow> nat option \<Rightarrow> (TagRequest \<times> Reader) res" where
  "TagRequest_decode = decode_with TagRequest_decode_field TagRequest_new"

definition TagRequest_encodeDelimited :: "TagRequest \<Rightarrow> Writer \<Rightarrow> Writer" where
  "TagRequest_encodeDelimited message writer = w_ldelim (TagRequest_encode message writer)"

definition TagRequest_decodeDelimited :: "Reader \<Rightarrow> (TagRequest \<times> Reader) res" where
  "TagRequest_decodeDelimited = get_sub TagRequest_decode"

definition TagRequest_bytes :: "TagRequest \<Rightarrow> u8 list" where
  "TagRequest_bytes m =
     all_bytes 10 string_bytes (TagRequest_paths m) @
     all_bytes 18 string_bytes (TagRequest_tags m) @
     opt_bytes 24 int32_bytes (TagRequest_operation m)"

definition TagRequest_valid :: "TagRequest \<Rightarrow> bool" where
  "TagRequest_valid m \<longleftrightarrow> list_all string_ok (TagRequest_paths m) \<and>
     list_all string_ok (TagRequest_tags m) \<and>
     opt_ok int32_ok (TagRequest_operation m)"

definition TagRequest_merge :: "TagRequest \<Rightarrow> TagRequest \<Rightarrow> TagRequest" where
  "TagRequest_merge a m =
     a\<lparr>TagRequest_paths := TagRequest_paths a @ TagRequest_paths m,
       TagRequest_tags := TagRequest_tags a @ TagRequest_tags m,
       TagRequest_operation := or_else (TagRequest_operation m) (TagRequest_operation a)\<rparr>"

lemma TagRequest_emits:
  assumes "TagRequest_valid m"
  shows "emits (TagRequest_encode m) (TagRequest_bytes m)"
  unfolding TagRequest_encode_def [abs_def] TagRequest_bytes_def Let_def append_assoc [symmetric]
  by (rule int32.then_emits_opt, rule string.then_emits_all, rule string.emits_all)
    (simp_all add: assms [unfolded TagRequest_valid_def map_ok_def])

lemma TagRequest_parses:
  assumes "TagRequest_valid m"
  shows "parses TagRequest_decode_field (TagRequest_bytes m) a (TagRequest_merge a m)"
  unfolding TagRequest_bytes_def append_assoc [symmetric]
  by (rule parses_to,
      rule int32.then_parses_opt [where get = TagRequest_operation and upd = "\<lambda>x m. m\<lparr>TagRequest_operation := x\<rparr>"],
      rule string.then_parses_all [where get = TagRequest_tags and upd = "\<lambda>x m. m\<lparr>TagRequest_tags := x\<rparr>"],
      rule string.parses_all [where get = TagRequest_paths and upd = "\<lambda>x m. m\<lparr>TagRequest_paths := x\<rparr>"])
    (simp_all add: assms [unfolded TagRequest_valid_def map_ok_def] TagRequest_decode_field_def tag_no_def lens_def
      merge_defs TagRequest_merge_def)

lemma TagRequest_merge_new: "TagRequest_valid m \<Longrightarrow> TagRequest_merge TagRequest_new m = m"
  by (simp add: TagRequest_merge_def TagRequest_new_def TagRequest_valid_def map_ok_def js_object_def)

lemma TagRequest_progress: "progress TagRequest_decode_field"
  by (rule progressI)
    (simp add: TagRequest_decode_field_def moves_if_split moves_branches)

interpretation TagRequest_codec: message_codec TagRequest_encode TagRequest_decode TagRequest_decode_field TagRequest_new TagRequest_bytes
  TagRequest_valid TagRequest_merge
  by unfold_locales
    (simp_all add: TagRequest_decode_def TagRequest_progress TagRequest_emits TagRequest_parses TagRequest_merge_new)

subsection \<open>TagResponse\<close>

record TagResponse =
  TagResponse_pathsOk :: "jstring list"
  TagResponse_pathsError :: "jstring list"
  TagResponse_errors :: js_map

definition TagResponse_new :: TagResponse where
  "TagResponse_new = \<lparr>TagResponse_pathsOk = [], TagResponse_pathsError = [], TagResponse_errors = []\<rparr>"

definition TagResponse_encode :: "TagResponse \<Rightarrow> Writer \<Rightarrow> Writer" where
  "TagResponse_encode message writer =
     (let writer = put_all 10 w_string (TagResponse_pathsOk message) writer;
          writer = put_all 18 w_string (TagResponse_pathsError message) writer;
          writer = put_all 26 put_entry (TagResponse_errors message) writer
      in writer)"

definition TagResponse_decode_field :: "u32 \<Rightarrow> Reader \<Rightarrow> TagResponse \<Rightarrow> (TagResponse \<times> Reader) res" where
  "TagResponse_decode_field tag reader message =
     (if tag_no tag = 1 then map_res (\<lambda>v. message\<lparr>TagResponse_pathsOk := TagResponse_pathsOk message @ [v]\<rparr>) (r_string reader)
      else if tag_no tag = 2 then map_res (\<lambda>v. message\<lparr>TagResponse_pathsError := TagResponse_pathsError message @ [v]\<rparr>) (r_string reader)
      else if tag_no tag = 3 then map_res (\<lambda>v. message\<lparr>TagResponse_errors := js_put v (TagResponse_errors message)\<rparr>) (get_entry reader)
      else skip_field tag reader message)"

definition TagResponse_decode :: "Reader \<Rightarrow> nat option \<Rightarrow> (TagResponse \<times> Reader) res" where
  "TagResponse_decode = decode_with TagResponse_decode_field TagResponse_new"

definition TagResponse_encodeDelimited :: "TagResponse \<Rightarrow> Writer \<Rightarrow> Writer" where
  "TagResponse_encodeDelimited message writer = w_ldelim (TagResponse_encode message writer)"

definition TagResponse_decodeDelimited :: "Reader \<Rightarrow> (TagResponse \<times> Reader) res" where
  "TagResponse_decodeDelimited = get_sub TagResponse_decode"

definition TagResponse_bytes :: "TagResponse \<Rightarrow> u8 list" where
  "TagResponse_bytes m =
     all_bytes 10 string_bytes (TagResponse_pathsOk m) @
     all_bytes 18 string_bytes (TagResponse_pathsError m) @
     all_bytes 26 (\<lambda>kv. delim (entry_bytes kv)) (TagResponse_errors m)"

definition TagResponse_valid :: "TagResponse \<Rightarrow> bool" where
  "TagResponse_valid m \<longleftrightarrow> list_all string_ok (TagResponse_pathsOk m) \<and>
     list_all string_ok (TagResponse_pathsError m) \<and>
     map_ok (TagResponse_errors m)"

definition TagResponse_merge :: "TagResponse \<Rightarrow> TagResponse \<Rightarrow> TagResponse" where
  "TagResponse_merge a m =
     a\<lparr>TagResponse_pathsOk := TagResponse_pathsOk a @ TagResponse_pathsOk m,
       TagResponse_pathsError := TagResponse_pathsError a @ TagResponse_pathsError m,
       TagResponse_errors := fold js_put (TagResponse_errors m) (TagResponse_errors a)\<rparr>"

lemma TagResponse_emits:
  assumes "TagResponse_valid m"
  shows "emits (TagResponse_encode m) (TagResponse_bytes m)"
  unfolding TagResponse_encode_def [abs_def] TagResponse_bytes_def Let_def append_assoc [symmetric]
  by (rule entry.then_emits_all, rule string.then_emits_all, rule string.emits_all)
    (simp_all add: assms [unfolded TagResponse_valid_def map_ok_def])

lemma TagResponse_parses:
  assumes "TagResponse_valid m"
  shows "parses TagResponse_decode_field (TagResponse_bytes m) a (TagResponse_merge a m)"
  unfolding TagResponse_bytes_def append_assoc [symmetric]
  by (rule parses_to,
      rule entry.then_parses_into [where get = TagResponse_errors and upd = "\<lambda>x m. m\<lparr>TagResponse_errors := x\<rparr>" and add = js_put],
      rule string.then_parses_all [where get = TagResponse_pathsError and upd = "\<lambda>x m. m\<lparr>TagResponse_pathsError := x\<rparr>"],
      rule string.parses_all [where get = TagResponse_pathsOk and upd = "\<lambda>x m. m\<lparr>TagResponse_pathsOk := x\<rparr>"])
    (simp_all add: assms [unfolded TagResponse_valid_def map_ok_def] TagResponse_decode_field_def tag_no_def lens_def
      merge_defs TagResponse_merge_def)

lemma TagResponse_merge_new: "TagResponse_valid m \<Longrightarrow> TagResponse_merge TagResponse_new m = m"
  by (simp add: TagResponse_merge_def TagResponse_new_def TagResponse_valid_def map_ok_def js_object_def)

lemma TagResponse_progress: "progress TagResponse_decode_field"
  by (rule progressI)
    (simp add: TagResponse_decode_field_def moves_if_split moves_branches)

interpretation TagResponse_codec: message_codec TagResponse_encode TagResponse_decode TagResponse_decode_field TagResponse_new TagResponse_bytes
  TagResponse_valid TagResponse_merge
  by unfold_locales
    (simp_all add: TagResponse_decode_def TagResponse_progress TagResponse_emits TagResponse_parses TagResponse_merge_new)

subsection \<open>MetadataRequest\<close>

record MetadataRequest =
  MetadataRequest_path :: "jstring option"

definition MetadataRequest_new :: MetadataRequest where
  "MetadataRequest_new = \<lparr>MetadataRequest_path = None\<rparr>"

definition MetadataRequest_encode :: "MetadataRequest \<Rightarrow> Writer \<Rightarrow> Writer" where
  "MetadataRequest_encode message writer =
     (let writer = put_opt 10 w_string (MetadataRequest_path message) writer
      in writer)"

definition MetadataRequest_decode_field :: "u32 \<Rightarrow> Reader \<Rightarrow> MetadataRequest \<Rightarrow> (MetadataRequest \<times> Reader) res" where
  "MetadataRequest_decode_field tag reader message =
     (if tag_no tag = 1 then map_res (\<lambda>v. message\<lparr>MetadataRequest_path := Some v\<rparr>) (r_string reader)
      else skip_field tag reader message)"

definition MetadataRequest_decode :: "Reader \<Rightarrow> nat option \<Rightarrow> (MetadataRequest \<times> Reader) res" where
  "MetadataRequest_decode = decode_with MetadataRequest_decode_field MetadataRequest_new"

definition MetadataRequest_encodeDelimited :: "MetadataRequest \<Rightarrow> Writer \<Rightarrow> Writer" where
  "MetadataRequest_encodeDelimited message writer = w_ldelim (MetadataRequest_encode message writer)"

definition MetadataRequest_decodeDelimited :: "Reader \<Rightarrow> (MetadataRequest \<times> Reader) res" where
  "MetadataRequest_decodeDelimited = get_sub MetadataRequest_decode"

definition MetadataRequest_bytes :: "MetadataRequest \<Rightarrow> u8 list" where
  "MetadataRequest_bytes m =
     opt_bytes 10 string_bytes (MetadataRequest_path m)"

definition MetadataRequest_valid :: "MetadataRequest \<Rightarrow> bool" where
  "MetadataRequest_valid m \<longleftrightarrow> opt_ok string_ok (MetadataRequest_path m)"

definition MetadataRequest_merge :: "MetadataRequest \<Rightarrow> MetadataRequest \<Rightarrow> MetadataRequest" where
  "MetadataRequest_merge a m =
     a\<lparr>MetadataRequest_path := or_else (MetadataRequest_path m) (MetadataRequest_path a)\<rparr>"

lemma MetadataRequest_emits:
  assumes "MetadataRequest_valid m"
  shows "emits (MetadataRequest_encode m) (MetadataRequest_bytes m)"
  unfolding MetadataRequest_encode_def [abs_def] MetadataRequest_bytes_def Let_def append_assoc [symmetric]
  by (rule string.emits_opt)
    (simp_all add: assms [unfolded MetadataRequest_valid_def map_ok_def])

lemma MetadataRequest_parses:
  assumes "MetadataRequest_valid m"
  shows "parses MetadataRequest_decode_field (MetadataRequest_bytes m) a (MetadataRequest_merge a m)"
  unfolding MetadataRequest_bytes_def append_assoc [symmetric]
  by (rule parses_to,
      rule string.parses_opt [where get = MetadataRequest_path and upd = "\<lambda>x m. m\<lparr>MetadataRequest_path := x\<rparr>"])
    (simp_all add: assms [unfolded MetadataRequest_valid_def map_ok_def] MetadataRequest_decode_field_def tag_no_def lens_def
      merge_defs MetadataRequest_merge_def)

lemma MetadataRequest_merge_new: "MetadataRequest_valid m \<Longrightarrow> MetadataRequest_merge MetadataRequest_new m = m"
  by (simp add: MetadataRequest_merge_def MetadataRequest_new_def MetadataRequest_valid_def map_ok_def js_object_def)

lemma MetadataRequest_progress: "progress MetadataRequest_decode_field"
  by (rule progressI)
    (simp add: MetadataRequest_decode_field_def moves_if_split moves_branches)

interpretation MetadataRequest_codec: message_codec MetadataRequest_encode MetadataRequest_decode MetadataRequest_decode_field MetadataRequest_new MetadataRequest_bytes
  MetadataRequest_valid MetadataRequest_merge
  by unfold_locales
    (simp_all add: MetadataRequest_decode_def MetadataRequest_progress MetadataRequest_emits MetadataRequest_parses MetadataRequest_merge_new)

subsection \<open>MetadataResponse\<close>

record MetadataResponse =
  MetadataResponse_path :: "jstring option"
  MetadataResponse_metadata :: js_map
  MetadataResponse_sources :: js_map

definition MetadataResponse_new :: MetadataResponse where
  "MetadataResponse_new = \<lparr>MetadataResponse_path = None, MetadataResponse_metadata = [],
     MetadataResponse_sources = []\<rparr>"

definition MetadataResponse_encode :: "MetadataResponse \<Rightarrow> Writer \<Rightarrow> Writer" where
  "MetadataResponse_encode message writer =
     (let writer = put_opt 10 w_string (MetadataResponse_path message) writer;
          writer = put_all 18 put_entry (MetadataResponse_metadata message) writer;
          writer = put_all 26 put_entry (MetadataResponse_sources message) writer
      in writer)"

definition MetadataResponse_decode_field :: "u32 \<Rightarrow> Reader \<Rightarrow> MetadataResponse \<Rightarrow> (MetadataResponse \<times> Reader) res" where
  "MetadataResponse_decode_field tag reader message =
     (if tag_no tag = 1 then map_res (\<lambda>v. message\<lparr>MetadataResponse_path := Some v\<rparr>) (r_string reader)
      else if tag_no tag = 2 then map_res (\<lambda>v. message\<lparr>MetadataResponse_metadata := js_put v (MetadataResponse_metadata message)\<rparr>) (get_entry reader)
      else if tag_no tag = 3 then map_res (\<lambda>v. message\<lparr>MetadataResponse_sources := js_put v (MetadataResponse_sources message)\<rparr>) (get_entry reader)
      else skip_field tag reader message)"

definition MetadataResponse_decode :: "Reader \<Rightarrow> nat option \<Rightarrow> (MetadataResponse \<times> Reader) res" where
  "MetadataResponse_decode = decode_with MetadataResponse_decode_field MetadataResponse_new"

definition MetadataResponse_encodeDelimited :: "MetadataResponse \<Rightarrow> Writer \<Rightarrow> Writer" where
  "MetadataResponse_encodeDelimited message writer = w_ldelim (MetadataResponse_encode message writer)"

definition MetadataResponse_decodeDelimited :: "Reader \<Rightarrow> (MetadataResponse \<times> Reader) res" where
  "MetadataResponse_decodeDelimited = get_sub MetadataResponse_decode"

definition MetadataResponse_bytes :: "MetadataResponse \<Rightarrow> u8 list" where
  "MetadataResponse_bytes m =
     opt_bytes 10 string_bytes (MetadataResponse_path m) @
     all_bytes 18 (\<lambda>kv. delim (entry_bytes kv)) (MetadataResponse_metadata m) @
     all_bytes 26 (\<lambda>kv. delim (entry_bytes kv)) (MetadataResponse_sources m)"

definition MetadataResponse_valid :: "MetadataResponse \<Rightarrow> bool" where
  "MetadataResponse_valid m \<longleftrightarrow> opt_ok string_ok (MetadataResponse_path m) \<and>
     map_ok (MetadataResponse_metadata m) \<and>
     map_ok (MetadataResponse_sources m)"

definition MetadataResponse_merge :: "MetadataResponse \<Rightarrow> MetadataResponse \<Rightarrow> MetadataResponse" where
  "MetadataResponse_merge a m =
     a\<lparr>MetadataResponse_path := or_else (MetadataResponse_path m) (MetadataResponse_path a),
       MetadataResponse_metadata := fold js_put (MetadataResponse_metadata m) (MetadataResponse_metadata a),
       MetadataResponse_sources := fold js_put (MetadataResponse_sources m) (MetadataResponse_sources a)\<rparr>"

lemma MetadataResponse_emits:
  assumes "MetadataResponse_valid m"
  shows "emits (MetadataResponse_encode m) (MetadataResponse_bytes m)"
  unfolding MetadataResponse_encode_def [abs_def] MetadataResponse_bytes_def Let_def append_assoc [symmetric]
  by (rule entry.then_emits_all, rule entry.then_emits_all, rule string.emits_opt)
    (simp_all add: assms [unfolded MetadataResponse_valid_def map_ok_def])

lemma MetadataResponse_parses:
  assumes "MetadataResponse_valid m"
  shows "parses MetadataResponse_decode_field (MetadataResponse_bytes m) a (MetadataResponse_merge a m)"
  unfolding MetadataResponse_bytes_def append_assoc [symmetric]
  by (rule parses_to,
      rule entry.then_parses_into [where get = MetadataResponse_sources and upd = "\<lambda>x m. m\<lparr>MetadataResponse_sources := x\<rparr>" and add = js_put],
      rule entry.then_parses_into [where get = MetadataResponse_metadata and upd = "\<lambda>x m. m\<lparr>MetadataResponse_metadata := x\<rparr>" and add = js_put],
      rule string.parses_opt [where get = MetadataResponse_path and upd = "\<lambda>x m. m\<lparr>MetadataResponse_path := x\<rparr>"])
    (simp_all add: assms [unfolded MetadataResponse_valid_def map_ok_def] MetadataResponse_decode_field_def tag_no_def lens_def
      merge_defs MetadataResponse_merge_def)

lemma MetadataResponse_merge_new: "MetadataResponse_valid m \<Longrightarrow> MetadataResponse_merge MetadataResponse_new m = m"
  by (simp add: MetadataResponse_merge_def MetadataResponse_new_def MetadataResponse_valid_def map_ok_def js_object_def)

lemma MetadataResponse_progress: "progress MetadataResponse_decode_field"
  by (rule progressI)
    (simp add: MetadataResponse_decode_field_def moves_if_split moves_branches)

interpretation MetadataResponse_codec: message_codec MetadataResponse_encode MetadataResponse_decode MetadataResponse_decode_field MetadataResponse_new MetadataResponse_bytes
  MetadataResponse_valid MetadataResponse_merge
  by unfold_locales
    (simp_all add: MetadataResponse_decode_def MetadataResponse_progress MetadataResponse_emits MetadataResponse_parses MetadataResponse_merge_new)

subsection \<open>MetadataSetRequest\<close>

record MetadataSetRequest =
  MetadataSetRequest_path :: "jstring option"
  MetadataSetRequest_key :: "jstring option"
  MetadataSetRequest_value :: "jstring option"

definition MetadataSetRequest_new :: MetadataSetRequest where
  "MetadataSetRequest_new = \<lparr>MetadataSetRequest_path = None, MetadataSetRequest_key = None,
     MetadataSetRequest_value = None\<rparr>"

definition MetadataSetRequest_encode :: "MetadataSetRequest \<Rightarrow> Writer \<Rightarrow> Writer" where
  "MetadataSetRequest_encode message writer =
     (let writer = put_opt 10 w_string (MetadataSetRequest_path message) writer;
          writer = put_opt 18 w_string (MetadataSetRequest_key message) writer;
          writer = put_opt 26 w_string (MetadataSetRequest_value message) writer
      in writer)"

definition MetadataSetRequest_decode_field :: "u32 \<Rightarrow> Reader \<Rightarrow> MetadataSetRequest \<Rightarrow> (MetadataSetRequest \<times> Reader) res" where
  "MetadataSetRequest_decode_field tag reader message =
     (if tag_no tag = 1 then map_res (\<lambda>v. message\<lparr>MetadataSetRequest_path := Some v\<rparr>) (r_string reader)
      else if tag_no tag = 2 then map_res (\<lambda>v. message\<lparr>MetadataSetRequest_key := Some v\<rparr>) (r_string reader)
      else if tag_no tag = 3 then map_res (\<lambda>v. message\<lparr>MetadataSetRequest_value := Some v\<rparr>) (r_string reader)
      else skip_field tag reader message)"

definition MetadataSetRequest_decode :: "Reader \<Rightarrow> nat option \<Rightarrow> (MetadataSetRequest \<times> Reader) res" where
  "MetadataSetRequest_decode = decode_with MetadataSetRequest_decode_field MetadataSetRequest_new"

definition MetadataSetRequest_encodeDelimited :: "MetadataSetRequest \<Rightarrow> Writer \<Rightarrow> Writer" where
  "MetadataSetRequest_encodeDelimited message writer = w_ldelim (MetadataSetRequest_encode message writer)"

definition MetadataSetRequest_decodeDelimited :: "Reader \<Rightarrow> (MetadataSetRequest \<times> Reader) res" where
  "MetadataSetRequest_decodeDelimited = get_sub MetadataSetRequest_decode"

definition MetadataSetRequest_bytes :: "MetadataSetRequest \<Rightarrow> u8 list" where
  "MetadataSetRequest_bytes m =
     opt_bytes 10 string_bytes (MetadataSetRequest_path m) @
     opt_bytes 18 string_bytes (MetadataSetRequest_key m) @
     opt_bytes 26 string_bytes (MetadataSetRequest_value m)"

definition MetadataSetRequest_valid :: "MetadataSetRequest \<Rightarrow> bool" where
  "MetadataSetRequest_valid m \<longleftrightarrow> opt_ok string_ok (MetadataSetRequest_path m) \<and>
     opt_ok string_ok (MetadataSetRequest_key m) \<and>
     opt_ok string_ok (MetadataSetRequest_value m)"

definition MetadataSetRequest_merge :: "MetadataSetRequest \<Rightarrow> MetadataSetRequest \<Rightarrow> MetadataSetRequest" where
  "MetadataSetRequest_merge a m =
     a\<lparr>MetadataSetRequest_path := or_else (MetadataSetRequest_path m) (MetadataSetRequest_path a),
       MetadataSetRequest_key := or_else (MetadataSetRequest_key m) (MetadataSetRequest_key a),
       MetadataSetRequest_value := or_else (MetadataSetRequest_value m) (MetadataSetRequest_value a)\<rparr>"

lemma MetadataSetRequest_emits:
  assumes "MetadataSetRequest_valid m"
  shows "emits (MetadataSetRequest_encode m) (MetadataSetRequest_bytes m)"
  unfolding MetadataSetRequest_encode_def [abs_def] MetadataSetRequest_bytes_def Let_def append_assoc [symmetric]
  by (rule string.then_emits_opt, rule string.then_emits_opt, rule string.emits_opt)
    (simp_all add: assms [unfolded MetadataSetRequest_valid_def map_ok_def])

lemma MetadataSetRequest_parses:
  assumes "MetadataSetRequest_valid m"
  shows "parses MetadataSetRequest_decode_field (MetadataSetRequest_bytes m) a (MetadataSetRequest_merge a m)"
  unfolding MetadataSetRequest_bytes_def append_assoc [symmetric]
  by (rule parses_to,
      rule string.then_parses_opt [where get = MetadataSetRequest_value and upd = "\<lambda>x m. m\<lparr>MetadataSetRequest_value := x\<rparr>"],
      rule string.then_parses_opt [where get = MetadataSetRequest_key and upd = "\<lambda>x m. m\<lparr>MetadataSetRequest_key := x\<rparr>"],
      rule string.parses_opt [where get = MetadataSetRequest_path and upd = "\<lambda>x m. m\<lparr>MetadataSetRequest_path := x\<rparr>"])
    (simp_all add: assms [unfolded MetadataSetRequest_valid_def map_ok_def] MetadataSetRequest_decode_field_def tag_no_def lens_def
      merge_defs MetadataSetRequest_merge_def)

lemma MetadataSetRequest_merge_new: "MetadataSetRequest_valid m \<Longrightarrow> MetadataSetRequest_merge MetadataSetRequest_new m = m"
  by (simp add: MetadataSetRequest_merge_def MetadataSetRequest_new_def MetadataSetRequest_valid_def map_ok_def js_object_def)

lemma MetadataSetRequest_progress: "progress MetadataSetRequest_decode_field"
  by (rule progressI)
    (simp add: MetadataSetRequest_decode_field_def moves_if_split moves_branches)

interpretation MetadataSetRequest_codec: message_codec MetadataSetRequest_encode MetadataSetRequest_decode MetadataSetRequest_decode_field MetadataSetRequest_new MetadataSetRequest_bytes
  MetadataSetRequest_valid MetadataSetRequest_merge
  by unfold_locales
    (simp_all add: MetadataSetRequest_decode_def MetadataSetRequest_progress MetadataSetRequest_emits MetadataSetRequest_parses MetadataSetRequest_merge_new)

subsection \<open>RelatedRequest\<close>

record RelatedRequest =
  RelatedRequest_seedPath :: "jstring option"
  RelatedRequest_limit :: "int option"
  RelatedRequest_maxHops :: "int option"
  RelatedRequest_hopWeight :: "u32 option"
  RelatedRequest_vecWeight :: "u32 option"

definition RelatedRequest_new :: RelatedRequest where
  "RelatedRequest_new = \<lparr>RelatedRequest_seedPath = None, RelatedRequest_limit = None, RelatedRequest_maxHops =
     None, RelatedRequest_hopWeight = None, RelatedRequest_vecWeight = None\<rparr>"

definition RelatedRequest_encode :: "RelatedRequest \<Rightarrow> Writer \<Rightarrow> Writer" where
  "RelatedRequest_encode message writer =
     (let writer = put_opt 10 w_string (RelatedRequest_seedPath message) writer;
          writer = put_opt 16 w_uint32 (RelatedRequest_limit message) writer;
          writer = put_opt 24 w_uint32 (RelatedRequest_maxHops message) writer;
          writer = put_opt 37 w_float (RelatedRequest_hopWeight message) writer;
          writer = put_opt 45 w_float (RelatedRequest_vecWeight message) writer
      in writer)"

definition RelatedRequest_decode_field :: "u32 \<Rightarrow> Reader \<Rightarrow> RelatedRequest \<Rightarrow> (RelatedRequest \<times> Reader) res" where
  "RelatedRequest_decode_field tag reader message =
     (if tag_no tag = 1 then map_res (\<lambda>v. message\<lparr>RelatedRequest_seedPath := Some v\<rparr>) (r_string reader)
      else if tag_no tag = 2 then map_res (\<lambda>v. message\<lparr>RelatedRequest_limit := Some v\<rparr>) (r_uint32_number reader)
      else if tag_no tag = 3 then map_res (\<lambda>v. message\<lparr>RelatedRequest_maxHops := Some v\<rparr>) (r_uint32_number reader)
      else if tag_no tag = 4 then map_res (\<lambda>v. message\<lparr>RelatedRequest_hopWeight := Some v\<rparr>) (r_float reader)
      else if tag_no tag = 5 then map_res (\<lambda>v. message\<lparr>RelatedRequest_vecWeight := Some v\<rparr>) (r_float reader)
      else skip_field tag reader message)"

definition RelatedRequest_decode :: "Reader \<Rightarrow> nat option \<Rightarrow> (RelatedRequest \<times> Reader) res" where
  "RelatedRequest_decode = decode_with RelatedRequest_decode_field RelatedRequest_new"

definition RelatedRequest_encodeDelimited :: "RelatedRequest \<Rightarrow> Writer \<Rightarrow> Writer" where
  "RelatedRequest_encodeDelimited message writer = w_ldelim (RelatedRequest_encode message writer)"

definition RelatedRequest_decodeDelimited :: "Reader \<Rightarrow> (RelatedRequest \<times> Reader) res" where
  "RelatedRequest_decodeDelimited = get_sub RelatedRequest_decode"

definition RelatedRequest_bytes :: "RelatedRequest \<Rightarrow> u8 list" where
  "RelatedRequest_bytes m =
     opt_bytes 10 string_bytes (RelatedRequest_seedPath m) @
     opt_bytes 16 uint32_bytes (RelatedRequest_limit m) @
     opt_bytes 24 uint32_bytes (RelatedRequest_maxHops m) @
     opt_bytes 37 le32_bytes (RelatedRequest_hopWeight m) @
     opt_bytes 45 le32_bytes (RelatedRequest_vecWeight m)"

definition RelatedRequest_valid :: "RelatedRequest \<Rightarrow> bool" where
  "RelatedRequest_valid m \<longleftrightarrow> opt_ok string_ok (RelatedRequest_seedPath m) \<and>
     opt_ok uint32_ok (RelatedRequest_limit m) \<and>
     opt_ok uint32_ok (RelatedRequest_maxHops m)"

definition RelatedRequest_merge :: "RelatedRequest \<Rightarrow> RelatedRequest \<Rightarrow> RelatedRequest" where
  "RelatedRequest_merge a m =
     a\<lparr>RelatedRequest_seedPath := or_else (RelatedRequest_seedPath m) (RelatedRequest_seedPath a),
       RelatedRequest_limit := or_else (RelatedRequest_limit m) (RelatedRequest_limit a),
       RelatedRequest_maxHops := or_else (RelatedRequest_maxHops m) (RelatedRequest_maxHops a),
       RelatedRequest_hopWeight := or_else (RelatedRequest_hopWeight m) (RelatedRequest_hopWeight a),
       RelatedRequest_vecWeight := or_else (RelatedRequest_vecWeight m) (RelatedRequest_vecWeight a)\<rparr>"

lemma RelatedRequest_emits:
  assumes "RelatedRequest_valid m"
  shows "emits (RelatedRequest_encode m) (RelatedRequest_bytes m)"
  unfolding RelatedRequest_encode_def [abs_def] RelatedRequest_bytes_def Let_def append_assoc [symmetric]
  by (rule float.then_emits_opt, rule float.then_emits_opt, rule uint32.then_emits_opt,
      rule uint32.then_emits_opt, rule string.emits_opt)
    (simp_all add: assms [unfolded RelatedRequest_valid_def map_ok_def])

lemma RelatedRequest_parses:
  assumes "RelatedRequest_valid m"
  shows "parses RelatedRequest_decode_field (RelatedRequest_bytes m) a (RelatedRequest_merge a m)"
  unfolding RelatedRequest_bytes_def append_assoc [symmetric]
  by (rule parses_to,
      rule float.then_parses_opt [where get = RelatedRequest_vecWeight and upd = "\<lambda>x m. m\<lparr>RelatedRequest_vecWeight := x\<rparr>"],
      rule float.then_parses_opt [where get = RelatedRequest_hopWeight and upd = "\<lambda>x m. m\<lparr>RelatedRequest_hopWeight := x\<rparr>"],
      rule uint32.then_parses_opt [where get = RelatedRequest_maxHops and upd = "\<lambda>x m. m\<lparr>RelatedRequest_maxHops := x\<rparr>"],
      rule uint32.then_parses_opt [where get = RelatedRequest_limit and upd = "\<lambda>x m. m\<lparr>RelatedRequest_limit := x\<rparr>"],
      rule string.parses_opt [where get = RelatedRequest_seedPath and upd = "\<lambda>x m. m\<lparr>RelatedRequest_seedPath := x\<rparr>"])
    (simp_all add: assms [unfolded RelatedRequest_valid_def map_ok_def] RelatedRequest_decode_field_def tag_no_def lens_def
      merge_defs RelatedRequest_merge_def)

lemma RelatedRequest_merge_new: "RelatedRequest_valid m \<Longrightarrow> RelatedRequest_merge RelatedRequest_new m = m"
  by (simp add: RelatedRequest_merge_def RelatedRequest_new_def RelatedRequest_valid_def map_ok_def js_object_def)

lemma RelatedRequest_progress: "progress RelatedRequest_decode_field"
  by (rule progressI)
    (simp add: RelatedRequest_decode_field_def moves_if_split moves_branches)

interpretation RelatedRequest_codec: message_codec RelatedRequest_encode RelatedRequest_decode RelatedRequest_decode_field RelatedRequest_new RelatedRequest_bytes
  RelatedRequest_valid RelatedRequest_merge
  by unfold_locales
    (simp_all add: RelatedRequest_decode_def RelatedRequest_progress RelatedRequest_emits RelatedRequest_parses RelatedRequest_merge_new)

subsection \<open>ScoredFile\<close>

record ScoredFile =
  ScoredFile_file :: "FileResult option"
  ScoredFile_score :: "64 word option"
  ScoredFile_hopDistance :: "int option"
  ScoredFile_cosineSim :: "64 word option"

definition ScoredFile_new :: ScoredFile where
  "ScoredFile_new = \<lparr>ScoredFile_file = None, ScoredFile_score = None, ScoredFile_hopDistance = None,
     ScoredFile_cosineSim = None\<rparr>"

definition ScoredFile_encode :: "ScoredFile \<Rightarrow> Writer \<Rightarrow> Writer" where
  "ScoredFile_encode message writer =
     (let writer = put_opt 10 (put_sub FileResult_encode) (ScoredFile_file message) writer;
          writer = put_opt 17 w_double (ScoredFile_score message) writer;
          writer = put_opt 24 w_uint32 (ScoredFile_hopDistance message) writer;
          writer = put_opt 33 w_double (ScoredFile_cosineSim message) writer
      in writer)"

definition ScoredFile_decode_field :: "u32 \<Rightarrow> Reader \<Rightarrow> ScoredFile \<Rightarrow> (ScoredFile \<times> Reader) res" where
  "ScoredFile_decode_field tag reader message =
     (if tag_no tag = 1 then map_res (\<lambda>v. message\<lparr>ScoredFile_file := Some v\<rparr>) (get_sub FileResult_decode reader)
      else if tag_no tag = 2 then map_res (\<lambda>v. message\<lparr>ScoredFile_score := Some v\<rparr>) (r_double reader)
      else if tag_no tag = 3 then map_res (\<lambda>v. message\<lparr>ScoredFile_hopDistance := Some v\<rparr>) (r_uint32_number reader)
      else if tag_no tag = 4 then map_res (\<lambda>v. message\<lparr>ScoredFile_cosineSim := Some v\<rparr>) (r_double reader)
      else skip_field tag reader message)"

definition ScoredFile_decode :: "Reader \<Rightarrow> nat option \<Rightarrow> (ScoredFile \<times> Reader) res" where
  "ScoredFile_decode = decode_with ScoredFile_decode_field ScoredFile_new"

definition ScoredFile_encodeDelimited :: "ScoredFile \<Rightarrow> Writer \<Rightarrow> Writer" where
  "ScoredFile_encodeDelimited message writer = w_ldelim (ScoredFile_encode message writer)"

definition ScoredFile_decodeDelimited :: "Reader \<Rightarrow> (ScoredFile \<times> Reader) res" where
  "ScoredFile_decodeDelimited = get_sub ScoredFile_decode"

definition ScoredFile_bytes :: "ScoredFile \<Rightarrow> u8 list" where
  "ScoredFile_bytes m =
     opt_bytes 10 (\<lambda>v. delim (FileResult_bytes v)) (ScoredFile_file m) @
     opt_bytes 17 le64_bytes (ScoredFile_score m) @
     opt_bytes 24 uint32_bytes (ScoredFile_hopDistance m) @
     opt_bytes 33 le64_bytes (ScoredFile_cosineSim m)"

definition ScoredFile_valid :: "ScoredFile \<Rightarrow> bool" where
  "ScoredFile_valid m \<longleftrightarrow> opt_ok (\<lambda>v. FileResult_valid v \<and> length (FileResult_bytes v) < 4294967296) (ScoredFile_file m) \<and>
     opt_ok uint32_ok (ScoredFile_hopDistance m)"

definition ScoredFile_merge :: "ScoredFile \<Rightarrow> ScoredFile \<Rightarrow> ScoredFile" where
  "ScoredFile_merge a m =
     a\<lparr>ScoredFile_file := or_else (ScoredFile_file m) (ScoredFile_file a),
       ScoredFile_score := or_else (ScoredFile_score m) (ScoredFile_score a),
       ScoredFile_hopDistance := or_else (ScoredFile_hopDistance m) (ScoredFile_hopDistance a),
       ScoredFile_cosineSim := or_else (ScoredFile_cosineSim m) (ScoredFile_cosineSim a)\<rparr>"

lemma ScoredFile_emits:
  assumes "ScoredFile_valid m"
  shows "emits (ScoredFile_encode m) (ScoredFile_bytes m)"
  unfolding ScoredFile_encode_def [abs_def] ScoredFile_bytes_def Let_def append_assoc [symmetric]
  by (rule double.then_emits_opt, rule uint32.then_emits_opt, rule double.then_emits_opt,
      rule FileResult_codec.sub.emits_opt)
    (simp_all add: assms [unfolded ScoredFile_valid_def map_ok_def])

lemma ScoredFile_parses:
  assumes "ScoredFile_valid m"
  shows "parses ScoredFile_decode_field (ScoredFile_bytes m) a (ScoredFile_merge a m)"
  unfolding ScoredFile_bytes_def append_assoc [symmetric]
  by (rule parses_to,
      rule double.then_parses_opt [where get = ScoredFile_cosineSim and upd = "\<lambda>x m. m\<lparr>ScoredFile_cosineSim := x\<rparr>"],
      rule uint32.then_parses_opt [where get = ScoredFile_hopDistance and upd = "\<lambda>x m. m\<lparr>ScoredFile_hopDistance := x\<rparr>"],
      rule double.then_parses_opt [where get = ScoredFile_score and upd = "\<lambda>x m. m\<lparr>ScoredFile_score := x\<rparr>"],
      rule FileResult_codec.sub.parses_opt [where get = ScoredFile_file and upd = "\<lambda>x m. m\<lparr>ScoredFile_file := x\<rparr>"])
    (simp_all add: assms [unfolded ScoredFile_valid_def map_ok_def] ScoredFile_decode_field_def tag_no_def lens_def
      merge_defs ScoredFile_merge_def)

lemma ScoredFile_merge_new: "ScoredFile_valid m \<Longrightarrow> ScoredFile_merge ScoredFile_new m = m"
  by (simp add: ScoredFile_merge_def ScoredFile_new_def ScoredFile_valid_def map_ok_def js_object_def)

lemma ScoredFile_progress: "progress ScoredFile_decode_field"
  by (rule progressI)
    (simp add: ScoredFile_decode_field_def moves_if_split moves_branches FileResult_codec.moves_decode)

interpretation ScoredFile_codec: message_codec ScoredFile_encode ScoredFile_decode ScoredFile_decode_field ScoredFile_new ScoredFile_bytes
  ScoredFile_valid ScoredFile_merge
  by unfold_locales
    (simp_all add: ScoredFile_decode_def ScoredFile_progress ScoredFile_emits ScoredFile_parses ScoredFile_merge_new)

subsection \<open>RelatedResponse\<close>

record RelatedResponse =
  RelatedResponse_files :: "ScoredFile list"

definition RelatedResponse_new :: RelatedResponse where
  "RelatedResponse_new = \<lparr>RelatedResponse_files = []\<rparr>"

definition RelatedResponse_encode :: "RelatedResponse \<Rightarrow> Writer \<Rightarrow> Writer" where
  "RelatedResponse_encode message writer =
     (let writer = put_all 10 (put_sub ScoredFile_encode) (RelatedResponse_files message) writer
      in writer)"

definition RelatedResponse_decode_field :: "u32 \<Rightarrow> Reader \<Rightarrow> RelatedResponse \<Rightarrow> (RelatedResponse \<times> Reader) res" where
  "RelatedResponse_decode_field tag reader message =
     (if tag_no tag = 1 then map_res (\<lambda>v. message\<lparr>RelatedResponse_files := RelatedResponse_files message @ [v]\<rparr>) (get_sub ScoredFile_decode reader)
      else skip_field tag reader message)"

definition RelatedResponse_decode :: "Reader \<Rightarrow> nat option \<Rightarrow> (RelatedResponse \<times> Reader) res" where
  "RelatedResponse_decode = decode_with RelatedResponse_decode_field RelatedResponse_new"

definition RelatedResponse_encodeDelimited :: "RelatedResponse \<Rightarrow> Writer \<Rightarrow> Writer" where
  "RelatedResponse_encodeDelimited message writer = w_ldelim (RelatedResponse_encode message writer)"

definition RelatedResponse_decodeDelimited :: "Reader \<Rightarrow> (RelatedResponse \<times> Reader) res" where
  "RelatedResponse_decodeDelimited = get_sub RelatedResponse_decode"

definition RelatedResponse_bytes :: "RelatedResponse \<Rightarrow> u8 list" where
  "RelatedResponse_bytes m =
     all_bytes 10 (\<lambda>v. delim (ScoredFile_bytes v)) (RelatedResponse_files m)"

definition RelatedResponse_valid :: "RelatedResponse \<Rightarrow> bool" where
  "RelatedResponse_valid m \<longleftrightarrow> list_all (\<lambda>v. ScoredFile_valid v \<and> length (ScoredFile_bytes v) < 4294967296) (RelatedResponse_files m)"

definition RelatedResponse_merge :: "RelatedResponse \<Rightarrow> RelatedResponse \<Rightarrow> RelatedResponse" where
  "RelatedResponse_merge a m =
     a\<lparr>RelatedResponse_files := RelatedResponse_files a @ RelatedResponse_files m\<rparr>"

lemma RelatedResponse_emits:
  assumes "RelatedResponse_valid m"
  shows "emits (RelatedResponse_encode m) (RelatedResponse_bytes m)"
  unfolding RelatedResponse_encode_def [abs_def] RelatedResponse_bytes_def Let_def append_assoc [symmetric]
  by (rule ScoredFile_codec.sub.emits_all)
    (simp_all add: assms [unfolded RelatedResponse_valid_def map_ok_def])

lemma RelatedResponse_parses:
  assumes "RelatedResponse_valid m"
  shows "parses RelatedResponse_decode_field (RelatedResponse_bytes m) a (RelatedResponse_merge a m)"
  unfolding RelatedResponse_bytes_def append_assoc [symmetric]
  by (rule parses_to,
      rule ScoredFile_codec.sub.parses_all [where get = RelatedResponse_files and upd = "\<lambda>x m. m\<lparr>RelatedResponse_files := x\<rparr>"])
    (simp_all add: assms [unfolded RelatedResponse_valid_def map_ok_def] RelatedResponse_decode_field_def tag_no_def lens_def
      merge_defs RelatedResponse_merge_def)

lemma RelatedResponse_merge_new: "RelatedResponse_valid m \<Longrightarrow> RelatedResponse_merge RelatedResponse_new m = m"
  by (simp add: RelatedResponse_merge_def RelatedResponse_new_def RelatedResponse_valid_def map_ok_def js_object_def)

lemma RelatedResponse_progress: "progress RelatedResponse_decode_field"
  by (rule progressI)
    (simp add: RelatedResponse_decode_field_def moves_if_split moves_branches ScoredFile_codec.moves_decode)

interpretation RelatedResponse_codec: message_codec RelatedResponse_encode RelatedResponse_decode RelatedResponse_decode_field RelatedResponse_new RelatedResponse_bytes
  RelatedResponse_valid RelatedResponse_merge
  by unfold_locales
    (simp_all add: RelatedResponse_decode_def RelatedResponse_progress RelatedResponse_emits RelatedResponse_parses RelatedResponse_merge_new)

subsection \<open>ListTagsRequest\<close>

record ListTagsRequest =
  ListTagsRequest_prefix :: "jstring option"

definition ListTagsRequest_new :: ListTagsRequest where
  "ListTagsRequest_new = \<lparr>ListTagsRequest_prefix = None\<rparr>"

definition ListTagsRequest_encode :: "ListTagsRequest \<Rightarrow> Writer \<Rightarrow> Writer" where
  "ListTagsRequest_encode message writer =
     (let writer = put_opt 10 w_string (ListTagsRequest_prefix message) writer
      in writer)"

definition ListTagsRequest_decode_field :: "u32 \<Rightarrow> Reader \<Rightarrow> ListTagsRequest \<Rightarrow> (ListTagsRequest \<times> Reader) res" where
  "ListTagsRequest_decode_field tag reader message =
     (if tag_no tag = 1 then map_res (\<lambda>v. message\<lparr>ListTagsRequest_prefix := Some v\<rparr>) (r_string reader)
      else skip_field tag reader message)"

definition ListTagsRequest_decode :: "Reader \<Rightarrow> nat option \<Rightarrow> (ListTagsRequest \<times> Reader) res" where
  "ListTagsRequest_decode = decode_with ListTagsRequest_decode_field ListTagsRequest_new"

definition ListTagsRequest_encodeDelimited :: "ListTagsRequest \<Rightarrow> Writer \<Rightarrow> Writer" where
  "ListTagsRequest_encodeDelimited message writer = w_ldelim (ListTagsRequest_encode message writer)"

definition ListTagsRequest_decodeDelimited :: "Reader \<Rightarrow> (ListTagsRequest \<times> Reader) res" where
  "ListTagsRequest_decodeDelimited = get_sub ListTagsRequest_decode"

definition ListTagsRequest_bytes :: "ListTagsRequest \<Rightarrow> u8 list" where
  "ListTagsRequest_bytes m =
     opt_bytes 10 string_bytes (ListTagsRequest_prefix m)"

definition ListTagsRequest_valid :: "ListTagsRequest \<Rightarrow> bool" where
  "ListTagsRequest_valid m \<longleftrightarrow> opt_ok string_ok (ListTagsRequest_prefix m)"

definition ListTagsRequest_merge :: "ListTagsRequest \<Rightarrow> ListTagsRequest \<Rightarrow> ListTagsRequest" where
  "ListTagsRequest_merge a m =
     a\<lparr>ListTagsRequest_prefix := or_else (ListTagsRequest_prefix m) (ListTagsRequest_prefix a)\<rparr>"

lemma ListTagsRequest_emits:
  assumes "ListTagsRequest_valid m"
  shows "emits (ListTagsRequest_encode m) (ListTagsRequest_bytes m)"
  unfolding ListTagsRequest_encode_def [abs_def] ListTagsRequest_bytes_def Let_def append_assoc [symmetric]
  by (rule string.emits_opt)
    (simp_all add: assms [unfolded ListTagsRequest_valid_def map_ok_def])

lemma ListTagsRequest_parses:
  assumes "ListTagsRequest_valid m"
  shows "parses ListTagsRequest_decode_field (ListTagsRequest_bytes m) a (ListTagsRequest_merge a m)"
  unfolding ListTagsRequest_bytes_def append_assoc [symmetric]
  by (rule parses_to,
      rule string.parses_opt [where get = ListTagsRequest_prefix and upd = "\<lambda>x m. m\<lparr>ListTagsRequest_prefix := x\<rparr>"])
    (simp_all add: assms [unfolded ListTagsRequest_valid_def map_ok_def] ListTagsRequest_decode_field_def tag_no_def lens_def
      merge_defs ListTagsRequest_merge_def)

lemma ListTagsRequest_merge_new: "ListTagsRequest_valid m \<Longrightarrow> ListTagsRequest_merge ListTagsRequest_new m = m"
  by (simp add: ListTagsRequest_merge_def ListTagsRequest_new_def ListTagsRequest_valid_def map_ok_def js_object_def)

lemma ListTagsRequest_progress: "progress ListTagsRequest_decode_field"
  by (rule progressI)
    (simp add: ListTagsRequest_decode_field_def moves_if_split moves_branches)

interpretation ListTagsRequest_codec: message_codec ListTagsRequest_encode ListTagsRequest_decode ListTagsRequest_decode_field ListTagsRequest_new ListTagsRequest_bytes
  ListTagsRequest_valid ListTagsRequest_merge
  by unfold_locales
    (simp_all add: ListTagsRequest_decode_def ListTagsRequest_progress ListTagsRequest_emits ListTagsRequest_parses ListTagsRequest_merge_new)

subsection \<open>ListTagsResponse\<close>

record ListTagsResponse =
  ListTagsResponse_tags :: "jstring list"

definition ListTagsResponse_new :: ListTagsResponse where
  "ListTagsResponse_new = \<lparr>ListTagsResponse_tags = []\<rparr>"

definition ListTagsResponse_encode :: "ListTagsResponse \<Rightarrow> Writer \<Rightarrow> Writer" where
  "ListTagsResponse_encode message writer =
     (let writer = put_all 10 w_string (ListTagsResponse_tags message) writer
      in writer)"

definition ListTagsResponse_decode_field :: "u32 \<Rightarrow> Reader \<Rightarrow> ListTagsResponse \<Rightarrow> (ListTagsResponse \<times> Reader) res" where
  "ListTagsResponse_decode_field tag reader message =
     (if tag_no tag = 1 then map_res (\<lambda>v. message\<lparr>ListTagsResponse_tags := ListTagsResponse_tags message @ [v]\<rparr>) (r_string reader)
      else skip_field tag reader message)"

definition ListTagsResponse_decode :: "Reader \<Rightarrow> nat option \<Rightarrow> (ListTagsResponse \<times> Reader) res" where
  "ListTagsResponse_decode = decode_with ListTagsResponse_decode_field ListTagsResponse_new"

definition ListTagsResponse_encodeDelimited :: "ListTagsResponse \<Rightarrow> Writer \<Rightarrow> Writer" where
  "ListTagsResponse_encodeDelimited message writer = w_ldelim (ListTagsResponse_encode message writer)"

definition ListTagsResponse_decodeDelimited :: "Reader \<Rightarrow> (ListTagsResponse \<times> Reader) res" where
  "ListTagsResponse_decodeDelimited = get_sub ListTagsResponse_decode"

definition ListTagsResponse_bytes :: "ListTagsResponse \<Rightarrow> u8 list" where
  "ListTagsResponse_bytes m =
     all_bytes 10 string_bytes (ListTagsResponse_tags m)"

definition ListTagsResponse_valid :: "ListTagsResponse \<Rightarrow> bool" where
  "ListTagsResponse_valid m \<longleftrightarrow> list_all string_ok (ListTagsResponse_tags m)"

definition ListTagsResponse_merge :: "ListTagsResponse \<Rightarrow> ListTagsResponse \<Rightarrow> ListTagsResponse" where
  "ListTagsResponse_merge a m =
     a\<lparr>ListTagsResponse_tags := ListTagsResponse_tags a @ ListTagsResponse_tags m\<rparr>"

lemma ListTagsResponse_emits:
  assumes "ListTagsResponse_valid m"
  shows "emits (ListTagsResponse_encode m) (ListTagsResponse_bytes m)"
  unfolding ListTagsResponse_encode_def [abs_def] ListTagsResponse_bytes_def Let_def append_assoc [symmetric]
  by (rule string.emits_all)
    (simp_all add: assms [unfolded ListTagsResponse_valid_def map_ok_def])

lemma ListTagsResponse_parses:
  assumes "ListTagsResponse_valid m"
  shows "parses ListTagsResponse_decode_field (ListTagsResponse_bytes m) a (ListTagsResponse_merge a m)"
  unfolding ListTagsResponse_bytes_def append_assoc [symmetric]
  by (rule parses_to,
      rule string.parses_all [where get = ListTagsResponse_tags and upd = "\<lambda>x m. m\<lparr>ListTagsResponse_tags := x\<rparr>"])
    (simp_all add: assms [unfolded ListTagsResponse_valid_def map_ok_def] ListTagsResponse_decode_field_def tag_no_def lens_def
      merge_defs ListTagsResponse_merge_def)

lemma ListTagsResponse_merge_new: "ListTagsResponse_valid m \<Longrightarrow> ListTagsResponse_merge ListTagsResponse_new m = m"
  by (simp add: ListTagsResponse_merge_def ListTagsResponse_new_def ListTagsResponse_valid_def map_ok_def js_object_def)

lemma ListTagsResponse_progress: "progress ListTagsResponse_decode_field"
  by (rule progressI)
    (simp add: ListTagsResponse_decode_field_def moves_if_split moves_branches)

interpretation ListTagsResponse_codec: message_codec ListTagsResponse_encode ListTagsResponse_decode ListTagsResponse_decode_field ListTagsResponse_new ListTagsResponse_bytes
  ListTagsResponse_valid ListTagsResponse_merge
  by unfold_locales
    (simp_all add: ListTagsResponse_decode_def ListTagsResponse_progress ListTagsResponse_emits ListTagsResponse_parses ListTagsResponse_merge_new)

subsection \<open>HydrateTagsRequest\<close>

record HydrateTagsRequest =
  HydrateTagsRequest_paths :: "jstring list"

definition HydrateTagsRequest_new :: HydrateTagsRequest where
  "HydrateTagsRequest_new = \<lparr>HydrateTagsRequest_paths = []\<rparr>"

definition HydrateTagsRequest_encode :: "HydrateTagsRequest \<Rightarrow> Writer \<Rightarrow> Writer" where
  "HydrateTagsRequest_encode message writer =
     (let writer = put_all 10 w_string (HydrateTagsRequest_paths message) writer
      in writer)"

definition HydrateTagsRequest_decode_field :: "u32 \<Rightarrow> Reader \<Rightarrow> HydrateTagsRequest \<Rightarrow> (HydrateTagsRequest \<times> Reader) res" where
  "HydrateTagsRequest_decode_field tag reader message =
     (if tag_no tag = 1 then map_res (\<lambda>v. message\<lparr>HydrateTagsRequest_paths := HydrateTagsRequest_paths message @ [v]\<rparr>) (r_string reader)
      else skip_field tag reader message)"

definition HydrateTagsRequest_decode :: "Reader \<Rightarrow> nat option \<Rightarrow> (HydrateTagsRequest \<times> Reader) res" where
  "HydrateTagsRequest_decode = decode_with HydrateTagsRequest_decode_field HydrateTagsRequest_new"

definition HydrateTagsRequest_encodeDelimited :: "HydrateTagsRequest \<Rightarrow> Writer \<Rightarrow> Writer" where
  "HydrateTagsRequest_encodeDelimited message writer = w_ldelim (HydrateTagsRequest_encode message writer)"

definition HydrateTagsRequest_decodeDelimited :: "Reader \<Rightarrow> (HydrateTagsRequest \<times> Reader) res" where
  "HydrateTagsRequest_decodeDelimited = get_sub HydrateTagsRequest_decode"

definition HydrateTagsRequest_bytes :: "HydrateTagsRequest \<Rightarrow> u8 list" where
  "HydrateTagsRequest_bytes m =
     all_bytes 10 string_bytes (HydrateTagsRequest_paths m)"

definition HydrateTagsRequest_valid :: "HydrateTagsRequest \<Rightarrow> bool" where
  "HydrateTagsRequest_valid m \<longleftrightarrow> list_all string_ok (HydrateTagsRequest_paths m)"

definition HydrateTagsRequest_merge :: "HydrateTagsRequest \<Rightarrow> HydrateTagsRequest \<Rightarrow> HydrateTagsRequest" where
  "HydrateTagsRequest_merge a m =
     a\<lparr>HydrateTagsRequest_paths := HydrateTagsRequest_paths a @ HydrateTagsRequest_paths m\<rparr>"

lemma HydrateTagsRequest_emits:
  assumes "HydrateTagsRequest_valid m"
  shows "emits (HydrateTagsRequest_encode m) (HydrateTagsRequest_bytes m)"
  unfolding HydrateTagsRequest_encode_def [abs_def] HydrateTagsRequest_bytes_def Let_def append_assoc [symmetric]
  by (rule string.emits_all)
    (simp_all add: assms [unfolded HydrateTagsRequest_valid_def map_ok_def])

lemma HydrateTagsRequest_parses:
  assumes "HydrateTagsRequest_valid m"
  shows "parses HydrateTagsRequest_decode_field (HydrateTagsRequest_bytes m) a (HydrateTagsRequest_merge a m)"
  unfolding HydrateTagsRequest_bytes_def append_assoc [symmetric]
  by (rule parses_to,
      rule string.parses_all [where get = HydrateTagsRequest_paths and upd = "\<lambda>x m. m\<lparr>HydrateTagsRequest_paths := x\<rparr>"])
    (simp_all add: assms [unfolded HydrateTagsRequest_valid_def map_ok_def] HydrateTagsRequest_decode_field_def tag_no_def lens_def
      merge_defs HydrateTagsRequest_merge_def)

lemma HydrateTagsRequest_merge_new: "HydrateTagsRequest_valid m \<Longrightarrow> HydrateTagsRequest_merge HydrateTagsRequest_new m = m"
  by (simp add: HydrateTagsRequest_merge_def HydrateTagsRequest_new_def HydrateTagsRequest_valid_def map_ok_def js_object_def)

lemma HydrateTagsRequest_progress: "progress HydrateTagsRequest_decode_field"
  by (rule progressI)
    (simp add: HydrateTagsRequest_decode_field_def moves_if_split moves_branches)

interpretation HydrateTagsRequest_codec: message_codec HydrateTagsRequest_encode HydrateTagsRequest_decode HydrateTagsRequest_decode_field HydrateTagsRequest_new HydrateTagsRequest_bytes
  HydrateTagsRequest_valid HydrateTagsRequest_merge
  by unfold_locales
    (simp_all add: HydrateTagsRequest_decode_def HydrateTagsRequest_progress HydrateTagsRequest_emits HydrateTagsRequest_parses HydrateTagsRequest_merge_new)

subsection \<open>HydratedPathTags\<close>

record HydratedPathTags =
  HydratedPathTags_path :: "jstring option"
  HydratedPathTags_tags :: "jstring list"

definition HydratedPathTags_new :: HydratedPathTags where
  "HydratedPathTags_new = \<lparr>HydratedPathTags_path = None, HydratedPathTags_tags = []\<rparr>"

definition HydratedPathTags_encode :: "HydratedPathTags \<Rightarrow> Writer \<Rightarrow> Writer" where
  "HydratedPathTags_encode message writer =
     (let writer = put_opt 10 w_string (HydratedPathTags_path message) writer;
          writer = put_all 18 w_string (HydratedPathTags_tags message) writer
      in writer)"

definition HydratedPathTags_decode_field :: "u32 \<Rightarrow> Reader \<Rightarrow> HydratedPathTags \<Rightarrow> (HydratedPathTags \<times> Reader) res" where
  "HydratedPathTags_decode_field tag reader message =
     (if tag_no tag = 1 then map_res (\<lambda>v. message\<lparr>HydratedPathTags_path := Some v\<rparr>) (r_string reader)
      else if tag_no tag = 2 then map_res (\<lambda>v. message\<lparr>HydratedPathTags_tags := HydratedPathTags_tags message @ [v]\<rparr>) (r_string reader)
      else skip_field tag reader message)"

definition HydratedPathTags_decode :: "Reader \<Rightarrow> nat option \<Rightarrow> (HydratedPathTags \<times> Reader) res" where
  "HydratedPathTags_decode = decode_with HydratedPathTags_decode_field HydratedPathTags_new"

definition HydratedPathTags_encodeDelimited :: "HydratedPathTags \<Rightarrow> Writer \<Rightarrow> Writer" where
  "HydratedPathTags_encodeDelimited message writer = w_ldelim (HydratedPathTags_encode message writer)"

definition HydratedPathTags_decodeDelimited :: "Reader \<Rightarrow> (HydratedPathTags \<times> Reader) res" where
  "HydratedPathTags_decodeDelimited = get_sub HydratedPathTags_decode"

definition HydratedPathTags_bytes :: "HydratedPathTags \<Rightarrow> u8 list" where
  "HydratedPathTags_bytes m =
     opt_bytes 10 string_bytes (HydratedPathTags_path m) @
     all_bytes 18 string_bytes (HydratedPathTags_tags m)"

definition HydratedPathTags_valid :: "HydratedPathTags \<Rightarrow> bool" where
  "HydratedPathTags_valid m \<longleftrightarrow> opt_ok string_ok (HydratedPathTags_path m) \<and>
     list_all string_ok (HydratedPathTags_tags m)"

definition HydratedPathTags_merge :: "HydratedPathTags \<Rightarrow> HydratedPathTags \<Rightarrow> HydratedPathTags" where
  "HydratedPathTags_merge a m =
     a\<lparr>HydratedPathTags_path := or_else (HydratedPathTags_path m) (HydratedPathTags_path a),
       HydratedPathTags_tags := HydratedPathTags_tags a @ HydratedPathTags_tags m\<rparr>"

lemma HydratedPathTags_emits:
  assumes "HydratedPathTags_valid m"
  shows "emits (HydratedPathTags_encode m) (HydratedPathTags_bytes m)"
  unfolding HydratedPathTags_encode_def [abs_def] HydratedPathTags_bytes_def Let_def append_assoc [symmetric]
  by (rule string.then_emits_all, rule string.emits_opt)
    (simp_all add: assms [unfolded HydratedPathTags_valid_def map_ok_def])

lemma HydratedPathTags_parses:
  assumes "HydratedPathTags_valid m"
  shows "parses HydratedPathTags_decode_field (HydratedPathTags_bytes m) a (HydratedPathTags_merge a m)"
  unfolding HydratedPathTags_bytes_def append_assoc [symmetric]
  by (rule parses_to,
      rule string.then_parses_all [where get = HydratedPathTags_tags and upd = "\<lambda>x m. m\<lparr>HydratedPathTags_tags := x\<rparr>"],
      rule string.parses_opt [where get = HydratedPathTags_path and upd = "\<lambda>x m. m\<lparr>HydratedPathTags_path := x\<rparr>"])
    (simp_all add: assms [unfolded HydratedPathTags_valid_def map_ok_def] HydratedPathTags_decode_field_def tag_no_def lens_def
      merge_defs HydratedPathTags_merge_def)

lemma HydratedPathTags_merge_new: "HydratedPathTags_valid m \<Longrightarrow> HydratedPathTags_merge HydratedPathTags_new m = m"
  by (simp add: HydratedPathTags_merge_def HydratedPathTags_new_def HydratedPathTags_valid_def map_ok_def js_object_def)

lemma HydratedPathTags_progress: "progress HydratedPathTags_decode_field"
  by (rule progressI)
    (simp add: HydratedPathTags_decode_field_def moves_if_split moves_branches)

interpretation HydratedPathTags_codec: message_codec HydratedPathTags_encode HydratedPathTags_decode HydratedPathTags_decode_field HydratedPathTags_new HydratedPathTags_bytes
  HydratedPathTags_valid HydratedPathTags_merge
  by unfold_locales
    (simp_all add: HydratedPathTags_decode_def HydratedPathTags_progress HydratedPathTags_emits HydratedPathTags_parses HydratedPathTags_merge_new)

subsection \<open>HydrateTagsResponse\<close>

record HydrateTagsResponse =
  HydrateTagsResponse_entries :: "HydratedPathTags list"

definition HydrateTagsResponse_new :: HydrateTagsResponse where
  "HydrateTagsResponse_new = \<lparr>HydrateTagsResponse_entries = []\<rparr>"

definition HydrateTagsResponse_encode :: "HydrateTagsResponse \<Rightarrow> Writer \<Rightarrow> Writer" where
  "HydrateTagsResponse_encode message writer =
     (let writer = put_all 10 (put_sub HydratedPathTags_encode) (HydrateTagsResponse_entries message) writer
      in writer)"

definition HydrateTagsResponse_decode_field :: "u32 \<Rightarrow> Reader \<Rightarrow> HydrateTagsResponse \<Rightarrow> (HydrateTagsResponse \<times> Reader) res" where
  "HydrateTagsResponse_decode_field tag reader message =
     (if tag_no tag = 1 then map_res (\<lambda>v. message\<lparr>HydrateTagsResponse_entries := HydrateTagsResponse_entries message @ [v]\<rparr>) (get_sub HydratedPathTags_decode reader)
      else skip_field tag reader message)"

definition HydrateTagsResponse_decode :: "Reader \<Rightarrow> nat option \<Rightarrow> (HydrateTagsResponse \<times> Reader) res" where
  "HydrateTagsResponse_decode = decode_with HydrateTagsResponse_decode_field HydrateTagsResponse_new"

definition HydrateTagsResponse_encodeDelimited :: "HydrateTagsResponse \<Rightarrow> Writer \<Rightarrow> Writer" where
  "HydrateTagsResponse_encodeDelimited message writer = w_ldelim (HydrateTagsResponse_encode message writer)"

definition HydrateTagsResponse_decodeDelimited :: "Reader \<Rightarrow> (HydrateTagsResponse \<times> Reader) res" where
  "HydrateTagsResponse_decodeDelimited = get_sub HydrateTagsResponse_decode"

definition HydrateTagsResponse_bytes :: "HydrateTagsResponse \<Rightarrow> u8 list" where
  "HydrateTagsResponse_bytes m =
     all_bytes 10 (\<lambda>v. delim (HydratedPathTags_bytes v)) (HydrateTagsResponse_entries m)"

definition HydrateTagsResponse_valid :: "HydrateTagsResponse \<Rightarrow> bool" where
  "HydrateTagsResponse_valid m \<longleftrightarrow> list_all (\<lambda>v. HydratedPathTags_valid v \<and> length (HydratedPathTags_bytes v) < 4294967296) (HydrateTagsResponse_entries m)"

definition HydrateTagsResponse_merge :: "HydrateTagsResponse \<Rightarrow> HydrateTagsResponse \<Rightarrow> HydrateTagsResponse" where
  "HydrateTagsResponse_merge a m =
     a\<lparr>HydrateTagsResponse_entries := HydrateTagsResponse_entries a @ HydrateTagsResponse_entries m\<rparr>"

lemma HydrateTagsResponse_emits:
  assumes "HydrateTagsResponse_valid m"
  shows "emits (HydrateTagsResponse_encode m) (HydrateTagsResponse_bytes m)"
  unfolding HydrateTagsResponse_encode_def [abs_def] HydrateTagsResponse_bytes_def Let_def append_assoc [symmetric]
  by (rule HydratedPathTags_codec.sub.emits_all)
    (simp_all add: assms [unfolded HydrateTagsResponse_valid_def map_ok_def])

lemma HydrateTagsResponse_parses:
  assumes "HydrateTagsResponse_valid m"
  shows "parses HydrateTagsResponse_decode_field (HydrateTagsResponse_bytes m) a (HydrateTagsResponse_merge a m)"
  unfolding HydrateTagsResponse_bytes_def append_assoc [symmetric]
  by (rule parses_to,
      rule HydratedPathTags_codec.sub.parses_all [where get = HydrateTagsResponse_entries and upd = "\<lambda>x m. m\<lparr>HydrateTagsResponse_entries := x\<rparr>"])
    (simp_all add: assms [unfolded HydrateTagsResponse_valid_def map_ok_def] HydrateTagsResponse_decode_field_def tag_no_def lens_def
      merge_defs HydrateTagsResponse_merge_def)

lemma HydrateTagsResponse_merge_new: "HydrateTagsResponse_valid m \<Longrightarrow> HydrateTagsResponse_merge HydrateTagsResponse_new m = m"
  by (simp add: HydrateTagsResponse_merge_def HydrateTagsResponse_new_def HydrateTagsResponse_valid_def map_ok_def js_object_def)

lemma HydrateTagsResponse_progress: "progress HydrateTagsResponse_decode_field"
  by (rule progressI)
    (simp add: HydrateTagsResponse_decode_field_def moves_if_split moves_branches HydratedPathTags_codec.moves_decode)

interpretation HydrateTagsResponse_codec: message_codec HydrateTagsResponse_encode HydrateTagsResponse_decode HydrateTagsResponse_decode_field HydrateTagsResponse_new HydrateTagsResponse_bytes
  HydrateTagsResponse_valid HydrateTagsResponse_merge
  by unfold_locales
    (simp_all add: HydrateTagsResponse_decode_def HydrateTagsResponse_progress HydrateTagsResponse_emits HydrateTagsResponse_parses HydrateTagsResponse_merge_new)

subsection \<open>GlobSearchRequest\<close>

record GlobSearchRequest =
  GlobSearchRequest_patterns :: "jstring list"
  GlobSearchRequest_limit :: "int option"
  GlobSearchRequest_allowHidden :: "bool option"

definition GlobSearchRequest_new :: GlobSearchRequest where
  "GlobSearchRequest_new = \<lparr>GlobSearchRequest_patterns = [], GlobSearchRequest_limit = None,
     GlobSearchRequest_allowHidden = None\<rparr>"

definition GlobSearchRequest_encode :: "GlobSearchRequest \<Rightarrow> Writer \<Rightarrow> Writer" where
  "GlobSearchRequest_encode message writer =
     (let writer = put_all 10 w_string (GlobSearchRequest_patterns message) writer;
          writer = put_opt 16 w_uint32 (GlobSearchRequest_limit message) writer;
          writer = put_opt 24 w_bool (GlobSearchRequest_allowHidden message) writer
      in writer)"

definition GlobSearchRequest_decode_field :: "u32 \<Rightarrow> Reader \<Rightarrow> GlobSearchRequest \<Rightarrow> (GlobSearchRequest \<times> Reader) res" where
  "GlobSearchRequest_decode_field tag reader message =
     (if tag_no tag = 1 then map_res (\<lambda>v. message\<lparr>GlobSearchRequest_patterns := GlobSearchRequest_patterns message @ [v]\<rparr>) (r_string reader)
      else if tag_no tag = 2 then map_res (\<lambda>v. message\<lparr>GlobSearchRequest_limit := Some v\<rparr>) (r_uint32_number reader)
      else if tag_no tag = 3 then map_res (\<lambda>v. message\<lparr>GlobSearchRequest_allowHidden := Some v\<rparr>) (r_bool reader)
      else skip_field tag reader message)"

definition GlobSearchRequest_decode :: "Reader \<Rightarrow> nat option \<Rightarrow> (GlobSearchRequest \<times> Reader) res" where
  "GlobSearchRequest_decode = decode_with GlobSearchRequest_decode_field GlobSearchRequest_new"

definition GlobSearchRequest_encodeDelimited :: "GlobSearchRequest \<Rightarrow> Writer \<Rightarrow> Writer" where
  "GlobSearchRequest_encodeDelimited message writer = w_ldelim (GlobSearchRequest_encode message writer)"

definition GlobSearchRequest_decodeDelimited :: "Reader \<Rightarrow> (GlobSearchRequest \<times> Reader) res" where
  "GlobSearchRequest_decodeDelimited = get_sub GlobSearchRequest_decode"

definition GlobSearchRequest_bytes :: "GlobSearchRequest \<Rightarrow> u8 list" where
  "GlobSearchRequest_bytes m =
     all_bytes 10 string_bytes (GlobSearchRequest_patterns m) @
     opt_bytes 16 uint32_bytes (GlobSearchRequest_limit m) @
     opt_bytes 24 bool_bytes (GlobSearchRequest_allowHidden m)"

definition GlobSearchRequest_valid :: "GlobSearchRequest \<Rightarrow> bool" where
  "GlobSearchRequest_valid m \<longleftrightarrow> list_all string_ok (GlobSearchRequest_patterns m) \<and>
     opt_ok uint32_ok (GlobSearchRequest_limit m)"

definition GlobSearchRequest_merge :: "GlobSearchRequest \<Rightarrow> GlobSearchRequest \<Rightarrow> GlobSearchRequest" where
  "GlobSearchRequest_merge a m =
     a\<lparr>GlobSearchRequest_patterns := GlobSearchRequest_patterns a @ GlobSearchRequest_patterns m,
       GlobSearchRequest_limit := or_else (GlobSearchRequest_limit m) (GlobSearchRequest_limit a),
       GlobSearchRequest_allowHidden := or_else (GlobSearchRequest_allowHidden m) (GlobSearchRequest_allowHidden a)\<rparr>"

lemma GlobSearchRequest_emits:
  assumes "GlobSearchRequest_valid m"
  shows "emits (GlobSearchRequest_encode m) (GlobSearchRequest_bytes m)"
  unfolding GlobSearchRequest_encode_def [abs_def] GlobSearchRequest_bytes_def Let_def append_assoc [symmetric]
  by (rule bool.then_emits_opt, rule uint32.then_emits_opt, rule string.emits_all)
    (simp_all add: assms [unfolded GlobSearchRequest_valid_def map_ok_def])

lemma GlobSearchRequest_parses:
  assumes "GlobSearchRequest_valid m"
  shows "parses GlobSearchRequest_decode_field (GlobSearchRequest_bytes m) a (GlobSearchRequest_merge a m)"
  unfolding GlobSearchRequest_bytes_def append_assoc [symmetric]
  by (rule parses_to,
      rule bool.then_parses_opt [where get = GlobSearchRequest_allowHidden and upd = "\<lambda>x m. m\<lparr>GlobSearchRequest_allowHidden := x\<rparr>"],
      rule uint32.then_parses_opt [where get = GlobSearchRequest_limit and upd = "\<lambda>x m. m\<lparr>GlobSearchRequest_limit := x\<rparr>"],
      rule string.parses_all [where get = GlobSearchRequest_patterns and upd = "\<lambda>x m. m\<lparr>GlobSearchRequest_patterns := x\<rparr>"])
    (simp_all add: assms [unfolded GlobSearchRequest_valid_def map_ok_def] GlobSearchRequest_decode_field_def tag_no_def lens_def
      merge_defs GlobSearchRequest_merge_def)

lemma GlobSearchRequest_merge_new: "GlobSearchRequest_valid m \<Longrightarrow> GlobSearchRequest_merge GlobSearchRequest_new m = m"
  by (simp add: GlobSearchRequest_merge_def GlobSearchRequest_new_def GlobSearchRequest_valid_def map_ok_def js_object_def)

lemma GlobSearchRequest_progress: "progress GlobSearchRequest_decode_field"
  by (rule progressI)
    (simp add: GlobSearchRequest_decode_field_def moves_if_split moves_branches)

interpretation GlobSearchRequest_codec: message_codec GlobSearchRequest_encode GlobSearchRequest_decode GlobSearchRequest_decode_field GlobSearchRequest_new GlobSearchRequest_bytes
  GlobSearchRequest_valid GlobSearchRequest_merge
  by unfold_locales
    (simp_all add: GlobSearchRequest_decode_def GlobSearchRequest_progress GlobSearchRequest_emits GlobSearchRequest_parses GlobSearchRequest_merge_new)

subsection \<open>GlobSearchResponse\<close>

record GlobSearchResponse =
  GlobSearchResponse_files :: "FileResult list"

definition GlobSearchResponse_new :: GlobSearchResponse where
  "GlobSearchResponse_new = \<lparr>GlobSearchResponse_files = []\<rparr>"

definition GlobSearchResponse_encode :: "GlobSearchResponse \<Rightarrow> Writer \<Rightarrow> Writer" where
  "GlobSearchResponse_encode message writer =
     (let writer = put_all 10 (put_sub FileResult_encode) (GlobSearchResponse_files message) writer
      in writer)"

definition GlobSearchResponse_decode_field :: "u32 \<Rightarrow> Reader \<Rightarrow> GlobSearchResponse \<Rightarrow> (GlobSearchResponse \<times> Reader) res" where
  "GlobSearchResponse_decode_field tag reader message =
     (if tag_no tag = 1 then map_res (\<lambda>v. message\<lparr>GlobSearchResponse_files := GlobSearchResponse_files message @ [v]\<rparr>) (get_sub FileResult_decode reader)
      else skip_field tag reader message)"

definition GlobSearchResponse_decode :: "Reader \<Rightarrow> nat option \<Rightarrow> (GlobSearchResponse \<times> Reader) res" where
  "GlobSearchResponse_decode = decode_with GlobSearchResponse_decode_field GlobSearchResponse_new"

definition GlobSearchResponse_encodeDelimited :: "GlobSearchResponse \<Rightarrow> Writer \<Rightarrow> Writer" where
  "GlobSearchResponse_encodeDelimited message writer = w_ldelim (GlobSearchResponse_encode message writer)"

definition GlobSearchResponse_decodeDelimited :: "Reader \<Rightarrow> (GlobSearchResponse \<times> Reader) res" where
  "GlobSearchResponse_decodeDelimited = get_sub GlobSearchResponse_decode"

definition GlobSearchResponse_bytes :: "GlobSearchResponse \<Rightarrow> u8 list" where
  "GlobSearchResponse_bytes m =
     all_bytes 10 (\<lambda>v. delim (FileResult_bytes v)) (GlobSearchResponse_files m)"

definition GlobSearchResponse_valid :: "GlobSearchResponse \<Rightarrow> bool" where
  "GlobSearchResponse_valid m \<longleftrightarrow> list_all (\<lambda>v. FileResult_valid v \<and> length (FileResult_bytes v) < 4294967296) (GlobSearchResponse_files m)"

definition GlobSearchResponse_merge :: "GlobSearchResponse \<Rightarrow> GlobSearchResponse \<Rightarrow> GlobSearchResponse" where
  "GlobSearchResponse_merge a m =
     a\<lparr>GlobSearchResponse_files := GlobSearchResponse_files a @ GlobSearchResponse_files m\<rparr>"

lemma GlobSearchResponse_emits:
  assumes "GlobSearchResponse_valid m"
  shows "emits (GlobSearchResponse_encode m) (GlobSearchResponse_bytes m)"
  unfolding GlobSearchResponse_encode_def [abs_def] GlobSearchResponse_bytes_def Let_def append_assoc [symmetric]
  by (rule FileResult_codec.sub.emits_all)
    (simp_all add: assms [unfolded GlobSearchResponse_valid_def map_ok_def])

lemma GlobSearchResponse_parses:
  assumes "GlobSearchResponse_valid m"
  shows "parses GlobSearchResponse_decode_field (GlobSearchResponse_bytes m) a (GlobSearchResponse_merge a m)"
  unfolding GlobSearchResponse_bytes_def append_assoc [symmetric]
  by (rule parses_to,
      rule FileResult_codec.sub.parses_all [where get = GlobSearchResponse_files and upd = "\<lambda>x m. m\<lparr>GlobSearchResponse_files := x\<rparr>"])
    (simp_all add: assms [unfolded GlobSearchResponse_valid_def map_ok_def] GlobSearchResponse_decode_field_def tag_no_def lens_def
      merge_defs GlobSearchResponse_merge_def)

lemma GlobSearchResponse_merge_new: "GlobSearchResponse_valid m \<Longrightarrow> GlobSearchResponse_merge GlobSearchResponse_new m = m"
  by (simp add: GlobSearchResponse_merge_def GlobSearchResponse_new_def GlobSearchResponse_valid_def map_ok_def js_object_def)

lemma GlobSearchResponse_progress: "progress GlobSearchResponse_decode_field"
  by (rule progressI)
    (simp add: GlobSearchResponse_decode_field_def moves_if_split moves_branches FileResult_codec.moves_decode)

interpretation GlobSearchResponse_codec: message_codec GlobSearchResponse_encode GlobSearchResponse_decode GlobSearchResponse_decode_field GlobSearchResponse_new GlobSearchResponse_bytes
  GlobSearchResponse_valid GlobSearchResponse_merge
  by unfold_locales
    (simp_all add: GlobSearchResponse_decode_def GlobSearchResponse_progress GlobSearchResponse_emits GlobSearchResponse_parses GlobSearchResponse_merge_new)

subsection \<open>SavedSearch\<close>

record SavedSearch =
  SavedSearch_name :: "jstring option"
  SavedSearch_chips :: "jstring list"
  SavedSearch_iconName :: "jstring option"
  SavedSearch_id :: "jstring option"

definition SavedSearch_new :: SavedSearch where
  "SavedSearch_new = \<lparr>SavedSearch_name = None, SavedSearch_chips = [], SavedSearch_iconName = None,
     SavedSearch_id = None\<rparr>"

definition SavedSearch_encode :: "SavedSearch \<Rightarrow> Writer \<Rightarrow> Writer" where
  "SavedSearch_encode message writer =
     (let writer = put_opt 10 w_string (SavedSearch_name message) writer;
          writer = put_all 18 w_string (SavedSearch_chips message) writer;
          writer = put_opt 26 w_string (SavedSearch_iconName message) writer;
          writer = put_opt 34 w_string (SavedSearch_id message) writer
      in writer)"

definition SavedSearch_decode_field :: "u32 \<Rightarrow> Reader \<Rightarrow> SavedSearch \<Rightarrow> (SavedSearch \<times> Reader) res" where
  "SavedSearch_decode_field tag reader message =
     (if tag_no tag = 1 then map_res (\<lambda>v. message\<lparr>SavedSearch_name := Some v\<rparr>) (r_string reader)
      else if tag_no tag = 2 then map_res (\<lambda>v. message\<lparr>SavedSearch_chips := SavedSearch_chips message @ [v]\<rparr>) (r_string reader)
      else if tag_no tag = 3 then map_res (\<lambda>v. message\<lparr>SavedSearch_iconName := Some v\<rparr>) (r_string reader)
      else if tag_no tag = 4 then map_res (\<lambda>v. message\<lparr>SavedSearch_id := Some v\<rparr>) (r_string reader)
      else skip_field tag reader message)"

definition SavedSearch_decode :: "Reader \<Rightarrow> nat option \<Rightarrow> (SavedSearch \<times> Reader) res" where
  "SavedSearch_decode = decode_with SavedSearch_decode_field SavedSearch_new"

definition SavedSearch_encodeDelimited :: "SavedSearch \<Rightarrow> Writer \<Rightarrow> Writer" where
  "SavedSearch_encodeDelimited message writer = w_ldelim (SavedSearch_encode message writer)"

definition SavedSearch_decodeDelimited :: "Reader \<Rightarrow> (SavedSearch \<times> Reader) res" where
  "SavedSearch_decodeDelimited = get_sub SavedSearch_decode"

definition SavedSearch_bytes :: "SavedSearch \<Rightarrow> u8 list" where
  "SavedSearch_bytes m =
     opt_bytes 10 string_bytes (SavedSearch_name m) @
     all_bytes 18 string_bytes (SavedSearch_chips m) @
     opt_bytes 26 string_bytes (SavedSearch_iconName m) @
     opt_bytes 34 string_bytes (SavedSearch_id m)"

definition SavedSearch_valid :: "SavedSearch \<Rightarrow> bool" where
  "SavedSearch_valid m \<longleftrightarrow> opt_ok string_ok (SavedSearch_name m) \<and>
     list_all string_ok (SavedSearch_chips m) \<and>
     opt_ok string_ok (SavedSearch_iconName m) \<and>
     opt_ok string_ok (SavedSearch_id m)"

definition SavedSearch_merge :: "SavedSearch \<Rightarrow> SavedSearch \<Rightarrow> SavedSearch" where
  "SavedSearch_merge a m =
     a\<lparr>SavedSearch_name := or_else (SavedSearch_name m) (SavedSearch_name a),
       SavedSearch_chips := SavedSearch_chips a @ SavedSearch_chips m,
       SavedSearch_iconName := or_else (SavedSearch_iconName m) (SavedSearch_iconName a),
       SavedSearch_id := or_else (SavedSearch_id m) (SavedSearch_id a)\<rparr>"

lemma SavedSearch_emits:
  assumes "SavedSearch_valid m"
  shows "emits (SavedSearch_encode m) (SavedSearch_bytes m)"
  unfolding SavedSearch_encode_def [abs_def] SavedSearch_bytes_def Let_def append_assoc [symmetric]
  by (rule string.then_emits_opt, rule string.then_emits_opt, rule string.then_emits_all,
      rule string.emits_opt)
    (simp_all add: assms [unfolded SavedSearch_valid_def map_ok_def])

lemma SavedSearch_parses:
  assumes "SavedSearch_valid m"
  shows "parses SavedSearch_decode_field (SavedSearch_bytes m) a (SavedSearch_merge a m)"
  unfolding SavedSearch_bytes_def append_assoc [symmetric]
  by (rule parses_to,
      rule string.then_parses_opt [where get = SavedSearch_id and upd = "\<lambda>x m. m\<lparr>SavedSearch_id := x\<rparr>"],
      rule string.then_parses_opt [where get = SavedSearch_iconName and upd = "\<lambda>x m. m\<lparr>SavedSearch_iconName := x\<rparr>"],
      rule string.then_parses_all [where get = SavedSearch_chips and upd = "\<lambda>x m. m\<lparr>SavedSearch_chips := x\<rparr>"],
      rule string.parses_opt [where get = SavedSearch_name and upd = "\<lambda>x m. m\<lparr>SavedSearch_name := x\<rparr>"])
    (simp_all add: assms [unfolded SavedSearch_valid_def map_ok_def] SavedSearch_decode_field_def tag_no_def lens_def
      merge_defs SavedSearch_merge_def)

lemma SavedSearch_merge_new: "SavedSearch_valid m \<Longrightarrow> SavedSearch_merge SavedSearch_new m = m"
  by (simp add: SavedSearch_merge_def SavedSearch_new_def SavedSearch_valid_def map_ok_def js_object_def)

lemma SavedSearch_progress: "progress SavedSearch_decode_field"
  by (rule progressI)
    (simp add: SavedSearch_decode_field_def moves_if_split moves_branches)

interpretation SavedSearch_codec: message_codec SavedSearch_encode SavedSearch_decode SavedSearch_decode_field SavedSearch_new SavedSearch_bytes
  SavedSearch_valid SavedSearch_merge
  by unfold_locales
    (simp_all add: SavedSearch_decode_def SavedSearch_progress SavedSearch_emits SavedSearch_parses SavedSearch_merge_new)

subsection \<open>PinSearchRequest\<close>

record PinSearchRequest =
  PinSearchRequest_name :: "jstring option"
  PinSearchRequest_chips :: "jstring list"
  PinSearchRequest_iconName :: "jstring option"

definition PinSearchRequest_new :: PinSearchRequest where
  "PinSearchRequest_new = \<lparr>PinSearchRequest_name = None, PinSearchRequest_chips = [], PinSearchRequest_iconName
     = None\<rparr>"

definition PinSearchRequest_encode :: "PinSearchRequest \<Rightarrow> Writer \<Rightarrow> Writer" where
  "PinSearchRequest_encode message writer =
     (let writer = put_opt 10 w_string (PinSearchRequest_name message) writer;
          writer = put_all 18 w_string (PinSearchRequest_chips message) writer;
          writer = put_opt 26 w_string (PinSearchRequest_iconName message) writer
      in writer)"

definition PinSearchRequest_decode_field :: "u32 \<Rightarrow> Reader \<Rightarrow> PinSearchRequest \<Rightarrow> (PinSearchRequest \<times> Reader) res" where
  "PinSearchRequest_decode_field tag reader message =
     (if tag_no tag = 1 then map_res (\<lambda>v. message\<lparr>PinSearchRequest_name := Some v\<rparr>) (r_string reader)
      else if tag_no tag = 2 then map_res (\<lambda>v. message\<lparr>PinSearchRequest_chips := PinSearchRequest_chips message @ [v]\<rparr>) (r_string reader)
      else if tag_no tag = 3 then map_res (\<lambda>v. message\<lparr>PinSearchRequest_iconName := Some v\<rparr>) (r_string reader)
      else skip_field tag reader message)"

definition PinSearchRequest_decode :: "Reader \<Rightarrow> nat option \<Rightarrow> (PinSearchRequest \<times> Reader) res" where
  "PinSearchRequest_decode = decode_with PinSearchRequest_decode_field PinSearchRequest_new"

definition PinSearchRequest_encodeDelimited :: "PinSearchRequest \<Rightarrow> Writer \<Rightarrow> Writer" where
  "PinSearchRequest_encodeDelimited message writer = w_ldelim (PinSearchRequest_encode message writer)"

definition PinSearchRequest_decodeDelimited :: "Reader \<Rightarrow> (PinSearchRequest \<times> Reader) res" where
  "PinSearchRequest_decodeDelimited = get_sub PinSearchRequest_decode"

definition PinSearchRequest_bytes :: "PinSearchRequest \<Rightarrow> u8 list" where
  "PinSearchRequest_bytes m =
     opt_bytes 10 string_bytes (PinSearchRequest_name m) @
     all_bytes 18 string_bytes (PinSearchRequest_chips m) @
     opt_bytes 26 string_bytes (PinSearchRequest_iconName m)"

definition PinSearchRequest_valid :: "PinSearchRequest \<Rightarrow> bool" where
  "PinSearchRequest_valid m \<longleftrightarrow> opt_ok string_ok (PinSearchRequest_name m) \<and>
     list_all string_ok (PinSearchRequest_chips m) \<and>
     opt_ok string_ok (PinSearchRequest_iconName m)"

definition PinSearchRequest_merge :: "PinSearchRequest \<Rightarrow> PinSearchRequest \<Rightarrow> PinSearchRequest" where
  "PinSearchRequest_merge a m =
     a\<lparr>PinSearchRequest_name := or_else (PinSearchRequest_name m) (PinSearchRequest_name a),
       PinSearchRequest_chips := PinSearchRequest_chips a @ PinSearchRequest_chips m,
       PinSearchRequest_iconName := or_else (PinSearchRequest_iconName m) (PinSearchRequest_iconName a)\<rparr>"

lemma PinSearchRequest_emits:
  assumes "PinSearchRequest_valid m"
  shows "emits (PinSearchRequest_encode m) (PinSearchRequest_bytes m)"
  unfolding PinSearchRequest_encode_def [abs_def] PinSearchRequest_bytes_def Let_def append_assoc [symmetric]
  by (rule string.then_emits_opt, rule string.then_emits_all, rule string.emits_opt)
    (simp_all add: assms [unfolded PinSearchRequest_valid_def map_ok_def])

lemma PinSearchRequest_parses:
  assumes "PinSearchRequest_valid m"
  shows "parses PinSearchRequest_decode_field (PinSearchRequest_bytes m) a (PinSearchRequest_merge a m)"
  unfolding PinSearchRequest_bytes_def append_assoc [symmetric]
  by (rule parses_to,
      rule string.then_parses_opt [where get = PinSearchRequest_iconName and upd = "\<lambda>x m. m\<lparr>PinSearchRequest_iconName := x\<rparr>"],
      rule string.then_parses_all [where get = PinSearchRequest_chips and upd = "\<lambda>x m. m\<lparr>PinSearchRequest_chips := x\<rparr>"],
      rule string.parses_opt [where get = PinSearchRequest_name and upd = "\<lambda>x m. m\<lparr>PinSearchRequest_name := x\<rparr>"])
    (simp_all add: assms [unfolded PinSearchRequest_valid_def map_ok_def] PinSearchRequest_decode_field_def tag_no_def lens_def
      merge_defs PinSearchRequest_merge_def)

lemma PinSearchRequest_merge_new: "PinSearchRequest_valid m \<Longrightarrow> PinSearchRequest_merge PinSearchRequest_new m = m"
  by (simp add: PinSearchRequest_merge_def PinSearchRequest_new_def PinSearchRequest_valid_def map_ok_def js_object_def)

lemma PinSearchRequest_progress: "progress PinSearchRequest_decode_field"
  by (rule progressI)
    (simp add: PinSearchRequest_decode_field_def moves_if_split moves_branches)

interpretation PinSearchRequest_codec: message_codec PinSearchRequest_encode PinSearchRequest_decode PinSearchRequest_decode_field PinSearchRequest_new PinSearchRequest_bytes
  PinSearchRequest_valid PinSearchRequest_merge
  by unfold_locales
    (simp_all add: PinSearchRequest_decode_def PinSearchRequest_progress PinSearchRequest_emits PinSearchRequest_parses PinSearchRequest_merge_new)

subsection \<open>PinSearchResponse\<close>

record PinSearchResponse =
  PinSearchResponse_search :: "SavedSearch option"

definition PinSearchResponse_new :: PinSearchResponse where
  "PinSearchResponse_new = \<lparr>PinSearchResponse_search = None\<rparr>"

definition PinSearchResponse_encode :: "PinSearchResponse \<Rightarrow> Writer \<Rightarrow> Writer" where
  "PinSearchResponse_encode message writer =
     (let writer = put_opt 10 (put_sub SavedSearch_encode) (PinSearchResponse_search message) writer
      in writer)"

definition PinSearchResponse_decode_field :: "u32 \<Rightarrow> Reader \<Rightarrow> PinSearchResponse \<Rightarrow> (PinSearchResponse \<times> Reader) res" where
  "PinSearchResponse_decode_field tag reader message =
     (if tag_no tag = 1 then map_res (\<lambda>v. message\<lparr>PinSearchResponse_search := Some v\<rparr>) (get_sub SavedSearch_decode reader)
      else skip_field tag reader message)"

definition PinSearchResponse_decode :: "Reader \<Rightarrow> nat option \<Rightarrow> (PinSearchResponse \<times> Reader) res" where
  "PinSearchResponse_decode = decode_with PinSearchResponse_decode_field PinSearchResponse_new"

definition PinSearchResponse_encodeDelimited :: "PinSearchResponse \<Rightarrow> Writer \<Rightarrow> Writer" where
  "PinSearchResponse_encodeDelimited message writer = w_ldelim (PinSearchResponse_encode message writer)"

definition PinSearchResponse_decodeDelimited :: "Reader \<Rightarrow> (PinSearchResponse \<times> Reader) res" where
  "PinSearchResponse_decodeDelimited = get_sub PinSearchResponse_decode"

definition PinSearchResponse_bytes :: "PinSearchResponse \<Rightarrow> u8 list" where
  "PinSearchResponse_bytes m =
     opt_bytes 10 (\<lambda>v. delim (SavedSearch_bytes v)) (PinSearchResponse_search m)"

definition PinSearchResponse_valid :: "PinSearchResponse \<Rightarrow> bool" where
  "PinSearchResponse_valid m \<longleftrightarrow> opt_ok (\<lambda>v. SavedSearch_valid v \<and> length (SavedSearch_bytes v) < 4294967296) (PinSearchResponse_search m)"

definition PinSearchResponse_merge :: "PinSearchResponse \<Rightarrow> PinSearchResponse \<Rightarrow> PinSearchResponse" where
  "PinSearchResponse_merge a m =
     a\<lparr>PinSearchResponse_search := or_else (PinSearchResponse_search m) (PinSearchResponse_search a)\<rparr>"

lemma PinSearchResponse_emits:
  assumes "PinSearchResponse_valid m"
  shows "emits (PinSearchResponse_encode m) (PinSearchResponse_bytes m)"
  unfolding PinSearchResponse_encode_def [abs_def] PinSearchResponse_bytes_def Let_def append_assoc [symmetric]
  by (rule SavedSearch_codec.sub.emits_opt)
    (simp_all add: assms [unfolded PinSearchResponse_valid_def map_ok_def])

lemma PinSearchResponse_parses:
  assumes "PinSearchResponse_valid m"
  shows "parses PinSearchResponse_decode_field (PinSearchResponse_bytes m) a (PinSearchResponse_merge a m)"
  unfolding PinSearchResponse_bytes_def append_assoc [symmetric]
  by (rule parses_to,
      rule SavedSearch_codec.sub.parses_opt [where get = PinSearchResponse_search and upd = "\<lambda>x m. m\<lparr>PinSearchResponse_search := x\<rparr>"])
    (simp_all add: assms [unfolded PinSearchResponse_valid_def map_ok_def] PinSearchResponse_decode_field_def tag_no_def lens_def
      merge_defs PinSearchResponse_merge_def)

lemma PinSearchResponse_merge_new: "PinSearchResponse_valid m \<Longrightarrow> PinSearchResponse_merge PinSearchResponse_new m = m"
  by (simp add: PinSearchResponse_merge_def PinSearchResponse_new_def PinSearchResponse_valid_def map_ok_def js_object_def)

lemma PinSearchResponse_progress: "progress PinSearchResponse_decode_field"
  by (rule progressI)
    (simp add: PinSearchResponse_decode_field_def moves_if_split moves_branches SavedSearch_codec.moves_decode)

interpretation PinSearchResponse_codec: message_codec PinSearchResponse_encode PinSearchResponse_decode PinSearchResponse_decode_field PinSearchResponse_new PinSearchResponse_bytes
  PinSearchResponse_valid PinSearchResponse_merge
  by unfold_locales
    (simp_all add: PinSearchResponse_decode_def PinSearchResponse_progress PinSearchResponse_emits PinSearchResponse_parses PinSearchResponse_merge_new)

subsection \<open>UnpinSearchRequest\<close>

record UnpinSearchRequest =
  UnpinSearchRequest_id :: "jstring option"

definition UnpinSearchRequest_new :: UnpinSearchRequest where
  "UnpinSearchRequest_new = \<lparr>UnpinSearchRequest_id = None\<rparr>"

definition UnpinSearchRequest_encode :: "UnpinSearchRequest \<Rightarrow> Writer \<Rightarrow> Writer" where
  "UnpinSearchRequest_encode message writer =
     (let writer = put_opt 10 w_string (UnpinSearchRequest_id message) writer
      in writer)"

definition UnpinSearchRequest_decode_field :: "u32 \<Rightarrow> Reader \<Rightarrow> UnpinSearchRequest \<Rightarrow> (UnpinSearchRequest \<times> Reader) res" where
  "UnpinSearchRequest_decode_field tag reader message =
     (if tag_no tag = 1 then map_res (\<lambda>v. message\<lparr>UnpinSearchRequest_id := Some v\<rparr>) (r_string reader)
      else skip_field tag reader message)"

definition UnpinSearchRequest_decode :: "Reader \<Rightarrow> nat option \<Rightarrow> (UnpinSearchRequest \<times> Reader) res" where
  "UnpinSearchRequest_decode = decode_with UnpinSearchRequest_decode_field UnpinSearchRequest_new"

definition UnpinSearchRequest_encodeDelimited :: "UnpinSearchRequest \<Rightarrow> Writer \<Rightarrow> Writer" where
  "UnpinSearchRequest_encodeDelimited message writer = w_ldelim (UnpinSearchRequest_encode message writer)"

definition UnpinSearchRequest_decodeDelimited :: "Reader \<Rightarrow> (UnpinSearchRequest \<times> Reader) res" where
  "UnpinSearchRequest_decodeDelimited = get_sub UnpinSearchRequest_decode"

definition UnpinSearchRequest_bytes :: "UnpinSearchRequest \<Rightarrow> u8 list" where
  "UnpinSearchRequest_bytes m =
     opt_bytes 10 string_bytes (UnpinSearchRequest_id m)"

definition UnpinSearchRequest_valid :: "UnpinSearchRequest \<Rightarrow> bool" where
  "UnpinSearchRequest_valid m \<longleftrightarrow> opt_ok string_ok (UnpinSearchRequest_id m)"

definition UnpinSearchRequest_merge :: "UnpinSearchRequest \<Rightarrow> UnpinSearchRequest \<Rightarrow> UnpinSearchRequest" where
  "UnpinSearchRequest_merge a m =
     a\<lparr>UnpinSearchRequest_id := or_else (UnpinSearchRequest_id m) (UnpinSearchRequest_id a)\<rparr>"

lemma UnpinSearchRequest_emits:
  assumes "UnpinSearchRequest_valid m"
  shows "emits (UnpinSearchRequest_encode m) (UnpinSearchRequest_bytes m)"
  unfolding UnpinSearchRequest_encode_def [abs_def] UnpinSearchRequest_bytes_def Let_def append_assoc [symmetric]
  by (rule string.emits_opt)
    (simp_all add: assms [unfolded UnpinSearchRequest_valid_def map_ok_def])

lemma UnpinSearchRequest_parses:
  assumes "UnpinSearchRequest_valid m"
  shows "parses UnpinSearchRequest_decode_field (UnpinSearchRequest_bytes m) a (UnpinSearchRequest_merge a m)"
  unfolding UnpinSearchRequest_bytes_def append_assoc [symmetric]
  by (rule parses_to,
      rule string.parses_opt [where get = UnpinSearchRequest_id and upd = "\<lambda>x m. m\<lparr>UnpinSearchRequest_id := x\<rparr>"])
    (simp_all add: assms [unfolded UnpinSearchRequest_valid_def map_ok_def] UnpinSearchRequest_decode_field_def tag_no_def lens_def
      merge_defs UnpinSearchRequest_merge_def)

lemma UnpinSearchRequest_merge_new: "UnpinSearchRequest_valid m \<Longrightarrow> UnpinSearchRequest_merge UnpinSearchRequest_new m = m"
  by (simp add: UnpinSearchRequest_merge_def UnpinSearchRequest_new_def UnpinSearchRequest_valid_def map_ok_def js_object_def)

lemma UnpinSearchRequest_progress: "progress UnpinSearchRequest_decode_field"
  by (rule progressI)
    (simp add: UnpinSearchRequest_decode_field_def moves_if_split moves_branches)

interpretation UnpinSearchRequest_codec: message_codec UnpinSearchRequest_encode UnpinSearchRequest_decode UnpinSearchRequest_decode_field UnpinSearchRequest_new UnpinSearchRequest_bytes
  UnpinSearchRequest_valid UnpinSearchRequest_merge
  by unfold_locales
    (simp_all add: UnpinSearchRequest_decode_def UnpinSearchRequest_progress UnpinSearchRequest_emits UnpinSearchRequest_parses UnpinSearchRequest_merge_new)

subsection \<open>UnpinSearchResponse\<close>

datatype UnpinSearchResponse = UnpinSearchResponse_new

definition UnpinSearchResponse_encode :: "UnpinSearchResponse \<Rightarrow> Writer \<Rightarrow> Writer" where
  "UnpinSearchResponse_encode message writer = writer"

definition UnpinSearchResponse_decode_field :: "u32 \<Rightarrow> Reader \<Rightarrow> UnpinSearchResponse \<Rightarrow> (UnpinSearchResponse \<times> Reader) res" where
  "UnpinSearchResponse_decode_field tag reader message = skip_field tag reader message"

definition UnpinSearchResponse_decode :: "Reader \<Rightarrow> nat option \<Rightarrow> (UnpinSearchResponse \<times> Reader) res" where
  "UnpinSearchResponse_decode = decode_with UnpinSearchResponse_decode_field UnpinSearchResponse_new"

definition UnpinSearchResponse_encodeDelimited :: "UnpinSearchResponse \<Rightarrow> Writer \<Rightarrow> Writer" where
  "UnpinSearchResponse_encodeDelimited message writer = w_ldelim (UnpinSearchResponse_encode message writer)"

definition UnpinSearchResponse_decodeDelimited :: "Reader \<Rightarrow> (UnpinSearchResponse \<times> Reader) res" where
  "UnpinSearchResponse_decodeDelimited = get_sub UnpinSearchResponse_decode"

definition UnpinSearchResponse_bytes :: "UnpinSearchResponse \<Rightarrow> u8 list" where
  "UnpinSearchResponse_bytes m = []"

definition UnpinSearchResponse_valid :: "UnpinSearchResponse \<Rightarrow> bool" where
  "UnpinSearchResponse_valid m \<longleftrightarrow> True"

definition UnpinSearchResponse_merge :: "UnpinSearchResponse \<Rightarrow> UnpinSearchResponse \<Rightarrow> UnpinSearchResponse" where
  "UnpinSearchResponse_merge a m = m"

lemma UnpinSearchResponse_emits: "emits (UnpinSearchResponse_encode m) (UnpinSearchResponse_bytes m)"
  by (simp add: UnpinSearchResponse_encode_def [abs_def] UnpinSearchResponse_bytes_def emits_id)

lemma UnpinSearchResponse_parses: "parses UnpinSearchResponse_decode_field (UnpinSearchResponse_bytes m) a (UnpinSearchResponse_merge a m)"
  by (cases a; cases m) (simp add: UnpinSearchResponse_bytes_def UnpinSearchResponse_merge_def parses_Nil)

lemma UnpinSearchResponse_merge_new: "UnpinSearchResponse_valid m \<Longrightarrow> UnpinSearchResponse_merge UnpinSearchResponse_new m = m"
  by (simp add: UnpinSearchResponse_merge_def)

lemma UnpinSearchResponse_progress: "progress UnpinSearchResponse_decode_field"
  by (rule progressI)
    (simp add: UnpinSearchResponse_decode_field_def moves_if_split moves_branches)

interpretation UnpinSearchResponse_codec: message_codec UnpinSearchResponse_encode UnpinSearchResponse_decode UnpinSearchResponse_decode_field UnpinSearchResponse_new UnpinSearchResponse_bytes
  UnpinSearchResponse_valid UnpinSearchResponse_merge
  by unfold_locales
    (simp_all add: UnpinSearchResponse_decode_def UnpinSearchResponse_progress UnpinSearchResponse_emits UnpinSearchResponse_parses UnpinSearchResponse_merge_new)

subsection \<open>ListSavedSearchesRequest\<close>

datatype ListSavedSearchesRequest = ListSavedSearchesRequest_new

definition ListSavedSearchesRequest_encode :: "ListSavedSearchesRequest \<Rightarrow> Writer \<Rightarrow> Writer" where
  "ListSavedSearchesRequest_encode message writer = writer"

definition ListSavedSearchesRequest_decode_field :: "u32 \<Rightarrow> Reader \<Rightarrow> ListSavedSearchesRequest \<Rightarrow> (ListSavedSearchesRequest \<times> Reader) res" where
  "ListSavedSearchesRequest_decode_field tag reader message = skip_field tag reader message"

definition ListSavedSearchesRequest_decode :: "Reader \<Rightarrow> nat option \<Rightarrow> (ListSavedSearchesRequest \<times> Reader) res" where
  "ListSavedSearchesRequest_decode = decode_with ListSavedSearchesRequest_decode_field ListSavedSearchesRequest_new"

definition ListSavedSearchesRequest_encodeDelimited :: "ListSavedSearchesRequest \<Rightarrow> Writer \<Rightarrow> Writer" where
  "ListSavedSearchesRequest_encodeDelimited message writer = w_ldelim (ListSavedSearchesRequest_encode message writer)"

definition ListSavedSearchesRequest_decodeDelimited :: "Reader \<Rightarrow> (ListSavedSearchesRequest \<times> Reader) res" where
  "ListSavedSearchesRequest_decodeDelimited = get_sub ListSavedSearchesRequest_decode"

definition ListSavedSearchesRequest_bytes :: "ListSavedSearchesRequest \<Rightarrow> u8 list" where
  "ListSavedSearchesRequest_bytes m = []"

definition ListSavedSearchesRequest_valid :: "ListSavedSearchesRequest \<Rightarrow> bool" where
  "ListSavedSearchesRequest_valid m \<longleftrightarrow> True"

definition ListSavedSearchesRequest_merge :: "ListSavedSearchesRequest \<Rightarrow> ListSavedSearchesRequest \<Rightarrow> ListSavedSearchesRequest" where
  "ListSavedSearchesRequest_merge a m = m"

lemma ListSavedSearchesRequest_emits: "emits (ListSavedSearchesRequest_encode m) (ListSavedSearchesRequest_bytes m)"
  by (simp add: ListSavedSearchesRequest_encode_def [abs_def] ListSavedSearchesRequest_bytes_def emits_id)

lemma ListSavedSearchesRequest_parses: "parses ListSavedSearchesRequest_decode_field (ListSavedSearchesRequest_bytes m) a (ListSavedSearchesRequest_merge a m)"
  by (cases a; cases m) (simp add: ListSavedSearchesRequest_bytes_def ListSavedSearchesRequest_merge_def parses_Nil)

lemma ListSavedSearchesRequest_merge_new: "ListSavedSearchesRequest_valid m \<Longrightarrow> ListSavedSearchesRequest_merge ListSavedSearchesRequest_new m = m"
  by (simp add: ListSavedSearchesRequest_merge_def)

lemma ListSavedSearchesRequest_progress: "progress ListSavedSearchesRequest_decode_field"
  by (rule progressI)
    (simp add: ListSavedSearchesRequest_decode_field_def moves_if_split moves_branches)

interpretation ListSavedSearchesRequest_codec: message_codec ListSavedSearchesRequest_encode ListSavedSearchesRequest_decode ListSavedSearchesRequest_decode_field ListSavedSearchesRequest_new ListSavedSearchesRequest_bytes
  ListSavedSearchesRequest_valid ListSavedSearchesRequest_merge
  by unfold_locales
    (simp_all add: ListSavedSearchesRequest_decode_def ListSavedSearchesRequest_progress ListSavedSearchesRequest_emits ListSavedSearchesRequest_parses ListSavedSearchesRequest_merge_new)

subsection \<open>ListSavedSearchesResponse\<close>

record ListSavedSearchesResponse =
  ListSavedSearchesResponse_searches :: "SavedSearch list"

definition ListSavedSearchesResponse_new :: ListSavedSearchesResponse where
  "ListSavedSearchesResponse_new = \<lparr>ListSavedSearchesResponse_searches = []\<rparr>"

definition ListSavedSearchesResponse_encode :: "ListSavedSearchesResponse \<Rightarrow> Writer \<Rightarrow> Writer" where
  "ListSavedSearchesResponse_encode message writer =
     (let writer = put_all 10 (put_sub SavedSearch_encode) (ListSavedSearchesResponse_searches message) writer
      in writer)"

definition ListSavedSearchesResponse_decode_field :: "u32 \<Rightarrow> Reader \<Rightarrow> ListSavedSearchesResponse \<Rightarrow> (ListSavedSearchesResponse \<times> Reader) res" where
  "ListSavedSearchesResponse_decode_field tag reader message =
     (if tag_no tag = 1 then map_res (\<lambda>v. message\<lparr>ListSavedSearchesResponse_searches := ListSavedSearchesResponse_searches message @ [v]\<rparr>) (get_sub SavedSearch_decode reader)
      else skip_field tag reader message)"

definition ListSavedSearchesResponse_decode :: "Reader \<Rightarrow> nat option \<Rightarrow> (ListSavedSearchesResponse \<times> Reader) res" where
  "ListSavedSearchesResponse_decode = decode_with ListSavedSearchesResponse_decode_field ListSavedSearchesResponse_new"

definition ListSavedSearchesResponse_encodeDelimited :: "ListSavedSearchesResponse \<Rightarrow> Writer \<Rightarrow> Writer" where
  "ListSavedSearchesResponse_encodeDelimited message writer = w_ldelim (ListSavedSearchesResponse_encode message writer)"

definition ListSavedSearchesResponse_decodeDelimited :: "Reader \<Rightarrow> (ListSavedSearchesResponse \<times> Reader) res" where
  "ListSavedSearchesResponse_decodeDelimited = get_sub ListSavedSearchesResponse_decode"

definition ListSavedSearchesResponse_bytes :: "ListSavedSearchesResponse \<Rightarrow> u8 list" where
  "ListSavedSearchesResponse_bytes m =
     all_bytes 10 (\<lambda>v. delim (SavedSearch_bytes v)) (ListSavedSearchesResponse_searches m)"

definition ListSavedSearchesResponse_valid :: "ListSavedSearchesResponse \<Rightarrow> bool" where
  "ListSavedSearchesResponse_valid m \<longleftrightarrow> list_all (\<lambda>v. SavedSearch_valid v \<and> length (SavedSearch_bytes v) < 4294967296) (ListSavedSearchesResponse_searches m)"

definition ListSavedSearchesResponse_merge :: "ListSavedSearchesResponse \<Rightarrow> ListSavedSearchesResponse \<Rightarrow> ListSavedSearchesResponse" where
  "ListSavedSearchesResponse_merge a m =
     a\<lparr>ListSavedSearchesResponse_searches := ListSavedSearchesResponse_searches a @ ListSavedSearchesResponse_searches m\<rparr>"

lemma ListSavedSearchesResponse_emits:
  assumes "ListSavedSearchesResponse_valid m"
  shows "emits (ListSavedSearchesResponse_encode m) (ListSavedSearchesResponse_bytes m)"
  unfolding ListSavedSearchesResponse_encode_def [abs_def] ListSavedSearchesResponse_bytes_def Let_def append_assoc [symmetric]
  by (rule SavedSearch_codec.sub.emits_all)
    (simp_all add: assms [unfolded ListSavedSearchesResponse_valid_def map_ok_def])

lemma ListSavedSearchesResponse_parses:
  assumes "ListSavedSearchesResponse_valid m"
  shows "parses ListSavedSearchesResponse_decode_field (ListSavedSearchesResponse_bytes m) a (ListSavedSearchesResponse_merge a m)"
  unfolding ListSavedSearchesResponse_bytes_def append_assoc [symmetric]
  by (rule parses_to,
      rule SavedSearch_codec.sub.parses_all [where get = ListSavedSearchesResponse_searches and upd = "\<lambda>x m. m\<lparr>ListSavedSearchesResponse_searches := x\<rparr>"])
    (simp_all add: assms [unfolded ListSavedSearchesResponse_valid_def map_ok_def] ListSavedSearchesResponse_decode_field_def tag_no_def lens_def
      merge_defs ListSavedSearchesResponse_merge_def)

lemma ListSavedSearchesResponse_merge_new: "ListSavedSearchesResponse_valid m \<Longrightarrow> ListSavedSearchesResponse_merge ListSavedSearchesResponse_new m = m"
  by (simp add: ListSavedSearchesResponse_merge_def ListSavedSearchesResponse_new_def ListSavedSearchesResponse_valid_def map_ok_def js_object_def)

lemma ListSavedSearchesResponse_progress: "progress ListSavedSearchesResponse_decode_field"
  by (rule progressI)
    (simp add: ListSavedSearchesResponse_decode_field_def moves_if_split moves_branches SavedSearch_codec.moves_decode)

interpretation ListSavedSearchesResponse_codec: message_codec ListSavedSearchesResponse_encode ListSavedSearchesResponse_decode ListSavedSearchesResponse_decode_field ListSavedSearchesResponse_new ListSavedSearchesResponse_bytes
  ListSavedSearchesResponse_valid ListSavedSearchesResponse_merge
  by unfold_locales
    (simp_all add: ListSavedSearchesResponse_decode_def ListSavedSearchesResponse_progress ListSavedSearchesResponse_emits ListSavedSearchesResponse_parses ListSavedSearchesResponse_merge_new)

end
