(* ===== verification/Files.thy ===== *)
theory Files
  imports Codec
begin

text \<open>
  The messages of the file operations: listing, stat, rename, delete, chmod, copy and
  paste, creation, and the trash.

  A message is a record with one component per field of its class: an \<open>option\<close> for a
  singular field (\<open>None\<close> while the object has no property of its own and reads the default
  of its prototype), a list for a repeated one, the entries of the object for a map; a class without
  fields is a type with one value. \<open>X_new\<close> is what the constructor makes, \<open>X_encode\<close>
  and \<open>X_decode\<close> are the methods, \<open>X_decode_field\<close> the switch of \<open>X.decode\<close>. The
  specification is \<open>X_bytes\<close>, the bytes on the wire, \<open>X_valid\<close>, the values the types of
  the fields have, and \<open>X_merge a m\<close>, the message \<open>a\<close> after the bytes of \<open>m\<close> have
  been decoded into it.
\<close>

subsection \<open>ListDirectoryRequest\<close>

record ListDirectoryRequest =
  ListDirectoryRequest_path :: "jstring option"
  ListDirectoryRequest_hidden :: "bool option"

definition ListDirectoryRequest_new :: ListDirectoryRequest where
  "ListDirectoryRequest_new = \<lparr>ListDirectoryRequest_path = None, ListDirectoryRequest_hidden = None\<rparr>"

definition ListDirectoryRequest_encode :: "ListDirectoryRequest \<Rightarrow> Writer \<Rightarrow> Writer" where
  "ListDirectoryRequest_encode message writer =
     (let writer = put_opt 10 w_string (ListDirectoryRequest_path message) writer;
          writer = put_opt 16 w_bool (ListDirectoryRequest_hidden message) writer
      in writer)"

definition ListDirectoryRequest_decode_field :: "u32 \<Rightarrow> Reader \<Rightarrow> ListDirectoryRequest \<Rightarrow> (ListDirectoryRequest \<times> Reader) res" where
  "ListDirectoryRequest_decode_field tag reader message =
     (if tag_no tag = 1 then map_res (\<lambda>v. message\<lparr>ListDirectoryRequest_path := Some v\<rparr>) (r_string reader)
      else if tag_no tag = 2 then map_res (\<lambda>v. message\<lparr>ListDirectoryRequest_hidden := Some v\<rparr>) (r_bool reader)
      else skip_field tag reader message)"

definition ListDirectoryRequest_decode :: "Reader \<Rightarrow> nat option \<Rightarrow> (ListDirectoryRequest \<times> Reader) res" where
  "ListDirectoryRequest_decode = decode_with ListDirectoryRequest_decode_field ListDirectoryRequest_new"

definition ListDirectoryRequest_encodeDelimited :: "ListDirectoryRequest \<Rightarrow> Writer \<Rightarrow> Writer" where
  "ListDirectoryRequest_encodeDelimited message writer = w_ldelim (ListDirectoryRequest_encode message writer)"

definition ListDirectoryRequest_decodeDelimited :: "Reader \<Rightarrow> (ListDirectoryRequest \<times> Reader) res" where
  "ListDirectoryRequest_decodeDelimited = get_sub ListDirectoryRequest_decode"

definition ListDirectoryRequest_bytes :: "ListDirectoryRequest \<Rightarrow> u8 list" where
  "ListDirectoryRequest_bytes m =
     opt_bytes 10 string_bytes (ListDirectoryRequest_path m) @
     opt_bytes 16 bool_bytes (ListDirectoryRequest_hidden m)"

definition ListDirectoryRequest_valid :: "ListDirectoryRequest \<Rightarrow> bool" where
  "ListDirectoryRequest_valid m \<longleftrightarrow> opt_ok string_ok (ListDirectoryRequest_path m)"

definition ListDirectoryRequest_merge :: "ListDirectoryRequest \<Rightarrow> ListDirectoryRequest \<Rightarrow> ListDirectoryRequest" where
  "ListDirectoryRequest_merge a m =
     a\<lparr>ListDirectoryRequest_path := or_else (ListDirectoryRequest_path m) (ListDirectoryRequest_path a),
       ListDirectoryRequest_hidden := or_else (ListDirectoryRequest_hidden m) (ListDirectoryRequest_hidden a)\<rparr>"

lemma ListDirectoryRequest_emits:
  assumes "ListDirectoryRequest_valid m"
  shows "emits (ListDirectoryRequest_encode m) (ListDirectoryRequest_bytes m)"
  unfolding ListDirectoryRequest_encode_def [abs_def] ListDirectoryRequest_bytes_def Let_def append_assoc [symmetric]
  by (rule bool.then_emits_opt, rule string.emits_opt)
    (simp_all add: assms [unfolded ListDirectoryRequest_valid_def map_ok_def])

lemma ListDirectoryRequest_parses:
  assumes "ListDirectoryRequest_valid m"
  shows "parses ListDirectoryRequest_decode_field (ListDirectoryRequest_bytes m) a (ListDirectoryRequest_merge a m)"
  unfolding ListDirectoryRequest_bytes_def append_assoc [symmetric]
  by (rule parses_to,
      rule bool.then_parses_opt [where get = ListDirectoryRequest_hidden and upd = "\<lambda>x m. m\<lparr>ListDirectoryRequest_hidden := x\<rparr>"],
      rule string.parses_opt [where get = ListDirectoryRequest_path and upd = "\<lambda>x m. m\<lparr>ListDirectoryRequest_path := x\<rparr>"])
    (simp_all add: assms [unfolded ListDirectoryRequest_valid_def map_ok_def] ListDirectoryRequest_decode_field_def tag_no_def lens_def
      merge_defs ListDirectoryRequest_merge_def)

lemma ListDirectoryRequest_merge_new: "ListDirectoryRequest_valid m \<Longrightarrow> ListDirectoryRequest_merge ListDirectoryRequest_new m = m"
  by (simp add: ListDirectoryRequest_merge_def ListDirectoryRequest_new_def ListDirectoryRequest_valid_def map_ok_def js_object_def)

lemma ListDirectoryRequest_progress: "progress ListDirectoryRequest_decode_field"
  by (rule progressI)
    (simp add: ListDirectoryRequest_decode_field_def moves_if_split moves_branches)

interpretation ListDirectoryRequest_codec: message_codec ListDirectoryRequest_encode ListDirectoryRequest_decode ListDirectoryRequest_decode_field ListDirectoryRequest_new ListDirectoryRequest_bytes
  ListDirectoryRequest_valid ListDirectoryRequest_merge
  by unfold_locales
    (simp_all add: ListDirectoryRequest_decode_def ListDirectoryRequest_progress ListDirectoryRequest_emits ListDirectoryRequest_parses ListDirectoryRequest_merge_new)

subsection \<open>DirEntry\<close>

record DirEntry =
  DirEntry_name :: "jstring option"
  DirEntry_path :: "jstring option"
  DirEntry_isDir :: "bool option"
  DirEntry_sizeBytes :: "int option"
  DirEntry_mtime :: "int option"
  DirEntry_mode :: "int option"
  DirEntry_hidden :: "bool option"
  DirEntry_mimeType :: "jstring option"
  DirEntry_iconName :: "jstring option"
  DirEntry_isLink :: "bool option"
  DirEntry_linkTarget :: "jstring option"

definition DirEntry_new :: DirEntry where
  "DirEntry_new = \<lparr>DirEntry_name = None, DirEntry_path = None, DirEntry_isDir = None, DirEntry_sizeBytes
     = None, DirEntry_mtime = None, DirEntry_mode = None, DirEntry_hidden = None,
     DirEntry_mimeType = None, DirEntry_iconName = None, DirEntry_isLink = None,
     DirEntry_linkTarget = None\<rparr>"

definition DirEntry_encode :: "DirEntry \<Rightarrow> Writer \<Rightarrow> Writer" where
  "DirEntry_encode message writer =
     (let writer = put_opt 10 w_string (DirEntry_name message) writer;
          writer = put_opt 18 w_string (DirEntry_path message) writer;
          writer = put_opt 24 w_bool (DirEntry_isDir message) writer;
          writer = put_opt 32 w_int64 (DirEntry_sizeBytes message) writer;
          writer = put_opt 40 w_int64 (DirEntry_mtime message) writer;
          writer = put_opt 48 w_uint32 (DirEntry_mode message) writer;
          writer = put_opt 56 w_bool (DirEntry_hidden message) writer;
          writer = put_opt 66 w_string (DirEntry_mimeType message) writer;
          writer = put_opt 74 w_string (DirEntry_iconName message) writer;
          writer = put_opt 80 w_bool (DirEntry_isLink message) writer;
          writer = put_opt 90 w_string (DirEntry_linkTarget message) writer
      in writer)"

definition DirEntry_decode_field :: "u32 \<Rightarrow> Reader \<Rightarrow> DirEntry \<Rightarrow> (DirEntry \<times> Reader) res" where
  "DirEntry_decode_field tag reader message =
     (if tag_no tag = 1 then map_res (\<lambda>v. message\<lparr>DirEntry_name := Some v\<rparr>) (r_string reader)
      else if tag_no tag = 2 then map_res (\<lambda>v. message\<lparr>DirEntry_path := Some v\<rparr>) (r_string reader)
      else if tag_no tag = 3 then map_res (\<lambda>v. message\<lparr>DirEntry_isDir := Some v\<rparr>) (r_bool reader)
      else if tag_no tag = 4 then map_res (\<lambda>v. message\<lparr>DirEntry_sizeBytes := Some v\<rparr>) (r_int64 reader)
      else if tag_no tag = 5 then map_res (\<lambda>v. message\<lparr>DirEntry_mtime := Some v\<rparr>) (r_int64 reader)
      else if tag_no tag = 6 then map_res (\<lambda>v. message\<lparr>DirEntry_mode := Some v\<rparr>) (r_uint32_number reader)
      else if tag_no tag = 7 then map_res (\<lambda>v. message\<lparr>DirEntry_hidden := Some v\<rparr>) (r_bool reader)
      else if tag_no tag = 8 then map_res (\<lambda>v. message\<lparr>DirEntry_mimeType := Some v\<rparr>) (r_string reader)
      else if tag_no tag = 9 then map_res (\<lambda>v. message\<lparr>DirEntry_iconName := Some v\<rparr>) (r_string reader)
      else if tag_no tag = 10 then map_res (\<lambda>v. message\<lparr>DirEntry_isLink := Some v\<rparr>) (r_bool reader)
      else if tag_no tag = 11 then map_res (\<lambda>v. message\<lparr>DirEntry_linkTarget := Some v\<rparr>) (r_string reader)
      else skip_field tag reader message)"

definition DirEntry_decode :: "Reader \<Rightarrow> nat option \<Rightarrow> (DirEntry \<times> Reader) res" where
  "DirEntry_decode = decode_with DirEntry_decode_field DirEntry_new"

definition DirEntry_encodeDelimited :: "DirEntry \<Rightarrow> Writer \<Rightarrow> Writer" where
  "DirEntry_encodeDelimited message writer = w_ldelim (DirEntry_encode message writer)"

definition DirEntry_decodeDelimited :: "Reader \<Rightarrow> (DirEntry \<times> Reader) res" where
  "DirEntry_decodeDelimited = get_sub DirEntry_decode"

definition DirEntry_bytes :: "DirEntry \<Rightarrow> u8 list" where
  "DirEntry_bytes m =
     opt_bytes 10 string_bytes (DirEntry_name m) @
     opt_bytes 18 string_bytes (DirEntry_path m) @
     opt_bytes 24 bool_bytes (DirEntry_isDir m) @
     opt_bytes 32 int64_bytes (DirEntry_sizeBytes m) @
     opt_bytes 40 int64_bytes (DirEntry_mtime m) @
     opt_bytes 48 uint32_bytes (DirEntry_mode m) @
     opt_bytes 56 bool_bytes (DirEntry_hidden m) @
     opt_bytes 66 string_bytes (DirEntry_mimeType m) @
     opt_bytes 74 string_bytes (DirEntry_iconName m) @
     opt_bytes 80 bool_bytes (DirEntry_isLink m) @
     opt_bytes 90 string_bytes (DirEntry_linkTarget m)"

definition DirEntry_valid :: "DirEntry \<Rightarrow> bool" where
  "DirEntry_valid m \<longleftrightarrow> opt_ok string_ok (DirEntry_name m) \<and>
     opt_ok string_ok (DirEntry_path m) \<and>
     opt_ok int64_ok (DirEntry_sizeBytes m) \<and>
     opt_ok int64_ok (DirEntry_mtime m) \<and>
     opt_ok uint32_ok (DirEntry_mode m) \<and>
     opt_ok string_ok (DirEntry_mimeType m) \<and>
     opt_ok string_ok (DirEntry_iconName m) \<and>
     opt_ok string_ok (DirEntry_linkTarget m)"

definition DirEntry_merge :: "DirEntry \<Rightarrow> DirEntry \<Rightarrow> DirEntry" where
  "DirEntry_merge a m =
     a\<lparr>DirEntry_name := or_else (DirEntry_name m) (DirEntry_name a),
       DirEntry_path := or_else (DirEntry_path m) (DirEntry_path a),
       DirEntry_isDir := or_else (DirEntry_isDir m) (DirEntry_isDir a),
       DirEntry_sizeBytes := or_else (DirEntry_sizeBytes m) (DirEntry_sizeBytes a),
       DirEntry_mtime := or_else (DirEntry_mtime m) (DirEntry_mtime a),
       DirEntry_mode := or_else (DirEntry_mode m) (DirEntry_mode a),
       DirEntry_hidden := or_else (DirEntry_hidden m) (DirEntry_hidden a),
       DirEntry_mimeType := or_else (DirEntry_mimeType m) (DirEntry_mimeType a),
       DirEntry_iconName := or_else (DirEntry_iconName m) (DirEntry_iconName a),
       DirEntry_isLink := or_else (DirEntry_isLink m) (DirEntry_isLink a),
       DirEntry_linkTarget := or_else (DirEntry_linkTarget m) (DirEntry_linkTarget a)\<rparr>"

lemma DirEntry_emits:
  assumes "DirEntry_valid m"
  shows "emits (DirEntry_encode m) (DirEntry_bytes m)"
  unfolding DirEntry_encode_def [abs_def] DirEntry_bytes_def Let_def append_assoc [symmetric]
  by (rule string.then_emits_opt, rule bool.then_emits_opt, rule string.then_emits_opt,
      rule string.then_emits_opt, rule bool.then_emits_opt, rule uint32.then_emits_opt,
      rule int64.then_emits_opt, rule int64.then_emits_opt, rule bool.then_emits_opt, rule
      string.then_emits_opt, rule string.emits_opt)
    (simp_all add: assms [unfolded DirEntry_valid_def map_ok_def])

lemma DirEntry_parses:
  assumes "DirEntry_valid m"
  shows "parses DirEntry_decode_field (DirEntry_bytes m) a (DirEntry_merge a m)"
  unfolding DirEntry_bytes_def append_assoc [symmetric]
  by (rule parses_to,
      rule string.then_parses_opt [where get = DirEntry_linkTarget and upd = "\<lambda>x m. m\<lparr>DirEntry_linkTarget := x\<rparr>"],
      rule bool.then_parses_opt [where get = DirEntry_isLink and upd = "\<lambda>x m. m\<lparr>DirEntry_isLink := x\<rparr>"],
      rule string.then_parses_opt [where get = DirEntry_iconName and upd = "\<lambda>x m. m\<lparr>DirEntry_iconName := x\<rparr>"],
      rule string.then_parses_opt [where get = DirEntry_mimeType and upd = "\<lambda>x m. m\<lparr>DirEntry_mimeType := x\<rparr>"],
      rule bool.then_parses_opt [where get = DirEntry_hidden and upd = "\<lambda>x m. m\<lparr>DirEntry_hidden := x\<rparr>"],
      rule uint32.then_parses_opt [where get = DirEntry_mode and upd = "\<lambda>x m. m\<lparr>DirEntry_mode := x\<rparr>"],
      rule int64.then_parses_opt [where get = DirEntry_mtime and upd = "\<lambda>x m. m\<lparr>DirEntry_mtime := x\<rparr>"],
      rule int64.then_parses_opt [where get = DirEntry_sizeBytes and upd = "\<lambda>x m. m\<lparr>DirEntry_sizeBytes := x\<rparr>"],
      rule bool.then_parses_opt [where get = DirEntry_isDir and upd = "\<lambda>x m. m\<lparr>DirEntry_isDir := x\<rparr>"],
      rule string.then_parses_opt [where get = DirEntry_path and upd = "\<lambda>x m. m\<lparr>DirEntry_path := x\<rparr>"],
      rule string.parses_opt [where get = DirEntry_name and upd = "\<lambda>x m. m\<lparr>DirEntry_name := x\<rparr>"])
    (simp_all add: assms [unfolded DirEntry_valid_def map_ok_def] DirEntry_decode_field_def tag_no_def lens_def
      merge_defs DirEntry_merge_def)

lemma DirEntry_merge_new: "DirEntry_valid m \<Longrightarrow> DirEntry_merge DirEntry_new m = m"
  by (simp add: DirEntry_merge_def DirEntry_new_def DirEntry_valid_def map_ok_def js_object_def)

lemma DirEntry_progress: "progress DirEntry_decode_field"
  by (rule progressI)
    (simp add: DirEntry_decode_field_def moves_if_split moves_branches)

interpretation DirEntry_codec: message_codec DirEntry_encode DirEntry_decode DirEntry_decode_field DirEntry_new DirEntry_bytes
  DirEntry_valid DirEntry_merge
  by unfold_locales
    (simp_all add: DirEntry_decode_def DirEntry_progress DirEntry_emits DirEntry_parses DirEntry_merge_new)

subsection \<open>ListDirectoryResponse\<close>

record ListDirectoryResponse =
  ListDirectoryResponse_entries :: "DirEntry list"

definition ListDirectoryResponse_new :: ListDirectoryResponse where
  "ListDirectoryResponse_new = \<lparr>ListDirectoryResponse_entries = []\<rparr>"

definition ListDirectoryResponse_encode :: "ListDirectoryResponse \<Rightarrow> Writer \<Rightarrow> Writer" where
  "ListDirectoryResponse_encode message writer =
     (let writer = put_all 10 (put_sub DirEntry_encode) (ListDirectoryResponse_entries message) writer
      in writer)"

definition ListDirectoryResponse_decode_field :: "u32 \<Rightarrow> Reader \<Rightarrow> ListDirectoryResponse \<Rightarrow> (ListDirectoryResponse \<times> Reader) res" where
  "ListDirectoryResponse_decode_field tag reader message =
     (if tag_no tag = 1 then map_res (\<lambda>v. message\<lparr>ListDirectoryResponse_entries := ListDirectoryResponse_entries message @ [v]\<rparr>) (get_sub DirEntry_decode reader)
      else skip_field tag reader message)"

definition ListDirectoryResponse_decode :: "Reader \<Rightarrow> nat option \<Rightarrow> (ListDirectoryResponse \<times> Reader) res" where
  "ListDirectoryResponse_decode = decode_with ListDirectoryResponse_decode_field ListDirectoryResponse_new"

definition ListDirectoryResponse_encodeDelimited :: "ListDirectoryResponse \<Rightarrow> Writer \<Rightarrow> Writer" where
  "ListDirectoryResponse_encodeDelimited message writer = w_ldelim (ListDirectoryResponse_encode message writer)"

definition ListDirectoryResponse_decodeDelimited :: "Reader \<Rightarrow> (ListDirectoryResponse \<times> Reader) res" where
  "ListDirectoryResponse_decodeDelimited = get_sub ListDirectoryResponse_decode"

definition ListDirectoryResponse_bytes :: "ListDirectoryResponse \<Rightarrow> u8 list" where
  "ListDirectoryResponse_bytes m =
     all_bytes 10 (\<lambda>v. delim (DirEntry_bytes v)) (ListDirectoryResponse_entries m)"

definition ListDirectoryResponse_valid :: "ListDirectoryResponse \<Rightarrow> bool" where
  "ListDirectoryResponse_valid m \<longleftrightarrow> list_all (\<lambda>v. DirEntry_valid v \<and> length (DirEntry_bytes v) < 4294967296) (ListDirectoryResponse_entries m)"

definition ListDirectoryResponse_merge :: "ListDirectoryResponse \<Rightarrow> ListDirectoryResponse \<Rightarrow> ListDirectoryResponse" where
  "ListDirectoryResponse_merge a m =
     a\<lparr>ListDirectoryResponse_entries := ListDirectoryResponse_entries a @ ListDirectoryResponse_entries m\<rparr>"

lemma ListDirectoryResponse_emits:
  assumes "ListDirectoryResponse_valid m"
  shows "emits (ListDirectoryResponse_encode m) (ListDirectoryResponse_bytes m)"
  unfolding ListDirectoryResponse_encode_def [abs_def] ListDirectoryResponse_bytes_def Let_def append_assoc [symmetric]
  by (rule DirEntry_codec.sub.emits_all)
    (simp_all add: assms [unfolded ListDirectoryResponse_valid_def map_ok_def])

lemma ListDirectoryResponse_parses:
  assumes "ListDirectoryResponse_valid m"
  shows "parses ListDirectoryResponse_decode_field (ListDirectoryResponse_bytes m) a (ListDirectoryResponse_merge a m)"
  unfolding ListDirectoryResponse_bytes_def append_assoc [symmetric]
  by (rule parses_to,
      rule DirEntry_codec.sub.parses_all [where get = ListDirectoryResponse_entries and upd = "\<lambda>x m. m\<lparr>ListDirectoryResponse_entries := x\<rparr>"])
    (simp_all add: assms [unfolded ListDirectoryResponse_valid_def map_ok_def] ListDirectoryResponse_decode_field_def tag_no_def lens_def
      merge_defs ListDirectoryResponse_merge_def)

lemma ListDirectoryResponse_merge_new: "ListDirectoryResponse_valid m \<Longrightarrow> ListDirectoryResponse_merge ListDirectoryResponse_new m = m"
  by (simp add: ListDirectoryResponse_merge_def ListDirectoryResponse_new_def ListDirectoryResponse_valid_def map_ok_def js_object_def)

lemma ListDirectoryResponse_progress: "progress ListDirectoryResponse_decode_field"
  by (rule progressI)
    (simp add: ListDirectoryResponse_decode_field_def moves_if_split moves_branches DirEntry_codec.moves_decode)

interpretation ListDirectoryResponse_codec: message_codec ListDirectoryResponse_encode ListDirectoryResponse_decode ListDirectoryResponse_decode_field ListDirectoryResponse_new ListDirectoryResponse_bytes
  ListDirectoryResponse_valid ListDirectoryResponse_merge
  by unfold_locales
    (simp_all add: ListDirectoryResponse_decode_def ListDirectoryResponse_progress ListDirectoryResponse_emits ListDirectoryResponse_parses ListDirectoryResponse_merge_new)

subsection \<open>StatFileRequest\<close>

record StatFileRequest =
  StatFileRequest_path :: "jstring option"

definition StatFileRequest_new :: StatFileRequest where
  "StatFileRequest_new = \<lparr>StatFileRequest_path = None\<rparr>"

definition StatFileRequest_encode :: "StatFileRequest \<Rightarrow> Writer \<Rightarrow> Writer" where
  "StatFileRequest_encode message writer =
     (let writer = put_opt 10 w_string (StatFileRequest_path message) writer
      in writer)"

definition StatFileRequest_decode_field :: "u32 \<Rightarrow> Reader \<Rightarrow> StatFileRequest \<Rightarrow> (StatFileRequest \<times> Reader) res" where
  "StatFileRequest_decode_field tag reader message =
     (if tag_no tag = 1 then map_res (\<lambda>v. message\<lparr>StatFileRequest_path := Some v\<rparr>) (r_string reader)
      else skip_field tag reader message)"

definition StatFileRequest_decode :: "Reader \<Rightarrow> nat option \<Rightarrow> (StatFileRequest \<times> Reader) res" where
  "StatFileRequest_decode = decode_with StatFileRequest_decode_field StatFileRequest_new"

definition StatFileRequest_encodeDelimited :: "StatFileRequest \<Rightarrow> Writer \<Rightarrow> Writer" where
  "StatFileRequest_encodeDelimited message writer = w_ldelim (StatFileRequest_encode message writer)"

definition StatFileRequest_decodeDelimited :: "Reader \<Rightarrow> (StatFileRequest \<times> Reader) res" where
  "StatFileRequest_decodeDelimited = get_sub StatFileRequest_decode"

definition StatFileRequest_bytes :: "StatFileRequest \<Rightarrow> u8 list" where
  "StatFileRequest_bytes m =
     opt_bytes 10 string_bytes (StatFileRequest_path m)"

definition StatFileRequest_valid :: "StatFileRequest \<Rightarrow> bool" where
  "StatFileRequest_valid m \<longleftrightarrow> opt_ok string_ok (StatFileRequest_path m)"

definition StatFileRequest_merge :: "StatFileRequest \<Rightarrow> StatFileRequest \<Rightarrow> StatFileRequest" where
  "StatFileRequest_merge a m =
     a\<lparr>StatFileRequest_path := or_else (StatFileRequest_path m) (StatFileRequest_path a)\<rparr>"

lemma StatFileRequest_emits:
  assumes "StatFileRequest_valid m"
  shows "emits (StatFileRequest_encode m) (StatFileRequest_bytes m)"
  unfolding StatFileRequest_encode_def [abs_def] StatFileRequest_bytes_def Let_def append_assoc [symmetric]
  by (rule string.emits_opt)
    (simp_all add: assms [unfolded StatFileRequest_valid_def map_ok_def])

lemma StatFileRequest_parses:
  assumes "StatFileRequest_valid m"
  shows "parses StatFileRequest_decode_field (StatFileRequest_bytes m) a (StatFileRequest_merge a m)"
  unfolding StatFileRequest_bytes_def append_assoc [symmetric]
  by (rule parses_to,
      rule string.parses_opt [where get = StatFileRequest_path and upd = "\<lambda>x m. m\<lparr>StatFileRequest_path := x\<rparr>"])
    (simp_all add: assms [unfolded StatFileRequest_valid_def map_ok_def] StatFileRequest_decode_field_def tag_no_def lens_def
      merge_defs StatFileRequest_merge_def)

lemma StatFileRequest_merge_new: "StatFileRequest_valid m \<Longrightarrow> StatFileRequest_merge StatFileRequest_new m = m"
  by (simp add: StatFileRequest_merge_def StatFileRequest_new_def StatFileRequest_valid_def map_ok_def js_object_def)

lemma StatFileRequest_progress: "progress StatFileRequest_decode_field"
  by (rule progressI)
    (simp add: StatFileRequest_decode_field_def moves_if_split moves_branches)

interpretation StatFileRequest_codec: message_codec StatFileRequest_encode StatFileRequest_decode StatFileRequest_decode_field StatFileRequest_new StatFileRequest_bytes
  StatFileRequest_valid StatFileRequest_merge
  by unfold_locales
    (simp_all add: StatFileRequest_decode_def StatFileRequest_progress StatFileRequest_emits StatFileRequest_parses StatFileRequest_merge_new)

subsection \<open>FileStat\<close>

record FileStat =
  FileStat_sizeBytes :: "int option"
  FileStat_mtime :: "int option"
  FileStat_mode :: "int option"

definition FileStat_new :: FileStat where
  "FileStat_new = \<lparr>FileStat_sizeBytes = None, FileStat_mtime = None, FileStat_mode = None\<rparr>"

definition FileStat_encode :: "FileStat \<Rightarrow> Writer \<Rightarrow> Writer" where
  "FileStat_encode message writer =
     (let writer = put_opt 8 w_int64 (FileStat_sizeBytes message) writer;
          writer = put_opt 16 w_int64 (FileStat_mtime message) writer;
          writer = put_opt 24 w_uint32 (FileStat_mode message) writer
      in writer)"

definition FileStat_decode_field :: "u32 \<Rightarrow> Reader \<Rightarrow> FileStat \<Rightarrow> (FileStat \<times> Reader) res" where
  "FileStat_decode_field tag reader message =
     (if tag_no tag = 1 then map_res (\<lambda>v. message\<lparr>FileStat_sizeBytes := Some v\<rparr>) (r_int64 reader)
      else if tag_no tag = 2 then map_res (\<lambda>v. message\<lparr>FileStat_mtime := Some v\<rparr>) (r_int64 reader)
      else if tag_no tag = 3 then map_res (\<lambda>v. message\<lparr>FileStat_mode := Some v\<rparr>) (r_uint32_number reader)
      else skip_field tag reader message)"

definition FileStat_decode :: "Reader \<Rightarrow> nat option \<Rightarrow> (FileStat \<times> Reader) res" where
  "FileStat_decode = decode_with FileStat_decode_field FileStat_new"

definition FileStat_encodeDelimited :: "FileStat \<Rightarrow> Writer \<Rightarrow> Writer" where
  "FileStat_encodeDelimited message writer = w_ldelim (FileStat_encode message writer)"

definition FileStat_decodeDelimited :: "Reader \<Rightarrow> (FileStat \<times> Reader) res" where
  "FileStat_decodeDelimited = get_sub FileStat_decode"

definition FileStat_bytes :: "FileStat \<Rightarrow> u8 list" where
  "FileStat_bytes m =
     opt_bytes 8 int64_bytes (FileStat_sizeBytes m) @
     opt_bytes 16 int64_bytes (FileStat_mtime m) @
     opt_bytes 24 uint32_bytes (FileStat_mode m)"

definition FileStat_valid :: "FileStat \<Rightarrow> bool" where
  "FileStat_valid m \<longleftrightarrow> opt_ok int64_ok (FileStat_sizeBytes m) \<and>
     opt_ok int64_ok (FileStat_mtime m) \<and>
     opt_ok uint32_ok (FileStat_mode m)"

definition FileStat_merge :: "FileStat \<Rightarrow> FileStat \<Rightarrow> FileStat" where
  "FileStat_merge a m =
     a\<lparr>FileStat_sizeBytes := or_else (FileStat_sizeBytes m) (FileStat_sizeBytes a),
       FileStat_mtime := or_else (FileStat_mtime m) (FileStat_mtime a),
       FileStat_mode := or_else (FileStat_mode m) (FileStat_mode a)\<rparr>"

lemma FileStat_emits:
  assumes "FileStat_valid m"
  shows "emits (FileStat_encode m) (FileStat_bytes m)"
  unfolding FileStat_encode_def [abs_def] FileStat_bytes_def Let_def append_assoc [symmetric]
  by (rule uint32.then_emits_opt, rule int64.then_emits_opt, rule int64.emits_opt)
    (simp_all add: assms [unfolded FileStat_valid_def map_ok_def])

lemma FileStat_parses:
  assumes "FileStat_valid m"
  shows "parses FileStat_decode_field (FileStat_bytes m) a (FileStat_merge a m)"
  unfolding FileStat_bytes_def append_assoc [symmetric]
  by (rule parses_to,
      rule uint32.then_parses_opt [where get = FileStat_mode and upd = "\<lambda>x m. m\<lparr>FileStat_mode := x\<rparr>"],
      rule int64.then_parses_opt [where get = FileStat_mtime and upd = "\<lambda>x m. m\<lparr>FileStat_mtime := x\<rparr>"],
      rule int64.parses_opt [where get = FileStat_sizeBytes and upd = "\<lambda>x m. m\<lparr>FileStat_sizeBytes := x\<rparr>"])
    (simp_all add: assms [unfolded FileStat_valid_def map_ok_def] FileStat_decode_field_def tag_no_def lens_def
      merge_defs FileStat_merge_def)

lemma FileStat_merge_new: "FileStat_valid m \<Longrightarrow> FileStat_merge FileStat_new m = m"
  by (simp add: FileStat_merge_def FileStat_new_def FileStat_valid_def map_ok_def js_object_def)

lemma FileStat_progress: "progress FileStat_decode_field"
  by (rule progressI)
    (simp add: FileStat_decode_field_def moves_if_split moves_branches)

interpretation FileStat_codec: message_codec FileStat_encode FileStat_decode FileStat_decode_field FileStat_new FileStat_bytes
  FileStat_valid FileStat_merge
  by unfold_locales
    (simp_all add: FileStat_decode_def FileStat_progress FileStat_emits FileStat_parses FileStat_merge_new)

subsection \<open>StatFileResponse\<close>

record StatFileResponse =
  StatFileResponse_stat :: "FileStat option"

definition StatFileResponse_new :: StatFileResponse where
  "StatFileResponse_new = \<lparr>StatFileResponse_stat = None\<rparr>"

definition StatFileResponse_encode :: "StatFileResponse \<Rightarrow> Writer \<Rightarrow> Writer" where
  "StatFileResponse_encode message writer =
     (let writer = put_opt 10 (put_sub FileStat_encode) (StatFileResponse_stat message) writer
      in writer)"

definition StatFileResponse_decode_field :: "u32 \<Rightarrow> Reader \<Rightarrow> StatFileResponse \<Rightarrow> (StatFileResponse \<times> Reader) res" where
  "StatFileResponse_decode_field tag reader message =
     (if tag_no tag = 1 then map_res (\<lambda>v. message\<lparr>StatFileResponse_stat := Some v\<rparr>) (get_sub FileStat_decode reader)
      else skip_field tag reader message)"

definition StatFileResponse_decode :: "Reader \<Rightarrow> nat option \<Rightarrow> (StatFileResponse \<times> Reader) res" where
  "StatFileResponse_decode = decode_with StatFileResponse_decode_field StatFileResponse_new"

definition StatFileResponse_encodeDelimited :: "StatFileResponse \<Rightarrow> Writer \<Rightarrow> Writer" where
  "StatFileResponse_encodeDelimited message writer = w_ldelim (StatFileResponse_encode message writer)"

definition StatFileResponse_decodeDelimited :: "Reader \<Rightarrow> (StatFileResponse \<times> Reader) res" where
  "StatFileResponse_decodeDelimited = get_sub StatFileResponse_decode"

definition StatFileResponse_bytes :: "StatFileResponse \<Rightarrow> u8 list" where
  "StatFileResponse_bytes m =
     opt_bytes 10 (\<lambda>v. delim (FileStat_bytes v)) (StatFileResponse_stat m)"

definition StatFileResponse_valid :: "StatFileResponse \<Rightarrow> bool" where
  "StatFileResponse_valid m \<longleftrightarrow> opt_ok (\<lambda>v. FileStat_valid v \<and> length (FileStat_bytes v) < 4294967296) (StatFileResponse_stat m)"

definition StatFileResponse_merge :: "StatFileResponse \<Rightarrow> StatFileResponse \<Rightarrow> StatFileResponse" where
  "StatFileResponse_merge a m =
     a\<lparr>StatFileResponse_stat := or_else (StatFileResponse_stat m) (StatFileResponse_stat a)\<rparr>"

lemma StatFileResponse_emits:
  assumes "StatFileResponse_valid m"
  shows "emits (StatFileResponse_encode m) (StatFileResponse_bytes m)"
  unfolding StatFileResponse_encode_def [abs_def] StatFileResponse_bytes_def Let_def append_assoc [symmetric]
  by (rule FileStat_codec.sub.emits_opt)
    (simp_all add: assms [unfolded StatFileResponse_valid_def map_ok_def])

lemma StatFileResponse_parses:
  assumes "StatFileResponse_valid m"
  shows "parses StatFileResponse_decode_field (StatFileResponse_bytes m) a (StatFileResponse_merge a m)"
  unfolding StatFileResponse_bytes_def append_assoc [symmetric]
  by (rule parses_to,
      rule FileStat_codec.sub.parses_opt [where get = StatFileResponse_stat and upd = "\<lambda>x m. m\<lparr>StatFileResponse_stat := x\<rparr>"])
    (simp_all add: assms [unfolded StatFileResponse_valid_def map_ok_def] StatFileResponse_decode_field_def tag_no_def lens_def
      merge_defs StatFileResponse_merge_def)

lemma StatFileResponse_merge_new: "StatFileResponse_valid m \<Longrightarrow> StatFileResponse_merge StatFileResponse_new m = m"
  by (simp add: StatFileResponse_merge_def StatFileResponse_new_def StatFileResponse_valid_def map_ok_def js_object_def)

lemma StatFileResponse_progress: "progress StatFileResponse_decode_field"
  by (rule progressI)
    (simp add: StatFileResponse_decode_field_def moves_if_split moves_branches FileStat_codec.moves_decode)

interpretation StatFileResponse_codec: message_codec StatFileResponse_encode StatFileResponse_decode StatFileResponse_decode_field StatFileResponse_new StatFileResponse_bytes
  StatFileResponse_valid StatFileResponse_merge
  by unfold_locales
    (simp_all add: StatFileResponse_decode_def StatFileResponse_progress StatFileResponse_emits StatFileResponse_parses StatFileResponse_merge_new)

subsection \<open>RenameFileRequest\<close>

record RenameFileRequest =
  RenameFileRequest_path :: "jstring option"
  RenameFileRequest_newName :: "jstring option"

definition RenameFileRequest_new :: RenameFileRequest where
  "RenameFileRequest_new = \<lparr>RenameFileRequest_path = None, RenameFileRequest_newName = None\<rparr>"

definition RenameFileRequest_encode :: "RenameFileRequest \<Rightarrow> Writer \<Rightarrow> Writer" where
  "RenameFileRequest_encode message writer =
     (let writer = put_opt 10 w_string (RenameFileRequest_path message) writer;
          writer = put_opt 18 w_string (RenameFileRequest_newName message) writer
      in writer)"

definition RenameFileRequest_decode_field :: "u32 \<Rightarrow> Reader \<Rightarrow> RenameFileRequest \<Rightarrow> (RenameFileRequest \<times> Reader) res" where
  "RenameFileRequest_decode_field tag reader message =
     (if tag_no tag = 1 then map_res (\<lambda>v. message\<lparr>RenameFileRequest_path := Some v\<rparr>) (r_string reader)
      else if tag_no tag = 2 then map_res (\<lambda>v. message\<lparr>RenameFileRequest_newName := Some v\<rparr>) (r_string reader)
      else skip_field tag reader message)"

definition RenameFileRequest_decode :: "Reader \<Rightarrow> nat option \<Rightarrow> (RenameFileRequest \<times> Reader) res" where
  "RenameFileRequest_decode = decode_with RenameFileRequest_decode_field RenameFileRequest_new"

definition RenameFileRequest_encodeDelimited :: "RenameFileRequest \<Rightarrow> Writer \<Rightarrow> Writer" where
  "RenameFileRequest_encodeDelimited message writer = w_ldelim (RenameFileRequest_encode message writer)"

definition RenameFileRequest_decodeDelimited :: "Reader \<Rightarrow> (RenameFileRequest \<times> Reader) res" where
  "RenameFileRequest_decodeDelimited = get_sub RenameFileRequest_decode"

definition RenameFileRequest_bytes :: "RenameFileRequest \<Rightarrow> u8 list" where
  "RenameFileRequest_bytes m =
     opt_bytes 10 string_bytes (RenameFileRequest_path m) @
     opt_bytes 18 string_bytes (RenameFileRequest_newName m)"

definition RenameFileRequest_valid :: "RenameFileRequest \<Rightarrow> bool" where
  "RenameFileRequest_valid m \<longleftrightarrow> opt_ok string_ok (RenameFileRequest_path m) \<and>
     opt_ok string_ok (RenameFileRequest_newName m)"

definition RenameFileRequest_merge :: "RenameFileRequest \<Rightarrow> RenameFileRequest \<Rightarrow> RenameFileRequest" where
  "RenameFileRequest_merge a m =
     a\<lparr>RenameFileRequest_path := or_else (RenameFileRequest_path m) (RenameFileRequest_path a),
       RenameFileRequest_newName := or_else (RenameFileRequest_newName m) (RenameFileRequest_newName a)\<rparr>"

lemma RenameFileRequest_emits:
  assumes "RenameFileRequest_valid m"
  shows "emits (RenameFileRequest_encode m) (RenameFileRequest_bytes m)"
  unfolding RenameFileRequest_encode_def [abs_def] RenameFileRequest_bytes_def Let_def append_assoc [symmetric]
  by (rule string.then_emits_opt, rule string.emits_opt)
    (simp_all add: assms [unfolded RenameFileRequest_valid_def map_ok_def])

lemma RenameFileRequest_parses:
  assumes "RenameFileRequest_valid m"
  shows "parses RenameFileRequest_decode_field (RenameFileRequest_bytes m) a (RenameFileRequest_merge a m)"
  unfolding RenameFileRequest_bytes_def append_assoc [symmetric]
  by (rule parses_to,
      rule string.then_parses_opt [where get = RenameFileRequest_newName and upd = "\<lambda>x m. m\<lparr>RenameFileRequest_newName := x\<rparr>"],
      rule string.parses_opt [where get = RenameFileRequest_path and upd = "\<lambda>x m. m\<lparr>RenameFileRequest_path := x\<rparr>"])
    (simp_all add: assms [unfolded RenameFileRequest_valid_def map_ok_def] RenameFileRequest_decode_field_def tag_no_def lens_def
      merge_defs RenameFileRequest_merge_def)

lemma RenameFileRequest_merge_new: "RenameFileRequest_valid m \<Longrightarrow> RenameFileRequest_merge RenameFileRequest_new m = m"
  by (simp add: RenameFileRequest_merge_def RenameFileRequest_new_def RenameFileRequest_valid_def map_ok_def js_object_def)

lemma RenameFileRequest_progress: "progress RenameFileRequest_decode_field"
  by (rule progressI)
    (simp add: RenameFileRequest_decode_field_def moves_if_split moves_branches)

interpretation RenameFileRequest_codec: message_codec RenameFileRequest_encode RenameFileRequest_decode RenameFileRequest_decode_field RenameFileRequest_new RenameFileRequest_bytes
  RenameFileRequest_valid RenameFileRequest_merge
  by unfold_locales
    (simp_all add: RenameFileRequest_decode_def RenameFileRequest_progress RenameFileRequest_emits RenameFileRequest_parses RenameFileRequest_merge_new)

subsection \<open>RenameFileResponse\<close>

record RenameFileResponse =
  RenameFileResponse_newPath :: "jstring option"

definition RenameFileResponse_new :: RenameFileResponse where
  "RenameFileResponse_new = \<lparr>RenameFileResponse_newPath = None\<rparr>"

definition RenameFileResponse_encode :: "RenameFileResponse \<Rightarrow> Writer \<Rightarrow> Writer" where
  "RenameFileResponse_encode message writer =
     (let writer = put_opt 10 w_string (RenameFileResponse_newPath message) writer
      in writer)"

definition RenameFileResponse_decode_field :: "u32 \<Rightarrow> Reader \<Rightarrow> RenameFileResponse \<Rightarrow> (RenameFileResponse \<times> Reader) res" where
  "RenameFileResponse_decode_field tag reader message =
     (if tag_no tag = 1 then map_res (\<lambda>v. message\<lparr>RenameFileResponse_newPath := Some v\<rparr>) (r_string reader)
      else skip_field tag reader message)"

definition RenameFileResponse_decode :: "Reader \<Rightarrow> nat option \<Rightarrow> (RenameFileResponse \<times> Reader) res" where
  "RenameFileResponse_decode = decode_with RenameFileResponse_decode_field RenameFileResponse_new"

definition RenameFileResponse_encodeDelimited :: "RenameFileResponse \<Rightarrow> Writer \<Rightarrow> Writer" where
  "RenameFileResponse_encodeDelimited message writer = w_ldelim (RenameFileResponse_encode message writer)"

definition RenameFileResponse_decodeDelimited :: "Reader \<Rightarrow> (RenameFileResponse \<times> Reader) res" where
  "RenameFileResponse_decodeDelimited = get_sub RenameFileResponse_decode"

definition RenameFileResponse_bytes :: "RenameFileResponse \<Rightarrow> u8 list" where
  "RenameFileResponse_bytes m =
     opt_bytes 10 string_bytes (RenameFileResponse_newPath m)"

definition RenameFileResponse_valid :: "RenameFileResponse \<Rightarrow> bool" where
  "RenameFileResponse_valid m \<longleftrightarrow> opt_ok string_ok (RenameFileResponse_newPath m)"

definition RenameFileResponse_merge :: "RenameFileResponse \<Rightarrow> RenameFileResponse \<Rightarrow> RenameFileResponse" where
  "RenameFileResponse_merge a m =
     a\<lparr>RenameFileResponse_newPath := or_else (RenameFileResponse_newPath m) (RenameFileResponse_newPath a)\<rparr>"

lemma RenameFileResponse_emits:
  assumes "RenameFileResponse_valid m"
  shows "emits (RenameFileResponse_encode m) (RenameFileResponse_bytes m)"
  unfolding RenameFileResponse_encode_def [abs_def] RenameFileResponse_bytes_def Let_def append_assoc [symmetric]
  by (rule string.emits_opt)
    (simp_all add: assms [unfolded RenameFileResponse_valid_def map_ok_def])

lemma RenameFileResponse_parses:
  assumes "RenameFileResponse_valid m"
  shows "parses RenameFileResponse_decode_field (RenameFileResponse_bytes m) a (RenameFileResponse_merge a m)"
  unfolding RenameFileResponse_bytes_def append_assoc [symmetric]
  by (rule parses_to,
      rule string.parses_opt [where get = RenameFileResponse_newPath and upd = "\<lambda>x m. m\<lparr>RenameFileResponse_newPath := x\<rparr>"])
    (simp_all add: assms [unfolded RenameFileResponse_valid_def map_ok_def] RenameFileResponse_decode_field_def tag_no_def lens_def
      merge_defs RenameFileResponse_merge_def)

lemma RenameFileResponse_merge_new: "RenameFileResponse_valid m \<Longrightarrow> RenameFileResponse_merge RenameFileResponse_new m = m"
  by (simp add: RenameFileResponse_merge_def RenameFileResponse_new_def RenameFileResponse_valid_def map_ok_def js_object_def)

lemma RenameFileResponse_progress: "progress RenameFileResponse_decode_field"
  by (rule progressI)
    (simp add: RenameFileResponse_decode_field_def moves_if_split moves_branches)

interpretation RenameFileResponse_codec: message_codec RenameFileResponse_encode RenameFileResponse_decode RenameFileResponse_decode_field RenameFileResponse_new RenameFileResponse_bytes
  RenameFileResponse_valid RenameFileResponse_merge
  by unfold_locales
    (simp_all add: RenameFileResponse_decode_def RenameFileResponse_progress RenameFileResponse_emits RenameFileResponse_parses RenameFileResponse_merge_new)

subsection \<open>DeleteFileRequest\<close>

record DeleteFileRequest =
  DeleteFileRequest_path :: "jstring option"

definition DeleteFileRequest_new :: DeleteFileRequest where
  "DeleteFileRequest_new = \<lparr>DeleteFileRequest_path = None\<rparr>"

definition DeleteFileRequest_encode :: "DeleteFileRequest \<Rightarrow> Writer \<Rightarrow> Writer" where
  "DeleteFileRequest_encode message writer =
     (let writer = put_opt 10 w_string (DeleteFileRequest_path message) writer
      in writer)"

definition DeleteFileRequest_decode_field :: "u32 \<Rightarrow> Reader \<Rightarrow> DeleteFileRequest \<Rightarrow> (DeleteFileRequest \<times> Reader) res" where
  "DeleteFileRequest_decode_field tag reader message =
     (if tag_no tag = 1 then map_res (\<lambda>v. message\<lparr>DeleteFileRequest_path := Some v\<rparr>) (r_string reader)
      else skip_field tag reader message)"

definition DeleteFileRequest_decode :: "Reader \<Rightarrow> nat option \<Rightarrow> (DeleteFileRequest \<times> Reader) res" where
  "DeleteFileRequest_decode = decode_with DeleteFileRequest_decode_field DeleteFileRequest_new"

definition DeleteFileRequest_encodeDelimited :: "DeleteFileRequest \<Rightarrow> Writer \<Rightarrow> Writer" where
  "DeleteFileRequest_encodeDelimited message writer = w_ldelim (DeleteFileRequest_encode message writer)"

definition DeleteFileRequest_decodeDelimited :: "Reader \<Rightarrow> (DeleteFileRequest \<times> Reader) res" where
  "DeleteFileRequest_decodeDelimited = get_sub DeleteFileRequest_decode"

definition DeleteFileRequest_bytes :: "DeleteFileRequest \<Rightarrow> u8 list" where
  "DeleteFileRequest_bytes m =
     opt_bytes 10 string_bytes (DeleteFileRequest_path m)"

definition DeleteFileRequest_valid :: "DeleteFileRequest \<Rightarrow> bool" where
  "DeleteFileRequest_valid m \<longleftrightarrow> opt_ok string_ok (DeleteFileRequest_path m)"

definition DeleteFileRequest_merge :: "DeleteFileRequest \<Rightarrow> DeleteFileRequest \<Rightarrow> DeleteFileRequest" where
  "DeleteFileRequest_merge a m =
     a\<lparr>DeleteFileRequest_path := or_else (DeleteFileRequest_path m) (DeleteFileRequest_path a)\<rparr>"

lemma DeleteFileRequest_emits:
  assumes "DeleteFileRequest_valid m"
  shows "emits (DeleteFileRequest_encode m) (DeleteFileRequest_bytes m)"
  unfolding DeleteFileRequest_encode_def [abs_def] DeleteFileRequest_bytes_def Let_def append_assoc [symmetric]
  by (rule string.emits_opt)
    (simp_all add: assms [unfolded DeleteFileRequest_valid_def map_ok_def])

lemma DeleteFileRequest_parses:
  assumes "DeleteFileRequest_valid m"
  shows "parses DeleteFileRequest_decode_field (DeleteFileRequest_bytes m) a (DeleteFileRequest_merge a m)"
  unfolding DeleteFileRequest_bytes_def append_assoc [symmetric]
  by (rule parses_to,
      rule string.parses_opt [where get = DeleteFileRequest_path and upd = "\<lambda>x m. m\<lparr>DeleteFileRequest_path := x\<rparr>"])
    (simp_all add: assms [unfolded DeleteFileRequest_valid_def map_ok_def] DeleteFileRequest_decode_field_def tag_no_def lens_def
      merge_defs DeleteFileRequest_merge_def)

lemma DeleteFileRequest_merge_new: "DeleteFileRequest_valid m \<Longrightarrow> DeleteFileRequest_merge DeleteFileRequest_new m = m"
  by (simp add: DeleteFileRequest_merge_def DeleteFileRequest_new_def DeleteFileRequest_valid_def map_ok_def js_object_def)

lemma DeleteFileRequest_progress: "progress DeleteFileRequest_decode_field"
  by (rule progressI)
    (simp add: DeleteFileRequest_decode_field_def moves_if_split moves_branches)

interpretation DeleteFileRequest_codec: message_codec DeleteFileRequest_encode DeleteFileRequest_decode DeleteFileRequest_decode_field DeleteFileRequest_new DeleteFileRequest_bytes
  DeleteFileRequest_valid DeleteFileRequest_merge
  by unfold_locales
    (simp_all add: DeleteFileRequest_decode_def DeleteFileRequest_progress DeleteFileRequest_emits DeleteFileRequest_parses DeleteFileRequest_merge_new)

subsection \<open>DeleteFileResponse\<close>

datatype DeleteFileResponse = DeleteFileResponse_new

definition DeleteFileResponse_encode :: "DeleteFileResponse \<Rightarrow> Writer \<Rightarrow> Writer" where
  "DeleteFileResponse_encode message writer = writer"

definition DeleteFileResponse_decode_field :: "u32 \<Rightarrow> Reader \<Rightarrow> DeleteFileResponse \<Rightarrow> (DeleteFileResponse \<times> Reader) res" where
  "DeleteFileResponse_decode_field tag reader message = skip_field tag reader message"

definition DeleteFileResponse_decode :: "Reader \<Rightarrow> nat option \<Rightarrow> (DeleteFileResponse \<times> Reader) res" where
  "DeleteFileResponse_decode = decode_with DeleteFileResponse_decode_field DeleteFileResponse_new"

definition DeleteFileResponse_encodeDelimited :: "DeleteFileResponse \<Rightarrow> Writer \<Rightarrow> Writer" where
  "DeleteFileResponse_encodeDelimited message writer = w_ldelim (DeleteFileResponse_encode message writer)"

definition DeleteFileResponse_decodeDelimited :: "Reader \<Rightarrow> (DeleteFileResponse \<times> Reader) res" where
  "DeleteFileResponse_decodeDelimited = get_sub DeleteFileResponse_decode"

definition DeleteFileResponse_bytes :: "DeleteFileResponse \<Rightarrow> u8 list" where
  "DeleteFileResponse_bytes m = []"

definition DeleteFileResponse_valid :: "DeleteFileResponse \<Rightarrow> bool" where
  "DeleteFileResponse_valid m \<longleftrightarrow> True"

definition DeleteFileResponse_merge :: "DeleteFileResponse \<Rightarrow> DeleteFileResponse \<Rightarrow> DeleteFileResponse" where
  "DeleteFileResponse_merge a m = m"

lemma DeleteFileResponse_emits: "emits (DeleteFileResponse_encode m) (DeleteFileResponse_bytes m)"
  by (simp add: DeleteFileResponse_encode_def [abs_def] DeleteFileResponse_bytes_def emits_id)

lemma DeleteFileResponse_parses: "parses DeleteFileResponse_decode_field (DeleteFileResponse_bytes m) a (DeleteFileResponse_merge a m)"
  by (cases a; cases m) (simp add: DeleteFileResponse_bytes_def DeleteFileResponse_merge_def parses_Nil)

lemma DeleteFileResponse_merge_new: "DeleteFileResponse_valid m \<Longrightarrow> DeleteFileResponse_merge DeleteFileResponse_new m = m"
  by (simp add: DeleteFileResponse_merge_def)

lemma DeleteFileResponse_progress: "progress DeleteFileResponse_decode_field"
  by (rule progressI)
    (simp add: DeleteFileResponse_decode_field_def moves_if_split moves_branches)

interpretation DeleteFileResponse_codec: message_codec DeleteFileResponse_encode DeleteFileResponse_decode DeleteFileResponse_decode_field DeleteFileResponse_new DeleteFileResponse_bytes
  DeleteFileResponse_valid DeleteFileResponse_merge
  by unfold_locales
    (simp_all add: DeleteFileResponse_decode_def DeleteFileResponse_progress DeleteFileResponse_emits DeleteFileResponse_parses DeleteFileResponse_merge_new)

subsection \<open>ChmodFileRequest\<close>

record ChmodFileRequest =
  ChmodFileRequest_path :: "jstring option"
  ChmodFileRequest_mode :: "int option"

definition ChmodFileRequest_new :: ChmodFileRequest where
  "ChmodFileRequest_new = \<lparr>ChmodFileRequest_path = None, ChmodFileRequest_mode = None\<rparr>"

definition ChmodFileRequest_encode :: "ChmodFileRequest \<Rightarrow> Writer \<Rightarrow> Writer" where
  "ChmodFileRequest_encode message writer =
     (let writer = put_opt 10 w_string (ChmodFileRequest_path message) writer;
          writer = put_opt 16 w_uint32 (ChmodFileRequest_mode message) writer
      in writer)"

definition ChmodFileRequest_decode_field :: "u32 \<Rightarrow> Reader \<Rightarrow> ChmodFileRequest \<Rightarrow> (ChmodFileRequest \<times> Reader) res" where
  "ChmodFileRequest_decode_field tag reader message =
     (if tag_no tag = 1 then map_res (\<lambda>v. message\<lparr>ChmodFileRequest_path := Some v\<rparr>) (r_string reader)
      else if tag_no tag = 2 then map_res (\<lambda>v. message\<lparr>ChmodFileRequest_mode := Some v\<rparr>) (r_uint32_number reader)
      else skip_field tag reader message)"

definition ChmodFileRequest_decode :: "Reader \<Rightarrow> nat option \<Rightarrow> (ChmodFileRequest \<times> Reader) res" where
  "ChmodFileRequest_decode = decode_with ChmodFileRequest_decode_field ChmodFileRequest_new"

definition ChmodFileRequest_encodeDelimited :: "ChmodFileRequest \<Rightarrow> Writer \<Rightarrow> Writer" where
  "ChmodFileRequest_encodeDelimited message writer = w_ldelim (ChmodFileRequest_encode message writer)"

definition ChmodFileRequest_decodeDelimited :: "Reader \<Rightarrow> (ChmodFileRequest \<times> Reader) res" where
  "ChmodFileRequest_decodeDelimited = get_sub ChmodFileRequest_decode"

definition ChmodFileRequest_bytes :: "ChmodFileRequest \<Rightarrow> u8 list" where
  "ChmodFileRequest_bytes m =
     opt_bytes 10 string_bytes (ChmodFileRequest_path m) @
     opt_bytes 16 uint32_bytes (ChmodFileRequest_mode m)"

definition ChmodFileRequest_valid :: "ChmodFileRequest \<Rightarrow> bool" where
  "ChmodFileRequest_valid m \<longleftrightarrow> opt_ok string_ok (ChmodFileRequest_path m) \<and>
     opt_ok uint32_ok (ChmodFileRequest_mode m)"

definition ChmodFileRequest_merge :: "ChmodFileRequest \<Rightarrow> ChmodFileRequest \<Rightarrow> ChmodFileRequest" where
  "ChmodFileRequest_merge a m =
     a\<lparr>ChmodFileRequest_path := or_else (ChmodFileRequest_path m) (ChmodFileRequest_path a),
       ChmodFileRequest_mode := or_else (ChmodFileRequest_mode m) (ChmodFileRequest_mode a)\<rparr>"

lemma ChmodFileRequest_emits:
  assumes "ChmodFileRequest_valid m"
  shows "emits (ChmodFileRequest_encode m) (ChmodFileRequest_bytes m)"
  unfolding ChmodFileRequest_encode_def [abs_def] ChmodFileRequest_bytes_def Let_def append_assoc [symmetric]
  by (rule uint32.then_emits_opt, rule string.emits_opt)
    (simp_all add: assms [unfolded ChmodFileRequest_valid_def map_ok_def])

lemma ChmodFileRequest_parses:
  assumes "ChmodFileRequest_valid m"
  shows "parses ChmodFileRequest_decode_field (ChmodFileRequest_bytes m) a (ChmodFileRequest_merge a m)"
  unfolding ChmodFileRequest_bytes_def append_assoc [symmetric]
  by (rule parses_to,
      rule uint32.then_parses_opt [where get = ChmodFileRequest_mode and upd = "\<lambda>x m. m\<lparr>ChmodFileRequest_mode := x\<rparr>"],
      rule string.parses_opt [where get = ChmodFileRequest_path and upd = "\<lambda>x m. m\<lparr>ChmodFileRequest_path := x\<rparr>"])
    (simp_all add: assms [unfolded ChmodFileRequest_valid_def map_ok_def] ChmodFileRequest_decode_field_def tag_no_def lens_def
      merge_defs ChmodFileRequest_merge_def)

lemma ChmodFileRequest_merge_new: "ChmodFileRequest_valid m \<Longrightarrow> ChmodFileRequest_merge ChmodFileRequest_new m = m"
  by (simp add: ChmodFileRequest_merge_def ChmodFileRequest_new_def ChmodFileRequest_valid_def map_ok_def js_object_def)

lemma ChmodFileRequest_progress: "progress ChmodFileRequest_decode_field"
  by (rule progressI)
    (simp add: ChmodFileRequest_decode_field_def moves_if_split moves_branches)

interpretation ChmodFileRequest_codec: message_codec ChmodFileRequest_encode ChmodFileRequest_decode ChmodFileRequest_decode_field ChmodFileRequest_new ChmodFileRequest_bytes
  ChmodFileRequest_valid ChmodFileRequest_merge
  by unfold_locales
    (simp_all add: ChmodFileRequest_decode_def ChmodFileRequest_progress ChmodFileRequest_emits ChmodFileRequest_parses ChmodFileRequest_merge_new)

subsection \<open>ChmodFileResponse\<close>

datatype ChmodFileResponse = ChmodFileResponse_new

definition ChmodFileResponse_encode :: "ChmodFileResponse \<Rightarrow> Writer \<Rightarrow> Writer" where
  "ChmodFileResponse_encode message writer = writer"

definition ChmodFileResponse_decode_field :: "u32 \<Rightarrow> Reader \<Rightarrow> ChmodFileResponse \<Rightarrow> (ChmodFileResponse \<times> Reader) res" where
  "ChmodFileResponse_decode_field tag reader message = skip_field tag reader message"

definition ChmodFileResponse_decode :: "Reader \<Rightarrow> nat option \<Rightarrow> (ChmodFileResponse \<times> Reader) res" where
  "ChmodFileResponse_decode = decode_with ChmodFileResponse_decode_field ChmodFileResponse_new"

definition ChmodFileResponse_encodeDelimited :: "ChmodFileResponse \<Rightarrow> Writer \<Rightarrow> Writer" where
  "ChmodFileResponse_encodeDelimited message writer = w_ldelim (ChmodFileResponse_encode message writer)"

definition ChmodFileResponse_decodeDelimited :: "Reader \<Rightarrow> (ChmodFileResponse \<times> Reader) res" where
  "ChmodFileResponse_decodeDelimited = get_sub ChmodFileResponse_decode"

definition ChmodFileResponse_bytes :: "ChmodFileResponse \<Rightarrow> u8 list" where
  "ChmodFileResponse_bytes m = []"

definition ChmodFileResponse_valid :: "ChmodFileResponse \<Rightarrow> bool" where
  "ChmodFileResponse_valid m \<longleftrightarrow> True"

definition ChmodFileResponse_merge :: "ChmodFileResponse \<Rightarrow> ChmodFileResponse \<Rightarrow> ChmodFileResponse" where
  "ChmodFileResponse_merge a m = m"

lemma ChmodFileResponse_emits: "emits (ChmodFileResponse_encode m) (ChmodFileResponse_bytes m)"
  by (simp add: ChmodFileResponse_encode_def [abs_def] ChmodFileResponse_bytes_def emits_id)

lemma ChmodFileResponse_parses: "parses ChmodFileResponse_decode_field (ChmodFileResponse_bytes m) a (ChmodFileResponse_merge a m)"
  by (cases a; cases m) (simp add: ChmodFileResponse_bytes_def ChmodFileResponse_merge_def parses_Nil)

lemma ChmodFileResponse_merge_new: "ChmodFileResponse_valid m \<Longrightarrow> ChmodFileResponse_merge ChmodFileResponse_new m = m"
  by (simp add: ChmodFileResponse_merge_def)

lemma ChmodFileResponse_progress: "progress ChmodFileResponse_decode_field"
  by (rule progressI)
    (simp add: ChmodFileResponse_decode_field_def moves_if_split moves_branches)

interpretation ChmodFileResponse_codec: message_codec ChmodFileResponse_encode ChmodFileResponse_decode ChmodFileResponse_decode_field ChmodFileResponse_new ChmodFileResponse_bytes
  ChmodFileResponse_valid ChmodFileResponse_merge
  by unfold_locales
    (simp_all add: ChmodFileResponse_decode_def ChmodFileResponse_progress ChmodFileResponse_emits ChmodFileResponse_parses ChmodFileResponse_merge_new)

subsection \<open>CopyRequest\<close>

record CopyRequest =
  CopyRequest_paths :: "jstring list"
  CopyRequest_isMove :: "bool option"

definition CopyRequest_new :: CopyRequest where
  "CopyRequest_new = \<lparr>CopyRequest_paths = [], CopyRequest_isMove = None\<rparr>"

definition CopyRequest_encode :: "CopyRequest \<Rightarrow> Writer \<Rightarrow> Writer" where
  "CopyRequest_encode message writer =
     (let writer = put_all 10 w_string (CopyRequest_paths message) writer;
          writer = put_opt 16 w_bool (CopyRequest_isMove message) writer
      in writer)"

definition CopyRequest_decode_field :: "u32 \<Rightarrow> Reader \<Rightarrow> CopyRequest \<Rightarrow> (CopyRequest \<times> Reader) res" where
  "CopyRequest_decode_field tag reader message =
     (if tag_no tag = 1 then map_res (\<lambda>v. message\<lparr>CopyRequest_paths := CopyRequest_paths message @ [v]\<rparr>) (r_string reader)
      else if tag_no tag = 2 then map_res (\<lambda>v. message\<lparr>CopyRequest_isMove := Some v\<rparr>) (r_bool reader)
      else skip_field tag reader message)"

definition CopyRequest_decode :: "Reader \<Rightarrow> nat option \<Rightarrow> (CopyRequest \<times> Reader) res" where
  "CopyRequest_decode = decode_with CopyRequest_decode_field CopyRequest_new"

definition CopyRequest_encodeDelimited :: "CopyRequest \<Rightarrow> Writer \<Rightarrow> Writer" where
  "CopyRequest_encodeDelimited message writer = w_ldelim (CopyRequest_encode message writer)"

definition CopyRequest_decodeDelimited :: "Reader \<Rightarrow> (CopyRequest \<times> Reader) res" where
  "CopyRequest_decodeDelimited = get_sub CopyRequest_decode"

definition CopyRequest_bytes :: "CopyRequest \<Rightarrow> u8 list" where
  "CopyRequest_bytes m =
     all_bytes 10 string_bytes (CopyRequest_paths m) @
     opt_bytes 16 bool_bytes (CopyRequest_isMove m)"

definition CopyRequest_valid :: "CopyRequest \<Rightarrow> bool" where
  "CopyRequest_valid m \<longleftrightarrow> list_all string_ok (CopyRequest_paths m)"

definition CopyRequest_merge :: "CopyRequest \<Rightarrow> CopyRequest \<Rightarrow> CopyRequest" where
  "CopyRequest_merge a m =
     a\<lparr>CopyRequest_paths := CopyRequest_paths a @ CopyRequest_paths m,
       CopyRequest_isMove := or_else (CopyRequest_isMove m) (CopyRequest_isMove a)\<rparr>"

lemma CopyRequest_emits:
  assumes "CopyRequest_valid m"
  shows "emits (CopyRequest_encode m) (CopyRequest_bytes m)"
  unfolding CopyRequest_encode_def [abs_def] CopyRequest_bytes_def Let_def append_assoc [symmetric]
  by (rule bool.then_emits_opt, rule string.emits_all)
    (simp_all add: assms [unfolded CopyRequest_valid_def map_ok_def])

lemma CopyRequest_parses:
  assumes "CopyRequest_valid m"
  shows "parses CopyRequest_decode_field (CopyRequest_bytes m) a (CopyRequest_merge a m)"
  unfolding CopyRequest_bytes_def append_assoc [symmetric]
  by (rule parses_to,
      rule bool.then_parses_opt [where get = CopyRequest_isMove and upd = "\<lambda>x m. m\<lparr>CopyRequest_isMove := x\<rparr>"],
      rule string.parses_all [where get = CopyRequest_paths and upd = "\<lambda>x m. m\<lparr>CopyRequest_paths := x\<rparr>"])
    (simp_all add: assms [unfolded CopyRequest_valid_def map_ok_def] CopyRequest_decode_field_def tag_no_def lens_def
      merge_defs CopyRequest_merge_def)

lemma CopyRequest_merge_new: "CopyRequest_valid m \<Longrightarrow> CopyRequest_merge CopyRequest_new m = m"
  by (simp add: CopyRequest_merge_def CopyRequest_new_def CopyRequest_valid_def map_ok_def js_object_def)

lemma CopyRequest_progress: "progress CopyRequest_decode_field"
  by (rule progressI)
    (simp add: CopyRequest_decode_field_def moves_if_split moves_branches)

interpretation CopyRequest_codec: message_codec CopyRequest_encode CopyRequest_decode CopyRequest_decode_field CopyRequest_new CopyRequest_bytes
  CopyRequest_valid CopyRequest_merge
  by unfold_locales
    (simp_all add: CopyRequest_decode_def CopyRequest_progress CopyRequest_emits CopyRequest_parses CopyRequest_merge_new)

subsection \<open>CopyResponse\<close>

datatype CopyResponse = CopyResponse_new

definition CopyResponse_encode :: "CopyResponse \<Rightarrow> Writer \<Rightarrow> Writer" where
  "CopyResponse_encode message writer = writer"

definition CopyResponse_decode_field :: "u32 \<Rightarrow> Reader \<Rightarrow> CopyResponse \<Rightarrow> (CopyResponse \<times> Reader) res" where
  "CopyResponse_decode_field tag reader message = skip_field tag reader message"

definition CopyResponse_decode :: "Reader \<Rightarrow> nat option \<Rightarrow> (CopyResponse \<times> Reader) res" where
  "CopyResponse_decode = decode_with CopyResponse_decode_field CopyResponse_new"

definition CopyResponse_encodeDelimited :: "CopyResponse \<Rightarrow> Writer \<Rightarrow> Writer" where
  "CopyResponse_encodeDelimited message writer = w_ldelim (CopyResponse_encode message writer)"

definition CopyResponse_decodeDelimited :: "Reader \<Rightarrow> (CopyResponse \<times> Reader) res" where
  "CopyResponse_decodeDelimited = get_sub CopyResponse_decode"

definition CopyResponse_bytes :: "CopyResponse \<Rightarrow> u8 list" where
  "CopyResponse_bytes m = []"

definition CopyResponse_valid :: "CopyResponse \<Rightarrow> bool" where
  "CopyResponse_valid m \<longleftrightarrow> True"

definition CopyResponse_merge :: "CopyResponse \<Rightarrow> CopyResponse \<Rightarrow> CopyResponse" where
  "CopyResponse_merge a m = m"

lemma CopyResponse_emits: "emits (CopyResponse_encode m) (CopyResponse_bytes m)"
  by (simp add: CopyResponse_encode_def [abs_def] CopyResponse_bytes_def emits_id)

lemma CopyResponse_parses: "parses CopyResponse_decode_field (CopyResponse_bytes m) a (CopyResponse_merge a m)"
  by (cases a; cases m) (simp add: CopyResponse_bytes_def CopyResponse_merge_def parses_Nil)

lemma CopyResponse_merge_new: "CopyResponse_valid m \<Longrightarrow> CopyResponse_merge CopyResponse_new m = m"
  by (simp add: CopyResponse_merge_def)

lemma CopyResponse_progress: "progress CopyResponse_decode_field"
  by (rule progressI)
    (simp add: CopyResponse_decode_field_def moves_if_split moves_branches)

interpretation CopyResponse_codec: message_codec CopyResponse_encode CopyResponse_decode CopyResponse_decode_field CopyResponse_new CopyResponse_bytes
  CopyResponse_valid CopyResponse_merge
  by unfold_locales
    (simp_all add: CopyResponse_decode_def CopyResponse_progress CopyResponse_emits CopyResponse_parses CopyResponse_merge_new)

subsection \<open>PasteRequest\<close>

record PasteRequest =
  PasteRequest_destinationDir :: "jstring option"

definition PasteRequest_new :: PasteRequest where
  "PasteRequest_new = \<lparr>PasteRequest_destinationDir = None\<rparr>"

definition PasteRequest_encode :: "PasteRequest \<Rightarrow> Writer \<Rightarrow> Writer" where
  "PasteRequest_encode message writer =
     (let writer = put_opt 10 w_string (PasteRequest_destinationDir message) writer
      in writer)"

definition PasteRequest_decode_field :: "u32 \<Rightarrow> Reader \<Rightarrow> PasteRequest \<Rightarrow> (PasteRequest \<times> Reader) res" where
  "PasteRequest_decode_field tag reader message =
     (if tag_no tag = 1 then map_res (\<lambda>v. message\<lparr>PasteRequest_destinationDir := Some v\<rparr>) (r_string reader)
      else skip_field tag reader message)"

definition PasteRequest_decode :: "Reader \<Rightarrow> nat option \<Rightarrow> (PasteRequest \<times> Reader) res" where
  "PasteRequest_decode = decode_with PasteRequest_decode_field PasteRequest_new"

definition PasteRequest_encodeDelimited :: "PasteRequest \<Rightarrow> Writer \<Rightarrow> Writer" where
  "PasteRequest_encodeDelimited message writer = w_ldelim (PasteRequest_encode message writer)"

definition PasteRequest_decodeDelimited :: "Reader \<Rightarrow> (PasteRequest \<times> Reader) res" where
  "PasteRequest_decodeDelimited = get_sub PasteRequest_decode"

definition PasteRequest_bytes :: "PasteRequest \<Rightarrow> u8 list" where
  "PasteRequest_bytes m =
     opt_bytes 10 string_bytes (PasteRequest_destinationDir m)"

definition PasteRequest_valid :: "PasteRequest \<Rightarrow> bool" where
  "PasteRequest_valid m \<longleftrightarrow> opt_ok string_ok (PasteRequest_destinationDir m)"

definition PasteRequest_merge :: "PasteRequest \<Rightarrow> PasteRequest \<Rightarrow> PasteRequest" where
  "PasteRequest_merge a m =
     a\<lparr>PasteRequest_destinationDir := or_else (PasteRequest_destinationDir m) (PasteRequest_destinationDir a)\<rparr>"

lemma PasteRequest_emits:
  assumes "PasteRequest_valid m"
  shows "emits (PasteRequest_encode m) (PasteRequest_bytes m)"
  unfolding PasteRequest_encode_def [abs_def] PasteRequest_bytes_def Let_def append_assoc [symmetric]
  by (rule string.emits_opt)
    (simp_all add: assms [unfolded PasteRequest_valid_def map_ok_def])

lemma PasteRequest_parses:
  assumes "PasteRequest_valid m"
  shows "parses PasteRequest_decode_field (PasteRequest_bytes m) a (PasteRequest_merge a m)"
  unfolding PasteRequest_bytes_def append_assoc [symmetric]
  by (rule parses_to,
      rule string.parses_opt [where get = PasteRequest_destinationDir and upd = "\<lambda>x m. m\<lparr>PasteRequest_destinationDir := x\<rparr>"])
    (simp_all add: assms [unfolded PasteRequest_valid_def map_ok_def] PasteRequest_decode_field_def tag_no_def lens_def
      merge_defs PasteRequest_merge_def)

lemma PasteRequest_merge_new: "PasteRequest_valid m \<Longrightarrow> PasteRequest_merge PasteRequest_new m = m"
  by (simp add: PasteRequest_merge_def PasteRequest_new_def PasteRequest_valid_def map_ok_def js_object_def)

lemma PasteRequest_progress: "progress PasteRequest_decode_field"
  by (rule progressI)
    (simp add: PasteRequest_decode_field_def moves_if_split moves_branches)

interpretation PasteRequest_codec: message_codec PasteRequest_encode PasteRequest_decode PasteRequest_decode_field PasteRequest_new PasteRequest_bytes
  PasteRequest_valid PasteRequest_merge
  by unfold_locales
    (simp_all add: PasteRequest_decode_def PasteRequest_progress PasteRequest_emits PasteRequest_parses PasteRequest_merge_new)

subsection \<open>PasteResponse\<close>

record PasteResponse =
  PasteResponse_newPaths :: "jstring list"

definition PasteResponse_new :: PasteResponse where
  "PasteResponse_new = \<lparr>PasteResponse_newPaths = []\<rparr>"

definition PasteResponse_encode :: "PasteResponse \<Rightarrow> Writer \<Rightarrow> Writer" where
  "PasteResponse_encode message writer =
     (let writer = put_all 10 w_string (PasteResponse_newPaths message) writer
      in writer)"

definition PasteResponse_decode_field :: "u32 \<Rightarrow> Reader \<Rightarrow> PasteResponse \<Rightarrow> (PasteResponse \<times> Reader) res" where
  "PasteResponse_decode_field tag reader message =
     (if tag_no tag = 1 then map_res (\<lambda>v. message\<lparr>PasteResponse_newPaths := PasteResponse_newPaths message @ [v]\<rparr>) (r_string reader)
      else skip_field tag reader message)"

definition PasteResponse_decode :: "Reader \<Rightarrow> nat option \<Rightarrow> (PasteResponse \<times> Reader) res" where
  "PasteResponse_decode = decode_with PasteResponse_decode_field PasteResponse_new"

definition PasteResponse_encodeDelimited :: "PasteResponse \<Rightarrow> Writer \<Rightarrow> Writer" where
  "PasteResponse_encodeDelimited message writer = w_ldelim (PasteResponse_encode message writer)"

definition PasteResponse_decodeDelimited :: "Reader \<Rightarrow> (PasteResponse \<times> Reader) res" where
  "PasteResponse_decodeDelimited = get_sub PasteResponse_decode"

definition PasteResponse_bytes :: "PasteResponse \<Rightarrow> u8 list" where
  "PasteResponse_bytes m =
     all_bytes 10 string_bytes (PasteResponse_newPaths m)"

definition PasteResponse_valid :: "PasteResponse \<Rightarrow> bool" where
  "PasteResponse_valid m \<longleftrightarrow> list_all string_ok (PasteResponse_newPaths m)"

definition PasteResponse_merge :: "PasteResponse \<Rightarrow> PasteResponse \<Rightarrow> PasteResponse" where
  "PasteResponse_merge a m =
     a\<lparr>PasteResponse_newPaths := PasteResponse_newPaths a @ PasteResponse_newPaths m\<rparr>"

lemma PasteResponse_emits:
  assumes "PasteResponse_valid m"
  shows "emits (PasteResponse_encode m) (PasteResponse_bytes m)"
  unfolding PasteResponse_encode_def [abs_def] PasteResponse_bytes_def Let_def append_assoc [symmetric]
  by (rule string.emits_all)
    (simp_all add: assms [unfolded PasteResponse_valid_def map_ok_def])

lemma PasteResponse_parses:
  assumes "PasteResponse_valid m"
  shows "parses PasteResponse_decode_field (PasteResponse_bytes m) a (PasteResponse_merge a m)"
  unfolding PasteResponse_bytes_def append_assoc [symmetric]
  by (rule parses_to,
      rule string.parses_all [where get = PasteResponse_newPaths and upd = "\<lambda>x m. m\<lparr>PasteResponse_newPaths := x\<rparr>"])
    (simp_all add: assms [unfolded PasteResponse_valid_def map_ok_def] PasteResponse_decode_field_def tag_no_def lens_def
      merge_defs PasteResponse_merge_def)

lemma PasteResponse_merge_new: "PasteResponse_valid m \<Longrightarrow> PasteResponse_merge PasteResponse_new m = m"
  by (simp add: PasteResponse_merge_def PasteResponse_new_def PasteResponse_valid_def map_ok_def js_object_def)

lemma PasteResponse_progress: "progress PasteResponse_decode_field"
  by (rule progressI)
    (simp add: PasteResponse_decode_field_def moves_if_split moves_branches)

interpretation PasteResponse_codec: message_codec PasteResponse_encode PasteResponse_decode PasteResponse_decode_field PasteResponse_new PasteResponse_bytes
  PasteResponse_valid PasteResponse_merge
  by unfold_locales
    (simp_all add: PasteResponse_decode_def PasteResponse_progress PasteResponse_emits PasteResponse_parses PasteResponse_merge_new)

subsection \<open>CreateFileRequest\<close>

record CreateFileRequest =
  CreateFileRequest_destinationDir :: "jstring option"
  CreateFileRequest_name :: "jstring option"

definition CreateFileRequest_new :: CreateFileRequest where
  "CreateFileRequest_new = \<lparr>CreateFileRequest_destinationDir = None, CreateFileRequest_name = None\<rparr>"

definition CreateFileRequest_encode :: "CreateFileRequest \<Rightarrow> Writer \<Rightarrow> Writer" where
  "CreateFileRequest_encode message writer =
     (let writer = put_opt 10 w_string (CreateFileRequest_destinationDir message) writer;
          writer = put_opt 18 w_string (CreateFileRequest_name message) writer
      in writer)"

definition CreateFileRequest_decode_field :: "u32 \<Rightarrow> Reader \<Rightarrow> CreateFileRequest \<Rightarrow> (CreateFileRequest \<times> Reader) res" where
  "CreateFileRequest_decode_field tag reader message =
     (if tag_no tag = 1 then map_res (\<lambda>v. message\<lparr>CreateFileRequest_destinationDir := Some v\<rparr>) (r_string reader)
      else if tag_no tag = 2 then map_res (\<lambda>v. message\<lparr>CreateFileRequest_name := Some v\<rparr>) (r_string reader)
      else skip_field tag reader message)"

definition CreateFileRequest_decode :: "Reader \<Rightarrow> nat option \<Rightarrow> (CreateFileRequest \<times> Reader) res" where
  "CreateFileRequest_decode = decode_with CreateFileRequest_decode_field CreateFileRequest_new"

definition CreateFileRequest_encodeDelimited :: "CreateFileRequest \<Rightarrow> Writer \<Rightarrow> Writer" where
  "CreateFileRequest_encodeDelimited message writer = w_ldelim (CreateFileRequest_encode message writer)"

definition CreateFileRequest_decodeDelimited :: "Reader \<Rightarrow> (CreateFileRequest \<times> Reader) res" where
  "CreateFileRequest_decodeDelimited = get_sub CreateFileRequest_decode"

definition CreateFileRequest_bytes :: "CreateFileRequest \<Rightarrow> u8 list" where
  "CreateFileRequest_bytes m =
     opt_bytes 10 string_bytes (CreateFileRequest_destinationDir m) @
     opt_bytes 18 string_bytes (CreateFileRequest_name m)"

definition CreateFileRequest_valid :: "CreateFileRequest \<Rightarrow> bool" where
  "CreateFileRequest_valid m \<longleftrightarrow> opt_ok string_ok (CreateFileRequest_destinationDir m) \<and>
     opt_ok string_ok (CreateFileRequest_name m)"

definition CreateFileRequest_merge :: "CreateFileRequest \<Rightarrow> CreateFileRequest \<Rightarrow> CreateFileRequest" where
  "CreateFileRequest_merge a m =
     a\<lparr>CreateFileRequest_destinationDir := or_else (CreateFileRequest_destinationDir m) (CreateFileRequest_destinationDir a),
       CreateFileRequest_name := or_else (CreateFileRequest_name m) (CreateFileRequest_name a)\<rparr>"

lemma CreateFileRequest_emits:
  assumes "CreateFileRequest_valid m"
  shows "emits (CreateFileRequest_encode m) (CreateFileRequest_bytes m)"
  unfolding CreateFileRequest_encode_def [abs_def] CreateFileRequest_bytes_def Let_def append_assoc [symmetric]
  by (rule string.then_emits_opt, rule string.emits_opt)
    (simp_all add: assms [unfolded CreateFileRequest_valid_def map_ok_def])

lemma CreateFileRequest_parses:
  assumes "CreateFileRequest_valid m"
  shows "parses CreateFileRequest_decode_field (CreateFileRequest_bytes m) a (CreateFileRequest_merge a m)"
  unfolding CreateFileRequest_bytes_def append_assoc [symmetric]
  by (rule parses_to,
      rule string.then_parses_opt [where get = CreateFileRequest_name and upd = "\<lambda>x m. m\<lparr>CreateFileRequest_name := x\<rparr>"],
      rule string.parses_opt [where get = CreateFileRequest_destinationDir and upd = "\<lambda>x m. m\<lparr>CreateFileRequest_destinationDir := x\<rparr>"])
    (simp_all add: assms [unfolded CreateFileRequest_valid_def map_ok_def] CreateFileRequest_decode_field_def tag_no_def lens_def
      merge_defs CreateFileRequest_merge_def)

lemma CreateFileRequest_merge_new: "CreateFileRequest_valid m \<Longrightarrow> CreateFileRequest_merge CreateFileRequest_new m = m"
  by (simp add: CreateFileRequest_merge_def CreateFileRequest_new_def CreateFileRequest_valid_def map_ok_def js_object_def)

lemma CreateFileRequest_progress: "progress CreateFileRequest_decode_field"
  by (rule progressI)
    (simp add: CreateFileRequest_decode_field_def moves_if_split moves_branches)

interpretation CreateFileRequest_codec: message_codec CreateFileRequest_encode CreateFileRequest_decode CreateFileRequest_decode_field CreateFileRequest_new CreateFileRequest_bytes
  CreateFileRequest_valid CreateFileRequest_merge
  by unfold_locales
    (simp_all add: CreateFileRequest_decode_def CreateFileRequest_progress CreateFileRequest_emits CreateFileRequest_parses CreateFileRequest_merge_new)

subsection \<open>CreateFileResponse\<close>

record CreateFileResponse =
  CreateFileResponse_path :: "jstring option"

definition CreateFileResponse_new :: CreateFileResponse where
  "CreateFileResponse_new = \<lparr>CreateFileResponse_path = None\<rparr>"

definition CreateFileResponse_encode :: "CreateFileResponse \<Rightarrow> Writer \<Rightarrow> Writer" where
  "CreateFileResponse_encode message writer =
     (let writer = put_opt 10 w_string (CreateFileResponse_path message) writer
      in writer)"

definition CreateFileResponse_decode_field :: "u32 \<Rightarrow> Reader \<Rightarrow> CreateFileResponse \<Rightarrow> (CreateFileResponse \<times> Reader) res" where
  "CreateFileResponse_decode_field tag reader message =
     (if tag_no tag = 1 then map_res (\<lambda>v. message\<lparr>CreateFileResponse_path := Some v\<rparr>) (r_string reader)
      else skip_field tag reader message)"

definition CreateFileResponse_decode :: "Reader \<Rightarrow> nat option \<Rightarrow> (CreateFileResponse \<times> Reader) res" where
  "CreateFileResponse_decode = decode_with CreateFileResponse_decode_field CreateFileResponse_new"

definition CreateFileResponse_encodeDelimited :: "CreateFileResponse \<Rightarrow> Writer \<Rightarrow> Writer" where
  "CreateFileResponse_encodeDelimited message writer = w_ldelim (CreateFileResponse_encode message writer)"

definition CreateFileResponse_decodeDelimited :: "Reader \<Rightarrow> (CreateFileResponse \<times> Reader) res" where
  "CreateFileResponse_decodeDelimited = get_sub CreateFileResponse_decode"

definition CreateFileResponse_bytes :: "CreateFileResponse \<Rightarrow> u8 list" where
  "CreateFileResponse_bytes m =
     opt_bytes 10 string_bytes (CreateFileResponse_path m)"

definition CreateFileResponse_valid :: "CreateFileResponse \<Rightarrow> bool" where
  "CreateFileResponse_valid m \<longleftrightarrow> opt_ok string_ok (CreateFileResponse_path m)"

definition CreateFileResponse_merge :: "CreateFileResponse \<Rightarrow> CreateFileResponse \<Rightarrow> CreateFileResponse" where
  "CreateFileResponse_merge a m =
     a\<lparr>CreateFileResponse_path := or_else (CreateFileResponse_path m) (CreateFileResponse_path a)\<rparr>"

lemma CreateFileResponse_emits:
  assumes "CreateFileResponse_valid m"
  shows "emits (CreateFileResponse_encode m) (CreateFileResponse_bytes m)"
  unfolding CreateFileResponse_encode_def [abs_def] CreateFileResponse_bytes_def Let_def append_assoc [symmetric]
  by (rule string.emits_opt)
    (simp_all add: assms [unfolded CreateFileResponse_valid_def map_ok_def])

lemma CreateFileResponse_parses:
  assumes "CreateFileResponse_valid m"
  shows "parses CreateFileResponse_decode_field (CreateFileResponse_bytes m) a (CreateFileResponse_merge a m)"
  unfolding CreateFileResponse_bytes_def append_assoc [symmetric]
  by (rule parses_to,
      rule string.parses_opt [where get = CreateFileResponse_path and upd = "\<lambda>x m. m\<lparr>CreateFileResponse_path := x\<rparr>"])
    (simp_all add: assms [unfolded CreateFileResponse_valid_def map_ok_def] CreateFileResponse_decode_field_def tag_no_def lens_def
      merge_defs CreateFileResponse_merge_def)

lemma CreateFileResponse_merge_new: "CreateFileResponse_valid m \<Longrightarrow> CreateFileResponse_merge CreateFileResponse_new m = m"
  by (simp add: CreateFileResponse_merge_def CreateFileResponse_new_def CreateFileResponse_valid_def map_ok_def js_object_def)

lemma CreateFileResponse_progress: "progress CreateFileResponse_decode_field"
  by (rule progressI)
    (simp add: CreateFileResponse_decode_field_def moves_if_split moves_branches)

interpretation CreateFileResponse_codec: message_codec CreateFileResponse_encode CreateFileResponse_decode CreateFileResponse_decode_field CreateFileResponse_new CreateFileResponse_bytes
  CreateFileResponse_valid CreateFileResponse_merge
  by unfold_locales
    (simp_all add: CreateFileResponse_decode_def CreateFileResponse_progress CreateFileResponse_emits CreateFileResponse_parses CreateFileResponse_merge_new)

subsection \<open>CreateDirectoryRequest\<close>

record CreateDirectoryRequest =
  CreateDirectoryRequest_destinationDir :: "jstring option"
  CreateDirectoryRequest_name :: "jstring option"

definition CreateDirectoryRequest_new :: CreateDirectoryRequest where
  "CreateDirectoryRequest_new = \<lparr>CreateDirectoryRequest_destinationDir = None, CreateDirectoryRequest_name = None\<rparr>"

definition CreateDirectoryRequest_encode :: "CreateDirectoryRequest \<Rightarrow> Writer \<Rightarrow> Writer" where
  "CreateDirectoryRequest_encode message writer =
     (let writer = put_opt 10 w_string (CreateDirectoryRequest_destinationDir message) writer;
          writer = put_opt 18 w_string (CreateDirectoryRequest_name message) writer
      in writer)"

definition CreateDirectoryRequest_decode_field :: "u32 \<Rightarrow> Reader \<Rightarrow> CreateDirectoryRequest \<Rightarrow> (CreateDirectoryRequest \<times> Reader) res" where
  "CreateDirectoryRequest_decode_field tag reader message =
     (if tag_no tag = 1 then map_res (\<lambda>v. message\<lparr>CreateDirectoryRequest_destinationDir := Some v\<rparr>) (r_string reader)
      else if tag_no tag = 2 then map_res (\<lambda>v. message\<lparr>CreateDirectoryRequest_name := Some v\<rparr>) (r_string reader)
      else skip_field tag reader message)"

definition CreateDirectoryRequest_decode :: "Reader \<Rightarrow> nat option \<Rightarrow> (CreateDirectoryRequest \<times> Reader) res" where
  "CreateDirectoryRequest_decode = decode_with CreateDirectoryRequest_decode_field CreateDirectoryRequest_new"

definition CreateDirectoryRequest_encodeDelimited :: "CreateDirectoryRequest \<Rightarrow> Writer \<Rightarrow> Writer" where
  "CreateDirectoryRequest_encodeDelimited message writer = w_ldelim (CreateDirectoryRequest_encode message writer)"

definition CreateDirectoryRequest_decodeDelimited :: "Reader \<Rightarrow> (CreateDirectoryRequest \<times> Reader) res" where
  "CreateDirectoryRequest_decodeDelimited = get_sub CreateDirectoryRequest_decode"

definition CreateDirectoryRequest_bytes :: "CreateDirectoryRequest \<Rightarrow> u8 list" where
  "CreateDirectoryRequest_bytes m =
     opt_bytes 10 string_bytes (CreateDirectoryRequest_destinationDir m) @
     opt_bytes 18 string_bytes (CreateDirectoryRequest_name m)"

definition CreateDirectoryRequest_valid :: "CreateDirectoryRequest \<Rightarrow> bool" where
  "CreateDirectoryRequest_valid m \<longleftrightarrow> opt_ok string_ok (CreateDirectoryRequest_destinationDir m) \<and>
     opt_ok string_ok (CreateDirectoryRequest_name m)"

definition CreateDirectoryRequest_merge :: "CreateDirectoryRequest \<Rightarrow> CreateDirectoryRequest \<Rightarrow> CreateDirectoryRequest" where
  "CreateDirectoryRequest_merge a m =
     a\<lparr>CreateDirectoryRequest_destinationDir := or_else (CreateDirectoryRequest_destinationDir m) (CreateDirectoryRequest_destinationDir a),
       CreateDirectoryRequest_name := or_else (CreateDirectoryRequest_name m) (CreateDirectoryRequest_name a)\<rparr>"

lemma CreateDirectoryRequest_emits:
  assumes "CreateDirectoryRequest_valid m"
  shows "emits (CreateDirectoryRequest_encode m) (CreateDirectoryRequest_bytes m)"
  unfolding CreateDirectoryRequest_encode_def [abs_def] CreateDirectoryRequest_bytes_def Let_def append_assoc [symmetric]
  by (rule string.then_emits_opt, rule string.emits_opt)
    (simp_all add: assms [unfolded CreateDirectoryRequest_valid_def map_ok_def])

lemma CreateDirectoryRequest_parses:
  assumes "CreateDirectoryRequest_valid m"
  shows "parses CreateDirectoryRequest_decode_field (CreateDirectoryRequest_bytes m) a (CreateDirectoryRequest_merge a m)"
  unfolding CreateDirectoryRequest_bytes_def append_assoc [symmetric]
  by (rule parses_to,
      rule string.then_parses_opt [where get = CreateDirectoryRequest_name and upd = "\<lambda>x m. m\<lparr>CreateDirectoryRequest_name := x\<rparr>"],
      rule string.parses_opt [where get = CreateDirectoryRequest_destinationDir and upd = "\<lambda>x m. m\<lparr>CreateDirectoryRequest_destinationDir := x\<rparr>"])
    (simp_all add: assms [unfolded CreateDirectoryRequest_valid_def map_ok_def] CreateDirectoryRequest_decode_field_def tag_no_def lens_def
      merge_defs CreateDirectoryRequest_merge_def)

lemma CreateDirectoryRequest_merge_new: "CreateDirectoryRequest_valid m \<Longrightarrow> CreateDirectoryRequest_merge CreateDirectoryRequest_new m = m"
  by (simp add: CreateDirectoryRequest_merge_def CreateDirectoryRequest_new_def CreateDirectoryRequest_valid_def map_ok_def js_object_def)

lemma CreateDirectoryRequest_progress: "progress CreateDirectoryRequest_decode_field"
  by (rule progressI)
    (simp add: CreateDirectoryRequest_decode_field_def moves_if_split moves_branches)

interpretation CreateDirectoryRequest_codec: message_codec CreateDirectoryRequest_encode CreateDirectoryRequest_decode CreateDirectoryRequest_decode_field CreateDirectoryRequest_new CreateDirectoryRequest_bytes
  CreateDirectoryRequest_valid CreateDirectoryRequest_merge
  by unfold_locales
    (simp_all add: CreateDirectoryRequest_decode_def CreateDirectoryRequest_progress CreateDirectoryRequest_emits CreateDirectoryRequest_parses CreateDirectoryRequest_merge_new)

subsection \<open>CreateDirectoryResponse\<close>

record CreateDirectoryResponse =
  CreateDirectoryResponse_path :: "jstring option"

definition CreateDirectoryResponse_new :: CreateDirectoryResponse where
  "CreateDirectoryResponse_new = \<lparr>CreateDirectoryResponse_path = None\<rparr>"

definition CreateDirectoryResponse_encode :: "CreateDirectoryResponse \<Rightarrow> Writer \<Rightarrow> Writer" where
  "CreateDirectoryResponse_encode message writer =
     (let writer = put_opt 10 w_string (CreateDirectoryResponse_path message) writer
      in writer)"

definition CreateDirectoryResponse_decode_field :: "u32 \<Rightarrow> Reader \<Rightarrow> CreateDirectoryResponse \<Rightarrow> (CreateDirectoryResponse \<times> Reader) res" where
  "CreateDirectoryResponse_decode_field tag reader message =
     (if tag_no tag = 1 then map_res (\<lambda>v. message\<lparr>CreateDirectoryResponse_path := Some v\<rparr>) (r_string reader)
      else skip_field tag reader message)"

definition CreateDirectoryResponse_decode :: "Reader \<Rightarrow> nat option \<Rightarrow> (CreateDirectoryResponse \<times> Reader) res" where
  "CreateDirectoryResponse_decode = decode_with CreateDirectoryResponse_decode_field CreateDirectoryResponse_new"

definition CreateDirectoryResponse_encodeDelimited :: "CreateDirectoryResponse \<Rightarrow> Writer \<Rightarrow> Writer" where
  "CreateDirectoryResponse_encodeDelimited message writer = w_ldelim (CreateDirectoryResponse_encode message writer)"

definition CreateDirectoryResponse_decodeDelimited :: "Reader \<Rightarrow> (CreateDirectoryResponse \<times> Reader) res" where
  "CreateDirectoryResponse_decodeDelimited = get_sub CreateDirectoryResponse_decode"

definition CreateDirectoryResponse_bytes :: "CreateDirectoryResponse \<Rightarrow> u8 list" where
  "CreateDirectoryResponse_bytes m =
     opt_bytes 10 string_bytes (CreateDirectoryResponse_path m)"

definition CreateDirectoryResponse_valid :: "CreateDirectoryResponse \<Rightarrow> bool" where
  "CreateDirectoryResponse_valid m \<longleftrightarrow> opt_ok string_ok (CreateDirectoryResponse_path m)"

definition CreateDirectoryResponse_merge :: "CreateDirectoryResponse \<Rightarrow> CreateDirectoryResponse \<Rightarrow> CreateDirectoryResponse" where
  "CreateDirectoryResponse_merge a m =
     a\<lparr>CreateDirectoryResponse_path := or_else (CreateDirectoryResponse_path m) (CreateDirectoryResponse_path a)\<rparr>"

lemma CreateDirectoryResponse_emits:
  assumes "CreateDirectoryResponse_valid m"
  shows "emits (CreateDirectoryResponse_encode m) (CreateDirectoryResponse_bytes m)"
  unfolding CreateDirectoryResponse_encode_def [abs_def] CreateDirectoryResponse_bytes_def Let_def append_assoc [symmetric]
  by (rule string.emits_opt)
    (simp_all add: assms [unfolded CreateDirectoryResponse_valid_def map_ok_def])

lemma CreateDirectoryResponse_parses:
  assumes "CreateDirectoryResponse_valid m"
  shows "parses CreateDirectoryResponse_decode_field (CreateDirectoryResponse_bytes m) a (CreateDirectoryResponse_merge a m)"
  unfolding CreateDirectoryResponse_bytes_def append_assoc [symmetric]
  by (rule parses_to,
      rule string.parses_opt [where get = CreateDirectoryResponse_path and upd = "\<lambda>x m. m\<lparr>CreateDirectoryResponse_path := x\<rparr>"])
    (simp_all add: assms [unfolded CreateDirectoryResponse_valid_def map_ok_def] CreateDirectoryResponse_decode_field_def tag_no_def lens_def
      merge_defs CreateDirectoryResponse_merge_def)

lemma CreateDirectoryResponse_merge_new: "CreateDirectoryResponse_valid m \<Longrightarrow> CreateDirectoryResponse_merge CreateDirectoryResponse_new m = m"
  by (simp add: CreateDirectoryResponse_merge_def CreateDirectoryResponse_new_def CreateDirectoryResponse_valid_def map_ok_def js_object_def)

lemma CreateDirectoryResponse_progress: "progress CreateDirectoryResponse_decode_field"
  by (rule progressI)
    (simp add: CreateDirectoryResponse_decode_field_def moves_if_split moves_branches)

interpretation CreateDirectoryResponse_codec: message_codec CreateDirectoryResponse_encode CreateDirectoryResponse_decode CreateDirectoryResponse_decode_field CreateDirectoryResponse_new CreateDirectoryResponse_bytes
  CreateDirectoryResponse_valid CreateDirectoryResponse_merge
  by unfold_locales
    (simp_all add: CreateDirectoryResponse_decode_def CreateDirectoryResponse_progress CreateDirectoryResponse_emits CreateDirectoryResponse_parses CreateDirectoryResponse_merge_new)

subsection \<open>TrashFileRequest\<close>

record TrashFileRequest =
  TrashFileRequest_path :: "jstring option"

definition TrashFileRequest_new :: TrashFileRequest where
  "TrashFileRequest_new = \<lparr>TrashFileRequest_path = None\<rparr>"

definition TrashFileRequest_encode :: "TrashFileRequest \<Rightarrow> Writer \<Rightarrow> Writer" where
  "TrashFileRequest_encode message writer =
     (let writer = put_opt 10 w_string (TrashFileRequest_path message) writer
      in writer)"

definition TrashFileRequest_decode_field :: "u32 \<Rightarrow> Reader \<Rightarrow> TrashFileRequest \<Rightarrow> (TrashFileRequest \<times> Reader) res" where
  "TrashFileRequest_decode_field tag reader message =
     (if tag_no tag = 1 then map_res (\<lambda>v. message\<lparr>TrashFileRequest_path := Some v\<rparr>) (r_string reader)
      else skip_field tag reader message)"

definition TrashFileRequest_decode :: "Reader \<Rightarrow> nat option \<Rightarrow> (TrashFileRequest \<times> Reader) res" where
  "TrashFileRequest_decode = decode_with TrashFileRequest_decode_field TrashFileRequest_new"

definition TrashFileRequest_encodeDelimited :: "TrashFileRequest \<Rightarrow> Writer \<Rightarrow> Writer" where
  "TrashFileRequest_encodeDelimited message writer = w_ldelim (TrashFileRequest_encode message writer)"

definition TrashFileRequest_decodeDelimited :: "Reader \<Rightarrow> (TrashFileRequest \<times> Reader) res" where
  "TrashFileRequest_decodeDelimited = get_sub TrashFileRequest_decode"

definition TrashFileRequest_bytes :: "TrashFileRequest \<Rightarrow> u8 list" where
  "TrashFileRequest_bytes m =
     opt_bytes 10 string_bytes (TrashFileRequest_path m)"

definition TrashFileRequest_valid :: "TrashFileRequest \<Rightarrow> bool" where
  "TrashFileRequest_valid m \<longleftrightarrow> opt_ok string_ok (TrashFileRequest_path m)"

definition TrashFileRequest_merge :: "TrashFileRequest \<Rightarrow> TrashFileRequest \<Rightarrow> TrashFileRequest" where
  "TrashFileRequest_merge a m =
     a\<lparr>TrashFileRequest_path := or_else (TrashFileRequest_path m) (TrashFileRequest_path a)\<rparr>"

lemma TrashFileRequest_emits:
  assumes "TrashFileRequest_valid m"
  shows "emits (TrashFileRequest_encode m) (TrashFileRequest_bytes m)"
  unfolding TrashFileRequest_encode_def [abs_def] TrashFileRequest_bytes_def Let_def append_assoc [symmetric]
  by (rule string.emits_opt)
    (simp_all add: assms [unfolded TrashFileRequest_valid_def map_ok_def])

lemma TrashFileRequest_parses:
  assumes "TrashFileRequest_valid m"
  shows "parses TrashFileRequest_decode_field (TrashFileRequest_bytes m) a (TrashFileRequest_merge a m)"
  unfolding TrashFileRequest_bytes_def append_assoc [symmetric]
  by (rule parses_to,
      rule string.parses_opt [where get = TrashFileRequest_path and upd = "\<lambda>x m. m\<lparr>TrashFileRequest_path := x\<rparr>"])
    (simp_all add: assms [unfolded TrashFileRequest_valid_def map_ok_def] TrashFileRequest_decode_field_def tag_no_def lens_def
      merge_defs TrashFileRequest_merge_def)

lemma TrashFileRequest_merge_new: "TrashFileRequest_valid m \<Longrightarrow> TrashFileRequest_merge TrashFileRequest_new m = m"
  by (simp add: TrashFileRequest_merge_def TrashFileRequest_new_def TrashFileRequest_valid_def map_ok_def js_object_def)

lemma TrashFileRequest_progress: "progress TrashFileRequest_decode_field"
  by (rule progressI)
    (simp add: TrashFileRequest_decode_field_def moves_if_split moves_branches)

interpretation TrashFileRequest_codec: message_codec TrashFileRequest_encode TrashFileRequest_decode TrashFileRequest_decode_field TrashFileRequest_new TrashFileRequest_bytes
  TrashFileRequest_valid TrashFileRequest_merge
  by unfold_locales
    (simp_all add: TrashFileRequest_decode_def TrashFileRequest_progress TrashFileRequest_emits TrashFileRequest_parses TrashFileRequest_merge_new)

subsection \<open>TrashFileResponse\<close>

datatype TrashFileResponse = TrashFileResponse_new

definition TrashFileResponse_encode :: "TrashFileResponse \<Rightarrow> Writer \<Rightarrow> Writer" where
  "TrashFileResponse_encode message writer = writer"

definition TrashFileResponse_decode_field :: "u32 \<Rightarrow> Reader \<Rightarrow> TrashFileResponse \<Rightarrow> (TrashFileResponse \<times> Reader) res" where
  "TrashFileResponse_decode_field tag reader message = skip_field tag reader message"

definition TrashFileResponse_decode :: "Reader \<Rightarrow> nat option \<Rightarrow> (TrashFileResponse \<times> Reader) res" where
  "TrashFileResponse_decode = decode_with TrashFileResponse_decode_field TrashFileResponse_new"

definition TrashFileResponse_encodeDelimited :: "TrashFileResponse \<Rightarrow> Writer \<Rightarrow> Writer" where
  "TrashFileResponse_encodeDelimited message writer = w_ldelim (TrashFileResponse_encode message writer)"

definition TrashFileResponse_decodeDelimited :: "Reader \<Rightarrow> (TrashFileResponse \<times> Reader) res" where
  "TrashFileResponse_decodeDelimited = get_sub TrashFileResponse_decode"

definition TrashFileResponse_bytes :: "TrashFileResponse \<Rightarrow> u8 list" where
  "TrashFileResponse_bytes m = []"

definition TrashFileResponse_valid :: "TrashFileResponse \<Rightarrow> bool" where
  "TrashFileResponse_valid m \<longleftrightarrow> True"

definition TrashFileResponse_merge :: "TrashFileResponse \<Rightarrow> TrashFileResponse \<Rightarrow> TrashFileResponse" where
  "TrashFileResponse_merge a m = m"

lemma TrashFileResponse_emits: "emits (TrashFileResponse_encode m) (TrashFileResponse_bytes m)"
  by (simp add: TrashFileResponse_encode_def [abs_def] TrashFileResponse_bytes_def emits_id)

lemma TrashFileResponse_parses: "parses TrashFileResponse_decode_field (TrashFileResponse_bytes m) a (TrashFileResponse_merge a m)"
  by (cases a; cases m) (simp add: TrashFileResponse_bytes_def TrashFileResponse_merge_def parses_Nil)

lemma TrashFileResponse_merge_new: "TrashFileResponse_valid m \<Longrightarrow> TrashFileResponse_merge TrashFileResponse_new m = m"
  by (simp add: TrashFileResponse_merge_def)

lemma TrashFileResponse_progress: "progress TrashFileResponse_decode_field"
  by (rule progressI)
    (simp add: TrashFileResponse_decode_field_def moves_if_split moves_branches)

interpretation TrashFileResponse_codec: message_codec TrashFileResponse_encode TrashFileResponse_decode TrashFileResponse_decode_field TrashFileResponse_new TrashFileResponse_bytes
  TrashFileResponse_valid TrashFileResponse_merge
  by unfold_locales
    (simp_all add: TrashFileResponse_decode_def TrashFileResponse_progress TrashFileResponse_emits TrashFileResponse_parses TrashFileResponse_merge_new)

subsection \<open>ListTrashRequest\<close>

datatype ListTrashRequest = ListTrashRequest_new

definition ListTrashRequest_encode :: "ListTrashRequest \<Rightarrow> Writer \<Rightarrow> Writer" where
  "ListTrashRequest_encode message writer = writer"

definition ListTrashRequest_decode_field :: "u32 \<Rightarrow> Reader \<Rightarrow> ListTrashRequest \<Rightarrow> (ListTrashRequest \<times> Reader) res" where
  "ListTrashRequest_decode_field tag reader message = skip_field tag reader message"

definition ListTrashRequest_decode :: "Reader \<Rightarrow> nat option \<Rightarrow> (ListTrashRequest \<times> Reader) res" where
  "ListTrashRequest_decode = decode_with ListTrashRequest_decode_field ListTrashRequest_new"

definition ListTrashRequest_encodeDelimited :: "ListTrashRequest \<Rightarrow> Writer \<Rightarrow> Writer" where
  "ListTrashRequest_encodeDelimited message writer = w_ldelim (ListTrashRequest_encode message writer)"

definition ListTrashRequest_decodeDelimited :: "Reader \<Rightarrow> (ListTrashRequest \<times> Reader) res" where
  "ListTrashRequest_decodeDelimited = get_sub ListTrashRequest_decode"

definition ListTrashRequest_bytes :: "ListTrashRequest \<Rightarrow> u8 list" where
  "ListTrashRequest_bytes m = []"

definition ListTrashRequest_valid :: "ListTrashRequest \<Rightarrow> bool" where
  "ListTrashRequest_valid m \<longleftrightarrow> True"

definition ListTrashRequest_merge :: "ListTrashRequest \<Rightarrow> ListTrashRequest \<Rightarrow> ListTrashRequest" where
  "ListTrashRequest_merge a m = m"

lemma ListTrashRequest_emits: "emits (ListTrashRequest_encode m) (ListTrashRequest_bytes m)"
  by (simp add: ListTrashRequest_encode_def [abs_def] ListTrashRequest_bytes_def emits_id)

lemma ListTrashRequest_parses: "parses ListTrashRequest_decode_field (ListTrashRequest_bytes m) a (ListTrashRequest_merge a m)"
  by (cases a; cases m) (simp add: ListTrashRequest_bytes_def ListTrashRequest_merge_def parses_Nil)

lemma ListTrashRequest_merge_new: "ListTrashRequest_valid m \<Longrightarrow> ListTrashRequest_merge ListTrashRequest_new m = m"
  by (simp add: ListTrashRequest_merge_def)

lemma ListTrashRequest_progress: "progress ListTrashRequest_decode_field"
  by (rule progressI)
    (simp add: ListTrashRequest_decode_field_def moves_if_split moves_branches)

interpretation ListTrashRequest_codec: message_codec ListTrashRequest_encode ListTrashRequest_decode ListTrashRequest_decode_field ListTrashRequest_new ListTrashRequest_bytes
  ListTrashRequest_valid ListTrashRequest_merge
  by unfold_locales
    (simp_all add: ListTrashRequest_decode_def ListTrashRequest_progress ListTrashRequest_emits ListTrashRequest_parses ListTrashRequest_merge_new)

subsection \<open>TrashEntry\<close>

record TrashEntry =
  TrashEntry_name :: "jstring option"
  TrashEntry_originalPath :: "jstring option"
  TrashEntry_deletionDate :: "int option"
  TrashEntry_sizeBytes :: "int option"

definition TrashEntry_new :: TrashEntry where
  "TrashEntry_new = \<lparr>TrashEntry_name = None, TrashEntry_originalPath = None, TrashEntry_deletionDate =
     None, TrashEntry_sizeBytes = None\<rparr>"

definition TrashEntry_encode :: "TrashEntry \<Rightarrow> Writer \<Rightarrow> Writer" where
  "TrashEntry_encode message writer =
     (let writer = put_opt 10 w_string (TrashEntry_name message) writer;
          writer = put_opt 18 w_string (TrashEntry_originalPath message) writer;
          writer = put_opt 24 w_int64 (TrashEntry_deletionDate message) writer;
          writer = put_opt 32 w_int64 (TrashEntry_sizeBytes message) writer
      in writer)"

definition TrashEntry_decode_field :: "u32 \<Rightarrow> Reader \<Rightarrow> TrashEntry \<Rightarrow> (TrashEntry \<times> Reader) res" where
  "TrashEntry_decode_field tag reader message =
     (if tag_no tag = 1 then map_res (\<lambda>v. message\<lparr>TrashEntry_name := Some v\<rparr>) (r_string reader)
      else if tag_no tag = 2 then map_res (\<lambda>v. message\<lparr>TrashEntry_originalPath := Some v\<rparr>) (r_string reader)
      else if tag_no tag = 3 then map_res (\<lambda>v. message\<lparr>TrashEntry_deletionDate := Some v\<rparr>) (r_int64 reader)
      else if tag_no tag = 4 then map_res (\<lambda>v. message\<lparr>TrashEntry_sizeBytes := Some v\<rparr>) (r_int64 reader)
      else skip_field tag reader message)"

definition TrashEntry_decode :: "Reader \<Rightarrow> nat option \<Rightarrow> (TrashEntry \<times> Reader) res" where
  "TrashEntry_decode = decode_with TrashEntry_decode_field TrashEntry_new"

definition TrashEntry_encodeDelimited :: "TrashEntry \<Rightarrow> Writer \<Rightarrow> Writer" where
  "TrashEntry_encodeDelimited message writer = w_ldelim (TrashEntry_encode message writer)"

definition TrashEntry_decodeDelimited :: "Reader \<Rightarrow> (TrashEntry \<times> Reader) res" where
  "TrashEntry_decodeDelimited = get_sub TrashEntry_decode"

definition TrashEntry_bytes :: "TrashEntry \<Rightarrow> u8 list" where
  "TrashEntry_bytes m =
     opt_bytes 10 string_bytes (TrashEntry_name m) @
     opt_bytes 18 string_bytes (TrashEntry_originalPath m) @
     opt_bytes 24 int64_bytes (TrashEntry_deletionDate m) @
     opt_bytes 32 int64_bytes (TrashEntry_sizeBytes m)"

definition TrashEntry_valid :: "TrashEntry \<Rightarrow> bool" where
  "TrashEntry_valid m \<longleftrightarrow> opt_ok string_ok (TrashEntry_name m) \<and>
     opt_ok string_ok (TrashEntry_originalPath m) \<and>
     opt_ok int64_ok (TrashEntry_deletionDate m) \<and>
     opt_ok int64_ok (TrashEntry_sizeBytes m)"

definition TrashEntry_merge :: "TrashEntry \<Rightarrow> TrashEntry \<Rightarrow> TrashEntry" where
  "TrashEntry_merge a m =
     a\<lparr>TrashEntry_name := or_else (TrashEntry_name m) (TrashEntry_name a),
       TrashEntry_originalPath := or_else (TrashEntry_originalPath m) (TrashEntry_originalPath a),
       TrashEntry_deletionDate := or_else (TrashEntry_deletionDate m) (TrashEntry_deletionDate a),
       TrashEntry_sizeBytes := or_else (TrashEntry_sizeBytes m) (TrashEntry_sizeBytes a)\<rparr>"

lemma TrashEntry_emits:
  assumes "TrashEntry_valid m"
  shows "emits (TrashEntry_encode m) (TrashEntry_bytes m)"
  unfolding TrashEntry_encode_def [abs_def] TrashEntry_bytes_def Let_def append_assoc [symmetric]
  by (rule int64.then_emits_opt, rule int64.then_emits_opt, rule string.then_emits_opt,
      rule string.emits_opt)
    (simp_all add: assms [unfolded TrashEntry_valid_def map_ok_def])

lemma TrashEntry_parses:
  assumes "TrashEntry_valid m"
  shows "parses TrashEntry_decode_field (TrashEntry_bytes m) a (TrashEntry_merge a m)"
  unfolding TrashEntry_bytes_def append_assoc [symmetric]
  by (rule parses_to,
      rule int64.then_parses_opt [where get = TrashEntry_sizeBytes and upd = "\<lambda>x m. m\<lparr>TrashEntry_sizeBytes := x\<rparr>"],
      rule int64.then_parses_opt [where get = TrashEntry_deletionDate and upd = "\<lambda>x m. m\<lparr>TrashEntry_deletionDate := x\<rparr>"],
      rule string.then_parses_opt [where get = TrashEntry_originalPath and upd = "\<lambda>x m. m\<lparr>TrashEntry_originalPath := x\<rparr>"],
      rule string.parses_opt [where get = TrashEntry_name and upd = "\<lambda>x m. m\<lparr>TrashEntry_name := x\<rparr>"])
    (simp_all add: assms [unfolded TrashEntry_valid_def map_ok_def] TrashEntry_decode_field_def tag_no_def lens_def
      merge_defs TrashEntry_merge_def)

lemma TrashEntry_merge_new: "TrashEntry_valid m \<Longrightarrow> TrashEntry_merge TrashEntry_new m = m"
  by (simp add: TrashEntry_merge_def TrashEntry_new_def TrashEntry_valid_def map_ok_def js_object_def)

lemma TrashEntry_progress: "progress TrashEntry_decode_field"
  by (rule progressI)
    (simp add: TrashEntry_decode_field_def moves_if_split moves_branches)

interpretation TrashEntry_codec: message_codec TrashEntry_encode TrashEntry_decode TrashEntry_decode_field TrashEntry_new TrashEntry_bytes
  TrashEntry_valid TrashEntry_merge
  by unfold_locales
    (simp_all add: TrashEntry_decode_def TrashEntry_progress TrashEntry_emits TrashEntry_parses TrashEntry_merge_new)

subsection \<open>ListTrashResponse\<close>

record ListTrashResponse =
  ListTrashResponse_entries :: "TrashEntry list"

definition ListTrashResponse_new :: ListTrashResponse where
  "ListTrashResponse_new = \<lparr>ListTrashResponse_entries = []\<rparr>"

definition ListTrashResponse_encode :: "ListTrashResponse \<Rightarrow> Writer \<Rightarrow> Writer" where
  "ListTrashResponse_encode message writer =
     (let writer = put_all 10 (put_sub TrashEntry_encode) (ListTrashResponse_entries message) writer
      in writer)"

definition ListTrashResponse_decode_field :: "u32 \<Rightarrow> Reader \<Rightarrow> ListTrashResponse \<Rightarrow> (ListTrashResponse \<times> Reader) res" where
  "ListTrashResponse_decode_field tag reader message =
     (if tag_no tag = 1 then map_res (\<lambda>v. message\<lparr>ListTrashResponse_entries := ListTrashResponse_entries message @ [v]\<rparr>) (get_sub TrashEntry_decode reader)
      else skip_field tag reader message)"

definition ListTrashResponse_decode :: "Reader \<Rightarrow> nat option \<Rightarrow> (ListTrashResponse \<times> Reader) res" where
  "ListTrashResponse_decode = decode_with ListTrashResponse_decode_field ListTrashResponse_new"

definition ListTrashResponse_encodeDelimited :: "ListTrashResponse \<Rightarrow> Writer \<Rightarrow> Writer" where
  "ListTrashResponse_encodeDelimited message writer = w_ldelim (ListTrashResponse_encode message writer)"

definition ListTrashResponse_decodeDelimited :: "Reader \<Rightarrow> (ListTrashResponse \<times> Reader) res" where
  "ListTrashResponse_decodeDelimited = get_sub ListTrashResponse_decode"

definition ListTrashResponse_bytes :: "ListTrashResponse \<Rightarrow> u8 list" where
  "ListTrashResponse_bytes m =
     all_bytes 10 (\<lambda>v. delim (TrashEntry_bytes v)) (ListTrashResponse_entries m)"

definition ListTrashResponse_valid :: "ListTrashResponse \<Rightarrow> bool" where
  "ListTrashResponse_valid m \<longleftrightarrow> list_all (\<lambda>v. TrashEntry_valid v \<and> length (TrashEntry_bytes v) < 4294967296) (ListTrashResponse_entries m)"

definition ListTrashResponse_merge :: "ListTrashResponse \<Rightarrow> ListTrashResponse \<Rightarrow> ListTrashResponse" where
  "ListTrashResponse_merge a m =
     a\<lparr>ListTrashResponse_entries := ListTrashResponse_entries a @ ListTrashResponse_entries m\<rparr>"

lemma ListTrashResponse_emits:
  assumes "ListTrashResponse_valid m"
  shows "emits (ListTrashResponse_encode m) (ListTrashResponse_bytes m)"
  unfolding ListTrashResponse_encode_def [abs_def] ListTrashResponse_bytes_def Let_def append_assoc [symmetric]
  by (rule TrashEntry_codec.sub.emits_all)
    (simp_all add: assms [unfolded ListTrashResponse_valid_def map_ok_def])

lemma ListTrashResponse_parses:
  assumes "ListTrashResponse_valid m"
  shows "parses ListTrashResponse_decode_field (ListTrashResponse_bytes m) a (ListTrashResponse_merge a m)"
  unfolding ListTrashResponse_bytes_def append_assoc [symmetric]
  by (rule parses_to,
      rule TrashEntry_codec.sub.parses_all [where get = ListTrashResponse_entries and upd = "\<lambda>x m. m\<lparr>ListTrashResponse_entries := x\<rparr>"])
    (simp_all add: assms [unfolded ListTrashResponse_valid_def map_ok_def] ListTrashResponse_decode_field_def tag_no_def lens_def
      merge_defs ListTrashResponse_merge_def)

lemma ListTrashResponse_merge_new: "ListTrashResponse_valid m \<Longrightarrow> ListTrashResponse_merge ListTrashResponse_new m = m"
  by (simp add: ListTrashResponse_merge_def ListTrashResponse_new_def ListTrashResponse_valid_def map_ok_def js_object_def)

lemma ListTrashResponse_progress: "progress ListTrashResponse_decode_field"
  by (rule progressI)
    (simp add: ListTrashResponse_decode_field_def moves_if_split moves_branches TrashEntry_codec.moves_decode)

interpretation ListTrashResponse_codec: message_codec ListTrashResponse_encode ListTrashResponse_decode ListTrashResponse_decode_field ListTrashResponse_new ListTrashResponse_bytes
  ListTrashResponse_valid ListTrashResponse_merge
  by unfold_locales
    (simp_all add: ListTrashResponse_decode_def ListTrashResponse_progress ListTrashResponse_emits ListTrashResponse_parses ListTrashResponse_merge_new)

subsection \<open>RestoreTrashRequest\<close>

record RestoreTrashRequest =
  RestoreTrashRequest_trashName :: "jstring option"

definition RestoreTrashRequest_new :: RestoreTrashRequest where
  "RestoreTrashRequest_new = \<lparr>RestoreTrashRequest_trashName = None\<rparr>"

definition RestoreTrashRequest_encode :: "RestoreTrashRequest \<Rightarrow> Writer \<Rightarrow> Writer" where
  "RestoreTrashRequest_encode message writer =
     (let writer = put_opt 10 w_string (RestoreTrashRequest_trashName message) writer
      in writer)"

definition RestoreTrashRequest_decode_field :: "u32 \<Rightarrow> Reader \<Rightarrow> RestoreTrashRequest \<Rightarrow> (RestoreTrashRequest \<times> Reader) res" where
  "RestoreTrashRequest_decode_field tag reader message =
     (if tag_no tag = 1 then map_res (\<lambda>v. message\<lparr>RestoreTrashRequest_trashName := Some v\<rparr>) (r_string reader)
      else skip_field tag reader message)"

definition RestoreTrashRequest_decode :: "Reader \<Rightarrow> nat option \<Rightarrow> (RestoreTrashRequest \<times> Reader) res" where
  "RestoreTrashRequest_decode = decode_with RestoreTrashRequest_decode_field RestoreTrashRequest_new"

definition RestoreTrashRequest_encodeDelimited :: "RestoreTrashRequest \<Rightarrow> Writer \<Rightarrow> Writer" where
  "RestoreTrashRequest_encodeDelimited message writer = w_ldelim (RestoreTrashRequest_encode message writer)"

definition RestoreTrashRequest_decodeDelimited :: "Reader \<Rightarrow> (RestoreTrashRequest \<times> Reader) res" where
  "RestoreTrashRequest_decodeDelimited = get_sub RestoreTrashRequest_decode"

definition RestoreTrashRequest_bytes :: "RestoreTrashRequest \<Rightarrow> u8 list" where
  "RestoreTrashRequest_bytes m =
     opt_bytes 10 string_bytes (RestoreTrashRequest_trashName m)"

definition RestoreTrashRequest_valid :: "RestoreTrashRequest \<Rightarrow> bool" where
  "RestoreTrashRequest_valid m \<longleftrightarrow> opt_ok string_ok (RestoreTrashRequest_trashName m)"

definition RestoreTrashRequest_merge :: "RestoreTrashRequest \<Rightarrow> RestoreTrashRequest \<Rightarrow> RestoreTrashRequest" where
  "RestoreTrashRequest_merge a m =
     a\<lparr>RestoreTrashRequest_trashName := or_else (RestoreTrashRequest_trashName m) (RestoreTrashRequest_trashName a)\<rparr>"

lemma RestoreTrashRequest_emits:
  assumes "RestoreTrashRequest_valid m"
  shows "emits (RestoreTrashRequest_encode m) (RestoreTrashRequest_bytes m)"
  unfolding RestoreTrashRequest_encode_def [abs_def] RestoreTrashRequest_bytes_def Let_def append_assoc [symmetric]
  by (rule string.emits_opt)
    (simp_all add: assms [unfolded RestoreTrashRequest_valid_def map_ok_def])

lemma RestoreTrashRequest_parses:
  assumes "RestoreTrashRequest_valid m"
  shows "parses RestoreTrashRequest_decode_field (RestoreTrashRequest_bytes m) a (RestoreTrashRequest_merge a m)"
  unfolding RestoreTrashRequest_bytes_def append_assoc [symmetric]
  by (rule parses_to,
      rule string.parses_opt [where get = RestoreTrashRequest_trashName and upd = "\<lambda>x m. m\<lparr>RestoreTrashRequest_trashName := x\<rparr>"])
    (simp_all add: assms [unfolded RestoreTrashRequest_valid_def map_ok_def] RestoreTrashRequest_decode_field_def tag_no_def lens_def
      merge_defs RestoreTrashRequest_merge_def)

lemma RestoreTrashRequest_merge_new: "RestoreTrashRequest_valid m \<Longrightarrow> RestoreTrashRequest_merge RestoreTrashRequest_new m = m"
  by (simp add: RestoreTrashRequest_merge_def RestoreTrashRequest_new_def RestoreTrashRequest_valid_def map_ok_def js_object_def)

lemma RestoreTrashRequest_progress: "progress RestoreTrashRequest_decode_field"
  by (rule progressI)
    (simp add: RestoreTrashRequest_decode_field_def moves_if_split moves_branches)

interpretation RestoreTrashRequest_codec: message_codec RestoreTrashRequest_encode RestoreTrashRequest_decode RestoreTrashRequest_decode_field RestoreTrashRequest_new RestoreTrashRequest_bytes
  RestoreTrashRequest_valid RestoreTrashRequest_merge
  by unfold_locales
    (simp_all add: RestoreTrashRequest_decode_def RestoreTrashRequest_progress RestoreTrashRequest_emits RestoreTrashRequest_parses RestoreTrashRequest_merge_new)

subsection \<open>RestoreTrashResponse\<close>

datatype RestoreTrashResponse = RestoreTrashResponse_new

definition RestoreTrashResponse_encode :: "RestoreTrashResponse \<Rightarrow> Writer \<Rightarrow> Writer" where
  "RestoreTrashResponse_encode message writer = writer"

definition RestoreTrashResponse_decode_field :: "u32 \<Rightarrow> Reader \<Rightarrow> RestoreTrashResponse \<Rightarrow> (RestoreTrashResponse \<times> Reader) res" where
  "RestoreTrashResponse_decode_field tag reader message = skip_field tag reader message"

definition RestoreTrashResponse_decode :: "Reader \<Rightarrow> nat option \<Rightarrow> (RestoreTrashResponse \<times> Reader) res" where
  "RestoreTrashResponse_decode = decode_with RestoreTrashResponse_decode_field RestoreTrashResponse_new"

definition RestoreTrashResponse_encodeDelimited :: "RestoreTrashResponse \<Rightarrow> Writer \<Rightarrow> Writer" where
  "RestoreTrashResponse_encodeDelimited message writer = w_ldelim (RestoreTrashResponse_encode message writer)"

definition RestoreTrashResponse_decodeDelimited :: "Reader \<Rightarrow> (RestoreTrashResponse \<times> Reader) res" where
  "RestoreTrashResponse_decodeDelimited = get_sub RestoreTrashResponse_decode"

definition RestoreTrashResponse_bytes :: "RestoreTrashResponse \<Rightarrow> u8 list" where
  "RestoreTrashResponse_bytes m = []"

definition RestoreTrashResponse_valid :: "RestoreTrashResponse \<Rightarrow> bool" where
  "RestoreTrashResponse_valid m \<longleftrightarrow> True"

definition RestoreTrashResponse_merge :: "RestoreTrashResponse \<Rightarrow> RestoreTrashResponse \<Rightarrow> RestoreTrashResponse" where
  "RestoreTrashResponse_merge a m = m"

lemma RestoreTrashResponse_emits: "emits (RestoreTrashResponse_encode m) (RestoreTrashResponse_bytes m)"
  by (simp add: RestoreTrashResponse_encode_def [abs_def] RestoreTrashResponse_bytes_def emits_id)

lemma RestoreTrashResponse_parses: "parses RestoreTrashResponse_decode_field (RestoreTrashResponse_bytes m) a (RestoreTrashResponse_merge a m)"
  by (cases a; cases m) (simp add: RestoreTrashResponse_bytes_def RestoreTrashResponse_merge_def parses_Nil)

lemma RestoreTrashResponse_merge_new: "RestoreTrashResponse_valid m \<Longrightarrow> RestoreTrashResponse_merge RestoreTrashResponse_new m = m"
  by (simp add: RestoreTrashResponse_merge_def)

lemma RestoreTrashResponse_progress: "progress RestoreTrashResponse_decode_field"
  by (rule progressI)
    (simp add: RestoreTrashResponse_decode_field_def moves_if_split moves_branches)

interpretation RestoreTrashResponse_codec: message_codec RestoreTrashResponse_encode RestoreTrashResponse_decode RestoreTrashResponse_decode_field RestoreTrashResponse_new RestoreTrashResponse_bytes
  RestoreTrashResponse_valid RestoreTrashResponse_merge
  by unfold_locales
    (simp_all add: RestoreTrashResponse_decode_def RestoreTrashResponse_progress RestoreTrashResponse_emits RestoreTrashResponse_parses RestoreTrashResponse_merge_new)

subsection \<open>EmptyTrashRequest\<close>

datatype EmptyTrashRequest = EmptyTrashRequest_new

definition EmptyTrashRequest_encode :: "EmptyTrashRequest \<Rightarrow> Writer \<Rightarrow> Writer" where
  "EmptyTrashRequest_encode message writer = writer"

definition EmptyTrashRequest_decode_field :: "u32 \<Rightarrow> Reader \<Rightarrow> EmptyTrashRequest \<Rightarrow> (EmptyTrashRequest \<times> Reader) res" where
  "EmptyTrashRequest_decode_field tag reader message = skip_field tag reader message"

definition EmptyTrashRequest_decode :: "Reader \<Rightarrow> nat option \<Rightarrow> (EmptyTrashRequest \<times> Reader) res" where
  "EmptyTrashRequest_decode = decode_with EmptyTrashRequest_decode_field EmptyTrashRequest_new"

definition EmptyTrashRequest_encodeDelimited :: "EmptyTrashRequest \<Rightarrow> Writer \<Rightarrow> Writer" where
  "EmptyTrashRequest_encodeDelimited message writer = w_ldelim (EmptyTrashRequest_encode message writer)"

definition EmptyTrashRequest_decodeDelimited :: "Reader \<Rightarrow> (EmptyTrashRequest \<times> Reader) res" where
  "EmptyTrashRequest_decodeDelimited = get_sub EmptyTrashRequest_decode"

definition EmptyTrashRequest_bytes :: "EmptyTrashRequest \<Rightarrow> u8 list" where
  "EmptyTrashRequest_bytes m = []"

definition EmptyTrashRequest_valid :: "EmptyTrashRequest \<Rightarrow> bool" where
  "EmptyTrashRequest_valid m \<longleftrightarrow> True"

definition EmptyTrashRequest_merge :: "EmptyTrashRequest \<Rightarrow> EmptyTrashRequest \<Rightarrow> EmptyTrashRequest" where
  "EmptyTrashRequest_merge a m = m"

lemma EmptyTrashRequest_emits: "emits (EmptyTrashRequest_encode m) (EmptyTrashRequest_bytes m)"
  by (simp add: EmptyTrashRequest_encode_def [abs_def] EmptyTrashRequest_bytes_def emits_id)

lemma EmptyTrashRequest_parses: "parses EmptyTrashRequest_decode_field (EmptyTrashRequest_bytes m) a (EmptyTrashRequest_merge a m)"
  by (cases a; cases m) (simp add: EmptyTrashRequest_bytes_def EmptyTrashRequest_merge_def parses_Nil)

lemma EmptyTrashRequest_merge_new: "EmptyTrashRequest_valid m \<Longrightarrow> EmptyTrashRequest_merge EmptyTrashRequest_new m = m"
  by (simp add: EmptyTrashRequest_merge_def)

lemma EmptyTrashRequest_progress: "progress EmptyTrashRequest_decode_field"
  by (rule progressI)
    (simp add: EmptyTrashRequest_decode_field_def moves_if_split moves_branches)

interpretation EmptyTrashRequest_codec: message_codec EmptyTrashRequest_encode EmptyTrashRequest_decode EmptyTrashRequest_decode_field EmptyTrashRequest_new EmptyTrashRequest_bytes
  EmptyTrashRequest_valid EmptyTrashRequest_merge
  by unfold_locales
    (simp_all add: EmptyTrashRequest_decode_def EmptyTrashRequest_progress EmptyTrashRequest_emits EmptyTrashRequest_parses EmptyTrashRequest_merge_new)

subsection \<open>EmptyTrashResponse\<close>

datatype EmptyTrashResponse = EmptyTrashResponse_new

definition EmptyTrashResponse_encode :: "EmptyTrashResponse \<Rightarrow> Writer \<Rightarrow> Writer" where
  "EmptyTrashResponse_encode message writer = writer"

definition EmptyTrashResponse_decode_field :: "u32 \<Rightarrow> Reader \<Rightarrow> EmptyTrashResponse \<Rightarrow> (EmptyTrashResponse \<times> Reader) res" where
  "EmptyTrashResponse_decode_field tag reader message = skip_field tag reader message"

definition EmptyTrashResponse_decode :: "Reader \<Rightarrow> nat option \<Rightarrow> (EmptyTrashResponse \<times> Reader) res" where
  "EmptyTrashResponse_decode = decode_with EmptyTrashResponse_decode_field EmptyTrashResponse_new"

definition EmptyTrashResponse_encodeDelimited :: "EmptyTrashResponse \<Rightarrow> Writer \<Rightarrow> Writer" where
  "EmptyTrashResponse_encodeDelimited message writer = w_ldelim (EmptyTrashResponse_encode message writer)"

definition EmptyTrashResponse_decodeDelimited :: "Reader \<Rightarrow> (EmptyTrashResponse \<times> Reader) res" where
  "EmptyTrashResponse_decodeDelimited = get_sub EmptyTrashResponse_decode"

definition EmptyTrashResponse_bytes :: "EmptyTrashResponse \<Rightarrow> u8 list" where
  "EmptyTrashResponse_bytes m = []"

definition EmptyTrashResponse_valid :: "EmptyTrashResponse \<Rightarrow> bool" where
  "EmptyTrashResponse_valid m \<longleftrightarrow> True"

definition EmptyTrashResponse_merge :: "EmptyTrashResponse \<Rightarrow> EmptyTrashResponse \<Rightarrow> EmptyTrashResponse" where
  "EmptyTrashResponse_merge a m = m"

lemma EmptyTrashResponse_emits: "emits (EmptyTrashResponse_encode m) (EmptyTrashResponse_bytes m)"
  by (simp add: EmptyTrashResponse_encode_def [abs_def] EmptyTrashResponse_bytes_def emits_id)

lemma EmptyTrashResponse_parses: "parses EmptyTrashResponse_decode_field (EmptyTrashResponse_bytes m) a (EmptyTrashResponse_merge a m)"
  by (cases a; cases m) (simp add: EmptyTrashResponse_bytes_def EmptyTrashResponse_merge_def parses_Nil)

lemma EmptyTrashResponse_merge_new: "EmptyTrashResponse_valid m \<Longrightarrow> EmptyTrashResponse_merge EmptyTrashResponse_new m = m"
  by (simp add: EmptyTrashResponse_merge_def)

lemma EmptyTrashResponse_progress: "progress EmptyTrashResponse_decode_field"
  by (rule progressI)
    (simp add: EmptyTrashResponse_decode_field_def moves_if_split moves_branches)

interpretation EmptyTrashResponse_codec: message_codec EmptyTrashResponse_encode EmptyTrashResponse_decode EmptyTrashResponse_decode_field EmptyTrashResponse_new EmptyTrashResponse_bytes
  EmptyTrashResponse_valid EmptyTrashResponse_merge
  by unfold_locales
    (simp_all add: EmptyTrashResponse_decode_def EmptyTrashResponse_progress EmptyTrashResponse_emits EmptyTrashResponse_parses EmptyTrashResponse_merge_new)

end
