(* ===== verification/Desktop.thy ===== *)
theory Desktop
  imports Codec
begin

text \<open>
  The messages of the desktop integration: places, mounts, applications, actions, badges,
  thumbnails and the configuration of the browser.

  A message is a record with one component per field of its class: an \<open>option\<close> for a
  singular field (\<open>None\<close> while the object has no property of its own and reads the default
  of its prototype), a list for a repeated one, the entries of the object for a map; a class without
  fields is a type with one value. \<open>X_new\<close> is what the constructor makes, \<open>X_encode\<close>
  and \<open>X_decode\<close> are the methods, \<open>X_decode_field\<close> the switch of \<open>X.decode\<close>. The
  specification is \<open>X_bytes\<close>, the bytes on the wire, \<open>X_valid\<close>, the values the types of
  the fields have, and \<open>X_merge a m\<close>, the message \<open>a\<close> after the bytes of \<open>m\<close> have
  been decoded into it.
\<close>

subsection \<open>ListPlacesRequest\<close>

datatype ListPlacesRequest = ListPlacesRequest_new

definition ListPlacesRequest_encode :: "ListPlacesRequest \<Rightarrow> Writer \<Rightarrow> Writer" where
  "ListPlacesRequest_encode message writer = writer"

definition ListPlacesRequest_decode_field :: "u32 \<Rightarrow> Reader \<Rightarrow> ListPlacesRequest \<Rightarrow> (ListPlacesRequest \<times> Reader) res" where
  "ListPlacesRequest_decode_field tag reader message = skip_field tag reader message"

definition ListPlacesRequest_decode :: "Reader \<Rightarrow> nat option \<Rightarrow> (ListPlacesRequest \<times> Reader) res" where
  "ListPlacesRequest_decode = decode_with ListPlacesRequest_decode_field ListPlacesRequest_new"

definition ListPlacesRequest_encodeDelimited :: "ListPlacesRequest \<Rightarrow> Writer \<Rightarrow> Writer" where
  "ListPlacesRequest_encodeDelimited message writer = w_ldelim (ListPlacesRequest_encode message writer)"

definition ListPlacesRequest_decodeDelimited :: "Reader \<Rightarrow> (ListPlacesRequest \<times> Reader) res" where
  "ListPlacesRequest_decodeDelimited = get_sub ListPlacesRequest_decode"

definition ListPlacesRequest_bytes :: "ListPlacesRequest \<Rightarrow> u8 list" where
  "ListPlacesRequest_bytes m = []"

definition ListPlacesRequest_valid :: "ListPlacesRequest \<Rightarrow> bool" where
  "ListPlacesRequest_valid m \<longleftrightarrow> True"

definition ListPlacesRequest_merge :: "ListPlacesRequest \<Rightarrow> ListPlacesRequest \<Rightarrow> ListPlacesRequest" where
  "ListPlacesRequest_merge a m = m"

lemma ListPlacesRequest_emits: "emits (ListPlacesRequest_encode m) (ListPlacesRequest_bytes m)"
  by (simp add: ListPlacesRequest_encode_def [abs_def] ListPlacesRequest_bytes_def emits_id)

lemma ListPlacesRequest_parses: "parses ListPlacesRequest_decode_field (ListPlacesRequest_bytes m) a (ListPlacesRequest_merge a m)"
  by (cases a; cases m) (simp add: ListPlacesRequest_bytes_def ListPlacesRequest_merge_def parses_Nil)

lemma ListPlacesRequest_merge_new: "ListPlacesRequest_valid m \<Longrightarrow> ListPlacesRequest_merge ListPlacesRequest_new m = m"
  by (simp add: ListPlacesRequest_merge_def)

lemma ListPlacesRequest_progress: "progress ListPlacesRequest_decode_field"
  by (rule progressI)
    (simp add: ListPlacesRequest_decode_field_def moves_if_split moves_branches)

interpretation ListPlacesRequest_codec: message_codec ListPlacesRequest_encode ListPlacesRequest_decode ListPlacesRequest_decode_field ListPlacesRequest_new ListPlacesRequest_bytes
  ListPlacesRequest_valid ListPlacesRequest_merge
  by unfold_locales
    (simp_all add: ListPlacesRequest_decode_def ListPlacesRequest_progress ListPlacesRequest_emits ListPlacesRequest_parses ListPlacesRequest_merge_new)

subsection \<open>PlaceEntry\<close>

record PlaceEntry =
  PlaceEntry_name :: "jstring option"
  PlaceEntry_path :: "jstring option"
  PlaceEntry_pinned :: "bool option"
  PlaceEntry_iconName :: "jstring option"

definition PlaceEntry_new :: PlaceEntry where
  "PlaceEntry_new = \<lparr>PlaceEntry_name = None, PlaceEntry_path = None, PlaceEntry_pinned = None,
     PlaceEntry_iconName = None\<rparr>"

definition PlaceEntry_encode :: "PlaceEntry \<Rightarrow> Writer \<Rightarrow> Writer" where
  "PlaceEntry_encode message writer =
     (let writer = put_opt 10 w_string (PlaceEntry_name message) writer;
          writer = put_opt 18 w_string (PlaceEntry_path message) writer;
          writer = put_opt 24 w_bool (PlaceEntry_pinned message) writer;
          writer = put_opt 34 w_string (PlaceEntry_iconName message) writer
      in writer)"

definition PlaceEntry_decode_field :: "u32 \<Rightarrow> Reader \<Rightarrow> PlaceEntry \<Rightarrow> (PlaceEntry \<times> Reader) res" where
  "PlaceEntry_decode_field tag reader message =
     (if tag_no tag = 1 then map_res (\<lambda>v. message\<lparr>PlaceEntry_name := Some v\<rparr>) (r_string reader)
      else if tag_no tag = 2 then map_res (\<lambda>v. message\<lparr>PlaceEntry_path := Some v\<rparr>) (r_string reader)
      else if tag_no tag = 3 then map_res (\<lambda>v. message\<lparr>PlaceEntry_pinned := Some v\<rparr>) (r_bool reader)
      else if tag_no tag = 4 then map_res (\<lambda>v. message\<lparr>PlaceEntry_iconName := Some v\<rparr>) (r_string reader)
      else skip_field tag reader message)"

definition PlaceEntry_decode :: "Reader \<Rightarrow> nat option \<Rightarrow> (PlaceEntry \<times> Reader) res" where
  "PlaceEntry_decode = decode_with PlaceEntry_decode_field PlaceEntry_new"

definition PlaceEntry_encodeDelimited :: "PlaceEntry \<Rightarrow> Writer \<Rightarrow> Writer" where
  "PlaceEntry_encodeDelimited message writer = w_ldelim (PlaceEntry_encode message writer)"

definition PlaceEntry_decodeDelimited :: "Reader \<Rightarrow> (PlaceEntry \<times> Reader) res" where
  "PlaceEntry_decodeDelimited = get_sub PlaceEntry_decode"

definition PlaceEntry_bytes :: "PlaceEntry \<Rightarrow> u8 list" where
  "PlaceEntry_bytes m =
     opt_bytes 10 string_bytes (PlaceEntry_name m) @
     opt_bytes 18 string_bytes (PlaceEntry_path m) @
     opt_bytes 24 bool_bytes (PlaceEntry_pinned m) @
     opt_bytes 34 string_bytes (PlaceEntry_iconName m)"

definition PlaceEntry_valid :: "PlaceEntry \<Rightarrow> bool" where
  "PlaceEntry_valid m \<longleftrightarrow> opt_ok string_ok (PlaceEntry_name m) \<and>
     opt_ok string_ok (PlaceEntry_path m) \<and>
     opt_ok string_ok (PlaceEntry_iconName m)"

definition PlaceEntry_merge :: "PlaceEntry \<Rightarrow> PlaceEntry \<Rightarrow> PlaceEntry" where
  "PlaceEntry_merge a m =
     a\<lparr>PlaceEntry_name := or_else (PlaceEntry_name m) (PlaceEntry_name a),
       PlaceEntry_path := or_else (PlaceEntry_path m) (PlaceEntry_path a),
       PlaceEntry_pinned := or_else (PlaceEntry_pinned m) (PlaceEntry_pinned a),
       PlaceEntry_iconName := or_else (PlaceEntry_iconName m) (PlaceEntry_iconName a)\<rparr>"

lemma PlaceEntry_emits:
  assumes "PlaceEntry_valid m"
  shows "emits (PlaceEntry_encode m) (PlaceEntry_bytes m)"
  unfolding PlaceEntry_encode_def [abs_def] PlaceEntry_bytes_def Let_def append_assoc [symmetric]
  by (rule string.then_emits_opt, rule bool.then_emits_opt, rule string.then_emits_opt,
      rule string.emits_opt)
    (simp_all add: assms [unfolded PlaceEntry_valid_def map_ok_def])

lemma PlaceEntry_parses:
  assumes "PlaceEntry_valid m"
  shows "parses PlaceEntry_decode_field (PlaceEntry_bytes m) a (PlaceEntry_merge a m)"
  unfolding PlaceEntry_bytes_def append_assoc [symmetric]
  by (rule parses_to,
      rule string.then_parses_opt [where get = PlaceEntry_iconName and upd = "\<lambda>x m. m\<lparr>PlaceEntry_iconName := x\<rparr>"],
      rule bool.then_parses_opt [where get = PlaceEntry_pinned and upd = "\<lambda>x m. m\<lparr>PlaceEntry_pinned := x\<rparr>"],
      rule string.then_parses_opt [where get = PlaceEntry_path and upd = "\<lambda>x m. m\<lparr>PlaceEntry_path := x\<rparr>"],
      rule string.parses_opt [where get = PlaceEntry_name and upd = "\<lambda>x m. m\<lparr>PlaceEntry_name := x\<rparr>"])
    (simp_all add: assms [unfolded PlaceEntry_valid_def map_ok_def] PlaceEntry_decode_field_def tag_no_def lens_def
      merge_defs PlaceEntry_merge_def)

lemma PlaceEntry_merge_new: "PlaceEntry_valid m \<Longrightarrow> PlaceEntry_merge PlaceEntry_new m = m"
  by (simp add: PlaceEntry_merge_def PlaceEntry_new_def PlaceEntry_valid_def map_ok_def js_object_def)

lemma PlaceEntry_progress: "progress PlaceEntry_decode_field"
  by (rule progressI)
    (simp add: PlaceEntry_decode_field_def moves_if_split moves_branches)

interpretation PlaceEntry_codec: message_codec PlaceEntry_encode PlaceEntry_decode PlaceEntry_decode_field PlaceEntry_new PlaceEntry_bytes
  PlaceEntry_valid PlaceEntry_merge
  by unfold_locales
    (simp_all add: PlaceEntry_decode_def PlaceEntry_progress PlaceEntry_emits PlaceEntry_parses PlaceEntry_merge_new)

subsection \<open>ListPlacesResponse\<close>

record ListPlacesResponse =
  ListPlacesResponse_places :: "PlaceEntry list"

definition ListPlacesResponse_new :: ListPlacesResponse where
  "ListPlacesResponse_new = \<lparr>ListPlacesResponse_places = []\<rparr>"

definition ListPlacesResponse_encode :: "ListPlacesResponse \<Rightarrow> Writer \<Rightarrow> Writer" where
  "ListPlacesResponse_encode message writer =
     (let writer = put_all 10 (put_sub PlaceEntry_encode) (ListPlacesResponse_places message) writer
      in writer)"

definition ListPlacesResponse_decode_field :: "u32 \<Rightarrow> Reader \<Rightarrow> ListPlacesResponse \<Rightarrow> (ListPlacesResponse \<times> Reader) res" where
  "ListPlacesResponse_decode_field tag reader message =
     (if tag_no tag = 1 then map_res (\<lambda>v. message\<lparr>ListPlacesResponse_places := ListPlacesResponse_places message @ [v]\<rparr>) (get_sub PlaceEntry_decode reader)
      else skip_field tag reader message)"

definition ListPlacesResponse_decode :: "Reader \<Rightarrow> nat option \<Rightarrow> (ListPlacesResponse \<times> Reader) res" where
  "ListPlacesResponse_decode = decode_with ListPlacesResponse_decode_field ListPlacesResponse_new"

definition ListPlacesResponse_encodeDelimited :: "ListPlacesResponse \<Rightarrow> Writer \<Rightarrow> Writer" where
  "ListPlacesResponse_encodeDelimited message writer = w_ldelim (ListPlacesResponse_encode message writer)"

definition ListPlacesResponse_decodeDelimited :: "Reader \<Rightarrow> (ListPlacesResponse \<times> Reader) res" where
  "ListPlacesResponse_decodeDelimited = get_sub ListPlacesResponse_decode"

definition ListPlacesResponse_bytes :: "ListPlacesResponse \<Rightarrow> u8 list" where
  "ListPlacesResponse_bytes m =
     all_bytes 10 (\<lambda>v. delim (PlaceEntry_bytes v)) (ListPlacesResponse_places m)"

definition ListPlacesResponse_valid :: "ListPlacesResponse \<Rightarrow> bool" where
  "ListPlacesResponse_valid m \<longleftrightarrow> list_all (\<lambda>v. PlaceEntry_valid v \<and> length (PlaceEntry_bytes v) < 4294967296) (ListPlacesResponse_places m)"

definition ListPlacesResponse_merge :: "ListPlacesResponse \<Rightarrow> ListPlacesResponse \<Rightarrow> ListPlacesResponse" where
  "ListPlacesResponse_merge a m =
     a\<lparr>ListPlacesResponse_places := ListPlacesResponse_places a @ ListPlacesResponse_places m\<rparr>"

lemma ListPlacesResponse_emits:
  assumes "ListPlacesResponse_valid m"
  shows "emits (ListPlacesResponse_encode m) (ListPlacesResponse_bytes m)"
  unfolding ListPlacesResponse_encode_def [abs_def] ListPlacesResponse_bytes_def Let_def append_assoc [symmetric]
  by (rule PlaceEntry_codec.sub.emits_all)
    (simp_all add: assms [unfolded ListPlacesResponse_valid_def map_ok_def])

lemma ListPlacesResponse_parses:
  assumes "ListPlacesResponse_valid m"
  shows "parses ListPlacesResponse_decode_field (ListPlacesResponse_bytes m) a (ListPlacesResponse_merge a m)"
  unfolding ListPlacesResponse_bytes_def append_assoc [symmetric]
  by (rule parses_to,
      rule PlaceEntry_codec.sub.parses_all [where get = ListPlacesResponse_places and upd = "\<lambda>x m. m\<lparr>ListPlacesResponse_places := x\<rparr>"])
    (simp_all add: assms [unfolded ListPlacesResponse_valid_def map_ok_def] ListPlacesResponse_decode_field_def tag_no_def lens_def
      merge_defs ListPlacesResponse_merge_def)

lemma ListPlacesResponse_merge_new: "ListPlacesResponse_valid m \<Longrightarrow> ListPlacesResponse_merge ListPlacesResponse_new m = m"
  by (simp add: ListPlacesResponse_merge_def ListPlacesResponse_new_def ListPlacesResponse_valid_def map_ok_def js_object_def)

lemma ListPlacesResponse_progress: "progress ListPlacesResponse_decode_field"
  by (rule progressI)
    (simp add: ListPlacesResponse_decode_field_def moves_if_split moves_branches PlaceEntry_codec.moves_decode)

interpretation ListPlacesResponse_codec: message_codec ListPlacesResponse_encode ListPlacesResponse_decode ListPlacesResponse_decode_field ListPlacesResponse_new ListPlacesResponse_bytes
  ListPlacesResponse_valid ListPlacesResponse_merge
  by unfold_locales
    (simp_all add: ListPlacesResponse_decode_def ListPlacesResponse_progress ListPlacesResponse_emits ListPlacesResponse_parses ListPlacesResponse_merge_new)

subsection \<open>PinPlaceRequest\<close>

record PinPlaceRequest =
  PinPlaceRequest_name :: "jstring option"
  PinPlaceRequest_path :: "jstring option"
  PinPlaceRequest_iconName :: "jstring option"

definition PinPlaceRequest_new :: PinPlaceRequest where
  "PinPlaceRequest_new = \<lparr>PinPlaceRequest_name = None, PinPlaceRequest_path = None, PinPlaceRequest_iconName =
     None\<rparr>"

definition PinPlaceRequest_encode :: "PinPlaceRequest \<Rightarrow> Writer \<Rightarrow> Writer" where
  "PinPlaceRequest_encode message writer =
     (let writer = put_opt 10 w_string (PinPlaceRequest_name message) writer;
          writer = put_opt 18 w_string (PinPlaceRequest_path message) writer;
          writer = put_opt 26 w_string (PinPlaceRequest_iconName message) writer
      in writer)"

definition PinPlaceRequest_decode_field :: "u32 \<Rightarrow> Reader \<Rightarrow> PinPlaceRequest \<Rightarrow> (PinPlaceRequest \<times> Reader) res" where
  "PinPlaceRequest_decode_field tag reader message =
     (if tag_no tag = 1 then map_res (\<lambda>v. message\<lparr>PinPlaceRequest_name := Some v\<rparr>) (r_string reader)
      else if tag_no tag = 2 then map_res (\<lambda>v. message\<lparr>PinPlaceRequest_path := Some v\<rparr>) (r_string reader)
      else if tag_no tag = 3 then map_res (\<lambda>v. message\<lparr>PinPlaceRequest_iconName := Some v\<rparr>) (r_string reader)
      else skip_field tag reader message)"

definition PinPlaceRequest_decode :: "Reader \<Rightarrow> nat option \<Rightarrow> (PinPlaceRequest \<times> Reader) res" where
  "PinPlaceRequest_decode = decode_with PinPlaceRequest_decode_field PinPlaceRequest_new"

definition PinPlaceRequest_encodeDelimited :: "PinPlaceRequest \<Rightarrow> Writer \<Rightarrow> Writer" where
  "PinPlaceRequest_encodeDelimited message writer = w_ldelim (PinPlaceRequest_encode message writer)"

definition PinPlaceRequest_decodeDelimited :: "Reader \<Rightarrow> (PinPlaceRequest \<times> Reader) res" where
  "PinPlaceRequest_decodeDelimited = get_sub PinPlaceRequest_decode"

definition PinPlaceRequest_bytes :: "PinPlaceRequest \<Rightarrow> u8 list" where
  "PinPlaceRequest_bytes m =
     opt_bytes 10 string_bytes (PinPlaceRequest_name m) @
     opt_bytes 18 string_bytes (PinPlaceRequest_path m) @
     opt_bytes 26 string_bytes (PinPlaceRequest_iconName m)"

definition PinPlaceRequest_valid :: "PinPlaceRequest \<Rightarrow> bool" where
  "PinPlaceRequest_valid m \<longleftrightarrow> opt_ok string_ok (PinPlaceRequest_name m) \<and>
     opt_ok string_ok (PinPlaceRequest_path m) \<and>
     opt_ok string_ok (PinPlaceRequest_iconName m)"

definition PinPlaceRequest_merge :: "PinPlaceRequest \<Rightarrow> PinPlaceRequest \<Rightarrow> PinPlaceRequest" where
  "PinPlaceRequest_merge a m =
     a\<lparr>PinPlaceRequest_name := or_else (PinPlaceRequest_name m) (PinPlaceRequest_name a),
       PinPlaceRequest_path := or_else (PinPlaceRequest_path m) (PinPlaceRequest_path a),
       PinPlaceRequest_iconName := or_else (PinPlaceRequest_iconName m) (PinPlaceRequest_iconName a)\<rparr>"

lemma PinPlaceRequest_emits:
  assumes "PinPlaceRequest_valid m"
  shows "emits (PinPlaceRequest_encode m) (PinPlaceRequest_bytes m)"
  unfolding PinPlaceRequest_encode_def [abs_def] PinPlaceRequest_bytes_def Let_def append_assoc [symmetric]
  by (rule string.then_emits_opt, rule string.then_emits_opt, rule string.emits_opt)
    (simp_all add: assms [unfolded PinPlaceRequest_valid_def map_ok_def])

lemma PinPlaceRequest_parses:
  assumes "PinPlaceRequest_valid m"
  shows "parses PinPlaceRequest_decode_field (PinPlaceRequest_bytes m) a (PinPlaceRequest_merge a m)"
  unfolding PinPlaceRequest_bytes_def append_assoc [symmetric]
  by (rule parses_to,
      rule string.then_parses_opt [where get = PinPlaceRequest_iconName and upd = "\<lambda>x m. m\<lparr>PinPlaceRequest_iconName := x\<rparr>"],
      rule string.then_parses_opt [where get = PinPlaceRequest_path and upd = "\<lambda>x m. m\<lparr>PinPlaceRequest_path := x\<rparr>"],
      rule string.parses_opt [where get = PinPlaceRequest_name and upd = "\<lambda>x m. m\<lparr>PinPlaceRequest_name := x\<rparr>"])
    (simp_all add: assms [unfolded PinPlaceRequest_valid_def map_ok_def] PinPlaceRequest_decode_field_def tag_no_def lens_def
      merge_defs PinPlaceRequest_merge_def)

lemma PinPlaceRequest_merge_new: "PinPlaceRequest_valid m \<Longrightarrow> PinPlaceRequest_merge PinPlaceRequest_new m = m"
  by (simp add: PinPlaceRequest_merge_def PinPlaceRequest_new_def PinPlaceRequest_valid_def map_ok_def js_object_def)

lemma PinPlaceRequest_progress: "progress PinPlaceRequest_decode_field"
  by (rule progressI)
    (simp add: PinPlaceRequest_decode_field_def moves_if_split moves_branches)

interpretation PinPlaceRequest_codec: message_codec PinPlaceRequest_encode PinPlaceRequest_decode PinPlaceRequest_decode_field PinPlaceRequest_new PinPlaceRequest_bytes
  PinPlaceRequest_valid PinPlaceRequest_merge
  by unfold_locales
    (simp_all add: PinPlaceRequest_decode_def PinPlaceRequest_progress PinPlaceRequest_emits PinPlaceRequest_parses PinPlaceRequest_merge_new)

subsection \<open>PinPlaceResponse\<close>

datatype PinPlaceResponse = PinPlaceResponse_new

definition PinPlaceResponse_encode :: "PinPlaceResponse \<Rightarrow> Writer \<Rightarrow> Writer" where
  "PinPlaceResponse_encode message writer = writer"

definition PinPlaceResponse_decode_field :: "u32 \<Rightarrow> Reader \<Rightarrow> PinPlaceResponse \<Rightarrow> (PinPlaceResponse \<times> Reader) res" where
  "PinPlaceResponse_decode_field tag reader message = skip_field tag reader message"

definition PinPlaceResponse_decode :: "Reader \<Rightarrow> nat option \<Rightarrow> (PinPlaceResponse \<times> Reader) res" where
  "PinPlaceResponse_decode = decode_with PinPlaceResponse_decode_field PinPlaceResponse_new"

definition PinPlaceResponse_encodeDelimited :: "PinPlaceResponse \<Rightarrow> Writer \<Rightarrow> Writer" where
  "PinPlaceResponse_encodeDelimited message writer = w_ldelim (PinPlaceResponse_encode message writer)"

definition PinPlaceResponse_decodeDelimited :: "Reader \<Rightarrow> (PinPlaceResponse \<times> Reader) res" where
  "PinPlaceResponse_decodeDelimited = get_sub PinPlaceResponse_decode"

definition PinPlaceResponse_bytes :: "PinPlaceResponse \<Rightarrow> u8 list" where
  "PinPlaceResponse_bytes m = []"

definition PinPlaceResponse_valid :: "PinPlaceResponse \<Rightarrow> bool" where
  "PinPlaceResponse_valid m \<longleftrightarrow> True"

definition PinPlaceResponse_merge :: "PinPlaceResponse \<Rightarrow> PinPlaceResponse \<Rightarrow> PinPlaceResponse" where
  "PinPlaceResponse_merge a m = m"

lemma PinPlaceResponse_emits: "emits (PinPlaceResponse_encode m) (PinPlaceResponse_bytes m)"
  by (simp add: PinPlaceResponse_encode_def [abs_def] PinPlaceResponse_bytes_def emits_id)

lemma PinPlaceResponse_parses: "parses PinPlaceResponse_decode_field (PinPlaceResponse_bytes m) a (PinPlaceResponse_merge a m)"
  by (cases a; cases m) (simp add: PinPlaceResponse_bytes_def PinPlaceResponse_merge_def parses_Nil)

lemma PinPlaceResponse_merge_new: "PinPlaceResponse_valid m \<Longrightarrow> PinPlaceResponse_merge PinPlaceResponse_new m = m"
  by (simp add: PinPlaceResponse_merge_def)

lemma PinPlaceResponse_progress: "progress PinPlaceResponse_decode_field"
  by (rule progressI)
    (simp add: PinPlaceResponse_decode_field_def moves_if_split moves_branches)

interpretation PinPlaceResponse_codec: message_codec PinPlaceResponse_encode PinPlaceResponse_decode PinPlaceResponse_decode_field PinPlaceResponse_new PinPlaceResponse_bytes
  PinPlaceResponse_valid PinPlaceResponse_merge
  by unfold_locales
    (simp_all add: PinPlaceResponse_decode_def PinPlaceResponse_progress PinPlaceResponse_emits PinPlaceResponse_parses PinPlaceResponse_merge_new)

subsection \<open>UnpinPlaceRequest\<close>

record UnpinPlaceRequest =
  UnpinPlaceRequest_path :: "jstring option"

definition UnpinPlaceRequest_new :: UnpinPlaceRequest where
  "UnpinPlaceRequest_new = \<lparr>UnpinPlaceRequest_path = None\<rparr>"

definition UnpinPlaceRequest_encode :: "UnpinPlaceRequest \<Rightarrow> Writer \<Rightarrow> Writer" where
  "UnpinPlaceRequest_encode message writer =
     (let writer = put_opt 10 w_string (UnpinPlaceRequest_path message) writer
      in writer)"

definition UnpinPlaceRequest_decode_field :: "u32 \<Rightarrow> Reader \<Rightarrow> UnpinPlaceRequest \<Rightarrow> (UnpinPlaceRequest \<times> Reader) res" where
  "UnpinPlaceRequest_decode_field tag reader message =
     (if tag_no tag = 1 then map_res (\<lambda>v. message\<lparr>UnpinPlaceRequest_path := Some v\<rparr>) (r_string reader)
      else skip_field tag reader message)"

definition UnpinPlaceRequest_decode :: "Reader \<Rightarrow> nat option \<Rightarrow> (UnpinPlaceRequest \<times> Reader) res" where
  "UnpinPlaceRequest_decode = decode_with UnpinPlaceRequest_decode_field UnpinPlaceRequest_new"

definition UnpinPlaceRequest_encodeDelimited :: "UnpinPlaceRequest \<Rightarrow> Writer \<Rightarrow> Writer" where
  "UnpinPlaceRequest_encodeDelimited message writer = w_ldelim (UnpinPlaceRequest_encode message writer)"

definition UnpinPlaceRequest_decodeDelimited :: "Reader \<Rightarrow> (UnpinPlaceRequest \<times> Reader) res" where
  "UnpinPlaceRequest_decodeDelimited = get_sub UnpinPlaceRequest_decode"

definition UnpinPlaceRequest_bytes :: "UnpinPlaceRequest \<Rightarrow> u8 list" where
  "UnpinPlaceRequest_bytes m =
     opt_bytes 10 string_bytes (UnpinPlaceRequest_path m)"

definition UnpinPlaceRequest_valid :: "UnpinPlaceRequest \<Rightarrow> bool" where
  "UnpinPlaceRequest_valid m \<longleftrightarrow> opt_ok string_ok (UnpinPlaceRequest_path m)"

definition UnpinPlaceRequest_merge :: "UnpinPlaceRequest \<Rightarrow> UnpinPlaceRequest \<Rightarrow> UnpinPlaceRequest" where
  "UnpinPlaceRequest_merge a m =
     a\<lparr>UnpinPlaceRequest_path := or_else (UnpinPlaceRequest_path m) (UnpinPlaceRequest_path a)\<rparr>"

lemma UnpinPlaceRequest_emits:
  assumes "UnpinPlaceRequest_valid m"
  shows "emits (UnpinPlaceRequest_encode m) (UnpinPlaceRequest_bytes m)"
  unfolding UnpinPlaceRequest_encode_def [abs_def] UnpinPlaceRequest_bytes_def Let_def append_assoc [symmetric]
  by (rule string.emits_opt)
    (simp_all add: assms [unfolded UnpinPlaceRequest_valid_def map_ok_def])

lemma UnpinPlaceRequest_parses:
  assumes "UnpinPlaceRequest_valid m"
  shows "parses UnpinPlaceRequest_decode_field (UnpinPlaceRequest_bytes m) a (UnpinPlaceRequest_merge a m)"
  unfolding UnpinPlaceRequest_bytes_def append_assoc [symmetric]
  by (rule parses_to,
      rule string.parses_opt [where get = UnpinPlaceRequest_path and upd = "\<lambda>x m. m\<lparr>UnpinPlaceRequest_path := x\<rparr>"])
    (simp_all add: assms [unfolded UnpinPlaceRequest_valid_def map_ok_def] UnpinPlaceRequest_decode_field_def tag_no_def lens_def
      merge_defs UnpinPlaceRequest_merge_def)

lemma UnpinPlaceRequest_merge_new: "UnpinPlaceRequest_valid m \<Longrightarrow> UnpinPlaceRequest_merge UnpinPlaceRequest_new m = m"
  by (simp add: UnpinPlaceRequest_merge_def UnpinPlaceRequest_new_def UnpinPlaceRequest_valid_def map_ok_def js_object_def)

lemma UnpinPlaceRequest_progress: "progress UnpinPlaceRequest_decode_field"
  by (rule progressI)
    (simp add: UnpinPlaceRequest_decode_field_def moves_if_split moves_branches)

interpretation UnpinPlaceRequest_codec: message_codec UnpinPlaceRequest_encode UnpinPlaceRequest_decode UnpinPlaceRequest_decode_field UnpinPlaceRequest_new UnpinPlaceRequest_bytes
  UnpinPlaceRequest_valid UnpinPlaceRequest_merge
  by unfold_locales
    (simp_all add: UnpinPlaceRequest_decode_def UnpinPlaceRequest_progress UnpinPlaceRequest_emits UnpinPlaceRequest_parses UnpinPlaceRequest_merge_new)

subsection \<open>UnpinPlaceResponse\<close>

datatype UnpinPlaceResponse = UnpinPlaceResponse_new

definition UnpinPlaceResponse_encode :: "UnpinPlaceResponse \<Rightarrow> Writer \<Rightarrow> Writer" where
  "UnpinPlaceResponse_encode message writer = writer"

definition UnpinPlaceResponse_decode_field :: "u32 \<Rightarrow> Reader \<Rightarrow> UnpinPlaceResponse \<Rightarrow> (UnpinPlaceResponse \<times> Reader) res" where
  "UnpinPlaceResponse_decode_field tag reader message = skip_field tag reader message"

definition UnpinPlaceResponse_decode :: "Reader \<Rightarrow> nat option \<Rightarrow> (UnpinPlaceResponse \<times> Reader) res" where
  "UnpinPlaceResponse_decode = decode_with UnpinPlaceResponse_decode_field UnpinPlaceResponse_new"

definition UnpinPlaceResponse_encodeDelimited :: "UnpinPlaceResponse \<Rightarrow> Writer \<Rightarrow> Writer" where
  "UnpinPlaceResponse_encodeDelimited message writer = w_ldelim (UnpinPlaceResponse_encode message writer)"

definition UnpinPlaceResponse_decodeDelimited :: "Reader \<Rightarrow> (UnpinPlaceResponse \<times> Reader) res" where
  "UnpinPlaceResponse_decodeDelimited = get_sub UnpinPlaceResponse_decode"

definition UnpinPlaceResponse_bytes :: "UnpinPlaceResponse \<Rightarrow> u8 list" where
  "UnpinPlaceResponse_bytes m = []"

definition UnpinPlaceResponse_valid :: "UnpinPlaceResponse \<Rightarrow> bool" where
  "UnpinPlaceResponse_valid m \<longleftrightarrow> True"

definition UnpinPlaceResponse_merge :: "UnpinPlaceResponse \<Rightarrow> UnpinPlaceResponse \<Rightarrow> UnpinPlaceResponse" where
  "UnpinPlaceResponse_merge a m = m"

lemma UnpinPlaceResponse_emits: "emits (UnpinPlaceResponse_encode m) (UnpinPlaceResponse_bytes m)"
  by (simp add: UnpinPlaceResponse_encode_def [abs_def] UnpinPlaceResponse_bytes_def emits_id)

lemma UnpinPlaceResponse_parses: "parses UnpinPlaceResponse_decode_field (UnpinPlaceResponse_bytes m) a (UnpinPlaceResponse_merge a m)"
  by (cases a; cases m) (simp add: UnpinPlaceResponse_bytes_def UnpinPlaceResponse_merge_def parses_Nil)

lemma UnpinPlaceResponse_merge_new: "UnpinPlaceResponse_valid m \<Longrightarrow> UnpinPlaceResponse_merge UnpinPlaceResponse_new m = m"
  by (simp add: UnpinPlaceResponse_merge_def)

lemma UnpinPlaceResponse_progress: "progress UnpinPlaceResponse_decode_field"
  by (rule progressI)
    (simp add: UnpinPlaceResponse_decode_field_def moves_if_split moves_branches)

interpretation UnpinPlaceResponse_codec: message_codec UnpinPlaceResponse_encode UnpinPlaceResponse_decode UnpinPlaceResponse_decode_field UnpinPlaceResponse_new UnpinPlaceResponse_bytes
  UnpinPlaceResponse_valid UnpinPlaceResponse_merge
  by unfold_locales
    (simp_all add: UnpinPlaceResponse_decode_def UnpinPlaceResponse_progress UnpinPlaceResponse_emits UnpinPlaceResponse_parses UnpinPlaceResponse_merge_new)

subsection \<open>AppEntry\<close>

record AppEntry =
  AppEntry_id :: "jstring option"
  AppEntry_name :: "jstring option"
  AppEntry_iconName :: "jstring option"

definition AppEntry_new :: AppEntry where
  "AppEntry_new = \<lparr>AppEntry_id = None, AppEntry_name = None, AppEntry_iconName = None\<rparr>"

definition AppEntry_encode :: "AppEntry \<Rightarrow> Writer \<Rightarrow> Writer" where
  "AppEntry_encode message writer =
     (let writer = put_opt 10 w_string (AppEntry_id message) writer;
          writer = put_opt 18 w_string (AppEntry_name message) writer;
          writer = put_opt 26 w_string (AppEntry_iconName message) writer
      in writer)"

definition AppEntry_decode_field :: "u32 \<Rightarrow> Reader \<Rightarrow> AppEntry \<Rightarrow> (AppEntry \<times> Reader) res" where
  "AppEntry_decode_field tag reader message =
     (if tag_no tag = 1 then map_res (\<lambda>v. message\<lparr>AppEntry_id := Some v\<rparr>) (r_string reader)
      else if tag_no tag = 2 then map_res (\<lambda>v. message\<lparr>AppEntry_name := Some v\<rparr>) (r_string reader)
      else if tag_no tag = 3 then map_res (\<lambda>v. message\<lparr>AppEntry_iconName := Some v\<rparr>) (r_string reader)
      else skip_field tag reader message)"

definition AppEntry_decode :: "Reader \<Rightarrow> nat option \<Rightarrow> (AppEntry \<times> Reader) res" where
  "AppEntry_decode = decode_with AppEntry_decode_field AppEntry_new"

definition AppEntry_encodeDelimited :: "AppEntry \<Rightarrow> Writer \<Rightarrow> Writer" where
  "AppEntry_encodeDelimited message writer = w_ldelim (AppEntry_encode message writer)"

definition AppEntry_decodeDelimited :: "Reader \<Rightarrow> (AppEntry \<times> Reader) res" where
  "AppEntry_decodeDelimited = get_sub AppEntry_decode"

definition AppEntry_bytes :: "AppEntry \<Rightarrow> u8 list" where
  "AppEntry_bytes m =
     opt_bytes 10 string_bytes (AppEntry_id m) @
     opt_bytes 18 string_bytes (AppEntry_name m) @
     opt_bytes 26 string_bytes (AppEntry_iconName m)"

definition AppEntry_valid :: "AppEntry \<Rightarrow> bool" where
  "AppEntry_valid m \<longleftrightarrow> opt_ok string_ok (AppEntry_id m) \<and>
     opt_ok string_ok (AppEntry_name m) \<and>
     opt_ok string_ok (AppEntry_iconName m)"

definition AppEntry_merge :: "AppEntry \<Rightarrow> AppEntry \<Rightarrow> AppEntry" where
  "AppEntry_merge a m =
     a\<lparr>AppEntry_id := or_else (AppEntry_id m) (AppEntry_id a),
       AppEntry_name := or_else (AppEntry_name m) (AppEntry_name a),
       AppEntry_iconName := or_else (AppEntry_iconName m) (AppEntry_iconName a)\<rparr>"

lemma AppEntry_emits:
  assumes "AppEntry_valid m"
  shows "emits (AppEntry_encode m) (AppEntry_bytes m)"
  unfolding AppEntry_encode_def [abs_def] AppEntry_bytes_def Let_def append_assoc [symmetric]
  by (rule string.then_emits_opt, rule string.then_emits_opt, rule string.emits_opt)
    (simp_all add: assms [unfolded AppEntry_valid_def map_ok_def])

lemma AppEntry_parses:
  assumes "AppEntry_valid m"
  shows "parses AppEntry_decode_field (AppEntry_bytes m) a (AppEntry_merge a m)"
  unfolding AppEntry_bytes_def append_assoc [symmetric]
  by (rule parses_to,
      rule string.then_parses_opt [where get = AppEntry_iconName and upd = "\<lambda>x m. m\<lparr>AppEntry_iconName := x\<rparr>"],
      rule string.then_parses_opt [where get = AppEntry_name and upd = "\<lambda>x m. m\<lparr>AppEntry_name := x\<rparr>"],
      rule string.parses_opt [where get = AppEntry_id and upd = "\<lambda>x m. m\<lparr>AppEntry_id := x\<rparr>"])
    (simp_all add: assms [unfolded AppEntry_valid_def map_ok_def] AppEntry_decode_field_def tag_no_def lens_def
      merge_defs AppEntry_merge_def)

lemma AppEntry_merge_new: "AppEntry_valid m \<Longrightarrow> AppEntry_merge AppEntry_new m = m"
  by (simp add: AppEntry_merge_def AppEntry_new_def AppEntry_valid_def map_ok_def js_object_def)

lemma AppEntry_progress: "progress AppEntry_decode_field"
  by (rule progressI)
    (simp add: AppEntry_decode_field_def moves_if_split moves_branches)

interpretation AppEntry_codec: message_codec AppEntry_encode AppEntry_decode AppEntry_decode_field AppEntry_new AppEntry_bytes
  AppEntry_valid AppEntry_merge
  by unfold_locales
    (simp_all add: AppEntry_decode_def AppEntry_progress AppEntry_emits AppEntry_parses AppEntry_merge_new)

subsection \<open>ListAppsForFileRequest\<close>

record ListAppsForFileRequest =
  ListAppsForFileRequest_path :: "jstring option"

definition ListAppsForFileRequest_new :: ListAppsForFileRequest where
  "ListAppsForFileRequest_new = \<lparr>ListAppsForFileRequest_path = None\<rparr>"

definition ListAppsForFileRequest_encode :: "ListAppsForFileRequest \<Rightarrow> Writer \<Rightarrow> Writer" where
  "ListAppsForFileRequest_encode message writer =
     (let writer = put_opt 10 w_string (ListAppsForFileRequest_path message) writer
      in writer)"

definition ListAppsForFileRequest_decode_field :: "u32 \<Rightarrow> Reader \<Rightarrow> ListAppsForFileRequest \<Rightarrow> (ListAppsForFileRequest \<times> Reader) res" where
  "ListAppsForFileRequest_decode_field tag reader message =
     (if tag_no tag = 1 then map_res (\<lambda>v. message\<lparr>ListAppsForFileRequest_path := Some v\<rparr>) (r_string reader)
      else skip_field tag reader message)"

definition ListAppsForFileRequest_decode :: "Reader \<Rightarrow> nat option \<Rightarrow> (ListAppsForFileRequest \<times> Reader) res" where
  "ListAppsForFileRequest_decode = decode_with ListAppsForFileRequest_decode_field ListAppsForFileRequest_new"

definition ListAppsForFileRequest_encodeDelimited :: "ListAppsForFileRequest \<Rightarrow> Writer \<Rightarrow> Writer" where
  "ListAppsForFileRequest_encodeDelimited message writer = w_ldelim (ListAppsForFileRequest_encode message writer)"

definition ListAppsForFileRequest_decodeDelimited :: "Reader \<Rightarrow> (ListAppsForFileRequest \<times> Reader) res" where
  "ListAppsForFileRequest_decodeDelimited = get_sub ListAppsForFileRequest_decode"

definition ListAppsForFileRequest_bytes :: "ListAppsForFileRequest \<Rightarrow> u8 list" where
  "ListAppsForFileRequest_bytes m =
     opt_bytes 10 string_bytes (ListAppsForFileRequest_path m)"

definition ListAppsForFileRequest_valid :: "ListAppsForFileRequest \<Rightarrow> bool" where
  "ListAppsForFileRequest_valid m \<longleftrightarrow> opt_ok string_ok (ListAppsForFileRequest_path m)"

definition ListAppsForFileRequest_merge :: "ListAppsForFileRequest \<Rightarrow> ListAppsForFileRequest \<Rightarrow> ListAppsForFileRequest" where
  "ListAppsForFileRequest_merge a m =
     a\<lparr>ListAppsForFileRequest_path := or_else (ListAppsForFileRequest_path m) (ListAppsForFileRequest_path a)\<rparr>"

lemma ListAppsForFileRequest_emits:
  assumes "ListAppsForFileRequest_valid m"
  shows "emits (ListAppsForFileRequest_encode m) (ListAppsForFileRequest_bytes m)"
  unfolding ListAppsForFileRequest_encode_def [abs_def] ListAppsForFileRequest_bytes_def Let_def append_assoc [symmetric]
  by (rule string.emits_opt)
    (simp_all add: assms [unfolded ListAppsForFileRequest_valid_def map_ok_def])

lemma ListAppsForFileRequest_parses:
  assumes "ListAppsForFileRequest_valid m"
  shows "parses ListAppsForFileRequest_decode_field (ListAppsForFileRequest_bytes m) a (ListAppsForFileRequest_merge a m)"
  unfolding ListAppsForFileRequest_bytes_def append_assoc [symmetric]
  by (rule parses_to,
      rule string.parses_opt [where get = ListAppsForFileRequest_path and upd = "\<lambda>x m. m\<lparr>ListAppsForFileRequest_path := x\<rparr>"])
    (simp_all add: assms [unfolded ListAppsForFileRequest_valid_def map_ok_def] ListAppsForFileRequest_decode_field_def tag_no_def lens_def
      merge_defs ListAppsForFileRequest_merge_def)

lemma ListAppsForFileRequest_merge_new: "ListAppsForFileRequest_valid m \<Longrightarrow> ListAppsForFileRequest_merge ListAppsForFileRequest_new m = m"
  by (simp add: ListAppsForFileRequest_merge_def ListAppsForFileRequest_new_def ListAppsForFileRequest_valid_def map_ok_def js_object_def)

lemma ListAppsForFileRequest_progress: "progress ListAppsForFileRequest_decode_field"
  by (rule progressI)
    (simp add: ListAppsForFileRequest_decode_field_def moves_if_split moves_branches)

interpretation ListAppsForFileRequest_codec: message_codec ListAppsForFileRequest_encode ListAppsForFileRequest_decode ListAppsForFileRequest_decode_field ListAppsForFileRequest_new ListAppsForFileRequest_bytes
  ListAppsForFileRequest_valid ListAppsForFileRequest_merge
  by unfold_locales
    (simp_all add: ListAppsForFileRequest_decode_def ListAppsForFileRequest_progress ListAppsForFileRequest_emits ListAppsForFileRequest_parses ListAppsForFileRequest_merge_new)

subsection \<open>ListAppsForFileResponse\<close>

record ListAppsForFileResponse =
  ListAppsForFileResponse_apps :: "AppEntry list"

definition ListAppsForFileResponse_new :: ListAppsForFileResponse where
  "ListAppsForFileResponse_new = \<lparr>ListAppsForFileResponse_apps = []\<rparr>"

definition ListAppsForFileResponse_encode :: "ListAppsForFileResponse \<Rightarrow> Writer \<Rightarrow> Writer" where
  "ListAppsForFileResponse_encode message writer =
     (let writer = put_all 10 (put_sub AppEntry_encode) (ListAppsForFileResponse_apps message) writer
      in writer)"

definition ListAppsForFileResponse_decode_field :: "u32 \<Rightarrow> Reader \<Rightarrow> ListAppsForFileResponse \<Rightarrow> (ListAppsForFileResponse \<times> Reader) res" where
  "ListAppsForFileResponse_decode_field tag reader message =
     (if tag_no tag = 1 then map_res (\<lambda>v. message\<lparr>ListAppsForFileResponse_apps := ListAppsForFileResponse_apps message @ [v]\<rparr>) (get_sub AppEntry_decode reader)
      else skip_field tag reader message)"

definition ListAppsForFileResponse_decode :: "Reader \<Rightarrow> nat option \<Rightarrow> (ListAppsForFileResponse \<times> Reader) res" where
  "ListAppsForFileResponse_decode = decode_with ListAppsForFileResponse_decode_field ListAppsForFileResponse_new"

definition ListAppsForFileResponse_encodeDelimited :: "ListAppsForFileResponse \<Rightarrow> Writer \<Rightarrow> Writer" where
  "ListAppsForFileResponse_encodeDelimited message writer = w_ldelim (ListAppsForFileResponse_encode message writer)"

definition ListAppsForFileResponse_decodeDelimited :: "Reader \<Rightarrow> (ListAppsForFileResponse \<times> Reader) res" where
  "ListAppsForFileResponse_decodeDelimited = get_sub ListAppsForFileResponse_decode"

definition ListAppsForFileResponse_bytes :: "ListAppsForFileResponse \<Rightarrow> u8 list" where
  "ListAppsForFileResponse_bytes m =
     all_bytes 10 (\<lambda>v. delim (AppEntry_bytes v)) (ListAppsForFileResponse_apps m)"

definition ListAppsForFileResponse_valid :: "ListAppsForFileResponse \<Rightarrow> bool" where
  "ListAppsForFileResponse_valid m \<longleftrightarrow> list_all (\<lambda>v. AppEntry_valid v \<and> length (AppEntry_bytes v) < 4294967296) (ListAppsForFileResponse_apps m)"

definition ListAppsForFileResponse_merge :: "ListAppsForFileResponse \<Rightarrow> ListAppsForFileResponse \<Rightarrow> ListAppsForFileResponse" where
  "ListAppsForFileResponse_merge a m =
     a\<lparr>ListAppsForFileResponse_apps := ListAppsForFileResponse_apps a @ ListAppsForFileResponse_apps m\<rparr>"

lemma ListAppsForFileResponse_emits:
  assumes "ListAppsForFileResponse_valid m"
  shows "emits (ListAppsForFileResponse_encode m) (ListAppsForFileResponse_bytes m)"
  unfolding ListAppsForFileResponse_encode_def [abs_def] ListAppsForFileResponse_bytes_def Let_def append_assoc [symmetric]
  by (rule AppEntry_codec.sub.emits_all)
    (simp_all add: assms [unfolded ListAppsForFileResponse_valid_def map_ok_def])

lemma ListAppsForFileResponse_parses:
  assumes "ListAppsForFileResponse_valid m"
  shows "parses ListAppsForFileResponse_decode_field (ListAppsForFileResponse_bytes m) a (ListAppsForFileResponse_merge a m)"
  unfolding ListAppsForFileResponse_bytes_def append_assoc [symmetric]
  by (rule parses_to,
      rule AppEntry_codec.sub.parses_all [where get = ListAppsForFileResponse_apps and upd = "\<lambda>x m. m\<lparr>ListAppsForFileResponse_apps := x\<rparr>"])
    (simp_all add: assms [unfolded ListAppsForFileResponse_valid_def map_ok_def] ListAppsForFileResponse_decode_field_def tag_no_def lens_def
      merge_defs ListAppsForFileResponse_merge_def)

lemma ListAppsForFileResponse_merge_new: "ListAppsForFileResponse_valid m \<Longrightarrow> ListAppsForFileResponse_merge ListAppsForFileResponse_new m = m"
  by (simp add: ListAppsForFileResponse_merge_def ListAppsForFileResponse_new_def ListAppsForFileResponse_valid_def map_ok_def js_object_def)

lemma ListAppsForFileResponse_progress: "progress ListAppsForFileResponse_decode_field"
  by (rule progressI)
    (simp add: ListAppsForFileResponse_decode_field_def moves_if_split moves_branches AppEntry_codec.moves_decode)

interpretation ListAppsForFileResponse_codec: message_codec ListAppsForFileResponse_encode ListAppsForFileResponse_decode ListAppsForFileResponse_decode_field ListAppsForFileResponse_new ListAppsForFileResponse_bytes
  ListAppsForFileResponse_valid ListAppsForFileResponse_merge
  by unfold_locales
    (simp_all add: ListAppsForFileResponse_decode_def ListAppsForFileResponse_progress ListAppsForFileResponse_emits ListAppsForFileResponse_parses ListAppsForFileResponse_merge_new)

subsection \<open>OpenWithAppRequest\<close>

record OpenWithAppRequest =
  OpenWithAppRequest_path :: "jstring option"
  OpenWithAppRequest_appId :: "jstring option"

definition OpenWithAppRequest_new :: OpenWithAppRequest where
  "OpenWithAppRequest_new = \<lparr>OpenWithAppRequest_path = None, OpenWithAppRequest_appId = None\<rparr>"

definition OpenWithAppRequest_encode :: "OpenWithAppRequest \<Rightarrow> Writer \<Rightarrow> Writer" where
  "OpenWithAppRequest_encode message writer =
     (let writer = put_opt 10 w_string (OpenWithAppRequest_path message) writer;
          writer = put_opt 18 w_string (OpenWithAppRequest_appId message) writer
      in writer)"

definition OpenWithAppRequest_decode_field :: "u32 \<Rightarrow> Reader \<Rightarrow> OpenWithAppRequest \<Rightarrow> (OpenWithAppRequest \<times> Reader) res" where
  "OpenWithAppRequest_decode_field tag reader message =
     (if tag_no tag = 1 then map_res (\<lambda>v. message\<lparr>OpenWithAppRequest_path := Some v\<rparr>) (r_string reader)
      else if tag_no tag = 2 then map_res (\<lambda>v. message\<lparr>OpenWithAppRequest_appId := Some v\<rparr>) (r_string reader)
      else skip_field tag reader message)"

definition OpenWithAppRequest_decode :: "Reader \<Rightarrow> nat option \<Rightarrow> (OpenWithAppRequest \<times> Reader) res" where
  "OpenWithAppRequest_decode = decode_with OpenWithAppRequest_decode_field OpenWithAppRequest_new"

definition OpenWithAppRequest_encodeDelimited :: "OpenWithAppRequest \<Rightarrow> Writer \<Rightarrow> Writer" where
  "OpenWithAppRequest_encodeDelimited message writer = w_ldelim (OpenWithAppRequest_encode message writer)"

definition OpenWithAppRequest_decodeDelimited :: "Reader \<Rightarrow> (OpenWithAppRequest \<times> Reader) res" where
  "OpenWithAppRequest_decodeDelimited = get_sub OpenWithAppRequest_decode"

definition OpenWithAppRequest_bytes :: "OpenWithAppRequest \<Rightarrow> u8 list" where
  "OpenWithAppRequest_bytes m =
     opt_bytes 10 string_bytes (OpenWithAppRequest_path m) @
     opt_bytes 18 string_bytes (OpenWithAppRequest_appId m)"

definition OpenWithAppRequest_valid :: "OpenWithAppRequest \<Rightarrow> bool" where
  "OpenWithAppRequest_valid m \<longleftrightarrow> opt_ok string_ok (OpenWithAppRequest_path m) \<and>
     opt_ok string_ok (OpenWithAppRequest_appId m)"

definition OpenWithAppRequest_merge :: "OpenWithAppRequest \<Rightarrow> OpenWithAppRequest \<Rightarrow> OpenWithAppRequest" where
  "OpenWithAppRequest_merge a m =
     a\<lparr>OpenWithAppRequest_path := or_else (OpenWithAppRequest_path m) (OpenWithAppRequest_path a),
       OpenWithAppRequest_appId := or_else (OpenWithAppRequest_appId m) (OpenWithAppRequest_appId a)\<rparr>"

lemma OpenWithAppRequest_emits:
  assumes "OpenWithAppRequest_valid m"
  shows "emits (OpenWithAppRequest_encode m) (OpenWithAppRequest_bytes m)"
  unfolding OpenWithAppRequest_encode_def [abs_def] OpenWithAppRequest_bytes_def Let_def append_assoc [symmetric]
  by (rule string.then_emits_opt, rule string.emits_opt)
    (simp_all add: assms [unfolded OpenWithAppRequest_valid_def map_ok_def])

lemma OpenWithAppRequest_parses:
  assumes "OpenWithAppRequest_valid m"
  shows "parses OpenWithAppRequest_decode_field (OpenWithAppRequest_bytes m) a (OpenWithAppRequest_merge a m)"
  unfolding OpenWithAppRequest_bytes_def append_assoc [symmetric]
  by (rule parses_to,
      rule string.then_parses_opt [where get = OpenWithAppRequest_appId and upd = "\<lambda>x m. m\<lparr>OpenWithAppRequest_appId := x\<rparr>"],
      rule string.parses_opt [where get = OpenWithAppRequest_path and upd = "\<lambda>x m. m\<lparr>OpenWithAppRequest_path := x\<rparr>"])
    (simp_all add: assms [unfolded OpenWithAppRequest_valid_def map_ok_def] OpenWithAppRequest_decode_field_def tag_no_def lens_def
      merge_defs OpenWithAppRequest_merge_def)

lemma OpenWithAppRequest_merge_new: "OpenWithAppRequest_valid m \<Longrightarrow> OpenWithAppRequest_merge OpenWithAppRequest_new m = m"
  by (simp add: OpenWithAppRequest_merge_def OpenWithAppRequest_new_def OpenWithAppRequest_valid_def map_ok_def js_object_def)

lemma OpenWithAppRequest_progress: "progress OpenWithAppRequest_decode_field"
  by (rule progressI)
    (simp add: OpenWithAppRequest_decode_field_def moves_if_split moves_branches)

interpretation OpenWithAppRequest_codec: message_codec OpenWithAppRequest_encode OpenWithAppRequest_decode OpenWithAppRequest_decode_field OpenWithAppRequest_new OpenWithAppRequest_bytes
  OpenWithAppRequest_valid OpenWithAppRequest_merge
  by unfold_locales
    (simp_all add: OpenWithAppRequest_decode_def OpenWithAppRequest_progress OpenWithAppRequest_emits OpenWithAppRequest_parses OpenWithAppRequest_merge_new)

subsection \<open>OpenWithAppResponse\<close>

datatype OpenWithAppResponse = OpenWithAppResponse_new

definition OpenWithAppResponse_encode :: "OpenWithAppResponse \<Rightarrow> Writer \<Rightarrow> Writer" where
  "OpenWithAppResponse_encode message writer = writer"

definition OpenWithAppResponse_decode_field :: "u32 \<Rightarrow> Reader \<Rightarrow> OpenWithAppResponse \<Rightarrow> (OpenWithAppResponse \<times> Reader) res" where
  "OpenWithAppResponse_decode_field tag reader message = skip_field tag reader message"

definition OpenWithAppResponse_decode :: "Reader \<Rightarrow> nat option \<Rightarrow> (OpenWithAppResponse \<times> Reader) res" where
  "OpenWithAppResponse_decode = decode_with OpenWithAppResponse_decode_field OpenWithAppResponse_new"

definition OpenWithAppResponse_encodeDelimited :: "OpenWithAppResponse \<Rightarrow> Writer \<Rightarrow> Writer" where
  "OpenWithAppResponse_encodeDelimited message writer = w_ldelim (OpenWithAppResponse_encode message writer)"

definition OpenWithAppResponse_decodeDelimited :: "Reader \<Rightarrow> (OpenWithAppResponse \<times> Reader) res" where
  "OpenWithAppResponse_decodeDelimited = get_sub OpenWithAppResponse_decode"

definition OpenWithAppResponse_bytes :: "OpenWithAppResponse \<Rightarrow> u8 list" where
  "OpenWithAppResponse_bytes m = []"

definition OpenWithAppResponse_valid :: "OpenWithAppResponse \<Rightarrow> bool" where
  "OpenWithAppResponse_valid m \<longleftrightarrow> True"

definition OpenWithAppResponse_merge :: "OpenWithAppResponse \<Rightarrow> OpenWithAppResponse \<Rightarrow> OpenWithAppResponse" where
  "OpenWithAppResponse_merge a m = m"

lemma OpenWithAppResponse_emits: "emits (OpenWithAppResponse_encode m) (OpenWithAppResponse_bytes m)"
  by (simp add: OpenWithAppResponse_encode_def [abs_def] OpenWithAppResponse_bytes_def emits_id)

lemma OpenWithAppResponse_parses: "parses OpenWithAppResponse_decode_field (OpenWithAppResponse_bytes m) a (OpenWithAppResponse_merge a m)"
  by (cases a; cases m) (simp add: OpenWithAppResponse_bytes_def OpenWithAppResponse_merge_def parses_Nil)

lemma OpenWithAppResponse_merge_new: "OpenWithAppResponse_valid m \<Longrightarrow> OpenWithAppResponse_merge OpenWithAppResponse_new m = m"
  by (simp add: OpenWithAppResponse_merge_def)

lemma OpenWithAppResponse_progress: "progress OpenWithAppResponse_decode_field"
  by (rule progressI)
    (simp add: OpenWithAppResponse_decode_field_def moves_if_split moves_branches)

interpretation OpenWithAppResponse_codec: message_codec OpenWithAppResponse_encode OpenWithAppResponse_decode OpenWithAppResponse_decode_field OpenWithAppResponse_new OpenWithAppResponse_bytes
  OpenWithAppResponse_valid OpenWithAppResponse_merge
  by unfold_locales
    (simp_all add: OpenWithAppResponse_decode_def OpenWithAppResponse_progress OpenWithAppResponse_emits OpenWithAppResponse_parses OpenWithAppResponse_merge_new)

subsection \<open>GetBrowserConfigRequest\<close>

datatype GetBrowserConfigRequest = GetBrowserConfigRequest_new

definition GetBrowserConfigRequest_encode :: "GetBrowserConfigRequest \<Rightarrow> Writer \<Rightarrow> Writer" where
  "GetBrowserConfigRequest_encode message writer = writer"

definition GetBrowserConfigRequest_decode_field :: "u32 \<Rightarrow> Reader \<Rightarrow> GetBrowserConfigRequest \<Rightarrow> (GetBrowserConfigRequest \<times> Reader) res" where
  "GetBrowserConfigRequest_decode_field tag reader message = skip_field tag reader message"

definition GetBrowserConfigRequest_decode :: "Reader \<Rightarrow> nat option \<Rightarrow> (GetBrowserConfigRequest \<times> Reader) res" where
  "GetBrowserConfigRequest_decode = decode_with GetBrowserConfigRequest_decode_field GetBrowserConfigRequest_new"

definition GetBrowserConfigRequest_encodeDelimited :: "GetBrowserConfigRequest \<Rightarrow> Writer \<Rightarrow> Writer" where
  "GetBrowserConfigRequest_encodeDelimited message writer = w_ldelim (GetBrowserConfigRequest_encode message writer)"

definition GetBrowserConfigRequest_decodeDelimited :: "Reader \<Rightarrow> (GetBrowserConfigRequest \<times> Reader) res" where
  "GetBrowserConfigRequest_decodeDelimited = get_sub GetBrowserConfigRequest_decode"

definition GetBrowserConfigRequest_bytes :: "GetBrowserConfigRequest \<Rightarrow> u8 list" where
  "GetBrowserConfigRequest_bytes m = []"

definition GetBrowserConfigRequest_valid :: "GetBrowserConfigRequest \<Rightarrow> bool" where
  "GetBrowserConfigRequest_valid m \<longleftrightarrow> True"

definition GetBrowserConfigRequest_merge :: "GetBrowserConfigRequest \<Rightarrow> GetBrowserConfigRequest \<Rightarrow> GetBrowserConfigRequest" where
  "GetBrowserConfigRequest_merge a m = m"

lemma GetBrowserConfigRequest_emits: "emits (GetBrowserConfigRequest_encode m) (GetBrowserConfigRequest_bytes m)"
  by (simp add: GetBrowserConfigRequest_encode_def [abs_def] GetBrowserConfigRequest_bytes_def emits_id)

lemma GetBrowserConfigRequest_parses: "parses GetBrowserConfigRequest_decode_field (GetBrowserConfigRequest_bytes m) a (GetBrowserConfigRequest_merge a m)"
  by (cases a; cases m) (simp add: GetBrowserConfigRequest_bytes_def GetBrowserConfigRequest_merge_def parses_Nil)

lemma GetBrowserConfigRequest_merge_new: "GetBrowserConfigRequest_valid m \<Longrightarrow> GetBrowserConfigRequest_merge GetBrowserConfigRequest_new m = m"
  by (simp add: GetBrowserConfigRequest_merge_def)

lemma GetBrowserConfigRequest_progress: "progress GetBrowserConfigRequest_decode_field"
  by (rule progressI)
    (simp add: GetBrowserConfigRequest_decode_field_def moves_if_split moves_branches)

interpretation GetBrowserConfigRequest_codec: message_codec GetBrowserConfigRequest_encode GetBrowserConfigRequest_decode GetBrowserConfigRequest_decode_field GetBrowserConfigRequest_new GetBrowserConfigRequest_bytes
  GetBrowserConfigRequest_valid GetBrowserConfigRequest_merge
  by unfold_locales
    (simp_all add: GetBrowserConfigRequest_decode_def GetBrowserConfigRequest_progress GetBrowserConfigRequest_emits GetBrowserConfigRequest_parses GetBrowserConfigRequest_merge_new)

subsection \<open>GetBrowserConfigResponse\<close>

record GetBrowserConfigResponse =
  GetBrowserConfigResponse_keybindings :: js_map
  GetBrowserConfigResponse_useTrash :: "bool option"
  GetBrowserConfigResponse_inlineThumbnails :: "bool option"
  GetBrowserConfigResponse_autoPropertiesSlideout :: "bool option"
  GetBrowserConfigResponse_theme :: "jstring option"
  GetBrowserConfigResponse_singleClick :: "bool option"

definition GetBrowserConfigResponse_new :: GetBrowserConfigResponse where
  "GetBrowserConfigResponse_new = \<lparr>GetBrowserConfigResponse_keybindings = [], GetBrowserConfigResponse_useTrash = None,
     GetBrowserConfigResponse_inlineThumbnails = None,
     GetBrowserConfigResponse_autoPropertiesSlideout = None,
     GetBrowserConfigResponse_theme = None, GetBrowserConfigResponse_singleClick = None\<rparr>"

definition GetBrowserConfigResponse_encode :: "GetBrowserConfigResponse \<Rightarrow> Writer \<Rightarrow> Writer" where
  "GetBrowserConfigResponse_encode message writer =
     (let writer = put_all 10 put_entry (GetBrowserConfigResponse_keybindings message) writer;
          writer = put_opt 16 w_bool (GetBrowserConfigResponse_useTrash message) writer;
          writer = put_opt 24 w_bool (GetBrowserConfigResponse_inlineThumbnails message) writer;
          writer = put_opt 32 w_bool (GetBrowserConfigResponse_autoPropertiesSlideout message) writer;
          writer = put_opt 42 w_string (GetBrowserConfigResponse_theme message) writer;
          writer = put_opt 48 w_bool (GetBrowserConfigResponse_singleClick message) writer
      in writer)"

definition GetBrowserConfigResponse_decode_field :: "u32 \<Rightarrow> Reader \<Rightarrow> GetBrowserConfigResponse \<Rightarrow> (GetBrowserConfigResponse \<times> Reader) res" where
  "GetBrowserConfigResponse_decode_field tag reader message =
     (if tag_no tag = 1 then map_res (\<lambda>v. message\<lparr>GetBrowserConfigResponse_keybindings := js_put v (GetBrowserConfigResponse_keybindings message)\<rparr>) (get_entry reader)
      else if tag_no tag = 2 then map_res (\<lambda>v. message\<lparr>GetBrowserConfigResponse_useTrash := Some v\<rparr>) (r_bool reader)
      else if tag_no tag = 3 then map_res (\<lambda>v. message\<lparr>GetBrowserConfigResponse_inlineThumbnails := Some v\<rparr>) (r_bool reader)
      else if tag_no tag = 4 then map_res (\<lambda>v. message\<lparr>GetBrowserConfigResponse_autoPropertiesSlideout := Some v\<rparr>) (r_bool reader)
      else if tag_no tag = 5 then map_res (\<lambda>v. message\<lparr>GetBrowserConfigResponse_theme := Some v\<rparr>) (r_string reader)
      else if tag_no tag = 6 then map_res (\<lambda>v. message\<lparr>GetBrowserConfigResponse_singleClick := Some v\<rparr>) (r_bool reader)
      else skip_field tag reader message)"

definition GetBrowserConfigResponse_decode :: "Reader \<Rightarrow> nat option \<Rightarrow> (GetBrowserConfigResponse \<times> Reader) res" where
  "GetBrowserConfigResponse_decode = decode_with GetBrowserConfigResponse_decode_field GetBrowserConfigResponse_new"

definition GetBrowserConfigResponse_encodeDelimited :: "GetBrowserConfigResponse \<Rightarrow> Writer \<Rightarrow> Writer" where
  "GetBrowserConfigResponse_encodeDelimited message writer = w_ldelim (GetBrowserConfigResponse_encode message writer)"

definition GetBrowserConfigResponse_decodeDelimited :: "Reader \<Rightarrow> (GetBrowserConfigResponse \<times> Reader) res" where
  "GetBrowserConfigResponse_decodeDelimited = get_sub GetBrowserConfigResponse_decode"

definition GetBrowserConfigResponse_bytes :: "GetBrowserConfigResponse \<Rightarrow> u8 list" where
  "GetBrowserConfigResponse_bytes m =
     all_bytes 10 (\<lambda>kv. delim (entry_bytes kv)) (GetBrowserConfigResponse_keybindings m) @
     opt_bytes 16 bool_bytes (GetBrowserConfigResponse_useTrash m) @
     opt_bytes 24 bool_bytes (GetBrowserConfigResponse_inlineThumbnails m) @
     opt_bytes 32 bool_bytes (GetBrowserConfigResponse_autoPropertiesSlideout m) @
     opt_bytes 42 string_bytes (GetBrowserConfigResponse_theme m) @
     opt_bytes 48 bool_bytes (GetBrowserConfigResponse_singleClick m)"

definition GetBrowserConfigResponse_valid :: "GetBrowserConfigResponse \<Rightarrow> bool" where
  "GetBrowserConfigResponse_valid m \<longleftrightarrow> map_ok (GetBrowserConfigResponse_keybindings m) \<and>
     opt_ok string_ok (GetBrowserConfigResponse_theme m)"

definition GetBrowserConfigResponse_merge :: "GetBrowserConfigResponse \<Rightarrow> GetBrowserConfigResponse \<Rightarrow> GetBrowserConfigResponse" where
  "GetBrowserConfigResponse_merge a m =
     a\<lparr>GetBrowserConfigResponse_keybindings := fold js_put (GetBrowserConfigResponse_keybindings m) (GetBrowserConfigResponse_keybindings a),
       GetBrowserConfigResponse_useTrash := or_else (GetBrowserConfigResponse_useTrash m) (GetBrowserConfigResponse_useTrash a),
       GetBrowserConfigResponse_inlineThumbnails := or_else (GetBrowserConfigResponse_inlineThumbnails m) (GetBrowserConfigResponse_inlineThumbnails a),
       GetBrowserConfigResponse_autoPropertiesSlideout := or_else (GetBrowserConfigResponse_autoPropertiesSlideout m) (GetBrowserConfigResponse_autoPropertiesSlideout a),
       GetBrowserConfigResponse_theme := or_else (GetBrowserConfigResponse_theme m) (GetBrowserConfigResponse_theme a),
       GetBrowserConfigResponse_singleClick := or_else (GetBrowserConfigResponse_singleClick m) (GetBrowserConfigResponse_singleClick a)\<rparr>"

lemma GetBrowserConfigResponse_emits:
  assumes "GetBrowserConfigResponse_valid m"
  shows "emits (GetBrowserConfigResponse_encode m) (GetBrowserConfigResponse_bytes m)"
  unfolding GetBrowserConfigResponse_encode_def [abs_def] GetBrowserConfigResponse_bytes_def Let_def append_assoc [symmetric]
  by (rule bool.then_emits_opt, rule string.then_emits_opt, rule bool.then_emits_opt, rule
      bool.then_emits_opt, rule bool.then_emits_opt, rule entry.emits_all)
    (simp_all add: assms [unfolded GetBrowserConfigResponse_valid_def map_ok_def])

lemma GetBrowserConfigResponse_parses:
  assumes "GetBrowserConfigResponse_valid m"
  shows "parses GetBrowserConfigResponse_decode_field (GetBrowserConfigResponse_bytes m) a (GetBrowserConfigResponse_merge a m)"
  unfolding GetBrowserConfigResponse_bytes_def append_assoc [symmetric]
  by (rule parses_to,
      rule bool.then_parses_opt [where get = GetBrowserConfigResponse_singleClick and upd = "\<lambda>x m. m\<lparr>GetBrowserConfigResponse_singleClick := x\<rparr>"],
      rule string.then_parses_opt [where get = GetBrowserConfigResponse_theme and upd = "\<lambda>x m. m\<lparr>GetBrowserConfigResponse_theme := x\<rparr>"],
      rule bool.then_parses_opt [where get = GetBrowserConfigResponse_autoPropertiesSlideout and upd = "\<lambda>x m. m\<lparr>GetBrowserConfigResponse_autoPropertiesSlideout := x\<rparr>"],
      rule bool.then_parses_opt [where get = GetBrowserConfigResponse_inlineThumbnails and upd = "\<lambda>x m. m\<lparr>GetBrowserConfigResponse_inlineThumbnails := x\<rparr>"],
      rule bool.then_parses_opt [where get = GetBrowserConfigResponse_useTrash and upd = "\<lambda>x m. m\<lparr>GetBrowserConfigResponse_useTrash := x\<rparr>"],
      rule entry.parses_into [where get = GetBrowserConfigResponse_keybindings and upd = "\<lambda>x m. m\<lparr>GetBrowserConfigResponse_keybindings := x\<rparr>" and add = js_put])
    (simp_all add: assms [unfolded GetBrowserConfigResponse_valid_def map_ok_def] GetBrowserConfigResponse_decode_field_def tag_no_def lens_def
      merge_defs GetBrowserConfigResponse_merge_def)

lemma GetBrowserConfigResponse_merge_new: "GetBrowserConfigResponse_valid m \<Longrightarrow> GetBrowserConfigResponse_merge GetBrowserConfigResponse_new m = m"
  by (simp add: GetBrowserConfigResponse_merge_def GetBrowserConfigResponse_new_def GetBrowserConfigResponse_valid_def map_ok_def js_object_def)

lemma GetBrowserConfigResponse_progress: "progress GetBrowserConfigResponse_decode_field"
  by (rule progressI)
    (simp add: GetBrowserConfigResponse_decode_field_def moves_if_split moves_branches)

interpretation GetBrowserConfigResponse_codec: message_codec GetBrowserConfigResponse_encode GetBrowserConfigResponse_decode GetBrowserConfigResponse_decode_field GetBrowserConfigResponse_new GetBrowserConfigResponse_bytes
  GetBrowserConfigResponse_valid GetBrowserConfigResponse_merge
  by unfold_locales
    (simp_all add: GetBrowserConfigResponse_decode_def GetBrowserConfigResponse_progress GetBrowserConfigResponse_emits GetBrowserConfigResponse_parses GetBrowserConfigResponse_merge_new)

subsection \<open>GetFileBadgesRequest\<close>

record GetFileBadgesRequest =
  GetFileBadgesRequest_path :: "jstring option"

definition GetFileBadgesRequest_new :: GetFileBadgesRequest where
  "GetFileBadgesRequest_new = \<lparr>GetFileBadgesRequest_path = None\<rparr>"

definition GetFileBadgesRequest_encode :: "GetFileBadgesRequest \<Rightarrow> Writer \<Rightarrow> Writer" where
  "GetFileBadgesRequest_encode message writer =
     (let writer = put_opt 10 w_string (GetFileBadgesRequest_path message) writer
      in writer)"

definition GetFileBadgesRequest_decode_field :: "u32 \<Rightarrow> Reader \<Rightarrow> GetFileBadgesRequest \<Rightarrow> (GetFileBadgesRequest \<times> Reader) res" where
  "GetFileBadgesRequest_decode_field tag reader message =
     (if tag_no tag = 1 then map_res (\<lambda>v. message\<lparr>GetFileBadgesRequest_path := Some v\<rparr>) (r_string reader)
      else skip_field tag reader message)"

definition GetFileBadgesRequest_decode :: "Reader \<Rightarrow> nat option \<Rightarrow> (GetFileBadgesRequest \<times> Reader) res" where
  "GetFileBadgesRequest_decode = decode_with GetFileBadgesRequest_decode_field GetFileBadgesRequest_new"

definition GetFileBadgesRequest_encodeDelimited :: "GetFileBadgesRequest \<Rightarrow> Writer \<Rightarrow> Writer" where
  "GetFileBadgesRequest_encodeDelimited message writer = w_ldelim (GetFileBadgesRequest_encode message writer)"

definition GetFileBadgesRequest_decodeDelimited :: "Reader \<Rightarrow> (GetFileBadgesRequest \<times> Reader) res" where
  "GetFileBadgesRequest_decodeDelimited = get_sub GetFileBadgesRequest_decode"

definition GetFileBadgesRequest_bytes :: "GetFileBadgesRequest \<Rightarrow> u8 list" where
  "GetFileBadgesRequest_bytes m =
     opt_bytes 10 string_bytes (GetFileBadgesRequest_path m)"

definition GetFileBadgesRequest_valid :: "GetFileBadgesRequest \<Rightarrow> bool" where
  "GetFileBadgesRequest_valid m \<longleftrightarrow> opt_ok string_ok (GetFileBadgesRequest_path m)"

definition GetFileBadgesRequest_merge :: "GetFileBadgesRequest \<Rightarrow> GetFileBadgesRequest \<Rightarrow> GetFileBadgesRequest" where
  "GetFileBadgesRequest_merge a m =
     a\<lparr>GetFileBadgesRequest_path := or_else (GetFileBadgesRequest_path m) (GetFileBadgesRequest_path a)\<rparr>"

lemma GetFileBadgesRequest_emits:
  assumes "GetFileBadgesRequest_valid m"
  shows "emits (GetFileBadgesRequest_encode m) (GetFileBadgesRequest_bytes m)"
  unfolding GetFileBadgesRequest_encode_def [abs_def] GetFileBadgesRequest_bytes_def Let_def append_assoc [symmetric]
  by (rule string.emits_opt)
    (simp_all add: assms [unfolded GetFileBadgesRequest_valid_def map_ok_def])

lemma GetFileBadgesRequest_parses:
  assumes "GetFileBadgesRequest_valid m"
  shows "parses GetFileBadgesRequest_decode_field (GetFileBadgesRequest_bytes m) a (GetFileBadgesRequest_merge a m)"
  unfolding GetFileBadgesRequest_bytes_def append_assoc [symmetric]
  by (rule parses_to,
      rule string.parses_opt [where get = GetFileBadgesRequest_path and upd = "\<lambda>x m. m\<lparr>GetFileBadgesRequest_path := x\<rparr>"])
    (simp_all add: assms [unfolded GetFileBadgesRequest_valid_def map_ok_def] GetFileBadgesRequest_decode_field_def tag_no_def lens_def
      merge_defs GetFileBadgesRequest_merge_def)

lemma GetFileBadgesRequest_merge_new: "GetFileBadgesRequest_valid m \<Longrightarrow> GetFileBadgesRequest_merge GetFileBadgesRequest_new m = m"
  by (simp add: GetFileBadgesRequest_merge_def GetFileBadgesRequest_new_def GetFileBadgesRequest_valid_def map_ok_def js_object_def)

lemma GetFileBadgesRequest_progress: "progress GetFileBadgesRequest_decode_field"
  by (rule progressI)
    (simp add: GetFileBadgesRequest_decode_field_def moves_if_split moves_branches)

interpretation GetFileBadgesRequest_codec: message_codec GetFileBadgesRequest_encode GetFileBadgesRequest_decode GetFileBadgesRequest_decode_field GetFileBadgesRequest_new GetFileBadgesRequest_bytes
  GetFileBadgesRequest_valid GetFileBadgesRequest_merge
  by unfold_locales
    (simp_all add: GetFileBadgesRequest_decode_def GetFileBadgesRequest_progress GetFileBadgesRequest_emits GetFileBadgesRequest_parses GetFileBadgesRequest_merge_new)

subsection \<open>GetFileBadgesResponse\<close>

record GetFileBadgesResponse =
  GetFileBadgesResponse_badges :: "jstring list"

definition GetFileBadgesResponse_new :: GetFileBadgesResponse where
  "GetFileBadgesResponse_new = \<lparr>GetFileBadgesResponse_badges = []\<rparr>"

definition GetFileBadgesResponse_encode :: "GetFileBadgesResponse \<Rightarrow> Writer \<Rightarrow> Writer" where
  "GetFileBadgesResponse_encode message writer =
     (let writer = put_all 10 w_string (GetFileBadgesResponse_badges message) writer
      in writer)"

definition GetFileBadgesResponse_decode_field :: "u32 \<Rightarrow> Reader \<Rightarrow> GetFileBadgesResponse \<Rightarrow> (GetFileBadgesResponse \<times> Reader) res" where
  "GetFileBadgesResponse_decode_field tag reader message =
     (if tag_no tag = 1 then map_res (\<lambda>v. message\<lparr>GetFileBadgesResponse_badges := GetFileBadgesResponse_badges message @ [v]\<rparr>) (r_string reader)
      else skip_field tag reader message)"

definition GetFileBadgesResponse_decode :: "Reader \<Rightarrow> nat option \<Rightarrow> (GetFileBadgesResponse \<times> Reader) res" where
  "GetFileBadgesResponse_decode = decode_with GetFileBadgesResponse_decode_field GetFileBadgesResponse_new"

definition GetFileBadgesResponse_encodeDelimited :: "GetFileBadgesResponse \<Rightarrow> Writer \<Rightarrow> Writer" where
  "GetFileBadgesResponse_encodeDelimited message writer = w_ldelim (GetFileBadgesResponse_encode message writer)"

definition GetFileBadgesResponse_decodeDelimited :: "Reader \<Rightarrow> (GetFileBadgesResponse \<times> Reader) res" where
  "GetFileBadgesResponse_decodeDelimited = get_sub GetFileBadgesResponse_decode"

definition GetFileBadgesResponse_bytes :: "GetFileBadgesResponse \<Rightarrow> u8 list" where
  "GetFileBadgesResponse_bytes m =
     all_bytes 10 string_bytes (GetFileBadgesResponse_badges m)"

definition GetFileBadgesResponse_valid :: "GetFileBadgesResponse \<Rightarrow> bool" where
  "GetFileBadgesResponse_valid m \<longleftrightarrow> list_all string_ok (GetFileBadgesResponse_badges m)"

definition GetFileBadgesResponse_merge :: "GetFileBadgesResponse \<Rightarrow> GetFileBadgesResponse \<Rightarrow> GetFileBadgesResponse" where
  "GetFileBadgesResponse_merge a m =
     a\<lparr>GetFileBadgesResponse_badges := GetFileBadgesResponse_badges a @ GetFileBadgesResponse_badges m\<rparr>"

lemma GetFileBadgesResponse_emits:
  assumes "GetFileBadgesResponse_valid m"
  shows "emits (GetFileBadgesResponse_encode m) (GetFileBadgesResponse_bytes m)"
  unfolding GetFileBadgesResponse_encode_def [abs_def] GetFileBadgesResponse_bytes_def Let_def append_assoc [symmetric]
  by (rule string.emits_all)
    (simp_all add: assms [unfolded GetFileBadgesResponse_valid_def map_ok_def])

lemma GetFileBadgesResponse_parses:
  assumes "GetFileBadgesResponse_valid m"
  shows "parses GetFileBadgesResponse_decode_field (GetFileBadgesResponse_bytes m) a (GetFileBadgesResponse_merge a m)"
  unfolding GetFileBadgesResponse_bytes_def append_assoc [symmetric]
  by (rule parses_to,
      rule string.parses_all [where get = GetFileBadgesResponse_badges and upd = "\<lambda>x m. m\<lparr>GetFileBadgesResponse_badges := x\<rparr>"])
    (simp_all add: assms [unfolded GetFileBadgesResponse_valid_def map_ok_def] GetFileBadgesResponse_decode_field_def tag_no_def lens_def
      merge_defs GetFileBadgesResponse_merge_def)

lemma GetFileBadgesResponse_merge_new: "GetFileBadgesResponse_valid m \<Longrightarrow> GetFileBadgesResponse_merge GetFileBadgesResponse_new m = m"
  by (simp add: GetFileBadgesResponse_merge_def GetFileBadgesResponse_new_def GetFileBadgesResponse_valid_def map_ok_def js_object_def)

lemma GetFileBadgesResponse_progress: "progress GetFileBadgesResponse_decode_field"
  by (rule progressI)
    (simp add: GetFileBadgesResponse_decode_field_def moves_if_split moves_branches)

interpretation GetFileBadgesResponse_codec: message_codec GetFileBadgesResponse_encode GetFileBadgesResponse_decode GetFileBadgesResponse_decode_field GetFileBadgesResponse_new GetFileBadgesResponse_bytes
  GetFileBadgesResponse_valid GetFileBadgesResponse_merge
  by unfold_locales
    (simp_all add: GetFileBadgesResponse_decode_def GetFileBadgesResponse_progress GetFileBadgesResponse_emits GetFileBadgesResponse_parses GetFileBadgesResponse_merge_new)

subsection \<open>FileAction\<close>

record FileAction =
  FileAction_id :: "jstring option"
  FileAction_label :: "jstring option"

definition FileAction_new :: FileAction where
  "FileAction_new = \<lparr>FileAction_id = None, FileAction_label = None\<rparr>"

definition FileAction_encode :: "FileAction \<Rightarrow> Writer \<Rightarrow> Writer" where
  "FileAction_encode message writer =
     (let writer = put_opt 10 w_string (FileAction_id message) writer;
          writer = put_opt 18 w_string (FileAction_label message) writer
      in writer)"

definition FileAction_decode_field :: "u32 \<Rightarrow> Reader \<Rightarrow> FileAction \<Rightarrow> (FileAction \<times> Reader) res" where
  "FileAction_decode_field tag reader message =
     (if tag_no tag = 1 then map_res (\<lambda>v. message\<lparr>FileAction_id := Some v\<rparr>) (r_string reader)
      else if tag_no tag = 2 then map_res (\<lambda>v. message\<lparr>FileAction_label := Some v\<rparr>) (r_string reader)
      else skip_field tag reader message)"

definition FileAction_decode :: "Reader \<Rightarrow> nat option \<Rightarrow> (FileAction \<times> Reader) res" where
  "FileAction_decode = decode_with FileAction_decode_field FileAction_new"

definition FileAction_encodeDelimited :: "FileAction \<Rightarrow> Writer \<Rightarrow> Writer" where
  "FileAction_encodeDelimited message writer = w_ldelim (FileAction_encode message writer)"

definition FileAction_decodeDelimited :: "Reader \<Rightarrow> (FileAction \<times> Reader) res" where
  "FileAction_decodeDelimited = get_sub FileAction_decode"

definition FileAction_bytes :: "FileAction \<Rightarrow> u8 list" where
  "FileAction_bytes m =
     opt_bytes 10 string_bytes (FileAction_id m) @
     opt_bytes 18 string_bytes (FileAction_label m)"

definition FileAction_valid :: "FileAction \<Rightarrow> bool" where
  "FileAction_valid m \<longleftrightarrow> opt_ok string_ok (FileAction_id m) \<and>
     opt_ok string_ok (FileAction_label m)"

definition FileAction_merge :: "FileAction \<Rightarrow> FileAction \<Rightarrow> FileAction" where
  "FileAction_merge a m =
     a\<lparr>FileAction_id := or_else (FileAction_id m) (FileAction_id a),
       FileAction_label := or_else (FileAction_label m) (FileAction_label a)\<rparr>"

lemma FileAction_emits:
  assumes "FileAction_valid m"
  shows "emits (FileAction_encode m) (FileAction_bytes m)"
  unfolding FileAction_encode_def [abs_def] FileAction_bytes_def Let_def append_assoc [symmetric]
  by (rule string.then_emits_opt, rule string.emits_opt)
    (simp_all add: assms [unfolded FileAction_valid_def map_ok_def])

lemma FileAction_parses:
  assumes "FileAction_valid m"
  shows "parses FileAction_decode_field (FileAction_bytes m) a (FileAction_merge a m)"
  unfolding FileAction_bytes_def append_assoc [symmetric]
  by (rule parses_to,
      rule string.then_parses_opt [where get = FileAction_label and upd = "\<lambda>x m. m\<lparr>FileAction_label := x\<rparr>"],
      rule string.parses_opt [where get = FileAction_id and upd = "\<lambda>x m. m\<lparr>FileAction_id := x\<rparr>"])
    (simp_all add: assms [unfolded FileAction_valid_def map_ok_def] FileAction_decode_field_def tag_no_def lens_def
      merge_defs FileAction_merge_def)

lemma FileAction_merge_new: "FileAction_valid m \<Longrightarrow> FileAction_merge FileAction_new m = m"
  by (simp add: FileAction_merge_def FileAction_new_def FileAction_valid_def map_ok_def js_object_def)

lemma FileAction_progress: "progress FileAction_decode_field"
  by (rule progressI)
    (simp add: FileAction_decode_field_def moves_if_split moves_branches)

interpretation FileAction_codec: message_codec FileAction_encode FileAction_decode FileAction_decode_field FileAction_new FileAction_bytes
  FileAction_valid FileAction_merge
  by unfold_locales
    (simp_all add: FileAction_decode_def FileAction_progress FileAction_emits FileAction_parses FileAction_merge_new)

subsection \<open>GetFileActionsRequest\<close>

record GetFileActionsRequest =
  GetFileActionsRequest_path :: "jstring option"

definition GetFileActionsRequest_new :: GetFileActionsRequest where
  "GetFileActionsRequest_new = \<lparr>GetFileActionsRequest_path = None\<rparr>"

definition GetFileActionsRequest_encode :: "GetFileActionsRequest \<Rightarrow> Writer \<Rightarrow> Writer" where
  "GetFileActionsRequest_encode message writer =
     (let writer = put_opt 10 w_string (GetFileActionsRequest_path message) writer
      in writer)"

definition GetFileActionsRequest_decode_field :: "u32 \<Rightarrow> Reader \<Rightarrow> GetFileActionsRequest \<Rightarrow> (GetFileActionsRequest \<times> Reader) res" where
  "GetFileActionsRequest_decode_field tag reader message =
     (if tag_no tag = 1 then map_res (\<lambda>v. message\<lparr>GetFileActionsRequest_path := Some v\<rparr>) (r_string reader)
      else skip_field tag reader message)"

definition GetFileActionsRequest_decode :: "Reader \<Rightarrow> nat option \<Rightarrow> (GetFileActionsRequest \<times> Reader) res" where
  "GetFileActionsRequest_decode = decode_with GetFileActionsRequest_decode_field GetFileActionsRequest_new"

definition GetFileActionsRequest_encodeDelimited :: "GetFileActionsRequest \<Rightarrow> Writer \<Rightarrow> Writer" where
  "GetFileActionsRequest_encodeDelimited message writer = w_ldelim (GetFileActionsRequest_encode message writer)"

definition GetFileActionsRequest_decodeDelimited :: "Reader \<Rightarrow> (GetFileActionsRequest \<times> Reader) res" where
  "GetFileActionsRequest_decodeDelimited = get_sub GetFileActionsRequest_decode"

definition GetFileActionsRequest_bytes :: "GetFileActionsRequest \<Rightarrow> u8 list" where
  "GetFileActionsRequest_bytes m =
     opt_bytes 10 string_bytes (GetFileActionsRequest_path m)"

definition GetFileActionsRequest_valid :: "GetFileActionsRequest \<Rightarrow> bool" where
  "GetFileActionsRequest_valid m \<longleftrightarrow> opt_ok string_ok (GetFileActionsRequest_path m)"

definition GetFileActionsRequest_merge :: "GetFileActionsRequest \<Rightarrow> GetFileActionsRequest \<Rightarrow> GetFileActionsRequest" where
  "GetFileActionsRequest_merge a m =
     a\<lparr>GetFileActionsRequest_path := or_else (GetFileActionsRequest_path m) (GetFileActionsRequest_path a)\<rparr>"

lemma GetFileActionsRequest_emits:
  assumes "GetFileActionsRequest_valid m"
  shows "emits (GetFileActionsRequest_encode m) (GetFileActionsRequest_bytes m)"
  unfolding GetFileActionsRequest_encode_def [abs_def] GetFileActionsRequest_bytes_def Let_def append_assoc [symmetric]
  by (rule string.emits_opt)
    (simp_all add: assms [unfolded GetFileActionsRequest_valid_def map_ok_def])

lemma GetFileActionsRequest_parses:
  assumes "GetFileActionsRequest_valid m"
  shows "parses GetFileActionsRequest_decode_field (GetFileActionsRequest_bytes m) a (GetFileActionsRequest_merge a m)"
  unfolding GetFileActionsRequest_bytes_def append_assoc [symmetric]
  by (rule parses_to,
      rule string.parses_opt [where get = GetFileActionsRequest_path and upd = "\<lambda>x m. m\<lparr>GetFileActionsRequest_path := x\<rparr>"])
    (simp_all add: assms [unfolded GetFileActionsRequest_valid_def map_ok_def] GetFileActionsRequest_decode_field_def tag_no_def lens_def
      merge_defs GetFileActionsRequest_merge_def)

lemma GetFileActionsRequest_merge_new: "GetFileActionsRequest_valid m \<Longrightarrow> GetFileActionsRequest_merge GetFileActionsRequest_new m = m"
  by (simp add: GetFileActionsRequest_merge_def GetFileActionsRequest_new_def GetFileActionsRequest_valid_def map_ok_def js_object_def)

lemma GetFileActionsRequest_progress: "progress GetFileActionsRequest_decode_field"
  by (rule progressI)
    (simp add: GetFileActionsRequest_decode_field_def moves_if_split moves_branches)

interpretation GetFileActionsRequest_codec: message_codec GetFileActionsRequest_encode GetFileActionsRequest_decode GetFileActionsRequest_decode_field GetFileActionsRequest_new GetFileActionsRequest_bytes
  GetFileActionsRequest_valid GetFileActionsRequest_merge
  by unfold_locales
    (simp_all add: GetFileActionsRequest_decode_def GetFileActionsRequest_progress GetFileActionsRequest_emits GetFileActionsRequest_parses GetFileActionsRequest_merge_new)

subsection \<open>GetFileActionsResponse\<close>

record GetFileActionsResponse =
  GetFileActionsResponse_actions :: "FileAction list"

definition GetFileActionsResponse_new :: GetFileActionsResponse where
  "GetFileActionsResponse_new = \<lparr>GetFileActionsResponse_actions = []\<rparr>"

definition GetFileActionsResponse_encode :: "GetFileActionsResponse \<Rightarrow> Writer \<Rightarrow> Writer" where
  "GetFileActionsResponse_encode message writer =
     (let writer = put_all 10 (put_sub FileAction_encode) (GetFileActionsResponse_actions message) writer
      in writer)"

definition GetFileActionsResponse_decode_field :: "u32 \<Rightarrow> Reader \<Rightarrow> GetFileActionsResponse \<Rightarrow> (GetFileActionsResponse \<times> Reader) res" where
  "GetFileActionsResponse_decode_field tag reader message =
     (if tag_no tag = 1 then map_res (\<lambda>v. message\<lparr>GetFileActionsResponse_actions := GetFileActionsResponse_actions message @ [v]\<rparr>) (get_sub FileAction_decode reader)
      else skip_field tag reader message)"

definition GetFileActionsResponse_decode :: "Reader \<Rightarrow> nat option \<Rightarrow> (GetFileActionsResponse \<times> Reader) res" where
  "GetFileActionsResponse_decode = decode_with GetFileActionsResponse_decode_field GetFileActionsResponse_new"

definition GetFileActionsResponse_encodeDelimited :: "GetFileActionsResponse \<Rightarrow> Writer \<Rightarrow> Writer" where
  "GetFileActionsResponse_encodeDelimited message writer = w_ldelim (GetFileActionsResponse_encode message writer)"

definition GetFileActionsResponse_decodeDelimited :: "Reader \<Rightarrow> (GetFileActionsResponse \<times> Reader) res" where
  "GetFileActionsResponse_decodeDelimited = get_sub GetFileActionsResponse_decode"

definition GetFileActionsResponse_bytes :: "GetFileActionsResponse \<Rightarrow> u8 list" where
  "GetFileActionsResponse_bytes m =
     all_bytes 10 (\<lambda>v. delim (FileAction_bytes v)) (GetFileActionsResponse_actions m)"

definition GetFileActionsResponse_valid :: "GetFileActionsResponse \<Rightarrow> bool" where
  "GetFileActionsResponse_valid m \<longleftrightarrow> list_all (\<lambda>v. FileAction_valid v \<and> length (FileAction_bytes v) < 4294967296) (GetFileActionsResponse_actions m)"

definition GetFileActionsResponse_merge :: "GetFileActionsResponse \<Rightarrow> GetFileActionsResponse \<Rightarrow> GetFileActionsResponse" where
  "GetFileActionsResponse_merge a m =
     a\<lparr>GetFileActionsResponse_actions := GetFileActionsResponse_actions a @ GetFileActionsResponse_actions m\<rparr>"

lemma GetFileActionsResponse_emits:
  assumes "GetFileActionsResponse_valid m"
  shows "emits (GetFileActionsResponse_encode m) (GetFileActionsResponse_bytes m)"
  unfolding GetFileActionsResponse_encode_def [abs_def] GetFileActionsResponse_bytes_def Let_def append_assoc [symmetric]
  by (rule FileAction_codec.sub.emits_all)
    (simp_all add: assms [unfolded GetFileActionsResponse_valid_def map_ok_def])

lemma GetFileActionsResponse_parses:
  assumes "GetFileActionsResponse_valid m"
  shows "parses GetFileActionsResponse_decode_field (GetFileActionsResponse_bytes m) a (GetFileActionsResponse_merge a m)"
  unfolding GetFileActionsResponse_bytes_def append_assoc [symmetric]
  by (rule parses_to,
      rule FileAction_codec.sub.parses_all [where get = GetFileActionsResponse_actions and upd = "\<lambda>x m. m\<lparr>GetFileActionsResponse_actions := x\<rparr>"])
    (simp_all add: assms [unfolded GetFileActionsResponse_valid_def map_ok_def] GetFileActionsResponse_decode_field_def tag_no_def lens_def
      merge_defs GetFileActionsResponse_merge_def)

lemma GetFileActionsResponse_merge_new: "GetFileActionsResponse_valid m \<Longrightarrow> GetFileActionsResponse_merge GetFileActionsResponse_new m = m"
  by (simp add: GetFileActionsResponse_merge_def GetFileActionsResponse_new_def GetFileActionsResponse_valid_def map_ok_def js_object_def)

lemma GetFileActionsResponse_progress: "progress GetFileActionsResponse_decode_field"
  by (rule progressI)
    (simp add: GetFileActionsResponse_decode_field_def moves_if_split moves_branches FileAction_codec.moves_decode)

interpretation GetFileActionsResponse_codec: message_codec GetFileActionsResponse_encode GetFileActionsResponse_decode GetFileActionsResponse_decode_field GetFileActionsResponse_new GetFileActionsResponse_bytes
  GetFileActionsResponse_valid GetFileActionsResponse_merge
  by unfold_locales
    (simp_all add: GetFileActionsResponse_decode_def GetFileActionsResponse_progress GetFileActionsResponse_emits GetFileActionsResponse_parses GetFileActionsResponse_merge_new)

subsection \<open>RunFileActionRequest\<close>

record RunFileActionRequest =
  RunFileActionRequest_path :: "jstring option"
  RunFileActionRequest_actionId :: "jstring option"

definition RunFileActionRequest_new :: RunFileActionRequest where
  "RunFileActionRequest_new = \<lparr>RunFileActionRequest_path = None, RunFileActionRequest_actionId = None\<rparr>"

definition RunFileActionRequest_encode :: "RunFileActionRequest \<Rightarrow> Writer \<Rightarrow> Writer" where
  "RunFileActionRequest_encode message writer =
     (let writer = put_opt 10 w_string (RunFileActionRequest_path message) writer;
          writer = put_opt 18 w_string (RunFileActionRequest_actionId message) writer
      in writer)"

definition RunFileActionRequest_decode_field :: "u32 \<Rightarrow> Reader \<Rightarrow> RunFileActionRequest \<Rightarrow> (RunFileActionRequest \<times> Reader) res" where
  "RunFileActionRequest_decode_field tag reader message =
     (if tag_no tag = 1 then map_res (\<lambda>v. message\<lparr>RunFileActionRequest_path := Some v\<rparr>) (r_string reader)
      else if tag_no tag = 2 then map_res (\<lambda>v. message\<lparr>RunFileActionRequest_actionId := Some v\<rparr>) (r_string reader)
      else skip_field tag reader message)"

definition RunFileActionRequest_decode :: "Reader \<Rightarrow> nat option \<Rightarrow> (RunFileActionRequest \<times> Reader) res" where
  "RunFileActionRequest_decode = decode_with RunFileActionRequest_decode_field RunFileActionRequest_new"

definition RunFileActionRequest_encodeDelimited :: "RunFileActionRequest \<Rightarrow> Writer \<Rightarrow> Writer" where
  "RunFileActionRequest_encodeDelimited message writer = w_ldelim (RunFileActionRequest_encode message writer)"

definition RunFileActionRequest_decodeDelimited :: "Reader \<Rightarrow> (RunFileActionRequest \<times> Reader) res" where
  "RunFileActionRequest_decodeDelimited = get_sub RunFileActionRequest_decode"

definition RunFileActionRequest_bytes :: "RunFileActionRequest \<Rightarrow> u8 list" where
  "RunFileActionRequest_bytes m =
     opt_bytes 10 string_bytes (RunFileActionRequest_path m) @
     opt_bytes 18 string_bytes (RunFileActionRequest_actionId m)"

definition RunFileActionRequest_valid :: "RunFileActionRequest \<Rightarrow> bool" where
  "RunFileActionRequest_valid m \<longleftrightarrow> opt_ok string_ok (RunFileActionRequest_path m) \<and>
     opt_ok string_ok (RunFileActionRequest_actionId m)"

definition RunFileActionRequest_merge :: "RunFileActionRequest \<Rightarrow> RunFileActionRequest \<Rightarrow> RunFileActionRequest" where
  "RunFileActionRequest_merge a m =
     a\<lparr>RunFileActionRequest_path := or_else (RunFileActionRequest_path m) (RunFileActionRequest_path a),
       RunFileActionRequest_actionId := or_else (RunFileActionRequest_actionId m) (RunFileActionRequest_actionId a)\<rparr>"

lemma RunFileActionRequest_emits:
  assumes "RunFileActionRequest_valid m"
  shows "emits (RunFileActionRequest_encode m) (RunFileActionRequest_bytes m)"
  unfolding RunFileActionRequest_encode_def [abs_def] RunFileActionRequest_bytes_def Let_def append_assoc [symmetric]
  by (rule string.then_emits_opt, rule string.emits_opt)
    (simp_all add: assms [unfolded RunFileActionRequest_valid_def map_ok_def])

lemma RunFileActionRequest_parses:
  assumes "RunFileActionRequest_valid m"
  shows "parses RunFileActionRequest_decode_field (RunFileActionRequest_bytes m) a (RunFileActionRequest_merge a m)"
  unfolding RunFileActionRequest_bytes_def append_assoc [symmetric]
  by (rule parses_to,
      rule string.then_parses_opt [where get = RunFileActionRequest_actionId and upd = "\<lambda>x m. m\<lparr>RunFileActionRequest_actionId := x\<rparr>"],
      rule string.parses_opt [where get = RunFileActionRequest_path and upd = "\<lambda>x m. m\<lparr>RunFileActionRequest_path := x\<rparr>"])
    (simp_all add: assms [unfolded RunFileActionRequest_valid_def map_ok_def] RunFileActionRequest_decode_field_def tag_no_def lens_def
      merge_defs RunFileActionRequest_merge_def)

lemma RunFileActionRequest_merge_new: "RunFileActionRequest_valid m \<Longrightarrow> RunFileActionRequest_merge RunFileActionRequest_new m = m"
  by (simp add: RunFileActionRequest_merge_def RunFileActionRequest_new_def RunFileActionRequest_valid_def map_ok_def js_object_def)

lemma RunFileActionRequest_progress: "progress RunFileActionRequest_decode_field"
  by (rule progressI)
    (simp add: RunFileActionRequest_decode_field_def moves_if_split moves_branches)

interpretation RunFileActionRequest_codec: message_codec RunFileActionRequest_encode RunFileActionRequest_decode RunFileActionRequest_decode_field RunFileActionRequest_new RunFileActionRequest_bytes
  RunFileActionRequest_valid RunFileActionRequest_merge
  by unfold_locales
    (simp_all add: RunFileActionRequest_decode_def RunFileActionRequest_progress RunFileActionRequest_emits RunFileActionRequest_parses RunFileActionRequest_merge_new)

subsection \<open>RunFileActionResponse\<close>

datatype RunFileActionResponse = RunFileActionResponse_new

definition RunFileActionResponse_encode :: "RunFileActionResponse \<Rightarrow> Writer \<Rightarrow> Writer" where
  "RunFileActionResponse_encode message writer = writer"

definition RunFileActionResponse_decode_field :: "u32 \<Rightarrow> Reader \<Rightarrow> RunFileActionResponse \<Rightarrow> (RunFileActionResponse \<times> Reader) res" where
  "RunFileActionResponse_decode_field tag reader message = skip_field tag reader message"

definition RunFileActionResponse_decode :: "Reader \<Rightarrow> nat option \<Rightarrow> (RunFileActionResponse \<times> Reader) res" where
  "RunFileActionResponse_decode = decode_with RunFileActionResponse_decode_field RunFileActionResponse_new"

definition RunFileActionResponse_encodeDelimited :: "RunFileActionResponse \<Rightarrow> Writer \<Rightarrow> Writer" where
  "RunFileActionResponse_encodeDelimited message writer = w_ldelim (RunFileActionResponse_encode message writer)"

definition RunFileActionResponse_decodeDelimited :: "Reader \<Rightarrow> (RunFileActionResponse \<times> Reader) res" where
  "RunFileActionResponse_decodeDelimited = get_sub RunFileActionResponse_decode"

definition RunFileActionResponse_bytes :: "RunFileActionResponse \<Rightarrow> u8 list" where
  "RunFileActionResponse_bytes m = []"

definition RunFileActionResponse_valid :: "RunFileActionResponse \<Rightarrow> bool" where
  "RunFileActionResponse_valid m \<longleftrightarrow> True"

definition RunFileActionResponse_merge :: "RunFileActionResponse \<Rightarrow> RunFileActionResponse \<Rightarrow> RunFileActionResponse" where
  "RunFileActionResponse_merge a m = m"

lemma RunFileActionResponse_emits: "emits (RunFileActionResponse_encode m) (RunFileActionResponse_bytes m)"
  by (simp add: RunFileActionResponse_encode_def [abs_def] RunFileActionResponse_bytes_def emits_id)

lemma RunFileActionResponse_parses: "parses RunFileActionResponse_decode_field (RunFileActionResponse_bytes m) a (RunFileActionResponse_merge a m)"
  by (cases a; cases m) (simp add: RunFileActionResponse_bytes_def RunFileActionResponse_merge_def parses_Nil)

lemma RunFileActionResponse_merge_new: "RunFileActionResponse_valid m \<Longrightarrow> RunFileActionResponse_merge RunFileActionResponse_new m = m"
  by (simp add: RunFileActionResponse_merge_def)

lemma RunFileActionResponse_progress: "progress RunFileActionResponse_decode_field"
  by (rule progressI)
    (simp add: RunFileActionResponse_decode_field_def moves_if_split moves_branches)

interpretation RunFileActionResponse_codec: message_codec RunFileActionResponse_encode RunFileActionResponse_decode RunFileActionResponse_decode_field RunFileActionResponse_new RunFileActionResponse_bytes
  RunFileActionResponse_valid RunFileActionResponse_merge
  by unfold_locales
    (simp_all add: RunFileActionResponse_decode_def RunFileActionResponse_progress RunFileActionResponse_emits RunFileActionResponse_parses RunFileActionResponse_merge_new)

subsection \<open>GetThumbnailRequest\<close>

record GetThumbnailRequest =
  GetThumbnailRequest_path :: "jstring option"
  GetThumbnailRequest_size :: "int option"

definition GetThumbnailRequest_new :: GetThumbnailRequest where
  "GetThumbnailRequest_new = \<lparr>GetThumbnailRequest_path = None, GetThumbnailRequest_size = None\<rparr>"

definition GetThumbnailRequest_encode :: "GetThumbnailRequest \<Rightarrow> Writer \<Rightarrow> Writer" where
  "GetThumbnailRequest_encode message writer =
     (let writer = put_opt 10 w_string (GetThumbnailRequest_path message) writer;
          writer = put_opt 16 w_int32 (GetThumbnailRequest_size message) writer
      in writer)"

definition GetThumbnailRequest_decode_field :: "u32 \<Rightarrow> Reader \<Rightarrow> GetThumbnailRequest \<Rightarrow> (GetThumbnailRequest \<times> Reader) res" where
  "GetThumbnailRequest_decode_field tag reader message =
     (if tag_no tag = 1 then map_res (\<lambda>v. message\<lparr>GetThumbnailRequest_path := Some v\<rparr>) (r_string reader)
      else if tag_no tag = 2 then map_res (\<lambda>v. message\<lparr>GetThumbnailRequest_size := Some v\<rparr>) (r_int32 reader)
      else skip_field tag reader message)"

definition GetThumbnailRequest_decode :: "Reader \<Rightarrow> nat option \<Rightarrow> (GetThumbnailRequest \<times> Reader) res" where
  "GetThumbnailRequest_decode = decode_with GetThumbnailRequest_decode_field GetThumbnailRequest_new"

definition GetThumbnailRequest_encodeDelimited :: "GetThumbnailRequest \<Rightarrow> Writer \<Rightarrow> Writer" where
  "GetThumbnailRequest_encodeDelimited message writer = w_ldelim (GetThumbnailRequest_encode message writer)"

definition GetThumbnailRequest_decodeDelimited :: "Reader \<Rightarrow> (GetThumbnailRequest \<times> Reader) res" where
  "GetThumbnailRequest_decodeDelimited = get_sub GetThumbnailRequest_decode"

definition GetThumbnailRequest_bytes :: "GetThumbnailRequest \<Rightarrow> u8 list" where
  "GetThumbnailRequest_bytes m =
     opt_bytes 10 string_bytes (GetThumbnailRequest_path m) @
     opt_bytes 16 int32_bytes (GetThumbnailRequest_size m)"

definition GetThumbnailRequest_valid :: "GetThumbnailRequest \<Rightarrow> bool" where
  "GetThumbnailRequest_valid m \<longleftrightarrow> opt_ok string_ok (GetThumbnailRequest_path m) \<and>
     opt_ok int32_ok (GetThumbnailRequest_size m)"

definition GetThumbnailRequest_merge :: "GetThumbnailRequest \<Rightarrow> GetThumbnailRequest \<Rightarrow> GetThumbnailRequest" where
  "GetThumbnailRequest_merge a m =
     a\<lparr>GetThumbnailRequest_path := or_else (GetThumbnailRequest_path m) (GetThumbnailRequest_path a),
       GetThumbnailRequest_size := or_else (GetThumbnailRequest_size m) (GetThumbnailRequest_size a)\<rparr>"

lemma GetThumbnailRequest_emits:
  assumes "GetThumbnailRequest_valid m"
  shows "emits (GetThumbnailRequest_encode m) (GetThumbnailRequest_bytes m)"
  unfolding GetThumbnailRequest_encode_def [abs_def] GetThumbnailRequest_bytes_def Let_def append_assoc [symmetric]
  by (rule int32.then_emits_opt, rule string.emits_opt)
    (simp_all add: assms [unfolded GetThumbnailRequest_valid_def map_ok_def])

lemma GetThumbnailRequest_parses:
  assumes "GetThumbnailRequest_valid m"
  shows "parses GetThumbnailRequest_decode_field (GetThumbnailRequest_bytes m) a (GetThumbnailRequest_merge a m)"
  unfolding GetThumbnailRequest_bytes_def append_assoc [symmetric]
  by (rule parses_to,
      rule int32.then_parses_opt [where get = GetThumbnailRequest_size and upd = "\<lambda>x m. m\<lparr>GetThumbnailRequest_size := x\<rparr>"],
      rule string.parses_opt [where get = GetThumbnailRequest_path and upd = "\<lambda>x m. m\<lparr>GetThumbnailRequest_path := x\<rparr>"])
    (simp_all add: assms [unfolded GetThumbnailRequest_valid_def map_ok_def] GetThumbnailRequest_decode_field_def tag_no_def lens_def
      merge_defs GetThumbnailRequest_merge_def)

lemma GetThumbnailRequest_merge_new: "GetThumbnailRequest_valid m \<Longrightarrow> GetThumbnailRequest_merge GetThumbnailRequest_new m = m"
  by (simp add: GetThumbnailRequest_merge_def GetThumbnailRequest_new_def GetThumbnailRequest_valid_def map_ok_def js_object_def)

lemma GetThumbnailRequest_progress: "progress GetThumbnailRequest_decode_field"
  by (rule progressI)
    (simp add: GetThumbnailRequest_decode_field_def moves_if_split moves_branches)

interpretation GetThumbnailRequest_codec: message_codec GetThumbnailRequest_encode GetThumbnailRequest_decode GetThumbnailRequest_decode_field GetThumbnailRequest_new GetThumbnailRequest_bytes
  GetThumbnailRequest_valid GetThumbnailRequest_merge
  by unfold_locales
    (simp_all add: GetThumbnailRequest_decode_def GetThumbnailRequest_progress GetThumbnailRequest_emits GetThumbnailRequest_parses GetThumbnailRequest_merge_new)

subsection \<open>GetThumbnailResponse\<close>

record GetThumbnailResponse =
  GetThumbnailResponse_thumbnailPath :: "jstring option"
  GetThumbnailResponse_width :: "int option"
  GetThumbnailResponse_height :: "int option"

definition GetThumbnailResponse_new :: GetThumbnailResponse where
  "GetThumbnailResponse_new = \<lparr>GetThumbnailResponse_thumbnailPath = None, GetThumbnailResponse_width = None,
     GetThumbnailResponse_height = None\<rparr>"

definition GetThumbnailResponse_encode :: "GetThumbnailResponse \<Rightarrow> Writer \<Rightarrow> Writer" where
  "GetThumbnailResponse_encode message writer =
     (let writer = put_opt 10 w_string (GetThumbnailResponse_thumbnailPath message) writer;
          writer = put_opt 16 w_uint32 (GetThumbnailResponse_width message) writer;
          writer = put_opt 24 w_uint32 (GetThumbnailResponse_height message) writer
      in writer)"

definition GetThumbnailResponse_decode_field :: "u32 \<Rightarrow> Reader \<Rightarrow> GetThumbnailResponse \<Rightarrow> (GetThumbnailResponse \<times> Reader) res" where
  "GetThumbnailResponse_decode_field tag reader message =
     (if tag_no tag = 1 then map_res (\<lambda>v. message\<lparr>GetThumbnailResponse_thumbnailPath := Some v\<rparr>) (r_string reader)
      else if tag_no tag = 2 then map_res (\<lambda>v. message\<lparr>GetThumbnailResponse_width := Some v\<rparr>) (r_uint32_number reader)
      else if tag_no tag = 3 then map_res (\<lambda>v. message\<lparr>GetThumbnailResponse_height := Some v\<rparr>) (r_uint32_number reader)
      else skip_field tag reader message)"

definition GetThumbnailResponse_decode :: "Reader \<Rightarrow> nat option \<Rightarrow> (GetThumbnailResponse \<times> Reader) res" where
  "GetThumbnailResponse_decode = decode_with GetThumbnailResponse_decode_field GetThumbnailResponse_new"

definition GetThumbnailResponse_encodeDelimited :: "GetThumbnailResponse \<Rightarrow> Writer \<Rightarrow> Writer" where
  "GetThumbnailResponse_encodeDelimited message writer = w_ldelim (GetThumbnailResponse_encode message writer)"

definition GetThumbnailResponse_decodeDelimited :: "Reader \<Rightarrow> (GetThumbnailResponse \<times> Reader) res" where
  "GetThumbnailResponse_decodeDelimited = get_sub GetThumbnailResponse_decode"

definition GetThumbnailResponse_bytes :: "GetThumbnailResponse \<Rightarrow> u8 list" where
  "GetThumbnailResponse_bytes m =
     opt_bytes 10 string_bytes (GetThumbnailResponse_thumbnailPath m) @
     opt_bytes 16 uint32_bytes (GetThumbnailResponse_width m) @
     opt_bytes 24 uint32_bytes (GetThumbnailResponse_height m)"

definition GetThumbnailResponse_valid :: "GetThumbnailResponse \<Rightarrow> bool" where
  "GetThumbnailResponse_valid m \<longleftrightarrow> opt_ok string_ok (GetThumbnailResponse_thumbnailPath m) \<and>
     opt_ok uint32_ok (GetThumbnailResponse_width m) \<and>
     opt_ok uint32_ok (GetThumbnailResponse_height m)"

definition GetThumbnailResponse_merge :: "GetThumbnailResponse \<Rightarrow> GetThumbnailResponse \<Rightarrow> GetThumbnailResponse" where
  "GetThumbnailResponse_merge a m =
     a\<lparr>GetThumbnailResponse_thumbnailPath := or_else (GetThumbnailResponse_thumbnailPath m) (GetThumbnailResponse_thumbnailPath a),
       GetThumbnailResponse_width := or_else (GetThumbnailResponse_width m) (GetThumbnailResponse_width a),
       GetThumbnailResponse_height := or_else (GetThumbnailResponse_height m) (GetThumbnailResponse_height a)\<rparr>"

lemma GetThumbnailResponse_emits:
  assumes "GetThumbnailResponse_valid m"
  shows "emits (GetThumbnailResponse_encode m) (GetThumbnailResponse_bytes m)"
  unfolding GetThumbnailResponse_encode_def [abs_def] GetThumbnailResponse_bytes_def Let_def append_assoc [symmetric]
  by (rule uint32.then_emits_opt, rule uint32.then_emits_opt, rule string.emits_opt)
    (simp_all add: assms [unfolded GetThumbnailResponse_valid_def map_ok_def])

lemma GetThumbnailResponse_parses:
  assumes "GetThumbnailResponse_valid m"
  shows "parses GetThumbnailResponse_decode_field (GetThumbnailResponse_bytes m) a (GetThumbnailResponse_merge a m)"
  unfolding GetThumbnailResponse_bytes_def append_assoc [symmetric]
  by (rule parses_to,
      rule uint32.then_parses_opt [where get = GetThumbnailResponse_height and upd = "\<lambda>x m. m\<lparr>GetThumbnailResponse_height := x\<rparr>"],
      rule uint32.then_parses_opt [where get = GetThumbnailResponse_width and upd = "\<lambda>x m. m\<lparr>GetThumbnailResponse_width := x\<rparr>"],
      rule string.parses_opt [where get = GetThumbnailResponse_thumbnailPath and upd = "\<lambda>x m. m\<lparr>GetThumbnailResponse_thumbnailPath := x\<rparr>"])
    (simp_all add: assms [unfolded GetThumbnailResponse_valid_def map_ok_def] GetThumbnailResponse_decode_field_def tag_no_def lens_def
      merge_defs GetThumbnailResponse_merge_def)

lemma GetThumbnailResponse_merge_new: "GetThumbnailResponse_valid m \<Longrightarrow> GetThumbnailResponse_merge GetThumbnailResponse_new m = m"
  by (simp add: GetThumbnailResponse_merge_def GetThumbnailResponse_new_def GetThumbnailResponse_valid_def map_ok_def js_object_def)

lemma GetThumbnailResponse_progress: "progress GetThumbnailResponse_decode_field"
  by (rule progressI)
    (simp add: GetThumbnailResponse_decode_field_def moves_if_split moves_branches)

interpretation GetThumbnailResponse_codec: message_codec GetThumbnailResponse_encode GetThumbnailResponse_decode GetThumbnailResponse_decode_field GetThumbnailResponse_new GetThumbnailResponse_bytes
  GetThumbnailResponse_valid GetThumbnailResponse_merge
  by unfold_locales
    (simp_all add: GetThumbnailResponse_decode_def GetThumbnailResponse_progress GetThumbnailResponse_emits GetThumbnailResponse_parses GetThumbnailResponse_merge_new)

subsection \<open>MountEntry\<close>

record MountEntry =
  MountEntry_path :: "jstring option"
  MountEntry_label :: "jstring option"
  MountEntry_iconName :: "jstring option"

definition MountEntry_new :: MountEntry where
  "MountEntry_new = \<lparr>MountEntry_path = None, MountEntry_label = None, MountEntry_iconName = None\<rparr>"

definition MountEntry_encode :: "MountEntry \<Rightarrow> Writer \<Rightarrow> Writer" where
  "MountEntry_encode message writer =
     (let writer = put_opt 10 w_string (MountEntry_path message) writer;
          writer = put_opt 18 w_string (MountEntry_label message) writer;
          writer = put_opt 26 w_string (MountEntry_iconName message) writer
      in writer)"

definition MountEntry_decode_field :: "u32 \<Rightarrow> Reader \<Rightarrow> MountEntry \<Rightarrow> (MountEntry \<times> Reader) res" where
  "MountEntry_decode_field tag reader message =
     (if tag_no tag = 1 then map_res (\<lambda>v. message\<lparr>MountEntry_path := Some v\<rparr>) (r_string reader)
      else if tag_no tag = 2 then map_res (\<lambda>v. message\<lparr>MountEntry_label := Some v\<rparr>) (r_string reader)
      else if tag_no tag = 3 then map_res (\<lambda>v. message\<lparr>MountEntry_iconName := Some v\<rparr>) (r_string reader)
      else skip_field tag reader message)"

definition MountEntry_decode :: "Reader \<Rightarrow> nat option \<Rightarrow> (MountEntry \<times> Reader) res" where
  "MountEntry_decode = decode_with MountEntry_decode_field MountEntry_new"

definition MountEntry_encodeDelimited :: "MountEntry \<Rightarrow> Writer \<Rightarrow> Writer" where
  "MountEntry_encodeDelimited message writer = w_ldelim (MountEntry_encode message writer)"

definition MountEntry_decodeDelimited :: "Reader \<Rightarrow> (MountEntry \<times> Reader) res" where
  "MountEntry_decodeDelimited = get_sub MountEntry_decode"

definition MountEntry_bytes :: "MountEntry \<Rightarrow> u8 list" where
  "MountEntry_bytes m =
     opt_bytes 10 string_bytes (MountEntry_path m) @
     opt_bytes 18 string_bytes (MountEntry_label m) @
     opt_bytes 26 string_bytes (MountEntry_iconName m)"

definition MountEntry_valid :: "MountEntry \<Rightarrow> bool" where
  "MountEntry_valid m \<longleftrightarrow> opt_ok string_ok (MountEntry_path m) \<and>
     opt_ok string_ok (MountEntry_label m) \<and>
     opt_ok string_ok (MountEntry_iconName m)"

definition MountEntry_merge :: "MountEntry \<Rightarrow> MountEntry \<Rightarrow> MountEntry" where
  "MountEntry_merge a m =
     a\<lparr>MountEntry_path := or_else (MountEntry_path m) (MountEntry_path a),
       MountEntry_label := or_else (MountEntry_label m) (MountEntry_label a),
       MountEntry_iconName := or_else (MountEntry_iconName m) (MountEntry_iconName a)\<rparr>"

lemma MountEntry_emits:
  assumes "MountEntry_valid m"
  shows "emits (MountEntry_encode m) (MountEntry_bytes m)"
  unfolding MountEntry_encode_def [abs_def] MountEntry_bytes_def Let_def append_assoc [symmetric]
  by (rule string.then_emits_opt, rule string.then_emits_opt, rule string.emits_opt)
    (simp_all add: assms [unfolded MountEntry_valid_def map_ok_def])

lemma MountEntry_parses:
  assumes "MountEntry_valid m"
  shows "parses MountEntry_decode_field (MountEntry_bytes m) a (MountEntry_merge a m)"
  unfolding MountEntry_bytes_def append_assoc [symmetric]
  by (rule parses_to,
      rule string.then_parses_opt [where get = MountEntry_iconName and upd = "\<lambda>x m. m\<lparr>MountEntry_iconName := x\<rparr>"],
      rule string.then_parses_opt [where get = MountEntry_label and upd = "\<lambda>x m. m\<lparr>MountEntry_label := x\<rparr>"],
      rule string.parses_opt [where get = MountEntry_path and upd = "\<lambda>x m. m\<lparr>MountEntry_path := x\<rparr>"])
    (simp_all add: assms [unfolded MountEntry_valid_def map_ok_def] MountEntry_decode_field_def tag_no_def lens_def
      merge_defs MountEntry_merge_def)

lemma MountEntry_merge_new: "MountEntry_valid m \<Longrightarrow> MountEntry_merge MountEntry_new m = m"
  by (simp add: MountEntry_merge_def MountEntry_new_def MountEntry_valid_def map_ok_def js_object_def)

lemma MountEntry_progress: "progress MountEntry_decode_field"
  by (rule progressI)
    (simp add: MountEntry_decode_field_def moves_if_split moves_branches)

interpretation MountEntry_codec: message_codec MountEntry_encode MountEntry_decode MountEntry_decode_field MountEntry_new MountEntry_bytes
  MountEntry_valid MountEntry_merge
  by unfold_locales
    (simp_all add: MountEntry_decode_def MountEntry_progress MountEntry_emits MountEntry_parses MountEntry_merge_new)

subsection \<open>ListMountsRequest\<close>

datatype ListMountsRequest = ListMountsRequest_new

definition ListMountsRequest_encode :: "ListMountsRequest \<Rightarrow> Writer \<Rightarrow> Writer" where
  "ListMountsRequest_encode message writer = writer"

definition ListMountsRequest_decode_field :: "u32 \<Rightarrow> Reader \<Rightarrow> ListMountsRequest \<Rightarrow> (ListMountsRequest \<times> Reader) res" where
  "ListMountsRequest_decode_field tag reader message = skip_field tag reader message"

definition ListMountsRequest_decode :: "Reader \<Rightarrow> nat option \<Rightarrow> (ListMountsRequest \<times> Reader) res" where
  "ListMountsRequest_decode = decode_with ListMountsRequest_decode_field ListMountsRequest_new"

definition ListMountsRequest_encodeDelimited :: "ListMountsRequest \<Rightarrow> Writer \<Rightarrow> Writer" where
  "ListMountsRequest_encodeDelimited message writer = w_ldelim (ListMountsRequest_encode message writer)"

definition ListMountsRequest_decodeDelimited :: "Reader \<Rightarrow> (ListMountsRequest \<times> Reader) res" where
  "ListMountsRequest_decodeDelimited = get_sub ListMountsRequest_decode"

definition ListMountsRequest_bytes :: "ListMountsRequest \<Rightarrow> u8 list" where
  "ListMountsRequest_bytes m = []"

definition ListMountsRequest_valid :: "ListMountsRequest \<Rightarrow> bool" where
  "ListMountsRequest_valid m \<longleftrightarrow> True"

definition ListMountsRequest_merge :: "ListMountsRequest \<Rightarrow> ListMountsRequest \<Rightarrow> ListMountsRequest" where
  "ListMountsRequest_merge a m = m"

lemma ListMountsRequest_emits: "emits (ListMountsRequest_encode m) (ListMountsRequest_bytes m)"
  by (simp add: ListMountsRequest_encode_def [abs_def] ListMountsRequest_bytes_def emits_id)

lemma ListMountsRequest_parses: "parses ListMountsRequest_decode_field (ListMountsRequest_bytes m) a (ListMountsRequest_merge a m)"
  by (cases a; cases m) (simp add: ListMountsRequest_bytes_def ListMountsRequest_merge_def parses_Nil)

lemma ListMountsRequest_merge_new: "ListMountsRequest_valid m \<Longrightarrow> ListMountsRequest_merge ListMountsRequest_new m = m"
  by (simp add: ListMountsRequest_merge_def)

lemma ListMountsRequest_progress: "progress ListMountsRequest_decode_field"
  by (rule progressI)
    (simp add: ListMountsRequest_decode_field_def moves_if_split moves_branches)

interpretation ListMountsRequest_codec: message_codec ListMountsRequest_encode ListMountsRequest_decode ListMountsRequest_decode_field ListMountsRequest_new ListMountsRequest_bytes
  ListMountsRequest_valid ListMountsRequest_merge
  by unfold_locales
    (simp_all add: ListMountsRequest_decode_def ListMountsRequest_progress ListMountsRequest_emits ListMountsRequest_parses ListMountsRequest_merge_new)

subsection \<open>ListMountsResponse\<close>

record ListMountsResponse =
  ListMountsResponse_mounts :: "MountEntry list"

definition ListMountsResponse_new :: ListMountsResponse where
  "ListMountsResponse_new = \<lparr>ListMountsResponse_mounts = []\<rparr>"

definition ListMountsResponse_encode :: "ListMountsResponse \<Rightarrow> Writer \<Rightarrow> Writer" where
  "ListMountsResponse_encode message writer =
     (let writer = put_all 10 (put_sub MountEntry_encode) (ListMountsResponse_mounts message) writer
      in writer)"

definition ListMountsResponse_decode_field :: "u32 \<Rightarrow> Reader \<Rightarrow> ListMountsResponse \<Rightarrow> (ListMountsResponse \<times> Reader) res" where
  "ListMountsResponse_decode_field tag reader message =
     (if tag_no tag = 1 then map_res (\<lambda>v. message\<lparr>ListMountsResponse_mounts := ListMountsResponse_mounts message @ [v]\<rparr>) (get_sub MountEntry_decode reader)
      else skip_field tag reader message)"

definition ListMountsResponse_decode :: "Reader \<Rightarrow> nat option \<Rightarrow> (ListMountsResponse \<times> Reader) res" where
  "ListMountsResponse_decode = decode_with ListMountsResponse_decode_field ListMountsResponse_new"

definition ListMountsResponse_encodeDelimited :: "ListMountsResponse \<Rightarrow> Writer \<Rightarrow> Writer" where
  "ListMountsResponse_encodeDelimited message writer = w_ldelim (ListMountsResponse_encode message writer)"

definition ListMountsResponse_decodeDelimited :: "Reader \<Rightarrow> (ListMountsResponse \<times> Reader) res" where
  "ListMountsResponse_decodeDelimited = get_sub ListMountsResponse_decode"

definition ListMountsResponse_bytes :: "ListMountsResponse \<Rightarrow> u8 list" where
  "ListMountsResponse_bytes m =
     all_bytes 10 (\<lambda>v. delim (MountEntry_bytes v)) (ListMountsResponse_mounts m)"

definition ListMountsResponse_valid :: "ListMountsResponse \<Rightarrow> bool" where
  "ListMountsResponse_valid m \<longleftrightarrow> list_all (\<lambda>v. MountEntry_valid v \<and> length (MountEntry_bytes v) < 4294967296) (ListMountsResponse_mounts m)"

definition ListMountsResponse_merge :: "ListMountsResponse \<Rightarrow> ListMountsResponse \<Rightarrow> ListMountsResponse" where
  "ListMountsResponse_merge a m =
     a\<lparr>ListMountsResponse_mounts := ListMountsResponse_mounts a @ ListMountsResponse_mounts m\<rparr>"

lemma ListMountsResponse_emits:
  assumes "ListMountsResponse_valid m"
  shows "emits (ListMountsResponse_encode m) (ListMountsResponse_bytes m)"
  unfolding ListMountsResponse_encode_def [abs_def] ListMountsResponse_bytes_def Let_def append_assoc [symmetric]
  by (rule MountEntry_codec.sub.emits_all)
    (simp_all add: assms [unfolded ListMountsResponse_valid_def map_ok_def])

lemma ListMountsResponse_parses:
  assumes "ListMountsResponse_valid m"
  shows "parses ListMountsResponse_decode_field (ListMountsResponse_bytes m) a (ListMountsResponse_merge a m)"
  unfolding ListMountsResponse_bytes_def append_assoc [symmetric]
  by (rule parses_to,
      rule MountEntry_codec.sub.parses_all [where get = ListMountsResponse_mounts and upd = "\<lambda>x m. m\<lparr>ListMountsResponse_mounts := x\<rparr>"])
    (simp_all add: assms [unfolded ListMountsResponse_valid_def map_ok_def] ListMountsResponse_decode_field_def tag_no_def lens_def
      merge_defs ListMountsResponse_merge_def)

lemma ListMountsResponse_merge_new: "ListMountsResponse_valid m \<Longrightarrow> ListMountsResponse_merge ListMountsResponse_new m = m"
  by (simp add: ListMountsResponse_merge_def ListMountsResponse_new_def ListMountsResponse_valid_def map_ok_def js_object_def)

lemma ListMountsResponse_progress: "progress ListMountsResponse_decode_field"
  by (rule progressI)
    (simp add: ListMountsResponse_decode_field_def moves_if_split moves_branches MountEntry_codec.moves_decode)

interpretation ListMountsResponse_codec: message_codec ListMountsResponse_encode ListMountsResponse_decode ListMountsResponse_decode_field ListMountsResponse_new ListMountsResponse_bytes
  ListMountsResponse_valid ListMountsResponse_merge
  by unfold_locales
    (simp_all add: ListMountsResponse_decode_def ListMountsResponse_progress ListMountsResponse_emits ListMountsResponse_parses ListMountsResponse_merge_new)

end
