(* ===== verification/Protocol.thy ===== *)
theory Protocol
  imports Daemon Query Files Desktop
begin

text \<open>
  What travels over the socket: the envelope with its number and its request, response or
  event, and the 40 kinds of requests and responses.

  A message is a record with one component per field of its class: an \<open>option\<close> for a
  singular field (\<open>None\<close> while the object has no property of its own and reads the default
  of its prototype), a list for a repeated one, the entries of the object for a map; a class without
  fields is a type with one value. \<open>X_new\<close> is what the constructor makes, \<open>X_encode\<close>
  and \<open>X_decode\<close> are the methods, \<open>X_decode_field\<close> the switch of \<open>X.decode\<close>. The
  specification is \<open>X_bytes\<close>, the bytes on the wire, \<open>X_valid\<close>, the values the types of
  the fields have, and \<open>X_merge a m\<close>, the message \<open>a\<close> after the bytes of \<open>m\<close> have
  been decoded into it.
\<close>

subsection \<open>Request\<close>

record Request =
  Request_search :: "SearchRequest option"
  Request_tag :: "TagRequest option"
  Request_metadata :: "MetadataRequest option"
  Request_metadataSet :: "MetadataSetRequest option"
  Request_related :: "RelatedRequest option"
  Request_status :: "StatusRequest option"
  Request_reloadRules :: "ReloadRulesRequest option"
  Request_listTags :: "ListTagsRequest option"
  Request_hydrateTags :: "HydrateTagsRequest option"
  Request_listDirectory :: "ListDirectoryRequest option"
  Request_statFile :: "StatFileRequest option"
  Request_globSearch :: "GlobSearchRequest option"
  Request_renameFile :: "RenameFileRequest option"
  Request_deleteFile :: "DeleteFileRequest option"
  Request_chmodFile :: "ChmodFileRequest option"
  Request_listPlaces :: "ListPlacesRequest option"
  Request_pinPlace :: "PinPlaceRequest option"
  Request_unpinPlace :: "UnpinPlaceRequest option"
  Request_trashFile :: "TrashFileRequest option"
  Request_listTrash :: "ListTrashRequest option"
  Request_restoreTrash :: "RestoreTrashRequest option"
  Request_emptyTrash :: "EmptyTrashRequest option"
  Request_listAppsForFile :: "ListAppsForFileRequest option"
  Request_openWithApp :: "OpenWithAppRequest option"
  Request_getBrowserConfig :: "GetBrowserConfigRequest option"
  Request_getFileBadges :: "GetFileBadgesRequest option"
  Request_getFileActions :: "GetFileActionsRequest option"
  Request_runFileAction :: "RunFileActionRequest option"
  Request_launchGui :: "LaunchGUIRequest option"
  Request_getThumbnail :: "GetThumbnailRequest option"
  Request_copy :: "CopyRequest option"
  Request_paste :: "PasteRequest option"
  Request_createFile :: "CreateFileRequest option"
  Request_createDirectory :: "CreateDirectoryRequest option"
  Request_listMounts :: "ListMountsRequest option"
  Request_pinSearch :: "PinSearchRequest option"
  Request_unpinSearch :: "UnpinSearchRequest option"
  Request_listSavedSearches :: "ListSavedSearchesRequest option"
  Request_shutdown :: "ShutdownRequest option"
  Request_reindexFile :: "ReindexFileRequest option"

definition Request_new :: Request where
  "Request_new = \<lparr>Request_search = None, Request_tag = None, Request_metadata = None,
     Request_metadataSet = None, Request_related = None, Request_status = None,
     Request_reloadRules = None, Request_listTags = None, Request_hydrateTags = None,
     Request_listDirectory = None, Request_statFile = None, Request_globSearch = None,
     Request_renameFile = None, Request_deleteFile = None, Request_chmodFile = None,
     Request_listPlaces = None, Request_pinPlace = None, Request_unpinPlace = None,
     Request_trashFile = None, Request_listTrash = None, Request_restoreTrash = None,
     Request_emptyTrash = None, Request_listAppsForFile = None, Request_openWithApp =
     None, Request_getBrowserConfig = None, Request_getFileBadges = None,
     Request_getFileActions = None, Request_runFileAction = None, Request_launchGui =
     None, Request_getThumbnail = None, Request_copy = None, Request_paste = None,
     Request_createFile = None, Request_createDirectory = None, Request_listMounts = None,
     Request_pinSearch = None, Request_unpinSearch = None, Request_listSavedSearches =
     None, Request_shutdown = None, Request_reindexFile = None\<rparr>"

definition Request_encode :: "Request \<Rightarrow> Writer \<Rightarrow> Writer" where
  "Request_encode message writer =
     (let writer = put_opt 10 (put_sub SearchRequest_encode) (Request_search message) writer;
          writer = put_opt 18 (put_sub TagRequest_encode) (Request_tag message) writer;
          writer = put_opt 26 (put_sub MetadataRequest_encode) (Request_metadata message) writer;
          writer = put_opt 34 (put_sub MetadataSetRequest_encode) (Request_metadataSet message) writer;
          writer = put_opt 42 (put_sub RelatedRequest_encode) (Request_related message) writer;
          writer = put_opt 50 (put_sub StatusRequest_encode) (Request_status message) writer;
          writer = put_opt 58 (put_sub ReloadRulesRequest_encode) (Request_reloadRules message) writer;
          writer = put_opt 66 (put_sub ListTagsRequest_encode) (Request_listTags message) writer;
          writer = put_opt 74 (put_sub HydrateTagsRequest_encode) (Request_hydrateTags message) writer;
          writer = put_opt 82 (put_sub ListDirectoryRequest_encode) (Request_listDirectory message) writer;
          writer = put_opt 90 (put_sub StatFileRequest_encode) (Request_statFile message) writer;
          writer = put_opt 98 (put_sub GlobSearchRequest_encode) (Request_globSearch message) writer;
          writer = put_opt 106 (put_sub RenameFileRequest_encode) (Request_renameFile message) writer;
          writer = put_opt 114 (put_sub DeleteFileRequest_encode) (Request_deleteFile message) writer;
          writer = put_opt 122 (put_sub ChmodFileRequest_encode) (Request_chmodFile message) writer;
          writer = put_opt 130 (put_sub ListPlacesRequest_encode) (Request_listPlaces message) writer;
          writer = put_opt 138 (put_sub PinPlaceRequest_encode) (Request_pinPlace message) writer;
          writer = put_opt 146 (put_sub UnpinPlaceRequest_encode) (Request_unpinPlace message) writer;
          writer = put_opt 154 (put_sub TrashFileRequest_encode) (Request_trashFile message) writer;
          writer = put_opt 162 (put_sub ListTrashRequest_encode) (Request_listTrash message) writer;
          writer = put_opt 170 (put_sub RestoreTrashRequest_encode) (Request_restoreTrash message) writer;
          writer = put_opt 178 (put_sub EmptyTrashRequest_encode) (Request_emptyTrash message) writer;
          writer = put_opt 186 (put_sub ListAppsForFileRequest_encode) (Request_listAppsForFile message) writer;
          writer = put_opt 194 (put_sub OpenWithAppRequest_encode) (Request_openWithApp message) writer;
          writer = put_opt 202 (put_sub GetBrowserConfigRequest_encode) (Request_getBrowserConfig message) writer;
          writer = put_opt 210 (put_sub GetFileBadgesRequest_encode) (Request_getFileBadges message) writer;
          writer = put_opt 218 (put_sub GetFileActionsRequest_encode) (Request_getFileActions message) writer;
          writer = put_opt 226 (put_sub RunFileActionRequest_encode) (Request_runFileAction message) writer;
          writer = put_opt 234 (put_sub LaunchGUIRequest_encode) (Request_launchGui message) writer;
          writer = put_opt 242 (put_sub GetThumbnailRequest_encode) (Request_getThumbnail message) writer;
          writer = put_opt 250 (put_sub CopyRequest_encode) (Request_copy message) writer;
          writer = put_opt 258 (put_sub PasteRequest_encode) (Request_paste message) writer;
          writer = put_opt 266 (put_sub CreateFileRequest_encode) (Request_createFile message) writer;
          writer = put_opt 274 (put_sub CreateDirectoryRequest_encode) (Request_createDirectory message) writer;
          writer = put_opt 282 (put_sub ListMountsRequest_encode) (Request_listMounts message) writer;
          writer = put_opt 290 (put_sub PinSearchRequest_encode) (Request_pinSearch message) writer;
          writer = put_opt 298 (put_sub UnpinSearchRequest_encode) (Request_unpinSearch message) writer;
          writer = put_opt 306 (put_sub ListSavedSearchesRequest_encode) (Request_listSavedSearches message) writer;
          writer = put_opt 314 (put_sub ShutdownRequest_encode) (Request_shutdown message) writer;
          writer = put_opt 322 (put_sub ReindexFileRequest_encode) (Request_reindexFile message) writer
      in writer)"

definition Request_decode_field :: "u32 \<Rightarrow> Reader \<Rightarrow> Request \<Rightarrow> (Request \<times> Reader) res" where
  "Request_decode_field tag reader message =
     (if tag_no tag = 1 then map_res (\<lambda>v. message\<lparr>Request_search := Some v\<rparr>) (get_sub SearchRequest_decode reader)
      else if tag_no tag = 8 then map_res (\<lambda>v. message\<lparr>Request_listTags := Some v\<rparr>) (get_sub ListTagsRequest_decode reader)
      else if tag_no tag = 9 then map_res (\<lambda>v. message\<lparr>Request_hydrateTags := Some v\<rparr>) (get_sub HydrateTagsRequest_decode reader)
      else if tag_no tag = 5 then map_res (\<lambda>v. message\<lparr>Request_related := Some v\<rparr>) (get_sub RelatedRequest_decode reader)
      else if tag_no tag = 12 then map_res (\<lambda>v. message\<lparr>Request_globSearch := Some v\<rparr>) (get_sub GlobSearchRequest_decode reader)
      else if tag_no tag = 2 then map_res (\<lambda>v. message\<lparr>Request_tag := Some v\<rparr>) (get_sub TagRequest_decode reader)
      else if tag_no tag = 3 then map_res (\<lambda>v. message\<lparr>Request_metadata := Some v\<rparr>) (get_sub MetadataRequest_decode reader)
      else if tag_no tag = 4 then map_res (\<lambda>v. message\<lparr>Request_metadataSet := Some v\<rparr>) (get_sub MetadataSetRequest_decode reader)
      else if tag_no tag = 6 then map_res (\<lambda>v. message\<lparr>Request_status := Some v\<rparr>) (get_sub StatusRequest_decode reader)
      else if tag_no tag = 7 then map_res (\<lambda>v. message\<lparr>Request_reloadRules := Some v\<rparr>) (get_sub ReloadRulesRequest_decode reader)
      else if tag_no tag = 10 then map_res (\<lambda>v. message\<lparr>Request_listDirectory := Some v\<rparr>) (get_sub ListDirectoryRequest_decode reader)
      else if tag_no tag = 11 then map_res (\<lambda>v. message\<lparr>Request_statFile := Some v\<rparr>) (get_sub StatFileRequest_decode reader)
      else if tag_no tag = 13 then map_res (\<lambda>v. message\<lparr>Request_renameFile := Some v\<rparr>) (get_sub RenameFileRequest_decode reader)
      else if tag_no tag = 14 then map_res (\<lambda>v. message\<lparr>Request_deleteFile := Some v\<rparr>) (get_sub DeleteFileRequest_decode reader)
      else if tag_no tag = 15 then map_res (\<lambda>v. message\<lparr>Request_chmodFile := Some v\<rparr>) (get_sub ChmodFileRequest_decode reader)
      else if tag_no tag = 31 then map_res (\<lambda>v. message\<lparr>Request_copy := Some v\<rparr>) (get_sub CopyRequest_decode reader)
      else if tag_no tag = 32 then map_res (\<lambda>v. message\<lparr>Request_paste := Some v\<rparr>) (get_sub PasteRequest_decode reader)
      else if tag_no tag = 33 then map_res (\<lambda>v. message\<lparr>Request_createFile := Some v\<rparr>) (get_sub CreateFileRequest_decode reader)
      else if tag_no tag = 34 then map_res (\<lambda>v. message\<lparr>Request_createDirectory := Some v\<rparr>) (get_sub CreateDirectoryRequest_decode reader)
      else if tag_no tag = 16 then map_res (\<lambda>v. message\<lparr>Request_listPlaces := Some v\<rparr>) (get_sub ListPlacesRequest_decode reader)
      else if tag_no tag = 17 then map_res (\<lambda>v. message\<lparr>Request_pinPlace := Some v\<rparr>) (get_sub PinPlaceRequest_decode reader)
      else if tag_no tag = 18 then map_res (\<lambda>v. message\<lparr>Request_unpinPlace := Some v\<rparr>) (get_sub UnpinPlaceRequest_decode reader)
      else if tag_no tag = 19 then map_res (\<lambda>v. message\<lparr>Request_trashFile := Some v\<rparr>) (get_sub TrashFileRequest_decode reader)
      else if tag_no tag = 20 then map_res (\<lambda>v. message\<lparr>Request_listTrash := Some v\<rparr>) (get_sub ListTrashRequest_decode reader)
      else if tag_no tag = 21 then map_res (\<lambda>v. message\<lparr>Request_restoreTrash := Some v\<rparr>) (get_sub RestoreTrashRequest_decode reader)
      else if tag_no tag = 22 then map_res (\<lambda>v. message\<lparr>Request_emptyTrash := Some v\<rparr>) (get_sub EmptyTrashRequest_decode reader)
      else if tag_no tag = 23 then map_res (\<lambda>v. message\<lparr>Request_listAppsForFile := Some v\<rparr>) (get_sub ListAppsForFileRequest_decode reader)
      else if tag_no tag = 24 then map_res (\<lambda>v. message\<lparr>Request_openWithApp := Some v\<rparr>) (get_sub OpenWithAppRequest_decode reader)
      else if tag_no tag = 25 then map_res (\<lambda>v. message\<lparr>Request_getBrowserConfig := Some v\<rparr>) (get_sub GetBrowserConfigRequest_decode reader)
      else if tag_no tag = 29 then map_res (\<lambda>v. message\<lparr>Request_launchGui := Some v\<rparr>) (get_sub LaunchGUIRequest_decode reader)
      else if tag_no tag = 30 then map_res (\<lambda>v. message\<lparr>Request_getThumbnail := Some v\<rparr>) (get_sub GetThumbnailRequest_decode reader)
      else if tag_no tag = 35 then map_res (\<lambda>v. message\<lparr>Request_listMounts := Some v\<rparr>) (get_sub ListMountsRequest_decode reader)
      else if tag_no tag = 26 then map_res (\<lambda>v. message\<lparr>Request_getFileBadges := Some v\<rparr>) (get_sub GetFileBadgesRequest_decode reader)
      else if tag_no tag = 27 then map_res (\<lambda>v. message\<lparr>Request_getFileActions := Some v\<rparr>) (get_sub GetFileActionsRequest_decode reader)
      else if tag_no tag = 28 then map_res (\<lambda>v. message\<lparr>Request_runFileAction := Some v\<rparr>) (get_sub RunFileActionRequest_decode reader)
      else if tag_no tag = 36 then map_res (\<lambda>v. message\<lparr>Request_pinSearch := Some v\<rparr>) (get_sub PinSearchRequest_decode reader)
      else if tag_no tag = 37 then map_res (\<lambda>v. message\<lparr>Request_unpinSearch := Some v\<rparr>) (get_sub UnpinSearchRequest_decode reader)
      else if tag_no tag = 38 then map_res (\<lambda>v. message\<lparr>Request_listSavedSearches := Some v\<rparr>) (get_sub ListSavedSearchesRequest_decode reader)
      else if tag_no tag = 39 then map_res (\<lambda>v. message\<lparr>Request_shutdown := Some v\<rparr>) (get_sub ShutdownRequest_decode reader)
      else if tag_no tag = 40 then map_res (\<lambda>v. message\<lparr>Request_reindexFile := Some v\<rparr>) (get_sub ReindexFileRequest_decode reader)
      else skip_field tag reader message)"

definition Request_decode :: "Reader \<Rightarrow> nat option \<Rightarrow> (Request \<times> Reader) res" where
  "Request_decode = decode_with Request_decode_field Request_new"

definition Request_encodeDelimited :: "Request \<Rightarrow> Writer \<Rightarrow> Writer" where
  "Request_encodeDelimited message writer = w_ldelim (Request_encode message writer)"

definition Request_decodeDelimited :: "Reader \<Rightarrow> (Request \<times> Reader) res" where
  "Request_decodeDelimited = get_sub Request_decode"

definition Request_bytes :: "Request \<Rightarrow> u8 list" where
  "Request_bytes m =
     opt_bytes 10 (\<lambda>v. delim (SearchRequest_bytes v)) (Request_search m) @
     opt_bytes 18 (\<lambda>v. delim (TagRequest_bytes v)) (Request_tag m) @
     opt_bytes 26 (\<lambda>v. delim (MetadataRequest_bytes v)) (Request_metadata m) @
     opt_bytes 34 (\<lambda>v. delim (MetadataSetRequest_bytes v)) (Request_metadataSet m) @
     opt_bytes 42 (\<lambda>v. delim (RelatedRequest_bytes v)) (Request_related m) @
     opt_bytes 50 (\<lambda>v. delim (StatusRequest_bytes v)) (Request_status m) @
     opt_bytes 58 (\<lambda>v. delim (ReloadRulesRequest_bytes v)) (Request_reloadRules m) @
     opt_bytes 66 (\<lambda>v. delim (ListTagsRequest_bytes v)) (Request_listTags m) @
     opt_bytes 74 (\<lambda>v. delim (HydrateTagsRequest_bytes v)) (Request_hydrateTags m) @
     opt_bytes 82 (\<lambda>v. delim (ListDirectoryRequest_bytes v)) (Request_listDirectory m) @
     opt_bytes 90 (\<lambda>v. delim (StatFileRequest_bytes v)) (Request_statFile m) @
     opt_bytes 98 (\<lambda>v. delim (GlobSearchRequest_bytes v)) (Request_globSearch m) @
     opt_bytes 106 (\<lambda>v. delim (RenameFileRequest_bytes v)) (Request_renameFile m) @
     opt_bytes 114 (\<lambda>v. delim (DeleteFileRequest_bytes v)) (Request_deleteFile m) @
     opt_bytes 122 (\<lambda>v. delim (ChmodFileRequest_bytes v)) (Request_chmodFile m) @
     opt_bytes 130 (\<lambda>v. delim (ListPlacesRequest_bytes v)) (Request_listPlaces m) @
     opt_bytes 138 (\<lambda>v. delim (PinPlaceRequest_bytes v)) (Request_pinPlace m) @
     opt_bytes 146 (\<lambda>v. delim (UnpinPlaceRequest_bytes v)) (Request_unpinPlace m) @
     opt_bytes 154 (\<lambda>v. delim (TrashFileRequest_bytes v)) (Request_trashFile m) @
     opt_bytes 162 (\<lambda>v. delim (ListTrashRequest_bytes v)) (Request_listTrash m) @
     opt_bytes 170 (\<lambda>v. delim (RestoreTrashRequest_bytes v)) (Request_restoreTrash m) @
     opt_bytes 178 (\<lambda>v. delim (EmptyTrashRequest_bytes v)) (Request_emptyTrash m) @
     opt_bytes 186 (\<lambda>v. delim (ListAppsForFileRequest_bytes v)) (Request_listAppsForFile m) @
     opt_bytes 194 (\<lambda>v. delim (OpenWithAppRequest_bytes v)) (Request_openWithApp m) @
     opt_bytes 202 (\<lambda>v. delim (GetBrowserConfigRequest_bytes v)) (Request_getBrowserConfig m) @
     opt_bytes 210 (\<lambda>v. delim (GetFileBadgesRequest_bytes v)) (Request_getFileBadges m) @
     opt_bytes 218 (\<lambda>v. delim (GetFileActionsRequest_bytes v)) (Request_getFileActions m) @
     opt_bytes 226 (\<lambda>v. delim (RunFileActionRequest_bytes v)) (Request_runFileAction m) @
     opt_bytes 234 (\<lambda>v. delim (LaunchGUIRequest_bytes v)) (Request_launchGui m) @
     opt_bytes 242 (\<lambda>v. delim (GetThumbnailRequest_bytes v)) (Request_getThumbnail m) @
     opt_bytes 250 (\<lambda>v. delim (CopyRequest_bytes v)) (Request_copy m) @
     opt_bytes 258 (\<lambda>v. delim (PasteRequest_bytes v)) (Request_paste m) @
     opt_bytes 266 (\<lambda>v. delim (CreateFileRequest_bytes v)) (Request_createFile m) @
     opt_bytes 274 (\<lambda>v. delim (CreateDirectoryRequest_bytes v)) (Request_createDirectory m) @
     opt_bytes 282 (\<lambda>v. delim (ListMountsRequest_bytes v)) (Request_listMounts m) @
     opt_bytes 290 (\<lambda>v. delim (PinSearchRequest_bytes v)) (Request_pinSearch m) @
     opt_bytes 298 (\<lambda>v. delim (UnpinSearchRequest_bytes v)) (Request_unpinSearch m) @
     opt_bytes 306 (\<lambda>v. delim (ListSavedSearchesRequest_bytes v)) (Request_listSavedSearches m) @
     opt_bytes 314 (\<lambda>v. delim (ShutdownRequest_bytes v)) (Request_shutdown m) @
     opt_bytes 322 (\<lambda>v. delim (ReindexFileRequest_bytes v)) (Request_reindexFile m)"

definition Request_valid :: "Request \<Rightarrow> bool" where
  "Request_valid m \<longleftrightarrow> opt_ok (\<lambda>v. SearchRequest_valid v \<and> length (SearchRequest_bytes v) < 4294967296) (Request_search m) \<and>
     opt_ok (\<lambda>v. TagRequest_valid v \<and> length (TagRequest_bytes v) < 4294967296) (Request_tag m) \<and>
     opt_ok (\<lambda>v. MetadataRequest_valid v \<and> length (MetadataRequest_bytes v) < 4294967296) (Request_metadata m) \<and>
     opt_ok (\<lambda>v. MetadataSetRequest_valid v \<and> length (MetadataSetRequest_bytes v) < 4294967296) (Request_metadataSet m) \<and>
     opt_ok (\<lambda>v. RelatedRequest_valid v \<and> length (RelatedRequest_bytes v) < 4294967296) (Request_related m) \<and>
     opt_ok (\<lambda>v. StatusRequest_valid v \<and> length (StatusRequest_bytes v) < 4294967296) (Request_status m) \<and>
     opt_ok (\<lambda>v. ReloadRulesRequest_valid v \<and> length (ReloadRulesRequest_bytes v) < 4294967296) (Request_reloadRules m) \<and>
     opt_ok (\<lambda>v. ListTagsRequest_valid v \<and> length (ListTagsRequest_bytes v) < 4294967296) (Request_listTags m) \<and>
     opt_ok (\<lambda>v. HydrateTagsRequest_valid v \<and> length (HydrateTagsRequest_bytes v) < 4294967296) (Request_hydrateTags m) \<and>
     opt_ok (\<lambda>v. ListDirectoryRequest_valid v \<and> length (ListDirectoryRequest_bytes v) < 4294967296) (Request_listDirectory m) \<and>
     opt_ok (\<lambda>v. StatFileRequest_valid v \<and> length (StatFileRequest_bytes v) < 4294967296) (Request_statFile m) \<and>
     opt_ok (\<lambda>v. GlobSearchRequest_valid v \<and> length (GlobSearchRequest_bytes v) < 4294967296) (Request_globSearch m) \<and>
     opt_ok (\<lambda>v. RenameFileRequest_valid v \<and> length (RenameFileRequest_bytes v) < 4294967296) (Request_renameFile m) \<and>
     opt_ok (\<lambda>v. DeleteFileRequest_valid v \<and> length (DeleteFileRequest_bytes v) < 4294967296) (Request_deleteFile m) \<and>
     opt_ok (\<lambda>v. ChmodFileRequest_valid v \<and> length (ChmodFileRequest_bytes v) < 4294967296) (Request_chmodFile m) \<and>
     opt_ok (\<lambda>v. ListPlacesRequest_valid v \<and> length (ListPlacesRequest_bytes v) < 4294967296) (Request_listPlaces m) \<and>
     opt_ok (\<lambda>v. PinPlaceRequest_valid v \<and> length (PinPlaceRequest_bytes v) < 4294967296) (Request_pinPlace m) \<and>
     opt_ok (\<lambda>v. UnpinPlaceRequest_valid v \<and> length (UnpinPlaceRequest_bytes v) < 4294967296) (Request_unpinPlace m) \<and>
     opt_ok (\<lambda>v. TrashFileRequest_valid v \<and> length (TrashFileRequest_bytes v) < 4294967296) (Request_trashFile m) \<and>
     opt_ok (\<lambda>v. ListTrashRequest_valid v \<and> length (ListTrashRequest_bytes v) < 4294967296) (Request_listTrash m) \<and>
     opt_ok (\<lambda>v. RestoreTrashRequest_valid v \<and> length (RestoreTrashRequest_bytes v) < 4294967296) (Request_restoreTrash m) \<and>
     opt_ok (\<lambda>v. EmptyTrashRequest_valid v \<and> length (EmptyTrashRequest_bytes v) < 4294967296) (Request_emptyTrash m) \<and>
     opt_ok (\<lambda>v. ListAppsForFileRequest_valid v \<and> length (ListAppsForFileRequest_bytes v) < 4294967296) (Request_listAppsForFile m) \<and>
     opt_ok (\<lambda>v. OpenWithAppRequest_valid v \<and> length (OpenWithAppRequest_bytes v) < 4294967296) (Request_openWithApp m) \<and>
     opt_ok (\<lambda>v. GetBrowserConfigRequest_valid v \<and> length (GetBrowserConfigRequest_bytes v) < 4294967296) (Request_getBrowserConfig m) \<and>
     opt_ok (\<lambda>v. GetFileBadgesRequest_valid v \<and> length (GetFileBadgesRequest_bytes v) < 4294967296) (Request_getFileBadges m) \<and>
     opt_ok (\<lambda>v. GetFileActionsRequest_valid v \<and> length (GetFileActionsRequest_bytes v) < 4294967296) (Request_getFileActions m) \<and>
     opt_ok (\<lambda>v. RunFileActionRequest_valid v \<and> length (RunFileActionRequest_bytes v) < 4294967296) (Request_runFileAction m) \<and>
     opt_ok (\<lambda>v. LaunchGUIRequest_valid v \<and> length (LaunchGUIRequest_bytes v) < 4294967296) (Request_launchGui m) \<and>
     opt_ok (\<lambda>v. GetThumbnailRequest_valid v \<and> length (GetThumbnailRequest_bytes v) < 4294967296) (Request_getThumbnail m) \<and>
     opt_ok (\<lambda>v. CopyRequest_valid v \<and> length (CopyRequest_bytes v) < 4294967296) (Request_copy m) \<and>
     opt_ok (\<lambda>v. PasteRequest_valid v \<and> length (PasteRequest_bytes v) < 4294967296) (Request_paste m) \<and>
     opt_ok (\<lambda>v. CreateFileRequest_valid v \<and> length (CreateFileRequest_bytes v) < 4294967296) (Request_createFile m) \<and>
     opt_ok (\<lambda>v. CreateDirectoryRequest_valid v \<and> length (CreateDirectoryRequest_bytes v) < 4294967296) (Request_createDirectory m) \<and>
     opt_ok (\<lambda>v. ListMountsRequest_valid v \<and> length (ListMountsRequest_bytes v) < 4294967296) (Request_listMounts m) \<and>
     opt_ok (\<lambda>v. PinSearchRequest_valid v \<and> length (PinSearchRequest_bytes v) < 4294967296) (Request_pinSearch m) \<and>
     opt_ok (\<lambda>v. UnpinSearchRequest_valid v \<and> length (UnpinSearchRequest_bytes v) < 4294967296) (Request_unpinSearch m) \<and>
     opt_ok (\<lambda>v. ListSavedSearchesRequest_valid v \<and> length (ListSavedSearchesRequest_bytes v) < 4294967296) (Request_listSavedSearches m) \<and>
     opt_ok (\<lambda>v. ShutdownRequest_valid v \<and> length (ShutdownRequest_bytes v) < 4294967296) (Request_shutdown m) \<and>
     opt_ok (\<lambda>v. ReindexFileRequest_valid v \<and> length (ReindexFileRequest_bytes v) < 4294967296) (Request_reindexFile m)"

definition Request_merge :: "Request \<Rightarrow> Request \<Rightarrow> Request" where
  "Request_merge a m =
     a\<lparr>Request_search := or_else (Request_search m) (Request_search a),
       Request_tag := or_else (Request_tag m) (Request_tag a),
       Request_metadata := or_else (Request_metadata m) (Request_metadata a),
       Request_metadataSet := or_else (Request_metadataSet m) (Request_metadataSet a),
       Request_related := or_else (Request_related m) (Request_related a),
       Request_status := or_else (Request_status m) (Request_status a),
       Request_reloadRules := or_else (Request_reloadRules m) (Request_reloadRules a),
       Request_listTags := or_else (Request_listTags m) (Request_listTags a),
       Request_hydrateTags := or_else (Request_hydrateTags m) (Request_hydrateTags a),
       Request_listDirectory := or_else (Request_listDirectory m) (Request_listDirectory a),
       Request_statFile := or_else (Request_statFile m) (Request_statFile a),
       Request_globSearch := or_else (Request_globSearch m) (Request_globSearch a),
       Request_renameFile := or_else (Request_renameFile m) (Request_renameFile a),
       Request_deleteFile := or_else (Request_deleteFile m) (Request_deleteFile a),
       Request_chmodFile := or_else (Request_chmodFile m) (Request_chmodFile a),
       Request_listPlaces := or_else (Request_listPlaces m) (Request_listPlaces a),
       Request_pinPlace := or_else (Request_pinPlace m) (Request_pinPlace a),
       Request_unpinPlace := or_else (Request_unpinPlace m) (Request_unpinPlace a),
       Request_trashFile := or_else (Request_trashFile m) (Request_trashFile a),
       Request_listTrash := or_else (Request_listTrash m) (Request_listTrash a),
       Request_restoreTrash := or_else (Request_restoreTrash m) (Request_restoreTrash a),
       Request_emptyTrash := or_else (Request_emptyTrash m) (Request_emptyTrash a),
       Request_listAppsForFile := or_else (Request_listAppsForFile m) (Request_listAppsForFile a),
       Request_openWithApp := or_else (Request_openWithApp m) (Request_openWithApp a),
       Request_getBrowserConfig := or_else (Request_getBrowserConfig m) (Request_getBrowserConfig a),
       Request_getFileBadges := or_else (Request_getFileBadges m) (Request_getFileBadges a),
       Request_getFileActions := or_else (Request_getFileActions m) (Request_getFileActions a),
       Request_runFileAction := or_else (Request_runFileAction m) (Request_runFileAction a),
       Request_launchGui := or_else (Request_launchGui m) (Request_launchGui a),
       Request_getThumbnail := or_else (Request_getThumbnail m) (Request_getThumbnail a),
       Request_copy := or_else (Request_copy m) (Request_copy a),
       Request_paste := or_else (Request_paste m) (Request_paste a),
       Request_createFile := or_else (Request_createFile m) (Request_createFile a),
       Request_createDirectory := or_else (Request_createDirectory m) (Request_createDirectory a),
       Request_listMounts := or_else (Request_listMounts m) (Request_listMounts a),
       Request_pinSearch := or_else (Request_pinSearch m) (Request_pinSearch a),
       Request_unpinSearch := or_else (Request_unpinSearch m) (Request_unpinSearch a),
       Request_listSavedSearches := or_else (Request_listSavedSearches m) (Request_listSavedSearches a),
       Request_shutdown := or_else (Request_shutdown m) (Request_shutdown a),
       Request_reindexFile := or_else (Request_reindexFile m) (Request_reindexFile a)\<rparr>"

lemma Request_emits:
  assumes "Request_valid m"
  shows "emits (Request_encode m) (Request_bytes m)"
  unfolding Request_encode_def [abs_def] Request_bytes_def Let_def append_assoc [symmetric]
  by (rule ReindexFileRequest_codec.sub.then_emits_opt, rule
      ShutdownRequest_codec.sub.then_emits_opt, rule
      ListSavedSearchesRequest_codec.sub.then_emits_opt, rule
      UnpinSearchRequest_codec.sub.then_emits_opt, rule
      PinSearchRequest_codec.sub.then_emits_opt, rule
      ListMountsRequest_codec.sub.then_emits_opt, rule
      CreateDirectoryRequest_codec.sub.then_emits_opt, rule
      CreateFileRequest_codec.sub.then_emits_opt, rule
      PasteRequest_codec.sub.then_emits_opt, rule CopyRequest_codec.sub.then_emits_opt,
      rule GetThumbnailRequest_codec.sub.then_emits_opt, rule
      LaunchGUIRequest_codec.sub.then_emits_opt, rule
      RunFileActionRequest_codec.sub.then_emits_opt, rule
      GetFileActionsRequest_codec.sub.then_emits_opt, rule
      GetFileBadgesRequest_codec.sub.then_emits_opt, rule
      GetBrowserConfigRequest_codec.sub.then_emits_opt, rule
      OpenWithAppRequest_codec.sub.then_emits_opt, rule
      ListAppsForFileRequest_codec.sub.then_emits_opt, rule
      EmptyTrashRequest_codec.sub.then_emits_opt, rule
      RestoreTrashRequest_codec.sub.then_emits_opt, rule
      ListTrashRequest_codec.sub.then_emits_opt, rule
      TrashFileRequest_codec.sub.then_emits_opt, rule
      UnpinPlaceRequest_codec.sub.then_emits_opt, rule
      PinPlaceRequest_codec.sub.then_emits_opt, rule
      ListPlacesRequest_codec.sub.then_emits_opt, rule
      ChmodFileRequest_codec.sub.then_emits_opt, rule
      DeleteFileRequest_codec.sub.then_emits_opt, rule
      RenameFileRequest_codec.sub.then_emits_opt, rule
      GlobSearchRequest_codec.sub.then_emits_opt, rule
      StatFileRequest_codec.sub.then_emits_opt, rule
      ListDirectoryRequest_codec.sub.then_emits_opt, rule
      HydrateTagsRequest_codec.sub.then_emits_opt, rule
      ListTagsRequest_codec.sub.then_emits_opt, rule
      ReloadRulesRequest_codec.sub.then_emits_opt, rule
      StatusRequest_codec.sub.then_emits_opt, rule
      RelatedRequest_codec.sub.then_emits_opt, rule
      MetadataSetRequest_codec.sub.then_emits_opt, rule
      MetadataRequest_codec.sub.then_emits_opt, rule TagRequest_codec.sub.then_emits_opt,
      rule SearchRequest_codec.sub.emits_opt)
    (simp_all add: assms [unfolded Request_valid_def map_ok_def])

lemma Request_parses:
  assumes "Request_valid m"
  shows "parses Request_decode_field (Request_bytes m) a (Request_merge a m)"
  unfolding Request_bytes_def append_assoc [symmetric]
  by (rule parses_to,
      rule ReindexFileRequest_codec.sub.then_parses_opt [where get = Request_reindexFile and upd = "\<lambda>x m. m\<lparr>Request_reindexFile := x\<rparr>"],
      rule ShutdownRequest_codec.sub.then_parses_opt [where get = Request_shutdown and upd = "\<lambda>x m. m\<lparr>Request_shutdown := x\<rparr>"],
      rule ListSavedSearchesRequest_codec.sub.then_parses_opt [where get = Request_listSavedSearches and upd = "\<lambda>x m. m\<lparr>Request_listSavedSearches := x\<rparr>"],
      rule UnpinSearchRequest_codec.sub.then_parses_opt [where get = Request_unpinSearch and upd = "\<lambda>x m. m\<lparr>Request_unpinSearch := x\<rparr>"],
      rule PinSearchRequest_codec.sub.then_parses_opt [where get = Request_pinSearch and upd = "\<lambda>x m. m\<lparr>Request_pinSearch := x\<rparr>"],
      rule ListMountsRequest_codec.sub.then_parses_opt [where get = Request_listMounts and upd = "\<lambda>x m. m\<lparr>Request_listMounts := x\<rparr>"],
      rule CreateDirectoryRequest_codec.sub.then_parses_opt [where get = Request_createDirectory and upd = "\<lambda>x m. m\<lparr>Request_createDirectory := x\<rparr>"],
      rule CreateFileRequest_codec.sub.then_parses_opt [where get = Request_createFile and upd = "\<lambda>x m. m\<lparr>Request_createFile := x\<rparr>"],
      rule PasteRequest_codec.sub.then_parses_opt [where get = Request_paste and upd = "\<lambda>x m. m\<lparr>Request_paste := x\<rparr>"],
      rule CopyRequest_codec.sub.then_parses_opt [where get = Request_copy and upd = "\<lambda>x m. m\<lparr>Request_copy := x\<rparr>"],
      rule GetThumbnailRequest_codec.sub.then_parses_opt [where get = Request_getThumbnail and upd = "\<lambda>x m. m\<lparr>Request_getThumbnail := x\<rparr>"],
      rule LaunchGUIRequest_codec.sub.then_parses_opt [where get = Request_launchGui and upd = "\<lambda>x m. m\<lparr>Request_launchGui := x\<rparr>"],
      rule RunFileActionRequest_codec.sub.then_parses_opt [where get = Request_runFileAction and upd = "\<lambda>x m. m\<lparr>Request_runFileAction := x\<rparr>"],
      rule GetFileActionsRequest_codec.sub.then_parses_opt [where get = Request_getFileActions and upd = "\<lambda>x m. m\<lparr>Request_getFileActions := x\<rparr>"],
      rule GetFileBadgesRequest_codec.sub.then_parses_opt [where get = Request_getFileBadges and upd = "\<lambda>x m. m\<lparr>Request_getFileBadges := x\<rparr>"],
      rule GetBrowserConfigRequest_codec.sub.then_parses_opt [where get = Request_getBrowserConfig and upd = "\<lambda>x m. m\<lparr>Request_getBrowserConfig := x\<rparr>"],
      rule OpenWithAppRequest_codec.sub.then_parses_opt [where get = Request_openWithApp and upd = "\<lambda>x m. m\<lparr>Request_openWithApp := x\<rparr>"],
      rule ListAppsForFileRequest_codec.sub.then_parses_opt [where get = Request_listAppsForFile and upd = "\<lambda>x m. m\<lparr>Request_listAppsForFile := x\<rparr>"],
      rule EmptyTrashRequest_codec.sub.then_parses_opt [where get = Request_emptyTrash and upd = "\<lambda>x m. m\<lparr>Request_emptyTrash := x\<rparr>"],
      rule RestoreTrashRequest_codec.sub.then_parses_opt [where get = Request_restoreTrash and upd = "\<lambda>x m. m\<lparr>Request_restoreTrash := x\<rparr>"],
      rule ListTrashRequest_codec.sub.then_parses_opt [where get = Request_listTrash and upd = "\<lambda>x m. m\<lparr>Request_listTrash := x\<rparr>"],
      rule TrashFileRequest_codec.sub.then_parses_opt [where get = Request_trashFile and upd = "\<lambda>x m. m\<lparr>Request_trashFile := x\<rparr>"],
      rule UnpinPlaceRequest_codec.sub.then_parses_opt [where get = Request_unpinPlace and upd = "\<lambda>x m. m\<lparr>Request_unpinPlace := x\<rparr>"],
      rule PinPlaceRequest_codec.sub.then_parses_opt [where get = Request_pinPlace and upd = "\<lambda>x m. m\<lparr>Request_pinPlace := x\<rparr>"],
      rule ListPlacesRequest_codec.sub.then_parses_opt [where get = Request_listPlaces and upd = "\<lambda>x m. m\<lparr>Request_listPlaces := x\<rparr>"],
      rule ChmodFileRequest_codec.sub.then_parses_opt [where get = Request_chmodFile and upd = "\<lambda>x m. m\<lparr>Request_chmodFile := x\<rparr>"],
      rule DeleteFileRequest_codec.sub.then_parses_opt [where get = Request_deleteFile and upd = "\<lambda>x m. m\<lparr>Request_deleteFile := x\<rparr>"],
      rule RenameFileRequest_codec.sub.then_parses_opt [where get = Request_renameFile and upd = "\<lambda>x m. m\<lparr>Request_renameFile := x\<rparr>"],
      rule GlobSearchRequest_codec.sub.then_parses_opt [where get = Request_globSearch and upd = "\<lambda>x m. m\<lparr>Request_globSearch := x\<rparr>"],
      rule StatFileRequest_codec.sub.then_parses_opt [where get = Request_statFile and upd = "\<lambda>x m. m\<lparr>Request_statFile := x\<rparr>"],
      rule ListDirectoryRequest_codec.sub.then_parses_opt [where get = Request_listDirectory and upd = "\<lambda>x m. m\<lparr>Request_listDirectory := x\<rparr>"],
      rule HydrateTagsRequest_codec.sub.then_parses_opt [where get = Request_hydrateTags and upd = "\<lambda>x m. m\<lparr>Request_hydrateTags := x\<rparr>"],
      rule ListTagsRequest_codec.sub.then_parses_opt [where get = Request_listTags and upd = "\<lambda>x m. m\<lparr>Request_listTags := x\<rparr>"],
      rule ReloadRulesRequest_codec.sub.then_parses_opt [where get = Request_reloadRules and upd = "\<lambda>x m. m\<lparr>Request_reloadRules := x\<rparr>"],
      rule StatusRequest_codec.sub.then_parses_opt [where get = Request_status and upd = "\<lambda>x m. m\<lparr>Request_status := x\<rparr>"],
      rule RelatedRequest_codec.sub.then_parses_opt [where get = Request_related and upd = "\<lambda>x m. m\<lparr>Request_related := x\<rparr>"],
      rule MetadataSetRequest_codec.sub.then_parses_opt [where get = Request_metadataSet and upd = "\<lambda>x m. m\<lparr>Request_metadataSet := x\<rparr>"],
      rule MetadataRequest_codec.sub.then_parses_opt [where get = Request_metadata and upd = "\<lambda>x m. m\<lparr>Request_metadata := x\<rparr>"],
      rule TagRequest_codec.sub.then_parses_opt [where get = Request_tag and upd = "\<lambda>x m. m\<lparr>Request_tag := x\<rparr>"],
      rule SearchRequest_codec.sub.parses_opt [where get = Request_search and upd = "\<lambda>x m. m\<lparr>Request_search := x\<rparr>"])
    (simp_all add: assms [unfolded Request_valid_def map_ok_def] Request_decode_field_def tag_no_def lens_def
      merge_defs Request_merge_def)

lemma Request_merge_new: "Request_valid m \<Longrightarrow> Request_merge Request_new m = m"
  by (simp add: Request_merge_def Request_new_def Request_valid_def map_ok_def js_object_def)

lemma Request_progress: "progress Request_decode_field"
proof (rule progressI)
  fix tag r m
  assume wf: "r_wf r"
  note subs = ChmodFileRequest_codec.moves_decode[OF wf] CopyRequest_codec.moves_decode[OF wf]
    CreateDirectoryRequest_codec.moves_decode[OF wf]
    CreateFileRequest_codec.moves_decode[OF wf] DeleteFileRequest_codec.moves_decode[OF
    wf] EmptyTrashRequest_codec.moves_decode[OF wf]
    GetBrowserConfigRequest_codec.moves_decode[OF wf]
    GetFileActionsRequest_codec.moves_decode[OF wf]
    GetFileBadgesRequest_codec.moves_decode[OF wf]
    GetThumbnailRequest_codec.moves_decode[OF wf] GlobSearchRequest_codec.moves_decode[OF
    wf] HydrateTagsRequest_codec.moves_decode[OF wf]
    LaunchGUIRequest_codec.moves_decode[OF wf]
    ListAppsForFileRequest_codec.moves_decode[OF wf]
    ListDirectoryRequest_codec.moves_decode[OF wf] ListMountsRequest_codec.moves_decode[OF
    wf] ListPlacesRequest_codec.moves_decode[OF wf]
    ListSavedSearchesRequest_codec.moves_decode[OF wf]
    ListTagsRequest_codec.moves_decode[OF wf] ListTrashRequest_codec.moves_decode[OF wf]
    MetadataRequest_codec.moves_decode[OF wf] MetadataSetRequest_codec.moves_decode[OF wf]
    OpenWithAppRequest_codec.moves_decode[OF wf] PasteRequest_codec.moves_decode[OF wf]
    PinPlaceRequest_codec.moves_decode[OF wf] PinSearchRequest_codec.moves_decode[OF wf]
    ReindexFileRequest_codec.moves_decode[OF wf] RelatedRequest_codec.moves_decode[OF wf]
    ReloadRulesRequest_codec.moves_decode[OF wf] RenameFileRequest_codec.moves_decode[OF
    wf] RestoreTrashRequest_codec.moves_decode[OF wf]
    RunFileActionRequest_codec.moves_decode[OF wf] SearchRequest_codec.moves_decode[OF wf]
    ShutdownRequest_codec.moves_decode[OF wf] StatFileRequest_codec.moves_decode[OF wf]
    StatusRequest_codec.moves_decode[OF wf] TagRequest_codec.moves_decode[OF wf]
    TrashFileRequest_codec.moves_decode[OF wf] UnpinPlaceRequest_codec.moves_decode[OF wf]
    UnpinSearchRequest_codec.moves_decode[OF wf]
  show "moves r (Request_decode_field tag r m)"
    by (simp only: Request_decode_field_def moves_if_split moves_branches [OF wf] subs if_cancel)
qed

interpretation Request_codec: message_codec Request_encode Request_decode Request_decode_field Request_new Request_bytes
  Request_valid Request_merge
  by unfold_locales
    (simp_all add: Request_decode_def Request_progress Request_emits Request_parses Request_merge_new)

subsection \<open>Response\<close>

record Response =
  Response_error :: "ErrorResponse option"
  Response_search :: "SearchResponse option"
  Response_tag :: "TagResponse option"
  Response_metadata :: "MetadataResponse option"
  Response_related :: "RelatedResponse option"
  Response_status :: "StatusResponse option"
  Response_reloadRules :: "ReloadRulesResponse option"
  Response_listTags :: "ListTagsResponse option"
  Response_hydrateTags :: "HydrateTagsResponse option"
  Response_listDirectory :: "ListDirectoryResponse option"
  Response_statFile :: "StatFileResponse option"
  Response_globSearch :: "GlobSearchResponse option"
  Response_renameFile :: "RenameFileResponse option"
  Response_deleteFile :: "DeleteFileResponse option"
  Response_chmodFile :: "ChmodFileResponse option"
  Response_listPlaces :: "ListPlacesResponse option"
  Response_pinPlace :: "PinPlaceResponse option"
  Response_unpinPlace :: "UnpinPlaceResponse option"
  Response_trashFile :: "TrashFileResponse option"
  Response_listTrash :: "ListTrashResponse option"
  Response_restoreTrash :: "RestoreTrashResponse option"
  Response_emptyTrash :: "EmptyTrashResponse option"
  Response_listAppsForFile :: "ListAppsForFileResponse option"
  Response_openWithApp :: "OpenWithAppResponse option"
  Response_getBrowserConfig :: "GetBrowserConfigResponse option"
  Response_getFileBadges :: "GetFileBadgesResponse option"
  Response_getFileActions :: "GetFileActionsResponse option"
  Response_runFileAction :: "RunFileActionResponse option"
  Response_launchGui :: "LaunchGUIResponse option"
  Response_getThumbnail :: "GetThumbnailResponse option"
  Response_copy :: "CopyResponse option"
  Response_paste :: "PasteResponse option"
  Response_createFile :: "CreateFileResponse option"
  Response_createDirectory :: "CreateDirectoryResponse option"
  Response_listMounts :: "ListMountsResponse option"
  Response_pinSearch :: "PinSearchResponse option"
  Response_unpinSearch :: "UnpinSearchResponse option"
  Response_listSavedSearches :: "ListSavedSearchesResponse option"
  Response_shutdown :: "ShutdownResponse option"
  Response_reindexFile :: "ReindexFileResponse option"

definition Response_new :: Response where
  "Response_new = \<lparr>Response_error = None, Response_search = None, Response_tag = None, Response_metadata
     = None, Response_related = None, Response_status = None, Response_reloadRules = None,
     Response_listTags = None, Response_hydrateTags = None, Response_listDirectory = None,
     Response_statFile = None, Response_globSearch = None, Response_renameFile = None,
     Response_deleteFile = None, Response_chmodFile = None, Response_listPlaces = None,
     Response_pinPlace = None, Response_unpinPlace = None, Response_trashFile = None,
     Response_listTrash = None, Response_restoreTrash = None, Response_emptyTrash = None,
     Response_listAppsForFile = None, Response_openWithApp = None,
     Response_getBrowserConfig = None, Response_getFileBadges = None,
     Response_getFileActions = None, Response_runFileAction = None, Response_launchGui =
     None, Response_getThumbnail = None, Response_copy = None, Response_paste = None,
     Response_createFile = None, Response_createDirectory = None, Response_listMounts =
     None, Response_pinSearch = None, Response_unpinSearch = None,
     Response_listSavedSearches = None, Response_shutdown = None, Response_reindexFile =
     None\<rparr>"

definition Response_encode :: "Response \<Rightarrow> Writer \<Rightarrow> Writer" where
  "Response_encode message writer =
     (let writer = put_opt 10 (put_sub ErrorResponse_encode) (Response_error message) writer;
          writer = put_opt 18 (put_sub SearchResponse_encode) (Response_search message) writer;
          writer = put_opt 26 (put_sub TagResponse_encode) (Response_tag message) writer;
          writer = put_opt 34 (put_sub MetadataResponse_encode) (Response_metadata message) writer;
          writer = put_opt 42 (put_sub RelatedResponse_encode) (Response_related message) writer;
          writer = put_opt 50 (put_sub StatusResponse_encode) (Response_status message) writer;
          writer = put_opt 58 (put_sub ReloadRulesResponse_encode) (Response_reloadRules message) writer;
          writer = put_opt 66 (put_sub ListTagsResponse_encode) (Response_listTags message) writer;
          writer = put_opt 74 (put_sub HydrateTagsResponse_encode) (Response_hydrateTags message) writer;
          writer = put_opt 82 (put_sub ListDirectoryResponse_encode) (Response_listDirectory message) writer;
          writer = put_opt 90 (put_sub StatFileResponse_encode) (Response_statFile message) writer;
          writer = put_opt 98 (put_sub GlobSearchResponse_encode) (Response_globSearch message) writer;
          writer = put_opt 106 (put_sub RenameFileResponse_encode) (Response_renameFile message) writer;
          writer = put_opt 114 (put_sub DeleteFileResponse_encode) (Response_deleteFile message) writer;
          writer = put_opt 122 (put_sub ChmodFileResponse_encode) (Response_chmodFile message) writer;
          writer = put_opt 130 (put_sub ListPlacesResponse_encode) (Response_listPlaces message) writer;
          writer = put_opt 138 (put_sub PinPlaceResponse_encode) (Response_pinPlace message) writer;
          writer = put_opt 146 (put_sub UnpinPlaceResponse_encode) (Response_unpinPlace message) writer;
          writer = put_opt 154 (put_sub TrashFileResponse_encode) (Response_trashFile message) writer;
          writer = put_opt 162 (put_sub ListTrashResponse_encode) (Response_listTrash message) writer;
          writer = put_opt 170 (put_sub RestoreTrashResponse_encode) (Response_restoreTrash message) writer;
          writer = put_opt 178 (put_sub EmptyTrashResponse_encode) (Response_emptyTrash message) writer;
          writer = put_opt 186 (put_sub ListAppsForFileResponse_encode) (Response_listAppsForFile message) writer;
          writer = put_opt 194 (put_sub OpenWithAppResponse_encode) (Response_openWithApp message) writer;
          writer = put_opt 202 (put_sub GetBrowserConfigResponse_encode) (Response_getBrowserConfig message) writer;
          writer = put_opt 210 (put_sub GetFileBadgesResponse_encode) (Response_getFileBadges message) writer;
          writer = put_opt 218 (put_sub GetFileActionsResponse_encode) (Response_getFileActions message) writer;
          writer = put_opt 226 (put_sub RunFileActionResponse_encode) (Response_runFileAction message) writer;
          writer = put_opt 234 (put_sub LaunchGUIResponse_encode) (Response_launchGui message) writer;
          writer = put_opt 242 (put_sub GetThumbnailResponse_encode) (Response_getThumbnail message) writer;
          writer = put_opt 250 (put_sub CopyResponse_encode) (Response_copy message) writer;
          writer = put_opt 258 (put_sub PasteResponse_encode) (Response_paste message) writer;
          writer = put_opt 266 (put_sub CreateFileResponse_encode) (Response_createFile message) writer;
          writer = put_opt 274 (put_sub CreateDirectoryResponse_encode) (Response_createDirectory message) writer;
          writer = put_opt 282 (put_sub ListMountsResponse_encode) (Response_listMounts message) writer;
          writer = put_opt 290 (put_sub PinSearchResponse_encode) (Response_pinSearch message) writer;
          writer = put_opt 298 (put_sub UnpinSearchResponse_encode) (Response_unpinSearch message) writer;
          writer = put_opt 306 (put_sub ListSavedSearchesResponse_encode) (Response_listSavedSearches message) writer;
          writer = put_opt 314 (put_sub ShutdownResponse_encode) (Response_shutdown message) writer;
          writer = put_opt 322 (put_sub ReindexFileResponse_encode) (Response_reindexFile message) writer
      in writer)"

definition Response_decode_field :: "u32 \<Rightarrow> Reader \<Rightarrow> Response \<Rightarrow> (Response \<times> Reader) res" where
  "Response_decode_field tag reader message =
     (if tag_no tag = 1 then map_res (\<lambda>v. message\<lparr>Response_error := Some v\<rparr>) (get_sub ErrorResponse_decode reader)
      else if tag_no tag = 2 then map_res (\<lambda>v. message\<lparr>Response_search := Some v\<rparr>) (get_sub SearchResponse_decode reader)
      else if tag_no tag = 8 then map_res (\<lambda>v. message\<lparr>Response_listTags := Some v\<rparr>) (get_sub ListTagsResponse_decode reader)
      else if tag_no tag = 9 then map_res (\<lambda>v. message\<lparr>Response_hydrateTags := Some v\<rparr>) (get_sub HydrateTagsResponse_decode reader)
      else if tag_no tag = 5 then map_res (\<lambda>v. message\<lparr>Response_related := Some v\<rparr>) (get_sub RelatedResponse_decode reader)
      else if tag_no tag = 12 then map_res (\<lambda>v. message\<lparr>Response_globSearch := Some v\<rparr>) (get_sub GlobSearchResponse_decode reader)
      else if tag_no tag = 3 then map_res (\<lambda>v. message\<lparr>Response_tag := Some v\<rparr>) (get_sub TagResponse_decode reader)
      else if tag_no tag = 4 then map_res (\<lambda>v. message\<lparr>Response_metadata := Some v\<rparr>) (get_sub MetadataResponse_decode reader)
      else if tag_no tag = 6 then map_res (\<lambda>v. message\<lparr>Response_status := Some v\<rparr>) (get_sub StatusResponse_decode reader)
      else if tag_no tag = 7 then map_res (\<lambda>v. message\<lparr>Response_reloadRules := Some v\<rparr>) (get_sub ReloadRulesResponse_decode reader)
      else if tag_no tag = 10 then map_res (\<lambda>v. message\<lparr>Response_listDirectory := Some v\<rparr>) (get_sub ListDirectoryResponse_decode reader)
      else if tag_no tag = 11 then map_res (\<lambda>v. message\<lparr>Response_statFile := Some v\<rparr>) (get_sub StatFileResponse_decode reader)
      else if tag_no tag = 13 then map_res (\<lambda>v. message\<lparr>Response_renameFile := Some v\<rparr>) (get_sub RenameFileResponse_decode reader)
      else if tag_no tag = 14 then map_res (\<lambda>v. message\<lparr>Response_deleteFile := Some v\<rparr>) (get_sub DeleteFileResponse_decode reader)
      else if tag_no tag = 15 then map_res (\<lambda>v. message\<lparr>Response_chmodFile := Some v\<rparr>) (get_sub ChmodFileResponse_decode reader)
      else if tag_no tag = 31 then map_res (\<lambda>v. message\<lparr>Response_copy := Some v\<rparr>) (get_sub CopyResponse_decode reader)
      else if tag_no tag = 32 then map_res (\<lambda>v. message\<lparr>Response_paste := Some v\<rparr>) (get_sub PasteResponse_decode reader)
      else if tag_no tag = 33 then map_res (\<lambda>v. message\<lparr>Response_createFile := Some v\<rparr>) (get_sub CreateFileResponse_decode reader)
      else if tag_no tag = 34 then map_res (\<lambda>v. message\<lparr>Response_createDirectory := Some v\<rparr>) (get_sub CreateDirectoryResponse_decode reader)
      else if tag_no tag = 16 then map_res (\<lambda>v. message\<lparr>Response_listPlaces := Some v\<rparr>) (get_sub ListPlacesResponse_decode reader)
      else if tag_no tag = 17 then map_res (\<lambda>v. message\<lparr>Response_pinPlace := Some v\<rparr>) (get_sub PinPlaceResponse_decode reader)
      else if tag_no tag = 18 then map_res (\<lambda>v. message\<lparr>Response_unpinPlace := Some v\<rparr>) (get_sub UnpinPlaceResponse_decode reader)
      else if tag_no tag = 19 then map_res (\<lambda>v. message\<lparr>Response_trashFile := Some v\<rparr>) (get_sub TrashFileResponse_decode reader)
      else if tag_no tag = 20 then map_res (\<lambda>v. message\<lparr>Response_listTrash := Some v\<rparr>) (get_sub ListTrashResponse_decode reader)
      else if tag_no tag = 21 then map_res (\<lambda>v. message\<lparr>Response_restoreTrash := Some v\<rparr>) (get_sub RestoreTrashResponse_decode reader)
      else if tag_no tag = 22 then map_res (\<lambda>v. message\<lparr>Response_emptyTrash := Some v\<rparr>) (get_sub EmptyTrashResponse_decode reader)
      else if tag_no tag = 23 then map_res (\<lambda>v. message\<lparr>Response_listAppsForFile := Some v\<rparr>) (get_sub ListAppsForFileResponse_decode reader)
      else if tag_no tag = 24 then map_res (\<lambda>v. message\<lparr>Response_openWithApp := Some v\<rparr>) (get_sub OpenWithAppResponse_decode reader)
      else if tag_no tag = 25 then map_res (\<lambda>v. message\<lparr>Response_getBrowserConfig := Some v\<rparr>) (get_sub GetBrowserConfigResponse_decode reader)
      else if tag_no tag = 29 then map_res (\<lambda>v. message\<lparr>Response_launchGui := Some v\<rparr>) (get_sub LaunchGUIResponse_decode reader)
      else if tag_no tag = 30 then map_res (\<lambda>v. message\<lparr>Response_getThumbnail := Some v\<rparr>) (get_sub GetThumbnailResponse_decode reader)
      else if tag_no tag = 35 then map_res (\<lambda>v. message\<lparr>Response_listMounts := Some v\<rparr>) (get_sub ListMountsResponse_decode reader)
      else if tag_no tag = 26 then map_res (\<lambda>v. message\<lparr>Response_getFileBadges := Some v\<rparr>) (get_sub GetFileBadgesResponse_decode reader)
      else if tag_no tag = 27 then map_res (\<lambda>v. message\<lparr>Response_getFileActions := Some v\<rparr>) (get_sub GetFileActionsResponse_decode reader)
      else if tag_no tag = 28 then map_res (\<lambda>v. message\<lparr>Response_runFileAction := Some v\<rparr>) (get_sub RunFileActionResponse_decode reader)
      else if tag_no tag = 36 then map_res (\<lambda>v. message\<lparr>Response_pinSearch := Some v\<rparr>) (get_sub PinSearchResponse_decode reader)
      else if tag_no tag = 37 then map_res (\<lambda>v. message\<lparr>Response_unpinSearch := Some v\<rparr>) (get_sub UnpinSearchResponse_decode reader)
      else if tag_no tag = 38 then map_res (\<lambda>v. message\<lparr>Response_listSavedSearches := Some v\<rparr>) (get_sub ListSavedSearchesResponse_decode reader)
      else if tag_no tag = 39 then map_res (\<lambda>v. message\<lparr>Response_shutdown := Some v\<rparr>) (get_sub ShutdownResponse_decode reader)
      else if tag_no tag = 40 then map_res (\<lambda>v. message\<lparr>Response_reindexFile := Some v\<rparr>) (get_sub ReindexFileResponse_decode reader)
      else skip_field tag reader message)"

definition Response_decode :: "Reader \<Rightarrow> nat option \<Rightarrow> (Response \<times> Reader) res" where
  "Response_decode = decode_with Response_decode_field Response_new"

definition Response_encodeDelimited :: "Response \<Rightarrow> Writer \<Rightarrow> Writer" where
  "Response_encodeDelimited message writer = w_ldelim (Response_encode message writer)"

definition Response_decodeDelimited :: "Reader \<Rightarrow> (Response \<times> Reader) res" where
  "Response_decodeDelimited = get_sub Response_decode"

definition Response_bytes :: "Response \<Rightarrow> u8 list" where
  "Response_bytes m =
     opt_bytes 10 (\<lambda>v. delim (ErrorResponse_bytes v)) (Response_error m) @
     opt_bytes 18 (\<lambda>v. delim (SearchResponse_bytes v)) (Response_search m) @
     opt_bytes 26 (\<lambda>v. delim (TagResponse_bytes v)) (Response_tag m) @
     opt_bytes 34 (\<lambda>v. delim (MetadataResponse_bytes v)) (Response_metadata m) @
     opt_bytes 42 (\<lambda>v. delim (RelatedResponse_bytes v)) (Response_related m) @
     opt_bytes 50 (\<lambda>v. delim (StatusResponse_bytes v)) (Response_status m) @
     opt_bytes 58 (\<lambda>v. delim (ReloadRulesResponse_bytes v)) (Response_reloadRules m) @
     opt_bytes 66 (\<lambda>v. delim (ListTagsResponse_bytes v)) (Response_listTags m) @
     opt_bytes 74 (\<lambda>v. delim (HydrateTagsResponse_bytes v)) (Response_hydrateTags m) @
     opt_bytes 82 (\<lambda>v. delim (ListDirectoryResponse_bytes v)) (Response_listDirectory m) @
     opt_bytes 90 (\<lambda>v. delim (StatFileResponse_bytes v)) (Response_statFile m) @
     opt_bytes 98 (\<lambda>v. delim (GlobSearchResponse_bytes v)) (Response_globSearch m) @
     opt_bytes 106 (\<lambda>v. delim (RenameFileResponse_bytes v)) (Response_renameFile m) @
     opt_bytes 114 (\<lambda>v. delim (DeleteFileResponse_bytes v)) (Response_deleteFile m) @
     opt_bytes 122 (\<lambda>v. delim (ChmodFileResponse_bytes v)) (Response_chmodFile m) @
     opt_bytes 130 (\<lambda>v. delim (ListPlacesResponse_bytes v)) (Response_listPlaces m) @
     opt_bytes 138 (\<lambda>v. delim (PinPlaceResponse_bytes v)) (Response_pinPlace m) @
     opt_bytes 146 (\<lambda>v. delim (UnpinPlaceResponse_bytes v)) (Response_unpinPlace m) @
     opt_bytes 154 (\<lambda>v. delim (TrashFileResponse_bytes v)) (Response_trashFile m) @
     opt_bytes 162 (\<lambda>v. delim (ListTrashResponse_bytes v)) (Response_listTrash m) @
     opt_bytes 170 (\<lambda>v. delim (RestoreTrashResponse_bytes v)) (Response_restoreTrash m) @
     opt_bytes 178 (\<lambda>v. delim (EmptyTrashResponse_bytes v)) (Response_emptyTrash m) @
     opt_bytes 186 (\<lambda>v. delim (ListAppsForFileResponse_bytes v)) (Response_listAppsForFile m) @
     opt_bytes 194 (\<lambda>v. delim (OpenWithAppResponse_bytes v)) (Response_openWithApp m) @
     opt_bytes 202 (\<lambda>v. delim (GetBrowserConfigResponse_bytes v)) (Response_getBrowserConfig m) @
     opt_bytes 210 (\<lambda>v. delim (GetFileBadgesResponse_bytes v)) (Response_getFileBadges m) @
     opt_bytes 218 (\<lambda>v. delim (GetFileActionsResponse_bytes v)) (Response_getFileActions m) @
     opt_bytes 226 (\<lambda>v. delim (RunFileActionResponse_bytes v)) (Response_runFileAction m) @
     opt_bytes 234 (\<lambda>v. delim (LaunchGUIResponse_bytes v)) (Response_launchGui m) @
     opt_bytes 242 (\<lambda>v. delim (GetThumbnailResponse_bytes v)) (Response_getThumbnail m) @
     opt_bytes 250 (\<lambda>v. delim (CopyResponse_bytes v)) (Response_copy m) @
     opt_bytes 258 (\<lambda>v. delim (PasteResponse_bytes v)) (Response_paste m) @
     opt_bytes 266 (\<lambda>v. delim (CreateFileResponse_bytes v)) (Response_createFile m) @
     opt_bytes 274 (\<lambda>v. delim (CreateDirectoryResponse_bytes v)) (Response_createDirectory m) @
     opt_bytes 282 (\<lambda>v. delim (ListMountsResponse_bytes v)) (Response_listMounts m) @
     opt_bytes 290 (\<lambda>v. delim (PinSearchResponse_bytes v)) (Response_pinSearch m) @
     opt_bytes 298 (\<lambda>v. delim (UnpinSearchResponse_bytes v)) (Response_unpinSearch m) @
     opt_bytes 306 (\<lambda>v. delim (ListSavedSearchesResponse_bytes v)) (Response_listSavedSearches m) @
     opt_bytes 314 (\<lambda>v. delim (ShutdownResponse_bytes v)) (Response_shutdown m) @
     opt_bytes 322 (\<lambda>v. delim (ReindexFileResponse_bytes v)) (Response_reindexFile m)"

definition Response_valid :: "Response \<Rightarrow> bool" where
  "Response_valid m \<longleftrightarrow> opt_ok (\<lambda>v. ErrorResponse_valid v \<and> length (ErrorResponse_bytes v) < 4294967296) (Response_error m) \<and>
     opt_ok (\<lambda>v. SearchResponse_valid v \<and> length (SearchResponse_bytes v) < 4294967296) (Response_search m) \<and>
     opt_ok (\<lambda>v. TagResponse_valid v \<and> length (TagResponse_bytes v) < 4294967296) (Response_tag m) \<and>
     opt_ok (\<lambda>v. MetadataResponse_valid v \<and> length (MetadataResponse_bytes v) < 4294967296) (Response_metadata m) \<and>
     opt_ok (\<lambda>v. RelatedResponse_valid v \<and> length (RelatedResponse_bytes v) < 4294967296) (Response_related m) \<and>
     opt_ok (\<lambda>v. StatusResponse_valid v \<and> length (StatusResponse_bytes v) < 4294967296) (Response_status m) \<and>
     opt_ok (\<lambda>v. ReloadRulesResponse_valid v \<and> length (ReloadRulesResponse_bytes v) < 4294967296) (Response_reloadRules m) \<and>
     opt_ok (\<lambda>v. ListTagsResponse_valid v \<and> length (ListTagsResponse_bytes v) < 4294967296) (Response_listTags m) \<and>
     opt_ok (\<lambda>v. HydrateTagsResponse_valid v \<and> length (HydrateTagsResponse_bytes v) < 4294967296) (Response_hydrateTags m) \<and>
     opt_ok (\<lambda>v. ListDirectoryResponse_valid v \<and> length (ListDirectoryResponse_bytes v) < 4294967296) (Response_listDirectory m) \<and>
     opt_ok (\<lambda>v. StatFileResponse_valid v \<and> length (StatFileResponse_bytes v) < 4294967296) (Response_statFile m) \<and>
     opt_ok (\<lambda>v. GlobSearchResponse_valid v \<and> length (GlobSearchResponse_bytes v) < 4294967296) (Response_globSearch m) \<and>
     opt_ok (\<lambda>v. RenameFileResponse_valid v \<and> length (RenameFileResponse_bytes v) < 4294967296) (Response_renameFile m) \<and>
     opt_ok (\<lambda>v. DeleteFileResponse_valid v \<and> length (DeleteFileResponse_bytes v) < 4294967296) (Response_deleteFile m) \<and>
     opt_ok (\<lambda>v. ChmodFileResponse_valid v \<and> length (ChmodFileResponse_bytes v) < 4294967296) (Response_chmodFile m) \<and>
     opt_ok (\<lambda>v. ListPlacesResponse_valid v \<and> length (ListPlacesResponse_bytes v) < 4294967296) (Response_listPlaces m) \<and>
     opt_ok (\<lambda>v. PinPlaceResponse_valid v \<and> length (PinPlaceResponse_bytes v) < 4294967296) (Response_pinPlace m) \<and>
     opt_ok (\<lambda>v. UnpinPlaceResponse_valid v \<and> length (UnpinPlaceResponse_bytes v) < 4294967296) (Response_unpinPlace m) \<and>
     opt_ok (\<lambda>v. TrashFileResponse_valid v \<and> length (TrashFileResponse_bytes v) < 4294967296) (Response_trashFile m) \<and>
     opt_ok (\<lambda>v. ListTrashResponse_valid v \<and> length (ListTrashResponse_bytes v) < 4294967296) (Response_listTrash m) \<and>
     opt_ok (\<lambda>v. RestoreTrashResponse_valid v \<and> length (RestoreTrashResponse_bytes v) < 4294967296) (Response_restoreTrash m) \<and>
     opt_ok (\<lambda>v. EmptyTrashResponse_valid v \<and> length (EmptyTrashResponse_bytes v) < 4294967296) (Response_emptyTrash m) \<and>
     opt_ok (\<lambda>v. ListAppsForFileResponse_valid v \<and> length (ListAppsForFileResponse_bytes v) < 4294967296) (Response_listAppsForFile m) \<and>
     opt_ok (\<lambda>v. OpenWithAppResponse_valid v \<and> length (OpenWithAppResponse_bytes v) < 4294967296) (Response_openWithApp m) \<and>
     opt_ok (\<lambda>v. GetBrowserConfigResponse_valid v \<and> length (GetBrowserConfigResponse_bytes v) < 4294967296) (Response_getBrowserConfig m) \<and>
     opt_ok (\<lambda>v. GetFileBadgesResponse_valid v \<and> length (GetFileBadgesResponse_bytes v) < 4294967296) (Response_getFileBadges m) \<and>
     opt_ok (\<lambda>v. GetFileActionsResponse_valid v \<and> length (GetFileActionsResponse_bytes v) < 4294967296) (Response_getFileActions m) \<and>
     opt_ok (\<lambda>v. RunFileActionResponse_valid v \<and> length (RunFileActionResponse_bytes v) < 4294967296) (Response_runFileAction m) \<and>
     opt_ok (\<lambda>v. LaunchGUIResponse_valid v \<and> length (LaunchGUIResponse_bytes v) < 4294967296) (Response_launchGui m) \<and>
     opt_ok (\<lambda>v. GetThumbnailResponse_valid v \<and> length (GetThumbnailResponse_bytes v) < 4294967296) (Response_getThumbnail m) \<and>
     opt_ok (\<lambda>v. CopyResponse_valid v \<and> length (CopyResponse_bytes v) < 4294967296) (Response_copy m) \<and>
     opt_ok (\<lambda>v. PasteResponse_valid v \<and> length (PasteResponse_bytes v) < 4294967296) (Response_paste m) \<and>
     opt_ok (\<lambda>v. CreateFileResponse_valid v \<and> length (CreateFileResponse_bytes v) < 4294967296) (Response_createFile m) \<and>
     opt_ok (\<lambda>v. CreateDirectoryResponse_valid v \<and> length (CreateDirectoryResponse_bytes v) < 4294967296) (Response_createDirectory m) \<and>
     opt_ok (\<lambda>v. ListMountsResponse_valid v \<and> length (ListMountsResponse_bytes v) < 4294967296) (Response_listMounts m) \<and>
     opt_ok (\<lambda>v. PinSearchResponse_valid v \<and> length (PinSearchResponse_bytes v) < 4294967296) (Response_pinSearch m) \<and>
     opt_ok (\<lambda>v. UnpinSearchResponse_valid v \<and> length (UnpinSearchResponse_bytes v) < 4294967296) (Response_unpinSearch m) \<and>
     opt_ok (\<lambda>v. ListSavedSearchesResponse_valid v \<and> length (ListSavedSearchesResponse_bytes v) < 4294967296) (Response_listSavedSearches m) \<and>
     opt_ok (\<lambda>v. ShutdownResponse_valid v \<and> length (ShutdownResponse_bytes v) < 4294967296) (Response_shutdown m) \<and>
     opt_ok (\<lambda>v. ReindexFileResponse_valid v \<and> length (ReindexFileResponse_bytes v) < 4294967296) (Response_reindexFile m)"

definition Response_merge :: "Response \<Rightarrow> Response \<Rightarrow> Response" where
  "Response_merge a m =
     a\<lparr>Response_error := or_else (Response_error m) (Response_error a),
       Response_search := or_else (Response_search m) (Response_search a),
       Response_tag := or_else (Response_tag m) (Response_tag a),
       Response_metadata := or_else (Response_metadata m) (Response_metadata a),
       Response_related := or_else (Response_related m) (Response_related a),
       Response_status := or_else (Response_status m) (Response_status a),
       Response_reloadRules := or_else (Response_reloadRules m) (Response_reloadRules a),
       Response_listTags := or_else (Response_listTags m) (Response_listTags a),
       Response_hydrateTags := or_else (Response_hydrateTags m) (Response_hydrateTags a),
       Response_listDirectory := or_else (Response_listDirectory m) (Response_listDirectory a),
       Response_statFile := or_else (Response_statFile m) (Response_statFile a),
       Response_globSearch := or_else (Response_globSearch m) (Response_globSearch a),
       Response_renameFile := or_else (Response_renameFile m) (Response_renameFile a),
       Response_deleteFile := or_else (Response_deleteFile m) (Response_deleteFile a),
       Response_chmodFile := or_else (Response_chmodFile m) (Response_chmodFile a),
       Response_listPlaces := or_else (Response_listPlaces m) (Response_listPlaces a),
       Response_pinPlace := or_else (Response_pinPlace m) (Response_pinPlace a),
       Response_unpinPlace := or_else (Response_unpinPlace m) (Response_unpinPlace a),
       Response_trashFile := or_else (Response_trashFile m) (Response_trashFile a),
       Response_listTrash := or_else (Response_listTrash m) (Response_listTrash a),
       Response_restoreTrash := or_else (Response_restoreTrash m) (Response_restoreTrash a),
       Response_emptyTrash := or_else (Response_emptyTrash m) (Response_emptyTrash a),
       Response_listAppsForFile := or_else (Response_listAppsForFile m) (Response_listAppsForFile a),
       Response_openWithApp := or_else (Response_openWithApp m) (Response_openWithApp a),
       Response_getBrowserConfig := or_else (Response_getBrowserConfig m) (Response_getBrowserConfig a),
       Response_getFileBadges := or_else (Response_getFileBadges m) (Response_getFileBadges a),
       Response_getFileActions := or_else (Response_getFileActions m) (Response_getFileActions a),
       Response_runFileAction := or_else (Response_runFileAction m) (Response_runFileAction a),
       Response_launchGui := or_else (Response_launchGui m) (Response_launchGui a),
       Response_getThumbnail := or_else (Response_getThumbnail m) (Response_getThumbnail a),
       Response_copy := or_else (Response_copy m) (Response_copy a),
       Response_paste := or_else (Response_paste m) (Response_paste a),
       Response_createFile := or_else (Response_createFile m) (Response_createFile a),
       Response_createDirectory := or_else (Response_createDirectory m) (Response_createDirectory a),
       Response_listMounts := or_else (Response_listMounts m) (Response_listMounts a),
       Response_pinSearch := or_else (Response_pinSearch m) (Response_pinSearch a),
       Response_unpinSearch := or_else (Response_unpinSearch m) (Response_unpinSearch a),
       Response_listSavedSearches := or_else (Response_listSavedSearches m) (Response_listSavedSearches a),
       Response_shutdown := or_else (Response_shutdown m) (Response_shutdown a),
       Response_reindexFile := or_else (Response_reindexFile m) (Response_reindexFile a)\<rparr>"

lemma Response_emits:
  assumes "Response_valid m"
  shows "emits (Response_encode m) (Response_bytes m)"
  unfolding Response_encode_def [abs_def] Response_bytes_def Let_def append_assoc [symmetric]
  by (rule ReindexFileResponse_codec.sub.then_emits_opt, rule
      ShutdownResponse_codec.sub.then_emits_opt, rule
      ListSavedSearchesResponse_codec.sub.then_emits_opt, rule
      UnpinSearchResponse_codec.sub.then_emits_opt, rule
      PinSearchResponse_codec.sub.then_emits_opt, rule
      ListMountsResponse_codec.sub.then_emits_opt, rule
      CreateDirectoryResponse_codec.sub.then_emits_opt, rule
      CreateFileResponse_codec.sub.then_emits_opt, rule
      PasteResponse_codec.sub.then_emits_opt, rule CopyResponse_codec.sub.then_emits_opt,
      rule GetThumbnailResponse_codec.sub.then_emits_opt, rule
      LaunchGUIResponse_codec.sub.then_emits_opt, rule
      RunFileActionResponse_codec.sub.then_emits_opt, rule
      GetFileActionsResponse_codec.sub.then_emits_opt, rule
      GetFileBadgesResponse_codec.sub.then_emits_opt, rule
      GetBrowserConfigResponse_codec.sub.then_emits_opt, rule
      OpenWithAppResponse_codec.sub.then_emits_opt, rule
      ListAppsForFileResponse_codec.sub.then_emits_opt, rule
      EmptyTrashResponse_codec.sub.then_emits_opt, rule
      RestoreTrashResponse_codec.sub.then_emits_opt, rule
      ListTrashResponse_codec.sub.then_emits_opt, rule
      TrashFileResponse_codec.sub.then_emits_opt, rule
      UnpinPlaceResponse_codec.sub.then_emits_opt, rule
      PinPlaceResponse_codec.sub.then_emits_opt, rule
      ListPlacesResponse_codec.sub.then_emits_opt, rule
      ChmodFileResponse_codec.sub.then_emits_opt, rule
      DeleteFileResponse_codec.sub.then_emits_opt, rule
      RenameFileResponse_codec.sub.then_emits_opt, rule
      GlobSearchResponse_codec.sub.then_emits_opt, rule
      StatFileResponse_codec.sub.then_emits_opt, rule
      ListDirectoryResponse_codec.sub.then_emits_opt, rule
      HydrateTagsResponse_codec.sub.then_emits_opt, rule
      ListTagsResponse_codec.sub.then_emits_opt, rule
      ReloadRulesResponse_codec.sub.then_emits_opt, rule
      StatusResponse_codec.sub.then_emits_opt, rule
      RelatedResponse_codec.sub.then_emits_opt, rule
      MetadataResponse_codec.sub.then_emits_opt, rule
      TagResponse_codec.sub.then_emits_opt, rule SearchResponse_codec.sub.then_emits_opt,
      rule ErrorResponse_codec.sub.emits_opt)
    (simp_all add: assms [unfolded Response_valid_def map_ok_def])

lemma Response_parses:
  assumes "Response_valid m"
  shows "parses Response_decode_field (Response_bytes m) a (Response_merge a m)"
  unfolding Response_bytes_def append_assoc [symmetric]
  by (rule parses_to,
      rule ReindexFileResponse_codec.sub.then_parses_opt [where get = Response_reindexFile and upd = "\<lambda>x m. m\<lparr>Response_reindexFile := x\<rparr>"],
      rule ShutdownResponse_codec.sub.then_parses_opt [where get = Response_shutdown and upd = "\<lambda>x m. m\<lparr>Response_shutdown := x\<rparr>"],
      rule ListSavedSearchesResponse_codec.sub.then_parses_opt [where get = Response_listSavedSearches and upd = "\<lambda>x m. m\<lparr>Response_listSavedSearches := x\<rparr>"],
      rule UnpinSearchResponse_codec.sub.then_parses_opt [where get = Response_unpinSearch and upd = "\<lambda>x m. m\<lparr>Response_unpinSearch := x\<rparr>"],
      rule PinSearchResponse_codec.sub.then_parses_opt [where get = Response_pinSearch and upd = "\<lambda>x m. m\<lparr>Response_pinSearch := x\<rparr>"],
      rule ListMountsResponse_codec.sub.then_parses_opt [where get = Response_listMounts and upd = "\<lambda>x m. m\<lparr>Response_listMounts := x\<rparr>"],
      rule CreateDirectoryResponse_codec.sub.then_parses_opt [where get = Response_createDirectory and upd = "\<lambda>x m. m\<lparr>Response_createDirectory := x\<rparr>"],
      rule CreateFileResponse_codec.sub.then_parses_opt [where get = Response_createFile and upd = "\<lambda>x m. m\<lparr>Response_createFile := x\<rparr>"],
      rule PasteResponse_codec.sub.then_parses_opt [where get = Response_paste and upd = "\<lambda>x m. m\<lparr>Response_paste := x\<rparr>"],
      rule CopyResponse_codec.sub.then_parses_opt [where get = Response_copy and upd = "\<lambda>x m. m\<lparr>Response_copy := x\<rparr>"],
      rule GetThumbnailResponse_codec.sub.then_parses_opt [where get = Response_getThumbnail and upd = "\<lambda>x m. m\<lparr>Response_getThumbnail := x\<rparr>"],
      rule LaunchGUIResponse_codec.sub.then_parses_opt [where get = Response_launchGui and upd = "\<lambda>x m. m\<lparr>Response_launchGui := x\<rparr>"],
      rule RunFileActionResponse_codec.sub.then_parses_opt [where get = Response_runFileAction and upd = "\<lambda>x m. m\<lparr>Response_runFileAction := x\<rparr>"],
      rule GetFileActionsResponse_codec.sub.then_parses_opt [where get = Response_getFileActions and upd = "\<lambda>x m. m\<lparr>Response_getFileActions := x\<rparr>"],
      rule GetFileBadgesResponse_codec.sub.then_parses_opt [where get = Response_getFileBadges and upd = "\<lambda>x m. m\<lparr>Response_getFileBadges := x\<rparr>"],
      rule GetBrowserConfigResponse_codec.sub.then_parses_opt [where get = Response_getBrowserConfig and upd = "\<lambda>x m. m\<lparr>Response_getBrowserConfig := x\<rparr>"],
      rule OpenWithAppResponse_codec.sub.then_parses_opt [where get = Response_openWithApp and upd = "\<lambda>x m. m\<lparr>Response_openWithApp := x\<rparr>"],
      rule ListAppsForFileResponse_codec.sub.then_parses_opt [where get = Response_listAppsForFile and upd = "\<lambda>x m. m\<lparr>Response_listAppsForFile := x\<rparr>"],
      rule EmptyTrashResponse_codec.sub.then_parses_opt [where get = Response_emptyTrash and upd = "\<lambda>x m. m\<lparr>Response_emptyTrash := x\<rparr>"],
      rule RestoreTrashResponse_codec.sub.then_parses_opt [where get = Response_restoreTrash and upd = "\<lambda>x m. m\<lparr>Response_restoreTrash := x\<rparr>"],
      rule ListTrashResponse_codec.sub.then_parses_opt [where get = Response_listTrash and upd = "\<lambda>x m. m\<lparr>Response_listTrash := x\<rparr>"],
      rule TrashFileResponse_codec.sub.then_parses_opt [where get = Response_trashFile and upd = "\<lambda>x m. m\<lparr>Response_trashFile := x\<rparr>"],
      rule UnpinPlaceResponse_codec.sub.then_parses_opt [where get = Response_unpinPlace and upd = "\<lambda>x m. m\<lparr>Response_unpinPlace := x\<rparr>"],
      rule PinPlaceResponse_codec.sub.then_parses_opt [where get = Response_pinPlace and upd = "\<lambda>x m. m\<lparr>Response_pinPlace := x\<rparr>"],
      rule ListPlacesResponse_codec.sub.then_parses_opt [where get = Response_listPlaces and upd = "\<lambda>x m. m\<lparr>Response_listPlaces := x\<rparr>"],
      rule ChmodFileResponse_codec.sub.then_parses_opt [where get = Response_chmodFile and upd = "\<lambda>x m. m\<lparr>Response_chmodFile := x\<rparr>"],
      rule DeleteFileResponse_codec.sub.then_parses_opt [where get = Response_deleteFile and upd = "\<lambda>x m. m\<lparr>Response_deleteFile := x\<rparr>"],
      rule RenameFileResponse_codec.sub.then_parses_opt [where get = Response_renameFile and upd = "\<lambda>x m. m\<lparr>Response_renameFile := x\<rparr>"],
      rule GlobSearchResponse_codec.sub.then_parses_opt [where get = Response_globSearch and upd = "\<lambda>x m. m\<lparr>Response_globSearch := x\<rparr>"],
      rule StatFileResponse_codec.sub.then_parses_opt [where get = Response_statFile and upd = "\<lambda>x m. m\<lparr>Response_statFile := x\<rparr>"],
      rule ListDirectoryResponse_codec.sub.then_parses_opt [where get = Response_listDirectory and upd = "\<lambda>x m. m\<lparr>Response_listDirectory := x\<rparr>"],
      rule HydrateTagsResponse_codec.sub.then_parses_opt [where get = Response_hydrateTags and upd = "\<lambda>x m. m\<lparr>Response_hydrateTags := x\<rparr>"],
      rule ListTagsResponse_codec.sub.then_parses_opt [where get = Response_listTags and upd = "\<lambda>x m. m\<lparr>Response_listTags := x\<rparr>"],
      rule ReloadRulesResponse_codec.sub.then_parses_opt [where get = Response_reloadRules and upd = "\<lambda>x m. m\<lparr>Response_reloadRules := x\<rparr>"],
      rule StatusResponse_codec.sub.then_parses_opt [where get = Response_status and upd = "\<lambda>x m. m\<lparr>Response_status := x\<rparr>"],
      rule RelatedResponse_codec.sub.then_parses_opt [where get = Response_related and upd = "\<lambda>x m. m\<lparr>Response_related := x\<rparr>"],
      rule MetadataResponse_codec.sub.then_parses_opt [where get = Response_metadata and upd = "\<lambda>x m. m\<lparr>Response_metadata := x\<rparr>"],
      rule TagResponse_codec.sub.then_parses_opt [where get = Response_tag and upd = "\<lambda>x m. m\<lparr>Response_tag := x\<rparr>"],
      rule SearchResponse_codec.sub.then_parses_opt [where get = Response_search and upd = "\<lambda>x m. m\<lparr>Response_search := x\<rparr>"],
      rule ErrorResponse_codec.sub.parses_opt [where get = Response_error and upd = "\<lambda>x m. m\<lparr>Response_error := x\<rparr>"])
    (simp_all add: assms [unfolded Response_valid_def map_ok_def] Response_decode_field_def tag_no_def lens_def
      merge_defs Response_merge_def)

lemma Response_merge_new: "Response_valid m \<Longrightarrow> Response_merge Response_new m = m"
  by (simp add: Response_merge_def Response_new_def Response_valid_def map_ok_def js_object_def)

lemma Response_progress: "progress Response_decode_field"
proof (rule progressI)
  fix tag r m
  assume wf: "r_wf r"
  note subs = ChmodFileResponse_codec.moves_decode[OF wf] CopyResponse_codec.moves_decode[OF wf]
    CreateDirectoryResponse_codec.moves_decode[OF wf]
    CreateFileResponse_codec.moves_decode[OF wf] DeleteFileResponse_codec.moves_decode[OF
    wf] EmptyTrashResponse_codec.moves_decode[OF wf] ErrorResponse_codec.moves_decode[OF
    wf] GetBrowserConfigResponse_codec.moves_decode[OF wf]
    GetFileActionsResponse_codec.moves_decode[OF wf]
    GetFileBadgesResponse_codec.moves_decode[OF wf]
    GetThumbnailResponse_codec.moves_decode[OF wf]
    GlobSearchResponse_codec.moves_decode[OF wf] HydrateTagsResponse_codec.moves_decode[OF
    wf] LaunchGUIResponse_codec.moves_decode[OF wf]
    ListAppsForFileResponse_codec.moves_decode[OF wf]
    ListDirectoryResponse_codec.moves_decode[OF wf]
    ListMountsResponse_codec.moves_decode[OF wf] ListPlacesResponse_codec.moves_decode[OF
    wf] ListSavedSearchesResponse_codec.moves_decode[OF wf]
    ListTagsResponse_codec.moves_decode[OF wf] ListTrashResponse_codec.moves_decode[OF wf]
    MetadataResponse_codec.moves_decode[OF wf] OpenWithAppResponse_codec.moves_decode[OF
    wf] PasteResponse_codec.moves_decode[OF wf] PinPlaceResponse_codec.moves_decode[OF wf]
    PinSearchResponse_codec.moves_decode[OF wf] ReindexFileResponse_codec.moves_decode[OF
    wf] RelatedResponse_codec.moves_decode[OF wf]
    ReloadRulesResponse_codec.moves_decode[OF wf] RenameFileResponse_codec.moves_decode[OF
    wf] RestoreTrashResponse_codec.moves_decode[OF wf]
    RunFileActionResponse_codec.moves_decode[OF wf] SearchResponse_codec.moves_decode[OF
    wf] ShutdownResponse_codec.moves_decode[OF wf] StatFileResponse_codec.moves_decode[OF
    wf] StatusResponse_codec.moves_decode[OF wf] TagResponse_codec.moves_decode[OF wf]
    TrashFileResponse_codec.moves_decode[OF wf] UnpinPlaceResponse_codec.moves_decode[OF
    wf] UnpinSearchResponse_codec.moves_decode[OF wf]
  show "moves r (Response_decode_field tag r m)"
    by (simp only: Response_decode_field_def moves_if_split moves_branches [OF wf] subs if_cancel)
qed

interpretation Response_codec: message_codec Response_encode Response_decode Response_decode_field Response_new Response_bytes
  Response_valid Response_merge
  by unfold_locales
    (simp_all add: Response_decode_def Response_progress Response_emits Response_parses Response_merge_new)

subsection \<open>Event\<close>

record Event =
  Event_fileTagged :: "FileTaggedEvent option"
  Event_indexUpdated :: "IndexUpdatedEvent option"
  Event_daemonStateChanged :: "DaemonStateChangedEvent option"
  Event_showWindow :: "ShowWindowEvent option"

definition Event_new :: Event where
  "Event_new = \<lparr>Event_fileTagged = None, Event_indexUpdated = None, Event_daemonStateChanged = None,
     Event_showWindow = None\<rparr>"

definition Event_encode :: "Event \<Rightarrow> Writer \<Rightarrow> Writer" where
  "Event_encode message writer =
     (let writer = put_opt 10 (put_sub FileTaggedEvent_encode) (Event_fileTagged message) writer;
          writer = put_opt 18 (put_sub IndexUpdatedEvent_encode) (Event_indexUpdated message) writer;
          writer = put_opt 26 (put_sub DaemonStateChangedEvent_encode) (Event_daemonStateChanged message) writer;
          writer = put_opt 34 (put_sub ShowWindowEvent_encode) (Event_showWindow message) writer
      in writer)"

definition Event_decode_field :: "u32 \<Rightarrow> Reader \<Rightarrow> Event \<Rightarrow> (Event \<times> Reader) res" where
  "Event_decode_field tag reader message =
     (if tag_no tag = 1 then map_res (\<lambda>v. message\<lparr>Event_fileTagged := Some v\<rparr>) (get_sub FileTaggedEvent_decode reader)
      else if tag_no tag = 2 then map_res (\<lambda>v. message\<lparr>Event_indexUpdated := Some v\<rparr>) (get_sub IndexUpdatedEvent_decode reader)
      else if tag_no tag = 3 then map_res (\<lambda>v. message\<lparr>Event_daemonStateChanged := Some v\<rparr>) (get_sub DaemonStateChangedEvent_decode reader)
      else if tag_no tag = 4 then map_res (\<lambda>v. message\<lparr>Event_showWindow := Some v\<rparr>) (get_sub ShowWindowEvent_decode reader)
      else skip_field tag reader message)"

definition Event_decode :: "Reader \<Rightarrow> nat option \<Rightarrow> (Event \<times> Reader) res" where
  "Event_decode = decode_with Event_decode_field Event_new"

definition Event_encodeDelimited :: "Event \<Rightarrow> Writer \<Rightarrow> Writer" where
  "Event_encodeDelimited message writer = w_ldelim (Event_encode message writer)"

definition Event_decodeDelimited :: "Reader \<Rightarrow> (Event \<times> Reader) res" where
  "Event_decodeDelimited = get_sub Event_decode"

definition Event_bytes :: "Event \<Rightarrow> u8 list" where
  "Event_bytes m =
     opt_bytes 10 (\<lambda>v. delim (FileTaggedEvent_bytes v)) (Event_fileTagged m) @
     opt_bytes 18 (\<lambda>v. delim (IndexUpdatedEvent_bytes v)) (Event_indexUpdated m) @
     opt_bytes 26 (\<lambda>v. delim (DaemonStateChangedEvent_bytes v)) (Event_daemonStateChanged m) @
     opt_bytes 34 (\<lambda>v. delim (ShowWindowEvent_bytes v)) (Event_showWindow m)"

definition Event_valid :: "Event \<Rightarrow> bool" where
  "Event_valid m \<longleftrightarrow> opt_ok (\<lambda>v. FileTaggedEvent_valid v \<and> length (FileTaggedEvent_bytes v) < 4294967296) (Event_fileTagged m) \<and>
     opt_ok (\<lambda>v. IndexUpdatedEvent_valid v \<and> length (IndexUpdatedEvent_bytes v) < 4294967296) (Event_indexUpdated m) \<and>
     opt_ok (\<lambda>v. DaemonStateChangedEvent_valid v \<and> length (DaemonStateChangedEvent_bytes v) < 4294967296) (Event_daemonStateChanged m) \<and>
     opt_ok (\<lambda>v. ShowWindowEvent_valid v \<and> length (ShowWindowEvent_bytes v) < 4294967296) (Event_showWindow m)"

definition Event_merge :: "Event \<Rightarrow> Event \<Rightarrow> Event" where
  "Event_merge a m =
     a\<lparr>Event_fileTagged := or_else (Event_fileTagged m) (Event_fileTagged a),
       Event_indexUpdated := or_else (Event_indexUpdated m) (Event_indexUpdated a),
       Event_daemonStateChanged := or_else (Event_daemonStateChanged m) (Event_daemonStateChanged a),
       Event_showWindow := or_else (Event_showWindow m) (Event_showWindow a)\<rparr>"

lemma Event_emits:
  assumes "Event_valid m"
  shows "emits (Event_encode m) (Event_bytes m)"
  unfolding Event_encode_def [abs_def] Event_bytes_def Let_def append_assoc [symmetric]
  by (rule ShowWindowEvent_codec.sub.then_emits_opt, rule
      DaemonStateChangedEvent_codec.sub.then_emits_opt, rule
      IndexUpdatedEvent_codec.sub.then_emits_opt, rule FileTaggedEvent_codec.sub.emits_opt)
    (simp_all add: assms [unfolded Event_valid_def map_ok_def])

lemma Event_parses:
  assumes "Event_valid m"
  shows "parses Event_decode_field (Event_bytes m) a (Event_merge a m)"
  unfolding Event_bytes_def append_assoc [symmetric]
  by (rule parses_to,
      rule ShowWindowEvent_codec.sub.then_parses_opt [where get = Event_showWindow and upd = "\<lambda>x m. m\<lparr>Event_showWindow := x\<rparr>"],
      rule DaemonStateChangedEvent_codec.sub.then_parses_opt [where get = Event_daemonStateChanged and upd = "\<lambda>x m. m\<lparr>Event_daemonStateChanged := x\<rparr>"],
      rule IndexUpdatedEvent_codec.sub.then_parses_opt [where get = Event_indexUpdated and upd = "\<lambda>x m. m\<lparr>Event_indexUpdated := x\<rparr>"],
      rule FileTaggedEvent_codec.sub.parses_opt [where get = Event_fileTagged and upd = "\<lambda>x m. m\<lparr>Event_fileTagged := x\<rparr>"])
    (simp_all add: assms [unfolded Event_valid_def map_ok_def] Event_decode_field_def tag_no_def lens_def
      merge_defs Event_merge_def)

lemma Event_merge_new: "Event_valid m \<Longrightarrow> Event_merge Event_new m = m"
  by (simp add: Event_merge_def Event_new_def Event_valid_def map_ok_def js_object_def)

lemma Event_progress: "progress Event_decode_field"
  by (rule progressI)
    (simp add: Event_decode_field_def moves_if_split moves_branches DaemonStateChangedEvent_codec.moves_decode FileTaggedEvent_codec.moves_decode
      IndexUpdatedEvent_codec.moves_decode ShowWindowEvent_codec.moves_decode)

interpretation Event_codec: message_codec Event_encode Event_decode Event_decode_field Event_new Event_bytes
  Event_valid Event_merge
  by unfold_locales
    (simp_all add: Event_decode_def Event_progress Event_emits Event_parses Event_merge_new)

subsection \<open>Envelope\<close>

record Envelope =
  Envelope_requestId :: "int option"
  Envelope_request :: "Request option"
  Envelope_response :: "Response option"
  Envelope_event :: "Event option"

definition Envelope_new :: Envelope where
  "Envelope_new = \<lparr>Envelope_requestId = None, Envelope_request = None, Envelope_response = None,
     Envelope_event = None\<rparr>"

definition Envelope_encode :: "Envelope \<Rightarrow> Writer \<Rightarrow> Writer" where
  "Envelope_encode message writer =
     (let writer = put_opt 8 w_uint64 (Envelope_requestId message) writer;
          writer = put_opt 18 (put_sub Request_encode) (Envelope_request message) writer;
          writer = put_opt 26 (put_sub Response_encode) (Envelope_response message) writer;
          writer = put_opt 34 (put_sub Event_encode) (Envelope_event message) writer
      in writer)"

definition Envelope_decode_field :: "u32 \<Rightarrow> Reader \<Rightarrow> Envelope \<Rightarrow> (Envelope \<times> Reader) res" where
  "Envelope_decode_field tag reader message =
     (if tag_no tag = 1 then map_res (\<lambda>v. message\<lparr>Envelope_requestId := Some v\<rparr>) (r_uint64 reader)
      else if tag_no tag = 2 then map_res (\<lambda>v. message\<lparr>Envelope_request := Some v\<rparr>) (get_sub Request_decode reader)
      else if tag_no tag = 3 then map_res (\<lambda>v. message\<lparr>Envelope_response := Some v\<rparr>) (get_sub Response_decode reader)
      else if tag_no tag = 4 then map_res (\<lambda>v. message\<lparr>Envelope_event := Some v\<rparr>) (get_sub Event_decode reader)
      else skip_field tag reader message)"

definition Envelope_decode :: "Reader \<Rightarrow> nat option \<Rightarrow> (Envelope \<times> Reader) res" where
  "Envelope_decode = decode_with Envelope_decode_field Envelope_new"

definition Envelope_encodeDelimited :: "Envelope \<Rightarrow> Writer \<Rightarrow> Writer" where
  "Envelope_encodeDelimited message writer = w_ldelim (Envelope_encode message writer)"

definition Envelope_decodeDelimited :: "Reader \<Rightarrow> (Envelope \<times> Reader) res" where
  "Envelope_decodeDelimited = get_sub Envelope_decode"

definition Envelope_bytes :: "Envelope \<Rightarrow> u8 list" where
  "Envelope_bytes m =
     opt_bytes 8 int64_bytes (Envelope_requestId m) @
     opt_bytes 18 (\<lambda>v. delim (Request_bytes v)) (Envelope_request m) @
     opt_bytes 26 (\<lambda>v. delim (Response_bytes v)) (Envelope_response m) @
     opt_bytes 34 (\<lambda>v. delim (Event_bytes v)) (Envelope_event m)"

definition Envelope_valid :: "Envelope \<Rightarrow> bool" where
  "Envelope_valid m \<longleftrightarrow> opt_ok uint64_ok (Envelope_requestId m) \<and>
     opt_ok (\<lambda>v. Request_valid v \<and> length (Request_bytes v) < 4294967296) (Envelope_request m) \<and>
     opt_ok (\<lambda>v. Response_valid v \<and> length (Response_bytes v) < 4294967296) (Envelope_response m) \<and>
     opt_ok (\<lambda>v. Event_valid v \<and> length (Event_bytes v) < 4294967296) (Envelope_event m)"

definition Envelope_merge :: "Envelope \<Rightarrow> Envelope \<Rightarrow> Envelope" where
  "Envelope_merge a m =
     a\<lparr>Envelope_requestId := or_else (Envelope_requestId m) (Envelope_requestId a),
       Envelope_request := or_else (Envelope_request m) (Envelope_request a),
       Envelope_response := or_else (Envelope_response m) (Envelope_response a),
       Envelope_event := or_else (Envelope_event m) (Envelope_event a)\<rparr>"

lemma Envelope_emits:
  assumes "Envelope_valid m"
  shows "emits (Envelope_encode m) (Envelope_bytes m)"
  unfolding Envelope_encode_def [abs_def] Envelope_bytes_def Let_def append_assoc [symmetric]
  by (rule Event_codec.sub.then_emits_opt, rule Response_codec.sub.then_emits_opt, rule
      Request_codec.sub.then_emits_opt, rule uint64.emits_opt)
    (simp_all add: assms [unfolded Envelope_valid_def map_ok_def])

lemma Envelope_parses:
  assumes "Envelope_valid m"
  shows "parses Envelope_decode_field (Envelope_bytes m) a (Envelope_merge a m)"
  unfolding Envelope_bytes_def append_assoc [symmetric]
  by (rule parses_to,
      rule Event_codec.sub.then_parses_opt [where get = Envelope_event and upd = "\<lambda>x m. m\<lparr>Envelope_event := x\<rparr>"],
      rule Response_codec.sub.then_parses_opt [where get = Envelope_response and upd = "\<lambda>x m. m\<lparr>Envelope_response := x\<rparr>"],
      rule Request_codec.sub.then_parses_opt [where get = Envelope_request and upd = "\<lambda>x m. m\<lparr>Envelope_request := x\<rparr>"],
      rule uint64.parses_opt [where get = Envelope_requestId and upd = "\<lambda>x m. m\<lparr>Envelope_requestId := x\<rparr>"])
    (simp_all add: assms [unfolded Envelope_valid_def map_ok_def] Envelope_decode_field_def tag_no_def lens_def
      merge_defs Envelope_merge_def)

lemma Envelope_merge_new: "Envelope_valid m \<Longrightarrow> Envelope_merge Envelope_new m = m"
  by (simp add: Envelope_merge_def Envelope_new_def Envelope_valid_def map_ok_def js_object_def)

lemma Envelope_progress: "progress Envelope_decode_field"
  by (rule progressI)
    (simp add: Envelope_decode_field_def moves_if_split moves_branches Event_codec.moves_decode Request_codec.moves_decode Response_codec.moves_decode)

interpretation Envelope_codec: message_codec Envelope_encode Envelope_decode Envelope_decode_field Envelope_new Envelope_bytes
  Envelope_valid Envelope_merge
  by unfold_locales
    (simp_all add: Envelope_decode_def Envelope_progress Envelope_emits Envelope_parses Envelope_merge_new)

end
