(* ===== verification/JsValue.thy ===== *)
theory JsValue
  imports Complex_Main "HOL-Library.Log_Nat" JsObject
begin

text \<open>
  The values of the language that cross the boundary of the message classes and of the daemon
  client: what \<open>JSON.parse\<close> makes and what the GUI hands over. An object carries the name of
  its class (\<open>''Object''\<close> for a plain one) and its own properties; functions are not values here.
  A number is a double: not a number, an infinity, the negative zero, or a rational. The
  conversions of the language follow: to strings (with the shortest digits that read back), to
  numbers, to 32-bit integers and to booleans, and \<open>parseInt\<close>. The lemmas show that integers of
  magnitude up to \<open>2 ^ 53\<close> survive printing and parsing.
\<close>

datatype number = NaN | Infinity bool | NegZero | Fin rat

datatype js =
    Undefined
  | Null
  | Boolean bool
  | Number number
  | String jstring
  | Array "js list"
  | Object string "(jstring \<times> js) list"

abbreviation plain :: "(jstring \<times> js) list \<Rightarrow> js" where
  "plain ps \<equiv> Object ''Object'' ps"

abbreviation int_js :: "int \<Rightarrow> js" where
  "int_js n \<equiv> Number (Fin (of_int n))"

section \<open>String literals\<close>

definition js_str :: "string \<Rightarrow> jstring" where
  "js_str s = map of_char s"

lemma of_char_u16: "(of_char c :: u16) = of_char d \<longleftrightarrow> c = d"
proof
  have e: "(of_nat (of_char x) :: u16) = of_char x" for x :: char by (rule of_nat_of_char)
  have b: "(of_char x :: nat) < 65536" for x :: char
    using nat_of_char_less_256 [of x] by linarith
  have u: "unat (of_char x :: u16) = of_char x" for x :: char
    unfolding e [symmetric] using b [of x] by (simp add: unat_of_nat)
  assume "(of_char c :: u16) = of_char d"
  then have "unat (of_char c :: u16) = unat (of_char d :: u16)" by simp
  then show "c = d" unfolding u by simp
qed simp

lemma js_str_eq [simp]: "js_str s = js_str t \<longleftrightarrow> s = t"
  unfolding js_str_def by (rule inj_map_eq_map) (simp add: inj_def of_char_u16)

section \<open>Rounding to a double\<close>

text \<open>\<open>a / b\<close> rounded to an integer, ties to even.\<close>

definition round_even :: "rat \<Rightarrow> int" where
  "round_even q =
     (let n = \<lfloor>q\<rfloor>; r = q - of_int n
      in if r > 1 / 2 \<or> r = 1 / 2 \<and> odd n then n + 1 else n)"

definition scale :: "nat \<Rightarrow> int \<Rightarrow> rat" where
  "scale b e = (if 0 \<le> e then of_nat b ^ nat e else 1 / of_nat b ^ nat (- e))"

text \<open>The number \<open>e\<close> of digits in base \<open>b\<close>: \<open>b ^ (e - 1) \<le> r < b ^ e\<close>.\<close>

definition digits :: "nat \<Rightarrow> rat \<Rightarrow> int" where
  "digits b r =
     (if r \<ge> 1 then int (floorlog b (nat \<lfloor>r\<rfloor>)) else 1 - int (floorlog b (nat (\<lceil>1 / r\<rceil> - 1))))"

definition f64_pos :: "rat \<Rightarrow> number" where
  "f64_pos r =
     (let e = max (- 1074) (digits 2 r - 53); v = of_int (round_even (r / scale 2 e)) * scale 2 e
      in if v \<ge> 2 ^ 1024 then Infinity False else Fin v)"

definition number_uminus :: "number \<Rightarrow> number" where
  "number_uminus x =
     (case x of NaN \<Rightarrow> NaN | Infinity s \<Rightarrow> Infinity (\<not> s) | NegZero \<Rightarrow> Fin 0
      | Fin r \<Rightarrow> if r = 0 then NegZero else Fin (- r))"

definition f64_of_rat :: "rat \<Rightarrow> number" where
  "f64_of_rat r = (if r = 0 then Fin 0 else if r > 0 then f64_pos r else number_uminus (f64_pos (- r)))"

text \<open>The value of a double and of a float from their bits.\<close>

definition f64_val :: "64 word \<Rightarrow> number" where
  "f64_val w =
     (let s = bit w 63; e = uint (take_bit 11 (drop_bit 52 w)); m = uint (take_bit 52 w);
          v = (if e = 0 then of_int m * scale 2 (- 1074) else of_int (m + 2 ^ 52) * scale 2 (e - 1075))
      in if e = 2047 then if m = 0 then Infinity s else NaN
         else if s then number_uminus (Fin v) else Fin v)"

definition f32_val :: "u32 \<Rightarrow> number" where
  "f32_val w =
     (let s = bit w 31; e = uint (take_bit 8 (drop_bit 23 w)); m = uint (take_bit 23 w);
          v = (if e = 0 then of_int m * scale 2 (- 149) else of_int (m + 2 ^ 23) * scale 2 (e - 150))
      in if e = 255 then if m = 0 then Infinity s else NaN
         else if s then number_uminus (Fin v) else Fin v)"

section \<open>Numbers as strings\<close>

fun dec_string :: "nat \<Rightarrow> jstring" where
  "dec_string n =
     (if n < 10 then [of_nat (48 + n)] else dec_string (n div 10) @ [of_nat (48 + n mod 10)])"

declare dec_string.simps [simp del]

text \<open>
  The fewest digits \<open>s\<close> with \<open>s * 10 ^ (n - k)\<close> rounding to \<open>r\<close>, nearest to \<open>r\<close> among these;
  10 when \<open>r\<close> lies just below a power of ten that rounds to it.
\<close>

definition shortest :: "rat \<Rightarrow> int \<Rightarrow> nat" where
  "shortest r n =
     (let cands = (\<lambda>k. let t = scale 10 (n - int k); a = nat \<lfloor>r / t\<rfloor>;
             good = filter (\<lambda>s. 10 ^ (k - 1) \<le> s \<and> s \<le> 10 ^ k \<and> f64_of_rat (of_nat s * t) = Fin r) [a, Suc a]
           in case good of [] \<Rightarrow> None
              | s # more \<Rightarrow> (case more of [] \<Rightarrow> Some s
                 | s' # _ \<Rightarrow> Some (if \<bar>of_nat s' * t - r\<bar> < \<bar>of_nat s * t - r\<bar> then s' else s)));
          hits = List.map_filter cands [1..<18]
      in case hits of [] \<Rightarrow> nat \<lfloor>r / scale 10 (n - 17)\<rfloor> | s # _ \<Rightarrow> s)"

definition zeros :: "nat \<Rightarrow> jstring" where
  "zeros k = replicate k 48"

definition positive_string :: "rat \<Rightarrow> jstring" where
  "positive_string r =
     (let s = shortest r (digits 10 r); n = (if s = 10 then digits 10 r + 1 else digits 10 r);
          ds = dec_string (if s = 10 then 1 else s); k = int (length ds)
      in if k \<le> n \<and> n \<le> 21 then ds @ zeros (nat (n - k))
         else if 0 < n \<and> n \<le> 21 then take (nat n) ds @ [46] @ drop (nat n) ds
         else if - 6 < n \<and> n \<le> 0 then [48, 46] @ zeros (nat (- n)) @ ds
         else (if k = 1 then ds else take 1 ds @ [46] @ drop 1 ds) @ [101, if n - 1 < 0 then 45 else 43] @
              dec_string (nat \<bar>n - 1\<bar>))"

text \<open>An integer below \<open>10 ^ 21\<close> is printed with all its digits.\<close>

definition number_to_string :: "number \<Rightarrow> jstring" where
  "number_to_string x =
     (case x of
        NaN \<Rightarrow> js_str ''NaN''
      | Infinity s \<Rightarrow> (if s then [45] else []) @ js_str ''Infinity''
      | NegZero \<Rightarrow> [48]
      | Fin r \<Rightarrow>
          (if r < 0 then [45] else []) @
          (if r = of_int \<lfloor>r\<rfloor> \<and> \<bar>r\<bar> \<le> 2 ^ 53 then dec_string (nat \<bar>\<lfloor>r\<rfloor>\<bar>) else positive_string \<bar>r\<bar>))"

section \<open>Strings as numbers\<close>

definition is_space :: "u16 \<Rightarrow> bool" where
  "is_space c \<longleftrightarrow>
     c \<in> {9, 10, 11, 12, 13, 32, 160, 5760, 8232, 8233, 8239, 8287, 12288, 65279} \<or> 8192 \<le> c \<and> c \<le> 8202"

definition trim :: "jstring \<Rightarrow> jstring" where
  "trim s = rev (dropWhile is_space (rev (dropWhile is_space s)))"

definition is_digit :: "u16 \<Rightarrow> bool" where
  "is_digit c \<longleftrightarrow> 48 \<le> c \<and> c \<le> 57"

text \<open>The sign of a literal and what follows it.\<close>

definition signed :: "(jstring \<Rightarrow> number) \<Rightarrow> jstring \<Rightarrow> number" where
  "signed f s =
     (case s of [] \<Rightarrow> f [] | c # cs \<Rightarrow> if c = 45 then number_uminus (f cs) else if c = 43 then f cs else f s)"

definition parse_int10 :: "jstring \<Rightarrow> number" where
  "parse_int10 s =
     signed (\<lambda>s. let ds = takeWhile is_digit s in if ds = [] then NaN else f64_of_rat (of_nat (decimal ds)))
       (dropWhile is_space s)"

text \<open>\<open>e\<close> or \<open>E\<close>, a sign and digits; \<open>None\<close> when this is not an exponent.\<close>

definition exponent :: "jstring \<Rightarrow> int option" where
  "exponent s =
     (case s of
        [] \<Rightarrow> Some 0
      | c # cs \<Rightarrow>
          if c \<noteq> 101 \<and> c \<noteq> 69 then None
          else let neg = cs \<noteq> [] \<and> hd cs = 45; ds = (if cs \<noteq> [] \<and> (hd cs = 45 \<or> hd cs = 43) then tl cs else cs)
               in if ds = [] \<or> \<not> list_all is_digit ds then None
                  else Some (if neg then - int (decimal ds) else int (decimal ds)))"

definition unsigned_decimal :: "jstring \<Rightarrow> number" where
  "unsigned_decimal s =
     (if s = js_str ''Infinity'' then Infinity False
      else let ds = takeWhile is_digit s; rest = dropWhile is_digit s;
               point = rest \<noteq> [] \<and> hd rest = 46;
               fs = (if point then takeWhile is_digit (tl rest) else []);
               rest = (if point then dropWhile is_digit (tl rest) else rest)
           in if ds = [] \<and> fs = [] then NaN
              else case exponent rest of
                     None \<Rightarrow> NaN
                   | Some e \<Rightarrow> f64_of_rat (of_nat (decimal (ds @ fs)) * scale 10 (e - int (length fs))))"

text \<open>The digits of the literals \<open>0x\<close>, \<open>0o\<close>, \<open>0b\<close>.\<close>

definition radix_digit :: "u16 \<Rightarrow> nat" where
  "radix_digit c =
     (if is_digit c then unat c - 48 else if 97 \<le> c \<and> c \<le> 102 then unat c - 87
      else if 65 \<le> c \<and> c \<le> 70 then unat c - 55 else 16)"

definition radix_literal :: "nat \<Rightarrow> jstring \<Rightarrow> number" where
  "radix_literal b ds =
     (if ds = [] \<or> \<not> list_all (\<lambda>c. radix_digit c < b) ds then NaN
      else f64_of_rat (of_nat (foldl (\<lambda>n c. b * n + radix_digit c) 0 ds)))"

definition string_to_number :: "jstring \<Rightarrow> number" where
  "string_to_number s =
     (let t = trim s; p = take 2 t
      in if t = [] then Fin 0
         else if p \<in> {js_str ''0x'', js_str ''0X''} then radix_literal 16 (drop 2 t)
         else if p \<in> {js_str ''0o'', js_str ''0O''} then radix_literal 8 (drop 2 t)
         else if p \<in> {js_str ''0b'', js_str ''0B''} then radix_literal 2 (drop 2 t)
         else signed unsigned_decimal t)"


section \<open>Conversions\<close>

fun truthy :: "js \<Rightarrow> bool" where
  "truthy Undefined = False"
| "truthy Null = False"
| "truthy (Boolean b) = b"
| "truthy (Number n) = (n \<noteq> NaN \<and> n \<noteq> NegZero \<and> n \<noteq> Fin 0)"
| "truthy (String s) = (s \<noteq> [])"
| "truthy (Array xs) = True"
| "truthy (Object c ps) = True"

text \<open>\<open>v != null\<close>\<close>

definition nullish :: "js \<Rightarrow> bool" where
  "nullish v \<longleftrightarrow> v = Undefined \<or> v = Null"

definition own :: "js \<Rightarrow> string \<Rightarrow> js option" where
  "own v k = (case v of Object c ps \<Rightarrow> map_of ps (js_str k) | _ \<Rightarrow> None)"

text \<open>The results of a call on each element in turn, until one throws.\<close>

fun map_all :: "('a \<Rightarrow> 'b res) \<Rightarrow> 'a list \<Rightarrow> 'b list res" where
  "map_all f [] = ok []"
| "map_all f (x # xs) = bindr (f x) (\<lambda>y. bindr (map_all f xs) (\<lambda>ys. ok (y # ys)))"

lemma map_all_cong [fundef_cong]:
  "xs = ys \<Longrightarrow> (\<And>x. x \<in> set ys \<Longrightarrow> f x = g x) \<Longrightarrow> map_all f xs = map_all g ys"
  by (induction xs arbitrary: ys) auto

lemma map_all_ok: "(\<And>x. x \<in> set xs \<Longrightarrow> f x = ok (g x)) \<Longrightarrow> map_all f xs = ok (map g xs)"
  by (induction xs) simp_all

fun join :: "jstring \<Rightarrow> jstring list \<Rightarrow> jstring" where
  "join sep [] = []"
| "join sep [x] = x"
| "join sep (x # y # xs) = x @ sep @ join sep (y # xs)"

text \<open>
  \<open>String(v)\<close>. An array is joined with commas. An object uses the inherited \<open>toString\<close>; an own
  property of this name is data, which the engine rejects.
\<close>

fun to_string :: "js \<Rightarrow> jstring res" where
  "to_string Undefined = ok (js_str ''undefined'')"
| "to_string Null = ok (js_str ''null'')"
| "to_string (Boolean b) = ok (if b then js_str ''true'' else js_str ''false'')"
| "to_string (Number n) = ok (number_to_string n)"
| "to_string (String s) = ok s"
| "to_string (Array xs) =
     bindr (map_all (\<lambda>x. if nullish x then ok [] else to_string x) xs) (\<lambda>ss. ok (join [44] ss))"
| "to_string (Object c ps) =
     (if map_of ps (js_str ''toString'') = None then ok (js_str ''[object Object]'') else throw (TypeError []))"

definition to_number :: "js \<Rightarrow> number res" where
  "to_number v =
     (case v of
        Undefined \<Rightarrow> ok NaN
      | Null \<Rightarrow> ok (Fin 0)
      | Boolean b \<Rightarrow> ok (Fin (if b then 1 else 0))
      | Number n \<Rightarrow> ok n
      | _ \<Rightarrow> bindr (to_string v) (\<lambda>s. ok (string_to_number s)))"

text \<open>\<open>v >>> 0\<close> and \<open>v | 0\<close>\<close>

definition truncate_number :: "number \<Rightarrow> int" where
  "truncate_number x = (case x of Fin r \<Rightarrow> if r < 0 then - \<lfloor>- r\<rfloor> else \<lfloor>r\<rfloor> | _ \<Rightarrow> 0)"

definition to_u32 :: "js \<Rightarrow> u32 res" where
  "to_u32 v = bindr (to_number v) (\<lambda>n. ok (word_of_int (truncate_number n)))"

definition is_integer :: "js \<Rightarrow> bool" where
  "is_integer v =
     (case v of Number n \<Rightarrow> (case n of Fin r \<Rightarrow> r = of_int \<lfloor>r\<rfloor> | NegZero \<Rightarrow> True | _ \<Rightarrow> False) | _ \<Rightarrow> False)"

definition is_number :: "js \<Rightarrow> bool" where
  "is_number v = (case v of Number n \<Rightarrow> True | _ \<Rightarrow> False)"

definition is_string :: "js \<Rightarrow> bool" where
  "is_string v = (case v of String s \<Rightarrow> True | _ \<Rightarrow> False)"

definition is_boolean :: "js \<Rightarrow> bool" where
  "is_boolean v = (case v of Boolean b \<Rightarrow> True | _ \<Rightarrow> False)"

text \<open>\<open>typeof v === "object"\<close>, which holds of \<open>null\<close>.\<close>

definition is_object :: "js \<Rightarrow> bool" where
  "is_object v = (case v of Null \<Rightarrow> True | Array xs \<Rightarrow> True | Object c ps \<Rightarrow> True | _ \<Rightarrow> False)"

definition is_finite :: "number \<Rightarrow> bool" where
  "is_finite n = (case n of Fin r \<Rightarrow> True | NegZero \<Rightarrow> True | _ \<Rightarrow> False)"

lemmas type_tests = is_integer_def is_number_def is_string_def is_boolean_def is_object_def nullish_def

section \<open>Integers print and parse\<close>

lemma unat_digit: "n < 10 \<Longrightarrow> unat (48 + of_nat n :: u16) = 48 + n"
  by (subst unat_add_lem [THEN iffD1]) (simp_all add: unat_of_nat)

lemma dec_string_digits: "list_all is_digit (dec_string n)"
proof (induction n rule: dec_string.induct)
  case (1 n)
  have d: "is_digit (48 + of_nat k :: u16)" if "k < 10" for k
    using unat_digit [OF that] that by (simp add: is_digit_def word_le_nat_alt)
  show ?case
    using 1 d [of n] d [of "n mod 10"] by (simp add: dec_string.simps [of n])
qed

lemma dec_string_not_Nil [simp]: "dec_string n \<noteq> []"
  by (simp add: dec_string.simps [of n])

lemma decimal_dec_string: "decimal (dec_string n) = n"
proof (induction n rule: dec_string.induct)
  case (1 n)
  show ?case
  proof (cases "n < 10")
    case True
    then show ?thesis by (simp add: dec_string.simps [of n] decimal_def unat_digit)
  next
    case False
    then show ?thesis
      using 1 unat_digit [of "n mod 10"] by (simp add: dec_string.simps [of n] decimal_def)
  qed
qed

lemma round_even_int [simp]: "round_even (of_int n) = n"
  by (simp add: round_even_def)

lemma scale_pos [simp]: "0 < b \<Longrightarrow> 0 < scale b e"
  by (simp add: scale_def)

lemma f64_of_nat:
  assumes "n \<le> 2 ^ 53"
  shows "f64_of_rat (of_nat n) = Fin (of_nat n)"
proof (cases "n = 0")
  case False
  define e where "e = digits 2 (of_nat n) - 53"
  have d: "digits 2 (of_nat n) = int (floorlog 2 n)" using False by (simp add: digits_def)
  have "floorlog 2 n \<noteq> 0" using False by (simp add: floorlog_eq_zero_iff)
  then have m: "max (- 1074) e = e" by (simp add: e_def d)
  have "\<exists>q. of_nat n / scale 2 e = (of_int q :: rat)"
  proof (cases "n = 2 ^ 53")
    case True
    then have "floorlog 2 n = 54" using floorlog_power [of 1 2 53] by (simp add: compute_floorlog)
    then have "e = 1" by (simp add: e_def d)
    then show ?thesis using True by (intro exI [of _ "2 ^ 52"]) (simp add: scale_def)
  next
    case False
    then have "n < 2 ^ 53" using assms by simp
    then have "floorlog 2 n \<le> 53" by (simp add: floorlog_le_iff)
    then have "e \<le> 0" by (simp add: e_def d)
    then have "of_nat n / scale 2 e = (of_int (int n * 2 ^ nat (- e)) :: rat)"
      by (cases "e = 0") (simp_all add: scale_def)
    then show ?thesis by blast
  qed
  then obtain q where q: "of_nat n / scale 2 e = (of_int q :: rat)" by blast
  have "of_int (round_even (of_nat n / scale 2 e)) * scale 2 e = (of_nat n :: rat)"
    unfolding q round_even_int unfolding q [symmetric] using scale_pos [of 2 e] by (simp add: less_imp_neq [symmetric])
  moreover have "(of_nat n :: rat) < 2 ^ 1024"
  proof -
    have "(of_nat n :: rat) \<le> of_nat (2 ^ 53)" using assms by (simp only: of_nat_le_iff)
    also have "\<dots> < 2 ^ 1024" by simp
    finally show ?thesis .
  qed
  ultimately show ?thesis
    using False m by (simp add: f64_of_rat_def f64_pos_def Let_def e_def [symmetric])
qed (simp add: f64_of_rat_def)

lemma takeWhile_digits [simp]: "takeWhile is_digit (dec_string n) = dec_string n"
  using dec_string_digits [of n] by (simp add: list_all_iff)

lemma digit_facts:
  assumes "is_digit c"
  shows "c \<noteq> 45 \<and> c \<noteq> 43 \<and> \<not> is_space c"
proof -
  have b: "48 \<le> unat c" "unat c \<le> 57" using assms by (simp_all add: is_digit_def word_le_nat_alt)
  have "c \<noteq> of_nat k" if "k < 48 \<or> 57 < k" "k < 65536" for k
  proof
    assume "c = of_nat k"
    then have "unat c = k" using that(2) by (simp add: unat_of_nat)
    then show False using b that(1) by simp
  qed
  from this [of 45] this [of 43] this [of 9] this [of 10] this [of 11] this [of 12] this [of 13] this [of 32]
    this [of 160] this [of 5760] this [of 8232] this [of 8233] this [of 8239] this [of 8287] this [of 12288]
    this [of 65279]
  show ?thesis using b by (simp add: is_space_def word_le_nat_alt)
qed

lemma dec_string_Cons: "\<exists>c cs. dec_string n = c # cs \<and> is_digit c"
  using dec_string_digits [of n] by (cases "dec_string n") auto

lemma parse_int10_nat:
  assumes "n \<le> 2 ^ 53"
  shows "parse_int10 (dec_string n) = Fin (of_nat n)"
    "parse_int10 (45 # dec_string n) = number_uminus (Fin (of_nat n))"
proof -
  obtain c cs where c: "dec_string n = c # cs" "is_digit c" using dec_string_Cons by blast
  have s: "dropWhile is_space (dec_string n) = dec_string n" using c digit_facts by simp
  show "parse_int10 (dec_string n) = Fin (of_nat n)"
  proof -
    have "signed f (dec_string n) = f (dec_string n)" for f
      using digit_facts [OF c(2)] by (simp add: signed_def c(1))
    then show ?thesis
      unfolding parse_int10_def s using f64_of_nat [OF assms] by (simp add: decimal_dec_string)
  qed
  have m: "\<not> is_space 45" by (simp add: is_space_def)
  show "parse_int10 (45 # dec_string n) = number_uminus (Fin (of_nat n))"
    unfolding parse_int10_def using f64_of_nat [OF assms] by (simp add: m signed_def decimal_dec_string)
qed

theorem parse_int10_print:
  assumes "\<bar>i\<bar> \<le> 2 ^ 53"
  shows "parse_int10 (number_to_string (Fin (of_int i))) = Fin (of_int i)"
proof -
  have n: "nat \<bar>i\<bar> \<le> 2 ^ 53" using nat_mono [OF assms] by (simp add: nat_power_eq)
  have "of_int \<bar>i\<bar> \<le> (of_int (2 ^ 53) :: rat)" using assms by (simp only: of_int_le_iff)
  then have p: "number_to_string (Fin (of_int i)) = (if i < 0 then [45] else []) @ dec_string (nat \<bar>i\<bar>)"
    by (simp add: number_to_string_def)
  show ?thesis
    unfolding p using parse_int10_nat [OF n] by (auto simp: number_uminus_def)
qed

text \<open>\<open>Number\<close> of an integer that was printed.\<close>

lemma trim_digits:
  assumes "xs \<noteq> []" "list_all (\<lambda>c. \<not> is_space c) xs"
  shows "trim xs = xs"
proof -
  have d: "dropWhile is_space ys = ys" if "ys \<noteq> []" "list_all (\<lambda>c. \<not> is_space c) ys" for ys
    using that by (cases ys) simp_all
  have "list_all (\<lambda>c. \<not> is_space c) (rev xs)" using assms(2) by (simp add: list_all_iff)
  then show ?thesis using d [OF assms] d [of "rev xs"] assms(1) by (simp add: trim_def)
qed

lemma unsigned_decimal_nat:
  assumes "n \<le> 2 ^ 53"
  shows "unsigned_decimal (dec_string n) = Fin (of_nat n)"
proof -
  have d: "dropWhile is_digit (dec_string n) = []" using dec_string_digits [of n] by (simp add: list_all_iff)
  have "dec_string n \<noteq> js_str ''Infinity''"
    using dec_string_digits [of n] by (auto simp: js_str_def is_digit_def)
  then show ?thesis
    using f64_of_nat [OF assms] by (simp add: d unsigned_decimal_def Let_def exponent_def scale_def decimal_dec_string)
qed

lemma not_radix:
  assumes "list_all is_digit ds"
  shows "take 2 ds \<noteq> js_str ''0x'' \<and> take 2 ds \<noteq> js_str ''0X'' \<and> take 2 ds \<noteq> js_str ''0o'' \<and>
    take 2 ds \<noteq> js_str ''0O'' \<and> take 2 ds \<noteq> js_str ''0b'' \<and> take 2 ds \<noteq> js_str ''0B''"
proof (cases ds)
  case (Cons a as)
  then show ?thesis using assms by (cases as) (auto simp: js_str_def is_digit_def)
qed (simp add: js_str_def)

lemma string_to_number_nat:
  assumes "n \<le> 2 ^ 53"
  shows "string_to_number (dec_string n) = Fin (of_nat n)"
    "string_to_number (45 # dec_string n) = number_uminus (Fin (of_nat n))"
proof -
  have d: "list_all (\<lambda>c. \<not> is_space c) (dec_string n)"
    using dec_string_digits [of n] digit_facts by (auto simp: list_all_iff)
  obtain c cs where c: "dec_string n = c # cs" "is_digit c" using dec_string_Cons by blast
  have "signed f (dec_string n) = f (dec_string n)" for f
    using digit_facts [OF c(2)] by (simp add: signed_def c(1))
  then show "string_to_number (dec_string n) = Fin (of_nat n)"
    using trim_digits [OF _ d] not_radix [OF dec_string_digits] unsigned_decimal_nat [OF assms]
    by (simp add: string_to_number_def Let_def)
  have m: "list_all (\<lambda>c. \<not> is_space c) (45 # dec_string n)" using d by (simp add: is_space_def)
  have "take 2 (45 # xs) \<noteq> js_str [CHR ''0'', x]" for xs x by (simp add: js_str_def take_Cons')
  then show "string_to_number (45 # dec_string n) = number_uminus (Fin (of_nat n))"
    using trim_digits [OF _ m] unsigned_decimal_nat [OF assms]
    by (simp add: string_to_number_def Let_def signed_def)
qed

lemma string_to_number_print:
  assumes "\<bar>i\<bar> \<le> 2 ^ 53"
  shows "string_to_number (number_to_string (Fin (of_int i))) = Fin (of_int i)"
proof -
  have n: "nat \<bar>i\<bar> \<le> 2 ^ 53" using nat_mono [OF assms] by (simp add: nat_power_eq)
  have "of_int \<bar>i\<bar> \<le> (of_int (2 ^ 53) :: rat)" using assms by (simp only: of_int_le_iff)
  then have p: "number_to_string (Fin (of_int i)) = (if i < 0 then [45] else []) @ dec_string (nat \<bar>i\<bar>)"
    by (simp add: number_to_string_def)
  show ?thesis
    unfolding p using string_to_number_nat [OF n] by (auto simp: number_uminus_def)
qed

section \<open>Names that are never free\<close>

text \<open>
  The names every plain object inherits: an object used as a map finds the members of
  \<open>Object.prototype\<close> under them. What the code does with these is left open (\<open>None\<close>).
\<close>

definition inherited :: "jstring \<Rightarrow> bool" where
  "inherited i \<longleftrightarrow>
     i \<in> js_str ` {''constructor'', ''toString'', ''toLocaleString'', ''valueOf'', ''hasOwnProperty'', ''isPrototypeOf'',
       ''propertyIsEnumerable'', ''__defineGetter__'', ''__defineSetter__'', ''__lookupGetter__'',
       ''__lookupSetter__'', ''__proto__''}"

end
