(* ===== verification/Prototypes.thy ===== *)
theory Prototypes
  imports JsValue
begin

text \<open>
  What an instance of a message class inherits: the defaults on the prototype of each class
  (\<open>X.prototype.f = ...\<close>), which every read of a field the instance does not own gives, and the
  reading of a property with its prototype chain.
\<close>

definition ErrorResponse_proto :: "(string \<times> js) list" where
  "ErrorResponse_proto =
     [(''code'', int_js 0), (''message'', String [])]"

definition StatusResponse_proto :: "(string \<times> js) list" where
  "StatusResponse_proto =
     [(''state'', int_js 0), (''filesIndexed'', int_js 0), (''tagsTotal'', int_js 0),
      (''indexSizeMb'', int_js 0), (''warnings'', Array []), (''uptimeSeconds'', int_js 0)]"

definition ReindexFileRequest_proto :: "(string \<times> js) list" where
  "ReindexFileRequest_proto =
     [(''path'', String [])]"

definition ReloadRulesResponse_proto :: "(string \<times> js) list" where
  "ReloadRulesResponse_proto =
     [(''rulesLoaded'', int_js 0), (''errors'', Array [])]"

definition LaunchGUIRequest_proto :: "(string \<times> js) list" where
  "LaunchGUIRequest_proto =
     [(''path'', String [])]"

definition LaunchGUIResponse_proto :: "(string \<times> js) list" where
  "LaunchGUIResponse_proto =
     [(''alreadyRunning'', Boolean False)]"

definition FileTaggedEvent_proto :: "(string \<times> js) list" where
  "FileTaggedEvent_proto =
     [(''path'', String []), (''added'', Array []), (''removed'', Array [])]"

definition IndexUpdatedEvent_proto :: "(string \<times> js) list" where
  "IndexUpdatedEvent_proto =
     [(''filesTotal'', int_js 0), (''tagsTotal'', int_js 0)]"

definition DaemonStateChangedEvent_proto :: "(string \<times> js) list" where
  "DaemonStateChangedEvent_proto =
     [(''state'', String [])]"

definition ShowWindowEvent_proto :: "(string \<times> js) list" where
  "ShowWindowEvent_proto =
     [(''path'', String [])]"

definition SearchRequest_proto :: "(string \<times> js) list" where
  "SearchRequest_proto =
     [(''tags'', Array []), (''tagsAny'', Boolean False), (''tagExclude'', Array []),
      (''metaFilters'', plain []), (''ftsQuery'', String []), (''limit'', int_js 0),
      (''offset'', int_js 0), (''sortBy'', Array []), (''vectorQuery'', String [])]"

definition FileResult_proto :: "(string \<times> js) list" where
  "FileResult_proto =
     [(''path'', String []), (''tags'', Array []), (''metadata'', plain []), (''score'',
      int_js 0), (''mtime'', int_js 0), (''sizeBytes'', int_js 0), (''isLink'', Boolean
      False), (''linkTarget'', String [])]"

definition SearchResponse_proto :: "(string \<times> js) list" where
  "SearchResponse_proto =
     [(''files'', Array []), (''total'', int_js 0)]"

definition TagRequest_proto :: "(string \<times> js) list" where
  "TagRequest_proto =
     [(''paths'', Array []), (''tags'', Array []), (''operation'', int_js 0)]"

definition TagResponse_proto :: "(string \<times> js) list" where
  "TagResponse_proto =
     [(''pathsOk'', Array []), (''pathsError'', Array []), (''errors'', plain [])]"

definition MetadataRequest_proto :: "(string \<times> js) list" where
  "MetadataRequest_proto =
     [(''path'', String [])]"

definition MetadataResponse_proto :: "(string \<times> js) list" where
  "MetadataResponse_proto =
     [(''path'', String []), (''metadata'', plain []), (''sources'', plain [])]"

definition MetadataSetRequest_proto :: "(string \<times> js) list" where
  "MetadataSetRequest_proto =
     [(''path'', String []), (''key'', String []), (''value'', String [])]"

definition RelatedRequest_proto :: "(string \<times> js) list" where
  "RelatedRequest_proto =
     [(''seedPath'', String []), (''limit'', int_js 0), (''maxHops'', int_js 0),
      (''hopWeight'', int_js 0), (''vecWeight'', int_js 0)]"

definition ScoredFile_proto :: "(string \<times> js) list" where
  "ScoredFile_proto =
     [(''file'', Null), (''score'', int_js 0), (''hopDistance'', int_js 0),
      (''cosineSim'', int_js 0)]"

definition RelatedResponse_proto :: "(string \<times> js) list" where
  "RelatedResponse_proto =
     [(''files'', Array [])]"

definition ListTagsRequest_proto :: "(string \<times> js) list" where
  "ListTagsRequest_proto =
     [(''prefix'', String [])]"

definition ListTagsResponse_proto :: "(string \<times> js) list" where
  "ListTagsResponse_proto =
     [(''tags'', Array [])]"

definition HydrateTagsRequest_proto :: "(string \<times> js) list" where
  "HydrateTagsRequest_proto =
     [(''paths'', Array [])]"

definition HydratedPathTags_proto :: "(string \<times> js) list" where
  "HydratedPathTags_proto =
     [(''path'', String []), (''tags'', Array [])]"

definition HydrateTagsResponse_proto :: "(string \<times> js) list" where
  "HydrateTagsResponse_proto =
     [(''entries'', Array [])]"

definition GlobSearchRequest_proto :: "(string \<times> js) list" where
  "GlobSearchRequest_proto =
     [(''patterns'', Array []), (''limit'', int_js 0), (''allowHidden'', Boolean False)]"

definition GlobSearchResponse_proto :: "(string \<times> js) list" where
  "GlobSearchResponse_proto =
     [(''files'', Array [])]"

definition SavedSearch_proto :: "(string \<times> js) list" where
  "SavedSearch_proto =
     [(''name'', String []), (''chips'', Array []), (''iconName'', String []), (''id'',
      String [])]"

definition PinSearchRequest_proto :: "(string \<times> js) list" where
  "PinSearchRequest_proto =
     [(''name'', String []), (''chips'', Array []), (''iconName'', String [])]"

definition PinSearchResponse_proto :: "(string \<times> js) list" where
  "PinSearchResponse_proto =
     [(''search'', Null)]"

definition UnpinSearchRequest_proto :: "(string \<times> js) list" where
  "UnpinSearchRequest_proto =
     [(''id'', String [])]"

definition ListSavedSearchesResponse_proto :: "(string \<times> js) list" where
  "ListSavedSearchesResponse_proto =
     [(''searches'', Array [])]"

definition ListDirectoryRequest_proto :: "(string \<times> js) list" where
  "ListDirectoryRequest_proto =
     [(''path'', String []), (''hidden'', Boolean False)]"

definition DirEntry_proto :: "(string \<times> js) list" where
  "DirEntry_proto =
     [(''name'', String []), (''path'', String []), (''isDir'', Boolean False),
      (''sizeBytes'', int_js 0), (''mtime'', int_js 0), (''mode'', int_js 0), (''hidden'',
      Boolean False), (''mimeType'', String []), (''iconName'', String []), (''isLink'',
      Boolean False), (''linkTarget'', String [])]"

definition ListDirectoryResponse_proto :: "(string \<times> js) list" where
  "ListDirectoryResponse_proto =
     [(''entries'', Array [])]"

definition StatFileRequest_proto :: "(string \<times> js) list" where
  "StatFileRequest_proto =
     [(''path'', String [])]"

definition FileStat_proto :: "(string \<times> js) list" where
  "FileStat_proto =
     [(''sizeBytes'', int_js 0), (''mtime'', int_js 0), (''mode'', int_js 0)]"

definition StatFileResponse_proto :: "(string \<times> js) list" where
  "StatFileResponse_proto =
     [(''stat'', Null)]"

definition RenameFileRequest_proto :: "(string \<times> js) list" where
  "RenameFileRequest_proto =
     [(''path'', String []), (''newName'', String [])]"

definition RenameFileResponse_proto :: "(string \<times> js) list" where
  "RenameFileResponse_proto =
     [(''newPath'', String [])]"

definition DeleteFileRequest_proto :: "(string \<times> js) list" where
  "DeleteFileRequest_proto =
     [(''path'', String [])]"

definition ChmodFileRequest_proto :: "(string \<times> js) list" where
  "ChmodFileRequest_proto =
     [(''path'', String []), (''mode'', int_js 0)]"

definition CopyRequest_proto :: "(string \<times> js) list" where
  "CopyRequest_proto =
     [(''paths'', Array []), (''isMove'', Boolean False)]"

definition PasteRequest_proto :: "(string \<times> js) list" where
  "PasteRequest_proto =
     [(''destinationDir'', String [])]"

definition PasteResponse_proto :: "(string \<times> js) list" where
  "PasteResponse_proto =
     [(''newPaths'', Array [])]"

definition CreateFileRequest_proto :: "(string \<times> js) list" where
  "CreateFileRequest_proto =
     [(''destinationDir'', String []), (''name'', String [])]"

definition CreateFileResponse_proto :: "(string \<times> js) list" where
  "CreateFileResponse_proto =
     [(''path'', String [])]"

definition CreateDirectoryRequest_proto :: "(string \<times> js) list" where
  "CreateDirectoryRequest_proto =
     [(''destinationDir'', String []), (''name'', String [])]"

definition CreateDirectoryResponse_proto :: "(string \<times> js) list" where
  "CreateDirectoryResponse_proto =
     [(''path'', String [])]"

definition TrashFileRequest_proto :: "(string \<times> js) list" where
  "TrashFileRequest_proto =
     [(''path'', String [])]"

definition TrashEntry_proto :: "(string \<times> js) list" where
  "TrashEntry_proto =
     [(''name'', String []), (''originalPath'', String []), (''deletionDate'', int_js 0),
      (''sizeBytes'', int_js 0)]"

definition ListTrashResponse_proto :: "(string \<times> js) list" where
  "ListTrashResponse_proto =
     [(''entries'', Array [])]"

definition RestoreTrashRequest_proto :: "(string \<times> js) list" where
  "RestoreTrashRequest_proto =
     [(''trashName'', String [])]"

definition PlaceEntry_proto :: "(string \<times> js) list" where
  "PlaceEntry_proto =
     [(''name'', String []), (''path'', String []), (''pinned'', Boolean False),
      (''iconName'', String [])]"

definition ListPlacesResponse_proto :: "(string \<times> js) list" where
  "ListPlacesResponse_proto =
     [(''places'', Array [])]"

definition PinPlaceRequest_proto :: "(string \<times> js) list" where
  "PinPlaceRequest_proto =
     [(''name'', String []), (''path'', String []), (''iconName'', String [])]"

definition UnpinPlaceRequest_proto :: "(string \<times> js) list" where
  "UnpinPlaceRequest_proto =
     [(''path'', String [])]"

definition AppEntry_proto :: "(string \<times> js) list" where
  "AppEntry_proto =
     [(''id'', String []), (''name'', String []), (''iconName'', String [])]"

definition ListAppsForFileRequest_proto :: "(string \<times> js) list" where
  "ListAppsForFileRequest_proto =
     [(''path'', String [])]"

definition ListAppsForFileResponse_proto :: "(string \<times> js) list" where
  "ListAppsForFileResponse_proto =
     [(''apps'', Array [])]"

definition OpenWithAppRequest_proto :: "(string \<times> js) list" where
  "OpenWithAppRequest_proto =
     [(''path'', String []), (''appId'', String [])]"

definition GetBrowserConfigResponse_proto :: "(string \<times> js) list" where
  "GetBrowserConfigResponse_proto =
     [(''keybindings'', plain []), (''useTrash'', Boolean False), (''inlineThumbnails'',
      Boolean False), (''autoPropertiesSlideout'', Boolean False), (''theme'', String []),
      (''singleClick'', Boolean False)]"

definition GetFileBadgesRequest_proto :: "(string \<times> js) list" where
  "GetFileBadgesRequest_proto =
     [(''path'', String [])]"

definition GetFileBadgesResponse_proto :: "(string \<times> js) list" where
  "GetFileBadgesResponse_proto =
     [(''badges'', Array [])]"

definition FileAction_proto :: "(string \<times> js) list" where
  "FileAction_proto =
     [(''id'', String []), (''label'', String [])]"

definition GetFileActionsRequest_proto :: "(string \<times> js) list" where
  "GetFileActionsRequest_proto =
     [(''path'', String [])]"

definition GetFileActionsResponse_proto :: "(string \<times> js) list" where
  "GetFileActionsResponse_proto =
     [(''actions'', Array [])]"

definition RunFileActionRequest_proto :: "(string \<times> js) list" where
  "RunFileActionRequest_proto =
     [(''path'', String []), (''actionId'', String [])]"

definition GetThumbnailRequest_proto :: "(string \<times> js) list" where
  "GetThumbnailRequest_proto =
     [(''path'', String []), (''size'', int_js 0)]"

definition GetThumbnailResponse_proto :: "(string \<times> js) list" where
  "GetThumbnailResponse_proto =
     [(''thumbnailPath'', String []), (''width'', int_js 0), (''height'', int_js 0)]"

definition MountEntry_proto :: "(string \<times> js) list" where
  "MountEntry_proto =
     [(''path'', String []), (''label'', String []), (''iconName'', String [])]"

definition ListMountsResponse_proto :: "(string \<times> js) list" where
  "ListMountsResponse_proto =
     [(''mounts'', Array [])]"

definition Request_proto :: "(string \<times> js) list" where
  "Request_proto =
     [(''search'', Null), (''listTags'', Null), (''hydrateTags'', Null), (''related'',
      Null), (''globSearch'', Null), (''tag'', Null), (''metadata'', Null),
      (''metadataSet'', Null), (''status'', Null), (''reloadRules'', Null),
      (''listDirectory'', Null), (''statFile'', Null), (''renameFile'', Null),
      (''deleteFile'', Null), (''chmodFile'', Null), (''copy'', Null), (''paste'', Null),
      (''createFile'', Null), (''createDirectory'', Null), (''listPlaces'', Null),
      (''pinPlace'', Null), (''unpinPlace'', Null), (''trashFile'', Null), (''listTrash'',
      Null), (''restoreTrash'', Null), (''emptyTrash'', Null), (''listAppsForFile'',
      Null), (''openWithApp'', Null), (''getBrowserConfig'', Null), (''launchGui'', Null),
      (''getThumbnail'', Null), (''listMounts'', Null), (''getFileBadges'', Null),
      (''getFileActions'', Null), (''runFileAction'', Null), (''pinSearch'', Null),
      (''unpinSearch'', Null), (''listSavedSearches'', Null), (''shutdown'', Null),
      (''reindexFile'', Null)]"

definition Response_proto :: "(string \<times> js) list" where
  "Response_proto =
     [(''error'', Null), (''search'', Null), (''listTags'', Null), (''hydrateTags'',
      Null), (''related'', Null), (''globSearch'', Null), (''tag'', Null), (''metadata'',
      Null), (''status'', Null), (''reloadRules'', Null), (''listDirectory'', Null),
      (''statFile'', Null), (''renameFile'', Null), (''deleteFile'', Null),
      (''chmodFile'', Null), (''copy'', Null), (''paste'', Null), (''createFile'', Null),
      (''createDirectory'', Null), (''listPlaces'', Null), (''pinPlace'', Null),
      (''unpinPlace'', Null), (''trashFile'', Null), (''listTrash'', Null),
      (''restoreTrash'', Null), (''emptyTrash'', Null), (''listAppsForFile'', Null),
      (''openWithApp'', Null), (''getBrowserConfig'', Null), (''launchGui'', Null),
      (''getThumbnail'', Null), (''listMounts'', Null), (''getFileBadges'', Null),
      (''getFileActions'', Null), (''runFileAction'', Null), (''pinSearch'', Null),
      (''unpinSearch'', Null), (''listSavedSearches'', Null), (''shutdown'', Null),
      (''reindexFile'', Null)]"

definition Event_proto :: "(string \<times> js) list" where
  "Event_proto =
     [(''fileTagged'', Null), (''indexUpdated'', Null), (''daemonStateChanged'', Null),
      (''showWindow'', Null)]"

definition Envelope_proto :: "(string \<times> js) list" where
  "Envelope_proto =
     [(''requestId'', int_js 0), (''request'', Null), (''response'', Null), (''event'',
      Null)]"

text \<open>The prototypes by the name of their class; the prototype of a plain object holds methods only.\<close>

definition prototype :: "string \<Rightarrow> (string \<times> js) list" where
  "prototype C =
     (case map_of
     [(''ErrorResponse'', ErrorResponse_proto),
      (''StatusResponse'', StatusResponse_proto),
      (''ReindexFileRequest'', ReindexFileRequest_proto),
      (''ReloadRulesResponse'', ReloadRulesResponse_proto),
      (''LaunchGUIRequest'', LaunchGUIRequest_proto),
      (''LaunchGUIResponse'', LaunchGUIResponse_proto),
      (''FileTaggedEvent'', FileTaggedEvent_proto),
      (''IndexUpdatedEvent'', IndexUpdatedEvent_proto),
      (''DaemonStateChangedEvent'', DaemonStateChangedEvent_proto),
      (''ShowWindowEvent'', ShowWindowEvent_proto),
      (''SearchRequest'', SearchRequest_proto),
      (''FileResult'', FileResult_proto),
      (''SearchResponse'', SearchResponse_proto),
      (''TagRequest'', TagRequest_proto),
      (''TagResponse'', TagResponse_proto),
      (''MetadataRequest'', MetadataRequest_proto),
      (''MetadataResponse'', MetadataResponse_proto),
      (''MetadataSetRequest'', MetadataSetRequest_proto),
      (''RelatedRequest'', RelatedRequest_proto),
      (''ScoredFile'', ScoredFile_proto),
      (''RelatedResponse'', RelatedResponse_proto),
      (''ListTagsRequest'', ListTagsRequest_proto),
      (''ListTagsResponse'', ListTagsResponse_proto),
      (''HydrateTagsRequest'', HydrateTagsRequest_proto),
      (''HydratedPathTags'', HydratedPathTags_proto),
      (''HydrateTagsResponse'', HydrateTagsResponse_proto),
      (''GlobSearchRequest'', GlobSearchRequest_proto),
      (''GlobSearchResponse'', GlobSearchResponse_proto),
      (''SavedSearch'', SavedSearch_proto),
      (''PinSearchRequest'', PinSearchRequest_proto),
      (''PinSearchResponse'', PinSearchResponse_proto),
      (''UnpinSearchRequest'', UnpinSearchRequest_proto),
      (''ListSavedSearchesResponse'', ListSavedSearchesResponse_proto),
      (''ListDirectoryRequest'', ListDirectoryRequest_proto),
      (''DirEntry'', DirEntry_proto),
      (''ListDirectoryResponse'', ListDirectoryResponse_proto),
      (''StatFileRequest'', StatFileRequest_proto),
      (''FileStat'', FileStat_proto),
      (''StatFileResponse'', StatFileResponse_proto),
      (''RenameFileRequest'', RenameFileRequest_proto),
      (''RenameFileResponse'', RenameFileResponse_proto),
      (''DeleteFileRequest'', DeleteFileRequest_proto),
      (''ChmodFileRequest'', ChmodFileRequest_proto),
      (''CopyRequest'', CopyRequest_proto),
      (''PasteRequest'', PasteRequest_proto),
      (''PasteResponse'', PasteResponse_proto),
      (''CreateFileRequest'', CreateFileRequest_proto),
      (''CreateFileResponse'', CreateFileResponse_proto),
      (''CreateDirectoryRequest'', CreateDirectoryRequest_proto),
      (''CreateDirectoryResponse'', CreateDirectoryResponse_proto),
      (''TrashFileRequest'', TrashFileRequest_proto),
      (''TrashEntry'', TrashEntry_proto),
      (''ListTrashResponse'', ListTrashResponse_proto),
      (''RestoreTrashRequest'', RestoreTrashRequest_proto),
      (''PlaceEntry'', PlaceEntry_proto),
      (''ListPlacesResponse'', ListPlacesResponse_proto),
      (''PinPlaceRequest'', PinPlaceRequest_proto),
      (''UnpinPlaceRequest'', UnpinPlaceRequest_proto),
      (''AppEntry'', AppEntry_proto),
      (''ListAppsForFileRequest'', ListAppsForFileRequest_proto),
      (''ListAppsForFileResponse'', ListAppsForFileResponse_proto),
      (''OpenWithAppRequest'', OpenWithAppRequest_proto),
      (''GetBrowserConfigResponse'', GetBrowserConfigResponse_proto),
      (''GetFileBadgesRequest'', GetFileBadgesRequest_proto),
      (''GetFileBadgesResponse'', GetFileBadgesResponse_proto),
      (''FileAction'', FileAction_proto),
      (''GetFileActionsRequest'', GetFileActionsRequest_proto),
      (''GetFileActionsResponse'', GetFileActionsResponse_proto),
      (''RunFileActionRequest'', RunFileActionRequest_proto),
      (''GetThumbnailRequest'', GetThumbnailRequest_proto),
      (''GetThumbnailResponse'', GetThumbnailResponse_proto),
      (''MountEntry'', MountEntry_proto),
      (''ListMountsResponse'', ListMountsResponse_proto),
      (''Request'', Request_proto),
      (''Response'', Response_proto),
      (''Event'', Event_proto),
      (''Envelope'', Envelope_proto)] C
      of None \<Rightarrow> [] | Some fields \<Rightarrow> fields)"

lemma prototype_Object [simp]: "prototype ''Object'' = []"
  by (simp add: prototype_def)

text \<open>
  \<open>v.k\<close>: an own property, or the one inherited. Of the properties of arrays and strings only
  \<open>length\<close> is data; the methods every value inherits are not values here.
\<close>

definition get_prop :: "js \<Rightarrow> string \<Rightarrow> js res" where
  "get_prop v k =
     (case v of
        Undefined \<Rightarrow> throw (TypeError [])
      | Null \<Rightarrow> throw (TypeError [])
      | Object c ps \<Rightarrow>
          ok (case map_of ps (js_str k) of
                Some x \<Rightarrow> x
              | None \<Rightarrow> (case map_of (prototype c) k of Some x \<Rightarrow> x | None \<Rightarrow> Undefined))
      | Array xs \<Rightarrow> ok (if k = ''length'' then int_js (int (length xs)) else Undefined)
      | String s \<Rightarrow> ok (if k = ''length'' then int_js (int (length s)) else Undefined)
      | _ \<Rightarrow> ok Undefined)"

end
