(* ===== verification/Plain.thy ===== *)
theory Plain
  imports LongBits Prototypes
begin

text \<open>
  What the generated \<open>verify\<close>, \<open>fromObject\<close> and \<open>toObject\<close> share: the statements they are made
  of, one definition per form, over arbitrary values. \<open>verify\<close> is a list of checks, each of which may
  end it with a complaint; \<open>fromObject\<close> a list of statements that set fields of a new instance from
  the properties of an object; \<open>toObject\<close> a list that sets properties of a plain object from the
  fields of a message. The small functions of \<open>util\<close> they call come first.

  Assigning an object to the key \<open>__proto__\<close> replaces a prototype, which no value here can express:
  the statements that would do so have the result \<open>None\<close>.
\<close>

type_synonym props = "(jstring \<times> js) list"

definition put :: "string \<Rightarrow> js \<Rightarrow> props \<Rightarrow> props" where
  "put k v ps = js_put (js_str k, v) ps"

text \<open>\<open>message.hasOwnProperty(k)\<close>: an own property of this name is data, and not a function.\<close>

definition has_own :: "js \<Rightarrow> string \<Rightarrow> bool res" where
  "has_own m k = (if own m ''hasOwnProperty'' \<noteq> None then throw (TypeError []) else ok (own m k \<noteq> None))"

text \<open>\<open>message.f != null && message.hasOwnProperty("f")\<close>, with the value.\<close>

definition present :: "js \<Rightarrow> string \<Rightarrow> js option res" where
  "present m k =
     bindr (get_prop m k) (\<lambda>v.
       if nullish v then ok None else bindr (has_own m k) (\<lambda>b. ok (if b then Some v else None)))"

text \<open>The own enumerable properties, as \<open>Object.keys\<close> lists them; those of a string are its units.\<close>

definition entries :: "js \<Rightarrow> props" where
  "entries v =
     (case v of
        Object c ps \<Rightarrow> ps
      | Array xs \<Rightarrow> zip (map dec_string [0..<length xs]) xs
      | String s \<Rightarrow> zip (map dec_string [0..<length s]) (map (\<lambda>c. String [c]) s)
      | _ \<Rightarrow> [])"

text \<open>
  \<open>obj[k] = v\<close>. Assigning an object to \<open>__proto__\<close> would replace the prototype: the model has no
  such object, which is the result \<open>None\<close>.
\<close>

definition assign :: "jstring \<Rightarrow> js \<Rightarrow> props \<Rightarrow> props res" where
  "assign k v ps = (if k = proto_key \<and> is_object v then None else ok (js_put (k, v) ps))"

fun assign_all :: "props \<Rightarrow> props \<Rightarrow> props res" where
  "assign_all [] ps = ok ps"
| "assign_all (kv # kvs) ps = bindr (assign (fst kv) (snd kv) ps) (assign_all kvs)"

section \<open>Constructors, oneofs, type URLs\<close>

text \<open>The setter of a oneof deletes the members other than the one named.\<close>

definition oneOfSetter :: "string list \<Rightarrow> js \<Rightarrow> props \<Rightarrow> props" where
  "oneOfSetter fieldNames name ps =
     filter (\<lambda>kv. \<not> list_ex (\<lambda>f. String (js_str f) \<noteq> name \<and> fst kv = js_str f) fieldNames) ps"

text \<open>Its getter names the last own member that is set.\<close>

definition oneOfGetter :: "string list \<Rightarrow> props \<Rightarrow> jstring option" where
  "oneOfGetter fieldNames ps =
     map_option fst (find (\<lambda>kv. list_ex (\<lambda>f. fst kv = js_str f) fieldNames \<and> \<not> nullish (snd kv)) (rev ps))"

text \<open>
  The constructor sets \<open>init\<close> and copies the properties that are not null; assigning to the name of
  a oneof runs its setter.
\<close>

type_synonym oneof = "(string \<times> string list) option"

fun copy_props :: "oneof \<Rightarrow> props \<Rightarrow> props \<Rightarrow> props res" where
  "copy_props oneof [] ps = ok ps"
| "copy_props oneof ((k, v) # kvs) ps =
     (if nullish v then copy_props oneof kvs ps
      else bindr
        (case oneof of
           None \<Rightarrow> assign k v ps
         | Some (name, fieldNames) \<Rightarrow>
             if k = js_str name then ok (oneOfSetter fieldNames v ps) else assign k v ps)
        (copy_props oneof kvs))"

definition construct :: "string \<Rightarrow> props \<Rightarrow> oneof \<Rightarrow> js \<Rightarrow> js res" where
  "construct C init oneof properties =
     bindr (if truthy properties then copy_props oneof (entries properties) init else ok init)
       (\<lambda>ps. ok (Object C ps))"

text \<open>\<open>typeUrlPrefix\<close> is a string or left out.\<close>

definition type_url :: "string \<Rightarrow> jstring option \<Rightarrow> jstring" where
  "type_url C typeUrlPrefix =
     (case typeUrlPrefix of None \<Rightarrow> js_str ''type.googleapis.com'' | Some p \<Rightarrow> p) @ js_str (''/tilbo.ipc.v1.'' @ C)"

section \<open>Checks\<close>

text \<open>A check ends with a complaint (\<open>Inl\<close>), or goes on, knowing whether a member of the oneof was set.\<close>

type_synonym check = "js \<Rightarrow> bool \<Rightarrow> (string + bool) res"

fun run_checks :: "check list \<Rightarrow> js \<Rightarrow> bool \<Rightarrow> string option res" where
  "run_checks [] message seen = ok None"
| "run_checks (c # cs) message seen =
     bindr (c message seen) (\<lambda>r. case r of Inl e \<Rightarrow> ok (Some e) | Inr seen \<Rightarrow> run_checks cs message seen)"

definition verify_with :: "check list \<Rightarrow> js \<Rightarrow> string option res" where
  "verify_with cs message =
     (if \<not> is_object message \<or> message = Null then ok (Some ''object expected'') else run_checks cs message False)"

definition v_field :: "string \<Rightarrow> (string \<Rightarrow> js \<Rightarrow> string option res) \<Rightarrow> check" where
  "v_field k f message seen =
     bindr (present message k) (\<lambda>p. case p of
       None \<Rightarrow> ok (Inr seen)
     | Some v \<Rightarrow> bindr (f k v) (\<lambda>e. ok (case e of Some s \<Rightarrow> Inl s | None \<Rightarrow> Inr seen)))"

definition v_member :: "string \<Rightarrow> string \<Rightarrow> (string \<Rightarrow> js \<Rightarrow> string option res) \<Rightarrow> check" where
  "v_member oneof k f message seen =
     bindr (present message k) (\<lambda>p. case p of
       None \<Rightarrow> ok (Inr seen)
     | Some v \<Rightarrow>
         if seen then ok (Inl (oneof @ '': multiple values''))
         else bindr (f k v) (\<lambda>e. ok (case e of Some s \<Rightarrow> Inl s | None \<Rightarrow> Inr True)))"

definition expect :: "bool \<Rightarrow> string \<Rightarrow> string \<Rightarrow> string option res" where
  "expect b k what = ok (if b then None else Some (k @ '': '' @ what @ '' expected''))"

definition v_string :: "string \<Rightarrow> js \<Rightarrow> string option res" where
  "v_string k v = expect (is_string v) k ''string''"

definition v_bool :: "string \<Rightarrow> js \<Rightarrow> string option res" where
  "v_bool k v = expect (is_boolean v) k ''boolean''"

definition v_integer :: "string \<Rightarrow> js \<Rightarrow> string option res" where
  "v_integer k v = expect (is_integer v) k ''integer''"

definition v_number :: "string \<Rightarrow> js \<Rightarrow> string option res" where
  "v_number k v = expect (is_number v) k ''number''"

definition v_long :: "string \<Rightarrow> js \<Rightarrow> string option res" where
  "v_long k v =
     (if is_integer v \<or> \<not> truthy v then expect (is_integer v) k ''integer|Long''
      else bindr (get_prop v ''low'') (\<lambda>l.
        if \<not> is_integer l then expect False k ''integer|Long''
        else bindr (get_prop v ''high'') (\<lambda>h. expect (is_integer h) k ''integer|Long'')))"

text \<open>\<open>===\<close> with an integer: the negative zero equals 0.\<close>

definition equals_int :: "js \<Rightarrow> int \<Rightarrow> bool" where
  "equals_int v n \<longleftrightarrow> v = int_js n \<or> n = 0 \<and> v = Number NegZero"

definition v_enum :: "(int \<times> string) list \<Rightarrow> string \<Rightarrow> js \<Rightarrow> string option res" where
  "v_enum values k v = expect (list_ex (\<lambda>x. equals_int v (fst x)) values) k ''enum value''"

definition v_strings :: "string \<Rightarrow> js \<Rightarrow> string option res" where
  "v_strings k v =
     (case v of Array xs \<Rightarrow> expect (list_all is_string xs) k ''string[]'' | _ \<Rightarrow> expect False k ''array'')"

definition v_map :: "string \<Rightarrow> js \<Rightarrow> string option res" where
  "v_map k v =
     (if truthy v \<and> is_object v
      then expect (list_all (\<lambda>kv. is_string (snd kv)) (entries v)) k ''string{k:string}''
      else expect False k ''object'')"

definition v_message :: "(js \<Rightarrow> string option res) \<Rightarrow> string \<Rightarrow> js \<Rightarrow> string option res" where
  "v_message verify k v = bindr (verify v) (\<lambda>e. ok (map_option (\<lambda>s. k @ ''.'' @ s) e))"

fun first_complaint :: "(js \<Rightarrow> string option res) \<Rightarrow> js list \<Rightarrow> string option res" where
  "first_complaint f [] = ok None"
| "first_complaint f (x # xs) =
     bindr (f x) (\<lambda>e. case e of Some s \<Rightarrow> ok (Some s) | None \<Rightarrow> first_complaint f xs)"

definition v_messages :: "(js \<Rightarrow> string option res) \<Rightarrow> string \<Rightarrow> js \<Rightarrow> string option res" where
  "v_messages verify k v =
     (case v of Array xs \<Rightarrow> first_complaint (v_message verify k) xs | _ \<Rightarrow> expect False k ''array'')"

section \<open>From plain objects\<close>

type_synonym setter = "js \<Rightarrow> props \<Rightarrow> props res"

fun build :: "setter list \<Rightarrow> setter" where
  "build [] object message = ok message"
| "build (s # ss) object message = bindr (s object message) (build ss object)"

text \<open>An instance of the class is returned as it is; \<open>init\<close> is what the constructor sets.\<close>

definition from_object :: "string \<Rightarrow> props \<Rightarrow> setter list \<Rightarrow> js \<Rightarrow> js res" where
  "from_object C init ss object =
     (if (case object of Object c ps \<Rightarrow> c = C | _ \<Rightarrow> False) then ok object
      else bindr (build ss object init) (\<lambda>ps. ok (Object C ps)))"

definition field_error :: "string \<Rightarrow> string \<Rightarrow> string \<Rightarrow> 'a res" where
  "field_error C k what = throw (TypeError (''.tilbo.ipc.v1.'' @ C @ ''.'' @ k @ '': '' @ what @ '' expected''))"

text \<open>
  \<open>if (object.f != null) message.f = conv(object.f)\<close>, where the conversion may also leave the field
  alone.
\<close>

definition f_opt :: "string \<Rightarrow> (js \<Rightarrow> js option res) \<Rightarrow> setter" where
  "f_opt k conv object message =
     bindr (get_prop object k) (\<lambda>v.
       if nullish v then ok message
       else bindr (conv v) (\<lambda>x. ok (case x of None \<Rightarrow> message | Some x \<Rightarrow> put k x message)))"

definition always_sets :: "(js \<Rightarrow> js res) \<Rightarrow> js \<Rightarrow> js option res" where
  "always_sets conv v = bindr (conv v) (\<lambda>x. ok (Some x))"

abbreviation f_field :: "string \<Rightarrow> (js \<Rightarrow> js res) \<Rightarrow> setter" where
  "f_field k conv \<equiv> f_opt k (always_sets conv)"

text \<open>\<open>if (object.f)\<close> for repeated and map fields\<close>

definition f_truthy :: "string \<Rightarrow> (js \<Rightarrow> js res) \<Rightarrow> setter" where
  "f_truthy k conv object message =
     bindr (get_prop object k) (\<lambda>v. if truthy v then bindr (conv v) (\<lambda>x. ok (put k x message)) else ok message)"

definition c_string :: "js \<Rightarrow> js res" where
  "c_string v = bindr (to_string v) (\<lambda>s. ok (String s))"

definition c_bool :: "js \<Rightarrow> js res" where
  "c_bool v = ok (Boolean (truthy v))"

definition c_uint32 :: "js \<Rightarrow> js res" where
  "c_uint32 v = bindr (to_u32 v) (\<lambda>w. ok (int_js (uint w)))"

definition c_number :: "js \<Rightarrow> js res" where
  "c_number v = bindr (to_number v) (\<lambda>n. ok (Number n))"

text \<open>\<open>new LongBits(v.low >>> 0, v.high >>> 0).toNumber(unsigned)\<close>\<close>

definition long_object :: "bool \<Rightarrow> js \<Rightarrow> js res" where
  "long_object uns v =
     bindr (get_prop v ''low'') (\<lambda>l. bindr (to_u32 l) (\<lambda>lo.
     bindr (get_prop v ''high'') (\<lambda>h. bindr (to_u32 h) (\<lambda>hi.
       ok (int_js (LongBits_toNumber uns \<lparr>lo = lo, hi = hi\<rparr>))))))"

text \<open>A 64-bit field without \<open>Long\<close>: strings are parsed, numbers kept, booleans ignored.\<close>

definition c_long :: "bool \<Rightarrow> js \<Rightarrow> js option res" where
  "c_long uns v =
     (case v of
        String s \<Rightarrow> ok (Some (Number (parse_int10 s)))
      | Number n \<Rightarrow> ok (Some v)
      | Boolean b \<Rightarrow> ok None
      | _ \<Rightarrow> always_sets (long_object uns) v)"

text \<open>
  The switch of an enum field: a name or a number of the enum, or any other number. The default case
  leaves the field alone for anything else, \<open>null\<close> and \<open>undefined\<close> included.
\<close>

definition c_enum :: "(int \<times> string) list \<Rightarrow> js \<Rightarrow> js option res" where
  "c_enum values v =
     ok (case find (\<lambda>x. v = String (js_str (snd x)) \<or> equals_int v (fst x)) values of
           Some x \<Rightarrow> Some (int_js (fst x))
         | None \<Rightarrow> if is_number v then Some v else None)"

definition c_message :: "string \<Rightarrow> string \<Rightarrow> (js \<Rightarrow> js res) \<Rightarrow> js \<Rightarrow> js res" where
  "c_message C k fromObject v = (if is_object v then fromObject v else field_error C k ''object'')"

definition c_array :: "string \<Rightarrow> string \<Rightarrow> (js \<Rightarrow> js res) \<Rightarrow> js \<Rightarrow> js res" where
  "c_array C k conv v =
     (case v of Array xs \<Rightarrow> bindr (map_all conv xs) (\<lambda>ys. ok (Array ys)) | _ \<Rightarrow> field_error C k ''array'')"

definition c_map :: "string \<Rightarrow> string \<Rightarrow> js \<Rightarrow> js res" where
  "c_map C k v =
     (if is_object v
      then bindr (map_all (\<lambda>kv. bindr (c_string (snd kv)) (\<lambda>s. ok (fst kv, s))) (entries v)) (\<lambda>kvs.
           bindr (assign_all kvs []) (\<lambda>ps. ok (plain ps)))
      else field_error C k ''object'')"

section \<open>To plain objects\<close>

datatype long_option = LongsAsIs | LongsString | LongsNumber

record to_options =
  to_arrays :: bool
  to_objects :: bool
  to_defaults :: bool
  to_oneofs :: bool
  to_json :: bool
  to_enums :: bool
  to_longs :: long_option

definition no_options :: to_options where
  "no_options = \<lparr>to_arrays = False, to_objects = False, to_defaults = False, to_oneofs = False,
     to_json = False, to_enums = False, to_longs = LongsAsIs\<rparr>"

definition toJSONOptions :: to_options where
  "toJSONOptions = \<lparr>to_arrays = False, to_objects = False, to_defaults = False, to_oneofs = False,
     to_json = True, to_enums = True, to_longs = LongsString\<rparr>"

type_synonym writer = "js \<Rightarrow> to_options \<Rightarrow> props \<Rightarrow> props res"

fun write_all :: "writer list \<Rightarrow> writer" where
  "write_all [] message opts object = ok object"
| "write_all (s # ss) message opts object = bindr (s message opts object) (write_all ss message opts)"

definition to_object :: "writer list \<Rightarrow> js \<Rightarrow> to_options option \<Rightarrow> js res" where
  "to_object ss message options =
     bindr (write_all ss message (case options of None \<Rightarrow> no_options | Some opts \<Rightarrow> opts) []) (\<lambda>ps. ok (plain ps))"

definition d_array :: "string \<Rightarrow> writer" where
  "d_array k message opts object = ok (if to_arrays opts \<or> to_defaults opts then put k (Array []) object else object)"

definition d_object :: "string \<Rightarrow> writer" where
  "d_object k message opts object = ok (if to_objects opts \<or> to_defaults opts then put k (plain []) object else object)"

definition d_value :: "string \<Rightarrow> js \<Rightarrow> writer" where
  "d_value k v message opts object = ok (if to_defaults opts then put k v object else object)"

definition d_long :: "string \<Rightarrow> writer" where
  "d_long k message opts object =
     ok (if to_defaults opts
         then put k (if to_longs opts = LongsString then String (js_str ''0'') else int_js 0) object else object)"

definition d_enum :: "(int \<times> string) list \<Rightarrow> string \<Rightarrow> writer" where
  "d_enum values k message opts object =
     ok (if to_defaults opts
         then put k (if to_enums opts then String (js_str (snd (hd values))) else int_js (fst (hd values))) object
         else object)"

definition t_field :: "string \<Rightarrow> (to_options \<Rightarrow> js \<Rightarrow> js res) \<Rightarrow> writer" where
  "t_field k conv message opts object =
     bindr (present message k) (\<lambda>p. case p of
       None \<Rightarrow> ok object
     | Some v \<Rightarrow> bindr (conv opts v) (\<lambda>x. ok (put k x object)))"

definition t_member :: "string \<Rightarrow> string \<Rightarrow> (to_options \<Rightarrow> js \<Rightarrow> js res) \<Rightarrow> writer" where
  "t_member oneof k conv message opts object =
     bindr (present message k) (\<lambda>p. case p of
       None \<Rightarrow> ok object
     | Some v \<Rightarrow> bindr (conv opts v) (\<lambda>x.
         ok (if to_oneofs opts then put oneof (String (js_str k)) (put k x object) else put k x object)))"

definition t_same :: "to_options \<Rightarrow> js \<Rightarrow> js res" where
  "t_same opts v = ok v"

definition t_number :: "to_options \<Rightarrow> js \<Rightarrow> js res" where
  "t_number opts v =
     (if to_json opts then bindr (to_number v) (\<lambda>n. if is_finite n then ok v else c_string v) else ok v)"

text \<open>Without \<open>Long\<close>, printing anything but a number calls a method of \<open>null\<close>.\<close>

definition t_long :: "bool \<Rightarrow> to_options \<Rightarrow> js \<Rightarrow> js res" where
  "t_long uns opts v =
     (if is_number v then if to_longs opts = LongsString then c_string v else ok v
      else case to_longs opts of
        LongsString \<Rightarrow> throw (TypeError [])
      | LongsNumber \<Rightarrow> long_object uns v
      | LongsAsIs \<Rightarrow> ok v)"

text \<open>
  An enum is an object from names to numbers whose prototype maps the numbers to names.
\<close>

definition enum_lookup :: "(int \<times> string) list \<Rightarrow> jstring \<Rightarrow> js option" where
  "enum_lookup values key =
     (case find (\<lambda>x. js_str (snd x) = key) values of
        Some x \<Rightarrow> Some (int_js (fst x))
      | None \<Rightarrow> map_option (\<lambda>x. String (js_str (snd x)))
          (find (\<lambda>x. number_to_string (Fin (of_int (fst x))) = key) values))"

definition t_enum :: "(int \<times> string) list \<Rightarrow> to_options \<Rightarrow> js \<Rightarrow> js res" where
  "t_enum values opts v =
     (if to_enums opts
      then bindr (to_string v) (\<lambda>key. ok (case enum_lookup values key of None \<Rightarrow> v | Some x \<Rightarrow> x))
      else ok v)"

definition t_message :: "(js \<Rightarrow> to_options option \<Rightarrow> js res) \<Rightarrow> to_options \<Rightarrow> js \<Rightarrow> js res" where
  "t_message toObject opts v = toObject v (Some opts)"

text \<open>
  \<open>v.length\<close> and the elements up to it; a message from elsewhere may hold any object with a length.
\<close>

definition elements :: "js \<Rightarrow> js list res" where
  "elements v =
     (case v of
        Array xs \<Rightarrow> ok xs
      | String s \<Rightarrow> ok (map (\<lambda>c. String [c]) s)
      | Object c ps \<Rightarrow>
          bindr (get_prop v ''length'') (\<lambda>l. bindr (to_number l) (\<lambda>n.
            case n of
              Fin r \<Rightarrow> ok (map (\<lambda>i. case map_of ps (dec_string i) of None \<Rightarrow> Undefined | Some x \<Rightarrow> x) [0..<nat \<lceil>r\<rceil>])
            | Infinity s \<Rightarrow> if s then ok [] else None
            | _ \<Rightarrow> ok []))
      | _ \<Rightarrow> ok [])"

definition t_list :: "string \<Rightarrow> (to_options \<Rightarrow> js \<Rightarrow> js res) \<Rightarrow> writer" where
  "t_list k conv message opts object =
     bindr (get_prop message k) (\<lambda>v.
       if \<not> truthy v then ok object
       else bindr (get_prop v ''length'') (\<lambda>l.
         if \<not> truthy l then ok object
         else bindr (elements v) (\<lambda>xs. bindr (map_all (conv opts) xs) (\<lambda>ys. ok (put k (Array ys) object)))))"

definition t_map :: "string \<Rightarrow> writer" where
  "t_map k message opts object =
     bindr (get_prop message k) (\<lambda>v.
       if \<not> truthy v \<or> entries v = [] then ok object
       else bindr (assign_all (entries v) []) (\<lambda>ps. ok (put k (plain ps) object)))"

end
