(* ===== verification/PlainLaws.thy ===== *)
theory PlainLaws
  imports Plain
begin

text \<open>
  The proofs about plain objects, once for all classes. \<open>value_plain\<close> is the interface of a type of
  fields: how a value sits in a message (\<open>js_of\<close>), passes the check of \<open>verify\<close>, becomes a plain
  value and comes back. \<open>item_plain\<close> adds what a repeated field needs. \<open>message_plain\<close> is the
  interface of a class, which is an \<open>item_plain\<close> again wherever it is a field of another class.

  Statements are related to what they do to the properties by name: \<open>yields\<close> for those of
  \<open>toObject\<close>, and rules that run one check of \<open>verify\<close> or one statement of \<open>fromObject\<close>.
  \<open>guards\<close> says that \<open>fromObject\<close> cannot throw on a plain object \<open>verify\<close> has accepted.
\<close>

section \<open>Properties by name\<close>

definition lookup :: "props \<Rightarrow> string \<Rightarrow> js option" where
  "lookup ps k = map_of ps (js_str k)"

text \<open>A key that is neither an array index nor \<open>__proto__\<close>.\<close>

definition plain_key :: "string \<Rightarrow> bool" where
  "plain_key k \<longleftrightarrow> k \<noteq> [] \<and> \<not> is_digit (of_char (hd k)) \<and> hd k \<noteq> CHR ''_''"

lemmas plain_keys = plain_key_def is_digit_def

lemma plain_key_index: "plain_key k \<Longrightarrow> array_index (js_str k) = None"
  by (cases k) (auto simp: plain_key_def array_index_def js_str_def is_digit_def)

lemma plain_key_proto: "plain_key k \<Longrightarrow> js_str k \<noteq> proto_key"
proof -
  have e: "proto_key = js_str ''__proto__''" by (simp add: proto_key_def js_str_def)
  have "js_str k = proto_key \<longleftrightarrow> k = ''__proto__''" unfolding e by (rule js_str_eq)
  then show "plain_key k \<Longrightarrow> js_str k \<noteq> proto_key" by (auto simp: plain_key_def)
qed

definition keys :: "props \<Rightarrow> jstring set" where
  "keys ps = fst ` set ps"

definition set_key :: "string \<Rightarrow> js \<Rightarrow> props \<Rightarrow> props" where
  "set_key k v ps = map (\<lambda>x. if fst x = js_str k then (js_str k, v) else x) ps"

definition opt_prop :: "string \<Rightarrow> ('a \<Rightarrow> js) \<Rightarrow> 'a option \<Rightarrow> props" where
  "opt_prop k f x = (case x of None \<Rightarrow> [] | Some v \<Rightarrow> [(js_str k, f v)])"

lemma keys_simps [simp]:
  "keys [] = {}"
  "keys (kv # ps) = insert (fst kv) (keys ps)"
  "keys (ps @ qs) = keys ps \<union> keys qs"
  by (auto simp: keys_def)

lemma keys_set_key [simp]: "keys (set_key k v ps) = keys ps"
  by (induction ps) (auto simp: keys_def set_key_def)

lemma keys_opt [simp]: "j \<in> keys (opt_prop k f x) \<longleftrightarrow> x \<noteq> None \<and> j = js_str k"
  by (simp add: opt_prop_def split: option.split)

lemma set_key_simps [simp]:
  "set_key k v [] = []"
  "set_key k v ((js_str j, w) # ps) = (js_str j, if j = k then v else w) # set_key k v ps"
  "set_key k v (ps @ qs) = set_key k v ps @ set_key k v qs"
  by (simp_all add: set_key_def)

lemma set_key_opt [simp]: "j \<noteq> k \<Longrightarrow> set_key k v (opt_prop j f x) = opt_prop j f x"
  by (simp add: opt_prop_def split: option.split)

lemma lookup_simps [simp]:
  "lookup [] = (\<lambda>k. None)"
  "lookup ((js_str j, v) # ps) k = (if k = j then Some v else lookup ps k)"
  by (auto simp: lookup_def fun_eq_iff)

lemma lookup_opt [simp]:
  "lookup (opt_prop k f x) k = map_option f x"
  "k \<noteq> j \<Longrightarrow> lookup (opt_prop j f x) k = None"
  "lookup qs k = None \<Longrightarrow> lookup (opt_prop k f x @ qs) k = map_option f x"
  "k \<noteq> j \<Longrightarrow> lookup (opt_prop j f x @ qs) k = lookup qs k"
  by (simp_all add: opt_prop_def lookup_def split: option.split)

lemma put_new: "plain_key k \<Longrightarrow> js_str k \<notin> keys ps \<Longrightarrow> put k v ps = ps @ [(js_str k, v)]"
  by (simp add: put_def js_put_def plain_key_index plain_key_proto keys_def)

lemma put_old: "plain_key k \<Longrightarrow> js_str k \<in> keys ps \<Longrightarrow> put k v ps = set_key k v ps"
  by (simp add: put_def js_put_def plain_key_proto keys_def set_key_def)

lemma lookup_set_key: "js_str k \<in> keys ps \<Longrightarrow> lookup (set_key k v ps) = (lookup ps)(k \<mapsto> v)"
proof (rule ext)
  fix j
  have other: "j \<noteq> k \<Longrightarrow> lookup (set_key k v ps) j = lookup ps j"
    by (induction ps) (auto simp: lookup_def set_key_def)
  have same: "js_str k \<in> keys ps \<Longrightarrow> lookup (set_key k v ps) k = Some v"
    by (induction ps) (auto simp: lookup_def set_key_def)
  assume "js_str k \<in> keys ps"
  then show "lookup (set_key k v ps) j = ((lookup ps)(k \<mapsto> v)) j"
    using other same by simp
qed

lemma lookup_put: "plain_key k \<Longrightarrow> lookup (put k v ps) = (lookup ps)(k \<mapsto> v)"
proof (cases "js_str k \<in> keys ps")
  case False
  then have "lookup ps k = None" by (simp add: lookup_def map_of_eq_None_iff keys_def)
  then show "plain_key k \<Longrightarrow> ?thesis"
    using False by (auto simp: put_new fun_eq_iff lookup_def map_add_def split: option.split)
qed (simp add: put_old lookup_set_key)

section \<open>Reading fields\<close>

text \<open>Values as \<open>JSON.parse\<close> makes them: no instance of a class anywhere inside.\<close>

fun all_plain :: "js \<Rightarrow> bool" where
  "all_plain (Array xs) = (\<forall>x \<in> set xs. all_plain x)"
| "all_plain (Object c ps) = (c = ''Object'' \<and> (\<forall>kv \<in> set ps. all_plain (snd kv)))"
| "all_plain Undefined = True"
| "all_plain Null = True"
| "all_plain (Boolean b) = True"
| "all_plain (Number n) = True"
| "all_plain (String s) = True"

lemma own_Object [simp]: "own (Object c ps) k = lookup ps k"
  by (simp add: own_def lookup_def)

lemma get_prop_own: "lookup ps k = Some v \<Longrightarrow> get_prop (Object c ps) k = ok v"
  by (simp add: get_prop_def lookup_def)

lemma get_prop_plain: "get_prop (plain ps) k = ok (case lookup ps k of None \<Rightarrow> Undefined | Some v \<Rightarrow> v)"
  by (simp add: get_prop_def lookup_def split: option.split)

definition shadows :: "props \<Rightarrow> bool" where
  "shadows ps \<longleftrightarrow> lookup ps ''hasOwnProperty'' \<noteq> None"

lemma present_own:
  assumes "\<not> shadows ps"
  shows "present (Object c ps) k =
    ok (case lookup ps k of None \<Rightarrow> None | Some v \<Rightarrow> if nullish v then None else Some v)"
proof (cases "lookup ps k")
  case None
  obtain v where "get_prop (Object c ps) k = ok v"
    using None by (simp add: get_prop_def lookup_def split: option.split)
  then show ?thesis using None assms by (simp add: present_def has_own_def shadows_def)
next
  case (Some v)
  then show ?thesis using assms by (simp add: present_def get_prop_own has_own_def shadows_def)
qed

text \<open>What a plain object holds under a name, as \<open>fromObject\<close> and \<open>verify\<close> see it.\<close>

lemma plain_object_cases:
  assumes "all_plain v" "is_object v" "v \<noteq> Null"
  obtains xs where "v = Array xs" "\<forall>x \<in> set xs. all_plain x"
  | ps where "v = plain ps" "\<forall>kv \<in> set ps. all_plain (snd kv)"
  using assms by (cases v) (auto simp: is_object_def)

lemma lookup_all_plain: "\<forall>kv \<in> set ps. all_plain (snd kv) \<Longrightarrow> lookup ps k = Some v \<Longrightarrow> all_plain v"
  unfolding lookup_def by (drule map_of_SomeD) force

section \<open>Statements\<close>

text \<open>\<open>g\<close> is what a statement of \<open>toObject\<close> does to the properties by name.\<close>

definition yields :: "writer \<Rightarrow> js \<Rightarrow> to_options \<Rightarrow> ((string \<Rightarrow> js option) \<Rightarrow> string \<Rightarrow> js option) \<Rightarrow> bool" where
  "yields s message opts g \<longleftrightarrow> (\<forall>ps. \<exists>ps'. s message opts ps = ok ps' \<and> lookup ps' = g (lookup ps))"

definition all_yield ::
  "writer list \<Rightarrow> js \<Rightarrow> to_options \<Rightarrow> ((string \<Rightarrow> js option) \<Rightarrow> string \<Rightarrow> js option) \<Rightarrow> bool" where
  "all_yield ss message opts g \<longleftrightarrow> (\<forall>ps. \<exists>ps'. write_all ss message opts ps = ok ps' \<and> lookup ps' = g (lookup ps))"

text \<open>
  The ways a statement changes a property: to the value of a field that is set, to the elements of a
  list that is not empty, to a default an option asks for.
\<close>

definition over :: "js option \<Rightarrow> js option \<Rightarrow> js option" where
  "over new old = (case new of None \<Rightarrow> old | Some v \<Rightarrow> Some v)"

definition unless_empty :: "'a list \<Rightarrow> js \<Rightarrow> js option \<Rightarrow> js option" where
  "unless_empty xs v old = (if xs = [] then old else Some v)"

definition asked :: "bool \<Rightarrow> js \<Rightarrow> js option \<Rightarrow> js option" where
  "asked b v old = (if b then Some v else old)"

definition change :: "string \<Rightarrow> (js option \<Rightarrow> js option) \<Rightarrow> (string \<Rightarrow> js option) \<Rightarrow> string \<Rightarrow> js option" where
  "change k f l = l(k := f (l k))"

lemma change_simps [simp]:
  "change k f l k = f (l k)"
  "j \<noteq> k \<Longrightarrow> change k f l j = l j"
  by (simp_all add: change_def)

lemma over_None [simp]: "over x None = x"
  by (simp add: over_def split: option.split)

lemma all_yield_Nil: "all_yield [] message opts (\<lambda>l. l)"
  by (simp add: all_yield_def)

lemma all_yield_Cons:
  "all_yield ss message opts h \<Longrightarrow> yields s message opts g \<Longrightarrow> all_yield (s # ss) message opts (\<lambda>l. h (g l))"
  unfolding all_yield_def yields_def by simp (metis bindr_simps(3))

lemma all_yield_object:
  assumes "all_yield ss message opts g"
  shows "\<exists>ps. to_object ss message (Some opts) = ok (plain ps) \<and> lookup ps = g (\<lambda>k. None)"
proof -
  obtain ps where "write_all ss message opts [] = ok ps" "lookup ps = g (lookup [])"
    using assms unfolding all_yield_def by blast
  then show ?thesis by (simp add: to_object_def)
qed

lemma round_trip:
  assumes "C \<noteq> ''Object''" "all_yield ss message opts g"
    and "\<And>ps. (\<And>k. lookup ps k = g (\<lambda>k. None) k) \<Longrightarrow> build fs (plain ps) init = ok props"
  shows "\<exists>ps. to_object ss message (Some opts) = ok (plain ps) \<and> from_object C init fs (plain ps) = ok (Object C props)"
  using all_yield_object [OF assms(2)] assms(1,3) by (auto simp: from_object_def)

lemma plain_fields:
  assumes "all_yield ss message opts g"
    and "\<And>ps. (\<And>k. lookup ps k = g (\<lambda>k. None) k) \<Longrightarrow> P ps"
  shows "\<exists>ps. to_object ss message (Some opts) = ok (plain ps) \<and> P ps"
  using all_yield_object [OF assms(1)] assms(2) by auto

lemma yields_array: "plain_key k \<Longrightarrow> \<not> to_defaults opts \<Longrightarrow>
    yields (d_array k) message opts (change k (asked (to_arrays opts) (Array [])))"
  by (simp add: yields_def d_array_def lookup_put asked_def fun_upd_idem change_def)

lemma yields_object: "plain_key k \<Longrightarrow> \<not> to_defaults opts \<Longrightarrow>
    yields (d_object k) message opts (change k (asked (to_objects opts) (plain [])))"
  by (simp add: yields_def d_object_def lookup_put asked_def fun_upd_idem change_def)

lemma yields_default:
  "\<not> to_defaults opts \<Longrightarrow> yields (d_value k v) message opts (\<lambda>l. l)"
  "\<not> to_defaults opts \<Longrightarrow> yields (d_long k) message opts (\<lambda>l. l)"
  "\<not> to_defaults opts \<Longrightarrow> yields (d_enum values k) message opts (\<lambda>l. l)"
  by (simp_all add: yields_def d_value_def d_long_def d_enum_def)

text \<open>
  \<open>runs members cs\<close>: the checks accept, provided at most one member of the oneof is set.
\<close>

fun at_most_one :: "bool \<Rightarrow> bool list \<Rightarrow> bool" where
  "at_most_one seen [] = True"
| "at_most_one seen (p # ps) = (\<not> (seen \<and> p) \<and> at_most_one (seen \<or> p) ps)"

definition runs :: "bool list \<Rightarrow> check list \<Rightarrow> js \<Rightarrow> bool \<Rightarrow> bool" where
  "runs members cs message seen \<longleftrightarrow> (at_most_one seen members \<longrightarrow> run_checks cs message seen = ok None)"

lemma runs_Nil: "runs members [] message seen"
  by (simp add: runs_def)

lemma runs_verify:
  assumes "runs members cs (Object c ps) False" "at_most_one False members"
  shows "verify_with cs (Object c ps) = ok None"
  using assms by (simp add: runs_def verify_with_def is_object_def)

text \<open>
  \<open>guards cs ss\<close>: on a plain object the checks \<open>cs\<close> accept, the statements \<open>ss\<close> do not throw.
\<close>

definition guards :: "check list \<Rightarrow> setter list \<Rightarrow> bool" where
  "guards cs ss \<longleftrightarrow>
     (\<forall>v seen ps. all_plain v \<longrightarrow> is_object v \<longrightarrow> v \<noteq> Null \<longrightarrow> run_checks cs v seen = ok None \<longrightarrow>
        (\<exists>ps'. build ss v ps = ok ps'))"

definition guard :: "check \<Rightarrow> setter \<Rightarrow> bool" where
  "guard c s \<longleftrightarrow>
     (\<forall>v seen seen' ps. all_plain v \<longrightarrow> is_object v \<longrightarrow> v \<noteq> Null \<longrightarrow> c v seen = ok (Inr seen') \<longrightarrow>
        (\<exists>ps'. s v ps = ok ps'))"

lemma guards_Nil: "guards [] []"
  by (simp add: guards_def)

lemma guards_Cons:
  assumes "guards cs ss" "guard c s"
  shows "guards (c # cs) (s # ss)"
  unfolding guards_def
proof (intro allI impI)
  fix v seen ps
  assume v: "all_plain v" "is_object v" "v \<noteq> Null" and r: "run_checks (c # cs) v seen = ok None"
  from r obtain seen' where c: "c v seen = ok (Inr seen')" "run_checks cs v seen' = ok None"
    by (auto simp: bindr_eq_ok split: sum.splits) (metis sum.exhaust)
  then obtain ps' where "s v ps = ok ps'" using assms(2) v unfolding guard_def by blast
  moreover obtain ps'' where "build ss v ps' = ok ps''" using assms(1) v c(2) unfolding guards_def by blast
  ultimately show "\<exists>ps'. build (s # ss) v ps = ok ps'" by simp
qed

lemma verified_object: "verify_with cs v = ok None \<Longrightarrow> is_object v"
  by (auto simp: verify_with_def split: if_splits)

lemma guards_object:
  assumes "guards cs ss" "all_plain v" "verify_with cs v = ok None" "C \<noteq> ''Object''"
  shows "\<exists>x. from_object C init ss v = ok x"
proof -
  have v: "is_object v" "v \<noteq> Null" "run_checks cs v False = ok None"
    using assms(3) by (auto simp: verify_with_def split: if_splits)
  then obtain ps where "build ss v init = ok ps" using assms unfolding guards_def by blast
  then show ?thesis using assms(2,4) by (cases v) (auto simp: from_object_def)
qed

text \<open>An accepting check has seen the value its statement converts.\<close>

definition accepted :: "js \<Rightarrow> string \<Rightarrow> (js \<Rightarrow> bool) \<Rightarrow> bool" where
  "accepted v k P \<longleftrightarrow>
     (\<exists>x. get_prop v k = ok x \<and> (nullish x \<or> all_plain x \<and> P x))"

lemma accepted_field:
  assumes v: "all_plain v" "is_object v" "v \<noteq> Null" and k: "k \<noteq> ''length''"
    and c: "v_field k f v seen = ok (Inr seen') \<or> v_member oneof k f v seen = ok (Inr seen')"
  shows "accepted v k (\<lambda>x. f k x = ok None)"
  using v
proof (cases rule: plain_object_cases)
  case (1 xs)
  then show ?thesis using k by (simp add: accepted_def get_prop_def nullish_def)
next
  case (2 ps)
  show ?thesis
  proof (cases "lookup ps k")
    case None
    then show ?thesis using 2 by (simp add: accepted_def get_prop_plain nullish_def)
  next
    case (Some x)
    have g: "get_prop v k = ok x" using 2 Some by (simp add: get_prop_plain)
    have p: "all_plain x" using 2 Some by (rule_tac lookup_all_plain) auto
    have "f k x = ok None" if n: "\<not> nullish x"
    proof -
      have "present v k = (if shadows ps then throw (TypeError []) else ok (Some x))"
        using 2 Some g n by (simp add: present_def has_own_def shadows_def)
      then show ?thesis
        using c by (auto simp: v_field_def v_member_def bindr_eq_ok split: if_splits option.splits)
    qed
    then show ?thesis using g p by (auto simp: accepted_def)
  qed
qed

section \<open>Types of fields\<close>

definition opt_all :: "('a \<Rightarrow> bool) \<Rightarrow> 'a option \<Rightarrow> bool" where
  "opt_all P x = (case x of None \<Rightarrow> True | Some v \<Rightarrow> P v)"

lemma opt_all_simps [simp]: "opt_all P None" "opt_all P (Some v) = P v" "opt_all (\<lambda>v. True) x"
  by (simp_all add: opt_all_def split: option.split)

text \<open>Statements that append the properties \<open>R\<close> to an object that has none of the names \<open>K\<close>.\<close>

definition appends :: "setter list \<Rightarrow> props \<Rightarrow> string list \<Rightarrow> props \<Rightarrow> bool" where
  "appends ss ps K R \<longleftrightarrow>
     (\<forall>acc. (\<forall>j \<in> set K. js_str j \<notin> keys acc) \<longrightarrow> build ss (plain ps) acc = ok (acc @ R))"

lemma appends_Nil: "appends [] ps [] []"
  by (simp add: appends_def)

lemma appends_build: "appends ss ps K R \<Longrightarrow> R = props \<Longrightarrow> build ss (plain ps) [] = ok props"
  by (simp add: appends_def)

locale value_plain =
  fixes js_of :: "'a \<Rightarrow> js"
    and check :: "string \<Rightarrow> js \<Rightarrow> string option res"
    and conv :: "js \<Rightarrow> js option res"
    and plainly :: "to_options \<Rightarrow> js \<Rightarrow> js res"
    and good :: "'a \<Rightarrow> bool"
  assumes not_null: "\<not> nullish (js_of v)"
    and checks: "good v \<Longrightarrow> check k (js_of v) = ok None"
    and returns: "good v \<Longrightarrow> \<not> to_defaults opts \<Longrightarrow>
      \<exists>p. plainly opts (js_of v) = ok p \<and> \<not> nullish p \<and> conv p = ok (Some (js_of v))"
    and safe: "check k x = ok None \<Longrightarrow> all_plain x \<Longrightarrow> \<exists>y. conv x = ok y"
begin

text \<open>The plain form of a value.\<close>

definition out :: "to_options \<Rightarrow> 'a \<Rightarrow> js" where
  "out opts v = (case plainly opts (js_of v) of Some (Inr p) \<Rightarrow> p | _ \<Rightarrow> Null)"

lemma out_facts:
  assumes "good v" "\<not> to_defaults opts"
  shows "plainly opts (js_of v) = ok (out opts v)" "\<not> nullish (out opts v)"
    "conv (out opts v) = ok (Some (js_of v))"
  using returns [OF assms] by (auto simp: out_def)

lemma present_opt:
  "\<not> shadows ps \<Longrightarrow> lookup ps k = None \<Longrightarrow> present (Object c ps) k = ok None"
  "\<not> shadows ps \<Longrightarrow> lookup ps k = Some (js_of v) \<Longrightarrow> present (Object c ps) k = ok (Some (js_of v))"
  by (simp_all add: present_own not_null)

lemma runs_opt:
  assumes "runs members cs (Object c ps) seen"
    and "\<not> shadows ps" "lookup ps k = map_option js_of x" "opt_all good x"
  shows "runs members (v_field k check # cs) (Object c ps) seen"
  using assms by (cases x) (simp_all add: runs_def v_field_def present_opt checks)

lemma runs_member:
  assumes "runs members cs (Object c ps) (seen \<or> x \<noteq> None)"
    and "\<not> shadows ps" "lookup ps k = map_option js_of x" "opt_all good x"
  shows "runs ((x \<noteq> None) # members) (v_member oneof k check # cs) (Object c ps) seen"
  using assms by (cases x) (simp_all add: runs_def v_member_def present_opt checks)

lemma yields_opt:
  assumes "\<not> shadows ps" "lookup ps k = map_option js_of x" "opt_all good x" "\<not> to_defaults opts"
    and "plain_key k"
  shows "yields (t_field k plainly) (Object c ps) opts
    (change k (over (map_option (out opts) x)))"
  using assms by (cases x) (simp_all add: yields_def t_field_def present_opt out_facts lookup_put over_def change_def)

lemma yields_member:
  assumes "\<not> shadows ps" "lookup ps k = map_option js_of x" "opt_all good x" "\<not> to_defaults opts"
    and "plain_key k" "plain_key oneof"
  shows "yields (t_member oneof k plainly) (Object c ps) opts
    (\<lambda>l. change oneof (asked (to_oneofs opts \<and> x \<noteq> None) (String (js_str k)))
           (change k (over (map_option (out opts) x)) l))"
  using assms
  by (cases x) (auto simp: yields_def t_member_def present_opt out_facts lookup_put over_def asked_def change_def fun_eq_iff)

lemma build_opt:
  assumes "build ss (plain ps) (acc @ opt_prop k js_of x) = r"
    and "lookup ps k = map_option (out opts) x" "opt_all good x" "\<not> to_defaults opts"
    and "plain_key k" "js_str k \<notin> keys acc"
  shows "build (f_opt k conv # ss) (plain ps) acc = r"
  using assms
  by (cases x) (auto simp: f_opt_def get_prop_plain nullish_def out_facts put_new opt_prop_def
    dest: out_facts(2))

lemma appends_opt:
  assumes "appends ss ps K R" "lookup ps k = map_option (out opts) x" "opt_all good x" "\<not> to_defaults opts"
    and "plain_key k" "k \<notin> set K"
  shows "appends (f_opt k conv # ss) ps (k # K) (opt_prop k js_of x @ R)"
proof -
  have "build (f_opt k conv # ss) (plain ps) acc = ok (acc @ opt_prop k js_of x @ R)"
    if a: "\<forall>j \<in> set (k # K). js_str j \<notin> keys acc" for acc
  proof (rule build_opt [OF _ assms(2-5)])
    have "\<forall>j \<in> set K. js_str j \<notin> keys (acc @ opt_prop k js_of x)" using a assms(6) by auto
    then show "build ss (plain ps) (acc @ opt_prop k js_of x) = ok (acc @ opt_prop k js_of x @ R)"
      using assms(1) unfolding appends_def by simp
  qed (use a in simp)
  then show ?thesis unfolding appends_def by blast
qed

lemma guard_opt:
  assumes "k \<noteq> ''length''"
  shows "guard (v_field k check) (f_opt k conv)" "guard (v_member oneof k check) (f_opt k conv)"
proof -
  have "\<exists>ps'. f_opt k conv v ps = ok ps'" if a: "accepted v k (\<lambda>x. check k x = ok None)" for v ps
  proof -
    obtain x where x: "get_prop v k = ok x" "nullish x \<or> all_plain x \<and> check k x = ok None"
      using a unfolding accepted_def by blast
    then have "nullish x \<or> (\<exists>y. conv x = ok y)" using safe by blast
    then show ?thesis using x(1) by (auto simp: f_opt_def)
  qed
  then show "guard (v_field k check) (f_opt k conv)" "guard (v_member oneof k check) (f_opt k conv)"
    using accepted_field [OF _ _ _ assms] unfolding guard_def by metis+
qed

end

text \<open>A type that may be repeated, with the check of the whole array.\<close>

locale item_plain = value_plain js_of check "always_sets conv" plainly good
  for js_of :: "'a \<Rightarrow> js"
    and check :: "string \<Rightarrow> js \<Rightarrow> string option res"
    and conv :: "js \<Rightarrow> js res"
    and plainly :: "to_options \<Rightarrow> js \<Rightarrow> js res"
    and good :: "'a \<Rightarrow> bool" +
  fixes check_all :: "string \<Rightarrow> js \<Rightarrow> string option res"
  assumes all_checks: "list_all good vs \<Longrightarrow> check_all k (Array (map js_of vs)) = ok None"
    and all_safe: "check_all k x = ok None \<Longrightarrow> \<exists>xs. x = Array xs \<and> (\<forall>y \<in> set xs. check k y = ok None)"
begin

lemma conv_out: "good v \<Longrightarrow> \<not> to_defaults opts \<Longrightarrow> conv (out opts v) = ok (js_of v)"
  using out_facts(3) [of v opts] by (auto simp: always_sets_def bindr_eq_ok)

lemma conv_safe: "check k x = ok None \<Longrightarrow> all_plain x \<Longrightarrow> \<exists>y. conv x = ok y"
  using safe [of k x] by (auto simp: always_sets_def bindr_eq_ok)

lemma runs_list:
  assumes "runs members cs (Object c ps) seen"
    and "\<not> shadows ps" "lookup ps k = Some (Array (map js_of xs))" "list_all good xs"
  shows "runs members (v_field k check_all # cs) (Object c ps) seen"
  using assms by (simp add: runs_def v_field_def present_own nullish_def all_checks)

lemma map_all_out:
  "list_all good xs \<Longrightarrow> \<not> to_defaults opts \<Longrightarrow> map_all (plainly opts) (map js_of xs) = ok (map (out opts) xs)"
  by (induction xs) (simp_all add: out_facts)

lemma map_all_conv:
  "list_all good xs \<Longrightarrow> \<not> to_defaults opts \<Longrightarrow> map_all conv (map (out opts) xs) = ok (map js_of xs)"
  by (induction xs) (simp_all add: conv_out)

lemma yields_list:
  assumes "lookup ps k = Some (Array (map js_of xs))" "list_all good xs" "\<not> to_defaults opts" "plain_key k"
  shows "yields (t_list k plainly) (Object c ps) opts
    (change k (unless_empty xs (Array (map (out opts) xs))))"
  unfolding yields_def t_list_def get_prop_own [OF assms(1)]
  using assms map_all_out [of xs opts] by (simp add: get_prop_def elements_def lookup_put unless_empty_def change_def)

lemma build_list:
  assumes "build ss (plain ps) (set_key k (Array (map js_of xs)) acc) = r"
    and "lookup ps k =
      unless_empty xs (Array (map (out opts) xs)) (asked (to_arrays opts) (Array []) None)"
    and "list_all good xs" "\<not> to_defaults opts" "plain_key k" "js_str k \<in> keys acc"
    and "set_key k (Array []) acc = acc"
  shows "build (f_truthy k (c_array C k conv) # ss) (plain ps) acc = r"
  using assms map_all_conv [of xs opts]
  by (auto simp: f_truthy_def get_prop_plain c_array_def put_old unless_empty_def asked_def split: if_splits)

lemma guard_list:
  assumes "k \<noteq> ''length''"
  shows "guard (v_field k check_all) (f_truthy k (c_array C k conv))"
proof -
  have "\<exists>ps'. f_truthy k (c_array C k conv) v ps = ok ps'"
    if a: "accepted v k (\<lambda>x. check_all k x = ok None)" for v ps
  proof -
    obtain x where x: "get_prop v k = ok x" "nullish x \<or> all_plain x \<and> check_all k x = ok None"
      using a unfolding accepted_def by blast
    have "\<not> truthy x \<or> (\<exists>y. c_array C k conv x = ok y)"
    proof (cases "nullish x")
      case False
      then obtain xs where xs: "x = Array xs" "\<forall>y \<in> set xs. all_plain y \<and> check k y = ok None"
        using x(2) all_safe [of k x] by auto
      then have "\<forall>y \<in> set xs. \<exists>z. conv y = ok z" using conv_safe by blast
      then have "\<exists>zs. map_all conv xs = ok zs" by (induction xs) auto
      then show ?thesis using xs by (auto simp: c_array_def)
    qed (auto simp: nullish_def)
    then show ?thesis using x(1) by (auto simp: f_truthy_def)
  qed
  then show ?thesis using accepted_field [OF _ _ _ assms] unfolding guard_def by metis
qed

end

section \<open>Map fields\<close>

definition map_obj :: "(jstring \<times> jstring) list \<Rightarrow> js" where
  "map_obj kvs = plain (map (apsnd String) kvs)"

lemma insert_index_apsnd: "insert_index n (k, f v) (map (apsnd f) xs) = map (apsnd f) (insert_index n (k, v) xs)"
  by (induction xs) (auto split: option.split)

lemma js_put_apsnd: "js_put (k, f v) (map (apsnd f) xs) = map (apsnd f) (js_put (k, v) xs)"
  by (auto simp: js_put_def insert_index_apsnd image_image split: option.split)

lemma assign_strings:
  "assign_all (map (apsnd String) kvs) (map (apsnd String) ps) = ok (map (apsnd String) (fold js_put kvs ps))"
  by (induction kvs arbitrary: ps) (auto simp: assign_def is_object_def js_put_apsnd)

lemma assign_js_object: "js_object kvs \<Longrightarrow> assign_all (map (apsnd String) kvs) [] = ok (map (apsnd String) kvs)"
  using assign_strings [of kvs "[]"] by (simp add: js_object_def)

lemma runs_map:
  assumes "runs members cs (Object c ps) seen" "\<not> shadows ps" "lookup ps k = Some (map_obj kvs)"
  shows "runs members (v_field k v_map # cs) (Object c ps) seen"
proof -
  have "v_map k (map_obj kvs) = ok None"
    by (auto simp: v_map_def map_obj_def is_object_def entries_def expect_def is_string_def list_all_iff)
  then show ?thesis using assms by (simp add: runs_def v_field_def present_own nullish_def map_obj_def)
qed

lemma yields_map:
  assumes "lookup ps k = Some (map_obj kvs)" "js_object kvs" "plain_key k"
  shows "yields (t_map k) (Object c ps) opts (change k (unless_empty kvs (map_obj kvs)))"
  unfolding yields_def t_map_def get_prop_own [OF assms(1)]
  using assms assign_js_object [of kvs] by (simp add: map_obj_def entries_def lookup_put unless_empty_def change_def)

lemma c_map_obj:
  assumes "js_object kvs"
  shows "c_map C k (map_obj kvs) = ok (map_obj kvs)"
proof -
  have "map_all (\<lambda>kv. bindr (c_string (snd kv)) (\<lambda>s. ok (fst kv, s))) (map (apsnd String) xs) =
      ok (map (apsnd String) xs)" for xs :: "(jstring \<times> jstring) list"
    by (induction xs) (auto simp: c_string_def)
  then show ?thesis
    using assign_js_object [OF assms] by (simp add: c_map_def map_obj_def is_object_def entries_def)
qed

lemma build_map:
  assumes "build ss (plain ps) (set_key k (map_obj kvs) acc) = r"
    and "lookup ps k = unless_empty kvs (map_obj kvs) (asked (to_objects opts) (plain []) None)"
    and "js_object kvs" "plain_key k" "js_str k \<in> keys acc"
    and "set_key k (plain []) acc = acc"
  shows "build (f_truthy k (c_map C k) # ss) (plain ps) acc = r"
proof -
  have c: "c_map C k (map_obj kvs) = ok (map_obj kvs)" by (rule c_map_obj [OF assms(3)])
  have e: "map_obj [] = plain []" by (simp add: map_obj_def)
  show ?thesis
  proof (cases "kvs = [] \<and> \<not> to_objects opts")
    case True
    then show ?thesis using assms by (simp add: f_truthy_def get_prop_plain e unless_empty_def asked_def)
  next
    case False
    then have "lookup ps k = Some (map_obj kvs)" using assms(2) e by (auto simp: unless_empty_def asked_def)
    moreover have "truthy (map_obj kvs)" by (simp add: map_obj_def)
    ultimately show ?thesis using assms(1,4-6) c by (simp add: f_truthy_def get_prop_plain put_old)
  qed
qed

lemma assign_all_strings: "\<forall>kv \<in> set kvs. is_string (snd kv) \<Longrightarrow> \<exists>ps'. assign_all kvs ps = ok ps'"
  by (induction kvs arbitrary: ps) (auto simp: assign_def is_string_def is_object_def split: js.splits)

lemma guard_map:
  assumes "k \<noteq> ''length''"
  shows "guard (v_field k v_map) (f_truthy k (c_map C k))"
proof -
  have "\<exists>ps'. f_truthy k (c_map C k) v ps = ok ps'" if a: "accepted v k (\<lambda>x. v_map k x = ok None)" for v ps
  proof -
    obtain x where x: "get_prop v k = ok x" "nullish x \<or> all_plain x \<and> v_map k x = ok None"
      using a unfolding accepted_def by blast
    have "\<not> truthy x \<or> (\<exists>y. c_map C k x = ok y)"
    proof (cases "nullish x")
      case False
      then have s: "is_object x" "\<forall>kv \<in> set (entries x). is_string (snd kv)"
        using x(2) by (auto simp: v_map_def expect_def list_all_iff split: if_splits)
      have "map_all (\<lambda>kv. bindr (c_string (snd kv)) (\<lambda>s. ok (fst kv, s))) kvs = ok kvs"
        if "\<forall>kv \<in> set kvs. is_string (snd kv)" for kvs :: props
        using that by (induction kvs) (auto simp: c_string_def is_string_def split: js.splits)
      then show ?thesis using s assign_all_strings [of "entries x" "[]"] by (auto simp: c_map_def)
    qed (auto simp: nullish_def)
    then show ?thesis using x(1) by (auto simp: f_truthy_def)
  qed
  then show ?thesis using accepted_field [OF _ _ _ assms] unfolding guard_def by metis
qed

section \<open>Classes\<close>

locale message_plain =
  fixes obj :: "'m \<Rightarrow> js"
    and verify :: "js \<Rightarrow> string option res"
    and fromObject :: "js \<Rightarrow> js res"
    and toObject :: "js \<Rightarrow> to_options option \<Rightarrow> js res"
    and good :: "'m \<Rightarrow> bool"
  assumes is_instance: "\<exists>C ps. obj m = Object C ps"
    and accepts: "good m \<Longrightarrow> verify (obj m) = ok None"
    and round: "good m \<Longrightarrow> \<not> to_defaults opts \<Longrightarrow>
      \<exists>ps. toObject (obj m) (Some opts) = ok (plain ps) \<and> fromObject (plain ps) = ok (obj m)"
    and verified: "verify x = ok None \<Longrightarrow> is_object x"
    and guarded: "verify x = ok None \<Longrightarrow> all_plain x \<Longrightarrow> \<exists>y. fromObject x = ok y"

sublocale message_plain \<subseteq> sub: item_plain obj "v_message verify" "c_message C k fromObject" "t_message toObject" good
    "v_messages verify" for C k
proof
  fix v vs k' opts x
  show "\<not> nullish (obj v)" using is_instance [of v] by (auto simp: nullish_def)
  show "v_message verify k' (obj v) = ok None" if "good v"
    using accepts [OF that] by (simp add: v_message_def)
  show "\<exists>p. t_message toObject opts (obj v) = ok p \<and> \<not> nullish p \<and>
      always_sets (c_message C k fromObject) p = ok (Some (obj v))" if "good v" "\<not> to_defaults opts"
    using round [OF that] by (auto simp: t_message_def nullish_def always_sets_def c_message_def is_object_def)
  show "\<exists>y. always_sets (c_message C k fromObject) x = ok y" if "v_message verify k' x = ok None" "all_plain x"
    using that verified [of x] guarded [of x]
    by (auto simp: v_message_def always_sets_def c_message_def bindr_eq_ok)
  show "v_messages verify k' (Array (map obj vs)) = ok None" if "list_all good vs"
    using that by (induction vs) (simp_all add: v_messages_def v_message_def accepts)
  have "\<forall>y \<in> set xs. v_message verify k' y = ok None" if "first_complaint (v_message verify k') xs = ok None" for xs
    using that by (induction xs) (auto simp: bindr_eq_ok split: option.splits)
  then show "\<exists>xs. x = Array xs \<and> (\<forall>y \<in> set xs. v_message verify k' y = ok None)"
    if "v_messages verify k' x = ok None"
    using that by (auto simp: v_messages_def expect_def split: js.splits)
qed

end
