(* ===== verification/PlainFields.thy ===== *)
theory PlainFields
  imports Codec PlainLaws
begin

text \<open>
  The types of fields as plain values: the interface \<open>value_plain\<close> on strings, booleans, integers,
  floating point numbers and the three enums of the protocol. A 64-bit integer may come back through a
  string (\<open>longs: String\<close>), an enum through the name of its value (\<open>enums: String\<close>), an infinite or
  undefined number through its name (\<open>json\<close>).
\<close>

section \<open>Enums\<close>

definition TagOperation :: "(int \<times> string) list" where
  "TagOperation =
     [(0, ''TAG_OPERATION_UNSPECIFIED''), (1, ''TAG_OPERATION_ADD''), (2, ''TAG_OPERATION_REMOVE''),
      (3, ''TAG_OPERATION_SET'')]"

definition DaemonState :: "(int \<times> string) list" where
  "DaemonState =
     [(0, ''DAEMON_STATE_UNSPECIFIED''), (1, ''DAEMON_STATE_IDLE''), (2, ''DAEMON_STATE_SCANNING''),
      (3, ''DAEMON_STATE_READY''), (4, ''DAEMON_STATE_DEGRADED'')]"

definition ThumbnailSize :: "(int \<times> string) list" where
  "ThumbnailSize =
     [(0, ''THUMBNAIL_SIZE_UNSPECIFIED''), (1, ''THUMBNAIL_SIZE_NORMAL''), (2, ''THUMBNAIL_SIZE_LARGE'')]"

definition enum_ok :: "(int \<times> string) list \<Rightarrow> int \<Rightarrow> bool" where
  "enum_ok values n \<longleftrightarrow> list_ex (\<lambda>x. fst x = n) values"

text \<open>A list of values fit for an enum: distinct numbers from 0 on, and distinct names of words.\<close>

definition enum_values :: "(int \<times> string) list \<Rightarrow> bool" where
  "enum_values values \<longleftrightarrow>
     distinct (map fst values) \<and> distinct (map snd values) \<and>
     list_all (\<lambda>x. 0 \<le> fst x \<and> fst x \<le> 2 ^ 53 \<and> plain_key (snd x)) values"

lemma enums: "enum_values TagOperation" "enum_values DaemonState" "enum_values ThumbnailSize"
  by (simp_all add: enum_values_def TagOperation_def DaemonState_def ThumbnailSize_def plain_key_def
    is_digit_def)

lemma equals_int_int [simp]: "equals_int (int_js n) m \<longleftrightarrow> n = m"
  by (auto simp: equals_int_def)

lemma print_nat: "0 \<le> n \<Longrightarrow> n \<le> 2 ^ 53 \<Longrightarrow> number_to_string (Fin (of_int n)) = dec_string (nat n)"
proof -
  assume "0 \<le> n" "n \<le> 2 ^ 53"
  moreover from this have "of_int n \<le> (of_int (2 ^ 53) :: rat)" by (simp only: of_int_le_iff)
  ultimately show ?thesis by (simp add: number_to_string_def)
qed

lemma word_not_number:
  assumes "plain_key s"
  shows "js_str s \<noteq> dec_string n"
proof
  assume "js_str s = dec_string n"
  moreover obtain c cs where "dec_string n = c # cs" "is_digit c" using dec_string_Cons by blast
  ultimately show False using assms by (auto simp: plain_key_def js_str_def)
qed

lemma dec_string_inj [simp]: "dec_string m = dec_string n \<longleftrightarrow> m = n"
  by (metis decimal_dec_string)

lemma find_unique:
  "distinct (map f xs) \<Longrightarrow> x \<in> set xs \<Longrightarrow> (\<And>y. y \<in> set xs \<Longrightarrow> P y \<longleftrightarrow> f y = f x) \<Longrightarrow> find P xs = Some x"
  by (induction xs) (auto simp: image_iff)

lemma enum_lookup_number:
  assumes "enum_values values" "(n, name) \<in> set values"
  shows "enum_lookup values (number_to_string (Fin (of_int n))) = Some (String (js_str name))"
proof -
  have v: "0 \<le> fst y \<and> fst y \<le> 2 ^ 53 \<and> plain_key (snd y)" if "y \<in> set values" for y
    using assms(1) that by (auto simp: enum_values_def list_all_iff)
  have k: "number_to_string (Fin (of_int (fst y))) = dec_string (nat (fst y))" if "y \<in> set values" for y
    using v [OF that] by (simp add: print_nat)
  have n: "number_to_string (Fin (of_int n)) = dec_string (nat n)" using k [OF assms(2)] by simp
  have "find (\<lambda>x. js_str (snd x) = dec_string (nat n)) values = None"
    using v word_not_number by (auto simp: find_None_iff)
  moreover have "find (\<lambda>x. number_to_string (Fin (of_int (fst x))) = dec_string (nat n)) values = Some (n, name)"
  proof (rule find_unique [of fst])
    fix y assume y: "y \<in> set values"
    show "number_to_string (Fin (of_int (fst y))) = dec_string (nat n) \<longleftrightarrow> fst y = fst (n, name)"
      using v [OF y] v [OF assms(2)] by (auto simp: k [OF y])
  qed (use assms in \<open>auto simp: enum_values_def\<close>)
  ultimately show ?thesis unfolding n enum_lookup_def by simp
qed

lemma enum_plain:
  assumes "enum_values values"
  shows "value_plain int_js (v_enum values) (c_enum values) (t_enum values) (enum_ok values)"
proof
  fix v k opts
  assume g: "enum_ok values v"
  then obtain name where m: "(v, name) \<in> set values" by (auto simp: enum_ok_def list_ex_iff)
  show "v_enum values k (int_js v) = ok None"
    using m by (force simp: v_enum_def expect_def list_ex_iff)
  have num: "find (\<lambda>x. int_js v = String (js_str (snd x)) \<or> equals_int (int_js v) (fst x)) values = Some (v, name)"
    using assms m by (intro find_unique [of fst]) (auto simp: enum_values_def)
  have str: "find (\<lambda>x. String (js_str name) = String (js_str (snd x)) \<or> equals_int (String (js_str name)) (fst x)) values
      = Some (v, name)"
    using assms m by (intro find_unique [of snd]) (auto simp: enum_values_def equals_int_def)
  show "\<exists>p. t_enum values opts (int_js v) = ok p \<and> \<not> nullish p \<and> c_enum values p = ok (Some (int_js v))"
    using enum_lookup_number [OF assms m] num str by (simp add: t_enum_def nullish_def c_enum_def)
qed (auto simp: nullish_def c_enum_def)

interpretation TagOperation_plain: value_plain int_js "v_enum TagOperation" "c_enum TagOperation" "t_enum TagOperation"
    "enum_ok TagOperation"
  by (rule enum_plain [OF enums(1)])

interpretation DaemonState_plain: value_plain int_js "v_enum DaemonState" "c_enum DaemonState" "t_enum DaemonState"
    "enum_ok DaemonState"
  by (rule enum_plain [OF enums(2)])

interpretation ThumbnailSize_plain: value_plain int_js "v_enum ThumbnailSize" "c_enum ThumbnailSize"
    "t_enum ThumbnailSize" "enum_ok ThumbnailSize"
  by (rule enum_plain [OF enums(3)])

section \<open>Scalars\<close>

interpretation string_plain: item_plain String v_string c_string t_same always v_strings
  by unfold_locales
    (auto simp: nullish_def v_string_def expect_def is_string_def t_same_def always_sets_def c_string_def
      v_strings_def list_all_iff split: js.splits if_splits)

interpretation bool_plain: value_plain Boolean v_bool "always_sets c_bool" t_same always
  by unfold_locales
    (auto simp: nullish_def v_bool_def expect_def is_boolean_def t_same_def always_sets_def c_bool_def)

lemma to_number_int [simp]: "to_number (Number n) = ok n"
  by (simp add: to_number_def)

lemma truncate_int [simp]: "truncate_number (Fin (of_int n)) = n"
  by (simp add: truncate_number_def floor_minus ceiling_of_int)

lemma v_integer_safe: "v_integer k x = ok None \<Longrightarrow> \<exists>n. x = Number n"
  by (auto simp: v_integer_def expect_def is_integer_def split: js.splits if_splits)

lemma v_integer_int: "v_integer k (int_js n) = ok None"
  by (simp add: v_integer_def expect_def is_integer_def)

lemma c_uint32_int: "uint32_ok n \<Longrightarrow> c_uint32 (int_js n) = ok (int_js n)"
proof -
  assume "uint32_ok n"
  then have u: "uint (word_of_int n :: u32) = n" by (simp add: uint32_ok_def uint_word_of_int)
  show ?thesis unfolding c_uint32_def to_u32_def to_number_int bindr_simps truncate_int u ..
qed

lemma c_uint32_safe: "\<exists>y. c_uint32 (Number n) = ok y"
  by (simp add: c_uint32_def to_u32_def)

interpretation uint32_plain: value_plain int_js v_integer "always_sets c_uint32" t_same uint32_ok
  by unfold_locales
    (use c_uint32_safe in \<open>auto simp: nullish_def v_integer_int t_same_def always_sets_def c_uint32_int bindr_eq_ok
      dest!: v_integer_safe\<close>)

lemma v_integer_to_u32: "is_integer x \<Longrightarrow> \<exists>w. to_u32 x = ok w"
  by (auto simp: is_integer_def to_u32_def split: js.splits)

lemma long_safe:
  assumes "v_long k x = ok None"
  shows "\<exists>y. c_long uns x = ok y"
proof (cases "is_integer x")
  case True
  then show ?thesis by (auto simp: is_integer_def c_long_def split: js.splits)
next
  case False
  then obtain l h where "get_prop x ''low'' = ok l" "is_integer l" "get_prop x ''high'' = ok h" "is_integer h"
    using assms by (auto simp: v_long_def expect_def bindr_eq_ok split: if_splits)
  moreover from this obtain u w where "to_u32 l = ok u" "to_u32 h = ok w" using v_integer_to_u32 by blast
  ultimately have "\<exists>y. long_object uns x = ok y" by (simp add: long_object_def)
  then show ?thesis by (auto simp: c_long_def always_sets_def split: js.split)
qed

lemma long_plain:
  assumes "\<And>n. good n \<Longrightarrow> \<bar>n\<bar> \<le> 2 ^ 53"
  shows "value_plain int_js v_long (c_long uns) (t_long uns) good"
proof
  fix v k opts
  assume "good v"
  then have "parse_int10 (number_to_string (Fin (of_int v))) = Fin (of_int v)"
    by (intro parse_int10_print assms)
  then show "\<exists>p. t_long uns opts (int_js v) = ok p \<and> \<not> nullish p \<and> c_long uns p = ok (Some (int_js v))"
    by (simp add: t_long_def is_number_def c_string_def nullish_def c_long_def)
qed (auto simp: nullish_def v_long_def expect_def is_integer_def intro: long_safe)

interpretation uint64_plain: value_plain int_js v_long "c_long True" "t_long True" uint64_ok
  by (rule long_plain) (simp add: uint64_ok_def)

interpretation int64_plain: value_plain int_js v_long "c_long False" "t_long False" int64_ok
  by (rule long_plain) (simp add: int64_ok_def)

text \<open>A number that is not finite goes through its name.\<close>

lemma not_finite_print: "\<not> is_finite n \<Longrightarrow> string_to_number (number_to_string n) = n"
  by (cases n)
    (auto simp: is_finite_def number_to_string_def string_to_number_def trim_def js_str_def is_space_def signed_def
      unsigned_decimal_def is_digit_def number_uminus_def)

lemma number_plain: "value_plain (\<lambda>w. Number (val w)) v_number (always_sets c_number) t_number always"
proof
  fix v opts
  show "\<exists>p. t_number opts (Number (val v)) = ok p \<and> \<not> nullish p \<and> always_sets c_number p = ok (Some (Number (val v)))"
    using not_finite_print [of "val v"]
    by (auto simp: t_number_def nullish_def always_sets_def c_number_def c_string_def to_number_def)
qed (auto simp: nullish_def v_number_def expect_def is_number_def always_sets_def c_number_def split: js.splits if_splits)

interpretation double_plain: value_plain "\<lambda>w. Number (f64_val w)" v_number "always_sets c_number" t_number always
  by (rule number_plain)

interpretation float_plain: value_plain "\<lambda>w. Number (f32_val w)" v_number "always_sets c_number" t_number always
  by (rule number_plain)

end
