(* ===== verification/DaemonPlain.thy ===== *)
theory DaemonPlain
  imports Daemon PlainFields
begin

text \<open>
  Construction, checking and plain objects for the messages about the daemon itself. For each class \<open>X\<close>:
  \<open>X_construct\<close> and \<open>X_create\<close>, \<open>X_verify\<close>, \<open>X_fromObject\<close>, \<open>X_toObject\<close>, \<open>X_toJSON\<close> and
  \<open>X_getTypeUrl\<close> are the methods, over arbitrary values; the lists \<open>X_checks\<close>, \<open>X_setters\<close> and
  \<open>X_writers\<close> are the statements of \<open>verify\<close>, \<open>fromObject\<close> and \<open>toObject\<close> for the single fields. \<open>X_obj m\<close> is the instance that holds the message
  \<open>m\<close> of the typed model and \<open>X_good\<close> says that its integers fit their fields, its maps are objects and
  at most one member of a oneof is set. The interpretation of \<open>message_plain\<close> shows that such an instance
  passes \<open>verify\<close>, that \<open>fromObject\<close> takes its plain form back to it, and that \<open>fromObject\<close> does not
  throw on plain objects that pass \<open>verify\<close>.
\<close>

subsection \<open>ErrorResponse\<close>

definition ErrorResponse_construct :: "js \<Rightarrow> js res" where
  "ErrorResponse_construct = construct ''ErrorResponse'' [] None"

definition ErrorResponse_create :: "js \<Rightarrow> js res" where
  "ErrorResponse_create properties = ErrorResponse_construct properties"

definition ErrorResponse_checks :: "check list" where
  "ErrorResponse_checks =
     [v_field ''code'' v_integer,
      v_field ''message'' v_string]"

definition ErrorResponse_verify :: "js \<Rightarrow> string option res" where
  "ErrorResponse_verify = verify_with ErrorResponse_checks"

definition ErrorResponse_setters :: "setter list" where
  "ErrorResponse_setters =
     [f_field ''code'' c_uint32,
      f_field ''message'' c_string]"

definition ErrorResponse_fromObject :: "js \<Rightarrow> js res" where
  "ErrorResponse_fromObject = from_object ''ErrorResponse'' [] ErrorResponse_setters"

definition ErrorResponse_writers :: "writer list" where
  "ErrorResponse_writers =
     [d_value ''code'' (int_js 0),
      d_value ''message'' (String []),
      t_field ''code'' t_same,
      t_field ''message'' t_same]"

definition ErrorResponse_toObject :: "js \<Rightarrow> to_options option \<Rightarrow> js res" where
  "ErrorResponse_toObject = to_object ErrorResponse_writers"

definition ErrorResponse_toJSON :: "js \<Rightarrow> js res" where
  "ErrorResponse_toJSON message = ErrorResponse_toObject message (Some toJSONOptions)"

definition ErrorResponse_getTypeUrl :: "jstring option \<Rightarrow> jstring" where
  "ErrorResponse_getTypeUrl = type_url ''ErrorResponse''"

definition ErrorResponse_props :: "ErrorResponse \<Rightarrow> props" where
  "ErrorResponse_props m =
     opt_prop ''code'' int_js (ErrorResponse_code m) @
     opt_prop ''message'' String (ErrorResponse_message m)"

definition ErrorResponse_obj :: "ErrorResponse \<Rightarrow> js" where
  "ErrorResponse_obj m = Object ''ErrorResponse'' (ErrorResponse_props m)"

definition ErrorResponse_good :: "ErrorResponse \<Rightarrow> bool" where
  "ErrorResponse_good m \<longleftrightarrow> opt_all uint32_ok (ErrorResponse_code m)"

lemma ErrorResponse_lookup:
  "lookup (ErrorResponse_props m) ''code'' = map_option int_js (ErrorResponse_code m)"
  "lookup (ErrorResponse_props m) ''message'' = map_option String (ErrorResponse_message m)"
  "\<not> shadows (ErrorResponse_props m)"
  by (simp_all add: ErrorResponse_props_def shadows_def)

lemma ErrorResponse_accepts:
  assumes "ErrorResponse_good m"
  shows "ErrorResponse_verify (ErrorResponse_obj m) = ok None"
  unfolding ErrorResponse_verify_def ErrorResponse_checks_def ErrorResponse_obj_def
  by (rule runs_verify [where members = "[]"],
      rule uint32_plain.runs_opt [where x = "ErrorResponse_code m"],
      rule string_plain.runs_opt [where x = "ErrorResponse_message m"],
      rule runs_Nil)
    (simp_all add: ErrorResponse_lookup assms [unfolded ErrorResponse_good_def] at_most_one.simps(1))

lemma ErrorResponse_round:
  assumes "ErrorResponse_good m" "\<not> to_defaults opts"
  shows "\<exists>ps. ErrorResponse_toObject (ErrorResponse_obj m) (Some opts) = ok (plain ps) \<and>
    ErrorResponse_fromObject (plain ps) = ok (ErrorResponse_obj m)"
  unfolding ErrorResponse_toObject_def ErrorResponse_writers_def ErrorResponse_fromObject_def ErrorResponse_setters_def ErrorResponse_obj_def
  by (rule round_trip, simp,
      rule all_yield_Cons, rule all_yield_Cons, rule all_yield_Cons, rule all_yield_Cons,
      rule all_yield_Nil,
      (rule string_plain.yields_opt [where x = "ErrorResponse_message m"]; simp add: assms [unfolded ErrorResponse_good_def] ErrorResponse_lookup plain_keys),
      (rule uint32_plain.yields_opt [where x = "ErrorResponse_code m"]; simp add: assms [unfolded ErrorResponse_good_def] ErrorResponse_lookup plain_keys),
      (rule yields_default(1); simp add: assms [unfolded ErrorResponse_good_def] ErrorResponse_lookup plain_keys),
      (rule yields_default(1); simp add: assms [unfolded ErrorResponse_good_def] ErrorResponse_lookup plain_keys),
      rule uint32_plain.build_opt [where x = "ErrorResponse_code m" and opts = opts],
      rule string_plain.build_opt [where x = "ErrorResponse_message m" and opts = opts],
      rule build.simps(1) [THEN trans])
    (simp_all add: assms [unfolded ErrorResponse_good_def] ErrorResponse_lookup plain_keys ErrorResponse_props_def)

lemma ErrorResponse_guarded: "ErrorResponse_verify v = ok None \<Longrightarrow> all_plain v \<Longrightarrow> \<exists>m. ErrorResponse_fromObject v = ok m"
  unfolding ErrorResponse_verify_def ErrorResponse_checks_def ErrorResponse_fromObject_def ErrorResponse_setters_def
  by (rule guards_object, rule guards_Cons, rule guards_Cons, rule guards_Nil,
      (rule string_plain.guard_opt(1), simp),
      (rule uint32_plain.guard_opt(1), simp),
      assumption, assumption) simp

interpretation ErrorResponse_plain: message_plain ErrorResponse_obj ErrorResponse_verify ErrorResponse_fromObject ErrorResponse_toObject ErrorResponse_good
  by unfold_locales
    (use ErrorResponse_accepts ErrorResponse_round ErrorResponse_guarded in \<open>auto simp: ErrorResponse_obj_def ErrorResponse_verify_def dest: verified_object\<close>)

subsection \<open>StatusRequest\<close>

definition StatusRequest_construct :: "js \<Rightarrow> js res" where
  "StatusRequest_construct = construct ''StatusRequest'' [] None"

definition StatusRequest_create :: "js \<Rightarrow> js res" where
  "StatusRequest_create properties = StatusRequest_construct properties"

definition StatusRequest_verify :: "js \<Rightarrow> string option res" where
  "StatusRequest_verify = verify_with []"

definition StatusRequest_fromObject :: "js \<Rightarrow> js res" where
  "StatusRequest_fromObject = from_object ''StatusRequest'' [] []"

definition StatusRequest_toObject :: "js \<Rightarrow> to_options option \<Rightarrow> js res" where
  "StatusRequest_toObject = to_object []"

definition StatusRequest_toJSON :: "js \<Rightarrow> js res" where
  "StatusRequest_toJSON message = StatusRequest_toObject message (Some toJSONOptions)"

definition StatusRequest_getTypeUrl :: "jstring option \<Rightarrow> jstring" where
  "StatusRequest_getTypeUrl = type_url ''StatusRequest''"

definition StatusRequest_props :: "StatusRequest \<Rightarrow> props" where
  "StatusRequest_props m =
     []"

definition StatusRequest_obj :: "StatusRequest \<Rightarrow> js" where
  "StatusRequest_obj m = Object ''StatusRequest'' (StatusRequest_props m)"

definition StatusRequest_good :: "StatusRequest \<Rightarrow> bool" where
  "StatusRequest_good m \<longleftrightarrow> True"

lemma StatusRequest_lookup:
  "\<not> shadows (StatusRequest_props m)"
  by (simp_all add: StatusRequest_props_def shadows_def)

lemma StatusRequest_accepts:
  assumes "StatusRequest_good m"
  shows "StatusRequest_verify (StatusRequest_obj m) = ok None"
  unfolding StatusRequest_verify_def StatusRequest_obj_def
  by (rule runs_verify [where members = "[]"],
      rule runs_Nil)
    (simp_all add: StatusRequest_lookup assms [unfolded StatusRequest_good_def] at_most_one.simps(1))

lemma StatusRequest_round:
  assumes "StatusRequest_good m" "\<not> to_defaults opts"
  shows "\<exists>ps. StatusRequest_toObject (StatusRequest_obj m) (Some opts) = ok (plain ps) \<and>
    StatusRequest_fromObject (plain ps) = ok (StatusRequest_obj m)"
  unfolding StatusRequest_toObject_def StatusRequest_fromObject_def StatusRequest_obj_def
  by (rule round_trip, simp,
      rule all_yield_Nil,
      rule build.simps(1) [THEN trans])
    (simp_all add: assms [unfolded StatusRequest_good_def] StatusRequest_lookup plain_keys StatusRequest_props_def)

lemma StatusRequest_guarded: "StatusRequest_verify v = ok None \<Longrightarrow> all_plain v \<Longrightarrow> \<exists>m. StatusRequest_fromObject v = ok m"
  unfolding StatusRequest_verify_def StatusRequest_fromObject_def
  by (rule guards_object, rule guards_Nil,
      assumption, assumption) simp

interpretation StatusRequest_plain: message_plain StatusRequest_obj StatusRequest_verify StatusRequest_fromObject StatusRequest_toObject StatusRequest_good
  by unfold_locales
    (use StatusRequest_accepts StatusRequest_round StatusRequest_guarded in \<open>auto simp: StatusRequest_obj_def StatusRequest_verify_def dest: verified_object\<close>)

subsection \<open>StatusResponse\<close>

definition StatusResponse_init :: props where
  "StatusResponse_init = [(js_str ''warnings'', Array [])]"

definition StatusResponse_construct :: "js \<Rightarrow> js res" where
  "StatusResponse_construct = construct ''StatusResponse'' StatusResponse_init None"

definition StatusResponse_create :: "js \<Rightarrow> js res" where
  "StatusResponse_create properties = StatusResponse_construct properties"

definition StatusResponse_checks :: "check list" where
  "StatusResponse_checks =
     [v_field ''state'' (v_enum DaemonState),
      v_field ''filesIndexed'' v_long,
      v_field ''tagsTotal'' v_long,
      v_field ''indexSizeMb'' v_number,
      v_field ''warnings'' v_strings,
      v_field ''uptimeSeconds'' v_long]"

definition StatusResponse_verify :: "js \<Rightarrow> string option res" where
  "StatusResponse_verify = verify_with StatusResponse_checks"

definition StatusResponse_setters :: "setter list" where
  "StatusResponse_setters =
     [f_opt ''state'' (c_enum DaemonState),
      f_opt ''filesIndexed'' (c_long True),
      f_opt ''tagsTotal'' (c_long True),
      f_field ''indexSizeMb'' c_number,
      f_truthy ''warnings'' (c_array ''StatusResponse'' ''warnings'' c_string),
      f_opt ''uptimeSeconds'' (c_long False)]"

definition StatusResponse_fromObject :: "js \<Rightarrow> js res" where
  "StatusResponse_fromObject = from_object ''StatusResponse'' StatusResponse_init StatusResponse_setters"

definition StatusResponse_writers :: "writer list" where
  "StatusResponse_writers =
     [d_array ''warnings'',
      d_enum DaemonState ''state'',
      d_long ''filesIndexed'',
      d_long ''tagsTotal'',
      d_value ''indexSizeMb'' (int_js 0),
      d_long ''uptimeSeconds'',
      t_field ''state'' (t_enum DaemonState),
      t_field ''filesIndexed'' (t_long True),
      t_field ''tagsTotal'' (t_long True),
      t_field ''indexSizeMb'' t_number,
      t_list ''warnings'' t_same,
      t_field ''uptimeSeconds'' (t_long False)]"

definition StatusResponse_toObject :: "js \<Rightarrow> to_options option \<Rightarrow> js res" where
  "StatusResponse_toObject = to_object StatusResponse_writers"

definition StatusResponse_toJSON :: "js \<Rightarrow> js res" where
  "StatusResponse_toJSON message = StatusResponse_toObject message (Some toJSONOptions)"

definition StatusResponse_getTypeUrl :: "jstring option \<Rightarrow> jstring" where
  "StatusResponse_getTypeUrl = type_url ''StatusResponse''"

definition StatusResponse_props :: "StatusResponse \<Rightarrow> props" where
  "StatusResponse_props m =
     [(js_str ''warnings'', Array (map String (StatusResponse_warnings m)))] @
     opt_prop ''state'' int_js (StatusResponse_state m) @
     opt_prop ''filesIndexed'' int_js (StatusResponse_filesIndexed m) @
     opt_prop ''tagsTotal'' int_js (StatusResponse_tagsTotal m) @
     opt_prop ''indexSizeMb'' (\<lambda>w. Number (f32_val w)) (StatusResponse_indexSizeMb m) @
     opt_prop ''uptimeSeconds'' int_js (StatusResponse_uptimeSeconds m)"

definition StatusResponse_obj :: "StatusResponse \<Rightarrow> js" where
  "StatusResponse_obj m = Object ''StatusResponse'' (StatusResponse_props m)"

definition StatusResponse_good :: "StatusResponse \<Rightarrow> bool" where
  "StatusResponse_good m \<longleftrightarrow> opt_all (enum_ok DaemonState) (StatusResponse_state m) \<and>
     opt_all uint64_ok (StatusResponse_filesIndexed m) \<and>
     opt_all uint64_ok (StatusResponse_tagsTotal m) \<and>
     opt_all int64_ok (StatusResponse_uptimeSeconds m)"

lemma StatusResponse_lookup:
  "lookup (StatusResponse_props m) ''state'' = map_option int_js (StatusResponse_state m)"
  "lookup (StatusResponse_props m) ''filesIndexed'' = map_option int_js (StatusResponse_filesIndexed m)"
  "lookup (StatusResponse_props m) ''tagsTotal'' = map_option int_js (StatusResponse_tagsTotal m)"
  "lookup (StatusResponse_props m) ''indexSizeMb'' = map_option (\<lambda>w. Number (f32_val w)) (StatusResponse_indexSizeMb m)"
  "lookup (StatusResponse_props m) ''warnings'' = Some (Array (map String (StatusResponse_warnings m)))"
  "lookup (StatusResponse_props m) ''uptimeSeconds'' = map_option int_js (StatusResponse_uptimeSeconds m)"
  "\<not> shadows (StatusResponse_props m)"
  by (simp_all add: StatusResponse_props_def shadows_def)

lemma StatusResponse_accepts:
  assumes "StatusResponse_good m"
  shows "StatusResponse_verify (StatusResponse_obj m) = ok None"
  unfolding StatusResponse_verify_def StatusResponse_checks_def StatusResponse_obj_def
  by (rule runs_verify [where members = "[]"],
      rule DaemonState_plain.runs_opt [where x = "StatusResponse_state m"],
      rule uint64_plain.runs_opt [where x = "StatusResponse_filesIndexed m"],
      rule uint64_plain.runs_opt [where x = "StatusResponse_tagsTotal m"],
      rule float_plain.runs_opt [where x = "StatusResponse_indexSizeMb m"],
      rule string_plain.runs_list [where xs = "StatusResponse_warnings m"],
      rule int64_plain.runs_opt [where x = "StatusResponse_uptimeSeconds m"],
      rule runs_Nil)
    (simp_all add: StatusResponse_lookup assms [unfolded StatusResponse_good_def] at_most_one.simps(1))

lemma StatusResponse_round:
  assumes "StatusResponse_good m" "\<not> to_defaults opts"
  shows "\<exists>ps. StatusResponse_toObject (StatusResponse_obj m) (Some opts) = ok (plain ps) \<and>
    StatusResponse_fromObject (plain ps) = ok (StatusResponse_obj m)"
  unfolding StatusResponse_toObject_def StatusResponse_writers_def StatusResponse_fromObject_def StatusResponse_setters_def StatusResponse_obj_def
  by (rule round_trip, simp,
      rule all_yield_Cons, rule all_yield_Cons, rule all_yield_Cons, rule all_yield_Cons,
      rule all_yield_Cons, rule all_yield_Cons, rule all_yield_Cons, rule all_yield_Cons,
      rule all_yield_Cons, rule all_yield_Cons, rule all_yield_Cons, rule all_yield_Cons,
      rule all_yield_Nil,
      (rule int64_plain.yields_opt [where x = "StatusResponse_uptimeSeconds m"]; simp add: assms [unfolded StatusResponse_good_def] StatusResponse_lookup plain_keys),
      (rule string_plain.yields_list [where xs = "StatusResponse_warnings m"]; simp add: assms [unfolded StatusResponse_good_def] StatusResponse_lookup plain_keys),
      (rule float_plain.yields_opt [where x = "StatusResponse_indexSizeMb m"]; simp add: assms [unfolded StatusResponse_good_def] StatusResponse_lookup plain_keys),
      (rule uint64_plain.yields_opt [where x = "StatusResponse_tagsTotal m"]; simp add: assms [unfolded StatusResponse_good_def] StatusResponse_lookup plain_keys),
      (rule uint64_plain.yields_opt [where x = "StatusResponse_filesIndexed m"]; simp add: assms [unfolded StatusResponse_good_def] StatusResponse_lookup plain_keys),
      (rule DaemonState_plain.yields_opt [where x = "StatusResponse_state m"]; simp add: assms [unfolded StatusResponse_good_def] StatusResponse_lookup plain_keys),
      (rule yields_default(2); simp add: assms [unfolded StatusResponse_good_def] StatusResponse_lookup plain_keys),
      (rule yields_default(1); simp add: assms [unfolded StatusResponse_good_def] StatusResponse_lookup plain_keys),
      (rule yields_default(2); simp add: assms [unfolded StatusResponse_good_def] StatusResponse_lookup plain_keys),
      (rule yields_default(2); simp add: assms [unfolded StatusResponse_good_def] StatusResponse_lookup plain_keys),
      (rule yields_default(3); simp add: assms [unfolded StatusResponse_good_def] StatusResponse_lookup plain_keys),
      (rule yields_array; simp add: assms [unfolded StatusResponse_good_def] StatusResponse_lookup plain_keys),
      rule DaemonState_plain.build_opt [where x = "StatusResponse_state m" and opts = opts],
      rule uint64_plain.build_opt [where x = "StatusResponse_filesIndexed m" and opts = opts],
      rule uint64_plain.build_opt [where x = "StatusResponse_tagsTotal m" and opts = opts],
      rule float_plain.build_opt [where x = "StatusResponse_indexSizeMb m" and opts = opts],
      rule string_plain.build_list [where xs = "StatusResponse_warnings m" and opts = opts],
      rule int64_plain.build_opt [where x = "StatusResponse_uptimeSeconds m" and opts = opts],
      rule build.simps(1) [THEN trans])
    (simp_all add: assms [unfolded StatusResponse_good_def] StatusResponse_lookup plain_keys StatusResponse_props_def StatusResponse_init_def)

lemma StatusResponse_guarded: "StatusResponse_verify v = ok None \<Longrightarrow> all_plain v \<Longrightarrow> \<exists>m. StatusResponse_fromObject v = ok m"
  unfolding StatusResponse_verify_def StatusResponse_checks_def StatusResponse_fromObject_def StatusResponse_setters_def
  by (rule guards_object, rule guards_Cons, rule guards_Cons, rule guards_Cons, rule guards_Cons, rule
      guards_Cons, rule guards_Cons, rule guards_Nil,
      (rule int64_plain.guard_opt(1), simp),
      (rule string_plain.guard_list, simp),
      (rule float_plain.guard_opt(1), simp),
      (rule uint64_plain.guard_opt(1), simp),
      (rule uint64_plain.guard_opt(1), simp),
      (rule DaemonState_plain.guard_opt(1), simp),
      assumption, assumption) simp

interpretation StatusResponse_plain: message_plain StatusResponse_obj StatusResponse_verify StatusResponse_fromObject StatusResponse_toObject StatusResponse_good
  by unfold_locales
    (use StatusResponse_accepts StatusResponse_round StatusResponse_guarded in \<open>auto simp: StatusResponse_obj_def StatusResponse_verify_def dest: verified_object\<close>)

subsection \<open>ShutdownRequest\<close>

definition ShutdownRequest_construct :: "js \<Rightarrow> js res" where
  "ShutdownRequest_construct = construct ''ShutdownRequest'' [] None"

definition ShutdownRequest_create :: "js \<Rightarrow> js res" where
  "ShutdownRequest_create properties = ShutdownRequest_construct properties"

definition ShutdownRequest_verify :: "js \<Rightarrow> string option res" where
  "ShutdownRequest_verify = verify_with []"

definition ShutdownRequest_fromObject :: "js \<Rightarrow> js res" where
  "ShutdownRequest_fromObject = from_object ''ShutdownRequest'' [] []"

definition ShutdownRequest_toObject :: "js \<Rightarrow> to_options option \<Rightarrow> js res" where
  "ShutdownRequest_toObject = to_object []"

definition ShutdownRequest_toJSON :: "js \<Rightarrow> js res" where
  "ShutdownRequest_toJSON message = ShutdownRequest_toObject message (Some toJSONOptions)"

definition ShutdownRequest_getTypeUrl :: "jstring option \<Rightarrow> jstring" where
  "ShutdownRequest_getTypeUrl = type_url ''ShutdownRequest''"

definition ShutdownRequest_props :: "ShutdownRequest \<Rightarrow> props" where
  "ShutdownRequest_props m =
     []"

definition ShutdownRequest_obj :: "ShutdownRequest \<Rightarrow> js" where
  "ShutdownRequest_obj m = Object ''ShutdownRequest'' (ShutdownRequest_props m)"

definition ShutdownRequest_good :: "ShutdownRequest \<Rightarrow> bool" where
  "ShutdownRequest_good m \<longleftrightarrow> True"

lemma ShutdownRequest_lookup:
  "\<not> shadows (ShutdownRequest_props m)"
  by (simp_all add: ShutdownRequest_props_def shadows_def)

lemma ShutdownRequest_accepts:
  assumes "ShutdownRequest_good m"
  shows "ShutdownRequest_verify (ShutdownRequest_obj m) = ok None"
  unfolding ShutdownRequest_verify_def ShutdownRequest_obj_def
  by (rule runs_verify [where members = "[]"],
      rule runs_Nil)
    (simp_all add: ShutdownRequest_lookup assms [unfolded ShutdownRequest_good_def] at_most_one.simps(1))

lemma ShutdownRequest_round:
  assumes "ShutdownRequest_good m" "\<not> to_defaults opts"
  shows "\<exists>ps. ShutdownRequest_toObject (ShutdownRequest_obj m) (Some opts) = ok (plain ps) \<and>
    ShutdownRequest_fromObject (plain ps) = ok (ShutdownRequest_obj m)"
  unfolding ShutdownRequest_toObject_def ShutdownRequest_fromObject_def ShutdownRequest_obj_def
  by (rule round_trip, simp,
      rule all_yield_Nil,
      rule build.simps(1) [THEN trans])
    (simp_all add: assms [unfolded ShutdownRequest_good_def] ShutdownRequest_lookup plain_keys ShutdownRequest_props_def)

lemma ShutdownRequest_guarded: "ShutdownRequest_verify v = ok None \<Longrightarrow> all_plain v \<Longrightarrow> \<exists>m. ShutdownRequest_fromObject v = ok m"
  unfolding ShutdownRequest_verify_def ShutdownRequest_fromObject_def
  by (rule guards_object, rule guards_Nil,
      assumption, assumption) simp

interpretation ShutdownRequest_plain: message_plain ShutdownRequest_obj ShutdownRequest_verify ShutdownRequest_fromObject ShutdownRequest_toObject ShutdownRequest_good
  by unfold_locales
    (use ShutdownRequest_accepts ShutdownRequest_round ShutdownRequest_guarded in \<open>auto simp: ShutdownRequest_obj_def ShutdownRequest_verify_def dest: verified_object\<close>)

subsection \<open>ShutdownResponse\<close>

definition ShutdownResponse_construct :: "js \<Rightarrow> js res" where
  "ShutdownResponse_construct = construct ''ShutdownResponse'' [] None"

definition ShutdownResponse_create :: "js \<Rightarrow> js res" where
  "ShutdownResponse_create properties = ShutdownResponse_construct properties"

definition ShutdownResponse_verify :: "js \<Rightarrow> string option res" where
  "ShutdownResponse_verify = verify_with []"

definition ShutdownResponse_fromObject :: "js \<Rightarrow> js res" where
  "ShutdownResponse_fromObject = from_object ''ShutdownResponse'' [] []"

definition ShutdownResponse_toObject :: "js \<Rightarrow> to_options option \<Rightarrow> js res" where
  "ShutdownResponse_toObject = to_object []"

definition ShutdownResponse_toJSON :: "js \<Rightarrow> js res" where
  "ShutdownResponse_toJSON message = ShutdownResponse_toObject message (Some toJSONOptions)"

definition ShutdownResponse_getTypeUrl :: "jstring option \<Rightarrow> jstring" where
  "ShutdownResponse_getTypeUrl = type_url ''ShutdownResponse''"

definition ShutdownResponse_props :: "ShutdownResponse \<Rightarrow> props" where
  "ShutdownResponse_props m =
     []"

definition ShutdownResponse_obj :: "ShutdownResponse \<Rightarrow> js" where
  "ShutdownResponse_obj m = Object ''ShutdownResponse'' (ShutdownResponse_props m)"

definition ShutdownResponse_good :: "ShutdownResponse \<Rightarrow> bool" where
  "ShutdownResponse_good m \<longleftrightarrow> True"

lemma ShutdownResponse_lookup:
  "\<not> shadows (ShutdownResponse_props m)"
  by (simp_all add: ShutdownResponse_props_def shadows_def)

lemma ShutdownResponse_accepts:
  assumes "ShutdownResponse_good m"
  shows "ShutdownResponse_verify (ShutdownResponse_obj m) = ok None"
  unfolding ShutdownResponse_verify_def ShutdownResponse_obj_def
  by (rule runs_verify [where members = "[]"],
      rule runs_Nil)
    (simp_all add: ShutdownResponse_lookup assms [unfolded ShutdownResponse_good_def] at_most_one.simps(1))

lemma ShutdownResponse_round:
  assumes "ShutdownResponse_good m" "\<not> to_defaults opts"
  shows "\<exists>ps. ShutdownResponse_toObject (ShutdownResponse_obj m) (Some opts) = ok (plain ps) \<and>
    ShutdownResponse_fromObject (plain ps) = ok (ShutdownResponse_obj m)"
  unfolding ShutdownResponse_toObject_def ShutdownResponse_fromObject_def ShutdownResponse_obj_def
  by (rule round_trip, simp,
      rule all_yield_Nil,
      rule build.simps(1) [THEN trans])
    (simp_all add: assms [unfolded ShutdownResponse_good_def] ShutdownResponse_lookup plain_keys ShutdownResponse_props_def)

lemma ShutdownResponse_guarded: "ShutdownResponse_verify v = ok None \<Longrightarrow> all_plain v \<Longrightarrow> \<exists>m. ShutdownResponse_fromObject v = ok m"
  unfolding ShutdownResponse_verify_def ShutdownResponse_fromObject_def
  by (rule guards_object, rule guards_Nil,
      assumption, assumption) simp

interpretation ShutdownResponse_plain: message_plain ShutdownResponse_obj ShutdownResponse_verify ShutdownResponse_fromObject ShutdownResponse_toObject ShutdownResponse_good
  by unfold_locales
    (use ShutdownResponse_accepts ShutdownResponse_round ShutdownResponse_guarded in \<open>auto simp: ShutdownResponse_obj_def ShutdownResponse_verify_def dest: verified_object\<close>)

subsection \<open>ReindexFileRequest\<close>

definition ReindexFileRequest_construct :: "js \<Rightarrow> js res" where
  "ReindexFileRequest_construct = construct ''ReindexFileRequest'' [] None"

definition ReindexFileRequest_create :: "js \<Rightarrow> js res" where
  "ReindexFileRequest_create properties = ReindexFileRequest_construct properties"

definition ReindexFileRequest_checks :: "check list" where
  "ReindexFileRequest_checks =
     [v_field ''path'' v_string]"

definition ReindexFileRequest_verify :: "js \<Rightarrow> string option res" where
  "ReindexFileRequest_verify = verify_with ReindexFileRequest_checks"

definition ReindexFileRequest_setters :: "setter list" where
  "ReindexFileRequest_setters =
     [f_field ''path'' c_string]"

definition ReindexFileRequest_fromObject :: "js \<Rightarrow> js res" where
  "ReindexFileRequest_fromObject = from_object ''ReindexFileRequest'' [] ReindexFileRequest_setters"

definition ReindexFileRequest_writers :: "writer list" where
  "ReindexFileRequest_writers =
     [d_value ''path'' (String []),
      t_field ''path'' t_same]"

definition ReindexFileRequest_toObject :: "js \<Rightarrow> to_options option \<Rightarrow> js res" where
  "ReindexFileRequest_toObject = to_object ReindexFileRequest_writers"

definition ReindexFileRequest_toJSON :: "js \<Rightarrow> js res" where
  "ReindexFileRequest_toJSON message = ReindexFileRequest_toObject message (Some toJSONOptions)"

definition ReindexFileRequest_getTypeUrl :: "jstring option \<Rightarrow> jstring" where
  "ReindexFileRequest_getTypeUrl = type_url ''ReindexFileRequest''"

definition ReindexFileRequest_props :: "ReindexFileRequest \<Rightarrow> props" where
  "ReindexFileRequest_props m =
     opt_prop ''path'' String (ReindexFileRequest_path m)"

definition ReindexFileRequest_obj :: "ReindexFileRequest \<Rightarrow> js" where
  "ReindexFileRequest_obj m = Object ''ReindexFileRequest'' (ReindexFileRequest_props m)"

definition ReindexFileRequest_good :: "ReindexFileRequest \<Rightarrow> bool" where
  "ReindexFileRequest_good m \<longleftrightarrow> True"

lemma ReindexFileRequest_lookup:
  "lookup (ReindexFileRequest_props m) ''path'' = map_option String (ReindexFileRequest_path m)"
  "\<not> shadows (ReindexFileRequest_props m)"
  by (simp_all add: ReindexFileRequest_props_def shadows_def)

lemma ReindexFileRequest_accepts:
  assumes "ReindexFileRequest_good m"
  shows "ReindexFileRequest_verify (ReindexFileRequest_obj m) = ok None"
  unfolding ReindexFileRequest_verify_def ReindexFileRequest_checks_def ReindexFileRequest_obj_def
  by (rule runs_verify [where members = "[]"],
      rule string_plain.runs_opt [where x = "ReindexFileRequest_path m"],
      rule runs_Nil)
    (simp_all add: ReindexFileRequest_lookup assms [unfolded ReindexFileRequest_good_def] at_most_one.simps(1))

lemma ReindexFileRequest_round:
  assumes "ReindexFileRequest_good m" "\<not> to_defaults opts"
  shows "\<exists>ps. ReindexFileRequest_toObject (ReindexFileRequest_obj m) (Some opts) = ok (plain ps) \<and>
    ReindexFileRequest_fromObject (plain ps) = ok (ReindexFileRequest_obj m)"
  unfolding ReindexFileRequest_toObject_def ReindexFileRequest_writers_def ReindexFileRequest_fromObject_def ReindexFileRequest_setters_def ReindexFileRequest_obj_def
  by (rule round_trip, simp,
      rule all_yield_Cons, rule all_yield_Cons, rule all_yield_Nil,
      (rule string_plain.yields_opt [where x = "ReindexFileRequest_path m"]; simp add: assms [unfolded ReindexFileRequest_good_def] ReindexFileRequest_lookup plain_keys),
      (rule yields_default(1); simp add: assms [unfolded ReindexFileRequest_good_def] ReindexFileRequest_lookup plain_keys),
      rule string_plain.build_opt [where x = "ReindexFileRequest_path m" and opts = opts],
      rule build.simps(1) [THEN trans])
    (simp_all add: assms [unfolded ReindexFileRequest_good_def] ReindexFileRequest_lookup plain_keys ReindexFileRequest_props_def)

lemma ReindexFileRequest_guarded: "ReindexFileRequest_verify v = ok None \<Longrightarrow> all_plain v \<Longrightarrow> \<exists>m. ReindexFileRequest_fromObject v = ok m"
  unfolding ReindexFileRequest_verify_def ReindexFileRequest_checks_def ReindexFileRequest_fromObject_def ReindexFileRequest_setters_def
  by (rule guards_object, rule guards_Cons, rule guards_Nil,
      (rule string_plain.guard_opt(1), simp),
      assumption, assumption) simp

interpretation ReindexFileRequest_plain: message_plain ReindexFileRequest_obj ReindexFileRequest_verify ReindexFileRequest_fromObject ReindexFileRequest_toObject ReindexFileRequest_good
  by unfold_locales
    (use ReindexFileRequest_accepts ReindexFileRequest_round ReindexFileRequest_guarded in \<open>auto simp: ReindexFileRequest_obj_def ReindexFileRequest_verify_def dest: verified_object\<close>)

subsection \<open>ReindexFileResponse\<close>

definition ReindexFileResponse_construct :: "js \<Rightarrow> js res" where
  "ReindexFileResponse_construct = construct ''ReindexFileResponse'' [] None"

definition ReindexFileResponse_create :: "js \<Rightarrow> js res" where
  "ReindexFileResponse_create properties = ReindexFileResponse_construct properties"

definition ReindexFileResponse_verify :: "js \<Rightarrow> string option res" where
  "ReindexFileResponse_verify = verify_with []"

definition ReindexFileResponse_fromObject :: "js \<Rightarrow> js res" where
  "ReindexFileResponse_fromObject = from_object ''ReindexFileResponse'' [] []"

definition ReindexFileResponse_toObject :: "js \<Rightarrow> to_options option \<Rightarrow> js res" where
  "ReindexFileResponse_toObject = to_object []"

definition ReindexFileResponse_toJSON :: "js \<Rightarrow> js res" where
  "ReindexFileResponse_toJSON message = ReindexFileResponse_toObject message (Some toJSONOptions)"

definition ReindexFileResponse_getTypeUrl :: "jstring option \<Rightarrow> jstring" where
  "ReindexFileResponse_getTypeUrl = type_url ''ReindexFileResponse''"

definition ReindexFileResponse_props :: "ReindexFileResponse \<Rightarrow> props" where
  "ReindexFileResponse_props m =
     []"

definition ReindexFileResponse_obj :: "ReindexFileResponse \<Rightarrow> js" where
  "ReindexFileResponse_obj m = Object ''ReindexFileResponse'' (ReindexFileResponse_props m)"

definition ReindexFileResponse_good :: "ReindexFileResponse \<Rightarrow> bool" where
  "ReindexFileResponse_good m \<longleftrightarrow> True"

lemma ReindexFileResponse_lookup:
  "\<not> shadows (ReindexFileResponse_props m)"
  by (simp_all add: ReindexFileResponse_props_def shadows_def)

lemma ReindexFileResponse_accepts:
  assumes "ReindexFileResponse_good m"
  shows "ReindexFileResponse_verify (ReindexFileResponse_obj m) = ok None"
  unfolding ReindexFileResponse_verify_def ReindexFileResponse_obj_def
  by (rule runs_verify [where members = "[]"],
      rule runs_Nil)
    (simp_all add: ReindexFileResponse_lookup assms [unfolded ReindexFileResponse_good_def] at_most_one.simps(1))

lemma ReindexFileResponse_round:
  assumes "ReindexFileResponse_good m" "\<not> to_defaults opts"
  shows "\<exists>ps. ReindexFileResponse_toObject (ReindexFileResponse_obj m) (Some opts) = ok (plain ps) \<and>
    ReindexFileResponse_fromObject (plain ps) = ok (ReindexFileResponse_obj m)"
  unfolding ReindexFileResponse_toObject_def ReindexFileResponse_fromObject_def ReindexFileResponse_obj_def
  by (rule round_trip, simp,
      rule all_yield_Nil,
      rule build.simps(1) [THEN trans])
    (simp_all add: assms [unfolded ReindexFileResponse_good_def] ReindexFileResponse_lookup plain_keys ReindexFileResponse_props_def)

lemma ReindexFileResponse_guarded: "ReindexFileResponse_verify v = ok None \<Longrightarrow> all_plain v \<Longrightarrow> \<exists>m. ReindexFileResponse_fromObject v = ok m"
  unfolding ReindexFileResponse_verify_def ReindexFileResponse_fromObject_def
  by (rule guards_object, rule guards_Nil,
      assumption, assumption) simp

interpretation ReindexFileResponse_plain: message_plain ReindexFileResponse_obj ReindexFileResponse_verify ReindexFileResponse_fromObject ReindexFileResponse_toObject ReindexFileResponse_good
  by unfold_locales
    (use ReindexFileResponse_accepts ReindexFileResponse_round ReindexFileResponse_guarded in \<open>auto simp: ReindexFileResponse_obj_def ReindexFileResponse_verify_def dest: verified_object\<close>)

subsection \<open>ReloadRulesRequest\<close>

definition ReloadRulesRequest_construct :: "js \<Rightarrow> js res" where
  "ReloadRulesRequest_construct = construct ''ReloadRulesRequest'' [] None"

definition ReloadRulesRequest_create :: "js \<Rightarrow> js res" where
  "ReloadRulesRequest_create properties = ReloadRulesRequest_construct properties"

definition ReloadRulesRequest_verify :: "js \<Rightarrow> string option res" where
  "ReloadRulesRequest_verify = verify_with []"

definition ReloadRulesRequest_fromObject :: "js \<Rightarrow> js res" where
  "ReloadRulesRequest_fromObject = from_object ''ReloadRulesRequest'' [] []"

definition ReloadRulesRequest_toObject :: "js \<Rightarrow> to_options option \<Rightarrow> js res" where
  "ReloadRulesRequest_toObject = to_object []"

definition ReloadRulesRequest_toJSON :: "js \<Rightarrow> js res" where
  "ReloadRulesRequest_toJSON message = ReloadRulesRequest_toObject message (Some toJSONOptions)"

definition ReloadRulesRequest_getTypeUrl :: "jstring option \<Rightarrow> jstring" where
  "ReloadRulesRequest_getTypeUrl = type_url ''ReloadRulesRequest''"

definition ReloadRulesRequest_props :: "ReloadRulesRequest \<Rightarrow> props" where
  "ReloadRulesRequest_props m =
     []"

definition ReloadRulesRequest_obj :: "ReloadRulesRequest \<Rightarrow> js" where
  "ReloadRulesRequest_obj m = Object ''ReloadRulesRequest'' (ReloadRulesRequest_props m)"

definition ReloadRulesRequest_good :: "ReloadRulesRequest \<Rightarrow> bool" where
  "ReloadRulesRequest_good m \<longleftrightarrow> True"

lemma ReloadRulesRequest_lookup:
  "\<not> shadows (ReloadRulesRequest_props m)"
  by (simp_all add: ReloadRulesRequest_props_def shadows_def)

lemma ReloadRulesRequest_accepts:
  assumes "ReloadRulesRequest_good m"
  shows "ReloadRulesRequest_verify (ReloadRulesRequest_obj m) = ok None"
  unfolding ReloadRulesRequest_verify_def ReloadRulesRequest_obj_def
  by (rule runs_verify [where members = "[]"],
      rule runs_Nil)
    (simp_all add: ReloadRulesRequest_lookup assms [unfolded ReloadRulesRequest_good_def] at_most_one.simps(1))

lemma ReloadRulesRequest_round:
  assumes "ReloadRulesRequest_good m" "\<not> to_defaults opts"
  shows "\<exists>ps. ReloadRulesRequest_toObject (ReloadRulesRequest_obj m) (Some opts) = ok (plain ps) \<and>
    ReloadRulesRequest_fromObject (plain ps) = ok (ReloadRulesRequest_obj m)"
  unfolding ReloadRulesRequest_toObject_def ReloadRulesRequest_fromObject_def ReloadRulesRequest_obj_def
  by (rule round_trip, simp,
      rule all_yield_Nil,
      rule build.simps(1) [THEN trans])
    (simp_all add: assms [unfolded ReloadRulesRequest_good_def] ReloadRulesRequest_lookup plain_keys ReloadRulesRequest_props_def)

lemma ReloadRulesRequest_guarded: "ReloadRulesRequest_verify v = ok None \<Longrightarrow> all_plain v \<Longrightarrow> \<exists>m. ReloadRulesRequest_fromObject v = ok m"
  unfolding ReloadRulesRequest_verify_def ReloadRulesRequest_fromObject_def
  by (rule guards_object, rule guards_Nil,
      assumption, assumption) simp

interpretation ReloadRulesRequest_plain: message_plain ReloadRulesRequest_obj ReloadRulesRequest_verify ReloadRulesRequest_fromObject ReloadRulesRequest_toObject ReloadRulesRequest_good
  by unfold_locales
    (use ReloadRulesRequest_accepts ReloadRulesRequest_round ReloadRulesRequest_guarded in \<open>auto simp: ReloadRulesRequest_obj_def ReloadRulesRequest_verify_def dest: verified_object\<close>)

subsection \<open>ReloadRulesResponse\<close>

definition ReloadRulesResponse_init :: props where
  "ReloadRulesResponse_init = [(js_str ''errors'', Array [])]"

definition ReloadRulesResponse_construct :: "js \<Rightarrow> js res" where
  "ReloadRulesResponse_construct = construct ''ReloadRulesResponse'' ReloadRulesResponse_init None"

definition ReloadRulesResponse_create :: "js \<Rightarrow> js res" where
  "ReloadRulesResponse_create properties = ReloadRulesResponse_construct properties"

definition ReloadRulesResponse_checks :: "check list" where
  "ReloadRulesResponse_checks =
     [v_field ''rulesLoaded'' v_integer,
      v_field ''errors'' v_strings]"

definition ReloadRulesResponse_verify :: "js \<Rightarrow> string option res" where
  "ReloadRulesResponse_verify = verify_with ReloadRulesResponse_checks"

definition ReloadRulesResponse_setters :: "setter list" where
  "ReloadRulesResponse_setters =
     [f_field ''rulesLoaded'' c_uint32,
      f_truthy ''errors'' (c_array ''ReloadRulesResponse'' ''errors'' c_string)]"

definition ReloadRulesResponse_fromObject :: "js \<Rightarrow> js res" where
  "ReloadRulesResponse_fromObject = from_object ''ReloadRulesResponse'' ReloadRulesResponse_init ReloadRulesResponse_setters"

definition ReloadRulesResponse_writers :: "writer list" where
  "ReloadRulesResponse_writers =
     [d_array ''errors'',
      d_value ''rulesLoaded'' (int_js 0),
      t_field ''rulesLoaded'' t_same,
      t_list ''errors'' t_same]"

definition ReloadRulesResponse_toObject :: "js \<Rightarrow> to_options option \<Rightarrow> js res" where
  "ReloadRulesResponse_toObject = to_object ReloadRulesResponse_writers"

definition ReloadRulesResponse_toJSON :: "js \<Rightarrow> js res" where
  "ReloadRulesResponse_toJSON message = ReloadRulesResponse_toObject message (Some toJSONOptions)"

definition ReloadRulesResponse_getTypeUrl :: "jstring option \<Rightarrow> jstring" where
  "ReloadRulesResponse_getTypeUrl = type_url ''ReloadRulesResponse''"

definition ReloadRulesResponse_props :: "ReloadRulesResponse \<Rightarrow> props" where
  "ReloadRulesResponse_props m =
     [(js_str ''errors'', Array (map String (ReloadRulesResponse_errors m)))] @
     opt_prop ''rulesLoaded'' int_js (ReloadRulesResponse_rulesLoaded m)"

definition ReloadRulesResponse_obj :: "ReloadRulesResponse \<Rightarrow> js" where
  "ReloadRulesResponse_obj m = Object ''ReloadRulesResponse'' (ReloadRulesResponse_props m)"

definition ReloadRulesResponse_good :: "ReloadRulesResponse \<Rightarrow> bool" where
  "ReloadRulesResponse_good m \<longleftrightarrow> opt_all uint32_ok (ReloadRulesResponse_rulesLoaded m)"

lemma ReloadRulesResponse_lookup:
  "lookup (ReloadRulesResponse_props m) ''rulesLoaded'' = map_option int_js (ReloadRulesResponse_rulesLoaded m)"
  "lookup (ReloadRulesResponse_props m) ''errors'' = Some (Array (map String (ReloadRulesResponse_errors m)))"
  "\<not> shadows (ReloadRulesResponse_props m)"
  by (simp_all add: ReloadRulesResponse_props_def shadows_def)

lemma ReloadRulesResponse_accepts:
  assumes "ReloadRulesResponse_good m"
  shows "ReloadRulesResponse_verify (ReloadRulesResponse_obj m) = ok None"
  unfolding ReloadRulesResponse_verify_def ReloadRulesResponse_checks_def ReloadRulesResponse_obj_def
  by (rule runs_verify [where members = "[]"],
      rule uint32_plain.runs_opt [where x = "ReloadRulesResponse_rulesLoaded m"],
      rule string_plain.runs_list [where xs = "ReloadRulesResponse_errors m"],
      rule runs_Nil)
    (simp_all add: ReloadRulesResponse_lookup assms [unfolded ReloadRulesResponse_good_def] at_most_one.simps(1))

lemma ReloadRulesResponse_round:
  assumes "ReloadRulesResponse_good m" "\<not> to_defaults opts"
  shows "\<exists>ps. ReloadRulesResponse_toObject (ReloadRulesResponse_obj m) (Some opts) = ok (plain ps) \<and>
    ReloadRulesResponse_fromObject (plain ps) = ok (ReloadRulesResponse_obj m)"
  unfolding ReloadRulesResponse_toObject_def ReloadRulesResponse_writers_def ReloadRulesResponse_fromObject_def ReloadRulesResponse_setters_def ReloadRulesResponse_obj_def
  by (rule round_trip, simp,
      rule all_yield_Cons, rule all_yield_Cons, rule all_yield_Cons, rule all_yield_Cons,
      rule all_yield_Nil,
      (rule string_plain.yields_list [where xs = "ReloadRulesResponse_errors m"]; simp add: assms [unfolded ReloadRulesResponse_good_def] ReloadRulesResponse_lookup plain_keys),
      (rule uint32_plain.yields_opt [where x = "ReloadRulesResponse_rulesLoaded m"]; simp add: assms [unfolded ReloadRulesResponse_good_def] ReloadRulesResponse_lookup plain_keys),
      (rule yields_default(1); simp add: assms [unfolded ReloadRulesResponse_good_def] ReloadRulesResponse_lookup plain_keys),
      (rule yields_array; simp add: assms [unfolded ReloadRulesResponse_good_def] ReloadRulesResponse_lookup plain_keys),
      rule uint32_plain.build_opt [where x = "ReloadRulesResponse_rulesLoaded m" and opts = opts],
      rule string_plain.build_list [where xs = "ReloadRulesResponse_errors m" and opts = opts],
      rule build.simps(1) [THEN trans])
    (simp_all add: assms [unfolded ReloadRulesResponse_good_def] ReloadRulesResponse_lookup plain_keys ReloadRulesResponse_props_def ReloadRulesResponse_init_def)

lemma ReloadRulesResponse_guarded: "ReloadRulesResponse_verify v = ok None \<Longrightarrow> all_plain v \<Longrightarrow> \<exists>m. ReloadRulesResponse_fromObject v = ok m"
  unfolding ReloadRulesResponse_verify_def ReloadRulesResponse_checks_def ReloadRulesResponse_fromObject_def ReloadRulesResponse_setters_def
  by (rule guards_object, rule guards_Cons, rule guards_Cons, rule guards_Nil,
      (rule string_plain.guard_list, simp),
      (rule uint32_plain.guard_opt(1), simp),
      assumption, assumption) simp

interpretation ReloadRulesResponse_plain: message_plain ReloadRulesResponse_obj ReloadRulesResponse_verify ReloadRulesResponse_fromObject ReloadRulesResponse_toObject ReloadRulesResponse_good
  by unfold_locales
    (use ReloadRulesResponse_accepts ReloadRulesResponse_round ReloadRulesResponse_guarded in \<open>auto simp: ReloadRulesResponse_obj_def ReloadRulesResponse_verify_def dest: verified_object\<close>)

subsection \<open>LaunchGUIRequest\<close>

definition LaunchGUIRequest_construct :: "js \<Rightarrow> js res" where
  "LaunchGUIRequest_construct = construct ''LaunchGUIRequest'' [] None"

definition LaunchGUIRequest_create :: "js \<Rightarrow> js res" where
  "LaunchGUIRequest_create properties = LaunchGUIRequest_construct properties"

definition LaunchGUIRequest_checks :: "check list" where
  "LaunchGUIRequest_checks =
     [v_field ''path'' v_string]"

definition LaunchGUIRequest_verify :: "js \<Rightarrow> string option res" where
  "LaunchGUIRequest_verify = verify_with LaunchGUIRequest_checks"

definition LaunchGUIRequest_setters :: "setter list" where
  "LaunchGUIRequest_setters =
     [f_field ''path'' c_string]"

definition LaunchGUIRequest_fromObject :: "js \<Rightarrow> js res" where
  "LaunchGUIRequest_fromObject = from_object ''LaunchGUIRequest'' [] LaunchGUIRequest_setters"

definition LaunchGUIRequest_writers :: "writer list" where
  "LaunchGUIRequest_writers =
     [d_value ''path'' (String []),
      t_field ''path'' t_same]"

definition LaunchGUIRequest_toObject :: "js \<Rightarrow> to_options option \<Rightarrow> js res" where
  "LaunchGUIRequest_toObject = to_object LaunchGUIRequest_writers"

definition LaunchGUIRequest_toJSON :: "js \<Rightarrow> js res" where
  "LaunchGUIRequest_toJSON message = LaunchGUIRequest_toObject message (Some toJSONOptions)"

definition LaunchGUIRequest_getTypeUrl :: "jstring option \<Rightarrow> jstring" where
  "LaunchGUIRequest_getTypeUrl = type_url ''LaunchGUIRequest''"

definition LaunchGUIRequest_props :: "LaunchGUIRequest \<Rightarrow> props" where
  "LaunchGUIRequest_props m =
     opt_prop ''path'' String (LaunchGUIRequest_path m)"

definition LaunchGUIRequest_obj :: "LaunchGUIRequest \<Rightarrow> js" where
  "LaunchGUIRequest_obj m = Object ''LaunchGUIRequest'' (LaunchGUIRequest_props m)"

definition LaunchGUIRequest_good :: "LaunchGUIRequest \<Rightarrow> bool" where
  "LaunchGUIRequest_good m \<longleftrightarrow> True"

lemma LaunchGUIRequest_lookup:
  "lookup (LaunchGUIRequest_props m) ''path'' = map_option String (LaunchGUIRequest_path m)"
  "\<not> shadows (LaunchGUIRequest_props m)"
  by (simp_all add: LaunchGUIRequest_props_def shadows_def)

lemma LaunchGUIRequest_accepts:
  assumes "LaunchGUIRequest_good m"
  shows "LaunchGUIRequest_verify (LaunchGUIRequest_obj m) = ok None"
  unfolding LaunchGUIRequest_verify_def LaunchGUIRequest_checks_def LaunchGUIRequest_obj_def
  by (rule runs_verify [where members = "[]"],
      rule string_plain.runs_opt [where x = "LaunchGUIRequest_path m"],
      rule runs_Nil)
    (simp_all add: LaunchGUIRequest_lookup assms [unfolded LaunchGUIRequest_good_def] at_most_one.simps(1))

lemma LaunchGUIRequest_round:
  assumes "LaunchGUIRequest_good m" "\<not> to_defaults opts"
  shows "\<exists>ps. LaunchGUIRequest_toObject (LaunchGUIRequest_obj m) (Some opts) = ok (plain ps) \<and>
    LaunchGUIRequest_fromObject (plain ps) = ok (LaunchGUIRequest_obj m)"
  unfolding LaunchGUIRequest_toObject_def LaunchGUIRequest_writers_def LaunchGUIRequest_fromObject_def LaunchGUIRequest_setters_def LaunchGUIRequest_obj_def
  by (rule round_trip, simp,
      rule all_yield_Cons, rule all_yield_Cons, rule all_yield_Nil,
      (rule string_plain.yields_opt [where x = "LaunchGUIRequest_path m"]; simp add: assms [unfolded LaunchGUIRequest_good_def] LaunchGUIRequest_lookup plain_keys),
      (rule yields_default(1); simp add: assms [unfolded LaunchGUIRequest_good_def] LaunchGUIRequest_lookup plain_keys),
      rule string_plain.build_opt [where x = "LaunchGUIRequest_path m" and opts = opts],
      rule build.simps(1) [THEN trans])
    (simp_all add: assms [unfolded LaunchGUIRequest_good_def] LaunchGUIRequest_lookup plain_keys LaunchGUIRequest_props_def)

lemma LaunchGUIRequest_guarded: "LaunchGUIRequest_verify v = ok None \<Longrightarrow> all_plain v \<Longrightarrow> \<exists>m. LaunchGUIRequest_fromObject v = ok m"
  unfolding LaunchGUIRequest_verify_def LaunchGUIRequest_checks_def LaunchGUIRequest_fromObject_def LaunchGUIRequest_setters_def
  by (rule guards_object, rule guards_Cons, rule guards_Nil,
      (rule string_plain.guard_opt(1), simp),
      assumption, assumption) simp

interpretation LaunchGUIRequest_plain: message_plain LaunchGUIRequest_obj LaunchGUIRequest_verify LaunchGUIRequest_fromObject LaunchGUIRequest_toObject LaunchGUIRequest_good
  by unfold_locales
    (use LaunchGUIRequest_accepts LaunchGUIRequest_round LaunchGUIRequest_guarded in \<open>auto simp: LaunchGUIRequest_obj_def LaunchGUIRequest_verify_def dest: verified_object\<close>)

subsection \<open>LaunchGUIResponse\<close>

definition LaunchGUIResponse_construct :: "js \<Rightarrow> js res" where
  "LaunchGUIResponse_construct = construct ''LaunchGUIResponse'' [] None"

definition LaunchGUIResponse_create :: "js \<Rightarrow> js res" where
  "LaunchGUIResponse_create properties = LaunchGUIResponse_construct properties"

definition LaunchGUIResponse_checks :: "check list" where
  "LaunchGUIResponse_checks =
     [v_field ''alreadyRunning'' v_bool]"

definition LaunchGUIResponse_verify :: "js \<Rightarrow> string option res" where
  "LaunchGUIResponse_verify = verify_with LaunchGUIResponse_checks"

definition LaunchGUIResponse_setters :: "setter list" where
  "LaunchGUIResponse_setters =
     [f_field ''alreadyRunning'' c_bool]"

definition LaunchGUIResponse_fromObject :: "js \<Rightarrow> js res" where
  "LaunchGUIResponse_fromObject = from_object ''LaunchGUIResponse'' [] LaunchGUIResponse_setters"

definition LaunchGUIResponse_writers :: "writer list" where
  "LaunchGUIResponse_writers =
     [d_value ''alreadyRunning'' (Boolean False),
      t_field ''alreadyRunning'' t_same]"

definition LaunchGUIResponse_toObject :: "js \<Rightarrow> to_options option \<Rightarrow> js res" where
  "LaunchGUIResponse_toObject = to_object LaunchGUIResponse_writers"

definition LaunchGUIResponse_toJSON :: "js \<Rightarrow> js res" where
  "LaunchGUIResponse_toJSON message = LaunchGUIResponse_toObject message (Some toJSONOptions)"

definition LaunchGUIResponse_getTypeUrl :: "jstring option \<Rightarrow> jstring" where
  "LaunchGUIResponse_getTypeUrl = type_url ''LaunchGUIResponse''"

definition LaunchGUIResponse_props :: "LaunchGUIResponse \<Rightarrow> props" where
  "LaunchGUIResponse_props m =
     opt_prop ''alreadyRunning'' Boolean (LaunchGUIResponse_alreadyRunning m)"

definition LaunchGUIResponse_obj :: "LaunchGUIResponse \<Rightarrow> js" where
  "LaunchGUIResponse_obj m = Object ''LaunchGUIResponse'' (LaunchGUIResponse_props m)"

definition LaunchGUIResponse_good :: "LaunchGUIResponse \<Rightarrow> bool" where
  "LaunchGUIResponse_good m \<longleftrightarrow> True"

lemma LaunchGUIResponse_lookup:
  "lookup (LaunchGUIResponse_props m) ''alreadyRunning'' = map_option Boolean (LaunchGUIResponse_alreadyRunning m)"
  "\<not> shadows (LaunchGUIResponse_props m)"
  by (simp_all add: LaunchGUIResponse_props_def shadows_def)

lemma LaunchGUIResponse_accepts:
  assumes "LaunchGUIResponse_good m"
  shows "LaunchGUIResponse_verify (LaunchGUIResponse_obj m) = ok None"
  unfolding LaunchGUIResponse_verify_def LaunchGUIResponse_checks_def LaunchGUIResponse_obj_def
  by (rule runs_verify [where members = "[]"],
      rule bool_plain.runs_opt [where x = "LaunchGUIResponse_alreadyRunning m"],
      rule runs_Nil)
    (simp_all add: LaunchGUIResponse_lookup assms [unfolded LaunchGUIResponse_good_def] at_most_one.simps(1))

lemma LaunchGUIResponse_round:
  assumes "LaunchGUIResponse_good m" "\<not> to_defaults opts"
  shows "\<exists>ps. LaunchGUIResponse_toObject (LaunchGUIResponse_obj m) (Some opts) = ok (plain ps) \<and>
    LaunchGUIResponse_fromObject (plain ps) = ok (LaunchGUIResponse_obj m)"
  unfolding LaunchGUIResponse_toObject_def LaunchGUIResponse_writers_def LaunchGUIResponse_fromObject_def LaunchGUIResponse_setters_def LaunchGUIResponse_obj_def
  by (rule round_trip, simp,
      rule all_yield_Cons, rule all_yield_Cons, rule all_yield_Nil,
      (rule bool_plain.yields_opt [where x = "LaunchGUIResponse_alreadyRunning m"]; simp add: assms [unfolded LaunchGUIResponse_good_def] LaunchGUIResponse_lookup plain_keys),
      (rule yields_default(1); simp add: assms [unfolded LaunchGUIResponse_good_def] LaunchGUIResponse_lookup plain_keys),
      rule bool_plain.build_opt [where x = "LaunchGUIResponse_alreadyRunning m" and opts = opts],
      rule build.simps(1) [THEN trans])
    (simp_all add: assms [unfolded LaunchGUIResponse_good_def] LaunchGUIResponse_lookup plain_keys LaunchGUIResponse_props_def)

lemma LaunchGUIResponse_guarded: "LaunchGUIResponse_verify v = ok None \<Longrightarrow> all_plain v \<Longrightarrow> \<exists>m. LaunchGUIResponse_fromObject v = ok m"
  unfolding LaunchGUIResponse_verify_def LaunchGUIResponse_checks_def LaunchGUIResponse_fromObject_def LaunchGUIResponse_setters_def
  by (rule guards_object, rule guards_Cons, rule guards_Nil,
      (rule bool_plain.guard_opt(1), simp),
      assumption, assumption) simp

interpretation LaunchGUIResponse_plain: message_plain LaunchGUIResponse_obj LaunchGUIResponse_verify LaunchGUIResponse_fromObject LaunchGUIResponse_toObject LaunchGUIResponse_good
  by unfold_locales
    (use LaunchGUIResponse_accepts LaunchGUIResponse_round LaunchGUIResponse_guarded in \<open>auto simp: LaunchGUIResponse_obj_def LaunchGUIResponse_verify_def dest: verified_object\<close>)

subsection \<open>FileTaggedEvent\<close>

definition FileTaggedEvent_init :: props where
  "FileTaggedEvent_init = [(js_str ''added'', Array []), (js_str ''removed'', Array [])]"

definition FileTaggedEvent_construct :: "js \<Rightarrow> js res" where
  "FileTaggedEvent_construct = construct ''FileTaggedEvent'' FileTaggedEvent_init None"

definition FileTaggedEvent_create :: "js \<Rightarrow> js res" where
  "FileTaggedEvent_create properties = FileTaggedEvent_construct properties"

definition FileTaggedEvent_checks :: "check list" where
  "FileTaggedEvent_checks =
     [v_field ''path'' v_string,
      v_field ''added'' v_strings,
      v_field ''removed'' v_strings]"

definition FileTaggedEvent_verify :: "js \<Rightarrow> string option res" where
  "FileTaggedEvent_verify = verify_with FileTaggedEvent_checks"

definition FileTaggedEvent_setters :: "setter list" where
  "FileTaggedEvent_setters =
     [f_field ''path'' c_string,
      f_truthy ''added'' (c_array ''FileTaggedEvent'' ''added'' c_string),
      f_truthy ''removed'' (c_array ''FileTaggedEvent'' ''removed'' c_string)]"

definition FileTaggedEvent_fromObject :: "js \<Rightarrow> js res" where
  "FileTaggedEvent_fromObject = from_object ''FileTaggedEvent'' FileTaggedEvent_init FileTaggedEvent_setters"

definition FileTaggedEvent_writers :: "writer list" where
  "FileTaggedEvent_writers =
     [d_array ''added'',
      d_array ''removed'',
      d_value ''path'' (String []),
      t_field ''path'' t_same,
      t_list ''added'' t_same,
      t_list ''removed'' t_same]"

definition FileTaggedEvent_toObject :: "js \<Rightarrow> to_options option \<Rightarrow> js res" where
  "FileTaggedEvent_toObject = to_object FileTaggedEvent_writers"

definition FileTaggedEvent_toJSON :: "js \<Rightarrow> js res" where
  "FileTaggedEvent_toJSON message = FileTaggedEvent_toObject message (Some toJSONOptions)"

definition FileTaggedEvent_getTypeUrl :: "jstring option \<Rightarrow> jstring" where
  "FileTaggedEvent_getTypeUrl = type_url ''FileTaggedEvent''"

definition FileTaggedEvent_props :: "FileTaggedEvent \<Rightarrow> props" where
  "FileTaggedEvent_props m =
     [(js_str ''added'', Array (map String (FileTaggedEvent_added m))),
      (js_str ''removed'', Array (map String (FileTaggedEvent_removed m)))] @
     opt_prop ''path'' String (FileTaggedEvent_path m)"

definition FileTaggedEvent_obj :: "FileTaggedEvent \<Rightarrow> js" where
  "FileTaggedEvent_obj m = Object ''FileTaggedEvent'' (FileTaggedEvent_props m)"

definition FileTaggedEvent_good :: "FileTaggedEvent \<Rightarrow> bool" where
  "FileTaggedEvent_good m \<longleftrightarrow> True"

lemma FileTaggedEvent_lookup:
  "lookup (FileTaggedEvent_props m) ''path'' = map_option String (FileTaggedEvent_path m)"
  "lookup (FileTaggedEvent_props m) ''added'' = Some (Array (map String (FileTaggedEvent_added m)))"
  "lookup (FileTaggedEvent_props m) ''removed'' = Some (Array (map String (FileTaggedEvent_removed m)))"
  "\<not> shadows (FileTaggedEvent_props m)"
  by (simp_all add: FileTaggedEvent_props_def shadows_def)

lemma FileTaggedEvent_accepts:
  assumes "FileTaggedEvent_good m"
  shows "FileTaggedEvent_verify (FileTaggedEvent_obj m) = ok None"
  unfolding FileTaggedEvent_verify_def FileTaggedEvent_checks_def FileTaggedEvent_obj_def
  by (rule runs_verify [where members = "[]"],
      rule string_plain.runs_opt [where x = "FileTaggedEvent_path m"],
      rule string_plain.runs_list [where xs = "FileTaggedEvent_added m"],
      rule string_plain.runs_list [where xs = "FileTaggedEvent_removed m"],
      rule runs_Nil)
    (simp_all add: FileTaggedEvent_lookup assms [unfolded FileTaggedEvent_good_def] at_most_one.simps(1))

lemma FileTaggedEvent_round:
  assumes "FileTaggedEvent_good m" "\<not> to_defaults opts"
  shows "\<exists>ps. FileTaggedEvent_toObject (FileTaggedEvent_obj m) (Some opts) = ok (plain ps) \<and>
    FileTaggedEvent_fromObject (plain ps) = ok (FileTaggedEvent_obj m)"
  unfolding FileTaggedEvent_toObject_def FileTaggedEvent_writers_def FileTaggedEvent_fromObject_def FileTaggedEvent_setters_def FileTaggedEvent_obj_def
  by (rule round_trip, simp,
      rule all_yield_Cons, rule all_yield_Cons, rule all_yield_Cons, rule all_yield_Cons,
      rule all_yield_Cons, rule all_yield_Cons, rule all_yield_Nil,
      (rule string_plain.yields_list [where xs = "FileTaggedEvent_removed m"]; simp add: assms [unfolded FileTaggedEvent_good_def] FileTaggedEvent_lookup plain_keys),
      (rule string_plain.yields_list [where xs = "FileTaggedEvent_added m"]; simp add: assms [unfolded FileTaggedEvent_good_def] FileTaggedEvent_lookup plain_keys),
      (rule string_plain.yields_opt [where x = "FileTaggedEvent_path m"]; simp add: assms [unfolded FileTaggedEvent_good_def] FileTaggedEvent_lookup plain_keys),
      (rule yields_default(1); simp add: assms [unfolded FileTaggedEvent_good_def] FileTaggedEvent_lookup plain_keys),
      (rule yields_array; simp add: assms [unfolded FileTaggedEvent_good_def] FileTaggedEvent_lookup plain_keys),
      (rule yields_array; simp add: assms [unfolded FileTaggedEvent_good_def] FileTaggedEvent_lookup plain_keys),
      rule string_plain.build_opt [where x = "FileTaggedEvent_path m" and opts = opts],
      rule string_plain.build_list [where xs = "FileTaggedEvent_added m" and opts = opts],
      rule string_plain.build_list [where xs = "FileTaggedEvent_removed m" and opts = opts],
      rule build.simps(1) [THEN trans])
    (simp_all add: assms [unfolded FileTaggedEvent_good_def] FileTaggedEvent_lookup plain_keys FileTaggedEvent_props_def FileTaggedEvent_init_def)

lemma FileTaggedEvent_guarded: "FileTaggedEvent_verify v = ok None \<Longrightarrow> all_plain v \<Longrightarrow> \<exists>m. FileTaggedEvent_fromObject v = ok m"
  unfolding FileTaggedEvent_verify_def FileTaggedEvent_checks_def FileTaggedEvent_fromObject_def FileTaggedEvent_setters_def
  by (rule guards_object, rule guards_Cons, rule guards_Cons, rule guards_Cons, rule guards_Nil,
      (rule string_plain.guard_list, simp),
      (rule string_plain.guard_list, simp),
      (rule string_plain.guard_opt(1), simp),
      assumption, assumption) simp

interpretation FileTaggedEvent_plain: message_plain FileTaggedEvent_obj FileTaggedEvent_verify FileTaggedEvent_fromObject FileTaggedEvent_toObject FileTaggedEvent_good
  by unfold_locales
    (use FileTaggedEvent_accepts FileTaggedEvent_round FileTaggedEvent_guarded in \<open>auto simp: FileTaggedEvent_obj_def FileTaggedEvent_verify_def dest: verified_object\<close>)

subsection \<open>IndexUpdatedEvent\<close>

definition IndexUpdatedEvent_construct :: "js \<Rightarrow> js res" where
  "IndexUpdatedEvent_construct = construct ''IndexUpdatedEvent'' [] None"

definition IndexUpdatedEvent_create :: "js \<Rightarrow> js res" where
  "IndexUpdatedEvent_create properties = IndexUpdatedEvent_construct properties"

definition IndexUpdatedEvent_checks :: "check list" where
  "IndexUpdatedEvent_checks =
     [v_field ''filesTotal'' v_long,
      v_field ''tagsTotal'' v_long]"

definition IndexUpdatedEvent_verify :: "js \<Rightarrow> string option res" where
  "IndexUpdatedEvent_verify = verify_with IndexUpdatedEvent_checks"

definition IndexUpdatedEvent_setters :: "setter list" where
  "IndexUpdatedEvent_setters =
     [f_opt ''filesTotal'' (c_long True),
      f_opt ''tagsTotal'' (c_long True)]"

definition IndexUpdatedEvent_fromObject :: "js \<Rightarrow> js res" where
  "IndexUpdatedEvent_fromObject = from_object ''IndexUpdatedEvent'' [] IndexUpdatedEvent_setters"

definition IndexUpdatedEvent_writers :: "writer list" where
  "IndexUpdatedEvent_writers =
     [d_long ''filesTotal'',
      d_long ''tagsTotal'',
      t_field ''filesTotal'' (t_long True),
      t_field ''tagsTotal'' (t_long True)]"

definition IndexUpdatedEvent_toObject :: "js \<Rightarrow> to_options option \<Rightarrow> js res" where
  "IndexUpdatedEvent_toObject = to_object IndexUpdatedEvent_writers"

definition IndexUpdatedEvent_toJSON :: "js \<Rightarrow> js res" where
  "IndexUpdatedEvent_toJSON message = IndexUpdatedEvent_toObject message (Some toJSONOptions)"

definition IndexUpdatedEvent_getTypeUrl :: "jstring option \<Rightarrow> jstring" where
  "IndexUpdatedEvent_getTypeUrl = type_url ''IndexUpdatedEvent''"

definition IndexUpdatedEvent_props :: "IndexUpdatedEvent \<Rightarrow> props" where
  "IndexUpdatedEvent_props m =
     opt_prop ''filesTotal'' int_js (IndexUpdatedEvent_filesTotal m) @
     opt_prop ''tagsTotal'' int_js (IndexUpdatedEvent_tagsTotal m)"

definition IndexUpdatedEvent_obj :: "IndexUpdatedEvent \<Rightarrow> js" where
  "IndexUpdatedEvent_obj m = Object ''IndexUpdatedEvent'' (IndexUpdatedEvent_props m)"

definition IndexUpdatedEvent_good :: "IndexUpdatedEvent \<Rightarrow> bool" where
  "IndexUpdatedEvent_good m \<longleftrightarrow> opt_all uint64_ok (IndexUpdatedEvent_filesTotal m) \<and>
     opt_all uint64_ok (IndexUpdatedEvent_tagsTotal m)"

lemma IndexUpdatedEvent_lookup:
  "lookup (IndexUpdatedEvent_props m) ''filesTotal'' = map_option int_js (IndexUpdatedEvent_filesTotal m)"
  "lookup (IndexUpdatedEvent_props m) ''tagsTotal'' = map_option int_js (IndexUpdatedEvent_tagsTotal m)"
  "\<not> shadows (IndexUpdatedEvent_props m)"
  by (simp_all add: IndexUpdatedEvent_props_def shadows_def)

lemma IndexUpdatedEvent_accepts:
  assumes "IndexUpdatedEvent_good m"
  shows "IndexUpdatedEvent_verify (IndexUpdatedEvent_obj m) = ok None"
  unfolding IndexUpdatedEvent_verify_def IndexUpdatedEvent_checks_def IndexUpdatedEvent_obj_def
  by (rule runs_verify [where members = "[]"],
      rule uint64_plain.runs_opt [where x = "IndexUpdatedEvent_filesTotal m"],
      rule uint64_plain.runs_opt [where x = "IndexUpdatedEvent_tagsTotal m"],
      rule runs_Nil)
    (simp_all add: IndexUpdatedEvent_lookup assms [unfolded IndexUpdatedEvent_good_def] at_most_one.simps(1))

lemma IndexUpdatedEvent_round:
  assumes "IndexUpdatedEvent_good m" "\<not> to_defaults opts"
  shows "\<exists>ps. IndexUpdatedEvent_toObject (IndexUpdatedEvent_obj m) (Some opts) = ok (plain ps) \<and>
    IndexUpdatedEvent_fromObject (plain ps) = ok (IndexUpdatedEvent_obj m)"
  unfolding IndexUpdatedEvent_toObject_def IndexUpdatedEvent_writers_def IndexUpdatedEvent_fromObject_def IndexUpdatedEvent_setters_def IndexUpdatedEvent_obj_def
  by (rule round_trip, simp,
      rule all_yield_Cons, rule all_yield_Cons, rule all_yield_Cons, rule all_yield_Cons,
      rule all_yield_Nil,
      (rule uint64_plain.yields_opt [where x = "IndexUpdatedEvent_tagsTotal m"]; simp add: assms [unfolded IndexUpdatedEvent_good_def] IndexUpdatedEvent_lookup plain_keys),
      (rule uint64_plain.yields_opt [where x = "IndexUpdatedEvent_filesTotal m"]; simp add: assms [unfolded IndexUpdatedEvent_good_def] IndexUpdatedEvent_lookup plain_keys),
      (rule yields_default(2); simp add: assms [unfolded IndexUpdatedEvent_good_def] IndexUpdatedEvent_lookup plain_keys),
      (rule yields_default(2); simp add: assms [unfolded IndexUpdatedEvent_good_def] IndexUpdatedEvent_lookup plain_keys),
      rule uint64_plain.build_opt [where x = "IndexUpdatedEvent_filesTotal m" and opts = opts],
      rule uint64_plain.build_opt [where x = "IndexUpdatedEvent_tagsTotal m" and opts = opts],
      rule build.simps(1) [THEN trans])
    (simp_all add: assms [unfolded IndexUpdatedEvent_good_def] IndexUpdatedEvent_lookup plain_keys IndexUpdatedEvent_props_def)

lemma IndexUpdatedEvent_guarded: "IndexUpdatedEvent_verify v = ok None \<Longrightarrow> all_plain v \<Longrightarrow> \<exists>m. IndexUpdatedEvent_fromObject v = ok m"
  unfolding IndexUpdatedEvent_verify_def IndexUpdatedEvent_checks_def IndexUpdatedEvent_fromObject_def IndexUpdatedEvent_setters_def
  by (rule guards_object, rule guards_Cons, rule guards_Cons, rule guards_Nil,
      (rule uint64_plain.guard_opt(1), simp),
      (rule uint64_plain.guard_opt(1), simp),
      assumption, assumption) simp

interpretation IndexUpdatedEvent_plain: message_plain IndexUpdatedEvent_obj IndexUpdatedEvent_verify IndexUpdatedEvent_fromObject IndexUpdatedEvent_toObject IndexUpdatedEvent_good
  by unfold_locales
    (use IndexUpdatedEvent_accepts IndexUpdatedEvent_round IndexUpdatedEvent_guarded in \<open>auto simp: IndexUpdatedEvent_obj_def IndexUpdatedEvent_verify_def dest: verified_object\<close>)

subsection \<open>DaemonStateChangedEvent\<close>

definition DaemonStateChangedEvent_construct :: "js \<Rightarrow> js res" where
  "DaemonStateChangedEvent_construct = construct ''DaemonStateChangedEvent'' [] None"

definition DaemonStateChangedEvent_create :: "js \<Rightarrow> js res" where
  "DaemonStateChangedEvent_create properties = DaemonStateChangedEvent_construct properties"

definition DaemonStateChangedEvent_checks :: "check list" where
  "DaemonStateChangedEvent_checks =
     [v_field ''state'' v_string]"

definition DaemonStateChangedEvent_verify :: "js \<Rightarrow> string option res" where
  "DaemonStateChangedEvent_verify = verify_with DaemonStateChangedEvent_checks"

definition DaemonStateChangedEvent_setters :: "setter list" where
  "DaemonStateChangedEvent_setters =
     [f_field ''state'' c_string]"

definition DaemonStateChangedEvent_fromObject :: "js \<Rightarrow> js res" where
  "DaemonStateChangedEvent_fromObject = from_object ''DaemonStateChangedEvent'' [] DaemonStateChangedEvent_setters"

definition DaemonStateChangedEvent_writers :: "writer list" where
  "DaemonStateChangedEvent_writers =
     [d_value ''state'' (String []),
      t_field ''state'' t_same]"

definition DaemonStateChangedEvent_toObject :: "js \<Rightarrow> to_options option \<Rightarrow> js res" where
  "DaemonStateChangedEvent_toObject = to_object DaemonStateChangedEvent_writers"

definition DaemonStateChangedEvent_toJSON :: "js \<Rightarrow> js res" where
  "DaemonStateChangedEvent_toJSON message = DaemonStateChangedEvent_toObject message (Some toJSONOptions)"

definition DaemonStateChangedEvent_getTypeUrl :: "jstring option \<Rightarrow> jstring" where
  "DaemonStateChangedEvent_getTypeUrl = type_url ''DaemonStateChangedEvent''"

definition DaemonStateChangedEvent_props :: "DaemonStateChangedEvent \<Rightarrow> props" where
  "DaemonStateChangedEvent_props m =
     opt_prop ''state'' String (DaemonStateChangedEvent_state m)"

definition DaemonStateChangedEvent_obj :: "DaemonStateChangedEvent \<Rightarrow> js" where
  "DaemonStateChangedEvent_obj m = Object ''DaemonStateChangedEvent'' (DaemonStateChangedEvent_props m)"

definition DaemonStateChangedEvent_good :: "DaemonStateChangedEvent \<Rightarrow> bool" where
  "DaemonStateChangedEvent_good m \<longleftrightarrow> True"

lemma DaemonStateChangedEvent_lookup:
  "lookup (DaemonStateChangedEvent_props m) ''state'' = map_option String (DaemonStateChangedEvent_state m)"
  "\<not> shadows (DaemonStateChangedEvent_props m)"
  by (simp_all add: DaemonStateChangedEvent_props_def shadows_def)

lemma DaemonStateChangedEvent_accepts:
  assumes "DaemonStateChangedEvent_good m"
  shows "DaemonStateChangedEvent_verify (DaemonStateChangedEvent_obj m) = ok None"
  unfolding DaemonStateChangedEvent_verify_def DaemonStateChangedEvent_checks_def DaemonStateChangedEvent_obj_def
  by (rule runs_verify [where members = "[]"],
      rule string_plain.runs_opt [where x = "DaemonStateChangedEvent_state m"],
      rule runs_Nil)
    (simp_all add: DaemonStateChangedEvent_lookup assms [unfolded DaemonStateChangedEvent_good_def] at_most_one.simps(1))

lemma DaemonStateChangedEvent_round:
  assumes "DaemonStateChangedEvent_good m" "\<not> to_defaults opts"
  shows "\<exists>ps. DaemonStateChangedEvent_toObject (DaemonStateChangedEvent_obj m) (Some opts) = ok (plain ps) \<and>
    DaemonStateChangedEvent_fromObject (plain ps) = ok (DaemonStateChangedEvent_obj m)"
  unfolding DaemonStateChangedEvent_toObject_def DaemonStateChangedEvent_writers_def DaemonStateChangedEvent_fromObject_def DaemonStateChangedEvent_setters_def DaemonStateChangedEvent_obj_def
  by (rule round_trip, simp,
      rule all_yield_Cons, rule all_yield_Cons, rule all_yield_Nil,
      (rule string_plain.yields_opt [where x = "DaemonStateChangedEvent_state m"]; simp add: assms [unfolded DaemonStateChangedEvent_good_def] DaemonStateChangedEvent_lookup plain_keys),
      (rule yields_default(1); simp add: assms [unfolded DaemonStateChangedEvent_good_def] DaemonStateChangedEvent_lookup plain_keys),
      rule string_plain.build_opt [where x = "DaemonStateChangedEvent_state m" and opts = opts],
      rule build.simps(1) [THEN trans])
    (simp_all add: assms [unfolded DaemonStateChangedEvent_good_def] DaemonStateChangedEvent_lookup plain_keys DaemonStateChangedEvent_props_def)

lemma DaemonStateChangedEvent_guarded: "DaemonStateChangedEvent_verify v = ok None \<Longrightarrow> all_plain v \<Longrightarrow> \<exists>m. DaemonStateChangedEvent_fromObject v = ok m"
  unfolding DaemonStateChangedEvent_verify_def DaemonStateChangedEvent_checks_def DaemonStateChangedEvent_fromObject_def DaemonStateChangedEvent_setters_def
  by (rule guards_object, rule guards_Cons, rule guards_Nil,
      (rule string_plain.guard_opt(1), simp),
      assumption, assumption) simp

interpretation DaemonStateChangedEvent_plain: message_plain DaemonStateChangedEvent_obj DaemonStateChangedEvent_verify DaemonStateChangedEvent_fromObject DaemonStateChangedEvent_toObject DaemonStateChangedEvent_good
  by unfold_locales
    (use DaemonStateChangedEvent_accepts DaemonStateChangedEvent_round DaemonStateChangedEvent_guarded in \<open>auto simp: DaemonStateChangedEvent_obj_def DaemonStateChangedEvent_verify_def dest: verified_object\<close>)

subsection \<open>ShowWindowEvent\<close>

definition ShowWindowEvent_construct :: "js \<Rightarrow> js res" where
  "ShowWindowEvent_construct = construct ''ShowWindowEvent'' [] None"

definition ShowWindowEvent_create :: "js \<Rightarrow> js res" where
  "ShowWindowEvent_create properties = ShowWindowEvent_construct properties"

definition ShowWindowEvent_checks :: "check list" where
  "ShowWindowEvent_checks =
     [v_field ''path'' v_string]"

definition ShowWindowEvent_verify :: "js \<Rightarrow> string option res" where
  "ShowWindowEvent_verify = verify_with ShowWindowEvent_checks"

definition ShowWindowEvent_setters :: "setter list" where
  "ShowWindowEvent_setters =
     [f_field ''path'' c_string]"

definition ShowWindowEvent_fromObject :: "js \<Rightarrow> js res" where
  "ShowWindowEvent_fromObject = from_object ''ShowWindowEvent'' [] ShowWindowEvent_setters"

definition ShowWindowEvent_writers :: "writer list" where
  "ShowWindowEvent_writers =
     [d_value ''path'' (String []),
      t_field ''path'' t_same]"

definition ShowWindowEvent_toObject :: "js \<Rightarrow> to_options option \<Rightarrow> js res" where
  "ShowWindowEvent_toObject = to_object ShowWindowEvent_writers"

definition ShowWindowEvent_toJSON :: "js \<Rightarrow> js res" where
  "ShowWindowEvent_toJSON message = ShowWindowEvent_toObject message (Some toJSONOptions)"

definition ShowWindowEvent_getTypeUrl :: "jstring option \<Rightarrow> jstring" where
  "ShowWindowEvent_getTypeUrl = type_url ''ShowWindowEvent''"

definition ShowWindowEvent_props :: "ShowWindowEvent \<Rightarrow> props" where
  "ShowWindowEvent_props m =
     opt_prop ''path'' String (ShowWindowEvent_path m)"

definition ShowWindowEvent_obj :: "ShowWindowEvent \<Rightarrow> js" where
  "ShowWindowEvent_obj m = Object ''ShowWindowEvent'' (ShowWindowEvent_props m)"

definition ShowWindowEvent_good :: "ShowWindowEvent \<Rightarrow> bool" where
  "ShowWindowEvent_good m \<longleftrightarrow> True"

lemma ShowWindowEvent_lookup:
  "lookup (ShowWindowEvent_props m) ''path'' = map_option String (ShowWindowEvent_path m)"
  "\<not> shadows (ShowWindowEvent_props m)"
  by (simp_all add: ShowWindowEvent_props_def shadows_def)

lemma ShowWindowEvent_accepts:
  assumes "ShowWindowEvent_good m"
  shows "ShowWindowEvent_verify (ShowWindowEvent_obj m) = ok None"
  unfolding ShowWindowEvent_verify_def ShowWindowEvent_checks_def ShowWindowEvent_obj_def
  by (rule runs_verify [where members = "[]"],
      rule string_plain.runs_opt [where x = "ShowWindowEvent_path m"],
      rule runs_Nil)
    (simp_all add: ShowWindowEvent_lookup assms [unfolded ShowWindowEvent_good_def] at_most_one.simps(1))

lemma ShowWindowEvent_round:
  assumes "ShowWindowEvent_good m" "\<not> to_defaults opts"
  shows "\<exists>ps. ShowWindowEvent_toObject (ShowWindowEvent_obj m) (Some opts) = ok (plain ps) \<and>
    ShowWindowEvent_fromObject (plain ps) = ok (ShowWindowEvent_obj m)"
  unfolding ShowWindowEvent_toObject_def ShowWindowEvent_writers_def ShowWindowEvent_fromObject_def ShowWindowEvent_setters_def ShowWindowEvent_obj_def
  by (rule round_trip, simp,
      rule all_yield_Cons, rule all_yield_Cons, rule all_yield_Nil,
      (rule string_plain.yields_opt [where x = "ShowWindowEvent_path m"]; simp add: assms [unfolded ShowWindowEvent_good_def] ShowWindowEvent_lookup plain_keys),
      (rule yields_default(1); simp add: assms [unfolded ShowWindowEvent_good_def] ShowWindowEvent_lookup plain_keys),
      rule string_plain.build_opt [where x = "ShowWindowEvent_path m" and opts = opts],
      rule build.simps(1) [THEN trans])
    (simp_all add: assms [unfolded ShowWindowEvent_good_def] ShowWindowEvent_lookup plain_keys ShowWindowEvent_props_def)

lemma ShowWindowEvent_guarded: "ShowWindowEvent_verify v = ok None \<Longrightarrow> all_plain v \<Longrightarrow> \<exists>m. ShowWindowEvent_fromObject v = ok m"
  unfolding ShowWindowEvent_verify_def ShowWindowEvent_checks_def ShowWindowEvent_fromObject_def ShowWindowEvent_setters_def
  by (rule guards_object, rule guards_Cons, rule guards_Nil,
      (rule string_plain.guard_opt(1), simp),
      assumption, assumption) simp

interpretation ShowWindowEvent_plain: message_plain ShowWindowEvent_obj ShowWindowEvent_verify ShowWindowEvent_fromObject ShowWindowEvent_toObject ShowWindowEvent_good
  by unfold_locales
    (use ShowWindowEvent_accepts ShowWindowEvent_round ShowWindowEvent_guarded in \<open>auto simp: ShowWindowEvent_obj_def ShowWindowEvent_verify_def dest: verified_object\<close>)

end
