(* ===== verification/QueryPlain.thy ===== *)
theory QueryPlain
  imports Query PlainFields
begin

text \<open>
  Construction, checking and plain objects for the messages of the index. For each class \<open>X\<close>:
  \<open>X_construct\<close> and \<open>X_create\<close>, \<open>X_verify\<close>, \<open>X_fromObject\<close>, \<open>X_toObject\<close>, \<open>X_toJSON\<close> and
  \<open>X_getTypeUrl\<close> are the methods, over arbitrary values; the lists \<open>X_checks\<close>, \<open>X_setters\<close> and
  \<open>X_writers\<close> are the statements of \<open>verify\<close>, \<open>fromObject\<close> and \<open>toObject\<close> for the single fields. \<open>X_obj m\<close> is the instance that holds the message
  \<open>m\<close> of the typed model and \<open>X_good\<close> says that its integers fit their fields, its maps are objects and
  at most one member of a oneof is set. The interpretation of \<open>message_plain\<close> shows that such an instance
  passes \<open>verify\<close>, that \<open>fromObject\<close> takes its plain form back to it, and that \<open>fromObject\<close> does not
  throw on plain objects that pass \<open>verify\<close>.
\<close>

subsection \<open>SearchRequest\<close>

definition SearchRequest_init :: props where
  "SearchRequest_init = [(js_str ''tags'', Array []), (js_str ''tagExclude'', Array []), (js_str ''metaFilters'', plain []), (js_str ''sortBy'', Array [])]"

definition SearchRequest_construct :: "js \<Rightarrow> js res" where
  "SearchRequest_construct = construct ''SearchRequest'' SearchRequest_init None"

definition SearchRequest_create :: "js \<Rightarrow> js res" where
  "SearchRequest_create properties = SearchRequest_construct properties"

definition SearchRequest_checks :: "check list" where
  "SearchRequest_checks =
     [v_field ''tags'' v_strings,
      v_field ''tagsAny'' v_bool,
      v_field ''tagExclude'' v_strings,
      v_field ''metaFilters'' v_map,
      v_field ''ftsQuery'' v_string,
      v_field ''limit'' v_integer,
      v_field ''offset'' v_integer,
      v_field ''sortBy'' v_strings,
      v_field ''vectorQuery'' v_string]"

definition SearchRequest_verify :: "js \<Rightarrow> string option res" where
  "SearchRequest_verify = verify_with SearchRequest_checks"

definition SearchRequest_setters :: "setter list" where
  "SearchRequest_setters =
     [f_truthy ''tags'' (c_array ''SearchRequest'' ''tags'' c_string),
      f_field ''tagsAny'' c_bool,
      f_truthy ''tagExclude'' (c_array ''SearchRequest'' ''tagExclude'' c_string),
      f_truthy ''metaFilters'' (c_map ''SearchRequest'' ''metaFilters''),
      f_field ''ftsQuery'' c_string,
      f_field ''limit'' c_uint32,
      f_field ''offset'' c_uint32,
      f_truthy ''sortBy'' (c_array ''SearchRequest'' ''sortBy'' c_string),
      f_field ''vectorQuery'' c_string]"

definition SearchRequest_fromObject :: "js \<Rightarrow> js res" where
  "SearchRequest_fromObject = from_object ''SearchRequest'' SearchRequest_init SearchRequest_setters"

definition SearchRequest_writers :: "writer list" where
  "SearchRequest_writers =
     [d_array ''tags'',
      d_array ''tagExclude'',
      d_array ''sortBy'',
      d_object ''metaFilters'',
      d_value ''tagsAny'' (Boolean False),
      d_value ''ftsQuery'' (String []),
      d_value ''limit'' (int_js 0),
      d_value ''offset'' (int_js 0),
      d_value ''vectorQuery'' (String []),
      t_list ''tags'' t_same,
      t_field ''tagsAny'' t_same,
      t_list ''tagExclude'' t_same,
      t_map ''metaFilters'',
      t_field ''ftsQuery'' t_same,
      t_field ''limit'' t_same,
      t_field ''offset'' t_same,
      t_list ''sortBy'' t_same,
      t_field ''vectorQuery'' t_same]"

definition SearchRequest_toObject :: "js \<Rightarrow> to_options option \<Rightarrow> js res" where
  "SearchRequest_toObject = to_object SearchRequest_writers"

definition SearchRequest_toJSON :: "js \<Rightarrow> js res" where
  "SearchRequest_toJSON message = SearchRequest_toObject message (Some toJSONOptions)"

definition SearchRequest_getTypeUrl :: "jstring option \<Rightarrow> jstring" where
  "SearchRequest_getTypeUrl = type_url ''SearchRequest''"

definition SearchRequest_props :: "SearchRequest \<Rightarrow> props" where
  "SearchRequest_props m =
     [(js_str ''tags'', Array (map String (SearchRequest_tags m))),
      (js_str ''tagExclude'', Array (map String (SearchRequest_tagExclude m))),
      (js_str ''metaFilters'', map_obj (SearchRequest_metaFilters m)),
      (js_str ''sortBy'', Array (map String (SearchRequest_sortBy m)))] @
     opt_prop ''tagsAny'' Boolean (SearchRequest_tagsAny m) @
     opt_prop ''ftsQuery'' String (SearchRequest_ftsQuery m) @
     opt_prop ''limit'' int_js (SearchRequest_limit m) @
     opt_prop ''offset'' int_js (SearchRequest_offset m) @
     opt_prop ''vectorQuery'' String (SearchRequest_vectorQuery m)"

definition SearchRequest_obj :: "SearchRequest \<Rightarrow> js" where
  "SearchRequest_obj m = Object ''SearchRequest'' (SearchRequest_props m)"

definition SearchRequest_good :: "SearchRequest \<Rightarrow> bool" where
  "SearchRequest_good m \<longleftrightarrow> js_object (SearchRequest_metaFilters m) \<and>
     opt_all uint32_ok (SearchRequest_limit m) \<and>
     opt_all uint32_ok (SearchRequest_offset m)"

lemma SearchRequest_lookup:
  "lookup (SearchRequest_props m) ''tags'' = Some (Array (map String (SearchRequest_tags m)))"
  "lookup (SearchRequest_props m) ''tagsAny'' = map_option Boolean (SearchRequest_tagsAny m)"
  "lookup (SearchRequest_props m) ''tagExclude'' = Some (Array (map String (SearchRequest_tagExclude m)))"
  "lookup (SearchRequest_props m) ''metaFilters'' = Some (map_obj (SearchRequest_metaFilters m))"
  "lookup (SearchRequest_props m) ''ftsQuery'' = map_option String (SearchRequest_ftsQuery m)"
  "lookup (SearchRequest_props m) ''limit'' = map_option int_js (SearchRequest_limit m)"
  "lookup (SearchRequest_props m) ''offset'' = map_option int_js (SearchRequest_offset m)"
  "lookup (SearchRequest_props m) ''sortBy'' = Some (Array (map String (SearchRequest_sortBy m)))"
  "lookup (SearchRequest_props m) ''vectorQuery'' = map_option String (SearchRequest_vectorQuery m)"
  "\<not> shadows (SearchRequest_props m)"
  by (simp_all add: SearchRequest_props_def shadows_def)

lemma SearchRequest_accepts:
  assumes "SearchRequest_good m"
  shows "SearchRequest_verify (SearchRequest_obj m) = ok None"
  unfolding SearchRequest_verify_def SearchRequest_checks_def SearchRequest_obj_def
  by (rule runs_verify [where members = "[]"],
      rule string_plain.runs_list [where xs = "SearchRequest_tags m"],
      rule bool_plain.runs_opt [where x = "SearchRequest_tagsAny m"],
      rule string_plain.runs_list [where xs = "SearchRequest_tagExclude m"],
      rule runs_map [where kvs = "SearchRequest_metaFilters m"],
      rule string_plain.runs_opt [where x = "SearchRequest_ftsQuery m"],
      rule uint32_plain.runs_opt [where x = "SearchRequest_limit m"],
      rule uint32_plain.runs_opt [where x = "SearchRequest_offset m"],
      rule string_plain.runs_list [where xs = "SearchRequest_sortBy m"],
      rule string_plain.runs_opt [where x = "SearchRequest_vectorQuery m"],
      rule runs_Nil)
    (simp_all add: SearchRequest_lookup assms [unfolded SearchRequest_good_def] at_most_one.simps(1))

lemma SearchRequest_round:
  assumes "SearchRequest_good m" "\<not> to_defaults opts"
  shows "\<exists>ps. SearchRequest_toObject (SearchRequest_obj m) (Some opts) = ok (plain ps) \<and>
    SearchRequest_fromObject (plain ps) = ok (SearchRequest_obj m)"
  unfolding SearchRequest_toObject_def SearchRequest_writers_def SearchRequest_fromObject_def SearchRequest_setters_def SearchRequest_obj_def
  by (rule round_trip, simp,
      rule all_yield_Cons, rule all_yield_Cons, rule all_yield_Cons, rule all_yield_Cons,
      rule all_yield_Cons, rule all_yield_Cons, rule all_yield_Cons, rule all_yield_Cons,
      rule all_yield_Cons, rule all_yield_Cons, rule all_yield_Cons, rule all_yield_Cons,
      rule all_yield_Cons, rule all_yield_Cons, rule all_yield_Cons, rule all_yield_Cons,
      rule all_yield_Cons, rule all_yield_Cons, rule all_yield_Nil,
      (rule string_plain.yields_opt [where x = "SearchRequest_vectorQuery m"]; simp add: assms [unfolded SearchRequest_good_def] SearchRequest_lookup plain_keys),
      (rule string_plain.yields_list [where xs = "SearchRequest_sortBy m"]; simp add: assms [unfolded SearchRequest_good_def] SearchRequest_lookup plain_keys),
      (rule uint32_plain.yields_opt [where x = "SearchRequest_offset m"]; simp add: assms [unfolded SearchRequest_good_def] SearchRequest_lookup plain_keys),
      (rule uint32_plain.yields_opt [where x = "SearchRequest_limit m"]; simp add: assms [unfolded SearchRequest_good_def] SearchRequest_lookup plain_keys),
      (rule string_plain.yields_opt [where x = "SearchRequest_ftsQuery m"]; simp add: assms [unfolded SearchRequest_good_def] SearchRequest_lookup plain_keys),
      (rule yields_map [where kvs = "SearchRequest_metaFilters m"]; simp add: assms [unfolded SearchRequest_good_def] SearchRequest_lookup plain_keys),
      (rule string_plain.yields_list [where xs = "SearchRequest_tagExclude m"]; simp add: assms [unfolded SearchRequest_good_def] SearchRequest_lookup plain_keys),
      (rule bool_plain.yields_opt [where x = "SearchRequest_tagsAny m"]; simp add: assms [unfolded SearchRequest_good_def] SearchRequest_lookup plain_keys),
      (rule string_plain.yields_list [where xs = "SearchRequest_tags m"]; simp add: assms [unfolded SearchRequest_good_def] SearchRequest_lookup plain_keys),
      (rule yields_default(1); simp add: assms [unfolded SearchRequest_good_def] SearchRequest_lookup plain_keys),
      (rule yields_default(1); simp add: assms [unfolded SearchRequest_good_def] SearchRequest_lookup plain_keys),
      (rule yields_default(1); simp add: assms [unfolded SearchRequest_good_def] SearchRequest_lookup plain_keys),
      (rule yields_default(1); simp add: assms [unfolded SearchRequest_good_def] SearchRequest_lookup plain_keys),
      (rule yields_default(1); simp add: assms [unfolded SearchRequest_good_def] SearchRequest_lookup plain_keys),
      (rule yields_object; simp add: assms [unfolded SearchRequest_good_def] SearchRequest_lookup plain_keys),
      (rule yields_array; simp add: assms [unfolded SearchRequest_good_def] SearchRequest_lookup plain_keys),
      (rule yields_array; simp add: assms [unfolded SearchRequest_good_def] SearchRequest_lookup plain_keys),
      (rule yields_array; simp add: assms [unfolded SearchRequest_good_def] SearchRequest_lookup plain_keys),
      rule string_plain.build_list [where xs = "SearchRequest_tags m" and opts = opts],
      rule bool_plain.build_opt [where x = "SearchRequest_tagsAny m" and opts = opts],
      rule string_plain.build_list [where xs = "SearchRequest_tagExclude m" and opts = opts],
      rule build_map [where kvs = "SearchRequest_metaFilters m" and opts = opts],
      rule string_plain.build_opt [where x = "SearchRequest_ftsQuery m" and opts = opts],
      rule uint32_plain.build_opt [where x = "SearchRequest_limit m" and opts = opts],
      rule uint32_plain.build_opt [where x = "SearchRequest_offset m" and opts = opts],
      rule string_plain.build_list [where xs = "SearchRequest_sortBy m" and opts = opts],
      rule string_plain.build_opt [where x = "SearchRequest_vectorQuery m" and opts = opts],
      rule build.simps(1) [THEN trans])
    (simp_all add: assms [unfolded SearchRequest_good_def] SearchRequest_lookup plain_keys SearchRequest_props_def SearchRequest_init_def)

lemma SearchRequest_guarded: "SearchRequest_verify v = ok None \<Longrightarrow> all_plain v \<Longrightarrow> \<exists>m. SearchRequest_fromObject v = ok m"
  unfolding SearchRequest_verify_def SearchRequest_checks_def SearchRequest_fromObject_def SearchRequest_setters_def
  by (rule guards_object, rule guards_Cons, rule guards_Cons, rule guards_Cons, rule guards_Cons, rule
      guards_Cons, rule guards_Cons, rule guards_Cons, rule guards_Cons, rule guards_Cons,
      rule guards_Nil,
      (rule string_plain.guard_opt(1), simp),
      (rule string_plain.guard_list, simp),
      (rule uint32_plain.guard_opt(1), simp),
      (rule uint32_plain.guard_opt(1), simp),
      (rule string_plain.guard_opt(1), simp),
      (rule guard_map, simp),
      (rule string_plain.guard_list, simp),
      (rule bool_plain.guard_opt(1), simp),
      (rule string_plain.guard_list, simp),
      assumption, assumption) simp

interpretation SearchRequest_plain: message_plain SearchRequest_obj SearchRequest_verify SearchRequest_fromObject SearchRequest_toObject SearchRequest_good
  by unfold_locales
    (use SearchRequest_accepts SearchRequest_round SearchRequest_guarded in \<open>auto simp: SearchRequest_obj_def SearchRequest_verify_def dest: verified_object\<close>)

subsection \<open>FileResult\<close>

definition FileResult_init :: props where
  "FileResult_init = [(js_str ''tags'', Array []), (js_str ''metadata'', plain [])]"

definition FileResult_construct :: "js \<Rightarrow> js res" where
  "FileResult_construct = construct ''FileResult'' FileResult_init None"

definition FileResult_create :: "js \<Rightarrow> js res" where
  "FileResult_create properties = FileResult_construct properties"

definition FileResult_checks :: "check list" where
  "FileResult_checks =
     [v_field ''path'' v_string,
      v_field ''tags'' v_strings,
      v_field ''metadata'' v_map,
      v_field ''score'' v_number,
      v_field ''mtime'' v_long,
      v_field ''sizeBytes'' v_long,
      v_field ''isLink'' v_bool,
      v_field ''linkTarget'' v_string]"

definition FileResult_verify :: "js \<Rightarrow> string option res" where
  "FileResult_verify = verify_with FileResult_checks"

definition FileResult_setters :: "setter list" where
  "FileResult_setters =
     [f_field ''path'' c_string,
      f_truthy ''tags'' (c_array ''FileResult'' ''tags'' c_string),
      f_truthy ''metadata'' (c_map ''FileResult'' ''metadata''),
      f_field ''score'' c_number,
      f_opt ''mtime'' (c_long False),
      f_opt ''sizeBytes'' (c_long False),
      f_field ''isLink'' c_bool,
      f_field ''linkTarget'' c_string]"

definition FileResult_fromObject :: "js \<Rightarrow> js res" where
  "FileResult_fromObject = from_object ''FileResult'' FileResult_init FileResult_setters"

definition FileResult_writers :: "writer list" where
  "FileResult_writers =
     [d_array ''tags'',
      d_object ''metadata'',
      d_value ''path'' (String []),
      d_value ''score'' (int_js 0),
      d_long ''mtime'',
      d_long ''sizeBytes'',
      d_value ''isLink'' (Boolean False),
      d_value ''linkTarget'' (String []),
      t_field ''path'' t_same,
      t_list ''tags'' t_same,
      t_map ''metadata'',
      t_field ''score'' t_number,
      t_field ''mtime'' (t_long False),
      t_field ''sizeBytes'' (t_long False),
      t_field ''isLink'' t_same,
      t_field ''linkTarget'' t_same]"

definition FileResult_toObject :: "js \<Rightarrow> to_options option \<Rightarrow> js res" where
  "FileResult_toObject = to_object FileResult_writers"

definition FileResult_toJSON :: "js \<Rightarrow> js res" where
  "FileResult_toJSON message = FileResult_toObject message (Some toJSONOptions)"

definition FileResult_getTypeUrl :: "jstring option \<Rightarrow> jstring" where
  "FileResult_getTypeUrl = type_url ''FileResult''"

definition FileResult_props :: "FileResult \<Rightarrow> props" where
  "FileResult_props m =
     [(js_str ''tags'', Array (map String (FileResult_tags m))),
      (js_str ''metadata'', map_obj (FileResult_metadata m))] @
     opt_prop ''path'' String (FileResult_path m) @
     opt_prop ''score'' (\<lambda>w. Number (f64_val w)) (FileResult_score m) @
     opt_prop ''mtime'' int_js (FileResult_mtime m) @
     opt_prop ''sizeBytes'' int_js (FileResult_sizeBytes m) @
     opt_prop ''isLink'' Boolean (FileResult_isLink m) @
     opt_prop ''linkTarget'' String (FileResult_linkTarget m)"

definition FileResult_obj :: "FileResult \<Rightarrow> js" where
  "FileResult_obj m = Object ''FileResult'' (FileResult_props m)"

definition FileResult_good :: "FileResult \<Rightarrow> bool" where
  "FileResult_good m \<longleftrightarrow> js_object (FileResult_metadata m) \<and>
     opt_all int64_ok (FileResult_mtime m) \<and>
     opt_all int64_ok (FileResult_sizeBytes m)"

lemma FileResult_lookup:
  "lookup (FileResult_props m) ''path'' = map_option String (FileResult_path m)"
  "lookup (FileResult_props m) ''tags'' = Some (Array (map String (FileResult_tags m)))"
  "lookup (FileResult_props m) ''metadata'' = Some (map_obj (FileResult_metadata m))"
  "lookup (FileResult_props m) ''score'' = map_option (\<lambda>w. Number (f64_val w)) (FileResult_score m)"
  "lookup (FileResult_props m) ''mtime'' = map_option int_js (FileResult_mtime m)"
  "lookup (FileResult_props m) ''sizeBytes'' = map_option int_js (FileResult_sizeBytes m)"
  "lookup (FileResult_props m) ''isLink'' = map_option Boolean (FileResult_isLink m)"
  "lookup (FileResult_props m) ''linkTarget'' = map_option String (FileResult_linkTarget m)"
  "\<not> shadows (FileResult_props m)"
  by (simp_all add: FileResult_props_def shadows_def)

lemma FileResult_accepts:
  assumes "FileResult_good m"
  shows "FileResult_verify (FileResult_obj m) = ok None"
  unfolding FileResult_verify_def FileResult_checks_def FileResult_obj_def
  by (rule runs_verify [where members = "[]"],
      rule string_plain.runs_opt [where x = "FileResult_path m"],
      rule string_plain.runs_list [where xs = "FileResult_tags m"],
      rule runs_map [where kvs = "FileResult_metadata m"],
      rule double_plain.runs_opt [where x = "FileResult_score m"],
      rule int64_plain.runs_opt [where x = "FileResult_mtime m"],
      rule int64_plain.runs_opt [where x = "FileResult_sizeBytes m"],
      rule bool_plain.runs_opt [where x = "FileResult_isLink m"],
      rule string_plain.runs_opt [where x = "FileResult_linkTarget m"],
      rule runs_Nil)
    (simp_all add: FileResult_lookup assms [unfolded FileResult_good_def] at_most_one.simps(1))

lemma FileResult_round:
  assumes "FileResult_good m" "\<not> to_defaults opts"
  shows "\<exists>ps. FileResult_toObject (FileResult_obj m) (Some opts) = ok (plain ps) \<and>
    FileResult_fromObject (plain ps) = ok (FileResult_obj m)"
  unfolding FileResult_toObject_def FileResult_writers_def FileResult_fromObject_def FileResult_setters_def FileResult_obj_def
  by (rule round_trip, simp,
      rule all_yield_Cons, rule all_yield_Cons, rule all_yield_Cons, rule all_yield_Cons,
      rule all_yield_Cons, rule all_yield_Cons, rule all_yield_Cons, rule all_yield_Cons,
      rule all_yield_Cons, rule all_yield_Cons, rule all_yield_Cons, rule all_yield_Cons,
      rule all_yield_Cons, rule all_yield_Cons, rule all_yield_Cons, rule all_yield_Cons,
      rule all_yield_Nil,
      (rule string_plain.yields_opt [where x = "FileResult_linkTarget m"]; simp add: assms [unfolded FileResult_good_def] FileResult_lookup plain_keys),
      (rule bool_plain.yields_opt [where x = "FileResult_isLink m"]; simp add: assms [unfolded FileResult_good_def] FileResult_lookup plain_keys),
      (rule int64_plain.yields_opt [where x = "FileResult_sizeBytes m"]; simp add: assms [unfolded FileResult_good_def] FileResult_lookup plain_keys),
      (rule int64_plain.yields_opt [where x = "FileResult_mtime m"]; simp add: assms [unfolded FileResult_good_def] FileResult_lookup plain_keys),
      (rule double_plain.yields_opt [where x = "FileResult_score m"]; simp add: assms [unfolded FileResult_good_def] FileResult_lookup plain_keys),
      (rule yields_map [where kvs = "FileResult_metadata m"]; simp add: assms [unfolded FileResult_good_def] FileResult_lookup plain_keys),
      (rule string_plain.yields_list [where xs = "FileResult_tags m"]; simp add: assms [unfolded FileResult_good_def] FileResult_lookup plain_keys),
      (rule string_plain.yields_opt [where x = "FileResult_path m"]; simp add: assms [unfolded FileResult_good_def] FileResult_lookup plain_keys),
      (rule yields_default(1); simp add: assms [unfolded FileResult_good_def] FileResult_lookup plain_keys),
      (rule yields_default(1); simp add: assms [unfolded FileResult_good_def] FileResult_lookup plain_keys),
      (rule yields_default(2); simp add: assms [unfolded FileResult_good_def] FileResult_lookup plain_keys),
      (rule yields_default(2); simp add: assms [unfolded FileResult_good_def] FileResult_lookup plain_keys),
      (rule yields_default(1); simp add: assms [unfolded FileResult_good_def] FileResult_lookup plain_keys),
      (rule yields_default(1); simp add: assms [unfolded FileResult_good_def] FileResult_lookup plain_keys),
      (rule yields_object; simp add: assms [unfolded FileResult_good_def] FileResult_lookup plain_keys),
      (rule yields_array; simp add: assms [unfolded FileResult_good_def] FileResult_lookup plain_keys),
      rule string_plain.build_opt [where x = "FileResult_path m" and opts = opts],
      rule string_plain.build_list [where xs = "FileResult_tags m" and opts = opts],
      rule build_map [where kvs = "FileResult_metadata m" and opts = opts],
      rule double_plain.build_opt [where x = "FileResult_score m" and opts = opts],
      rule int64_plain.build_opt [where x = "FileResult_mtime m" and opts = opts],
      rule int64_plain.build_opt [where x = "FileResult_sizeBytes m" and opts = opts],
      rule bool_plain.build_opt [where x = "FileResult_isLink m" and opts = opts],
      rule string_plain.build_opt [where x = "FileResult_linkTarget m" and opts = opts],
      rule build.simps(1) [THEN trans])
    (simp_all add: assms [unfolded FileResult_good_def] FileResult_lookup plain_keys FileResult_props_def FileResult_init_def)

lemma FileResult_guarded: "FileResult_verify v = ok None \<Longrightarrow> all_plain v \<Longrightarrow> \<exists>m. FileResult_fromObject v = ok m"
  unfolding FileResult_verify_def FileResult_checks_def FileResult_fromObject_def FileResult_setters_def
  by (rule guards_object, rule guards_Cons, rule guards_Cons, rule guards_Cons, rule guards_Cons, rule
      guards_Cons, rule guards_Cons, rule guards_Cons, rule guards_Cons, rule guards_Nil,
      (rule string_plain.guard_opt(1), simp),
      (rule bool_plain.guard_opt(1), simp),
      (rule int64_plain.guard_opt(1), simp),
      (rule int64_plain.guard_opt(1), simp),
      (rule double_plain.guard_opt(1), simp),
      (rule guard_map, simp),
      (rule string_plain.guard_list, simp),
      (rule string_plain.guard_opt(1), simp),
      assumption, assumption) simp

interpretation FileResult_plain: message_plain FileResult_obj FileResult_verify FileResult_fromObject FileResult_toObject FileResult_good
  by unfold_locales
    (use FileResult_accepts FileResult_round FileResult_guarded in \<open>auto simp: FileResult_obj_def FileResult_verify_def dest: verified_object\<close>)

subsection \<open>SearchResponse\<close>

definition SearchResponse_init :: props where
  "SearchResponse_init = [(js_str ''files'', Array [])]"

definition SearchResponse_construct :: "js \<Rightarrow> js res" where
  "SearchResponse_construct = construct ''SearchResponse'' SearchResponse_init None"

definition SearchResponse_create :: "js \<Rightarrow> js res" where
  "SearchResponse_create properties = SearchResponse_construct properties"

definition SearchResponse_checks :: "check list" where
  "SearchResponse_checks =
     [v_field ''files'' (v_messages FileResult_verify),
      v_field ''total'' v_integer]"

definition SearchResponse_verify :: "js \<Rightarrow> string option res" where
  "SearchResponse_verify = verify_with SearchResponse_checks"

definition SearchResponse_setters :: "setter list" where
  "SearchResponse_setters =
     [f_truthy ''files'' (c_array ''SearchResponse'' ''files'' (c_message ''SearchResponse'' ''files'' FileResult_fromObject)),
      f_field ''total'' c_uint32]"

definition SearchResponse_fromObject :: "js \<Rightarrow> js res" where
  "SearchResponse_fromObject = from_object ''SearchResponse'' SearchResponse_init SearchResponse_setters"

definition SearchResponse_writers :: "writer list" where
  "SearchResponse_writers =
     [d_array ''files'',
      d_value ''total'' (int_js 0),
      t_list ''files'' (t_message FileResult_toObject),
      t_field ''total'' t_same]"

definition SearchResponse_toObject :: "js \<Rightarrow> to_options option \<Rightarrow> js res" where
  "SearchResponse_toObject = to_object SearchResponse_writers"

definition SearchResponse_toJSON :: "js \<Rightarrow> js res" where
  "SearchResponse_toJSON message = SearchResponse_toObject message (Some toJSONOptions)"

definition SearchResponse_getTypeUrl :: "jstring option \<Rightarrow> jstring" where
  "SearchResponse_getTypeUrl = type_url ''SearchResponse''"

definition SearchResponse_props :: "SearchResponse \<Rightarrow> props" where
  "SearchResponse_props m =
     [(js_str ''files'', Array (map FileResult_obj (SearchResponse_files m)))] @
     opt_prop ''total'' int_js (SearchResponse_total m)"

definition SearchResponse_obj :: "SearchResponse \<Rightarrow> js" where
  "SearchResponse_obj m = Object ''SearchResponse'' (SearchResponse_props m)"

definition SearchResponse_good :: "SearchResponse \<Rightarrow> bool" where
  "SearchResponse_good m \<longleftrightarrow> list_all FileResult_good (SearchResponse_files m) \<and>
     opt_all uint32_ok (SearchResponse_total m)"

lemma SearchResponse_lookup:
  "lookup (SearchResponse_props m) ''files'' = Some (Array (map FileResult_obj (SearchResponse_files m)))"
  "lookup (SearchResponse_props m) ''total'' = map_option int_js (SearchResponse_total m)"
  "\<not> shadows (SearchResponse_props m)"
  by (simp_all add: SearchResponse_props_def shadows_def)

lemma SearchResponse_accepts:
  assumes "SearchResponse_good m"
  shows "SearchResponse_verify (SearchResponse_obj m) = ok None"
  unfolding SearchResponse_verify_def SearchResponse_checks_def SearchResponse_obj_def
  by (rule runs_verify [where members = "[]"],
      rule FileResult_plain.sub.runs_list [where xs = "SearchResponse_files m"],
      rule uint32_plain.runs_opt [where x = "SearchResponse_total m"],
      rule runs_Nil)
    (simp_all add: SearchResponse_lookup assms [unfolded SearchResponse_good_def] at_most_one.simps(1))

lemma SearchResponse_round:
  assumes "SearchResponse_good m" "\<not> to_defaults opts"
  shows "\<exists>ps. SearchResponse_toObject (SearchResponse_obj m) (Some opts) = ok (plain ps) \<and>
    SearchResponse_fromObject (plain ps) = ok (SearchResponse_obj m)"
  unfolding SearchResponse_toObject_def SearchResponse_writers_def SearchResponse_fromObject_def SearchResponse_setters_def SearchResponse_obj_def
  by (rule round_trip, simp,
      rule all_yield_Cons, rule all_yield_Cons, rule all_yield_Cons, rule all_yield_Cons,
      rule all_yield_Nil,
      (rule uint32_plain.yields_opt [where x = "SearchResponse_total m"]; simp add: assms [unfolded SearchResponse_good_def] SearchResponse_lookup plain_keys),
      (rule FileResult_plain.sub.yields_list [where xs = "SearchResponse_files m"]; simp add: assms [unfolded SearchResponse_good_def] SearchResponse_lookup plain_keys),
      (rule yields_default(1); simp add: assms [unfolded SearchResponse_good_def] SearchResponse_lookup plain_keys),
      (rule yields_array; simp add: assms [unfolded SearchResponse_good_def] SearchResponse_lookup plain_keys),
      rule FileResult_plain.sub.build_list [where xs = "SearchResponse_files m" and opts = opts],
      rule uint32_plain.build_opt [where x = "SearchResponse_total m" and opts = opts],
      rule build.simps(1) [THEN trans])
    (simp_all add: assms [unfolded SearchResponse_good_def] SearchResponse_lookup plain_keys SearchResponse_props_def SearchResponse_init_def)

lemma SearchResponse_guarded: "SearchResponse_verify v = ok None \<Longrightarrow> all_plain v \<Longrightarrow> \<exists>m. SearchResponse_fromObject v = ok m"
  unfolding SearchResponse_verify_def SearchResponse_checks_def SearchResponse_fromObject_def SearchResponse_setters_def
  by (rule guards_object, rule guards_Cons, rule guards_Cons, rule guards_Nil,
      (rule uint32_plain.guard_opt(1), simp),
      (rule FileResult_plain.sub.guard_list, simp),
      assumption, assumption) simp

interpretation SearchResponse_plain: message_plain SearchResponse_obj SearchResponse_verify SearchResponse_fromObject SearchResponse_toObject SearchResponse_good
  by unfold_locales
    (use SearchResponse_accepts SearchResponse_round SearchResponse_guarded in \<open>auto simp: SearchResponse_obj_def SearchResponse_verify_def dest: verified_object\<close>)

subsection \<open>TagRequest\<close>

definition TagRequest_init :: props where
  "TagRequest_init = [(js_str ''paths'', Array []), (js_str ''tags'', Array [])]"

definition TagRequest_construct :: "js \<Rightarrow> js res" where
  "TagRequest_construct = construct ''TagRequest'' TagRequest_init None"

definition TagRequest_create :: "js \<Rightarrow> js res" where
  "TagRequest_create properties = TagRequest_construct properties"

definition TagRequest_checks :: "check list" where
  "TagRequest_checks =
     [v_field ''paths'' v_strings,
      v_field ''tags'' v_strings,
      v_field ''operation'' (v_enum TagOperation)]"

definition TagRequest_verify :: "js \<Rightarrow> string option res" where
  "TagRequest_verify = verify_with TagRequest_checks"

definition TagRequest_setters :: "setter list" where
  "TagRequest_setters =
     [f_truthy ''paths'' (c_array ''TagRequest'' ''paths'' c_string),
      f_truthy ''tags'' (c_array ''TagRequest'' ''tags'' c_string),
      f_opt ''operation'' (c_enum TagOperation)]"

definition TagRequest_fromObject :: "js \<Rightarrow> js res" where
  "TagRequest_fromObject = from_object ''TagRequest'' TagRequest_init TagRequest_setters"

definition TagRequest_writers :: "writer list" where
  "TagRequest_writers =
     [d_array ''paths'',
      d_array ''tags'',
      d_enum TagOperation ''operation'',
      t_list ''paths'' t_same,
      t_list ''tags'' t_same,
      t_field ''operation'' (t_enum TagOperation)]"

definition TagRequest_toObject :: "js \<Rightarrow> to_options option \<Rightarrow> js res" where
  "TagRequest_toObject = to_object TagRequest_writers"

definition TagRequest_toJSON :: "js \<Rightarrow> js res" where
  "TagRequest_toJSON message = TagRequest_toObject message (Some toJSONOptions)"

definition TagRequest_getTypeUrl :: "jstring option \<Rightarrow> jstring" where
  "TagRequest_getTypeUrl = type_url ''TagRequest''"

definition TagRequest_props :: "TagRequest \<Rightarrow> props" where
  "TagRequest_props m =
     [(js_str ''paths'', Array (map String (TagRequest_paths m))),
      (js_str ''tags'', Array (map String (TagRequest_tags m)))] @
     opt_prop ''operation'' int_js (TagRequest_operation m)"

definition TagRequest_obj :: "TagRequest \<Rightarrow> js" where
  "TagRequest_obj m = Object ''TagRequest'' (TagRequest_props m)"

definition TagRequest_good :: "TagRequest \<Rightarrow> bool" where
  "TagRequest_good m \<longleftrightarrow> opt_all (enum_ok TagOperation) (TagRequest_operation m)"

lemma TagRequest_lookup:
  "lookup (TagRequest_props m) ''paths'' = Some (Array (map String (TagRequest_paths m)))"
  "lookup (TagRequest_props m) ''tags'' = Some (Array (map String (TagRequest_tags m)))"
  "lookup (TagRequest_props m) ''operation'' = map_option int_js (TagRequest_operation m)"
  "\<not> shadows (TagRequest_props m)"
  by (simp_all add: TagRequest_props_def shadows_def)

lemma TagRequest_accepts:
  assumes "TagRequest_good m"
  shows "TagRequest_verify (TagRequest_obj m) = ok None"
  unfolding TagRequest_verify_def TagRequest_checks_def TagRequest_obj_def
  by (rule runs_verify [where members = "[]"],
      rule string_plain.runs_list [where xs = "TagRequest_paths m"],
      rule string_plain.runs_list [where xs = "TagRequest_tags m"],
      rule TagOperation_plain.runs_opt [where x = "TagRequest_operation m"],
      rule runs_Nil)
    (simp_all add: TagRequest_lookup assms [unfolded TagRequest_good_def] at_most_one.simps(1))

lemma TagRequest_round:
  assumes "TagRequest_good m" "\<not> to_defaults opts"
  shows "\<exists>ps. TagRequest_toObject (TagRequest_obj m) (Some opts) = ok (plain ps) \<and>
    TagRequest_fromObject (plain ps) = ok (TagRequest_obj m)"
  unfolding TagRequest_toObject_def TagRequest_writers_def TagRequest_fromObject_def TagRequest_setters_def TagRequest_obj_def
  by (rule round_trip, simp,
      rule all_yield_Cons, rule all_yield_Cons, rule all_yield_Cons, rule all_yield_Cons,
      rule all_yield_Cons, rule all_yield_Cons, rule all_yield_Nil,
      (rule TagOperation_plain.yields_opt [where x = "TagRequest_operation m"]; simp add: assms [unfolded TagRequest_good_def] TagRequest_lookup plain_keys),
      (rule string_plain.yields_list [where xs = "TagRequest_tags m"]; simp add: assms [unfolded TagRequest_good_def] TagRequest_lookup plain_keys),
      (rule string_plain.yields_list [where xs = "TagRequest_paths m"]; simp add: assms [unfolded TagRequest_good_def] TagRequest_lookup plain_keys),
      (rule yields_default(3); simp add: assms [unfolded TagRequest_good_def] TagRequest_lookup plain_keys),
      (rule yields_array; simp add: assms [unfolded TagRequest_good_def] TagRequest_lookup plain_keys),
      (rule yields_array; simp add: assms [unfolded TagRequest_good_def] TagRequest_lookup plain_keys),
      rule string_plain.build_list [where xs = "TagRequest_paths m" and opts = opts],
      rule string_plain.build_list [where xs = "TagRequest_tags m" and opts = opts],
      rule TagOperation_plain.build_opt [where x = "TagRequest_operation m" and opts = opts],
      rule build.simps(1) [THEN trans])
    (simp_all add: assms [unfolded TagRequest_good_def] TagRequest_lookup plain_keys TagRequest_props_def TagRequest_init_def)

lemma TagRequest_guarded: "TagRequest_verify v = ok None \<Longrightarrow> all_plain v \<Longrightarrow> \<exists>m. TagRequest_fromObject v = ok m"
  unfolding TagRequest_verify_def TagRequest_checks_def TagRequest_fromObject_def TagRequest_setters_def
  by (rule guards_object, rule guards_Cons, rule guards_Cons, rule guards_Cons, rule guards_Nil,
      (rule TagOperation_plain.guard_opt(1), simp),
      (rule string_plain.guard_list, simp),
      (rule string_plain.guard_list, simp),
      assumption, assumption) simp

interpretation TagRequest_plain: message_plain TagRequest_obj TagRequest_verify TagRequest_fromObject TagRequest_toObject TagRequest_good
  by unfold_locales
    (use TagRequest_accepts TagRequest_round TagRequest_guarded in \<open>auto simp: TagRequest_obj_def TagRequest_verify_def dest: verified_object\<close>)

subsection \<open>TagResponse\<close>

definition TagResponse_init :: props where
  "TagResponse_init = [(js_str ''pathsOk'', Array []), (js_str ''pathsError'', Array []), (js_str ''errors'', plain [])]"

definition TagResponse_construct :: "js \<Rightarrow> js res" where
  "TagResponse_construct = construct ''TagResponse'' TagResponse_init None"

definition TagResponse_create :: "js \<Rightarrow> js res" where
  "TagResponse_create properties = TagResponse_construct properties"

definition TagResponse_checks :: "check list" where
  "TagResponse_checks =
     [v_field ''pathsOk'' v_strings,
      v_field ''pathsError'' v_strings,
      v_field ''errors'' v_map]"

definition TagResponse_verify :: "js \<Rightarrow> string option res" where
  "TagResponse_verify = verify_with TagResponse_checks"

definition TagResponse_setters :: "setter list" where
  "TagResponse_setters =
     [f_truthy ''pathsOk'' (c_array ''TagResponse'' ''pathsOk'' c_string),
      f_truthy ''pathsError'' (c_array ''TagResponse'' ''pathsError'' c_string),
      f_truthy ''errors'' (c_map ''TagResponse'' ''errors'')]"

definition TagResponse_fromObject :: "js \<Rightarrow> js res" where
  "TagResponse_fromObject = from_object ''TagResponse'' TagResponse_init TagResponse_setters"

definition TagResponse_writers :: "writer list" where
  "TagResponse_writers =
     [d_array ''pathsOk'',
      d_array ''pathsError'',
      d_object ''errors'',
      t_list ''pathsOk'' t_same,
      t_list ''pathsError'' t_same,
      t_map ''errors'']"

definition TagResponse_toObject :: "js \<Rightarrow> to_options option \<Rightarrow> js res" where
  "TagResponse_toObject = to_object TagResponse_writers"

definition TagResponse_toJSON :: "js \<Rightarrow> js res" where
  "TagResponse_toJSON message = TagResponse_toObject message (Some toJSONOptions)"

definition TagResponse_getTypeUrl :: "jstring option \<Rightarrow> jstring" where
  "TagResponse_getTypeUrl = type_url ''TagResponse''"

definition TagResponse_props :: "TagResponse \<Rightarrow> props" where
  "TagResponse_props m =
     [(js_str ''pathsOk'', Array (map String (TagResponse_pathsOk m))),
      (js_str ''pathsError'', Array (map String (TagResponse_pathsError m))),
      (js_str ''errors'', map_obj (TagResponse_errors m))]"

definition TagResponse_obj :: "TagResponse \<Rightarrow> js" where
  "TagResponse_obj m = Object ''TagResponse'' (TagResponse_props m)"

definition TagResponse_good :: "TagResponse \<Rightarrow> bool" where
  "TagResponse_good m \<longleftrightarrow> js_object (TagResponse_errors m)"

lemma TagResponse_lookup:
  "lookup (TagResponse_props m) ''pathsOk'' = Some (Array (map String (TagResponse_pathsOk m)))"
  "lookup (TagResponse_props m) ''pathsError'' = Some (Array (map String (TagResponse_pathsError m)))"
  "lookup (TagResponse_props m) ''errors'' = Some (map_obj (TagResponse_errors m))"
  "\<not> shadows (TagResponse_props m)"
  by (simp_all add: TagResponse_props_def shadows_def)

lemma TagResponse_accepts:
  assumes "TagResponse_good m"
  shows "TagResponse_verify (TagResponse_obj m) = ok None"
  unfolding TagResponse_verify_def TagResponse_checks_def TagResponse_obj_def
  by (rule runs_verify [where members = "[]"],
      rule string_plain.runs_list [where xs = "TagResponse_pathsOk m"],
      rule string_plain.runs_list [where xs = "TagResponse_pathsError m"],
      rule runs_map [where kvs = "TagResponse_errors m"],
      rule runs_Nil)
    (simp_all add: TagResponse_lookup assms [unfolded TagResponse_good_def] at_most_one.simps(1))

lemma TagResponse_round:
  assumes "TagResponse_good m" "\<not> to_defaults opts"
  shows "\<exists>ps. TagResponse_toObject (TagResponse_obj m) (Some opts) = ok (plain ps) \<and>
    TagResponse_fromObject (plain ps) = ok (TagResponse_obj m)"
  unfolding TagResponse_toObject_def TagResponse_writers_def TagResponse_fromObject_def TagResponse_setters_def TagResponse_obj_def
  by (rule round_trip, simp,
      rule all_yield_Cons, rule all_yield_Cons, rule all_yield_Cons, rule all_yield_Cons,
      rule all_yield_Cons, rule all_yield_Cons, rule all_yield_Nil,
      (rule yields_map [where kvs = "TagResponse_errors m"]; simp add: assms [unfolded TagResponse_good_def] TagResponse_lookup plain_keys),
      (rule string_plain.yields_list [where xs = "TagResponse_pathsError m"]; simp add: assms [unfolded TagResponse_good_def] TagResponse_lookup plain_keys),
      (rule string_plain.yields_list [where xs = "TagResponse_pathsOk m"]; simp add: assms [unfolded TagResponse_good_def] TagResponse_lookup plain_keys),
      (rule yields_object; simp add: assms [unfolded TagResponse_good_def] TagResponse_lookup plain_keys),
      (rule yields_array; simp add: assms [unfolded TagResponse_good_def] TagResponse_lookup plain_keys),
      (rule yields_array; simp add: assms [unfolded TagResponse_good_def] TagResponse_lookup plain_keys),
      rule string_plain.build_list [where xs = "TagResponse_pathsOk m" and opts = opts],
      rule string_plain.build_list [where xs = "TagResponse_pathsError m" and opts = opts],
      rule build_map [where kvs = "TagResponse_errors m" and opts = opts],
      rule build.simps(1) [THEN trans])
    (simp_all add: assms [unfolded TagResponse_good_def] TagResponse_lookup plain_keys TagResponse_props_def TagResponse_init_def)

lemma TagResponse_guarded: "TagResponse_verify v = ok None \<Longrightarrow> all_plain v \<Longrightarrow> \<exists>m. TagResponse_fromObject v = ok m"
  unfolding TagResponse_verify_def TagResponse_checks_def TagResponse_fromObject_def TagResponse_setters_def
  by (rule guards_object, rule guards_Cons, rule guards_Cons, rule guards_Cons, rule guards_Nil,
      (rule guard_map, simp),
      (rule string_plain.guard_list, simp),
      (rule string_plain.guard_list, simp),
      assumption, assumption) simp

interpretation TagResponse_plain: message_plain TagResponse_obj TagResponse_verify TagResponse_fromObject TagResponse_toObject TagResponse_good
  by unfold_locales
    (use TagResponse_accepts TagResponse_round TagResponse_guarded in \<open>auto simp: TagResponse_obj_def TagResponse_verify_def dest: verified_object\<close>)

subsection \<open>MetadataRequest\<close>

definition MetadataRequest_construct :: "js \<Rightarrow> js res" where
  "MetadataRequest_construct = construct ''MetadataRequest'' [] None"

definition MetadataRequest_create :: "js \<Rightarrow> js res" where
  "MetadataRequest_create properties = MetadataRequest_construct properties"

definition MetadataRequest_checks :: "check list" where
  "MetadataRequest_checks =
     [v_field ''path'' v_string]"

definition MetadataRequest_verify :: "js \<Rightarrow> string option res" where
  "MetadataRequest_verify = verify_with MetadataRequest_checks"

definition MetadataRequest_setters :: "setter list" where
  "MetadataRequest_setters =
     [f_field ''path'' c_string]"

definition MetadataRequest_fromObject :: "js \<Rightarrow> js res" where
  "MetadataRequest_fromObject = from_object ''MetadataRequest'' [] MetadataRequest_setters"

definition MetadataRequest_writers :: "writer list" where
  "MetadataRequest_writers =
     [d_value ''path'' (String []),
      t_field ''path'' t_same]"

definition MetadataRequest_toObject :: "js \<Rightarrow> to_options option \<Rightarrow> js res" where
  "MetadataRequest_toObject = to_object MetadataRequest_writers"

definition MetadataRequest_toJSON :: "js \<Rightarrow> js res" where
  "MetadataRequest_toJSON message = MetadataRequest_toObject message (Some toJSONOptions)"

definition MetadataRequest_getTypeUrl :: "jstring option \<Rightarrow> jstring" where
  "MetadataRequest_getTypeUrl = type_url ''MetadataRequest''"

definition MetadataRequest_props :: "MetadataRequest \<Rightarrow> props" where
  "MetadataRequest_props m =
     opt_prop ''path'' String (MetadataRequest_path m)"

definition MetadataRequest_obj :: "MetadataRequest \<Rightarrow> js" where
  "MetadataRequest_obj m = Object ''MetadataRequest'' (MetadataRequest_props m)"

definition MetadataRequest_good :: "MetadataRequest \<Rightarrow> bool" where
  "MetadataRequest_good m \<longleftrightarrow> True"

lemma MetadataRequest_lookup:
  "lookup (MetadataRequest_props m) ''path'' = map_option String (MetadataRequest_path m)"
  "\<not> shadows (MetadataRequest_props m)"
  by (simp_all add: MetadataRequest_props_def shadows_def)

lemma MetadataRequest_accepts:
  assumes "MetadataRequest_good m"
  shows "MetadataRequest_verify (MetadataRequest_obj m) = ok None"
  unfolding MetadataRequest_verify_def MetadataRequest_checks_def MetadataRequest_obj_def
  by (rule runs_verify [where members = "[]"],
      rule string_plain.runs_opt [where x = "MetadataRequest_path m"],
      rule runs_Nil)
    (simp_all add: MetadataRequest_lookup assms [unfolded MetadataRequest_good_def] at_most_one.simps(1))

lemma MetadataRequest_round:
  assumes "MetadataRequest_good m" "\<not> to_defaults opts"
  shows "\<exists>ps. MetadataRequest_toObject (MetadataRequest_obj m) (Some opts) = ok (plain ps) \<and>
    MetadataRequest_fromObject (plain ps) = ok (MetadataRequest_obj m)"
  unfolding MetadataRequest_toObject_def MetadataRequest_writers_def MetadataRequest_fromObject_def MetadataRequest_setters_def MetadataRequest_obj_def
  by (rule round_trip, simp,
      rule all_yield_Cons, rule all_yield_Cons, rule all_yield_Nil,
      (rule string_plain.yields_opt [where x = "MetadataRequest_path m"]; simp add: assms [unfolded MetadataRequest_good_def] MetadataRequest_lookup plain_keys),
      (rule yields_default(1); simp add: assms [unfolded MetadataRequest_good_def] MetadataRequest_lookup plain_keys),
      rule string_plain.build_opt [where x = "MetadataRequest_path m" and opts = opts],
      rule build.simps(1) [THEN trans])
    (simp_all add: assms [unfolded MetadataRequest_good_def] MetadataRequest_lookup plain_keys MetadataRequest_props_def)

lemma MetadataRequest_guarded: "MetadataRequest_verify v = ok None \<Longrightarrow> all_plain v \<Longrightarrow> \<exists>m. MetadataRequest_fromObject v = ok m"
  unfolding MetadataRequest_verify_def MetadataRequest_checks_def MetadataRequest_fromObject_def MetadataRequest_setters_def
  by (rule guards_object, rule guards_Cons, rule guards_Nil,
      (rule string_plain.guard_opt(1), simp),
      assumption, assumption) simp

interpretation MetadataRequest_plain: message_plain MetadataRequest_obj MetadataRequest_verify MetadataRequest_fromObject MetadataRequest_toObject MetadataRequest_good
  by unfold_locales
    (use MetadataRequest_accepts MetadataRequest_round MetadataRequest_guarded in \<open>auto simp: MetadataRequest_obj_def MetadataRequest_verify_def dest: verified_object\<close>)

subsection \<open>MetadataResponse\<close>

definition MetadataResponse_init :: props where
  "MetadataResponse_init = [(js_str ''metadata'', plain []), (js_str ''sources'', plain [])]"

definition MetadataResponse_construct :: "js \<Rightarrow> js res" where
  "MetadataResponse_construct = construct ''MetadataResponse'' MetadataResponse_init None"

definition MetadataResponse_create :: "js \<Rightarrow> js res" where
  "MetadataResponse_create properties = MetadataResponse_construct properties"

definition MetadataResponse_checks :: "check list" where
  "MetadataResponse_checks =
     [v_field ''path'' v_string,
      v_field ''metadata'' v_map,
      v_field ''sources'' v_map]"

definition MetadataResponse_verify :: "js \<Rightarrow> string option res" where
  "MetadataResponse_verify = verify_with MetadataResponse_checks"

definition MetadataResponse_setters :: "setter list" where
  "MetadataResponse_setters =
     [f_field ''path'' c_string,
      f_truthy ''metadata'' (c_map ''MetadataResponse'' ''metadata''),
      f_truthy ''sources'' (c_map ''MetadataResponse'' ''sources'')]"

definition MetadataResponse_fromObject :: "js \<Rightarrow> js res" where
  "MetadataResponse_fromObject = from_object ''MetadataResponse'' MetadataResponse_init MetadataResponse_setters"

definition MetadataResponse_writers :: "writer list" where
  "MetadataResponse_writers =
     [d_object ''metadata'',
      d_object ''sources'',
      d_value ''path'' (String []),
      t_field ''path'' t_same,
      t_map ''metadata'',
      t_map ''sources'']"

definition MetadataResponse_toObject :: "js \<Rightarrow> to_options option \<Rightarrow> js res" where
  "MetadataResponse_toObject = to_object MetadataResponse_writers"

definition MetadataResponse_toJSON :: "js \<Rightarrow> js res" where
  "MetadataResponse_toJSON message = MetadataResponse_toObject message (Some toJSONOptions)"

definition MetadataResponse_getTypeUrl :: "jstring option \<Rightarrow> jstring" where
  "MetadataResponse_getTypeUrl = type_url ''MetadataResponse''"

definition MetadataResponse_props :: "MetadataResponse \<Rightarrow> props" where
  "MetadataResponse_props m =
     [(js_str ''metadata'', map_obj (MetadataResponse_metadata m)),
      (js_str ''sources'', map_obj (MetadataResponse_sources m))] @
     opt_prop ''path'' String (MetadataResponse_path m)"

definition MetadataResponse_obj :: "MetadataResponse \<Rightarrow> js" where
  "MetadataResponse_obj m = Object ''MetadataResponse'' (MetadataResponse_props m)"

definition MetadataResponse_good :: "MetadataResponse \<Rightarrow> bool" where
  "MetadataResponse_good m \<longleftrightarrow> js_object (MetadataResponse_metadata m) \<and>
     js_object (MetadataResponse_sources m)"

lemma MetadataResponse_lookup:
  "lookup (MetadataResponse_props m) ''path'' = map_option String (MetadataResponse_path m)"
  "lookup (MetadataResponse_props m) ''metadata'' = Some (map_obj (MetadataResponse_metadata m))"
  "lookup (MetadataResponse_props m) ''sources'' = Some (map_obj (MetadataResponse_sources m))"
  "\<not> shadows (MetadataResponse_props m)"
  by (simp_all add: MetadataResponse_props_def shadows_def)

lemma MetadataResponse_accepts:
  assumes "MetadataResponse_good m"
  shows "MetadataResponse_verify (MetadataResponse_obj m) = ok None"
  unfolding MetadataResponse_verify_def MetadataResponse_checks_def MetadataResponse_obj_def
  by (rule runs_verify [where members = "[]"],
      rule string_plain.runs_opt [where x = "MetadataResponse_path m"],
      rule runs_map [where kvs = "MetadataResponse_metadata m"],
      rule runs_map [where kvs = "MetadataResponse_sources m"],
      rule runs_Nil)
    (simp_all add: MetadataResponse_lookup assms [unfolded MetadataResponse_good_def] at_most_one.simps(1))

lemma MetadataResponse_round:
  assumes "MetadataResponse_good m" "\<not> to_defaults opts"
  shows "\<exists>ps. MetadataResponse_toObject (MetadataResponse_obj m) (Some opts) = ok (plain ps) \<and>
    MetadataResponse_fromObject (plain ps) = ok (MetadataResponse_obj m)"
  unfolding MetadataResponse_toObject_def MetadataResponse_writers_def MetadataResponse_fromObject_def MetadataResponse_setters_def MetadataResponse_obj_def
  by (rule round_trip, simp,
      rule all_yield_Cons, rule all_yield_Cons, rule all_yield_Cons, rule all_yield_Cons,
      rule all_yield_Cons, rule all_yield_Cons, rule all_yield_Nil,
      (rule yields_map [where kvs = "MetadataResponse_sources m"]; simp add: assms [unfolded MetadataResponse_good_def] MetadataResponse_lookup plain_keys),
      (rule yields_map [where kvs = "MetadataResponse_metadata m"]; simp add: assms [unfolded MetadataResponse_good_def] MetadataResponse_lookup plain_keys),
      (rule string_plain.yields_opt [where x = "MetadataResponse_path m"]; simp add: assms [unfolded MetadataResponse_good_def] MetadataResponse_lookup plain_keys),
      (rule yields_default(1); simp add: assms [unfolded MetadataResponse_good_def] MetadataResponse_lookup plain_keys),
      (rule yields_object; simp add: assms [unfolded MetadataResponse_good_def] MetadataResponse_lookup plain_keys),
      (rule yields_object; simp add: assms [unfolded MetadataResponse_good_def] MetadataResponse_lookup plain_keys),
      rule string_plain.build_opt [where x = "MetadataResponse_path m" and opts = opts],
      rule build_map [where kvs = "MetadataResponse_metadata m" and opts = opts],
      rule build_map [where kvs = "MetadataResponse_sources m" and opts = opts],
      rule build.simps(1) [THEN trans])
    (simp_all add: assms [unfolded MetadataResponse_good_def] MetadataResponse_lookup plain_keys MetadataResponse_props_def MetadataResponse_init_def)

lemma MetadataResponse_guarded: "MetadataResponse_verify v = ok None \<Longrightarrow> all_plain v \<Longrightarrow> \<exists>m. MetadataResponse_fromObject v = ok m"
  unfolding MetadataResponse_verify_def MetadataResponse_checks_def MetadataResponse_fromObject_def MetadataResponse_setters_def
  by (rule guards_object, rule guards_Cons, rule guards_Cons, rule guards_Cons, rule guards_Nil,
      (rule guard_map, simp),
      (rule guard_map, simp),
      (rule string_plain.guard_opt(1), simp),
      assumption, assumption) simp

interpretation MetadataResponse_plain: message_plain MetadataResponse_obj MetadataResponse_verify MetadataResponse_fromObject MetadataResponse_toObject MetadataResponse_good
  by unfold_locales
    (use MetadataResponse_accepts MetadataResponse_round MetadataResponse_guarded in \<open>auto simp: MetadataResponse_obj_def MetadataResponse_verify_def dest: verified_object\<close>)

subsection \<open>MetadataSetRequest\<close>

definition MetadataSetRequest_construct :: "js \<Rightarrow> js res" where
  "MetadataSetRequest_construct = construct ''MetadataSetRequest'' [] None"

definition MetadataSetRequest_create :: "js \<Rightarrow> js res" where
  "MetadataSetRequest_create properties = MetadataSetRequest_construct properties"

definition MetadataSetRequest_checks :: "check list" where
  "MetadataSetRequest_checks =
     [v_field ''path'' v_string,
      v_field ''key'' v_string,
      v_field ''value'' v_string]"

definition MetadataSetRequest_verify :: "js \<Rightarrow> string option res" where
  "MetadataSetRequest_verify = verify_with MetadataSetRequest_checks"

definition MetadataSetRequest_setters :: "setter list" where
  "MetadataSetRequest_setters =
     [f_field ''path'' c_string,
      f_field ''key'' c_string,
      f_field ''value'' c_string]"

definition MetadataSetRequest_fromObject :: "js \<Rightarrow> js res" where
  "MetadataSetRequest_fromObject = from_object ''MetadataSetRequest'' [] MetadataSetRequest_setters"

definition MetadataSetRequest_writers :: "writer list" where
  "MetadataSetRequest_writers =
     [d_value ''path'' (String []),
      d_value ''key'' (String []),
      d_value ''value'' (String []),
      t_field ''path'' t_same,
      t_field ''key'' t_same,
      t_field ''value'' t_same]"

definition MetadataSetRequest_toObject :: "js \<Rightarrow> to_options option \<Rightarrow> js res" where
  "MetadataSetRequest_toObject = to_object MetadataSetRequest_writers"

definition MetadataSetRequest_toJSON :: "js \<Rightarrow> js res" where
  "MetadataSetRequest_toJSON message = MetadataSetRequest_toObject message (Some toJSONOptions)"

definition MetadataSetRequest_getTypeUrl :: "jstring option \<Rightarrow> jstring" where
  "MetadataSetRequest_getTypeUrl = type_url ''MetadataSetRequest''"

definition MetadataSetRequest_props :: "MetadataSetRequest \<Rightarrow> props" where
  "MetadataSetRequest_props m =
     opt_prop ''path'' String (MetadataSetRequest_path m) @
     opt_prop ''key'' String (MetadataSetRequest_key m) @
     opt_prop ''value'' String (MetadataSetRequest_value m)"

definition MetadataSetRequest_obj :: "MetadataSetRequest \<Rightarrow> js" where
  "MetadataSetRequest_obj m = Object ''MetadataSetRequest'' (MetadataSetRequest_props m)"

definition MetadataSetRequest_good :: "MetadataSetRequest \<Rightarrow> bool" where
  "MetadataSetRequest_good m \<longleftrightarrow> True"

lemma MetadataSetRequest_lookup:
  "lookup (MetadataSetRequest_props m) ''path'' = map_option String (MetadataSetRequest_path m)"
  "lookup (MetadataSetRequest_props m) ''key'' = map_option String (MetadataSetRequest_key m)"
  "lookup (MetadataSetRequest_props m) ''value'' = map_option String (MetadataSetRequest_value m)"
  "\<not> shadows (MetadataSetRequest_props m)"
  by (simp_all add: MetadataSetRequest_props_def shadows_def)

lemma MetadataSetRequest_accepts:
  assumes "MetadataSetRequest_good m"
  shows "MetadataSetRequest_verify (MetadataSetRequest_obj m) = ok None"
  unfolding MetadataSetRequest_verify_def MetadataSetRequest_checks_def MetadataSetRequest_obj_def
  by (rule runs_verify [where members = "[]"],
      rule string_plain.runs_opt [where x = "MetadataSetRequest_path m"],
      rule string_plain.runs_opt [where x = "MetadataSetRequest_key m"],
      rule string_plain.runs_opt [where x = "MetadataSetRequest_value m"],
      rule runs_Nil)
    (simp_all add: MetadataSetRequest_lookup assms [unfolded MetadataSetRequest_good_def] at_most_one.simps(1))

lemma MetadataSetRequest_round:
  assumes "MetadataSetRequest_good m" "\<not> to_defaults opts"
  shows "\<exists>ps. MetadataSetRequest_toObject (MetadataSetRequest_obj m) (Some opts) = ok (plain ps) \<and>
    MetadataSetRequest_fromObject (plain ps) = ok (MetadataSetRequest_obj m)"
  unfolding MetadataSetRequest_toObject_def MetadataSetRequest_writers_def MetadataSetRequest_fromObject_def MetadataSetRequest_setters_def MetadataSetRequest_obj_def
  by (rule round_trip, simp,
      rule all_yield_Cons, rule all_yield_Cons, rule all_yield_Cons, rule all_yield_Cons,
      rule all_yield_Cons, rule all_yield_Cons, rule all_yield_Nil,
      (rule string_plain.yields_opt [where x = "MetadataSetRequest_value m"]; simp add: assms [unfolded MetadataSetRequest_good_def] MetadataSetRequest_lookup plain_keys),
      (rule string_plain.yields_opt [where x = "MetadataSetRequest_key m"]; simp add: assms [unfolded MetadataSetRequest_good_def] MetadataSetRequest_lookup plain_keys),
      (rule string_plain.yields_opt [where x = "MetadataSetRequest_path m"]; simp add: assms [unfolded MetadataSetRequest_good_def] MetadataSetRequest_lookup plain_keys),
      (rule yields_default(1); simp add: assms [unfolded MetadataSetRequest_good_def] MetadataSetRequest_lookup plain_keys),
      (rule yields_default(1); simp add: assms [unfolded MetadataSetRequest_good_def] MetadataSetRequest_lookup plain_keys),
      (rule yields_default(1); simp add: assms [unfolded MetadataSetRequest_good_def] MetadataSetRequest_lookup plain_keys),
      rule string_plain.build_opt [where x = "MetadataSetRequest_path m" and opts = opts],
      rule string_plain.build_opt [where x = "MetadataSetRequest_key m" and opts = opts],
      rule string_plain.build_opt [where x = "MetadataSetRequest_value m" and opts = opts],
      rule build.simps(1) [THEN trans])
    (simp_all add: assms [unfolded MetadataSetRequest_good_def] MetadataSetRequest_lookup plain_keys MetadataSetRequest_props_def)

lemma MetadataSetRequest_guarded: "MetadataSetRequest_verify v = ok None \<Longrightarrow> all_plain v \<Longrightarrow> \<exists>m. MetadataSetRequest_fromObject v = ok m"
  unfolding MetadataSetRequest_verify_def MetadataSetRequest_checks_def MetadataSetRequest_fromObject_def MetadataSetRequest_setters_def
  by (rule guards_object, rule guards_Cons, rule guards_Cons, rule guards_Cons, rule guards_Nil,
      (rule string_plain.guard_opt(1), simp),
      (rule string_plain.guard_opt(1), simp),
      (rule string_plain.guard_opt(1), simp),
      assumption, assumption) simp

interpretation MetadataSetRequest_plain: message_plain MetadataSetRequest_obj MetadataSetRequest_verify MetadataSetRequest_fromObject MetadataSetRequest_toObject MetadataSetRequest_good
  by unfold_locales
    (use MetadataSetRequest_accepts MetadataSetRequest_round MetadataSetRequest_guarded in \<open>auto simp: MetadataSetRequest_obj_def MetadataSetRequest_verify_def dest: verified_object\<close>)

subsection \<open>RelatedRequest\<close>

definition RelatedRequest_construct :: "js \<Rightarrow> js res" where
  "RelatedRequest_construct = construct ''RelatedRequest'' [] None"

definition RelatedRequest_create :: "js \<Rightarrow> js res" where
  "RelatedRequest_create properties = RelatedRequest_construct properties"

definition RelatedRequest_checks :: "check list" where
  "RelatedRequest_checks =
     [v_field ''seedPath'' v_string,
      v_field ''limit'' v_integer,
      v_field ''maxHops'' v_integer,
      v_field ''hopWeight'' v_number,
      v_field ''vecWeight'' v_number]"

definition RelatedRequest_verify :: "js \<Rightarrow> string option res" where
  "RelatedRequest_verify = verify_with RelatedRequest_checks"

definition RelatedRequest_setters :: "setter list" where
  "RelatedRequest_setters =
     [f_field ''seedPath'' c_string,
      f_field ''limit'' c_uint32,
      f_field ''maxHops'' c_uint32,
      f_field ''hopWeight'' c_number,
      f_field ''vecWeight'' c_number]"

definition RelatedRequest_fromObject :: "js \<Rightarrow> js res" where
  "RelatedRequest_fromObject = from_object ''RelatedRequest'' [] RelatedRequest_setters"

definition RelatedRequest_writers :: "writer list" where
  "RelatedRequest_writers =
     [d_value ''seedPath'' (String []),
      d_value ''limit'' (int_js 0),
      d_value ''maxHops'' (int_js 0),
      d_value ''hopWeight'' (int_js 0),
      d_value ''vecWeight'' (int_js 0),
      t_field ''seedPath'' t_same,
      t_field ''limit'' t_same,
      t_field ''maxHops'' t_same,
      t_field ''hopWeight'' t_number,
      t_field ''vecWeight'' t_number]"

definition RelatedRequest_toObject :: "js \<Rightarrow> to_options option \<Rightarrow> js res" where
  "RelatedRequest_toObject = to_object RelatedRequest_writers"

definition RelatedRequest_toJSON :: "js \<Rightarrow> js res" where
  "RelatedRequest_toJSON message = RelatedRequest_toObject message (Some toJSONOptions)"

definition RelatedRequest_getTypeUrl :: "jstring option \<Rightarrow> jstring" where
  "RelatedRequest_getTypeUrl = type_url ''RelatedRequest''"

definition RelatedRequest_props :: "RelatedRequest \<Rightarrow> props" where
  "RelatedRequest_props m =
     opt_prop ''seedPath'' String (RelatedRequest_seedPath m) @
     opt_prop ''limit'' int_js (RelatedRequest_limit m) @
     opt_prop ''maxHops'' int_js (RelatedRequest_maxHops m) @
     opt_prop ''hopWeight'' (\<lambda>w. Number (f32_val w)) (RelatedRequest_hopWeight m) @
     opt_prop ''vecWeight'' (\<lambda>w. Number (f32_val w)) (RelatedRequest_vecWeight m)"

definition RelatedRequest_obj :: "RelatedRequest \<Rightarrow> js" where
  "RelatedRequest_obj m = Object ''RelatedRequest'' (RelatedRequest_props m)"

definition RelatedRequest_good :: "RelatedRequest \<Rightarrow> bool" where
  "RelatedRequest_good m \<longleftrightarrow> opt_all uint32_ok (RelatedRequest_limit m) \<and>
     opt_all uint32_ok (RelatedRequest_maxHops m)"

lemma RelatedRequest_lookup:
  "lookup (RelatedRequest_props m) ''seedPath'' = map_option String (RelatedRequest_seedPath m)"
  "lookup (RelatedRequest_props m) ''limit'' = map_option int_js (RelatedRequest_limit m)"
  "lookup (RelatedRequest_props m) ''maxHops'' = map_option int_js (RelatedRequest_maxHops m)"
  "lookup (RelatedRequest_props m) ''hopWeight'' = map_option (\<lambda>w. Number (f32_val w)) (RelatedRequest_hopWeight m)"
  "lookup (RelatedRequest_props m) ''vecWeight'' = map_option (\<lambda>w. Number (f32_val w)) (RelatedRequest_vecWeight m)"
  "\<not> shadows (RelatedRequest_props m)"
  by (simp_all add: RelatedRequest_props_def shadows_def)

lemma RelatedRequest_accepts:
  assumes "RelatedRequest_good m"
  shows "RelatedRequest_verify (RelatedRequest_obj m) = ok None"
  unfolding RelatedRequest_verify_def RelatedRequest_checks_def RelatedRequest_obj_def
  by (rule runs_verify [where members = "[]"],
      rule string_plain.runs_opt [where x = "RelatedRequest_seedPath m"],
      rule uint32_plain.runs_opt [where x = "RelatedRequest_limit m"],
      rule uint32_plain.runs_opt [where x = "RelatedRequest_maxHops m"],
      rule float_plain.runs_opt [where x = "RelatedRequest_hopWeight m"],
      rule float_plain.runs_opt [where x = "RelatedRequest_vecWeight m"],
      rule runs_Nil)
    (simp_all add: RelatedRequest_lookup assms [unfolded RelatedRequest_good_def] at_most_one.simps(1))

lemma RelatedRequest_round:
  assumes "RelatedRequest_good m" "\<not> to_defaults opts"
  shows "\<exists>ps. RelatedRequest_toObject (RelatedRequest_obj m) (Some opts) = ok (plain ps) \<and>
    RelatedRequest_fromObject (plain ps) = ok (RelatedRequest_obj m)"
  unfolding RelatedRequest_toObject_def RelatedRequest_writers_def RelatedRequest_fromObject_def RelatedRequest_setters_def RelatedRequest_obj_def
  by (rule round_trip, simp,
      rule all_yield_Cons, rule all_yield_Cons, rule all_yield_Cons, rule all_yield_Cons,
      rule all_yield_Cons, rule all_yield_Cons, rule all_yield_Cons, rule all_yield_Cons,
      rule all_yield_Cons, rule all_yield_Cons, rule all_yield_Nil,
      (rule float_plain.yields_opt [where x = "RelatedRequest_vecWeight m"]; simp add: assms [unfolded RelatedRequest_good_def] RelatedRequest_lookup plain_keys),
      (rule float_plain.yields_opt [where x = "RelatedRequest_hopWeight m"]; simp add: assms [unfolded RelatedRequest_good_def] RelatedRequest_lookup plain_keys),
      (rule uint32_plain.yields_opt [where x = "RelatedRequest_maxHops m"]; simp add: assms [unfolded RelatedRequest_good_def] RelatedRequest_lookup plain_keys),
      (rule uint32_plain.yields_opt [where x = "RelatedRequest_limit m"]; simp add: assms [unfolded RelatedRequest_good_def] RelatedRequest_lookup plain_keys),
      (rule string_plain.yields_opt [where x = "RelatedRequest_seedPath m"]; simp add: assms [unfolded RelatedRequest_good_def] RelatedRequest_lookup plain_keys),
      (rule yields_default(1); simp add: assms [unfolded RelatedRequest_good_def] RelatedRequest_lookup plain_keys),
      (rule yields_default(1); simp add: assms [unfolded RelatedRequest_good_def] RelatedRequest_lookup plain_keys),
      (rule yields_default(1); simp add: assms [unfolded RelatedRequest_good_def] RelatedRequest_lookup plain_keys),
      (rule yields_default(1); simp add: assms [unfolded RelatedRequest_good_def] RelatedRequest_lookup plain_keys),
      (rule yields_default(1); simp add: assms [unfolded RelatedRequest_good_def] RelatedRequest_lookup plain_keys),
      rule string_plain.build_opt [where x = "RelatedRequest_seedPath m" and opts = opts],
      rule uint32_plain.build_opt [where x = "RelatedRequest_limit m" and opts = opts],
      rule uint32_plain.build_opt [where x = "RelatedRequest_maxHops m" and opts = opts],
      rule float_plain.build_opt [where x = "RelatedRequest_hopWeight m" and opts = opts],
      rule float_plain.build_opt [where x = "RelatedRequest_vecWeight m" and opts = opts],
      rule build.simps(1) [THEN trans])
    (simp_all add: assms [unfolded RelatedRequest_good_def] RelatedRequest_lookup plain_keys RelatedRequest_props_def)

lemma RelatedRequest_guarded: "RelatedRequest_verify v = ok None \<Longrightarrow> all_plain v \<Longrightarrow> \<exists>m. RelatedRequest_fromObject v = ok m"
  unfolding RelatedRequest_verify_def RelatedRequest_checks_def RelatedRequest_fromObject_def RelatedRequest_setters_def
  by (rule guards_object, rule guards_Cons, rule guards_Cons, rule guards_Cons, rule guards_Cons, rule
      guards_Cons, rule guards_Nil,
      (rule float_plain.guard_opt(1), simp),
      (rule float_plain.guard_opt(1), simp),
      (rule uint32_plain.guard_opt(1), simp),
      (rule uint32_plain.guard_opt(1), simp),
      (rule string_plain.guard_opt(1), simp),
      assumption, assumption) simp

interpretation RelatedRequest_plain: message_plain RelatedRequest_obj RelatedRequest_verify RelatedRequest_fromObject RelatedRequest_toObject RelatedRequest_good
  by unfold_locales
    (use RelatedRequest_accepts RelatedRequest_round RelatedRequest_guarded in \<open>auto simp: RelatedRequest_obj_def RelatedRequest_verify_def dest: verified_object\<close>)

subsection \<open>ScoredFile\<close>

definition ScoredFile_construct :: "js \<Rightarrow> js res" where
  "ScoredFile_construct = construct ''ScoredFile'' [] None"

definition ScoredFile_create :: "js \<Rightarrow> js res" where
  "ScoredFile_create properties = ScoredFile_construct properties"

definition ScoredFile_checks :: "check list" where
  "ScoredFile_checks =
     [v_field ''file'' (v_message FileResult_verify),
      v_field ''score'' v_number,
      v_field ''hopDistance'' v_integer,
      v_field ''cosineSim'' v_number]"

definition ScoredFile_verify :: "js \<Rightarrow> string option res" where
  "ScoredFile_verify = verify_with ScoredFile_checks"

definition ScoredFile_setters :: "setter list" where
  "ScoredFile_setters =
     [f_field ''file'' (c_message ''ScoredFile'' ''file'' FileResult_fromObject),
      f_field ''score'' c_number,
      f_field ''hopDistance'' c_uint32,
      f_field ''cosineSim'' c_number]"

definition ScoredFile_fromObject :: "js \<Rightarrow> js res" where
  "ScoredFile_fromObject = from_object ''ScoredFile'' [] ScoredFile_setters"

definition ScoredFile_writers :: "writer list" where
  "ScoredFile_writers =
     [d_value ''file'' Null,
      d_value ''score'' (int_js 0),
      d_value ''hopDistance'' (int_js 0),
      d_value ''cosineSim'' (int_js 0),
      t_field ''file'' (t_message FileResult_toObject),
      t_field ''score'' t_number,
      t_field ''hopDistance'' t_same,
      t_field ''cosineSim'' t_number]"

definition ScoredFile_toObject :: "js \<Rightarrow> to_options option \<Rightarrow> js res" where
  "ScoredFile_toObject = to_object ScoredFile_writers"

definition ScoredFile_toJSON :: "js \<Rightarrow> js res" where
  "ScoredFile_toJSON message = ScoredFile_toObject message (Some toJSONOptions)"

definition ScoredFile_getTypeUrl :: "jstring option \<Rightarrow> jstring" where
  "ScoredFile_getTypeUrl = type_url ''ScoredFile''"

definition ScoredFile_props :: "ScoredFile \<Rightarrow> props" where
  "ScoredFile_props m =
     opt_prop ''file'' FileResult_obj (ScoredFile_file m) @
     opt_prop ''score'' (\<lambda>w. Number (f64_val w)) (ScoredFile_score m) @
     opt_prop ''hopDistance'' int_js (ScoredFile_hopDistance m) @
     opt_prop ''cosineSim'' (\<lambda>w. Number (f64_val w)) (ScoredFile_cosineSim m)"

definition ScoredFile_obj :: "ScoredFile \<Rightarrow> js" where
  "ScoredFile_obj m = Object ''ScoredFile'' (ScoredFile_props m)"

definition ScoredFile_good :: "ScoredFile \<Rightarrow> bool" where
  "ScoredFile_good m \<longleftrightarrow> opt_all FileResult_good (ScoredFile_file m) \<and>
     opt_all uint32_ok (ScoredFile_hopDistance m)"

lemma ScoredFile_lookup:
  "lookup (ScoredFile_props m) ''file'' = map_option FileResult_obj (ScoredFile_file m)"
  "lookup (ScoredFile_props m) ''score'' = map_option (\<lambda>w. Number (f64_val w)) (ScoredFile_score m)"
  "lookup (ScoredFile_props m) ''hopDistance'' = map_option int_js (ScoredFile_hopDistance m)"
  "lookup (ScoredFile_props m) ''cosineSim'' = map_option (\<lambda>w. Number (f64_val w)) (ScoredFile_cosineSim m)"
  "\<not> shadows (ScoredFile_props m)"
  by (simp_all add: ScoredFile_props_def shadows_def)

lemma ScoredFile_accepts:
  assumes "ScoredFile_good m"
  shows "ScoredFile_verify (ScoredFile_obj m) = ok None"
  unfolding ScoredFile_verify_def ScoredFile_checks_def ScoredFile_obj_def
  by (rule runs_verify [where members = "[]"],
      rule FileResult_plain.sub.runs_opt [where x = "ScoredFile_file m"],
      rule double_plain.runs_opt [where x = "ScoredFile_score m"],
      rule uint32_plain.runs_opt [where x = "ScoredFile_hopDistance m"],
      rule double_plain.runs_opt [where x = "ScoredFile_cosineSim m"],
      rule runs_Nil)
    (simp_all add: ScoredFile_lookup assms [unfolded ScoredFile_good_def] at_most_one.simps(1))

lemma ScoredFile_round:
  assumes "ScoredFile_good m" "\<not> to_defaults opts"
  shows "\<exists>ps. ScoredFile_toObject (ScoredFile_obj m) (Some opts) = ok (plain ps) \<and>
    ScoredFile_fromObject (plain ps) = ok (ScoredFile_obj m)"
  unfolding ScoredFile_toObject_def ScoredFile_writers_def ScoredFile_fromObject_def ScoredFile_setters_def ScoredFile_obj_def
  by (rule round_trip, simp,
      rule all_yield_Cons, rule all_yield_Cons, rule all_yield_Cons, rule all_yield_Cons,
      rule all_yield_Cons, rule all_yield_Cons, rule all_yield_Cons, rule all_yield_Cons,
      rule all_yield_Nil,
      (rule double_plain.yields_opt [where x = "ScoredFile_cosineSim m"]; simp add: assms [unfolded ScoredFile_good_def] ScoredFile_lookup plain_keys),
      (rule uint32_plain.yields_opt [where x = "ScoredFile_hopDistance m"]; simp add: assms [unfolded ScoredFile_good_def] ScoredFile_lookup plain_keys),
      (rule double_plain.yields_opt [where x = "ScoredFile_score m"]; simp add: assms [unfolded ScoredFile_good_def] ScoredFile_lookup plain_keys),
      (rule FileResult_plain.sub.yields_opt [where x = "ScoredFile_file m"]; simp add: assms [unfolded ScoredFile_good_def] ScoredFile_lookup plain_keys),
      (rule yields_default(1); simp add: assms [unfolded ScoredFile_good_def] ScoredFile_lookup plain_keys),
      (rule yields_default(1); simp add: assms [unfolded ScoredFile_good_def] ScoredFile_lookup plain_keys),
      (rule yields_default(1); simp add: assms [unfolded ScoredFile_good_def] ScoredFile_lookup plain_keys),
      (rule yields_default(1); simp add: assms [unfolded ScoredFile_good_def] ScoredFile_lookup plain_keys),
      rule FileResult_plain.sub.build_opt [where x = "ScoredFile_file m" and opts = opts],
      rule double_plain.build_opt [where x = "ScoredFile_score m" and opts = opts],
      rule uint32_plain.build_opt [where x = "ScoredFile_hopDistance m" and opts = opts],
      rule double_plain.build_opt [where x = "ScoredFile_cosineSim m" and opts = opts],
      rule build.simps(1) [THEN trans])
    (simp_all add: assms [unfolded ScoredFile_good_def] ScoredFile_lookup plain_keys ScoredFile_props_def)

lemma ScoredFile_guarded: "ScoredFile_verify v = ok None \<Longrightarrow> all_plain v \<Longrightarrow> \<exists>m. ScoredFile_fromObject v = ok m"
  unfolding ScoredFile_verify_def ScoredFile_checks_def ScoredFile_fromObject_def ScoredFile_setters_def
  by (rule guards_object, rule guards_Cons, rule guards_Cons, rule guards_Cons, rule guards_Cons, rule
      guards_Nil,
      (rule double_plain.guard_opt(1), simp),
      (rule uint32_plain.guard_opt(1), simp),
      (rule double_plain.guard_opt(1), simp),
      (rule FileResult_plain.sub.guard_opt(1), simp),
      assumption, assumption) simp

interpretation ScoredFile_plain: message_plain ScoredFile_obj ScoredFile_verify ScoredFile_fromObject ScoredFile_toObject ScoredFile_good
  by unfold_locales
    (use ScoredFile_accepts ScoredFile_round ScoredFile_guarded in \<open>auto simp: ScoredFile_obj_def ScoredFile_verify_def dest: verified_object\<close>)

subsection \<open>RelatedResponse\<close>

definition RelatedResponse_init :: props where
  "RelatedResponse_init = [(js_str ''files'', Array [])]"

definition RelatedResponse_construct :: "js \<Rightarrow> js res" where
  "RelatedResponse_construct = construct ''RelatedResponse'' RelatedResponse_init None"

definition RelatedResponse_create :: "js \<Rightarrow> js res" where
  "RelatedResponse_create properties = RelatedResponse_construct properties"

definition RelatedResponse_checks :: "check list" where
  "RelatedResponse_checks =
     [v_field ''files'' (v_messages ScoredFile_verify)]"

definition RelatedResponse_verify :: "js \<Rightarrow> string option res" where
  "RelatedResponse_verify = verify_with RelatedResponse_checks"

definition RelatedResponse_setters :: "setter list" where
  "RelatedResponse_setters =
     [f_truthy ''files'' (c_array ''RelatedResponse'' ''files'' (c_message ''RelatedResponse'' ''files'' ScoredFile_fromObject))]"

definition RelatedResponse_fromObject :: "js \<Rightarrow> js res" where
  "RelatedResponse_fromObject = from_object ''RelatedResponse'' RelatedResponse_init RelatedResponse_setters"

definition RelatedResponse_writers :: "writer list" where
  "RelatedResponse_writers =
     [d_array ''files'',
      t_list ''files'' (t_message ScoredFile_toObject)]"

definition RelatedResponse_toObject :: "js \<Rightarrow> to_options option \<Rightarrow> js res" where
  "RelatedResponse_toObject = to_object RelatedResponse_writers"

definition RelatedResponse_toJSON :: "js \<Rightarrow> js res" where
  "RelatedResponse_toJSON message = RelatedResponse_toObject message (Some toJSONOptions)"

definition RelatedResponse_getTypeUrl :: "jstring option \<Rightarrow> jstring" where
  "RelatedResponse_getTypeUrl = type_url ''RelatedResponse''"

definition RelatedResponse_props :: "RelatedResponse \<Rightarrow> props" where
  "RelatedResponse_props m =
     [(js_str ''files'', Array (map ScoredFile_obj (RelatedResponse_files m)))]"

definition RelatedResponse_obj :: "RelatedResponse \<Rightarrow> js" where
  "RelatedResponse_obj m = Object ''RelatedResponse'' (RelatedResponse_props m)"

definition RelatedResponse_good :: "RelatedResponse \<Rightarrow> bool" where
  "RelatedResponse_good m \<longleftrightarrow> list_all ScoredFile_good (RelatedResponse_files m)"

lemma RelatedResponse_lookup:
  "lookup (RelatedResponse_props m) ''files'' = Some (Array (map ScoredFile_obj (RelatedResponse_files m)))"
  "\<not> shadows (RelatedResponse_props m)"
  by (simp_all add: RelatedResponse_props_def shadows_def)

lemma RelatedResponse_accepts:
  assumes "RelatedResponse_good m"
  shows "RelatedResponse_verify (RelatedResponse_obj m) = ok None"
  unfolding RelatedResponse_verify_def RelatedResponse_checks_def RelatedResponse_obj_def
  by (rule runs_verify [where members = "[]"],
      rule ScoredFile_plain.sub.runs_list [where xs = "RelatedResponse_files m"],
      rule runs_Nil)
    (simp_all add: RelatedResponse_lookup assms [unfolded RelatedResponse_good_def] at_most_one.simps(1))

lemma RelatedResponse_round:
  assumes "RelatedResponse_good m" "\<not> to_defaults opts"
  shows "\<exists>ps. RelatedResponse_toObject (RelatedResponse_obj m) (Some opts) = ok (plain ps) \<and>
    RelatedResponse_fromObject (plain ps) = ok (RelatedResponse_obj m)"
  unfolding RelatedResponse_toObject_def RelatedResponse_writers_def RelatedResponse_fromObject_def RelatedResponse_setters_def RelatedResponse_obj_def
  by (rule round_trip, simp,
      rule all_yield_Cons, rule all_yield_Cons, rule all_yield_Nil,
      (rule ScoredFile_plain.sub.yields_list [where xs = "RelatedResponse_files m"]; simp add: assms [unfolded RelatedResponse_good_def] RelatedResponse_lookup plain_keys),
      (rule yields_array; simp add: assms [unfolded RelatedResponse_good_def] RelatedResponse_lookup plain_keys),
      rule ScoredFile_plain.sub.build_list [where xs = "RelatedResponse_files m" and opts = opts],
      rule build.simps(1) [THEN trans])
    (simp_all add: assms [unfolded RelatedResponse_good_def] RelatedResponse_lookup plain_keys RelatedResponse_props_def RelatedResponse_init_def)

lemma RelatedResponse_guarded: "RelatedResponse_verify v = ok None \<Longrightarrow> all_plain v \<Longrightarrow> \<exists>m. RelatedResponse_fromObject v = ok m"
  unfolding RelatedResponse_verify_def RelatedResponse_checks_def RelatedResponse_fromObject_def RelatedResponse_setters_def
  by (rule guards_object, rule guards_Cons, rule guards_Nil,
      (rule ScoredFile_plain.sub.guard_list, simp),
      assumption, assumption) simp

interpretation RelatedResponse_plain: message_plain RelatedResponse_obj RelatedResponse_verify RelatedResponse_fromObject RelatedResponse_toObject RelatedResponse_good
  by unfold_locales
    (use RelatedResponse_accepts RelatedResponse_round RelatedResponse_guarded in \<open>auto simp: RelatedResponse_obj_def RelatedResponse_verify_def dest: verified_object\<close>)

subsection \<open>ListTagsRequest\<close>

definition ListTagsRequest_construct :: "js \<Rightarrow> js res" where
  "ListTagsRequest_construct = construct ''ListTagsRequest'' [] None"

definition ListTagsRequest_create :: "js \<Rightarrow> js res" where
  "ListTagsRequest_create properties = ListTagsRequest_construct properties"

definition ListTagsRequest_checks :: "check list" where
  "ListTagsRequest_checks =
     [v_field ''prefix'' v_string]"

definition ListTagsRequest_verify :: "js \<Rightarrow> string option res" where
  "ListTagsRequest_verify = verify_with ListTagsRequest_checks"

definition ListTagsRequest_setters :: "setter list" where
  "ListTagsRequest_setters =
     [f_field ''prefix'' c_string]"

definition ListTagsRequest_fromObject :: "js \<Rightarrow> js res" where
  "ListTagsRequest_fromObject = from_object ''ListTagsRequest'' [] ListTagsRequest_setters"

definition ListTagsRequest_writers :: "writer list" where
  "ListTagsRequest_writers =
     [d_value ''prefix'' (String []),
      t_field ''prefix'' t_same]"

definition ListTagsRequest_toObject :: "js \<Rightarrow> to_options option \<Rightarrow> js res" where
  "ListTagsRequest_toObject = to_object ListTagsRequest_writers"

definition ListTagsRequest_toJSON :: "js \<Rightarrow> js res" where
  "ListTagsRequest_toJSON message = ListTagsRequest_toObject message (Some toJSONOptions)"

definition ListTagsRequest_getTypeUrl :: "jstring option \<Rightarrow> jstring" where
  "ListTagsRequest_getTypeUrl = type_url ''ListTagsRequest''"

definition ListTagsRequest_props :: "ListTagsRequest \<Rightarrow> props" where
  "ListTagsRequest_props m =
     opt_prop ''prefix'' String (ListTagsRequest_prefix m)"

definition ListTagsRequest_obj :: "ListTagsRequest \<Rightarrow> js" where
  "ListTagsRequest_obj m = Object ''ListTagsRequest'' (ListTagsRequest_props m)"

definition ListTagsRequest_good :: "ListTagsRequest \<Rightarrow> bool" where
  "ListTagsRequest_good m \<longleftrightarrow> True"

lemma ListTagsRequest_lookup:
  "lookup (ListTagsRequest_props m) ''prefix'' = map_option String (ListTagsRequest_prefix m)"
  "\<not> shadows (ListTagsRequest_props m)"
  by (simp_all add: ListTagsRequest_props_def shadows_def)

lemma ListTagsRequest_accepts:
  assumes "ListTagsRequest_good m"
  shows "ListTagsRequest_verify (ListTagsRequest_obj m) = ok None"
  unfolding ListTagsRequest_verify_def ListTagsRequest_checks_def ListTagsRequest_obj_def
  by (rule runs_verify [where members = "[]"],
      rule string_plain.runs_opt [where x = "ListTagsRequest_prefix m"],
      rule runs_Nil)
    (simp_all add: ListTagsRequest_lookup assms [unfolded ListTagsRequest_good_def] at_most_one.simps(1))

lemma ListTagsRequest_round:
  assumes "ListTagsRequest_good m" "\<not> to_defaults opts"
  shows "\<exists>ps. ListTagsRequest_toObject (ListTagsRequest_obj m) (Some opts) = ok (plain ps) \<and>
    ListTagsRequest_fromObject (plain ps) = ok (ListTagsRequest_obj m)"
  unfolding ListTagsRequest_toObject_def ListTagsRequest_writers_def ListTagsRequest_fromObject_def ListTagsRequest_setters_def ListTagsRequest_obj_def
  by (rule round_trip, simp,
      rule all_yield_Cons, rule all_yield_Cons, rule all_yield_Nil,
      (rule string_plain.yields_opt [where x = "ListTagsRequest_prefix m"]; simp add: assms [unfolded ListTagsRequest_good_def] ListTagsRequest_lookup plain_keys),
      (rule yields_default(1); simp add: assms [unfolded ListTagsRequest_good_def] ListTagsRequest_lookup plain_keys),
      rule string_plain.build_opt [where x = "ListTagsRequest_prefix m" and opts = opts],
      rule build.simps(1) [THEN trans])
    (simp_all add: assms [unfolded ListTagsRequest_good_def] ListTagsRequest_lookup plain_keys ListTagsRequest_props_def)

lemma ListTagsRequest_guarded: "ListTagsRequest_verify v = ok None \<Longrightarrow> all_plain v \<Longrightarrow> \<exists>m. ListTagsRequest_fromObject v = ok m"
  unfolding ListTagsRequest_verify_def ListTagsRequest_checks_def ListTagsRequest_fromObject_def ListTagsRequest_setters_def
  by (rule guards_object, rule guards_Cons, rule guards_Nil,
      (rule string_plain.guard_opt(1), simp),
      assumption, assumption) simp

interpretation ListTagsRequest_plain: message_plain ListTagsRequest_obj ListTagsRequest_verify ListTagsRequest_fromObject ListTagsRequest_toObject ListTagsRequest_good
  by unfold_locales
    (use ListTagsRequest_accepts ListTagsRequest_round ListTagsRequest_guarded in \<open>auto simp: ListTagsRequest_obj_def ListTagsRequest_verify_def dest: verified_object\<close>)

subsection \<open>ListTagsResponse\<close>

definition ListTagsResponse_init :: props where
  "ListTagsResponse_init = [(js_str ''tags'', Array [])]"

definition ListTagsResponse_construct :: "js \<Rightarrow> js res" where
  "ListTagsResponse_construct = construct ''ListTagsResponse'' ListTagsResponse_init None"

definition ListTagsResponse_create :: "js \<Rightarrow> js res" where
  "ListTagsResponse_create properties = ListTagsResponse_construct properties"

definition ListTagsResponse_checks :: "check list" where
  "ListTagsResponse_checks =
     [v_field ''tags'' v_strings]"

definition ListTagsResponse_verify :: "js \<Rightarrow> string option res" where
  "ListTagsResponse_verify = verify_with ListTagsResponse_checks"

definition ListTagsResponse_setters :: "setter list" where
  "ListTagsResponse_setters =
     [f_truthy ''tags'' (c_array ''ListTagsResponse'' ''tags'' c_string)]"

definition ListTagsResponse_fromObject :: "js \<Rightarrow> js res" where
  "ListTagsResponse_fromObject = from_object ''ListTagsResponse'' ListTagsResponse_init ListTagsResponse_setters"

definition ListTagsResponse_writers :: "writer list" where
  "ListTagsResponse_writers =
     [d_array ''tags'',
      t_list ''tags'' t_same]"

definition ListTagsResponse_toObject :: "js \<Rightarrow> to_options option \<Rightarrow> js res" where
  "ListTagsResponse_toObject = to_object ListTagsResponse_writers"

definition ListTagsResponse_toJSON :: "js \<Rightarrow> js res" where
  "ListTagsResponse_toJSON message = ListTagsResponse_toObject message (Some toJSONOptions)"

definition ListTagsResponse_getTypeUrl :: "jstring option \<Rightarrow> jstring" where
  "ListTagsResponse_getTypeUrl = type_url ''ListTagsResponse''"

definition ListTagsResponse_props :: "ListTagsResponse \<Rightarrow> props" where
  "ListTagsResponse_props m =
     [(js_str ''tags'', Array (map String (ListTagsResponse_tags m)))]"

definition ListTagsResponse_obj :: "ListTagsResponse \<Rightarrow> js" where
  "ListTagsResponse_obj m = Object ''ListTagsResponse'' (ListTagsResponse_props m)"

definition ListTagsResponse_good :: "ListTagsResponse \<Rightarrow> bool" where
  "ListTagsResponse_good m \<longleftrightarrow> True"

lemma ListTagsResponse_lookup:
  "lookup (ListTagsResponse_props m) ''tags'' = Some (Array (map String (ListTagsResponse_tags m)))"
  "\<not> shadows (ListTagsResponse_props m)"
  by (simp_all add: ListTagsResponse_props_def shadows_def)

lemma ListTagsResponse_accepts:
  assumes "ListTagsResponse_good m"
  shows "ListTagsResponse_verify (ListTagsResponse_obj m) = ok None"
  unfolding ListTagsResponse_verify_def ListTagsResponse_checks_def ListTagsResponse_obj_def
  by (rule runs_verify [where members = "[]"],
      rule string_plain.runs_list [where xs = "ListTagsResponse_tags m"],
      rule runs_Nil)
    (simp_all add: ListTagsResponse_lookup assms [unfolded ListTagsResponse_good_def] at_most_one.simps(1))

lemma ListTagsResponse_round:
  assumes "ListTagsResponse_good m" "\<not> to_defaults opts"
  shows "\<exists>ps. ListTagsResponse_toObject (ListTagsResponse_obj m) (Some opts) = ok (plain ps) \<and>
    ListTagsResponse_fromObject (plain ps) = ok (ListTagsResponse_obj m)"
  unfolding ListTagsResponse_toObject_def ListTagsResponse_writers_def ListTagsResponse_fromObject_def ListTagsResponse_setters_def ListTagsResponse_obj_def
  by (rule round_trip, simp,
      rule all_yield_Cons, rule all_yield_Cons, rule all_yield_Nil,
      (rule string_plain.yields_list [where xs = "ListTagsResponse_tags m"]; simp add: assms [unfolded ListTagsResponse_good_def] ListTagsResponse_lookup plain_keys),
      (rule yields_array; simp add: assms [unfolded ListTagsResponse_good_def] ListTagsResponse_lookup plain_keys),
      rule string_plain.build_list [where xs = "ListTagsResponse_tags m" and opts = opts],
      rule build.simps(1) [THEN trans])
    (simp_all add: assms [unfolded ListTagsResponse_good_def] ListTagsResponse_lookup plain_keys ListTagsResponse_props_def ListTagsResponse_init_def)

lemma ListTagsResponse_guarded: "ListTagsResponse_verify v = ok None \<Longrightarrow> all_plain v \<Longrightarrow> \<exists>m. ListTagsResponse_fromObject v = ok m"
  unfolding ListTagsResponse_verify_def ListTagsResponse_checks_def ListTagsResponse_fromObject_def ListTagsResponse_setters_def
  by (rule guards_object, rule guards_Cons, rule guards_Nil,
      (rule string_plain.guard_list, simp),
      assumption, assumption) simp

interpretation ListTagsResponse_plain: message_plain ListTagsResponse_obj ListTagsResponse_verify ListTagsResponse_fromObject ListTagsResponse_toObject ListTagsResponse_good
  by unfold_locales
    (use ListTagsResponse_accepts ListTagsResponse_round ListTagsResponse_guarded in \<open>auto simp: ListTagsResponse_obj_def ListTagsResponse_verify_def dest: verified_object\<close>)

subsection \<open>HydrateTagsRequest\<close>

definition HydrateTagsRequest_init :: props where
  "HydrateTagsRequest_init = [(js_str ''paths'', Array [])]"

definition HydrateTagsRequest_construct :: "js \<Rightarrow> js res" where
  "HydrateTagsRequest_construct = construct ''HydrateTagsRequest'' HydrateTagsRequest_init None"

definition HydrateTagsRequest_create :: "js \<Rightarrow> js res" where
  "HydrateTagsRequest_create properties = HydrateTagsRequest_construct properties"

definition HydrateTagsRequest_checks :: "check list" where
  "HydrateTagsRequest_checks =
     [v_field ''paths'' v_strings]"

definition HydrateTagsRequest_verify :: "js \<Rightarrow> string option res" where
  "HydrateTagsRequest_verify = verify_with HydrateTagsRequest_checks"

definition HydrateTagsRequest_setters :: "setter list" where
  "HydrateTagsRequest_setters =
     [f_truthy ''paths'' (c_array ''HydrateTagsRequest'' ''paths'' c_string)]"

definition HydrateTagsRequest_fromObject :: "js \<Rightarrow> js res" where
  "HydrateTagsRequest_fromObject = from_object ''HydrateTagsRequest'' HydrateTagsRequest_init HydrateTagsRequest_setters"

definition HydrateTagsRequest_writers :: "writer list" where
  "HydrateTagsRequest_writers =
     [d_array ''paths'',
      t_list ''paths'' t_same]"

definition HydrateTagsRequest_toObject :: "js \<Rightarrow> to_options option \<Rightarrow> js res" where
  "HydrateTagsRequest_toObject = to_object HydrateTagsRequest_writers"

definition HydrateTagsRequest_toJSON :: "js \<Rightarrow> js res" where
  "HydrateTagsRequest_toJSON message = HydrateTagsRequest_toObject message (Some toJSONOptions)"

definition HydrateTagsRequest_getTypeUrl :: "jstring option \<Rightarrow> jstring" where
  "HydrateTagsRequest_getTypeUrl = type_url ''HydrateTagsRequest''"

definition HydrateTagsRequest_props :: "HydrateTagsRequest \<Rightarrow> props" where
  "HydrateTagsRequest_props m =
     [(js_str ''paths'', Array (map String (HydrateTagsRequest_paths m)))]"

definition HydrateTagsRequest_obj :: "HydrateTagsRequest \<Rightarrow> js" where
  "HydrateTagsRequest_obj m = Object ''HydrateTagsRequest'' (HydrateTagsRequest_props m)"

definition HydrateTagsRequest_good :: "HydrateTagsRequest \<Rightarrow> bool" where
  "HydrateTagsRequest_good m \<longleftrightarrow> True"

lemma HydrateTagsRequest_lookup:
  "lookup (HydrateTagsRequest_props m) ''paths'' = Some (Array (map String (HydrateTagsRequest_paths m)))"
  "\<not> shadows (HydrateTagsRequest_props m)"
  by (simp_all add: HydrateTagsRequest_props_def shadows_def)

lemma HydrateTagsRequest_accepts:
  assumes "HydrateTagsRequest_good m"
  shows "HydrateTagsRequest_verify (HydrateTagsRequest_obj m) = ok None"
  unfolding HydrateTagsRequest_verify_def HydrateTagsRequest_checks_def HydrateTagsRequest_obj_def
  by (rule runs_verify [where members = "[]"],
      rule string_plain.runs_list [where xs = "HydrateTagsRequest_paths m"],
      rule runs_Nil)
    (simp_all add: HydrateTagsRequest_lookup assms [unfolded HydrateTagsRequest_good_def] at_most_one.simps(1))

lemma HydrateTagsRequest_round:
  assumes "HydrateTagsRequest_good m" "\<not> to_defaults opts"
  shows "\<exists>ps. HydrateTagsRequest_toObject (HydrateTagsRequest_obj m) (Some opts) = ok (plain ps) \<and>
    HydrateTagsRequest_fromObject (plain ps) = ok (HydrateTagsRequest_obj m)"
  unfolding HydrateTagsRequest_toObject_def HydrateTagsRequest_writers_def HydrateTagsRequest_fromObject_def HydrateTagsRequest_setters_def HydrateTagsRequest_obj_def
  by (rule round_trip, simp,
      rule all_yield_Cons, rule all_yield_Cons, rule all_yield_Nil,
      (rule string_plain.yields_list [where xs = "HydrateTagsRequest_paths m"]; simp add: assms [unfolded HydrateTagsRequest_good_def] HydrateTagsRequest_lookup plain_keys),
      (rule yields_array; simp add: assms [unfolded HydrateTagsRequest_good_def] HydrateTagsRequest_lookup plain_keys),
      rule string_plain.build_list [where xs = "HydrateTagsRequest_paths m" and opts = opts],
      rule build.simps(1) [THEN trans])
    (simp_all add: assms [unfolded HydrateTagsRequest_good_def] HydrateTagsRequest_lookup plain_keys HydrateTagsRequest_props_def HydrateTagsRequest_init_def)

lemma HydrateTagsRequest_guarded: "HydrateTagsRequest_verify v = ok None \<Longrightarrow> all_plain v \<Longrightarrow> \<exists>m. HydrateTagsRequest_fromObject v = ok m"
  unfolding HydrateTagsRequest_verify_def HydrateTagsRequest_checks_def HydrateTagsRequest_fromObject_def HydrateTagsRequest_setters_def
  by (rule guards_object, rule guards_Cons, rule guards_Nil,
      (rule string_plain.guard_list, simp),
      assumption, assumption) simp

interpretation HydrateTagsRequest_plain: message_plain HydrateTagsRequest_obj HydrateTagsRequest_verify HydrateTagsRequest_fromObject HydrateTagsRequest_toObject HydrateTagsRequest_good
  by unfold_locales
    (use HydrateTagsRequest_accepts HydrateTagsRequest_round HydrateTagsRequest_guarded in \<open>auto simp: HydrateTagsRequest_obj_def HydrateTagsRequest_verify_def dest: verified_object\<close>)

subsection \<open>HydratedPathTags\<close>

definition HydratedPathTags_init :: props where
  "HydratedPathTags_init = [(js_str ''tags'', Array [])]"

definition HydratedPathTags_construct :: "js \<Rightarrow> js res" where
  "HydratedPathTags_construct = construct ''HydratedPathTags'' HydratedPathTags_init None"

definition HydratedPathTags_create :: "js \<Rightarrow> js res" where
  "HydratedPathTags_create properties = HydratedPathTags_construct properties"

definition HydratedPathTags_checks :: "check list" where
  "HydratedPathTags_checks =
     [v_field ''path'' v_string,
      v_field ''tags'' v_strings]"

definition HydratedPathTags_verify :: "js \<Rightarrow> string option res" where
  "HydratedPathTags_verify = verify_with HydratedPathTags_checks"

definition HydratedPathTags_setters :: "setter list" where
  "HydratedPathTags_setters =
     [f_field ''path'' c_string,
      f_truthy ''tags'' (c_array ''HydratedPathTags'' ''tags'' c_string)]"

definition HydratedPathTags_fromObject :: "js \<Rightarrow> js res" where
  "HydratedPathTags_fromObject = from_object ''HydratedPathTags'' HydratedPathTags_init HydratedPathTags_setters"

definition HydratedPathTags_writers :: "writer list" where
  "HydratedPathTags_writers =
     [d_array ''tags'',
      d_value ''path'' (String []),
      t_field ''path'' t_same,
      t_list ''tags'' t_same]"

definition HydratedPathTags_toObject :: "js \<Rightarrow> to_options option \<Rightarrow> js res" where
  "HydratedPathTags_toObject = to_object HydratedPathTags_writers"

definition HydratedPathTags_toJSON :: "js \<Rightarrow> js res" where
  "HydratedPathTags_toJSON message = HydratedPathTags_toObject message (Some toJSONOptions)"

definition HydratedPathTags_getTypeUrl :: "jstring option \<Rightarrow> jstring" where
  "HydratedPathTags_getTypeUrl = type_url ''HydratedPathTags''"

definition HydratedPathTags_props :: "HydratedPathTags \<Rightarrow> props" where
  "HydratedPathTags_props m =
     [(js_str ''tags'', Array (map String (HydratedPathTags_tags m)))] @
     opt_prop ''path'' String (HydratedPathTags_path m)"

definition HydratedPathTags_obj :: "HydratedPathTags \<Rightarrow> js" where
  "HydratedPathTags_obj m = Object ''HydratedPathTags'' (HydratedPathTags_props m)"

definition HydratedPathTags_good :: "HydratedPathTags \<Rightarrow> bool" where
  "HydratedPathTags_good m \<longleftrightarrow> True"

lemma HydratedPathTags_lookup:
  "lookup (HydratedPathTags_props m) ''path'' = map_option String (HydratedPathTags_path m)"
  "lookup (HydratedPathTags_props m) ''tags'' = Some (Array (map String (HydratedPathTags_tags m)))"
  "\<not> shadows (HydratedPathTags_props m)"
  by (simp_all add: HydratedPathTags_props_def shadows_def)

lemma HydratedPathTags_accepts:
  assumes "HydratedPathTags_good m"
  shows "HydratedPathTags_verify (HydratedPathTags_obj m) = ok None"
  unfolding HydratedPathTags_verify_def HydratedPathTags_checks_def HydratedPathTags_obj_def
  by (rule runs_verify [where members = "[]"],
      rule string_plain.runs_opt [where x = "HydratedPathTags_path m"],
      rule string_plain.runs_list [where xs = "HydratedPathTags_tags m"],
      rule runs_Nil)
    (simp_all add: HydratedPathTags_lookup assms [unfolded HydratedPathTags_good_def] at_most_one.simps(1))

lemma HydratedPathTags_round:
  assumes "HydratedPathTags_good m" "\<not> to_defaults opts"
  shows "\<exists>ps. HydratedPathTags_toObject (HydratedPathTags_obj m) (Some opts) = ok (plain ps) \<and>
    HydratedPathTags_fromObject (plain ps) = ok (HydratedPathTags_obj m)"
  unfolding HydratedPathTags_toObject_def HydratedPathTags_writers_def HydratedPathTags_fromObject_def HydratedPathTags_setters_def HydratedPathTags_obj_def
  by (rule round_trip, simp,
      rule all_yield_Cons, rule all_yield_Cons, rule all_yield_Cons, rule all_yield_Cons,
      rule all_yield_Nil,
      (rule string_plain.yields_list [where xs = "HydratedPathTags_tags m"]; simp add: assms [unfolded HydratedPathTags_good_def] HydratedPathTags_lookup plain_keys),
      (rule string_plain.yields_opt [where x = "HydratedPathTags_path m"]; simp add: assms [unfolded HydratedPathTags_good_def] HydratedPathTags_lookup plain_keys),
      (rule yields_default(1); simp add: assms [unfolded HydratedPathTags_good_def] HydratedPathTags_lookup plain_keys),
      (rule yields_array; simp add: assms [unfolded HydratedPathTags_good_def] HydratedPathTags_lookup plain_keys),
      rule string_plain.build_opt [where x = "HydratedPathTags_path m" and opts = opts],
      rule string_plain.build_list [where xs = "HydratedPathTags_tags m" and opts = opts],
      rule build.simps(1) [THEN trans])
    (simp_all add: assms [unfolded HydratedPathTags_good_def] HydratedPathTags_lookup plain_keys HydratedPathTags_props_def HydratedPathTags_init_def)

lemma HydratedPathTags_guarded: "HydratedPathTags_verify v = ok None \<Longrightarrow> all_plain v \<Longrightarrow> \<exists>m. HydratedPathTags_fromObject v = ok m"
  unfolding HydratedPathTags_verify_def HydratedPathTags_checks_def HydratedPathTags_fromObject_def HydratedPathTags_setters_def
  by (rule guards_object, rule guards_Cons, rule guards_Cons, rule guards_Nil,
      (rule string_plain.guard_list, simp),
      (rule string_plain.guard_opt(1), simp),
      assumption, assumption) simp

interpretation HydratedPathTags_plain: message_plain HydratedPathTags_obj HydratedPathTags_verify HydratedPathTags_fromObject HydratedPathTags_toObject HydratedPathTags_good
  by unfold_locales
    (use HydratedPathTags_accepts HydratedPathTags_round HydratedPathTags_guarded in \<open>auto simp: HydratedPathTags_obj_def HydratedPathTags_verify_def dest: verified_object\<close>)

subsection \<open>HydrateTagsResponse\<close>

definition HydrateTagsResponse_init :: props where
  "HydrateTagsResponse_init = [(js_str ''entries'', Array [])]"

definition HydrateTagsResponse_construct :: "js \<Rightarrow> js res" where
  "HydrateTagsResponse_construct = construct ''HydrateTagsResponse'' HydrateTagsResponse_init None"

definition HydrateTagsResponse_create :: "js \<Rightarrow> js res" where
  "HydrateTagsResponse_create properties = HydrateTagsResponse_construct properties"

definition HydrateTagsResponse_checks :: "check list" where
  "HydrateTagsResponse_checks =
     [v_field ''entries'' (v_messages HydratedPathTags_verify)]"

definition HydrateTagsResponse_verify :: "js \<Rightarrow> string option res" where
  "HydrateTagsResponse_verify = verify_with HydrateTagsResponse_checks"

definition HydrateTagsResponse_setters :: "setter list" where
  "HydrateTagsResponse_setters =
     [f_truthy ''entries'' (c_array ''HydrateTagsResponse'' ''entries'' (c_message ''HydrateTagsResponse'' ''entries'' HydratedPathTags_fromObject))]"

definition HydrateTagsResponse_fromObject :: "js \<Rightarrow> js res" where
  "HydrateTagsResponse_fromObject = from_object ''HydrateTagsResponse'' HydrateTagsResponse_init HydrateTagsResponse_setters"

definition HydrateTagsResponse_writers :: "writer list" where
  "HydrateTagsResponse_writers =
     [d_array ''entries'',
      t_list ''entries'' (t_message HydratedPathTags_toObject)]"

definition HydrateTagsResponse_toObject :: "js \<Rightarrow> to_options option \<Rightarrow> js res" where
  "HydrateTagsResponse_toObject = to_object HydrateTagsResponse_writers"

definition HydrateTagsResponse_toJSON :: "js \<Rightarrow> js res" where
  "HydrateTagsResponse_toJSON message = HydrateTagsResponse_toObject message (Some toJSONOptions)"

definition HydrateTagsResponse_getTypeUrl :: "jstring option \<Rightarrow> jstring" where
  "HydrateTagsResponse_getTypeUrl = type_url ''HydrateTagsResponse''"

definition HydrateTagsResponse_props :: "HydrateTagsResponse \<Rightarrow> props" where
  "HydrateTagsResponse_props m =
     [(js_str ''entries'', Array (map HydratedPathTags_obj (HydrateTagsResponse_entries m)))]"

definition HydrateTagsResponse_obj :: "HydrateTagsResponse \<Rightarrow> js" where
  "HydrateTagsResponse_obj m = Object ''HydrateTagsResponse'' (HydrateTagsResponse_props m)"

definition HydrateTagsResponse_good :: "HydrateTagsResponse \<Rightarrow> bool" where
  "HydrateTagsResponse_good m \<longleftrightarrow> list_all HydratedPathTags_good (HydrateTagsResponse_entries m)"

lemma HydrateTagsResponse_lookup:
  "lookup (HydrateTagsResponse_props m) ''entries'' = Some (Array (map HydratedPathTags_obj (HydrateTagsResponse_entries m)))"
  "\<not> shadows (HydrateTagsResponse_props m)"
  by (simp_all add: HydrateTagsResponse_props_def shadows_def)

lemma HydrateTagsResponse_accepts:
  assumes "HydrateTagsResponse_good m"
  shows "HydrateTagsResponse_verify (HydrateTagsResponse_obj m) = ok None"
  unfolding HydrateTagsResponse_verify_def HydrateTagsResponse_checks_def HydrateTagsResponse_obj_def
  by (rule runs_verify [where members = "[]"],
      rule HydratedPathTags_plain.sub.runs_list [where xs = "HydrateTagsResponse_entries m"],
      rule runs_Nil)
    (simp_all add: HydrateTagsResponse_lookup assms [unfolded HydrateTagsResponse_good_def] at_most_one.simps(1))

lemma HydrateTagsResponse_round:
  assumes "HydrateTagsResponse_good m" "\<not> to_defaults opts"
  shows "\<exists>ps. HydrateTagsResponse_toObject (HydrateTagsResponse_obj m) (Some opts) = ok (plain ps) \<and>
    HydrateTagsResponse_fromObject (plain ps) = ok (HydrateTagsResponse_obj m)"
  unfolding HydrateTagsResponse_toObject_def HydrateTagsResponse_writers_def HydrateTagsResponse_fromObject_def HydrateTagsResponse_setters_def HydrateTagsResponse_obj_def
  by (rule round_trip, simp,
      rule all_yield_Cons, rule all_yield_Cons, rule all_yield_Nil,
      (rule HydratedPathTags_plain.sub.yields_list [where xs = "HydrateTagsResponse_entries m"]; simp add: assms [unfolded HydrateTagsResponse_good_def] HydrateTagsResponse_lookup plain_keys),
      (rule yields_array; simp add: assms [unfolded HydrateTagsResponse_good_def] HydrateTagsResponse_lookup plain_keys),
      rule HydratedPathTags_plain.sub.build_list [where xs = "HydrateTagsResponse_entries m" and opts = opts],
      rule build.simps(1) [THEN trans])
    (simp_all add: assms [unfolded HydrateTagsResponse_good_def] HydrateTagsResponse_lookup plain_keys HydrateTagsResponse_props_def HydrateTagsResponse_init_def)

lemma HydrateTagsResponse_guarded: "HydrateTagsResponse_verify v = ok None \<Longrightarrow> all_plain v \<Longrightarrow> \<exists>m. HydrateTagsResponse_fromObject v = ok m"
  unfolding HydrateTagsResponse_verify_def HydrateTagsResponse_checks_def HydrateTagsResponse_fromObject_def HydrateTagsResponse_setters_def
  by (rule guards_object, rule guards_Cons, rule guards_Nil,
      (rule HydratedPathTags_plain.sub.guard_list, simp),
      assumption, assumption) simp

interpretation HydrateTagsResponse_plain: message_plain HydrateTagsResponse_obj HydrateTagsResponse_verify HydrateTagsResponse_fromObject HydrateTagsResponse_toObject HydrateTagsResponse_good
  by unfold_locales
    (use HydrateTagsResponse_accepts HydrateTagsResponse_round HydrateTagsResponse_guarded in \<open>auto simp: HydrateTagsResponse_obj_def HydrateTagsResponse_verify_def dest: verified_object\<close>)

subsection \<open>GlobSearchRequest\<close>

definition GlobSearchRequest_init :: props where
  "GlobSearchRequest_init = [(js_str ''patterns'', Array [])]"

definition GlobSearchRequest_construct :: "js \<Rightarrow> js res" where
  "GlobSearchRequest_construct = construct ''GlobSearchRequest'' GlobSearchRequest_init None"

definition GlobSearchRequest_create :: "js \<Rightarrow> js res" where
  "GlobSearchRequest_create properties = GlobSearchRequest_construct properties"

definition GlobSearchRequest_checks :: "check list" where
  "GlobSearchRequest_checks =
     [v_field ''patterns'' v_strings,
      v_field ''limit'' v_integer,
      v_field ''allowHidden'' v_bool]"

definition GlobSearchRequest_verify :: "js \<Rightarrow> string option res" where
  "GlobSearchRequest_verify = verify_with GlobSearchRequest_checks"

definition GlobSearchRequest_setters :: "setter list" where
  "GlobSearchRequest_setters =
     [f_truthy ''patterns'' (c_array ''GlobSearchRequest'' ''patterns'' c_string),
      f_field ''limit'' c_uint32,
      f_field ''allowHidden'' c_bool]"

definition GlobSearchRequest_fromObject :: "js \<Rightarrow> js res" where
  "GlobSearchRequest_fromObject = from_object ''GlobSearchRequest'' GlobSearchRequest_init GlobSearchRequest_setters"

definition GlobSearchRequest_writers :: "writer list" where
  "GlobSearchRequest_writers =
     [d_array ''patterns'',
      d_value ''limit'' (int_js 0),
      d_value ''allowHidden'' (Boolean False),
      t_list ''patterns'' t_same,
      t_field ''limit'' t_same,
      t_field ''allowHidden'' t_same]"

definition GlobSearchRequest_toObject :: "js \<Rightarrow> to_options option \<Rightarrow> js res" where
  "GlobSearchRequest_toObject = to_object GlobSearchRequest_writers"

definition GlobSearchRequest_toJSON :: "js \<Rightarrow> js res" where
  "GlobSearchRequest_toJSON message = GlobSearchRequest_toObject message (Some toJSONOptions)"

definition GlobSearchRequest_getTypeUrl :: "jstring option \<Rightarrow> jstring" where
  "GlobSearchRequest_getTypeUrl = type_url ''GlobSearchRequest''"

definition GlobSearchRequest_props :: "GlobSearchRequest \<Rightarrow> props" where
  "GlobSearchRequest_props m =
     [(js_str ''patterns'', Array (map String (GlobSearchRequest_patterns m)))] @
     opt_prop ''limit'' int_js (GlobSearchRequest_limit m) @
     opt_prop ''allowHidden'' Boolean (GlobSearchRequest_allowHidden m)"

definition GlobSearchRequest_obj :: "GlobSearchRequest \<Rightarrow> js" where
  "GlobSearchRequest_obj m = Object ''GlobSearchRequest'' (GlobSearchRequest_props m)"

definition GlobSearchRequest_good :: "GlobSearchRequest \<Rightarrow> bool" where
  "GlobSearchRequest_good m \<longleftrightarrow> opt_all uint32_ok (GlobSearchRequest_limit m)"

lemma GlobSearchRequest_lookup:
  "lookup (GlobSearchRequest_props m) ''patterns'' = Some (Array (map String (GlobSearchRequest_patterns m)))"
  "lookup (GlobSearchRequest_props m) ''limit'' = map_option int_js (GlobSearchRequest_limit m)"
  "lookup (GlobSearchRequest_props m) ''allowHidden'' = map_option Boolean (GlobSearchRequest_allowHidden m)"
  "\<not> shadows (GlobSearchRequest_props m)"
  by (simp_all add: GlobSearchRequest_props_def shadows_def)

lemma GlobSearchRequest_accepts:
  assumes "GlobSearchRequest_good m"
  shows "GlobSearchRequest_verify (GlobSearchRequest_obj m) = ok None"
  unfolding GlobSearchRequest_verify_def GlobSearchRequest_checks_def GlobSearchRequest_obj_def
  by (rule runs_verify [where members = "[]"],
      rule string_plain.runs_list [where xs = "GlobSearchRequest_patterns m"],
      rule uint32_plain.runs_opt [where x = "GlobSearchRequest_limit m"],
      rule bool_plain.runs_opt [where x = "GlobSearchRequest_allowHidden m"],
      rule runs_Nil)
    (simp_all add: GlobSearchRequest_lookup assms [unfolded GlobSearchRequest_good_def] at_most_one.simps(1))

lemma GlobSearchRequest_round:
  assumes "GlobSearchRequest_good m" "\<not> to_defaults opts"
  shows "\<exists>ps. GlobSearchRequest_toObject (GlobSearchRequest_obj m) (Some opts) = ok (plain ps) \<and>
    GlobSearchRequest_fromObject (plain ps) = ok (GlobSearchRequest_obj m)"
  unfolding GlobSearchRequest_toObject_def GlobSearchRequest_writers_def GlobSearchRequest_fromObject_def GlobSearchRequest_setters_def GlobSearchRequest_obj_def
  by (rule round_trip, simp,
      rule all_yield_Cons, rule all_yield_Cons, rule all_yield_Cons, rule all_yield_Cons,
      rule all_yield_Cons, rule all_yield_Cons, rule all_yield_Nil,
      (rule bool_plain.yields_opt [where x = "GlobSearchRequest_allowHidden m"]; simp add: assms [unfolded GlobSearchRequest_good_def] GlobSearchRequest_lookup plain_keys),
      (rule uint32_plain.yields_opt [where x = "GlobSearchRequest_limit m"]; simp add: assms [unfolded GlobSearchRequest_good_def] GlobSearchRequest_lookup plain_keys),
      (rule string_plain.yields_list [where xs = "GlobSearchRequest_patterns m"]; simp add: assms [unfolded GlobSearchRequest_good_def] GlobSearchRequest_lookup plain_keys),
      (rule yields_default(1); simp add: assms [unfolded GlobSearchRequest_good_def] GlobSearchRequest_lookup plain_keys),
      (rule yields_default(1); simp add: assms [unfolded GlobSearchRequest_good_def] GlobSearchRequest_lookup plain_keys),
      (rule yields_array; simp add: assms [unfolded GlobSearchRequest_good_def] GlobSearchRequest_lookup plain_keys),
      rule string_plain.build_list [where xs = "GlobSearchRequest_patterns m" and opts = opts],
      rule uint32_plain.build_opt [where x = "GlobSearchRequest_limit m" and opts = opts],
      rule bool_plain.build_opt [where x = "GlobSearchRequest_allowHidden m" and opts = opts],
      rule build.simps(1) [THEN trans])
    (simp_all add: assms [unfolded GlobSearchRequest_good_def] GlobSearchRequest_lookup plain_keys GlobSearchRequest_props_def GlobSearchRequest_init_def)

lemma GlobSearchRequest_guarded: "GlobSearchRequest_verify v = ok None \<Longrightarrow> all_plain v \<Longrightarrow> \<exists>m. GlobSearchRequest_fromObject v = ok m"
  unfolding GlobSearchRequest_verify_def GlobSearchRequest_checks_def GlobSearchRequest_fromObject_def GlobSearchRequest_setters_def
  by (rule guards_object, rule guards_Cons, rule guards_Cons, rule guards_Cons, rule guards_Nil,
      (rule bool_plain.guard_opt(1), simp),
      (rule uint32_plain.guard_opt(1), simp),
      (rule string_plain.guard_list, simp),
      assumption, assumption) simp

interpretation GlobSearchRequest_plain: message_plain GlobSearchRequest_obj GlobSearchRequest_verify GlobSearchRequest_fromObject GlobSearchRequest_toObject GlobSearchRequest_good
  by unfold_locales
    (use GlobSearchRequest_accepts GlobSearchRequest_round GlobSearchRequest_guarded in \<open>auto simp: GlobSearchRequest_obj_def GlobSearchRequest_verify_def dest: verified_object\<close>)

subsection \<open>GlobSearchResponse\<close>

definition GlobSearchResponse_init :: props where
  "GlobSearchResponse_init = [(js_str ''files'', Array [])]"

definition GlobSearchResponse_construct :: "js \<Rightarrow> js res" where
  "GlobSearchResponse_construct = construct ''GlobSearchResponse'' GlobSearchResponse_init None"

definition GlobSearchResponse_create :: "js \<Rightarrow> js res" where
  "GlobSearchResponse_create properties = GlobSearchResponse_construct properties"

definition GlobSearchResponse_checks :: "check list" where
  "GlobSearchResponse_checks =
     [v_field ''files'' (v_messages FileResult_verify)]"

definition GlobSearchResponse_verify :: "js \<Rightarrow> string option res" where
  "GlobSearchResponse_verify = verify_with GlobSearchResponse_checks"

definition GlobSearchResponse_setters :: "setter list" where
  "GlobSearchResponse_setters =
     [f_truthy ''files'' (c_array ''GlobSearchResponse'' ''files'' (c_message ''GlobSearchResponse'' ''files'' FileResult_fromObject))]"

definition GlobSearchResponse_fromObject :: "js \<Rightarrow> js res" where
  "GlobSearchResponse_fromObject = from_object ''GlobSearchResponse'' GlobSearchResponse_init GlobSearchResponse_setters"

definition GlobSearchResponse_writers :: "writer list" where
  "GlobSearchResponse_writers =
     [d_array ''files'',
      t_list ''files'' (t_message FileResult_toObject)]"

definition GlobSearchResponse_toObject :: "js \<Rightarrow> to_options option \<Rightarrow> js res" where
  "GlobSearchResponse_toObject = to_object GlobSearchResponse_writers"

definition GlobSearchResponse_toJSON :: "js \<Rightarrow> js res" where
  "GlobSearchResponse_toJSON message = GlobSearchResponse_toObject message (Some toJSONOptions)"

definition GlobSearchResponse_getTypeUrl :: "jstring option \<Rightarrow> jstring" where
  "GlobSearchResponse_getTypeUrl = type_url ''GlobSearchResponse''"

definition GlobSearchResponse_props :: "GlobSearchResponse \<Rightarrow> props" where
  "GlobSearchResponse_props m =
     [(js_str ''files'', Array (map FileResult_obj (GlobSearchResponse_files m)))]"

definition GlobSearchResponse_obj :: "GlobSearchResponse \<Rightarrow> js" where
  "GlobSearchResponse_obj m = Object ''GlobSearchResponse'' (GlobSearchResponse_props m)"

definition GlobSearchResponse_good :: "GlobSearchResponse \<Rightarrow> bool" where
  "GlobSearchResponse_good m \<longleftrightarrow> list_all FileResult_good (GlobSearchResponse_files m)"

lemma GlobSearchResponse_lookup:
  "lookup (GlobSearchResponse_props m) ''files'' = Some (Array (map FileResult_obj (GlobSearchResponse_files m)))"
  "\<not> shadows (GlobSearchResponse_props m)"
  by (simp_all add: GlobSearchResponse_props_def shadows_def)

lemma GlobSearchResponse_accepts:
  assumes "GlobSearchResponse_good m"
  shows "GlobSearchResponse_verify (GlobSearchResponse_obj m) = ok None"
  unfolding GlobSearchResponse_verify_def GlobSearchResponse_checks_def GlobSearchResponse_obj_def
  by (rule runs_verify [where members = "[]"],
      rule FileResult_plain.sub.runs_list [where xs = "GlobSearchResponse_files m"],
      rule runs_Nil)
    (simp_all add: GlobSearchResponse_lookup assms [unfolded GlobSearchResponse_good_def] at_most_one.simps(1))

lemma GlobSearchResponse_round:
  assumes "GlobSearchResponse_good m" "\<not> to_defaults opts"
  shows "\<exists>ps. GlobSearchResponse_toObject (GlobSearchResponse_obj m) (Some opts) = ok (plain ps) \<and>
    GlobSearchResponse_fromObject (plain ps) = ok (GlobSearchResponse_obj m)"
  unfolding GlobSearchResponse_toObject_def GlobSearchResponse_writers_def GlobSearchResponse_fromObject_def GlobSearchResponse_setters_def GlobSearchResponse_obj_def
  by (rule round_trip, simp,
      rule all_yield_Cons, rule all_yield_Cons, rule all_yield_Nil,
      (rule FileResult_plain.sub.yields_list [where xs = "GlobSearchResponse_files m"]; simp add: assms [unfolded GlobSearchResponse_good_def] GlobSearchResponse_lookup plain_keys),
      (rule yields_array; simp add: assms [unfolded GlobSearchResponse_good_def] GlobSearchResponse_lookup plain_keys),
      rule FileResult_plain.sub.build_list [where xs = "GlobSearchResponse_files m" and opts = opts],
      rule build.simps(1) [THEN trans])
    (simp_all add: assms [unfolded GlobSearchResponse_good_def] GlobSearchResponse_lookup plain_keys GlobSearchResponse_props_def GlobSearchResponse_init_def)

lemma GlobSearchResponse_guarded: "GlobSearchResponse_verify v = ok None \<Longrightarrow> all_plain v \<Longrightarrow> \<exists>m. GlobSearchResponse_fromObject v = ok m"
  unfolding GlobSearchResponse_verify_def GlobSearchResponse_checks_def GlobSearchResponse_fromObject_def GlobSearchResponse_setters_def
  by (rule guards_object, rule guards_Cons, rule guards_Nil,
      (rule FileResult_plain.sub.guard_list, simp),
      assumption, assumption) simp

interpretation GlobSearchResponse_plain: message_plain GlobSearchResponse_obj GlobSearchResponse_verify GlobSearchResponse_fromObject GlobSearchResponse_toObject GlobSearchResponse_good
  by unfold_locales
    (use GlobSearchResponse_accepts GlobSearchResponse_round GlobSearchResponse_guarded in \<open>auto simp: GlobSearchResponse_obj_def GlobSearchResponse_verify_def dest: verified_object\<close>)

subsection \<open>SavedSearch\<close>

definition SavedSearch_init :: props where
  "SavedSearch_init = [(js_str ''chips'', Array [])]"

definition SavedSearch_construct :: "js \<Rightarrow> js res" where
  "SavedSearch_construct = construct ''SavedSearch'' SavedSearch_init None"

definition SavedSearch_create :: "js \<Rightarrow> js res" where
  "SavedSearch_create properties = SavedSearch_construct properties"

definition SavedSearch_checks :: "check list" where
  "SavedSearch_checks =
     [v_field ''name'' v_string,
      v_field ''chips'' v_strings,
      v_field ''iconName'' v_string,
      v_field ''id'' v_string]"

definition SavedSearch_verify :: "js \<Rightarrow> string option res" where
  "SavedSearch_verify = verify_with SavedSearch_checks"

definition SavedSearch_setters :: "setter list" where
  "SavedSearch_setters =
     [f_field ''name'' c_string,
      f_truthy ''chips'' (c_array ''SavedSearch'' ''chips'' c_string),
      f_field ''iconName'' c_string,
      f_field ''id'' c_string]"

definition SavedSearch_fromObject :: "js \<Rightarrow> js res" where
  "SavedSearch_fromObject = from_object ''SavedSearch'' SavedSearch_init SavedSearch_setters"

definition SavedSearch_writers :: "writer list" where
  "SavedSearch_writers =
     [d_array ''chips'',
      d_value ''name'' (String []),
      d_value ''iconName'' (String []),
      d_value ''id'' (String []),
      t_field ''name'' t_same,
      t_list ''chips'' t_same,
      t_field ''iconName'' t_same,
      t_field ''id'' t_same]"

definition SavedSearch_toObject :: "js \<Rightarrow> to_options option \<Rightarrow> js res" where
  "SavedSearch_toObject = to_object SavedSearch_writers"

definition SavedSearch_toJSON :: "js \<Rightarrow> js res" where
  "SavedSearch_toJSON message = SavedSearch_toObject message (Some toJSONOptions)"

definition SavedSearch_getTypeUrl :: "jstring option \<Rightarrow> jstring" where
  "SavedSearch_getTypeUrl = type_url ''SavedSearch''"

definition SavedSearch_props :: "SavedSearch \<Rightarrow> props" where
  "SavedSearch_props m =
     [(js_str ''chips'', Array (map String (SavedSearch_chips m)))] @
     opt_prop ''name'' String (SavedSearch_name m) @
     opt_prop ''iconName'' String (SavedSearch_iconName m) @
     opt_prop ''id'' String (SavedSearch_id m)"

definition SavedSearch_obj :: "SavedSearch \<Rightarrow> js" where
  "SavedSearch_obj m = Object ''SavedSearch'' (SavedSearch_props m)"

definition SavedSearch_good :: "SavedSearch \<Rightarrow> bool" where
  "SavedSearch_good m \<longleftrightarrow> True"

lemma SavedSearch_lookup:
  "lookup (SavedSearch_props m) ''name'' = map_option String (SavedSearch_name m)"
  "lookup (SavedSearch_props m) ''chips'' = Some (Array (map String (SavedSearch_chips m)))"
  "lookup (SavedSearch_props m) ''iconName'' = map_option String (SavedSearch_iconName m)"
  "lookup (SavedSearch_props m) ''id'' = map_option String (SavedSearch_id m)"
  "\<not> shadows (SavedSearch_props m)"
  by (simp_all add: SavedSearch_props_def shadows_def)

lemma SavedSearch_accepts:
  assumes "SavedSearch_good m"
  shows "SavedSearch_verify (SavedSearch_obj m) = ok None"
  unfolding SavedSearch_verify_def SavedSearch_checks_def SavedSearch_obj_def
  by (rule runs_verify [where members = "[]"],
      rule string_plain.runs_opt [where x = "SavedSearch_name m"],
      rule string_plain.runs_list [where xs = "SavedSearch_chips m"],
      rule string_plain.runs_opt [where x = "SavedSearch_iconName m"],
      rule string_plain.runs_opt [where x = "SavedSearch_id m"],
      rule runs_Nil)
    (simp_all add: SavedSearch_lookup assms [unfolded SavedSearch_good_def] at_most_one.simps(1))

lemma SavedSearch_round:
  assumes "SavedSearch_good m" "\<not> to_defaults opts"
  shows "\<exists>ps. SavedSearch_toObject (SavedSearch_obj m) (Some opts) = ok (plain ps) \<and>
    SavedSearch_fromObject (plain ps) = ok (SavedSearch_obj m)"
  unfolding SavedSearch_toObject_def SavedSearch_writers_def SavedSearch_fromObject_def SavedSearch_setters_def SavedSearch_obj_def
  by (rule round_trip, simp,
      rule all_yield_Cons, rule all_yield_Cons, rule all_yield_Cons, rule all_yield_Cons,
      rule all_yield_Cons, rule all_yield_Cons, rule all_yield_Cons, rule all_yield_Cons,
      rule all_yield_Nil,
      (rule string_plain.yields_opt [where x = "SavedSearch_id m"]; simp add: assms [unfolded SavedSearch_good_def] SavedSearch_lookup plain_keys),
      (rule string_plain.yields_opt [where x = "SavedSearch_iconName m"]; simp add: assms [unfolded SavedSearch_good_def] SavedSearch_lookup plain_keys),
      (rule string_plain.yields_list [where xs = "SavedSearch_chips m"]; simp add: assms [unfolded SavedSearch_good_def] SavedSearch_lookup plain_keys),
      (rule string_plain.yields_opt [where x = "SavedSearch_name m"]; simp add: assms [unfolded SavedSearch_good_def] SavedSearch_lookup plain_keys),
      (rule yields_default(1); simp add: assms [unfolded SavedSearch_good_def] SavedSearch_lookup plain_keys),
      (rule yields_default(1); simp add: assms [unfolded SavedSearch_good_def] SavedSearch_lookup plain_keys),
      (rule yields_default(1); simp add: assms [unfolded SavedSearch_good_def] SavedSearch_lookup plain_keys),
      (rule yields_array; simp add: assms [unfolded SavedSearch_good_def] SavedSearch_lookup plain_keys),
      rule string_plain.build_opt [where x = "SavedSearch_name m" and opts = opts],
      rule string_plain.build_list [where xs = "SavedSearch_chips m" and opts = opts],
      rule string_plain.build_opt [where x = "SavedSearch_iconName m" and opts = opts],
      rule string_plain.build_opt [where x = "SavedSearch_id m" and opts = opts],
      rule build.simps(1) [THEN trans])
    (simp_all add: assms [unfolded SavedSearch_good_def] SavedSearch_lookup plain_keys SavedSearch_props_def SavedSearch_init_def)

lemma SavedSearch_guarded: "SavedSearch_verify v = ok None \<Longrightarrow> all_plain v \<Longrightarrow> \<exists>m. SavedSearch_fromObject v = ok m"
  unfolding SavedSearch_verify_def SavedSearch_checks_def SavedSearch_fromObject_def SavedSearch_setters_def
  by (rule guards_object, rule guards_Cons, rule guards_Cons, rule guards_Cons, rule guards_Cons, rule
      guards_Nil,
      (rule string_plain.guard_opt(1), simp),
      (rule string_plain.guard_opt(1), simp),
      (rule string_plain.guard_list, simp),
      (rule string_plain.guard_opt(1), simp),
      assumption, assumption) simp

interpretation SavedSearch_plain: message_plain SavedSearch_obj SavedSearch_verify SavedSearch_fromObject SavedSearch_toObject SavedSearch_good
  by unfold_locales
    (use SavedSearch_accepts SavedSearch_round SavedSearch_guarded in \<open>auto simp: SavedSearch_obj_def SavedSearch_verify_def dest: verified_object\<close>)

subsection \<open>PinSearchRequest\<close>

definition PinSearchRequest_init :: props where
  "PinSearchRequest_init = [(js_str ''chips'', Array [])]"

definition PinSearchRequest_construct :: "js \<Rightarrow> js res" where
  "PinSearchRequest_construct = construct ''PinSearchRequest'' PinSearchRequest_init None"

definition PinSearchRequest_create :: "js \<Rightarrow> js res" where
  "PinSearchRequest_create properties = PinSearchRequest_construct properties"

definition PinSearchRequest_checks :: "check list" where
  "PinSearchRequest_checks =
     [v_field ''name'' v_string,
      v_field ''chips'' v_strings,
      v_field ''iconName'' v_string]"

definition PinSearchRequest_verify :: "js \<Rightarrow> string option res" where
  "PinSearchRequest_verify = verify_with PinSearchRequest_checks"

definition PinSearchRequest_setters :: "setter list" where
  "PinSearchRequest_setters =
     [f_field ''name'' c_string,
      f_truthy ''chips'' (c_array ''PinSearchRequest'' ''chips'' c_string),
      f_field ''iconName'' c_string]"

definition PinSearchRequest_fromObject :: "js \<Rightarrow> js res" where
  "PinSearchRequest_fromObject = from_object ''PinSearchRequest'' PinSearchRequest_init PinSearchRequest_setters"

definition PinSearchRequest_writers :: "writer list" where
  "PinSearchRequest_writers =
     [d_array ''chips'',
      d_value ''name'' (String []),
      d_value ''iconName'' (String []),
      t_field ''name'' t_same,
      t_list ''chips'' t_same,
      t_field ''iconName'' t_same]"

definition PinSearchRequest_toObject :: "js \<Rightarrow> to_options option \<Rightarrow> js res" where
  "PinSearchRequest_toObject = to_object PinSearchRequest_writers"

definition PinSearchRequest_toJSON :: "js \<Rightarrow> js res" where
  "PinSearchRequest_toJSON message = PinSearchRequest_toObject message (Some toJSONOptions)"

definition PinSearchRequest_getTypeUrl :: "jstring option \<Rightarrow> jstring" where
  "PinSearchRequest_getTypeUrl = type_url ''PinSearchRequest''"

definition PinSearchRequest_props :: "PinSearchRequest \<Rightarrow> props" where
  "PinSearchRequest_props m =
     [(js_str ''chips'', Array (map String (PinSearchRequest_chips m)))] @
     opt_prop ''name'' String (PinSearchRequest_name m) @
     opt_prop ''iconName'' String (PinSearchRequest_iconName m)"

definition PinSearchRequest_obj :: "PinSearchRequest \<Rightarrow> js" where
  "PinSearchRequest_obj m = Object ''PinSearchRequest'' (PinSearchRequest_props m)"

definition PinSearchRequest_good :: "PinSearchRequest \<Rightarrow> bool" where
  "PinSearchRequest_good m \<longleftrightarrow> True"

lemma PinSearchRequest_lookup:
  "lookup (PinSearchRequest_props m) ''name'' = map_option String (PinSearchRequest_name m)"
  "lookup (PinSearchRequest_props m) ''chips'' = Some (Array (map String (PinSearchRequest_chips m)))"
  "lookup (PinSearchRequest_props m) ''iconName'' = map_option String (PinSearchRequest_iconName m)"
  "\<not> shadows (PinSearchRequest_props m)"
  by (simp_all add: PinSearchRequest_props_def shadows_def)

lemma PinSearchRequest_accepts:
  assumes "PinSearchRequest_good m"
  shows "PinSearchRequest_verify (PinSearchRequest_obj m) = ok None"
  unfolding PinSearchRequest_verify_def PinSearchRequest_checks_def PinSearchRequest_obj_def
  by (rule runs_verify [where members = "[]"],
      rule string_plain.runs_opt [where x = "PinSearchRequest_name m"],
      rule string_plain.runs_list [where xs = "PinSearchRequest_chips m"],
      rule string_plain.runs_opt [where x = "PinSearchRequest_iconName m"],
      rule runs_Nil)
    (simp_all add: PinSearchRequest_lookup assms [unfolded PinSearchRequest_good_def] at_most_one.simps(1))

lemma PinSearchRequest_round:
  assumes "PinSearchRequest_good m" "\<not> to_defaults opts"
  shows "\<exists>ps. PinSearchRequest_toObject (PinSearchRequest_obj m) (Some opts) = ok (plain ps) \<and>
    PinSearchRequest_fromObject (plain ps) = ok (PinSearchRequest_obj m)"
  unfolding PinSearchRequest_toObject_def PinSearchRequest_writers_def PinSearchRequest_fromObject_def PinSearchRequest_setters_def PinSearchRequest_obj_def
  by (rule round_trip, simp,
      rule all_yield_Cons, rule all_yield_Cons, rule all_yield_Cons, rule all_yield_Cons,
      rule all_yield_Cons, rule all_yield_Cons, rule all_yield_Nil,
      (rule string_plain.yields_opt [where x = "PinSearchRequest_iconName m"]; simp add: assms [unfolded PinSearchRequest_good_def] PinSearchRequest_lookup plain_keys),
      (rule string_plain.yields_list [where xs = "PinSearchRequest_chips m"]; simp add: assms [unfolded PinSearchRequest_good_def] PinSearchRequest_lookup plain_keys),
      (rule string_plain.yields_opt [where x = "PinSearchRequest_name m"]; simp add: assms [unfolded PinSearchRequest_good_def] PinSearchRequest_lookup plain_keys),
      (rule yields_default(1); simp add: assms [unfolded PinSearchRequest_good_def] PinSearchRequest_lookup plain_keys),
      (rule yields_default(1); simp add: assms [unfolded PinSearchRequest_good_def] PinSearchRequest_lookup plain_keys),
      (rule yields_array; simp add: assms [unfolded PinSearchRequest_good_def] PinSearchRequest_lookup plain_keys),
      rule string_plain.build_opt [where x = "PinSearchRequest_name m" and opts = opts],
      rule string_plain.build_list [where xs = "PinSearchRequest_chips m" and opts = opts],
      rule string_plain.build_opt [where x = "PinSearchRequest_iconName m" and opts = opts],
      rule build.simps(1) [THEN trans])
    (simp_all add: assms [unfolded PinSearchRequest_good_def] PinSearchRequest_lookup plain_keys PinSearchRequest_props_def PinSearchRequest_init_def)

lemma PinSearchRequest_guarded: "PinSearchRequest_verify v = ok None \<Longrightarrow> all_plain v \<Longrightarrow> \<exists>m. PinSearchRequest_fromObject v = ok m"
  unfolding PinSearchRequest_verify_def PinSearchRequest_checks_def PinSearchRequest_fromObject_def PinSearchRequest_setters_def
  by (rule guards_object, rule guards_Cons, rule guards_Cons, rule guards_Cons, rule guards_Nil,
      (rule string_plain.guard_opt(1), simp),
      (rule string_plain.guard_list, simp),
      (rule string_plain.guard_opt(1), simp),
      assumption, assumption) simp

interpretation PinSearchRequest_plain: message_plain PinSearchRequest_obj PinSearchRequest_verify PinSearchRequest_fromObject PinSearchRequest_toObject PinSearchRequest_good
  by unfold_locales
    (use PinSearchRequest_accepts PinSearchRequest_round PinSearchRequest_guarded in \<open>auto simp: PinSearchRequest_obj_def PinSearchRequest_verify_def dest: verified_object\<close>)

subsection \<open>PinSearchResponse\<close>

definition PinSearchResponse_construct :: "js \<Rightarrow> js res" where
  "PinSearchResponse_construct = construct ''PinSearchResponse'' [] None"

definition PinSearchResponse_create :: "js \<Rightarrow> js res" where
  "PinSearchResponse_create properties = PinSearchResponse_construct properties"

definition PinSearchResponse_checks :: "check list" where
  "PinSearchResponse_checks =
     [v_field ''search'' (v_message SavedSearch_verify)]"

definition PinSearchResponse_verify :: "js \<Rightarrow> string option res" where
  "PinSearchResponse_verify = verify_with PinSearchResponse_checks"

definition PinSearchResponse_setters :: "setter list" where
  "PinSearchResponse_setters =
     [f_field ''search'' (c_message ''PinSearchResponse'' ''search'' SavedSearch_fromObject)]"

definition PinSearchResponse_fromObject :: "js \<Rightarrow> js res" where
  "PinSearchResponse_fromObject = from_object ''PinSearchResponse'' [] PinSearchResponse_setters"

definition PinSearchResponse_writers :: "writer list" where
  "PinSearchResponse_writers =
     [d_value ''search'' Null,
      t_field ''search'' (t_message SavedSearch_toObject)]"

definition PinSearchResponse_toObject :: "js \<Rightarrow> to_options option \<Rightarrow> js res" where
  "PinSearchResponse_toObject = to_object PinSearchResponse_writers"

definition PinSearchResponse_toJSON :: "js \<Rightarrow> js res" where
  "PinSearchResponse_toJSON message = PinSearchResponse_toObject message (Some toJSONOptions)"

definition PinSearchResponse_getTypeUrl :: "jstring option \<Rightarrow> jstring" where
  "PinSearchResponse_getTypeUrl = type_url ''PinSearchResponse''"

definition PinSearchResponse_props :: "PinSearchResponse \<Rightarrow> props" where
  "PinSearchResponse_props m =
     opt_prop ''search'' SavedSearch_obj (PinSearchResponse_search m)"

definition PinSearchResponse_obj :: "PinSearchResponse \<Rightarrow> js" where
  "PinSearchResponse_obj m = Object ''PinSearchResponse'' (PinSearchResponse_props m)"

definition PinSearchResponse_good :: "PinSearchResponse \<Rightarrow> bool" where
  "PinSearchResponse_good m \<longleftrightarrow> opt_all SavedSearch_good (PinSearchResponse_search m)"

lemma PinSearchResponse_lookup:
  "lookup (PinSearchResponse_props m) ''search'' = map_option SavedSearch_obj (PinSearchResponse_search m)"
  "\<not> shadows (PinSearchResponse_props m)"
  by (simp_all add: PinSearchResponse_props_def shadows_def)

lemma PinSearchResponse_accepts:
  assumes "PinSearchResponse_good m"
  shows "PinSearchResponse_verify (PinSearchResponse_obj m) = ok None"
  unfolding PinSearchResponse_verify_def PinSearchResponse_checks_def PinSearchResponse_obj_def
  by (rule runs_verify [where members = "[]"],
      rule SavedSearch_plain.sub.runs_opt [where x = "PinSearchResponse_search m"],
      rule runs_Nil)
    (simp_all add: PinSearchResponse_lookup assms [unfolded PinSearchResponse_good_def] at_most_one.simps(1))

lemma PinSearchResponse_round:
  assumes "PinSearchResponse_good m" "\<not> to_defaults opts"
  shows "\<exists>ps. PinSearchResponse_toObject (PinSearchResponse_obj m) (Some opts) = ok (plain ps) \<and>
    PinSearchResponse_fromObject (plain ps) = ok (PinSearchResponse_obj m)"
  unfolding PinSearchResponse_toObject_def PinSearchResponse_writers_def PinSearchResponse_fromObject_def PinSearchResponse_setters_def PinSearchResponse_obj_def
  by (rule round_trip, simp,
      rule all_yield_Cons, rule all_yield_Cons, rule all_yield_Nil,
      (rule SavedSearch_plain.sub.yields_opt [where x = "PinSearchResponse_search m"]; simp add: assms [unfolded PinSearchResponse_good_def] PinSearchResponse_lookup plain_keys),
      (rule yields_default(1); simp add: assms [unfolded PinSearchResponse_good_def] PinSearchResponse_lookup plain_keys),
      rule SavedSearch_plain.sub.build_opt [where x = "PinSearchResponse_search m" and opts = opts],
      rule build.simps(1) [THEN trans])
    (simp_all add: assms [unfolded PinSearchResponse_good_def] PinSearchResponse_lookup plain_keys PinSearchResponse_props_def)

lemma PinSearchResponse_guarded: "PinSearchResponse_verify v = ok None \<Longrightarrow> all_plain v \<Longrightarrow> \<exists>m. PinSearchResponse_fromObject v = ok m"
  unfolding PinSearchResponse_verify_def PinSearchResponse_checks_def PinSearchResponse_fromObject_def PinSearchResponse_setters_def
  by (rule guards_object, rule guards_Cons, rule guards_Nil,
      (rule SavedSearch_plain.sub.guard_opt(1), simp),
      assumption, assumption) simp

interpretation PinSearchResponse_plain: message_plain PinSearchResponse_obj PinSearchResponse_verify PinSearchResponse_fromObject PinSearchResponse_toObject PinSearchResponse_good
  by unfold_locales
    (use PinSearchResponse_accepts PinSearchResponse_round PinSearchResponse_guarded in \<open>auto simp: PinSearchResponse_obj_def PinSearchResponse_verify_def dest: verified_object\<close>)

subsection \<open>UnpinSearchRequest\<close>

definition UnpinSearchRequest_construct :: "js \<Rightarrow> js res" where
  "UnpinSearchRequest_construct = construct ''UnpinSearchRequest'' [] None"

definition UnpinSearchRequest_create :: "js \<Rightarrow> js res" where
  "UnpinSearchRequest_create properties = UnpinSearchRequest_construct properties"

definition UnpinSearchRequest_checks :: "check list" where
  "UnpinSearchRequest_checks =
     [v_field ''id'' v_string]"

definition UnpinSearchRequest_verify :: "js \<Rightarrow> string option res" where
  "UnpinSearchRequest_verify = verify_with UnpinSearchRequest_checks"

definition UnpinSearchRequest_setters :: "setter list" where
  "UnpinSearchRequest_setters =
     [f_field ''id'' c_string]"

definition UnpinSearchRequest_fromObject :: "js \<Rightarrow> js res" where
  "UnpinSearchRequest_fromObject = from_object ''UnpinSearchRequest'' [] UnpinSearchRequest_setters"

definition UnpinSearchRequest_writers :: "writer list" where
  "UnpinSearchRequest_writers =
     [d_value ''id'' (String []),
      t_field ''id'' t_same]"

definition UnpinSearchRequest_toObject :: "js \<Rightarrow> to_options option \<Rightarrow> js res" where
  "UnpinSearchRequest_toObject = to_object UnpinSearchRequest_writers"

definition UnpinSearchRequest_toJSON :: "js \<Rightarrow> js res" where
  "UnpinSearchRequest_toJSON message = UnpinSearchRequest_toObject message (Some toJSONOptions)"

definition UnpinSearchRequest_getTypeUrl :: "jstring option \<Rightarrow> jstring" where
  "UnpinSearchRequest_getTypeUrl = type_url ''UnpinSearchRequest''"

definition UnpinSearchRequest_props :: "UnpinSearchRequest \<Rightarrow> props" where
  "UnpinSearchRequest_props m =
     opt_prop ''id'' String (UnpinSearchRequest_id m)"

definition UnpinSearchRequest_obj :: "UnpinSearchRequest \<Rightarrow> js" where
  "UnpinSearchRequest_obj m = Object ''UnpinSearchRequest'' (UnpinSearchRequest_props m)"

definition UnpinSearchRequest_good :: "UnpinSearchRequest \<Rightarrow> bool" where
  "UnpinSearchRequest_good m \<longleftrightarrow> True"

lemma UnpinSearchRequest_lookup:
  "lookup (UnpinSearchRequest_props m) ''id'' = map_option String (UnpinSearchRequest_id m)"
  "\<not> shadows (UnpinSearchRequest_props m)"
  by (simp_all add: UnpinSearchRequest_props_def shadows_def)

lemma UnpinSearchRequest_accepts:
  assumes "UnpinSearchRequest_good m"
  shows "UnpinSearchRequest_verify (UnpinSearchRequest_obj m) = ok None"
  unfolding UnpinSearchRequest_verify_def UnpinSearchRequest_checks_def UnpinSearchRequest_obj_def
  by (rule runs_verify [where members = "[]"],
      rule string_plain.runs_opt [where x = "UnpinSearchRequest_id m"],
      rule runs_Nil)
    (simp_all add: UnpinSearchRequest_lookup assms [unfolded UnpinSearchRequest_good_def] at_most_one.simps(1))

lemma UnpinSearchRequest_round:
  assumes "UnpinSearchRequest_good m" "\<not> to_defaults opts"
  shows "\<exists>ps. UnpinSearchRequest_toObject (UnpinSearchRequest_obj m) (Some opts) = ok (plain ps) \<and>
    UnpinSearchRequest_fromObject (plain ps) = ok (UnpinSearchRequest_obj m)"
  unfolding UnpinSearchRequest_toObject_def UnpinSearchRequest_writers_def UnpinSearchRequest_fromObject_def UnpinSearchRequest_setters_def UnpinSearchRequest_obj_def
  by (rule round_trip, simp,
      rule all_yield_Cons, rule all_yield_Cons, rule all_yield_Nil,
      (rule string_plain.yields_opt [where x = "UnpinSearchRequest_id m"]; simp add: assms [unfolded UnpinSearchRequest_good_def] UnpinSearchRequest_lookup plain_keys),
      (rule yields_default(1); simp add: assms [unfolded UnpinSearchRequest_good_def] UnpinSearchRequest_lookup plain_keys),
      rule string_plain.build_opt [where x = "UnpinSearchRequest_id m" and opts = opts],
      rule build.simps(1) [THEN trans])
    (simp_all add: assms [unfolded UnpinSearchRequest_good_def] UnpinSearchRequest_lookup plain_keys UnpinSearchRequest_props_def)

lemma UnpinSearchRequest_guarded: "UnpinSearchRequest_verify v = ok None \<Longrightarrow> all_plain v \<Longrightarrow> \<exists>m. UnpinSearchRequest_fromObject v = ok m"
  unfolding UnpinSearchRequest_verify_def UnpinSearchRequest_checks_def UnpinSearchRequest_fromObject_def UnpinSearchRequest_setters_def
  by (rule guards_object, rule guards_Cons, rule guards_Nil,
      (rule string_plain.guard_opt(1), simp),
      assumption, assumption) simp

interpretation UnpinSearchRequest_plain: message_plain UnpinSearchRequest_obj UnpinSearchRequest_verify UnpinSearchRequest_fromObject UnpinSearchRequest_toObject UnpinSearchRequest_good
  by unfold_locales
    (use UnpinSearchRequest_accepts UnpinSearchRequest_round UnpinSearchRequest_guarded in \<open>auto simp: UnpinSearchRequest_obj_def UnpinSearchRequest_verify_def dest: verified_object\<close>)

subsection \<open>UnpinSearchResponse\<close>

definition UnpinSearchResponse_construct :: "js \<Rightarrow> js res" where
  "UnpinSearchResponse_construct = construct ''UnpinSearchResponse'' [] None"

definition UnpinSearchResponse_create :: "js \<Rightarrow> js res" where
  "UnpinSearchResponse_create properties = UnpinSearchResponse_construct properties"

definition UnpinSearchResponse_verify :: "js \<Rightarrow> string option res" where
  "UnpinSearchResponse_verify = verify_with []"

definition UnpinSearchResponse_fromObject :: "js \<Rightarrow> js res" where
  "UnpinSearchResponse_fromObject = from_object ''UnpinSearchResponse'' [] []"

definition UnpinSearchResponse_toObject :: "js \<Rightarrow> to_options option \<Rightarrow> js res" where
  "UnpinSearchResponse_toObject = to_object []"

definition UnpinSearchResponse_toJSON :: "js \<Rightarrow> js res" where
  "UnpinSearchResponse_toJSON message = UnpinSearchResponse_toObject message (Some toJSONOptions)"

definition UnpinSearchResponse_getTypeUrl :: "jstring option \<Rightarrow> jstring" where
  "UnpinSearchResponse_getTypeUrl = type_url ''UnpinSearchResponse''"

definition UnpinSearchResponse_props :: "UnpinSearchResponse \<Rightarrow> props" where
  "UnpinSearchResponse_props m =
     []"

definition UnpinSearchResponse_obj :: "UnpinSearchResponse \<Rightarrow> js" where
  "UnpinSearchResponse_obj m = Object ''UnpinSearchResponse'' (UnpinSearchResponse_props m)"

definition UnpinSearchResponse_good :: "UnpinSearchResponse \<Rightarrow> bool" where
  "UnpinSearchResponse_good m \<longleftrightarrow> True"

lemma UnpinSearchResponse_lookup:
  "\<not> shadows (UnpinSearchResponse_props m)"
  by (simp_all add: UnpinSearchResponse_props_def shadows_def)

lemma UnpinSearchResponse_accepts:
  assumes "UnpinSearchResponse_good m"
  shows "UnpinSearchResponse_verify (UnpinSearchResponse_obj m) = ok None"
  unfolding UnpinSearchResponse_verify_def UnpinSearchResponse_obj_def
  by (rule runs_verify [where members = "[]"],
      rule runs_Nil)
    (simp_all add: UnpinSearchResponse_lookup assms [unfolded UnpinSearchResponse_good_def] at_most_one.simps(1))

lemma UnpinSearchResponse_round:
  assumes "UnpinSearchResponse_good m" "\<not> to_defaults opts"
  shows "\<exists>ps. UnpinSearchResponse_toObject (UnpinSearchResponse_obj m) (Some opts) = ok (plain ps) \<and>
    UnpinSearchResponse_fromObject (plain ps) = ok (UnpinSearchResponse_obj m)"
  unfolding UnpinSearchResponse_toObject_def UnpinSearchResponse_fromObject_def UnpinSearchResponse_obj_def
  by (rule round_trip, simp,
      rule all_yield_Nil,
      rule build.simps(1) [THEN trans])
    (simp_all add: assms [unfolded UnpinSearchResponse_good_def] UnpinSearchResponse_lookup plain_keys UnpinSearchResponse_props_def)

lemma UnpinSearchResponse_guarded: "UnpinSearchResponse_verify v = ok None \<Longrightarrow> all_plain v \<Longrightarrow> \<exists>m. UnpinSearchResponse_fromObject v = ok m"
  unfolding UnpinSearchResponse_verify_def UnpinSearchResponse_fromObject_def
  by (rule guards_object, rule guards_Nil,
      assumption, assumption) simp

interpretation UnpinSearchResponse_plain: message_plain UnpinSearchResponse_obj UnpinSearchResponse_verify UnpinSearchResponse_fromObject UnpinSearchResponse_toObject UnpinSearchResponse_good
  by unfold_locales
    (use UnpinSearchResponse_accepts UnpinSearchResponse_round UnpinSearchResponse_guarded in \<open>auto simp: UnpinSearchResponse_obj_def UnpinSearchResponse_verify_def dest: verified_object\<close>)

subsection \<open>ListSavedSearchesRequest\<close>

definition ListSavedSearchesRequest_construct :: "js \<Rightarrow> js res" where
  "ListSavedSearchesRequest_construct = construct ''ListSavedSearchesRequest'' [] None"

definition ListSavedSearchesRequest_create :: "js \<Rightarrow> js res" where
  "ListSavedSearchesRequest_create properties = ListSavedSearchesRequest_construct properties"

definition ListSavedSearchesRequest_verify :: "js \<Rightarrow> string option res" where
  "ListSavedSearchesRequest_verify = verify_with []"

definition ListSavedSearchesRequest_fromObject :: "js \<Rightarrow> js res" where
  "ListSavedSearchesRequest_fromObject = from_object ''ListSavedSearchesRequest'' [] []"

definition ListSavedSearchesRequest_toObject :: "js \<Rightarrow> to_options option \<Rightarrow> js res" where
  "ListSavedSearchesRequest_toObject = to_object []"

definition ListSavedSearchesRequest_toJSON :: "js \<Rightarrow> js res" where
  "ListSavedSearchesRequest_toJSON message = ListSavedSearchesRequest_toObject message (Some toJSONOptions)"

definition ListSavedSearchesRequest_getTypeUrl :: "jstring option \<Rightarrow> jstring" where
  "ListSavedSearchesRequest_getTypeUrl = type_url ''ListSavedSearchesRequest''"

definition ListSavedSearchesRequest_props :: "ListSavedSearchesRequest \<Rightarrow> props" where
  "ListSavedSearchesRequest_props m =
     []"

definition ListSavedSearchesRequest_obj :: "ListSavedSearchesRequest \<Rightarrow> js" where
  "ListSavedSearchesRequest_obj m = Object ''ListSavedSearchesRequest'' (ListSavedSearchesRequest_props m)"

definition ListSavedSearchesRequest_good :: "ListSavedSearchesRequest \<Rightarrow> bool" where
  "ListSavedSearchesRequest_good m \<longleftrightarrow> True"

lemma ListSavedSearchesRequest_lookup:
  "\<not> shadows (ListSavedSearchesRequest_props m)"
  by (simp_all add: ListSavedSearchesRequest_props_def shadows_def)

lemma ListSavedSearchesRequest_accepts:
  assumes "ListSavedSearchesRequest_good m"
  shows "ListSavedSearchesRequest_verify (ListSavedSearchesRequest_obj m) = ok None"
  unfolding ListSavedSearchesRequest_verify_def ListSavedSearchesRequest_obj_def
  by (rule runs_verify [where members = "[]"],
      rule runs_Nil)
    (simp_all add: ListSavedSearchesRequest_lookup assms [unfolded ListSavedSearchesRequest_good_def] at_most_one.simps(1))

lemma ListSavedSearchesRequest_round:
  assumes "ListSavedSearchesRequest_good m" "\<not> to_defaults opts"
  shows "\<exists>ps. ListSavedSearchesRequest_toObject (ListSavedSearchesRequest_obj m) (Some opts) = ok (plain ps) \<and>
    ListSavedSearchesRequest_fromObject (plain ps) = ok (ListSavedSearchesRequest_obj m)"
  unfolding ListSavedSearchesRequest_toObject_def ListSavedSearchesRequest_fromObject_def ListSavedSearchesRequest_obj_def
  by (rule round_trip, simp,
      rule all_yield_Nil,
      rule build.simps(1) [THEN trans])
    (simp_all add: assms [unfolded ListSavedSearchesRequest_good_def] ListSavedSearchesRequest_lookup plain_keys ListSavedSearchesRequest_props_def)

lemma ListSavedSearchesRequest_guarded: "ListSavedSearchesRequest_verify v = ok None \<Longrightarrow> all_plain v \<Longrightarrow> \<exists>m. ListSavedSearchesRequest_fromObject v = ok m"
  unfolding ListSavedSearchesRequest_verify_def ListSavedSearchesRequest_fromObject_def
  by (rule guards_object, rule guards_Nil,
      assumption, assumption) simp

interpretation ListSavedSearchesRequest_plain: message_plain ListSavedSearchesRequest_obj ListSavedSearchesRequest_verify ListSavedSearchesRequest_fromObject ListSavedSearchesRequest_toObject ListSavedSearchesRequest_good
  by unfold_locales
    (use ListSavedSearchesRequest_accepts ListSavedSearchesRequest_round ListSavedSearchesRequest_guarded in \<open>auto simp: ListSavedSearchesRequest_obj_def ListSavedSearchesRequest_verify_def dest: verified_object\<close>)

subsection \<open>ListSavedSearchesResponse\<close>

definition ListSavedSearchesResponse_init :: props where
  "ListSavedSearchesResponse_init = [(js_str ''searches'', Array [])]"

definition ListSavedSearchesResponse_construct :: "js \<Rightarrow> js res" where
  "ListSavedSearchesResponse_construct = construct ''ListSavedSearchesResponse'' ListSavedSearchesResponse_init None"

definition ListSavedSearchesResponse_create :: "js \<Rightarrow> js res" where
  "ListSavedSearchesResponse_create properties = ListSavedSearchesResponse_construct properties"

definition ListSavedSearchesResponse_checks :: "check list" where
  "ListSavedSearchesResponse_checks =
     [v_field ''searches'' (v_messages SavedSearch_verify)]"

definition ListSavedSearchesResponse_verify :: "js \<Rightarrow> string option res" where
  "ListSavedSearchesResponse_verify = verify_with ListSavedSearchesResponse_checks"

definition ListSavedSearchesResponse_setters :: "setter list" where
  "ListSavedSearchesResponse_setters =
     [f_truthy ''searches'' (c_array ''ListSavedSearchesResponse'' ''searches'' (c_message ''ListSavedSearchesResponse'' ''searches'' SavedSearch_fromObject))]"

definition ListSavedSearchesResponse_fromObject :: "js \<Rightarrow> js res" where
  "ListSavedSearchesResponse_fromObject = from_object ''ListSavedSearchesResponse'' ListSavedSearchesResponse_init ListSavedSearchesResponse_setters"

definition ListSavedSearchesResponse_writers :: "writer list" where
  "ListSavedSearchesResponse_writers =
     [d_array ''searches'',
      t_list ''searches'' (t_message SavedSearch_toObject)]"

definition ListSavedSearchesResponse_toObject :: "js \<Rightarrow> to_options option \<Rightarrow> js res" where
  "ListSavedSearchesResponse_toObject = to_object ListSavedSearchesResponse_writers"

definition ListSavedSearchesResponse_toJSON :: "js \<Rightarrow> js res" where
  "ListSavedSearchesResponse_toJSON message = ListSavedSearchesResponse_toObject message (Some toJSONOptions)"

definition ListSavedSearchesResponse_getTypeUrl :: "jstring option \<Rightarrow> jstring" where
  "ListSavedSearchesResponse_getTypeUrl = type_url ''ListSavedSearchesResponse''"

definition ListSavedSearchesResponse_props :: "ListSavedSearchesResponse \<Rightarrow> props" where
  "ListSavedSearchesResponse_props m =
     [(js_str ''searches'', Array (map SavedSearch_obj (ListSavedSearchesResponse_searches m)))]"

definition ListSavedSearchesResponse_obj :: "ListSavedSearchesResponse \<Rightarrow> js" where
  "ListSavedSearchesResponse_obj m = Object ''ListSavedSearchesResponse'' (ListSavedSearchesResponse_props m)"

definition ListSavedSearchesResponse_good :: "ListSavedSearchesResponse \<Rightarrow> bool" where
  "ListSavedSearchesResponse_good m \<longleftrightarrow> list_all SavedSearch_good (ListSavedSearchesResponse_searches m)"

lemma ListSavedSearchesResponse_lookup:
  "lookup (ListSavedSearchesResponse_props m) ''searches'' = Some (Array (map SavedSearch_obj (ListSavedSearchesResponse_searches m)))"
  "\<not> shadows (ListSavedSearchesResponse_props m)"
  by (simp_all add: ListSavedSearchesResponse_props_def shadows_def)

lemma ListSavedSearchesResponse_accepts:
  assumes "ListSavedSearchesResponse_good m"
  shows "ListSavedSearchesResponse_verify (ListSavedSearchesResponse_obj m) = ok None"
  unfolding ListSavedSearchesResponse_verify_def ListSavedSearchesResponse_checks_def ListSavedSearchesResponse_obj_def
  by (rule runs_verify [where members = "[]"],
      rule SavedSearch_plain.sub.runs_list [where xs = "ListSavedSearchesResponse_searches m"],
      rule runs_Nil)
    (simp_all add: ListSavedSearchesResponse_lookup assms [unfolded ListSavedSearchesResponse_good_def] at_most_one.simps(1))

lemma ListSavedSearchesResponse_round:
  assumes "ListSavedSearchesResponse_good m" "\<not> to_defaults opts"
  shows "\<exists>ps. ListSavedSearchesResponse_toObject (ListSavedSearchesResponse_obj m) (Some opts) = ok (plain ps) \<and>
    ListSavedSearchesResponse_fromObject (plain ps) = ok (ListSavedSearchesResponse_obj m)"
  unfolding ListSavedSearchesResponse_toObject_def ListSavedSearchesResponse_writers_def ListSavedSearchesResponse_fromObject_def ListSavedSearchesResponse_setters_def ListSavedSearchesResponse_obj_def
  by (rule round_trip, simp,
      rule all_yield_Cons, rule all_yield_Cons, rule all_yield_Nil,
      (rule SavedSearch_plain.sub.yields_list [where xs = "ListSavedSearchesResponse_searches m"]; simp add: assms [unfolded ListSavedSearchesResponse_good_def] ListSavedSearchesResponse_lookup plain_keys),
      (rule yields_array; simp add: assms [unfolded ListSavedSearchesResponse_good_def] ListSavedSearchesResponse_lookup plain_keys),
      rule SavedSearch_plain.sub.build_list [where xs = "ListSavedSearchesResponse_searches m" and opts = opts],
      rule build.simps(1) [THEN trans])
    (simp_all add: assms [unfolded ListSavedSearchesResponse_good_def] ListSavedSearchesResponse_lookup plain_keys ListSavedSearchesResponse_props_def ListSavedSearchesResponse_init_def)

lemma ListSavedSearchesResponse_guarded: "ListSavedSearchesResponse_verify v = ok None \<Longrightarrow> all_plain v \<Longrightarrow> \<exists>m. ListSavedSearchesResponse_fromObject v = ok m"
  unfolding ListSavedSearchesResponse_verify_def ListSavedSearchesResponse_checks_def ListSavedSearchesResponse_fromObject_def ListSavedSearchesResponse_setters_def
  by (rule guards_object, rule guards_Cons, rule guards_Nil,
      (rule SavedSearch_plain.sub.guard_list, simp),
      assumption, assumption) simp

interpretation ListSavedSearchesResponse_plain: message_plain ListSavedSearchesResponse_obj ListSavedSearchesResponse_verify ListSavedSearchesResponse_fromObject ListSavedSearchesResponse_toObject ListSavedSearchesResponse_good
  by unfold_locales
    (use ListSavedSearchesResponse_accepts ListSavedSearchesResponse_round ListSavedSearchesResponse_guarded in \<open>auto simp: ListSavedSearchesResponse_obj_def ListSavedSearchesResponse_verify_def dest: verified_object\<close>)

end
