(* ===== verification/FilesPlain.thy ===== *)
theory FilesPlain
  imports Files PlainFields
begin

text \<open>
  Construction, checking and plain objects for the messages of the file operations. For each class \<open>X\<close>:
  \<open>X_construct\<close> and \<open>X_create\<close>, \<open>X_verify\<close>, \<open>X_fromObject\<close>, \<open>X_toObject\<close>, \<open>X_toJSON\<close> and
  \<open>X_getTypeUrl\<close> are the methods, over arbitrary values; the lists \<open>X_checks\<close>, \<open>X_setters\<close> and
  \<open>X_writers\<close> are the statements of \<open>verify\<close>, \<open>fromObject\<close> and \<open>toObject\<close> for the single fields. \<open>X_obj m\<close> is the instance that holds the message
  \<open>m\<close> of the typed model and \<open>X_good\<close> says that its integers fit their fields, its maps are objects and
  at most one member of a oneof is set. The interpretation of \<open>message_plain\<close> shows that such an instance
  passes \<open>verify\<close>, that \<open>fromObject\<close> takes its plain form back to it, and that \<open>fromObject\<close> does not
  throw on plain objects that pass \<open>verify\<close>.
\<close>

subsection \<open>ListDirectoryRequest\<close>

definition ListDirectoryRequest_construct :: "js \<Rightarrow> js res" where
  "ListDirectoryRequest_construct = construct ''ListDirectoryRequest'' [] None"

definition ListDirectoryRequest_create :: "js \<Rightarrow> js res" where
  "ListDirectoryRequest_create properties = ListDirectoryRequest_construct properties"

definition ListDirectoryRequest_checks :: "check list" where
  "ListDirectoryRequest_checks =
     [v_field ''path'' v_string,
      v_field ''hidden'' v_bool]"

definition ListDirectoryRequest_verify :: "js \<Rightarrow> string option res" where
  "ListDirectoryRequest_verify = verify_with ListDirectoryRequest_checks"

definition ListDirectoryRequest_setters :: "setter list" where
  "ListDirectoryRequest_setters =
     [f_field ''path'' c_string,
      f_field ''hidden'' c_bool]"

definition ListDirectoryRequest_fromObject :: "js \<Rightarrow> js res" where
  "ListDirectoryRequest_fromObject = from_object ''ListDirectoryRequest'' [] ListDirectoryRequest_setters"

definition ListDirectoryRequest_writers :: "writer list" where
  "ListDirectoryRequest_writers =
     [d_value ''path'' (String []),
      d_value ''hidden'' (Boolean False),
      t_field ''path'' t_same,
      t_field ''hidden'' t_same]"

definition ListDirectoryRequest_toObject :: "js \<Rightarrow> to_options option \<Rightarrow> js res" where
  "ListDirectoryRequest_toObject = to_object ListDirectoryRequest_writers"

definition ListDirectoryRequest_toJSON :: "js \<Rightarrow> js res" where
  "ListDirectoryRequest_toJSON message = ListDirectoryRequest_toObject message (Some toJSONOptions)"

definition ListDirectoryRequest_getTypeUrl :: "jstring option \<Rightarrow> jstring" where
  "ListDirectoryRequest_getTypeUrl = type_url ''ListDirectoryRequest''"

definition ListDirectoryRequest_props :: "ListDirectoryRequest \<Rightarrow> props" where
  "ListDirectoryRequest_props m =
     opt_prop ''path'' String (ListDirectoryRequest_path m) @
     opt_prop ''hidden'' Boolean (ListDirectoryRequest_hidden m)"

definition ListDirectoryRequest_obj :: "ListDirectoryRequest \<Rightarrow> js" where
  "ListDirectoryRequest_obj m = Object ''ListDirectoryRequest'' (ListDirectoryRequest_props m)"

definition ListDirectoryRequest_good :: "ListDirectoryRequest \<Rightarrow> bool" where
  "ListDirectoryRequest_good m \<longleftrightarrow> True"

lemma ListDirectoryRequest_lookup:
  "lookup (ListDirectoryRequest_props m) ''path'' = map_option String (ListDirectoryRequest_path m)"
  "lookup (ListDirectoryRequest_props m) ''hidden'' = map_option Boolean (ListDirectoryRequest_hidden m)"
  "\<not> shadows (ListDirectoryRequest_props m)"
  by (simp_all add: ListDirectoryRequest_props_def shadows_def)

lemma ListDirectoryRequest_accepts:
  assumes "ListDirectoryRequest_good m"
  shows "ListDirectoryRequest_verify (ListDirectoryRequest_obj m) = ok None"
  unfolding ListDirectoryRequest_verify_def ListDirectoryRequest_checks_def ListDirectoryRequest_obj_def
  by (rule runs_verify [where members = "[]"],
      rule string_plain.runs_opt [where x = "ListDirectoryRequest_path m"],
      rule bool_plain.runs_opt [where x = "ListDirectoryRequest_hidden m"],
      rule runs_Nil)
    (simp_all add: ListDirectoryRequest_lookup assms [unfolded ListDirectoryRequest_good_def] at_most_one.simps(1))

lemma ListDirectoryRequest_round:
  assumes "ListDirectoryRequest_good m" "\<not> to_defaults opts"
  shows "\<exists>ps. ListDirectoryRequest_toObject (ListDirectoryRequest_obj m) (Some opts) = ok (plain ps) \<and>
    ListDirectoryRequest_fromObject (plain ps) = ok (ListDirectoryRequest_obj m)"
  unfolding ListDirectoryRequest_toObject_def ListDirectoryRequest_writers_def ListDirectoryRequest_fromObject_def ListDirectoryRequest_setters_def ListDirectoryRequest_obj_def
  by (rule round_trip, simp,
      rule all_yield_Cons, rule all_yield_Cons, rule all_yield_Cons, rule all_yield_Cons,
      rule all_yield_Nil,
      (rule bool_plain.yields_opt [where x = "ListDirectoryRequest_hidden m"]; simp add: assms [unfolded ListDirectoryRequest_good_def] ListDirectoryRequest_lookup plain_keys),
      (rule string_plain.yields_opt [where x = "ListDirectoryRequest_path m"]; simp add: assms [unfolded ListDirectoryRequest_good_def] ListDirectoryRequest_lookup plain_keys),
      (rule yields_default(1); simp add: assms [unfolded ListDirectoryRequest_good_def] ListDirectoryRequest_lookup plain_keys),
      (rule yields_default(1); simp add: assms [unfolded ListDirectoryRequest_good_def] ListDirectoryRequest_lookup plain_keys),
      rule string_plain.build_opt [where x = "ListDirectoryRequest_path m" and opts = opts],
      rule bool_plain.build_opt [where x = "ListDirectoryRequest_hidden m" and opts = opts],
      rule build.simps(1) [THEN trans])
    (simp_all add: assms [unfolded ListDirectoryRequest_good_def] ListDirectoryRequest_lookup plain_keys ListDirectoryRequest_props_def)

lemma ListDirectoryRequest_guarded: "ListDirectoryRequest_verify v = ok None \<Longrightarrow> all_plain v \<Longrightarrow> \<exists>m. ListDirectoryRequest_fromObject v = ok m"
  unfolding ListDirectoryRequest_verify_def ListDirectoryRequest_checks_def ListDirectoryRequest_fromObject_def ListDirectoryRequest_setters_def
  by (rule guards_object, rule guards_Cons, rule guards_Cons, rule guards_Nil,
      (rule bool_plain.guard_opt(1), simp),
      (rule string_plain.guard_opt(1), simp),
      assumption, assumption) simp

interpretation ListDirectoryRequest_plain: message_plain ListDirectoryRequest_obj ListDirectoryRequest_verify ListDirectoryRequest_fromObject ListDirectoryRequest_toObject ListDirectoryRequest_good
  by unfold_locales
    (use ListDirectoryRequest_accepts ListDirectoryRequest_round ListDirectoryRequest_guarded in \<open>auto simp: ListDirectoryRequest_obj_def ListDirectoryRequest_verify_def dest: verified_object\<close>)

subsection \<open>DirEntry\<close>

definition DirEntry_construct :: "js \<Rightarrow> js res" where
  "DirEntry_construct = construct ''DirEntry'' [] None"

definition DirEntry_create :: "js \<Rightarrow> js res" where
  "DirEntry_create properties = DirEntry_construct properties"

definition DirEntry_checks :: "check list" where
  "DirEntry_checks =
     [v_field ''name'' v_string,
      v_field ''path'' v_string,
      v_field ''isDir'' v_bool,
      v_field ''sizeBytes'' v_long,
      v_field ''mtime'' v_long,
      v_field ''mode'' v_integer,
      v_field ''hidden'' v_bool,
      v_field ''mimeType'' v_string,
      v_field ''iconName'' v_string,
      v_field ''isLink'' v_bool,
      v_field ''linkTarget'' v_string]"

definition DirEntry_verify :: "js \<Rightarrow> string option res" where
  "DirEntry_verify = verify_with DirEntry_checks"

definition DirEntry_setters :: "setter list" where
  "DirEntry_setters =
     [f_field ''name'' c_string,
      f_field ''path'' c_string,
      f_field ''isDir'' c_bool,
      f_opt ''sizeBytes'' (c_long False),
      f_opt ''mtime'' (c_long False),
      f_field ''mode'' c_uint32,
      f_field ''hidden'' c_bool,
      f_field ''mimeType'' c_string,
      f_field ''iconName'' c_string,
      f_field ''isLink'' c_bool,
      f_field ''linkTarget'' c_string]"

definition DirEntry_fromObject :: "js \<Rightarrow> js res" where
  "DirEntry_fromObject = from_object ''DirEntry'' [] DirEntry_setters"

definition DirEntry_writers :: "writer list" where
  "DirEntry_writers =
     [d_value ''name'' (String []),
      d_value ''path'' (String []),
      d_value ''isDir'' (Boolean False),
      d_long ''sizeBytes'',
      d_long ''mtime'',
      d_value ''mode'' (int_js 0),
      d_value ''hidden'' (Boolean False),
      d_value ''mimeType'' (String []),
      d_value ''iconName'' (String []),
      d_value ''isLink'' (Boolean False),
      d_value ''linkTarget'' (String []),
      t_field ''name'' t_same,
      t_field ''path'' t_same,
      t_field ''isDir'' t_same,
      t_field ''sizeBytes'' (t_long False),
      t_field ''mtime'' (t_long False),
      t_field ''mode'' t_same,
      t_field ''hidden'' t_same,
      t_field ''mimeType'' t_same,
      t_field ''iconName'' t_same,
      t_field ''isLink'' t_same,
      t_field ''linkTarget'' t_same]"

definition DirEntry_toObject :: "js \<Rightarrow> to_options option \<Rightarrow> js res" where
  "DirEntry_toObject = to_object DirEntry_writers"

definition DirEntry_toJSON :: "js \<Rightarrow> js res" where
  "DirEntry_toJSON message = DirEntry_toObject message (Some toJSONOptions)"

definition DirEntry_getTypeUrl :: "jstring option \<Rightarrow> jstring" where
  "DirEntry_getTypeUrl = type_url ''DirEntry''"

definition DirEntry_props :: "DirEntry \<Rightarrow> props" where
  "DirEntry_props m =
     opt_prop ''name'' String (DirEntry_name m) @
     opt_prop ''path'' String (DirEntry_path m) @
     opt_prop ''isDir'' Boolean (DirEntry_isDir m) @
     opt_prop ''sizeBytes'' int_js (DirEntry_sizeBytes m) @
     opt_prop ''mtime'' int_js (DirEntry_mtime m) @
     opt_prop ''mode'' int_js (DirEntry_mode m) @
     opt_prop ''hidden'' Boolean (DirEntry_hidden m) @
     opt_prop ''mimeType'' String (DirEntry_mimeType m) @
     opt_prop ''iconName'' String (DirEntry_iconName m) @
     opt_prop ''isLink'' Boolean (DirEntry_isLink m) @
     opt_prop ''linkTarget'' String (DirEntry_linkTarget m)"

definition DirEntry_obj :: "DirEntry \<Rightarrow> js" where
  "DirEntry_obj m = Object ''DirEntry'' (DirEntry_props m)"

definition DirEntry_good :: "DirEntry \<Rightarrow> bool" where
  "DirEntry_good m \<longleftrightarrow> opt_all int64_ok (DirEntry_sizeBytes m) \<and>
     opt_all int64_ok (DirEntry_mtime m) \<and>
     opt_all uint32_ok (DirEntry_mode m)"

lemma DirEntry_lookup:
  "lookup (DirEntry_props m) ''name'' = map_option String (DirEntry_name m)"
  "lookup (DirEntry_props m) ''path'' = map_option String (DirEntry_path m)"
  "lookup (DirEntry_props m) ''isDir'' = map_option Boolean (DirEntry_isDir m)"
  "lookup (DirEntry_props m) ''sizeBytes'' = map_option int_js (DirEntry_sizeBytes m)"
  "lookup (DirEntry_props m) ''mtime'' = map_option int_js (DirEntry_mtime m)"
  "lookup (DirEntry_props m) ''mode'' = map_option int_js (DirEntry_mode m)"
  "lookup (DirEntry_props m) ''hidden'' = map_option Boolean (DirEntry_hidden m)"
  "lookup (DirEntry_props m) ''mimeType'' = map_option String (DirEntry_mimeType m)"
  "lookup (DirEntry_props m) ''iconName'' = map_option String (DirEntry_iconName m)"
  "lookup (DirEntry_props m) ''isLink'' = map_option Boolean (DirEntry_isLink m)"
  "lookup (DirEntry_props m) ''linkTarget'' = map_option String (DirEntry_linkTarget m)"
  "\<not> shadows (DirEntry_props m)"
  by (simp_all add: DirEntry_props_def shadows_def)

lemma DirEntry_accepts:
  assumes "DirEntry_good m"
  shows "DirEntry_verify (DirEntry_obj m) = ok None"
  unfolding DirEntry_verify_def DirEntry_checks_def DirEntry_obj_def
  by (rule runs_verify [where members = "[]"],
      rule string_plain.runs_opt [where x = "DirEntry_name m"],
      rule string_plain.runs_opt [where x = "DirEntry_path m"],
      rule bool_plain.runs_opt [where x = "DirEntry_isDir m"],
      rule int64_plain.runs_opt [where x = "DirEntry_sizeBytes m"],
      rule int64_plain.runs_opt [where x = "DirEntry_mtime m"],
      rule uint32_plain.runs_opt [where x = "DirEntry_mode m"],
      rule bool_plain.runs_opt [where x = "DirEntry_hidden m"],
      rule string_plain.runs_opt [where x = "DirEntry_mimeType m"],
      rule string_plain.runs_opt [where x = "DirEntry_iconName m"],
      rule bool_plain.runs_opt [where x = "DirEntry_isLink m"],
      rule string_plain.runs_opt [where x = "DirEntry_linkTarget m"],
      rule runs_Nil)
    (simp_all add: DirEntry_lookup assms [unfolded DirEntry_good_def] at_most_one.simps(1))

lemma DirEntry_round:
  assumes "DirEntry_good m" "\<not> to_defaults opts"
  shows "\<exists>ps. DirEntry_toObject (DirEntry_obj m) (Some opts) = ok (plain ps) \<and>
    DirEntry_fromObject (plain ps) = ok (DirEntry_obj m)"
  unfolding DirEntry_toObject_def DirEntry_writers_def DirEntry_fromObject_def DirEntry_setters_def DirEntry_obj_def
  by (rule round_trip, simp,
      rule all_yield_Cons, rule all_yield_Cons, rule all_yield_Cons, rule all_yield_Cons,
      rule all_yield_Cons, rule all_yield_Cons, rule all_yield_Cons, rule all_yield_Cons,
      rule all_yield_Cons, rule all_yield_Cons, rule all_yield_Cons, rule all_yield_Cons,
      rule all_yield_Cons, rule all_yield_Cons, rule all_yield_Cons, rule all_yield_Cons,
      rule all_yield_Cons, rule all_yield_Cons, rule all_yield_Cons, rule all_yield_Cons,
      rule all_yield_Cons, rule all_yield_Cons, rule all_yield_Nil,
      (rule string_plain.yields_opt [where x = "DirEntry_linkTarget m"]; simp add: assms [unfolded DirEntry_good_def] DirEntry_lookup plain_keys),
      (rule bool_plain.yields_opt [where x = "DirEntry_isLink m"]; simp add: assms [unfolded DirEntry_good_def] DirEntry_lookup plain_keys),
      (rule string_plain.yields_opt [where x = "DirEntry_iconName m"]; simp add: assms [unfolded DirEntry_good_def] DirEntry_lookup plain_keys),
      (rule string_plain.yields_opt [where x = "DirEntry_mimeType m"]; simp add: assms [unfolded DirEntry_good_def] DirEntry_lookup plain_keys),
      (rule bool_plain.yields_opt [where x = "DirEntry_hidden m"]; simp add: assms [unfolded DirEntry_good_def] DirEntry_lookup plain_keys),
      (rule uint32_plain.yields_opt [where x = "DirEntry_mode m"]; simp add: assms [unfolded DirEntry_good_def] DirEntry_lookup plain_keys),
      (rule int64_plain.yields_opt [where x = "DirEntry_mtime m"]; simp add: assms [unfolded DirEntry_good_def] DirEntry_lookup plain_keys),
      (rule int64_plain.yields_opt [where x = "DirEntry_sizeBytes m"]; simp add: assms [unfolded DirEntry_good_def] DirEntry_lookup plain_keys),
      (rule bool_plain.yields_opt [where x = "DirEntry_isDir m"]; simp add: assms [unfolded DirEntry_good_def] DirEntry_lookup plain_keys),
      (rule string_plain.yields_opt [where x = "DirEntry_path m"]; simp add: assms [unfolded DirEntry_good_def] DirEntry_lookup plain_keys),
      (rule string_plain.yields_opt [where x = "DirEntry_name m"]; simp add: assms [unfolded DirEntry_good_def] DirEntry_lookup plain_keys),
      (rule yields_default(1); simp add: assms [unfolded DirEntry_good_def] DirEntry_lookup plain_keys),
      (rule yields_default(1); simp add: assms [unfolded DirEntry_good_def] DirEntry_lookup plain_keys),
      (rule yields_default(1); simp add: assms [unfolded DirEntry_good_def] DirEntry_lookup plain_keys),
      (rule yields_default(1); simp add: assms [unfolded DirEntry_good_def] DirEntry_lookup plain_keys),
      (rule yields_default(1); simp add: assms [unfolded DirEntry_good_def] DirEntry_lookup plain_keys),
      (rule yields_default(1); simp add: assms [unfolded DirEntry_good_def] DirEntry_lookup plain_keys),
      (rule yields_default(2); simp add: assms [unfolded DirEntry_good_def] DirEntry_lookup plain_keys),
      (rule yields_default(2); simp add: assms [unfolded DirEntry_good_def] DirEntry_lookup plain_keys),
      (rule yields_default(1); simp add: assms [unfolded DirEntry_good_def] DirEntry_lookup plain_keys),
      (rule yields_default(1); simp add: assms [unfolded DirEntry_good_def] DirEntry_lookup plain_keys),
      (rule yields_default(1); simp add: assms [unfolded DirEntry_good_def] DirEntry_lookup plain_keys),
      rule string_plain.build_opt [where x = "DirEntry_name m" and opts = opts],
      rule string_plain.build_opt [where x = "DirEntry_path m" and opts = opts],
      rule bool_plain.build_opt [where x = "DirEntry_isDir m" and opts = opts],
      rule int64_plain.build_opt [where x = "DirEntry_sizeBytes m" and opts = opts],
      rule int64_plain.build_opt [where x = "DirEntry_mtime m" and opts = opts],
      rule uint32_plain.build_opt [where x = "DirEntry_mode m" and opts = opts],
      rule bool_plain.build_opt [where x = "DirEntry_hidden m" and opts = opts],
      rule string_plain.build_opt [where x = "DirEntry_mimeType m" and opts = opts],
      rule string_plain.build_opt [where x = "DirEntry_iconName m" and opts = opts],
      rule bool_plain.build_opt [where x = "DirEntry_isLink m" and opts = opts],
      rule string_plain.build_opt [where x = "DirEntry_linkTarget m" and opts = opts],
      rule build.simps(1) [THEN trans])
    (simp_all add: assms [unfolded DirEntry_good_def] DirEntry_lookup plain_keys DirEntry_props_def)

lemma DirEntry_guarded: "DirEntry_verify v = ok None \<Longrightarrow> all_plain v \<Longrightarrow> \<exists>m. DirEntry_fromObject v = ok m"
  unfolding DirEntry_verify_def DirEntry_checks_def DirEntry_fromObject_def DirEntry_setters_def
  by (rule guards_object, rule guards_Cons, rule guards_Cons, rule guards_Cons, rule guards_Cons, rule
      guards_Cons, rule guards_Cons, rule guards_Cons, rule guards_Cons, rule guards_Cons,
      rule guards_Cons, rule guards_Cons, rule guards_Nil,
      (rule string_plain.guard_opt(1), simp),
      (rule bool_plain.guard_opt(1), simp),
      (rule string_plain.guard_opt(1), simp),
      (rule string_plain.guard_opt(1), simp),
      (rule bool_plain.guard_opt(1), simp),
      (rule uint32_plain.guard_opt(1), simp),
      (rule int64_plain.guard_opt(1), simp),
      (rule int64_plain.guard_opt(1), simp),
      (rule bool_plain.guard_opt(1), simp),
      (rule string_plain.guard_opt(1), simp),
      (rule string_plain.guard_opt(1), simp),
      assumption, assumption) simp

interpretation DirEntry_plain: message_plain DirEntry_obj DirEntry_verify DirEntry_fromObject DirEntry_toObject DirEntry_good
  by unfold_locales
    (use DirEntry_accepts DirEntry_round DirEntry_guarded in \<open>auto simp: DirEntry_obj_def DirEntry_verify_def dest: verified_object\<close>)

subsection \<open>ListDirectoryResponse\<close>

definition ListDirectoryResponse_init :: props where
  "ListDirectoryResponse_init = [(js_str ''entries'', Array [])]"

definition ListDirectoryResponse_construct :: "js \<Rightarrow> js res" where
  "ListDirectoryResponse_construct = construct ''ListDirectoryResponse'' ListDirectoryResponse_init None"

definition ListDirectoryResponse_create :: "js \<Rightarrow> js res" where
  "ListDirectoryResponse_create properties = ListDirectoryResponse_construct properties"

definition ListDirectoryResponse_checks :: "check list" where
  "ListDirectoryResponse_checks =
     [v_field ''entries'' (v_messages DirEntry_verify)]"

definition ListDirectoryResponse_verify :: "js \<Rightarrow> string option res" where
  "ListDirectoryResponse_verify = verify_with ListDirectoryResponse_checks"

definition ListDirectoryResponse_setters :: "setter list" where
  "ListDirectoryResponse_setters =
     [f_truthy ''entries'' (c_array ''ListDirectoryResponse'' ''entries'' (c_message ''ListDirectoryResponse'' ''entries'' DirEntry_fromObject))]"

definition ListDirectoryResponse_fromObject :: "js \<Rightarrow> js res" where
  "ListDirectoryResponse_fromObject = from_object ''ListDirectoryResponse'' ListDirectoryResponse_init ListDirectoryResponse_setters"

definition ListDirectoryResponse_writers :: "writer list" where
  "ListDirectoryResponse_writers =
     [d_array ''entries'',
      t_list ''entries'' (t_message DirEntry_toObject)]"

definition ListDirectoryResponse_toObject :: "js \<Rightarrow> to_options option \<Rightarrow> js res" where
  "ListDirectoryResponse_toObject = to_object ListDirectoryResponse_writers"

definition ListDirectoryResponse_toJSON :: "js \<Rightarrow> js res" where
  "ListDirectoryResponse_toJSON message = ListDirectoryResponse_toObject message (Some toJSONOptions)"

definition ListDirectoryResponse_getTypeUrl :: "jstring option \<Rightarrow> jstring" where
  "ListDirectoryResponse_getTypeUrl = type_url ''ListDirectoryResponse''"

definition ListDirectoryResponse_props :: "ListDirectoryResponse \<Rightarrow> props" where
  "ListDirectoryResponse_props m =
     [(js_str ''entries'', Array (map DirEntry_obj (ListDirectoryResponse_entries m)))]"

definition ListDirectoryResponse_obj :: "ListDirectoryResponse \<Rightarrow> js" where
  "ListDirectoryResponse_obj m = Object ''ListDirectoryResponse'' (ListDirectoryResponse_props m)"

definition ListDirectoryResponse_good :: "ListDirectoryResponse \<Rightarrow> bool" where
  "ListDirectoryResponse_good m \<longleftrightarrow> list_all DirEntry_good (ListDirectoryResponse_entries m)"

lemma ListDirectoryResponse_lookup:
  "lookup (ListDirectoryResponse_props m) ''entries'' = Some (Array (map DirEntry_obj (ListDirectoryResponse_entries m)))"
  "\<not> shadows (ListDirectoryResponse_props m)"
  by (simp_all add: ListDirectoryResponse_props_def shadows_def)

lemma ListDirectoryResponse_accepts:
  assumes "ListDirectoryResponse_good m"
  shows "ListDirectoryResponse_verify (ListDirectoryResponse_obj m) = ok None"
  unfolding ListDirectoryResponse_verify_def ListDirectoryResponse_checks_def ListDirectoryResponse_obj_def
  by (rule runs_verify [where members = "[]"],
      rule DirEntry_plain.sub.runs_list [where xs = "ListDirectoryResponse_entries m"],
      rule runs_Nil)
    (simp_all add: ListDirectoryResponse_lookup assms [unfolded ListDirectoryResponse_good_def] at_most_one.simps(1))

lemma ListDirectoryResponse_round:
  assumes "ListDirectoryResponse_good m" "\<not> to_defaults opts"
  shows "\<exists>ps. ListDirectoryResponse_toObject (ListDirectoryResponse_obj m) (Some opts) = ok (plain ps) \<and>
    ListDirectoryResponse_fromObject (plain ps) = ok (ListDirectoryResponse_obj m)"
  unfolding ListDirectoryResponse_toObject_def ListDirectoryResponse_writers_def ListDirectoryResponse_fromObject_def ListDirectoryResponse_setters_def ListDirectoryResponse_obj_def
  by (rule round_trip, simp,
      rule all_yield_Cons, rule all_yield_Cons, rule all_yield_Nil,
      (rule DirEntry_plain.sub.yields_list [where xs = "ListDirectoryResponse_entries m"]; simp add: assms [unfolded ListDirectoryResponse_good_def] ListDirectoryResponse_lookup plain_keys),
      (rule yields_array; simp add: assms [unfolded ListDirectoryResponse_good_def] ListDirectoryResponse_lookup plain_keys),
      rule DirEntry_plain.sub.build_list [where xs = "ListDirectoryResponse_entries m" and opts = opts],
      rule build.simps(1) [THEN trans])
    (simp_all add: assms [unfolded ListDirectoryResponse_good_def] ListDirectoryResponse_lookup plain_keys ListDirectoryResponse_props_def ListDirectoryResponse_init_def)

lemma ListDirectoryResponse_guarded: "ListDirectoryResponse_verify v = ok None \<Longrightarrow> all_plain v \<Longrightarrow> \<exists>m. ListDirectoryResponse_fromObject v = ok m"
  unfolding ListDirectoryResponse_verify_def ListDirectoryResponse_checks_def ListDirectoryResponse_fromObject_def ListDirectoryResponse_setters_def
  by (rule guards_object, rule guards_Cons, rule guards_Nil,
      (rule DirEntry_plain.sub.guard_list, simp),
      assumption, assumption) simp

interpretation ListDirectoryResponse_plain: message_plain ListDirectoryResponse_obj ListDirectoryResponse_verify ListDirectoryResponse_fromObject ListDirectoryResponse_toObject ListDirectoryResponse_good
  by unfold_locales
    (use ListDirectoryResponse_accepts ListDirectoryResponse_round ListDirectoryResponse_guarded in \<open>auto simp: ListDirectoryResponse_obj_def ListDirectoryResponse_verify_def dest: verified_object\<close>)

subsection \<open>StatFileRequest\<close>

definition StatFileRequest_construct :: "js \<Rightarrow> js res" where
  "StatFileRequest_construct = construct ''StatFileRequest'' [] None"

definition StatFileRequest_create :: "js \<Rightarrow> js res" where
  "StatFileRequest_create properties = StatFileRequest_construct properties"

definition StatFileRequest_checks :: "check list" where
  "StatFileRequest_checks =
     [v_field ''path'' v_string]"

definition StatFileRequest_verify :: "js \<Rightarrow> string option res" where
  "StatFileRequest_verify = verify_with StatFileRequest_checks"

definition StatFileRequest_setters :: "setter list" where
  "StatFileRequest_setters =
     [f_field ''path'' c_string]"

definition StatFileRequest_fromObject :: "js \<Rightarrow> js res" where
  "StatFileRequest_fromObject = from_object ''StatFileRequest'' [] StatFileRequest_setters"

definition StatFileRequest_writers :: "writer list" where
  "StatFileRequest_writers =
     [d_value ''path'' (String []),
      t_field ''path'' t_same]"

definition StatFileRequest_toObject :: "js \<Rightarrow> to_options option \<Rightarrow> js res" where
  "StatFileRequest_toObject = to_object StatFileRequest_writers"

definition StatFileRequest_toJSON :: "js \<Rightarrow> js res" where
  "StatFileRequest_toJSON message = StatFileRequest_toObject message (Some toJSONOptions)"

definition StatFileRequest_getTypeUrl :: "jstring option \<Rightarrow> jstring" where
  "StatFileRequest_getTypeUrl = type_url ''StatFileRequest''"

definition StatFileRequest_props :: "StatFileRequest \<Rightarrow> props" where
  "StatFileRequest_props m =
     opt_prop ''path'' String (StatFileRequest_path m)"

definition StatFileRequest_obj :: "StatFileRequest \<Rightarrow> js" where
  "StatFileRequest_obj m = Object ''StatFileRequest'' (StatFileRequest_props m)"

definition StatFileRequest_good :: "StatFileRequest \<Rightarrow> bool" where
  "StatFileRequest_good m \<longleftrightarrow> True"

lemma StatFileRequest_lookup:
  "lookup (StatFileRequest_props m) ''path'' = map_option String (StatFileRequest_path m)"
  "\<not> shadows (StatFileRequest_props m)"
  by (simp_all add: StatFileRequest_props_def shadows_def)

lemma StatFileRequest_accepts:
  assumes "StatFileRequest_good m"
  shows "StatFileRequest_verify (StatFileRequest_obj m) = ok None"
  unfolding StatFileRequest_verify_def StatFileRequest_checks_def StatFileRequest_obj_def
  by (rule runs_verify [where members = "[]"],
      rule string_plain.runs_opt [where x = "StatFileRequest_path m"],
      rule runs_Nil)
    (simp_all add: StatFileRequest_lookup assms [unfolded StatFileRequest_good_def] at_most_one.simps(1))

lemma StatFileRequest_round:
  assumes "StatFileRequest_good m" "\<not> to_defaults opts"
  shows "\<exists>ps. StatFileRequest_toObject (StatFileRequest_obj m) (Some opts) = ok (plain ps) \<and>
    StatFileRequest_fromObject (plain ps) = ok (StatFileRequest_obj m)"
  unfolding StatFileRequest_toObject_def StatFileRequest_writers_def StatFileRequest_fromObject_def StatFileRequest_setters_def StatFileRequest_obj_def
  by (rule round_trip, simp,
      rule all_yield_Cons, rule all_yield_Cons, rule all_yield_Nil,
      (rule string_plain.yields_opt [where x = "StatFileRequest_path m"]; simp add: assms [unfolded StatFileRequest_good_def] StatFileRequest_lookup plain_keys),
      (rule yields_default(1); simp add: assms [unfolded StatFileRequest_good_def] StatFileRequest_lookup plain_keys),
      rule string_plain.build_opt [where x = "StatFileRequest_path m" and opts = opts],
      rule build.simps(1) [THEN trans])
    (simp_all add: assms [unfolded StatFileRequest_good_def] StatFileRequest_lookup plain_keys StatFileRequest_props_def)

lemma StatFileRequest_guarded: "StatFileRequest_verify v = ok None \<Longrightarrow> all_plain v \<Longrightarrow> \<exists>m. StatFileRequest_fromObject v = ok m"
  unfolding StatFileRequest_verify_def StatFileRequest_checks_def StatFileRequest_fromObject_def StatFileRequest_setters_def
  by (rule guards_object, rule guards_Cons, rule guards_Nil,
      (rule string_plain.guard_opt(1), simp),
      assumption, assumption) simp

interpretation StatFileRequest_plain: message_plain StatFileRequest_obj StatFileRequest_verify StatFileRequest_fromObject StatFileRequest_toObject StatFileRequest_good
  by unfold_locales
    (use StatFileRequest_accepts StatFileRequest_round StatFileRequest_guarded in \<open>auto simp: StatFileRequest_obj_def StatFileRequest_verify_def dest: verified_object\<close>)

subsection \<open>FileStat\<close>

definition FileStat_construct :: "js \<Rightarrow> js res" where
  "FileStat_construct = construct ''FileStat'' [] None"

definition FileStat_create :: "js \<Rightarrow> js res" where
  "FileStat_create properties = FileStat_construct properties"

definition FileStat_checks :: "check list" where
  "FileStat_checks =
     [v_field ''sizeBytes'' v_long,
      v_field ''mtime'' v_long,
      v_field ''mode'' v_integer]"

definition FileStat_verify :: "js \<Rightarrow> string option res" where
  "FileStat_verify = verify_with FileStat_checks"

definition FileStat_setters :: "setter list" where
  "FileStat_setters =
     [f_opt ''sizeBytes'' (c_long False),
      f_opt ''mtime'' (c_long False),
      f_field ''mode'' c_uint32]"

definition FileStat_fromObject :: "js \<Rightarrow> js res" where
  "FileStat_fromObject = from_object ''FileStat'' [] FileStat_setters"

definition FileStat_writers :: "writer list" where
  "FileStat_writers =
     [d_long ''sizeBytes'',
      d_long ''mtime'',
      d_value ''mode'' (int_js 0),
      t_field ''sizeBytes'' (t_long False),
      t_field ''mtime'' (t_long False),
      t_field ''mode'' t_same]"

definition FileStat_toObject :: "js \<Rightarrow> to_options option \<Rightarrow> js res" where
  "FileStat_toObject = to_object FileStat_writers"

definition FileStat_toJSON :: "js \<Rightarrow> js res" where
  "FileStat_toJSON message = FileStat_toObject message (Some toJSONOptions)"

definition FileStat_getTypeUrl :: "jstring option \<Rightarrow> jstring" where
  "FileStat_getTypeUrl = type_url ''FileStat''"

definition FileStat_props :: "FileStat \<Rightarrow> props" where
  "FileStat_props m =
     opt_prop ''sizeBytes'' int_js (FileStat_sizeBytes m) @
     opt_prop ''mtime'' int_js (FileStat_mtime m) @
     opt_prop ''mode'' int_js (FileStat_mode m)"

definition FileStat_obj :: "FileStat \<Rightarrow> js" where
  "FileStat_obj m = Object ''FileStat'' (FileStat_props m)"

definition FileStat_good :: "FileStat \<Rightarrow> bool" where
  "FileStat_good m \<longleftrightarrow> opt_all int64_ok (FileStat_sizeBytes m) \<and>
     opt_all int64_ok (FileStat_mtime m) \<and>
     opt_all uint32_ok (FileStat_mode m)"

lemma FileStat_lookup:
  "lookup (FileStat_props m) ''sizeBytes'' = map_option int_js (FileStat_sizeBytes m)"
  "lookup (FileStat_props m) ''mtime'' = map_option int_js (FileStat_mtime m)"
  "lookup (FileStat_props m) ''mode'' = map_option int_js (FileStat_mode m)"
  "\<not> shadows (FileStat_props m)"
  by (simp_all add: FileStat_props_def shadows_def)

lemma FileStat_accepts:
  assumes "FileStat_good m"
  shows "FileStat_verify (FileStat_obj m) = ok None"
  unfolding FileStat_verify_def FileStat_checks_def FileStat_obj_def
  by (rule runs_verify [where members = "[]"],
      rule int64_plain.runs_opt [where x = "FileStat_sizeBytes m"],
      rule int64_plain.runs_opt [where x = "FileStat_mtime m"],
      rule uint32_plain.runs_opt [where x = "FileStat_mode m"],
      rule runs_Nil)
    (simp_all add: FileStat_lookup assms [unfolded FileStat_good_def] at_most_one.simps(1))

lemma FileStat_round:
  assumes "FileStat_good m" "\<not> to_defaults opts"
  shows "\<exists>ps. FileStat_toObject (FileStat_obj m) (Some opts) = ok (plain ps) \<and>
    FileStat_fromObject (plain ps) = ok (FileStat_obj m)"
  unfolding FileStat_toObject_def FileStat_writers_def FileStat_fromObject_def FileStat_setters_def FileStat_obj_def
  by (rule round_trip, simp,
      rule all_yield_Cons, rule all_yield_Cons, rule all_yield_Cons, rule all_yield_Cons,
      rule all_yield_Cons, rule all_yield_Cons, rule all_yield_Nil,
      (rule uint32_plain.yields_opt [where x = "FileStat_mode m"]; simp add: assms [unfolded FileStat_good_def] FileStat_lookup plain_keys),
      (rule int64_plain.yields_opt [where x = "FileStat_mtime m"]; simp add: assms [unfolded FileStat_good_def] FileStat_lookup plain_keys),
      (rule int64_plain.yields_opt [where x = "FileStat_sizeBytes m"]; simp add: assms [unfolded FileStat_good_def] FileStat_lookup plain_keys),
      (rule yields_default(1); simp add: assms [unfolded FileStat_good_def] FileStat_lookup plain_keys),
      (rule yields_default(2); simp add: assms [unfolded FileStat_good_def] FileStat_lookup plain_keys),
      (rule yields_default(2); simp add: assms [unfolded FileStat_good_def] FileStat_lookup plain_keys),
      rule int64_plain.build_opt [where x = "FileStat_sizeBytes m" and opts = opts],
      rule int64_plain.build_opt [where x = "FileStat_mtime m" and opts = opts],
      rule uint32_plain.build_opt [where x = "FileStat_mode m" and opts = opts],
      rule build.simps(1) [THEN trans])
    (simp_all add: assms [unfolded FileStat_good_def] FileStat_lookup plain_keys FileStat_props_def)

lemma FileStat_guarded: "FileStat_verify v = ok None \<Longrightarrow> all_plain v \<Longrightarrow> \<exists>m. FileStat_fromObject v = ok m"
  unfolding FileStat_verify_def FileStat_checks_def FileStat_fromObject_def FileStat_setters_def
  by (rule guards_object, rule guards_Cons, rule guards_Cons, rule guards_Cons, rule guards_Nil,
      (rule uint32_plain.guard_opt(1), simp),
      (rule int64_plain.guard_opt(1), simp),
      (rule int64_plain.guard_opt(1), simp),
      assumption, assumption) simp

interpretation FileStat_plain: message_plain FileStat_obj FileStat_verify FileStat_fromObject FileStat_toObject FileStat_good
  by unfold_locales
    (use FileStat_accepts FileStat_round FileStat_guarded in \<open>auto simp: FileStat_obj_def FileStat_verify_def dest: verified_object\<close>)

subsection \<open>StatFileResponse\<close>

definition StatFileResponse_construct :: "js \<Rightarrow> js res" where
  "StatFileResponse_construct = construct ''StatFileResponse'' [] None"

definition StatFileResponse_create :: "js \<Rightarrow> js res" where
  "StatFileResponse_create properties = StatFileResponse_construct properties"

definition StatFileResponse_checks :: "check list" where
  "StatFileResponse_checks =
     [v_field ''stat'' (v_message FileStat_verify)]"

definition StatFileResponse_verify :: "js \<Rightarrow> string option res" where
  "StatFileResponse_verify = verify_with StatFileResponse_checks"

definition StatFileResponse_setters :: "setter list" where
  "StatFileResponse_setters =
     [f_field ''stat'' (c_message ''StatFileResponse'' ''stat'' FileStat_fromObject)]"

definition StatFileResponse_fromObject :: "js \<Rightarrow> js res" where
  "StatFileResponse_fromObject = from_object ''StatFileResponse'' [] StatFileResponse_setters"

definition StatFileResponse_writers :: "writer list" where
  "StatFileResponse_writers =
     [d_value ''stat'' Null,
      t_field ''stat'' (t_message FileStat_toObject)]"

definition StatFileResponse_toObject :: "js \<Rightarrow> to_options option \<Rightarrow> js res" where
  "StatFileResponse_toObject = to_object StatFileResponse_writers"

definition StatFileResponse_toJSON :: "js \<Rightarrow> js res" where
  "StatFileResponse_toJSON message = StatFileResponse_toObject message (Some toJSONOptions)"

definition StatFileResponse_getTypeUrl :: "jstring option \<Rightarrow> jstring" where
  "StatFileResponse_getTypeUrl = type_url ''StatFileResponse''"

definition StatFileResponse_props :: "StatFileResponse \<Rightarrow> props" where
  "StatFileResponse_props m =
     opt_prop ''stat'' FileStat_obj (StatFileResponse_stat m)"

definition StatFileResponse_obj :: "StatFileResponse \<Rightarrow> js" where
  "StatFileResponse_obj m = Object ''StatFileResponse'' (StatFileResponse_props m)"

definition StatFileResponse_good :: "StatFileResponse \<Rightarrow> bool" where
  "StatFileResponse_good m \<longleftrightarrow> opt_all FileStat_good (StatFileResponse_stat m)"

lemma StatFileResponse_lookup:
  "lookup (StatFileResponse_props m) ''stat'' = map_option FileStat_obj (StatFileResponse_stat m)"
  "\<not> shadows (StatFileResponse_props m)"
  by (simp_all add: StatFileResponse_props_def shadows_def)

lemma StatFileResponse_accepts:
  assumes "StatFileResponse_good m"
  shows "StatFileResponse_verify (StatFileResponse_obj m) = ok None"
  unfolding StatFileResponse_verify_def StatFileResponse_checks_def StatFileResponse_obj_def
  by (rule runs_verify [where members = "[]"],
      rule FileStat_plain.sub.runs_opt [where x = "StatFileResponse_stat m"],
      rule runs_Nil)
    (simp_all add: StatFileResponse_lookup assms [unfolded StatFileResponse_good_def] at_most_one.simps(1))

lemma StatFileResponse_round:
  assumes "StatFileResponse_good m" "\<not> to_defaults opts"
  shows "\<exists>ps. StatFileResponse_toObject (StatFileResponse_obj m) (Some opts) = ok (plain ps) \<and>
    StatFileResponse_fromObject (plain ps) = ok (StatFileResponse_obj m)"
  unfolding StatFileResponse_toObject_def StatFileResponse_writers_def StatFileResponse_fromObject_def StatFileResponse_setters_def StatFileResponse_obj_def
  by (rule round_trip, simp,
      rule all_yield_Cons, rule all_yield_Cons, rule all_yield_Nil,
      (rule FileStat_plain.sub.yields_opt [where x = "StatFileResponse_stat m"]; simp add: assms [unfolded StatFileResponse_good_def] StatFileResponse_lookup plain_keys),
      (rule yields_default(1); simp add: assms [unfolded StatFileResponse_good_def] StatFileResponse_lookup plain_keys),
      rule FileStat_plain.sub.build_opt [where x = "StatFileResponse_stat m" and opts = opts],
      rule build.simps(1) [THEN trans])
    (simp_all add: assms [unfolded StatFileResponse_good_def] StatFileResponse_lookup plain_keys StatFileResponse_props_def)

lemma StatFileResponse_guarded: "StatFileResponse_verify v = ok None \<Longrightarrow> all_plain v \<Longrightarrow> \<exists>m. StatFileResponse_fromObject v = ok m"
  unfolding StatFileResponse_verify_def StatFileResponse_checks_def StatFileResponse_fromObject_def StatFileResponse_setters_def
  by (rule guards_object, rule guards_Cons, rule guards_Nil,
      (rule FileStat_plain.sub.guard_opt(1), simp),
      assumption, assumption) simp

interpretation StatFileResponse_plain: message_plain StatFileResponse_obj StatFileResponse_verify StatFileResponse_fromObject StatFileResponse_toObject StatFileResponse_good
  by unfold_locales
    (use StatFileResponse_accepts StatFileResponse_round StatFileResponse_guarded in \<open>auto simp: StatFileResponse_obj_def StatFileResponse_verify_def dest: verified_object\<close>)

subsection \<open>RenameFileRequest\<close>

definition RenameFileRequest_construct :: "js \<Rightarrow> js res" where
  "RenameFileRequest_construct = construct ''RenameFileRequest'' [] None"

definition RenameFileRequest_create :: "js \<Rightarrow> js res" where
  "RenameFileRequest_create properties = RenameFileRequest_construct properties"

definition RenameFileRequest_checks :: "check list" where
  "RenameFileRequest_checks =
     [v_field ''path'' v_string,
      v_field ''newName'' v_string]"

definition RenameFileRequest_verify :: "js \<Rightarrow> string option res" where
  "RenameFileRequest_verify = verify_with RenameFileRequest_checks"

definition RenameFileRequest_setters :: "setter list" where
  "RenameFileRequest_setters =
     [f_field ''path'' c_string,
      f_field ''newName'' c_string]"

definition RenameFileRequest_fromObject :: "js \<Rightarrow> js res" where
  "RenameFileRequest_fromObject = from_object ''RenameFileRequest'' [] RenameFileRequest_setters"

definition RenameFileRequest_writers :: "writer list" where
  "RenameFileRequest_writers =
     [d_value ''path'' (String []),
      d_value ''newName'' (String []),
      t_field ''path'' t_same,
      t_field ''newName'' t_same]"

definition RenameFileRequest_toObject :: "js \<Rightarrow> to_options option \<Rightarrow> js res" where
  "RenameFileRequest_toObject = to_object RenameFileRequest_writers"

definition RenameFileRequest_toJSON :: "js \<Rightarrow> js res" where
  "RenameFileRequest_toJSON message = RenameFileRequest_toObject message (Some toJSONOptions)"

definition RenameFileRequest_getTypeUrl :: "jstring option \<Rightarrow> jstring" where
  "RenameFileRequest_getTypeUrl = type_url ''RenameFileRequest''"

definition RenameFileRequest_props :: "RenameFileRequest \<Rightarrow> props" where
  "RenameFileRequest_props m =
     opt_prop ''path'' String (RenameFileRequest_path m) @
     opt_prop ''newName'' String (RenameFileRequest_newName m)"

definition RenameFileRequest_obj :: "RenameFileRequest \<Rightarrow> js" where
  "RenameFileRequest_obj m = Object ''RenameFileRequest'' (RenameFileRequest_props m)"

definition RenameFileRequest_good :: "RenameFileRequest \<Rightarrow> bool" where
  "RenameFileRequest_good m \<longleftrightarrow> True"

lemma RenameFileRequest_lookup:
  "lookup (RenameFileRequest_props m) ''path'' = map_option String (RenameFileRequest_path m)"
  "lookup (RenameFileRequest_props m) ''newName'' = map_option String (RenameFileRequest_newName m)"
  "\<not> shadows (RenameFileRequest_props m)"
  by (simp_all add: RenameFileRequest_props_def shadows_def)

lemma RenameFileRequest_accepts:
  assumes "RenameFileRequest_good m"
  shows "RenameFileRequest_verify (RenameFileRequest_obj m) = ok None"
  unfolding RenameFileRequest_verify_def RenameFileRequest_checks_def RenameFileRequest_obj_def
  by (rule runs_verify [where members = "[]"],
      rule string_plain.runs_opt [where x = "RenameFileRequest_path m"],
      rule string_plain.runs_opt [where x = "RenameFileRequest_newName m"],
      rule runs_Nil)
    (simp_all add: RenameFileRequest_lookup assms [unfolded RenameFileRequest_good_def] at_most_one.simps(1))

lemma RenameFileRequest_round:
  assumes "RenameFileRequest_good m" "\<not> to_defaults opts"
  shows "\<exists>ps. RenameFileRequest_toObject (RenameFileRequest_obj m) (Some opts) = ok (plain ps) \<and>
    RenameFileRequest_fromObject (plain ps) = ok (RenameFileRequest_obj m)"
  unfolding RenameFileRequest_toObject_def RenameFileRequest_writers_def RenameFileRequest_fromObject_def RenameFileRequest_setters_def RenameFileRequest_obj_def
  by (rule round_trip, simp,
      rule all_yield_Cons, rule all_yield_Cons, rule all_yield_Cons, rule all_yield_Cons,
      rule all_yield_Nil,
      (rule string_plain.yields_opt [where x = "RenameFileRequest_newName m"]; simp add: assms [unfolded RenameFileRequest_good_def] RenameFileRequest_lookup plain_keys),
      (rule string_plain.yields_opt [where x = "RenameFileRequest_path m"]; simp add: assms [unfolded RenameFileRequest_good_def] RenameFileRequest_lookup plain_keys),
      (rule yields_default(1); simp add: assms [unfolded RenameFileRequest_good_def] RenameFileRequest_lookup plain_keys),
      (rule yields_default(1); simp add: assms [unfolded RenameFileRequest_good_def] RenameFileRequest_lookup plain_keys),
      rule string_plain.build_opt [where x = "RenameFileRequest_path m" and opts = opts],
      rule string_plain.build_opt [where x = "RenameFileRequest_newName m" and opts = opts],
      rule build.simps(1) [THEN trans])
    (simp_all add: assms [unfolded RenameFileRequest_good_def] RenameFileRequest_lookup plain_keys RenameFileRequest_props_def)

lemma RenameFileRequest_guarded: "RenameFileRequest_verify v = ok None \<Longrightarrow> all_plain v \<Longrightarrow> \<exists>m. RenameFileRequest_fromObject v = ok m"
  unfolding RenameFileRequest_verify_def RenameFileRequest_checks_def RenameFileRequest_fromObject_def RenameFileRequest_setters_def
  by (rule guards_object, rule guards_Cons, rule guards_Cons, rule guards_Nil,
      (rule string_plain.guard_opt(1), simp),
      (rule string_plain.guard_opt(1), simp),
      assumption, assumption) simp

interpretation RenameFileRequest_plain: message_plain RenameFileRequest_obj RenameFileRequest_verify RenameFileRequest_fromObject RenameFileRequest_toObject RenameFileRequest_good
  by unfold_locales
    (use RenameFileRequest_accepts RenameFileRequest_round RenameFileRequest_guarded in \<open>auto simp: RenameFileRequest_obj_def RenameFileRequest_verify_def dest: verified_object\<close>)

subsection \<open>RenameFileResponse\<close>

definition RenameFileResponse_construct :: "js \<Rightarrow> js res" where
  "RenameFileResponse_construct = construct ''RenameFileResponse'' [] None"

definition RenameFileResponse_create :: "js \<Rightarrow> js res" where
  "RenameFileResponse_create properties = RenameFileResponse_construct properties"

definition RenameFileResponse_checks :: "check list" where
  "RenameFileResponse_checks =
     [v_field ''newPath'' v_string]"

definition RenameFileResponse_verify :: "js \<Rightarrow> string option res" where
  "RenameFileResponse_verify = verify_with RenameFileResponse_checks"

definition RenameFileResponse_setters :: "setter list" where
  "RenameFileResponse_setters =
     [f_field ''newPath'' c_string]"

definition RenameFileResponse_fromObject :: "js \<Rightarrow> js res" where
  "RenameFileResponse_fromObject = from_object ''RenameFileResponse'' [] RenameFileResponse_setters"

definition RenameFileResponse_writers :: "writer list" where
  "RenameFileResponse_writers =
     [d_value ''newPath'' (String []),
      t_field ''newPath'' t_same]"

definition RenameFileResponse_toObject :: "js \<Rightarrow> to_options option \<Rightarrow> js res" where
  "RenameFileResponse_toObject = to_object RenameFileResponse_writers"

definition RenameFileResponse_toJSON :: "js \<Rightarrow> js res" where
  "RenameFileResponse_toJSON message = RenameFileResponse_toObject message (Some toJSONOptions)"

definition RenameFileResponse_getTypeUrl :: "jstring option \<Rightarrow> jstring" where
  "RenameFileResponse_getTypeUrl = type_url ''RenameFileResponse''"

definition RenameFileResponse_props :: "RenameFileResponse \<Rightarrow> props" where
  "RenameFileResponse_props m =
     opt_prop ''newPath'' String (RenameFileResponse_newPath m)"

definition RenameFileResponse_obj :: "RenameFileResponse \<Rightarrow> js" where
  "RenameFileResponse_obj m = Object ''RenameFileResponse'' (RenameFileResponse_props m)"

definition RenameFileResponse_good :: "RenameFileResponse \<Rightarrow> bool" where
  "RenameFileResponse_good m \<longleftrightarrow> True"

lemma RenameFileResponse_lookup:
  "lookup (RenameFileResponse_props m) ''newPath'' = map_option String (RenameFileResponse_newPath m)"
  "\<not> shadows (RenameFileResponse_props m)"
  by (simp_all add: RenameFileResponse_props_def shadows_def)

lemma RenameFileResponse_accepts:
  assumes "RenameFileResponse_good m"
  shows "RenameFileResponse_verify (RenameFileResponse_obj m) = ok None"
  unfolding RenameFileResponse_verify_def RenameFileResponse_checks_def RenameFileResponse_obj_def
  by (rule runs_verify [where members = "[]"],
      rule string_plain.runs_opt [where x = "RenameFileResponse_newPath m"],
      rule runs_Nil)
    (simp_all add: RenameFileResponse_lookup assms [unfolded RenameFileResponse_good_def] at_most_one.simps(1))

lemma RenameFileResponse_round:
  assumes "RenameFileResponse_good m" "\<not> to_defaults opts"
  shows "\<exists>ps. RenameFileResponse_toObject (RenameFileResponse_obj m) (Some opts) = ok (plain ps) \<and>
    RenameFileResponse_fromObject (plain ps) = ok (RenameFileResponse_obj m)"
  unfolding RenameFileResponse_toObject_def RenameFileResponse_writers_def RenameFileResponse_fromObject_def RenameFileResponse_setters_def RenameFileResponse_obj_def
  by (rule round_trip, simp,
      rule all_yield_Cons, rule all_yield_Cons, rule all_yield_Nil,
      (rule string_plain.yields_opt [where x = "RenameFileResponse_newPath m"]; simp add: assms [unfolded RenameFileResponse_good_def] RenameFileResponse_lookup plain_keys),
      (rule yields_default(1); simp add: assms [unfolded RenameFileResponse_good_def] RenameFileResponse_lookup plain_keys),
      rule string_plain.build_opt [where x = "RenameFileResponse_newPath m" and opts = opts],
      rule build.simps(1) [THEN trans])
    (simp_all add: assms [unfolded RenameFileResponse_good_def] RenameFileResponse_lookup plain_keys RenameFileResponse_props_def)

lemma RenameFileResponse_guarded: "RenameFileResponse_verify v = ok None \<Longrightarrow> all_plain v \<Longrightarrow> \<exists>m. RenameFileResponse_fromObject v = ok m"
  unfolding RenameFileResponse_verify_def RenameFileResponse_checks_def RenameFileResponse_fromObject_def RenameFileResponse_setters_def
  by (rule guards_object, rule guards_Cons, rule guards_Nil,
      (rule string_plain.guard_opt(1), simp),
      assumption, assumption) simp

interpretation RenameFileResponse_plain: message_plain RenameFileResponse_obj RenameFileResponse_verify RenameFileResponse_fromObject RenameFileResponse_toObject RenameFileResponse_good
  by unfold_locales
    (use RenameFileResponse_accepts RenameFileResponse_round RenameFileResponse_guarded in \<open>auto simp: RenameFileResponse_obj_def RenameFileResponse_verify_def dest: verified_object\<close>)

subsection \<open>DeleteFileRequest\<close>

definition DeleteFileRequest_construct :: "js \<Rightarrow> js res" where
  "DeleteFileRequest_construct = construct ''DeleteFileRequest'' [] None"

definition DeleteFileRequest_create :: "js \<Rightarrow> js res" where
  "DeleteFileRequest_create properties = DeleteFileRequest_construct properties"

definition DeleteFileRequest_checks :: "check list" where
  "DeleteFileRequest_checks =
     [v_field ''path'' v_string]"

definition DeleteFileRequest_verify :: "js \<Rightarrow> string option res" where
  "DeleteFileRequest_verify = verify_with DeleteFileRequest_checks"

definition DeleteFileRequest_setters :: "setter list" where
  "DeleteFileRequest_setters =
     [f_field ''path'' c_string]"

definition DeleteFileRequest_fromObject :: "js \<Rightarrow> js res" where
  "DeleteFileRequest_fromObject = from_object ''DeleteFileRequest'' [] DeleteFileRequest_setters"

definition DeleteFileRequest_writers :: "writer list" where
  "DeleteFileRequest_writers =
     [d_value ''path'' (String []),
      t_field ''path'' t_same]"

definition DeleteFileRequest_toObject :: "js \<Rightarrow> to_options option \<Rightarrow> js res" where
  "DeleteFileRequest_toObject = to_object DeleteFileRequest_writers"

definition DeleteFileRequest_toJSON :: "js \<Rightarrow> js res" where
  "DeleteFileRequest_toJSON message = DeleteFileRequest_toObject message (Some toJSONOptions)"

definition DeleteFileRequest_getTypeUrl :: "jstring option \<Rightarrow> jstring" where
  "DeleteFileRequest_getTypeUrl = type_url ''DeleteFileRequest''"

definition DeleteFileRequest_props :: "DeleteFileRequest \<Rightarrow> props" where
  "DeleteFileRequest_props m =
     opt_prop ''path'' String (DeleteFileRequest_path m)"

definition DeleteFileRequest_obj :: "DeleteFileRequest \<Rightarrow> js" where
  "DeleteFileRequest_obj m = Object ''DeleteFileRequest'' (DeleteFileRequest_props m)"

definition DeleteFileRequest_good :: "DeleteFileRequest \<Rightarrow> bool" where
  "DeleteFileRequest_good m \<longleftrightarrow> True"

lemma DeleteFileRequest_lookup:
  "lookup (DeleteFileRequest_props m) ''path'' = map_option String (DeleteFileRequest_path m)"
  "\<not> shadows (DeleteFileRequest_props m)"
  by (simp_all add: DeleteFileRequest_props_def shadows_def)

lemma DeleteFileRequest_accepts:
  assumes "DeleteFileRequest_good m"
  shows "DeleteFileRequest_verify (DeleteFileRequest_obj m) = ok None"
  unfolding DeleteFileRequest_verify_def DeleteFileRequest_checks_def DeleteFileRequest_obj_def
  by (rule runs_verify [where members = "[]"],
      rule string_plain.runs_opt [where x = "DeleteFileRequest_path m"],
      rule runs_Nil)
    (simp_all add: DeleteFileRequest_lookup assms [unfolded DeleteFileRequest_good_def] at_most_one.simps(1))

lemma DeleteFileRequest_round:
  assumes "DeleteFileRequest_good m" "\<not> to_defaults opts"
  shows "\<exists>ps. DeleteFileRequest_toObject (DeleteFileRequest_obj m) (Some opts) = ok (plain ps) \<and>
    DeleteFileRequest_fromObject (plain ps) = ok (DeleteFileRequest_obj m)"
  unfolding DeleteFileRequest_toObject_def DeleteFileRequest_writers_def DeleteFileRequest_fromObject_def DeleteFileRequest_setters_def DeleteFileRequest_obj_def
  by (rule round_trip, simp,
      rule all_yield_Cons, rule all_yield_Cons, rule all_yield_Nil,
      (rule string_plain.yields_opt [where x = "DeleteFileRequest_path m"]; simp add: assms [unfolded DeleteFileRequest_good_def] DeleteFileRequest_lookup plain_keys),
      (rule yields_default(1); simp add: assms [unfolded DeleteFileRequest_good_def] DeleteFileRequest_lookup plain_keys),
      rule string_plain.build_opt [where x = "DeleteFileRequest_path m" and opts = opts],
      rule build.simps(1) [THEN trans])
    (simp_all add: assms [unfolded DeleteFileRequest_good_def] DeleteFileRequest_lookup plain_keys DeleteFileRequest_props_def)

lemma DeleteFileRequest_guarded: "DeleteFileRequest_verify v = ok None \<Longrightarrow> all_plain v \<Longrightarrow> \<exists>m. DeleteFileRequest_fromObject v = ok m"
  unfolding DeleteFileRequest_verify_def DeleteFileRequest_checks_def DeleteFileRequest_fromObject_def DeleteFileRequest_setters_def
  by (rule guards_object, rule guards_Cons, rule guards_Nil,
      (rule string_plain.guard_opt(1), simp),
      assumption, assumption) simp

interpretation DeleteFileRequest_plain: message_plain DeleteFileRequest_obj DeleteFileRequest_verify DeleteFileRequest_fromObject DeleteFileRequest_toObject DeleteFileRequest_good
  by unfold_locales
    (use DeleteFileRequest_accepts DeleteFileRequest_round DeleteFileRequest_guarded in \<open>auto simp: DeleteFileRequest_obj_def DeleteFileRequest_verify_def dest: verified_object\<close>)

subsection \<open>DeleteFileResponse\<close>

definition DeleteFileResponse_construct :: "js \<Rightarrow> js res" where
  "DeleteFileResponse_construct = construct ''DeleteFileResponse'' [] None"

definition DeleteFileResponse_create :: "js \<Rightarrow> js res" where
  "DeleteFileResponse_create properties = DeleteFileResponse_construct properties"

definition DeleteFileResponse_verify :: "js \<Rightarrow> string option res" where
  "DeleteFileResponse_verify = verify_with []"

definition DeleteFileResponse_fromObject :: "js \<Rightarrow> js res" where
  "DeleteFileResponse_fromObject = from_object ''DeleteFileResponse'' [] []"

definition DeleteFileResponse_toObject :: "js \<Rightarrow> to_options option \<Rightarrow> js res" where
  "DeleteFileResponse_toObject = to_object []"

definition DeleteFileResponse_toJSON :: "js \<Rightarrow> js res" where
  "DeleteFileResponse_toJSON message = DeleteFileResponse_toObject message (Some toJSONOptions)"

definition DeleteFileResponse_getTypeUrl :: "jstring option \<Rightarrow> jstring" where
  "DeleteFileResponse_getTypeUrl = type_url ''DeleteFileResponse''"

definition DeleteFileResponse_props :: "DeleteFileResponse \<Rightarrow> props" where
  "DeleteFileResponse_props m =
     []"

definition DeleteFileResponse_obj :: "DeleteFileResponse \<Rightarrow> js" where
  "DeleteFileResponse_obj m = Object ''DeleteFileResponse'' (DeleteFileResponse_props m)"

definition DeleteFileResponse_good :: "DeleteFileResponse \<Rightarrow> bool" where
  "DeleteFileResponse_good m \<longleftrightarrow> True"

lemma DeleteFileResponse_lookup:
  "\<not> shadows (DeleteFileResponse_props m)"
  by (simp_all add: DeleteFileResponse_props_def shadows_def)

lemma DeleteFileResponse_accepts:
  assumes "DeleteFileResponse_good m"
  shows "DeleteFileResponse_verify (DeleteFileResponse_obj m) = ok None"
  unfolding DeleteFileResponse_verify_def DeleteFileResponse_obj_def
  by (rule runs_verify [where members = "[]"],
      rule runs_Nil)
    (simp_all add: DeleteFileResponse_lookup assms [unfolded DeleteFileResponse_good_def] at_most_one.simps(1))

lemma DeleteFileResponse_round:
  assumes "DeleteFileResponse_good m" "\<not> to_defaults opts"
  shows "\<exists>ps. DeleteFileResponse_toObject (DeleteFileResponse_obj m) (Some opts) = ok (plain ps) \<and>
    DeleteFileResponse_fromObject (plain ps) = ok (DeleteFileResponse_obj m)"
  unfolding DeleteFileResponse_toObject_def DeleteFileResponse_fromObject_def DeleteFileResponse_obj_def
  by (rule round_trip, simp,
      rule all_yield_Nil,
      rule build.simps(1) [THEN trans])
    (simp_all add: assms [unfolded DeleteFileResponse_good_def] DeleteFileResponse_lookup plain_keys DeleteFileResponse_props_def)

lemma DeleteFileResponse_guarded: "DeleteFileResponse_verify v = ok None \<Longrightarrow> all_plain v \<Longrightarrow> \<exists>m. DeleteFileResponse_fromObject v = ok m"
  unfolding DeleteFileResponse_verify_def DeleteFileResponse_fromObject_def
  by (rule guards_object, rule guards_Nil,
      assumption, assumption) simp

interpretation DeleteFileResponse_plain: message_plain DeleteFileResponse_obj DeleteFileResponse_verify DeleteFileResponse_fromObject DeleteFileResponse_toObject DeleteFileResponse_good
  by unfold_locales
    (use DeleteFileResponse_accepts DeleteFileResponse_round DeleteFileResponse_guarded in \<open>auto simp: DeleteFileResponse_obj_def DeleteFileResponse_verify_def dest: verified_object\<close>)

subsection \<open>ChmodFileRequest\<close>

definition ChmodFileRequest_construct :: "js \<Rightarrow> js res" where
  "ChmodFileRequest_construct = construct ''ChmodFileRequest'' [] None"

definition ChmodFileRequest_create :: "js \<Rightarrow> js res" where
  "ChmodFileRequest_create properties = ChmodFileRequest_construct properties"

definition ChmodFileRequest_checks :: "check list" where
  "ChmodFileRequest_checks =
     [v_field ''path'' v_string,
      v_field ''mode'' v_integer]"

definition ChmodFileRequest_verify :: "js \<Rightarrow> string option res" where
  "ChmodFileRequest_verify = verify_with ChmodFileRequest_checks"

definition ChmodFileRequest_setters :: "setter list" where
  "ChmodFileRequest_setters =
     [f_field ''path'' c_string,
      f_field ''mode'' c_uint32]"

definition ChmodFileRequest_fromObject :: "js \<Rightarrow> js res" where
  "ChmodFileRequest_fromObject = from_object ''ChmodFileRequest'' [] ChmodFileRequest_setters"

definition ChmodFileRequest_writers :: "writer list" where
  "ChmodFileRequest_writers =
     [d_value ''path'' (String []),
      d_value ''mode'' (int_js 0),
      t_field ''path'' t_same,
      t_field ''mode'' t_same]"

definition ChmodFileRequest_toObject :: "js \<Rightarrow> to_options option \<Rightarrow> js res" where
  "ChmodFileRequest_toObject = to_object ChmodFileRequest_writers"

definition ChmodFileRequest_toJSON :: "js \<Rightarrow> js res" where
  "ChmodFileRequest_toJSON message = ChmodFileRequest_toObject message (Some toJSONOptions)"

definition ChmodFileRequest_getTypeUrl :: "jstring option \<Rightarrow> jstring" where
  "ChmodFileRequest_getTypeUrl = type_url ''ChmodFileRequest''"

definition ChmodFileRequest_props :: "ChmodFileRequest \<Rightarrow> props" where
  "ChmodFileRequest_props m =
     opt_prop ''path'' String (ChmodFileRequest_path m) @
     opt_prop ''mode'' int_js (ChmodFileRequest_mode m)"

definition ChmodFileRequest_obj :: "ChmodFileRequest \<Rightarrow> js" where
  "ChmodFileRequest_obj m = Object ''ChmodFileRequest'' (ChmodFileRequest_props m)"

definition ChmodFileRequest_good :: "ChmodFileRequest \<Rightarrow> bool" where
  "ChmodFileRequest_good m \<longleftrightarrow> opt_all uint32_ok (ChmodFileRequest_mode m)"

lemma ChmodFileRequest_lookup:
  "lookup (ChmodFileRequest_props m) ''path'' = map_option String (ChmodFileRequest_path m)"
  "lookup (ChmodFileRequest_props m) ''mode'' = map_option int_js (ChmodFileRequest_mode m)"
  "\<not> shadows (ChmodFileRequest_props m)"
  by (simp_all add: ChmodFileRequest_props_def shadows_def)

lemma ChmodFileRequest_accepts:
  assumes "ChmodFileRequest_good m"
  shows "ChmodFileRequest_verify (ChmodFileRequest_obj m) = ok None"
  unfolding ChmodFileRequest_verify_def ChmodFileRequest_checks_def ChmodFileRequest_obj_def
  by (rule runs_verify [where members = "[]"],
      rule string_plain.runs_opt [where x = "ChmodFileRequest_path m"],
      rule uint32_plain.runs_opt [where x = "ChmodFileRequest_mode m"],
      rule runs_Nil)
    (simp_all add: ChmodFileRequest_lookup assms [unfolded ChmodFileRequest_good_def] at_most_one.simps(1))

lemma ChmodFileRequest_round:
  assumes "ChmodFileRequest_good m" "\<not> to_defaults opts"
  shows "\<exists>ps. ChmodFileRequest_toObject (ChmodFileRequest_obj m) (Some opts) = ok (plain ps) \<and>
    ChmodFileRequest_fromObject (plain ps) = ok (ChmodFileRequest_obj m)"
  unfolding ChmodFileRequest_toObject_def ChmodFileRequest_writers_def ChmodFileRequest_fromObject_def ChmodFileRequest_setters_def ChmodFileRequest_obj_def
  by (rule round_trip, simp,
      rule all_yield_Cons, rule all_yield_Cons, rule all_yield_Cons, rule all_yield_Cons,
      rule all_yield_Nil,
      (rule uint32_plain.yields_opt [where x = "ChmodFileRequest_mode m"]; simp add: assms [unfolded ChmodFileRequest_good_def] ChmodFileRequest_lookup plain_keys),
      (rule string_plain.yields_opt [where x = "ChmodFileRequest_path m"]; simp add: assms [unfolded ChmodFileRequest_good_def] ChmodFileRequest_lookup plain_keys),
      (rule yields_default(1); simp add: assms [unfolded ChmodFileRequest_good_def] ChmodFileRequest_lookup plain_keys),
      (rule yields_default(1); simp add: assms [unfolded ChmodFileRequest_good_def] ChmodFileRequest_lookup plain_keys),
      rule string_plain.build_opt [where x = "ChmodFileRequest_path m" and opts = opts],
      rule uint32_plain.build_opt [where x = "ChmodFileRequest_mode m" and opts = opts],
      rule build.simps(1) [THEN trans])
    (simp_all add: assms [unfolded ChmodFileRequest_good_def] ChmodFileRequest_lookup plain_keys ChmodFileRequest_props_def)

lemma ChmodFileRequest_guarded: "ChmodFileRequest_verify v = ok None \<Longrightarrow> all_plain v \<Longrightarrow> \<exists>m. ChmodFileRequest_fromObject v = ok m"
  unfolding ChmodFileRequest_verify_def ChmodFileRequest_checks_def ChmodFileRequest_fromObject_def ChmodFileRequest_setters_def
  by (rule guards_object, rule guards_Cons, rule guards_Cons, rule guards_Nil,
      (rule uint32_plain.guard_opt(1), simp),
      (rule string_plain.guard_opt(1), simp),
      assumption, assumption) simp

interpretation ChmodFileRequest_plain: message_plain ChmodFileRequest_obj ChmodFileRequest_verify ChmodFileRequest_fromObject ChmodFileRequest_toObject ChmodFileRequest_good
  by unfold_locales
    (use ChmodFileRequest_accepts ChmodFileRequest_round ChmodFileRequest_guarded in \<open>auto simp: ChmodFileRequest_obj_def ChmodFileRequest_verify_def dest: verified_object\<close>)

subsection \<open>ChmodFileResponse\<close>

definition ChmodFileResponse_construct :: "js \<Rightarrow> js res" where
  "ChmodFileResponse_construct = construct ''ChmodFileResponse'' [] None"

definition ChmodFileResponse_create :: "js \<Rightarrow> js res" where
  "ChmodFileResponse_create properties = ChmodFileResponse_construct properties"

definition ChmodFileResponse_verify :: "js \<Rightarrow> string option res" where
  "ChmodFileResponse_verify = verify_with []"

definition ChmodFileResponse_fromObject :: "js \<Rightarrow> js res" where
  "ChmodFileResponse_fromObject = from_object ''ChmodFileResponse'' [] []"

definition ChmodFileResponse_toObject :: "js \<Rightarrow> to_options option \<Rightarrow> js res" where
  "ChmodFileResponse_toObject = to_object []"

definition ChmodFileResponse_toJSON :: "js \<Rightarrow> js res" where
  "ChmodFileResponse_toJSON message = ChmodFileResponse_toObject message (Some toJSONOptions)"

definition ChmodFileResponse_getTypeUrl :: "jstring option \<Rightarrow> jstring" where
  "ChmodFileResponse_getTypeUrl = type_url ''ChmodFileResponse''"

definition ChmodFileResponse_props :: "ChmodFileResponse \<Rightarrow> props" where
  "ChmodFileResponse_props m =
     []"

definition ChmodFileResponse_obj :: "ChmodFileResponse \<Rightarrow> js" where
  "ChmodFileResponse_obj m = Object ''ChmodFileResponse'' (ChmodFileResponse_props m)"

definition ChmodFileResponse_good :: "ChmodFileResponse \<Rightarrow> bool" where
  "ChmodFileResponse_good m \<longleftrightarrow> True"

lemma ChmodFileResponse_lookup:
  "\<not> shadows (ChmodFileResponse_props m)"
  by (simp_all add: ChmodFileResponse_props_def shadows_def)

lemma ChmodFileResponse_accepts:
  assumes "ChmodFileResponse_good m"
  shows "ChmodFileResponse_verify (ChmodFileResponse_obj m) = ok None"
  unfolding ChmodFileResponse_verify_def ChmodFileResponse_obj_def
  by (rule runs_verify [where members = "[]"],
      rule runs_Nil)
    (simp_all add: ChmodFileResponse_lookup assms [unfolded ChmodFileResponse_good_def] at_most_one.simps(1))

lemma ChmodFileResponse_round:
  assumes "ChmodFileResponse_good m" "\<not> to_defaults opts"
  shows "\<exists>ps. ChmodFileResponse_toObject (ChmodFileResponse_obj m) (Some opts) = ok (plain ps) \<and>
    ChmodFileResponse_fromObject (plain ps) = ok (ChmodFileResponse_obj m)"
  unfolding ChmodFileResponse_toObject_def ChmodFileResponse_fromObject_def ChmodFileResponse_obj_def
  by (rule round_trip, simp,
      rule all_yield_Nil,
      rule build.simps(1) [THEN trans])
    (simp_all add: assms [unfolded ChmodFileResponse_good_def] ChmodFileResponse_lookup plain_keys ChmodFileResponse_props_def)

lemma ChmodFileResponse_guarded: "ChmodFileResponse_verify v = ok None \<Longrightarrow> all_plain v \<Longrightarrow> \<exists>m. ChmodFileResponse_fromObject v = ok m"
  unfolding ChmodFileResponse_verify_def ChmodFileResponse_fromObject_def
  by (rule guards_object, rule guards_Nil,
      assumption, assumption) simp

interpretation ChmodFileResponse_plain: message_plain ChmodFileResponse_obj ChmodFileResponse_verify ChmodFileResponse_fromObject ChmodFileResponse_toObject ChmodFileResponse_good
  by unfold_locales
    (use ChmodFileResponse_accepts ChmodFileResponse_round ChmodFileResponse_guarded in \<open>auto simp: ChmodFileResponse_obj_def ChmodFileResponse_verify_def dest: verified_object\<close>)

subsection \<open>CopyRequest\<close>

definition CopyRequest_init :: props where
  "CopyRequest_init = [(js_str ''paths'', Array [])]"

definition CopyRequest_construct :: "js \<Rightarrow> js res" where
  "CopyRequest_construct = construct ''CopyRequest'' CopyRequest_init None"

definition CopyRequest_create :: "js \<Rightarrow> js res" where
  "CopyRequest_create properties = CopyRequest_construct properties"

definition CopyRequest_checks :: "check list" where
  "CopyRequest_checks =
     [v_field ''paths'' v_strings,
      v_field ''isMove'' v_bool]"

definition CopyRequest_verify :: "js \<Rightarrow> string option res" where
  "CopyRequest_verify = verify_with CopyRequest_checks"

definition CopyRequest_setters :: "setter list" where
  "CopyRequest_setters =
     [f_truthy ''paths'' (c_array ''CopyRequest'' ''paths'' c_string),
      f_field ''isMove'' c_bool]"

definition CopyRequest_fromObject :: "js \<Rightarrow> js res" where
  "CopyRequest_fromObject = from_object ''CopyRequest'' CopyRequest_init CopyRequest_setters"

definition CopyRequest_writers :: "writer list" where
  "CopyRequest_writers =
     [d_array ''paths'',
      d_value ''isMove'' (Boolean False),
      t_list ''paths'' t_same,
      t_field ''isMove'' t_same]"

definition CopyRequest_toObject :: "js \<Rightarrow> to_options option \<Rightarrow> js res" where
  "CopyRequest_toObject = to_object CopyRequest_writers"

definition CopyRequest_toJSON :: "js \<Rightarrow> js res" where
  "CopyRequest_toJSON message = CopyRequest_toObject message (Some toJSONOptions)"

definition CopyRequest_getTypeUrl :: "jstring option \<Rightarrow> jstring" where
  "CopyRequest_getTypeUrl = type_url ''CopyRequest''"

definition CopyRequest_props :: "CopyRequest \<Rightarrow> props" where
  "CopyRequest_props m =
     [(js_str ''paths'', Array (map String (CopyRequest_paths m)))] @
     opt_prop ''isMove'' Boolean (CopyRequest_isMove m)"

definition CopyRequest_obj :: "CopyRequest \<Rightarrow> js" where
  "CopyRequest_obj m = Object ''CopyRequest'' (CopyRequest_props m)"

definition CopyRequest_good :: "CopyRequest \<Rightarrow> bool" where
  "CopyRequest_good m \<longleftrightarrow> True"

lemma CopyRequest_lookup:
  "lookup (CopyRequest_props m) ''paths'' = Some (Array (map String (CopyRequest_paths m)))"
  "lookup (CopyRequest_props m) ''isMove'' = map_option Boolean (CopyRequest_isMove m)"
  "\<not> shadows (CopyRequest_props m)"
  by (simp_all add: CopyRequest_props_def shadows_def)

lemma CopyRequest_accepts:
  assumes "CopyRequest_good m"
  shows "CopyRequest_verify (CopyRequest_obj m) = ok None"
  unfolding CopyRequest_verify_def CopyRequest_checks_def CopyRequest_obj_def
  by (rule runs_verify [where members = "[]"],
      rule string_plain.runs_list [where xs = "CopyRequest_paths m"],
      rule bool_plain.runs_opt [where x = "CopyRequest_isMove m"],
      rule runs_Nil)
    (simp_all add: CopyRequest_lookup assms [unfolded CopyRequest_good_def] at_most_one.simps(1))

lemma CopyRequest_round:
  assumes "CopyRequest_good m" "\<not> to_defaults opts"
  shows "\<exists>ps. CopyRequest_toObject (CopyRequest_obj m) (Some opts) = ok (plain ps) \<and>
    CopyRequest_fromObject (plain ps) = ok (CopyRequest_obj m)"
  unfolding CopyRequest_toObject_def CopyRequest_writers_def CopyRequest_fromObject_def CopyRequest_setters_def CopyRequest_obj_def
  by (rule round_trip, simp,
      rule all_yield_Cons, rule all_yield_Cons, rule all_yield_Cons, rule all_yield_Cons,
      rule all_yield_Nil,
      (rule bool_plain.yields_opt [where x = "CopyRequest_isMove m"]; simp add: assms [unfolded CopyRequest_good_def] CopyRequest_lookup plain_keys),
      (rule string_plain.yields_list [where xs = "CopyRequest_paths m"]; simp add: assms [unfolded CopyRequest_good_def] CopyRequest_lookup plain_keys),
      (rule yields_default(1); simp add: assms [unfolded CopyRequest_good_def] CopyRequest_lookup plain_keys),
      (rule yields_array; simp add: assms [unfolded CopyRequest_good_def] CopyRequest_lookup plain_keys),
      rule string_plain.build_list [where xs = "CopyRequest_paths m" and opts = opts],
      rule bool_plain.build_opt [where x = "CopyRequest_isMove m" and opts = opts],
      rule build.simps(1) [THEN trans])
    (simp_all add: assms [unfolded CopyRequest_good_def] CopyRequest_lookup plain_keys CopyRequest_props_def CopyRequest_init_def)

lemma CopyRequest_guarded: "CopyRequest_verify v = ok None \<Longrightarrow> all_plain v \<Longrightarrow> \<exists>m. CopyRequest_fromObject v = ok m"
  unfolding CopyRequest_verify_def CopyRequest_checks_def CopyRequest_fromObject_def CopyRequest_setters_def
  by (rule guards_object, rule guards_Cons, rule guards_Cons, rule guards_Nil,
      (rule bool_plain.guard_opt(1), simp),
      (rule string_plain.guard_list, simp),
      assumption, assumption) simp

interpretation CopyRequest_plain: message_plain CopyRequest_obj CopyRequest_verify CopyRequest_fromObject CopyRequest_toObject CopyRequest_good
  by unfold_locales
    (use CopyRequest_accepts CopyRequest_round CopyRequest_guarded in \<open>auto simp: CopyRequest_obj_def CopyRequest_verify_def dest: verified_object\<close>)

subsection \<open>CopyResponse\<close>

definition CopyResponse_construct :: "js \<Rightarrow> js res" where
  "CopyResponse_construct = construct ''CopyResponse'' [] None"

definition CopyResponse_create :: "js \<Rightarrow> js res" where
  "CopyResponse_create properties = CopyResponse_construct properties"

definition CopyResponse_verify :: "js \<Rightarrow> string option res" where
  "CopyResponse_verify = verify_with []"

definition CopyResponse_fromObject :: "js \<Rightarrow> js res" where
  "CopyResponse_fromObject = from_object ''CopyResponse'' [] []"

definition CopyResponse_toObject :: "js \<Rightarrow> to_options option \<Rightarrow> js res" where
  "CopyResponse_toObject = to_object []"

definition CopyResponse_toJSON :: "js \<Rightarrow> js res" where
  "CopyResponse_toJSON message = CopyResponse_toObject message (Some toJSONOptions)"

definition CopyResponse_getTypeUrl :: "jstring option \<Rightarrow> jstring" where
  "CopyResponse_getTypeUrl = type_url ''CopyResponse''"

definition CopyResponse_props :: "CopyResponse \<Rightarrow> props" where
  "CopyResponse_props m =
     []"

definition CopyResponse_obj :: "CopyResponse \<Rightarrow> js" where
  "CopyResponse_obj m = Object ''CopyResponse'' (CopyResponse_props m)"

definition CopyResponse_good :: "CopyResponse \<Rightarrow> bool" where
  "CopyResponse_good m \<longleftrightarrow> True"

lemma CopyResponse_lookup:
  "\<not> shadows (CopyResponse_props m)"
  by (simp_all add: CopyResponse_props_def shadows_def)

lemma CopyResponse_accepts:
  assumes "CopyResponse_good m"
  shows "CopyResponse_verify (CopyResponse_obj m) = ok None"
  unfolding CopyResponse_verify_def CopyResponse_obj_def
  by (rule runs_verify [where members = "[]"],
      rule runs_Nil)
    (simp_all add: CopyResponse_lookup assms [unfolded CopyResponse_good_def] at_most_one.simps(1))

lemma CopyResponse_round:
  assumes "CopyResponse_good m" "\<not> to_defaults opts"
  shows "\<exists>ps. CopyResponse_toObject (CopyResponse_obj m) (Some opts) = ok (plain ps) \<and>
    CopyResponse_fromObject (plain ps) = ok (CopyResponse_obj m)"
  unfolding CopyResponse_toObject_def CopyResponse_fromObject_def CopyResponse_obj_def
  by (rule round_trip, simp,
      rule all_yield_Nil,
      rule build.simps(1) [THEN trans])
    (simp_all add: assms [unfolded CopyResponse_good_def] CopyResponse_lookup plain_keys CopyResponse_props_def)

lemma CopyResponse_guarded: "CopyResponse_verify v = ok None \<Longrightarrow> all_plain v \<Longrightarrow> \<exists>m. CopyResponse_fromObject v = ok m"
  unfolding CopyResponse_verify_def CopyResponse_fromObject_def
  by (rule guards_object, rule guards_Nil,
      assumption, assumption) simp

interpretation CopyResponse_plain: message_plain CopyResponse_obj CopyResponse_verify CopyResponse_fromObject CopyResponse_toObject CopyResponse_good
  by unfold_locales
    (use CopyResponse_accepts CopyResponse_round CopyResponse_guarded in \<open>auto simp: CopyResponse_obj_def CopyResponse_verify_def dest: verified_object\<close>)

subsection \<open>PasteRequest\<close>

definition PasteRequest_construct :: "js \<Rightarrow> js res" where
  "PasteRequest_construct = construct ''PasteRequest'' [] None"

definition PasteRequest_create :: "js \<Rightarrow> js res" where
  "PasteRequest_create properties = PasteRequest_construct properties"

definition PasteRequest_checks :: "check list" where
  "PasteRequest_checks =
     [v_field ''destinationDir'' v_string]"

definition PasteRequest_verify :: "js \<Rightarrow> string option res" where
  "PasteRequest_verify = verify_with PasteRequest_checks"

definition PasteRequest_setters :: "setter list" where
  "PasteRequest_setters =
     [f_field ''destinationDir'' c_string]"

definition PasteRequest_fromObject :: "js \<Rightarrow> js res" where
  "PasteRequest_fromObject = from_object ''PasteRequest'' [] PasteRequest_setters"

definition PasteRequest_writers :: "writer list" where
  "PasteRequest_writers =
     [d_value ''destinationDir'' (String []),
      t_field ''destinationDir'' t_same]"

definition PasteRequest_toObject :: "js \<Rightarrow> to_options option \<Rightarrow> js res" where
  "PasteRequest_toObject = to_object PasteRequest_writers"

definition PasteRequest_toJSON :: "js \<Rightarrow> js res" where
  "PasteRequest_toJSON message = PasteRequest_toObject message (Some toJSONOptions)"

definition PasteRequest_getTypeUrl :: "jstring option \<Rightarrow> jstring" where
  "PasteRequest_getTypeUrl = type_url ''PasteRequest''"

definition PasteRequest_props :: "PasteRequest \<Rightarrow> props" where
  "PasteRequest_props m =
     opt_prop ''destinationDir'' String (PasteRequest_destinationDir m)"

definition PasteRequest_obj :: "PasteRequest \<Rightarrow> js" where
  "PasteRequest_obj m = Object ''PasteRequest'' (PasteRequest_props m)"

definition PasteRequest_good :: "PasteRequest \<Rightarrow> bool" where
  "PasteRequest_good m \<longleftrightarrow> True"

lemma PasteRequest_lookup:
  "lookup (PasteRequest_props m) ''destinationDir'' = map_option String (PasteRequest_destinationDir m)"
  "\<not> shadows (PasteRequest_props m)"
  by (simp_all add: PasteRequest_props_def shadows_def)

lemma PasteRequest_accepts:
  assumes "PasteRequest_good m"
  shows "PasteRequest_verify (PasteRequest_obj m) = ok None"
  unfolding PasteRequest_verify_def PasteRequest_checks_def PasteRequest_obj_def
  by (rule runs_verify [where members = "[]"],
      rule string_plain.runs_opt [where x = "PasteRequest_destinationDir m"],
      rule runs_Nil)
    (simp_all add: PasteRequest_lookup assms [unfolded PasteRequest_good_def] at_most_one.simps(1))

lemma PasteRequest_round:
  assumes "PasteRequest_good m" "\<not> to_defaults opts"
  shows "\<exists>ps. PasteRequest_toObject (PasteRequest_obj m) (Some opts) = ok (plain ps) \<and>
    PasteRequest_fromObject (plain ps) = ok (PasteRequest_obj m)"
  unfolding PasteRequest_toObject_def PasteRequest_writers_def PasteRequest_fromObject_def PasteRequest_setters_def PasteRequest_obj_def
  by (rule round_trip, simp,
      rule all_yield_Cons, rule all_yield_Cons, rule all_yield_Nil,
      (rule string_plain.yields_opt [where x = "PasteRequest_destinationDir m"]; simp add: assms [unfolded PasteRequest_good_def] PasteRequest_lookup plain_keys),
      (rule yields_default(1); simp add: assms [unfolded PasteRequest_good_def] PasteRequest_lookup plain_keys),
      rule string_plain.build_opt [where x = "PasteRequest_destinationDir m" and opts = opts],
      rule build.simps(1) [THEN trans])
    (simp_all add: assms [unfolded PasteRequest_good_def] PasteRequest_lookup plain_keys PasteRequest_props_def)

lemma PasteRequest_guarded: "PasteRequest_verify v = ok None \<Longrightarrow> all_plain v \<Longrightarrow> \<exists>m. PasteRequest_fromObject v = ok m"
  unfolding PasteRequest_verify_def PasteRequest_checks_def PasteRequest_fromObject_def PasteRequest_setters_def
  by (rule guards_object, rule guards_Cons, rule guards_Nil,
      (rule string_plain.guard_opt(1), simp),
      assumption, assumption) simp

interpretation PasteRequest_plain: message_plain PasteRequest_obj PasteRequest_verify PasteRequest_fromObject PasteRequest_toObject PasteRequest_good
  by unfold_locales
    (use PasteRequest_accepts PasteRequest_round PasteRequest_guarded in \<open>auto simp: PasteRequest_obj_def PasteRequest_verify_def dest: verified_object\<close>)

subsection \<open>PasteResponse\<close>

definition PasteResponse_init :: props where
  "PasteResponse_init = [(js_str ''newPaths'', Array [])]"

definition PasteResponse_construct :: "js \<Rightarrow> js res" where
  "PasteResponse_construct = construct ''PasteResponse'' PasteResponse_init None"

definition PasteResponse_create :: "js \<Rightarrow> js res" where
  "PasteResponse_create properties = PasteResponse_construct properties"

definition PasteResponse_checks :: "check list" where
  "PasteResponse_checks =
     [v_field ''newPaths'' v_strings]"

definition PasteResponse_verify :: "js \<Rightarrow> string option res" where
  "PasteResponse_verify = verify_with PasteResponse_checks"

definition PasteResponse_setters :: "setter list" where
  "PasteResponse_setters =
     [f_truthy ''newPaths'' (c_array ''PasteResponse'' ''newPaths'' c_string)]"

definition PasteResponse_fromObject :: "js \<Rightarrow> js res" where
  "PasteResponse_fromObject = from_object ''PasteResponse'' PasteResponse_init PasteResponse_setters"

definition PasteResponse_writers :: "writer list" where
  "PasteResponse_writers =
     [d_array ''newPaths'',
      t_list ''newPaths'' t_same]"

definition PasteResponse_toObject :: "js \<Rightarrow> to_options option \<Rightarrow> js res" where
  "PasteResponse_toObject = to_object PasteResponse_writers"

definition PasteResponse_toJSON :: "js \<Rightarrow> js res" where
  "PasteResponse_toJSON message = PasteResponse_toObject message (Some toJSONOptions)"

definition PasteResponse_getTypeUrl :: "jstring option \<Rightarrow> jstring" where
  "PasteResponse_getTypeUrl = type_url ''PasteResponse''"

definition PasteResponse_props :: "PasteResponse \<Rightarrow> props" where
  "PasteResponse_props m =
     [(js_str ''newPaths'', Array (map String (PasteResponse_newPaths m)))]"

definition PasteResponse_obj :: "PasteResponse \<Rightarrow> js" where
  "PasteResponse_obj m = Object ''PasteResponse'' (PasteResponse_props m)"

definition PasteResponse_good :: "PasteResponse \<Rightarrow> bool" where
  "PasteResponse_good m \<longleftrightarrow> True"

lemma PasteResponse_lookup:
  "lookup (PasteResponse_props m) ''newPaths'' = Some (Array (map String (PasteResponse_newPaths m)))"
  "\<not> shadows (PasteResponse_props m)"
  by (simp_all add: PasteResponse_props_def shadows_def)

lemma PasteResponse_accepts:
  assumes "PasteResponse_good m"
  shows "PasteResponse_verify (PasteResponse_obj m) = ok None"
  unfolding PasteResponse_verify_def PasteResponse_checks_def PasteResponse_obj_def
  by (rule runs_verify [where members = "[]"],
      rule string_plain.runs_list [where xs = "PasteResponse_newPaths m"],
      rule runs_Nil)
    (simp_all add: PasteResponse_lookup assms [unfolded PasteResponse_good_def] at_most_one.simps(1))

lemma PasteResponse_round:
  assumes "PasteResponse_good m" "\<not> to_defaults opts"
  shows "\<exists>ps. PasteResponse_toObject (PasteResponse_obj m) (Some opts) = ok (plain ps) \<and>
    PasteResponse_fromObject (plain ps) = ok (PasteResponse_obj m)"
  unfolding PasteResponse_toObject_def PasteResponse_writers_def PasteResponse_fromObject_def PasteResponse_setters_def PasteResponse_obj_def
  by (rule round_trip, simp,
      rule all_yield_Cons, rule all_yield_Cons, rule all_yield_Nil,
      (rule string_plain.yields_list [where xs = "PasteResponse_newPaths m"]; simp add: assms [unfolded PasteResponse_good_def] PasteResponse_lookup plain_keys),
      (rule yields_array; simp add: assms [unfolded PasteResponse_good_def] PasteResponse_lookup plain_keys),
      rule string_plain.build_list [where xs = "PasteResponse_newPaths m" and opts = opts],
      rule build.simps(1) [THEN trans])
    (simp_all add: assms [unfolded PasteResponse_good_def] PasteResponse_lookup plain_keys PasteResponse_props_def PasteResponse_init_def)

lemma PasteResponse_guarded: "PasteResponse_verify v = ok None \<Longrightarrow> all_plain v \<Longrightarrow> \<exists>m. PasteResponse_fromObject v = ok m"
  unfolding PasteResponse_verify_def PasteResponse_checks_def PasteResponse_fromObject_def PasteResponse_setters_def
  by (rule guards_object, rule guards_Cons, rule guards_Nil,
      (rule string_plain.guard_list, simp),
      assumption, assumption) simp

interpretation PasteResponse_plain: message_plain PasteResponse_obj PasteResponse_verify PasteResponse_fromObject PasteResponse_toObject PasteResponse_good
  by unfold_locales
    (use PasteResponse_accepts PasteResponse_round PasteResponse_guarded in \<open>auto simp: PasteResponse_obj_def PasteResponse_verify_def dest: verified_object\<close>)

subsection \<open>CreateFileRequest\<close>

definition CreateFileRequest_construct :: "js \<Rightarrow> js res" where
  "CreateFileRequest_construct = construct ''CreateFileRequest'' [] None"

definition CreateFileRequest_create :: "js \<Rightarrow> js res" where
  "CreateFileRequest_create properties = CreateFileRequest_construct properties"

definition CreateFileRequest_checks :: "check list" where
  "CreateFileRequest_checks =
     [v_field ''destinationDir'' v_string,
      v_field ''name'' v_string]"

definition CreateFileRequest_verify :: "js \<Rightarrow> string option res" where
  "CreateFileRequest_verify = verify_with CreateFileRequest_checks"

definition CreateFileRequest_setters :: "setter list" where
  "CreateFileRequest_setters =
     [f_field ''destinationDir'' c_string,
      f_field ''name'' c_string]"

definition CreateFileRequest_fromObject :: "js \<Rightarrow> js res" where
  "CreateFileRequest_fromObject = from_object ''CreateFileRequest'' [] CreateFileRequest_setters"

definition CreateFileRequest_writers :: "writer list" where
  "CreateFileRequest_writers =
     [d_value ''destinationDir'' (String []),
      d_value ''name'' (String []),
      t_field ''destinationDir'' t_same,
      t_field ''name'' t_same]"

definition CreateFileRequest_toObject :: "js \<Rightarrow> to_options option \<Rightarrow> js res" where
  "CreateFileRequest_toObject = to_object CreateFileRequest_writers"

definition CreateFileRequest_toJSON :: "js \<Rightarrow> js res" where
  "CreateFileRequest_toJSON message = CreateFileRequest_toObject message (Some toJSONOptions)"

definition CreateFileRequest_getTypeUrl :: "jstring option \<Rightarrow> jstring" where
  "CreateFileRequest_getTypeUrl = type_url ''CreateFileRequest''"

definition CreateFileRequest_props :: "CreateFileRequest \<Rightarrow> props" where
  "CreateFileRequest_props m =
     opt_prop ''destinationDir'' String (CreateFileRequest_destinationDir m) @
     opt_prop ''name'' String (CreateFileRequest_name m)"

definition CreateFileRequest_obj :: "CreateFileRequest \<Rightarrow> js" where
  "CreateFileRequest_obj m = Object ''CreateFileRequest'' (CreateFileRequest_props m)"

definition CreateFileRequest_good :: "CreateFileRequest \<Rightarrow> bool" where
  "CreateFileRequest_good m \<longleftrightarrow> True"

lemma CreateFileRequest_lookup:
  "lookup (CreateFileRequest_props m) ''destinationDir'' = map_option String (CreateFileRequest_destinationDir m)"
  "lookup (CreateFileRequest_props m) ''name'' = map_option String (CreateFileRequest_name m)"
  "\<not> shadows (CreateFileRequest_props m)"
  by (simp_all add: CreateFileRequest_props_def shadows_def)

lemma CreateFileRequest_accepts:
  assumes "CreateFileRequest_good m"
  shows "CreateFileRequest_verify (CreateFileRequest_obj m) = ok None"
  unfolding CreateFileRequest_verify_def CreateFileRequest_checks_def CreateFileRequest_obj_def
  by (rule runs_verify [where members = "[]"],
      rule string_plain.runs_opt [where x = "CreateFileRequest_destinationDir m"],
      rule string_plain.runs_opt [where x = "CreateFileRequest_name m"],
      rule runs_Nil)
    (simp_all add: CreateFileRequest_lookup assms [unfolded CreateFileRequest_good_def] at_most_one.simps(1))

lemma CreateFileRequest_round:
  assumes "CreateFileRequest_good m" "\<not> to_defaults opts"
  shows "\<exists>ps. CreateFileRequest_toObject (CreateFileRequest_obj m) (Some opts) = ok (plain ps) \<and>
    CreateFileRequest_fromObject (plain ps) = ok (CreateFileRequest_obj m)"
  unfolding CreateFileRequest_toObject_def CreateFileRequest_writers_def CreateFileRequest_fromObject_def CreateFileRequest_setters_def CreateFileRequest_obj_def
  by (rule round_trip, simp,
      rule all_yield_Cons, rule all_yield_Cons, rule all_yield_Cons, rule all_yield_Cons,
      rule all_yield_Nil,
      (rule string_plain.yields_opt [where x = "CreateFileRequest_name m"]; simp add: assms [unfolded CreateFileRequest_good_def] CreateFileRequest_lookup plain_keys),
      (rule string_plain.yields_opt [where x = "CreateFileRequest_destinationDir m"]; simp add: assms [unfolded CreateFileRequest_good_def] CreateFileRequest_lookup plain_keys),
      (rule yields_default(1); simp add: assms [unfolded CreateFileRequest_good_def] CreateFileRequest_lookup plain_keys),
      (rule yields_default(1); simp add: assms [unfolded CreateFileRequest_good_def] CreateFileRequest_lookup plain_keys),
      rule string_plain.build_opt [where x = "CreateFileRequest_destinationDir m" and opts = opts],
      rule string_plain.build_opt [where x = "CreateFileRequest_name m" and opts = opts],
      rule build.simps(1) [THEN trans])
    (simp_all add: assms [unfolded CreateFileRequest_good_def] CreateFileRequest_lookup plain_keys CreateFileRequest_props_def)

lemma CreateFileRequest_guarded: "CreateFileRequest_verify v = ok None \<Longrightarrow> all_plain v \<Longrightarrow> \<exists>m. CreateFileRequest_fromObject v = ok m"
  unfolding CreateFileRequest_verify_def CreateFileRequest_checks_def CreateFileRequest_fromObject_def CreateFileRequest_setters_def
  by (rule guards_object, rule guards_Cons, rule guards_Cons, rule guards_Nil,
      (rule string_plain.guard_opt(1), simp),
      (rule string_plain.guard_opt(1), simp),
      assumption, assumption) simp

interpretation CreateFileRequest_plain: message_plain CreateFileRequest_obj CreateFileRequest_verify CreateFileRequest_fromObject CreateFileRequest_toObject CreateFileRequest_good
  by unfold_locales
    (use CreateFileRequest_accepts CreateFileRequest_round CreateFileRequest_guarded in \<open>auto simp: CreateFileRequest_obj_def CreateFileRequest_verify_def dest: verified_object\<close>)

subsection \<open>CreateFileResponse\<close>

definition CreateFileResponse_construct :: "js \<Rightarrow> js res" where
  "CreateFileResponse_construct = construct ''CreateFileResponse'' [] None"

definition CreateFileResponse_create :: "js \<Rightarrow> js res" where
  "CreateFileResponse_create properties = CreateFileResponse_construct properties"

definition CreateFileResponse_checks :: "check list" where
  "CreateFileResponse_checks =
     [v_field ''path'' v_string]"

definition CreateFileResponse_verify :: "js \<Rightarrow> string option res" where
  "CreateFileResponse_verify = verify_with CreateFileResponse_checks"

definition CreateFileResponse_setters :: "setter list" where
  "CreateFileResponse_setters =
     [f_field ''path'' c_string]"

definition CreateFileResponse_fromObject :: "js \<Rightarrow> js res" where
  "CreateFileResponse_fromObject = from_object ''CreateFileResponse'' [] CreateFileResponse_setters"

definition CreateFileResponse_writers :: "writer list" where
  "CreateFileResponse_writers =
     [d_value ''path'' (String []),
      t_field ''path'' t_same]"

definition CreateFileResponse_toObject :: "js \<Rightarrow> to_options option \<Rightarrow> js res" where
  "CreateFileResponse_toObject = to_object CreateFileResponse_writers"

definition CreateFileResponse_toJSON :: "js \<Rightarrow> js res" where
  "CreateFileResponse_toJSON message = CreateFileResponse_toObject message (Some toJSONOptions)"

definition CreateFileResponse_getTypeUrl :: "jstring option \<Rightarrow> jstring" where
  "CreateFileResponse_getTypeUrl = type_url ''CreateFileResponse''"

definition CreateFileResponse_props :: "CreateFileResponse \<Rightarrow> props" where
  "CreateFileResponse_props m =
     opt_prop ''path'' String (CreateFileResponse_path m)"

definition CreateFileResponse_obj :: "CreateFileResponse \<Rightarrow> js" where
  "CreateFileResponse_obj m = Object ''CreateFileResponse'' (CreateFileResponse_props m)"

definition CreateFileResponse_good :: "CreateFileResponse \<Rightarrow> bool" where
  "CreateFileResponse_good m \<longleftrightarrow> True"

lemma CreateFileResponse_lookup:
  "lookup (CreateFileResponse_props m) ''path'' = map_option String (CreateFileResponse_path m)"
  "\<not> shadows (CreateFileResponse_props m)"
  by (simp_all add: CreateFileResponse_props_def shadows_def)

lemma CreateFileResponse_accepts:
  assumes "CreateFileResponse_good m"
  shows "CreateFileResponse_verify (CreateFileResponse_obj m) = ok None"
  unfolding CreateFileResponse_verify_def CreateFileResponse_checks_def CreateFileResponse_obj_def
  by (rule runs_verify [where members = "[]"],
      rule string_plain.runs_opt [where x = "CreateFileResponse_path m"],
      rule runs_Nil)
    (simp_all add: CreateFileResponse_lookup assms [unfolded CreateFileResponse_good_def] at_most_one.simps(1))

lemma CreateFileResponse_round:
  assumes "CreateFileResponse_good m" "\<not> to_defaults opts"
  shows "\<exists>ps. CreateFileResponse_toObject (CreateFileResponse_obj m) (Some opts) = ok (plain ps) \<and>
    CreateFileResponse_fromObject (plain ps) = ok (CreateFileResponse_obj m)"
  unfolding CreateFileResponse_toObject_def CreateFileResponse_writers_def CreateFileResponse_fromObject_def CreateFileResponse_setters_def CreateFileResponse_obj_def
  by (rule round_trip, simp,
      rule all_yield_Cons, rule all_yield_Cons, rule all_yield_Nil,
      (rule string_plain.yields_opt [where x = "CreateFileResponse_path m"]; simp add: assms [unfolded CreateFileResponse_good_def] CreateFileResponse_lookup plain_keys),
      (rule yields_default(1); simp add: assms [unfolded CreateFileResponse_good_def] CreateFileResponse_lookup plain_keys),
      rule string_plain.build_opt [where x = "CreateFileResponse_path m" and opts = opts],
      rule build.simps(1) [THEN trans])
    (simp_all add: assms [unfolded CreateFileResponse_good_def] CreateFileResponse_lookup plain_keys CreateFileResponse_props_def)

lemma CreateFileResponse_guarded: "CreateFileResponse_verify v = ok None \<Longrightarrow> all_plain v \<Longrightarrow> \<exists>m. CreateFileResponse_fromObject v = ok m"
  unfolding CreateFileResponse_verify_def CreateFileResponse_checks_def CreateFileResponse_fromObject_def CreateFileResponse_setters_def
  by (rule guards_object, rule guards_Cons, rule guards_Nil,
      (rule string_plain.guard_opt(1), simp),
      assumption, assumption) simp

interpretation CreateFileResponse_plain: message_plain CreateFileResponse_obj CreateFileResponse_verify CreateFileResponse_fromObject CreateFileResponse_toObject CreateFileResponse_good
  by unfold_locales
    (use CreateFileResponse_accepts CreateFileResponse_round CreateFileResponse_guarded in \<open>auto simp: CreateFileResponse_obj_def CreateFileResponse_verify_def dest: verified_object\<close>)

subsection \<open>CreateDirectoryRequest\<close>

definition CreateDirectoryRequest_construct :: "js \<Rightarrow> js res" where
  "CreateDirectoryRequest_construct = construct ''CreateDirectoryRequest'' [] None"

definition CreateDirectoryRequest_create :: "js \<Rightarrow> js res" where
  "CreateDirectoryRequest_create properties = CreateDirectoryRequest_construct properties"

definition CreateDirectoryRequest_checks :: "check list" where
  "CreateDirectoryRequest_checks =
     [v_field ''destinationDir'' v_string,
      v_field ''name'' v_string]"

definition CreateDirectoryRequest_verify :: "js \<Rightarrow> string option res" where
  "CreateDirectoryRequest_verify = verify_with CreateDirectoryRequest_checks"

definition CreateDirectoryRequest_setters :: "setter list" where
  "CreateDirectoryRequest_setters =
     [f_field ''destinationDir'' c_string,
      f_field ''name'' c_string]"

definition CreateDirectoryRequest_fromObject :: "js \<Rightarrow> js res" where
  "CreateDirectoryRequest_fromObject = from_object ''CreateDirectoryRequest'' [] CreateDirectoryRequest_setters"

definition CreateDirectoryRequest_writers :: "writer list" where
  "CreateDirectoryRequest_writers =
     [d_value ''destinationDir'' (String []),
      d_value ''name'' (String []),
      t_field ''destinationDir'' t_same,
      t_field ''name'' t_same]"

definition CreateDirectoryRequest_toObject :: "js \<Rightarrow> to_options option \<Rightarrow> js res" where
  "CreateDirectoryRequest_toObject = to_object CreateDirectoryRequest_writers"

definition CreateDirectoryRequest_toJSON :: "js \<Rightarrow> js res" where
  "CreateDirectoryRequest_toJSON message = CreateDirectoryRequest_toObject message (Some toJSONOptions)"

definition CreateDirectoryRequest_getTypeUrl :: "jstring option \<Rightarrow> jstring" where
  "CreateDirectoryRequest_getTypeUrl = type_url ''CreateDirectoryRequest''"

definition CreateDirectoryRequest_props :: "CreateDirectoryRequest \<Rightarrow> props" where
  "CreateDirectoryRequest_props m =
     opt_prop ''destinationDir'' String (CreateDirectoryRequest_destinationDir m) @
     opt_prop ''name'' String (CreateDirectoryRequest_name m)"

definition CreateDirectoryRequest_obj :: "CreateDirectoryRequest \<Rightarrow> js" where
  "CreateDirectoryRequest_obj m = Object ''CreateDirectoryRequest'' (CreateDirectoryRequest_props m)"

definition CreateDirectoryRequest_good :: "CreateDirectoryRequest \<Rightarrow> bool" where
  "CreateDirectoryRequest_good m \<longleftrightarrow> True"

lemma CreateDirectoryRequest_lookup:
  "lookup (CreateDirectoryRequest_props m) ''destinationDir'' = map_option String (CreateDirectoryRequest_destinationDir m)"
  "lookup (CreateDirectoryRequest_props m) ''name'' = map_option String (CreateDirectoryRequest_name m)"
  "\<not> shadows (CreateDirectoryRequest_props m)"
  by (simp_all add: CreateDirectoryRequest_props_def shadows_def)

lemma CreateDirectoryRequest_accepts:
  assumes "CreateDirectoryRequest_good m"
  shows "CreateDirectoryRequest_verify (CreateDirectoryRequest_obj m) = ok None"
  unfolding CreateDirectoryRequest_verify_def CreateDirectoryRequest_checks_def CreateDirectoryRequest_obj_def
  by (rule runs_verify [where members = "[]"],
      rule string_plain.runs_opt [where x = "CreateDirectoryRequest_destinationDir m"],
      rule string_plain.runs_opt [where x = "CreateDirectoryRequest_name m"],
      rule runs_Nil)
    (simp_all add: CreateDirectoryRequest_lookup assms [unfolded CreateDirectoryRequest_good_def] at_most_one.simps(1))

lemma CreateDirectoryRequest_round:
  assumes "CreateDirectoryRequest_good m" "\<not> to_defaults opts"
  shows "\<exists>ps. CreateDirectoryRequest_toObject (CreateDirectoryRequest_obj m) (Some opts) = ok (plain ps) \<and>
    CreateDirectoryRequest_fromObject (plain ps) = ok (CreateDirectoryRequest_obj m)"
  unfolding CreateDirectoryRequest_toObject_def CreateDirectoryRequest_writers_def CreateDirectoryRequest_fromObject_def CreateDirectoryRequest_setters_def CreateDirectoryRequest_obj_def
  by (rule round_trip, simp,
      rule all_yield_Cons, rule all_yield_Cons, rule all_yield_Cons, rule all_yield_Cons,
      rule all_yield_Nil,
      (rule string_plain.yields_opt [where x = "CreateDirectoryRequest_name m"]; simp add: assms [unfolded CreateDirectoryRequest_good_def] CreateDirectoryRequest_lookup plain_keys),
      (rule string_plain.yields_opt [where x = "CreateDirectoryRequest_destinationDir m"]; simp add: assms [unfolded CreateDirectoryRequest_good_def] CreateDirectoryRequest_lookup plain_keys),
      (rule yields_default(1); simp add: assms [unfolded CreateDirectoryRequest_good_def] CreateDirectoryRequest_lookup plain_keys),
      (rule yields_default(1); simp add: assms [unfolded CreateDirectoryRequest_good_def] CreateDirectoryRequest_lookup plain_keys),
      rule string_plain.build_opt [where x = "CreateDirectoryRequest_destinationDir m" and opts = opts],
      rule string_plain.build_opt [where x = "CreateDirectoryRequest_name m" and opts = opts],
      rule build.simps(1) [THEN trans])
    (simp_all add: assms [unfolded CreateDirectoryRequest_good_def] CreateDirectoryRequest_lookup plain_keys CreateDirectoryRequest_props_def)

lemma CreateDirectoryRequest_guarded: "CreateDirectoryRequest_verify v = ok None \<Longrightarrow> all_plain v \<Longrightarrow> \<exists>m. CreateDirectoryRequest_fromObject v = ok m"
  unfolding CreateDirectoryRequest_verify_def CreateDirectoryRequest_checks_def CreateDirectoryRequest_fromObject_def CreateDirectoryRequest_setters_def
  by (rule guards_object, rule guards_Cons, rule guards_Cons, rule guards_Nil,
      (rule string_plain.guard_opt(1), simp),
      (rule string_plain.guard_opt(1), simp),
      assumption, assumption) simp

interpretation CreateDirectoryRequest_plain: message_plain CreateDirectoryRequest_obj CreateDirectoryRequest_verify CreateDirectoryRequest_fromObject CreateDirectoryRequest_toObject CreateDirectoryRequest_good
  by unfold_locales
    (use CreateDirectoryRequest_accepts CreateDirectoryRequest_round CreateDirectoryRequest_guarded in \<open>auto simp: CreateDirectoryRequest_obj_def CreateDirectoryRequest_verify_def dest: verified_object\<close>)

subsection \<open>CreateDirectoryResponse\<close>

definition CreateDirectoryResponse_construct :: "js \<Rightarrow> js res" where
  "CreateDirectoryResponse_construct = construct ''CreateDirectoryResponse'' [] None"

definition CreateDirectoryResponse_create :: "js \<Rightarrow> js res" where
  "CreateDirectoryResponse_create properties = CreateDirectoryResponse_construct properties"

definition CreateDirectoryResponse_checks :: "check list" where
  "CreateDirectoryResponse_checks =
     [v_field ''path'' v_string]"

definition CreateDirectoryResponse_verify :: "js \<Rightarrow> string option res" where
  "CreateDirectoryResponse_verify = verify_with CreateDirectoryResponse_checks"

definition CreateDirectoryResponse_setters :: "setter list" where
  "CreateDirectoryResponse_setters =
     [f_field ''path'' c_string]"

definition CreateDirectoryResponse_fromObject :: "js \<Rightarrow> js res" where
  "CreateDirectoryResponse_fromObject = from_object ''CreateDirectoryResponse'' [] CreateDirectoryResponse_setters"

definition CreateDirectoryResponse_writers :: "writer list" where
  "CreateDirectoryResponse_writers =
     [d_value ''path'' (String []),
      t_field ''path'' t_same]"

definition CreateDirectoryResponse_toObject :: "js \<Rightarrow> to_options option \<Rightarrow> js res" where
  "CreateDirectoryResponse_toObject = to_object CreateDirectoryResponse_writers"

definition CreateDirectoryResponse_toJSON :: "js \<Rightarrow> js res" where
  "CreateDirectoryResponse_toJSON message = CreateDirectoryResponse_toObject message (Some toJSONOptions)"

definition CreateDirectoryResponse_getTypeUrl :: "jstring option \<Rightarrow> jstring" where
  "CreateDirectoryResponse_getTypeUrl = type_url ''CreateDirectoryResponse''"

definition CreateDirectoryResponse_props :: "CreateDirectoryResponse \<Rightarrow> props" where
  "CreateDirectoryResponse_props m =
     opt_prop ''path'' String (CreateDirectoryResponse_path m)"

definition CreateDirectoryResponse_obj :: "CreateDirectoryResponse \<Rightarrow> js" where
  "CreateDirectoryResponse_obj m = Object ''CreateDirectoryResponse'' (CreateDirectoryResponse_props m)"

definition CreateDirectoryResponse_good :: "CreateDirectoryResponse \<Rightarrow> bool" where
  "CreateDirectoryResponse_good m \<longleftrightarrow> True"

lemma CreateDirectoryResponse_lookup:
  "lookup (CreateDirectoryResponse_props m) ''path'' = map_option String (CreateDirectoryResponse_path m)"
  "\<not> shadows (CreateDirectoryResponse_props m)"
  by (simp_all add: CreateDirectoryResponse_props_def shadows_def)

lemma CreateDirectoryResponse_accepts:
  assumes "CreateDirectoryResponse_good m"
  shows "CreateDirectoryResponse_verify (CreateDirectoryResponse_obj m) = ok None"
  unfolding CreateDirectoryResponse_verify_def CreateDirectoryResponse_checks_def CreateDirectoryResponse_obj_def
  by (rule runs_verify [where members = "[]"],
      rule string_plain.runs_opt [where x = "CreateDirectoryResponse_path m"],
      rule runs_Nil)
    (simp_all add: CreateDirectoryResponse_lookup assms [unfolded CreateDirectoryResponse_good_def] at_most_one.simps(1))

lemma CreateDirectoryResponse_round:
  assumes "CreateDirectoryResponse_good m" "\<not> to_defaults opts"
  shows "\<exists>ps. CreateDirectoryResponse_toObject (CreateDirectoryResponse_obj m) (Some opts) = ok (plain ps) \<and>
    CreateDirectoryResponse_fromObject (plain ps) = ok (CreateDirectoryResponse_obj m)"
  unfolding CreateDirectoryResponse_toObject_def CreateDirectoryResponse_writers_def CreateDirectoryResponse_fromObject_def CreateDirectoryResponse_setters_def CreateDirectoryResponse_obj_def
  by (rule round_trip, simp,
      rule all_yield_Cons, rule all_yield_Cons, rule all_yield_Nil,
      (rule string_plain.yields_opt [where x = "CreateDirectoryResponse_path m"]; simp add: assms [unfolded CreateDirectoryResponse_good_def] CreateDirectoryResponse_lookup plain_keys),
      (rule yields_default(1); simp add: assms [unfolded CreateDirectoryResponse_good_def] CreateDirectoryResponse_lookup plain_keys),
      rule string_plain.build_opt [where x = "CreateDirectoryResponse_path m" and opts = opts],
      rule build.simps(1) [THEN trans])
    (simp_all add: assms [unfolded CreateDirectoryResponse_good_def] CreateDirectoryResponse_lookup plain_keys CreateDirectoryResponse_props_def)

lemma CreateDirectoryResponse_guarded: "CreateDirectoryResponse_verify v = ok None \<Longrightarrow> all_plain v \<Longrightarrow> \<exists>m. CreateDirectoryResponse_fromObject v = ok m"
  unfolding CreateDirectoryResponse_verify_def CreateDirectoryResponse_checks_def CreateDirectoryResponse_fromObject_def CreateDirectoryResponse_setters_def
  by (rule guards_object, rule guards_Cons, rule guards_Nil,
      (rule string_plain.guard_opt(1), simp),
      assumption, assumption) simp

interpretation CreateDirectoryResponse_plain: message_plain CreateDirectoryResponse_obj CreateDirectoryResponse_verify CreateDirectoryResponse_fromObject CreateDirectoryResponse_toObject CreateDirectoryResponse_good
  by unfold_locales
    (use CreateDirectoryResponse_accepts CreateDirectoryResponse_round CreateDirectoryResponse_guarded in \<open>auto simp: CreateDirectoryResponse_obj_def CreateDirectoryResponse_verify_def dest: verified_object\<close>)

subsection \<open>TrashFileRequest\<close>

definition TrashFileRequest_construct :: "js \<Rightarrow> js res" where
  "TrashFileRequest_construct = construct ''TrashFileRequest'' [] None"

definition TrashFileRequest_create :: "js \<Rightarrow> js res" where
  "TrashFileRequest_create properties = TrashFileRequest_construct properties"

definition TrashFileRequest_checks :: "check list" where
  "TrashFileRequest_checks =
     [v_field ''path'' v_string]"

definition TrashFileRequest_verify :: "js \<Rightarrow> string option res" where
  "TrashFileRequest_verify = verify_with TrashFileRequest_checks"

definition TrashFileRequest_setters :: "setter list" where
  "TrashFileRequest_setters =
     [f_field ''path'' c_string]"

definition TrashFileRequest_fromObject :: "js \<Rightarrow> js res" where
  "TrashFileRequest_fromObject = from_object ''TrashFileRequest'' [] TrashFileRequest_setters"

definition TrashFileRequest_writers :: "writer list" where
  "TrashFileRequest_writers =
     [d_value ''path'' (String []),
      t_field ''path'' t_same]"

definition TrashFileRequest_toObject :: "js \<Rightarrow> to_options option \<Rightarrow> js res" where
  "TrashFileRequest_toObject = to_object TrashFileRequest_writers"

definition TrashFileRequest_toJSON :: "js \<Rightarrow> js res" where
  "TrashFileRequest_toJSON message = TrashFileRequest_toObject message (Some toJSONOptions)"

definition TrashFileRequest_getTypeUrl :: "jstring option \<Rightarrow> jstring" where
  "TrashFileRequest_getTypeUrl = type_url ''TrashFileRequest''"

definition TrashFileRequest_props :: "TrashFileRequest \<Rightarrow> props" where
  "TrashFileRequest_props m =
     opt_prop ''path'' String (TrashFileRequest_path m)"

definition TrashFileRequest_obj :: "TrashFileRequest \<Rightarrow> js" where
  "TrashFileRequest_obj m = Object ''TrashFileRequest'' (TrashFileRequest_props m)"

definition TrashFileRequest_good :: "TrashFileRequest \<Rightarrow> bool" where
  "TrashFileRequest_good m \<longleftrightarrow> True"

lemma TrashFileRequest_lookup:
  "lookup (TrashFileRequest_props m) ''path'' = map_option String (TrashFileRequest_path m)"
  "\<not> shadows (TrashFileRequest_props m)"
  by (simp_all add: TrashFileRequest_props_def shadows_def)

lemma TrashFileRequest_accepts:
  assumes "TrashFileRequest_good m"
  shows "TrashFileRequest_verify (TrashFileRequest_obj m) = ok None"
  unfolding TrashFileRequest_verify_def TrashFileRequest_checks_def TrashFileRequest_obj_def
  by (rule runs_verify [where members = "[]"],
      rule string_plain.runs_opt [where x = "TrashFileRequest_path m"],
      rule runs_Nil)
    (simp_all add: TrashFileRequest_lookup assms [unfolded TrashFileRequest_good_def] at_most_one.simps(1))

lemma TrashFileRequest_round:
  assumes "TrashFileRequest_good m" "\<not> to_defaults opts"
  shows "\<exists>ps. TrashFileRequest_toObject (TrashFileRequest_obj m) (Some opts) = ok (plain ps) \<and>
    TrashFileRequest_fromObject (plain ps) = ok (TrashFileRequest_obj m)"
  unfolding TrashFileRequest_toObject_def TrashFileRequest_writers_def TrashFileRequest_fromObject_def TrashFileRequest_setters_def TrashFileRequest_obj_def
  by (rule round_trip, simp,
      rule all_yield_Cons, rule all_yield_Cons, rule all_yield_Nil,
      (rule string_plain.yields_opt [where x = "TrashFileRequest_path m"]; simp add: assms [unfolded TrashFileRequest_good_def] TrashFileRequest_lookup plain_keys),
      (rule yields_default(1); simp add: assms [unfolded TrashFileRequest_good_def] TrashFileRequest_lookup plain_keys),
      rule string_plain.build_opt [where x = "TrashFileRequest_path m" and opts = opts],
      rule build.simps(1) [THEN trans])
    (simp_all add: assms [unfolded TrashFileRequest_good_def] TrashFileRequest_lookup plain_keys TrashFileRequest_props_def)

lemma TrashFileRequest_guarded: "TrashFileRequest_verify v = ok None \<Longrightarrow> all_plain v \<Longrightarrow> \<exists>m. TrashFileRequest_fromObject v = ok m"
  unfolding TrashFileRequest_verify_def TrashFileRequest_checks_def TrashFileRequest_fromObject_def TrashFileRequest_setters_def
  by (rule guards_object, rule guards_Cons, rule guards_Nil,
      (rule string_plain.guard_opt(1), simp),
      assumption, assumption) simp

interpretation TrashFileRequest_plain: message_plain TrashFileRequest_obj TrashFileRequest_verify TrashFileRequest_fromObject TrashFileRequest_toObject TrashFileRequest_good
  by unfold_locales
    (use TrashFileRequest_accepts TrashFileRequest_round TrashFileRequest_guarded in \<open>auto simp: TrashFileRequest_obj_def TrashFileRequest_verify_def dest: verified_object\<close>)

subsection \<open>TrashFileResponse\<close>

definition TrashFileResponse_construct :: "js \<Rightarrow> js res" where
  "TrashFileResponse_construct = construct ''TrashFileResponse'' [] None"

definition TrashFileResponse_create :: "js \<Rightarrow> js res" where
  "TrashFileResponse_create properties = TrashFileResponse_construct properties"

definition TrashFileResponse_verify :: "js \<Rightarrow> string option res" where
  "TrashFileResponse_verify = verify_with []"

definition TrashFileResponse_fromObject :: "js \<Rightarrow> js res" where
  "TrashFileResponse_fromObject = from_object ''TrashFileResponse'' [] []"

definition TrashFileResponse_toObject :: "js \<Rightarrow> to_options option \<Rightarrow> js res" where
  "TrashFileResponse_toObject = to_object []"

definition TrashFileResponse_toJSON :: "js \<Rightarrow> js res" where
  "TrashFileResponse_toJSON message = TrashFileResponse_toObject message (Some toJSONOptions)"

definition TrashFileResponse_getTypeUrl :: "jstring option \<Rightarrow> jstring" where
  "TrashFileResponse_getTypeUrl = type_url ''TrashFileResponse''"

definition TrashFileResponse_props :: "TrashFileResponse \<Rightarrow> props" where
  "TrashFileResponse_props m =
     []"

definition TrashFileResponse_obj :: "TrashFileResponse \<Rightarrow> js" where
  "TrashFileResponse_obj m = Object ''TrashFileResponse'' (TrashFileResponse_props m)"

definition TrashFileResponse_good :: "TrashFileResponse \<Rightarrow> bool" where
  "TrashFileResponse_good m \<longleftrightarrow> True"

lemma TrashFileResponse_lookup:
  "\<not> shadows (TrashFileResponse_props m)"
  by (simp_all add: TrashFileResponse_props_def shadows_def)

lemma TrashFileResponse_accepts:
  assumes "TrashFileResponse_good m"
  shows "TrashFileResponse_verify (TrashFileResponse_obj m) = ok None"
  unfolding TrashFileResponse_verify_def TrashFileResponse_obj_def
  by (rule runs_verify [where members = "[]"],
      rule runs_Nil)
    (simp_all add: TrashFileResponse_lookup assms [unfolded TrashFileResponse_good_def] at_most_one.simps(1))

lemma TrashFileResponse_round:
  assumes "TrashFileResponse_good m" "\<not> to_defaults opts"
  shows "\<exists>ps. TrashFileResponse_toObject (TrashFileResponse_obj m) (Some opts) = ok (plain ps) \<and>
    TrashFileResponse_fromObject (plain ps) = ok (TrashFileResponse_obj m)"
  unfolding TrashFileResponse_toObject_def TrashFileResponse_fromObject_def TrashFileResponse_obj_def
  by (rule round_trip, simp,
      rule all_yield_Nil,
      rule build.simps(1) [THEN trans])
    (simp_all add: assms [unfolded TrashFileResponse_good_def] TrashFileResponse_lookup plain_keys TrashFileResponse_props_def)

lemma TrashFileResponse_guarded: "TrashFileResponse_verify v = ok None \<Longrightarrow> all_plain v \<Longrightarrow> \<exists>m. TrashFileResponse_fromObject v = ok m"
  unfolding TrashFileResponse_verify_def TrashFileResponse_fromObject_def
  by (rule guards_object, rule guards_Nil,
      assumption, assumption) simp

interpretation TrashFileResponse_plain: message_plain TrashFileResponse_obj TrashFileResponse_verify TrashFileResponse_fromObject TrashFileResponse_toObject TrashFileResponse_good
  by unfold_locales
    (use TrashFileResponse_accepts TrashFileResponse_round TrashFileResponse_guarded in \<open>auto simp: TrashFileResponse_obj_def TrashFileResponse_verify_def dest: verified_object\<close>)

subsection \<open>ListTrashRequest\<close>

definition ListTrashRequest_construct :: "js \<Rightarrow> js res" where
  "ListTrashRequest_construct = construct ''ListTrashRequest'' [] None"

definition ListTrashRequest_create :: "js \<Rightarrow> js res" where
  "ListTrashRequest_create properties = ListTrashRequest_construct properties"

definition ListTrashRequest_verify :: "js \<Rightarrow> string option res" where
  "ListTrashRequest_verify = verify_with []"

definition ListTrashRequest_fromObject :: "js \<Rightarrow> js res" where
  "ListTrashRequest_fromObject = from_object ''ListTrashRequest'' [] []"

definition ListTrashRequest_toObject :: "js \<Rightarrow> to_options option \<Rightarrow> js res" where
  "ListTrashRequest_toObject = to_object []"

definition ListTrashRequest_toJSON :: "js \<Rightarrow> js res" where
  "ListTrashRequest_toJSON message = ListTrashRequest_toObject message (Some toJSONOptions)"

definition ListTrashRequest_getTypeUrl :: "jstring option \<Rightarrow> jstring" where
  "ListTrashRequest_getTypeUrl = type_url ''ListTrashRequest''"

definition ListTrashRequest_props :: "ListTrashRequest \<Rightarrow> props" where
  "ListTrashRequest_props m =
     []"

definition ListTrashRequest_obj :: "ListTrashRequest \<Rightarrow> js" where
  "ListTrashRequest_obj m = Object ''ListTrashRequest'' (ListTrashRequest_props m)"

definition ListTrashRequest_good :: "ListTrashRequest \<Rightarrow> bool" where
  "ListTrashRequest_good m \<longleftrightarrow> True"

lemma ListTrashRequest_lookup:
  "\<not> shadows (ListTrashRequest_props m)"
  by (simp_all add: ListTrashRequest_props_def shadows_def)

lemma ListTrashRequest_accepts:
  assumes "ListTrashRequest_good m"
  shows "ListTrashRequest_verify (ListTrashRequest_obj m) = ok None"
  unfolding ListTrashRequest_verify_def ListTrashRequest_obj_def
  by (rule runs_verify [where members = "[]"],
      rule runs_Nil)
    (simp_all add: ListTrashRequest_lookup assms [unfolded ListTrashRequest_good_def] at_most_one.simps(1))

lemma ListTrashRequest_round:
  assumes "ListTrashRequest_good m" "\<not> to_defaults opts"
  shows "\<exists>ps. ListTrashRequest_toObject (ListTrashRequest_obj m) (Some opts) = ok (plain ps) \<and>
    ListTrashRequest_fromObject (plain ps) = ok (ListTrashRequest_obj m)"
  unfolding ListTrashRequest_toObject_def ListTrashRequest_fromObject_def ListTrashRequest_obj_def
  by (rule round_trip, simp,
      rule all_yield_Nil,
      rule build.simps(1) [THEN trans])
    (simp_all add: assms [unfolded ListTrashRequest_good_def] ListTrashRequest_lookup plain_keys ListTrashRequest_props_def)

lemma ListTrashRequest_guarded: "ListTrashRequest_verify v = ok None \<Longrightarrow> all_plain v \<Longrightarrow> \<exists>m. ListTrashRequest_fromObject v = ok m"
  unfolding ListTrashRequest_verify_def ListTrashRequest_fromObject_def
  by (rule guards_object, rule guards_Nil,
      assumption, assumption) simp

interpretation ListTrashRequest_plain: message_plain ListTrashRequest_obj ListTrashRequest_verify ListTrashRequest_fromObject ListTrashRequest_toObject ListTrashRequest_good
  by unfold_locales
    (use ListTrashRequest_accepts ListTrashRequest_round ListTrashRequest_guarded in \<open>auto simp: ListTrashRequest_obj_def ListTrashRequest_verify_def dest: verified_object\<close>)

subsection \<open>TrashEntry\<close>

definition TrashEntry_construct :: "js \<Rightarrow> js res" where
  "TrashEntry_construct = construct ''TrashEntry'' [] None"

definition TrashEntry_create :: "js \<Rightarrow> js res" where
  "TrashEntry_create properties = TrashEntry_construct properties"

definition TrashEntry_checks :: "check list" where
  "TrashEntry_checks =
     [v_field ''name'' v_string,
      v_field ''originalPath'' v_string,
      v_field ''deletionDate'' v_long,
      v_field ''sizeBytes'' v_long]"

definition TrashEntry_verify :: "js \<Rightarrow> string option res" where
  "TrashEntry_verify = verify_with TrashEntry_checks"

definition TrashEntry_setters :: "setter list" where
  "TrashEntry_setters =
     [f_field ''name'' c_string,
      f_field ''originalPath'' c_string,
      f_opt ''deletionDate'' (c_long False),
      f_opt ''sizeBytes'' (c_long False)]"

definition TrashEntry_fromObject :: "js \<Rightarrow> js res" where
  "TrashEntry_fromObject = from_object ''TrashEntry'' [] TrashEntry_setters"

definition TrashEntry_writers :: "writer list" where
  "TrashEntry_writers =
     [d_value ''name'' (String []),
      d_value ''originalPath'' (String []),
      d_long ''deletionDate'',
      d_long ''sizeBytes'',
      t_field ''name'' t_same,
      t_field ''originalPath'' t_same,
      t_field ''deletionDate'' (t_long False),
      t_field ''sizeBytes'' (t_long False)]"

definition TrashEntry_toObject :: "js \<Rightarrow> to_options option \<Rightarrow> js res" where
  "TrashEntry_toObject = to_object TrashEntry_writers"

definition TrashEntry_toJSON :: "js \<Rightarrow> js res" where
  "TrashEntry_toJSON message = TrashEntry_toObject message (Some toJSONOptions)"

definition TrashEntry_getTypeUrl :: "jstring option \<Rightarrow> jstring" where
  "TrashEntry_getTypeUrl = type_url ''TrashEntry''"

definition TrashEntry_props :: "TrashEntry \<Rightarrow> props" where
  "TrashEntry_props m =
     opt_prop ''name'' String (TrashEntry_name m) @
     opt_prop ''originalPath'' String (TrashEntry_originalPath m) @
     opt_prop ''deletionDate'' int_js (TrashEntry_deletionDate m) @
     opt_prop ''sizeBytes'' int_js (TrashEntry_sizeBytes m)"

definition TrashEntry_obj :: "TrashEntry \<Rightarrow> js" where
  "TrashEntry_obj m = Object ''TrashEntry'' (TrashEntry_props m)"

definition TrashEntry_good :: "TrashEntry \<Rightarrow> bool" where
  "TrashEntry_good m \<longleftrightarrow> opt_all int64_ok (TrashEntry_deletionDate m) \<and>
     opt_all int64_ok (TrashEntry_sizeBytes m)"

lemma TrashEntry_lookup:
  "lookup (TrashEntry_props m) ''name'' = map_option String (TrashEntry_name m)"
  "lookup (TrashEntry_props m) ''originalPath'' = map_option String (TrashEntry_originalPath m)"
  "lookup (TrashEntry_props m) ''deletionDate'' = map_option int_js (TrashEntry_deletionDate m)"
  "lookup (TrashEntry_props m) ''sizeBytes'' = map_option int_js (TrashEntry_sizeBytes m)"
  "\<not> shadows (TrashEntry_props m)"
  by (simp_all add: TrashEntry_props_def shadows_def)

lemma TrashEntry_accepts:
  assumes "TrashEntry_good m"
  shows "TrashEntry_verify (TrashEntry_obj m) = ok None"
  unfolding TrashEntry_verify_def TrashEntry_checks_def TrashEntry_obj_def
  by (rule runs_verify [where members = "[]"],
      rule string_plain.runs_opt [where x = "TrashEntry_name m"],
      rule string_plain.runs_opt [where x = "TrashEntry_originalPath m"],
      rule int64_plain.runs_opt [where x = "TrashEntry_deletionDate m"],
      rule int64_plain.runs_opt [where x = "TrashEntry_sizeBytes m"],
      rule runs_Nil)
    (simp_all add: TrashEntry_lookup assms [unfolded TrashEntry_good_def] at_most_one.simps(1))

lemma TrashEntry_round:
  assumes "TrashEntry_good m" "\<not> to_defaults opts"
  shows "\<exists>ps. TrashEntry_toObject (TrashEntry_obj m) (Some opts) = ok (plain ps) \<and>
    TrashEntry_fromObject (plain ps) = ok (TrashEntry_obj m)"
  unfolding TrashEntry_toObject_def TrashEntry_writers_def TrashEntry_fromObject_def TrashEntry_setters_def TrashEntry_obj_def
  by (rule round_trip, simp,
      rule all_yield_Cons, rule all_yield_Cons, rule all_yield_Cons, rule all_yield_Cons,
      rule all_yield_Cons, rule all_yield_Cons, rule all_yield_Cons, rule all_yield_Cons,
      rule all_yield_Nil,
      (rule int64_plain.yields_opt [where x = "TrashEntry_sizeBytes m"]; simp add: assms [unfolded TrashEntry_good_def] TrashEntry_lookup plain_keys),
      (rule int64_plain.yields_opt [where x = "TrashEntry_deletionDate m"]; simp add: assms [unfolded TrashEntry_good_def] TrashEntry_lookup plain_keys),
      (rule string_plain.yields_opt [where x = "TrashEntry_originalPath m"]; simp add: assms [unfolded TrashEntry_good_def] TrashEntry_lookup plain_keys),
      (rule string_plain.yields_opt [where x = "TrashEntry_name m"]; simp add: assms [unfolded TrashEntry_good_def] TrashEntry_lookup plain_keys),
      (rule yields_default(2); simp add: assms [unfolded TrashEntry_good_def] TrashEntry_lookup plain_keys),
      (rule yields_default(2); simp add: assms [unfolded TrashEntry_good_def] TrashEntry_lookup plain_keys),
      (rule yields_default(1); simp add: assms [unfolded TrashEntry_good_def] TrashEntry_lookup plain_keys),
      (rule yields_default(1); simp add: assms [unfolded TrashEntry_good_def] TrashEntry_lookup plain_keys),
      rule string_plain.build_opt [where x = "TrashEntry_name m" and opts = opts],
      rule string_plain.build_opt [where x = "TrashEntry_originalPath m" and opts = opts],
      rule int64_plain.build_opt [where x = "TrashEntry_deletionDate m" and opts = opts],
      rule int64_plain.build_opt [where x = "TrashEntry_sizeBytes m" and opts = opts],
      rule build.simps(1) [THEN trans])
    (simp_all add: assms [unfolded TrashEntry_good_def] TrashEntry_lookup plain_keys TrashEntry_props_def)

lemma TrashEntry_guarded: "TrashEntry_verify v = ok None \<Longrightarrow> all_plain v \<Longrightarrow> \<exists>m. TrashEntry_fromObject v = ok m"
  unfolding TrashEntry_verify_def TrashEntry_checks_def TrashEntry_fromObject_def TrashEntry_setters_def
  by (rule guards_object, rule guards_Cons, rule guards_Cons, rule guards_Cons, rule guards_Cons, rule
      guards_Nil,
      (rule int64_plain.guard_opt(1), simp),
      (rule int64_plain.guard_opt(1), simp),
      (rule string_plain.guard_opt(1), simp),
      (rule string_plain.guard_opt(1), simp),
      assumption, assumption) simp

interpretation TrashEntry_plain: message_plain TrashEntry_obj TrashEntry_verify TrashEntry_fromObject TrashEntry_toObject TrashEntry_good
  by unfold_locales
    (use TrashEntry_accepts TrashEntry_round TrashEntry_guarded in \<open>auto simp: TrashEntry_obj_def TrashEntry_verify_def dest: verified_object\<close>)

subsection \<open>ListTrashResponse\<close>

definition ListTrashResponse_init :: props where
  "ListTrashResponse_init = [(js_str ''entries'', Array [])]"

definition ListTrashResponse_construct :: "js \<Rightarrow> js res" where
  "ListTrashResponse_construct = construct ''ListTrashResponse'' ListTrashResponse_init None"

definition ListTrashResponse_create :: "js \<Rightarrow> js res" where
  "ListTrashResponse_create properties = ListTrashResponse_construct properties"

definition ListTrashResponse_checks :: "check list" where
  "ListTrashResponse_checks =
     [v_field ''entries'' (v_messages TrashEntry_verify)]"

definition ListTrashResponse_verify :: "js \<Rightarrow> string option res" where
  "ListTrashResponse_verify = verify_with ListTrashResponse_checks"

definition ListTrashResponse_setters :: "setter list" where
  "ListTrashResponse_setters =
     [f_truthy ''entries'' (c_array ''ListTrashResponse'' ''entries'' (c_message ''ListTrashResponse'' ''entries'' TrashEntry_fromObject))]"

definition ListTrashResponse_fromObject :: "js \<Rightarrow> js res" where
  "ListTrashResponse_fromObject = from_object ''ListTrashResponse'' ListTrashResponse_init ListTrashResponse_setters"

definition ListTrashResponse_writers :: "writer list" where
  "ListTrashResponse_writers =
     [d_array ''entries'',
      t_list ''entries'' (t_message TrashEntry_toObject)]"

definition ListTrashResponse_toObject :: "js \<Rightarrow> to_options option \<Rightarrow> js res" where
  "ListTrashResponse_toObject = to_object ListTrashResponse_writers"

definition ListTrashResponse_toJSON :: "js \<Rightarrow> js res" where
  "ListTrashResponse_toJSON message = ListTrashResponse_toObject message (Some toJSONOptions)"

definition ListTrashResponse_getTypeUrl :: "jstring option \<Rightarrow> jstring" where
  "ListTrashResponse_getTypeUrl = type_url ''ListTrashResponse''"

definition ListTrashResponse_props :: "ListTrashResponse \<Rightarrow> props" where
  "ListTrashResponse_props m =
     [(js_str ''entries'', Array (map TrashEntry_obj (ListTrashResponse_entries m)))]"

definition ListTrashResponse_obj :: "ListTrashResponse \<Rightarrow> js" where
  "ListTrashResponse_obj m = Object ''ListTrashResponse'' (ListTrashResponse_props m)"

definition ListTrashResponse_good :: "ListTrashResponse \<Rightarrow> bool" where
  "ListTrashResponse_good m \<longleftrightarrow> list_all TrashEntry_good (ListTrashResponse_entries m)"

lemma ListTrashResponse_lookup:
  "lookup (ListTrashResponse_props m) ''entries'' = Some (Array (map TrashEntry_obj (ListTrashResponse_entries m)))"
  "\<not> shadows (ListTrashResponse_props m)"
  by (simp_all add: ListTrashResponse_props_def shadows_def)

lemma ListTrashResponse_accepts:
  assumes "ListTrashResponse_good m"
  shows "ListTrashResponse_verify (ListTrashResponse_obj m) = ok None"
  unfolding ListTrashResponse_verify_def ListTrashResponse_checks_def ListTrashResponse_obj_def
  by (rule runs_verify [where members = "[]"],
      rule TrashEntry_plain.sub.runs_list [where xs = "ListTrashResponse_entries m"],
      rule runs_Nil)
    (simp_all add: ListTrashResponse_lookup assms [unfolded ListTrashResponse_good_def] at_most_one.simps(1))

lemma ListTrashResponse_round:
  assumes "ListTrashResponse_good m" "\<not> to_defaults opts"
  shows "\<exists>ps. ListTrashResponse_toObject (ListTrashResponse_obj m) (Some opts) = ok (plain ps) \<and>
    ListTrashResponse_fromObject (plain ps) = ok (ListTrashResponse_obj m)"
  unfolding ListTrashResponse_toObject_def ListTrashResponse_writers_def ListTrashResponse_fromObject_def ListTrashResponse_setters_def ListTrashResponse_obj_def
  by (rule round_trip, simp,
      rule all_yield_Cons, rule all_yield_Cons, rule all_yield_Nil,
      (rule TrashEntry_plain.sub.yields_list [where xs = "ListTrashResponse_entries m"]; simp add: assms [unfolded ListTrashResponse_good_def] ListTrashResponse_lookup plain_keys),
      (rule yields_array; simp add: assms [unfolded ListTrashResponse_good_def] ListTrashResponse_lookup plain_keys),
      rule TrashEntry_plain.sub.build_list [where xs = "ListTrashResponse_entries m" and opts = opts],
      rule build.simps(1) [THEN trans])
    (simp_all add: assms [unfolded ListTrashResponse_good_def] ListTrashResponse_lookup plain_keys ListTrashResponse_props_def ListTrashResponse_init_def)

lemma ListTrashResponse_guarded: "ListTrashResponse_verify v = ok None \<Longrightarrow> all_plain v \<Longrightarrow> \<exists>m. ListTrashResponse_fromObject v = ok m"
  unfolding ListTrashResponse_verify_def ListTrashResponse_checks_def ListTrashResponse_fromObject_def ListTrashResponse_setters_def
  by (rule guards_object, rule guards_Cons, rule guards_Nil,
      (rule TrashEntry_plain.sub.guard_list, simp),
      assumption, assumption) simp

interpretation ListTrashResponse_plain: message_plain ListTrashResponse_obj ListTrashResponse_verify ListTrashResponse_fromObject ListTrashResponse_toObject ListTrashResponse_good
  by unfold_locales
    (use ListTrashResponse_accepts ListTrashResponse_round ListTrashResponse_guarded in \<open>auto simp: ListTrashResponse_obj_def ListTrashResponse_verify_def dest: verified_object\<close>)

subsection \<open>RestoreTrashRequest\<close>

definition RestoreTrashRequest_construct :: "js \<Rightarrow> js res" where
  "RestoreTrashRequest_construct = construct ''RestoreTrashRequest'' [] None"

definition RestoreTrashRequest_create :: "js \<Rightarrow> js res" where
  "RestoreTrashRequest_create properties = RestoreTrashRequest_construct properties"

definition RestoreTrashRequest_checks :: "check list" where
  "RestoreTrashRequest_checks =
     [v_field ''trashName'' v_string]"

definition RestoreTrashRequest_verify :: "js \<Rightarrow> string option res" where
  "RestoreTrashRequest_verify = verify_with RestoreTrashRequest_checks"

definition RestoreTrashRequest_setters :: "setter list" where
  "RestoreTrashRequest_setters =
     [f_field ''trashName'' c_string]"

definition RestoreTrashRequest_fromObject :: "js \<Rightarrow> js res" where
  "RestoreTrashRequest_fromObject = from_object ''RestoreTrashRequest'' [] RestoreTrashRequest_setters"

definition RestoreTrashRequest_writers :: "writer list" where
  "RestoreTrashRequest_writers =
     [d_value ''trashName'' (String []),
      t_field ''trashName'' t_same]"

definition RestoreTrashRequest_toObject :: "js \<Rightarrow> to_options option \<Rightarrow> js res" where
  "RestoreTrashRequest_toObject = to_object RestoreTrashRequest_writers"

definition RestoreTrashRequest_toJSON :: "js \<Rightarrow> js res" where
  "RestoreTrashRequest_toJSON message = RestoreTrashRequest_toObject message (Some toJSONOptions)"

definition RestoreTrashRequest_getTypeUrl :: "jstring option \<Rightarrow> jstring" where
  "RestoreTrashRequest_getTypeUrl = type_url ''RestoreTrashRequest''"

definition RestoreTrashRequest_props :: "RestoreTrashRequest \<Rightarrow> props" where
  "RestoreTrashRequest_props m =
     opt_prop ''trashName'' String (RestoreTrashRequest_trashName m)"

definition RestoreTrashRequest_obj :: "RestoreTrashRequest \<Rightarrow> js" where
  "RestoreTrashRequest_obj m = Object ''RestoreTrashRequest'' (RestoreTrashRequest_props m)"

definition RestoreTrashRequest_good :: "RestoreTrashRequest \<Rightarrow> bool" where
  "RestoreTrashRequest_good m \<longleftrightarrow> True"

lemma RestoreTrashRequest_lookup:
  "lookup (RestoreTrashRequest_props m) ''trashName'' = map_option String (RestoreTrashRequest_trashName m)"
  "\<not> shadows (RestoreTrashRequest_props m)"
  by (simp_all add: RestoreTrashRequest_props_def shadows_def)

lemma RestoreTrashRequest_accepts:
  assumes "RestoreTrashRequest_good m"
  shows "RestoreTrashRequest_verify (RestoreTrashRequest_obj m) = ok None"
  unfolding RestoreTrashRequest_verify_def RestoreTrashRequest_checks_def RestoreTrashRequest_obj_def
  by (rule runs_verify [where members = "[]"],
      rule string_plain.runs_opt [where x = "RestoreTrashRequest_trashName m"],
      rule runs_Nil)
    (simp_all add: RestoreTrashRequest_lookup assms [unfolded RestoreTrashRequest_good_def] at_most_one.simps(1))

lemma RestoreTrashRequest_round:
  assumes "RestoreTrashRequest_good m" "\<not> to_defaults opts"
  shows "\<exists>ps. RestoreTrashRequest_toObject (RestoreTrashRequest_obj m) (Some opts) = ok (plain ps) \<and>
    RestoreTrashRequest_fromObject (plain ps) = ok (RestoreTrashRequest_obj m)"
  unfolding RestoreTrashRequest_toObject_def RestoreTrashRequest_writers_def RestoreTrashRequest_fromObject_def RestoreTrashRequest_setters_def RestoreTrashRequest_obj_def
  by (rule round_trip, simp,
      rule all_yield_Cons, rule all_yield_Cons, rule all_yield_Nil,
      (rule string_plain.yields_opt [where x = "RestoreTrashRequest_trashName m"]; simp add: assms [unfolded RestoreTrashRequest_good_def] RestoreTrashRequest_lookup plain_keys),
      (rule yields_default(1); simp add: assms [unfolded RestoreTrashRequest_good_def] RestoreTrashRequest_lookup plain_keys),
      rule string_plain.build_opt [where x = "RestoreTrashRequest_trashName m" and opts = opts],
      rule build.simps(1) [THEN trans])
    (simp_all add: assms [unfolded RestoreTrashRequest_good_def] RestoreTrashRequest_lookup plain_keys RestoreTrashRequest_props_def)

lemma RestoreTrashRequest_guarded: "RestoreTrashRequest_verify v = ok None \<Longrightarrow> all_plain v \<Longrightarrow> \<exists>m. RestoreTrashRequest_fromObject v = ok m"
  unfolding RestoreTrashRequest_verify_def RestoreTrashRequest_checks_def RestoreTrashRequest_fromObject_def RestoreTrashRequest_setters_def
  by (rule guards_object, rule guards_Cons, rule guards_Nil,
      (rule string_plain.guard_opt(1), simp),
      assumption, assumption) simp

interpretation RestoreTrashRequest_plain: message_plain RestoreTrashRequest_obj RestoreTrashRequest_verify RestoreTrashRequest_fromObject RestoreTrashRequest_toObject RestoreTrashRequest_good
  by unfold_locales
    (use RestoreTrashRequest_accepts RestoreTrashRequest_round RestoreTrashRequest_guarded in \<open>auto simp: RestoreTrashRequest_obj_def RestoreTrashRequest_verify_def dest: verified_object\<close>)

subsection \<open>RestoreTrashResponse\<close>

definition RestoreTrashResponse_construct :: "js \<Rightarrow> js res" where
  "RestoreTrashResponse_construct = construct ''RestoreTrashResponse'' [] None"

definition RestoreTrashResponse_create :: "js \<Rightarrow> js res" where
  "RestoreTrashResponse_create properties = RestoreTrashResponse_construct properties"

definition RestoreTrashResponse_verify :: "js \<Rightarrow> string option res" where
  "RestoreTrashResponse_verify = verify_with []"

definition RestoreTrashResponse_fromObject :: "js \<Rightarrow> js res" where
  "RestoreTrashResponse_fromObject = from_object ''RestoreTrashResponse'' [] []"

definition RestoreTrashResponse_toObject :: "js \<Rightarrow> to_options option \<Rightarrow> js res" where
  "RestoreTrashResponse_toObject = to_object []"

definition RestoreTrashResponse_toJSON :: "js \<Rightarrow> js res" where
  "RestoreTrashResponse_toJSON message = RestoreTrashResponse_toObject message (Some toJSONOptions)"

definition RestoreTrashResponse_getTypeUrl :: "jstring option \<Rightarrow> jstring" where
  "RestoreTrashResponse_getTypeUrl = type_url ''RestoreTrashResponse''"

definition RestoreTrashResponse_props :: "RestoreTrashResponse \<Rightarrow> props" where
  "RestoreTrashResponse_props m =
     []"

definition RestoreTrashResponse_obj :: "RestoreTrashResponse \<Rightarrow> js" where
  "RestoreTrashResponse_obj m = Object ''RestoreTrashResponse'' (RestoreTrashResponse_props m)"

definition RestoreTrashResponse_good :: "RestoreTrashResponse \<Rightarrow> bool" where
  "RestoreTrashResponse_good m \<longleftrightarrow> True"

lemma RestoreTrashResponse_lookup:
  "\<not> shadows (RestoreTrashResponse_props m)"
  by (simp_all add: RestoreTrashResponse_props_def shadows_def)

lemma RestoreTrashResponse_accepts:
  assumes "RestoreTrashResponse_good m"
  shows "RestoreTrashResponse_verify (RestoreTrashResponse_obj m) = ok None"
  unfolding RestoreTrashResponse_verify_def RestoreTrashResponse_obj_def
  by (rule runs_verify [where members = "[]"],
      rule runs_Nil)
    (simp_all add: RestoreTrashResponse_lookup assms [unfolded RestoreTrashResponse_good_def] at_most_one.simps(1))

lemma RestoreTrashResponse_round:
  assumes "RestoreTrashResponse_good m" "\<not> to_defaults opts"
  shows "\<exists>ps. RestoreTrashResponse_toObject (RestoreTrashResponse_obj m) (Some opts) = ok (plain ps) \<and>
    RestoreTrashResponse_fromObject (plain ps) = ok (RestoreTrashResponse_obj m)"
  unfolding RestoreTrashResponse_toObject_def RestoreTrashResponse_fromObject_def RestoreTrashResponse_obj_def
  by (rule round_trip, simp,
      rule all_yield_Nil,
      rule build.simps(1) [THEN trans])
    (simp_all add: assms [unfolded RestoreTrashResponse_good_def] RestoreTrashResponse_lookup plain_keys RestoreTrashResponse_props_def)

lemma RestoreTrashResponse_guarded: "RestoreTrashResponse_verify v = ok None \<Longrightarrow> all_plain v \<Longrightarrow> \<exists>m. RestoreTrashResponse_fromObject v = ok m"
  unfolding RestoreTrashResponse_verify_def RestoreTrashResponse_fromObject_def
  by (rule guards_object, rule guards_Nil,
      assumption, assumption) simp

interpretation RestoreTrashResponse_plain: message_plain RestoreTrashResponse_obj RestoreTrashResponse_verify RestoreTrashResponse_fromObject RestoreTrashResponse_toObject RestoreTrashResponse_good
  by unfold_locales
    (use RestoreTrashResponse_accepts RestoreTrashResponse_round RestoreTrashResponse_guarded in \<open>auto simp: RestoreTrashResponse_obj_def RestoreTrashResponse_verify_def dest: verified_object\<close>)

subsection \<open>EmptyTrashRequest\<close>

definition EmptyTrashRequest_construct :: "js \<Rightarrow> js res" where
  "EmptyTrashRequest_construct = construct ''EmptyTrashRequest'' [] None"

definition EmptyTrashRequest_create :: "js \<Rightarrow> js res" where
  "EmptyTrashRequest_create properties = EmptyTrashRequest_construct properties"

definition EmptyTrashRequest_verify :: "js \<Rightarrow> string option res" where
  "EmptyTrashRequest_verify = verify_with []"

definition EmptyTrashRequest_fromObject :: "js \<Rightarrow> js res" where
  "EmptyTrashRequest_fromObject = from_object ''EmptyTrashRequest'' [] []"

definition EmptyTrashRequest_toObject :: "js \<Rightarrow> to_options option \<Rightarrow> js res" where
  "EmptyTrashRequest_toObject = to_object []"

definition EmptyTrashRequest_toJSON :: "js \<Rightarrow> js res" where
  "EmptyTrashRequest_toJSON message = EmptyTrashRequest_toObject message (Some toJSONOptions)"

definition EmptyTrashRequest_getTypeUrl :: "jstring option \<Rightarrow> jstring" where
  "EmptyTrashRequest_getTypeUrl = type_url ''EmptyTrashRequest''"

definition EmptyTrashRequest_props :: "EmptyTrashRequest \<Rightarrow> props" where
  "EmptyTrashRequest_props m =
     []"

definition EmptyTrashRequest_obj :: "EmptyTrashRequest \<Rightarrow> js" where
  "EmptyTrashRequest_obj m = Object ''EmptyTrashRequest'' (EmptyTrashRequest_props m)"

definition EmptyTrashRequest_good :: "EmptyTrashRequest \<Rightarrow> bool" where
  "EmptyTrashRequest_good m \<longleftrightarrow> True"

lemma EmptyTrashRequest_lookup:
  "\<not> shadows (EmptyTrashRequest_props m)"
  by (simp_all add: EmptyTrashRequest_props_def shadows_def)

lemma EmptyTrashRequest_accepts:
  assumes "EmptyTrashRequest_good m"
  shows "EmptyTrashRequest_verify (EmptyTrashRequest_obj m) = ok None"
  unfolding EmptyTrashRequest_verify_def EmptyTrashRequest_obj_def
  by (rule runs_verify [where members = "[]"],
      rule runs_Nil)
    (simp_all add: EmptyTrashRequest_lookup assms [unfolded EmptyTrashRequest_good_def] at_most_one.simps(1))

lemma EmptyTrashRequest_round:
  assumes "EmptyTrashRequest_good m" "\<not> to_defaults opts"
  shows "\<exists>ps. EmptyTrashRequest_toObject (EmptyTrashRequest_obj m) (Some opts) = ok (plain ps) \<and>
    EmptyTrashRequest_fromObject (plain ps) = ok (EmptyTrashRequest_obj m)"
  unfolding EmptyTrashRequest_toObject_def EmptyTrashRequest_fromObject_def EmptyTrashRequest_obj_def
  by (rule round_trip, simp,
      rule all_yield_Nil,
      rule build.simps(1) [THEN trans])
    (simp_all add: assms [unfolded EmptyTrashRequest_good_def] EmptyTrashRequest_lookup plain_keys EmptyTrashRequest_props_def)

lemma EmptyTrashRequest_guarded: "EmptyTrashRequest_verify v = ok None \<Longrightarrow> all_plain v \<Longrightarrow> \<exists>m. EmptyTrashRequest_fromObject v = ok m"
  unfolding EmptyTrashRequest_verify_def EmptyTrashRequest_fromObject_def
  by (rule guards_object, rule guards_Nil,
      assumption, assumption) simp

interpretation EmptyTrashRequest_plain: message_plain EmptyTrashRequest_obj EmptyTrashRequest_verify EmptyTrashRequest_fromObject EmptyTrashRequest_toObject EmptyTrashRequest_good
  by unfold_locales
    (use EmptyTrashRequest_accepts EmptyTrashRequest_round EmptyTrashRequest_guarded in \<open>auto simp: EmptyTrashRequest_obj_def EmptyTrashRequest_verify_def dest: verified_object\<close>)

subsection \<open>EmptyTrashResponse\<close>

definition EmptyTrashResponse_construct :: "js \<Rightarrow> js res" where
  "EmptyTrashResponse_construct = construct ''EmptyTrashResponse'' [] None"

definition EmptyTrashResponse_create :: "js \<Rightarrow> js res" where
  "EmptyTrashResponse_create properties = EmptyTrashResponse_construct properties"

definition EmptyTrashResponse_verify :: "js \<Rightarrow> string option res" where
  "EmptyTrashResponse_verify = verify_with []"

definition EmptyTrashResponse_fromObject :: "js \<Rightarrow> js res" where
  "EmptyTrashResponse_fromObject = from_object ''EmptyTrashResponse'' [] []"

definition EmptyTrashResponse_toObject :: "js \<Rightarrow> to_options option \<Rightarrow> js res" where
  "EmptyTrashResponse_toObject = to_object []"

definition EmptyTrashResponse_toJSON :: "js \<Rightarrow> js res" where
  "EmptyTrashResponse_toJSON message = EmptyTrashResponse_toObject message (Some toJSONOptions)"

definition EmptyTrashResponse_getTypeUrl :: "jstring option \<Rightarrow> jstring" where
  "EmptyTrashResponse_getTypeUrl = type_url ''EmptyTrashResponse''"

definition EmptyTrashResponse_props :: "EmptyTrashResponse \<Rightarrow> props" where
  "EmptyTrashResponse_props m =
     []"

definition EmptyTrashResponse_obj :: "EmptyTrashResponse \<Rightarrow> js" where
  "EmptyTrashResponse_obj m = Object ''EmptyTrashResponse'' (EmptyTrashResponse_props m)"

definition EmptyTrashResponse_good :: "EmptyTrashResponse \<Rightarrow> bool" where
  "EmptyTrashResponse_good m \<longleftrightarrow> True"

lemma EmptyTrashResponse_lookup:
  "\<not> shadows (EmptyTrashResponse_props m)"
  by (simp_all add: EmptyTrashResponse_props_def shadows_def)

lemma EmptyTrashResponse_accepts:
  assumes "EmptyTrashResponse_good m"
  shows "EmptyTrashResponse_verify (EmptyTrashResponse_obj m) = ok None"
  unfolding EmptyTrashResponse_verify_def EmptyTrashResponse_obj_def
  by (rule runs_verify [where members = "[]"],
      rule runs_Nil)
    (simp_all add: EmptyTrashResponse_lookup assms [unfolded EmptyTrashResponse_good_def] at_most_one.simps(1))

lemma EmptyTrashResponse_round:
  assumes "EmptyTrashResponse_good m" "\<not> to_defaults opts"
  shows "\<exists>ps. EmptyTrashResponse_toObject (EmptyTrashResponse_obj m) (Some opts) = ok (plain ps) \<and>
    EmptyTrashResponse_fromObject (plain ps) = ok (EmptyTrashResponse_obj m)"
  unfolding EmptyTrashResponse_toObject_def EmptyTrashResponse_fromObject_def EmptyTrashResponse_obj_def
  by (rule round_trip, simp,
      rule all_yield_Nil,
      rule build.simps(1) [THEN trans])
    (simp_all add: assms [unfolded EmptyTrashResponse_good_def] EmptyTrashResponse_lookup plain_keys EmptyTrashResponse_props_def)

lemma EmptyTrashResponse_guarded: "EmptyTrashResponse_verify v = ok None \<Longrightarrow> all_plain v \<Longrightarrow> \<exists>m. EmptyTrashResponse_fromObject v = ok m"
  unfolding EmptyTrashResponse_verify_def EmptyTrashResponse_fromObject_def
  by (rule guards_object, rule guards_Nil,
      assumption, assumption) simp

interpretation EmptyTrashResponse_plain: message_plain EmptyTrashResponse_obj EmptyTrashResponse_verify EmptyTrashResponse_fromObject EmptyTrashResponse_toObject EmptyTrashResponse_good
  by unfold_locales
    (use EmptyTrashResponse_accepts EmptyTrashResponse_round EmptyTrashResponse_guarded in \<open>auto simp: EmptyTrashResponse_obj_def EmptyTrashResponse_verify_def dest: verified_object\<close>)

end
