(* ===== verification/DesktopPlain.thy ===== *)
theory DesktopPlain
  imports Desktop PlainFields
begin

text \<open>
  Construction, checking and plain objects for the messages of the desktop integration. For each class \<open>X\<close>:
  \<open>X_construct\<close> and \<open>X_create\<close>, \<open>X_verify\<close>, \<open>X_fromObject\<close>, \<open>X_toObject\<close>, \<open>X_toJSON\<close> and
  \<open>X_getTypeUrl\<close> are the methods, over arbitrary values; the lists \<open>X_checks\<close>, \<open>X_setters\<close> and
  \<open>X_writers\<close> are the statements of \<open>verify\<close>, \<open>fromObject\<close> and \<open>toObject\<close> for the single fields. \<open>X_obj m\<close> is the instance that holds the message
  \<open>m\<close> of the typed model and \<open>X_good\<close> says that its integers fit their fields, its maps are objects and
  at most one member of a oneof is set. The interpretation of \<open>message_plain\<close> shows that such an instance
  passes \<open>verify\<close>, that \<open>fromObject\<close> takes its plain form back to it, and that \<open>fromObject\<close> does not
  throw on plain objects that pass \<open>verify\<close>.
\<close>

subsection \<open>ListPlacesRequest\<close>

definition ListPlacesRequest_construct :: "js \<Rightarrow> js res" where
  "ListPlacesRequest_construct = construct ''ListPlacesRequest'' [] None"

definition ListPlacesRequest_create :: "js \<Rightarrow> js res" where
  "ListPlacesRequest_create properties = ListPlacesRequest_construct properties"

definition ListPlacesRequest_verify :: "js \<Rightarrow> string option res" where
  "ListPlacesRequest_verify = verify_with []"

definition ListPlacesRequest_fromObject :: "js \<Rightarrow> js res" where
  "ListPlacesRequest_fromObject = from_object ''ListPlacesRequest'' [] []"

definition ListPlacesRequest_toObject :: "js \<Rightarrow> to_options option \<Rightarrow> js res" where
  "ListPlacesRequest_toObject = to_object []"

definition ListPlacesRequest_toJSON :: "js \<Rightarrow> js res" where
  "ListPlacesRequest_toJSON message = ListPlacesRequest_toObject message (Some toJSONOptions)"

definition ListPlacesRequest_getTypeUrl :: "jstring option \<Rightarrow> jstring" where
  "ListPlacesRequest_getTypeUrl = type_url ''ListPlacesRequest''"

definition ListPlacesRequest_props :: "ListPlacesRequest \<Rightarrow> props" where
  "ListPlacesRequest_props m =
     []"

definition ListPlacesRequest_obj :: "ListPlacesRequest \<Rightarrow> js" where
  "ListPlacesRequest_obj m = Object ''ListPlacesRequest'' (ListPlacesRequest_props m)"

definition ListPlacesRequest_good :: "ListPlacesRequest \<Rightarrow> bool" where
  "ListPlacesRequest_good m \<longleftrightarrow> True"

lemma ListPlacesRequest_lookup:
  "\<not> shadows (ListPlacesRequest_props m)"
  by (simp_all add: ListPlacesRequest_props_def shadows_def)

lemma ListPlacesRequest_accepts:
  assumes "ListPlacesRequest_good m"
  shows "ListPlacesRequest_verify (ListPlacesRequest_obj m) = ok None"
  unfolding ListPlacesRequest_verify_def ListPlacesRequest_obj_def
  by (rule runs_verify [where members = "[]"],
      rule runs_Nil)
    (simp_all add: ListPlacesRequest_lookup assms [unfolded ListPlacesRequest_good_def] at_most_one.simps(1))

lemma ListPlacesRequest_round:
  assumes "ListPlacesRequest_good m" "\<not> to_defaults opts"
  shows "\<exists>ps. ListPlacesRequest_toObject (ListPlacesRequest_obj m) (Some opts) = ok (plain ps) \<and>
    ListPlacesRequest_fromObject (plain ps) = ok (ListPlacesRequest_obj m)"
  unfolding ListPlacesRequest_toObject_def ListPlacesRequest_fromObject_def ListPlacesRequest_obj_def
  by (rule round_trip, simp,
      rule all_yield_Nil,
      rule build.simps(1) [THEN trans])
    (simp_all add: assms [unfolded ListPlacesRequest_good_def] ListPlacesRequest_lookup plain_keys ListPlacesRequest_props_def)

lemma ListPlacesRequest_guarded: "ListPlacesRequest_verify v = ok None \<Longrightarrow> all_plain v \<Longrightarrow> \<exists>m. ListPlacesRequest_fromObject v = ok m"
  unfolding ListPlacesRequest_verify_def ListPlacesRequest_fromObject_def
  by (rule guards_object, rule guards_Nil,
      assumption, assumption) simp

interpretation ListPlacesRequest_plain: message_plain ListPlacesRequest_obj ListPlacesRequest_verify ListPlacesRequest_fromObject ListPlacesRequest_toObject ListPlacesRequest_good
  by unfold_locales
    (use ListPlacesRequest_accepts ListPlacesRequest_round ListPlacesRequest_guarded in \<open>auto simp: ListPlacesRequest_obj_def ListPlacesRequest_verify_def dest: verified_object\<close>)

subsection \<open>PlaceEntry\<close>

definition PlaceEntry_construct :: "js \<Rightarrow> js res" where
  "PlaceEntry_construct = construct ''PlaceEntry'' [] None"

definition PlaceEntry_create :: "js \<Rightarrow> js res" where
  "PlaceEntry_create properties = PlaceEntry_construct properties"

definition PlaceEntry_checks :: "check list" where
  "PlaceEntry_checks =
     [v_field ''name'' v_string,
      v_field ''path'' v_string,
      v_field ''pinned'' v_bool,
      v_field ''iconName'' v_string]"

definition PlaceEntry_verify :: "js \<Rightarrow> string option res" where
  "PlaceEntry_verify = verify_with PlaceEntry_checks"

definition PlaceEntry_setters :: "setter list" where
  "PlaceEntry_setters =
     [f_field ''name'' c_string,
      f_field ''path'' c_string,
      f_field ''pinned'' c_bool,
      f_field ''iconName'' c_string]"

definition PlaceEntry_fromObject :: "js \<Rightarrow> js res" where
  "PlaceEntry_fromObject = from_object ''PlaceEntry'' [] PlaceEntry_setters"

definition PlaceEntry_writers :: "writer list" where
  "PlaceEntry_writers =
     [d_value ''name'' (String []),
      d_value ''path'' (String []),
      d_value ''pinned'' (Boolean False),
      d_value ''iconName'' (String []),
      t_field ''name'' t_same,
      t_field ''path'' t_same,
      t_field ''pinned'' t_same,
      t_field ''iconName'' t_same]"

definition PlaceEntry_toObject :: "js \<Rightarrow> to_options option \<Rightarrow> js res" where
  "PlaceEntry_toObject = to_object PlaceEntry_writers"

definition PlaceEntry_toJSON :: "js \<Rightarrow> js res" where
  "PlaceEntry_toJSON message = PlaceEntry_toObject message (Some toJSONOptions)"

definition PlaceEntry_getTypeUrl :: "jstring option \<Rightarrow> jstring" where
  "PlaceEntry_getTypeUrl = type_url ''PlaceEntry''"

definition PlaceEntry_props :: "PlaceEntry \<Rightarrow> props" where
  "PlaceEntry_props m =
     opt_prop ''name'' String (PlaceEntry_name m) @
     opt_prop ''path'' String (PlaceEntry_path m) @
     opt_prop ''pinned'' Boolean (PlaceEntry_pinned m) @
     opt_prop ''iconName'' String (PlaceEntry_iconName m)"

definition PlaceEntry_obj :: "PlaceEntry \<Rightarrow> js" where
  "PlaceEntry_obj m = Object ''PlaceEntry'' (PlaceEntry_props m)"

definition PlaceEntry_good :: "PlaceEntry \<Rightarrow> bool" where
  "PlaceEntry_good m \<longleftrightarrow> True"

lemma PlaceEntry_lookup:
  "lookup (PlaceEntry_props m) ''name'' = map_option String (PlaceEntry_name m)"
  "lookup (PlaceEntry_props m) ''path'' = map_option String (PlaceEntry_path m)"
  "lookup (PlaceEntry_props m) ''pinned'' = map_option Boolean (PlaceEntry_pinned m)"
  "lookup (PlaceEntry_props m) ''iconName'' = map_option String (PlaceEntry_iconName m)"
  "\<not> shadows (PlaceEntry_props m)"
  by (simp_all add: PlaceEntry_props_def shadows_def)

lemma PlaceEntry_accepts:
  assumes "PlaceEntry_good m"
  shows "PlaceEntry_verify (PlaceEntry_obj m) = ok None"
  unfolding PlaceEntry_verify_def PlaceEntry_checks_def PlaceEntry_obj_def
  by (rule runs_verify [where members = "[]"],
      rule string_plain.runs_opt [where x = "PlaceEntry_name m"],
      rule string_plain.runs_opt [where x = "PlaceEntry_path m"],
      rule bool_plain.runs_opt [where x = "PlaceEntry_pinned m"],
      rule string_plain.runs_opt [where x = "PlaceEntry_iconName m"],
      rule runs_Nil)
    (simp_all add: PlaceEntry_lookup assms [unfolded PlaceEntry_good_def] at_most_one.simps(1))

lemma PlaceEntry_round:
  assumes "PlaceEntry_good m" "\<not> to_defaults opts"
  shows "\<exists>ps. PlaceEntry_toObject (PlaceEntry_obj m) (Some opts) = ok (plain ps) \<and>
    PlaceEntry_fromObject (plain ps) = ok (PlaceEntry_obj m)"
  unfolding PlaceEntry_toObject_def PlaceEntry_writers_def PlaceEntry_fromObject_def PlaceEntry_setters_def PlaceEntry_obj_def
  by (rule round_trip, simp,
      rule all_yield_Cons, rule all_yield_Cons, rule all_yield_Cons, rule all_yield_Cons,
      rule all_yield_Cons, rule all_yield_Cons, rule all_yield_Cons, rule all_yield_Cons,
      rule all_yield_Nil,
      (rule string_plain.yields_opt [where x = "PlaceEntry_iconName m"]; simp add: assms [unfolded PlaceEntry_good_def] PlaceEntry_lookup plain_keys),
      (rule bool_plain.yields_opt [where x = "PlaceEntry_pinned m"]; simp add: assms [unfolded PlaceEntry_good_def] PlaceEntry_lookup plain_keys),
      (rule string_plain.yields_opt [where x = "PlaceEntry_path m"]; simp add: assms [unfolded PlaceEntry_good_def] PlaceEntry_lookup plain_keys),
      (rule string_plain.yields_opt [where x = "PlaceEntry_name m"]; simp add: assms [unfolded PlaceEntry_good_def] PlaceEntry_lookup plain_keys),
      (rule yields_default(1); simp add: assms [unfolded PlaceEntry_good_def] PlaceEntry_lookup plain_keys),
      (rule yields_default(1); simp add: assms [unfolded PlaceEntry_good_def] PlaceEntry_lookup plain_keys),
      (rule yields_default(1); simp add: assms [unfolded PlaceEntry_good_def] PlaceEntry_lookup plain_keys),
      (rule yields_default(1); simp add: assms [unfolded PlaceEntry_good_def] PlaceEntry_lookup plain_keys),
      rule string_plain.build_opt [where x = "PlaceEntry_name m" and opts = opts],
      rule string_plain.build_opt [where x = "PlaceEntry_path m" and opts = opts],
      rule bool_plain.build_opt [where x = "PlaceEntry_pinned m" and opts = opts],
      rule string_plain.build_opt [where x = "PlaceEntry_iconName m" and opts = opts],
      rule build.simps(1) [THEN trans])
    (simp_all add: assms [unfolded PlaceEntry_good_def] PlaceEntry_lookup plain_keys PlaceEntry_props_def)

lemma PlaceEntry_guarded: "PlaceEntry_verify v = ok None \<Longrightarrow> all_plain v \<Longrightarrow> \<exists>m. PlaceEntry_fromObject v = ok m"
  unfolding PlaceEntry_verify_def PlaceEntry_checks_def PlaceEntry_fromObject_def PlaceEntry_setters_def
  by (rule guards_object, rule guards_Cons, rule guards_Cons, rule guards_Cons, rule guards_Cons, rule
      guards_Nil,
      (rule string_plain.guard_opt(1), simp),
      (rule bool_plain.guard_opt(1), simp),
      (rule string_plain.guard_opt(1), simp),
      (rule string_plain.guard_opt(1), simp),
      assumption, assumption) simp

interpretation PlaceEntry_plain: message_plain PlaceEntry_obj PlaceEntry_verify PlaceEntry_fromObject PlaceEntry_toObject PlaceEntry_good
  by unfold_locales
    (use PlaceEntry_accepts PlaceEntry_round PlaceEntry_guarded in \<open>auto simp: PlaceEntry_obj_def PlaceEntry_verify_def dest: verified_object\<close>)

subsection \<open>ListPlacesResponse\<close>

definition ListPlacesResponse_init :: props where
  "ListPlacesResponse_init = [(js_str ''places'', Array [])]"

definition ListPlacesResponse_construct :: "js \<Rightarrow> js res" where
  "ListPlacesResponse_construct = construct ''ListPlacesResponse'' ListPlacesResponse_init None"

definition ListPlacesResponse_create :: "js \<Rightarrow> js res" where
  "ListPlacesResponse_create properties = ListPlacesResponse_construct properties"

definition ListPlacesResponse_checks :: "check list" where
  "ListPlacesResponse_checks =
     [v_field ''places'' (v_messages PlaceEntry_verify)]"

definition ListPlacesResponse_verify :: "js \<Rightarrow> string option res" where
  "ListPlacesResponse_verify = verify_with ListPlacesResponse_checks"

definition ListPlacesResponse_setters :: "setter list" where
  "ListPlacesResponse_setters =
     [f_truthy ''places'' (c_array ''ListPlacesResponse'' ''places'' (c_message ''ListPlacesResponse'' ''places'' PlaceEntry_fromObject))]"

definition ListPlacesResponse_fromObject :: "js \<Rightarrow> js res" where
  "ListPlacesResponse_fromObject = from_object ''ListPlacesResponse'' ListPlacesResponse_init ListPlacesResponse_setters"

definition ListPlacesResponse_writers :: "writer list" where
  "ListPlacesResponse_writers =
     [d_array ''places'',
      t_list ''places'' (t_message PlaceEntry_toObject)]"

definition ListPlacesResponse_toObject :: "js \<Rightarrow> to_options option \<Rightarrow> js res" where
  "ListPlacesResponse_toObject = to_object ListPlacesResponse_writers"

definition ListPlacesResponse_toJSON :: "js \<Rightarrow> js res" where
  "ListPlacesResponse_toJSON message = ListPlacesResponse_toObject message (Some toJSONOptions)"

definition ListPlacesResponse_getTypeUrl :: "jstring option \<Rightarrow> jstring" where
  "ListPlacesResponse_getTypeUrl = type_url ''ListPlacesResponse''"

definition ListPlacesResponse_props :: "ListPlacesResponse \<Rightarrow> props" where
  "ListPlacesResponse_props m =
     [(js_str ''places'', Array (map PlaceEntry_obj (ListPlacesResponse_places m)))]"

definition ListPlacesResponse_obj :: "ListPlacesResponse \<Rightarrow> js" where
  "ListPlacesResponse_obj m = Object ''ListPlacesResponse'' (ListPlacesResponse_props m)"

definition ListPlacesResponse_good :: "ListPlacesResponse \<Rightarrow> bool" where
  "ListPlacesResponse_good m \<longleftrightarrow> list_all PlaceEntry_good (ListPlacesResponse_places m)"

lemma ListPlacesResponse_lookup:
  "lookup (ListPlacesResponse_props m) ''places'' = Some (Array (map PlaceEntry_obj (ListPlacesResponse_places m)))"
  "\<not> shadows (ListPlacesResponse_props m)"
  by (simp_all add: ListPlacesResponse_props_def shadows_def)

lemma ListPlacesResponse_accepts:
  assumes "ListPlacesResponse_good m"
  shows "ListPlacesResponse_verify (ListPlacesResponse_obj m) = ok None"
  unfolding ListPlacesResponse_verify_def ListPlacesResponse_checks_def ListPlacesResponse_obj_def
  by (rule runs_verify [where members = "[]"],
      rule PlaceEntry_plain.sub.runs_list [where xs = "ListPlacesResponse_places m"],
      rule runs_Nil)
    (simp_all add: ListPlacesResponse_lookup assms [unfolded ListPlacesResponse_good_def] at_most_one.simps(1))

lemma ListPlacesResponse_round:
  assumes "ListPlacesResponse_good m" "\<not> to_defaults opts"
  shows "\<exists>ps. ListPlacesResponse_toObject (ListPlacesResponse_obj m) (Some opts) = ok (plain ps) \<and>
    ListPlacesResponse_fromObject (plain ps) = ok (ListPlacesResponse_obj m)"
  unfolding ListPlacesResponse_toObject_def ListPlacesResponse_writers_def ListPlacesResponse_fromObject_def ListPlacesResponse_setters_def ListPlacesResponse_obj_def
  by (rule round_trip, simp,
      rule all_yield_Cons, rule all_yield_Cons, rule all_yield_Nil,
      (rule PlaceEntry_plain.sub.yields_list [where xs = "ListPlacesResponse_places m"]; simp add: assms [unfolded ListPlacesResponse_good_def] ListPlacesResponse_lookup plain_keys),
      (rule yields_array; simp add: assms [unfolded ListPlacesResponse_good_def] ListPlacesResponse_lookup plain_keys),
      rule PlaceEntry_plain.sub.build_list [where xs = "ListPlacesResponse_places m" and opts = opts],
      rule build.simps(1) [THEN trans])
    (simp_all add: assms [unfolded ListPlacesResponse_good_def] ListPlacesResponse_lookup plain_keys ListPlacesResponse_props_def ListPlacesResponse_init_def)

lemma ListPlacesResponse_guarded: "ListPlacesResponse_verify v = ok None \<Longrightarrow> all_plain v \<Longrightarrow> \<exists>m. ListPlacesResponse_fromObject v = ok m"
  unfolding ListPlacesResponse_verify_def ListPlacesResponse_checks_def ListPlacesResponse_fromObject_def ListPlacesResponse_setters_def
  by (rule guards_object, rule guards_Cons, rule guards_Nil,
      (rule PlaceEntry_plain.sub.guard_list, simp),
      assumption, assumption) simp

interpretation ListPlacesResponse_plain: message_plain ListPlacesResponse_obj ListPlacesResponse_verify ListPlacesResponse_fromObject ListPlacesResponse_toObject ListPlacesResponse_good
  by unfold_locales
    (use ListPlacesResponse_accepts ListPlacesResponse_round ListPlacesResponse_guarded in \<open>auto simp: ListPlacesResponse_obj_def ListPlacesResponse_verify_def dest: verified_object\<close>)

subsection \<open>PinPlaceRequest\<close>

definition PinPlaceRequest_construct :: "js \<Rightarrow> js res" where
  "PinPlaceRequest_construct = construct ''PinPlaceRequest'' [] None"

definition PinPlaceRequest_create :: "js \<Rightarrow> js res" where
  "PinPlaceRequest_create properties = PinPlaceRequest_construct properties"

definition PinPlaceRequest_checks :: "check list" where
  "PinPlaceRequest_checks =
     [v_field ''name'' v_string,
      v_field ''path'' v_string,
      v_field ''iconName'' v_string]"

definition PinPlaceRequest_verify :: "js \<Rightarrow> string option res" where
  "PinPlaceRequest_verify = verify_with PinPlaceRequest_checks"

definition PinPlaceRequest_setters :: "setter list" where
  "PinPlaceRequest_setters =
     [f_field ''name'' c_string,
      f_field ''path'' c_string,
      f_field ''iconName'' c_string]"

definition PinPlaceRequest_fromObject :: "js \<Rightarrow> js res" where
  "PinPlaceRequest_fromObject = from_object ''PinPlaceRequest'' [] PinPlaceRequest_setters"

definition PinPlaceRequest_writers :: "writer list" where
  "PinPlaceRequest_writers =
     [d_value ''name'' (String []),
      d_value ''path'' (String []),
      d_value ''iconName'' (String []),
      t_field ''name'' t_same,
      t_field ''path'' t_same,
      t_field ''iconName'' t_same]"

definition PinPlaceRequest_toObject :: "js \<Rightarrow> to_options option \<Rightarrow> js res" where
  "PinPlaceRequest_toObject = to_object PinPlaceRequest_writers"

definition PinPlaceRequest_toJSON :: "js \<Rightarrow> js res" where
  "PinPlaceRequest_toJSON message = PinPlaceRequest_toObject message (Some toJSONOptions)"

definition PinPlaceRequest_getTypeUrl :: "jstring option \<Rightarrow> jstring" where
  "PinPlaceRequest_getTypeUrl = type_url ''PinPlaceRequest''"

definition PinPlaceRequest_props :: "PinPlaceRequest \<Rightarrow> props" where
  "PinPlaceRequest_props m =
     opt_prop ''name'' String (PinPlaceRequest_name m) @
     opt_prop ''path'' String (PinPlaceRequest_path m) @
     opt_prop ''iconName'' String (PinPlaceRequest_iconName m)"

definition PinPlaceRequest_obj :: "PinPlaceRequest \<Rightarrow> js" where
  "PinPlaceRequest_obj m = Object ''PinPlaceRequest'' (PinPlaceRequest_props m)"

definition PinPlaceRequest_good :: "PinPlaceRequest \<Rightarrow> bool" where
  "PinPlaceRequest_good m \<longleftrightarrow> True"

lemma PinPlaceRequest_lookup:
  "lookup (PinPlaceRequest_props m) ''name'' = map_option String (PinPlaceRequest_name m)"
  "lookup (PinPlaceRequest_props m) ''path'' = map_option String (PinPlaceRequest_path m)"
  "lookup (PinPlaceRequest_props m) ''iconName'' = map_option String (PinPlaceRequest_iconName m)"
  "\<not> shadows (PinPlaceRequest_props m)"
  by (simp_all add: PinPlaceRequest_props_def shadows_def)

lemma PinPlaceRequest_accepts:
  assumes "PinPlaceRequest_good m"
  shows "PinPlaceRequest_verify (PinPlaceRequest_obj m) = ok None"
  unfolding PinPlaceRequest_verify_def PinPlaceRequest_checks_def PinPlaceRequest_obj_def
  by (rule runs_verify [where members = "[]"],
      rule string_plain.runs_opt [where x = "PinPlaceRequest_name m"],
      rule string_plain.runs_opt [where x = "PinPlaceRequest_path m"],
      rule string_plain.runs_opt [where x = "PinPlaceRequest_iconName m"],
      rule runs_Nil)
    (simp_all add: PinPlaceRequest_lookup assms [unfolded PinPlaceRequest_good_def] at_most_one.simps(1))

lemma PinPlaceRequest_round:
  assumes "PinPlaceRequest_good m" "\<not> to_defaults opts"
  shows "\<exists>ps. PinPlaceRequest_toObject (PinPlaceRequest_obj m) (Some opts) = ok (plain ps) \<and>
    PinPlaceRequest_fromObject (plain ps) = ok (PinPlaceRequest_obj m)"
  unfolding PinPlaceRequest_toObject_def PinPlaceRequest_writers_def PinPlaceRequest_fromObject_def PinPlaceRequest_setters_def PinPlaceRequest_obj_def
  by (rule round_trip, simp,
      rule all_yield_Cons, rule all_yield_Cons, rule all_yield_Cons, rule all_yield_Cons,
      rule all_yield_Cons, rule all_yield_Cons, rule all_yield_Nil,
      (rule string_plain.yields_opt [where x = "PinPlaceRequest_iconName m"]; simp add: assms [unfolded PinPlaceRequest_good_def] PinPlaceRequest_lookup plain_keys),
      (rule string_plain.yields_opt [where x = "PinPlaceRequest_path m"]; simp add: assms [unfolded PinPlaceRequest_good_def] PinPlaceRequest_lookup plain_keys),
      (rule string_plain.yields_opt [where x = "PinPlaceRequest_name m"]; simp add: assms [unfolded PinPlaceRequest_good_def] PinPlaceRequest_lookup plain_keys),
      (rule yields_default(1); simp add: assms [unfolded PinPlaceRequest_good_def] PinPlaceRequest_lookup plain_keys),
      (rule yields_default(1); simp add: assms [unfolded PinPlaceRequest_good_def] PinPlaceRequest_lookup plain_keys),
      (rule yields_default(1); simp add: assms [unfolded PinPlaceRequest_good_def] PinPlaceRequest_lookup plain_keys),
      rule string_plain.build_opt [where x = "PinPlaceRequest_name m" and opts = opts],
      rule string_plain.build_opt [where x = "PinPlaceRequest_path m" and opts = opts],
      rule string_plain.build_opt [where x = "PinPlaceRequest_iconName m" and opts = opts],
      rule build.simps(1) [THEN trans])
    (simp_all add: assms [unfolded PinPlaceRequest_good_def] PinPlaceRequest_lookup plain_keys PinPlaceRequest_props_def)

lemma PinPlaceRequest_guarded: "PinPlaceRequest_verify v = ok None \<Longrightarrow> all_plain v \<Longrightarrow> \<exists>m. PinPlaceRequest_fromObject v = ok m"
  unfolding PinPlaceRequest_verify_def PinPlaceRequest_checks_def PinPlaceRequest_fromObject_def PinPlaceRequest_setters_def
  by (rule guards_object, rule guards_Cons, rule guards_Cons, rule guards_Cons, rule guards_Nil,
      (rule string_plain.guard_opt(1), simp),
      (rule string_plain.guard_opt(1), simp),
      (rule string_plain.guard_opt(1), simp),
      assumption, assumption) simp

interpretation PinPlaceRequest_plain: message_plain PinPlaceRequest_obj PinPlaceRequest_verify PinPlaceRequest_fromObject PinPlaceRequest_toObject PinPlaceRequest_good
  by unfold_locales
    (use PinPlaceRequest_accepts PinPlaceRequest_round PinPlaceRequest_guarded in \<open>auto simp: PinPlaceRequest_obj_def PinPlaceRequest_verify_def dest: verified_object\<close>)

subsection \<open>PinPlaceResponse\<close>

definition PinPlaceResponse_construct :: "js \<Rightarrow> js res" where
  "PinPlaceResponse_construct = construct ''PinPlaceResponse'' [] None"

definition PinPlaceResponse_create :: "js \<Rightarrow> js res" where
  "PinPlaceResponse_create properties = PinPlaceResponse_construct properties"

definition PinPlaceResponse_verify :: "js \<Rightarrow> string option res" where
  "PinPlaceResponse_verify = verify_with []"

definition PinPlaceResponse_fromObject :: "js \<Rightarrow> js res" where
  "PinPlaceResponse_fromObject = from_object ''PinPlaceResponse'' [] []"

definition PinPlaceResponse_toObject :: "js \<Rightarrow> to_options option \<Rightarrow> js res" where
  "PinPlaceResponse_toObject = to_object []"

definition PinPlaceResponse_toJSON :: "js \<Rightarrow> js res" where
  "PinPlaceResponse_toJSON message = PinPlaceResponse_toObject message (Some toJSONOptions)"

definition PinPlaceResponse_getTypeUrl :: "jstring option \<Rightarrow> jstring" where
  "PinPlaceResponse_getTypeUrl = type_url ''PinPlaceResponse''"

definition PinPlaceResponse_props :: "PinPlaceResponse \<Rightarrow> props" where
  "PinPlaceResponse_props m =
     []"

definition PinPlaceResponse_obj :: "PinPlaceResponse \<Rightarrow> js" where
  "PinPlaceResponse_obj m = Object ''PinPlaceResponse'' (PinPlaceResponse_props m)"

definition PinPlaceResponse_good :: "PinPlaceResponse \<Rightarrow> bool" where
  "PinPlaceResponse_good m \<longleftrightarrow> True"

lemma PinPlaceResponse_lookup:
  "\<not> shadows (PinPlaceResponse_props m)"
  by (simp_all add: PinPlaceResponse_props_def shadows_def)

lemma PinPlaceResponse_accepts:
  assumes "PinPlaceResponse_good m"
  shows "PinPlaceResponse_verify (PinPlaceResponse_obj m) = ok None"
  unfolding PinPlaceResponse_verify_def PinPlaceResponse_obj_def
  by (rule runs_verify [where members = "[]"],
      rule runs_Nil)
    (simp_all add: PinPlaceResponse_lookup assms [unfolded PinPlaceResponse_good_def] at_most_one.simps(1))

lemma PinPlaceResponse_round:
  assumes "PinPlaceResponse_good m" "\<not> to_defaults opts"
  shows "\<exists>ps. PinPlaceResponse_toObject (PinPlaceResponse_obj m) (Some opts) = ok (plain ps) \<and>
    PinPlaceResponse_fromObject (plain ps) = ok (PinPlaceResponse_obj m)"
  unfolding PinPlaceResponse_toObject_def PinPlaceResponse_fromObject_def PinPlaceResponse_obj_def
  by (rule round_trip, simp,
      rule all_yield_Nil,
      rule build.simps(1) [THEN trans])
    (simp_all add: assms [unfolded PinPlaceResponse_good_def] PinPlaceResponse_lookup plain_keys PinPlaceResponse_props_def)

lemma PinPlaceResponse_guarded: "PinPlaceResponse_verify v = ok None \<Longrightarrow> all_plain v \<Longrightarrow> \<exists>m. PinPlaceResponse_fromObject v = ok m"
  unfolding PinPlaceResponse_verify_def PinPlaceResponse_fromObject_def
  by (rule guards_object, rule guards_Nil,
      assumption, assumption) simp

interpretation PinPlaceResponse_plain: message_plain PinPlaceResponse_obj PinPlaceResponse_verify PinPlaceResponse_fromObject PinPlaceResponse_toObject PinPlaceResponse_good
  by unfold_locales
    (use PinPlaceResponse_accepts PinPlaceResponse_round PinPlaceResponse_guarded in \<open>auto simp: PinPlaceResponse_obj_def PinPlaceResponse_verify_def dest: verified_object\<close>)

subsection \<open>UnpinPlaceRequest\<close>

definition UnpinPlaceRequest_construct :: "js \<Rightarrow> js res" where
  "UnpinPlaceRequest_construct = construct ''UnpinPlaceRequest'' [] None"

definition UnpinPlaceRequest_create :: "js \<Rightarrow> js res" where
  "UnpinPlaceRequest_create properties = UnpinPlaceRequest_construct properties"

definition UnpinPlaceRequest_checks :: "check list" where
  "UnpinPlaceRequest_checks =
     [v_field ''path'' v_string]"

definition UnpinPlaceRequest_verify :: "js \<Rightarrow> string option res" where
  "UnpinPlaceRequest_verify = verify_with UnpinPlaceRequest_checks"

definition UnpinPlaceRequest_setters :: "setter list" where
  "UnpinPlaceRequest_setters =
     [f_field ''path'' c_string]"

definition UnpinPlaceRequest_fromObject :: "js \<Rightarrow> js res" where
  "UnpinPlaceRequest_fromObject = from_object ''UnpinPlaceRequest'' [] UnpinPlaceRequest_setters"

definition UnpinPlaceRequest_writers :: "writer list" where
  "UnpinPlaceRequest_writers =
     [d_value ''path'' (String []),
      t_field ''path'' t_same]"

definition UnpinPlaceRequest_toObject :: "js \<Rightarrow> to_options option \<Rightarrow> js res" where
  "UnpinPlaceRequest_toObject = to_object UnpinPlaceRequest_writers"

definition UnpinPlaceRequest_toJSON :: "js \<Rightarrow> js res" where
  "UnpinPlaceRequest_toJSON message = UnpinPlaceRequest_toObject message (Some toJSONOptions)"

definition UnpinPlaceRequest_getTypeUrl :: "jstring option \<Rightarrow> jstring" where
  "UnpinPlaceRequest_getTypeUrl = type_url ''UnpinPlaceRequest''"

definition UnpinPlaceRequest_props :: "UnpinPlaceRequest \<Rightarrow> props" where
  "UnpinPlaceRequest_props m =
     opt_prop ''path'' String (UnpinPlaceRequest_path m)"

definition UnpinPlaceRequest_obj :: "UnpinPlaceRequest \<Rightarrow> js" where
  "UnpinPlaceRequest_obj m = Object ''UnpinPlaceRequest'' (UnpinPlaceRequest_props m)"

definition UnpinPlaceRequest_good :: "UnpinPlaceRequest \<Rightarrow> bool" where
  "UnpinPlaceRequest_good m \<longleftrightarrow> True"

lemma UnpinPlaceRequest_lookup:
  "lookup (UnpinPlaceRequest_props m) ''path'' = map_option String (UnpinPlaceRequest_path m)"
  "\<not> shadows (UnpinPlaceRequest_props m)"
  by (simp_all add: UnpinPlaceRequest_props_def shadows_def)

lemma UnpinPlaceRequest_accepts:
  assumes "UnpinPlaceRequest_good m"
  shows "UnpinPlaceRequest_verify (UnpinPlaceRequest_obj m) = ok None"
  unfolding UnpinPlaceRequest_verify_def UnpinPlaceRequest_checks_def UnpinPlaceRequest_obj_def
  by (rule runs_verify [where members = "[]"],
      rule string_plain.runs_opt [where x = "UnpinPlaceRequest_path m"],
      rule runs_Nil)
    (simp_all add: UnpinPlaceRequest_lookup assms [unfolded UnpinPlaceRequest_good_def] at_most_one.simps(1))

lemma UnpinPlaceRequest_round:
  assumes "UnpinPlaceRequest_good m" "\<not> to_defaults opts"
  shows "\<exists>ps. UnpinPlaceRequest_toObject (UnpinPlaceRequest_obj m) (Some opts) = ok (plain ps) \<and>
    UnpinPlaceRequest_fromObject (plain ps) = ok (UnpinPlaceRequest_obj m)"
  unfolding UnpinPlaceRequest_toObject_def UnpinPlaceRequest_writers_def UnpinPlaceRequest_fromObject_def UnpinPlaceRequest_setters_def UnpinPlaceRequest_obj_def
  by (rule round_trip, simp,
      rule all_yield_Cons, rule all_yield_Cons, rule all_yield_Nil,
      (rule string_plain.yields_opt [where x = "UnpinPlaceRequest_path m"]; simp add: assms [unfolded UnpinPlaceRequest_good_def] UnpinPlaceRequest_lookup plain_keys),
      (rule yields_default(1); simp add: assms [unfolded UnpinPlaceRequest_good_def] UnpinPlaceRequest_lookup plain_keys),
      rule string_plain.build_opt [where x = "UnpinPlaceRequest_path m" and opts = opts],
      rule build.simps(1) [THEN trans])
    (simp_all add: assms [unfolded UnpinPlaceRequest_good_def] UnpinPlaceRequest_lookup plain_keys UnpinPlaceRequest_props_def)

lemma UnpinPlaceRequest_guarded: "UnpinPlaceRequest_verify v = ok None \<Longrightarrow> all_plain v \<Longrightarrow> \<exists>m. UnpinPlaceRequest_fromObject v = ok m"
  unfolding UnpinPlaceRequest_verify_def UnpinPlaceRequest_checks_def UnpinPlaceRequest_fromObject_def UnpinPlaceRequest_setters_def
  by (rule guards_object, rule guards_Cons, rule guards_Nil,
      (rule string_plain.guard_opt(1), simp),
      assumption, assumption) simp

interpretation UnpinPlaceRequest_plain: message_plain UnpinPlaceRequest_obj UnpinPlaceRequest_verify UnpinPlaceRequest_fromObject UnpinPlaceRequest_toObject UnpinPlaceRequest_good
  by unfold_locales
    (use UnpinPlaceRequest_accepts UnpinPlaceRequest_round UnpinPlaceRequest_guarded in \<open>auto simp: UnpinPlaceRequest_obj_def UnpinPlaceRequest_verify_def dest: verified_object\<close>)

subsection \<open>UnpinPlaceResponse\<close>

definition UnpinPlaceResponse_construct :: "js \<Rightarrow> js res" where
  "UnpinPlaceResponse_construct = construct ''UnpinPlaceResponse'' [] None"

definition UnpinPlaceResponse_create :: "js \<Rightarrow> js res" where
  "UnpinPlaceResponse_create properties = UnpinPlaceResponse_construct properties"

definition UnpinPlaceResponse_verify :: "js \<Rightarrow> string option res" where
  "UnpinPlaceResponse_verify = verify_with []"

definition UnpinPlaceResponse_fromObject :: "js \<Rightarrow> js res" where
  "UnpinPlaceResponse_fromObject = from_object ''UnpinPlaceResponse'' [] []"

definition UnpinPlaceResponse_toObject :: "js \<Rightarrow> to_options option \<Rightarrow> js res" where
  "UnpinPlaceResponse_toObject = to_object []"

definition UnpinPlaceResponse_toJSON :: "js \<Rightarrow> js res" where
  "UnpinPlaceResponse_toJSON message = UnpinPlaceResponse_toObject message (Some toJSONOptions)"

definition UnpinPlaceResponse_getTypeUrl :: "jstring option \<Rightarrow> jstring" where
  "UnpinPlaceResponse_getTypeUrl = type_url ''UnpinPlaceResponse''"

definition UnpinPlaceResponse_props :: "UnpinPlaceResponse \<Rightarrow> props" where
  "UnpinPlaceResponse_props m =
     []"

definition UnpinPlaceResponse_obj :: "UnpinPlaceResponse \<Rightarrow> js" where
  "UnpinPlaceResponse_obj m = Object ''UnpinPlaceResponse'' (UnpinPlaceResponse_props m)"

definition UnpinPlaceResponse_good :: "UnpinPlaceResponse \<Rightarrow> bool" where
  "UnpinPlaceResponse_good m \<longleftrightarrow> True"

lemma UnpinPlaceResponse_lookup:
  "\<not> shadows (UnpinPlaceResponse_props m)"
  by (simp_all add: UnpinPlaceResponse_props_def shadows_def)

lemma UnpinPlaceResponse_accepts:
  assumes "UnpinPlaceResponse_good m"
  shows "UnpinPlaceResponse_verify (UnpinPlaceResponse_obj m) = ok None"
  unfolding UnpinPlaceResponse_verify_def UnpinPlaceResponse_obj_def
  by (rule runs_verify [where members = "[]"],
      rule runs_Nil)
    (simp_all add: UnpinPlaceResponse_lookup assms [unfolded UnpinPlaceResponse_good_def] at_most_one.simps(1))

lemma UnpinPlaceResponse_round:
  assumes "UnpinPlaceResponse_good m" "\<not> to_defaults opts"
  shows "\<exists>ps. UnpinPlaceResponse_toObject (UnpinPlaceResponse_obj m) (Some opts) = ok (plain ps) \<and>
    UnpinPlaceResponse_fromObject (plain ps) = ok (UnpinPlaceResponse_obj m)"
  unfolding UnpinPlaceResponse_toObject_def UnpinPlaceResponse_fromObject_def UnpinPlaceResponse_obj_def
  by (rule round_trip, simp,
      rule all_yield_Nil,
      rule build.simps(1) [THEN trans])
    (simp_all add: assms [unfolded UnpinPlaceResponse_good_def] UnpinPlaceResponse_lookup plain_keys UnpinPlaceResponse_props_def)

lemma UnpinPlaceResponse_guarded: "UnpinPlaceResponse_verify v = ok None \<Longrightarrow> all_plain v \<Longrightarrow> \<exists>m. UnpinPlaceResponse_fromObject v = ok m"
  unfolding UnpinPlaceResponse_verify_def UnpinPlaceResponse_fromObject_def
  by (rule guards_object, rule guards_Nil,
      assumption, assumption) simp

interpretation UnpinPlaceResponse_plain: message_plain UnpinPlaceResponse_obj UnpinPlaceResponse_verify UnpinPlaceResponse_fromObject UnpinPlaceResponse_toObject UnpinPlaceResponse_good
  by unfold_locales
    (use UnpinPlaceResponse_accepts UnpinPlaceResponse_round UnpinPlaceResponse_guarded in \<open>auto simp: UnpinPlaceResponse_obj_def UnpinPlaceResponse_verify_def dest: verified_object\<close>)

subsection \<open>AppEntry\<close>

definition AppEntry_construct :: "js \<Rightarrow> js res" where
  "AppEntry_construct = construct ''AppEntry'' [] None"

definition AppEntry_create :: "js \<Rightarrow> js res" where
  "AppEntry_create properties = AppEntry_construct properties"

definition AppEntry_checks :: "check list" where
  "AppEntry_checks =
     [v_field ''id'' v_string,
      v_field ''name'' v_string,
      v_field ''iconName'' v_string]"

definition AppEntry_verify :: "js \<Rightarrow> string option res" where
  "AppEntry_verify = verify_with AppEntry_checks"

definition AppEntry_setters :: "setter list" where
  "AppEntry_setters =
     [f_field ''id'' c_string,
      f_field ''name'' c_string,
      f_field ''iconName'' c_string]"

definition AppEntry_fromObject :: "js \<Rightarrow> js res" where
  "AppEntry_fromObject = from_object ''AppEntry'' [] AppEntry_setters"

definition AppEntry_writers :: "writer list" where
  "AppEntry_writers =
     [d_value ''id'' (String []),
      d_value ''name'' (String []),
      d_value ''iconName'' (String []),
      t_field ''id'' t_same,
      t_field ''name'' t_same,
      t_field ''iconName'' t_same]"

definition AppEntry_toObject :: "js \<Rightarrow> to_options option \<Rightarrow> js res" where
  "AppEntry_toObject = to_object AppEntry_writers"

definition AppEntry_toJSON :: "js \<Rightarrow> js res" where
  "AppEntry_toJSON message = AppEntry_toObject message (Some toJSONOptions)"

definition AppEntry_getTypeUrl :: "jstring option \<Rightarrow> jstring" where
  "AppEntry_getTypeUrl = type_url ''AppEntry''"

definition AppEntry_props :: "AppEntry \<Rightarrow> props" where
  "AppEntry_props m =
     opt_prop ''id'' String (AppEntry_id m) @
     opt_prop ''name'' String (AppEntry_name m) @
     opt_prop ''iconName'' String (AppEntry_iconName m)"

definition AppEntry_obj :: "AppEntry \<Rightarrow> js" where
  "AppEntry_obj m = Object ''AppEntry'' (AppEntry_props m)"

definition AppEntry_good :: "AppEntry \<Rightarrow> bool" where
  "AppEntry_good m \<longleftrightarrow> True"

lemma AppEntry_lookup:
  "lookup (AppEntry_props m) ''id'' = map_option String (AppEntry_id m)"
  "lookup (AppEntry_props m) ''name'' = map_option String (AppEntry_name m)"
  "lookup (AppEntry_props m) ''iconName'' = map_option String (AppEntry_iconName m)"
  "\<not> shadows (AppEntry_props m)"
  by (simp_all add: AppEntry_props_def shadows_def)

lemma AppEntry_accepts:
  assumes "AppEntry_good m"
  shows "AppEntry_verify (AppEntry_obj m) = ok None"
  unfolding AppEntry_verify_def AppEntry_checks_def AppEntry_obj_def
  by (rule runs_verify [where members = "[]"],
      rule string_plain.runs_opt [where x = "AppEntry_id m"],
      rule string_plain.runs_opt [where x = "AppEntry_name m"],
      rule string_plain.runs_opt [where x = "AppEntry_iconName m"],
      rule runs_Nil)
    (simp_all add: AppEntry_lookup assms [unfolded AppEntry_good_def] at_most_one.simps(1))

lemma AppEntry_round:
  assumes "AppEntry_good m" "\<not> to_defaults opts"
  shows "\<exists>ps. AppEntry_toObject (AppEntry_obj m) (Some opts) = ok (plain ps) \<and>
    AppEntry_fromObject (plain ps) = ok (AppEntry_obj m)"
  unfolding AppEntry_toObject_def AppEntry_writers_def AppEntry_fromObject_def AppEntry_setters_def AppEntry_obj_def
  by (rule round_trip, simp,
      rule all_yield_Cons, rule all_yield_Cons, rule all_yield_Cons, rule all_yield_Cons,
      rule all_yield_Cons, rule all_yield_Cons, rule all_yield_Nil,
      (rule string_plain.yields_opt [where x = "AppEntry_iconName m"]; simp add: assms [unfolded AppEntry_good_def] AppEntry_lookup plain_keys),
      (rule string_plain.yields_opt [where x = "AppEntry_name m"]; simp add: assms [unfolded AppEntry_good_def] AppEntry_lookup plain_keys),
      (rule string_plain.yields_opt [where x = "AppEntry_id m"]; simp add: assms [unfolded AppEntry_good_def] AppEntry_lookup plain_keys),
      (rule yields_default(1); simp add: assms [unfolded AppEntry_good_def] AppEntry_lookup plain_keys),
      (rule yields_default(1); simp add: assms [unfolded AppEntry_good_def] AppEntry_lookup plain_keys),
      (rule yields_default(1); simp add: assms [unfolded AppEntry_good_def] AppEntry_lookup plain_keys),
      rule string_plain.build_opt [where x = "AppEntry_id m" and opts = opts],
      rule string_plain.build_opt [where x = "AppEntry_name m" and opts = opts],
      rule string_plain.build_opt [where x = "AppEntry_iconName m" and opts = opts],
      rule build.simps(1) [THEN trans])
    (simp_all add: assms [unfolded AppEntry_good_def] AppEntry_lookup plain_keys AppEntry_props_def)

lemma AppEntry_guarded: "AppEntry_verify v = ok None \<Longrightarrow> all_plain v \<Longrightarrow> \<exists>m. AppEntry_fromObject v = ok m"
  unfolding AppEntry_verify_def AppEntry_checks_def AppEntry_fromObject_def AppEntry_setters_def
  by (rule guards_object, rule guards_Cons, rule guards_Cons, rule guards_Cons, rule guards_Nil,
      (rule string_plain.guard_opt(1), simp),
      (rule string_plain.guard_opt(1), simp),
      (rule string_plain.guard_opt(1), simp),
      assumption, assumption) simp

interpretation AppEntry_plain: message_plain AppEntry_obj AppEntry_verify AppEntry_fromObject AppEntry_toObject AppEntry_good
  by unfold_locales
    (use AppEntry_accepts AppEntry_round AppEntry_guarded in \<open>auto simp: AppEntry_obj_def AppEntry_verify_def dest: verified_object\<close>)

subsection \<open>ListAppsForFileRequest\<close>

definition ListAppsForFileRequest_construct :: "js \<Rightarrow> js res" where
  "ListAppsForFileRequest_construct = construct ''ListAppsForFileRequest'' [] None"

definition ListAppsForFileRequest_create :: "js \<Rightarrow> js res" where
  "ListAppsForFileRequest_create properties = ListAppsForFileRequest_construct properties"

definition ListAppsForFileRequest_checks :: "check list" where
  "ListAppsForFileRequest_checks =
     [v_field ''path'' v_string]"

definition ListAppsForFileRequest_verify :: "js \<Rightarrow> string option res" where
  "ListAppsForFileRequest_verify = verify_with ListAppsForFileRequest_checks"

definition ListAppsForFileRequest_setters :: "setter list" where
  "ListAppsForFileRequest_setters =
     [f_field ''path'' c_string]"

definition ListAppsForFileRequest_fromObject :: "js \<Rightarrow> js res" where
  "ListAppsForFileRequest_fromObject = from_object ''ListAppsForFileRequest'' [] ListAppsForFileRequest_setters"

definition ListAppsForFileRequest_writers :: "writer list" where
  "ListAppsForFileRequest_writers =
     [d_value ''path'' (String []),
      t_field ''path'' t_same]"

definition ListAppsForFileRequest_toObject :: "js \<Rightarrow> to_options option \<Rightarrow> js res" where
  "ListAppsForFileRequest_toObject = to_object ListAppsForFileRequest_writers"

definition ListAppsForFileRequest_toJSON :: "js \<Rightarrow> js res" where
  "ListAppsForFileRequest_toJSON message = ListAppsForFileRequest_toObject message (Some toJSONOptions)"

definition ListAppsForFileRequest_getTypeUrl :: "jstring option \<Rightarrow> jstring" where
  "ListAppsForFileRequest_getTypeUrl = type_url ''ListAppsForFileRequest''"

definition ListAppsForFileRequest_props :: "ListAppsForFileRequest \<Rightarrow> props" where
  "ListAppsForFileRequest_props m =
     opt_prop ''path'' String (ListAppsForFileRequest_path m)"

definition ListAppsForFileRequest_obj :: "ListAppsForFileRequest \<Rightarrow> js" where
  "ListAppsForFileRequest_obj m = Object ''ListAppsForFileRequest'' (ListAppsForFileRequest_props m)"

definition ListAppsForFileRequest_good :: "ListAppsForFileRequest \<Rightarrow> bool" where
  "ListAppsForFileRequest_good m \<longleftrightarrow> True"

lemma ListAppsForFileRequest_lookup:
  "lookup (ListAppsForFileRequest_props m) ''path'' = map_option String (ListAppsForFileRequest_path m)"
  "\<not> shadows (ListAppsForFileRequest_props m)"
  by (simp_all add: ListAppsForFileRequest_props_def shadows_def)

lemma ListAppsForFileRequest_accepts:
  assumes "ListAppsForFileRequest_good m"
  shows "ListAppsForFileRequest_verify (ListAppsForFileRequest_obj m) = ok None"
  unfolding ListAppsForFileRequest_verify_def ListAppsForFileRequest_checks_def ListAppsForFileRequest_obj_def
  by (rule runs_verify [where members = "[]"],
      rule string_plain.runs_opt [where x = "ListAppsForFileRequest_path m"],
      rule runs_Nil)
    (simp_all add: ListAppsForFileRequest_lookup assms [unfolded ListAppsForFileRequest_good_def] at_most_one.simps(1))

lemma ListAppsForFileRequest_round:
  assumes "ListAppsForFileRequest_good m" "\<not> to_defaults opts"
  shows "\<exists>ps. ListAppsForFileRequest_toObject (ListAppsForFileRequest_obj m) (Some opts) = ok (plain ps) \<and>
    ListAppsForFileRequest_fromObject (plain ps) = ok (ListAppsForFileRequest_obj m)"
  unfolding ListAppsForFileRequest_toObject_def ListAppsForFileRequest_writers_def ListAppsForFileRequest_fromObject_def ListAppsForFileRequest_setters_def ListAppsForFileRequest_obj_def
  by (rule round_trip, simp,
      rule all_yield_Cons, rule all_yield_Cons, rule all_yield_Nil,
      (rule string_plain.yields_opt [where x = "ListAppsForFileRequest_path m"]; simp add: assms [unfolded ListAppsForFileRequest_good_def] ListAppsForFileRequest_lookup plain_keys),
      (rule yields_default(1); simp add: assms [unfolded ListAppsForFileRequest_good_def] ListAppsForFileRequest_lookup plain_keys),
      rule string_plain.build_opt [where x = "ListAppsForFileRequest_path m" and opts = opts],
      rule build.simps(1) [THEN trans])
    (simp_all add: assms [unfolded ListAppsForFileRequest_good_def] ListAppsForFileRequest_lookup plain_keys ListAppsForFileRequest_props_def)

lemma ListAppsForFileRequest_guarded: "ListAppsForFileRequest_verify v = ok None \<Longrightarrow> all_plain v \<Longrightarrow> \<exists>m. ListAppsForFileRequest_fromObject v = ok m"
  unfolding ListAppsForFileRequest_verify_def ListAppsForFileRequest_checks_def ListAppsForFileRequest_fromObject_def ListAppsForFileRequest_setters_def
  by (rule guards_object, rule guards_Cons, rule guards_Nil,
      (rule string_plain.guard_opt(1), simp),
      assumption, assumption) simp

interpretation ListAppsForFileRequest_plain: message_plain ListAppsForFileRequest_obj ListAppsForFileRequest_verify ListAppsForFileRequest_fromObject ListAppsForFileRequest_toObject ListAppsForFileRequest_good
  by unfold_locales
    (use ListAppsForFileRequest_accepts ListAppsForFileRequest_round ListAppsForFileRequest_guarded in \<open>auto simp: ListAppsForFileRequest_obj_def ListAppsForFileRequest_verify_def dest: verified_object\<close>)

subsection \<open>ListAppsForFileResponse\<close>

definition ListAppsForFileResponse_init :: props where
  "ListAppsForFileResponse_init = [(js_str ''apps'', Array [])]"

definition ListAppsForFileResponse_construct :: "js \<Rightarrow> js res" where
  "ListAppsForFileResponse_construct = construct ''ListAppsForFileResponse'' ListAppsForFileResponse_init None"

definition ListAppsForFileResponse_create :: "js \<Rightarrow> js res" where
  "ListAppsForFileResponse_create properties = ListAppsForFileResponse_construct properties"

definition ListAppsForFileResponse_checks :: "check list" where
  "ListAppsForFileResponse_checks =
     [v_field ''apps'' (v_messages AppEntry_verify)]"

definition ListAppsForFileResponse_verify :: "js \<Rightarrow> string option res" where
  "ListAppsForFileResponse_verify = verify_with ListAppsForFileResponse_checks"

definition ListAppsForFileResponse_setters :: "setter list" where
  "ListAppsForFileResponse_setters =
     [f_truthy ''apps'' (c_array ''ListAppsForFileResponse'' ''apps'' (c_message ''ListAppsForFileResponse'' ''apps'' AppEntry_fromObject))]"

definition ListAppsForFileResponse_fromObject :: "js \<Rightarrow> js res" where
  "ListAppsForFileResponse_fromObject = from_object ''ListAppsForFileResponse'' ListAppsForFileResponse_init ListAppsForFileResponse_setters"

definition ListAppsForFileResponse_writers :: "writer list" where
  "ListAppsForFileResponse_writers =
     [d_array ''apps'',
      t_list ''apps'' (t_message AppEntry_toObject)]"

definition ListAppsForFileResponse_toObject :: "js \<Rightarrow> to_options option \<Rightarrow> js res" where
  "ListAppsForFileResponse_toObject = to_object ListAppsForFileResponse_writers"

definition ListAppsForFileResponse_toJSON :: "js \<Rightarrow> js res" where
  "ListAppsForFileResponse_toJSON message = ListAppsForFileResponse_toObject message (Some toJSONOptions)"

definition ListAppsForFileResponse_getTypeUrl :: "jstring option \<Rightarrow> jstring" where
  "ListAppsForFileResponse_getTypeUrl = type_url ''ListAppsForFileResponse''"

definition ListAppsForFileResponse_props :: "ListAppsForFileResponse \<Rightarrow> props" where
  "ListAppsForFileResponse_props m =
     [(js_str ''apps'', Array (map AppEntry_obj (ListAppsForFileResponse_apps m)))]"

definition ListAppsForFileResponse_obj :: "ListAppsForFileResponse \<Rightarrow> js" where
  "ListAppsForFileResponse_obj m = Object ''ListAppsForFileResponse'' (ListAppsForFileResponse_props m)"

definition ListAppsForFileResponse_good :: "ListAppsForFileResponse \<Rightarrow> bool" where
  "ListAppsForFileResponse_good m \<longleftrightarrow> list_all AppEntry_good (ListAppsForFileResponse_apps m)"

lemma ListAppsForFileResponse_lookup:
  "lookup (ListAppsForFileResponse_props m) ''apps'' = Some (Array (map AppEntry_obj (ListAppsForFileResponse_apps m)))"
  "\<not> shadows (ListAppsForFileResponse_props m)"
  by (simp_all add: ListAppsForFileResponse_props_def shadows_def)

lemma ListAppsForFileResponse_accepts:
  assumes "ListAppsForFileResponse_good m"
  shows "ListAppsForFileResponse_verify (ListAppsForFileResponse_obj m) = ok None"
  unfolding ListAppsForFileResponse_verify_def ListAppsForFileResponse_checks_def ListAppsForFileResponse_obj_def
  by (rule runs_verify [where members = "[]"],
      rule AppEntry_plain.sub.runs_list [where xs = "ListAppsForFileResponse_apps m"],
      rule runs_Nil)
    (simp_all add: ListAppsForFileResponse_lookup assms [unfolded ListAppsForFileResponse_good_def] at_most_one.simps(1))

lemma ListAppsForFileResponse_round:
  assumes "ListAppsForFileResponse_good m" "\<not> to_defaults opts"
  shows "\<exists>ps. ListAppsForFileResponse_toObject (ListAppsForFileResponse_obj m) (Some opts) = ok (plain ps) \<and>
    ListAppsForFileResponse_fromObject (plain ps) = ok (ListAppsForFileResponse_obj m)"
  unfolding ListAppsForFileResponse_toObject_def ListAppsForFileResponse_writers_def ListAppsForFileResponse_fromObject_def ListAppsForFileResponse_setters_def ListAppsForFileResponse_obj_def
  by (rule round_trip, simp,
      rule all_yield_Cons, rule all_yield_Cons, rule all_yield_Nil,
      (rule AppEntry_plain.sub.yields_list [where xs = "ListAppsForFileResponse_apps m"]; simp add: assms [unfolded ListAppsForFileResponse_good_def] ListAppsForFileResponse_lookup plain_keys),
      (rule yields_array; simp add: assms [unfolded ListAppsForFileResponse_good_def] ListAppsForFileResponse_lookup plain_keys),
      rule AppEntry_plain.sub.build_list [where xs = "ListAppsForFileResponse_apps m" and opts = opts],
      rule build.simps(1) [THEN trans])
    (simp_all add: assms [unfolded ListAppsForFileResponse_good_def] ListAppsForFileResponse_lookup plain_keys ListAppsForFileResponse_props_def ListAppsForFileResponse_init_def)

lemma ListAppsForFileResponse_guarded: "ListAppsForFileResponse_verify v = ok None \<Longrightarrow> all_plain v \<Longrightarrow> \<exists>m. ListAppsForFileResponse_fromObject v = ok m"
  unfolding ListAppsForFileResponse_verify_def ListAppsForFileResponse_checks_def ListAppsForFileResponse_fromObject_def ListAppsForFileResponse_setters_def
  by (rule guards_object, rule guards_Cons, rule guards_Nil,
      (rule AppEntry_plain.sub.guard_list, simp),
      assumption, assumption) simp

interpretation ListAppsForFileResponse_plain: message_plain ListAppsForFileResponse_obj ListAppsForFileResponse_verify ListAppsForFileResponse_fromObject ListAppsForFileResponse_toObject ListAppsForFileResponse_good
  by unfold_locales
    (use ListAppsForFileResponse_accepts ListAppsForFileResponse_round ListAppsForFileResponse_guarded in \<open>auto simp: ListAppsForFileResponse_obj_def ListAppsForFileResponse_verify_def dest: verified_object\<close>)

subsection \<open>OpenWithAppRequest\<close>

definition OpenWithAppRequest_construct :: "js \<Rightarrow> js res" where
  "OpenWithAppRequest_construct = construct ''OpenWithAppRequest'' [] None"

definition OpenWithAppRequest_create :: "js \<Rightarrow> js res" where
  "OpenWithAppRequest_create properties = OpenWithAppRequest_construct properties"

definition OpenWithAppRequest_checks :: "check list" where
  "OpenWithAppRequest_checks =
     [v_field ''path'' v_string,
      v_field ''appId'' v_string]"

definition OpenWithAppRequest_verify :: "js \<Rightarrow> string option res" where
  "OpenWithAppRequest_verify = verify_with OpenWithAppRequest_checks"

definition OpenWithAppRequest_setters :: "setter list" where
  "OpenWithAppRequest_setters =
     [f_field ''path'' c_string,
      f_field ''appId'' c_string]"

definition OpenWithAppRequest_fromObject :: "js \<Rightarrow> js res" where
  "OpenWithAppRequest_fromObject = from_object ''OpenWithAppRequest'' [] OpenWithAppRequest_setters"

definition OpenWithAppRequest_writers :: "writer list" where
  "OpenWithAppRequest_writers =
     [d_value ''path'' (String []),
      d_value ''appId'' (String []),
      t_field ''path'' t_same,
      t_field ''appId'' t_same]"

definition OpenWithAppRequest_toObject :: "js \<Rightarrow> to_options option \<Rightarrow> js res" where
  "OpenWithAppRequest_toObject = to_object OpenWithAppRequest_writers"

definition OpenWithAppRequest_toJSON :: "js \<Rightarrow> js res" where
  "OpenWithAppRequest_toJSON message = OpenWithAppRequest_toObject message (Some toJSONOptions)"

definition OpenWithAppRequest_getTypeUrl :: "jstring option \<Rightarrow> jstring" where
  "OpenWithAppRequest_getTypeUrl = type_url ''OpenWithAppRequest''"

definition OpenWithAppRequest_props :: "OpenWithAppRequest \<Rightarrow> props" where
  "OpenWithAppRequest_props m =
     opt_prop ''path'' String (OpenWithAppRequest_path m) @
     opt_prop ''appId'' String (OpenWithAppRequest_appId m)"

definition OpenWithAppRequest_obj :: "OpenWithAppRequest \<Rightarrow> js" where
  "OpenWithAppRequest_obj m = Object ''OpenWithAppRequest'' (OpenWithAppRequest_props m)"

definition OpenWithAppRequest_good :: "OpenWithAppRequest \<Rightarrow> bool" where
  "OpenWithAppRequest_good m \<longleftrightarrow> True"

lemma OpenWithAppRequest_lookup:
  "lookup (OpenWithAppRequest_props m) ''path'' = map_option String (OpenWithAppRequest_path m)"
  "lookup (OpenWithAppRequest_props m) ''appId'' = map_option String (OpenWithAppRequest_appId m)"
  "\<not> shadows (OpenWithAppRequest_props m)"
  by (simp_all add: OpenWithAppRequest_props_def shadows_def)

lemma OpenWithAppRequest_accepts:
  assumes "OpenWithAppRequest_good m"
  shows "OpenWithAppRequest_verify (OpenWithAppRequest_obj m) = ok None"
  unfolding OpenWithAppRequest_verify_def OpenWithAppRequest_checks_def OpenWithAppRequest_obj_def
  by (rule runs_verify [where members = "[]"],
      rule string_plain.runs_opt [where x = "OpenWithAppRequest_path m"],
      rule string_plain.runs_opt [where x = "OpenWithAppRequest_appId m"],
      rule runs_Nil)
    (simp_all add: OpenWithAppRequest_lookup assms [unfolded OpenWithAppRequest_good_def] at_most_one.simps(1))

lemma OpenWithAppRequest_round:
  assumes "OpenWithAppRequest_good m" "\<not> to_defaults opts"
  shows "\<exists>ps. OpenWithAppRequest_toObject (OpenWithAppRequest_obj m) (Some opts) = ok (plain ps) \<and>
    OpenWithAppRequest_fromObject (plain ps) = ok (OpenWithAppRequest_obj m)"
  unfolding OpenWithAppRequest_toObject_def OpenWithAppRequest_writers_def OpenWithAppRequest_fromObject_def OpenWithAppRequest_setters_def OpenWithAppRequest_obj_def
  by (rule round_trip, simp,
      rule all_yield_Cons, rule all_yield_Cons, rule all_yield_Cons, rule all_yield_Cons,
      rule all_yield_Nil,
      (rule string_plain.yields_opt [where x = "OpenWithAppRequest_appId m"]; simp add: assms [unfolded OpenWithAppRequest_good_def] OpenWithAppRequest_lookup plain_keys),
      (rule string_plain.yields_opt [where x = "OpenWithAppRequest_path m"]; simp add: assms [unfolded OpenWithAppRequest_good_def] OpenWithAppRequest_lookup plain_keys),
      (rule yields_default(1); simp add: assms [unfolded OpenWithAppRequest_good_def] OpenWithAppRequest_lookup plain_keys),
      (rule yields_default(1); simp add: assms [unfolded OpenWithAppRequest_good_def] OpenWithAppRequest_lookup plain_keys),
      rule string_plain.build_opt [where x = "OpenWithAppRequest_path m" and opts = opts],
      rule string_plain.build_opt [where x = "OpenWithAppRequest_appId m" and opts = opts],
      rule build.simps(1) [THEN trans])
    (simp_all add: assms [unfolded OpenWithAppRequest_good_def] OpenWithAppRequest_lookup plain_keys OpenWithAppRequest_props_def)

lemma OpenWithAppRequest_guarded: "OpenWithAppRequest_verify v = ok None \<Longrightarrow> all_plain v \<Longrightarrow> \<exists>m. OpenWithAppRequest_fromObject v = ok m"
  unfolding OpenWithAppRequest_verify_def OpenWithAppRequest_checks_def OpenWithAppRequest_fromObject_def OpenWithAppRequest_setters_def
  by (rule guards_object, rule guards_Cons, rule guards_Cons, rule guards_Nil,
      (rule string_plain.guard_opt(1), simp),
      (rule string_plain.guard_opt(1), simp),
      assumption, assumption) simp

interpretation OpenWithAppRequest_plain: message_plain OpenWithAppRequest_obj OpenWithAppRequest_verify OpenWithAppRequest_fromObject OpenWithAppRequest_toObject OpenWithAppRequest_good
  by unfold_locales
    (use OpenWithAppRequest_accepts OpenWithAppRequest_round OpenWithAppRequest_guarded in \<open>auto simp: OpenWithAppRequest_obj_def OpenWithAppRequest_verify_def dest: verified_object\<close>)

subsection \<open>OpenWithAppResponse\<close>

definition OpenWithAppResponse_construct :: "js \<Rightarrow> js res" where
  "OpenWithAppResponse_construct = construct ''OpenWithAppResponse'' [] None"

definition OpenWithAppResponse_create :: "js \<Rightarrow> js res" where
  "OpenWithAppResponse_create properties = OpenWithAppResponse_construct properties"

definition OpenWithAppResponse_verify :: "js \<Rightarrow> string option res" where
  "OpenWithAppResponse_verify = verify_with []"

definition OpenWithAppResponse_fromObject :: "js \<Rightarrow> js res" where
  "OpenWithAppResponse_fromObject = from_object ''OpenWithAppResponse'' [] []"

definition OpenWithAppResponse_toObject :: "js \<Rightarrow> to_options option \<Rightarrow> js res" where
  "OpenWithAppResponse_toObject = to_object []"

definition OpenWithAppResponse_toJSON :: "js \<Rightarrow> js res" where
  "OpenWithAppResponse_toJSON message = OpenWithAppResponse_toObject message (Some toJSONOptions)"

definition OpenWithAppResponse_getTypeUrl :: "jstring option \<Rightarrow> jstring" where
  "OpenWithAppResponse_getTypeUrl = type_url ''OpenWithAppResponse''"

definition OpenWithAppResponse_props :: "OpenWithAppResponse \<Rightarrow> props" where
  "OpenWithAppResponse_props m =
     []"

definition OpenWithAppResponse_obj :: "OpenWithAppResponse \<Rightarrow> js" where
  "OpenWithAppResponse_obj m = Object ''OpenWithAppResponse'' (OpenWithAppResponse_props m)"

definition OpenWithAppResponse_good :: "OpenWithAppResponse \<Rightarrow> bool" where
  "OpenWithAppResponse_good m \<longleftrightarrow> True"

lemma OpenWithAppResponse_lookup:
  "\<not> shadows (OpenWithAppResponse_props m)"
  by (simp_all add: OpenWithAppResponse_props_def shadows_def)

lemma OpenWithAppResponse_accepts:
  assumes "OpenWithAppResponse_good m"
  shows "OpenWithAppResponse_verify (OpenWithAppResponse_obj m) = ok None"
  unfolding OpenWithAppResponse_verify_def OpenWithAppResponse_obj_def
  by (rule runs_verify [where members = "[]"],
      rule runs_Nil)
    (simp_all add: OpenWithAppResponse_lookup assms [unfolded OpenWithAppResponse_good_def] at_most_one.simps(1))

lemma OpenWithAppResponse_round:
  assumes "OpenWithAppResponse_good m" "\<not> to_defaults opts"
  shows "\<exists>ps. OpenWithAppResponse_toObject (OpenWithAppResponse_obj m) (Some opts) = ok (plain ps) \<and>
    OpenWithAppResponse_fromObject (plain ps) = ok (OpenWithAppResponse_obj m)"
  unfolding OpenWithAppResponse_toObject_def OpenWithAppResponse_fromObject_def OpenWithAppResponse_obj_def
  by (rule round_trip, simp,
      rule all_yield_Nil,
      rule build.simps(1) [THEN trans])
    (simp_all add: assms [unfolded OpenWithAppResponse_good_def] OpenWithAppResponse_lookup plain_keys OpenWithAppResponse_props_def)

lemma OpenWithAppResponse_guarded: "OpenWithAppResponse_verify v = ok None \<Longrightarrow> all_plain v \<Longrightarrow> \<exists>m. OpenWithAppResponse_fromObject v = ok m"
  unfolding OpenWithAppResponse_verify_def OpenWithAppResponse_fromObject_def
  by (rule guards_object, rule guards_Nil,
      assumption, assumption) simp

interpretation OpenWithAppResponse_plain: message_plain OpenWithAppResponse_obj OpenWithAppResponse_verify OpenWithAppResponse_fromObject OpenWithAppResponse_toObject OpenWithAppResponse_good
  by unfold_locales
    (use OpenWithAppResponse_accepts OpenWithAppResponse_round OpenWithAppResponse_guarded in \<open>auto simp: OpenWithAppResponse_obj_def OpenWithAppResponse_verify_def dest: verified_object\<close>)

subsection \<open>GetBrowserConfigRequest\<close>

definition GetBrowserConfigRequest_construct :: "js \<Rightarrow> js res" where
  "GetBrowserConfigRequest_construct = construct ''GetBrowserConfigRequest'' [] None"

definition GetBrowserConfigRequest_create :: "js \<Rightarrow> js res" where
  "GetBrowserConfigRequest_create properties = GetBrowserConfigRequest_construct properties"

definition GetBrowserConfigRequest_verify :: "js \<Rightarrow> string option res" where
  "GetBrowserConfigRequest_verify = verify_with []"

definition GetBrowserConfigRequest_fromObject :: "js \<Rightarrow> js res" where
  "GetBrowserConfigRequest_fromObject = from_object ''GetBrowserConfigRequest'' [] []"

definition GetBrowserConfigRequest_toObject :: "js \<Rightarrow> to_options option \<Rightarrow> js res" where
  "GetBrowserConfigRequest_toObject = to_object []"

definition GetBrowserConfigRequest_toJSON :: "js \<Rightarrow> js res" where
  "GetBrowserConfigRequest_toJSON message = GetBrowserConfigRequest_toObject message (Some toJSONOptions)"

definition GetBrowserConfigRequest_getTypeUrl :: "jstring option \<Rightarrow> jstring" where
  "GetBrowserConfigRequest_getTypeUrl = type_url ''GetBrowserConfigRequest''"

definition GetBrowserConfigRequest_props :: "GetBrowserConfigRequest \<Rightarrow> props" where
  "GetBrowserConfigRequest_props m =
     []"

definition GetBrowserConfigRequest_obj :: "GetBrowserConfigRequest \<Rightarrow> js" where
  "GetBrowserConfigRequest_obj m = Object ''GetBrowserConfigRequest'' (GetBrowserConfigRequest_props m)"

definition GetBrowserConfigRequest_good :: "GetBrowserConfigRequest \<Rightarrow> bool" where
  "GetBrowserConfigRequest_good m \<longleftrightarrow> True"

lemma GetBrowserConfigRequest_lookup:
  "\<not> shadows (GetBrowserConfigRequest_props m)"
  by (simp_all add: GetBrowserConfigRequest_props_def shadows_def)

lemma GetBrowserConfigRequest_accepts:
  assumes "GetBrowserConfigRequest_good m"
  shows "GetBrowserConfigRequest_verify (GetBrowserConfigRequest_obj m) = ok None"
  unfolding GetBrowserConfigRequest_verify_def GetBrowserConfigRequest_obj_def
  by (rule runs_verify [where members = "[]"],
      rule runs_Nil)
    (simp_all add: GetBrowserConfigRequest_lookup assms [unfolded GetBrowserConfigRequest_good_def] at_most_one.simps(1))

lemma GetBrowserConfigRequest_round:
  assumes "GetBrowserConfigRequest_good m" "\<not> to_defaults opts"
  shows "\<exists>ps. GetBrowserConfigRequest_toObject (GetBrowserConfigRequest_obj m) (Some opts) = ok (plain ps) \<and>
    GetBrowserConfigRequest_fromObject (plain ps) = ok (GetBrowserConfigRequest_obj m)"
  unfolding GetBrowserConfigRequest_toObject_def GetBrowserConfigRequest_fromObject_def GetBrowserConfigRequest_obj_def
  by (rule round_trip, simp,
      rule all_yield_Nil,
      rule build.simps(1) [THEN trans])
    (simp_all add: assms [unfolded GetBrowserConfigRequest_good_def] GetBrowserConfigRequest_lookup plain_keys GetBrowserConfigRequest_props_def)

lemma GetBrowserConfigRequest_guarded: "GetBrowserConfigRequest_verify v = ok None \<Longrightarrow> all_plain v \<Longrightarrow> \<exists>m. GetBrowserConfigRequest_fromObject v = ok m"
  unfolding GetBrowserConfigRequest_verify_def GetBrowserConfigRequest_fromObject_def
  by (rule guards_object, rule guards_Nil,
      assumption, assumption) simp

interpretation GetBrowserConfigRequest_plain: message_plain GetBrowserConfigRequest_obj GetBrowserConfigRequest_verify GetBrowserConfigRequest_fromObject GetBrowserConfigRequest_toObject GetBrowserConfigRequest_good
  by unfold_locales
    (use GetBrowserConfigRequest_accepts GetBrowserConfigRequest_round GetBrowserConfigRequest_guarded in \<open>auto simp: GetBrowserConfigRequest_obj_def GetBrowserConfigRequest_verify_def dest: verified_object\<close>)

subsection \<open>GetBrowserConfigResponse\<close>

definition GetBrowserConfigResponse_init :: props where
  "GetBrowserConfigResponse_init = [(js_str ''keybindings'', plain [])]"

definition GetBrowserConfigResponse_construct :: "js \<Rightarrow> js res" where
  "GetBrowserConfigResponse_construct = construct ''GetBrowserConfigResponse'' GetBrowserConfigResponse_init None"

definition GetBrowserConfigResponse_create :: "js \<Rightarrow> js res" where
  "GetBrowserConfigResponse_create properties = GetBrowserConfigResponse_construct properties"

definition GetBrowserConfigResponse_checks :: "check list" where
  "GetBrowserConfigResponse_checks =
     [v_field ''keybindings'' v_map,
      v_field ''useTrash'' v_bool,
      v_field ''inlineThumbnails'' v_bool,
      v_field ''autoPropertiesSlideout'' v_bool,
      v_field ''theme'' v_string,
      v_field ''singleClick'' v_bool]"

definition GetBrowserConfigResponse_verify :: "js \<Rightarrow> string option res" where
  "GetBrowserConfigResponse_verify = verify_with GetBrowserConfigResponse_checks"

definition GetBrowserConfigResponse_setters :: "setter list" where
  "GetBrowserConfigResponse_setters =
     [f_truthy ''keybindings'' (c_map ''GetBrowserConfigResponse'' ''keybindings''),
      f_field ''useTrash'' c_bool,
      f_field ''inlineThumbnails'' c_bool,
      f_field ''autoPropertiesSlideout'' c_bool,
      f_field ''theme'' c_string,
      f_field ''singleClick'' c_bool]"

definition GetBrowserConfigResponse_fromObject :: "js \<Rightarrow> js res" where
  "GetBrowserConfigResponse_fromObject = from_object ''GetBrowserConfigResponse'' GetBrowserConfigResponse_init GetBrowserConfigResponse_setters"

definition GetBrowserConfigResponse_writers :: "writer list" where
  "GetBrowserConfigResponse_writers =
     [d_object ''keybindings'',
      d_value ''useTrash'' (Boolean False),
      d_value ''inlineThumbnails'' (Boolean False),
      d_value ''autoPropertiesSlideout'' (Boolean False),
      d_value ''theme'' (String []),
      d_value ''singleClick'' (Boolean False),
      t_map ''keybindings'',
      t_field ''useTrash'' t_same,
      t_field ''inlineThumbnails'' t_same,
      t_field ''autoPropertiesSlideout'' t_same,
      t_field ''theme'' t_same,
      t_field ''singleClick'' t_same]"

definition GetBrowserConfigResponse_toObject :: "js \<Rightarrow> to_options option \<Rightarrow> js res" where
  "GetBrowserConfigResponse_toObject = to_object GetBrowserConfigResponse_writers"

definition GetBrowserConfigResponse_toJSON :: "js \<Rightarrow> js res" where
  "GetBrowserConfigResponse_toJSON message = GetBrowserConfigResponse_toObject message (Some toJSONOptions)"

definition GetBrowserConfigResponse_getTypeUrl :: "jstring option \<Rightarrow> jstring" where
  "GetBrowserConfigResponse_getTypeUrl = type_url ''GetBrowserConfigResponse''"

definition GetBrowserConfigResponse_props :: "GetBrowserConfigResponse \<Rightarrow> props" where
  "GetBrowserConfigResponse_props m =
     [(js_str ''keybindings'', map_obj (GetBrowserConfigResponse_keybindings m))] @
     opt_prop ''useTrash'' Boolean (GetBrowserConfigResponse_useTrash m) @
     opt_prop ''inlineThumbnails'' Boolean (GetBrowserConfigResponse_inlineThumbnails m) @
     opt_prop ''autoPropertiesSlideout'' Boolean (GetBrowserConfigResponse_autoPropertiesSlideout m) @
     opt_prop ''theme'' String (GetBrowserConfigResponse_theme m) @
     opt_prop ''singleClick'' Boolean (GetBrowserConfigResponse_singleClick m)"

definition GetBrowserConfigResponse_obj :: "GetBrowserConfigResponse \<Rightarrow> js" where
  "GetBrowserConfigResponse_obj m = Object ''GetBrowserConfigResponse'' (GetBrowserConfigResponse_props m)"

definition GetBrowserConfigResponse_good :: "GetBrowserConfigResponse \<Rightarrow> bool" where
  "GetBrowserConfigResponse_good m \<longleftrightarrow> js_object (GetBrowserConfigResponse_keybindings m)"

lemma GetBrowserConfigResponse_lookup:
  "lookup (GetBrowserConfigResponse_props m) ''keybindings'' = Some (map_obj (GetBrowserConfigResponse_keybindings m))"
  "lookup (GetBrowserConfigResponse_props m) ''useTrash'' = map_option Boolean (GetBrowserConfigResponse_useTrash m)"
  "lookup (GetBrowserConfigResponse_props m) ''inlineThumbnails'' = map_option Boolean (GetBrowserConfigResponse_inlineThumbnails m)"
  "lookup (GetBrowserConfigResponse_props m) ''autoPropertiesSlideout'' = map_option Boolean (GetBrowserConfigResponse_autoPropertiesSlideout m)"
  "lookup (GetBrowserConfigResponse_props m) ''theme'' = map_option String (GetBrowserConfigResponse_theme m)"
  "lookup (GetBrowserConfigResponse_props m) ''singleClick'' = map_option Boolean (GetBrowserConfigResponse_singleClick m)"
  "\<not> shadows (GetBrowserConfigResponse_props m)"
  by (simp_all add: GetBrowserConfigResponse_props_def shadows_def)

lemma GetBrowserConfigResponse_accepts:
  assumes "GetBrowserConfigResponse_good m"
  shows "GetBrowserConfigResponse_verify (GetBrowserConfigResponse_obj m) = ok None"
  unfolding GetBrowserConfigResponse_verify_def GetBrowserConfigResponse_checks_def GetBrowserConfigResponse_obj_def
  by (rule runs_verify [where members = "[]"],
      rule runs_map [where kvs = "GetBrowserConfigResponse_keybindings m"],
      rule bool_plain.runs_opt [where x = "GetBrowserConfigResponse_useTrash m"],
      rule bool_plain.runs_opt [where x = "GetBrowserConfigResponse_inlineThumbnails m"],
      rule bool_plain.runs_opt [where x = "GetBrowserConfigResponse_autoPropertiesSlideout m"],
      rule string_plain.runs_opt [where x = "GetBrowserConfigResponse_theme m"],
      rule bool_plain.runs_opt [where x = "GetBrowserConfigResponse_singleClick m"],
      rule runs_Nil)
    (simp_all add: GetBrowserConfigResponse_lookup assms [unfolded GetBrowserConfigResponse_good_def] at_most_one.simps(1))

lemma GetBrowserConfigResponse_round:
  assumes "GetBrowserConfigResponse_good m" "\<not> to_defaults opts"
  shows "\<exists>ps. GetBrowserConfigResponse_toObject (GetBrowserConfigResponse_obj m) (Some opts) = ok (plain ps) \<and>
    GetBrowserConfigResponse_fromObject (plain ps) = ok (GetBrowserConfigResponse_obj m)"
  unfolding GetBrowserConfigResponse_toObject_def GetBrowserConfigResponse_writers_def GetBrowserConfigResponse_fromObject_def GetBrowserConfigResponse_setters_def GetBrowserConfigResponse_obj_def
  by (rule round_trip, simp,
      rule all_yield_Cons, rule all_yield_Cons, rule all_yield_Cons, rule all_yield_Cons,
      rule all_yield_Cons, rule all_yield_Cons, rule all_yield_Cons, rule all_yield_Cons,
      rule all_yield_Cons, rule all_yield_Cons, rule all_yield_Cons, rule all_yield_Cons,
      rule all_yield_Nil,
      (rule bool_plain.yields_opt [where x = "GetBrowserConfigResponse_singleClick m"]; simp add: assms [unfolded GetBrowserConfigResponse_good_def] GetBrowserConfigResponse_lookup plain_keys),
      (rule string_plain.yields_opt [where x = "GetBrowserConfigResponse_theme m"]; simp add: assms [unfolded GetBrowserConfigResponse_good_def] GetBrowserConfigResponse_lookup plain_keys),
      (rule bool_plain.yields_opt [where x = "GetBrowserConfigResponse_autoPropertiesSlideout m"]; simp add: assms [unfolded GetBrowserConfigResponse_good_def] GetBrowserConfigResponse_lookup plain_keys),
      (rule bool_plain.yields_opt [where x = "GetBrowserConfigResponse_inlineThumbnails m"]; simp add: assms [unfolded GetBrowserConfigResponse_good_def] GetBrowserConfigResponse_lookup plain_keys),
      (rule bool_plain.yields_opt [where x = "GetBrowserConfigResponse_useTrash m"]; simp add: assms [unfolded GetBrowserConfigResponse_good_def] GetBrowserConfigResponse_lookup plain_keys),
      (rule yields_map [where kvs = "GetBrowserConfigResponse_keybindings m"]; simp add: assms [unfolded GetBrowserConfigResponse_good_def] GetBrowserConfigResponse_lookup plain_keys),
      (rule yields_default(1); simp add: assms [unfolded GetBrowserConfigResponse_good_def] GetBrowserConfigResponse_lookup plain_keys),
      (rule yields_default(1); simp add: assms [unfolded GetBrowserConfigResponse_good_def] GetBrowserConfigResponse_lookup plain_keys),
      (rule yields_default(1); simp add: assms [unfolded GetBrowserConfigResponse_good_def] GetBrowserConfigResponse_lookup plain_keys),
      (rule yields_default(1); simp add: assms [unfolded GetBrowserConfigResponse_good_def] GetBrowserConfigResponse_lookup plain_keys),
      (rule yields_default(1); simp add: assms [unfolded GetBrowserConfigResponse_good_def] GetBrowserConfigResponse_lookup plain_keys),
      (rule yields_object; simp add: assms [unfolded GetBrowserConfigResponse_good_def] GetBrowserConfigResponse_lookup plain_keys),
      rule build_map [where kvs = "GetBrowserConfigResponse_keybindings m" and opts = opts],
      rule bool_plain.build_opt [where x = "GetBrowserConfigResponse_useTrash m" and opts = opts],
      rule bool_plain.build_opt [where x = "GetBrowserConfigResponse_inlineThumbnails m" and opts = opts],
      rule bool_plain.build_opt [where x = "GetBrowserConfigResponse_autoPropertiesSlideout m" and opts = opts],
      rule string_plain.build_opt [where x = "GetBrowserConfigResponse_theme m" and opts = opts],
      rule bool_plain.build_opt [where x = "GetBrowserConfigResponse_singleClick m" and opts = opts],
      rule build.simps(1) [THEN trans])
    (simp_all add: assms [unfolded GetBrowserConfigResponse_good_def] GetBrowserConfigResponse_lookup plain_keys GetBrowserConfigResponse_props_def GetBrowserConfigResponse_init_def)

lemma GetBrowserConfigResponse_guarded: "GetBrowserConfigResponse_verify v = ok None \<Longrightarrow> all_plain v \<Longrightarrow> \<exists>m. GetBrowserConfigResponse_fromObject v = ok m"
  unfolding GetBrowserConfigResponse_verify_def GetBrowserConfigResponse_checks_def GetBrowserConfigResponse_fromObject_def GetBrowserConfigResponse_setters_def
  by (rule guards_object, rule guards_Cons, rule guards_Cons, rule guards_Cons, rule guards_Cons, rule
      guards_Cons, rule guards_Cons, rule guards_Nil,
      (rule bool_plain.guard_opt(1), simp),
      (rule string_plain.guard_opt(1), simp),
      (rule bool_plain.guard_opt(1), simp),
      (rule bool_plain.guard_opt(1), simp),
      (rule bool_plain.guard_opt(1), simp),
      (rule guard_map, simp),
      assumption, assumption) simp

interpretation GetBrowserConfigResponse_plain: message_plain GetBrowserConfigResponse_obj GetBrowserConfigResponse_verify GetBrowserConfigResponse_fromObject GetBrowserConfigResponse_toObject GetBrowserConfigResponse_good
  by unfold_locales
    (use GetBrowserConfigResponse_accepts GetBrowserConfigResponse_round GetBrowserConfigResponse_guarded in \<open>auto simp: GetBrowserConfigResponse_obj_def GetBrowserConfigResponse_verify_def dest: verified_object\<close>)

subsection \<open>GetFileBadgesRequest\<close>

definition GetFileBadgesRequest_construct :: "js \<Rightarrow> js res" where
  "GetFileBadgesRequest_construct = construct ''GetFileBadgesRequest'' [] None"

definition GetFileBadgesRequest_create :: "js \<Rightarrow> js res" where
  "GetFileBadgesRequest_create properties = GetFileBadgesRequest_construct properties"

definition GetFileBadgesRequest_checks :: "check list" where
  "GetFileBadgesRequest_checks =
     [v_field ''path'' v_string]"

definition GetFileBadgesRequest_verify :: "js \<Rightarrow> string option res" where
  "GetFileBadgesRequest_verify = verify_with GetFileBadgesRequest_checks"

definition GetFileBadgesRequest_setters :: "setter list" where
  "GetFileBadgesRequest_setters =
     [f_field ''path'' c_string]"

definition GetFileBadgesRequest_fromObject :: "js \<Rightarrow> js res" where
  "GetFileBadgesRequest_fromObject = from_object ''GetFileBadgesRequest'' [] GetFileBadgesRequest_setters"

definition GetFileBadgesRequest_writers :: "writer list" where
  "GetFileBadgesRequest_writers =
     [d_value ''path'' (String []),
      t_field ''path'' t_same]"

definition GetFileBadgesRequest_toObject :: "js \<Rightarrow> to_options option \<Rightarrow> js res" where
  "GetFileBadgesRequest_toObject = to_object GetFileBadgesRequest_writers"

definition GetFileBadgesRequest_toJSON :: "js \<Rightarrow> js res" where
  "GetFileBadgesRequest_toJSON message = GetFileBadgesRequest_toObject message (Some toJSONOptions)"

definition GetFileBadgesRequest_getTypeUrl :: "jstring option \<Rightarrow> jstring" where
  "GetFileBadgesRequest_getTypeUrl = type_url ''GetFileBadgesRequest''"

definition GetFileBadgesRequest_props :: "GetFileBadgesRequest \<Rightarrow> props" where
  "GetFileBadgesRequest_props m =
     opt_prop ''path'' String (GetFileBadgesRequest_path m)"

definition GetFileBadgesRequest_obj :: "GetFileBadgesRequest \<Rightarrow> js" where
  "GetFileBadgesRequest_obj m = Object ''GetFileBadgesRequest'' (GetFileBadgesRequest_props m)"

definition GetFileBadgesRequest_good :: "GetFileBadgesRequest \<Rightarrow> bool" where
  "GetFileBadgesRequest_good m \<longleftrightarrow> True"

lemma GetFileBadgesRequest_lookup:
  "lookup (GetFileBadgesRequest_props m) ''path'' = map_option String (GetFileBadgesRequest_path m)"
  "\<not> shadows (GetFileBadgesRequest_props m)"
  by (simp_all add: GetFileBadgesRequest_props_def shadows_def)

lemma GetFileBadgesRequest_accepts:
  assumes "GetFileBadgesRequest_good m"
  shows "GetFileBadgesRequest_verify (GetFileBadgesRequest_obj m) = ok None"
  unfolding GetFileBadgesRequest_verify_def GetFileBadgesRequest_checks_def GetFileBadgesRequest_obj_def
  by (rule runs_verify [where members = "[]"],
      rule string_plain.runs_opt [where x = "GetFileBadgesRequest_path m"],
      rule runs_Nil)
    (simp_all add: GetFileBadgesRequest_lookup assms [unfolded GetFileBadgesRequest_good_def] at_most_one.simps(1))

lemma GetFileBadgesRequest_round:
  assumes "GetFileBadgesRequest_good m" "\<not> to_defaults opts"
  shows "\<exists>ps. GetFileBadgesRequest_toObject (GetFileBadgesRequest_obj m) (Some opts) = ok (plain ps) \<and>
    GetFileBadgesRequest_fromObject (plain ps) = ok (GetFileBadgesRequest_obj m)"
  unfolding GetFileBadgesRequest_toObject_def GetFileBadgesRequest_writers_def GetFileBadgesRequest_fromObject_def GetFileBadgesRequest_setters_def GetFileBadgesRequest_obj_def
  by (rule round_trip, simp,
      rule all_yield_Cons, rule all_yield_Cons, rule all_yield_Nil,
      (rule string_plain.yields_opt [where x = "GetFileBadgesRequest_path m"]; simp add: assms [unfolded GetFileBadgesRequest_good_def] GetFileBadgesRequest_lookup plain_keys),
      (rule yields_default(1); simp add: assms [unfolded GetFileBadgesRequest_good_def] GetFileBadgesRequest_lookup plain_keys),
      rule string_plain.build_opt [where x = "GetFileBadgesRequest_path m" and opts = opts],
      rule build.simps(1) [THEN trans])
    (simp_all add: assms [unfolded GetFileBadgesRequest_good_def] GetFileBadgesRequest_lookup plain_keys GetFileBadgesRequest_props_def)

lemma GetFileBadgesRequest_guarded: "GetFileBadgesRequest_verify v = ok None \<Longrightarrow> all_plain v \<Longrightarrow> \<exists>m. GetFileBadgesRequest_fromObject v = ok m"
  unfolding GetFileBadgesRequest_verify_def GetFileBadgesRequest_checks_def GetFileBadgesRequest_fromObject_def GetFileBadgesRequest_setters_def
  by (rule guards_object, rule guards_Cons, rule guards_Nil,
      (rule string_plain.guard_opt(1), simp),
      assumption, assumption) simp

interpretation GetFileBadgesRequest_plain: message_plain GetFileBadgesRequest_obj GetFileBadgesRequest_verify GetFileBadgesRequest_fromObject GetFileBadgesRequest_toObject GetFileBadgesRequest_good
  by unfold_locales
    (use GetFileBadgesRequest_accepts GetFileBadgesRequest_round GetFileBadgesRequest_guarded in \<open>auto simp: GetFileBadgesRequest_obj_def GetFileBadgesRequest_verify_def dest: verified_object\<close>)

subsection \<open>GetFileBadgesResponse\<close>

definition GetFileBadgesResponse_init :: props where
  "GetFileBadgesResponse_init = [(js_str ''badges'', Array [])]"

definition GetFileBadgesResponse_construct :: "js \<Rightarrow> js res" where
  "GetFileBadgesResponse_construct = construct ''GetFileBadgesResponse'' GetFileBadgesResponse_init None"

definition GetFileBadgesResponse_create :: "js \<Rightarrow> js res" where
  "GetFileBadgesResponse_create properties = GetFileBadgesResponse_construct properties"

definition GetFileBadgesResponse_checks :: "check list" where
  "GetFileBadgesResponse_checks =
     [v_field ''badges'' v_strings]"

definition GetFileBadgesResponse_verify :: "js \<Rightarrow> string option res" where
  "GetFileBadgesResponse_verify = verify_with GetFileBadgesResponse_checks"

definition GetFileBadgesResponse_setters :: "setter list" where
  "GetFileBadgesResponse_setters =
     [f_truthy ''badges'' (c_array ''GetFileBadgesResponse'' ''badges'' c_string)]"

definition GetFileBadgesResponse_fromObject :: "js \<Rightarrow> js res" where
  "GetFileBadgesResponse_fromObject = from_object ''GetFileBadgesResponse'' GetFileBadgesResponse_init GetFileBadgesResponse_setters"

definition GetFileBadgesResponse_writers :: "writer list" where
  "GetFileBadgesResponse_writers =
     [d_array ''badges'',
      t_list ''badges'' t_same]"

definition GetFileBadgesResponse_toObject :: "js \<Rightarrow> to_options option \<Rightarrow> js res" where
  "GetFileBadgesResponse_toObject = to_object GetFileBadgesResponse_writers"

definition GetFileBadgesResponse_toJSON :: "js \<Rightarrow> js res" where
  "GetFileBadgesResponse_toJSON message = GetFileBadgesResponse_toObject message (Some toJSONOptions)"

definition GetFileBadgesResponse_getTypeUrl :: "jstring option \<Rightarrow> jstring" where
  "GetFileBadgesResponse_getTypeUrl = type_url ''GetFileBadgesResponse''"

definition GetFileBadgesResponse_props :: "GetFileBadgesResponse \<Rightarrow> props" where
  "GetFileBadgesResponse_props m =
     [(js_str ''badges'', Array (map String (GetFileBadgesResponse_badges m)))]"

definition GetFileBadgesResponse_obj :: "GetFileBadgesResponse \<Rightarrow> js" where
  "GetFileBadgesResponse_obj m = Object ''GetFileBadgesResponse'' (GetFileBadgesResponse_props m)"

definition GetFileBadgesResponse_good :: "GetFileBadgesResponse \<Rightarrow> bool" where
  "GetFileBadgesResponse_good m \<longleftrightarrow> True"

lemma GetFileBadgesResponse_lookup:
  "lookup (GetFileBadgesResponse_props m) ''badges'' = Some (Array (map String (GetFileBadgesResponse_badges m)))"
  "\<not> shadows (GetFileBadgesResponse_props m)"
  by (simp_all add: GetFileBadgesResponse_props_def shadows_def)

lemma GetFileBadgesResponse_accepts:
  assumes "GetFileBadgesResponse_good m"
  shows "GetFileBadgesResponse_verify (GetFileBadgesResponse_obj m) = ok None"
  unfolding GetFileBadgesResponse_verify_def GetFileBadgesResponse_checks_def GetFileBadgesResponse_obj_def
  by (rule runs_verify [where members = "[]"],
      rule string_plain.runs_list [where xs = "GetFileBadgesResponse_badges m"],
      rule runs_Nil)
    (simp_all add: GetFileBadgesResponse_lookup assms [unfolded GetFileBadgesResponse_good_def] at_most_one.simps(1))

lemma GetFileBadgesResponse_round:
  assumes "GetFileBadgesResponse_good m" "\<not> to_defaults opts"
  shows "\<exists>ps. GetFileBadgesResponse_toObject (GetFileBadgesResponse_obj m) (Some opts) = ok (plain ps) \<and>
    GetFileBadgesResponse_fromObject (plain ps) = ok (GetFileBadgesResponse_obj m)"
  unfolding GetFileBadgesResponse_toObject_def GetFileBadgesResponse_writers_def GetFileBadgesResponse_fromObject_def GetFileBadgesResponse_setters_def GetFileBadgesResponse_obj_def
  by (rule round_trip, simp,
      rule all_yield_Cons, rule all_yield_Cons, rule all_yield_Nil,
      (rule string_plain.yields_list [where xs = "GetFileBadgesResponse_badges m"]; simp add: assms [unfolded GetFileBadgesResponse_good_def] GetFileBadgesResponse_lookup plain_keys),
      (rule yields_array; simp add: assms [unfolded GetFileBadgesResponse_good_def] GetFileBadgesResponse_lookup plain_keys),
      rule string_plain.build_list [where xs = "GetFileBadgesResponse_badges m" and opts = opts],
      rule build.simps(1) [THEN trans])
    (simp_all add: assms [unfolded GetFileBadgesResponse_good_def] GetFileBadgesResponse_lookup plain_keys GetFileBadgesResponse_props_def GetFileBadgesResponse_init_def)

lemma GetFileBadgesResponse_guarded: "GetFileBadgesResponse_verify v = ok None \<Longrightarrow> all_plain v \<Longrightarrow> \<exists>m. GetFileBadgesResponse_fromObject v = ok m"
  unfolding GetFileBadgesResponse_verify_def GetFileBadgesResponse_checks_def GetFileBadgesResponse_fromObject_def GetFileBadgesResponse_setters_def
  by (rule guards_object, rule guards_Cons, rule guards_Nil,
      (rule string_plain.guard_list, simp),
      assumption, assumption) simp

interpretation GetFileBadgesResponse_plain: message_plain GetFileBadgesResponse_obj GetFileBadgesResponse_verify GetFileBadgesResponse_fromObject GetFileBadgesResponse_toObject GetFileBadgesResponse_good
  by unfold_locales
    (use GetFileBadgesResponse_accepts GetFileBadgesResponse_round GetFileBadgesResponse_guarded in \<open>auto simp: GetFileBadgesResponse_obj_def GetFileBadgesResponse_verify_def dest: verified_object\<close>)

subsection \<open>FileAction\<close>

definition FileAction_construct :: "js \<Rightarrow> js res" where
  "FileAction_construct = construct ''FileAction'' [] None"

definition FileAction_create :: "js \<Rightarrow> js res" where
  "FileAction_create properties = FileAction_construct properties"

definition FileAction_checks :: "check list" where
  "FileAction_checks =
     [v_field ''id'' v_string,
      v_field ''label'' v_string]"

definition FileAction_verify :: "js \<Rightarrow> string option res" where
  "FileAction_verify = verify_with FileAction_checks"

definition FileAction_setters :: "setter list" where
  "FileAction_setters =
     [f_field ''id'' c_string,
      f_field ''label'' c_string]"

definition FileAction_fromObject :: "js \<Rightarrow> js res" where
  "FileAction_fromObject = from_object ''FileAction'' [] FileAction_setters"

definition FileAction_writers :: "writer list" where
  "FileAction_writers =
     [d_value ''id'' (String []),
      d_value ''label'' (String []),
      t_field ''id'' t_same,
      t_field ''label'' t_same]"

definition FileAction_toObject :: "js \<Rightarrow> to_options option \<Rightarrow> js res" where
  "FileAction_toObject = to_object FileAction_writers"

definition FileAction_toJSON :: "js \<Rightarrow> js res" where
  "FileAction_toJSON message = FileAction_toObject message (Some toJSONOptions)"

definition FileAction_getTypeUrl :: "jstring option \<Rightarrow> jstring" where
  "FileAction_getTypeUrl = type_url ''FileAction''"

definition FileAction_props :: "FileAction \<Rightarrow> props" where
  "FileAction_props m =
     opt_prop ''id'' String (FileAction_id m) @
     opt_prop ''label'' String (FileAction_label m)"

definition FileAction_obj :: "FileAction \<Rightarrow> js" where
  "FileAction_obj m = Object ''FileAction'' (FileAction_props m)"

definition FileAction_good :: "FileAction \<Rightarrow> bool" where
  "FileAction_good m \<longleftrightarrow> True"

lemma FileAction_lookup:
  "lookup (FileAction_props m) ''id'' = map_option String (FileAction_id m)"
  "lookup (FileAction_props m) ''label'' = map_option String (FileAction_label m)"
  "\<not> shadows (FileAction_props m)"
  by (simp_all add: FileAction_props_def shadows_def)

lemma FileAction_accepts:
  assumes "FileAction_good m"
  shows "FileAction_verify (FileAction_obj m) = ok None"
  unfolding FileAction_verify_def FileAction_checks_def FileAction_obj_def
  by (rule runs_verify [where members = "[]"],
      rule string_plain.runs_opt [where x = "FileAction_id m"],
      rule string_plain.runs_opt [where x = "FileAction_label m"],
      rule runs_Nil)
    (simp_all add: FileAction_lookup assms [unfolded FileAction_good_def] at_most_one.simps(1))

lemma FileAction_round:
  assumes "FileAction_good m" "\<not> to_defaults opts"
  shows "\<exists>ps. FileAction_toObject (FileAction_obj m) (Some opts) = ok (plain ps) \<and>
    FileAction_fromObject (plain ps) = ok (FileAction_obj m)"
  unfolding FileAction_toObject_def FileAction_writers_def FileAction_fromObject_def FileAction_setters_def FileAction_obj_def
  by (rule round_trip, simp,
      rule all_yield_Cons, rule all_yield_Cons, rule all_yield_Cons, rule all_yield_Cons,
      rule all_yield_Nil,
      (rule string_plain.yields_opt [where x = "FileAction_label m"]; simp add: assms [unfolded FileAction_good_def] FileAction_lookup plain_keys),
      (rule string_plain.yields_opt [where x = "FileAction_id m"]; simp add: assms [unfolded FileAction_good_def] FileAction_lookup plain_keys),
      (rule yields_default(1); simp add: assms [unfolded FileAction_good_def] FileAction_lookup plain_keys),
      (rule yields_default(1); simp add: assms [unfolded FileAction_good_def] FileAction_lookup plain_keys),
      rule string_plain.build_opt [where x = "FileAction_id m" and opts = opts],
      rule string_plain.build_opt [where x = "FileAction_label m" and opts = opts],
      rule build.simps(1) [THEN trans])
    (simp_all add: assms [unfolded FileAction_good_def] FileAction_lookup plain_keys FileAction_props_def)

lemma FileAction_guarded: "FileAction_verify v = ok None \<Longrightarrow> all_plain v \<Longrightarrow> \<exists>m. FileAction_fromObject v = ok m"
  unfolding FileAction_verify_def FileAction_checks_def FileAction_fromObject_def FileAction_setters_def
  by (rule guards_object, rule guards_Cons, rule guards_Cons, rule guards_Nil,
      (rule string_plain.guard_opt(1), simp),
      (rule string_plain.guard_opt(1), simp),
      assumption, assumption) simp

interpretation FileAction_plain: message_plain FileAction_obj FileAction_verify FileAction_fromObject FileAction_toObject FileAction_good
  by unfold_locales
    (use FileAction_accepts FileAction_round FileAction_guarded in \<open>auto simp: FileAction_obj_def FileAction_verify_def dest: verified_object\<close>)

subsection \<open>GetFileActionsRequest\<close>

definition GetFileActionsRequest_construct :: "js \<Rightarrow> js res" where
  "GetFileActionsRequest_construct = construct ''GetFileActionsRequest'' [] None"

definition GetFileActionsRequest_create :: "js \<Rightarrow> js res" where
  "GetFileActionsRequest_create properties = GetFileActionsRequest_construct properties"

definition GetFileActionsRequest_checks :: "check list" where
  "GetFileActionsRequest_checks =
     [v_field ''path'' v_string]"

definition GetFileActionsRequest_verify :: "js \<Rightarrow> string option res" where
  "GetFileActionsRequest_verify = verify_with GetFileActionsRequest_checks"

definition GetFileActionsRequest_setters :: "setter list" where
  "GetFileActionsRequest_setters =
     [f_field ''path'' c_string]"

definition GetFileActionsRequest_fromObject :: "js \<Rightarrow> js res" where
  "GetFileActionsRequest_fromObject = from_object ''GetFileActionsRequest'' [] GetFileActionsRequest_setters"

definition GetFileActionsRequest_writers :: "writer list" where
  "GetFileActionsRequest_writers =
     [d_value ''path'' (String []),
      t_field ''path'' t_same]"

definition GetFileActionsRequest_toObject :: "js \<Rightarrow> to_options option \<Rightarrow> js res" where
  "GetFileActionsRequest_toObject = to_object GetFileActionsRequest_writers"

definition GetFileActionsRequest_toJSON :: "js \<Rightarrow> js res" where
  "GetFileActionsRequest_toJSON message = GetFileActionsRequest_toObject message (Some toJSONOptions)"

definition GetFileActionsRequest_getTypeUrl :: "jstring option \<Rightarrow> jstring" where
  "GetFileActionsRequest_getTypeUrl = type_url ''GetFileActionsRequest''"

definition GetFileActionsRequest_props :: "GetFileActionsRequest \<Rightarrow> props" where
  "GetFileActionsRequest_props m =
     opt_prop ''path'' String (GetFileActionsRequest_path m)"

definition GetFileActionsRequest_obj :: "GetFileActionsRequest \<Rightarrow> js" where
  "GetFileActionsRequest_obj m = Object ''GetFileActionsRequest'' (GetFileActionsRequest_props m)"

definition GetFileActionsRequest_good :: "GetFileActionsRequest \<Rightarrow> bool" where
  "GetFileActionsRequest_good m \<longleftrightarrow> True"

lemma GetFileActionsRequest_lookup:
  "lookup (GetFileActionsRequest_props m) ''path'' = map_option String (GetFileActionsRequest_path m)"
  "\<not> shadows (GetFileActionsRequest_props m)"
  by (simp_all add: GetFileActionsRequest_props_def shadows_def)

lemma GetFileActionsRequest_accepts:
  assumes "GetFileActionsRequest_good m"
  shows "GetFileActionsRequest_verify (GetFileActionsRequest_obj m) = ok None"
  unfolding GetFileActionsRequest_verify_def GetFileActionsRequest_checks_def GetFileActionsRequest_obj_def
  by (rule runs_verify [where members = "[]"],
      rule string_plain.runs_opt [where x = "GetFileActionsRequest_path m"],
      rule runs_Nil)
    (simp_all add: GetFileActionsRequest_lookup assms [unfolded GetFileActionsRequest_good_def] at_most_one.simps(1))

lemma GetFileActionsRequest_round:
  assumes "GetFileActionsRequest_good m" "\<not> to_defaults opts"
  shows "\<exists>ps. GetFileActionsRequest_toObject (GetFileActionsRequest_obj m) (Some opts) = ok (plain ps) \<and>
    GetFileActionsRequest_fromObject (plain ps) = ok (GetFileActionsRequest_obj m)"
  unfolding GetFileActionsRequest_toObject_def GetFileActionsRequest_writers_def GetFileActionsRequest_fromObject_def GetFileActionsRequest_setters_def GetFileActionsRequest_obj_def
  by (rule round_trip, simp,
      rule all_yield_Cons, rule all_yield_Cons, rule all_yield_Nil,
      (rule string_plain.yields_opt [where x = "GetFileActionsRequest_path m"]; simp add: assms [unfolded GetFileActionsRequest_good_def] GetFileActionsRequest_lookup plain_keys),
      (rule yields_default(1); simp add: assms [unfolded GetFileActionsRequest_good_def] GetFileActionsRequest_lookup plain_keys),
      rule string_plain.build_opt [where x = "GetFileActionsRequest_path m" and opts = opts],
      rule build.simps(1) [THEN trans])
    (simp_all add: assms [unfolded GetFileActionsRequest_good_def] GetFileActionsRequest_lookup plain_keys GetFileActionsRequest_props_def)

lemma GetFileActionsRequest_guarded: "GetFileActionsRequest_verify v = ok None \<Longrightarrow> all_plain v \<Longrightarrow> \<exists>m. GetFileActionsRequest_fromObject v = ok m"
  unfolding GetFileActionsRequest_verify_def GetFileActionsRequest_checks_def GetFileActionsRequest_fromObject_def GetFileActionsRequest_setters_def
  by (rule guards_object, rule guards_Cons, rule guards_Nil,
      (rule string_plain.guard_opt(1), simp),
      assumption, assumption) simp

interpretation GetFileActionsRequest_plain: message_plain GetFileActionsRequest_obj GetFileActionsRequest_verify GetFileActionsRequest_fromObject GetFileActionsRequest_toObject GetFileActionsRequest_good
  by unfold_locales
    (use GetFileActionsRequest_accepts GetFileActionsRequest_round GetFileActionsRequest_guarded in \<open>auto simp: GetFileActionsRequest_obj_def GetFileActionsRequest_verify_def dest: verified_object\<close>)

subsection \<open>GetFileActionsResponse\<close>

definition GetFileActionsResponse_init :: props where
  "GetFileActionsResponse_init = [(js_str ''actions'', Array [])]"

definition GetFileActionsResponse_construct :: "js \<Rightarrow> js res" where
  "GetFileActionsResponse_construct = construct ''GetFileActionsResponse'' GetFileActionsResponse_init None"

definition GetFileActionsResponse_create :: "js \<Rightarrow> js res" where
  "GetFileActionsResponse_create properties = GetFileActionsResponse_construct properties"

definition GetFileActionsResponse_checks :: "check list" where
  "GetFileActionsResponse_checks =
     [v_field ''actions'' (v_messages FileAction_verify)]"

definition GetFileActionsResponse_verify :: "js \<Rightarrow> string option res" where
  "GetFileActionsResponse_verify = verify_with GetFileActionsResponse_checks"

definition GetFileActionsResponse_setters :: "setter list" where
  "GetFileActionsResponse_setters =
     [f_truthy ''actions'' (c_array ''GetFileActionsResponse'' ''actions'' (c_message ''GetFileActionsResponse'' ''actions'' FileAction_fromObject))]"

definition GetFileActionsResponse_fromObject :: "js \<Rightarrow> js res" where
  "GetFileActionsResponse_fromObject = from_object ''GetFileActionsResponse'' GetFileActionsResponse_init GetFileActionsResponse_setters"

definition GetFileActionsResponse_writers :: "writer list" where
  "GetFileActionsResponse_writers =
     [d_array ''actions'',
      t_list ''actions'' (t_message FileAction_toObject)]"

definition GetFileActionsResponse_toObject :: "js \<Rightarrow> to_options option \<Rightarrow> js res" where
  "GetFileActionsResponse_toObject = to_object GetFileActionsResponse_writers"

definition GetFileActionsResponse_toJSON :: "js \<Rightarrow> js res" where
  "GetFileActionsResponse_toJSON message = GetFileActionsResponse_toObject message (Some toJSONOptions)"

definition GetFileActionsResponse_getTypeUrl :: "jstring option \<Rightarrow> jstring" where
  "GetFileActionsResponse_getTypeUrl = type_url ''GetFileActionsResponse''"

definition GetFileActionsResponse_props :: "GetFileActionsResponse \<Rightarrow> props" where
  "GetFileActionsResponse_props m =
     [(js_str ''actions'', Array (map FileAction_obj (GetFileActionsResponse_actions m)))]"

definition GetFileActionsResponse_obj :: "GetFileActionsResponse \<Rightarrow> js" where
  "GetFileActionsResponse_obj m = Object ''GetFileActionsResponse'' (GetFileActionsResponse_props m)"

definition GetFileActionsResponse_good :: "GetFileActionsResponse \<Rightarrow> bool" where
  "GetFileActionsResponse_good m \<longleftrightarrow> list_all FileAction_good (GetFileActionsResponse_actions m)"

lemma GetFileActionsResponse_lookup:
  "lookup (GetFileActionsResponse_props m) ''actions'' = Some (Array (map FileAction_obj (GetFileActionsResponse_actions m)))"
  "\<not> shadows (GetFileActionsResponse_props m)"
  by (simp_all add: GetFileActionsResponse_props_def shadows_def)

lemma GetFileActionsResponse_accepts:
  assumes "GetFileActionsResponse_good m"
  shows "GetFileActionsResponse_verify (GetFileActionsResponse_obj m) = ok None"
  unfolding GetFileActionsResponse_verify_def GetFileActionsResponse_checks_def GetFileActionsResponse_obj_def
  by (rule runs_verify [where members = "[]"],
      rule FileAction_plain.sub.runs_list [where xs = "GetFileActionsResponse_actions m"],
      rule runs_Nil)
    (simp_all add: GetFileActionsResponse_lookup assms [unfolded GetFileActionsResponse_good_def] at_most_one.simps(1))

lemma GetFileActionsResponse_round:
  assumes "GetFileActionsResponse_good m" "\<not> to_defaults opts"
  shows "\<exists>ps. GetFileActionsResponse_toObject (GetFileActionsResponse_obj m) (Some opts) = ok (plain ps) \<and>
    GetFileActionsResponse_fromObject (plain ps) = ok (GetFileActionsResponse_obj m)"
  unfolding GetFileActionsResponse_toObject_def GetFileActionsResponse_writers_def GetFileActionsResponse_fromObject_def GetFileActionsResponse_setters_def GetFileActionsResponse_obj_def
  by (rule round_trip, simp,
      rule all_yield_Cons, rule all_yield_Cons, rule all_yield_Nil,
      (rule FileAction_plain.sub.yields_list [where xs = "GetFileActionsResponse_actions m"]; simp add: assms [unfolded GetFileActionsResponse_good_def] GetFileActionsResponse_lookup plain_keys),
      (rule yields_array; simp add: assms [unfolded GetFileActionsResponse_good_def] GetFileActionsResponse_lookup plain_keys),
      rule FileAction_plain.sub.build_list [where xs = "GetFileActionsResponse_actions m" and opts = opts],
      rule build.simps(1) [THEN trans])
    (simp_all add: assms [unfolded GetFileActionsResponse_good_def] GetFileActionsResponse_lookup plain_keys GetFileActionsResponse_props_def GetFileActionsResponse_init_def)

lemma GetFileActionsResponse_guarded: "GetFileActionsResponse_verify v = ok None \<Longrightarrow> all_plain v \<Longrightarrow> \<exists>m. GetFileActionsResponse_fromObject v = ok m"
  unfolding GetFileActionsResponse_verify_def GetFileActionsResponse_checks_def GetFileActionsResponse_fromObject_def GetFileActionsResponse_setters_def
  by (rule guards_object, rule guards_Cons, rule guards_Nil,
      (rule FileAction_plain.sub.guard_list, simp),
      assumption, assumption) simp

interpretation GetFileActionsResponse_plain: message_plain GetFileActionsResponse_obj GetFileActionsResponse_verify GetFileActionsResponse_fromObject GetFileActionsResponse_toObject GetFileActionsResponse_good
  by unfold_locales
    (use GetFileActionsResponse_accepts GetFileActionsResponse_round GetFileActionsResponse_guarded in \<open>auto simp: GetFileActionsResponse_obj_def GetFileActionsResponse_verify_def dest: verified_object\<close>)

subsection \<open>RunFileActionRequest\<close>

definition RunFileActionRequest_construct :: "js \<Rightarrow> js res" where
  "RunFileActionRequest_construct = construct ''RunFileActionRequest'' [] None"

definition RunFileActionRequest_create :: "js \<Rightarrow> js res" where
  "RunFileActionRequest_create properties = RunFileActionRequest_construct properties"

definition RunFileActionRequest_checks :: "check list" where
  "RunFileActionRequest_checks =
     [v_field ''path'' v_string,
      v_field ''actionId'' v_string]"

definition RunFileActionRequest_verify :: "js \<Rightarrow> string option res" where
  "RunFileActionRequest_verify = verify_with RunFileActionRequest_checks"

definition RunFileActionRequest_setters :: "setter list" where
  "RunFileActionRequest_setters =
     [f_field ''path'' c_string,
      f_field ''actionId'' c_string]"

definition RunFileActionRequest_fromObject :: "js \<Rightarrow> js res" where
  "RunFileActionRequest_fromObject = from_object ''RunFileActionRequest'' [] RunFileActionRequest_setters"

definition RunFileActionRequest_writers :: "writer list" where
  "RunFileActionRequest_writers =
     [d_value ''path'' (String []),
      d_value ''actionId'' (String []),
      t_field ''path'' t_same,
      t_field ''actionId'' t_same]"

definition RunFileActionRequest_toObject :: "js \<Rightarrow> to_options option \<Rightarrow> js res" where
  "RunFileActionRequest_toObject = to_object RunFileActionRequest_writers"

definition RunFileActionRequest_toJSON :: "js \<Rightarrow> js res" where
  "RunFileActionRequest_toJSON message = RunFileActionRequest_toObject message (Some toJSONOptions)"

definition RunFileActionRequest_getTypeUrl :: "jstring option \<Rightarrow> jstring" where
  "RunFileActionRequest_getTypeUrl = type_url ''RunFileActionRequest''"

definition RunFileActionRequest_props :: "RunFileActionRequest \<Rightarrow> props" where
  "RunFileActionRequest_props m =
     opt_prop ''path'' String (RunFileActionRequest_path m) @
     opt_prop ''actionId'' String (RunFileActionRequest_actionId m)"

definition RunFileActionRequest_obj :: "RunFileActionRequest \<Rightarrow> js" where
  "RunFileActionRequest_obj m = Object ''RunFileActionRequest'' (RunFileActionRequest_props m)"

definition RunFileActionRequest_good :: "RunFileActionRequest \<Rightarrow> bool" where
  "RunFileActionRequest_good m \<longleftrightarrow> True"

lemma RunFileActionRequest_lookup:
  "lookup (RunFileActionRequest_props m) ''path'' = map_option String (RunFileActionRequest_path m)"
  "lookup (RunFileActionRequest_props m) ''actionId'' = map_option String (RunFileActionRequest_actionId m)"
  "\<not> shadows (RunFileActionRequest_props m)"
  by (simp_all add: RunFileActionRequest_props_def shadows_def)

lemma RunFileActionRequest_accepts:
  assumes "RunFileActionRequest_good m"
  shows "RunFileActionRequest_verify (RunFileActionRequest_obj m) = ok None"
  unfolding RunFileActionRequest_verify_def RunFileActionRequest_checks_def RunFileActionRequest_obj_def
  by (rule runs_verify [where members = "[]"],
      rule string_plain.runs_opt [where x = "RunFileActionRequest_path m"],
      rule string_plain.runs_opt [where x = "RunFileActionRequest_actionId m"],
      rule runs_Nil)
    (simp_all add: RunFileActionRequest_lookup assms [unfolded RunFileActionRequest_good_def] at_most_one.simps(1))

lemma RunFileActionRequest_round:
  assumes "RunFileActionRequest_good m" "\<not> to_defaults opts"
  shows "\<exists>ps. RunFileActionRequest_toObject (RunFileActionRequest_obj m) (Some opts) = ok (plain ps) \<and>
    RunFileActionRequest_fromObject (plain ps) = ok (RunFileActionRequest_obj m)"
  unfolding RunFileActionRequest_toObject_def RunFileActionRequest_writers_def RunFileActionRequest_fromObject_def RunFileActionRequest_setters_def RunFileActionRequest_obj_def
  by (rule round_trip, simp,
      rule all_yield_Cons, rule all_yield_Cons, rule all_yield_Cons, rule all_yield_Cons,
      rule all_yield_Nil,
      (rule string_plain.yields_opt [where x = "RunFileActionRequest_actionId m"]; simp add: assms [unfolded RunFileActionRequest_good_def] RunFileActionRequest_lookup plain_keys),
      (rule string_plain.yields_opt [where x = "RunFileActionRequest_path m"]; simp add: assms [unfolded RunFileActionRequest_good_def] RunFileActionRequest_lookup plain_keys),
      (rule yields_default(1); simp add: assms [unfolded RunFileActionRequest_good_def] RunFileActionRequest_lookup plain_keys),
      (rule yields_default(1); simp add: assms [unfolded RunFileActionRequest_good_def] RunFileActionRequest_lookup plain_keys),
      rule string_plain.build_opt [where x = "RunFileActionRequest_path m" and opts = opts],
      rule string_plain.build_opt [where x = "RunFileActionRequest_actionId m" and opts = opts],
      rule build.simps(1) [THEN trans])
    (simp_all add: assms [unfolded RunFileActionRequest_good_def] RunFileActionRequest_lookup plain_keys RunFileActionRequest_props_def)

lemma RunFileActionRequest_guarded: "RunFileActionRequest_verify v = ok None \<Longrightarrow> all_plain v \<Longrightarrow> \<exists>m. RunFileActionRequest_fromObject v = ok m"
  unfolding RunFileActionRequest_verify_def RunFileActionRequest_checks_def RunFileActionRequest_fromObject_def RunFileActionRequest_setters_def
  by (rule guards_object, rule guards_Cons, rule guards_Cons, rule guards_Nil,
      (rule string_plain.guard_opt(1), simp),
      (rule string_plain.guard_opt(1), simp),
      assumption, assumption) simp

interpretation RunFileActionRequest_plain: message_plain RunFileActionRequest_obj RunFileActionRequest_verify RunFileActionRequest_fromObject RunFileActionRequest_toObject RunFileActionRequest_good
  by unfold_locales
    (use RunFileActionRequest_accepts RunFileActionRequest_round RunFileActionRequest_guarded in \<open>auto simp: RunFileActionRequest_obj_def RunFileActionRequest_verify_def dest: verified_object\<close>)

subsection \<open>RunFileActionResponse\<close>

definition RunFileActionResponse_construct :: "js \<Rightarrow> js res" where
  "RunFileActionResponse_construct = construct ''RunFileActionResponse'' [] None"

definition RunFileActionResponse_create :: "js \<Rightarrow> js res" where
  "RunFileActionResponse_create properties = RunFileActionResponse_construct properties"

definition RunFileActionResponse_verify :: "js \<Rightarrow> string option res" where
  "RunFileActionResponse_verify = verify_with []"

definition RunFileActionResponse_fromObject :: "js \<Rightarrow> js res" where
  "RunFileActionResponse_fromObject = from_object ''RunFileActionResponse'' [] []"

definition RunFileActionResponse_toObject :: "js \<Rightarrow> to_options option \<Rightarrow> js res" where
  "RunFileActionResponse_toObject = to_object []"

definition RunFileActionResponse_toJSON :: "js \<Rightarrow> js res" where
  "RunFileActionResponse_toJSON message = RunFileActionResponse_toObject message (Some toJSONOptions)"

definition RunFileActionResponse_getTypeUrl :: "jstring option \<Rightarrow> jstring" where
  "RunFileActionResponse_getTypeUrl = type_url ''RunFileActionResponse''"

definition RunFileActionResponse_props :: "RunFileActionResponse \<Rightarrow> props" where
  "RunFileActionResponse_props m =
     []"

definition RunFileActionResponse_obj :: "RunFileActionResponse \<Rightarrow> js" where
  "RunFileActionResponse_obj m = Object ''RunFileActionResponse'' (RunFileActionResponse_props m)"

definition RunFileActionResponse_good :: "RunFileActionResponse \<Rightarrow> bool" where
  "RunFileActionResponse_good m \<longleftrightarrow> True"

lemma RunFileActionResponse_lookup:
  "\<not> shadows (RunFileActionResponse_props m)"
  by (simp_all add: RunFileActionResponse_props_def shadows_def)

lemma RunFileActionResponse_accepts:
  assumes "RunFileActionResponse_good m"
  shows "RunFileActionResponse_verify (RunFileActionResponse_obj m) = ok None"
  unfolding RunFileActionResponse_verify_def RunFileActionResponse_obj_def
  by (rule runs_verify [where members = "[]"],
      rule runs_Nil)
    (simp_all add: RunFileActionResponse_lookup assms [unfolded RunFileActionResponse_good_def] at_most_one.simps(1))

lemma RunFileActionResponse_round:
  assumes "RunFileActionResponse_good m" "\<not> to_defaults opts"
  shows "\<exists>ps. RunFileActionResponse_toObject (RunFileActionResponse_obj m) (Some opts) = ok (plain ps) \<and>
    RunFileActionResponse_fromObject (plain ps) = ok (RunFileActionResponse_obj m)"
  unfolding RunFileActionResponse_toObject_def RunFileActionResponse_fromObject_def RunFileActionResponse_obj_def
  by (rule round_trip, simp,
      rule all_yield_Nil,
      rule build.simps(1) [THEN trans])
    (simp_all add: assms [unfolded RunFileActionResponse_good_def] RunFileActionResponse_lookup plain_keys RunFileActionResponse_props_def)

lemma RunFileActionResponse_guarded: "RunFileActionResponse_verify v = ok None \<Longrightarrow> all_plain v \<Longrightarrow> \<exists>m. RunFileActionResponse_fromObject v = ok m"
  unfolding RunFileActionResponse_verify_def RunFileActionResponse_fromObject_def
  by (rule guards_object, rule guards_Nil,
      assumption, assumption) simp

interpretation RunFileActionResponse_plain: message_plain RunFileActionResponse_obj RunFileActionResponse_verify RunFileActionResponse_fromObject RunFileActionResponse_toObject RunFileActionResponse_good
  by unfold_locales
    (use RunFileActionResponse_accepts RunFileActionResponse_round RunFileActionResponse_guarded in \<open>auto simp: RunFileActionResponse_obj_def RunFileActionResponse_verify_def dest: verified_object\<close>)

subsection \<open>GetThumbnailRequest\<close>

definition GetThumbnailRequest_construct :: "js \<Rightarrow> js res" where
  "GetThumbnailRequest_construct = construct ''GetThumbnailRequest'' [] None"

definition GetThumbnailRequest_create :: "js \<Rightarrow> js res" where
  "GetThumbnailRequest_create properties = GetThumbnailRequest_construct properties"

definition GetThumbnailRequest_checks :: "check list" where
  "GetThumbnailRequest_checks =
     [v_field ''path'' v_string,
      v_field ''size'' (v_enum ThumbnailSize)]"

definition GetThumbnailRequest_verify :: "js \<Rightarrow> string option res" where
  "GetThumbnailRequest_verify = verify_with GetThumbnailRequest_checks"

definition GetThumbnailRequest_setters :: "setter list" where
  "GetThumbnailRequest_setters =
     [f_field ''path'' c_string,
      f_opt ''size'' (c_enum ThumbnailSize)]"

definition GetThumbnailRequest_fromObject :: "js \<Rightarrow> js res" where
  "GetThumbnailRequest_fromObject = from_object ''GetThumbnailRequest'' [] GetThumbnailRequest_setters"

definition GetThumbnailRequest_writers :: "writer list" where
  "GetThumbnailRequest_writers =
     [d_value ''path'' (String []),
      d_enum ThumbnailSize ''size'',
      t_field ''path'' t_same,
      t_field ''size'' (t_enum ThumbnailSize)]"

definition GetThumbnailRequest_toObject :: "js \<Rightarrow> to_options option \<Rightarrow> js res" where
  "GetThumbnailRequest_toObject = to_object GetThumbnailRequest_writers"

definition GetThumbnailRequest_toJSON :: "js \<Rightarrow> js res" where
  "GetThumbnailRequest_toJSON message = GetThumbnailRequest_toObject message (Some toJSONOptions)"

definition GetThumbnailRequest_getTypeUrl :: "jstring option \<Rightarrow> jstring" where
  "GetThumbnailRequest_getTypeUrl = type_url ''GetThumbnailRequest''"

definition GetThumbnailRequest_props :: "GetThumbnailRequest \<Rightarrow> props" where
  "GetThumbnailRequest_props m =
     opt_prop ''path'' String (GetThumbnailRequest_path m) @
     opt_prop ''size'' int_js (GetThumbnailRequest_size m)"

definition GetThumbnailRequest_obj :: "GetThumbnailRequest \<Rightarrow> js" where
  "GetThumbnailRequest_obj m = Object ''GetThumbnailRequest'' (GetThumbnailRequest_props m)"

definition GetThumbnailRequest_good :: "GetThumbnailRequest \<Rightarrow> bool" where
  "GetThumbnailRequest_good m \<longleftrightarrow> opt_all (enum_ok ThumbnailSize) (GetThumbnailRequest_size m)"

lemma GetThumbnailRequest_lookup:
  "lookup (GetThumbnailRequest_props m) ''path'' = map_option String (GetThumbnailRequest_path m)"
  "lookup (GetThumbnailRequest_props m) ''size'' = map_option int_js (GetThumbnailRequest_size m)"
  "\<not> shadows (GetThumbnailRequest_props m)"
  by (simp_all add: GetThumbnailRequest_props_def shadows_def)

lemma GetThumbnailRequest_accepts:
  assumes "GetThumbnailRequest_good m"
  shows "GetThumbnailRequest_verify (GetThumbnailRequest_obj m) = ok None"
  unfolding GetThumbnailRequest_verify_def GetThumbnailRequest_checks_def GetThumbnailRequest_obj_def
  by (rule runs_verify [where members = "[]"],
      rule string_plain.runs_opt [where x = "GetThumbnailRequest_path m"],
      rule ThumbnailSize_plain.runs_opt [where x = "GetThumbnailRequest_size m"],
      rule runs_Nil)
    (simp_all add: GetThumbnailRequest_lookup assms [unfolded GetThumbnailRequest_good_def] at_most_one.simps(1))

lemma GetThumbnailRequest_round:
  assumes "GetThumbnailRequest_good m" "\<not> to_defaults opts"
  shows "\<exists>ps. GetThumbnailRequest_toObject (GetThumbnailRequest_obj m) (Some opts) = ok (plain ps) \<and>
    GetThumbnailRequest_fromObject (plain ps) = ok (GetThumbnailRequest_obj m)"
  unfolding GetThumbnailRequest_toObject_def GetThumbnailRequest_writers_def GetThumbnailRequest_fromObject_def GetThumbnailRequest_setters_def GetThumbnailRequest_obj_def
  by (rule round_trip, simp,
      rule all_yield_Cons, rule all_yield_Cons, rule all_yield_Cons, rule all_yield_Cons,
      rule all_yield_Nil,
      (rule ThumbnailSize_plain.yields_opt [where x = "GetThumbnailRequest_size m"]; simp add: assms [unfolded GetThumbnailRequest_good_def] GetThumbnailRequest_lookup plain_keys),
      (rule string_plain.yields_opt [where x = "GetThumbnailRequest_path m"]; simp add: assms [unfolded GetThumbnailRequest_good_def] GetThumbnailRequest_lookup plain_keys),
      (rule yields_default(3); simp add: assms [unfolded GetThumbnailRequest_good_def] GetThumbnailRequest_lookup plain_keys),
      (rule yields_default(1); simp add: assms [unfolded GetThumbnailRequest_good_def] GetThumbnailRequest_lookup plain_keys),
      rule string_plain.build_opt [where x = "GetThumbnailRequest_path m" and opts = opts],
      rule ThumbnailSize_plain.build_opt [where x = "GetThumbnailRequest_size m" and opts = opts],
      rule build.simps(1) [THEN trans])
    (simp_all add: assms [unfolded GetThumbnailRequest_good_def] GetThumbnailRequest_lookup plain_keys GetThumbnailRequest_props_def)

lemma GetThumbnailRequest_guarded: "GetThumbnailRequest_verify v = ok None \<Longrightarrow> all_plain v \<Longrightarrow> \<exists>m. GetThumbnailRequest_fromObject v = ok m"
  unfolding GetThumbnailRequest_verify_def GetThumbnailRequest_checks_def GetThumbnailRequest_fromObject_def GetThumbnailRequest_setters_def
  by (rule guards_object, rule guards_Cons, rule guards_Cons, rule guards_Nil,
      (rule ThumbnailSize_plain.guard_opt(1), simp),
      (rule string_plain.guard_opt(1), simp),
      assumption, assumption) simp

interpretation GetThumbnailRequest_plain: message_plain GetThumbnailRequest_obj GetThumbnailRequest_verify GetThumbnailRequest_fromObject GetThumbnailRequest_toObject GetThumbnailRequest_good
  by unfold_locales
    (use GetThumbnailRequest_accepts GetThumbnailRequest_round GetThumbnailRequest_guarded in \<open>auto simp: GetThumbnailRequest_obj_def GetThumbnailRequest_verify_def dest: verified_object\<close>)

subsection \<open>GetThumbnailResponse\<close>

definition GetThumbnailResponse_construct :: "js \<Rightarrow> js res" where
  "GetThumbnailResponse_construct = construct ''GetThumbnailResponse'' [] None"

definition GetThumbnailResponse_create :: "js \<Rightarrow> js res" where
  "GetThumbnailResponse_create properties = GetThumbnailResponse_construct properties"

definition GetThumbnailResponse_checks :: "check list" where
  "GetThumbnailResponse_checks =
     [v_field ''thumbnailPath'' v_string,
      v_field ''width'' v_integer,
      v_field ''height'' v_integer]"

definition GetThumbnailResponse_verify :: "js \<Rightarrow> string option res" where
  "GetThumbnailResponse_verify = verify_with GetThumbnailResponse_checks"

definition GetThumbnailResponse_setters :: "setter list" where
  "GetThumbnailResponse_setters =
     [f_field ''thumbnailPath'' c_string,
      f_field ''width'' c_uint32,
      f_field ''height'' c_uint32]"

definition GetThumbnailResponse_fromObject :: "js \<Rightarrow> js res" where
  "GetThumbnailResponse_fromObject = from_object ''GetThumbnailResponse'' [] GetThumbnailResponse_setters"

definition GetThumbnailResponse_writers :: "writer list" where
  "GetThumbnailResponse_writers =
     [d_value ''thumbnailPath'' (String []),
      d_value ''width'' (int_js 0),
      d_value ''height'' (int_js 0),
      t_field ''thumbnailPath'' t_same,
      t_field ''width'' t_same,
      t_field ''height'' t_same]"

definition GetThumbnailResponse_toObject :: "js \<Rightarrow> to_options option \<Rightarrow> js res" where
  "GetThumbnailResponse_toObject = to_object GetThumbnailResponse_writers"

definition GetThumbnailResponse_toJSON :: "js \<Rightarrow> js res" where
  "GetThumbnailResponse_toJSON message = GetThumbnailResponse_toObject message (Some toJSONOptions)"

definition GetThumbnailResponse_getTypeUrl :: "jstring option \<Rightarrow> jstring" where
  "GetThumbnailResponse_getTypeUrl = type_url ''GetThumbnailResponse''"

definition GetThumbnailResponse_props :: "GetThumbnailResponse \<Rightarrow> props" where
  "GetThumbnailResponse_props m =
     opt_prop ''thumbnailPath'' String (GetThumbnailResponse_thumbnailPath m) @
     opt_prop ''width'' int_js (GetThumbnailResponse_width m) @
     opt_prop ''height'' int_js (GetThumbnailResponse_height m)"

definition GetThumbnailResponse_obj :: "GetThumbnailResponse \<Rightarrow> js" where
  "GetThumbnailResponse_obj m = Object ''GetThumbnailResponse'' (GetThumbnailResponse_props m)"

definition GetThumbnailResponse_good :: "GetThumbnailResponse \<Rightarrow> bool" where
  "GetThumbnailResponse_good m \<longleftrightarrow> opt_all uint32_ok (GetThumbnailResponse_width m) \<and>
     opt_all uint32_ok (GetThumbnailResponse_height m)"

lemma GetThumbnailResponse_lookup:
  "lookup (GetThumbnailResponse_props m) ''thumbnailPath'' = map_option String (GetThumbnailResponse_thumbnailPath m)"
  "lookup (GetThumbnailResponse_props m) ''width'' = map_option int_js (GetThumbnailResponse_width m)"
  "lookup (GetThumbnailResponse_props m) ''height'' = map_option int_js (GetThumbnailResponse_height m)"
  "\<not> shadows (GetThumbnailResponse_props m)"
  by (simp_all add: GetThumbnailResponse_props_def shadows_def)

lemma GetThumbnailResponse_accepts:
  assumes "GetThumbnailResponse_good m"
  shows "GetThumbnailResponse_verify (GetThumbnailResponse_obj m) = ok None"
  unfolding GetThumbnailResponse_verify_def GetThumbnailResponse_checks_def GetThumbnailResponse_obj_def
  by (rule runs_verify [where members = "[]"],
      rule string_plain.runs_opt [where x = "GetThumbnailResponse_thumbnailPath m"],
      rule uint32_plain.runs_opt [where x = "GetThumbnailResponse_width m"],
      rule uint32_plain.runs_opt [where x = "GetThumbnailResponse_height m"],
      rule runs_Nil)
    (simp_all add: GetThumbnailResponse_lookup assms [unfolded GetThumbnailResponse_good_def] at_most_one.simps(1))

lemma GetThumbnailResponse_round:
  assumes "GetThumbnailResponse_good m" "\<not> to_defaults opts"
  shows "\<exists>ps. GetThumbnailResponse_toObject (GetThumbnailResponse_obj m) (Some opts) = ok (plain ps) \<and>
    GetThumbnailResponse_fromObject (plain ps) = ok (GetThumbnailResponse_obj m)"
  unfolding GetThumbnailResponse_toObject_def GetThumbnailResponse_writers_def GetThumbnailResponse_fromObject_def GetThumbnailResponse_setters_def GetThumbnailResponse_obj_def
  by (rule round_trip, simp,
      rule all_yield_Cons, rule all_yield_Cons, rule all_yield_Cons, rule all_yield_Cons,
      rule all_yield_Cons, rule all_yield_Cons, rule all_yield_Nil,
      (rule uint32_plain.yields_opt [where x = "GetThumbnailResponse_height m"]; simp add: assms [unfolded GetThumbnailResponse_good_def] GetThumbnailResponse_lookup plain_keys),
      (rule uint32_plain.yields_opt [where x = "GetThumbnailResponse_width m"]; simp add: assms [unfolded GetThumbnailResponse_good_def] GetThumbnailResponse_lookup plain_keys),
      (rule string_plain.yields_opt [where x = "GetThumbnailResponse_thumbnailPath m"]; simp add: assms [unfolded GetThumbnailResponse_good_def] GetThumbnailResponse_lookup plain_keys),
      (rule yields_default(1); simp add: assms [unfolded GetThumbnailResponse_good_def] GetThumbnailResponse_lookup plain_keys),
      (rule yields_default(1); simp add: assms [unfolded GetThumbnailResponse_good_def] GetThumbnailResponse_lookup plain_keys),
      (rule yields_default(1); simp add: assms [unfolded GetThumbnailResponse_good_def] GetThumbnailResponse_lookup plain_keys),
      rule string_plain.build_opt [where x = "GetThumbnailResponse_thumbnailPath m" and opts = opts],
      rule uint32_plain.build_opt [where x = "GetThumbnailResponse_width m" and opts = opts],
      rule uint32_plain.build_opt [where x = "GetThumbnailResponse_height m" and opts = opts],
      rule build.simps(1) [THEN trans])
    (simp_all add: assms [unfolded GetThumbnailResponse_good_def] GetThumbnailResponse_lookup plain_keys GetThumbnailResponse_props_def)

lemma GetThumbnailResponse_guarded: "GetThumbnailResponse_verify v = ok None \<Longrightarrow> all_plain v \<Longrightarrow> \<exists>m. GetThumbnailResponse_fromObject v = ok m"
  unfolding GetThumbnailResponse_verify_def GetThumbnailResponse_checks_def GetThumbnailResponse_fromObject_def GetThumbnailResponse_setters_def
  by (rule guards_object, rule guards_Cons, rule guards_Cons, rule guards_Cons, rule guards_Nil,
      (rule uint32_plain.guard_opt(1), simp),
      (rule uint32_plain.guard_opt(1), simp),
      (rule string_plain.guard_opt(1), simp),
      assumption, assumption) simp

interpretation GetThumbnailResponse_plain: message_plain GetThumbnailResponse_obj GetThumbnailResponse_verify GetThumbnailResponse_fromObject GetThumbnailResponse_toObject GetThumbnailResponse_good
  by unfold_locales
    (use GetThumbnailResponse_accepts GetThumbnailResponse_round GetThumbnailResponse_guarded in \<open>auto simp: GetThumbnailResponse_obj_def GetThumbnailResponse_verify_def dest: verified_object\<close>)

subsection \<open>MountEntry\<close>

definition MountEntry_construct :: "js \<Rightarrow> js res" where
  "MountEntry_construct = construct ''MountEntry'' [] None"

definition MountEntry_create :: "js \<Rightarrow> js res" where
  "MountEntry_create properties = MountEntry_construct properties"

definition MountEntry_checks :: "check list" where
  "MountEntry_checks =
     [v_field ''path'' v_string,
      v_field ''label'' v_string,
      v_field ''iconName'' v_string]"

definition MountEntry_verify :: "js \<Rightarrow> string option res" where
  "MountEntry_verify = verify_with MountEntry_checks"

definition MountEntry_setters :: "setter list" where
  "MountEntry_setters =
     [f_field ''path'' c_string,
      f_field ''label'' c_string,
      f_field ''iconName'' c_string]"

definition MountEntry_fromObject :: "js \<Rightarrow> js res" where
  "MountEntry_fromObject = from_object ''MountEntry'' [] MountEntry_setters"

definition MountEntry_writers :: "writer list" where
  "MountEntry_writers =
     [d_value ''path'' (String []),
      d_value ''label'' (String []),
      d_value ''iconName'' (String []),
      t_field ''path'' t_same,
      t_field ''label'' t_same,
      t_field ''iconName'' t_same]"

definition MountEntry_toObject :: "js \<Rightarrow> to_options option \<Rightarrow> js res" where
  "MountEntry_toObject = to_object MountEntry_writers"

definition MountEntry_toJSON :: "js \<Rightarrow> js res" where
  "MountEntry_toJSON message = MountEntry_toObject message (Some toJSONOptions)"

definition MountEntry_getTypeUrl :: "jstring option \<Rightarrow> jstring" where
  "MountEntry_getTypeUrl = type_url ''MountEntry''"

definition MountEntry_props :: "MountEntry \<Rightarrow> props" where
  "MountEntry_props m =
     opt_prop ''path'' String (MountEntry_path m) @
     opt_prop ''label'' String (MountEntry_label m) @
     opt_prop ''iconName'' String (MountEntry_iconName m)"

definition MountEntry_obj :: "MountEntry \<Rightarrow> js" where
  "MountEntry_obj m = Object ''MountEntry'' (MountEntry_props m)"

definition MountEntry_good :: "MountEntry \<Rightarrow> bool" where
  "MountEntry_good m \<longleftrightarrow> True"

lemma MountEntry_lookup:
  "lookup (MountEntry_props m) ''path'' = map_option String (MountEntry_path m)"
  "lookup (MountEntry_props m) ''label'' = map_option String (MountEntry_label m)"
  "lookup (MountEntry_props m) ''iconName'' = map_option String (MountEntry_iconName m)"
  "\<not> shadows (MountEntry_props m)"
  by (simp_all add: MountEntry_props_def shadows_def)

lemma MountEntry_accepts:
  assumes "MountEntry_good m"
  shows "MountEntry_verify (MountEntry_obj m) = ok None"
  unfolding MountEntry_verify_def MountEntry_checks_def MountEntry_obj_def
  by (rule runs_verify [where members = "[]"],
      rule string_plain.runs_opt [where x = "MountEntry_path m"],
      rule string_plain.runs_opt [where x = "MountEntry_label m"],
      rule string_plain.runs_opt [where x = "MountEntry_iconName m"],
      rule runs_Nil)
    (simp_all add: MountEntry_lookup assms [unfolded MountEntry_good_def] at_most_one.simps(1))

lemma MountEntry_round:
  assumes "MountEntry_good m" "\<not> to_defaults opts"
  shows "\<exists>ps. MountEntry_toObject (MountEntry_obj m) (Some opts) = ok (plain ps) \<and>
    MountEntry_fromObject (plain ps) = ok (MountEntry_obj m)"
  unfolding MountEntry_toObject_def MountEntry_writers_def MountEntry_fromObject_def MountEntry_setters_def MountEntry_obj_def
  by (rule round_trip, simp,
      rule all_yield_Cons, rule all_yield_Cons, rule all_yield_Cons, rule all_yield_Cons,
      rule all_yield_Cons, rule all_yield_Cons, rule all_yield_Nil,
      (rule string_plain.yields_opt [where x = "MountEntry_iconName m"]; simp add: assms [unfolded MountEntry_good_def] MountEntry_lookup plain_keys),
      (rule string_plain.yields_opt [where x = "MountEntry_label m"]; simp add: assms [unfolded MountEntry_good_def] MountEntry_lookup plain_keys),
      (rule string_plain.yields_opt [where x = "MountEntry_path m"]; simp add: assms [unfolded MountEntry_good_def] MountEntry_lookup plain_keys),
      (rule yields_default(1); simp add: assms [unfolded MountEntry_good_def] MountEntry_lookup plain_keys),
      (rule yields_default(1); simp add: assms [unfolded MountEntry_good_def] MountEntry_lookup plain_keys),
      (rule yields_default(1); simp add: assms [unfolded MountEntry_good_def] MountEntry_lookup plain_keys),
      rule string_plain.build_opt [where x = "MountEntry_path m" and opts = opts],
      rule string_plain.build_opt [where x = "MountEntry_label m" and opts = opts],
      rule string_plain.build_opt [where x = "MountEntry_iconName m" and opts = opts],
      rule build.simps(1) [THEN trans])
    (simp_all add: assms [unfolded MountEntry_good_def] MountEntry_lookup plain_keys MountEntry_props_def)

lemma MountEntry_guarded: "MountEntry_verify v = ok None \<Longrightarrow> all_plain v \<Longrightarrow> \<exists>m. MountEntry_fromObject v = ok m"
  unfolding MountEntry_verify_def MountEntry_checks_def MountEntry_fromObject_def MountEntry_setters_def
  by (rule guards_object, rule guards_Cons, rule guards_Cons, rule guards_Cons, rule guards_Nil,
      (rule string_plain.guard_opt(1), simp),
      (rule string_plain.guard_opt(1), simp),
      (rule string_plain.guard_opt(1), simp),
      assumption, assumption) simp

interpretation MountEntry_plain: message_plain MountEntry_obj MountEntry_verify MountEntry_fromObject MountEntry_toObject MountEntry_good
  by unfold_locales
    (use MountEntry_accepts MountEntry_round MountEntry_guarded in \<open>auto simp: MountEntry_obj_def MountEntry_verify_def dest: verified_object\<close>)

subsection \<open>ListMountsRequest\<close>

definition ListMountsRequest_construct :: "js \<Rightarrow> js res" where
  "ListMountsRequest_construct = construct ''ListMountsRequest'' [] None"

definition ListMountsRequest_create :: "js \<Rightarrow> js res" where
  "ListMountsRequest_create properties = ListMountsRequest_construct properties"

definition ListMountsRequest_verify :: "js \<Rightarrow> string option res" where
  "ListMountsRequest_verify = verify_with []"

definition ListMountsRequest_fromObject :: "js \<Rightarrow> js res" where
  "ListMountsRequest_fromObject = from_object ''ListMountsRequest'' [] []"

definition ListMountsRequest_toObject :: "js \<Rightarrow> to_options option \<Rightarrow> js res" where
  "ListMountsRequest_toObject = to_object []"

definition ListMountsRequest_toJSON :: "js \<Rightarrow> js res" where
  "ListMountsRequest_toJSON message = ListMountsRequest_toObject message (Some toJSONOptions)"

definition ListMountsRequest_getTypeUrl :: "jstring option \<Rightarrow> jstring" where
  "ListMountsRequest_getTypeUrl = type_url ''ListMountsRequest''"

definition ListMountsRequest_props :: "ListMountsRequest \<Rightarrow> props" where
  "ListMountsRequest_props m =
     []"

definition ListMountsRequest_obj :: "ListMountsRequest \<Rightarrow> js" where
  "ListMountsRequest_obj m = Object ''ListMountsRequest'' (ListMountsRequest_props m)"

definition ListMountsRequest_good :: "ListMountsRequest \<Rightarrow> bool" where
  "ListMountsRequest_good m \<longleftrightarrow> True"

lemma ListMountsRequest_lookup:
  "\<not> shadows (ListMountsRequest_props m)"
  by (simp_all add: ListMountsRequest_props_def shadows_def)

lemma ListMountsRequest_accepts:
  assumes "ListMountsRequest_good m"
  shows "ListMountsRequest_verify (ListMountsRequest_obj m) = ok None"
  unfolding ListMountsRequest_verify_def ListMountsRequest_obj_def
  by (rule runs_verify [where members = "[]"],
      rule runs_Nil)
    (simp_all add: ListMountsRequest_lookup assms [unfolded ListMountsRequest_good_def] at_most_one.simps(1))

lemma ListMountsRequest_round:
  assumes "ListMountsRequest_good m" "\<not> to_defaults opts"
  shows "\<exists>ps. ListMountsRequest_toObject (ListMountsRequest_obj m) (Some opts) = ok (plain ps) \<and>
    ListMountsRequest_fromObject (plain ps) = ok (ListMountsRequest_obj m)"
  unfolding ListMountsRequest_toObject_def ListMountsRequest_fromObject_def ListMountsRequest_obj_def
  by (rule round_trip, simp,
      rule all_yield_Nil,
      rule build.simps(1) [THEN trans])
    (simp_all add: assms [unfolded ListMountsRequest_good_def] ListMountsRequest_lookup plain_keys ListMountsRequest_props_def)

lemma ListMountsRequest_guarded: "ListMountsRequest_verify v = ok None \<Longrightarrow> all_plain v \<Longrightarrow> \<exists>m. ListMountsRequest_fromObject v = ok m"
  unfolding ListMountsRequest_verify_def ListMountsRequest_fromObject_def
  by (rule guards_object, rule guards_Nil,
      assumption, assumption) simp

interpretation ListMountsRequest_plain: message_plain ListMountsRequest_obj ListMountsRequest_verify ListMountsRequest_fromObject ListMountsRequest_toObject ListMountsRequest_good
  by unfold_locales
    (use ListMountsRequest_accepts ListMountsRequest_round ListMountsRequest_guarded in \<open>auto simp: ListMountsRequest_obj_def ListMountsRequest_verify_def dest: verified_object\<close>)

subsection \<open>ListMountsResponse\<close>

definition ListMountsResponse_init :: props where
  "ListMountsResponse_init = [(js_str ''mounts'', Array [])]"

definition ListMountsResponse_construct :: "js \<Rightarrow> js res" where
  "ListMountsResponse_construct = construct ''ListMountsResponse'' ListMountsResponse_init None"

definition ListMountsResponse_create :: "js \<Rightarrow> js res" where
  "ListMountsResponse_create properties = ListMountsResponse_construct properties"

definition ListMountsResponse_checks :: "check list" where
  "ListMountsResponse_checks =
     [v_field ''mounts'' (v_messages MountEntry_verify)]"

definition ListMountsResponse_verify :: "js \<Rightarrow> string option res" where
  "ListMountsResponse_verify = verify_with ListMountsResponse_checks"

definition ListMountsResponse_setters :: "setter list" where
  "ListMountsResponse_setters =
     [f_truthy ''mounts'' (c_array ''ListMountsResponse'' ''mounts'' (c_message ''ListMountsResponse'' ''mounts'' MountEntry_fromObject))]"

definition ListMountsResponse_fromObject :: "js \<Rightarrow> js res" where
  "ListMountsResponse_fromObject = from_object ''ListMountsResponse'' ListMountsResponse_init ListMountsResponse_setters"

definition ListMountsResponse_writers :: "writer list" where
  "ListMountsResponse_writers =
     [d_array ''mounts'',
      t_list ''mounts'' (t_message MountEntry_toObject)]"

definition ListMountsResponse_toObject :: "js \<Rightarrow> to_options option \<Rightarrow> js res" where
  "ListMountsResponse_toObject = to_object ListMountsResponse_writers"

definition ListMountsResponse_toJSON :: "js \<Rightarrow> js res" where
  "ListMountsResponse_toJSON message = ListMountsResponse_toObject message (Some toJSONOptions)"

definition ListMountsResponse_getTypeUrl :: "jstring option \<Rightarrow> jstring" where
  "ListMountsResponse_getTypeUrl = type_url ''ListMountsResponse''"

definition ListMountsResponse_props :: "ListMountsResponse \<Rightarrow> props" where
  "ListMountsResponse_props m =
     [(js_str ''mounts'', Array (map MountEntry_obj (ListMountsResponse_mounts m)))]"

definition ListMountsResponse_obj :: "ListMountsResponse \<Rightarrow> js" where
  "ListMountsResponse_obj m = Object ''ListMountsResponse'' (ListMountsResponse_props m)"

definition ListMountsResponse_good :: "ListMountsResponse \<Rightarrow> bool" where
  "ListMountsResponse_good m \<longleftrightarrow> list_all MountEntry_good (ListMountsResponse_mounts m)"

lemma ListMountsResponse_lookup:
  "lookup (ListMountsResponse_props m) ''mounts'' = Some (Array (map MountEntry_obj (ListMountsResponse_mounts m)))"
  "\<not> shadows (ListMountsResponse_props m)"
  by (simp_all add: ListMountsResponse_props_def shadows_def)

lemma ListMountsResponse_accepts:
  assumes "ListMountsResponse_good m"
  shows "ListMountsResponse_verify (ListMountsResponse_obj m) = ok None"
  unfolding ListMountsResponse_verify_def ListMountsResponse_checks_def ListMountsResponse_obj_def
  by (rule runs_verify [where members = "[]"],
      rule MountEntry_plain.sub.runs_list [where xs = "ListMountsResponse_mounts m"],
      rule runs_Nil)
    (simp_all add: ListMountsResponse_lookup assms [unfolded ListMountsResponse_good_def] at_most_one.simps(1))

lemma ListMountsResponse_round:
  assumes "ListMountsResponse_good m" "\<not> to_defaults opts"
  shows "\<exists>ps. ListMountsResponse_toObject (ListMountsResponse_obj m) (Some opts) = ok (plain ps) \<and>
    ListMountsResponse_fromObject (plain ps) = ok (ListMountsResponse_obj m)"
  unfolding ListMountsResponse_toObject_def ListMountsResponse_writers_def ListMountsResponse_fromObject_def ListMountsResponse_setters_def ListMountsResponse_obj_def
  by (rule round_trip, simp,
      rule all_yield_Cons, rule all_yield_Cons, rule all_yield_Nil,
      (rule MountEntry_plain.sub.yields_list [where xs = "ListMountsResponse_mounts m"]; simp add: assms [unfolded ListMountsResponse_good_def] ListMountsResponse_lookup plain_keys),
      (rule yields_array; simp add: assms [unfolded ListMountsResponse_good_def] ListMountsResponse_lookup plain_keys),
      rule MountEntry_plain.sub.build_list [where xs = "ListMountsResponse_mounts m" and opts = opts],
      rule build.simps(1) [THEN trans])
    (simp_all add: assms [unfolded ListMountsResponse_good_def] ListMountsResponse_lookup plain_keys ListMountsResponse_props_def ListMountsResponse_init_def)

lemma ListMountsResponse_guarded: "ListMountsResponse_verify v = ok None \<Longrightarrow> all_plain v \<Longrightarrow> \<exists>m. ListMountsResponse_fromObject v = ok m"
  unfolding ListMountsResponse_verify_def ListMountsResponse_checks_def ListMountsResponse_fromObject_def ListMountsResponse_setters_def
  by (rule guards_object, rule guards_Cons, rule guards_Nil,
      (rule MountEntry_plain.sub.guard_list, simp),
      assumption, assumption) simp

interpretation ListMountsResponse_plain: message_plain ListMountsResponse_obj ListMountsResponse_verify ListMountsResponse_fromObject ListMountsResponse_toObject ListMountsResponse_good
  by unfold_locales
    (use ListMountsResponse_accepts ListMountsResponse_round ListMountsResponse_guarded in \<open>auto simp: ListMountsResponse_obj_def ListMountsResponse_verify_def dest: verified_object\<close>)

end
