(* ===== verification/ProtocolPlain.thy ===== *)
theory ProtocolPlain
  imports Protocol DaemonPlain QueryPlain FilesPlain DesktopPlain
begin

text \<open>
  Construction, checking and plain objects for the envelope, its requests, responses and events. For each class \<open>X\<close>:
  \<open>X_construct\<close> and \<open>X_create\<close>, \<open>X_verify\<close>, \<open>X_fromObject\<close>, \<open>X_toObject\<close>, \<open>X_toJSON\<close> and
  \<open>X_getTypeUrl\<close> are the methods, over arbitrary values; the lists \<open>X_checks\<close>, \<open>X_setters\<close> and
  \<open>X_writers\<close> are the statements of \<open>verify\<close>, \<open>fromObject\<close> and \<open>toObject\<close> for the single fields. \<open>X_obj m\<close> is the instance that holds the message
  \<open>m\<close> of the typed model and \<open>X_good\<close> says that its integers fit their fields, its maps are objects and
  at most one member of a oneof is set. The interpretation of \<open>message_plain\<close> shows that such an instance
  passes \<open>verify\<close>, that \<open>fromObject\<close> takes its plain form back to it, and that \<open>fromObject\<close> does not
  throw on plain objects that pass \<open>verify\<close>.
\<close>

subsection \<open>Request\<close>

definition Request_oneof :: oneof where
  "Request_oneof =
     Some (''kind'', [''search'', ''listTags'', ''hydrateTags'', ''related'',
      ''globSearch'', ''tag'', ''metadata'', ''metadataSet'', ''status'', ''reloadRules'',
      ''listDirectory'', ''statFile'', ''renameFile'', ''deleteFile'', ''chmodFile'',
      ''copy'', ''paste'', ''createFile'', ''createDirectory'', ''listPlaces'',
      ''pinPlace'', ''unpinPlace'', ''trashFile'', ''listTrash'', ''restoreTrash'',
      ''emptyTrash'', ''listAppsForFile'', ''openWithApp'', ''getBrowserConfig'',
      ''launchGui'', ''getThumbnail'', ''listMounts'', ''getFileBadges'',
      ''getFileActions'', ''runFileAction'', ''pinSearch'', ''unpinSearch'',
      ''listSavedSearches'', ''shutdown'', ''reindexFile''])"

definition Request_construct :: "js \<Rightarrow> js res" where
  "Request_construct = construct ''Request'' [] Request_oneof"

definition Request_create :: "js \<Rightarrow> js res" where
  "Request_create properties = Request_construct properties"

definition Request_checks :: "check list" where
  "Request_checks =
     [v_member ''kind'' ''search'' (v_message SearchRequest_verify),
      v_member ''kind'' ''listTags'' (v_message ListTagsRequest_verify),
      v_member ''kind'' ''hydrateTags'' (v_message HydrateTagsRequest_verify),
      v_member ''kind'' ''related'' (v_message RelatedRequest_verify),
      v_member ''kind'' ''globSearch'' (v_message GlobSearchRequest_verify),
      v_member ''kind'' ''tag'' (v_message TagRequest_verify),
      v_member ''kind'' ''metadata'' (v_message MetadataRequest_verify),
      v_member ''kind'' ''metadataSet'' (v_message MetadataSetRequest_verify),
      v_member ''kind'' ''status'' (v_message StatusRequest_verify),
      v_member ''kind'' ''reloadRules'' (v_message ReloadRulesRequest_verify),
      v_member ''kind'' ''listDirectory'' (v_message ListDirectoryRequest_verify),
      v_member ''kind'' ''statFile'' (v_message StatFileRequest_verify),
      v_member ''kind'' ''renameFile'' (v_message RenameFileRequest_verify),
      v_member ''kind'' ''deleteFile'' (v_message DeleteFileRequest_verify),
      v_member ''kind'' ''chmodFile'' (v_message ChmodFileRequest_verify),
      v_member ''kind'' ''copy'' (v_message CopyRequest_verify),
      v_member ''kind'' ''paste'' (v_message PasteRequest_verify),
      v_member ''kind'' ''createFile'' (v_message CreateFileRequest_verify),
      v_member ''kind'' ''createDirectory'' (v_message CreateDirectoryRequest_verify),
      v_member ''kind'' ''listPlaces'' (v_message ListPlacesRequest_verify),
      v_member ''kind'' ''pinPlace'' (v_message PinPlaceRequest_verify),
      v_member ''kind'' ''unpinPlace'' (v_message UnpinPlaceRequest_verify),
      v_member ''kind'' ''trashFile'' (v_message TrashFileRequest_verify),
      v_member ''kind'' ''listTrash'' (v_message ListTrashRequest_verify),
      v_member ''kind'' ''restoreTrash'' (v_message RestoreTrashRequest_verify),
      v_member ''kind'' ''emptyTrash'' (v_message EmptyTrashRequest_verify),
      v_member ''kind'' ''listAppsForFile'' (v_message ListAppsForFileRequest_verify),
      v_member ''kind'' ''openWithApp'' (v_message OpenWithAppRequest_verify),
      v_member ''kind'' ''getBrowserConfig'' (v_message GetBrowserConfigRequest_verify),
      v_member ''kind'' ''launchGui'' (v_message LaunchGUIRequest_verify),
      v_member ''kind'' ''getThumbnail'' (v_message GetThumbnailRequest_verify),
      v_member ''kind'' ''listMounts'' (v_message ListMountsRequest_verify),
      v_member ''kind'' ''getFileBadges'' (v_message GetFileBadgesRequest_verify),
      v_member ''kind'' ''getFileActions'' (v_message GetFileActionsRequest_verify),
      v_member ''kind'' ''runFileAction'' (v_message RunFileActionRequest_verify),
      v_member ''kind'' ''pinSearch'' (v_message PinSearchRequest_verify),
      v_member ''kind'' ''unpinSearch'' (v_message UnpinSearchRequest_verify),
      v_member ''kind'' ''listSavedSearches'' (v_message ListSavedSearchesRequest_verify),
      v_member ''kind'' ''shutdown'' (v_message ShutdownRequest_verify),
      v_member ''kind'' ''reindexFile'' (v_message ReindexFileRequest_verify)]"

definition Request_verify :: "js \<Rightarrow> string option res" where
  "Request_verify = verify_with Request_checks"

definition Request_setters :: "setter list" where
  "Request_setters =
     [f_field ''search'' (c_message ''Request'' ''search'' SearchRequest_fromObject),
      f_field ''listTags'' (c_message ''Request'' ''listTags'' ListTagsRequest_fromObject),
      f_field ''hydrateTags'' (c_message ''Request'' ''hydrateTags'' HydrateTagsRequest_fromObject),
      f_field ''related'' (c_message ''Request'' ''related'' RelatedRequest_fromObject),
      f_field ''globSearch'' (c_message ''Request'' ''globSearch'' GlobSearchRequest_fromObject),
      f_field ''tag'' (c_message ''Request'' ''tag'' TagRequest_fromObject),
      f_field ''metadata'' (c_message ''Request'' ''metadata'' MetadataRequest_fromObject),
      f_field ''metadataSet'' (c_message ''Request'' ''metadataSet'' MetadataSetRequest_fromObject),
      f_field ''status'' (c_message ''Request'' ''status'' StatusRequest_fromObject),
      f_field ''reloadRules'' (c_message ''Request'' ''reloadRules'' ReloadRulesRequest_fromObject),
      f_field ''listDirectory'' (c_message ''Request'' ''listDirectory'' ListDirectoryRequest_fromObject),
      f_field ''statFile'' (c_message ''Request'' ''statFile'' StatFileRequest_fromObject),
      f_field ''renameFile'' (c_message ''Request'' ''renameFile'' RenameFileRequest_fromObject),
      f_field ''deleteFile'' (c_message ''Request'' ''deleteFile'' DeleteFileRequest_fromObject),
      f_field ''chmodFile'' (c_message ''Request'' ''chmodFile'' ChmodFileRequest_fromObject),
      f_field ''copy'' (c_message ''Request'' ''copy'' CopyRequest_fromObject),
      f_field ''paste'' (c_message ''Request'' ''paste'' PasteRequest_fromObject),
      f_field ''createFile'' (c_message ''Request'' ''createFile'' CreateFileRequest_fromObject),
      f_field ''createDirectory'' (c_message ''Request'' ''createDirectory'' CreateDirectoryRequest_fromObject),
      f_field ''listPlaces'' (c_message ''Request'' ''listPlaces'' ListPlacesRequest_fromObject),
      f_field ''pinPlace'' (c_message ''Request'' ''pinPlace'' PinPlaceRequest_fromObject),
      f_field ''unpinPlace'' (c_message ''Request'' ''unpinPlace'' UnpinPlaceRequest_fromObject),
      f_field ''trashFile'' (c_message ''Request'' ''trashFile'' TrashFileRequest_fromObject),
      f_field ''listTrash'' (c_message ''Request'' ''listTrash'' ListTrashRequest_fromObject),
      f_field ''restoreTrash'' (c_message ''Request'' ''restoreTrash'' RestoreTrashRequest_fromObject),
      f_field ''emptyTrash'' (c_message ''Request'' ''emptyTrash'' EmptyTrashRequest_fromObject),
      f_field ''listAppsForFile'' (c_message ''Request'' ''listAppsForFile'' ListAppsForFileRequest_fromObject),
      f_field ''openWithApp'' (c_message ''Request'' ''openWithApp'' OpenWithAppRequest_fromObject),
      f_field ''getBrowserConfig'' (c_message ''Request'' ''getBrowserConfig'' GetBrowserConfigRequest_fromObject),
      f_field ''launchGui'' (c_message ''Request'' ''launchGui'' LaunchGUIRequest_fromObject),
      f_field ''getThumbnail'' (c_message ''Request'' ''getThumbnail'' GetThumbnailRequest_fromObject),
      f_field ''listMounts'' (c_message ''Request'' ''listMounts'' ListMountsRequest_fromObject),
      f_field ''getFileBadges'' (c_message ''Request'' ''getFileBadges'' GetFileBadgesRequest_fromObject),
      f_field ''getFileActions'' (c_message ''Request'' ''getFileActions'' GetFileActionsRequest_fromObject),
      f_field ''runFileAction'' (c_message ''Request'' ''runFileAction'' RunFileActionRequest_fromObject),
      f_field ''pinSearch'' (c_message ''Request'' ''pinSearch'' PinSearchRequest_fromObject),
      f_field ''unpinSearch'' (c_message ''Request'' ''unpinSearch'' UnpinSearchRequest_fromObject),
      f_field ''listSavedSearches'' (c_message ''Request'' ''listSavedSearches'' ListSavedSearchesRequest_fromObject),
      f_field ''shutdown'' (c_message ''Request'' ''shutdown'' ShutdownRequest_fromObject),
      f_field ''reindexFile'' (c_message ''Request'' ''reindexFile'' ReindexFileRequest_fromObject)]"

definition Request_fromObject :: "js \<Rightarrow> js res" where
  "Request_fromObject = from_object ''Request'' [] Request_setters"

definition Request_writers :: "writer list" where
  "Request_writers =
     [t_member ''kind'' ''search'' (t_message SearchRequest_toObject),
      t_member ''kind'' ''tag'' (t_message TagRequest_toObject),
      t_member ''kind'' ''metadata'' (t_message MetadataRequest_toObject),
      t_member ''kind'' ''metadataSet'' (t_message MetadataSetRequest_toObject),
      t_member ''kind'' ''related'' (t_message RelatedRequest_toObject),
      t_member ''kind'' ''status'' (t_message StatusRequest_toObject),
      t_member ''kind'' ''reloadRules'' (t_message ReloadRulesRequest_toObject),
      t_member ''kind'' ''listTags'' (t_message ListTagsRequest_toObject),
      t_member ''kind'' ''hydrateTags'' (t_message HydrateTagsRequest_toObject),
      t_member ''kind'' ''listDirectory'' (t_message ListDirectoryRequest_toObject),
      t_member ''kind'' ''statFile'' (t_message StatFileRequest_toObject),
      t_member ''kind'' ''globSearch'' (t_message GlobSearchRequest_toObject),
      t_member ''kind'' ''renameFile'' (t_message RenameFileRequest_toObject),
      t_member ''kind'' ''deleteFile'' (t_message DeleteFileRequest_toObject),
      t_member ''kind'' ''chmodFile'' (t_message ChmodFileRequest_toObject),
      t_member ''kind'' ''listPlaces'' (t_message ListPlacesRequest_toObject),
      t_member ''kind'' ''pinPlace'' (t_message PinPlaceRequest_toObject),
      t_member ''kind'' ''unpinPlace'' (t_message UnpinPlaceRequest_toObject),
      t_member ''kind'' ''trashFile'' (t_message TrashFileRequest_toObject),
      t_member ''kind'' ''listTrash'' (t_message ListTrashRequest_toObject),
      t_member ''kind'' ''restoreTrash'' (t_message RestoreTrashRequest_toObject),
      t_member ''kind'' ''emptyTrash'' (t_message EmptyTrashRequest_toObject),
      t_member ''kind'' ''listAppsForFile'' (t_message ListAppsForFileRequest_toObject),
      t_member ''kind'' ''openWithApp'' (t_message OpenWithAppRequest_toObject),
      t_member ''kind'' ''getBrowserConfig'' (t_message GetBrowserConfigRequest_toObject),
      t_member ''kind'' ''getFileBadges'' (t_message GetFileBadgesRequest_toObject),
      t_member ''kind'' ''getFileActions'' (t_message GetFileActionsRequest_toObject),
      t_member ''kind'' ''runFileAction'' (t_message RunFileActionRequest_toObject),
      t_member ''kind'' ''launchGui'' (t_message LaunchGUIRequest_toObject),
      t_member ''kind'' ''getThumbnail'' (t_message GetThumbnailRequest_toObject),
      t_member ''kind'' ''copy'' (t_message CopyRequest_toObject),
      t_member ''kind'' ''paste'' (t_message PasteRequest_toObject),
      t_member ''kind'' ''createFile'' (t_message CreateFileRequest_toObject),
      t_member ''kind'' ''createDirectory'' (t_message CreateDirectoryRequest_toObject),
      t_member ''kind'' ''listMounts'' (t_message ListMountsRequest_toObject),
      t_member ''kind'' ''pinSearch'' (t_message PinSearchRequest_toObject),
      t_member ''kind'' ''unpinSearch'' (t_message UnpinSearchRequest_toObject),
      t_member ''kind'' ''listSavedSearches'' (t_message ListSavedSearchesRequest_toObject),
      t_member ''kind'' ''shutdown'' (t_message ShutdownRequest_toObject),
      t_member ''kind'' ''reindexFile'' (t_message ReindexFileRequest_toObject)]"

definition Request_toObject :: "js \<Rightarrow> to_options option \<Rightarrow> js res" where
  "Request_toObject = to_object Request_writers"

definition Request_toJSON :: "js \<Rightarrow> js res" where
  "Request_toJSON message = Request_toObject message (Some toJSONOptions)"

definition Request_getTypeUrl :: "jstring option \<Rightarrow> jstring" where
  "Request_getTypeUrl = type_url ''Request''"

definition Request_props :: "Request \<Rightarrow> props" where
  "Request_props m =
     opt_prop ''search'' SearchRequest_obj (Request_search m) @
     opt_prop ''listTags'' ListTagsRequest_obj (Request_listTags m) @
     opt_prop ''hydrateTags'' HydrateTagsRequest_obj (Request_hydrateTags m) @
     opt_prop ''related'' RelatedRequest_obj (Request_related m) @
     opt_prop ''globSearch'' GlobSearchRequest_obj (Request_globSearch m) @
     opt_prop ''tag'' TagRequest_obj (Request_tag m) @
     opt_prop ''metadata'' MetadataRequest_obj (Request_metadata m) @
     opt_prop ''metadataSet'' MetadataSetRequest_obj (Request_metadataSet m) @
     opt_prop ''status'' StatusRequest_obj (Request_status m) @
     opt_prop ''reloadRules'' ReloadRulesRequest_obj (Request_reloadRules m) @
     opt_prop ''listDirectory'' ListDirectoryRequest_obj (Request_listDirectory m) @
     opt_prop ''statFile'' StatFileRequest_obj (Request_statFile m) @
     opt_prop ''renameFile'' RenameFileRequest_obj (Request_renameFile m) @
     opt_prop ''deleteFile'' DeleteFileRequest_obj (Request_deleteFile m) @
     opt_prop ''chmodFile'' ChmodFileRequest_obj (Request_chmodFile m) @
     opt_prop ''copy'' CopyRequest_obj (Request_copy m) @
     opt_prop ''paste'' PasteRequest_obj (Request_paste m) @
     opt_prop ''createFile'' CreateFileRequest_obj (Request_createFile m) @
     opt_prop ''createDirectory'' CreateDirectoryRequest_obj (Request_createDirectory m) @
     opt_prop ''listPlaces'' ListPlacesRequest_obj (Request_listPlaces m) @
     opt_prop ''pinPlace'' PinPlaceRequest_obj (Request_pinPlace m) @
     opt_prop ''unpinPlace'' UnpinPlaceRequest_obj (Request_unpinPlace m) @
     opt_prop ''trashFile'' TrashFileRequest_obj (Request_trashFile m) @
     opt_prop ''listTrash'' ListTrashRequest_obj (Request_listTrash m) @
     opt_prop ''restoreTrash'' RestoreTrashRequest_obj (Request_restoreTrash m) @
     opt_prop ''emptyTrash'' EmptyTrashRequest_obj (Request_emptyTrash m) @
     opt_prop ''listAppsForFile'' ListAppsForFileRequest_obj (Request_listAppsForFile m) @
     opt_prop ''openWithApp'' OpenWithAppRequest_obj (Request_openWithApp m) @
     opt_prop ''getBrowserConfig'' GetBrowserConfigRequest_obj (Request_getBrowserConfig m) @
     opt_prop ''launchGui'' LaunchGUIRequest_obj (Request_launchGui m) @
     opt_prop ''getThumbnail'' GetThumbnailRequest_obj (Request_getThumbnail m) @
     opt_prop ''listMounts'' ListMountsRequest_obj (Request_listMounts m) @
     opt_prop ''getFileBadges'' GetFileBadgesRequest_obj (Request_getFileBadges m) @
     opt_prop ''getFileActions'' GetFileActionsRequest_obj (Request_getFileActions m) @
     opt_prop ''runFileAction'' RunFileActionRequest_obj (Request_runFileAction m) @
     opt_prop ''pinSearch'' PinSearchRequest_obj (Request_pinSearch m) @
     opt_prop ''unpinSearch'' UnpinSearchRequest_obj (Request_unpinSearch m) @
     opt_prop ''listSavedSearches'' ListSavedSearchesRequest_obj (Request_listSavedSearches m) @
     opt_prop ''shutdown'' ShutdownRequest_obj (Request_shutdown m) @
     opt_prop ''reindexFile'' ReindexFileRequest_obj (Request_reindexFile m)"

definition Request_obj :: "Request \<Rightarrow> js" where
  "Request_obj m = Object ''Request'' (Request_props m)"

definition Request_good :: "Request \<Rightarrow> bool" where
  "Request_good m \<longleftrightarrow> opt_all SearchRequest_good (Request_search m) \<and>
     opt_all ListTagsRequest_good (Request_listTags m) \<and>
     opt_all HydrateTagsRequest_good (Request_hydrateTags m) \<and>
     opt_all RelatedRequest_good (Request_related m) \<and>
     opt_all GlobSearchRequest_good (Request_globSearch m) \<and>
     opt_all TagRequest_good (Request_tag m) \<and>
     opt_all MetadataRequest_good (Request_metadata m) \<and>
     opt_all MetadataSetRequest_good (Request_metadataSet m) \<and>
     opt_all StatusRequest_good (Request_status m) \<and>
     opt_all ReloadRulesRequest_good (Request_reloadRules m) \<and>
     opt_all ListDirectoryRequest_good (Request_listDirectory m) \<and>
     opt_all StatFileRequest_good (Request_statFile m) \<and>
     opt_all RenameFileRequest_good (Request_renameFile m) \<and>
     opt_all DeleteFileRequest_good (Request_deleteFile m) \<and>
     opt_all ChmodFileRequest_good (Request_chmodFile m) \<and>
     opt_all CopyRequest_good (Request_copy m) \<and>
     opt_all PasteRequest_good (Request_paste m) \<and>
     opt_all CreateFileRequest_good (Request_createFile m) \<and>
     opt_all CreateDirectoryRequest_good (Request_createDirectory m) \<and>
     opt_all ListPlacesRequest_good (Request_listPlaces m) \<and>
     opt_all PinPlaceRequest_good (Request_pinPlace m) \<and>
     opt_all UnpinPlaceRequest_good (Request_unpinPlace m) \<and>
     opt_all TrashFileRequest_good (Request_trashFile m) \<and>
     opt_all ListTrashRequest_good (Request_listTrash m) \<and>
     opt_all RestoreTrashRequest_good (Request_restoreTrash m) \<and>
     opt_all EmptyTrashRequest_good (Request_emptyTrash m) \<and>
     opt_all ListAppsForFileRequest_good (Request_listAppsForFile m) \<and>
     opt_all OpenWithAppRequest_good (Request_openWithApp m) \<and>
     opt_all GetBrowserConfigRequest_good (Request_getBrowserConfig m) \<and>
     opt_all LaunchGUIRequest_good (Request_launchGui m) \<and>
     opt_all GetThumbnailRequest_good (Request_getThumbnail m) \<and>
     opt_all ListMountsRequest_good (Request_listMounts m) \<and>
     opt_all GetFileBadgesRequest_good (Request_getFileBadges m) \<and>
     opt_all GetFileActionsRequest_good (Request_getFileActions m) \<and>
     opt_all RunFileActionRequest_good (Request_runFileAction m) \<and>
     opt_all PinSearchRequest_good (Request_pinSearch m) \<and>
     opt_all UnpinSearchRequest_good (Request_unpinSearch m) \<and>
     opt_all ListSavedSearchesRequest_good (Request_listSavedSearches m) \<and>
     opt_all ShutdownRequest_good (Request_shutdown m) \<and>
     opt_all ReindexFileRequest_good (Request_reindexFile m) \<and>
     at_most_one False
       [Request_search m \<noteq> None,
        Request_listTags m \<noteq> None,
        Request_hydrateTags m \<noteq> None,
        Request_related m \<noteq> None,
        Request_globSearch m \<noteq> None,
        Request_tag m \<noteq> None,
        Request_metadata m \<noteq> None,
        Request_metadataSet m \<noteq> None,
        Request_status m \<noteq> None,
        Request_reloadRules m \<noteq> None,
        Request_listDirectory m \<noteq> None,
        Request_statFile m \<noteq> None,
        Request_renameFile m \<noteq> None,
        Request_deleteFile m \<noteq> None,
        Request_chmodFile m \<noteq> None,
        Request_copy m \<noteq> None,
        Request_paste m \<noteq> None,
        Request_createFile m \<noteq> None,
        Request_createDirectory m \<noteq> None,
        Request_listPlaces m \<noteq> None,
        Request_pinPlace m \<noteq> None,
        Request_unpinPlace m \<noteq> None,
        Request_trashFile m \<noteq> None,
        Request_listTrash m \<noteq> None,
        Request_restoreTrash m \<noteq> None,
        Request_emptyTrash m \<noteq> None,
        Request_listAppsForFile m \<noteq> None,
        Request_openWithApp m \<noteq> None,
        Request_getBrowserConfig m \<noteq> None,
        Request_launchGui m \<noteq> None,
        Request_getThumbnail m \<noteq> None,
        Request_listMounts m \<noteq> None,
        Request_getFileBadges m \<noteq> None,
        Request_getFileActions m \<noteq> None,
        Request_runFileAction m \<noteq> None,
        Request_pinSearch m \<noteq> None,
        Request_unpinSearch m \<noteq> None,
        Request_listSavedSearches m \<noteq> None,
        Request_shutdown m \<noteq> None,
        Request_reindexFile m \<noteq> None]"

lemma Request_lookup:
  "lookup (Request_props m) ''search'' = map_option SearchRequest_obj (Request_search m)"
  "lookup (Request_props m) ''listTags'' = map_option ListTagsRequest_obj (Request_listTags m)"
  "lookup (Request_props m) ''hydrateTags'' = map_option HydrateTagsRequest_obj (Request_hydrateTags m)"
  "lookup (Request_props m) ''related'' = map_option RelatedRequest_obj (Request_related m)"
  "lookup (Request_props m) ''globSearch'' = map_option GlobSearchRequest_obj (Request_globSearch m)"
  "lookup (Request_props m) ''tag'' = map_option TagRequest_obj (Request_tag m)"
  "lookup (Request_props m) ''metadata'' = map_option MetadataRequest_obj (Request_metadata m)"
  "lookup (Request_props m) ''metadataSet'' = map_option MetadataSetRequest_obj (Request_metadataSet m)"
  "lookup (Request_props m) ''status'' = map_option StatusRequest_obj (Request_status m)"
  "lookup (Request_props m) ''reloadRules'' = map_option ReloadRulesRequest_obj (Request_reloadRules m)"
  "lookup (Request_props m) ''listDirectory'' = map_option ListDirectoryRequest_obj (Request_listDirectory m)"
  "lookup (Request_props m) ''statFile'' = map_option StatFileRequest_obj (Request_statFile m)"
  "lookup (Request_props m) ''renameFile'' = map_option RenameFileRequest_obj (Request_renameFile m)"
  "lookup (Request_props m) ''deleteFile'' = map_option DeleteFileRequest_obj (Request_deleteFile m)"
  "lookup (Request_props m) ''chmodFile'' = map_option ChmodFileRequest_obj (Request_chmodFile m)"
  "lookup (Request_props m) ''copy'' = map_option CopyRequest_obj (Request_copy m)"
  "lookup (Request_props m) ''paste'' = map_option PasteRequest_obj (Request_paste m)"
  "lookup (Request_props m) ''createFile'' = map_option CreateFileRequest_obj (Request_createFile m)"
  "lookup (Request_props m) ''createDirectory'' = map_option CreateDirectoryRequest_obj (Request_createDirectory m)"
  "lookup (Request_props m) ''listPlaces'' = map_option ListPlacesRequest_obj (Request_listPlaces m)"
  "lookup (Request_props m) ''pinPlace'' = map_option PinPlaceRequest_obj (Request_pinPlace m)"
  "lookup (Request_props m) ''unpinPlace'' = map_option UnpinPlaceRequest_obj (Request_unpinPlace m)"
  "lookup (Request_props m) ''trashFile'' = map_option TrashFileRequest_obj (Request_trashFile m)"
  "lookup (Request_props m) ''listTrash'' = map_option ListTrashRequest_obj (Request_listTrash m)"
  "lookup (Request_props m) ''restoreTrash'' = map_option RestoreTrashRequest_obj (Request_restoreTrash m)"
  "lookup (Request_props m) ''emptyTrash'' = map_option EmptyTrashRequest_obj (Request_emptyTrash m)"
  "lookup (Request_props m) ''listAppsForFile'' = map_option ListAppsForFileRequest_obj (Request_listAppsForFile m)"
  "lookup (Request_props m) ''openWithApp'' = map_option OpenWithAppRequest_obj (Request_openWithApp m)"
  "lookup (Request_props m) ''getBrowserConfig'' = map_option GetBrowserConfigRequest_obj (Request_getBrowserConfig m)"
  "lookup (Request_props m) ''launchGui'' = map_option LaunchGUIRequest_obj (Request_launchGui m)"
  "lookup (Request_props m) ''getThumbnail'' = map_option GetThumbnailRequest_obj (Request_getThumbnail m)"
  "lookup (Request_props m) ''listMounts'' = map_option ListMountsRequest_obj (Request_listMounts m)"
  "lookup (Request_props m) ''getFileBadges'' = map_option GetFileBadgesRequest_obj (Request_getFileBadges m)"
  "lookup (Request_props m) ''getFileActions'' = map_option GetFileActionsRequest_obj (Request_getFileActions m)"
  "lookup (Request_props m) ''runFileAction'' = map_option RunFileActionRequest_obj (Request_runFileAction m)"
  "lookup (Request_props m) ''pinSearch'' = map_option PinSearchRequest_obj (Request_pinSearch m)"
  "lookup (Request_props m) ''unpinSearch'' = map_option UnpinSearchRequest_obj (Request_unpinSearch m)"
  "lookup (Request_props m) ''listSavedSearches'' = map_option ListSavedSearchesRequest_obj (Request_listSavedSearches m)"
  "lookup (Request_props m) ''shutdown'' = map_option ShutdownRequest_obj (Request_shutdown m)"
  "lookup (Request_props m) ''reindexFile'' = map_option ReindexFileRequest_obj (Request_reindexFile m)"
  "\<not> shadows (Request_props m)"
  by (simp_all add: Request_props_def shadows_def)

lemma Request_accepts:
  assumes "Request_good m"
  shows "Request_verify (Request_obj m) = ok None"
  unfolding Request_verify_def Request_checks_def Request_obj_def
  by (rule runs_verify [where members = "[Request_search m \<noteq> None, Request_listTags m \<noteq> None, Request_hydrateTags m \<noteq> None, Request_related m \<noteq> None, Request_globSearch m \<noteq> None, Request_tag m \<noteq> None, Request_metadata m \<noteq> None, Request_metadataSet m \<noteq> None, Request_status m \<noteq> None, Request_reloadRules m \<noteq> None, Request_listDirectory m \<noteq> None, Request_statFile m \<noteq> None, Request_renameFile m \<noteq> None, Request_deleteFile m \<noteq> None, Request_chmodFile m \<noteq> None, Request_copy m \<noteq> None, Request_paste m \<noteq> None, Request_createFile m \<noteq> None, Request_createDirectory m \<noteq> None, Request_listPlaces m \<noteq> None, Request_pinPlace m \<noteq> None, Request_unpinPlace m \<noteq> None, Request_trashFile m \<noteq> None, Request_listTrash m \<noteq> None, Request_restoreTrash m \<noteq> None, Request_emptyTrash m \<noteq> None, Request_listAppsForFile m \<noteq> None, Request_openWithApp m \<noteq> None, Request_getBrowserConfig m \<noteq> None, Request_launchGui m \<noteq> None, Request_getThumbnail m \<noteq> None, Request_listMounts m \<noteq> None, Request_getFileBadges m \<noteq> None, Request_getFileActions m \<noteq> None, Request_runFileAction m \<noteq> None, Request_pinSearch m \<noteq> None, Request_unpinSearch m \<noteq> None, Request_listSavedSearches m \<noteq> None, Request_shutdown m \<noteq> None, Request_reindexFile m \<noteq> None]"],
      rule SearchRequest_plain.sub.runs_member [where x = "Request_search m"],
      rule ListTagsRequest_plain.sub.runs_member [where x = "Request_listTags m"],
      rule HydrateTagsRequest_plain.sub.runs_member [where x = "Request_hydrateTags m"],
      rule RelatedRequest_plain.sub.runs_member [where x = "Request_related m"],
      rule GlobSearchRequest_plain.sub.runs_member [where x = "Request_globSearch m"],
      rule TagRequest_plain.sub.runs_member [where x = "Request_tag m"],
      rule MetadataRequest_plain.sub.runs_member [where x = "Request_metadata m"],
      rule MetadataSetRequest_plain.sub.runs_member [where x = "Request_metadataSet m"],
      rule StatusRequest_plain.sub.runs_member [where x = "Request_status m"],
      rule ReloadRulesRequest_plain.sub.runs_member [where x = "Request_reloadRules m"],
      rule ListDirectoryRequest_plain.sub.runs_member [where x = "Request_listDirectory m"],
      rule StatFileRequest_plain.sub.runs_member [where x = "Request_statFile m"],
      rule RenameFileRequest_plain.sub.runs_member [where x = "Request_renameFile m"],
      rule DeleteFileRequest_plain.sub.runs_member [where x = "Request_deleteFile m"],
      rule ChmodFileRequest_plain.sub.runs_member [where x = "Request_chmodFile m"],
      rule CopyRequest_plain.sub.runs_member [where x = "Request_copy m"],
      rule PasteRequest_plain.sub.runs_member [where x = "Request_paste m"],
      rule CreateFileRequest_plain.sub.runs_member [where x = "Request_createFile m"],
      rule CreateDirectoryRequest_plain.sub.runs_member [where x = "Request_createDirectory m"],
      rule ListPlacesRequest_plain.sub.runs_member [where x = "Request_listPlaces m"],
      rule PinPlaceRequest_plain.sub.runs_member [where x = "Request_pinPlace m"],
      rule UnpinPlaceRequest_plain.sub.runs_member [where x = "Request_unpinPlace m"],
      rule TrashFileRequest_plain.sub.runs_member [where x = "Request_trashFile m"],
      rule ListTrashRequest_plain.sub.runs_member [where x = "Request_listTrash m"],
      rule RestoreTrashRequest_plain.sub.runs_member [where x = "Request_restoreTrash m"],
      rule EmptyTrashRequest_plain.sub.runs_member [where x = "Request_emptyTrash m"],
      rule ListAppsForFileRequest_plain.sub.runs_member [where x = "Request_listAppsForFile m"],
      rule OpenWithAppRequest_plain.sub.runs_member [where x = "Request_openWithApp m"],
      rule GetBrowserConfigRequest_plain.sub.runs_member [where x = "Request_getBrowserConfig m"],
      rule LaunchGUIRequest_plain.sub.runs_member [where x = "Request_launchGui m"],
      rule GetThumbnailRequest_plain.sub.runs_member [where x = "Request_getThumbnail m"],
      rule ListMountsRequest_plain.sub.runs_member [where x = "Request_listMounts m"],
      rule GetFileBadgesRequest_plain.sub.runs_member [where x = "Request_getFileBadges m"],
      rule GetFileActionsRequest_plain.sub.runs_member [where x = "Request_getFileActions m"],
      rule RunFileActionRequest_plain.sub.runs_member [where x = "Request_runFileAction m"],
      rule PinSearchRequest_plain.sub.runs_member [where x = "Request_pinSearch m"],
      rule UnpinSearchRequest_plain.sub.runs_member [where x = "Request_unpinSearch m"],
      rule ListSavedSearchesRequest_plain.sub.runs_member [where x = "Request_listSavedSearches m"],
      rule ShutdownRequest_plain.sub.runs_member [where x = "Request_shutdown m"],
      rule ReindexFileRequest_plain.sub.runs_member [where x = "Request_reindexFile m"],
      rule runs_Nil)
    (simp_all del: at_most_one.simps not_None_eq add: Request_lookup assms [unfolded Request_good_def] )

lemma Request_plain_fields:
  assumes "Request_good m" "\<not> to_defaults opts"
  shows "\<exists>ps. Request_toObject (Request_obj m) (Some opts) = ok (plain ps) \<and>
    lookup ps ''search'' = map_option (SearchRequest_plain.sub.out opts) (Request_search m) \<and>
    lookup ps ''listTags'' = map_option (ListTagsRequest_plain.sub.out opts) (Request_listTags m) \<and>
    lookup ps ''hydrateTags'' = map_option (HydrateTagsRequest_plain.sub.out opts) (Request_hydrateTags m) \<and>
    lookup ps ''related'' = map_option (RelatedRequest_plain.sub.out opts) (Request_related m) \<and>
    lookup ps ''globSearch'' = map_option (GlobSearchRequest_plain.sub.out opts) (Request_globSearch m) \<and>
    lookup ps ''tag'' = map_option (TagRequest_plain.sub.out opts) (Request_tag m) \<and>
    lookup ps ''metadata'' = map_option (MetadataRequest_plain.sub.out opts) (Request_metadata m) \<and>
    lookup ps ''metadataSet'' = map_option (MetadataSetRequest_plain.sub.out opts) (Request_metadataSet m) \<and>
    lookup ps ''status'' = map_option (StatusRequest_plain.sub.out opts) (Request_status m) \<and>
    lookup ps ''reloadRules'' = map_option (ReloadRulesRequest_plain.sub.out opts) (Request_reloadRules m) \<and>
    lookup ps ''listDirectory'' = map_option (ListDirectoryRequest_plain.sub.out opts) (Request_listDirectory m) \<and>
    lookup ps ''statFile'' = map_option (StatFileRequest_plain.sub.out opts) (Request_statFile m) \<and>
    lookup ps ''renameFile'' = map_option (RenameFileRequest_plain.sub.out opts) (Request_renameFile m) \<and>
    lookup ps ''deleteFile'' = map_option (DeleteFileRequest_plain.sub.out opts) (Request_deleteFile m) \<and>
    lookup ps ''chmodFile'' = map_option (ChmodFileRequest_plain.sub.out opts) (Request_chmodFile m) \<and>
    lookup ps ''copy'' = map_option (CopyRequest_plain.sub.out opts) (Request_copy m) \<and>
    lookup ps ''paste'' = map_option (PasteRequest_plain.sub.out opts) (Request_paste m) \<and>
    lookup ps ''createFile'' = map_option (CreateFileRequest_plain.sub.out opts) (Request_createFile m) \<and>
    lookup ps ''createDirectory'' = map_option (CreateDirectoryRequest_plain.sub.out opts) (Request_createDirectory m) \<and>
    lookup ps ''listPlaces'' = map_option (ListPlacesRequest_plain.sub.out opts) (Request_listPlaces m) \<and>
    lookup ps ''pinPlace'' = map_option (PinPlaceRequest_plain.sub.out opts) (Request_pinPlace m) \<and>
    lookup ps ''unpinPlace'' = map_option (UnpinPlaceRequest_plain.sub.out opts) (Request_unpinPlace m) \<and>
    lookup ps ''trashFile'' = map_option (TrashFileRequest_plain.sub.out opts) (Request_trashFile m) \<and>
    lookup ps ''listTrash'' = map_option (ListTrashRequest_plain.sub.out opts) (Request_listTrash m) \<and>
    lookup ps ''restoreTrash'' = map_option (RestoreTrashRequest_plain.sub.out opts) (Request_restoreTrash m) \<and>
    lookup ps ''emptyTrash'' = map_option (EmptyTrashRequest_plain.sub.out opts) (Request_emptyTrash m) \<and>
    lookup ps ''listAppsForFile'' = map_option (ListAppsForFileRequest_plain.sub.out opts) (Request_listAppsForFile m) \<and>
    lookup ps ''openWithApp'' = map_option (OpenWithAppRequest_plain.sub.out opts) (Request_openWithApp m) \<and>
    lookup ps ''getBrowserConfig'' = map_option (GetBrowserConfigRequest_plain.sub.out opts) (Request_getBrowserConfig m) \<and>
    lookup ps ''launchGui'' = map_option (LaunchGUIRequest_plain.sub.out opts) (Request_launchGui m) \<and>
    lookup ps ''getThumbnail'' = map_option (GetThumbnailRequest_plain.sub.out opts) (Request_getThumbnail m) \<and>
    lookup ps ''listMounts'' = map_option (ListMountsRequest_plain.sub.out opts) (Request_listMounts m) \<and>
    lookup ps ''getFileBadges'' = map_option (GetFileBadgesRequest_plain.sub.out opts) (Request_getFileBadges m) \<and>
    lookup ps ''getFileActions'' = map_option (GetFileActionsRequest_plain.sub.out opts) (Request_getFileActions m) \<and>
    lookup ps ''runFileAction'' = map_option (RunFileActionRequest_plain.sub.out opts) (Request_runFileAction m) \<and>
    lookup ps ''pinSearch'' = map_option (PinSearchRequest_plain.sub.out opts) (Request_pinSearch m) \<and>
    lookup ps ''unpinSearch'' = map_option (UnpinSearchRequest_plain.sub.out opts) (Request_unpinSearch m) \<and>
    lookup ps ''listSavedSearches'' = map_option (ListSavedSearchesRequest_plain.sub.out opts) (Request_listSavedSearches m) \<and>
    lookup ps ''shutdown'' = map_option (ShutdownRequest_plain.sub.out opts) (Request_shutdown m) \<and>
    lookup ps ''reindexFile'' = map_option (ReindexFileRequest_plain.sub.out opts) (Request_reindexFile m) \<and>
    \<not> shadows ps"
  unfolding Request_toObject_def Request_writers_def Request_obj_def
  by (rule plain_fields,
      rule all_yield_Cons, rule all_yield_Cons, rule all_yield_Cons, rule all_yield_Cons,
      rule all_yield_Cons, rule all_yield_Cons, rule all_yield_Cons, rule all_yield_Cons,
      rule all_yield_Cons, rule all_yield_Cons, rule all_yield_Cons, rule all_yield_Cons,
      rule all_yield_Cons, rule all_yield_Cons, rule all_yield_Cons, rule all_yield_Cons,
      rule all_yield_Cons, rule all_yield_Cons, rule all_yield_Cons, rule all_yield_Cons,
      rule all_yield_Cons, rule all_yield_Cons, rule all_yield_Cons, rule all_yield_Cons,
      rule all_yield_Cons, rule all_yield_Cons, rule all_yield_Cons, rule all_yield_Cons,
      rule all_yield_Cons, rule all_yield_Cons, rule all_yield_Cons, rule all_yield_Cons,
      rule all_yield_Cons, rule all_yield_Cons, rule all_yield_Cons, rule all_yield_Cons,
      rule all_yield_Cons, rule all_yield_Cons, rule all_yield_Cons, rule all_yield_Cons,
      rule all_yield_Nil,
      (rule ReindexFileRequest_plain.sub.yields_member [where x = "Request_reindexFile m"]; simp add: assms [unfolded Request_good_def] Request_lookup plain_keys),
      (rule ShutdownRequest_plain.sub.yields_member [where x = "Request_shutdown m"]; simp add: assms [unfolded Request_good_def] Request_lookup plain_keys),
      (rule ListSavedSearchesRequest_plain.sub.yields_member [where x = "Request_listSavedSearches m"]; simp add: assms [unfolded Request_good_def] Request_lookup plain_keys),
      (rule UnpinSearchRequest_plain.sub.yields_member [where x = "Request_unpinSearch m"]; simp add: assms [unfolded Request_good_def] Request_lookup plain_keys),
      (rule PinSearchRequest_plain.sub.yields_member [where x = "Request_pinSearch m"]; simp add: assms [unfolded Request_good_def] Request_lookup plain_keys),
      (rule ListMountsRequest_plain.sub.yields_member [where x = "Request_listMounts m"]; simp add: assms [unfolded Request_good_def] Request_lookup plain_keys),
      (rule CreateDirectoryRequest_plain.sub.yields_member [where x = "Request_createDirectory m"]; simp add: assms [unfolded Request_good_def] Request_lookup plain_keys),
      (rule CreateFileRequest_plain.sub.yields_member [where x = "Request_createFile m"]; simp add: assms [unfolded Request_good_def] Request_lookup plain_keys),
      (rule PasteRequest_plain.sub.yields_member [where x = "Request_paste m"]; simp add: assms [unfolded Request_good_def] Request_lookup plain_keys),
      (rule CopyRequest_plain.sub.yields_member [where x = "Request_copy m"]; simp add: assms [unfolded Request_good_def] Request_lookup plain_keys),
      (rule GetThumbnailRequest_plain.sub.yields_member [where x = "Request_getThumbnail m"]; simp add: assms [unfolded Request_good_def] Request_lookup plain_keys),
      (rule LaunchGUIRequest_plain.sub.yields_member [where x = "Request_launchGui m"]; simp add: assms [unfolded Request_good_def] Request_lookup plain_keys),
      (rule RunFileActionRequest_plain.sub.yields_member [where x = "Request_runFileAction m"]; simp add: assms [unfolded Request_good_def] Request_lookup plain_keys),
      (rule GetFileActionsRequest_plain.sub.yields_member [where x = "Request_getFileActions m"]; simp add: assms [unfolded Request_good_def] Request_lookup plain_keys),
      (rule GetFileBadgesRequest_plain.sub.yields_member [where x = "Request_getFileBadges m"]; simp add: assms [unfolded Request_good_def] Request_lookup plain_keys),
      (rule GetBrowserConfigRequest_plain.sub.yields_member [where x = "Request_getBrowserConfig m"]; simp add: assms [unfolded Request_good_def] Request_lookup plain_keys),
      (rule OpenWithAppRequest_plain.sub.yields_member [where x = "Request_openWithApp m"]; simp add: assms [unfolded Request_good_def] Request_lookup plain_keys),
      (rule ListAppsForFileRequest_plain.sub.yields_member [where x = "Request_listAppsForFile m"]; simp add: assms [unfolded Request_good_def] Request_lookup plain_keys),
      (rule EmptyTrashRequest_plain.sub.yields_member [where x = "Request_emptyTrash m"]; simp add: assms [unfolded Request_good_def] Request_lookup plain_keys),
      (rule RestoreTrashRequest_plain.sub.yields_member [where x = "Request_restoreTrash m"]; simp add: assms [unfolded Request_good_def] Request_lookup plain_keys),
      (rule ListTrashRequest_plain.sub.yields_member [where x = "Request_listTrash m"]; simp add: assms [unfolded Request_good_def] Request_lookup plain_keys),
      (rule TrashFileRequest_plain.sub.yields_member [where x = "Request_trashFile m"]; simp add: assms [unfolded Request_good_def] Request_lookup plain_keys),
      (rule UnpinPlaceRequest_plain.sub.yields_member [where x = "Request_unpinPlace m"]; simp add: assms [unfolded Request_good_def] Request_lookup plain_keys),
      (rule PinPlaceRequest_plain.sub.yields_member [where x = "Request_pinPlace m"]; simp add: assms [unfolded Request_good_def] Request_lookup plain_keys),
      (rule ListPlacesRequest_plain.sub.yields_member [where x = "Request_listPlaces m"]; simp add: assms [unfolded Request_good_def] Request_lookup plain_keys),
      (rule ChmodFileRequest_plain.sub.yields_member [where x = "Request_chmodFile m"]; simp add: assms [unfolded Request_good_def] Request_lookup plain_keys),
      (rule DeleteFileRequest_plain.sub.yields_member [where x = "Request_deleteFile m"]; simp add: assms [unfolded Request_good_def] Request_lookup plain_keys),
      (rule RenameFileRequest_plain.sub.yields_member [where x = "Request_renameFile m"]; simp add: assms [unfolded Request_good_def] Request_lookup plain_keys),
      (rule GlobSearchRequest_plain.sub.yields_member [where x = "Request_globSearch m"]; simp add: assms [unfolded Request_good_def] Request_lookup plain_keys),
      (rule StatFileRequest_plain.sub.yields_member [where x = "Request_statFile m"]; simp add: assms [unfolded Request_good_def] Request_lookup plain_keys),
      (rule ListDirectoryRequest_plain.sub.yields_member [where x = "Request_listDirectory m"]; simp add: assms [unfolded Request_good_def] Request_lookup plain_keys),
      (rule HydrateTagsRequest_plain.sub.yields_member [where x = "Request_hydrateTags m"]; simp add: assms [unfolded Request_good_def] Request_lookup plain_keys),
      (rule ListTagsRequest_plain.sub.yields_member [where x = "Request_listTags m"]; simp add: assms [unfolded Request_good_def] Request_lookup plain_keys),
      (rule ReloadRulesRequest_plain.sub.yields_member [where x = "Request_reloadRules m"]; simp add: assms [unfolded Request_good_def] Request_lookup plain_keys),
      (rule StatusRequest_plain.sub.yields_member [where x = "Request_status m"]; simp add: assms [unfolded Request_good_def] Request_lookup plain_keys),
      (rule RelatedRequest_plain.sub.yields_member [where x = "Request_related m"]; simp add: assms [unfolded Request_good_def] Request_lookup plain_keys),
      (rule MetadataSetRequest_plain.sub.yields_member [where x = "Request_metadataSet m"]; simp add: assms [unfolded Request_good_def] Request_lookup plain_keys),
      (rule MetadataRequest_plain.sub.yields_member [where x = "Request_metadata m"]; simp add: assms [unfolded Request_good_def] Request_lookup plain_keys),
      (rule TagRequest_plain.sub.yields_member [where x = "Request_tag m"]; simp add: assms [unfolded Request_good_def] Request_lookup plain_keys),
      (rule SearchRequest_plain.sub.yields_member [where x = "Request_search m"]; simp add: assms [unfolded Request_good_def] Request_lookup plain_keys)) (simp add: shadows_def)

lemma Request_round:
  assumes "Request_good m" "\<not> to_defaults opts"
  shows "\<exists>ps. Request_toObject (Request_obj m) (Some opts) = ok (plain ps) \<and>
    Request_fromObject (plain ps) = ok (Request_obj m)"
proof -
  obtain ps where ps: "Request_toObject (Request_obj m) (Some opts) = ok (plain ps)"
    and fields: "lookup ps ''search'' = map_option (SearchRequest_plain.sub.out opts) (Request_search m) \<and>
    lookup ps ''listTags'' = map_option (ListTagsRequest_plain.sub.out opts) (Request_listTags m) \<and>
    lookup ps ''hydrateTags'' = map_option (HydrateTagsRequest_plain.sub.out opts) (Request_hydrateTags m) \<and>
    lookup ps ''related'' = map_option (RelatedRequest_plain.sub.out opts) (Request_related m) \<and>
    lookup ps ''globSearch'' = map_option (GlobSearchRequest_plain.sub.out opts) (Request_globSearch m) \<and>
    lookup ps ''tag'' = map_option (TagRequest_plain.sub.out opts) (Request_tag m) \<and>
    lookup ps ''metadata'' = map_option (MetadataRequest_plain.sub.out opts) (Request_metadata m) \<and>
    lookup ps ''metadataSet'' = map_option (MetadataSetRequest_plain.sub.out opts) (Request_metadataSet m) \<and>
    lookup ps ''status'' = map_option (StatusRequest_plain.sub.out opts) (Request_status m) \<and>
    lookup ps ''reloadRules'' = map_option (ReloadRulesRequest_plain.sub.out opts) (Request_reloadRules m) \<and>
    lookup ps ''listDirectory'' = map_option (ListDirectoryRequest_plain.sub.out opts) (Request_listDirectory m) \<and>
    lookup ps ''statFile'' = map_option (StatFileRequest_plain.sub.out opts) (Request_statFile m) \<and>
    lookup ps ''renameFile'' = map_option (RenameFileRequest_plain.sub.out opts) (Request_renameFile m) \<and>
    lookup ps ''deleteFile'' = map_option (DeleteFileRequest_plain.sub.out opts) (Request_deleteFile m) \<and>
    lookup ps ''chmodFile'' = map_option (ChmodFileRequest_plain.sub.out opts) (Request_chmodFile m) \<and>
    lookup ps ''copy'' = map_option (CopyRequest_plain.sub.out opts) (Request_copy m) \<and>
    lookup ps ''paste'' = map_option (PasteRequest_plain.sub.out opts) (Request_paste m) \<and>
    lookup ps ''createFile'' = map_option (CreateFileRequest_plain.sub.out opts) (Request_createFile m) \<and>
    lookup ps ''createDirectory'' = map_option (CreateDirectoryRequest_plain.sub.out opts) (Request_createDirectory m) \<and>
    lookup ps ''listPlaces'' = map_option (ListPlacesRequest_plain.sub.out opts) (Request_listPlaces m) \<and>
    lookup ps ''pinPlace'' = map_option (PinPlaceRequest_plain.sub.out opts) (Request_pinPlace m) \<and>
    lookup ps ''unpinPlace'' = map_option (UnpinPlaceRequest_plain.sub.out opts) (Request_unpinPlace m) \<and>
    lookup ps ''trashFile'' = map_option (TrashFileRequest_plain.sub.out opts) (Request_trashFile m) \<and>
    lookup ps ''listTrash'' = map_option (ListTrashRequest_plain.sub.out opts) (Request_listTrash m) \<and>
    lookup ps ''restoreTrash'' = map_option (RestoreTrashRequest_plain.sub.out opts) (Request_restoreTrash m) \<and>
    lookup ps ''emptyTrash'' = map_option (EmptyTrashRequest_plain.sub.out opts) (Request_emptyTrash m) \<and>
    lookup ps ''listAppsForFile'' = map_option (ListAppsForFileRequest_plain.sub.out opts) (Request_listAppsForFile m) \<and>
    lookup ps ''openWithApp'' = map_option (OpenWithAppRequest_plain.sub.out opts) (Request_openWithApp m) \<and>
    lookup ps ''getBrowserConfig'' = map_option (GetBrowserConfigRequest_plain.sub.out opts) (Request_getBrowserConfig m) \<and>
    lookup ps ''launchGui'' = map_option (LaunchGUIRequest_plain.sub.out opts) (Request_launchGui m) \<and>
    lookup ps ''getThumbnail'' = map_option (GetThumbnailRequest_plain.sub.out opts) (Request_getThumbnail m) \<and>
    lookup ps ''listMounts'' = map_option (ListMountsRequest_plain.sub.out opts) (Request_listMounts m) \<and>
    lookup ps ''getFileBadges'' = map_option (GetFileBadgesRequest_plain.sub.out opts) (Request_getFileBadges m) \<and>
    lookup ps ''getFileActions'' = map_option (GetFileActionsRequest_plain.sub.out opts) (Request_getFileActions m) \<and>
    lookup ps ''runFileAction'' = map_option (RunFileActionRequest_plain.sub.out opts) (Request_runFileAction m) \<and>
    lookup ps ''pinSearch'' = map_option (PinSearchRequest_plain.sub.out opts) (Request_pinSearch m) \<and>
    lookup ps ''unpinSearch'' = map_option (UnpinSearchRequest_plain.sub.out opts) (Request_unpinSearch m) \<and>
    lookup ps ''listSavedSearches'' = map_option (ListSavedSearchesRequest_plain.sub.out opts) (Request_listSavedSearches m) \<and>
    lookup ps ''shutdown'' = map_option (ShutdownRequest_plain.sub.out opts) (Request_shutdown m) \<and>
    lookup ps ''reindexFile'' = map_option (ReindexFileRequest_plain.sub.out opts) (Request_reindexFile m) \<and>
    \<not> shadows ps"
    using Request_plain_fields [OF assms] by blast
  have "build (Request_setters) (plain ps) [] = ok (Request_props m)"
    unfolding Request_setters_def
    by (rule appends_build,
      rule SearchRequest_plain.sub.appends_opt [where x = "Request_search m" and opts = opts],
      rule ListTagsRequest_plain.sub.appends_opt [where x = "Request_listTags m" and opts = opts],
      rule HydrateTagsRequest_plain.sub.appends_opt [where x = "Request_hydrateTags m" and opts = opts],
      rule RelatedRequest_plain.sub.appends_opt [where x = "Request_related m" and opts = opts],
      rule GlobSearchRequest_plain.sub.appends_opt [where x = "Request_globSearch m" and opts = opts],
      rule TagRequest_plain.sub.appends_opt [where x = "Request_tag m" and opts = opts],
      rule MetadataRequest_plain.sub.appends_opt [where x = "Request_metadata m" and opts = opts],
      rule MetadataSetRequest_plain.sub.appends_opt [where x = "Request_metadataSet m" and opts = opts],
      rule StatusRequest_plain.sub.appends_opt [where x = "Request_status m" and opts = opts],
      rule ReloadRulesRequest_plain.sub.appends_opt [where x = "Request_reloadRules m" and opts = opts],
      rule ListDirectoryRequest_plain.sub.appends_opt [where x = "Request_listDirectory m" and opts = opts],
      rule StatFileRequest_plain.sub.appends_opt [where x = "Request_statFile m" and opts = opts],
      rule RenameFileRequest_plain.sub.appends_opt [where x = "Request_renameFile m" and opts = opts],
      rule DeleteFileRequest_plain.sub.appends_opt [where x = "Request_deleteFile m" and opts = opts],
      rule ChmodFileRequest_plain.sub.appends_opt [where x = "Request_chmodFile m" and opts = opts],
      rule CopyRequest_plain.sub.appends_opt [where x = "Request_copy m" and opts = opts],
      rule PasteRequest_plain.sub.appends_opt [where x = "Request_paste m" and opts = opts],
      rule CreateFileRequest_plain.sub.appends_opt [where x = "Request_createFile m" and opts = opts],
      rule CreateDirectoryRequest_plain.sub.appends_opt [where x = "Request_createDirectory m" and opts = opts],
      rule ListPlacesRequest_plain.sub.appends_opt [where x = "Request_listPlaces m" and opts = opts],
      rule PinPlaceRequest_plain.sub.appends_opt [where x = "Request_pinPlace m" and opts = opts],
      rule UnpinPlaceRequest_plain.sub.appends_opt [where x = "Request_unpinPlace m" and opts = opts],
      rule TrashFileRequest_plain.sub.appends_opt [where x = "Request_trashFile m" and opts = opts],
      rule ListTrashRequest_plain.sub.appends_opt [where x = "Request_listTrash m" and opts = opts],
      rule RestoreTrashRequest_plain.sub.appends_opt [where x = "Request_restoreTrash m" and opts = opts],
      rule EmptyTrashRequest_plain.sub.appends_opt [where x = "Request_emptyTrash m" and opts = opts],
      rule ListAppsForFileRequest_plain.sub.appends_opt [where x = "Request_listAppsForFile m" and opts = opts],
      rule OpenWithAppRequest_plain.sub.appends_opt [where x = "Request_openWithApp m" and opts = opts],
      rule GetBrowserConfigRequest_plain.sub.appends_opt [where x = "Request_getBrowserConfig m" and opts = opts],
      rule LaunchGUIRequest_plain.sub.appends_opt [where x = "Request_launchGui m" and opts = opts],
      rule GetThumbnailRequest_plain.sub.appends_opt [where x = "Request_getThumbnail m" and opts = opts],
      rule ListMountsRequest_plain.sub.appends_opt [where x = "Request_listMounts m" and opts = opts],
      rule GetFileBadgesRequest_plain.sub.appends_opt [where x = "Request_getFileBadges m" and opts = opts],
      rule GetFileActionsRequest_plain.sub.appends_opt [where x = "Request_getFileActions m" and opts = opts],
      rule RunFileActionRequest_plain.sub.appends_opt [where x = "Request_runFileAction m" and opts = opts],
      rule PinSearchRequest_plain.sub.appends_opt [where x = "Request_pinSearch m" and opts = opts],
      rule UnpinSearchRequest_plain.sub.appends_opt [where x = "Request_unpinSearch m" and opts = opts],
      rule ListSavedSearchesRequest_plain.sub.appends_opt [where x = "Request_listSavedSearches m" and opts = opts],
      rule ShutdownRequest_plain.sub.appends_opt [where x = "Request_shutdown m" and opts = opts],
      rule ReindexFileRequest_plain.sub.appends_opt [where x = "Request_reindexFile m" and opts = opts],
      rule appends_Nil,
      simp_all add: fields assms(1) [unfolded Request_good_def] assms(2) plain_keys)
      (simp add: Request_props_def)
  then show ?thesis using ps by (auto simp: Request_fromObject_def from_object_def Request_obj_def)
qed

lemma Request_guarded: "Request_verify v = ok None \<Longrightarrow> all_plain v \<Longrightarrow> \<exists>m. Request_fromObject v = ok m"
  unfolding Request_verify_def Request_checks_def Request_fromObject_def Request_setters_def
  by (rule guards_object, rule guards_Cons, rule guards_Cons, rule guards_Cons, rule guards_Cons, rule
      guards_Cons, rule guards_Cons, rule guards_Cons, rule guards_Cons, rule guards_Cons,
      rule guards_Cons, rule guards_Cons, rule guards_Cons, rule guards_Cons, rule
      guards_Cons, rule guards_Cons, rule guards_Cons, rule guards_Cons, rule guards_Cons,
      rule guards_Cons, rule guards_Cons, rule guards_Cons, rule guards_Cons, rule
      guards_Cons, rule guards_Cons, rule guards_Cons, rule guards_Cons, rule guards_Cons,
      rule guards_Cons, rule guards_Cons, rule guards_Cons, rule guards_Cons, rule
      guards_Cons, rule guards_Cons, rule guards_Cons, rule guards_Cons, rule guards_Cons,
      rule guards_Cons, rule guards_Cons, rule guards_Cons, rule guards_Cons, rule
      guards_Nil,
      (rule ReindexFileRequest_plain.sub.guard_opt(2), simp),
      (rule ShutdownRequest_plain.sub.guard_opt(2), simp),
      (rule ListSavedSearchesRequest_plain.sub.guard_opt(2), simp),
      (rule UnpinSearchRequest_plain.sub.guard_opt(2), simp),
      (rule PinSearchRequest_plain.sub.guard_opt(2), simp),
      (rule RunFileActionRequest_plain.sub.guard_opt(2), simp),
      (rule GetFileActionsRequest_plain.sub.guard_opt(2), simp),
      (rule GetFileBadgesRequest_plain.sub.guard_opt(2), simp),
      (rule ListMountsRequest_plain.sub.guard_opt(2), simp),
      (rule GetThumbnailRequest_plain.sub.guard_opt(2), simp),
      (rule LaunchGUIRequest_plain.sub.guard_opt(2), simp),
      (rule GetBrowserConfigRequest_plain.sub.guard_opt(2), simp),
      (rule OpenWithAppRequest_plain.sub.guard_opt(2), simp),
      (rule ListAppsForFileRequest_plain.sub.guard_opt(2), simp),
      (rule EmptyTrashRequest_plain.sub.guard_opt(2), simp),
      (rule RestoreTrashRequest_plain.sub.guard_opt(2), simp),
      (rule ListTrashRequest_plain.sub.guard_opt(2), simp),
      (rule TrashFileRequest_plain.sub.guard_opt(2), simp),
      (rule UnpinPlaceRequest_plain.sub.guard_opt(2), simp),
      (rule PinPlaceRequest_plain.sub.guard_opt(2), simp),
      (rule ListPlacesRequest_plain.sub.guard_opt(2), simp),
      (rule CreateDirectoryRequest_plain.sub.guard_opt(2), simp),
      (rule CreateFileRequest_plain.sub.guard_opt(2), simp),
      (rule PasteRequest_plain.sub.guard_opt(2), simp),
      (rule CopyRequest_plain.sub.guard_opt(2), simp),
      (rule ChmodFileRequest_plain.sub.guard_opt(2), simp),
      (rule DeleteFileRequest_plain.sub.guard_opt(2), simp),
      (rule RenameFileRequest_plain.sub.guard_opt(2), simp),
      (rule StatFileRequest_plain.sub.guard_opt(2), simp),
      (rule ListDirectoryRequest_plain.sub.guard_opt(2), simp),
      (rule ReloadRulesRequest_plain.sub.guard_opt(2), simp),
      (rule StatusRequest_plain.sub.guard_opt(2), simp),
      (rule MetadataSetRequest_plain.sub.guard_opt(2), simp),
      (rule MetadataRequest_plain.sub.guard_opt(2), simp),
      (rule TagRequest_plain.sub.guard_opt(2), simp),
      (rule GlobSearchRequest_plain.sub.guard_opt(2), simp),
      (rule RelatedRequest_plain.sub.guard_opt(2), simp),
      (rule HydrateTagsRequest_plain.sub.guard_opt(2), simp),
      (rule ListTagsRequest_plain.sub.guard_opt(2), simp),
      (rule SearchRequest_plain.sub.guard_opt(2), simp),
      assumption, assumption) simp

interpretation Request_plain: message_plain Request_obj Request_verify Request_fromObject Request_toObject Request_good
  by unfold_locales
    (use Request_accepts Request_round Request_guarded in \<open>auto simp: Request_obj_def Request_verify_def dest: verified_object\<close>)

subsection \<open>Response\<close>

definition Response_oneof :: oneof where
  "Response_oneof =
     Some (''kind'', [''error'', ''search'', ''listTags'', ''hydrateTags'', ''related'',
      ''globSearch'', ''tag'', ''metadata'', ''status'', ''reloadRules'',
      ''listDirectory'', ''statFile'', ''renameFile'', ''deleteFile'', ''chmodFile'',
      ''copy'', ''paste'', ''createFile'', ''createDirectory'', ''listPlaces'',
      ''pinPlace'', ''unpinPlace'', ''trashFile'', ''listTrash'', ''restoreTrash'',
      ''emptyTrash'', ''listAppsForFile'', ''openWithApp'', ''getBrowserConfig'',
      ''launchGui'', ''getThumbnail'', ''listMounts'', ''getFileBadges'',
      ''getFileActions'', ''runFileAction'', ''pinSearch'', ''unpinSearch'',
      ''listSavedSearches'', ''shutdown'', ''reindexFile''])"

definition Response_construct :: "js \<Rightarrow> js res" where
  "Response_construct = construct ''Response'' [] Response_oneof"

definition Response_create :: "js \<Rightarrow> js res" where
  "Response_create properties = Response_construct properties"

definition Response_checks :: "check list" where
  "Response_checks =
     [v_member ''kind'' ''error'' (v_message ErrorResponse_verify),
      v_member ''kind'' ''search'' (v_message SearchResponse_verify),
      v_member ''kind'' ''listTags'' (v_message ListTagsResponse_verify),
      v_member ''kind'' ''hydrateTags'' (v_message HydrateTagsResponse_verify),
      v_member ''kind'' ''related'' (v_message RelatedResponse_verify),
      v_member ''kind'' ''globSearch'' (v_message GlobSearchResponse_verify),
      v_member ''kind'' ''tag'' (v_message TagResponse_verify),
      v_member ''kind'' ''metadata'' (v_message MetadataResponse_verify),
      v_member ''kind'' ''status'' (v_message StatusResponse_verify),
      v_member ''kind'' ''reloadRules'' (v_message ReloadRulesResponse_verify),
      v_member ''kind'' ''listDirectory'' (v_message ListDirectoryResponse_verify),
      v_member ''kind'' ''statFile'' (v_message StatFileResponse_verify),
      v_member ''kind'' ''renameFile'' (v_message RenameFileResponse_verify),
      v_member ''kind'' ''deleteFile'' (v_message DeleteFileResponse_verify),
      v_member ''kind'' ''chmodFile'' (v_message ChmodFileResponse_verify),
      v_member ''kind'' ''copy'' (v_message CopyResponse_verify),
      v_member ''kind'' ''paste'' (v_message PasteResponse_verify),
      v_member ''kind'' ''createFile'' (v_message CreateFileResponse_verify),
      v_member ''kind'' ''createDirectory'' (v_message CreateDirectoryResponse_verify),
      v_member ''kind'' ''listPlaces'' (v_message ListPlacesResponse_verify),
      v_member ''kind'' ''pinPlace'' (v_message PinPlaceResponse_verify),
      v_member ''kind'' ''unpinPlace'' (v_message UnpinPlaceResponse_verify),
      v_member ''kind'' ''trashFile'' (v_message TrashFileResponse_verify),
      v_member ''kind'' ''listTrash'' (v_message ListTrashResponse_verify),
      v_member ''kind'' ''restoreTrash'' (v_message RestoreTrashResponse_verify),
      v_member ''kind'' ''emptyTrash'' (v_message EmptyTrashResponse_verify),
      v_member ''kind'' ''listAppsForFile'' (v_message ListAppsForFileResponse_verify),
      v_member ''kind'' ''openWithApp'' (v_message OpenWithAppResponse_verify),
      v_member ''kind'' ''getBrowserConfig'' (v_message GetBrowserConfigResponse_verify),
      v_member ''kind'' ''launchGui'' (v_message LaunchGUIResponse_verify),
      v_member ''kind'' ''getThumbnail'' (v_message GetThumbnailResponse_verify),
      v_member ''kind'' ''listMounts'' (v_message ListMountsResponse_verify),
      v_member ''kind'' ''getFileBadges'' (v_message GetFileBadgesResponse_verify),
      v_member ''kind'' ''getFileActions'' (v_message GetFileActionsResponse_verify),
      v_member ''kind'' ''runFileAction'' (v_message RunFileActionResponse_verify),
      v_member ''kind'' ''pinSearch'' (v_message PinSearchResponse_verify),
      v_member ''kind'' ''unpinSearch'' (v_message UnpinSearchResponse_verify),
      v_member ''kind'' ''listSavedSearches'' (v_message ListSavedSearchesResponse_verify),
      v_member ''kind'' ''shutdown'' (v_message ShutdownResponse_verify),
      v_member ''kind'' ''reindexFile'' (v_message ReindexFileResponse_verify)]"

definition Response_verify :: "js \<Rightarrow> string option res" where
  "Response_verify = verify_with Response_checks"

definition Response_setters :: "setter list" where
  "Response_setters =
     [f_field ''error'' (c_message ''Response'' ''error'' ErrorResponse_fromObject),
      f_field ''search'' (c_message ''Response'' ''search'' SearchResponse_fromObject),
      f_field ''listTags'' (c_message ''Response'' ''listTags'' ListTagsResponse_fromObject),
      f_field ''hydrateTags'' (c_message ''Response'' ''hydrateTags'' HydrateTagsResponse_fromObject),
      f_field ''related'' (c_message ''Response'' ''related'' RelatedResponse_fromObject),
      f_field ''globSearch'' (c_message ''Response'' ''globSearch'' GlobSearchResponse_fromObject),
      f_field ''tag'' (c_message ''Response'' ''tag'' TagResponse_fromObject),
      f_field ''metadata'' (c_message ''Response'' ''metadata'' MetadataResponse_fromObject),
      f_field ''status'' (c_message ''Response'' ''status'' StatusResponse_fromObject),
      f_field ''reloadRules'' (c_message ''Response'' ''reloadRules'' ReloadRulesResponse_fromObject),
      f_field ''listDirectory'' (c_message ''Response'' ''listDirectory'' ListDirectoryResponse_fromObject),
      f_field ''statFile'' (c_message ''Response'' ''statFile'' StatFileResponse_fromObject),
      f_field ''renameFile'' (c_message ''Response'' ''renameFile'' RenameFileResponse_fromObject),
      f_field ''deleteFile'' (c_message ''Response'' ''deleteFile'' DeleteFileResponse_fromObject),
      f_field ''chmodFile'' (c_message ''Response'' ''chmodFile'' ChmodFileResponse_fromObject),
      f_field ''copy'' (c_message ''Response'' ''copy'' CopyResponse_fromObject),
      f_field ''paste'' (c_message ''Response'' ''paste'' PasteResponse_fromObject),
      f_field ''createFile'' (c_message ''Response'' ''createFile'' CreateFileResponse_fromObject),
      f_field ''createDirectory'' (c_message ''Response'' ''createDirectory'' CreateDirectoryResponse_fromObject),
      f_field ''listPlaces'' (c_message ''Response'' ''listPlaces'' ListPlacesResponse_fromObject),
      f_field ''pinPlace'' (c_message ''Response'' ''pinPlace'' PinPlaceResponse_fromObject),
      f_field ''unpinPlace'' (c_message ''Response'' ''unpinPlace'' UnpinPlaceResponse_fromObject),
      f_field ''trashFile'' (c_message ''Response'' ''trashFile'' TrashFileResponse_fromObject),
      f_field ''listTrash'' (c_message ''Response'' ''listTrash'' ListTrashResponse_fromObject),
      f_field ''restoreTrash'' (c_message ''Response'' ''restoreTrash'' RestoreTrashResponse_fromObject),
      f_field ''emptyTrash'' (c_message ''Response'' ''emptyTrash'' EmptyTrashResponse_fromObject),
      f_field ''listAppsForFile'' (c_message ''Response'' ''listAppsForFile'' ListAppsForFileResponse_fromObject),
      f_field ''openWithApp'' (c_message ''Response'' ''openWithApp'' OpenWithAppResponse_fromObject),
      f_field ''getBrowserConfig'' (c_message ''Response'' ''getBrowserConfig'' GetBrowserConfigResponse_fromObject),
      f_field ''launchGui'' (c_message ''Response'' ''launchGui'' LaunchGUIResponse_fromObject),
      f_field ''getThumbnail'' (c_message ''Response'' ''getThumbnail'' GetThumbnailResponse_fromObject),
      f_field ''listMounts'' (c_message ''Response'' ''listMounts'' ListMountsResponse_fromObject),
      f_field ''getFileBadges'' (c_message ''Response'' ''getFileBadges'' GetFileBadgesResponse_fromObject),
      f_field ''getFileActions'' (c_message ''Response'' ''getFileActions'' GetFileActionsResponse_fromObject),
      f_field ''runFileAction'' (c_message ''Response'' ''runFileAction'' RunFileActionResponse_fromObject),
      f_field ''pinSearch'' (c_message ''Response'' ''pinSearch'' PinSearchResponse_fromObject),
      f_field ''unpinSearch'' (c_message ''Response'' ''unpinSearch'' UnpinSearchResponse_fromObject),
      f_field ''listSavedSearches'' (c_message ''Response'' ''listSavedSearches'' ListSavedSearchesResponse_fromObject),
      f_field ''shutdown'' (c_message ''Response'' ''shutdown'' ShutdownResponse_fromObject),
      f_field ''reindexFile'' (c_message ''Response'' ''reindexFile'' ReindexFileResponse_fromObject)]"

definition Response_fromObject :: "js \<Rightarrow> js res" where
  "Response_fromObject = from_object ''Response'' [] Response_setters"

definition Response_writers :: "writer list" where
  "Response_writers =
     [t_member ''kind'' ''error'' (t_message ErrorResponse_toObject),
      t_member ''kind'' ''search'' (t_message SearchResponse_toObject),
      t_member ''kind'' ''tag'' (t_message TagResponse_toObject),
      t_member ''kind'' ''metadata'' (t_message MetadataResponse_toObject),
      t_member ''kind'' ''related'' (t_message RelatedResponse_toObject),
      t_member ''kind'' ''status'' (t_message StatusResponse_toObject),
      t_member ''kind'' ''reloadRules'' (t_message ReloadRulesResponse_toObject),
      t_member ''kind'' ''listTags'' (t_message ListTagsResponse_toObject),
      t_member ''kind'' ''hydrateTags'' (t_message HydrateTagsResponse_toObject),
      t_member ''kind'' ''listDirectory'' (t_message ListDirectoryResponse_toObject),
      t_member ''kind'' ''statFile'' (t_message StatFileResponse_toObject),
      t_member ''kind'' ''globSearch'' (t_message GlobSearchResponse_toObject),
      t_member ''kind'' ''renameFile'' (t_message RenameFileResponse_toObject),
      t_member ''kind'' ''deleteFile'' (t_message DeleteFileResponse_toObject),
      t_member ''kind'' ''chmodFile'' (t_message ChmodFileResponse_toObject),
      t_member ''kind'' ''listPlaces'' (t_message ListPlacesResponse_toObject),
      t_member ''kind'' ''pinPlace'' (t_message PinPlaceResponse_toObject),
      t_member ''kind'' ''unpinPlace'' (t_message UnpinPlaceResponse_toObject),
      t_member ''kind'' ''trashFile'' (t_message TrashFileResponse_toObject),
      t_member ''kind'' ''listTrash'' (t_message ListTrashResponse_toObject),
      t_member ''kind'' ''restoreTrash'' (t_message RestoreTrashResponse_toObject),
      t_member ''kind'' ''emptyTrash'' (t_message EmptyTrashResponse_toObject),
      t_member ''kind'' ''listAppsForFile'' (t_message ListAppsForFileResponse_toObject),
      t_member ''kind'' ''openWithApp'' (t_message OpenWithAppResponse_toObject),
      t_member ''kind'' ''getBrowserConfig'' (t_message GetBrowserConfigResponse_toObject),
      t_member ''kind'' ''getFileBadges'' (t_message GetFileBadgesResponse_toObject),
      t_member ''kind'' ''getFileActions'' (t_message GetFileActionsResponse_toObject),
      t_member ''kind'' ''runFileAction'' (t_message RunFileActionResponse_toObject),
      t_member ''kind'' ''launchGui'' (t_message LaunchGUIResponse_toObject),
      t_member ''kind'' ''getThumbnail'' (t_message GetThumbnailResponse_toObject),
      t_member ''kind'' ''copy'' (t_message CopyResponse_toObject),
      t_member ''kind'' ''paste'' (t_message PasteResponse_toObject),
      t_member ''kind'' ''createFile'' (t_message CreateFileResponse_toObject),
      t_member ''kind'' ''createDirectory'' (t_message CreateDirectoryResponse_toObject),
      t_member ''kind'' ''listMounts'' (t_message ListMountsResponse_toObject),
      t_member ''kind'' ''pinSearch'' (t_message PinSearchResponse_toObject),
      t_member ''kind'' ''unpinSearch'' (t_message UnpinSearchResponse_toObject),
      t_member ''kind'' ''listSavedSearches'' (t_message ListSavedSearchesResponse_toObject),
      t_member ''kind'' ''shutdown'' (t_message ShutdownResponse_toObject),
      t_member ''kind'' ''reindexFile'' (t_message ReindexFileResponse_toObject)]"

definition Response_toObject :: "js \<Rightarrow> to_options option \<Rightarrow> js res" where
  "Response_toObject = to_object Response_writers"

definition Response_toJSON :: "js \<Rightarrow> js res" where
  "Response_toJSON message = Response_toObject message (Some toJSONOptions)"

definition Response_getTypeUrl :: "jstring option \<Rightarrow> jstring" where
  "Response_getTypeUrl = type_url ''Response''"

definition Response_props :: "Response \<Rightarrow> props" where
  "Response_props m =
     opt_prop ''error'' ErrorResponse_obj (Response_error m) @
     opt_prop ''search'' SearchResponse_obj (Response_search m) @
     opt_prop ''listTags'' ListTagsResponse_obj (Response_listTags m) @
     opt_prop ''hydrateTags'' HydrateTagsResponse_obj (Response_hydrateTags m) @
     opt_prop ''related'' RelatedResponse_obj (Response_related m) @
     opt_prop ''globSearch'' GlobSearchResponse_obj (Response_globSearch m) @
     opt_prop ''tag'' TagResponse_obj (Response_tag m) @
     opt_prop ''metadata'' MetadataResponse_obj (Response_metadata m) @
     opt_prop ''status'' StatusResponse_obj (Response_status m) @
     opt_prop ''reloadRules'' ReloadRulesResponse_obj (Response_reloadRules m) @
     opt_prop ''listDirectory'' ListDirectoryResponse_obj (Response_listDirectory m) @
     opt_prop ''statFile'' StatFileResponse_obj (Response_statFile m) @
     opt_prop ''renameFile'' RenameFileResponse_obj (Response_renameFile m) @
     opt_prop ''deleteFile'' DeleteFileResponse_obj (Response_deleteFile m) @
     opt_prop ''chmodFile'' ChmodFileResponse_obj (Response_chmodFile m) @
     opt_prop ''copy'' CopyResponse_obj (Response_copy m) @
     opt_prop ''paste'' PasteResponse_obj (Response_paste m) @
     opt_prop ''createFile'' CreateFileResponse_obj (Response_createFile m) @
     opt_prop ''createDirectory'' CreateDirectoryResponse_obj (Response_createDirectory m) @
     opt_prop ''listPlaces'' ListPlacesResponse_obj (Response_listPlaces m) @
     opt_prop ''pinPlace'' PinPlaceResponse_obj (Response_pinPlace m) @
     opt_prop ''unpinPlace'' UnpinPlaceResponse_obj (Response_unpinPlace m) @
     opt_prop ''trashFile'' TrashFileResponse_obj (Response_trashFile m) @
     opt_prop ''listTrash'' ListTrashResponse_obj (Response_listTrash m) @
     opt_prop ''restoreTrash'' RestoreTrashResponse_obj (Response_restoreTrash m) @
     opt_prop ''emptyTrash'' EmptyTrashResponse_obj (Response_emptyTrash m) @
     opt_prop ''listAppsForFile'' ListAppsForFileResponse_obj (Response_listAppsForFile m) @
     opt_prop ''openWithApp'' OpenWithAppResponse_obj (Response_openWithApp m) @
     opt_prop ''getBrowserConfig'' GetBrowserConfigResponse_obj (Response_getBrowserConfig m) @
     opt_prop ''launchGui'' LaunchGUIResponse_obj (Response_launchGui m) @
     opt_prop ''getThumbnail'' GetThumbnailResponse_obj (Response_getThumbnail m) @
     opt_prop ''listMounts'' ListMountsResponse_obj (Response_listMounts m) @
     opt_prop ''getFileBadges'' GetFileBadgesResponse_obj (Response_getFileBadges m) @
     opt_prop ''getFileActions'' GetFileActionsResponse_obj (Response_getFileActions m) @
     opt_prop ''runFileAction'' RunFileActionResponse_obj (Response_runFileAction m) @
     opt_prop ''pinSearch'' PinSearchResponse_obj (Response_pinSearch m) @
     opt_prop ''unpinSearch'' UnpinSearchResponse_obj (Response_unpinSearch m) @
     opt_prop ''listSavedSearches'' ListSavedSearchesResponse_obj (Response_listSavedSearches m) @
     opt_prop ''shutdown'' ShutdownResponse_obj (Response_shutdown m) @
     opt_prop ''reindexFile'' ReindexFileResponse_obj (Response_reindexFile m)"

definition Response_obj :: "Response \<Rightarrow> js" where
  "Response_obj m = Object ''Response'' (Response_props m)"

definition Response_good :: "Response \<Rightarrow> bool" where
  "Response_good m \<longleftrightarrow> opt_all ErrorResponse_good (Response_error m) \<and>
     opt_all SearchResponse_good (Response_search m) \<and>
     opt_all ListTagsResponse_good (Response_listTags m) \<and>
     opt_all HydrateTagsResponse_good (Response_hydrateTags m) \<and>
     opt_all RelatedResponse_good (Response_related m) \<and>
     opt_all GlobSearchResponse_good (Response_globSearch m) \<and>
     opt_all TagResponse_good (Response_tag m) \<and>
     opt_all MetadataResponse_good (Response_metadata m) \<and>
     opt_all StatusResponse_good (Response_status m) \<and>
     opt_all ReloadRulesResponse_good (Response_reloadRules m) \<and>
     opt_all ListDirectoryResponse_good (Response_listDirectory m) \<and>
     opt_all StatFileResponse_good (Response_statFile m) \<and>
     opt_all RenameFileResponse_good (Response_renameFile m) \<and>
     opt_all DeleteFileResponse_good (Response_deleteFile m) \<and>
     opt_all ChmodFileResponse_good (Response_chmodFile m) \<and>
     opt_all CopyResponse_good (Response_copy m) \<and>
     opt_all PasteResponse_good (Response_paste m) \<and>
     opt_all CreateFileResponse_good (Response_createFile m) \<and>
     opt_all CreateDirectoryResponse_good (Response_createDirectory m) \<and>
     opt_all ListPlacesResponse_good (Response_listPlaces m) \<and>
     opt_all PinPlaceResponse_good (Response_pinPlace m) \<and>
     opt_all UnpinPlaceResponse_good (Response_unpinPlace m) \<and>
     opt_all TrashFileResponse_good (Response_trashFile m) \<and>
     opt_all ListTrashResponse_good (Response_listTrash m) \<and>
     opt_all RestoreTrashResponse_good (Response_restoreTrash m) \<and>
     opt_all EmptyTrashResponse_good (Response_emptyTrash m) \<and>
     opt_all ListAppsForFileResponse_good (Response_listAppsForFile m) \<and>
     opt_all OpenWithAppResponse_good (Response_openWithApp m) \<and>
     opt_all GetBrowserConfigResponse_good (Response_getBrowserConfig m) \<and>
     opt_all LaunchGUIResponse_good (Response_launchGui m) \<and>
     opt_all GetThumbnailResponse_good (Response_getThumbnail m) \<and>
     opt_all ListMountsResponse_good (Response_listMounts m) \<and>
     opt_all GetFileBadgesResponse_good (Response_getFileBadges m) \<and>
     opt_all GetFileActionsResponse_good (Response_getFileActions m) \<and>
     opt_all RunFileActionResponse_good (Response_runFileAction m) \<and>
     opt_all PinSearchResponse_good (Response_pinSearch m) \<and>
     opt_all UnpinSearchResponse_good (Response_unpinSearch m) \<and>
     opt_all ListSavedSearchesResponse_good (Response_listSavedSearches m) \<and>
     opt_all ShutdownResponse_good (Response_shutdown m) \<and>
     opt_all ReindexFileResponse_good (Response_reindexFile m) \<and>
     at_most_one False
       [Response_error m \<noteq> None,
        Response_search m \<noteq> None,
        Response_listTags m \<noteq> None,
        Response_hydrateTags m \<noteq> None,
        Response_related m \<noteq> None,
        Response_globSearch m \<noteq> None,
        Response_tag m \<noteq> None,
        Response_metadata m \<noteq> None,
        Response_status m \<noteq> None,
        Response_reloadRules m \<noteq> None,
        Response_listDirectory m \<noteq> None,
        Response_statFile m \<noteq> None,
        Response_renameFile m \<noteq> None,
        Response_deleteFile m \<noteq> None,
        Response_chmodFile m \<noteq> None,
        Response_copy m \<noteq> None,
        Response_paste m \<noteq> None,
        Response_createFile m \<noteq> None,
        Response_createDirectory m \<noteq> None,
        Response_listPlaces m \<noteq> None,
        Response_pinPlace m \<noteq> None,
        Response_unpinPlace m \<noteq> None,
        Response_trashFile m \<noteq> None,
        Response_listTrash m \<noteq> None,
        Response_restoreTrash m \<noteq> None,
        Response_emptyTrash m \<noteq> None,
        Response_listAppsForFile m \<noteq> None,
        Response_openWithApp m \<noteq> None,
        Response_getBrowserConfig m \<noteq> None,
        Response_launchGui m \<noteq> None,
        Response_getThumbnail m \<noteq> None,
        Response_listMounts m \<noteq> None,
        Response_getFileBadges m \<noteq> None,
        Response_getFileActions m \<noteq> None,
        Response_runFileAction m \<noteq> None,
        Response_pinSearch m \<noteq> None,
        Response_unpinSearch m \<noteq> None,
        Response_listSavedSearches m \<noteq> None,
        Response_shutdown m \<noteq> None,
        Response_reindexFile m \<noteq> None]"

lemma Response_lookup:
  "lookup (Response_props m) ''error'' = map_option ErrorResponse_obj (Response_error m)"
  "lookup (Response_props m) ''search'' = map_option SearchResponse_obj (Response_search m)"
  "lookup (Response_props m) ''listTags'' = map_option ListTagsResponse_obj (Response_listTags m)"
  "lookup (Response_props m) ''hydrateTags'' = map_option HydrateTagsResponse_obj (Response_hydrateTags m)"
  "lookup (Response_props m) ''related'' = map_option RelatedResponse_obj (Response_related m)"
  "lookup (Response_props m) ''globSearch'' = map_option GlobSearchResponse_obj (Response_globSearch m)"
  "lookup (Response_props m) ''tag'' = map_option TagResponse_obj (Response_tag m)"
  "lookup (Response_props m) ''metadata'' = map_option MetadataResponse_obj (Response_metadata m)"
  "lookup (Response_props m) ''status'' = map_option StatusResponse_obj (Response_status m)"
  "lookup (Response_props m) ''reloadRules'' = map_option ReloadRulesResponse_obj (Response_reloadRules m)"
  "lookup (Response_props m) ''listDirectory'' = map_option ListDirectoryResponse_obj (Response_listDirectory m)"
  "lookup (Response_props m) ''statFile'' = map_option StatFileResponse_obj (Response_statFile m)"
  "lookup (Response_props m) ''renameFile'' = map_option RenameFileResponse_obj (Response_renameFile m)"
  "lookup (Response_props m) ''deleteFile'' = map_option DeleteFileResponse_obj (Response_deleteFile m)"
  "lookup (Response_props m) ''chmodFile'' = map_option ChmodFileResponse_obj (Response_chmodFile m)"
  "lookup (Response_props m) ''copy'' = map_option CopyResponse_obj (Response_copy m)"
  "lookup (Response_props m) ''paste'' = map_option PasteResponse_obj (Response_paste m)"
  "lookup (Response_props m) ''createFile'' = map_option CreateFileResponse_obj (Response_createFile m)"
  "lookup (Response_props m) ''createDirectory'' = map_option CreateDirectoryResponse_obj (Response_createDirectory m)"
  "lookup (Response_props m) ''listPlaces'' = map_option ListPlacesResponse_obj (Response_listPlaces m)"
  "lookup (Response_props m) ''pinPlace'' = map_option PinPlaceResponse_obj (Response_pinPlace m)"
  "lookup (Response_props m) ''unpinPlace'' = map_option UnpinPlaceResponse_obj (Response_unpinPlace m)"
  "lookup (Response_props m) ''trashFile'' = map_option TrashFileResponse_obj (Response_trashFile m)"
  "lookup (Response_props m) ''listTrash'' = map_option ListTrashResponse_obj (Response_listTrash m)"
  "lookup (Response_props m) ''restoreTrash'' = map_option RestoreTrashResponse_obj (Response_restoreTrash m)"
  "lookup (Response_props m) ''emptyTrash'' = map_option EmptyTrashResponse_obj (Response_emptyTrash m)"
  "lookup (Response_props m) ''listAppsForFile'' = map_option ListAppsForFileResponse_obj (Response_listAppsForFile m)"
  "lookup (Response_props m) ''openWithApp'' = map_option OpenWithAppResponse_obj (Response_openWithApp m)"
  "lookup (Response_props m) ''getBrowserConfig'' = map_option GetBrowserConfigResponse_obj (Response_getBrowserConfig m)"
  "lookup (Response_props m) ''launchGui'' = map_option LaunchGUIResponse_obj (Response_launchGui m)"
  "lookup (Response_props m) ''getThumbnail'' = map_option GetThumbnailResponse_obj (Response_getThumbnail m)"
  "lookup (Response_props m) ''listMounts'' = map_option ListMountsResponse_obj (Response_listMounts m)"
  "lookup (Response_props m) ''getFileBadges'' = map_option GetFileBadgesResponse_obj (Response_getFileBadges m)"
  "lookup (Response_props m) ''getFileActions'' = map_option GetFileActionsResponse_obj (Response_getFileActions m)"
  "lookup (Response_props m) ''runFileAction'' = map_option RunFileActionResponse_obj (Response_runFileAction m)"
  "lookup (Response_props m) ''pinSearch'' = map_option PinSearchResponse_obj (Response_pinSearch m)"
  "lookup (Response_props m) ''unpinSearch'' = map_option UnpinSearchResponse_obj (Response_unpinSearch m)"
  "lookup (Response_props m) ''listSavedSearches'' = map_option ListSavedSearchesResponse_obj (Response_listSavedSearches m)"
  "lookup (Response_props m) ''shutdown'' = map_option ShutdownResponse_obj (Response_shutdown m)"
  "lookup (Response_props m) ''reindexFile'' = map_option ReindexFileResponse_obj (Response_reindexFile m)"
  "\<not> shadows (Response_props m)"
  by (simp_all add: Response_props_def shadows_def)

lemma Response_accepts:
  assumes "Response_good m"
  shows "Response_verify (Response_obj m) = ok None"
  unfolding Response_verify_def Response_checks_def Response_obj_def
  by (rule runs_verify [where members = "[Response_error m \<noteq> None, Response_search m \<noteq> None, Response_listTags m \<noteq> None, Response_hydrateTags m \<noteq> None, Response_related m \<noteq> None, Response_globSearch m \<noteq> None, Response_tag m \<noteq> None, Response_metadata m \<noteq> None, Response_status m \<noteq> None, Response_reloadRules m \<noteq> None, Response_listDirectory m \<noteq> None, Response_statFile m \<noteq> None, Response_renameFile m \<noteq> None, Response_deleteFile m \<noteq> None, Response_chmodFile m \<noteq> None, Response_copy m \<noteq> None, Response_paste m \<noteq> None, Response_createFile m \<noteq> None, Response_createDirectory m \<noteq> None, Response_listPlaces m \<noteq> None, Response_pinPlace m \<noteq> None, Response_unpinPlace m \<noteq> None, Response_trashFile m \<noteq> None, Response_listTrash m \<noteq> None, Response_restoreTrash m \<noteq> None, Response_emptyTrash m \<noteq> None, Response_listAppsForFile m \<noteq> None, Response_openWithApp m \<noteq> None, Response_getBrowserConfig m \<noteq> None, Response_launchGui m \<noteq> None, Response_getThumbnail m \<noteq> None, Response_listMounts m \<noteq> None, Response_getFileBadges m \<noteq> None, Response_getFileActions m \<noteq> None, Response_runFileAction m \<noteq> None, Response_pinSearch m \<noteq> None, Response_unpinSearch m \<noteq> None, Response_listSavedSearches m \<noteq> None, Response_shutdown m \<noteq> None, Response_reindexFile m \<noteq> None]"],
      rule ErrorResponse_plain.sub.runs_member [where x = "Response_error m"],
      rule SearchResponse_plain.sub.runs_member [where x = "Response_search m"],
      rule ListTagsResponse_plain.sub.runs_member [where x = "Response_listTags m"],
      rule HydrateTagsResponse_plain.sub.runs_member [where x = "Response_hydrateTags m"],
      rule RelatedResponse_plain.sub.runs_member [where x = "Response_related m"],
      rule GlobSearchResponse_plain.sub.runs_member [where x = "Response_globSearch m"],
      rule TagResponse_plain.sub.runs_member [where x = "Response_tag m"],
      rule MetadataResponse_plain.sub.runs_member [where x = "Response_metadata m"],
      rule StatusResponse_plain.sub.runs_member [where x = "Response_status m"],
      rule ReloadRulesResponse_plain.sub.runs_member [where x = "Response_reloadRules m"],
      rule ListDirectoryResponse_plain.sub.runs_member [where x = "Response_listDirectory m"],
      rule StatFileResponse_plain.sub.runs_member [where x = "Response_statFile m"],
      rule RenameFileResponse_plain.sub.runs_member [where x = "Response_renameFile m"],
      rule DeleteFileResponse_plain.sub.runs_member [where x = "Response_deleteFile m"],
      rule ChmodFileResponse_plain.sub.runs_member [where x = "Response_chmodFile m"],
      rule CopyResponse_plain.sub.runs_member [where x = "Response_copy m"],
      rule PasteResponse_plain.sub.runs_member [where x = "Response_paste m"],
      rule CreateFileResponse_plain.sub.runs_member [where x = "Response_createFile m"],
      rule CreateDirectoryResponse_plain.sub.runs_member [where x = "Response_createDirectory m"],
      rule ListPlacesResponse_plain.sub.runs_member [where x = "Response_listPlaces m"],
      rule PinPlaceResponse_plain.sub.runs_member [where x = "Response_pinPlace m"],
      rule UnpinPlaceResponse_plain.sub.runs_member [where x = "Response_unpinPlace m"],
      rule TrashFileResponse_plain.sub.runs_member [where x = "Response_trashFile m"],
      rule ListTrashResponse_plain.sub.runs_member [where x = "Response_listTrash m"],
      rule RestoreTrashResponse_plain.sub.runs_member [where x = "Response_restoreTrash m"],
      rule EmptyTrashResponse_plain.sub.runs_member [where x = "Response_emptyTrash m"],
      rule ListAppsForFileResponse_plain.sub.runs_member [where x = "Response_listAppsForFile m"],
      rule OpenWithAppResponse_plain.sub.runs_member [where x = "Response_openWithApp m"],
      rule GetBrowserConfigResponse_plain.sub.runs_member [where x = "Response_getBrowserConfig m"],
      rule LaunchGUIResponse_plain.sub.runs_member [where x = "Response_launchGui m"],
      rule GetThumbnailResponse_plain.sub.runs_member [where x = "Response_getThumbnail m"],
      rule ListMountsResponse_plain.sub.runs_member [where x = "Response_listMounts m"],
      rule GetFileBadgesResponse_plain.sub.runs_member [where x = "Response_getFileBadges m"],
      rule GetFileActionsResponse_plain.sub.runs_member [where x = "Response_getFileActions m"],
      rule RunFileActionResponse_plain.sub.runs_member [where x = "Response_runFileAction m"],
      rule PinSearchResponse_plain.sub.runs_member [where x = "Response_pinSearch m"],
      rule UnpinSearchResponse_plain.sub.runs_member [where x = "Response_unpinSearch m"],
      rule ListSavedSearchesResponse_plain.sub.runs_member [where x = "Response_listSavedSearches m"],
      rule ShutdownResponse_plain.sub.runs_member [where x = "Response_shutdown m"],
      rule ReindexFileResponse_plain.sub.runs_member [where x = "Response_reindexFile m"],
      rule runs_Nil)
    (simp_all del: at_most_one.simps not_None_eq add: Response_lookup assms [unfolded Response_good_def] )

lemma Response_plain_fields:
  assumes "Response_good m" "\<not> to_defaults opts"
  shows "\<exists>ps. Response_toObject (Response_obj m) (Some opts) = ok (plain ps) \<and>
    lookup ps ''error'' = map_option (ErrorResponse_plain.sub.out opts) (Response_error m) \<and>
    lookup ps ''search'' = map_option (SearchResponse_plain.sub.out opts) (Response_search m) \<and>
    lookup ps ''listTags'' = map_option (ListTagsResponse_plain.sub.out opts) (Response_listTags m) \<and>
    lookup ps ''hydrateTags'' = map_option (HydrateTagsResponse_plain.sub.out opts) (Response_hydrateTags m) \<and>
    lookup ps ''related'' = map_option (RelatedResponse_plain.sub.out opts) (Response_related m) \<and>
    lookup ps ''globSearch'' = map_option (GlobSearchResponse_plain.sub.out opts) (Response_globSearch m) \<and>
    lookup ps ''tag'' = map_option (TagResponse_plain.sub.out opts) (Response_tag m) \<and>
    lookup ps ''metadata'' = map_option (MetadataResponse_plain.sub.out opts) (Response_metadata m) \<and>
    lookup ps ''status'' = map_option (StatusResponse_plain.sub.out opts) (Response_status m) \<and>
    lookup ps ''reloadRules'' = map_option (ReloadRulesResponse_plain.sub.out opts) (Response_reloadRules m) \<and>
    lookup ps ''listDirectory'' = map_option (ListDirectoryResponse_plain.sub.out opts) (Response_listDirectory m) \<and>
    lookup ps ''statFile'' = map_option (StatFileResponse_plain.sub.out opts) (Response_statFile m) \<and>
    lookup ps ''renameFile'' = map_option (RenameFileResponse_plain.sub.out opts) (Response_renameFile m) \<and>
    lookup ps ''deleteFile'' = map_option (DeleteFileResponse_plain.sub.out opts) (Response_deleteFile m) \<and>
    lookup ps ''chmodFile'' = map_option (ChmodFileResponse_plain.sub.out opts) (Response_chmodFile m) \<and>
    lookup ps ''copy'' = map_option (CopyResponse_plain.sub.out opts) (Response_copy m) \<and>
    lookup ps ''paste'' = map_option (PasteResponse_plain.sub.out opts) (Response_paste m) \<and>
    lookup ps ''createFile'' = map_option (CreateFileResponse_plain.sub.out opts) (Response_createFile m) \<and>
    lookup ps ''createDirectory'' = map_option (CreateDirectoryResponse_plain.sub.out opts) (Response_createDirectory m) \<and>
    lookup ps ''listPlaces'' = map_option (ListPlacesResponse_plain.sub.out opts) (Response_listPlaces m) \<and>
    lookup ps ''pinPlace'' = map_option (PinPlaceResponse_plain.sub.out opts) (Response_pinPlace m) \<and>
    lookup ps ''unpinPlace'' = map_option (UnpinPlaceResponse_plain.sub.out opts) (Response_unpinPlace m) \<and>
    lookup ps ''trashFile'' = map_option (TrashFileResponse_plain.sub.out opts) (Response_trashFile m) \<and>
    lookup ps ''listTrash'' = map_option (ListTrashResponse_plain.sub.out opts) (Response_listTrash m) \<and>
    lookup ps ''restoreTrash'' = map_option (RestoreTrashResponse_plain.sub.out opts) (Response_restoreTrash m) \<and>
    lookup ps ''emptyTrash'' = map_option (EmptyTrashResponse_plain.sub.out opts) (Response_emptyTrash m) \<and>
    lookup ps ''listAppsForFile'' = map_option (ListAppsForFileResponse_plain.sub.out opts) (Response_listAppsForFile m) \<and>
    lookup ps ''openWithApp'' = map_option (OpenWithAppResponse_plain.sub.out opts) (Response_openWithApp m) \<and>
    lookup ps ''getBrowserConfig'' = map_option (GetBrowserConfigResponse_plain.sub.out opts) (Response_getBrowserConfig m) \<and>
    lookup ps ''launchGui'' = map_option (LaunchGUIResponse_plain.sub.out opts) (Response_launchGui m) \<and>
    lookup ps ''getThumbnail'' = map_option (GetThumbnailResponse_plain.sub.out opts) (Response_getThumbnail m) \<and>
    lookup ps ''listMounts'' = map_option (ListMountsResponse_plain.sub.out opts) (Response_listMounts m) \<and>
    lookup ps ''getFileBadges'' = map_option (GetFileBadgesResponse_plain.sub.out opts) (Response_getFileBadges m) \<and>
    lookup ps ''getFileActions'' = map_option (GetFileActionsResponse_plain.sub.out opts) (Response_getFileActions m) \<and>
    lookup ps ''runFileAction'' = map_option (RunFileActionResponse_plain.sub.out opts) (Response_runFileAction m) \<and>
    lookup ps ''pinSearch'' = map_option (PinSearchResponse_plain.sub.out opts) (Response_pinSearch m) \<and>
    lookup ps ''unpinSearch'' = map_option (UnpinSearchResponse_plain.sub.out opts) (Response_unpinSearch m) \<and>
    lookup ps ''listSavedSearches'' = map_option (ListSavedSearchesResponse_plain.sub.out opts) (Response_listSavedSearches m) \<and>
    lookup ps ''shutdown'' = map_option (ShutdownResponse_plain.sub.out opts) (Response_shutdown m) \<and>
    lookup ps ''reindexFile'' = map_option (ReindexFileResponse_plain.sub.out opts) (Response_reindexFile m) \<and>
    \<not> shadows ps"
  unfolding Response_toObject_def Response_writers_def Response_obj_def
  by (rule plain_fields,
      rule all_yield_Cons, rule all_yield_Cons, rule all_yield_Cons, rule all_yield_Cons,
      rule all_yield_Cons, rule all_yield_Cons, rule all_yield_Cons, rule all_yield_Cons,
      rule all_yield_Cons, rule all_yield_Cons, rule all_yield_Cons, rule all_yield_Cons,
      rule all_yield_Cons, rule all_yield_Cons, rule all_yield_Cons, rule all_yield_Cons,
      rule all_yield_Cons, rule all_yield_Cons, rule all_yield_Cons, rule all_yield_Cons,
      rule all_yield_Cons, rule all_yield_Cons, rule all_yield_Cons, rule all_yield_Cons,
      rule all_yield_Cons, rule all_yield_Cons, rule all_yield_Cons, rule all_yield_Cons,
      rule all_yield_Cons, rule all_yield_Cons, rule all_yield_Cons, rule all_yield_Cons,
      rule all_yield_Cons, rule all_yield_Cons, rule all_yield_Cons, rule all_yield_Cons,
      rule all_yield_Cons, rule all_yield_Cons, rule all_yield_Cons, rule all_yield_Cons,
      rule all_yield_Nil,
      (rule ReindexFileResponse_plain.sub.yields_member [where x = "Response_reindexFile m"]; simp add: assms [unfolded Response_good_def] Response_lookup plain_keys),
      (rule ShutdownResponse_plain.sub.yields_member [where x = "Response_shutdown m"]; simp add: assms [unfolded Response_good_def] Response_lookup plain_keys),
      (rule ListSavedSearchesResponse_plain.sub.yields_member [where x = "Response_listSavedSearches m"]; simp add: assms [unfolded Response_good_def] Response_lookup plain_keys),
      (rule UnpinSearchResponse_plain.sub.yields_member [where x = "Response_unpinSearch m"]; simp add: assms [unfolded Response_good_def] Response_lookup plain_keys),
      (rule PinSearchResponse_plain.sub.yields_member [where x = "Response_pinSearch m"]; simp add: assms [unfolded Response_good_def] Response_lookup plain_keys),
      (rule ListMountsResponse_plain.sub.yields_member [where x = "Response_listMounts m"]; simp add: assms [unfolded Response_good_def] Response_lookup plain_keys),
      (rule CreateDirectoryResponse_plain.sub.yields_member [where x = "Response_createDirectory m"]; simp add: assms [unfolded Response_good_def] Response_lookup plain_keys),
      (rule CreateFileResponse_plain.sub.yields_member [where x = "Response_createFile m"]; simp add: assms [unfolded Response_good_def] Response_lookup plain_keys),
      (rule PasteResponse_plain.sub.yields_member [where x = "Response_paste m"]; simp add: assms [unfolded Response_good_def] Response_lookup plain_keys),
      (rule CopyResponse_plain.sub.yields_member [where x = "Response_copy m"]; simp add: assms [unfolded Response_good_def] Response_lookup plain_keys),
      (rule GetThumbnailResponse_plain.sub.yields_member [where x = "Response_getThumbnail m"]; simp add: assms [unfolded Response_good_def] Response_lookup plain_keys),
      (rule LaunchGUIResponse_plain.sub.yields_member [where x = "Response_launchGui m"]; simp add: assms [unfolded Response_good_def] Response_lookup plain_keys),
      (rule RunFileActionResponse_plain.sub.yields_member [where x = "Response_runFileAction m"]; simp add: assms [unfolded Response_good_def] Response_lookup plain_keys),
      (rule GetFileActionsResponse_plain.sub.yields_member [where x = "Response_getFileActions m"]; simp add: assms [unfolded Response_good_def] Response_lookup plain_keys),
      (rule GetFileBadgesResponse_plain.sub.yields_member [where x = "Response_getFileBadges m"]; simp add: assms [unfolded Response_good_def] Response_lookup plain_keys),
      (rule GetBrowserConfigResponse_plain.sub.yields_member [where x = "Response_getBrowserConfig m"]; simp add: assms [unfolded Response_good_def] Response_lookup plain_keys),
      (rule OpenWithAppResponse_plain.sub.yields_member [where x = "Response_openWithApp m"]; simp add: assms [unfolded Response_good_def] Response_lookup plain_keys),
      (rule ListAppsForFileResponse_plain.sub.yields_member [where x = "Response_listAppsForFile m"]; simp add: assms [unfolded Response_good_def] Response_lookup plain_keys),
      (rule EmptyTrashResponse_plain.sub.yields_member [where x = "Response_emptyTrash m"]; simp add: assms [unfolded Response_good_def] Response_lookup plain_keys),
      (rule RestoreTrashResponse_plain.sub.yields_member [where x = "Response_restoreTrash m"]; simp add: assms [unfolded Response_good_def] Response_lookup plain_keys),
      (rule ListTrashResponse_plain.sub.yields_member [where x = "Response_listTrash m"]; simp add: assms [unfolded Response_good_def] Response_lookup plain_keys),
      (rule TrashFileResponse_plain.sub.yields_member [where x = "Response_trashFile m"]; simp add: assms [unfolded Response_good_def] Response_lookup plain_keys),
      (rule UnpinPlaceResponse_plain.sub.yields_member [where x = "Response_unpinPlace m"]; simp add: assms [unfolded Response_good_def] Response_lookup plain_keys),
      (rule PinPlaceResponse_plain.sub.yields_member [where x = "Response_pinPlace m"]; simp add: assms [unfolded Response_good_def] Response_lookup plain_keys),
      (rule ListPlacesResponse_plain.sub.yields_member [where x = "Response_listPlaces m"]; simp add: assms [unfolded Response_good_def] Response_lookup plain_keys),
      (rule ChmodFileResponse_plain.sub.yields_member [where x = "Response_chmodFile m"]; simp add: assms [unfolded Response_good_def] Response_lookup plain_keys),
      (rule DeleteFileResponse_plain.sub.yields_member [where x = "Response_deleteFile m"]; simp add: assms [unfolded Response_good_def] Response_lookup plain_keys),
      (rule RenameFileResponse_plain.sub.yields_member [where x = "Response_renameFile m"]; simp add: assms [unfolded Response_good_def] Response_lookup plain_keys),
      (rule GlobSearchResponse_plain.sub.yields_member [where x = "Response_globSearch m"]; simp add: assms [unfolded Response_good_def] Response_lookup plain_keys),
      (rule StatFileResponse_plain.sub.yields_member [where x = "Response_statFile m"]; simp add: assms [unfolded Response_good_def] Response_lookup plain_keys),
      (rule ListDirectoryResponse_plain.sub.yields_member [where x = "Response_listDirectory m"]; simp add: assms [unfolded Response_good_def] Response_lookup plain_keys),
      (rule HydrateTagsResponse_plain.sub.yields_member [where x = "Response_hydrateTags m"]; simp add: assms [unfolded Response_good_def] Response_lookup plain_keys),
      (rule ListTagsResponse_plain.sub.yields_member [where x = "Response_listTags m"]; simp add: assms [unfolded Response_good_def] Response_lookup plain_keys),
      (rule ReloadRulesResponse_plain.sub.yields_member [where x = "Response_reloadRules m"]; simp add: assms [unfolded Response_good_def] Response_lookup plain_keys),
      (rule StatusResponse_plain.sub.yields_member [where x = "Response_status m"]; simp add: assms [unfolded Response_good_def] Response_lookup plain_keys),
      (rule RelatedResponse_plain.sub.yields_member [where x = "Response_related m"]; simp add: assms [unfolded Response_good_def] Response_lookup plain_keys),
      (rule MetadataResponse_plain.sub.yields_member [where x = "Response_metadata m"]; simp add: assms [unfolded Response_good_def] Response_lookup plain_keys),
      (rule TagResponse_plain.sub.yields_member [where x = "Response_tag m"]; simp add: assms [unfolded Response_good_def] Response_lookup plain_keys),
      (rule SearchResponse_plain.sub.yields_member [where x = "Response_search m"]; simp add: assms [unfolded Response_good_def] Response_lookup plain_keys),
      (rule ErrorResponse_plain.sub.yields_member [where x = "Response_error m"]; simp add: assms [unfolded Response_good_def] Response_lookup plain_keys)) (simp add: shadows_def)

lemma Response_round:
  assumes "Response_good m" "\<not> to_defaults opts"
  shows "\<exists>ps. Response_toObject (Response_obj m) (Some opts) = ok (plain ps) \<and>
    Response_fromObject (plain ps) = ok (Response_obj m)"
proof -
  obtain ps where ps: "Response_toObject (Response_obj m) (Some opts) = ok (plain ps)"
    and fields: "lookup ps ''error'' = map_option (ErrorResponse_plain.sub.out opts) (Response_error m) \<and>
    lookup ps ''search'' = map_option (SearchResponse_plain.sub.out opts) (Response_search m) \<and>
    lookup ps ''listTags'' = map_option (ListTagsResponse_plain.sub.out opts) (Response_listTags m) \<and>
    lookup ps ''hydrateTags'' = map_option (HydrateTagsResponse_plain.sub.out opts) (Response_hydrateTags m) \<and>
    lookup ps ''related'' = map_option (RelatedResponse_plain.sub.out opts) (Response_related m) \<and>
    lookup ps ''globSearch'' = map_option (GlobSearchResponse_plain.sub.out opts) (Response_globSearch m) \<and>
    lookup ps ''tag'' = map_option (TagResponse_plain.sub.out opts) (Response_tag m) \<and>
    lookup ps ''metadata'' = map_option (MetadataResponse_plain.sub.out opts) (Response_metadata m) \<and>
    lookup ps ''status'' = map_option (StatusResponse_plain.sub.out opts) (Response_status m) \<and>
    lookup ps ''reloadRules'' = map_option (ReloadRulesResponse_plain.sub.out opts) (Response_reloadRules m) \<and>
    lookup ps ''listDirectory'' = map_option (ListDirectoryResponse_plain.sub.out opts) (Response_listDirectory m) \<and>
    lookup ps ''statFile'' = map_option (StatFileResponse_plain.sub.out opts) (Response_statFile m) \<and>
    lookup ps ''renameFile'' = map_option (RenameFileResponse_plain.sub.out opts) (Response_renameFile m) \<and>
    lookup ps ''deleteFile'' = map_option (DeleteFileResponse_plain.sub.out opts) (Response_deleteFile m) \<and>
    lookup ps ''chmodFile'' = map_option (ChmodFileResponse_plain.sub.out opts) (Response_chmodFile m) \<and>
    lookup ps ''copy'' = map_option (CopyResponse_plain.sub.out opts) (Response_copy m) \<and>
    lookup ps ''paste'' = map_option (PasteResponse_plain.sub.out opts) (Response_paste m) \<and>
    lookup ps ''createFile'' = map_option (CreateFileResponse_plain.sub.out opts) (Response_createFile m) \<and>
    lookup ps ''createDirectory'' = map_option (CreateDirectoryResponse_plain.sub.out opts) (Response_createDirectory m) \<and>
    lookup ps ''listPlaces'' = map_option (ListPlacesResponse_plain.sub.out opts) (Response_listPlaces m) \<and>
    lookup ps ''pinPlace'' = map_option (PinPlaceResponse_plain.sub.out opts) (Response_pinPlace m) \<and>
    lookup ps ''unpinPlace'' = map_option (UnpinPlaceResponse_plain.sub.out opts) (Response_unpinPlace m) \<and>
    lookup ps ''trashFile'' = map_option (TrashFileResponse_plain.sub.out opts) (Response_trashFile m) \<and>
    lookup ps ''listTrash'' = map_option (ListTrashResponse_plain.sub.out opts) (Response_listTrash m) \<and>
    lookup ps ''restoreTrash'' = map_option (RestoreTrashResponse_plain.sub.out opts) (Response_restoreTrash m) \<and>
    lookup ps ''emptyTrash'' = map_option (EmptyTrashResponse_plain.sub.out opts) (Response_emptyTrash m) \<and>
    lookup ps ''listAppsForFile'' = map_option (ListAppsForFileResponse_plain.sub.out opts) (Response_listAppsForFile m) \<and>
    lookup ps ''openWithApp'' = map_option (OpenWithAppResponse_plain.sub.out opts) (Response_openWithApp m) \<and>
    lookup ps ''getBrowserConfig'' = map_option (GetBrowserConfigResponse_plain.sub.out opts) (Response_getBrowserConfig m) \<and>
    lookup ps ''launchGui'' = map_option (LaunchGUIResponse_plain.sub.out opts) (Response_launchGui m) \<and>
    lookup ps ''getThumbnail'' = map_option (GetThumbnailResponse_plain.sub.out opts) (Response_getThumbnail m) \<and>
    lookup ps ''listMounts'' = map_option (ListMountsResponse_plain.sub.out opts) (Response_listMounts m) \<and>
    lookup ps ''getFileBadges'' = map_option (GetFileBadgesResponse_plain.sub.out opts) (Response_getFileBadges m) \<and>
    lookup ps ''getFileActions'' = map_option (GetFileActionsResponse_plain.sub.out opts) (Response_getFileActions m) \<and>
    lookup ps ''runFileAction'' = map_option (RunFileActionResponse_plain.sub.out opts) (Response_runFileAction m) \<and>
    lookup ps ''pinSearch'' = map_option (PinSearchResponse_plain.sub.out opts) (Response_pinSearch m) \<and>
    lookup ps ''unpinSearch'' = map_option (UnpinSearchResponse_plain.sub.out opts) (Response_unpinSearch m) \<and>
    lookup ps ''listSavedSearches'' = map_option (ListSavedSearchesResponse_plain.sub.out opts) (Response_listSavedSearches m) \<and>
    lookup ps ''shutdown'' = map_option (ShutdownResponse_plain.sub.out opts) (Response_shutdown m) \<and>
    lookup ps ''reindexFile'' = map_option (ReindexFileResponse_plain.sub.out opts) (Response_reindexFile m) \<and>
    \<not> shadows ps"
    using Response_plain_fields [OF assms] by blast
  have "build (Response_setters) (plain ps) [] = ok (Response_props m)"
    unfolding Response_setters_def
    by (rule appends_build,
      rule ErrorResponse_plain.sub.appends_opt [where x = "Response_error m" and opts = opts],
      rule SearchResponse_plain.sub.appends_opt [where x = "Response_search m" and opts = opts],
      rule ListTagsResponse_plain.sub.appends_opt [where x = "Response_listTags m" and opts = opts],
      rule HydrateTagsResponse_plain.sub.appends_opt [where x = "Response_hydrateTags m" and opts = opts],
      rule RelatedResponse_plain.sub.appends_opt [where x = "Response_related m" and opts = opts],
      rule GlobSearchResponse_plain.sub.appends_opt [where x = "Response_globSearch m" and opts = opts],
      rule TagResponse_plain.sub.appends_opt [where x = "Response_tag m" and opts = opts],
      rule MetadataResponse_plain.sub.appends_opt [where x = "Response_metadata m" and opts = opts],
      rule StatusResponse_plain.sub.appends_opt [where x = "Response_status m" and opts = opts],
      rule ReloadRulesResponse_plain.sub.appends_opt [where x = "Response_reloadRules m" and opts = opts],
      rule ListDirectoryResponse_plain.sub.appends_opt [where x = "Response_listDirectory m" and opts = opts],
      rule StatFileResponse_plain.sub.appends_opt [where x = "Response_statFile m" and opts = opts],
      rule RenameFileResponse_plain.sub.appends_opt [where x = "Response_renameFile m" and opts = opts],
      rule DeleteFileResponse_plain.sub.appends_opt [where x = "Response_deleteFile m" and opts = opts],
      rule ChmodFileResponse_plain.sub.appends_opt [where x = "Response_chmodFile m" and opts = opts],
      rule CopyResponse_plain.sub.appends_opt [where x = "Response_copy m" and opts = opts],
      rule PasteResponse_plain.sub.appends_opt [where x = "Response_paste m" and opts = opts],
      rule CreateFileResponse_plain.sub.appends_opt [where x = "Response_createFile m" and opts = opts],
      rule CreateDirectoryResponse_plain.sub.appends_opt [where x = "Response_createDirectory m" and opts = opts],
      rule ListPlacesResponse_plain.sub.appends_opt [where x = "Response_listPlaces m" and opts = opts],
      rule PinPlaceResponse_plain.sub.appends_opt [where x = "Response_pinPlace m" and opts = opts],
      rule UnpinPlaceResponse_plain.sub.appends_opt [where x = "Response_unpinPlace m" and opts = opts],
      rule TrashFileResponse_plain.sub.appends_opt [where x = "Response_trashFile m" and opts = opts],
      rule ListTrashResponse_plain.sub.appends_opt [where x = "Response_listTrash m" and opts = opts],
      rule RestoreTrashResponse_plain.sub.appends_opt [where x = "Response_restoreTrash m" and opts = opts],
      rule EmptyTrashResponse_plain.sub.appends_opt [where x = "Response_emptyTrash m" and opts = opts],
      rule ListAppsForFileResponse_plain.sub.appends_opt [where x = "Response_listAppsForFile m" and opts = opts],
      rule OpenWithAppResponse_plain.sub.appends_opt [where x = "Response_openWithApp m" and opts = opts],
      rule GetBrowserConfigResponse_plain.sub.appends_opt [where x = "Response_getBrowserConfig m" and opts = opts],
      rule LaunchGUIResponse_plain.sub.appends_opt [where x = "Response_launchGui m" and opts = opts],
      rule GetThumbnailResponse_plain.sub.appends_opt [where x = "Response_getThumbnail m" and opts = opts],
      rule ListMountsResponse_plain.sub.appends_opt [where x = "Response_listMounts m" and opts = opts],
      rule GetFileBadgesResponse_plain.sub.appends_opt [where x = "Response_getFileBadges m" and opts = opts],
      rule GetFileActionsResponse_plain.sub.appends_opt [where x = "Response_getFileActions m" and opts = opts],
      rule RunFileActionResponse_plain.sub.appends_opt [where x = "Response_runFileAction m" and opts = opts],
      rule PinSearchResponse_plain.sub.appends_opt [where x = "Response_pinSearch m" and opts = opts],
      rule UnpinSearchResponse_plain.sub.appends_opt [where x = "Response_unpinSearch m" and opts = opts],
      rule ListSavedSearchesResponse_plain.sub.appends_opt [where x = "Response_listSavedSearches m" and opts = opts],
      rule ShutdownResponse_plain.sub.appends_opt [where x = "Response_shutdown m" and opts = opts],
      rule ReindexFileResponse_plain.sub.appends_opt [where x = "Response_reindexFile m" and opts = opts],
      rule appends_Nil,
      simp_all add: fields assms(1) [unfolded Response_good_def] assms(2) plain_keys)
      (simp add: Response_props_def)
  then show ?thesis using ps by (auto simp: Response_fromObject_def from_object_def Response_obj_def)
qed

lemma Response_guarded: "Response_verify v = ok None \<Longrightarrow> all_plain v \<Longrightarrow> \<exists>m. Response_fromObject v = ok m"
  unfolding Response_verify_def Response_checks_def Response_fromObject_def Response_setters_def
  by (rule guards_object, rule guards_Cons, rule guards_Cons, rule guards_Cons, rule guards_Cons, rule
      guards_Cons, rule guards_Cons, rule guards_Cons, rule guards_Cons, rule guards_Cons,
      rule guards_Cons, rule guards_Cons, rule guards_Cons, rule guards_Cons, rule
      guards_Cons, rule guards_Cons, rule guards_Cons, rule guards_Cons, rule guards_Cons,
      rule guards_Cons, rule guards_Cons, rule guards_Cons, rule guards_Cons, rule
      guards_Cons, rule guards_Cons, rule guards_Cons, rule guards_Cons, rule guards_Cons,
      rule guards_Cons, rule guards_Cons, rule guards_Cons, rule guards_Cons, rule
      guards_Cons, rule guards_Cons, rule guards_Cons, rule guards_Cons, rule guards_Cons,
      rule guards_Cons, rule guards_Cons, rule guards_Cons, rule guards_Cons, rule
      guards_Nil,
      (rule ReindexFileResponse_plain.sub.guard_opt(2), simp),
      (rule ShutdownResponse_plain.sub.guard_opt(2), simp),
      (rule ListSavedSearchesResponse_plain.sub.guard_opt(2), simp),
      (rule UnpinSearchResponse_plain.sub.guard_opt(2), simp),
      (rule PinSearchResponse_plain.sub.guard_opt(2), simp),
      (rule RunFileActionResponse_plain.sub.guard_opt(2), simp),
      (rule GetFileActionsResponse_plain.sub.guard_opt(2), simp),
      (rule GetFileBadgesResponse_plain.sub.guard_opt(2), simp),
      (rule ListMountsResponse_plain.sub.guard_opt(2), simp),
      (rule GetThumbnailResponse_plain.sub.guard_opt(2), simp),
      (rule LaunchGUIResponse_plain.sub.guard_opt(2), simp),
      (rule GetBrowserConfigResponse_plain.sub.guard_opt(2), simp),
      (rule OpenWithAppResponse_plain.sub.guard_opt(2), simp),
      (rule ListAppsForFileResponse_plain.sub.guard_opt(2), simp),
      (rule EmptyTrashResponse_plain.sub.guard_opt(2), simp),
      (rule RestoreTrashResponse_plain.sub.guard_opt(2), simp),
      (rule ListTrashResponse_plain.sub.guard_opt(2), simp),
      (rule TrashFileResponse_plain.sub.guard_opt(2), simp),
      (rule UnpinPlaceResponse_plain.sub.guard_opt(2), simp),
      (rule PinPlaceResponse_plain.sub.guard_opt(2), simp),
      (rule ListPlacesResponse_plain.sub.guard_opt(2), simp),
      (rule CreateDirectoryResponse_plain.sub.guard_opt(2), simp),
      (rule CreateFileResponse_plain.sub.guard_opt(2), simp),
      (rule PasteResponse_plain.sub.guard_opt(2), simp),
      (rule CopyResponse_plain.sub.guard_opt(2), simp),
      (rule ChmodFileResponse_plain.sub.guard_opt(2), simp),
      (rule DeleteFileResponse_plain.sub.guard_opt(2), simp),
      (rule RenameFileResponse_plain.sub.guard_opt(2), simp),
      (rule StatFileResponse_plain.sub.guard_opt(2), simp),
      (rule ListDirectoryResponse_plain.sub.guard_opt(2), simp),
      (rule ReloadRulesResponse_plain.sub.guard_opt(2), simp),
      (rule StatusResponse_plain.sub.guard_opt(2), simp),
      (rule MetadataResponse_plain.sub.guard_opt(2), simp),
      (rule TagResponse_plain.sub.guard_opt(2), simp),
      (rule GlobSearchResponse_plain.sub.guard_opt(2), simp),
      (rule RelatedResponse_plain.sub.guard_opt(2), simp),
      (rule HydrateTagsResponse_plain.sub.guard_opt(2), simp),
      (rule ListTagsResponse_plain.sub.guard_opt(2), simp),
      (rule SearchResponse_plain.sub.guard_opt(2), simp),
      (rule ErrorResponse_plain.sub.guard_opt(2), simp),
      assumption, assumption) simp

interpretation Response_plain: message_plain Response_obj Response_verify Response_fromObject Response_toObject Response_good
  by unfold_locales
    (use Response_accepts Response_round Response_guarded in \<open>auto simp: Response_obj_def Response_verify_def dest: verified_object\<close>)

subsection \<open>Event\<close>

definition Event_oneof :: oneof where
  "Event_oneof =
     Some (''kind'', [''fileTagged'', ''indexUpdated'', ''daemonStateChanged'',
      ''showWindow''])"

definition Event_construct :: "js \<Rightarrow> js res" where
  "Event_construct = construct ''Event'' [] Event_oneof"

definition Event_create :: "js \<Rightarrow> js res" where
  "Event_create properties = Event_construct properties"

definition Event_checks :: "check list" where
  "Event_checks =
     [v_member ''kind'' ''fileTagged'' (v_message FileTaggedEvent_verify),
      v_member ''kind'' ''indexUpdated'' (v_message IndexUpdatedEvent_verify),
      v_member ''kind'' ''daemonStateChanged'' (v_message DaemonStateChangedEvent_verify),
      v_member ''kind'' ''showWindow'' (v_message ShowWindowEvent_verify)]"

definition Event_verify :: "js \<Rightarrow> string option res" where
  "Event_verify = verify_with Event_checks"

definition Event_setters :: "setter list" where
  "Event_setters =
     [f_field ''fileTagged'' (c_message ''Event'' ''fileTagged'' FileTaggedEvent_fromObject),
      f_field ''indexUpdated'' (c_message ''Event'' ''indexUpdated'' IndexUpdatedEvent_fromObject),
      f_field ''daemonStateChanged'' (c_message ''Event'' ''daemonStateChanged'' DaemonStateChangedEvent_fromObject),
      f_field ''showWindow'' (c_message ''Event'' ''showWindow'' ShowWindowEvent_fromObject)]"

definition Event_fromObject :: "js \<Rightarrow> js res" where
  "Event_fromObject = from_object ''Event'' [] Event_setters"

definition Event_writers :: "writer list" where
  "Event_writers =
     [t_member ''kind'' ''fileTagged'' (t_message FileTaggedEvent_toObject),
      t_member ''kind'' ''indexUpdated'' (t_message IndexUpdatedEvent_toObject),
      t_member ''kind'' ''daemonStateChanged'' (t_message DaemonStateChangedEvent_toObject),
      t_member ''kind'' ''showWindow'' (t_message ShowWindowEvent_toObject)]"

definition Event_toObject :: "js \<Rightarrow> to_options option \<Rightarrow> js res" where
  "Event_toObject = to_object Event_writers"

definition Event_toJSON :: "js \<Rightarrow> js res" where
  "Event_toJSON message = Event_toObject message (Some toJSONOptions)"

definition Event_getTypeUrl :: "jstring option \<Rightarrow> jstring" where
  "Event_getTypeUrl = type_url ''Event''"

definition Event_props :: "Event \<Rightarrow> props" where
  "Event_props m =
     opt_prop ''fileTagged'' FileTaggedEvent_obj (Event_fileTagged m) @
     opt_prop ''indexUpdated'' IndexUpdatedEvent_obj (Event_indexUpdated m) @
     opt_prop ''daemonStateChanged'' DaemonStateChangedEvent_obj (Event_daemonStateChanged m) @
     opt_prop ''showWindow'' ShowWindowEvent_obj (Event_showWindow m)"

definition Event_obj :: "Event \<Rightarrow> js" where
  "Event_obj m = Object ''Event'' (Event_props m)"

definition Event_good :: "Event \<Rightarrow> bool" where
  "Event_good m \<longleftrightarrow> opt_all FileTaggedEvent_good (Event_fileTagged m) \<and>
     opt_all IndexUpdatedEvent_good (Event_indexUpdated m) \<and>
     opt_all DaemonStateChangedEvent_good (Event_daemonStateChanged m) \<and>
     opt_all ShowWindowEvent_good (Event_showWindow m) \<and>
     at_most_one False
       [Event_fileTagged m \<noteq> None,
        Event_indexUpdated m \<noteq> None,
        Event_daemonStateChanged m \<noteq> None,
        Event_showWindow m \<noteq> None]"

lemma Event_lookup:
  "lookup (Event_props m) ''fileTagged'' = map_option FileTaggedEvent_obj (Event_fileTagged m)"
  "lookup (Event_props m) ''indexUpdated'' = map_option IndexUpdatedEvent_obj (Event_indexUpdated m)"
  "lookup (Event_props m) ''daemonStateChanged'' = map_option DaemonStateChangedEvent_obj (Event_daemonStateChanged m)"
  "lookup (Event_props m) ''showWindow'' = map_option ShowWindowEvent_obj (Event_showWindow m)"
  "\<not> shadows (Event_props m)"
  by (simp_all add: Event_props_def shadows_def)

lemma Event_accepts:
  assumes "Event_good m"
  shows "Event_verify (Event_obj m) = ok None"
  unfolding Event_verify_def Event_checks_def Event_obj_def
  by (rule runs_verify [where members = "[Event_fileTagged m \<noteq> None, Event_indexUpdated m \<noteq> None, Event_daemonStateChanged m \<noteq> None, Event_showWindow m \<noteq> None]"],
      rule FileTaggedEvent_plain.sub.runs_member [where x = "Event_fileTagged m"],
      rule IndexUpdatedEvent_plain.sub.runs_member [where x = "Event_indexUpdated m"],
      rule DaemonStateChangedEvent_plain.sub.runs_member [where x = "Event_daemonStateChanged m"],
      rule ShowWindowEvent_plain.sub.runs_member [where x = "Event_showWindow m"],
      rule runs_Nil)
    (simp_all del: at_most_one.simps not_None_eq add: Event_lookup assms [unfolded Event_good_def] )

lemma Event_plain_fields:
  assumes "Event_good m" "\<not> to_defaults opts"
  shows "\<exists>ps. Event_toObject (Event_obj m) (Some opts) = ok (plain ps) \<and>
    lookup ps ''fileTagged'' = map_option (FileTaggedEvent_plain.sub.out opts) (Event_fileTagged m) \<and>
    lookup ps ''indexUpdated'' = map_option (IndexUpdatedEvent_plain.sub.out opts) (Event_indexUpdated m) \<and>
    lookup ps ''daemonStateChanged'' = map_option (DaemonStateChangedEvent_plain.sub.out opts) (Event_daemonStateChanged m) \<and>
    lookup ps ''showWindow'' = map_option (ShowWindowEvent_plain.sub.out opts) (Event_showWindow m) \<and>
    \<not> shadows ps"
  unfolding Event_toObject_def Event_writers_def Event_obj_def
  by (rule plain_fields,
      rule all_yield_Cons, rule all_yield_Cons, rule all_yield_Cons, rule all_yield_Cons,
      rule all_yield_Nil,
      (rule ShowWindowEvent_plain.sub.yields_member [where x = "Event_showWindow m"]; simp add: assms [unfolded Event_good_def] Event_lookup plain_keys),
      (rule DaemonStateChangedEvent_plain.sub.yields_member [where x = "Event_daemonStateChanged m"]; simp add: assms [unfolded Event_good_def] Event_lookup plain_keys),
      (rule IndexUpdatedEvent_plain.sub.yields_member [where x = "Event_indexUpdated m"]; simp add: assms [unfolded Event_good_def] Event_lookup plain_keys),
      (rule FileTaggedEvent_plain.sub.yields_member [where x = "Event_fileTagged m"]; simp add: assms [unfolded Event_good_def] Event_lookup plain_keys)) (simp add: shadows_def)

lemma Event_round:
  assumes "Event_good m" "\<not> to_defaults opts"
  shows "\<exists>ps. Event_toObject (Event_obj m) (Some opts) = ok (plain ps) \<and>
    Event_fromObject (plain ps) = ok (Event_obj m)"
proof -
  obtain ps where ps: "Event_toObject (Event_obj m) (Some opts) = ok (plain ps)"
    and fields: "lookup ps ''fileTagged'' = map_option (FileTaggedEvent_plain.sub.out opts) (Event_fileTagged m) \<and>
    lookup ps ''indexUpdated'' = map_option (IndexUpdatedEvent_plain.sub.out opts) (Event_indexUpdated m) \<and>
    lookup ps ''daemonStateChanged'' = map_option (DaemonStateChangedEvent_plain.sub.out opts) (Event_daemonStateChanged m) \<and>
    lookup ps ''showWindow'' = map_option (ShowWindowEvent_plain.sub.out opts) (Event_showWindow m) \<and>
    \<not> shadows ps"
    using Event_plain_fields [OF assms] by blast
  have "build (Event_setters) (plain ps) [] = ok (Event_props m)"
    unfolding Event_setters_def
    by (rule appends_build,
      rule FileTaggedEvent_plain.sub.appends_opt [where x = "Event_fileTagged m" and opts = opts],
      rule IndexUpdatedEvent_plain.sub.appends_opt [where x = "Event_indexUpdated m" and opts = opts],
      rule DaemonStateChangedEvent_plain.sub.appends_opt [where x = "Event_daemonStateChanged m" and opts = opts],
      rule ShowWindowEvent_plain.sub.appends_opt [where x = "Event_showWindow m" and opts = opts],
      rule appends_Nil,
      simp_all add: fields assms(1) [unfolded Event_good_def] assms(2) plain_keys)
      (simp add: Event_props_def)
  then show ?thesis using ps by (auto simp: Event_fromObject_def from_object_def Event_obj_def)
qed

lemma Event_guarded: "Event_verify v = ok None \<Longrightarrow> all_plain v \<Longrightarrow> \<exists>m. Event_fromObject v = ok m"
  unfolding Event_verify_def Event_checks_def Event_fromObject_def Event_setters_def
  by (rule guards_object, rule guards_Cons, rule guards_Cons, rule guards_Cons, rule guards_Cons, rule
      guards_Nil,
      (rule ShowWindowEvent_plain.sub.guard_opt(2), simp),
      (rule DaemonStateChangedEvent_plain.sub.guard_opt(2), simp),
      (rule IndexUpdatedEvent_plain.sub.guard_opt(2), simp),
      (rule FileTaggedEvent_plain.sub.guard_opt(2), simp),
      assumption, assumption) simp

interpretation Event_plain: message_plain Event_obj Event_verify Event_fromObject Event_toObject Event_good
  by unfold_locales
    (use Event_accepts Event_round Event_guarded in \<open>auto simp: Event_obj_def Event_verify_def dest: verified_object\<close>)

subsection \<open>Envelope\<close>

definition Envelope_oneof :: oneof where
  "Envelope_oneof =
     Some (''payload'', [''request'', ''response'', ''event''])"

definition Envelope_construct :: "js \<Rightarrow> js res" where
  "Envelope_construct = construct ''Envelope'' [] Envelope_oneof"

definition Envelope_create :: "js \<Rightarrow> js res" where
  "Envelope_create properties = Envelope_construct properties"

definition Envelope_checks :: "check list" where
  "Envelope_checks =
     [v_field ''requestId'' v_long,
      v_member ''payload'' ''request'' (v_message Request_verify),
      v_member ''payload'' ''response'' (v_message Response_verify),
      v_member ''payload'' ''event'' (v_message Event_verify)]"

definition Envelope_verify :: "js \<Rightarrow> string option res" where
  "Envelope_verify = verify_with Envelope_checks"

definition Envelope_setters :: "setter list" where
  "Envelope_setters =
     [f_opt ''requestId'' (c_long True),
      f_field ''request'' (c_message ''Envelope'' ''request'' Request_fromObject),
      f_field ''response'' (c_message ''Envelope'' ''response'' Response_fromObject),
      f_field ''event'' (c_message ''Envelope'' ''event'' Event_fromObject)]"

definition Envelope_fromObject :: "js \<Rightarrow> js res" where
  "Envelope_fromObject = from_object ''Envelope'' [] Envelope_setters"

definition Envelope_writers :: "writer list" where
  "Envelope_writers =
     [d_long ''requestId'',
      t_field ''requestId'' (t_long True),
      t_member ''payload'' ''request'' (t_message Request_toObject),
      t_member ''payload'' ''response'' (t_message Response_toObject),
      t_member ''payload'' ''event'' (t_message Event_toObject)]"

definition Envelope_toObject :: "js \<Rightarrow> to_options option \<Rightarrow> js res" where
  "Envelope_toObject = to_object Envelope_writers"

definition Envelope_toJSON :: "js \<Rightarrow> js res" where
  "Envelope_toJSON message = Envelope_toObject message (Some toJSONOptions)"

definition Envelope_getTypeUrl :: "jstring option \<Rightarrow> jstring" where
  "Envelope_getTypeUrl = type_url ''Envelope''"

definition Envelope_props :: "Envelope \<Rightarrow> props" where
  "Envelope_props m =
     opt_prop ''requestId'' int_js (Envelope_requestId m) @
     opt_prop ''request'' Request_obj (Envelope_request m) @
     opt_prop ''response'' Response_obj (Envelope_response m) @
     opt_prop ''event'' Event_obj (Envelope_event m)"

definition Envelope_obj :: "Envelope \<Rightarrow> js" where
  "Envelope_obj m = Object ''Envelope'' (Envelope_props m)"

definition Envelope_good :: "Envelope \<Rightarrow> bool" where
  "Envelope_good m \<longleftrightarrow> opt_all uint64_ok (Envelope_requestId m) \<and>
     opt_all Request_good (Envelope_request m) \<and>
     opt_all Response_good (Envelope_response m) \<and>
     opt_all Event_good (Envelope_event m) \<and>
     at_most_one False
       [Envelope_request m \<noteq> None,
        Envelope_response m \<noteq> None,
        Envelope_event m \<noteq> None]"

lemma Envelope_lookup:
  "lookup (Envelope_props m) ''requestId'' = map_option int_js (Envelope_requestId m)"
  "lookup (Envelope_props m) ''request'' = map_option Request_obj (Envelope_request m)"
  "lookup (Envelope_props m) ''response'' = map_option Response_obj (Envelope_response m)"
  "lookup (Envelope_props m) ''event'' = map_option Event_obj (Envelope_event m)"
  "\<not> shadows (Envelope_props m)"
  by (simp_all add: Envelope_props_def shadows_def)

lemma Envelope_accepts:
  assumes "Envelope_good m"
  shows "Envelope_verify (Envelope_obj m) = ok None"
  unfolding Envelope_verify_def Envelope_checks_def Envelope_obj_def
  by (rule runs_verify [where members = "[Envelope_request m \<noteq> None, Envelope_response m \<noteq> None, Envelope_event m \<noteq> None]"],
      rule uint64_plain.runs_opt [where x = "Envelope_requestId m"],
      rule Request_plain.sub.runs_member [where x = "Envelope_request m"],
      rule Response_plain.sub.runs_member [where x = "Envelope_response m"],
      rule Event_plain.sub.runs_member [where x = "Envelope_event m"],
      rule runs_Nil)
    (simp_all del: at_most_one.simps not_None_eq add: Envelope_lookup assms [unfolded Envelope_good_def] )

lemma Envelope_plain_fields:
  assumes "Envelope_good m" "\<not> to_defaults opts"
  shows "\<exists>ps. Envelope_toObject (Envelope_obj m) (Some opts) = ok (plain ps) \<and>
    lookup ps ''requestId'' = map_option (uint64_plain.out opts) (Envelope_requestId m) \<and>
    lookup ps ''request'' = map_option (Request_plain.sub.out opts) (Envelope_request m) \<and>
    lookup ps ''response'' = map_option (Response_plain.sub.out opts) (Envelope_response m) \<and>
    lookup ps ''event'' = map_option (Event_plain.sub.out opts) (Envelope_event m) \<and>
    \<not> shadows ps"
  unfolding Envelope_toObject_def Envelope_writers_def Envelope_obj_def
  by (rule plain_fields,
      rule all_yield_Cons, rule all_yield_Cons, rule all_yield_Cons, rule all_yield_Cons,
      rule all_yield_Cons, rule all_yield_Nil,
      (rule Event_plain.sub.yields_member [where x = "Envelope_event m"]; simp add: assms [unfolded Envelope_good_def] Envelope_lookup plain_keys),
      (rule Response_plain.sub.yields_member [where x = "Envelope_response m"]; simp add: assms [unfolded Envelope_good_def] Envelope_lookup plain_keys),
      (rule Request_plain.sub.yields_member [where x = "Envelope_request m"]; simp add: assms [unfolded Envelope_good_def] Envelope_lookup plain_keys),
      (rule uint64_plain.yields_opt [where x = "Envelope_requestId m"]; simp add: assms [unfolded Envelope_good_def] Envelope_lookup plain_keys),
      (rule yields_default(2); simp add: assms [unfolded Envelope_good_def] Envelope_lookup plain_keys)) (simp add: shadows_def)

lemma Envelope_round:
  assumes "Envelope_good m" "\<not> to_defaults opts"
  shows "\<exists>ps. Envelope_toObject (Envelope_obj m) (Some opts) = ok (plain ps) \<and>
    Envelope_fromObject (plain ps) = ok (Envelope_obj m)"
proof -
  obtain ps where ps: "Envelope_toObject (Envelope_obj m) (Some opts) = ok (plain ps)"
    and fields: "lookup ps ''requestId'' = map_option (uint64_plain.out opts) (Envelope_requestId m) \<and>
    lookup ps ''request'' = map_option (Request_plain.sub.out opts) (Envelope_request m) \<and>
    lookup ps ''response'' = map_option (Response_plain.sub.out opts) (Envelope_response m) \<and>
    lookup ps ''event'' = map_option (Event_plain.sub.out opts) (Envelope_event m) \<and>
    \<not> shadows ps"
    using Envelope_plain_fields [OF assms] by blast
  have "build (Envelope_setters) (plain ps) [] = ok (Envelope_props m)"
    unfolding Envelope_setters_def
    by (rule appends_build,
      rule uint64_plain.appends_opt [where x = "Envelope_requestId m" and opts = opts],
      rule Request_plain.sub.appends_opt [where x = "Envelope_request m" and opts = opts],
      rule Response_plain.sub.appends_opt [where x = "Envelope_response m" and opts = opts],
      rule Event_plain.sub.appends_opt [where x = "Envelope_event m" and opts = opts],
      rule appends_Nil,
      simp_all add: fields assms(1) [unfolded Envelope_good_def] assms(2) plain_keys)
      (simp add: Envelope_props_def)
  then show ?thesis using ps by (auto simp: Envelope_fromObject_def from_object_def Envelope_obj_def)
qed

lemma Envelope_guarded: "Envelope_verify v = ok None \<Longrightarrow> all_plain v \<Longrightarrow> \<exists>m. Envelope_fromObject v = ok m"
  unfolding Envelope_verify_def Envelope_checks_def Envelope_fromObject_def Envelope_setters_def
  by (rule guards_object, rule guards_Cons, rule guards_Cons, rule guards_Cons, rule guards_Cons, rule
      guards_Nil,
      (rule Event_plain.sub.guard_opt(2), simp),
      (rule Response_plain.sub.guard_opt(2), simp),
      (rule Request_plain.sub.guard_opt(2), simp),
      (rule uint64_plain.guard_opt(1), simp),
      assumption, assumption) simp

interpretation Envelope_plain: message_plain Envelope_obj Envelope_verify Envelope_fromObject Envelope_toObject Envelope_good
  by unfold_locales
    (use Envelope_accepts Envelope_round Envelope_guarded in \<open>auto simp: Envelope_obj_def Envelope_verify_def dest: verified_object\<close>)

end
