(* ===== verification/Base64.thy ===== *)
theory Base64
  imports Complex_Main Writer
begin

text \<open>
  Base64, \<open>@protobufjs/base64\<close>: \<open>Writer.bytes\<close> takes a string as the base64 text of the bytes.
  \<open>encode\<close> collects its characters in chunks of 8192 like \<open>utf8.read\<close>; \<open>decode\<close> stores
  into a typed array. The reference is \<open>base64_text\<close>, which writes every three bytes as a number of four
  digits to the base 64, and \<open>sextet_bytes\<close>, which reads it back.
\<close>

section \<open>The alphabet\<close>

definition b64 :: "u16 list" where
  "b64 = map (\<lambda>i. if i < 26 then of_nat (i + 65) else if i < 52 then of_nat (i + 71)
     else if i < 62 then of_nat (i - 4) else of_nat (i - 59) OR 43) [0..<64]"

definition s64 :: "u16 \<Rightarrow> u32 option" where
  "s64 = foldl (\<lambda>s i. s(b64 ! i \<mapsto> of_nat i)) Map.empty [0..<64]"

section \<open>Encoding\<close>

record encode_state =
  es_start :: nat
  es_chunk :: jstring
  es_i :: nat
  es_j :: nat
  es_t :: u32
  es_parts :: "jstring list option"

text \<open>\<open>chunk[i2++] = c\<close>\<close>

definition es_put :: "u16 \<Rightarrow> encode_state \<Rightarrow> encode_state" where
  "es_put c s = s\<lparr>es_chunk := arr_set (es_chunk s) (es_i s) c, es_i := es_i s + 1\<rparr>"

definition base64_encode_one :: "u8 list \<Rightarrow> encode_state \<Rightarrow> encode_state" where
  "base64_encode_one buf s =
     (let b = byte_at buf (es_start s); s = s\<lparr>es_start := es_start s + 1\<rparr>; t = es_t s
      in if es_j s = 0 then
           (es_put (b64 ! unat (drop_bit 2 b)) s)\<lparr>es_t := push_bit 4 (b AND 3), es_j := 1\<rparr>
         else if es_j s = 1 then
           (es_put (b64 ! unat (t OR drop_bit 4 b)) s)\<lparr>es_t := push_bit 2 (b AND 15), es_j := 2\<rparr>
         else if es_j s = 2 then
           (es_put (b64 ! unat (b AND 63)) (es_put (b64 ! unat (t OR drop_bit 6 b)) s))\<lparr>es_j := 0\<rparr>
         else s)"

definition base64_flush :: "encode_state \<Rightarrow> encode_state" where
  "base64_flush s =
     (if es_i s > 8191
      then s\<lparr>es_parts := Some ((case es_parts s of None \<Rightarrow> [] | Some ps \<Rightarrow> ps) @ [es_chunk s]), es_i := 0\<rparr>
      else s)"

lemma es_start_one [simp]: "es_start (base64_flush (base64_encode_one buf s)) = Suc (es_start s)"
  by (simp add: base64_flush_def base64_encode_one_def es_put_def Let_def)

function base64_encode_loop :: "u8 list \<Rightarrow> nat \<Rightarrow> encode_state \<Rightarrow> encode_state" where
  "base64_encode_loop buf end s =
     (if es_start s < end then base64_encode_loop buf end (base64_flush (base64_encode_one buf s)) else s)"
  by pat_completeness auto
termination by (relation "measure (\<lambda>(buf, end, s). end - es_start s)") simp_all

declare base64_encode_loop.simps [simp del]

definition base64_pad :: "encode_state \<Rightarrow> encode_state" where
  "base64_pad s =
     (if es_j s \<noteq> 0 then
        let s = es_put 61 (es_put (b64 ! unat (es_t s)) s) in if es_j s = 1 then es_put 61 s else s
      else s)"

definition base64_encode :: "u8 list \<Rightarrow> nat \<Rightarrow> nat \<Rightarrow> jstring" where
  "base64_encode buf start end =
     (let s = base64_pad (base64_encode_loop buf end
        \<lparr>es_start = start, es_chunk = [], es_i = 0, es_j = 0, es_t = 0, es_parts = None\<rparr>)
      in case es_parts s of
           Some ps \<Rightarrow> concat (if es_i s \<noteq> 0 then ps @ [take (es_i s) (es_chunk s)] else ps)
         | None \<Rightarrow> take (es_i s) (es_chunk s))"

section \<open>Decoding\<close>

text \<open>
  The loop over the characters with \<open>offset\<close>, \<open>j\<close>, \<open>t\<close> and the typed array; stores outside
  of it are ignored. The result is the array and the number of bytes the text stands for.
\<close>

fun base64_decode_loop :: "jstring \<Rightarrow> u8 list \<Rightarrow> nat \<Rightarrow> nat \<Rightarrow> u32 \<Rightarrow> (u8 list \<times> nat \<times> nat) res" where
  "base64_decode_loop [] buf offset j t = ok (buf, offset, j)"
| "base64_decode_loop (c # cs) buf offset j t =
     (if c = 61 \<and> j > 1 then ok (buf, offset, j)
      else case s64 c of
        None \<Rightarrow> throw InvalidEncoding
      | Some c \<Rightarrow>
          if j = 0 then base64_decode_loop cs buf offset 1 c
          else if j = 1 then
            base64_decode_loop cs (buf[offset := ucast (push_bit 2 t OR drop_bit 4 (c AND 48))]) (offset + 1) 2 c
          else if j = 2 then
            base64_decode_loop cs (buf[offset := ucast (push_bit 4 (t AND 15) OR drop_bit 2 (c AND 60))]) (offset + 1) 3 c
          else if j = 3 then
            base64_decode_loop cs (buf[offset := ucast (push_bit 6 (t AND 3) OR c)]) (offset + 1) 0 t
          else base64_decode_loop cs buf offset j t)"

definition base64_decode :: "jstring \<Rightarrow> u8 list \<Rightarrow> nat \<Rightarrow> (u8 list \<times> nat) res" where
  "base64_decode s buf offset =
     bindr (base64_decode_loop s buf offset 0 0) (\<lambda>(buf, off, j).
       if j = 1 then throw InvalidEncoding else ok (buf, off - offset))"

section \<open>Length and test\<close>

text \<open>
  \<open>while (--p % 4 > 1 && string.charAt(p) === "=") ++n\<close>, by the value of \<open>p\<close> before the test; then
  \<open>Math.ceil(3 * length) / 4 - n\<close>, which need not be whole.
\<close>

fun pad_count :: "jstring \<Rightarrow> nat \<Rightarrow> nat" where
  "pad_count s 0 = 0"
| "pad_count s (Suc p) = (if p mod 4 > 1 \<and> s ! p = 61 then Suc (pad_count s p) else 0)"

definition base64_length :: "jstring \<Rightarrow> rat" where
  "base64_length s =
     (if length s = 0 then 0
      else of_int \<lceil>of_nat (length s * 3) :: rat\<rceil> / 4 - of_nat (pad_count s (length s)))"

text \<open>The pattern \<open>/^(?:[A-Za-z0-9+/]{4})*(?:[A-Za-z0-9+/]{2}==|[A-Za-z0-9+/]{3}=)?$/\<close>.\<close>

definition in_alphabet :: "u16 \<Rightarrow> bool" where
  "in_alphabet c \<longleftrightarrow> 65 \<le> c \<and> c \<le> 90 \<or> 97 \<le> c \<and> c \<le> 122 \<or> 48 \<le> c \<and> c \<le> 57 \<or> c = 43 \<or> c = 47"

fun base64_test :: "jstring \<Rightarrow> bool" where
  "base64_test [] \<longleftrightarrow> True"
| "base64_test (a # b # c # d # cs) \<longleftrightarrow>
     in_alphabet a \<and> in_alphabet b \<and>
     (in_alphabet c \<and> in_alphabet d \<and> base64_test cs \<or>
      cs = [] \<and> (c = 61 \<and> d = 61 \<or> in_alphabet c \<and> d = 61))"
| "base64_test _ \<longleftrightarrow> False"

section \<open>Bytes fields given as text\<close>

text \<open>
  \<open>Writer.bytes\<close> of a string. A length that is not whole would become a length of the writer; it is
  left out (\<open>None\<close>).
\<close>

definition w_bytes_string :: "jstring \<Rightarrow> Writer \<Rightarrow> Writer res" where
  "w_bytes_string s w =
     (if length s mod 2 ^ 32 = 0 then ok (w_push (WriteByte 0) 1 w)
      else if of_int \<lfloor>base64_length s\<rfloor> \<noteq> base64_length s then None
      else let len = nat \<lfloor>base64_length s\<rfloor>
        in bindr (base64_decode s (replicate len 0) 0) (\<lambda>(buf, _).
           ok (w_push (WriteBytes buf) len (w_uint32 (int len) w))))"

section \<open>Bits\<close>

lemma and_small [nat_bits]: "(word_of_nat n :: u32) AND 3 = word_of_nat (n mod 4)"
  using and_mask_nat [of n 2] by (simp add: mask_eq_exp_minus_1)

lemma push_bit_nat: "push_bit k (word_of_nat n :: u32) = word_of_nat (n * 2 ^ k)"
  by (simp add: push_bit_eq_mult)

lemma or_low:
  "a < 2 ^ k \<Longrightarrow> (word_of_nat (b * 2 ^ k) :: u32) OR word_of_nat a = word_of_nat (b * 2 ^ k + a)"
  using word_or_push [of a k b, where 'a = 32] by (simp only: push_bit_nat or.commute add.commute)

lemma sextet_high: "n < 64 \<Longrightarrow> drop_bit 4 ((word_of_nat n :: u32) AND 48) = word_of_nat (n div 16)"
  by (simp add: nat_bits)

lemma sextet_middle: "n < 64 \<Longrightarrow> drop_bit 2 ((word_of_nat n :: u32) AND 60) = word_of_nat (n div 4)"
  by (simp add: nat_bits)

lemma foldl_updates:
  "inj_on f (set xs) \<Longrightarrow> i \<in> set xs \<Longrightarrow> foldl (\<lambda>s i. s(f i \<mapsto> g i)) m xs (f i) = Some (g i)"
proof (induction xs rule: rev_induct)
  case (snoc x xs)
  then show ?case by (cases "x = i") (auto simp: inj_on_def)
qed simp

definition b64_code :: "nat \<Rightarrow> nat" where
  "b64_code i = (if i < 26 then i + 65 else if i < 52 then i + 71
     else if i < 62 then i - 4 else if i = 62 then 43 else 47)"

lemma b64_unat: "i < 64 \<Longrightarrow> unat (b64 ! i) = b64_code i"
proof -
  assume i: "i < 64"
  consider "i < 62" | "i = 62" | "i = 63" using i by linarith
  then show ?thesis
  proof cases
    case 1
    have "b64 ! i = of_nat (if i < 26 then i + 65 else if i < 52 then i + 71 else i - 4)"
      using 1 by (simp add: b64_def del: of_nat_add of_nat_diff)
    then show ?thesis using 1 by (simp add: b64_code_def unat_of_nat del: of_nat_add of_nat_diff)
  qed (simp_all add: b64_def b64_code_def)
qed

lemma b64_inj: "inj_on ((!) b64) {..<64}"
proof -
  have "distinct (map b64_code [0..<64])" by code_simp
  then have "inj_on b64_code {..<64}" by (simp add: distinct_map lessThan_atLeast0)
  then show ?thesis by (auto simp: inj_on_def simp flip: b64_unat)
qed

lemma s64_b64 [simp]: "i < 64 \<Longrightarrow> s64 (b64 ! i) = Some (of_nat i)"
  unfolding s64_def using b64_inj
  by (intro foldl_updates) (simp_all add: lessThan_atLeast0)

lemma b64_alphabet [simp]: "i < 64 \<Longrightarrow> in_alphabet (b64 ! i)"
proof -
  assume "i < 64"
  moreover have "list_all (\<lambda>i. let k = b64_code i in 65 \<le> k \<and> k \<le> 90 \<or> 97 \<le> k \<and> k \<le> 122 \<or>
      48 \<le> k \<and> k \<le> 57 \<or> k = 43 \<or> k = 47) [0..<64]" by code_simp
  ultimately show ?thesis
    by (simp add: list_all_iff Let_def in_alphabet_def word_le_nat_alt word_unat_eq_iff b64_unat)
qed

lemma b64_not_pad [simp]: "i < 64 \<Longrightarrow> b64 ! i \<noteq> 61"
  using b64_alphabet [of i] by (auto simp: in_alphabet_def)

section \<open>The encoder meets its specification\<close>

fun base64_text :: "u8 list \<Rightarrow> jstring" where
  "base64_text [] = []"
| "base64_text [x] = (let n = unat x * 65536 in [b64 ! (n div 262144), b64 ! (n div 4096 mod 64), 61, 61])"
| "base64_text [x, y] =
     (let n = unat x * 65536 + unat y * 256
      in [b64 ! (n div 262144), b64 ! (n div 4096 mod 64), b64 ! (n div 64 mod 64), 61])"
| "base64_text (x # y # z # bs) =
     (let n = unat x * 65536 + unat y * 256 + unat z
      in [b64 ! (n div 262144), b64 ! (n div 4096 mod 64), b64 ! (n div 64 mod 64), b64 ! (n mod 64)]) @
     base64_text bs"

text \<open>What the encoder writes for the bytes to come, in the middle of a group.\<close>

fun base64_rest :: "nat \<Rightarrow> nat \<Rightarrow> nat list \<Rightarrow> jstring" where
  "base64_rest j t [] = (if j = 0 then [] else if j = 1 then [b64 ! t, 61, 61] else [b64 ! t, 61])"
| "base64_rest j t (b # bs) =
     (if j = 0 then b64 ! (b div 4) # base64_rest 1 (b mod 4 * 16) bs
      else if j = 1 then b64 ! (t + b div 16) # base64_rest 2 (b mod 16 * 4) bs
      else b64 ! (t + b div 64) # b64 ! (b mod 64) # base64_rest 0 t bs)"

lemma sextets:
  fixes x y z :: nat
  assumes "y < 256" "z < 256"
  defines "n \<equiv> x * 65536 + y * 256 + z"
  shows "n div 262144 = x div 4" "n div 4096 mod 64 = x mod 4 * 16 + y div 16"
    "n div 64 mod 64 = y mod 16 * 4 + z div 64" "n mod 64 = z mod 64"
proof -
  obtain a b where x: "x = 4 * a + b" "b < 4" by (metis mult_div_mod_eq mod_less_divisor zero_less_numeral)
  obtain c d where y: "y = 16 * c + d" "d < 16" by (metis mult_div_mod_eq mod_less_divisor zero_less_numeral)
  obtain e f where z: "z = 64 * e + f" "f < 64" by (metis mult_div_mod_eq mod_less_divisor zero_less_numeral)
  have bounds: "c < 16" "e < 4" using assms(1,2) y z by linarith+
  have n: "n = 262144 * a + 65536 * b + 4096 * c + 256 * d + 64 * e + f" by (simp add: n_def x y z)
  have s: "x div 4 = a" "x mod 4 = b" "y div 16 = c" "y mod 16 = d" "z div 64 = e" "z mod 64 = f"
    by (simp_all add: x y z)
  show "n div 262144 = x div 4"
    unfolding s by (rule div_nat_eqI) (use n x y z bounds in \<open>simp_all add: algebra_simps\<close>)
  have "n div 4096 = 64 * a + (b * 16 + c)"
    by (rule div_nat_eqI) (use n x y z bounds in \<open>simp_all add: algebra_simps\<close>)
  then show "n div 4096 mod 64 = x mod 4 * 16 + y div 16" unfolding s using x bounds by simp
  have "n div 64 = 64 * (64 * a + b * 16 + c) + (d * 4 + e)"
    by (rule div_nat_eqI) (use n x y z bounds in \<open>simp_all add: algebra_simps\<close>)
  moreover have "d * 4 + e < 64" using y bounds by simp
  ultimately show "n div 64 mod 64 = y mod 16 * 4 + z div 64" unfolding s by (simp only: mod_mult_self4 mod_less)
  have "n = 64 * (64 * (64 * a + b * 16 + c) + (d * 4 + e)) + f" using n by simp
  then show "n mod 64 = z mod 64" unfolding s using z by (metis mod_mult_self4 mod_less)
qed

lemma base64_rest_text: "base64_rest 0 t (map unat bs) = base64_text bs"
proof (induction bs arbitrary: t rule: base64_text.induct)
  case (2 x)
  show ?case using sextets [of 0 0 "unat x"] by simp
next
  case (3 x y)
  show ?case using sextets [OF unat_u8 [of y], of 0 "unat x"] by simp
next
  case (4 x y z bs)
  show ?case using 4 sextets [OF unat_u8 [of y] unat_u8 [of z], of "unat x"] by (simp add: Let_def)
qed simp

text \<open>
  Between two bytes. A group of four characters never straddles the end of a chunk, so every full chunk
  has 8192 characters and none of an earlier one.
\<close>

definition es_done :: "encode_state \<Rightarrow> jstring" where
  "es_done s = (case es_parts s of None \<Rightarrow> [] | Some ps \<Rightarrow> concat ps)"

definition es_out :: "encode_state \<Rightarrow> jstring" where
  "es_out s = es_done s @ take (es_i s) (es_chunk s)"

definition es_ok :: "encode_state \<Rightarrow> bool" where
  "es_ok s \<longleftrightarrow>
     es_j s \<le> 2 \<and> es_i s mod 4 = es_j s \<and> es_i s < 8192 \<and>
     es_i s \<le> length (es_chunk s) \<and> length (es_chunk s) \<le> 8192 \<and>
     (es_j s = 1 \<longrightarrow> es_t s \<in> word_of_nat ` ((*) 16 ` {..<4})) \<and> (es_j s = 2 \<longrightarrow> es_t s \<in> word_of_nat ` ((*) 4 ` {..<16}))"

lemma es_put_out:
  "es_i s \<le> length (es_chunk s) \<Longrightarrow>
   es_out (es_put c s) = es_out s @ [c] \<and> es_i (es_put c s) \<le> length (es_chunk (es_put c s))"
  by (simp add: es_out_def es_done_def es_put_def)

lemma es_put_simps [simp]:
  "es_i (es_put c s) = Suc (es_i s)" "es_j (es_put c s) = es_j s" "es_t (es_put c s) = es_t s"
  "es_start (es_put c s) = es_start s"
  "length (es_chunk (es_put c s)) = max (length (es_chunk s)) (Suc (es_i s))"
  by (simp_all add: es_put_def)

lemma es_flush_out:
  assumes "es_i s \<le> 8192" "es_i s \<le> length (es_chunk s)" "length (es_chunk s) \<le> 8192"
  shows "es_out (base64_flush s) = es_out s"
proof (cases "es_i s > 8191")
  case True
  then have "take (es_i s) (es_chunk s) = es_chunk s" using assms by simp
  then show ?thesis
    using True by (cases "es_parts s") (simp_all add: base64_flush_def es_out_def es_done_def)
qed (simp add: base64_flush_def)

lemma byte_nat: "start < length buf \<Longrightarrow> byte_at buf start = word_of_nat (unat (buf ! start))"
  by (simp add: byte_at_def)

lemma unat_small [simp]: "n < 256 \<Longrightarrow> unat (word_of_nat n :: u32) = n"
  by (simp add: unat_of_nat)

lemma es_flush_ok:
  assumes "es_j s \<le> 2" "es_i s mod 4 = es_j s" "es_i s \<le> 8192" "es_i s \<le> length (es_chunk s)"
    "length (es_chunk s) \<le> 8192"
    "es_j s = 1 \<Longrightarrow> es_t s \<in> word_of_nat ` ((*) 16 ` {..<4})" "es_j s = 2 \<Longrightarrow> es_t s \<in> word_of_nat ` ((*) 4 ` {..<16})"
  shows "es_ok (base64_flush s)"
proof (cases "es_i s > 8191")
  case True
  then have "es_i s = 8192" using assms(3) by simp
  then show ?thesis using assms by (simp add: es_ok_def base64_flush_def)
next
  case False
  then show ?thesis using assms by (simp add: es_ok_def base64_flush_def)
qed

lemma flush_keeps [simp]: "es_j (base64_flush s) = es_j s" "es_t (base64_flush s) = es_t s"
  by (simp_all add: base64_flush_def)

lemma encode_one_step:
  assumes ok: "es_ok s" and start: "es_start s < length buf"
  defines "b \<equiv> unat (buf ! es_start s)" and "s' \<equiv> base64_flush (base64_encode_one buf s)"
  shows "es_ok s'"
    and "es_out s' @ base64_rest (es_j s') (unat (es_t s')) bs = es_out s @ base64_rest (es_j s) (unat (es_t s)) (b # bs)"
proof -
  have b: "b < 256" by (simp add: b_def unat_u8)
  have byte: "byte_at buf (es_start s) = word_of_nat b" using start by (simp add: byte_nat b_def)
  let ?s = "s\<lparr>es_start := es_start s + 1\<rparr>"
  have i: "es_i s \<le> length (es_chunk s)" "es_i s < 8192" "length (es_chunk s) \<le> 8192" "es_i s mod 4 = es_j s"
    using ok by (simp_all add: es_ok_def)
  have out: "es_out (s\<lparr>es_start := x, es_t := y, es_j := z\<rparr>) = es_out s" for s x y z
    by (simp add: es_out_def es_done_def)
  consider "es_j s = 0" | "es_j s = 1" | "es_j s = 2" using ok by (force simp: es_ok_def)
  then have "es_ok s' \<and>
    es_out s' @ base64_rest (es_j s') (unat (es_t s')) bs = es_out s @ base64_rest (es_j s) (unat (es_t s)) (b # bs)"
  proof cases
    case 1
    let ?n = "(es_put (b64 ! (b div 4)) ?s)\<lparr>es_t := word_of_nat (b mod 4 * 16), es_j := 1\<rparr>"
    have e: "push_bit 4 ((word_of_nat b :: u32) AND 3) = word_of_nat (b mod 4 * 16)"
      unfolding and_small push_bit_nat by simp
    have n: "base64_encode_one buf s = ?n"
      unfolding base64_encode_one_def Let_def byte e using 1 b by (simp add: nat_bits)
    have small: "es_i s < 8189" using i 1 by presburger
    have "es_i s mod 4 = 0" using i 1 by simp
    then have "Suc (es_i s) mod 4 = 1" by presburger
    moreover have "(word_of_nat (b mod 4 * 16) :: u32) \<in> word_of_nat ` ((*) 16 ` {..<4})"
      by (intro image_eqI [OF refl] image_eqI [of _ _ "b mod 4"]) simp_all
    ultimately have "es_ok s'" unfolding s'_def n using i small by (intro es_flush_ok) simp_all
    moreover have "es_out s' = es_out s @ [b64 ! (b div 4)]"
      unfolding s'_def n using i small es_put_out [of ?s "b64 ! (b div 4)"]
      by (subst es_flush_out) (simp_all add: es_out_def es_done_def)
    moreover have "es_j s' = 1" "es_t s' = word_of_nat (b mod 4 * 16)" by (simp_all add: s'_def n)
    moreover have "unat (word_of_nat (b mod 4 * 16) :: u32) = b mod 4 * 16" by (rule unat_small) simp
    ultimately show ?thesis using 1 by (simp del: of_nat_mult)
  next
    case 2
    then obtain m where m: "es_t s = word_of_nat (m * 2 ^ 4)" "m < 4"
      using ok by (auto simp: es_ok_def mult.commute)
    have t: "unat (es_t s) = m * 16" unfolding m(1) using m(2) by (subst unat_small) simp_all
    let ?n = "(es_put (b64 ! (m * 16 + b div 16)) ?s)\<lparr>es_t := word_of_nat (b mod 16 * 4), es_j := 2\<rparr>"
    have "es_t s OR drop_bit 4 (word_of_nat b) = word_of_nat (m * 2 ^ 4 + b div 16)"
      unfolding m(1) using b or_low [of "b div 16" 4 m] by (simp add: nat_bits)
    moreover have "m * 2 ^ 4 + b div 16 < 256" using b m(2) by simp
    ultimately have orr: "unat (es_t s OR drop_bit 4 (word_of_nat b)) = m * 16 + b div 16"
      using unat_small [of "m * 16 + b div 16"] by simp
    have e: "push_bit 2 ((word_of_nat b :: u32) AND 15) = word_of_nat (b mod 16 * 4)"
      unfolding and_numerals_nat push_bit_nat by simp
    have n: "base64_encode_one buf s = ?n"
      unfolding base64_encode_one_def Let_def byte e using 2 orr by simp
    have small: "es_i s < 8190" using i 2 by presburger
    have "es_i s mod 4 = 1" using i 2 by simp
    then have "Suc (es_i s) mod 4 = 2" by presburger
    moreover have "(word_of_nat (b mod 16 * 4) :: u32) \<in> word_of_nat ` ((*) 4 ` {..<16})"
      by (intro image_eqI [OF refl] image_eqI [of _ _ "b mod 16"]) simp_all
    ultimately have "es_ok s'" unfolding s'_def n using i small by (intro es_flush_ok) simp_all
    moreover have "es_out s' = es_out s @ [b64 ! (m * 16 + b div 16)]"
      unfolding s'_def n using i small es_put_out [of ?s "b64 ! (m * 16 + b div 16)"]
      by (subst es_flush_out) (simp_all add: es_out_def es_done_def)
    moreover have "es_j s' = 2" "es_t s' = word_of_nat (b mod 16 * 4)" by (simp_all add: s'_def n)
    moreover have "unat (word_of_nat (b mod 16 * 4) :: u32) = b mod 16 * 4" by (rule unat_small) simp
    ultimately show ?thesis using 2 by (simp add: t del: of_nat_mult)
  next
    case 3
    then obtain m where m: "es_t s = word_of_nat (m * 2 ^ 2)" "m < 16"
      using ok by (auto simp: es_ok_def mult.commute)
    have t: "unat (es_t s) = m * 4" unfolding m(1) using m(2) by (subst unat_small) simp_all
    let ?p = "es_put (b64 ! (m * 4 + b div 64)) ?s"
    let ?n = "(es_put (b64 ! (b mod 64)) ?p)\<lparr>es_j := 0\<rparr>"
    have "es_t s OR drop_bit 6 (word_of_nat b) = word_of_nat (m * 2 ^ 2 + b div 64)"
      unfolding m(1) using b or_low [of "b div 64" 2 m] by (simp add: nat_bits)
    moreover have "m * 2 ^ 2 + b div 64 < 256" using b m(2) by simp
    ultimately have orr: "unat (es_t s OR drop_bit 6 (word_of_nat b)) = m * 4 + b div 64"
      using unat_small [of "m * 4 + b div 64"] by simp
    have e: "unat ((word_of_nat b :: u32) AND 63) = b mod 64"
      unfolding and_numerals_nat by (rule unat_small) simp
    have n: "base64_encode_one buf s = ?n"
      unfolding base64_encode_one_def Let_def byte e using 3 orr by simp
    have small: "es_i s < 8191" using i 3 by presburger
    have "es_i s mod 4 = 2" using i 3 by simp
    then have "Suc (Suc (es_i s)) mod 4 = 0" by presburger
    then have "es_ok s'" unfolding s'_def n using i small by (intro es_flush_ok) auto
    moreover have "es_out s' = es_out s @ [b64 ! (m * 4 + b div 64), b64 ! (b mod 64)]"
      unfolding s'_def n
      using i small es_put_out [of ?s "b64 ! (m * 4 + b div 64)"] es_put_out [of ?p "b64 ! (b mod 64)"]
      by (subst es_flush_out) (simp_all add: es_out_def es_done_def)
    moreover have "es_j s' = 0" by (simp add: s'_def n)
    ultimately show ?thesis using 3 by (cases bs) (simp_all add: t)
  qed
  then show "es_ok s'"
    "es_out s' @ base64_rest (es_j s') (unat (es_t s')) bs = es_out s @ base64_rest (es_j s) (unat (es_t s)) (b # bs)"
    by simp_all
qed

lemma encode_loop_out:
  assumes "es_ok s" "end \<le> length buf"
  defines "s' \<equiv> base64_encode_loop buf end s"
  shows "es_ok s' \<and> es_out s' @ base64_rest (es_j s') (unat (es_t s')) [] =
    es_out s @ base64_rest (es_j s) (unat (es_t s)) (map unat (drop (es_start s) (take end buf)))"
  unfolding s'_def using assms(1,2)
proof (induction buf "end" s rule: base64_encode_loop.induct)
  case (1 buf e s)
  show ?case
  proof (cases "es_start s < e")
    case True
    let ?n = "base64_flush (base64_encode_one buf s)"
    have start: "es_start s < length buf" using True 1 by simp
    have d: "drop (es_start s) (take e buf) = buf ! es_start s # drop (es_start ?n) (take e buf)"
      using True 1 by (simp add: Cons_nth_drop_Suc [symmetric])
    have l: "base64_encode_loop buf e s = base64_encode_loop buf e ?n"
      using True by (subst base64_encode_loop.simps) simp
    show ?thesis
      unfolding l d list.map
      using "1.IH" [OF True encode_one_step(1) [OF "1.prems"(1) start] "1.prems"(2)]
        encode_one_step(2) [OF "1.prems"(1) start, of "map unat (drop (es_start ?n) (take e buf))"]
      by simp
  next
    case False
    then have "base64_encode_loop buf e s = s" by (subst base64_encode_loop.simps) simp
    then show ?thesis using False 1 by simp
  qed
qed

lemma pad_out:
  assumes "es_ok s"
  shows "es_out (base64_pad s) = es_out s @ base64_rest (es_j s) (unat (es_t s)) []"
proof -
  have i: "es_i s \<le> length (es_chunk s)" using assms by (simp add: es_ok_def)
  note p = es_put_out [OF i]
  show ?thesis
  proof (cases "es_j s = 0")
    case False
    then have "es_j s = 1 \<or> es_j s = 2" using assms by (auto simp: es_ok_def)
    then show ?thesis
      using p es_put_out [OF p [THEN conjunct2]] es_put_out [OF es_put_out [OF p [THEN conjunct2], THEN conjunct2]]
      by (auto simp: base64_pad_def Let_def)
  qed (simp add: base64_pad_def)
qed

lemma base64_encode_text:
  assumes "end \<le> length buf"
  shows "base64_encode buf start end = base64_text (drop start (take end buf))"
proof -
  let ?s = "\<lparr>es_start = start, es_chunk = [], es_i = 0, es_j = 0, es_t = 0, es_parts = None\<rparr>"
  have "es_ok ?s" by (simp add: es_ok_def)
  note l = encode_loop_out [OF this assms] and p = pad_out [of "base64_encode_loop buf end ?s"]
  have "es_out (base64_pad (base64_encode_loop buf end ?s)) = base64_text (drop start (take end buf))"
    using l p by (simp add: base64_rest_text) (simp add: es_out_def es_done_def)
  moreover have "base64_encode buf start end = es_out (base64_pad (base64_encode_loop buf end ?s))"
    by (auto simp: base64_encode_def Let_def es_out_def es_done_def split: option.split)
  ultimately show ?thesis by simp
qed

section \<open>The decoder inverts it\<close>

text \<open>The bytes a sequence of digits stands for; a single digit left over stands for none.\<close>

fun sextet_bytes :: "nat list \<Rightarrow> u8 list" where
  "sextet_bytes (a # b # c # d # ns) =
     [of_nat (a * 4 + b div 16), of_nat (b mod 16 * 16 + c div 4), of_nat (c mod 4 * 64 + d)] @ sextet_bytes ns"
| "sextet_bytes [a, b, c] = [of_nat (a * 4 + b div 16), of_nat (b mod 16 * 16 + c div 4)]"
| "sextet_bytes [a, b] = [of_nat (a * 4 + b div 16)]"
| "sextet_bytes _ = []"

lemma decoded:
  assumes "a < 64" "b < 64"
  shows "(ucast (push_bit 2 (word_of_nat a :: u32) OR drop_bit 4 (word_of_nat b AND 48)) :: u8) = of_nat (a * 4 + b div 16)"
    "(ucast (push_bit 4 ((word_of_nat a :: u32) AND 15) OR drop_bit 2 (word_of_nat b AND 60)) :: u8) =
       of_nat (a mod 16 * 16 + b div 4)"
    "(ucast (push_bit 6 ((word_of_nat a :: u32) AND 3) OR word_of_nat b) :: u8) = of_nat (a mod 4 * 64 + b)"
proof -
  have "b div 16 < 2 ^ 2" "b div 4 < 2 ^ 4" "b < 2 ^ 6" using assms(2) by simp_all
  note or = this(1) [THEN or_low, of a] this(2) [THEN or_low, of "a mod 16"] this(3) [THEN or_low, of "a mod 4"]
  have small: "a * 4 + b div 16 < 4294967296" "a mod 16 * 16 + b div 4 < 4294967296" "a mod 4 * 64 + b < 4294967296"
    using assms by linarith+
  show "(ucast (push_bit 2 (word_of_nat a :: u32) OR drop_bit 4 (word_of_nat b AND 48)) :: u8) = of_nat (a * 4 + b div 16)"
    unfolding sextet_high [OF assms(2)] push_bit_nat or(1) using ucast_u8_nat [OF small(1)] by simp
  show "(ucast (push_bit 4 ((word_of_nat a :: u32) AND 15) OR drop_bit 2 (word_of_nat b AND 60)) :: u8) =
      of_nat (a mod 16 * 16 + b div 4)"
    unfolding sextet_middle [OF assms(2)] and_numerals_nat push_bit_nat or(2) using ucast_u8_nat [OF small(2)] by simp
  show "(ucast (push_bit 6 ((word_of_nat a :: u32) AND 3) OR word_of_nat b) :: u8) = of_nat (a mod 4 * 64 + b)"
    unfolding and_small push_bit_nat or(3) using ucast_u8_nat [OF small(3)] by simp
qed

lemma length_sextet_bytes: "length (sextet_bytes ns) = length ns * 3 div 4"
  by (induction ns rule: sextet_bytes.induct) simp_all

lemma decode_step:
  assumes "a < 64" "b < 64"
  shows "base64_decode_loop (b64 ! a # cs) buf off 0 t = base64_decode_loop cs buf off 1 (of_nat a)"
    "base64_decode_loop (b64 ! b # cs) buf off 1 (of_nat a) =
       base64_decode_loop cs (buf[off := of_nat (a * 4 + b div 16)]) (off + 1) 2 (of_nat b)"
    "base64_decode_loop (b64 ! b # cs) buf off 2 (of_nat a) =
       base64_decode_loop cs (buf[off := of_nat (a mod 16 * 16 + b div 4)]) (off + 1) 3 (of_nat b)"
    "base64_decode_loop (b64 ! b # cs) buf off 3 (of_nat a) =
       base64_decode_loop cs (buf[off := of_nat (a mod 4 * 64 + b)]) (off + 1) 0 (of_nat a)"
  using b64_not_pad [OF assms(1)] b64_not_pad [OF assms(2)]
  unfolding base64_decode_loop.simps s64_b64 [OF assms(1)] s64_b64 [OF assms(2)] option.case decoded [OF assms]
  by (simp_all del: of_nat_add of_nat_mult)

lemma decode_digits:
  assumes "set ns \<subseteq> {..<64}" "off + length (sextet_bytes ns) \<le> length buf"
    "cs = [] \<or> hd cs = 61 \<and> 1 < length ns mod 4"
  shows "base64_decode_loop (map ((!) b64) ns @ cs) buf off 0 t =
    ok (splice buf off (sextet_bytes ns), off + length (sextet_bytes ns), length ns mod 4)"
  using assms
proof (induction ns arbitrary: buf off t rule: sextet_bytes.induct)
  case (1 a b c d ns)
  have small: "a < 64" "b < 64" "c < 64" "d < 64" using "1.prems"(1) by simp_all
  let ?bs = "[of_nat (a * 4 + b div 16), of_nat (b mod 16 * 16 + c div 4), of_nat (c mod 4 * 64 + d)] :: u8 list"
  have "base64_decode_loop (map ((!) b64) (a # b # c # d # ns) @ cs) buf off 0 t =
      base64_decode_loop (map ((!) b64) ns @ cs)
        (buf[off := ?bs ! 0, off + 1 := ?bs ! 1, off + 1 + 1 := ?bs ! 2]) (off + 1 + 1 + 1) 0 (of_nat c)"
    unfolding list.map append_Cons decode_step(1) [OF small(1,1)] decode_step(2) [OF small(1,2)]
      decode_step(3) [OF small(2,3)] decode_step(4) [OF small(3,4)] by simp
  also have "buf[off := ?bs ! 0, off + 1 := ?bs ! 1, off + 1 + 1 := ?bs ! 2] = splice buf off ?bs"
    using "1.prems"(2) by (simp add: splice_simps del: of_nat_add of_nat_mult)
  finally show ?case
    using "1.prems" by (simp add: "1.IH" splice_splice add.assoc del: of_nat_add of_nat_mult)
next
  case (2 a b c)
  have small: "a < 64" "b < 64" "c < 64" using "2.prems"(1) by simp_all
  have cs: "cs = [] \<or> (\<exists>us. cs = 61 # us)" using "2.prems"(3) by (cases cs) auto
  show ?case
    unfolding list.map append_Cons append_Nil decode_step(1) [OF small(1,1)] decode_step(2) [OF small(1,2)]
      decode_step(3) [OF small(2,3)]
    using cs "2.prems"(2) by (auto simp: splice_simps simp del: of_nat_add of_nat_mult)
next
  case (3 a b)
  have small: "a < 64" "b < 64" using "3.prems"(1) by simp_all
  have cs: "cs = [] \<or> (\<exists>us. cs = 61 # us)" using "3.prems"(3) by (cases cs) auto
  show ?case
    unfolding list.map append_Cons append_Nil decode_step(1) [OF small(1,1)] decode_step(2) [OF small(1,2)]
    using cs "3.prems"(2) by (auto simp: splice_simps simp del: of_nat_add of_nat_mult)
qed simp_all

text \<open>A text that \<open>test\<close> accepts is full groups of digits, the last of them padded.\<close>

definition padded :: "nat list \<Rightarrow> jstring \<Rightarrow> bool" where
  "padded ns s \<longleftrightarrow> set ns \<subseteq> {..<64} \<and> length ns mod 4 \<noteq> 1 \<and>
     s = map ((!) b64) ns @ replicate ((4 - length ns mod 4) mod 4) 61"

lemma padded_mod: "padded ns s \<Longrightarrow> length ns mod 4 = 0 \<or> length ns mod 4 = 2 \<or> length ns mod 4 = 3"
proof -
  assume "padded ns s"
  then have "length ns mod 4 \<noteq> 1" by (simp add: padded_def)
  then show ?thesis by presburger
qed

lemma padded_step: "padded ns s \<Longrightarrow> {a, b, c, d} \<subseteq> {..<64} \<Longrightarrow>
    padded (a # b # c # d # ns) (b64 ! a # b64 ! b # b64 ! c # b64 ! d # s)"
  by (simp add: padded_def)

lemma alphabet_digit:
  assumes "in_alphabet c"
  obtains i where "i < 64" "c = b64 ! i"
proof -
  let ?k = "unat c"
  consider "65 \<le> ?k" "?k \<le> 90" | "97 \<le> ?k" "?k \<le> 122" | "48 \<le> ?k" "?k \<le> 57" | "?k = 43" | "?k = 47"
    using assms by (auto simp: in_alphabet_def word_le_nat_alt word_unat_eq_iff)
  then have "\<exists>i < 64. b64_code i = ?k"
  proof cases
    case 1
    then show ?thesis by (intro exI [of _ "?k - 65"]) (auto simp: b64_code_def)
  next
    case 2
    then show ?thesis by (intro exI [of _ "?k - 71"]) (auto simp: b64_code_def)
  next
    case 3
    then show ?thesis by (intro exI [of _ "?k + 4"]) (auto simp: b64_code_def)
  next
    case 4
    then show ?thesis by (intro exI [of _ 62]) (auto simp: b64_code_def)
  next
    case 5
    then show ?thesis by (intro exI [of _ 63]) (auto simp: b64_code_def)
  qed
  then show thesis using that by (metis b64_unat word_unat_eq_iff)
qed

lemma test_padded: "base64_test s \<Longrightarrow> \<exists>ns. padded ns s"
proof (induction s rule: base64_test.induct)
  case 1
  show ?case by (rule exI [of _ "[]"]) (simp add: padded_def)
next
  case (2 a b c d cs)
  obtain i j where ij: "i < 64" "a = b64 ! i" "j < 64" "b = b64 ! j"
    using "2.prems" alphabet_digit [of a] alphabet_digit [of b] by (metis base64_test.simps(2))
  consider "in_alphabet c" "in_alphabet d" "base64_test cs" | "c = 61" "d = 61" "cs = []" |
      "in_alphabet c" "d = 61" "cs = []"
    using "2.prems" by auto
  then show ?case
  proof cases
    case 1
    obtain k l where "k < 64" "c = b64 ! k" "l < 64" "d = b64 ! l"
      using 1 alphabet_digit [of c] alphabet_digit [of d] by metis
    moreover obtain ns where "padded ns cs" using 2 1 by blast
    ultimately show ?thesis using ij padded_step [of ns cs i j k l] by auto
  next
    case case2: 2
    show ?thesis by (rule exI [of _ "[i, j]"]) (use ij case2 in \<open>simp add: padded_def numeral_2_eq_2\<close>)
  next
    case 3
    obtain k where "k < 64" "c = b64 ! k" using 3 alphabet_digit [of c] by metis
    then show ?thesis by (intro exI [of _ "[i, j, k]"]) (use ij 3 in \<open>simp add: padded_def\<close>)
  qed
qed simp_all

lemma padded_test: "padded ns s \<Longrightarrow> base64_test s"
proof (induction ns arbitrary: s rule: sextet_bytes.induct)
  case (1 a b c d ns)
  have "padded ns (drop 4 s)" "s = b64 ! a # b64 ! b # b64 ! c # b64 ! d # drop 4 s"
    using "1.prems" by (simp_all add: padded_def)
  then show ?case using 1 by (metis b64_alphabet base64_test.simps(2) insert_subset lessThan_iff list.simps(15) padded_def)
qed (auto simp: padded_def numeral_2_eq_2)

lemma sextets_small:
  fixes x y z :: nat
  assumes "x < 256" "y < 256" "z < 256"
  shows "x div 4 < 64" "x mod 4 * 16 + y div 16 < 64" "y mod 16 * 4 + z div 64 < 64"
proof -
  have "x mod 4 < 4" "y mod 16 < 16" "y div 16 < 16" "z div 64 < 4" using assms by simp_all
  then show "x mod 4 * 16 + y div 16 < 64" "y mod 16 * 4 + z div 64 < 64" by linarith+
  show "x div 4 < 64" using assms(1) by simp
qed

lemma padded_digits: "\<exists>ns. padded ns (base64_text bs) \<and> sextet_bytes ns = bs"
proof (induction bs rule: base64_text.induct)
  case 1
  show ?case by (rule exI [of _ "[]"]) (simp add: padded_def)
next
  case (2 x)
  have "unat x div 4 * 4 + unat x mod 4 * 16 div 16 = unat x" by simp
  then show ?case
    using sextets [of 0 0 "unat x"] unat_u8 [of x]
    by (intro exI [of _ "[unat x div 4, unat x mod 4 * 16]"]) (simp add: padded_def numeral_2_eq_2 Let_def flip: of_nat_mult of_nat_add)
next
  case (3 x y)
  let ?b = "unat x mod 4 * 16 + unat y div 16"
  have b: "?b div 16 = unat x mod 4" "?b mod 16 = unat y div 16" using unat_u8 [of y] by simp_all
  show ?case
    using sextets_small [OF unat_u8 [of x] unat_u8 [of y], of 0] sextets [OF unat_u8 [of y], of 0 "unat x"] b
    by (intro exI [of _ "[unat x div 4, ?b, unat y mod 16 * 4]"]) (simp add: padded_def Let_def flip: of_nat_mult of_nat_add)
next
  case (4 x y z bs)
  then obtain ns where ns: "padded ns (base64_text bs)" "sextet_bytes ns = bs" by blast
  let ?b = "unat x mod 4 * 16 + unat y div 16" and ?c = "unat y mod 16 * 4 + unat z div 64"
  have b: "?b div 16 = unat x mod 4" "?b mod 16 = unat y div 16" "?c div 4 = unat y mod 16" "?c mod 4 = unat z div 64"
    using unat_u8 [of y] unat_u8 [of z] by simp_all
  have "padded (unat x div 4 # ?b # ?c # unat z mod 64 # ns)
      (b64 ! (unat x div 4) # b64 ! ?b # b64 ! ?c # b64 ! (unat z mod 64) # base64_text bs)"
    using sextets_small [OF unat_u8 [of x] unat_u8 [of y] unat_u8 [of z]] by (intro padded_step ns) simp
  then show ?case
    using sextets [OF unat_u8 [of y] unat_u8 [of z], of "unat x"] b ns(2)
    by (intro exI [of _ "unat x div 4 # ?b # ?c # unat z mod 64 # ns"]) (simp add: Let_def flip: of_nat_mult of_nat_add)
qed

lemma padded_decode:
  assumes "padded ns s" "off + length (sextet_bytes ns) \<le> length buf"
  shows "base64_decode s buf off = ok (splice buf off (sextet_bytes ns), length (sextet_bytes ns))"
proof -
  define cs :: jstring where "cs = replicate ((4 - length ns mod 4) mod 4) 61"
  have "cs = [] \<or> hd cs = 61 \<and> 1 < length ns mod 4"
    using padded_mod [OF assms(1)] by (auto simp: cs_def)
  from decode_digits [OF _ assms(2) this] assms(1) show ?thesis
    by (auto simp: padded_def base64_decode_def cs_def)
qed

lemma padded_length:
  assumes "padded ns s"
  shows "base64_length s = of_nat (length (sextet_bytes ns))"
proof -
  obtain q r where q: "length ns = 4 * q + r" and r: "r = 0 \<or> r = 2 \<or> r = 3"
  proof
    show "length ns = 4 * (length ns div 4) + length ns mod 4" by simp
    show "length ns mod 4 = 0 \<or> length ns mod 4 = 2 \<or> length ns mod 4 = 3"
      by (rule padded_mod [OF assms])
  qed
  have digit: "s ! i \<noteq> 61" if "i < length ns" for i
    using assms that by (simp add: padded_def nth_append subset_iff)
  have pad: "s ! i = 61" if "length ns \<le> i" "i < length s" for i
    using assms that by (simp add: padded_def nth_append)
  have len: "length s = length ns + (4 - r) mod 4" using assms q r by (auto simp: padded_def)
  consider "r = 0" "q = 0" | k where "r = 0" "q = Suc k" | "r = 2" | "r = 3" using r by (cases q) auto
  then show ?thesis
  proof cases
    case 1
    then show ?thesis using q len by (simp add: base64_length_def length_sextet_bytes)
  next
    case 2
    then have l: "length s = Suc (4 * k + 3)" using q len by simp
    have "s ! (4 * k + 3) \<noteq> 61" using q 2 by (intro digit) simp
    then have "pad_count s (length s) = 0" unfolding l pad_count.simps by simp
    then show ?thesis using q len 2 by (simp add: base64_length_def length_sextet_bytes)
  next
    case 3
    then have l: "length s = Suc (Suc (Suc (4 * q + 1)))" using q len by simp
    have c: "s ! Suc (Suc (4 * q + 1)) = 61" "s ! Suc (4 * q + 1) = 61" using q 3 l by (auto intro!: pad)
    have "1 < Suc (Suc (4 * q + 1)) mod 4" "1 < Suc (4 * q + 1) mod 4" "\<not> 1 < (4 * q + 1) mod 4" by presburger+
    then have p: "pad_count s (length s) = 2" unfolding l pad_count.simps by (simp only: c if_True if_False simp_thms)
    have n: "length ns * 3 div 4 = 3 * q + 1" using q 3 by simp
    show ?thesis unfolding base64_length_def p length_sextet_bytes n by (simp add: l)
  next
    case 4
    then have l: "length s = Suc (Suc (4 * q + 2))" using q len by simp
    have "s ! Suc (4 * q + 2) = 61" using q 4 l by (intro pad) simp_all
    moreover have "s ! (4 * q + 2) \<noteq> 61" using q 4 by (intro digit) simp
    ultimately have p: "pad_count s (length s) = 1" unfolding l by simp
    have n: "length ns * 3 div 4 = 3 * q + 2" using q 4 by simp
    show ?thesis unfolding base64_length_def p length_sextet_bytes n by (simp add: l)
  qed
qed

section \<open>Properties\<close>

text \<open>C34. Base64 keeps bytes: \<open>decode\<close> of what \<open>encode\<close> makes of a stretch of a buffer stores these
  bytes at the offset it is given and returns their number, which is what \<open>length\<close> says beforehand, and
  \<open>test\<close> accepts the text. The chunks of 8192 characters never lose or repeat one.\<close>

theorem base64_roundtrip:
  assumes "end \<le> length src" "off + (end - start) \<le> length dst"
  defines "text \<equiv> base64_encode src start end"
  shows "base64_decode text dst off = ok (splice dst off (drop start (take end src)), end - start) \<and>
    base64_length text = of_nat (end - start) \<and> base64_test text"
proof -
  obtain ns where ns: "padded ns text" "sextet_bytes ns = drop start (take end src)"
    using padded_digits base64_encode_text [OF assms(1)] unfolding text_def by metis
  have l: "length (sextet_bytes ns) = end - start" using assms(1) by (simp add: ns(2))
  show ?thesis
    using padded_decode [OF ns(1), of off dst] padded_length [OF ns(1)] padded_test [OF ns(1)] assms(2) l
    by (simp add: ns(2))
qed

theorem base64_roundtrip_witness:
  "base64_decode (base64_encode [104, 105] 0 2) (replicate 3 0) 1 = ok ([0, 104, 105], 2)"
  using base64_roundtrip [of 2 "[104, 105]" 1 0 "replicate 3 0"] by (simp add: splice_def numeral_3_eq_3)

text \<open>\<open>test\<close> guards \<open>decode\<close>: a text it accepts decodes without an error, into exactly as many
  bytes as \<open>length\<close> says, all of them inside an array of this length.\<close>

theorem base64_test_decodes:
  assumes "base64_test s"
  shows "\<exists>bs. base64_length s = of_nat (length bs) \<and>
    (\<forall>buf off. off + length bs \<le> length buf \<longrightarrow> base64_decode s buf off = ok (splice buf off bs, length bs))"
proof -
  obtain ns where "padded ns s" using test_padded [OF assms] by blast
  then show ?thesis using padded_length padded_decode by blast
qed

theorem base64_test_decodes_witness:
  "\<exists>bs. base64_length [97, 71, 107, 61] = of_nat (length bs) \<and>
    (\<forall>buf off. off + length bs \<le> length buf \<longrightarrow>
      base64_decode [97, 71, 107, 61] buf off = ok (splice buf off bs, length bs))"
  by (rule base64_test_decodes) (simp add: in_alphabet_def)

text \<open>A bytes field set to the base64 text of some bytes is written like the bytes.\<close>

theorem bytes_field_text:
  assumes "v \<noteq> []" "length v < 2 ^ 30"
  shows "w_bytes_string (base64_encode v 0 (length v)) w = ok (w_bytes v w)"
proof -
  obtain ns where ns: "padded ns (base64_text v)" "sextet_bytes ns = v" using padded_digits by metis
  have e: "base64_encode v 0 (length v) = base64_text v" by (simp add: base64_encode_text)
  have "length ns * 3 div 4 = length v" using length_sextet_bytes [of ns] ns(2) by simp
  moreover have "length (base64_text v) \<le> length ns + 3" using ns(1) by (simp add: padded_def)
  ultimately have l: "length (base64_text v) < 2 ^ 32" using assms(2) by simp
  have "base64_text v \<noteq> []" using assms(1) by (cases v rule: base64_text.cases) (simp_all add: Let_def)
  then show ?thesis
    using l assms padded_decode [OF ns(1), of 0 "replicate (length v) 0"] padded_length [OF ns(1)]
    by (simp add: w_bytes_string_def w_bytes_def e ns(2) splice_all Let_def)
qed

end
