(* ===== verification/Pool.thy ===== *)
theory Pool
  imports Prelude
begin

unbundle bit_operations_syntax

text \<open>
  The buffer pool, \<open>@protobufjs/pool\<close>: \<open>Writer.alloc\<close>, and so every result of \<open>finish\<close>, is a
  view of a slab that small buffers share. The heap is the list of the lengths of the arrays allocated so
  far; a view is the index of its array with the first and last position. The bitwise operators of the
  code work on 32-bit integers, the offset is a number: above \<open>2\<^sup>31\<close> its alignment makes it negative.
  Arrays longer than \<open>limit\<close> cannot be allocated; the limit is the engine's and a parameter.

  The theorem: for slabs below \<open>2\<^sup>31\<close> the views handed out never overlap, have the length asked for,
  and start at a multiple of eight. The lemma \<open>wide_slab_overlaps\<close> shows that the bound is needed.
\<close>

record view =
  v_array :: nat
  v_from :: nat
  v_to :: nat

record pool =
  p_size :: nat
  p_slab :: "nat option"
  p_offset :: int
  p_heap :: "nat list"

text \<open>\<open>pool(alloc, slice, size)\<close>; the writer passes no size.\<close>

definition pool_create :: "nat \<Rightarrow> pool" where
  "pool_create n =
     (let SIZE = if n = 0 then 8192 else n
      in \<lparr>p_size = SIZE, p_slab = None, p_offset = int SIZE, p_heap = []\<rparr>)"

text \<open>\<open>SIZE >>> 1\<close>\<close>

definition pool_max :: "pool \<Rightarrow> nat" where
  "pool_max p = unat (drop_bit 1 (of_nat (p_size p) :: u32))"

text \<open>\<open>new Uint8Array(n)\<close>, and \<open>subarray\<close>, which counts negative positions from the end and clamps.\<close>

definition new_array :: "nat \<Rightarrow> nat \<Rightarrow> pool \<Rightarrow> (js_error + view) \<times> pool" where
  "new_array limit n p =
     (if n > limit then (Inl InvalidArrayLength, p)
      else (Inr \<lparr>v_array = length (p_heap p), v_from = 0, v_to = n\<rparr>, p\<lparr>p_heap := p_heap p @ [n]\<rparr>))"

definition clamp :: "nat \<Rightarrow> int \<Rightarrow> nat" where
  "clamp n i = (if i < 0 then nat (int n + i) else min (nat i) n)"

definition subarray :: "nat option \<Rightarrow> int \<Rightarrow> int \<Rightarrow> pool \<Rightarrow> js_error + view" where
  "subarray slab from to p =
     (case slab of
        None \<Rightarrow> Inl (TypeError [])
      | Some k \<Rightarrow>
          (let n = p_heap p ! k
           in Inr \<lparr>v_array = k, v_from = clamp n from, v_to = max (clamp n from) (clamp n to)\<rparr>))"

text \<open>\<open>if (offset & 7) offset = (offset | 7) + 1\<close>\<close>

definition aligned :: "int \<Rightarrow> int" where
  "aligned i = (if (word_of_int i :: u32) AND 7 \<noteq> 0 then sint ((word_of_int i :: u32) OR 7) + 1 else i)"

text \<open>The end of the view is stored before the slice is taken, the alignment after it.\<close>

definition pool_slice :: "nat \<Rightarrow> pool \<Rightarrow> (js_error + view) \<times> pool" where
  "pool_slice n p =
     (let end = p_offset p + int n
      in case subarray (p_slab p) (p_offset p) end p of
           Inl e \<Rightarrow> (Inl e, p\<lparr>p_offset := end\<rparr>)
         | Inr buf \<Rightarrow> (Inr buf, p\<lparr>p_offset := aligned end\<rparr>))"

definition pool_alloc :: "nat \<Rightarrow> nat \<Rightarrow> pool \<Rightarrow> (js_error + view) \<times> pool" where
  "pool_alloc limit n p =
     (if n < 1 \<or> n > pool_max p then new_array limit n p
      else if p_offset p + int n > int (p_size p)
      then (case new_array limit (p_size p) p of
              (Inl e, p) \<Rightarrow> (Inl e, p)
            | (Inr slab, p) \<Rightarrow> pool_slice n (p\<lparr>p_slab := Some (v_array slab), p_offset := 0\<rparr>))
      else pool_slice n p)"

fun pool_allocs :: "nat \<Rightarrow> nat list \<Rightarrow> pool \<Rightarrow> (js_error + view) list \<times> pool" where
  "pool_allocs limit [] p = ([], p)"
| "pool_allocs limit (n # ns) p =
     (let (r, p) = pool_alloc limit n p; (rs, p) = pool_allocs limit ns p in (r # rs, p))"

fun views :: "(js_error + view) list \<Rightarrow> view list" where
  "views [] = []"
| "views (Inl e # rs) = views rs"
| "views (Inr v # rs) = v # views rs"

section \<open>Invariant\<close>

lemma and7: "n AND 7 = n mod (8 :: int)"
  using take_bit_eq_mask [of 3 n] by (simp add: take_bit_eq_mod mask_eq_exp_minus_1)

lemma or7: "n OR 7 = n div 8 * 8 + (7 :: int)"
proof -
  have "n OR 7 = 1 + 2 * (n div 2 OR 3)" by (subst or_int_rec) simp
  also have "n div 2 OR 3 = 1 + 2 * (n div 2 div 2 OR 1)" by (subst or_int_rec) simp
  also have "n div 2 div 2 OR 1 = 1 + 2 * (n div 2 div 2 div 2 OR 0)" by (subst or_int_rec) simp
  also have "n div 2 div 2 div 2 = n div 8" by (simp add: zdiv_zmult2_eq [symmetric])
  finally show ?thesis by simp
qed

text \<open>Below \<open>2\<^sup>31\<close> the alignment rounds up to a multiple of eight.\<close>

lemma uint_seven: "uint (7 :: u32) = 7"
  by simp

lemma sint_seven: "sint (7 :: u32) = 7"
  by simp

lemma aligned_eq:
  assumes "0 \<le> i" "i < 2 ^ 31"
  shows "aligned i = (i + 7) div 8 * 8"
proof -
  have s: "sint (word_of_int i :: u32) = i" using assms by (simp add: int_word_sint)
  have "uint (word_of_int i :: u32) = i" using assms by (simp add: uint_word_of_int)
  then have a: "uint ((word_of_int i :: u32) AND 7) = i mod 8" by (simp only: uint_and uint_seven and7)
  have z: "(word_of_int i :: u32) AND 7 = 0 \<longleftrightarrow> i mod 8 = 0" by (simp only: uint_0_iff [symmetric] a)
  have o: "sint ((word_of_int i :: u32) OR 7) = i div 8 * 8 + 7" by (simp only: signed_or_eq s sint_seven or7)
  have "(if i mod 8 \<noteq> 0 then i div 8 * 8 + 7 + 1 else i) = (i + 7) div 8 * 8" by presburger
  then show ?thesis by (simp only: aligned_def z o)
qed

lemma aligned_props:
  assumes "0 \<le> i" "i < 2 ^ 31"
  shows "aligned i mod 8 = 0" "i \<le> aligned i"
  using assms unfolding aligned_eq [OF assms] by presburger+

text \<open>The views \<open>vs\<close> are handed out, and what is left of the slab is beyond them.\<close>

definition pool_ok :: "view list \<Rightarrow> pool \<Rightarrow> bool" where
  "pool_ok vs p \<longleftrightarrow>
     0 < p_size p \<and> p_size p < 2 ^ 31 \<and> 0 \<le> p_offset p \<and>
     (case p_slab p of
        None \<Rightarrow> p_offset p = int (p_size p)
      | Some k \<Rightarrow> k < length (p_heap p) \<and> p_heap p ! k = p_size p \<and> p_offset p mod 8 = 0 \<and>
          (\<forall>v \<in> set vs. v_array v = k \<longrightarrow> int (v_to v) \<le> p_offset p)) \<and>
     (\<forall>v \<in> set vs. v_array v < length (p_heap p) \<and> v_to v \<le> p_heap p ! v_array v)"

definition apart :: "view \<Rightarrow> view \<Rightarrow> bool" where
  "apart v w \<longleftrightarrow> v_array v \<noteq> v_array w \<or> v_to v \<le> v_from w \<or> v_to w \<le> v_from v"

definition serves :: "nat \<Rightarrow> view \<Rightarrow> pool \<Rightarrow> bool" where
  "serves n v p \<longleftrightarrow> v_to v = v_from v + n \<and> v_from v mod 8 = 0 \<and>
     v_array v < length (p_heap p) \<and> v_to v \<le> p_heap p ! v_array v"

text \<open>What a request gets: a view that serves it, or the exception of the array that is too long, the
  request's own one or a new slab.\<close>

definition answered :: "nat \<Rightarrow> pool \<Rightarrow> nat \<Rightarrow> js_error + view \<Rightarrow> bool" where
  "answered limit p n r = (case r of
     Inl e \<Rightarrow> e = InvalidArrayLength \<and> (limit < n \<or> limit < p_size p)
   | Inr v \<Rightarrow> serves n v p)"

text \<open>One request: it is answered, what was handed out before stays, and a new view is apart from it.\<close>

definition request_ok :: "nat \<Rightarrow> nat \<Rightarrow> view list \<Rightarrow> pool \<Rightarrow> js_error + view \<Rightarrow> pool \<Rightarrow> bool" where
  "request_ok limit n vs p r p' \<longleftrightarrow>
     answered limit p' n r \<and> pool_ok (views [r] @ vs) p' \<and> list_all (\<lambda>v. list_all (apart v) vs) (views [r]) \<and>
     (\<exists>xs. p_heap p' = p_heap p @ xs) \<and> p_size p' = p_size p"

lemma new_array_ok:
  assumes "pool_ok vs p" "new_array limit n p = (r, p')"
  shows "request_ok limit n vs p r p'"
  using assms unfolding new_array_def pool_ok_def request_ok_def answered_def serves_def list_all_iff apart_def
  by (auto simp: nth_append split: option.splits if_splits)

lemma pool_slice_ok:
  assumes "pool_ok vs p" "p_slab p \<noteq> None" "p_offset p + int n \<le> int (p_size p)" "pool_slice n p = (r, p')"
  shows "request_ok limit n vs p r p'"
proof -
  obtain k where k: "p_slab p = Some k" using assms(2) by blast
  let ?v = "\<lparr>v_array = k, v_from = nat (p_offset p), v_to = nat (p_offset p) + n\<rparr>"
  have p: "k < length (p_heap p)" "p_heap p ! k = p_size p" "p_offset p mod 8 = 0" "0 \<le> p_offset p" "p_size p < 2 ^ 31"
    "\<forall>v \<in> set vs. v_array v = k \<longrightarrow> int (v_to v) \<le> p_offset p"
    using assms(1) k by (auto simp: pool_ok_def)
  have "nat (p_offset p + int n) = nat (p_offset p) + n" using p(4) by (simp add: nat_add_distrib)
  then have v: "subarray (p_slab p) (p_offset p) (p_offset p + int n) p = Inr ?v"
    using p(2,4) assms(3) by (simp add: subarray_def k clamp_def Let_def)
  have i: "0 \<le> p_offset p + int n" "p_offset p + int n < 2 ^ 31" using p(4,5) assms(3) by simp_all
  have r: "r = Inr ?v" "p' = p\<lparr>p_offset := aligned (p_offset p + int n)\<rparr>"
    using assms(4) by (simp_all add: pool_slice_def v Let_def)
  have "serves n ?v p'" using p(1-4) assms(3) by (simp add: serves_def r) presburger
  moreover have "pool_ok (?v # vs) p'"
    using assms(1,3) p aligned_props [OF i] i by (auto simp: pool_ok_def k r)
  moreover have "list_all (apart ?v) vs"
    using p(6) by (auto simp: list_all_iff apart_def)
  ultimately show ?thesis by (simp add: request_ok_def answered_def r)
qed

lemma pool_alloc_ok:
  assumes "pool_ok vs p" "pool_alloc limit n p = (r, p')"
  shows "request_ok limit n vs p r p'"
proof (cases "n < 1 \<or> n > pool_max p")
  case True
  then show ?thesis using assms(2) by (intro new_array_ok [OF assms(1)]) (simp add: pool_alloc_def)
next
  case False
  have size: "p_size p < 2 ^ 31" "0 < p_size p" using assms(1) by (simp_all add: pool_ok_def)
  have "pool_max p = p_size p div 2"
    using size by (simp only: pool_max_def unat_drop_bit_eq) (simp add: unat_of_nat drop_bit_eq_div)
  then have n: "0 < n" "n \<le> p_size p" using False by auto
  show ?thesis
  proof (cases "p_offset p + int n > int (p_size p)")
    case fits: False
    have "p_slab p \<noteq> None" using assms(1) n fits by (auto simp: pool_ok_def split: option.splits)
    then show ?thesis using False fits assms(2) by (intro pool_slice_ok [OF assms(1)]) (simp_all add: pool_alloc_def)
  next
    case full: True
    show ?thesis
    proof (cases "limit < p_size p")
      case True
      then show ?thesis
        using False full assms by (auto simp: pool_alloc_def new_array_def request_ok_def answered_def)
    next
      case enough: False
      let ?q = "p\<lparr>p_heap := p_heap p @ [p_size p], p_slab := Some (length (p_heap p)), p_offset := 0\<rparr>"
      have ok: "pool_ok vs ?q" using assms(1) by (auto simp: pool_ok_def nth_append split: option.splits)
      have s: "pool_slice n ?q = (r, p')" using False full enough assms(2) by (simp add: pool_alloc_def new_array_def)
      have "request_ok limit n vs ?q r p'" using n by (intro pool_slice_ok [OF ok _ _ s]) simp_all
      then show ?thesis by (auto simp: request_ok_def)
    qed
  qed
qed

lemma answered_later:
  "answered limit p n r \<Longrightarrow> p_heap p' = p_heap p @ xs \<Longrightarrow> p_size p' = p_size p \<Longrightarrow> answered limit p' n r"
  by (auto simp: answered_def serves_def nth_append split: sum.splits)

lemma views_Cons: "views (r # rs) = views [r] @ views rs"
  by (cases r) simp_all

lemma pool_allocs_ok:
  assumes "pool_ok us p" "pool_allocs limit ns p = (rs, p')"
  shows "list_all2 (answered limit p') ns rs \<and> sorted_wrt apart (views rs) \<and>
    (\<forall>u \<in> set us. list_all (apart u) (views rs)) \<and> (\<exists>xs. p_heap p' = p_heap p @ xs) \<and> p_size p' = p_size p"
  using assms
proof (induction ns arbitrary: us p rs)
  case (Cons n ns)
  obtain r p1 where 1: "pool_alloc limit n p = (r, p1)" by (cases "pool_alloc limit n p")
  obtain rs' where 2: "pool_allocs limit ns p1 = (rs', p')" and rs: "rs = r # rs'"
    using Cons.prems(2) by (auto simp: 1 split: prod.splits)
  have r: "request_ok limit n us p r p1" by (rule pool_alloc_ok [OF Cons.prems(1) 1])
  then have "pool_ok (views [r] @ us) p1" by (simp add: request_ok_def)
  note rest = Cons.IH [OF this 2]
  have "answered limit p' n r" using r rest answered_later by (metis request_ok_def)
  moreover have "sorted_wrt apart (views rs)"
    using rest by (cases r) (simp_all add: rs list_all_iff)
  moreover have "list_all (apart u) (views rs)" if "u \<in> set us" for u
  proof -
    have "list_all (apart u) (views [r])" using r that by (cases r) (auto simp: request_ok_def list_all_iff apart_def)
    then show ?thesis using rest that unfolding rs by (subst views_Cons) simp
  qed
  ultimately show ?case using r rest by (auto simp: rs request_ok_def)
qed simp

text \<open>C35. The pool never hands out the same memory twice: over any sequence of requests to a pool with
  slabs below \<open>2\<^sup>31\<close> (the writer's are 8192), each request gets a view that has the length asked for,
  lies inside its array and starts at a multiple of eight, and no two views overlap, or the exception
  of the engine if the request or the slab is longer than an array may be.\<close>

theorem pool_views_apart:
  assumes "n < 2 ^ 31" "pool_allocs limit ns (pool_create n) = (rs, p)"
  shows "list_all2 (\<lambda>m r. case r of
      Inr v \<Rightarrow> serves m v p
    | Inl e \<Rightarrow> e = InvalidArrayLength \<and> (limit < m \<or> limit < p_size p)) ns rs \<and> sorted_wrt apart (views rs)"
proof -
  have "pool_ok [] (pool_create n)" using assms(1) by (simp add: pool_ok_def pool_create_def)
  then have "list_all2 (answered limit p) ns rs \<and> sorted_wrt apart (views rs)"
    using pool_allocs_ok [OF _ assms(2)] by simp
  then show ?thesis by (simp add: answered_def [abs_def])
qed

theorem pool_views_apart_witness:
  "fst (pool_allocs 100 [3, 200, 5, 8] (pool_create 16)) =
     [Inr \<lparr>v_array = 0, v_from = 0, v_to = 3\<rparr>, Inl InvalidArrayLength, Inr \<lparr>v_array = 0, v_from = 8, v_to = 13\<rparr>,
      Inr \<lparr>v_array = 1, v_from = 0, v_to = 8\<rparr>] \<and>
   sorted_wrt apart (views (fst (pool_allocs 100 [3, 200, 5, 8] (pool_create 16))))"
proof -
  have run: "pool_allocs 100 [3, 200, 5, 8] (pool_create 16) =
     ([Inr \<lparr>v_array = 0, v_from = 0, v_to = 3\<rparr>, Inl InvalidArrayLength, Inr \<lparr>v_array = 0, v_from = 8, v_to = 13\<rparr>,
       Inr \<lparr>v_array = 1, v_from = 0, v_to = 8\<rparr>],
      \<lparr>p_size = 16, p_slab = Some 1, p_offset = 8, p_heap = [16, 16]\<rparr>)"
    by code_simp
  have v: "views (fst (pool_allocs 100 [3, 200, 5, 8] (pool_create 16))) =
    [\<lparr>v_array = 0, v_from = 0, v_to = 3\<rparr>, \<lparr>v_array = 0, v_from = 8, v_to = 13\<rparr>, \<lparr>v_array = 1, v_from = 0, v_to = 8\<rparr>]"
    unfolding run by simp
  show ?thesis unfolding v using pool_views_apart [OF _ run] by (simp only: run fst_conv views.simps) simp
qed

text \<open>With a slab of \<open>2\<^sup>32 - 1\<close> bytes the offset turns negative after \<open>2\<^sup>31 + 5\<close> bytes: a long
  request gets an empty view, and the next one memory that is in use.\<close>

lemma wide_slab_overlaps:
  "fst (pool_allocs 4294967295 [2147483647, 5, 2147483647, 8] (pool_create 4294967295)) =
     [Inr \<lparr>v_array = 0, v_from = 0, v_to = 2147483647\<rparr>, Inr \<lparr>v_array = 0, v_from = 2147483648, v_to = 2147483653\<rparr>,
      Inr \<lparr>v_array = 0, v_from = 2147483655, v_to = 2147483655\<rparr>, Inr \<lparr>v_array = 0, v_from = 8, v_to = 16\<rparr>]"
  by (simp add: pool_create_def pool_alloc_def pool_max_def new_array_def pool_slice_def subarray_def clamp_def
      aligned_def Let_def)

end
