(* ===== verification/Emitter.thy ===== *)
theory Emitter
  imports JsValue
begin

text \<open>
  \<open>@protobufjs/eventemitter\<close>, the base class of the rpc service. The listeners of an event are an array,
  and \<open>emit\<close> walks the array it finds at the start while the listeners may call the emitter again:
  \<open>on\<close> appends to this array, \<open>off\<close> of a function splices it, \<open>off\<close> of an event or of everything
  leaves it to the walk and starts another. So the arrays are a store, and \<open>_listeners\<close> maps an event to
  an address. What a listener does is a parameter: the calls it makes, by the state it finds. \<open>None\<close> is a
  run that does not return, or one that uses a name every object inherits as an event.
\<close>

section \<open>State and operations\<close>

text \<open>A listener is a function with its context.\<close>

record ('f, 'c) emitter =
  em_listeners :: "(jstring \<times> nat) list"
  em_arrays :: "('f \<times> 'c) list list"
  em_trace :: "(('f \<times> 'c) \<times> js list) list"

datatype ('f, 'c) call =
    On jstring 'f 'c
  | OffAll
  | OffEvent jstring
  | Off jstring 'f
  | Emit jstring "js list"

definition emitter_new :: "('f, 'c) emitter" where
  "emitter_new = \<lparr>em_listeners = [], em_arrays = [], em_trace = []\<rparr>"

definition listeners :: "('f, 'c) emitter \<Rightarrow> jstring \<Rightarrow> nat option" where
  "listeners em evt = map_of (em_listeners em) evt"

text \<open>\<open>this._listeners[evt] = []\<close>\<close>

definition fresh_array :: "jstring \<Rightarrow> ('f, 'c) emitter \<Rightarrow> nat \<times> ('f, 'c) emitter" where
  "fresh_array evt em =
     (let k = length (em_arrays em)
      in (k, em\<lparr>em_listeners := (evt, k) # filter (\<lambda>p. fst p \<noteq> evt) (em_listeners em),
                em_arrays := em_arrays em @ [[]]\<rparr>))"

definition em_on :: "jstring \<Rightarrow> 'f \<Rightarrow> 'c \<Rightarrow> ('f, 'c) emitter \<Rightarrow> ('f, 'c) emitter" where
  "em_on evt fn ctx em =
     (let (k, em) = (case listeners em evt of Some k \<Rightarrow> (k, em) | None \<Rightarrow> fresh_array evt em)
      in em\<lparr>em_arrays := (em_arrays em)[k := em_arrays em ! k @ [(fn, ctx)]]\<rparr>)"

text \<open>The loop of \<open>off\<close> over the array: \<open>splice(i, 1)\<close> or \<open>++i\<close>.\<close>

fun splice_out :: "'f \<Rightarrow> ('f \<times> 'c) list \<Rightarrow> ('f \<times> 'c) list" where
  "splice_out fn [] = []"
| "splice_out fn (l # ls) = (if fst l = fn then splice_out fn ls else l # splice_out fn ls)"

definition em_off :: "jstring \<Rightarrow> 'f \<Rightarrow> ('f, 'c) emitter \<Rightarrow> ('f, 'c) emitter res" where
  "em_off evt fn em =
     (case listeners em evt of
        None \<Rightarrow> throw (TypeError [])
      | Some k \<Rightarrow> ok (em\<lparr>em_arrays := (em_arrays em)[k := splice_out fn (em_arrays em ! k)]\<rparr>))"

text \<open>The calls that only change the registry.\<close>

definition em_apply :: "('f, 'c) call \<Rightarrow> ('f, 'c) emitter \<Rightarrow> ('f, 'c) emitter res" where
  "em_apply c em =
     (case c of
        On evt fn ctx \<Rightarrow> if inherited evt then None else ok (em_on evt fn ctx em)
      | OffAll \<Rightarrow> ok (em\<lparr>em_listeners := []\<rparr>)
      | OffEvent evt \<Rightarrow> if inherited evt then None else ok (snd (fresh_array evt em))
      | Off evt fn \<Rightarrow> if inherited evt then None else em_off evt fn em
      | Emit evt args \<Rightarrow> ok em)"

text \<open>
  The work to do: a call, or the walk of \<open>emit\<close> over an array from an index on. A listener's calls come
  before the rest of the walk that called it.
\<close>

datatype ('f, 'c) work =
    Do "('f, 'c) call"
  | Walk nat nat "js list"

type_synonym ('f, 'c) reaction = "'f \<times> 'c \<Rightarrow> js list \<Rightarrow> ('f, 'c) emitter \<Rightarrow> ('f, 'c) call list"

partial_function (option) em_run ::
  "('f, 'c) reaction \<Rightarrow> ('f, 'c) work list \<Rightarrow> ('f, 'c) emitter \<Rightarrow> ('f, 'c) emitter res" where
  "em_run react todo em =
     (case todo of
        [] \<Rightarrow> ok em
      | Walk k i args # todo \<Rightarrow>
          if i < length (em_arrays em ! k)
          then let l = em_arrays em ! k ! i; em = em\<lparr>em_trace := em_trace em @ [(l, args)]\<rparr>
               in em_run react (map Do (react l args em) @ Walk k (i + 1) args # todo) em
          else em_run react todo em
      | Do c # todo \<Rightarrow>
          (case c of
             Emit evt args \<Rightarrow>
               if inherited evt then None
               else (case listeners em evt of
                       None \<Rightarrow> em_run react todo em
                     | Some k \<Rightarrow> em_run react (Walk k 0 args # todo) em)
           | _ \<Rightarrow> bindr (em_apply c em) (\<lambda>em. em_run react todo em)))"

lemma em_run_simps [simp]:
  "em_run react [] em = ok em"
  "em_run react (Walk k i args # todo) em =
     (if i < length (em_arrays em ! k)
      then let l = em_arrays em ! k ! i; em = em\<lparr>em_trace := em_trace em @ [(l, args)]\<rparr>
           in em_run react (map Do (react l args em) @ Walk k (i + 1) args # todo) em
      else em_run react todo em)"
  "em_run react (Do (Emit evt args) # todo) em =
     (if inherited evt then None
      else case listeners em evt of None \<Rightarrow> em_run react todo em | Some k \<Rightarrow> em_run react (Walk k 0 args # todo) em)"
  "(\<And>evt args. c \<noteq> Emit evt args) \<Longrightarrow>
     em_run react (Do c # todo) em = bindr (em_apply c em) (\<lambda>em. em_run react todo em)"
     apply (subst em_run.simps, simp)
    apply (subst em_run.simps, simp)
   apply (subst em_run.simps, simp)
  by (subst em_run.simps) (cases c; auto)

section \<open>The registry refines a table of lists\<close>

text \<open>The abstract registry: the listeners of each event; \<open>None\<close> if it had none since the start or the last
  \<open>off()\<close> of everything.\<close>

definition registered :: "('f, 'c) emitter \<Rightarrow> jstring \<Rightarrow> ('f \<times> 'c) list option" where
  "registered em evt = map_option (\<lambda>k. em_arrays em ! k) (listeners em evt)"

fun registry_step ::
  "('f, 'c) call \<Rightarrow> (jstring \<Rightarrow> ('f \<times> 'c) list option) \<Rightarrow> (jstring \<Rightarrow> ('f \<times> 'c) list option) option" where
  "registry_step (On evt fn ctx) R =
     Some (R(evt \<mapsto> (case R evt of None \<Rightarrow> [] | Some ls \<Rightarrow> ls) @ [(fn, ctx)]))"
| "registry_step OffAll R = Some Map.empty"
| "registry_step (OffEvent evt) R = Some (R(evt \<mapsto> []))"
| "registry_step (Off evt fn) R =
     (case R evt of None \<Rightarrow> None | Some ls \<Rightarrow> Some (R(evt \<mapsto> filter (\<lambda>l. fst l \<noteq> fn) ls)))"
| "registry_step (Emit evt args) R = Some R"

text \<open>No two events share an array.\<close>

definition em_ok :: "('f, 'c) emitter \<Rightarrow> bool" where
  "em_ok em \<longleftrightarrow> (\<forall>evt k. listeners em evt = Some k \<longrightarrow> k < length (em_arrays em) \<and>
     (\<forall>evt'. listeners em evt' = Some k \<longrightarrow> evt' = evt))"

lemma em_ok_new: "em_ok emitter_new"
  by (simp add: em_ok_def emitter_new_def listeners_def)

lemma splice_out_filter: "splice_out fn ls = filter (\<lambda>l. fst l \<noteq> fn) ls"
  by (induction ls) auto

lemma listeners_fresh: "listeners (snd (fresh_array evt em)) = (listeners em)(evt \<mapsto> length (em_arrays em))"
proof
  fix e
  have "map_of (filter (\<lambda>p. fst p \<noteq> evt) ps) e = (if e = evt then None else map_of ps e)" for ps :: "(jstring \<times> nat) list"
    by (induction ps) auto
  then show "listeners (snd (fresh_array evt em)) e = ((listeners em)(evt \<mapsto> length (em_arrays em))) e"
    by (simp add: listeners_def fresh_array_def Let_def)
qed

lemma fresh_ok:
  assumes "em_ok em"
  shows "em_ok (snd (fresh_array evt em))" "registered (snd (fresh_array evt em)) = (registered em)(evt \<mapsto> [])"
proof -
  have arrays: "em_arrays (snd (fresh_array evt em)) = em_arrays em @ [[]]" by (simp add: fresh_array_def Let_def)
  show "em_ok (snd (fresh_array evt em))"
    using assms unfolding em_ok_def listeners_fresh arrays by (auto simp: less_Suc_eq split: if_splits)
  show "registered (snd (fresh_array evt em)) = (registered em)(evt \<mapsto> [])"
    using assms unfolding registered_def listeners_fresh arrays em_ok_def
    by (intro ext) (auto simp: nth_append map_option_case split: option.split)
qed

lemma listeners_update [simp]: "listeners (em\<lparr>em_arrays := as\<rparr>) = listeners em"
  by (simp add: listeners_def fun_eq_iff)

lemma update_ok:
  assumes "em_ok em" "listeners em evt = Some k"
  shows "em_ok (em\<lparr>em_arrays := (em_arrays em)[k := ls]\<rparr>)"
    "registered (em\<lparr>em_arrays := (em_arrays em)[k := ls]\<rparr>) = (registered em)(evt \<mapsto> ls)"
proof -
  show "em_ok (em\<lparr>em_arrays := (em_arrays em)[k := ls]\<rparr>)" using assms(1) by (simp add: em_ok_def)
  show "registered (em\<lparr>em_arrays := (em_arrays em)[k := ls]\<rparr>) = (registered em)(evt \<mapsto> ls)"
    using assms unfolding registered_def em_ok_def
    by (intro ext) (auto simp: nth_list_update map_option_case split: option.split)
qed

lemma apply_refines:
  assumes "em_ok em" "em_apply c em \<noteq> None"
  shows "(case registry_step c (registered em) of
      None \<Rightarrow> em_apply c em = throw (TypeError [])
    | Some R \<Rightarrow> \<exists>em'. em_apply c em = ok em' \<and> em_ok em' \<and> registered em' = R)"
proof (cases c)
  case (On evt fn ctx)
  show ?thesis
  proof (cases "listeners em evt")
    case None
    define f where "f = snd (fresh_array evt em)"
    have f: "fresh_array evt em = (length (em_arrays em), f)" by (simp add: f_def fresh_array_def Let_def)
    have l: "listeners f evt = Some (length (em_arrays em))" by (simp add: f_def listeners_fresh)
    have e: "em_arrays f ! length (em_arrays em) = []" by (simp add: f_def fresh_array_def Let_def)
    show ?thesis
      using assms(2) None fresh_ok [OF assms(1), of evt] update_ok [OF _ l, of "[(fn, ctx)]"]
      by (simp add: On em_apply_def em_on_def f e registered_def [of em evt] f_def [symmetric] split: if_splits)
  next
    case (Some k)
    then show ?thesis
      using assms(2) update_ok [OF assms(1) Some, of "em_arrays em ! k @ [(fn, ctx)]"]
      by (simp add: On em_apply_def em_on_def registered_def [of em evt] split: if_splits)
  qed
next
  case OffAll
  then show ?thesis by (auto simp: em_apply_def em_ok_def registered_def listeners_def)
next
  case (OffEvent evt)
  then show ?thesis using assms(2) fresh_ok [OF assms(1), of evt] by (simp add: em_apply_def split: if_splits)
next
  case (Off evt fn)
  show ?thesis
  proof (cases "listeners em evt")
    case None
    then show ?thesis using assms(2) by (simp add: Off em_apply_def em_off_def registered_def split: if_splits)
  next
    case (Some k)
    then show ?thesis
      using assms(2) update_ok [OF assms(1) Some, of "splice_out fn (em_arrays em ! k)"]
      by (simp add: Off em_apply_def em_off_def registered_def [of em evt] splice_out_filter split: if_splits)
  qed
next
  case (Emit evt args)
  then show ?thesis using assms(1) by (simp add: em_apply_def)
qed

fun em_calls :: "('f, 'c) call list \<Rightarrow> ('f, 'c) emitter \<Rightarrow> ('f, 'c) emitter res" where
  "em_calls [] em = ok em"
| "em_calls (c # cs) em = bindr (em_apply c em) (em_calls cs)"

fun registry ::
  "('f, 'c) call list \<Rightarrow> (jstring \<Rightarrow> ('f \<times> 'c) list option) \<Rightarrow> (jstring \<Rightarrow> ('f \<times> 'c) list option) option" where
  "registry [] R = Some R"
| "registry (c # cs) R = Option.bind (registry_step c R) (registry cs)"

lemma calls_refine:
  assumes "em_ok em" "em_calls cs em \<noteq> None"
  shows "(case registry cs (registered em) of
      None \<Rightarrow> em_calls cs em = throw (TypeError [])
    | Some R \<Rightarrow> \<exists>em'. em_calls cs em = ok em' \<and> registered em' = R)"
  using assms
proof (induction cs arbitrary: em)
  case (Cons c cs)
  have "em_apply c em \<noteq> None" using Cons.prems(2) by (metis bindr_simps(1) em_calls.simps(2))
  note step = apply_refines [OF Cons.prems(1) this]
  show ?case
  proof (cases "registry_step c (registered em)")
    case None
    then show ?thesis using step by simp
  next
    case (Some R)
    then obtain em' where "em_apply c em = ok em'" "em_ok em'" "registered em' = R" using step by auto
    then show ?thesis using Cons.IH [of em'] Cons.prems(2) Some by (simp split: option.splits)
  qed
qed simp

section \<open>Properties\<close>

text \<open>C36. The emitter refines a table: after any sequence of calls of \<open>on\<close> and of the three forms of \<open>off\<close>
  each event has the listeners registered for it, in order and less those taken off, and no other event is affected.
  The only error is \<open>off\<close> of a function for an event without a list, which throws a TypeError instead of doing
  nothing: an event that had no listener yet, or none since everything was taken off. Events with a name that every
  object inherits are left out.\<close>

theorem emitter_refines:
  assumes "em_calls cs emitter_new \<noteq> None"
  shows "(case registry cs Map.empty of
      None \<Rightarrow> em_calls cs emitter_new = throw (TypeError [])
    | Some R \<Rightarrow> \<exists>em. em_calls cs emitter_new = ok em \<and> registered em = R)"
proof -
  have new: "registered emitter_new = Map.empty"
    by (simp add: registered_def emitter_new_def listeners_def fun_eq_iff)
  show ?thesis using calls_refine [OF em_ok_new assms] unfolding new .
qed

theorem emitter_refines_witness:
  "em_calls [On (js_str ''data'') (1 :: nat) (), Off (js_str ''end'') 1] emitter_new = throw (TypeError []) \<and>
   em_calls [On (js_str ''data'') (1 :: nat) (), OffAll, Off (js_str ''data'') 1] emitter_new = throw (TypeError [])"
proof -
  have "em_calls [On (js_str ''data'') (1 :: nat) (), Off (js_str ''end'') 1] emitter_new \<noteq> None"
    "em_calls [On (js_str ''data'') (1 :: nat) (), OffAll, Off (js_str ''data'') 1] emitter_new \<noteq> None"
    by (simp_all add: em_apply_def inherited_def em_on_def em_off_def fresh_array_def emitter_new_def listeners_def Let_def)
  from emitter_refines [OF this(1)] emitter_refines [OF this(2)] show ?thesis by simp
qed

lemma walk_quiet:
  assumes "\<forall>l \<in> set (drop i (em_arrays em ! k)). \<forall>em'. react l args em' = []"
  shows "em_run react (Walk k i args # todo) em =
    em_run react todo (em\<lparr>em_trace := em_trace em @ map (\<lambda>l. (l, args)) (drop i (em_arrays em ! k))\<rparr>)"
  using assms
proof (induction "length (em_arrays em ! k) - i" arbitrary: i em)
  case (Suc n)
  let ?ls = "em_arrays em ! k"
  let ?em = "em\<lparr>em_trace := em_trace em @ [(?ls ! i, args)]\<rparr>"
  have i: "i < length ?ls" using Suc.hyps(2) by linarith
  then have d: "drop i ?ls = ?ls ! i # drop (Suc i) ?ls" by (simp add: Cons_nth_drop_Suc)
  have "em_run react (Walk k i args # todo) em = em_run react (Walk k (Suc i) args # todo) ?em"
    using i Suc.prems by (simp add: d Let_def)
  also have "\<dots> = em_run react todo (?em\<lparr>em_trace := em_trace ?em @ map (\<lambda>l. (l, args)) (drop (Suc i) (em_arrays ?em ! k))\<rparr>)"
    using Suc.prems Suc.hyps(2) by (intro Suc.hyps(1)) (simp_all add: d)
  finally show ?case by (simp add: d)
qed simp

text \<open>\<open>emit\<close> returns and calls every listener of its event once, in the order of registration, with
  the arguments given, when these leave the emitter alone.\<close>

theorem emit_calls_all:
  assumes "registered em evt = Some ls" "\<forall>l \<in> set ls. \<forall>em'. react l args em' = []" "\<not> inherited evt"
  shows "em_run react [Do (Emit evt args)] em = ok (em\<lparr>em_trace := em_trace em @ map (\<lambda>l. (l, args)) ls\<rparr>)"
proof -
  obtain k where k: "listeners em evt = Some k" "em_arrays em ! k = ls" using assms(1) by (auto simp: registered_def)
  show ?thesis using assms(2,3) k walk_quiet [of 0 em k react args "[]"] by simp
qed

definition two_listeners :: "(nat, unit) emitter" where
  "two_listeners = em_on (js_str ''data'') 2 () (em_on (js_str ''data'') 1 () emitter_new)"

lemma two_registered: "registered two_listeners (js_str ''data'') = Some [(1, ()), (2, ())]"
  by (simp add: two_listeners_def em_on_def emitter_new_def fresh_array_def listeners_def registered_def Let_def)

theorem emit_calls_all_witness:
  "em_run (\<lambda>l args em. []) [Do (Emit (js_str ''data'') [Null])] two_listeners =
     ok (two_listeners\<lparr>em_trace := em_trace two_listeners @ [((1, ()), [Null]), ((2, ()), [Null])]\<rparr>)"
  using emit_calls_all [OF two_registered, of "\<lambda>l args em. []" "[Null]"] by (simp add: inherited_def)

text \<open>A listener that takes itself off while it is called makes \<open>emit\<close> skip the next one: the array
  is spliced under the walk, whose index goes on.\<close>

theorem emit_skips_after_off:
  assumes "registered em evt = Some (l # l' # ls)" "em_ok em" "\<not> inherited evt"
    and "\<forall>em'. react l args em' = [Off evt (fst l)]" "\<forall>x \<in> set ls. \<forall>em'. react x args em' = []"
    and "fst l \<notin> fst ` set (l' # ls)"
  shows "\<exists>em'. em_run react [Do (Emit evt args)] em = ok em' \<and>
    em_trace em' = em_trace em @ map (\<lambda>x. (x, args)) (l # ls) \<and> registered em' evt = Some (l' # ls)"
proof -
  obtain k where k: "listeners em evt = Some k" "em_arrays em ! k = l # l' # ls"
    using assms(1) by (auto simp: registered_def)
  then have True: "k < length (em_arrays em)" using assms(2) by (simp add: em_ok_def)
  let ?em = "em\<lparr>em_trace := em_trace em @ [(l, args)]\<rparr>"
  let ?off = "?em\<lparr>em_arrays := (em_arrays em)[k := l' # ls]\<rparr>"
  have "\<forall>x \<in> set (l' # ls). fst x \<noteq> fst l" using assms(6) by (metis imageI)
  then have s: "splice_out (fst l) (l # l' # ls) = l' # ls"
    unfolding splice_out_filter by (simp add: filter_id_conv)
  have "listeners ?em = listeners em" by (simp add: listeners_def fun_eq_iff)
  then have off: "em_apply (Off evt (fst l)) ?em = ok ?off"
    using k s assms(3) by (simp add: em_apply_def em_off_def del: splice_out.simps)
  have "em_run react [Do (Emit evt args)] em = em_run react [Do (Off evt (fst l)), Walk k 1 args] ?em"
    using k assms(3,4) by (simp add: Let_def)
  also have "\<dots> = em_run react [Walk k 1 args] ?off"
    by (subst em_run_simps(4)) (simp_all only: off bindr_simps call.distinct not_False_eq_True)
  also have "\<dots> = ok (?off\<lparr>em_trace := em_trace ?off @ map (\<lambda>l. (l, args)) (drop 1 (em_arrays ?off ! k))\<rparr>)"
    using assms(5) True by (subst walk_quiet) simp_all
  finally show ?thesis using True k by (simp add: registered_def listeners_def)
qed

lemma two_ok: "em_ok two_listeners"
  by (simp add: two_listeners_def em_on_def emitter_new_def fresh_array_def listeners_def em_ok_def Let_def)

theorem emit_skips_after_off_witness:
  "\<exists>em'. em_run (\<lambda>l args em. if fst l = 1 then [Off (js_str ''data'') 1] else []) [Do (Emit (js_str ''data'') [])] two_listeners = ok em' \<and>
    em_trace em' = em_trace two_listeners @ [((1, ()), [])] \<and> registered em' (js_str ''data'') = Some [(2, ())]"
  using emit_skips_after_off [OF two_registered two_ok, of "\<lambda>l args em. if fst l = 1 then [Off (js_str ''data'') 1] else []" "[]"]
  by (simp add: inherited_def)

end
