(* ===== verification/Client.thy ===== *)
theory Client
  imports "HOL-Library.Multiset" PlainLaws
begin

text \<open>
  The daemon client of the GUI, \<open>services/TilboDaemon.qml\<close>: calls go to the daemon as lines of JSON
  with a number each, the callback of a call waits under its number in \<open>_pending\<close>, and a line from the
  daemon is an event or the response that runs one of the callbacks. When the socket is lost all of
  them run with an error.

  The code that is called back is a parameter: \<open>react\<close> gives, for a callback or a signal and the
  state of the GUI, the new state, the calls it makes and whether it throws after them. \<open>parse\<close> is the
  engine's \<open>JSON.parse\<close>, \<open>None\<close> where that throws. The outputs of a step are the frames written, the
  callbacks run, the signals emitted and the restart of the reconnection timer.

  An exception of a callback matters in one place: the loop over the waiting calls of a lost
  connection has no \<open>try\<close>, so it ends there, with the registry already emptied and the timer not
  started. After a response the callback is the last thing that runs, and the engine logs what it
  throws; an exception in the handler of a signal stays in that handler.

  The theorems: no call is answered twice or gets the answer of another one; the loss of the
  connection answers every call in the order of their numbers up to the first callback that throws,
  and each call is answered or still waiting if none does.
\<close>

section \<open>State and effects\<close>

record 'c client =
  pending :: "(jstring \<times> 'c) list"
  nextID :: u32

datatype 'c stimulus =
    Callback 'c js js
  | Signal string "js list"

datatype 'c effect =
    Sent jstring js 'c
  | Invoked jstring 'c js js
  | Emitted string "js list"
  | TimerRestarted

type_synonym ('c, 'g) react = "'c stimulus \<Rightarrow> 'g \<Rightarrow> 'g \<times> (js \<times> 'c) list \<times> bool"

type_synonym ('c, 'g) config = "'g \<times> 'c client"

definition client_start :: "'c client" where
  "client_start = \<lparr>pending = [], nextID = 1\<rparr>"

section \<open>Calls\<close>

text \<open>\<open>String(n)\<close> of a QML \<open>int\<close>, and the increment, which wraps.\<close>

definition id_string :: "u32 \<Rightarrow> jstring" where
  "id_string n = number_to_string (Fin (of_int (sint n)))"

definition call_frame :: "jstring \<Rightarrow> js \<Rightarrow> js" where
  "call_frame i payload = plain [(js_str ''requestId'', String i), (js_str ''request'', payload)]"

definition client_call :: "js \<Rightarrow> 'c \<Rightarrow> 'c client \<Rightarrow> 'c client \<times> 'c effect list" where
  "client_call payload cb d =
     (let i = id_string (nextID d)
      in (\<lparr>pending = js_put (i, cb) (pending d), nextID = nextID d + 1\<rparr>, [Sent i (call_frame i payload) cb]))"

fun client_calls :: "(js \<times> 'c) list \<Rightarrow> 'c client \<Rightarrow> 'c client \<times> 'c effect list" where
  "client_calls [] d = (d, [])"
| "client_calls ((payload, cb) # calls) d =
     (let (d, out) = client_call payload cb d; (d, outs) = client_calls calls d in (d, out @ outs))"

text \<open>Running a callback or the handlers of a signal, with the calls these make.\<close>

definition stimulate ::
  "('c, 'g) react \<Rightarrow> 'c stimulus \<Rightarrow> ('c, 'g) config \<Rightarrow> ('c, 'g) config \<times> 'c effect list" where
  "stimulate react s cfg =
     (let (g, calls, _) = react s (fst cfg); (d, outs) = client_calls calls (snd cfg) in ((g, d), outs))"

definition invoke ::
  "('c, 'g) react \<Rightarrow> jstring \<Rightarrow> 'c \<Rightarrow> js \<Rightarrow> js \<Rightarrow> ('c, 'g) config \<Rightarrow> ('c, 'g) config \<times> 'c effect list" where
  "invoke react i cb result err cfg =
     (let (cfg, outs) = stimulate react (Callback cb result err) cfg in (cfg, Invoked i cb result err # outs))"

definition throws :: "('c, 'g) react \<Rightarrow> 'c stimulus \<Rightarrow> 'g \<Rightarrow> bool" where
  "throws react s g = snd (snd (react s g))"

definition emit ::
  "('c, 'g) react \<Rightarrow> string \<Rightarrow> js list \<Rightarrow> ('c, 'g) config \<Rightarrow> ('c, 'g) config \<times> 'c effect list" where
  "emit react name args cfg =
     (let (cfg, outs) = stimulate react (Signal name args) cfg in (cfg, Emitted name args # outs))"

section \<open>Lines from the daemon\<close>

definition or_value :: "js \<Rightarrow> js \<Rightarrow> js" where
  "or_value v w = (if truthy v then v else w)"

text \<open>\<open>Number(v.k || 0)\<close>\<close>

definition number_or_0 :: "js \<Rightarrow> string \<Rightarrow> js res" where
  "number_or_0 v k = bindr (get_prop v k) (\<lambda>x. bindr (to_number (or_value x (int_js 0))) (\<lambda>n. ok (Number n)))"

definition prop_or :: "js \<Rightarrow> string \<Rightarrow> js \<Rightarrow> js res" where
  "prop_or v k w = bindr (get_prop v k) (\<lambda>x. ok (or_value x w))"

text \<open>The signal an event stands for, if any, with its arguments before their coercion to the declared types.\<close>

definition event_signal :: "js \<Rightarrow> (string \<times> js list) option res" where
  "event_signal ev =
     bindr (get_prop ev ''fileTagged'') (\<lambda>t.
     if truthy t
     then bindr (prop_or t ''path'' (String [])) (\<lambda>p. bindr (prop_or t ''added'' (Array [])) (\<lambda>a.
          bindr (prop_or t ''removed'' (Array [])) (\<lambda>r. ok (Some (''fileTagged'', [p, a, r])))))
     else bindr (get_prop ev ''indexUpdated'') (\<lambda>u.
     if truthy u
     then bindr (number_or_0 u ''filesTotal'') (\<lambda>f. bindr (number_or_0 u ''tagsTotal'') (\<lambda>t.
          ok (Some (''indexUpdated'', [f, t]))))
     else bindr (get_prop ev ''daemonStateChanged'') (\<lambda>s.
     if truthy s
     then bindr (prop_or s ''state'' (String [])) (\<lambda>x. ok (Some (''daemonStateChanged'', [x])))
     else bindr (get_prop ev ''showWindow'') (\<lambda>w.
     if truthy w
     then bindr (prop_or w ''path'' (String [])) (\<lambda>x. ok (Some (''showWindow'', [x])))
     else ok None))))"

definition remove_key :: "jstring \<Rightarrow> (jstring \<times> 'v) list \<Rightarrow> (jstring \<times> 'v) list" where
  "remove_key i ps = filter (\<lambda>kv. fst kv \<noteq> i) ps"

text \<open>What the callback of a response gets.\<close>

definition reply_args :: "js \<Rightarrow> (js \<times> js) res" where
  "reply_args msg =
     bindr (get_prop msg ''response'') (\<lambda>r.
     let resp = or_value r (plain [])
     in bindr (get_prop resp ''error'') (\<lambda>e.
        if truthy e
        then bindr (prop_or e ''message'' (String (js_str ''unknown error''))) (\<lambda>m. ok (Null, m))
        else ok (resp, Null)))"

definition handle_response ::
  "('c, 'g) react \<Rightarrow> js \<Rightarrow> ('c, 'g) config \<Rightarrow> (('c, 'g) config \<times> 'c effect list) res" where
  "handle_response react msg cfg =
     bindr (get_prop msg ''requestId'') (\<lambda>rid.
     if rid = Undefined then ok (cfg, [])
     else bindr (to_string rid) (\<lambda>i.
       case map_of (pending (snd cfg)) i of
         None \<Rightarrow> if inherited i then None else ok (cfg, [])
       | Some cb \<Rightarrow>
           bindr (reply_args msg) (\<lambda>(result, err).
             ok (invoke react i cb result err (fst cfg, (snd cfg)\<lparr>pending := remove_key i (pending (snd cfg))\<rparr>)))))"

definition handle_message ::
  "('c, 'g) react \<Rightarrow> js \<Rightarrow> ('c, 'g) config \<Rightarrow> (('c, 'g) config \<times> 'c effect list) res" where
  "handle_message react msg cfg =
     bindr (get_prop msg ''event'') (\<lambda>ev.
     if ev \<noteq> Undefined
     then bindr (event_signal ev) (\<lambda>s. case s of
            None \<Rightarrow> ok (cfg, [])
          | Some (name, args) \<Rightarrow> ok (emit react name args cfg))
     else handle_response react msg cfg)"

definition handle_line ::
  "(jstring \<Rightarrow> js option) \<Rightarrow> ('c, 'g) react \<Rightarrow> jstring \<Rightarrow> ('c, 'g) config \<Rightarrow> (('c, 'g) config \<times> 'c effect list) res" where
  "handle_line parse react line cfg =
     (if line = [] \<or> trim line = [] then ok (cfg, [])
      else case parse line of
        None \<Rightarrow> ok (cfg, [])
      | Some msg \<Rightarrow> handle_message react msg cfg)"

section \<open>Losing the connection\<close>

definition disconnected_error :: js where
  "disconnected_error = String (js_str ''daemon disconnected'')"

text \<open>The loop over the waiting calls; the flag tells that a callback has thrown, which ends it.\<close>

fun fail_all ::
  "('c, 'g) react \<Rightarrow> (jstring \<times> 'c) list \<Rightarrow> ('c, 'g) config \<Rightarrow> ('c, 'g) config \<times> 'c effect list \<times> bool" where
  "fail_all react [] cfg = (cfg, [], False)"
| "fail_all react ((i, cb) # waiting) cfg =
     (let threw = throws react (Callback cb Null disconnected_error) (fst cfg);
          (cfg, out) = invoke react i cb Null disconnected_error cfg
      in if threw then (cfg, out, True)
         else let (cfg, outs, threw) = fail_all react waiting cfg in (cfg, out @ outs, threw))"

definition handle_disconnect ::
  "('c, 'g) react \<Rightarrow> ('c, 'g) config \<Rightarrow> ('c, 'g) config \<times> 'c effect list" where
  "handle_disconnect react cfg =
     (let (cfg', outs, threw) = fail_all react (pending (snd cfg)) (fst cfg, (snd cfg)\<lparr>pending := []\<rparr>)
      in (cfg', if threw then outs else outs @ [TimerRestarted]))"

text \<open>No callback throws when it is told that the connection is lost.\<close>

definition calm :: "('c, 'g) react \<Rightarrow> bool" where
  "calm react \<longleftrightarrow> (\<forall>cb g. \<not> throws react (Callback cb Null disconnected_error) g)"

section \<open>Runs\<close>

datatype 'c event =
    Call js 'c
  | Line jstring
  | Disconnected

text \<open>
  An exception of the handler itself comes before it has changed anything, one of the callback of a
  response after all its changes; the engine logs it and goes on with the next event.
\<close>

definition client_step ::
  "(jstring \<Rightarrow> js option) \<Rightarrow> ('c, 'g) react \<Rightarrow> 'c event \<Rightarrow> ('c, 'g) config \<Rightarrow> (('c, 'g) config \<times> 'c effect list) option" where
  "client_step parse react ev cfg =
     (case ev of
        Call payload cb \<Rightarrow> (let (d, out) = client_call payload cb (snd cfg) in Some ((fst cfg, d), out))
      | Line line \<Rightarrow>
          (case handle_line parse react line cfg of
             None \<Rightarrow> None
           | Some (Inl e) \<Rightarrow> Some (cfg, [])
           | Some (Inr r) \<Rightarrow> Some r)
      | Disconnected \<Rightarrow> Some (handle_disconnect react cfg))"

fun client_run ::
  "(jstring \<Rightarrow> js option) \<Rightarrow> ('c, 'g) react \<Rightarrow> 'c event list \<Rightarrow> ('c, 'g) config \<Rightarrow> (('c, 'g) config \<times> 'c effect list) option" where
  "client_run parse react [] cfg = Some (cfg, [])"
| "client_run parse react (ev # evs) cfg =
     (case client_step parse react ev cfg of
        None \<Rightarrow> None
      | Some (cfg, out) \<Rightarrow>
          (case client_run parse react evs cfg of None \<Rightarrow> None | Some (cfg, outs) \<Rightarrow> Some (cfg, out @ outs)))"

section \<open>Ids\<close>

lemma array_index_dec:
  assumes "0 < n" "n < 4294967295"
  shows "array_index (dec_string n) = Some n"
proof -
  have d: "list_all (\<lambda>c. 48 \<le> c \<and> c \<le> 57) (dec_string m)" for m
    using dec_string_digits [of m] by (simp add: is_digit_def list_all_iff)
  have h: "hd (dec_string m) \<noteq> 48" if "0 < m" for m
    using that
  proof (induction m rule: dec_string.induct)
    case (1 m)
    show ?case
    proof (cases "m < 10")
      case True
      then have "unat (48 + of_nat m :: u16) \<noteq> unat (48 :: u16)" using 1 by (simp add: unat_digit)
      then have "(48 + of_nat m :: u16) \<noteq> 48" by metis
      then show ?thesis using True by (simp add: dec_string.simps [of m])
    next
      case False
      then show ?thesis using 1 by (simp add: dec_string.simps [of m])
    qed
  qed
  show ?thesis
    using d [of n] h [of n] assms by (simp add: array_index_def decimal_dec_string)
qed

lemma dec_not_proto: "dec_string n \<noteq> proto_key"
  using dec_string_digits [of n] by (auto simp: proto_key_def is_digit_def)

lemma dec_eq [simp]: "dec_string m = dec_string n \<longleftrightarrow> m = n"
  by (metis decimal_dec_string)

lemma id_string_nat:
  assumes "n < 2 ^ 31"
  shows "id_string (of_nat n) = dec_string n"
proof -
  have s: "sint (of_nat n :: u32) = int n"
  proof -
    have w: "(of_nat n :: u32) = word_of_int (int n)" by simp
    show ?thesis unfolding w int_word_sint using assms by (simp add: mod_pos_pos_trivial)
  qed
  have "(of_nat n :: rat) \<le> of_nat (2 ^ 31)" using assms by (simp only: of_nat_le_iff)
  then show ?thesis by (simp add: id_string_def s number_to_string_def)
qed

section \<open>Calls and answers balance\<close>

fun sent :: "'c effect list \<Rightarrow> (jstring \<times> 'c) list" where
  "sent [] = []"
| "sent (e # es) = (case e of Sent i frame cb \<Rightarrow> (i, cb) # sent es | _ \<Rightarrow> sent es)"

fun invoked :: "'c effect list \<Rightarrow> (jstring \<times> 'c) list" where
  "invoked [] = []"
| "invoked (e # es) = (case e of Invoked i cb r err \<Rightarrow> (i, cb) # invoked es | _ \<Rightarrow> invoked es)"

lemma sent_append [simp]: "sent (xs @ ys) = sent xs @ sent ys"
  by (induction xs) (auto split: effect.split)

lemma invoked_append [simp]: "invoked (xs @ ys) = invoked xs @ invoked ys"
  by (induction xs) (auto split: effect.split)

text \<open>The calls numbered below \<open>k\<close> that wait do so in the order of their numbers.\<close>

definition orderly :: "nat \<Rightarrow> 'c client \<Rightarrow> bool" where
  "orderly k d \<longleftrightarrow>
     0 < k \<and> nextID d = of_nat k \<and>
     (\<exists>ns. map fst (pending d) = map dec_string ns \<and> sorted_wrt (<) ns \<and> (\<forall>n \<in> set ns. 0 < n \<and> n < k))"

lemma orderly_start: "orderly 1 client_start"
  by (simp add: orderly_def client_start_def)

lemma orderly_distinct: "orderly k d \<Longrightarrow> distinct (map fst (pending d))"
proof -
  assume "orderly k d"
  then obtain ns where ns: "map fst (pending d) = map dec_string ns" "sorted_wrt (<) ns"
    unfolding orderly_def by blast
  show ?thesis
    unfolding ns(1) using ns(2) by (auto simp: strict_sorted_iff distinct_map inj_on_def)
qed

lemma insert_index_last:
  "\<forall>x \<in> set xs. \<exists>i < n. array_index (fst x) = Some i \<Longrightarrow> insert_index n kv xs = xs @ [kv]"
  by (induction xs) auto

text \<open>
  What a part of a run does: it sends \<open>out\<close>'s calls under the next numbers, and what was waiting
  (\<open>before\<close>) and is sent is afterwards waiting (\<open>after\<close>) or has been invoked.
\<close>

definition balanced :: "nat \<Rightarrow> (jstring \<times> 'c) multiset \<Rightarrow> 'c effect list \<Rightarrow> (jstring \<times> 'c) multiset \<Rightarrow> bool" where
  "balanced k before out after \<longleftrightarrow>
     map fst (sent out) = map dec_string [k..<k + length (sent out)] \<and>
     before + mset (sent out) = after + mset (invoked out)"

lemma balanced_append:
  assumes "balanced k X out Y" "balanced (k + length (sent out)) Y outs Z"
  shows "balanced k X (out @ outs) Z"
proof -
  have "map dec_string [k..<k + length (sent (out @ outs))] =
      map dec_string [k..<k + length (sent out)] @
      map dec_string [k + length (sent out)..<(k + length (sent out)) + length (sent outs)]"
    by (simp only: sent_append length_append add.assoc [symmetric] upt_add_eq_append [OF le_add1] map_append)
  moreover have "X + mset (sent (out @ outs)) = Z + mset (invoked (out @ outs))"
  proof -
    have "X + mset (sent (out @ outs)) = (X + mset (sent out)) + mset (sent outs)" by simp
    also have "\<dots> = (Y + mset (sent outs)) + mset (invoked out)"
      using assms(1) by (simp add: balanced_def ac_simps)
    also have "\<dots> = Z + mset (invoked (out @ outs))"
      using assms(2) by (simp add: balanced_def ac_simps)
    finally show ?thesis .
  qed
  ultimately show ?thesis using assms unfolding balanced_def sent_append map_append by metis
qed

lemma balanced_frame: "balanced k X out Y \<Longrightarrow> balanced k (X + F) out (Y + F)"
  unfolding balanced_def by (simp add: ac_simps)

lemma call_balanced:
  assumes d: "orderly k d" "k < 2 ^ 31" and c: "client_call payload cb d = (d', out)"
  shows "orderly (k + length (sent out)) d'" "balanced k (mset (pending d)) out (mset (pending d'))"
    "invoked out = []" "length (sent out) = 1"
proof -
  obtain ns where ns: "map fst (pending d) = map dec_string ns" "sorted_wrt (<) ns" "\<forall>n \<in> set ns. 0 < n \<and> n < k"
    and k: "0 < k" "nextID d = of_nat k"
    using d unfolding orderly_def by blast
  have i: "id_string (of_nat k) = dec_string k" using d(2) by (rule id_string_nat)
  have f: "dec_string k \<notin> set (map fst (pending d))" using ns by auto
  have "\<forall>x \<in> set (pending d). \<exists>j < k. array_index (fst x) = Some j"
  proof
    fix x assume "x \<in> set (pending d)"
    then have "fst x \<in> set (map dec_string ns)" unfolding ns(1) [symmetric] by simp
    then obtain n where "n \<in> set ns" "fst x = dec_string n" by auto
    then show "\<exists>j < k. array_index (fst x) = Some j" using ns(3) d(2) array_index_dec [of n] by auto
  qed
  then have p: "js_put (dec_string k, cb) (pending d) = pending d @ [(dec_string k, cb)]"
    using f k d(2) array_index_dec [of k] insert_index_last [of "pending d" k "(dec_string k, cb)"]
    by (simp add: js_put_def dec_not_proto)
  have d': "d' = \<lparr>pending = pending d @ [(dec_string k, cb)], nextID = of_nat (Suc k)\<rparr>"
    and out: "out = [Sent (dec_string k) (call_frame (dec_string k) payload) cb]"
    using c unfolding client_call_def Let_def k(2) i p by (auto simp: add.commute)
  show "length (sent out) = 1" "invoked out = []" by (simp_all add: out)
  show "balanced k (mset (pending d)) out (mset (pending d'))" by (simp add: balanced_def d' out)
  have "map fst (pending d') = map dec_string (ns @ [k])" "sorted_wrt (<) (ns @ [k])"
    "\<forall>n \<in> set (ns @ [k]). 0 < n \<and> n < Suc k" "nextID d' = of_nat (Suc k)"
    using ns k by (auto simp: d' sorted_wrt_append)
  then have "orderly (Suc k) d'" unfolding orderly_def by blast
  then show "orderly (k + length (sent out)) d'" by (simp add: out)
qed

text \<open>A part of a run from the number \<open>k\<close> on, with what was waiting before it.\<close>

definition proceeds :: "nat \<Rightarrow> (jstring \<times> 'c) multiset \<Rightarrow> 'c effect list \<Rightarrow> 'c client \<Rightarrow> bool" where
  "proceeds k before out d \<longleftrightarrow> orderly (k + length (sent out)) d \<and> balanced k before out (mset (pending d))"

lemma proceeds_append:
  assumes "proceeds k X out d" "proceeds (k + length (sent out)) (mset (pending d)) outs d'"
  shows "proceeds k X (out @ outs) d'"
  using assms balanced_append [of k X out "mset (pending d)" outs "mset (pending d')"]
  by (simp add: proceeds_def add.assoc)

lemma proceeds_nil: "orderly k d \<Longrightarrow> proceeds k (mset (pending d)) [] d"
  by (simp add: proceeds_def balanced_def)

lemma calls_proceed:
  assumes "client_calls calls d = (d', out)" "orderly k d" "k + length (sent out) \<le> 2 ^ 31"
  shows "proceeds k (mset (pending d)) out d' \<and> invoked out = []"
  using assms
proof (induction calls arbitrary: d k out)
  case (Cons c calls)
  obtain payload cb where c: "c = (payload, cb)" by (cases c)
  obtain d1 out1 where 1: "client_call payload cb d = (d1, out1)" by (cases "client_call payload cb d")
  obtain out2 where 2: "client_calls calls d1 = (d', out2)" and out: "out = out1 @ out2"
    using Cons.prems(1) by (auto simp: c 1 split: prod.splits)
  have "k < 2 ^ 31" using Cons.prems(3) 1 by (auto simp: out client_call_def Let_def)
  note first = call_balanced [OF Cons.prems(2) this 1]
  have "proceeds (k + length (sent out1)) (mset (pending d1)) out2 d' \<and> invoked out2 = []"
    using Cons.prems(3) by (intro Cons.IH [OF 2 first(1)]) (simp add: out)
  then show ?case using first proceeds_append [of k _ out1 d1 out2 d'] by (simp add: proceeds_def out)
qed (simp add: proceeds_nil)

lemma stimulate_proceeds:
  assumes "stimulate react s (g, d) = ((g', d'), out)" "orderly k d" "k + length (sent out) \<le> 2 ^ 31"
  shows "proceeds k (mset (pending d)) out d' \<and> invoked out = []"
proof -
  obtain calls where "client_calls calls d = (d', out)"
    using assms(1) by (auto simp: stimulate_def split: prod.splits)
  then show ?thesis using assms(2,3) by (rule calls_proceed)
qed

lemma emit_proceeds:
  assumes "emit react name args (g, d) = ((g', d'), out)" "orderly k d" "k + length (sent out) \<le> 2 ^ 31"
  shows "proceeds k (mset (pending d)) out d' \<and> invoked out = []"
proof -
  obtain outs where s: "stimulate react (Signal name args) (g, d) = ((g', d'), outs)" and out: "out = Emitted name args # outs"
    using assms(1) by (auto simp: emit_def split: prod.splits)
  show ?thesis
    using stimulate_proceeds [OF s assms(2)] assms(3) by (simp add: out proceeds_def balanced_def)
qed

text \<open>A callback that is run was waiting until then.\<close>

lemma invoke_proceeds:
  assumes "invoke react i cb result err (g, d) = ((g', d'), out)" "orderly k d" "k + length (sent out) \<le> 2 ^ 31"
  shows "proceeds k (add_mset (i, cb) (mset (pending d))) out d' \<and> invoked out = [(i, cb)]"
proof -
  obtain outs where s: "stimulate react (Callback cb result err) (g, d) = ((g', d'), outs)"
    and out: "out = Invoked i cb result err # outs"
    using assms(1) by (auto simp: invoke_def split: prod.splits)
  show ?thesis
    using stimulate_proceeds [OF s assms(2)] assms(3) by (simp add: out proceeds_def balanced_def)
qed

lemma fail_all_proceeds:
  assumes "fail_all react waiting (g, d) = ((g', d'), out, threw)" "orderly k d" "k + length (sent out) \<le> 2 ^ 31"
  shows "proceeds k (mset (pending d) + mset (invoked out)) out d' \<and>
    (\<exists>rest. waiting = invoked out @ rest \<and> (threw \<or> rest = []))"
  using assms
proof (induction waiting arbitrary: g d k out)
  case (Cons w waiting)
  obtain i cb where w: "w = (i, cb)" by (cases w)
  obtain g1 d1 out1 where 1: "invoke react i cb Null disconnected_error (g, d) = ((g1, d1), out1)"
    by (metis prod.exhaust)
  show ?case
  proof (cases "throws react (Callback cb Null disconnected_error) g")
    case True
    then have o: "out = out1" "g' = g1" "d' = d1" "threw" using Cons.prems(1) by (simp_all add: w 1)
    have "proceeds k (add_mset (i, cb) (mset (pending d))) out1 d1 \<and> invoked out1 = [(i, cb)]"
      using Cons.prems(3) by (intro invoke_proceeds [OF 1 Cons.prems(2)]) (simp add: o)
    then show ?thesis by (simp add: o w)
  next
    case False
    then obtain out2 where 2: "fail_all react waiting (g1, d1) = ((g', d'), out2, threw)" and out: "out = out1 @ out2"
      using Cons.prems(1) by (auto simp: w 1 split: prod.splits)
    have first: "proceeds k (add_mset (i, cb) (mset (pending d))) out1 d1 \<and> invoked out1 = [(i, cb)]"
      using Cons.prems(3) by (intro invoke_proceeds [OF 1 Cons.prems(2)]) (simp add: out)
    then have "orderly (k + length (sent out1)) d1" by (simp add: proceeds_def)
    then have rest: "proceeds (k + length (sent out1)) (mset (pending d1) + mset (invoked out2)) out2 d' \<and>
        (\<exists>rest. waiting = invoked out2 @ rest \<and> (threw \<or> rest = []))"
      using Cons.prems(3) by (intro Cons.IH [OF 2]) (simp_all add: out)
    have "balanced k (add_mset (i, cb) (mset (pending d)) + mset (invoked out2)) out1
        (mset (pending d1) + mset (invoked out2))"
      using first by (intro balanced_frame) (simp add: proceeds_def)
    from balanced_append [OF this] show ?thesis
      using first rest by (auto simp: proceeds_def out w add.assoc)
  qed
qed (simp add: proceeds_nil)

lemma calls_no_timer: "client_calls calls d = (d', out) \<Longrightarrow> TimerRestarted \<notin> set out"
  by (induction calls arbitrary: d out) (auto simp: client_call_def Let_def split: prod.splits)

lemma invoke_no_timer: "invoke react i cb r err cfg = (cfg', out) \<Longrightarrow> TimerRestarted \<notin> set out"
  by (auto simp: invoke_def stimulate_def calls_no_timer split: prod.splits)

lemma fail_all_no_timer:
  "fail_all react waiting cfg = (cfg', out, threw) \<Longrightarrow> TimerRestarted \<notin> set out"
proof (induction waiting arbitrary: cfg out)
  case (Cons w waiting)
  then show ?case
    by (cases w) (auto simp: Let_def invoke_no_timer split: prod.splits if_splits)
qed simp

lemma fail_all_calm:
  "calm react \<Longrightarrow> fail_all react waiting cfg = (cfg', out, threw) \<Longrightarrow> \<not> threw"
proof (induction waiting arbitrary: cfg out)
  case (Cons w waiting)
  obtain i cb where w: "w = (i, cb)" by (cases w)
  obtain cfg1 out1 where 1: "invoke react i cb Null disconnected_error cfg = (cfg1, out1)"
    by (metis prod.exhaust)
  have "\<not> throws react (Callback cb Null disconnected_error) (fst cfg)"
    using Cons.prems(1) by (simp add: calm_def)
  then obtain out2 where "fail_all react waiting cfg1 = (cfg', out2, threw)"
    using Cons.prems(2) by (auto simp: w 1 split: prod.splits)
  then show ?case using Cons.IH Cons.prems(1) by blast
qed simp

lemma disconnect_proceeds:
  assumes "handle_disconnect react (g, d) = ((g', d'), out)" "orderly k d" "k + length (sent out) \<le> 2 ^ 31"
  obtains rest where "proceeds k (mset (invoked out)) out d'" "pending d = invoked out @ rest"
    "TimerRestarted \<in> set out \<longrightarrow> rest = []" "calm react \<longrightarrow> rest = [] \<and> last out = TimerRestarted"
proof -
  obtain outs threw where f: "fail_all react (pending d) (g, d\<lparr>pending := []\<rparr>) = ((g', d'), outs, threw)"
    and out: "out = (if threw then outs else outs @ [TimerRestarted])"
    using assms(1) by (auto simp: handle_disconnect_def split: prod.splits)
  have s: "sent out = sent outs" "invoked out = invoked outs" by (simp_all add: out)
  have o: "orderly k (d\<lparr>pending := []\<rparr>)" using assms(2) by (simp add: orderly_def)
  have "k + length (sent outs) \<le> 2 ^ 31" using assms(3) by (simp only: s)
  note all = fail_all_proceeds [OF f o this]
  then obtain rest where r: "pending d = invoked outs @ rest" "threw \<or> rest = []" by blast
  have p: "proceeds k (mset (invoked outs)) outs d'" using all by simp
  show thesis
  proof (rule that [of rest])
    show "proceeds k (mset (invoked out)) out d'" using p by (simp only: proceeds_def balanced_def s)
    show "pending d = invoked out @ rest" using r(1) by (simp only: s)
    show "TimerRestarted \<in> set out \<longrightarrow> rest = []"
      using fail_all_no_timer [OF f] r(2) by (auto simp: out)
    show "calm react \<longrightarrow> rest = [] \<and> last out = TimerRestarted"
      using fail_all_calm [OF _ f] r(2) by (auto simp: out)
  qed
qed





section \<open>Lines\<close>

lemma orderly_remove: "orderly k d \<Longrightarrow> orderly k (d\<lparr>pending := remove_key i (pending d)\<rparr>)"
proof -
  assume "orderly k d"
  then obtain ns where ns: "map fst (pending d) = map dec_string ns" "sorted_wrt (<) ns" "\<forall>n \<in> set ns. 0 < n \<and> n < k"
    and k: "0 < k" "nextID d = of_nat k"
    unfolding orderly_def by blast
  have "map fst (remove_key i (pending d)) = filter (\<lambda>s. s \<noteq> i) (map fst (pending d))"
    by (simp add: remove_key_def filter_map comp_def)
  also have "\<dots> = map dec_string (filter (\<lambda>n. dec_string n \<noteq> i) ns)"
    unfolding ns(1) by (simp add: filter_map comp_def)
  finally show ?thesis
    using ns(2,3) k unfolding orderly_def by (auto intro!: exI sorted_wrt_filter)
qed

lemma mset_remove_key:
  assumes "distinct (map fst ps)" "map_of ps i = Some v"
  shows "mset ps = add_mset (i, v) (mset (remove_key i ps))"
  using assms
proof (induction ps)
  case (Cons p ps)
  show ?case
  proof (cases "fst p = i")
    case True
    then have "p = (i, v)" using Cons.prems(2) by (cases p) auto
    moreover have "remove_key i (p # ps) = ps"
      using Cons.prems(1) True by (auto simp: remove_key_def filter_id_conv image_iff)
    ultimately show ?thesis by simp
  next
    case False
    then show ?thesis using Cons by (cases p) (simp add: remove_key_def)
  qed
qed simp

lemma response_proceeds:
  assumes "handle_response react msg (g, d) = ok ((g', d'), out)" "orderly k d" "k + length (sent out) \<le> 2 ^ 31"
  shows "proceeds k (mset (pending d)) out d'"
proof -
  have idle: ?thesis if "d' = d" "out = []" using that proceeds_nil [OF assms(2)] by simp
  obtain rid where rid: "get_prop msg ''requestId'' = ok rid"
    using assms(1) by (auto simp: handle_response_def bindr_eq_ok)
  show ?thesis
  proof (cases "rid = Undefined")
    case True
    then show ?thesis using assms(1) by (intro idle) (simp_all add: handle_response_def rid)
  next
    case False
    then obtain i where i: "to_string rid = ok i"
      using assms(1) by (auto simp: handle_response_def rid bindr_eq_ok)
    show ?thesis
    proof (cases "map_of (pending d) i")
      case None
      then show ?thesis
        using assms(1) False by (intro idle) (auto simp: handle_response_def rid i split: if_splits)
    next
      case (Some cb)
      obtain result err where inv:
        "invoke react i cb result err (g, d\<lparr>pending := remove_key i (pending d)\<rparr>) = ((g', d'), out)"
        using assms(1) False Some by (auto simp: handle_response_def rid i bindr_eq_ok split: prod.splits)
      have "proceeds k (add_mset (i, cb) (mset (remove_key i (pending d)))) out d'"
        using invoke_proceeds [OF inv orderly_remove [OF assms(2)] assms(3)] by simp
      then show ?thesis using mset_remove_key [OF orderly_distinct [OF assms(2)] Some] by simp
    qed
  qed
qed

lemma message_proceeds:
  assumes "handle_message react msg (g, d) = ok ((g', d'), out)" "orderly k d" "k + length (sent out) \<le> 2 ^ 31"
  shows "proceeds k (mset (pending d)) out d'"
proof -
  obtain ev where ev: "get_prop msg ''event'' = ok ev"
    using assms(1) by (auto simp: handle_message_def bindr_eq_ok)
  show ?thesis
  proof (cases "ev = Undefined")
    case True
    then show ?thesis using assms response_proceeds by (simp add: handle_message_def ev)
  next
    case False
    then obtain s where s: "event_signal ev = ok s"
      using assms(1) by (auto simp: handle_message_def ev bindr_eq_ok)
    show ?thesis
    proof (cases s)
      case None
      then show ?thesis
        using assms(1) False proceeds_nil [OF assms(2)] by (simp add: handle_message_def ev s)
    next
      case (Some n)
      then obtain name args where e: "emit react name args (g, d) = ((g', d'), out)"
        using assms(1) False by (cases n) (simp add: handle_message_def ev s)
      show ?thesis using emit_proceeds [OF e assms(2,3)] ..
    qed
  qed
qed

lemma line_proceeds:
  assumes "handle_line parse react line (g, d) = ok ((g', d'), out)" "orderly k d" "k + length (sent out) \<le> 2 ^ 31"
  shows "proceeds k (mset (pending d)) out d'"
  using assms message_proceeds proceeds_nil [OF assms(2)]
  by (auto simp: handle_line_def split: if_splits option.splits)

text \<open>Over whole steps calls may get lost, but only to a callback that throws.\<close>

definition accounts :: "('c, 'g) react \<Rightarrow> nat \<Rightarrow> (jstring \<times> 'c) multiset \<Rightarrow> 'c effect list \<Rightarrow> 'c client \<Rightarrow> bool" where
  "accounts react k before out d \<longleftrightarrow> orderly (k + length (sent out)) d \<and>
     (\<exists>lost. balanced k before out (mset (pending d) + lost) \<and> (calm react \<longrightarrow> lost = {#}))"

lemma proceeds_accounts: "proceeds k before out d \<Longrightarrow> accounts react k before out d"
  unfolding proceeds_def accounts_def by (auto intro!: exI [of _ "{#}"])

lemma accounts_append:
  assumes "accounts react k X out d" "accounts react (k + length (sent out)) (mset (pending d)) outs d'"
  shows "accounts react k X (out @ outs) d'"
proof -
  obtain lost lost' where
    1: "balanced k X out (mset (pending d) + lost)" "calm react \<longrightarrow> lost = {#}" and
    2: "balanced (k + length (sent out)) (mset (pending d)) outs (mset (pending d') + lost')" "calm react \<longrightarrow> lost' = {#}"
    using assms unfolding accounts_def by blast
  have "balanced k X (out @ outs) (mset (pending d') + (lost' + lost))"
    using balanced_append [OF 1(1) balanced_frame [OF 2(1)]] by (simp add: add.assoc)
  then show ?thesis using assms(2) 1(2) 2(2) unfolding accounts_def by (auto simp: add.assoc)
qed

lemma disconnect_accounts:
  assumes "handle_disconnect react (g, d) = ((g', d'), out)" "orderly k d" "k + length (sent out) \<le> 2 ^ 31"
  shows "accounts react k (mset (pending d)) out d'"
proof -
  obtain rest where r: "proceeds k (mset (invoked out)) out d'" "pending d = invoked out @ rest"
    "calm react \<longrightarrow> rest = [] \<and> last out = TimerRestarted"
    using disconnect_proceeds [OF assms] by blast
  have "balanced k (mset (pending d)) out (mset (pending d') + mset rest)"
    using balanced_frame [of k _ out _ "mset rest"] r(1) by (simp add: proceeds_def r(2))
  then show ?thesis using r(1,3) unfolding accounts_def proceeds_def by auto
qed

lemma step_accounts:
  assumes "client_step parse react ev (g, d) = Some ((g', d'), out)" "orderly k d" "k + length (sent out) \<le> 2 ^ 31"
  shows "accounts react k (mset (pending d)) out d'"
proof (cases ev)
  case (Call payload cb)
  then have c: "client_call payload cb d = (d', out)"
    using assms(1) by (simp add: client_step_def split: prod.splits)
  then have "k < 2 ^ 31" using assms(3) by (auto simp: client_call_def Let_def)
  then show ?thesis using call_balanced [OF assms(2) _ c] by (intro proceeds_accounts) (simp add: proceeds_def)
next
  case (Line line)
  then show ?thesis
    using assms line_proceeds [of parse react line g d g' d' out k] proceeds_nil [OF assms(2)]
    by (intro proceeds_accounts [of k "mset (pending d)" out d' react]) (auto simp: client_step_def split: option.splits sum.splits)
next
  case Disconnected
  then show ?thesis using assms disconnect_accounts [of react g d g' d' out k] by (simp add: client_step_def)
qed

lemma run_accounts:
  assumes "client_run parse react evs (g, d) = Some ((g', d'), out)" "orderly k d" "k + length (sent out) \<le> 2 ^ 31"
  shows "accounts react k (mset (pending d)) out d'"
  using assms
proof (induction evs arbitrary: g d k out)
  case Nil
  then show ?case using proceeds_accounts [OF proceeds_nil [of k d'], of react] by auto
next
  case (Cons ev evs)
  obtain g1 d1 out1 where 1: "client_step parse react ev (g, d) = Some ((g1, d1), out1)"
    using Cons.prems(1) by (auto split: option.splits prod.splits)
  obtain out2 where 2: "client_run parse react evs (g1, d1) = Some ((g', d'), out2)" and out: "out = out1 @ out2"
    using Cons.prems(1) by (auto simp: 1 split: option.splits prod.splits)
  have first: "accounts react k (mset (pending d)) out1 d1"
    using Cons.prems(3) by (intro step_accounts [OF 1 Cons.prems(2)]) (simp add: out)
  then have "orderly (k + length (sent out1)) d1" by (simp add: accounts_def)
  then have "accounts react (k + length (sent out1)) (mset (pending d1)) out2 d'"
    using Cons.prems(3) by (intro Cons.IH [OF 2]) (simp_all add: out)
  then show ?case unfolding out using first by (rule accounts_append [rotated])
qed

lemma run_orderly:
  assumes "client_run parse react evs (g, client_start) = Some ((g', d'), out)" "length (sent out) < 2 ^ 31"
  shows "orderly (1 + length (sent out)) d'"
  using run_accounts [OF assms(1) orderly_start] assms(2) by (simp add: accounts_def)

text \<open>Results of the callbacks run.\<close>

fun answers :: "'c effect list \<Rightarrow> (js \<times> js) list" where
  "answers [] = []"
| "answers (e # es) = (case e of Invoked i cb r err \<Rightarrow> (r, err) # answers es | _ \<Rightarrow> answers es)"

lemma answers_append [simp]: "answers (xs @ ys) = answers xs @ answers ys"
  by (induction xs) (auto split: effect.split)

lemma answers_calls [simp]: "client_calls calls d = (d', out) \<Longrightarrow> answers out = []"
  by (induction calls arbitrary: d out) (auto simp: client_call_def Let_def split: prod.splits)





section \<open>Properties\<close>

text \<open>C10. Every call is accounted for: over any sequence of calls, lines and lost connections, with
  callbacks that make further calls and may throw, no two of the calls sent have the same number, and
  none is both still waiting and answered, or answered twice. The calls sent are exactly the waiting
  and the answered ones if no callback throws when it is told that the connection is lost; otherwise
  those behind such a callback are neither. At most \<open>2\<^sup>31 - 1\<close> calls are made.\<close>

theorem calls_accounted:
  assumes "client_run parse react evs (g, client_start) = Some ((g', d'), out)" "length (sent out) < 2 ^ 31"
  shows "distinct (map fst (sent out)) \<and> mset (pending d') + mset (invoked out) \<subseteq># mset (sent out) \<and>
    (calm react \<longrightarrow> mset (sent out) = mset (pending d') + mset (invoked out))"
proof -
  have "accounts react 1 (mset (pending client_start)) out d'"
    using assms by (intro run_accounts [OF assms(1) orderly_start]) simp
  then obtain lost where "balanced 1 {#} out (mset (pending d') + lost)" "calm react \<longrightarrow> lost = {#}"
    by (auto simp: accounts_def client_start_def)
  then show ?thesis
    by (auto simp: balanced_def distinct_map inj_on_def)
qed

text \<open>A reaction for the witnesses: the callback 0 asks again with the callback 1.\<close>

definition asks_again :: "(nat, nat) react" where
  "asks_again s g = (case s of Callback 0 result err \<Rightarrow> (g + 1, [(plain [], 1)], False) | _ \<Rightarrow> (g + 1, [], False))"

lemma calm_asks_again: "calm asks_again"
  by (simp add: calm_def throws_def asks_again_def split: nat.split)

theorem calls_accounted_witness:
  "client_run (\<lambda>line. None) asks_again [Call (plain []) 0, Call (plain []) 7, Disconnected] (0, client_start) =
     Some ((2, \<lparr>pending = [(dec_string 3, 1)], nextID = 4\<rparr>),
       [Sent (dec_string 1) (call_frame (dec_string 1) (plain [])) 0,
        Sent (dec_string 2) (call_frame (dec_string 2) (plain [])) 7,
        Invoked (dec_string 1) 0 Null disconnected_error,
        Sent (dec_string 3) (call_frame (dec_string 3) (plain [])) 1,
        Invoked (dec_string 2) 7 Null disconnected_error, TimerRestarted]) \<and>
   mset [(dec_string 1, 0), (dec_string 2, 7), (dec_string 3, 1)] =
     mset [(dec_string 3, 1)] + mset [(dec_string 1, 0), (dec_string 2, 7 :: nat)]"
  (is "?run = Some ((2, ?d), ?out) \<and> _")
proof -
  have i: "id_string 1 = dec_string 1" "id_string 2 = dec_string 2" "id_string 3 = dec_string 3"
    using id_string_nat [of 1] id_string_nat [of 2] id_string_nat [of 3]
    by (simp_all del: One_nat_def)
  have p: "js_put (dec_string 1, 0) [] = [(dec_string 1, 0 :: nat)]"
    "js_put (dec_string 2, 7) [(dec_string 1, 0)] = [(dec_string 1, 0), (dec_string 2, 7 :: nat)]"
    "js_put (dec_string 3, 1) [] = [(dec_string 3, 1 :: nat)]"
    by (simp_all add: js_put_def dec_not_proto array_index_dec del: One_nat_def)
  have run: "?run = Some ((2, ?d), ?out)"
    by (simp add: client_step_def client_call_def client_start_def handle_disconnect_def invoke_def stimulate_def
        asks_again_def throws_def Let_def i p del: One_nat_def)
  show ?thesis using run calls_accounted [OF run] calm_asks_again by simp
qed



text \<open>What a callback that throws costs, first in the registry as it may be: the other calls are gone
  without an answer, and no attempt to connect again is made.\<close>

theorem throwing_callback_stalls:
  assumes "pending d = (i, cb) # rest" "throws react (Callback cb Null disconnected_error) g"
    and "handle_disconnect react (g, d) = ((g', d'), out)"
  shows "handle_disconnect react (g, d) = invoke react i cb Null disconnected_error (g, d\<lparr>pending := []\<rparr>) \<and>
    TimerRestarted \<notin> set out"
proof -
  obtain cfg1 out1 where 1: "invoke react i cb Null disconnected_error (g, d\<lparr>pending := []\<rparr>) = (cfg1, out1)"
    by (metis prod.exhaust)
  have "handle_disconnect react (g, d) = (cfg1, out1)"
    using assms(2) by (simp add: handle_disconnect_def assms(1) 1)
  then show ?thesis using assms(3) invoke_no_timer [OF 1] by (simp add: 1)
qed

definition gives_up :: "(nat, nat) react" where
  "gives_up s g = (case s of Callback 0 result err \<Rightarrow> (g + 1, [], err \<noteq> Null) | _ \<Rightarrow> (g + 1, [], False))"

theorem throwing_callback_stalls_witness:
  "snd (handle_disconnect gives_up (5, \<lparr>pending = [(dec_string 1, 0), (dec_string 2, 7)], nextID = 3\<rparr>)) =
     [Invoked (dec_string 1) 0 Null disconnected_error]"
proof -
  let ?d = "\<lparr>pending = [(dec_string 1, 0), (dec_string 2, 7)], nextID = 3 :: u32\<rparr>"
  have "throws gives_up (Callback 0 Null disconnected_error) 5"
    by (simp add: throws_def gives_up_def disconnected_error_def)
  from throwing_callback_stalls [of ?d, OF _ this] show ?thesis
    by (cases "handle_disconnect gives_up (5, ?d)") (auto simp: invoke_def stimulate_def gives_up_def)
qed

definition reply_frame :: "jstring \<Rightarrow> js \<Rightarrow> js" where
  "reply_frame i body = plain [(js_str ''requestId'', String i), (js_str ''response'', body)]"

text \<open>C12. A reply reaches the callback of its own call, and no other: after any run a frame with the
  number of a waiting call runs its callback with the body of the response, or with the message of its
  error, and the call no longer waits.\<close>

theorem reply_reaches_caller:
  assumes "client_run parse react evs (g, client_start) = Some ((g1, d1), out1)" "length (sent out1) < 2 ^ 31"
    and "(i, cb) \<in> set (pending d1)" "parse line = Some (reply_frame i (plain body))" "trim line \<noteq> []"
  defines "rest \<equiv> (g1, d1\<lparr>pending := remove_key i (pending d1)\<rparr>)"
  shows "(lookup body ''error'' = None \<longrightarrow>
      client_step parse react (Line line) (g1, d1) = Some (invoke react i cb (plain body) Null rest)) \<and>
    (\<forall>e m. lookup body ''error'' = Some (plain e) \<and> lookup e ''message'' = Some (String m) \<longrightarrow>
      client_step parse react (Line line) (g1, d1) =
        Some (invoke react i cb Null (String (if m = [] then js_str ''unknown error'' else m)) rest))"
proof -
  have "orderly (1 + length (sent out1)) d1" using assms(1,2) by (rule run_orderly)
  then have m: "map_of (pending d1) i = Some cb"
    using map_of_is_SomeI [OF orderly_distinct assms(3)] by blast
  have "line \<noteq> []" using assms(5) by (auto simp: trim_def)
  then show ?thesis
    by (simp add: rest_def client_step_def handle_line_def assms(4,5) handle_message_def handle_response_def
        reply_frame_def get_prop_plain m reply_args_def or_value_def prop_or_def)
qed

theorem reply_reaches_caller_witness:
  "client_step (\<lambda>line. Some (reply_frame (dec_string 1) (plain []))) asks_again (Line (js_str ''{}''))
       (0, \<lparr>pending = [(dec_string 1, 0), (dec_string 2, 7)], nextID = 3\<rparr>) =
     Some (invoke asks_again (dec_string 1) 0 (plain []) Null (0, \<lparr>pending = [(dec_string 2, 7)], nextID = 3\<rparr>))"
proof -
  have i: "id_string 1 = dec_string 1" "id_string 2 = dec_string 2"
    using id_string_nat [of 1] id_string_nat [of 2] by (simp_all del: One_nat_def)
  have p: "js_put (dec_string 1, 0) [] = [(dec_string 1, 0 :: nat)]"
    "js_put (dec_string 2, 7) [(dec_string 1, 0)] = [(dec_string 1, 0), (dec_string 2, 7 :: nat)]"
    by (simp_all add: js_put_def dec_not_proto array_index_dec del: One_nat_def)
  let ?parse = "\<lambda>line :: jstring. Some (reply_frame (dec_string 1) (plain []))"
  let ?d = "\<lparr>pending = [(dec_string 1, 0), (dec_string 2, 7)], nextID = 3 :: u32\<rparr>"
  have run: "client_run ?parse asks_again [Call (plain []) 0, Call (plain []) 7] (0, client_start) =
    Some ((0, ?d), [Sent (dec_string 1) (call_frame (dec_string 1) (plain [])) 0,
       Sent (dec_string 2) (call_frame (dec_string 2) (plain [])) 7])"
    by (simp add: client_step_def client_call_def client_start_def Let_def i p del: One_nat_def)
  show ?thesis
    using reply_reaches_caller [OF run, where i = "dec_string 1" and cb = 0 and line = "js_str ''{}''" and body = "[]"]
    by (simp add: remove_key_def trim_def js_str_def is_space_def)
qed

text \<open>Lines that answer nothing change nothing and run nothing: a blank line, one that is not JSON,
  \<open>null\<close> (which throws before any change), and a response whose number no call waits under.\<close>

theorem stray_line_ignored:
  assumes "trim line = [] \<or> parse line = None \<or> parse line = Some Null \<or>
    (\<exists>i body. parse line = Some (reply_frame i body) \<and> i \<notin> set (map fst (pending d)) \<and> \<not> inherited i)"
  shows "client_step parse react (Line line) (g, d) = Some ((g, d), [])"
proof -
  have "map_of (pending d) i = None" if "i \<notin> set (map fst (pending d))" for i
    using that by (simp add: map_of_eq_None_iff)
  then show ?thesis
    using assms by (auto simp: client_step_def handle_line_def handle_message_def handle_response_def
        get_prop_plain reply_frame_def get_prop_def split: option.split)
qed

theorem stray_line_ignored_witness:
  "client_step (\<lambda>line. Some (reply_frame (js_str ''12'') Null)) asks_again (Line (js_str ''{}'')) (0, client_start) =
     Some ((0, client_start), [])"
  by (rule stray_line_ignored) (auto simp: client_start_def inherited_def)

end
