(* ===== verification/Navigation.thy ===== *)
theory Navigation
  imports "HOL-Library.List_Lexorder" "HOL-Library.Multiset" JsObject JsValue
begin

text \<open>
  The navigation of the browser window, \<open>windows/browser/BrowserNavigation.qml\<close>: the history, the
  directory, search and trash views, and the entries they show, with the commands of
  \<open>BrowserLayout.qml\<close> and \<open>BrowserWindow.qml\<close> that drive it. Requests to the daemon are
  asynchronous: a call is queued with the code that waits for its reply, and a delivery runs this code with
  the answer. The daemon handles the requests of a connection concurrently, so any call in flight may be
  answered next; the answers are a parameter. \<open>lower\<close> is \<open>toLowerCase\<close>.

  The theorems: the history is a zipper, the view settles on the current directory whatever is done in
  between, sorting, the parent directories, and what a change of tags does to the entries.
\<close>

section \<open>State\<close>

text \<open>The fields of an entry that the navigation reads; those of the trash have neither \<open>size\<close> nor \<open>mtime\<close>, and no tags.\<close>

record entry =
  e_name :: jstring
  e_path :: jstring
  e_isDir :: bool
  e_size :: "int option"
  e_mtime :: "int option"
  e_tags :: "jstring list"

datatype request =
    ListDirectory jstring bool
  | HydrateTags "jstring list"
  | ListTrash
  | SearchFiles "jstring list" "(jstring \<times> jstring) list" jstring
  | GlobSearch "jstring list" bool

text \<open>The callbacks, with the variables they capture.\<close>

datatype callback =
    Loaded
  | Hydrated
  | TrashLoaded
  | Searched "jstring list" bool
  | Globbed

text \<open>Replies; \<open>None\<close> is an error.\<close>

datatype reply =
    Entries "entry list option"
  | Tagged "(jstring \<times> jstring list) list option"

record nav =
  currentPath :: jstring
  showHidden :: bool
  isSearchMode :: bool
  searchChips :: "jstring list"
  isTrashView :: bool
  nav_history :: "jstring list"
  historyIndex :: int
  sortColumn :: jstring
  sortAscending :: bool
  dirEntries :: "entry list"
  searchResults :: "entry list"
  trashEntries :: "entry list"
  nav_places :: "(jstring \<times> jstring) list"
  nav_calls :: "(request \<times> callback) list"

definition slash :: u16 where
  "slash = 47"

definition nav_start :: nav where
  "nav_start =
     \<lparr>currentPath = [slash], showHidden = False, isSearchMode = False, searchChips = [], isTrashView = False,
      nav_history = [], historyIndex = - 1, sortColumn = js_str ''name'', sortAscending = True,
      dirEntries = [], searchResults = [], trashEntries = [], nav_places = [], nav_calls = []\<rparr>"

definition call_daemon :: "request \<Rightarrow> callback \<Rightarrow> nav \<Rightarrow> nav" where
  "call_daemon req cb nav = nav\<lparr>nav_calls := nav_calls nav @ [(req, cb)]\<rparr>"

section \<open>Sorting\<close>

datatype sort_value =
    Text jstring
  | Count "int option"

text \<open>\<open><\<close> on the values of one column; it is false where a number is missing.\<close>

fun value_less :: "sort_value \<Rightarrow> sort_value \<Rightarrow> bool" where
  "value_less (Text s) (Text t) \<longleftrightarrow> s < t"
| "value_less (Count (Some m)) (Count (Some n)) \<longleftrightarrow> m < n"
| "value_less _ _ \<longleftrightarrow> False"

text \<open>\<open>join(",")\<close>\<close>

fun join_with :: "jstring \<Rightarrow> jstring list \<Rightarrow> jstring" where
  "join_with sep [] = []"
| "join_with sep [s] = s"
| "join_with sep (s # ss) = s @ sep @ join_with sep ss"

definition sort_value :: "(jstring \<Rightarrow> jstring) \<Rightarrow> jstring \<Rightarrow> entry \<Rightarrow> sort_value" where
  "sort_value lower col e =
     (if col = js_str ''name'' then Text (lower (e_name e))
      else if col = js_str ''size'' then Count (e_size e)
      else if col = js_str ''mtime'' then Count (e_mtime e)
      else if col = js_str ''tags'' then Text (join_with [44] (e_tags e))
      else Text (lower (e_name e)))"

definition compare_entries :: "(jstring \<Rightarrow> jstring) \<Rightarrow> jstring \<Rightarrow> bool \<Rightarrow> entry \<Rightarrow> entry \<Rightarrow> int" where
  "compare_entries lower col asc a b =
     (if e_isDir a \<and> \<not> e_isDir b then - 1
      else if \<not> e_isDir a \<and> e_isDir b then 1
      else
        let valA = sort_value lower col a; valB = sort_value lower col b
        in if value_less valA valB then (if asc then - 1 else 1)
           else if value_less valB valA then (if asc then 1 else - 1)
           else 0)"

text \<open>\<open>Array.prototype.sort\<close>, which is stable.\<close>

fun sort_insert :: "('a \<Rightarrow> 'a \<Rightarrow> int) \<Rightarrow> 'a \<Rightarrow> 'a list \<Rightarrow> 'a list" where
  "sort_insert cmp x [] = [x]"
| "sort_insert cmp x (y # ys) = (if cmp x y \<le> 0 then x # y # ys else y # sort_insert cmp x ys)"

fun js_sort :: "('a \<Rightarrow> 'a \<Rightarrow> int) \<Rightarrow> 'a list \<Rightarrow> 'a list" where
  "js_sort cmp [] = []"
| "js_sort cmp (x # xs) = sort_insert cmp x (js_sort cmp xs)"

definition sortEntries :: "(jstring \<Rightarrow> jstring) \<Rightarrow> nav \<Rightarrow> entry list \<Rightarrow> entry list" where
  "sortEntries lower nav es = js_sort (compare_entries lower (sortColumn nav) (sortAscending nav)) es"

section \<open>Loading\<close>

definition loadDirectory :: "jstring \<Rightarrow> nav \<Rightarrow> nav" where
  "loadDirectory path nav = call_daemon (ListDirectory path (showHidden nav)) Loaded nav"

definition loaded :: "(jstring \<Rightarrow> jstring) \<Rightarrow> entry list option \<Rightarrow> nav \<Rightarrow> nav" where
  "loaded lower result nav =
     (case result of
        None \<Rightarrow> nav\<lparr>dirEntries := []\<rparr>
      | Some entries \<Rightarrow>
          let nav = nav\<lparr>dirEntries := sortEntries lower nav entries\<rparr>;
              paths = map e_path entries
          in if length paths = 0 then nav else call_daemon (HydrateTags paths) Hydrated nav)"

text \<open>
  \<open>byPath\<close> is an object; paths start with a slash, so none of them is a name that objects inherit.
\<close>

definition hydrated :: "(jstring \<times> jstring list) list option \<Rightarrow> nav \<Rightarrow> nav" where
  "hydrated result nav =
     (case result of
        None \<Rightarrow> nav
      | Some tagged \<Rightarrow>
          let byPath = fold js_put tagged []
          in nav\<lparr>dirEntries := map (\<lambda>e. e\<lparr>e_tags := (case map_of byPath (e_path e) of None \<Rightarrow> [] | Some tags \<Rightarrow> tags)\<rparr>)
               (dirEntries nav)\<rparr>)"

definition loadTrash :: "nav \<Rightarrow> nav" where
  "loadTrash nav = call_daemon ListTrash TrashLoaded nav"

definition trashLoaded :: "(jstring \<Rightarrow> jstring) \<Rightarrow> entry list option \<Rightarrow> nav \<Rightarrow> nav" where
  "trashLoaded lower result nav =
     nav\<lparr>trashEntries := (case result of None \<Rightarrow> [] | Some entries \<Rightarrow> sortEntries lower nav entries)\<rparr>"

section \<open>Moving\<close>

definition leave_views :: "nav \<Rightarrow> nav" where
  "leave_views nav = nav\<lparr>isSearchMode := False, isTrashView := False, searchChips := []\<rparr>"

definition navigateTo :: "jstring \<Rightarrow> nav \<Rightarrow> nav" where
  "navigateTo path nav =
     (if path = [] then nav
      else
        let nav = leave_views nav;
            nav = (if historyIndex nav < 0 \<or> nav_history nav ! nat (historyIndex nav) \<noteq> path
                   then let newHistory = take (nat (historyIndex nav + 1)) (nav_history nav) @ [path]
                        in nav\<lparr>nav_history := newHistory, historyIndex := int (length newHistory) - 1\<rparr>
                   else nav)
        in loadDirectory path (nav\<lparr>currentPath := path\<rparr>))"

definition canGoBack :: "nav \<Rightarrow> bool" where
  "canGoBack nav \<longleftrightarrow> historyIndex nav > 0"

definition canGoForward :: "nav \<Rightarrow> bool" where
  "canGoForward nav \<longleftrightarrow> historyIndex nav < int (length (nav_history nav)) - 1"

definition goBack :: "nav \<Rightarrow> nav" where
  "goBack nav =
     (if \<not> canGoBack nav then nav
      else
        let nav = nav\<lparr>historyIndex := historyIndex nav - 1\<rparr>;
            path = nav_history nav ! nat (historyIndex nav)
        in loadDirectory path ((leave_views nav)\<lparr>currentPath := path\<rparr>))"

definition goForward :: "nav \<Rightarrow> nav" where
  "goForward nav =
     (if \<not> canGoForward nav then nav
      else
        let nav = nav\<lparr>historyIndex := historyIndex nav + 1\<rparr>;
            path = nav_history nav ! nat (historyIndex nav)
        in loadDirectory path ((leave_views nav)\<lparr>currentPath := path\<rparr>))"

text \<open>\<open>s.substring(0, s.lastIndexOf("/"))\<close>; without a slash the index is \<open>-1\<close> and the result empty.\<close>

fun before_last_slash :: "jstring \<Rightarrow> jstring" where
  "before_last_slash [] = []"
| "before_last_slash (c # cs) = (if slash \<in> set cs then c # before_last_slash cs else [])"

definition parent_path :: "jstring \<Rightarrow> jstring" where
  "parent_path path = (let parent = before_last_slash path in if parent = [] then [slash] else parent)"

definition goUp :: "nav \<Rightarrow> nav" where
  "goUp nav = (if currentPath nav = [slash] then nav else navigateTo (parent_path (currentPath nav)) nav)"

fun home_path :: "(jstring \<times> jstring) list \<Rightarrow> jstring" where
  "home_path [] = [slash]"
| "home_path ((name, path) # places) = (if name = js_str ''Home'' then path else home_path places)"

definition goHome :: "nav \<Rightarrow> nav" where
  "goHome nav = navigateTo (home_path (nav_places nav)) nav"

definition navigateToTrash :: "nav \<Rightarrow> nav" where
  "navigateToTrash nav = loadTrash (nav\<lparr>isSearchMode := False, isTrashView := True, searchChips := []\<rparr>)"

section \<open>Searching\<close>

text \<open>\<open>c.startsWith(p)\<close> and \<open>c.slice(p.length)\<close>; \<open>s.split("=")\<close>.\<close>

definition after :: "string \<Rightarrow> jstring \<Rightarrow> jstring option" where
  "after p c = (if take (length p) c = js_str p then Some (drop (length p) c) else None)"

fun split_at :: "u16 \<Rightarrow> jstring \<Rightarrow> jstring list" where
  "split_at sep [] = [[]]"
| "split_at sep (c # cs) =
     (if c = sep then [] # split_at sep cs
      else case split_at sep cs of [] \<Rightarrow> [[c]] | s # ss \<Rightarrow> (c # s) # ss)"

record search_terms =
  tagChips :: "jstring list"
  globPats :: "jstring list"
  ftsChips :: "jstring list"
  metaFilters :: "(jstring \<times> jstring) list"
  allowHid :: bool

definition add_chip :: "jstring \<Rightarrow> search_terms \<Rightarrow> search_terms" where
  "add_chip c t =
     (case after ''glob:'' c of
        Some p \<Rightarrow> t\<lparr>globPats := globPats t @ [p]\<rparr>
      | None \<Rightarrow>
          if c = js_str ''hidden:any'' then t\<lparr>allowHid := True\<rparr>
          else case after ''fts:'' c of
            Some w \<Rightarrow> t\<lparr>ftsChips := ftsChips t @ [w]\<rparr>
          | None \<Rightarrow>
              (case after ''meta:'' c of
                 Some m \<Rightarrow>
                   let pair = split_at 61 m
                   in if length pair = 2 then t\<lparr>metaFilters := js_put (pair ! 0, pair ! 1) (metaFilters t)\<rparr> else t
               | None \<Rightarrow> t\<lparr>tagChips := tagChips t @ [c]\<rparr>))"

definition search_terms :: "jstring list \<Rightarrow> bool \<Rightarrow> search_terms" where
  "search_terms chips hidden =
     fold add_chip chips \<lparr>tagChips = [], globPats = [], ftsChips = [], metaFilters = [], allowHid = hidden\<rparr>"

definition runGlobSearch :: "jstring list \<Rightarrow> bool \<Rightarrow> nav \<Rightarrow> nav" where
  "runGlobSearch patterns allowHidden nav = call_daemon (GlobSearch patterns allowHidden) Globbed nav"

definition globbed :: "(jstring \<Rightarrow> jstring) \<Rightarrow> entry list option \<Rightarrow> nav \<Rightarrow> nav" where
  "globbed lower result nav =
     nav\<lparr>searchResults := (case result of None \<Rightarrow> [] | Some files \<Rightarrow> sortEntries lower nav files)\<rparr>"

definition runSearch :: "jstring list \<Rightarrow> nav \<Rightarrow> nav" where
  "runSearch chips nav =
     (let t = search_terms chips (showHidden nav)
      in if tagChips t \<noteq> [] \<or> ftsChips t \<noteq> [] \<or> metaFilters t \<noteq> []
         then call_daemon (SearchFiles (tagChips t) (metaFilters t) (join_with [32] (ftsChips t)))
                (Searched (globPats t) (allowHid t)) nav
         else if globPats t \<noteq> [] then runGlobSearch (globPats t) (allowHid t) nav
         else nav\<lparr>searchResults := []\<rparr>)"

definition searched ::
  "(jstring \<Rightarrow> jstring) \<Rightarrow> jstring list \<Rightarrow> bool \<Rightarrow> entry list option \<Rightarrow> nav \<Rightarrow> nav" where
  "searched lower pats hidden result nav =
     (case result of
        Some files \<Rightarrow>
          if files \<noteq> [] then nav\<lparr>searchResults := sortEntries lower nav files\<rparr>
          else if pats \<noteq> [] then runGlobSearch pats hidden nav
          else nav\<lparr>searchResults := []\<rparr>
      | None \<Rightarrow> if pats \<noteq> [] then runGlobSearch pats hidden nav else nav\<lparr>searchResults := []\<rparr>)"

definition executeSearch :: "jstring list \<Rightarrow> nav \<Rightarrow> nav" where
  "executeSearch chips nav =
     (let nav = nav\<lparr>isSearchMode := (chips \<noteq> []), searchChips := chips\<rparr>
      in if chips = [] then navigateTo (currentPath nav) nav else runSearch chips nav)"

section \<open>Tags\<close>

text \<open>\<open>set[k] = true\<close>, \<open>delete set[k]\<close> and \<open>Object.keys(set)\<close>.\<close>

definition applyTagDiff :: "jstring list \<Rightarrow> jstring list \<Rightarrow> jstring list \<Rightarrow> jstring list" where
  "applyTagDiff existing added removed =
     (let set = fold (\<lambda>t s. js_put (t, True) s) existing [];
          set = fold (\<lambda>t s. js_put (t, True) s) added set;
          set = fold (\<lambda>t s. filter (\<lambda>kv. fst kv \<noteq> t) s) removed set
      in map fst set)"

text \<open>The first entry with the path, in the directory or else in the results of the search.\<close>

fun patch_first :: "jstring \<Rightarrow> (entry \<Rightarrow> entry) \<Rightarrow> entry list \<Rightarrow> entry list option" where
  "patch_first path f [] = None"
| "patch_first path f (e # es) =
     (if e_path e = path then Some (f e # es) else map_option ((#) e) (patch_first path f es))"

definition patchEntryTags :: "jstring \<Rightarrow> jstring list \<Rightarrow> jstring list \<Rightarrow> nav \<Rightarrow> nav" where
  "patchEntryTags path added removed nav =
     (let f = (\<lambda>e. e\<lparr>e_tags := applyTagDiff (e_tags e) added removed\<rparr>)
      in case patch_first path f (dirEntries nav) of
           Some es \<Rightarrow> nav\<lparr>dirEntries := es\<rparr>
         | None \<Rightarrow>
             (case patch_first path f (searchResults nav) of
                Some es \<Rightarrow> nav\<lparr>searchResults := es\<rparr>
              | None \<Rightarrow> nav))"

section \<open>Commands and deliveries\<close>

definition toggleHidden :: "nav \<Rightarrow> nav" where
  "toggleHidden nav =
     (let nav = nav\<lparr>showHidden := \<not> showHidden nav\<rparr>
      in if isSearchMode nav then runSearch (searchChips nav) nav
         else if \<not> isTrashView nav then loadDirectory (currentPath nav) nav
         else nav)"

definition refresh :: "nav \<Rightarrow> nav" where
  "refresh nav =
     (if isTrashView nav then loadTrash nav
      else if isSearchMode nav then runSearch (searchChips nav) nav
      else loadDirectory (currentPath nav) nav)"

definition sortBy :: "(jstring \<Rightarrow> jstring) \<Rightarrow> jstring \<Rightarrow> bool \<Rightarrow> nav \<Rightarrow> nav" where
  "sortBy lower col asc nav =
     (let nav = nav\<lparr>sortColumn := col, sortAscending := asc\<rparr>
      in if isTrashView nav then nav\<lparr>trashEntries := sortEntries lower nav (trashEntries nav)\<rparr>
         else if isSearchMode nav then nav\<lparr>searchResults := sortEntries lower nav (searchResults nav)\<rparr>
         else nav\<lparr>dirEntries := sortEntries lower nav (dirEntries nav)\<rparr>)"

definition indexUpdated :: "nav \<Rightarrow> nav" where
  "indexUpdated nav =
     (if isSearchMode nav \<and> searchChips nav \<noteq> [] then runSearch (searchChips nav) nav else nav)"

definition run_callback :: "(jstring \<Rightarrow> jstring) \<Rightarrow> callback \<Rightarrow> reply \<Rightarrow> nav \<Rightarrow> nav" where
  "run_callback lower cb r nav =
     (case (cb, r) of
        (Loaded, Entries result) \<Rightarrow> loaded lower result nav
      | (Hydrated, Tagged result) \<Rightarrow> hydrated result nav
      | (TrashLoaded, Entries result) \<Rightarrow> trashLoaded lower result nav
      | (Searched pats hidden, Entries result) \<Rightarrow> searched lower pats hidden result nav
      | (Globbed, Entries result) \<Rightarrow> globbed lower result nav
      | _ \<Rightarrow> nav)"

datatype command =
    Navigate jstring
  | Back
  | Forward
  | Up
  | Home
  | OpenTrash
  | Search "jstring list"
  | ToggleHidden
  | Refresh
  | SortBy jstring bool
  | PlacesChanged "(jstring \<times> jstring) list"
  | IndexUpdated
  | FileTagged jstring "jstring list" "jstring list"
  | Deliver nat

text \<open>\<open>Deliver i\<close> answers the call at position \<open>i\<close> of those in flight.\<close>

definition nav_step :: "(jstring \<Rightarrow> jstring) \<Rightarrow> (request \<Rightarrow> reply) \<Rightarrow> command \<Rightarrow> nav \<Rightarrow> nav" where
  "nav_step lower answer c nav =
     (case c of
        Navigate path \<Rightarrow> navigateTo path nav
      | Back \<Rightarrow> goBack nav
      | Forward \<Rightarrow> goForward nav
      | Up \<Rightarrow> goUp nav
      | Home \<Rightarrow> goHome nav
      | OpenTrash \<Rightarrow> navigateToTrash nav
      | Search chips \<Rightarrow> executeSearch chips nav
      | ToggleHidden \<Rightarrow> toggleHidden nav
      | Refresh \<Rightarrow> refresh nav
      | SortBy col asc \<Rightarrow> sortBy lower col asc nav
      | PlacesChanged places \<Rightarrow> nav\<lparr>nav_places := places\<rparr>
      | IndexUpdated \<Rightarrow> indexUpdated nav
      | FileTagged path added removed \<Rightarrow> patchEntryTags path added removed nav
      | Deliver i \<Rightarrow>
          (case drop i (nav_calls nav) of
             [] \<Rightarrow> nav
           | (req, cb) # calls \<Rightarrow>
               run_callback lower cb (answer req) (nav\<lparr>nav_calls := take i (nav_calls nav) @ calls\<rparr>)))"

definition nav_run :: "(jstring \<Rightarrow> jstring) \<Rightarrow> (request \<Rightarrow> reply) \<Rightarrow> command list \<Rightarrow> nav \<Rightarrow> nav" where
  "nav_run lower answer cs nav = fold (nav_step lower answer) cs nav"

text \<open>The window opens on the root directory.\<close>

definition nav_open :: nav where
  "nav_open = navigateTo (currentPath nav_start) nav_start"

section \<open>The history\<close>

text \<open>
  Its specification: the paths visited up to the current one, latest first, those a step forward leads
  to, and the places.
\<close>

type_synonym browse = "jstring list \<times> jstring list \<times> (jstring \<times> jstring) list"

fun visit :: "jstring \<Rightarrow> browse \<Rightarrow> browse" where
  "visit path (back, forward, places) =
     (if path = [] \<or> hd back = path then (back, forward, places) else (path # back, [], places))"

fun browse_step :: "command \<Rightarrow> browse \<Rightarrow> browse" where
  "browse_step (Navigate path) z = visit path z"
| "browse_step Back (x # y # back, forward, places) = (y # back, x # forward, places)"
| "browse_step Forward (back, y # forward, places) = (y # back, forward, places)"
| "browse_step Up (x # back, forward, places) =
     (if x = [slash] then (x # back, forward, places) else visit (parent_path x) (x # back, forward, places))"
| "browse_step Home (back, forward, places) = visit (home_path places) (back, forward, places)"
| "browse_step (PlacesChanged places) (back, forward, _) = (back, forward, places)"
| "browse_step _ z = z"

definition nav_abs :: "nav \<Rightarrow> browse" where
  "nav_abs nav =
     (rev (take (nat (historyIndex nav + 1)) (nav_history nav)), drop (nat (historyIndex nav + 1)) (nav_history nav),
      nav_places nav)"

definition nav_ok :: "nav \<Rightarrow> bool" where
  "nav_ok nav \<longleftrightarrow>
     0 \<le> historyIndex nav \<and> historyIndex nav < int (length (nav_history nav)) \<and>
     currentPath nav = nav_history nav ! nat (historyIndex nav) \<and> [] \<notin> set (nav_history nav)"

text \<open>What only the moves of the history change.\<close>

definition same_place :: "nav \<Rightarrow> nav \<Rightarrow> bool" where
  "same_place nav nav' \<longleftrightarrow>
     nav_history nav' = nav_history nav \<and> historyIndex nav' = historyIndex nav \<and> currentPath nav' = currentPath nav \<and>
     nav_places nav' = nav_places nav"

lemma same_place_abs: "same_place nav nav' \<Longrightarrow> nav_ok nav \<Longrightarrow> nav_ok nav' \<and> nav_abs nav' = nav_abs nav"
  by (simp add: same_place_def nav_ok_def nav_abs_def)

lemma same_place_simps [simp]:
  "same_place nav (call_daemon req cb nav)" "same_place nav (loadDirectory path nav)" "same_place nav (loadTrash nav)"
  "same_place nav (runGlobSearch pats hidden nav)" "same_place nav (runSearch chips nav)"
  by (simp_all add: same_place_def call_daemon_def loadDirectory_def loadTrash_def runGlobSearch_def runSearch_def Let_def)

lemma same_place_callback: "same_place nav (run_callback lower cb r nav)"
  by (cases cb; cases r)
    (auto simp: run_callback_def loaded_def hydrated_def trashLoaded_def searched_def globbed_def same_place_def
      call_daemon_def runGlobSearch_def Let_def split: option.split)

lemma nav_abs_at:
  assumes "nav_ok nav"
  shows "\<exists>back forward. nav_abs nav = (currentPath nav # back, forward, nav_places nav) \<and>
    int (length back) = historyIndex nav \<and> nav_history nav = rev back @ currentPath nav # forward \<and>
    currentPath nav \<noteq> []"
proof -
  define i where "i = nat (historyIndex nav)"
  have i: "i < length (nav_history nav)" "nat (historyIndex nav + 1) = Suc i" "historyIndex nav = int i"
    using assms by (auto simp: nav_ok_def i_def)
  have c: "currentPath nav = nav_history nav ! i" "[] \<notin> set (nav_history nav)" using assms by (auto simp: nav_ok_def i_def)
  have "nav_abs nav = (currentPath nav # rev (take i (nav_history nav)), drop (Suc i) (nav_history nav), nav_places nav)"
    using i c by (simp add: nav_abs_def take_Suc_conv_app_nth)
  moreover have "nav_history nav = rev (rev (take i (nav_history nav))) @ currentPath nav # drop (Suc i) (nav_history nav)"
    using i c by (simp add: id_take_nth_drop)
  moreover have "currentPath nav \<noteq> []" using c i by (metis nth_mem)
  ultimately show ?thesis using i by auto
qed

lemma navigate_refines:
  assumes "nav_ok nav" "path \<noteq> []"
  shows "nav_ok (navigateTo path nav) \<and> nav_abs (navigateTo path nav) = visit path (nav_abs nav)"
proof -
  obtain behind ahead where a: "nav_abs nav = (currentPath nav # behind, ahead, nav_places nav)"
    and i: "historyIndex nav = int (length behind)" and h: "nav_history nav = rev behind @ currentPath nav # ahead"
    and ne: "currentPath nav \<noteq> []"
    using nav_abs_at [OF assms(1)] by auto
  have t: "take (nat (historyIndex nav + 1)) (nav_history nav) = rev behind @ [currentPath nav]"
    by (simp add: i h nat_add_distrib)
  show ?thesis
  proof (cases "path = currentPath nav")
    case True
    have "nav_history nav ! nat (historyIndex nav) = path" using True by (simp add: i h nth_append)
    then have "same_place nav (navigateTo path nav)"
      using assms True by (simp add: navigateTo_def leave_views_def same_place_def loadDirectory_def call_daemon_def i Let_def)
    then show ?thesis using same_place_abs [OF _ assms(1)] True a by auto
  next
    case False
    have "nav_history nav ! nat (historyIndex nav) \<noteq> path" using False by (simp add: i h nth_append)
    then have n: "nav_history (navigateTo path nav) = rev behind @ [currentPath nav, path]"
      "historyIndex (navigateTo path nav) = int (length behind) + 1" "currentPath (navigateTo path nav) = path"
      "nav_places (navigateTo path nav) = nav_places nav"
      using assms(2) t by (simp_all add: navigateTo_def leave_views_def loadDirectory_def call_daemon_def i Let_def)
    have "nat (int (length behind) + 1 + 1) = length behind + 2" by simp
    then have "nav_abs (navigateTo path nav) = (path # currentPath nav # behind, [], nav_places nav)"
      by (simp add: nav_abs_def n)
    moreover have "nav_ok (navigateTo path nav)"
      using assms ne h unfolding nav_ok_def n by (auto simp: nth_append nat_add_distrib)
    ultimately show ?thesis using False assms(2) a by auto
  qed
qed

lemma back_refines:
  assumes "nav_ok nav"
  shows "nav_ok (goBack nav) \<and> nav_abs (goBack nav) = browse_step Back (nav_abs nav)"
proof -
  obtain behind ahead where a: "nav_abs nav = (currentPath nav # behind, ahead, nav_places nav)"
    and i: "historyIndex nav = int (length behind)" and h: "nav_history nav = rev behind @ currentPath nav # ahead"
    using nav_abs_at [OF assms] by auto
  show ?thesis
  proof (cases behind)
    case Nil
    then show ?thesis using assms a i by (simp add: goBack_def canGoBack_def)
  next
    case (Cons y ys)
    have n: "nav_history (goBack nav) = rev ys @ y # currentPath nav # ahead"
      "historyIndex (goBack nav) = int (length ys)" "currentPath (goBack nav) = y"
      "nav_places (goBack nav) = nav_places nav"
      using i h Cons by (simp_all add: goBack_def canGoBack_def leave_views_def loadDirectory_def call_daemon_def Let_def nth_append)
    have "nat (int (length ys) + 1) = Suc (length ys)" by simp
    then have "nav_abs (goBack nav) = (y # ys, currentPath nav # ahead, nav_places nav)" by (simp add: nav_abs_def n)
    moreover have "nav_ok (goBack nav)" using assms h Cons unfolding nav_ok_def n by (simp add: nth_append)
    ultimately show ?thesis using a Cons by simp
  qed
qed

lemma forward_refines:
  assumes "nav_ok nav"
  shows "nav_ok (goForward nav) \<and> nav_abs (goForward nav) = browse_step Forward (nav_abs nav)"
proof -
  obtain behind ahead where a: "nav_abs nav = (currentPath nav # behind, ahead, nav_places nav)"
    and i: "historyIndex nav = int (length behind)" and h: "nav_history nav = rev behind @ currentPath nav # ahead"
    using nav_abs_at [OF assms] by auto
  show ?thesis
  proof (cases ahead)
    case Nil
    then show ?thesis using assms a i h by (simp add: goForward_def canGoForward_def)
  next
    case (Cons y ys)
    have k: "nat (int (length behind) + 1) = Suc (length behind)" "nat (int (length behind) + 1 + 1) = Suc (Suc (length behind))"
      "nat (2 + int (length behind)) = Suc (Suc (length behind))"
      by simp_all
    have n: "nav_history (goForward nav) = rev behind @ currentPath nav # y # ys"
      "historyIndex (goForward nav) = int (length behind) + 1" "currentPath (goForward nav) = y"
      "nav_places (goForward nav) = nav_places nav"
      using i h Cons k by (simp_all add: goForward_def canGoForward_def leave_views_def loadDirectory_def call_daemon_def Let_def nth_append)
    have "nav_abs (goForward nav) = (y # currentPath nav # behind, ys, nav_places nav)" by (simp add: nav_abs_def n k)
    moreover have "nav_ok (goForward nav)" using assms h Cons unfolding nav_ok_def n k by (simp add: nth_append)
    ultimately show ?thesis using a Cons by simp
  qed
qed

lemma parent_path_not_empty [simp]: "parent_path path \<noteq> []"
  by (simp add: parent_path_def Let_def)

lemma home_path_visit: "nav_ok nav \<Longrightarrow> nav_ok (goHome nav) \<and> nav_abs (goHome nav) = browse_step Home (nav_abs nav)"
proof -
  assume ok: "nav_ok nav"
  show ?thesis
  proof (cases "home_path (nav_places nav) = []")
    case True
    then show ?thesis using ok by (simp add: goHome_def navigateTo_def nav_abs_def)
  next
    case False
    then show ?thesis using navigate_refines [OF ok False] by (simp add: goHome_def nav_abs_def)
  qed
qed

lemma step_refines:
  assumes "nav_ok nav"
  shows "nav_ok (nav_step lower answer c nav) \<and> nav_abs (nav_step lower answer c nav) = browse_step c (nav_abs nav)"
proof -
  obtain behind ahead where a: "nav_abs nav = (currentPath nav # behind, ahead, nav_places nav)"
    and ne: "currentPath nav \<noteq> []"
    using nav_abs_at [OF assms] by auto
  have same: ?thesis if "same_place nav (nav_step lower answer c nav)" "browse_step c (nav_abs nav) = nav_abs nav"
    using same_place_abs [OF that(1) assms] that(2) by simp
  show ?thesis
  proof (cases c)
    case (Navigate path)
    show ?thesis
    proof (cases "path = []")
      case True
      then show ?thesis using assms by (simp add: Navigate nav_step_def navigateTo_def a)
    next
      case False
      then show ?thesis using navigate_refines [OF assms False] by (simp add: Navigate nav_step_def)
    qed
  next
    case Back
    then show ?thesis using back_refines [OF assms] by (simp add: nav_step_def)
  next
    case Forward
    then show ?thesis using forward_refines [OF assms] by (simp add: nav_step_def)
  next
    case Up
    then show ?thesis
      using assms navigate_refines [OF assms parent_path_not_empty, of "currentPath nav"]
      by (simp add: nav_step_def goUp_def a del: visit.simps)
  next
    case Home
    then show ?thesis using home_path_visit [OF assms] by (simp add: nav_step_def)
  next
    case OpenTrash
    then show ?thesis by (intro same) (simp_all add: nav_step_def navigateToTrash_def loadTrash_def call_daemon_def same_place_def)
  next
    case (Search chips)
    show ?thesis
    proof (cases "chips = []")
      case True
      let ?nav = "nav\<lparr>isSearchMode := False, searchChips := []\<rparr>"
      have "same_place nav ?nav" by (simp add: same_place_def)
      then have ok: "nav_ok ?nav" "nav_abs ?nav = nav_abs nav" using same_place_abs assms by auto
      have "nav_step lower answer c nav = navigateTo (currentPath nav) ?nav"
        by (simp add: Search True nav_step_def executeSearch_def)
      then show ?thesis using navigate_refines [OF ok(1) ne] ok(2) by (simp add: Search a)
    next
      case False
      have "nav_step lower answer c nav = runSearch chips (nav\<lparr>isSearchMode := True, searchChips := chips\<rparr>)"
        using False by (simp add: Search nav_step_def executeSearch_def)
      then show ?thesis
        using same_place_simps(5) [of "nav\<lparr>isSearchMode := True, searchChips := chips\<rparr>" chips]
        by (intro same) (simp_all add: Search same_place_def)
    qed
  next
    case ToggleHidden
    have "same_place (nav\<lparr>showHidden := \<not> showHidden nav\<rparr>) (nav_step lower answer c nav)"
      by (simp add: ToggleHidden nav_step_def toggleHidden_def Let_def) (simp add: same_place_def)
    then show ?thesis by (intro same) (simp_all add: ToggleHidden same_place_def)
  next
    case Refresh
    then show ?thesis by (intro same) (simp_all add: nav_step_def refresh_def)
  next
    case (SortBy col asc)
    then show ?thesis by (intro same) (simp_all add: nav_step_def sortBy_def same_place_def Let_def)
  next
    case (PlacesChanged places)
    then show ?thesis using assms by (simp add: nav_step_def nav_ok_def nav_abs_def)
  next
    case IndexUpdated
    then show ?thesis by (intro same) (simp_all add: nav_step_def indexUpdated_def, simp_all add: same_place_def)
  next
    case (FileTagged path added removed)
    then show ?thesis
      by (intro same) (simp_all add: nav_step_def patchEntryTags_def same_place_def Let_def split: option.split)
  next
    case (Deliver i)
    have "same_place nav (nav_step lower answer c nav)"
    proof (cases "drop i (nav_calls nav)")
      case Nil
      then show ?thesis by (simp add: Deliver nav_step_def same_place_def)
    next
      case (Cons x calls)
      let ?nav = "nav\<lparr>nav_calls := take i (nav_calls nav) @ calls\<rparr>"
      have "same_place ?nav (run_callback lower (snd x) (answer (fst x)) ?nav)" by (rule same_place_callback)
      then show ?thesis by (simp add: Deliver nav_step_def Cons split_beta) (simp add: same_place_def)
    qed
    then show ?thesis by (intro same) (simp_all add: Deliver)
  qed
qed

lemma open_ok: "nav_ok nav_open" "nav_abs nav_open = ([[slash]], [], [])"
  by (simp_all add: nav_open_def nav_start_def navigateTo_def leave_views_def loadDirectory_def call_daemon_def
      nav_ok_def nav_abs_def)

lemma run_refines:
  "nav_ok nav \<Longrightarrow> nav_ok (nav_run lower answer cs nav) \<and> nav_abs (nav_run lower answer cs nav) = fold browse_step cs (nav_abs nav)"
  unfolding nav_run_def by (induction cs arbitrary: nav) (simp_all add: step_refines)

text \<open>C18. The history is a zipper: whatever commands are given and whatever replies come, in any order, the
  paths behind and ahead are those of the specification, the current path is the one between them, and
  the buttons for back and forward are enabled exactly when there is somewhere to go.\<close>

theorem history_refines_zipper:
  "let nav = nav_run lower answer cs nav_open
   in \<exists>here behind ahead. fold browse_step cs ([[slash]], [], []) = (here # behind, ahead, nav_places nav) \<and>
     nav_abs nav = (here # behind, ahead, nav_places nav) \<and> currentPath nav = here \<and>
     (canGoBack nav \<longleftrightarrow> behind \<noteq> []) \<and> (canGoForward nav \<longleftrightarrow> ahead \<noteq> [])"
proof -
  define nav where "nav = nav_run lower answer cs nav_open"
  have ok: "nav_ok nav" "nav_abs nav = fold browse_step cs ([[slash]], [], [])"
    using run_refines [OF open_ok(1), of lower answer cs] open_ok(2) by (simp_all add: nav_def)
  obtain behind ahead where a: "nav_abs nav = (currentPath nav # behind, ahead, nav_places nav)"
    "int (length behind) = historyIndex nav" "nav_history nav = rev behind @ currentPath nav # ahead"
    using nav_abs_at [OF ok(1)] by blast
  have "canGoBack nav \<longleftrightarrow> behind \<noteq> []" by (simp add: canGoBack_def a(2) [symmetric])
  moreover have "canGoForward nav \<longleftrightarrow> ahead \<noteq> []" by (simp add: canGoForward_def a(2) [symmetric] a(3))
  ultimately show ?thesis using a(1) ok(2) unfolding Let_def nav_def [symmetric] by auto
qed

section \<open>Upwards\<close>

lemma before_last_slash_shorter: "path \<noteq> [] \<Longrightarrow> length (before_last_slash path) < length path"
proof (induction path)
  case (Cons c cs)
  then show ?case by (cases "cs = []") auto
qed simp

lemma parent_path_less: "path \<noteq> [slash] \<Longrightarrow> path \<noteq> [] \<Longrightarrow> parent_path path = [slash] \<or> length (parent_path path) < length path"
  using before_last_slash_shorter [of path] by (simp add: parent_path_def Let_def)

lemma goUp_path: "nav_ok nav \<Longrightarrow> currentPath (goUp nav) = (if currentPath nav = [slash] then [slash] else parent_path (currentPath nav))"
  by (simp add: goUp_def navigateTo_def loadDirectory_def call_daemon_def Let_def)

lemma goUp_ok: "nav_ok nav \<Longrightarrow> nav_ok (goUp nav)"
  by (simp add: goUp_def navigate_refines)

lemma up_reaches_root:
  assumes "nav_ok nav" "length (currentPath nav) \<le> n"
  shows "currentPath ((goUp ^^ n) nav) = [slash]"
  using assms
proof (induction n arbitrary: nav)
  case 0
  then show ?case using nav_abs_at [OF 0(1)] by auto
next
  case (Suc n)
  have stay: "currentPath ((goUp ^^ m) nav') = [slash]" if "nav_ok nav'" "currentPath nav' = [slash]" for m nav'
    using that by (induction m arbitrary: nav') (simp_all add: funpow_swap1 goUp_path goUp_ok del: funpow.simps(2), simp add: goUp_def)
  have "currentPath nav \<noteq> []" using nav_abs_at [OF Suc.prems(1)] by auto
  then have "currentPath (goUp nav) = [slash] \<or> length (currentPath (goUp nav)) \<le> n"
    using parent_path_less [of "currentPath nav"] Suc.prems by (auto simp: goUp_path)
  then show ?case
    using Suc.IH [OF goUp_ok [OF Suc.prems(1)]] stay [OF goUp_ok [OF Suc.prems(1)]]
    by (auto simp: funpow_Suc_right simp del: funpow.simps(2))
qed

text \<open>Going up ends at the root: from wherever the commands have led, as many steps up as the path has
  characters reach \<open>/\<close>, and more stay there.\<close>

theorem up_ends_at_root:
  fixes cs lower answer
  defines "nav \<equiv> nav_run lower answer cs nav_open"
  assumes "length (currentPath nav) \<le> n"
  shows "currentPath ((goUp ^^ n) nav) = [slash]"
  using run_refines [OF open_ok(1), of lower answer cs] assms by (simp add: up_reaches_root)

theorem up_ends_at_root_witness:
  "currentPath ((goUp ^^ 4) (nav_run id (\<lambda>r. Entries None) [Navigate [slash, 97, slash, 98]] nav_open)) = [slash]"
  by (rule up_ends_at_root)
    (simp add: nav_run_def nav_step_def navigateTo_def leave_views_def loadDirectory_def call_daemon_def Let_def)

section \<open>Order of the entries\<close>

lemma mset_sort_insert: "mset (sort_insert cmp x ys) = add_mset x (mset ys)"
  by (induction ys) auto

lemma mset_js_sort [simp]: "mset (js_sort cmp xs) = mset xs"
  by (induction xs) (simp_all add: mset_sort_insert)

lemma set_js_sort [simp]: "set (js_sort cmp xs) = set xs"
  by (metis mset_js_sort set_mset_mset)

lemma set_sort_insert [simp]: "set (sort_insert cmp x ys) = insert x (set ys)"
  by (induction ys) auto









section \<open>Tags of entries\<close>

lemma put_keys:
  "distinct (map fst s) \<Longrightarrow> fst ` set (js_put (t, v) s) = fst ` set s \<union> ({t} - {proto_key})"
proof -
  assume d: "distinct (map fst s)"
  show ?thesis
  proof (cases "t = proto_key")
    case True
    then show ?thesis by (simp add: js_put_def)
  next
    case False
    then have "dom (map_of (js_put (t, v) s)) = dom ((map_of s)(t \<mapsto> v))" using js_put_lookup [OF d, of "(t, v)"] by simp
    then show ?thesis using False by (auto simp: dom_map_of_conv_image_fst)
  qed
qed

lemma put_all_keys:
  "distinct (map fst s) \<Longrightarrow>
   distinct (map fst (fold (\<lambda>t s. js_put (t, v) s) ts s)) \<and>
   fst ` set (fold (\<lambda>t s. js_put (t, v) s) ts s) = fst ` set s \<union> (set ts - {proto_key})"
  by (induction ts arbitrary: s) (auto simp: js_put_distinct put_keys)

lemma delete_all_keys:
  "distinct (map fst s) \<Longrightarrow>
   distinct (map fst (fold (\<lambda>t s. filter (\<lambda>kv. fst kv \<noteq> t) s) ts s)) \<and>
   fst ` set (fold (\<lambda>t s. filter (\<lambda>kv. fst kv \<noteq> t) s) ts s) = fst ` set s - set ts"
proof (induction ts arbitrary: s)
  case (Cons t ts)
  have "distinct (map fst (filter (\<lambda>kv. fst kv \<noteq> t) s))" using Cons.prems by (rule distinct_map_filter)
  from Cons.IH [OF this] show ?case by auto
qed simp

text \<open>A change of tags acts on them as sets: what was there and what was added, less what was removed,
  each once. A tag named \<open>__proto__\<close> is lost, since the set is an object.\<close>

theorem tag_diff_is_set:
  "set (applyTagDiff existing added removed) = (set existing \<union> set added - set removed) - {proto_key} \<and>
   distinct (applyTagDiff existing added removed)"
proof -
  note e = put_all_keys [of "[] :: (jstring \<times> bool) list" True existing, simplified]
  note a = put_all_keys [OF e [THEN conjunct1], of True added]
  note r = delete_all_keys [OF a [THEN conjunct1], of removed]
  have "fst ` set (fold (\<lambda>t s. filter (\<lambda>kv. fst kv \<noteq> t) s) removed
      (fold (\<lambda>t s. js_put (t, True) s) added (fold (\<lambda>t s. js_put (t, True) s) existing []))) =
    (set existing - {proto_key}) \<union> (set added - {proto_key}) - set removed"
    unfolding r [THEN conjunct2] a [THEN conjunct2] e [THEN conjunct2] ..
  then show ?thesis using r by (auto simp: applyTagDiff_def Let_def)
qed

section \<open>Settling\<close>

text \<open>Deliveries in the order of the calls, until nothing is in flight.\<close>

fun weight :: "callback \<Rightarrow> nat" where
  "weight Loaded = 2"
| "weight (Searched pats hidden) = 2"
| "weight _ = 1"

definition in_flight :: "nav \<Rightarrow> nat" where
  "in_flight nav = sum_list (map (\<lambda>x. weight (snd x)) (nav_calls nav))"

lemma deliver_less:
  assumes "nav_calls nav \<noteq> []"
  shows "in_flight (nav_step lower answer (Deliver 0) nav) < in_flight nav"
proof -
  obtain req cb calls where c: "nav_calls nav = (req, cb) # calls" using assms by (metis list.exhaust prod.exhaust)
  show ?thesis
    by (cases cb; cases "answer req")
      (auto simp: nav_step_def c run_callback_def in_flight_def loaded_def hydrated_def trashLoaded_def searched_def
        globbed_def call_daemon_def runGlobSearch_def Let_def split: option.split)
qed

function settle :: "(jstring \<Rightarrow> jstring) \<Rightarrow> (request \<Rightarrow> reply) \<Rightarrow> nav \<Rightarrow> nav" where
  "settle lower answer nav =
     (if nav_calls nav = [] then nav else settle lower answer (nav_step lower answer (Deliver 0) nav))"
  by pat_completeness auto
termination by (relation "measure (\<lambda>(lower, answer, nav). in_flight nav)") (simp_all add: deliver_less)

declare settle.simps [simp del]

text \<open>The last call in flight that waits with a callback.\<close>

definition last_call :: "callback \<Rightarrow> (request \<times> callback) list \<Rightarrow> (request \<times> callback) option" where
  "last_call cb calls = find (\<lambda>x. snd x = cb) (rev calls)"

lemma last_call_simps [simp]:
  "last_call cb [] = None"
  "last_call cb (calls @ [x]) = (if snd x = cb then Some x else last_call cb calls)"
  by (simp_all add: last_call_def)

lemma last_call_Cons:
  "last_call cb (x # calls) = (case last_call cb calls of Some y \<Rightarrow> Some y | None \<Rightarrow> if snd x = cb then Some x else None)"
proof (induction calls rule: rev_induct)
  case (snoc y ys)
  have "last_call cb ((x # ys) @ [y]) = (if snd y = cb then Some y else last_call cb (x # ys))" by (rule last_call_simps(2))
  then show ?case using snoc by simp
qed (simp add: last_call_def)

definition untag :: "entry \<Rightarrow> entry" where
  "untag e = e\<lparr>e_tags := []\<rparr>"

definition tagged :: "(jstring \<Rightarrow> jstring list) \<Rightarrow> entry \<Rightarrow> entry" where
  "tagged tags e = e\<lparr>e_tags := tags (e_path e)\<rparr>"

lemma tagged_untag [simp]: "tagged tags (untag e) = tagged tags e"
  by (simp add: tagged_def untag_def)

lemma image_untag: "image_mset untag X = image_mset untag Y \<Longrightarrow> image_mset (tagged tags) X = image_mset (tagged tags) Y"
proof -
  assume "image_mset untag X = image_mset untag Y"
  then have "image_mset (tagged tags) (image_mset untag X) = image_mset (tagged tags) (image_mset untag Y)" by simp
  then show ?thesis by (simp add: image_mset.compositionality comp_def)
qed

text \<open>What the daemon's files and tags say a directory holds.\<close>

definition listing :: "entry list option \<Rightarrow> entry multiset" where
  "listing result = (case result of None \<Rightarrow> {#} | Some es \<Rightarrow> mset es)"

text \<open>
  In the directory view either the last directory asked for is the current one, or its entries are there and
  the last tags asked for are theirs, or nothing is missing.
\<close>

definition on_the_way :: "(jstring \<Rightarrow> bool \<Rightarrow> entry list option) \<Rightarrow> (jstring \<Rightarrow> jstring list) \<Rightarrow> nav \<Rightarrow> bool" where
  "on_the_way files tags nav \<longleftrightarrow>
     (\<forall>x \<in> set (nav_calls nav). snd x = Hydrated \<longrightarrow> (\<exists>ps. fst x = HydrateTags ps)) \<and>
     (\<not> isSearchMode nav \<and> \<not> isTrashView nav \<longrightarrow>
       (case last_call Loaded (nav_calls nav) of
          Some x \<Rightarrow> x = (ListDirectory (currentPath nav) (showHidden nav), Loaded)
        | None \<Rightarrow>
            image_mset untag (mset (dirEntries nav)) =
              image_mset untag (listing (files (currentPath nav) (showHidden nav))) \<and>
            (case last_call Hydrated (nav_calls nav) of
               None \<Rightarrow> mset (dirEntries nav) =
                 image_mset (tagged tags) (listing (files (currentPath nav) (showHidden nav)))
             | Some x \<Rightarrow> \<exists>ps. fst x = HydrateTags ps \<and> e_path ` set (dirEntries nav) \<subseteq> set ps)))"

lemma last_call_Some: "last_call cb calls = Some x \<Longrightarrow> x \<in> set calls \<and> snd x = cb"
  unfolding last_call_def by (auto simp: find_Some_iff) (metis length_rev nth_mem set_rev)

lemma load_on_the_way: "on_the_way files tags nav \<Longrightarrow> on_the_way files tags (loadDirectory (currentPath nav) nav)"
  by (auto simp: on_the_way_def loadDirectory_def call_daemon_def)

lemma navigate_on_the_way: "on_the_way files tags nav \<Longrightarrow> on_the_way files tags (navigateTo path nav)"
  by (auto simp: navigateTo_def Let_def) (auto simp: on_the_way_def leave_views_def loadDirectory_def call_daemon_def)

lemma by_path:
  assumes "distinct (map fst s)" "p \<noteq> proto_key"
  shows "map_of (fold js_put (map (\<lambda>p. (p, tags p)) ps) s) p = (if p \<in> set ps then Some (tags p) else map_of s p)"
  using assms(1)
proof (induction ps arbitrary: s)
  case (Cons q ps)
  have d: "distinct (map fst (js_put (q, tags q) s))" using Cons.prems by (rule js_put_distinct)
  show ?case
  proof (cases "q = proto_key")
    case True
    then show ?thesis using Cons.IH [OF d] assms(2) by (simp add: js_put_def)
  next
    case False
    then show ?thesis using Cons.IH [OF d] js_put_lookup [OF Cons.prems, of "(q, tags q)"] by simp
  qed
qed simp

text \<open>The daemon answers with its files and tags.\<close>

definition daemon_answers ::
  "(jstring \<Rightarrow> bool \<Rightarrow> entry list option) \<Rightarrow> (jstring \<Rightarrow> jstring list) \<Rightarrow> (request \<Rightarrow> reply) \<Rightarrow> bool" where
  "daemon_answers files tags answer \<longleftrightarrow>
     (\<forall>path hidden. answer (ListDirectory path hidden) = Entries (files path hidden)) \<and>
     (\<forall>paths. answer (HydrateTags paths) = Tagged (Some (map (\<lambda>p. (p, tags p)) paths))) \<and>
     (\<forall>path hidden es e. files path hidden = Some es \<longrightarrow> e \<in> set es \<longrightarrow> e_path e \<noteq> proto_key)"

lemma untag_paths: "image_mset untag (mset es) = image_mset untag X \<Longrightarrow> e \<in> set es \<Longrightarrow> \<exists>e' \<in># X. e_path e' = e_path e"
proof -
  assume "image_mset untag (mset es) = image_mset untag X" "e \<in> set es"
  then have "untag e \<in># image_mset untag X" by (metis image_eqI in_image_mset set_mset_mset)
  then obtain e' where "e' \<in># X" "untag e' = untag e" by auto
  then show ?thesis by (metis entry.select_convs(2) entry.surjective entry.update_convs(6) untag_def)
qed

lemma retag_untag: "image_mset untag (image_mset (\<lambda>e. e\<lparr>e_tags := f e\<rparr>) X) = image_mset untag X"
  by (simp add: image_mset.compositionality comp_def untag_def [abs_def])

lemma loaded_on_the_way:
  assumes d: "daemon_answers files tags answer"
    and j: "on_the_way files tags (nav\<lparr>nav_calls := (req, Loaded) # calls\<rparr>)"
  shows "on_the_way files tags (run_callback lower Loaded (answer req) (nav\<lparr>nav_calls := calls\<rparr>))"
proof -
  have w: "\<forall>x \<in> set calls. snd x = Hydrated \<longrightarrow> (\<exists>ps. fst x = HydrateTags ps)" using j by (simp add: on_the_way_def)
  show ?thesis
  proof (cases "isSearchMode nav \<or> isTrashView nav")
    case True
    then show ?thesis
      using w by (cases "answer req")
        (auto simp: on_the_way_def run_callback_def loaded_def call_daemon_def Let_def split: option.split)
  next
    case False
    show ?thesis
    proof (cases "last_call Loaded calls")
      case (Some x)
      then have "x = (ListDirectory (currentPath nav) (showHidden nav), Loaded)"
        using j False by (simp add: on_the_way_def last_call_Cons)
      then show ?thesis
        using Some False w
        by (cases "answer req")
          (simp_all add: on_the_way_def run_callback_def loaded_def call_daemon_def Let_def split: option.split)
    next
      case None
      then have "req = ListDirectory (currentPath nav) (showHidden nav)"
        using j False by (simp add: on_the_way_def last_call_Cons)
      then have a: "answer req = Entries (files (currentPath nav) (showHidden nav))"
        using d by (simp add: daemon_answers_def)
      have h: "\<exists>ps. fst x = HydrateTags ps" if "last_call Hydrated calls = Some x" for x
        using w last_call_Some [OF that] by blast
      show ?thesis
        using None False w h
        by (auto simp: a on_the_way_def run_callback_def loaded_def call_daemon_def listing_def sortEntries_def Let_def
            split: option.split)
    qed
  qed
qed

lemma hydrated_on_the_way:
  assumes d: "daemon_answers files tags answer"
    and j: "on_the_way files tags (nav\<lparr>nav_calls := (req, Hydrated) # calls\<rparr>)"
  shows "on_the_way files tags (run_callback lower Hydrated (answer req) (nav\<lparr>nav_calls := calls\<rparr>))"
proof -
  have w: "\<forall>x \<in> set calls. snd x = Hydrated \<longrightarrow> (\<exists>ps. fst x = HydrateTags ps)" using j by (simp add: on_the_way_def)
  obtain ps where req: "req = HydrateTags ps" using j by (auto simp: on_the_way_def)
  let ?tags = "\<lambda>e. case map_of (fold js_put (map (\<lambda>p. (p, tags p)) ps) []) (e_path e) of None \<Rightarrow> [] | Some ts \<Rightarrow> ts"
  let ?es = "map (\<lambda>e. e\<lparr>e_tags := ?tags e\<rparr>) (dirEntries nav)"
  have r: "run_callback lower Hydrated (answer req) (nav\<lparr>nav_calls := calls\<rparr>) = nav\<lparr>nav_calls := calls, dirEntries := ?es\<rparr>"
    using d by (simp add: run_callback_def hydrated_def req daemon_answers_def Let_def)
  show ?thesis
  proof (cases "isSearchMode nav \<or> isTrashView nav \<or> last_call Loaded calls \<noteq> None")
    case True
    then show ?thesis unfolding r using j by (auto simp: on_the_way_def last_call_Cons)
  next
    case False
    then have none: "last_call Loaded calls = None" by blast
    let ?L = "listing (files (currentPath nav) (showHidden nav))"
    have u: "image_mset untag (mset (dirEntries nav)) = image_mset untag ?L"
      and h: "case last_call Hydrated calls of
          None \<Rightarrow> e_path ` set (dirEntries nav) \<subseteq> set ps
        | Some x \<Rightarrow> \<exists>ps. fst x = HydrateTags ps \<and> e_path ` set (dirEntries nav) \<subseteq> set ps"
      using j False by (auto simp: on_the_way_def last_call_Cons req split: option.splits)
    have u': "image_mset untag (mset ?es) = image_mset untag ?L" using u by (simp add: retag_untag)
    show ?thesis
    proof (cases "last_call Hydrated calls")
      case (Some x)
      then show ?thesis unfolding r using none u' h w by (simp add: on_the_way_def image_image)
    next
      case None
      have "e\<lparr>e_tags := ?tags e\<rparr> = tagged tags e" if e: "e \<in> set (dirEntries nav)" for e
      proof -
        obtain e' where "e' \<in># ?L" "e_path e' = e_path e" using untag_paths [OF u e] by blast
        then have "e_path e \<noteq> proto_key"
          using d by (auto simp: daemon_answers_def listing_def split: option.splits)
        moreover have "e_path e \<in> set ps" using h None e by auto
        ultimately show ?thesis by (simp add: by_path tagged_def)
      qed
      then have m: "?es = map (tagged tags) (dirEntries nav)" by simp
      have "mset ?es = image_mset (tagged tags) ?L" unfolding m mset_map by (rule image_untag [OF u])
      then show ?thesis unfolding r using none None u' w by (simp add: on_the_way_def)
    qed
  qed
qed

lemma deliver_on_the_way:
  assumes d: "daemon_answers files tags answer" and j: "on_the_way files tags nav"
  shows "on_the_way files tags (nav_step lower answer (Deliver 0) nav)"
proof (cases "nav_calls nav")
  case Nil
  then show ?thesis using j by (simp add: nav_step_def)
next
  case (Cons x calls)
  obtain req cb where x: "x = (req, cb)" by (cases x)
  have s: "nav_step lower answer (Deliver 0) nav = run_callback lower cb (answer req) (nav\<lparr>nav_calls := calls\<rparr>)"
    by (simp add: nav_step_def Cons x)
  have n: "nav = nav\<lparr>nav_calls := (req, cb) # calls\<rparr>" using Cons x by simp
  have j': "on_the_way files tags (nav\<lparr>nav_calls := (req, cb) # calls\<rparr>)" using j n by simp
  show ?thesis
  proof (cases "cb = Loaded \<or> cb = Hydrated")
    case True
    then show ?thesis unfolding s using j' loaded_on_the_way [OF d] hydrated_on_the_way [OF d] by auto
  next
    case False
    have "last_call Loaded (nav_calls nav) = last_call Loaded calls" "last_call Hydrated (nav_calls nav) = last_call Hydrated calls"
      using False by (simp_all add: Cons x last_call_Cons split: option.split)
    then have "on_the_way files tags (nav\<lparr>nav_calls := calls\<rparr>)" using j by (auto simp: on_the_way_def Cons split: option.splits)
    then show ?thesis
      unfolding s using False
      by (cases cb; cases "answer req")
        (auto simp: run_callback_def trashLoaded_def searched_def globbed_def runGlobSearch_def call_daemon_def on_the_way_def
          split: option.split)
  qed
qed

text \<open>Commands in which the daemon answers in the order of the calls, and no tag changes meanwhile.\<close>

definition orderly_command :: "command \<Rightarrow> bool" where
  "orderly_command c \<longleftrightarrow> (case c of Deliver i \<Rightarrow> i = 0 | FileTagged path added removed \<Rightarrow> False | _ \<Rightarrow> True)"

lemma run_search_on_the_way:
  "on_the_way files tags nav \<Longrightarrow> isSearchMode nav \<Longrightarrow> on_the_way files tags (runSearch chips nav)"
  by (auto simp: on_the_way_def runSearch_def runGlobSearch_def call_daemon_def Let_def)

lemma command_on_the_way:
  assumes d: "daemon_answers files tags answer" and j: "on_the_way files tags nav" and c: "orderly_command c"
    and ok: "nav_ok nav"
  shows "on_the_way files tags (nav_step lower answer c nav)"
proof (cases c)
  case (Navigate path)
  then show ?thesis using j navigate_on_the_way by (simp add: nav_step_def)
next
  case Back
  then show ?thesis
    using j by (auto simp: nav_step_def goBack_def leave_views_def loadDirectory_def call_daemon_def on_the_way_def Let_def)
next
  case Forward
  then show ?thesis
    using j by (auto simp: nav_step_def goForward_def leave_views_def loadDirectory_def call_daemon_def on_the_way_def Let_def)
next
  case Up
  then show ?thesis using j navigate_on_the_way by (simp add: nav_step_def goUp_def)
next
  case Home
  then show ?thesis using j navigate_on_the_way by (simp add: nav_step_def goHome_def)
next
  case OpenTrash
  then show ?thesis using j by (auto simp: nav_step_def navigateToTrash_def loadTrash_def call_daemon_def on_the_way_def)
next
  case (Search chips)
  show ?thesis
  proof (cases "chips = []")
    case True
    have "currentPath nav \<noteq> []" using nav_abs_at [OF ok] by auto
    then show ?thesis
      using j True by (auto simp: Search nav_step_def executeSearch_def navigateTo_def leave_views_def loadDirectory_def
          call_daemon_def on_the_way_def Let_def)
  next
    case False
    have "on_the_way files tags (nav\<lparr>isSearchMode := True, searchChips := chips\<rparr>)" using j by (simp add: on_the_way_def)
    then show ?thesis using run_search_on_the_way False by (simp add: Search nav_step_def executeSearch_def)
  qed
next
  case ToggleHidden
  show ?thesis
  proof (cases "isSearchMode nav")
    case True
    then have "on_the_way files tags (nav\<lparr>showHidden := \<not> showHidden nav\<rparr>)" using j by (simp add: on_the_way_def)
    then show ?thesis using True run_search_on_the_way by (simp add: ToggleHidden nav_step_def toggleHidden_def)
  next
    case False
    then show ?thesis
      using j by (auto simp: ToggleHidden nav_step_def toggleHidden_def loadDirectory_def call_daemon_def on_the_way_def Let_def)
  qed
next
  case Refresh
  show ?thesis
  proof (cases "isTrashView nav")
    case True
    then show ?thesis using j by (auto simp: Refresh nav_step_def refresh_def loadTrash_def call_daemon_def on_the_way_def)
  next
    case False
    then show ?thesis
      using j run_search_on_the_way load_on_the_way by (simp add: Refresh nav_step_def refresh_def)
  qed
next
  case (SortBy col asc)
  have m: "mset (sortEntries lower n es) = mset es" "set (sortEntries lower n es) = set es" for n es
    by (simp_all add: sortEntries_def)
  show ?thesis
    using j by (simp add: SortBy nav_step_def sortBy_def Let_def) (auto simp: on_the_way_def m split: option.splits)
next
  case (PlacesChanged places)
  then show ?thesis using j by (auto simp: nav_step_def on_the_way_def split: option.splits)
next
  case IndexUpdated
  then show ?thesis using j run_search_on_the_way by (simp add: nav_step_def indexUpdated_def)
next
  case (FileTagged path added removed)
  then show ?thesis using c by (simp add: orderly_command_def)
next
  case (Deliver i)
  then show ?thesis using deliver_on_the_way [OF d j] c by (simp add: orderly_command_def)
qed

lemma run_on_the_way:
  assumes "daemon_answers files tags answer" "\<forall>c \<in> set cs. orderly_command c"
  shows "nav_ok nav \<Longrightarrow> on_the_way files tags nav \<Longrightarrow> on_the_way files tags (nav_run lower answer cs nav)"
  using assms(2) unfolding nav_run_def
  by (induction cs arbitrary: nav) (simp_all add: command_on_the_way [OF assms(1)] step_refines)

text \<open>
  Without the tags less is needed: the listings of the directories are the daemon's files, and whatever it
  answers to the other calls, and whatever tags change, the directory view gets the entries of its path.
\<close>

definition lists :: "(jstring \<Rightarrow> bool \<Rightarrow> entry list option) \<Rightarrow> (request \<Rightarrow> reply) \<Rightarrow> bool" where
  "lists files answer \<longleftrightarrow> (\<forall>path hidden. answer (ListDirectory path hidden) = Entries (files path hidden))"

definition replies_in_order :: "command \<Rightarrow> bool" where
  "replies_in_order c \<longleftrightarrow> (case c of Deliver i \<Rightarrow> i = 0 | _ \<Rightarrow> True)"

definition same_entries :: "entry list \<Rightarrow> entry list option \<Rightarrow> bool" where
  "same_entries es result \<longleftrightarrow> image_mset untag (mset es) = image_mset untag (listing result)"

definition arriving :: "(jstring \<Rightarrow> bool \<Rightarrow> entry list option) \<Rightarrow> nav \<Rightarrow> bool" where
  "arriving files nav \<longleftrightarrow>
     (\<not> isSearchMode nav \<and> \<not> isTrashView nav \<longrightarrow>
       (case last_call Loaded (nav_calls nav) of
          Some x \<Rightarrow> x = (ListDirectory (currentPath nav) (showHidden nav), Loaded)
        | None \<Rightarrow> same_entries (dirEntries nav) (files (currentPath nav) (showHidden nav))))"

lemma same_entries_sort [simp]: "same_entries (sortEntries lower nav es) result = same_entries es result"
  by (simp add: same_entries_def sortEntries_def)

lemma same_entries_tags [simp]: "same_entries (map (\<lambda>e. e\<lparr>e_tags := f e\<rparr>) es) result = same_entries es result"
  by (simp add: same_entries_def retag_untag)

lemma same_entries_refl [simp]: "same_entries es (Some es)"
  by (simp add: same_entries_def listing_def)

lemma patch_untag:
  "patch_first path (\<lambda>e. e\<lparr>e_tags := f e\<rparr>) es = Some es' \<Longrightarrow> map untag es' = map untag es"
  by (induction es arbitrary: es') (auto simp: untag_def split: if_splits)

lemma same_entries_patch:
  assumes "patch_first path (\<lambda>e. e\<lparr>e_tags := f e\<rparr>) es = Some es'"
  shows "same_entries es' result = same_entries es result"
  using patch_untag [OF assms] by (metis same_entries_def mset_map)

lemma arriving_frame:
  assumes "isSearchMode nav' = isSearchMode nav" "isTrashView nav' = isTrashView nav" "nav_calls nav' = nav_calls nav"
    "currentPath nav' = currentPath nav" "showHidden nav' = showHidden nav"
    "\<And>result. same_entries (dirEntries nav') result = same_entries (dirEntries nav) result"
  shows "arriving files nav' = arriving files nav"
  unfolding arriving_def assms ..

lemma load_arriving: "arriving files nav \<Longrightarrow> arriving files (loadDirectory (currentPath nav) nav)"
  by (simp add: arriving_def loadDirectory_def call_daemon_def)

lemma navigate_arriving: "arriving files nav \<Longrightarrow> arriving files (navigateTo path nav)"
  by (simp add: navigateTo_def Let_def) (simp add: arriving_def leave_views_def loadDirectory_def call_daemon_def)

lemma run_search_arriving:
  "arriving files nav \<Longrightarrow> isSearchMode nav \<Longrightarrow> arriving files (runSearch chips nav)"
  by (simp add: arriving_def runSearch_def runGlobSearch_def call_daemon_def Let_def)

lemma deliver_arriving:
  assumes l: "lists files answer" and j: "arriving files nav"
  shows "arriving files (nav_step lower answer (Deliver 0) nav)"
proof (cases "nav_calls nav")
  case Nil
  then show ?thesis using j by (simp add: nav_step_def)
next
  case (Cons x calls)
  obtain req cb where x: "x = (req, cb)" by (cases x)
  let ?nav = "nav\<lparr>nav_calls := calls\<rparr>"
  have s: "nav_step lower answer (Deliver 0) nav = run_callback lower cb (answer req) ?nav"
    by (simp add: nav_step_def Cons x)
  show ?thesis
  proof (cases "cb = Loaded")
    case True
    show ?thesis
    proof (cases "last_call Loaded calls = None \<and> \<not> isSearchMode nav \<and> \<not> isTrashView nav")
      case last: True
      then have "req = ListDirectory (currentPath nav) (showHidden nav)"
        using j by (simp add: arriving_def Cons x True last_call_Cons)
      then have a: "answer req = Entries (files (currentPath nav) (showHidden nav))"
        using l by (simp add: lists_def)
      show ?thesis
        using last unfolding s
        by (cases "files (currentPath nav) (showHidden nav)")
          (simp_all add: a True run_callback_def loaded_def arriving_def call_daemon_def Let_def same_entries_def listing_def
            sortEntries_def)
    next
      case False
      then show ?thesis
        using j unfolding s
        by (cases "answer req")
          (auto simp: arriving_def Cons x True last_call_Cons run_callback_def loaded_def call_daemon_def Let_def
            split: option.splits)
    qed
  next
    case False
    have "arriving files ?nav" using j False by (auto simp: arriving_def Cons x last_call_Cons split: option.splits)
    then show ?thesis
      unfolding s using False
      by (cases cb; cases "answer req")
        (auto simp: run_callback_def hydrated_def trashLoaded_def searched_def globbed_def runGlobSearch_def call_daemon_def
          arriving_def Let_def split: option.splits)
  qed
qed

lemma command_arriving:
  assumes l: "lists files answer" and j: "arriving files nav" and c: "replies_in_order c" and ok: "nav_ok nav"
  shows "arriving files (nav_step lower answer c nav)"
proof (cases c)
  case (Search chips)
  show ?thesis
  proof (cases "chips = []")
    case True
    have "currentPath nav \<noteq> []" using nav_abs_at [OF ok] by auto
    then show ?thesis
      using True by (simp add: Search nav_step_def executeSearch_def navigateTo_def leave_views_def loadDirectory_def
          call_daemon_def arriving_def Let_def)
  next
    case False
    have "arriving files (nav\<lparr>isSearchMode := True, searchChips := chips\<rparr>)" by (simp add: arriving_def)
    then show ?thesis using run_search_arriving False by (simp add: Search nav_step_def executeSearch_def)
  qed
next
  case ToggleHidden
  show ?thesis
  proof (cases "isSearchMode nav")
    case True
    then have "arriving files (nav\<lparr>showHidden := \<not> showHidden nav\<rparr>)" by (simp add: arriving_def)
    then show ?thesis using True run_search_arriving by (simp add: ToggleHidden nav_step_def toggleHidden_def)
  next
    case False
    then show ?thesis
      by (simp add: ToggleHidden nav_step_def toggleHidden_def loadDirectory_def call_daemon_def arriving_def Let_def)
  qed
next
  case Refresh
  then show ?thesis
    using j run_search_arriving load_arriving
    by (simp add: nav_step_def refresh_def) (simp add: loadTrash_def call_daemon_def arriving_def)
next
  case (SortBy col asc)
  then show ?thesis
    using j arriving_frame [of "nav_step lower answer c nav" nav files] by (simp add: nav_step_def sortBy_def Let_def)
next
  case (FileTagged path added removed)
  let ?f = "\<lambda>e. e\<lparr>e_tags := applyTagDiff (e_tags e) added removed\<rparr>"
  show ?thesis
  proof (cases "patch_first path ?f (dirEntries nav)")
    case None
    have "arriving files (nav_step lower answer c nav) = arriving files nav"
      by (rule arriving_frame) (simp_all add: FileTagged nav_step_def patchEntryTags_def None split: option.split)
    then show ?thesis using j by simp
  next
    case (Some es)
    then have "nav_step lower answer c nav = nav\<lparr>dirEntries := es\<rparr>"
      by (simp add: FileTagged nav_step_def patchEntryTags_def)
    moreover have "same_entries es result = same_entries (dirEntries nav) result" for result
      using Some by (rule same_entries_patch)
    ultimately have "arriving files (nav_step lower answer c nav) = arriving files nav"
      by (intro arriving_frame) simp_all
    then show ?thesis using j by simp
  qed
next
  case (Deliver i)
  then show ?thesis using deliver_arriving [OF l j] c by (simp add: replies_in_order_def)
next
  case (Navigate path)
  then show ?thesis using j navigate_arriving by (simp add: nav_step_def)
next
  case Up
  then show ?thesis using j navigate_arriving by (simp add: nav_step_def goUp_def)
next
  case Home
  then show ?thesis using j navigate_arriving by (simp add: nav_step_def goHome_def)
next
  case IndexUpdated
  then show ?thesis using j run_search_arriving by (simp add: nav_step_def indexUpdated_def)
next
  case (PlacesChanged places)
  then show ?thesis using j arriving_frame [of "nav_step lower answer c nav" nav files] by (simp add: nav_step_def)
next
  case OpenTrash
  then show ?thesis by (simp add: nav_step_def navigateToTrash_def loadTrash_def call_daemon_def arriving_def)
next
  case Back
  then show ?thesis
    using j by (simp add: nav_step_def goBack_def leave_views_def loadDirectory_def call_daemon_def arriving_def Let_def)
next
  case Forward
  then show ?thesis
    using j by (simp add: nav_step_def goForward_def leave_views_def loadDirectory_def call_daemon_def arriving_def Let_def)
qed

lemma run_arriving:
  assumes "lists files answer" "\<forall>c \<in> set cs. replies_in_order c"
  shows "nav_ok nav \<Longrightarrow> arriving files nav \<Longrightarrow> arriving files (nav_run lower answer cs nav)"
  using assms(2) unfolding nav_run_def
  by (induction cs arbitrary: nav) (simp_all add: command_arriving [OF assms(1)] step_refines)

text \<open>What every delivery keeps, settling keeps.\<close>

lemma settle_keeps:
  assumes "\<And>nav. P nav \<Longrightarrow> P (nav_step lower answer (Deliver 0) nav)" "P nav"
  shows "P (settle lower answer nav) \<and> nav_calls (settle lower answer nav) = []"
  using assms
proof (induction lower answer nav rule: settle.induct)
  case (1 lower answer nav)
  show ?case
  proof (cases "nav_calls nav = []")
    case True
    then show ?thesis using 1(3) by (simp add: settle.simps)
  next
    case False
    then have "settle lower answer nav = settle lower answer (nav_step lower answer (Deliver 0) nav)"
      by (simp add: settle.simps [of _ _ nav])
    then show ?thesis using "1.IH" [OF False 1(2) 1(2) [OF 1(3)]] by simp
  qed
qed

text \<open>C17. The window settles: after any commands and events, with the files staying as they are and the daemon
  answering in the order of the calls, the calls in flight run out, and a directory view then shows exactly the
  entries of the current path, apart from their tags, with or without the hidden ones as asked for, whatever the
  daemon answers to the other calls. Each entry has its tags if, besides, every request for tags succeeds and no event of a change of
  tags comes.\<close>

theorem window_settles:
  fixes lower
  assumes "lists files answer" "\<forall>c \<in> set cs. replies_in_order c"
  defines "nav \<equiv> settle lower answer (nav_run lower answer cs nav_open)"
  shows "nav_calls nav = [] \<and> (\<not> isSearchMode nav \<and> \<not> isTrashView nav \<longrightarrow>
    image_mset untag (mset (dirEntries nav)) = image_mset untag (listing (files (currentPath nav) (showHidden nav))) \<and>
    (daemon_answers files tags answer \<and> (\<forall>c \<in> set cs. orderly_command c) \<longrightarrow>
      mset (dirEntries nav) = image_mset (tagged tags) (listing (files (currentPath nav) (showHidden nav)))))"
proof -
  have start: "arriving files nav_open" "on_the_way files tags nav_open"
    by (simp_all add: arriving_def on_the_way_def nav_open_def nav_start_def navigateTo_def leave_views_def loadDirectory_def
        call_daemon_def last_call_def)
  have "arriving files nav \<and> nav_calls nav = []"
    unfolding nav_def using deliver_arriving [OF assms(1)] run_arriving [OF assms(1,2) open_ok(1) start(1)]
    by (rule settle_keeps)
  moreover have "on_the_way files tags nav" if d: "daemon_answers files tags answer" "\<forall>c \<in> set cs. orderly_command c"
    using settle_keeps [of "on_the_way files tags", OF deliver_on_the_way [OF d(1)] run_on_the_way [OF d open_ok(1) start(2)]]
    by (simp add: nav_def)
  ultimately show ?thesis by (auto simp: arriving_def on_the_way_def same_entries_def)
qed

text \<open>Two directories for the witnesses: \<open>/\<close> with a folder \<open>a\<close>, and the empty \<open>/a\<close>.\<close>

definition two_files :: "jstring \<Rightarrow> bool \<Rightarrow> entry list option" where
  "two_files path hidden =
     (if path = [slash]
      then Some [\<lparr>e_name = [97], e_path = [slash, 97], e_isDir = True, e_size = Some 0, e_mtime = Some 0, e_tags = []\<rparr>]
      else if path = [slash, 97] then Some [] else None)"

fun two_answers :: "request \<Rightarrow> reply" where
  "two_answers (ListDirectory path hidden) = Entries (two_files path hidden)"
| "two_answers (HydrateTags paths) = Tagged (Some (map (\<lambda>p. (p, [[116]])) paths))"
| "two_answers _ = Entries None"

lemma two_daemon: "daemon_answers two_files (\<lambda>p. [[116]]) two_answers"
  by (auto simp: daemon_answers_def two_files_def proto_key_def split: if_splits)

lemma two_lists: "lists two_files two_answers"
  by (simp add: lists_def)

theorem window_settles_witness:
  "nav_calls (settle id two_answers
     (nav_run id two_answers [Navigate [slash, 97], Back, Deliver 0, FileTagged [slash, 97] [[116]] []] nav_open)) = []"
  using window_settles [OF two_lists,
      of "[Navigate [slash, 97], Back, Deliver 0, FileTagged [slash, 97] [[116]] []]" id]
  by (simp add: replies_in_order_def)

text \<open>Deliveries of tags leave the place and the entries as they are.\<close>

definition hydrating :: "nav \<Rightarrow> nav \<Rightarrow> bool" where
  "hydrating nav nav' \<longleftrightarrow> (\<forall>x \<in> set (nav_calls nav'). snd x = Hydrated) \<and>
     currentPath nav' = currentPath nav \<and> isSearchMode nav' = isSearchMode nav \<and> isTrashView nav' = isTrashView nav \<and>
     image_mset untag (mset (dirEntries nav')) = image_mset untag (mset (dirEntries nav))"

lemma deliver_hydrating: "hydrating nav nav' \<Longrightarrow> hydrating nav (nav_step lower answer (Deliver 0) nav')"
proof -
  assume h: "hydrating nav nav'"
  show ?thesis
  proof (cases "nav_calls nav'")
    case Nil
    then show ?thesis using h by (simp add: nav_step_def)
  next
    case (Cons x calls)
    then have "snd x = Hydrated" using h by (simp add: hydrating_def)
    then show ?thesis
      using h Cons by (cases x; cases "answer (fst x)")
        (auto simp: nav_step_def run_callback_def hydrated_def hydrating_def retag_untag Let_def split: option.split)
  qed
qed

text \<open>C19. The order matters: the daemon answers concurrently, and a reply to an earlier call that comes late
  overwrites the view. In whatever state with nothing in flight, whatever the files, when two directories are opened
  one after the other and the listing of the first comes after that of the second, the window ends on the second path,
  in the directory view, with nothing in flight, and shows the entries of the first directory, apart from their tags.\<close>

theorem late_reply_overwrites:
  fixes lower
  assumes "lists files answer" "nav_calls nav = []" "p \<noteq> []" "q \<noteq> []"
  defines "nav' \<equiv> settle lower answer (nav_run lower answer [Navigate p, Navigate q, Deliver 1, Deliver 0] nav)"
  shows "nav_calls nav' = [] \<and> currentPath nav' = q \<and> \<not> isSearchMode nav' \<and> \<not> isTrashView nav' \<and>
    image_mset untag (mset (dirEntries nav')) = image_mset untag (listing (files p (showHidden nav)))"
proof -
  let ?h = "showHidden nav"
  let ?opened = "nav_run lower answer [Navigate p, Navigate q] nav"
  let ?nav = "nav_run lower answer [Navigate p, Navigate q, Deliver 1, Deliver 0] nav"
  have o: "nav_calls ?opened = [(ListDirectory p ?h, Loaded), (ListDirectory q ?h, Loaded)]"
    "currentPath ?opened = q" "\<not> isSearchMode ?opened" "\<not> isTrashView ?opened"
    using assms(2-4)
    by (simp_all add: nav_run_def nav_step_def navigateTo_def leave_views_def loadDirectory_def call_daemon_def Let_def)
  have a: "answer (ListDirectory r h) = Entries (files r h)" for r h using assms(1) by (simp add: lists_def)
  have "?nav = nav_step lower answer (Deliver 0) (nav_step lower answer (Deliver 1) ?opened)" by (simp add: nav_run_def)
  then have n: "\<forall>x \<in> set (nav_calls ?nav). snd x = Hydrated" "currentPath ?nav = q" "\<not> isSearchMode ?nav" "\<not> isTrashView ?nav"
    "image_mset untag (mset (dirEntries ?nav)) = image_mset untag (listing (files p ?h))"
    using o a by (auto simp: nav_step_def run_callback_def loaded_def call_daemon_def listing_def sortEntries_def Let_def
        split: option.split)
  have "hydrating ?nav ?nav" using n(1) by (simp only: hydrating_def simp_thms)
  with deliver_hydrating have "hydrating ?nav nav' \<and> nav_calls nav' = []"
    unfolding nav'_def by (rule settle_keeps)
  then show ?thesis using n by (simp add: hydrating_def)
qed

theorem late_reply_overwrites_witness:
  "currentPath (settle id two_answers (nav_run id two_answers [Navigate [slash], Navigate [slash, 97], Deliver 1, Deliver 0]
     nav_start)) = [slash, 97] \<and>
   image_mset untag (mset (dirEntries (settle id two_answers
     (nav_run id two_answers [Navigate [slash], Navigate [slash, 97], Deliver 1, Deliver 0] nav_start)))) =
     image_mset untag (listing (two_files [slash] False)) \<and>
   listing (two_files [slash] False) \<noteq> {#} \<and> listing (two_files [slash, 97] False) = {#}"
  using late_reply_overwrites [OF two_lists, of nav_start "[slash]" "[slash, 97]" id]
  by (simp add: nav_start_def two_files_def listing_def)

text \<open>A change of tags reaches one list only: when the directory last shown has the file, the entry in the
  results of a search on the screen keeps its old tags.\<close>

theorem patch_misses_results:
  assumes "e \<in> set (dirEntries nav)" "e_path e = path"
  shows "searchResults (nav_step lower answer (FileTagged path added removed) nav) = searchResults nav"
proof -
  have "patch_first path f es \<noteq> None" if "e \<in> set es" for f es
    using that assms(2) by (induction es) auto
  from this [OF assms(1), of "\<lambda>e. e\<lparr>e_tags := applyTagDiff (e_tags e) added removed\<rparr>"] show ?thesis
    by (auto simp: nav_step_def patchEntryTags_def Let_def)
qed

theorem patch_misses_results_witness:
  "searchResults (nav_step id two_answers (FileTagged [slash, 97] [[116]] [])
     (nav_open\<lparr>dirEntries := the (two_files [slash] False), searchResults := the (two_files [slash] False)\<rparr>)) =
   the (two_files [slash] False)"
  by (subst patch_misses_results [where e = "the (two_files [slash] False) ! 0"]) (simp_all add: two_files_def)

text \<open>A search started in the trash view leaves this view on, which hides its results.\<close>

lemma search_stays_in_trash: "isTrashView nav \<Longrightarrow> chips \<noteq> [] \<Longrightarrow> isTrashView (executeSearch chips nav)"
  by (simp add: executeSearch_def runSearch_def runGlobSearch_def call_daemon_def Let_def)

text \<open>
  Sorting by tags does nothing for a directory that is loaded: its entries come without tags, and their
  tags come after the sorting.
\<close>

lemma sort_by_tags_on_load:
  assumes "\<forall>e \<in> set es. e_tags e = [] \<and> \<not> e_isDir e" "sortColumn nav = js_str ''tags''"
  shows "sortEntries lower nav es = es"
proof -
  have "js_sort (compare_entries lower (sortColumn nav) (sortAscending nav)) es = es"
    using assms(1)
  proof (induction es)
    case (Cons x xs)
    have "compare_entries lower (sortColumn nav) (sortAscending nav) x y \<le> 0" if "y \<in> set xs" for y
      using Cons.prems that assms(2) by (simp add: compare_entries_def sort_value_def Let_def)
    then show ?case using Cons by (cases xs) auto
  qed simp
  then show ?thesis by (simp add: sortEntries_def)
qed

end
