(* ===== verification/Api.thy ===== *)
theory Api
  imports ProtocolPlain Client
begin

text \<open>
  The public functions of \<open>TilboDaemon.qml\<close>: each builds the JSON of a request for \<open>_call\<close> and turns
  the response into the arguments of its callback. \<open>api_payload\<close> and \<open>api_reply\<close> collect the two halves for
  calls with arguments of their types; \<open>api_message\<close> is the protocol message a call means, and
  \<open>answer_args\<close> what its callback gets for an envelope of the daemon. Last come the settings
  \<open>BrowserWindow.qml\<close> takes from the configuration.

  The theorems: the message classes read the frame of every call as the envelope it means; the JSON of
  listings, search results, settings and errors comes out at the callback as the window expects it.
\<close>

section \<open>Requests\<close>

text \<open>An object literal.\<close>

definition literal :: "(string \<times> js) list \<Rightarrow> js" where
  "literal kvs = plain (map (\<lambda>kv. (js_str (fst kv), snd kv)) kvs)"

text \<open>
  \<open>opMap[operation] || "TAG_OPERATION_UNSPECIFIED"\<close>; under a name every object inherits \<open>opMap\<close> has
  a function, and what becomes of it is left open.
\<close>

definition tag_operation :: "js \<Rightarrow> js" where
  "tag_operation operation =
     String (js_str
       (if operation = String (js_str ''add'') then ''TAG_OPERATION_ADD''
        else if operation = String (js_str ''remove'') then ''TAG_OPERATION_REMOVE''
        else if operation = String (js_str ''set'') then ''TAG_OPERATION_SET''
        else ''TAG_OPERATION_UNSPECIFIED''))"

definition api_listDirectory :: "js \<Rightarrow> js \<Rightarrow> js" where
  "api_listDirectory path hidden = literal [(''listDirectory'', literal [(''path'', path), (''hidden'', hidden)])]"

definition api_statFile :: "js \<Rightarrow> js" where
  "api_statFile path = literal [(''statFile'', literal [(''path'', path)])]"

definition api_search :: "js \<Rightarrow> js \<Rightarrow> js \<Rightarrow> js \<Rightarrow> js \<Rightarrow> js \<Rightarrow> js \<Rightarrow> js \<Rightarrow> js" where
  "api_search tags tagsAny tagExclude metaFilters ftsQuery limit offset sortBy = literal [(''search'', literal [(''tags'', or_value tags (Array [])), (''tagsAny'', or_value tagsAny (Boolean False)), (''tagExclude'', or_value tagExclude (Array [])), (''metaFilters'', or_value metaFilters (plain [])), (''ftsQuery'', or_value ftsQuery (String [])), (''limit'', or_value limit (int_js 50)), (''offset'', or_value offset (int_js 0)), (''sortBy'', or_value sortBy (Array []))])]"

definition api_globSearch :: "js \<Rightarrow> js \<Rightarrow> js \<Rightarrow> js" where
  "api_globSearch patterns limit allowHidden = literal [(''globSearch'', literal [(''patterns'', or_value patterns (Array [])), (''limit'', or_value limit (int_js 1000)), (''allowHidden'', or_value allowHidden (Boolean False))])]"

definition api_getMetadata :: "js \<Rightarrow> js" where
  "api_getMetadata path = literal [(''metadata'', literal [(''path'', path)])]"

definition api_setMetadata :: "js \<Rightarrow> js \<Rightarrow> js \<Rightarrow> js" where
  "api_setMetadata path key v = literal [(''metadataSet'', literal [(''path'', path), (''key'', key), (''value'', or_value v (String []))])]"

definition api_modifyTags :: "js \<Rightarrow> js \<Rightarrow> js \<Rightarrow> js" where
  "api_modifyTags paths tags operation = literal [(''tag'', literal [(''paths'', or_value paths (Array [])), (''tags'', or_value tags (Array [])), (''operation'', tag_operation operation)])]"

definition api_hydrateTags :: "js \<Rightarrow> js" where
  "api_hydrateTags paths = literal [(''hydrateTags'', literal [(''paths'', or_value paths (Array []))])]"

definition api_listTags :: "js \<Rightarrow> js" where
  "api_listTags pre = literal [(''listTags'', literal [(''prefix'', or_value pre (String []))])]"

definition api_renameFile :: "js \<Rightarrow> js \<Rightarrow> js" where
  "api_renameFile path newName = literal [(''renameFile'', literal [(''path'', path), (''newName'', newName)])]"

definition api_deleteFile :: "js \<Rightarrow> js" where
  "api_deleteFile path = literal [(''deleteFile'', literal [(''path'', path)])]"

definition api_chmodFile :: "js \<Rightarrow> js \<Rightarrow> js" where
  "api_chmodFile path mode = literal [(''chmodFile'', literal [(''path'', path), (''mode'', mode)])]"

definition api_listPlaces :: "js" where
  "api_listPlaces = literal [(''listPlaces'', literal [])]"

definition api_pinPlace :: "js \<Rightarrow> js \<Rightarrow> js \<Rightarrow> js" where
  "api_pinPlace name path iconName = literal [(''pinPlace'', literal [(''name'', name), (''path'', path), (''iconName'', or_value iconName (String (js_str ''folder'')))])]"

definition api_unpinPlace :: "js \<Rightarrow> js" where
  "api_unpinPlace path = literal [(''unpinPlace'', literal [(''path'', path)])]"

definition api_trashFile :: "js \<Rightarrow> js" where
  "api_trashFile path = literal [(''trashFile'', literal [(''path'', path)])]"

definition api_listTrash :: "js" where
  "api_listTrash = literal [(''listTrash'', literal [])]"

definition api_restoreTrash :: "js \<Rightarrow> js" where
  "api_restoreTrash trashName = literal [(''restoreTrash'', literal [(''trashName'', trashName)])]"

definition api_emptyTrash :: "js" where
  "api_emptyTrash = literal [(''emptyTrash'', literal [])]"

definition api_listAppsForFile :: "js \<Rightarrow> js" where
  "api_listAppsForFile path = literal [(''listAppsForFile'', literal [(''path'', path)])]"

definition api_openWithApp :: "js \<Rightarrow> js \<Rightarrow> js" where
  "api_openWithApp path appId = literal [(''openWithApp'', literal [(''path'', path), (''appId'', appId)])]"

definition api_getBrowserConfig :: "js" where
  "api_getBrowserConfig = literal [(''getBrowserConfig'', literal [])]"

definition api_getFileBadges :: "js \<Rightarrow> js" where
  "api_getFileBadges path = literal [(''getFileBadges'', literal [(''path'', path)])]"

definition api_getFileActions :: "js \<Rightarrow> js" where
  "api_getFileActions path = literal [(''getFileActions'', literal [(''path'', path)])]"

definition api_runFileAction :: "js \<Rightarrow> js \<Rightarrow> js" where
  "api_runFileAction path actionId = literal [(''runFileAction'', literal [(''path'', path), (''actionId'', actionId)])]"

definition api_getThumbnail :: "js \<Rightarrow> js \<Rightarrow> js" where
  "api_getThumbnail path pixels = literal [(''getThumbnail'', literal [(''path'', path), (''size'', String (js_str (if equals_int pixels 1 then ''THUMBNAIL_SIZE_LARGE'' else ''THUMBNAIL_SIZE_NORMAL'')))])]"

definition api_reindexFile :: "js \<Rightarrow> js" where
  "api_reindexFile path = literal [(''reindexFile'', literal [(''path'', path)])]"

definition api_listMounts :: "js" where
  "api_listMounts = literal [(''listMounts'', literal [])]"

definition api_listSavedSearches :: "js" where
  "api_listSavedSearches = literal [(''listSavedSearches'', literal [])]"

definition api_pinSearch :: "js \<Rightarrow> js \<Rightarrow> js \<Rightarrow> js" where
  "api_pinSearch name chips iconName = literal [(''pinSearch'', literal [(''name'', name), (''chips'', or_value chips (Array [])), (''iconName'', or_value iconName (String (js_str ''folder-saved-search'')))])]"

definition api_unpinSearch :: "js \<Rightarrow> js" where
  "api_unpinSearch ident = literal [(''unpinSearch'', literal [(''id'', ident)])]"

definition api_copy :: "js \<Rightarrow> js \<Rightarrow> js" where
  "api_copy paths isMove = literal [(''copy'', literal [(''paths'', or_value paths (Array [])), (''isMove'', Boolean (truthy isMove))])]"

definition api_paste :: "js \<Rightarrow> js" where
  "api_paste destinationDir = literal [(''paste'', literal [(''destinationDir'', destinationDir)])]"

definition api_createFile :: "js \<Rightarrow> js \<Rightarrow> js" where
  "api_createFile destinationDir name = literal [(''createFile'', literal [(''destinationDir'', destinationDir), (''name'', name)])]"

definition api_createDirectory :: "js \<Rightarrow> js \<Rightarrow> js" where
  "api_createDirectory destinationDir name = literal [(''createDirectory'', literal [(''destinationDir'', destinationDir), (''name'', name)])]"

section \<open>The messages they mean\<close>

text \<open>A call with arguments of the types the window passes.\<close>

datatype api_call =
    CallListDirectory jstring bool
  | CallStatFile jstring
  | CallSearch "jstring list" bool "jstring list" js_map jstring int int "jstring list"
  | CallGlobSearch "jstring list" int bool
  | CallGetMetadata jstring
  | CallSetMetadata jstring jstring jstring
  | CallModifyTags "jstring list" "jstring list" jstring
  | CallHydrateTags "jstring list"
  | CallListTags jstring
  | CallRenameFile jstring jstring
  | CallDeleteFile jstring
  | CallChmodFile jstring int
  | CallListPlaces
  | CallPinPlace jstring jstring jstring
  | CallUnpinPlace jstring
  | CallTrashFile jstring
  | CallListTrash
  | CallRestoreTrash jstring
  | CallEmptyTrash
  | CallListAppsForFile jstring
  | CallOpenWithApp jstring jstring
  | CallGetBrowserConfig
  | CallGetFileBadges jstring
  | CallGetFileActions jstring
  | CallRunFileAction jstring jstring
  | CallGetThumbnail jstring int
  | CallReindexFile jstring
  | CallListMounts
  | CallListSavedSearches
  | CallPinSearch jstring "jstring list" jstring
  | CallUnpinSearch jstring
  | CallCopy "jstring list" bool
  | CallPaste jstring
  | CallCreateFile jstring jstring
  | CallCreateDirectory jstring jstring

definition operation_number :: "jstring \<Rightarrow> int" where
  "operation_number operation =
     (if operation = js_str ''add'' then 1 else if operation = js_str ''remove'' then 2
      else if operation = js_str ''set'' then 3 else 0)"

fun api_payload :: "api_call \<Rightarrow> js" where
  "api_payload (CallListDirectory path hidden) = api_listDirectory (String path) (Boolean hidden)"
| "api_payload (CallStatFile path) = api_statFile (String path)"
| "api_payload (CallSearch tags tagsAny tagExclude metaFilters ftsQuery limit offset sortBy) = api_search (Array (map String tags)) (Boolean tagsAny) (Array (map String tagExclude)) (map_obj metaFilters) (String ftsQuery) (int_js limit) (int_js offset) (Array (map String sortBy))"
| "api_payload (CallGlobSearch patterns limit allowHidden) = api_globSearch (Array (map String patterns)) (int_js limit) (Boolean allowHidden)"
| "api_payload (CallGetMetadata path) = api_getMetadata (String path)"
| "api_payload (CallSetMetadata path key v) = api_setMetadata (String path) (String key) (String v)"
| "api_payload (CallModifyTags paths tags operation) = api_modifyTags (Array (map String paths)) (Array (map String tags)) (String operation)"
| "api_payload (CallHydrateTags paths) = api_hydrateTags (Array (map String paths))"
| "api_payload (CallListTags pre) = api_listTags (String pre)"
| "api_payload (CallRenameFile path newName) = api_renameFile (String path) (String newName)"
| "api_payload (CallDeleteFile path) = api_deleteFile (String path)"
| "api_payload (CallChmodFile path mode) = api_chmodFile (String path) (int_js mode)"
| "api_payload CallListPlaces = api_listPlaces"
| "api_payload (CallPinPlace name path iconName) = api_pinPlace (String name) (String path) (String iconName)"
| "api_payload (CallUnpinPlace path) = api_unpinPlace (String path)"
| "api_payload (CallTrashFile path) = api_trashFile (String path)"
| "api_payload CallListTrash = api_listTrash"
| "api_payload (CallRestoreTrash trashName) = api_restoreTrash (String trashName)"
| "api_payload CallEmptyTrash = api_emptyTrash"
| "api_payload (CallListAppsForFile path) = api_listAppsForFile (String path)"
| "api_payload (CallOpenWithApp path appId) = api_openWithApp (String path) (String appId)"
| "api_payload CallGetBrowserConfig = api_getBrowserConfig"
| "api_payload (CallGetFileBadges path) = api_getFileBadges (String path)"
| "api_payload (CallGetFileActions path) = api_getFileActions (String path)"
| "api_payload (CallRunFileAction path actionId) = api_runFileAction (String path) (String actionId)"
| "api_payload (CallGetThumbnail path pixels) = api_getThumbnail (String path) (int_js pixels)"
| "api_payload (CallReindexFile path) = api_reindexFile (String path)"
| "api_payload CallListMounts = api_listMounts"
| "api_payload CallListSavedSearches = api_listSavedSearches"
| "api_payload (CallPinSearch name chips iconName) = api_pinSearch (String name) (Array (map String chips)) (String iconName)"
| "api_payload (CallUnpinSearch ident) = api_unpinSearch (String ident)"
| "api_payload (CallCopy paths isMove) = api_copy (Array (map String paths)) (Boolean isMove)"
| "api_payload (CallPaste destinationDir) = api_paste (String destinationDir)"
| "api_payload (CallCreateFile destinationDir name) = api_createFile (String destinationDir) (String name)"
| "api_payload (CallCreateDirectory destinationDir name) = api_createDirectory (String destinationDir) (String name)"

fun api_message :: "api_call \<Rightarrow> Request" where
  "api_message (CallListDirectory path hidden) = Request_new\<lparr>Request_listDirectory := Some (ListDirectoryRequest_new\<lparr>ListDirectoryRequest_path := Some path, ListDirectoryRequest_hidden := Some hidden\<rparr>)\<rparr>"
| "api_message (CallStatFile path) = Request_new\<lparr>Request_statFile := Some (StatFileRequest_new\<lparr>StatFileRequest_path := Some path\<rparr>)\<rparr>"
| "api_message (CallSearch tags tagsAny tagExclude metaFilters ftsQuery limit offset sortBy) = Request_new\<lparr>Request_search := Some (SearchRequest_new\<lparr>SearchRequest_tags := tags, SearchRequest_tagsAny := Some tagsAny, SearchRequest_tagExclude := tagExclude, SearchRequest_metaFilters := metaFilters, SearchRequest_ftsQuery := Some ftsQuery, SearchRequest_limit := Some (if limit = 0 then 50 else limit), SearchRequest_offset := Some offset, SearchRequest_sortBy := sortBy\<rparr>)\<rparr>"
| "api_message (CallGlobSearch patterns limit allowHidden) = Request_new\<lparr>Request_globSearch := Some (GlobSearchRequest_new\<lparr>GlobSearchRequest_patterns := patterns, GlobSearchRequest_limit := Some (if limit = 0 then 1000 else limit), GlobSearchRequest_allowHidden := Some allowHidden\<rparr>)\<rparr>"
| "api_message (CallGetMetadata path) = Request_new\<lparr>Request_metadata := Some (MetadataRequest_new\<lparr>MetadataRequest_path := Some path\<rparr>)\<rparr>"
| "api_message (CallSetMetadata path key v) = Request_new\<lparr>Request_metadataSet := Some (MetadataSetRequest_new\<lparr>MetadataSetRequest_path := Some path, MetadataSetRequest_key := Some key, MetadataSetRequest_value := Some v\<rparr>)\<rparr>"
| "api_message (CallModifyTags paths tags operation) = Request_new\<lparr>Request_tag := Some (TagRequest_new\<lparr>TagRequest_paths := paths, TagRequest_tags := tags, TagRequest_operation := Some (operation_number operation)\<rparr>)\<rparr>"
| "api_message (CallHydrateTags paths) = Request_new\<lparr>Request_hydrateTags := Some (HydrateTagsRequest_new\<lparr>HydrateTagsRequest_paths := paths\<rparr>)\<rparr>"
| "api_message (CallListTags pre) = Request_new\<lparr>Request_listTags := Some (ListTagsRequest_new\<lparr>ListTagsRequest_prefix := Some pre\<rparr>)\<rparr>"
| "api_message (CallRenameFile path newName) = Request_new\<lparr>Request_renameFile := Some (RenameFileRequest_new\<lparr>RenameFileRequest_path := Some path, RenameFileRequest_newName := Some newName\<rparr>)\<rparr>"
| "api_message (CallDeleteFile path) = Request_new\<lparr>Request_deleteFile := Some (DeleteFileRequest_new\<lparr>DeleteFileRequest_path := Some path\<rparr>)\<rparr>"
| "api_message (CallChmodFile path mode) = Request_new\<lparr>Request_chmodFile := Some (ChmodFileRequest_new\<lparr>ChmodFileRequest_path := Some path, ChmodFileRequest_mode := Some mode\<rparr>)\<rparr>"
| "api_message CallListPlaces = Request_new\<lparr>Request_listPlaces := Some ListPlacesRequest_new\<rparr>"
| "api_message (CallPinPlace name path iconName) = Request_new\<lparr>Request_pinPlace := Some (PinPlaceRequest_new\<lparr>PinPlaceRequest_name := Some name, PinPlaceRequest_path := Some path, PinPlaceRequest_iconName := Some (if iconName = [] then js_str ''folder'' else iconName)\<rparr>)\<rparr>"
| "api_message (CallUnpinPlace path) = Request_new\<lparr>Request_unpinPlace := Some (UnpinPlaceRequest_new\<lparr>UnpinPlaceRequest_path := Some path\<rparr>)\<rparr>"
| "api_message (CallTrashFile path) = Request_new\<lparr>Request_trashFile := Some (TrashFileRequest_new\<lparr>TrashFileRequest_path := Some path\<rparr>)\<rparr>"
| "api_message CallListTrash = Request_new\<lparr>Request_listTrash := Some ListTrashRequest_new\<rparr>"
| "api_message (CallRestoreTrash trashName) = Request_new\<lparr>Request_restoreTrash := Some (RestoreTrashRequest_new\<lparr>RestoreTrashRequest_trashName := Some trashName\<rparr>)\<rparr>"
| "api_message CallEmptyTrash = Request_new\<lparr>Request_emptyTrash := Some EmptyTrashRequest_new\<rparr>"
| "api_message (CallListAppsForFile path) = Request_new\<lparr>Request_listAppsForFile := Some (ListAppsForFileRequest_new\<lparr>ListAppsForFileRequest_path := Some path\<rparr>)\<rparr>"
| "api_message (CallOpenWithApp path appId) = Request_new\<lparr>Request_openWithApp := Some (OpenWithAppRequest_new\<lparr>OpenWithAppRequest_path := Some path, OpenWithAppRequest_appId := Some appId\<rparr>)\<rparr>"
| "api_message CallGetBrowserConfig = Request_new\<lparr>Request_getBrowserConfig := Some GetBrowserConfigRequest_new\<rparr>"
| "api_message (CallGetFileBadges path) = Request_new\<lparr>Request_getFileBadges := Some (GetFileBadgesRequest_new\<lparr>GetFileBadgesRequest_path := Some path\<rparr>)\<rparr>"
| "api_message (CallGetFileActions path) = Request_new\<lparr>Request_getFileActions := Some (GetFileActionsRequest_new\<lparr>GetFileActionsRequest_path := Some path\<rparr>)\<rparr>"
| "api_message (CallRunFileAction path actionId) = Request_new\<lparr>Request_runFileAction := Some (RunFileActionRequest_new\<lparr>RunFileActionRequest_path := Some path, RunFileActionRequest_actionId := Some actionId\<rparr>)\<rparr>"
| "api_message (CallGetThumbnail path pixels) = Request_new\<lparr>Request_getThumbnail := Some (GetThumbnailRequest_new\<lparr>GetThumbnailRequest_path := Some path, GetThumbnailRequest_size := Some (if pixels = 1 then 2 else 1)\<rparr>)\<rparr>"
| "api_message (CallReindexFile path) = Request_new\<lparr>Request_reindexFile := Some (ReindexFileRequest_new\<lparr>ReindexFileRequest_path := Some path\<rparr>)\<rparr>"
| "api_message CallListMounts = Request_new\<lparr>Request_listMounts := Some ListMountsRequest_new\<rparr>"
| "api_message CallListSavedSearches = Request_new\<lparr>Request_listSavedSearches := Some ListSavedSearchesRequest_new\<rparr>"
| "api_message (CallPinSearch name chips iconName) = Request_new\<lparr>Request_pinSearch := Some (PinSearchRequest_new\<lparr>PinSearchRequest_name := Some name, PinSearchRequest_chips := chips, PinSearchRequest_iconName := Some (if iconName = [] then js_str ''folder-saved-search'' else iconName)\<rparr>)\<rparr>"
| "api_message (CallUnpinSearch ident) = Request_new\<lparr>Request_unpinSearch := Some (UnpinSearchRequest_new\<lparr>UnpinSearchRequest_id := Some ident\<rparr>)\<rparr>"
| "api_message (CallCopy paths isMove) = Request_new\<lparr>Request_copy := Some (CopyRequest_new\<lparr>CopyRequest_paths := paths, CopyRequest_isMove := Some isMove\<rparr>)\<rparr>"
| "api_message (CallPaste destinationDir) = Request_new\<lparr>Request_paste := Some (PasteRequest_new\<lparr>PasteRequest_destinationDir := Some destinationDir\<rparr>)\<rparr>"
| "api_message (CallCreateFile destinationDir name) = Request_new\<lparr>Request_createFile := Some (CreateFileRequest_new\<lparr>CreateFileRequest_destinationDir := Some destinationDir, CreateFileRequest_name := Some name\<rparr>)\<rparr>"
| "api_message (CallCreateDirectory destinationDir name) = Request_new\<lparr>Request_createDirectory := Some (CreateDirectoryRequest_new\<lparr>CreateDirectoryRequest_destinationDir := Some destinationDir, CreateDirectoryRequest_name := Some name\<rparr>)\<rparr>"

text \<open>Numbers fit 32 bits, and a map is one an object can hold.\<close>

fun api_ok :: "api_call \<Rightarrow> bool" where
  "api_ok (CallListDirectory path hidden) \<longleftrightarrow> True"
| "api_ok (CallStatFile path) \<longleftrightarrow> True"
| "api_ok (CallSearch tags tagsAny tagExclude metaFilters ftsQuery limit offset sortBy) \<longleftrightarrow> uint32_ok limit \<and> uint32_ok offset \<and> js_object metaFilters"
| "api_ok (CallGlobSearch patterns limit allowHidden) \<longleftrightarrow> uint32_ok limit"
| "api_ok (CallGetMetadata path) \<longleftrightarrow> True"
| "api_ok (CallSetMetadata path key v) \<longleftrightarrow> True"
| "api_ok (CallModifyTags paths tags operation) \<longleftrightarrow> \<not> inherited operation"
| "api_ok (CallHydrateTags paths) \<longleftrightarrow> True"
| "api_ok (CallListTags pre) \<longleftrightarrow> True"
| "api_ok (CallRenameFile path newName) \<longleftrightarrow> True"
| "api_ok (CallDeleteFile path) \<longleftrightarrow> True"
| "api_ok (CallChmodFile path mode) \<longleftrightarrow> uint32_ok mode"
| "api_ok CallListPlaces \<longleftrightarrow> True"
| "api_ok (CallPinPlace name path iconName) \<longleftrightarrow> True"
| "api_ok (CallUnpinPlace path) \<longleftrightarrow> True"
| "api_ok (CallTrashFile path) \<longleftrightarrow> True"
| "api_ok CallListTrash \<longleftrightarrow> True"
| "api_ok (CallRestoreTrash trashName) \<longleftrightarrow> True"
| "api_ok CallEmptyTrash \<longleftrightarrow> True"
| "api_ok (CallListAppsForFile path) \<longleftrightarrow> True"
| "api_ok (CallOpenWithApp path appId) \<longleftrightarrow> True"
| "api_ok CallGetBrowserConfig \<longleftrightarrow> True"
| "api_ok (CallGetFileBadges path) \<longleftrightarrow> True"
| "api_ok (CallGetFileActions path) \<longleftrightarrow> True"
| "api_ok (CallRunFileAction path actionId) \<longleftrightarrow> True"
| "api_ok (CallGetThumbnail path pixels) \<longleftrightarrow> uint32_ok pixels"
| "api_ok (CallReindexFile path) \<longleftrightarrow> True"
| "api_ok CallListMounts \<longleftrightarrow> True"
| "api_ok CallListSavedSearches \<longleftrightarrow> True"
| "api_ok (CallPinSearch name chips iconName) \<longleftrightarrow> True"
| "api_ok (CallUnpinSearch ident) \<longleftrightarrow> True"
| "api_ok (CallCopy paths isMove) \<longleftrightarrow> True"
| "api_ok (CallPaste destinationDir) \<longleftrightarrow> True"
| "api_ok (CallCreateFile destinationDir name) \<longleftrightarrow> True"
| "api_ok (CallCreateDirectory destinationDir name) \<longleftrightarrow> True"

section \<open>Replies\<close>

text \<open>
  What each function makes of a response and an error: the arguments of its callback, where it was given
  one.
\<close>

text \<open>\<open>if (err) { callback(d, err); return }\<close> and \<open>callback(v, null)\<close>\<close>

definition or_fail :: "js \<Rightarrow> js res \<Rightarrow> js \<Rightarrow> js list res" where
  "or_fail d r err = (if truthy err then ok [d, err] else bindr r (\<lambda>v. ok [v, Null]))"

text \<open>An object literal, its values computed in turn.\<close>

definition object_of :: "(string \<times> js res) list \<Rightarrow> js res" where
  "object_of kvs = bindr (map_all (\<lambda>kv. bindr (snd kv) (\<lambda>v. ok (fst kv, v))) kvs) (\<lambda>kvs. ok (literal kvs))"

text \<open>\<open>!!x.k\<close>\<close>

definition flag :: "js \<Rightarrow> string \<Rightarrow> js res" where
  "flag x k = bindr (get_prop x k) (\<lambda>v. ok (Boolean (truthy v)))"

text \<open>\<open>String(v).split("/").pop()\<close>: what follows the last slash.\<close>

definition base_name :: "js \<Rightarrow> js res" where
  "base_name v = bindr (to_string v) (\<lambda>s. ok (String (rev (takeWhile (\<lambda>c. c \<noteq> 47) (rev s)))))"

text \<open>\<open>v.map(f)\<close>: only arrays have this method, and an own property of this name is data.\<close>

definition js_map :: "(js \<Rightarrow> js res) \<Rightarrow> js \<Rightarrow> js res" where
  "js_map f v = (case v of Array xs \<Rightarrow> bindr (map_all f xs) (\<lambda>ys. ok (Array ys)) | _ \<Rightarrow> throw (TypeError []))"

text \<open>
  \<open>(resp.m && resp.m.k) ? resp.m.k : []\<close>. Arrays have a method \<open>entries\<close>; what becomes of it is left
  open.
\<close>

definition listed :: "js \<Rightarrow> string \<Rightarrow> string \<Rightarrow> js res" where
  "listed resp m k =
     bindr (get_prop resp m) (\<lambda>r.
       if \<not> truthy r then ok (Array [])
       else case r of
         Array xs \<Rightarrow> if k = ''entries'' then None else prop_or r k (Array [])
       | _ \<Rightarrow> prop_or r k (Array []))"

text \<open>\<open>resp && resp.m ? resp.m.k : d\<close>\<close>

definition path_of :: "js \<Rightarrow> string \<Rightarrow> string \<Rightarrow> js \<Rightarrow> js res" where
  "path_of resp m k d =
     (if \<not> truthy resp then ok d
      else bindr (get_prop resp m) (\<lambda>r. if truthy r then get_prop r k else ok d))"

definition directory_entry :: "js \<Rightarrow> js res" where
  "directory_entry x = object_of
     [(''name'', get_prop x ''name''),
      (''path'', get_prop x ''path''),
      (''isDir'', get_prop x ''isDir''),
      (''size'', number_or_0 x ''sizeBytes''),
      (''mtime'', number_or_0 x ''mtime''),
      (''mode'', get_prop x ''mode''),
      (''hidden'', get_prop x ''hidden''),
      (''mimeType'', prop_or x ''mimeType'' (String [])),
      (''iconName'', bindr (get_prop x ''isDir'') (\<lambda>d.
        prop_or x ''iconName'' (String (js_str (if truthy d then ''inode-directory'' else ''application-x-generic''))))),
      (''isLink'', flag x ''isLink''),
      (''linkTarget'', prop_or x ''linkTarget'' (String [])),
      (''tags'', ok (Array []))]"

definition found_file :: "js \<Rightarrow> js res" where
  "found_file x = object_of
     [(''path'', get_prop x ''path''),
      (''tags'', prop_or x ''tags'' (Array [])),
      (''metadata'', prop_or x ''metadata'' (plain [])),
      (''score'', prop_or x ''score'' (int_js 0)),
      (''mtime'', number_or_0 x ''mtime''),
      (''size'', number_or_0 x ''sizeBytes''),
      (''name'', bindr (get_prop x ''path'') base_name),
      (''isDir'', ok (Boolean False)),
      (''isLink'', flag x ''isLink''),
      (''linkTarget'', prop_or x ''linkTarget'' (String []))]"

definition hydrated_tags :: "js \<Rightarrow> js res" where
  "hydrated_tags x = object_of
     [(''path'', get_prop x ''path''),
      (''tags'', prop_or x ''tags'' (Array []))]"

definition place :: "js \<Rightarrow> js res" where
  "place x = object_of
     [(''name'', get_prop x ''name''),
      (''path'', get_prop x ''path''),
      (''pinned'', flag x ''pinned''),
      (''iconName'', prop_or x ''iconName'' (String (js_str ''folder'')))]"

definition trash_entry :: "js \<Rightarrow> js res" where
  "trash_entry x = object_of
     [(''name'', get_prop x ''name''),
      (''originalPath'', prop_or x ''originalPath'' (String [])),
      (''deletionDate'', number_or_0 x ''deletionDate''),
      (''sizeBytes'', number_or_0 x ''sizeBytes'')]"

definition app :: "js \<Rightarrow> js res" where
  "app x = object_of
     [(''id'', get_prop x ''id''),
      (''name'', get_prop x ''name''),
      (''iconName'', prop_or x ''iconName'' (String []))]"

definition file_action :: "js \<Rightarrow> js res" where
  "file_action x = object_of
     [(''id'', get_prop x ''id''),
      (''label'', get_prop x ''label'')]"

definition mount :: "js \<Rightarrow> js res" where
  "mount x = object_of
     [(''path'', get_prop x ''path''),
      (''label'', get_prop x ''label''),
      (''iconName'', prop_or x ''iconName'' (String (js_str ''drive-removable-media'')))]"

definition saved_search :: "js \<Rightarrow> js res" where
  "saved_search x = object_of
     [(''id'', get_prop x ''id''),
      (''name'', get_prop x ''name''),
      (''chips'', prop_or x ''chips'' (Array [])),
      (''iconName'', prop_or x ''iconName'' (String (js_str ''folder-saved-search'')))]"

definition file_stat :: "js \<Rightarrow> js res" where
  "file_stat x = object_of
     [(''size'', number_or_0 x ''sizeBytes''),
      (''mtime'', number_or_0 x ''mtime''),
      (''mode'', prop_or x ''mode'' (int_js 0))]"

definition metadata_result :: "js \<Rightarrow> js res" where
  "metadata_result x = object_of
     [(''metadata'', prop_or x ''metadata'' (plain [])),
      (''sources'', prop_or x ''sources'' (plain []))]"

definition tag_result :: "js \<Rightarrow> js res" where
  "tag_result x = object_of
     [(''pathsOK'', prop_or x ''pathsOk'' (Array [])),
      (''pathsError'', prop_or x ''pathsError'' (Array [])),
      (''errors'', prop_or x ''errors'' (plain []))]"

definition browser_config :: "js \<Rightarrow> js res" where
  "browser_config x = object_of
     [(''keybindings'', prop_or x ''keybindings'' (plain [])),
      (''useTrash'', flag x ''useTrash''),
      (''inlineThumbnails'', bindr (get_prop x ''inlineThumbnails'') (\<lambda>v. ok (Boolean (v \<noteq> Undefined \<longrightarrow> truthy v)))),
      (''autoPropertiesSlideout'', flag x ''autoPropertiesSlideout''),
      (''theme'', prop_or x ''theme'' (String []))]"

definition thumbnail :: "js \<Rightarrow> js res" where
  "thumbnail x = object_of
     [(''thumbnailPath'', prop_or x ''thumbnailPath'' (String [])),
      (''width'', number_or_0 x ''width''),
      (''height'', number_or_0 x ''height'')]"

definition reply_listDirectory :: "js \<Rightarrow> js \<Rightarrow> js list res" where
  "reply_listDirectory resp err =
     or_fail (Array []) (bindr (listed resp ''listDirectory'' ''entries'') (js_map directory_entry)) err"

definition reply_statFile :: "js \<Rightarrow> js \<Rightarrow> js list res" where
  "reply_statFile resp err =
     or_fail Null (bindr (get_prop resp ''statFile'') (\<lambda>r.
       bindr (if truthy r then get_prop r ''stat'' else ok (plain [])) file_stat)) err"

definition reply_search :: "js \<Rightarrow> js \<Rightarrow> js list res" where
  "reply_search resp err =
     or_fail Null (bindr (prop_or resp ''search'' (plain [])) (\<lambda>s.
       bindr (bindr (prop_or s ''files'' (Array [])) (js_map found_file)) (\<lambda>files.
       bindr (number_or_0 s ''total'') (\<lambda>total.
         ok (literal [(''files'', files), (''total'', total)]))))) err"

definition reply_globSearch :: "js \<Rightarrow> js \<Rightarrow> js list res" where
  "reply_globSearch resp err =
     or_fail (Array []) (bindr (listed resp ''globSearch'' ''files'') (js_map found_file)) err"

definition reply_getMetadata :: "js \<Rightarrow> js \<Rightarrow> js list res" where
  "reply_getMetadata resp err = or_fail Null (bindr (prop_or resp ''metadata'' (plain [])) metadata_result) err"

definition reply_setMetadata :: "js \<Rightarrow> js \<Rightarrow> js list res" where
  "reply_setMetadata resp err = ok [err]"

definition reply_modifyTags :: "js \<Rightarrow> js \<Rightarrow> js list res" where
  "reply_modifyTags resp err = or_fail Null (bindr (prop_or resp ''tag'' (plain [])) tag_result) err"

definition reply_hydrateTags :: "js \<Rightarrow> js \<Rightarrow> js list res" where
  "reply_hydrateTags resp err =
     or_fail (Array []) (bindr (listed resp ''hydrateTags'' ''entries'') (js_map hydrated_tags)) err"

definition reply_listTags :: "js \<Rightarrow> js \<Rightarrow> js list res" where
  "reply_listTags resp err = or_fail (Array []) (listed resp ''listTags'' ''tags'') err"

definition reply_renameFile :: "js \<Rightarrow> js \<Rightarrow> js list res" where
  "reply_renameFile resp err = bindr (path_of resp ''renameFile'' ''newPath'' (String [])) (\<lambda>v. ok [v, err])"

definition reply_deleteFile :: "js \<Rightarrow> js \<Rightarrow> js list res" where
  "reply_deleteFile resp err = ok [err]"

definition reply_chmodFile :: "js \<Rightarrow> js \<Rightarrow> js list res" where
  "reply_chmodFile resp err = ok [err]"

definition reply_listPlaces :: "js \<Rightarrow> js \<Rightarrow> js list res" where
  "reply_listPlaces resp err =
     or_fail (Array []) (bindr (listed resp ''listPlaces'' ''places'') (js_map place)) err"

definition reply_pinPlace :: "js \<Rightarrow> js \<Rightarrow> js list res" where
  "reply_pinPlace resp err = ok [err]"

definition reply_unpinPlace :: "js \<Rightarrow> js \<Rightarrow> js list res" where
  "reply_unpinPlace resp err = ok [err]"

definition reply_trashFile :: "js \<Rightarrow> js \<Rightarrow> js list res" where
  "reply_trashFile resp err = ok [err]"

definition reply_listTrash :: "js \<Rightarrow> js \<Rightarrow> js list res" where
  "reply_listTrash resp err =
     or_fail (Array []) (bindr (listed resp ''listTrash'' ''entries'') (js_map trash_entry)) err"

definition reply_restoreTrash :: "js \<Rightarrow> js \<Rightarrow> js list res" where
  "reply_restoreTrash resp err = ok [err]"

definition reply_emptyTrash :: "js \<Rightarrow> js \<Rightarrow> js list res" where
  "reply_emptyTrash resp err = ok [err]"

definition reply_listAppsForFile :: "js \<Rightarrow> js \<Rightarrow> js list res" where
  "reply_listAppsForFile resp err =
     or_fail (Array []) (bindr (listed resp ''listAppsForFile'' ''apps'') (js_map app)) err"

definition reply_openWithApp :: "js \<Rightarrow> js \<Rightarrow> js list res" where
  "reply_openWithApp resp err = ok [err]"

definition reply_getBrowserConfig :: "js \<Rightarrow> js \<Rightarrow> js list res" where
  "reply_getBrowserConfig resp err = or_fail Null (bindr (prop_or resp ''getBrowserConfig'' (plain [])) browser_config) err"

definition reply_getFileBadges :: "js \<Rightarrow> js \<Rightarrow> js list res" where
  "reply_getFileBadges resp err = or_fail (Array []) (listed resp ''getFileBadges'' ''badges'') err"

definition reply_getFileActions :: "js \<Rightarrow> js \<Rightarrow> js list res" where
  "reply_getFileActions resp err =
     or_fail (Array []) (bindr (listed resp ''getFileActions'' ''actions'') (js_map file_action)) err"

definition reply_runFileAction :: "js \<Rightarrow> js \<Rightarrow> js list res" where
  "reply_runFileAction resp err = ok [err]"

definition reply_getThumbnail :: "js \<Rightarrow> js \<Rightarrow> js list res" where
  "reply_getThumbnail resp err = or_fail Null (bindr (prop_or resp ''getThumbnail'' (plain [])) thumbnail) err"

definition reply_reindexFile :: "js \<Rightarrow> js \<Rightarrow> js list res" where
  "reply_reindexFile resp err = ok [if truthy err then err else Null]"

definition reply_listMounts :: "js \<Rightarrow> js \<Rightarrow> js list res" where
  "reply_listMounts resp err =
     or_fail (Array []) (bindr (listed resp ''listMounts'' ''mounts'') (js_map mount)) err"

definition reply_listSavedSearches :: "js \<Rightarrow> js \<Rightarrow> js list res" where
  "reply_listSavedSearches resp err =
     or_fail (Array []) (bindr (listed resp ''listSavedSearches'' ''searches'') (js_map saved_search)) err"

definition reply_pinSearch :: "js \<Rightarrow> js \<Rightarrow> js list res" where
  "reply_pinSearch resp err = ok [err]"

definition reply_unpinSearch :: "js \<Rightarrow> js \<Rightarrow> js list res" where
  "reply_unpinSearch resp err = ok [err]"

definition reply_copy :: "js \<Rightarrow> js \<Rightarrow> js list res" where
  "reply_copy resp err = ok [err]"

definition reply_paste :: "js \<Rightarrow> js \<Rightarrow> js list res" where
  "reply_paste resp err = bindr (path_of resp ''paste'' ''newPaths'' (Array [])) (\<lambda>v. ok [v, err])"

definition reply_createFile :: "js \<Rightarrow> js \<Rightarrow> js list res" where
  "reply_createFile resp err = bindr (path_of resp ''createFile'' ''path'' (String [])) (\<lambda>v. ok [v, err])"

definition reply_createDirectory :: "js \<Rightarrow> js \<Rightarrow> js list res" where
  "reply_createDirectory resp err = bindr (path_of resp ''createDirectory'' ''path'' (String [])) (\<lambda>v. ok [v, err])"

text \<open>The handler of a call, and what its callback gets before an error.\<close>

fun api_reply :: "api_call \<Rightarrow> js \<Rightarrow> js \<Rightarrow> js list res" where
  "api_reply (CallListDirectory path hidden) = reply_listDirectory"
| "api_reply (CallStatFile path) = reply_statFile"
| "api_reply (CallSearch tags tagsAny tagExclude metaFilters ftsQuery limit offset sortBy) = reply_search"
| "api_reply (CallGlobSearch patterns limit allowHidden) = reply_globSearch"
| "api_reply (CallGetMetadata path) = reply_getMetadata"
| "api_reply (CallSetMetadata path key v) = reply_setMetadata"
| "api_reply (CallModifyTags paths tags operation) = reply_modifyTags"
| "api_reply (CallHydrateTags paths) = reply_hydrateTags"
| "api_reply (CallListTags pre) = reply_listTags"
| "api_reply (CallRenameFile path newName) = reply_renameFile"
| "api_reply (CallDeleteFile path) = reply_deleteFile"
| "api_reply (CallChmodFile path mode) = reply_chmodFile"
| "api_reply CallListPlaces = reply_listPlaces"
| "api_reply (CallPinPlace name path iconName) = reply_pinPlace"
| "api_reply (CallUnpinPlace path) = reply_unpinPlace"
| "api_reply (CallTrashFile path) = reply_trashFile"
| "api_reply CallListTrash = reply_listTrash"
| "api_reply (CallRestoreTrash trashName) = reply_restoreTrash"
| "api_reply CallEmptyTrash = reply_emptyTrash"
| "api_reply (CallListAppsForFile path) = reply_listAppsForFile"
| "api_reply (CallOpenWithApp path appId) = reply_openWithApp"
| "api_reply CallGetBrowserConfig = reply_getBrowserConfig"
| "api_reply (CallGetFileBadges path) = reply_getFileBadges"
| "api_reply (CallGetFileActions path) = reply_getFileActions"
| "api_reply (CallRunFileAction path actionId) = reply_runFileAction"
| "api_reply (CallGetThumbnail path pixels) = reply_getThumbnail"
| "api_reply (CallReindexFile path) = reply_reindexFile"
| "api_reply CallListMounts = reply_listMounts"
| "api_reply CallListSavedSearches = reply_listSavedSearches"
| "api_reply (CallPinSearch name chips iconName) = reply_pinSearch"
| "api_reply (CallUnpinSearch ident) = reply_unpinSearch"
| "api_reply (CallCopy paths isMove) = reply_copy"
| "api_reply (CallPaste destinationDir) = reply_paste"
| "api_reply (CallCreateFile destinationDir name) = reply_createFile"
| "api_reply (CallCreateDirectory destinationDir name) = reply_createDirectory"

fun api_failure :: "api_call \<Rightarrow> js list" where
  "api_failure (CallListDirectory path hidden) = [Array []]"
| "api_failure (CallStatFile path) = [Null]"
| "api_failure (CallSearch tags tagsAny tagExclude metaFilters ftsQuery limit offset sortBy) = [Null]"
| "api_failure (CallGlobSearch patterns limit allowHidden) = [Array []]"
| "api_failure (CallGetMetadata path) = [Null]"
| "api_failure (CallSetMetadata path key v) = []"
| "api_failure (CallModifyTags paths tags operation) = [Null]"
| "api_failure (CallHydrateTags paths) = [Array []]"
| "api_failure (CallListTags pre) = [Array []]"
| "api_failure (CallRenameFile path newName) = [String []]"
| "api_failure (CallDeleteFile path) = []"
| "api_failure (CallChmodFile path mode) = []"
| "api_failure CallListPlaces = [Array []]"
| "api_failure (CallPinPlace name path iconName) = []"
| "api_failure (CallUnpinPlace path) = []"
| "api_failure (CallTrashFile path) = []"
| "api_failure CallListTrash = [Array []]"
| "api_failure (CallRestoreTrash trashName) = []"
| "api_failure CallEmptyTrash = []"
| "api_failure (CallListAppsForFile path) = [Array []]"
| "api_failure (CallOpenWithApp path appId) = []"
| "api_failure CallGetBrowserConfig = [Null]"
| "api_failure (CallGetFileBadges path) = [Array []]"
| "api_failure (CallGetFileActions path) = [Array []]"
| "api_failure (CallRunFileAction path actionId) = []"
| "api_failure (CallGetThumbnail path pixels) = [Null]"
| "api_failure (CallReindexFile path) = []"
| "api_failure CallListMounts = [Array []]"
| "api_failure CallListSavedSearches = [Array []]"
| "api_failure (CallPinSearch name chips iconName) = []"
| "api_failure (CallUnpinSearch ident) = []"
| "api_failure (CallCopy paths isMove) = []"
| "api_failure (CallPaste destinationDir) = [Array []]"
| "api_failure (CallCreateFile destinationDir name) = [String []]"
| "api_failure (CallCreateDirectory destinationDir name) = [String []]"

section \<open>The message classes read them\<close>

lemma build_steps:
  "build [] (plain ps) acc = ok acc"
  "build (f_opt k conv # ss) (plain ps) acc =
     (case lookup ps k of
        None \<Rightarrow> build ss (plain ps) acc
      | Some v \<Rightarrow> if nullish v then build ss (plain ps) acc
          else bindr (conv v) (\<lambda>x. build ss (plain ps) (case x of None \<Rightarrow> acc | Some x \<Rightarrow> put k x acc)))"
  "build (f_truthy k conv' # ss) (plain ps) acc =
     (case lookup ps k of
        None \<Rightarrow> build ss (plain ps) acc
      | Some v \<Rightarrow> if truthy v then bindr (conv' v) (\<lambda>x. build ss (plain ps) (put k x acc))
          else build ss (plain ps) acc)"
  by (simp_all add: f_opt_def f_truthy_def get_prop_plain nullish_def bindr_assoc split: option.split)

lemma literal_lookup:
  "literal [] = plain []"
  "literal ((k, v) # kvs) = plain ((js_str k, v) # map (\<lambda>kv. (js_str (fst kv), snd kv)) kvs)"
  by (simp_all add: literal_def)

lemma map_strings: "map_all c_string (map String ss) = ok (map String ss)"
  by (induction ss) (simp_all add: c_string_def)

lemma or_value_simps [simp]:
  "or_value (Array xs) w = Array xs"
  "or_value (map_obj kvs) w = map_obj kvs"
  "or_value (String s) (String t) = String (if s = [] then t else s)"
  "or_value (Boolean b) (Boolean False) = Boolean b"
  "or_value (int_js n) (Number (Fin 0)) = int_js n"
  "or_value (int_js n) (Number (Fin (numeral k))) = int_js (if n = 0 then numeral k else n)"
  "truthy (map_obj kvs)"
  by (auto simp: or_value_def map_obj_def)

lemma c_uint32_limits:
  "c_uint32 (Number (Fin 50)) = ok (Number (Fin 50))"
  "c_uint32 (Number (Fin 1000)) = ok (Number (Fin 1000))"
  using c_uint32_int [of 50] c_uint32_int [of 1000] by (simp_all add: uint32_ok_def)

lemma map_obj_plain: "map_obj kvs \<noteq> Undefined" "map_obj kvs \<noteq> Null"
  by (simp_all add: map_obj_def)

lemmas member_facts =
  build_steps literal_lookup map_strings plain_keys put_new put_old from_object_def always_sets_def c_message_def
  c_string_def c_bool_def c_array_def c_uint32_int c_map_obj c_enum_def is_object_def nullish_def opt_prop_def
  tag_operation_def operation_number_def TagOperation_def ThumbnailSize_def equals_int_def
  c_uint32_limits map_obj_plain 

lemma request_member:
  assumes "build Request_setters p [] = ok (Request_props m)" "p = plain ps"
  shows "Request_fromObject p = ok (Request_obj m)"
  using assms by (simp add: Request_fromObject_def from_object_def Request_obj_def)

lemma understood_listDirectory:
  "api_ok (CallListDirectory path hidden) \<Longrightarrow> Request_fromObject (api_payload (CallListDirectory path hidden)) = ok (Request_obj (api_message (CallListDirectory path hidden)))"
  by (rule request_member)
    (simp_all add: api_listDirectory_def Request_setters_def ListDirectoryRequest_fromObject_def ListDirectoryRequest_setters_def ListDirectoryRequest_obj_def ListDirectoryRequest_props_def ListDirectoryRequest_new_def
      Request_props_def Request_new_def member_facts del: build.simps)

lemma understood_statFile:
  "api_ok (CallStatFile path) \<Longrightarrow> Request_fromObject (api_payload (CallStatFile path)) = ok (Request_obj (api_message (CallStatFile path)))"
  by (rule request_member)
    (simp_all add: api_statFile_def Request_setters_def StatFileRequest_fromObject_def StatFileRequest_setters_def StatFileRequest_obj_def StatFileRequest_props_def StatFileRequest_new_def
      Request_props_def Request_new_def member_facts del: build.simps)

lemma understood_search:
  "api_ok (CallSearch tags tagsAny tagExclude metaFilters ftsQuery limit offset sortBy) \<Longrightarrow> Request_fromObject (api_payload (CallSearch tags tagsAny tagExclude metaFilters ftsQuery limit offset sortBy)) = ok (Request_obj (api_message (CallSearch tags tagsAny tagExclude metaFilters ftsQuery limit offset sortBy)))"
  by (rule request_member)
    (simp_all add: api_search_def Request_setters_def SearchRequest_fromObject_def SearchRequest_setters_def SearchRequest_obj_def SearchRequest_props_def SearchRequest_new_def SearchRequest_init_def
      Request_props_def Request_new_def member_facts del: build.simps)

lemma understood_globSearch:
  "api_ok (CallGlobSearch patterns limit allowHidden) \<Longrightarrow> Request_fromObject (api_payload (CallGlobSearch patterns limit allowHidden)) = ok (Request_obj (api_message (CallGlobSearch patterns limit allowHidden)))"
  by (rule request_member)
    (simp_all add: api_globSearch_def Request_setters_def GlobSearchRequest_fromObject_def GlobSearchRequest_setters_def GlobSearchRequest_obj_def GlobSearchRequest_props_def GlobSearchRequest_new_def GlobSearchRequest_init_def
      Request_props_def Request_new_def member_facts del: build.simps)

lemma understood_getMetadata:
  "api_ok (CallGetMetadata path) \<Longrightarrow> Request_fromObject (api_payload (CallGetMetadata path)) = ok (Request_obj (api_message (CallGetMetadata path)))"
  by (rule request_member)
    (simp_all add: api_getMetadata_def Request_setters_def MetadataRequest_fromObject_def MetadataRequest_setters_def MetadataRequest_obj_def MetadataRequest_props_def MetadataRequest_new_def
      Request_props_def Request_new_def member_facts del: build.simps)

lemma understood_setMetadata:
  "api_ok (CallSetMetadata path key v) \<Longrightarrow> Request_fromObject (api_payload (CallSetMetadata path key v)) = ok (Request_obj (api_message (CallSetMetadata path key v)))"
  by (rule request_member)
    (simp_all add: api_setMetadata_def Request_setters_def MetadataSetRequest_fromObject_def MetadataSetRequest_setters_def MetadataSetRequest_obj_def MetadataSetRequest_props_def MetadataSetRequest_new_def
      Request_props_def Request_new_def member_facts del: build.simps)

lemma understood_modifyTags:
  "api_ok (CallModifyTags paths tags operation) \<Longrightarrow> Request_fromObject (api_payload (CallModifyTags paths tags operation)) = ok (Request_obj (api_message (CallModifyTags paths tags operation)))"
  by (rule request_member)
    (simp_all add: api_modifyTags_def Request_setters_def TagRequest_fromObject_def TagRequest_setters_def TagRequest_obj_def TagRequest_props_def TagRequest_new_def TagRequest_init_def
      Request_props_def Request_new_def member_facts del: build.simps)

lemma understood_hydrateTags:
  "api_ok (CallHydrateTags paths) \<Longrightarrow> Request_fromObject (api_payload (CallHydrateTags paths)) = ok (Request_obj (api_message (CallHydrateTags paths)))"
  by (rule request_member)
    (simp_all add: api_hydrateTags_def Request_setters_def HydrateTagsRequest_fromObject_def HydrateTagsRequest_setters_def HydrateTagsRequest_obj_def HydrateTagsRequest_props_def HydrateTagsRequest_new_def HydrateTagsRequest_init_def
      Request_props_def Request_new_def member_facts del: build.simps)

lemma understood_listTags:
  "api_ok (CallListTags pre) \<Longrightarrow> Request_fromObject (api_payload (CallListTags pre)) = ok (Request_obj (api_message (CallListTags pre)))"
  by (rule request_member)
    (simp_all add: api_listTags_def Request_setters_def ListTagsRequest_fromObject_def ListTagsRequest_setters_def ListTagsRequest_obj_def ListTagsRequest_props_def ListTagsRequest_new_def
      Request_props_def Request_new_def member_facts del: build.simps)

lemma understood_renameFile:
  "api_ok (CallRenameFile path newName) \<Longrightarrow> Request_fromObject (api_payload (CallRenameFile path newName)) = ok (Request_obj (api_message (CallRenameFile path newName)))"
  by (rule request_member)
    (simp_all add: api_renameFile_def Request_setters_def RenameFileRequest_fromObject_def RenameFileRequest_setters_def RenameFileRequest_obj_def RenameFileRequest_props_def RenameFileRequest_new_def
      Request_props_def Request_new_def member_facts del: build.simps)

lemma understood_deleteFile:
  "api_ok (CallDeleteFile path) \<Longrightarrow> Request_fromObject (api_payload (CallDeleteFile path)) = ok (Request_obj (api_message (CallDeleteFile path)))"
  by (rule request_member)
    (simp_all add: api_deleteFile_def Request_setters_def DeleteFileRequest_fromObject_def DeleteFileRequest_setters_def DeleteFileRequest_obj_def DeleteFileRequest_props_def DeleteFileRequest_new_def
      Request_props_def Request_new_def member_facts del: build.simps)

lemma understood_chmodFile:
  "api_ok (CallChmodFile path mode) \<Longrightarrow> Request_fromObject (api_payload (CallChmodFile path mode)) = ok (Request_obj (api_message (CallChmodFile path mode)))"
  by (rule request_member)
    (simp_all add: api_chmodFile_def Request_setters_def ChmodFileRequest_fromObject_def ChmodFileRequest_setters_def ChmodFileRequest_obj_def ChmodFileRequest_props_def ChmodFileRequest_new_def
      Request_props_def Request_new_def member_facts del: build.simps)

lemma understood_listPlaces:
  "api_ok CallListPlaces \<Longrightarrow> Request_fromObject (api_payload CallListPlaces) = ok (Request_obj (api_message CallListPlaces))"
  by (rule request_member)
    (simp_all add: api_listPlaces_def Request_setters_def ListPlacesRequest_fromObject_def ListPlacesRequest_obj_def ListPlacesRequest_props_def 
      Request_props_def Request_new_def member_facts del: build.simps)

lemma understood_pinPlace:
  "api_ok (CallPinPlace name path iconName) \<Longrightarrow> Request_fromObject (api_payload (CallPinPlace name path iconName)) = ok (Request_obj (api_message (CallPinPlace name path iconName)))"
  by (rule request_member)
    (simp_all add: api_pinPlace_def Request_setters_def PinPlaceRequest_fromObject_def PinPlaceRequest_setters_def PinPlaceRequest_obj_def PinPlaceRequest_props_def PinPlaceRequest_new_def
      Request_props_def Request_new_def member_facts del: build.simps)

lemma understood_unpinPlace:
  "api_ok (CallUnpinPlace path) \<Longrightarrow> Request_fromObject (api_payload (CallUnpinPlace path)) = ok (Request_obj (api_message (CallUnpinPlace path)))"
  by (rule request_member)
    (simp_all add: api_unpinPlace_def Request_setters_def UnpinPlaceRequest_fromObject_def UnpinPlaceRequest_setters_def UnpinPlaceRequest_obj_def UnpinPlaceRequest_props_def UnpinPlaceRequest_new_def
      Request_props_def Request_new_def member_facts del: build.simps)

lemma understood_trashFile:
  "api_ok (CallTrashFile path) \<Longrightarrow> Request_fromObject (api_payload (CallTrashFile path)) = ok (Request_obj (api_message (CallTrashFile path)))"
  by (rule request_member)
    (simp_all add: api_trashFile_def Request_setters_def TrashFileRequest_fromObject_def TrashFileRequest_setters_def TrashFileRequest_obj_def TrashFileRequest_props_def TrashFileRequest_new_def
      Request_props_def Request_new_def member_facts del: build.simps)

lemma understood_listTrash:
  "api_ok CallListTrash \<Longrightarrow> Request_fromObject (api_payload CallListTrash) = ok (Request_obj (api_message CallListTrash))"
  by (rule request_member)
    (simp_all add: api_listTrash_def Request_setters_def ListTrashRequest_fromObject_def ListTrashRequest_obj_def ListTrashRequest_props_def 
      Request_props_def Request_new_def member_facts del: build.simps)

lemma understood_restoreTrash:
  "api_ok (CallRestoreTrash trashName) \<Longrightarrow> Request_fromObject (api_payload (CallRestoreTrash trashName)) = ok (Request_obj (api_message (CallRestoreTrash trashName)))"
  by (rule request_member)
    (simp_all add: api_restoreTrash_def Request_setters_def RestoreTrashRequest_fromObject_def RestoreTrashRequest_setters_def RestoreTrashRequest_obj_def RestoreTrashRequest_props_def RestoreTrashRequest_new_def
      Request_props_def Request_new_def member_facts del: build.simps)

lemma understood_emptyTrash:
  "api_ok CallEmptyTrash \<Longrightarrow> Request_fromObject (api_payload CallEmptyTrash) = ok (Request_obj (api_message CallEmptyTrash))"
  by (rule request_member)
    (simp_all add: api_emptyTrash_def Request_setters_def EmptyTrashRequest_fromObject_def EmptyTrashRequest_obj_def EmptyTrashRequest_props_def 
      Request_props_def Request_new_def member_facts del: build.simps)

lemma understood_listAppsForFile:
  "api_ok (CallListAppsForFile path) \<Longrightarrow> Request_fromObject (api_payload (CallListAppsForFile path)) = ok (Request_obj (api_message (CallListAppsForFile path)))"
  by (rule request_member)
    (simp_all add: api_listAppsForFile_def Request_setters_def ListAppsForFileRequest_fromObject_def ListAppsForFileRequest_setters_def ListAppsForFileRequest_obj_def ListAppsForFileRequest_props_def ListAppsForFileRequest_new_def
      Request_props_def Request_new_def member_facts del: build.simps)

lemma understood_openWithApp:
  "api_ok (CallOpenWithApp path appId) \<Longrightarrow> Request_fromObject (api_payload (CallOpenWithApp path appId)) = ok (Request_obj (api_message (CallOpenWithApp path appId)))"
  by (rule request_member)
    (simp_all add: api_openWithApp_def Request_setters_def OpenWithAppRequest_fromObject_def OpenWithAppRequest_setters_def OpenWithAppRequest_obj_def OpenWithAppRequest_props_def OpenWithAppRequest_new_def
      Request_props_def Request_new_def member_facts del: build.simps)

lemma understood_getBrowserConfig:
  "api_ok CallGetBrowserConfig \<Longrightarrow> Request_fromObject (api_payload CallGetBrowserConfig) = ok (Request_obj (api_message CallGetBrowserConfig))"
  by (rule request_member)
    (simp_all add: api_getBrowserConfig_def Request_setters_def GetBrowserConfigRequest_fromObject_def GetBrowserConfigRequest_obj_def GetBrowserConfigRequest_props_def 
      Request_props_def Request_new_def member_facts del: build.simps)

lemma understood_getFileBadges:
  "api_ok (CallGetFileBadges path) \<Longrightarrow> Request_fromObject (api_payload (CallGetFileBadges path)) = ok (Request_obj (api_message (CallGetFileBadges path)))"
  by (rule request_member)
    (simp_all add: api_getFileBadges_def Request_setters_def GetFileBadgesRequest_fromObject_def GetFileBadgesRequest_setters_def GetFileBadgesRequest_obj_def GetFileBadgesRequest_props_def GetFileBadgesRequest_new_def
      Request_props_def Request_new_def member_facts del: build.simps)

lemma understood_getFileActions:
  "api_ok (CallGetFileActions path) \<Longrightarrow> Request_fromObject (api_payload (CallGetFileActions path)) = ok (Request_obj (api_message (CallGetFileActions path)))"
  by (rule request_member)
    (simp_all add: api_getFileActions_def Request_setters_def GetFileActionsRequest_fromObject_def GetFileActionsRequest_setters_def GetFileActionsRequest_obj_def GetFileActionsRequest_props_def GetFileActionsRequest_new_def
      Request_props_def Request_new_def member_facts del: build.simps)

lemma understood_runFileAction:
  "api_ok (CallRunFileAction path actionId) \<Longrightarrow> Request_fromObject (api_payload (CallRunFileAction path actionId)) = ok (Request_obj (api_message (CallRunFileAction path actionId)))"
  by (rule request_member)
    (simp_all add: api_runFileAction_def Request_setters_def RunFileActionRequest_fromObject_def RunFileActionRequest_setters_def RunFileActionRequest_obj_def RunFileActionRequest_props_def RunFileActionRequest_new_def
      Request_props_def Request_new_def member_facts del: build.simps)

lemma understood_getThumbnail:
  "api_ok (CallGetThumbnail path pixels) \<Longrightarrow> Request_fromObject (api_payload (CallGetThumbnail path pixels)) = ok (Request_obj (api_message (CallGetThumbnail path pixels)))"
  by (rule request_member)
    (simp_all add: api_getThumbnail_def Request_setters_def GetThumbnailRequest_fromObject_def GetThumbnailRequest_setters_def GetThumbnailRequest_obj_def GetThumbnailRequest_props_def GetThumbnailRequest_new_def
      Request_props_def Request_new_def member_facts del: build.simps)

lemma understood_reindexFile:
  "api_ok (CallReindexFile path) \<Longrightarrow> Request_fromObject (api_payload (CallReindexFile path)) = ok (Request_obj (api_message (CallReindexFile path)))"
  by (rule request_member)
    (simp_all add: api_reindexFile_def Request_setters_def ReindexFileRequest_fromObject_def ReindexFileRequest_setters_def ReindexFileRequest_obj_def ReindexFileRequest_props_def ReindexFileRequest_new_def
      Request_props_def Request_new_def member_facts del: build.simps)

lemma understood_listMounts:
  "api_ok CallListMounts \<Longrightarrow> Request_fromObject (api_payload CallListMounts) = ok (Request_obj (api_message CallListMounts))"
  by (rule request_member)
    (simp_all add: api_listMounts_def Request_setters_def ListMountsRequest_fromObject_def ListMountsRequest_obj_def ListMountsRequest_props_def 
      Request_props_def Request_new_def member_facts del: build.simps)

lemma understood_listSavedSearches:
  "api_ok CallListSavedSearches \<Longrightarrow> Request_fromObject (api_payload CallListSavedSearches) = ok (Request_obj (api_message CallListSavedSearches))"
  by (rule request_member)
    (simp_all add: api_listSavedSearches_def Request_setters_def ListSavedSearchesRequest_fromObject_def ListSavedSearchesRequest_obj_def ListSavedSearchesRequest_props_def 
      Request_props_def Request_new_def member_facts del: build.simps)

lemma understood_pinSearch:
  "api_ok (CallPinSearch name chips iconName) \<Longrightarrow> Request_fromObject (api_payload (CallPinSearch name chips iconName)) = ok (Request_obj (api_message (CallPinSearch name chips iconName)))"
  by (rule request_member)
    (simp_all add: api_pinSearch_def Request_setters_def PinSearchRequest_fromObject_def PinSearchRequest_setters_def PinSearchRequest_obj_def PinSearchRequest_props_def PinSearchRequest_new_def PinSearchRequest_init_def
      Request_props_def Request_new_def member_facts del: build.simps)

lemma understood_unpinSearch:
  "api_ok (CallUnpinSearch ident) \<Longrightarrow> Request_fromObject (api_payload (CallUnpinSearch ident)) = ok (Request_obj (api_message (CallUnpinSearch ident)))"
  by (rule request_member)
    (simp_all add: api_unpinSearch_def Request_setters_def UnpinSearchRequest_fromObject_def UnpinSearchRequest_setters_def UnpinSearchRequest_obj_def UnpinSearchRequest_props_def UnpinSearchRequest_new_def
      Request_props_def Request_new_def member_facts del: build.simps)

lemma understood_copy:
  "api_ok (CallCopy paths isMove) \<Longrightarrow> Request_fromObject (api_payload (CallCopy paths isMove)) = ok (Request_obj (api_message (CallCopy paths isMove)))"
  by (rule request_member)
    (simp_all add: api_copy_def Request_setters_def CopyRequest_fromObject_def CopyRequest_setters_def CopyRequest_obj_def CopyRequest_props_def CopyRequest_new_def CopyRequest_init_def
      Request_props_def Request_new_def member_facts del: build.simps)

lemma understood_paste:
  "api_ok (CallPaste destinationDir) \<Longrightarrow> Request_fromObject (api_payload (CallPaste destinationDir)) = ok (Request_obj (api_message (CallPaste destinationDir)))"
  by (rule request_member)
    (simp_all add: api_paste_def Request_setters_def PasteRequest_fromObject_def PasteRequest_setters_def PasteRequest_obj_def PasteRequest_props_def PasteRequest_new_def
      Request_props_def Request_new_def member_facts del: build.simps)

lemma understood_createFile:
  "api_ok (CallCreateFile destinationDir name) \<Longrightarrow> Request_fromObject (api_payload (CallCreateFile destinationDir name)) = ok (Request_obj (api_message (CallCreateFile destinationDir name)))"
  by (rule request_member)
    (simp_all add: api_createFile_def Request_setters_def CreateFileRequest_fromObject_def CreateFileRequest_setters_def CreateFileRequest_obj_def CreateFileRequest_props_def CreateFileRequest_new_def
      Request_props_def Request_new_def member_facts del: build.simps)

lemma understood_createDirectory:
  "api_ok (CallCreateDirectory destinationDir name) \<Longrightarrow> Request_fromObject (api_payload (CallCreateDirectory destinationDir name)) = ok (Request_obj (api_message (CallCreateDirectory destinationDir name)))"
  by (rule request_member)
    (simp_all add: api_createDirectory_def Request_setters_def CreateDirectoryRequest_fromObject_def CreateDirectoryRequest_setters_def CreateDirectoryRequest_obj_def CreateDirectoryRequest_props_def CreateDirectoryRequest_new_def
      Request_props_def Request_new_def member_facts del: build.simps)

lemmas understood =
  understood_listDirectory understood_statFile understood_search understood_globSearch understood_getMetadata
  understood_setMetadata understood_modifyTags understood_hydrateTags understood_listTags
  understood_renameFile understood_deleteFile understood_chmodFile understood_listPlaces understood_pinPlace
  understood_unpinPlace understood_trashFile understood_listTrash understood_restoreTrash
  understood_emptyTrash understood_listAppsForFile understood_openWithApp understood_getBrowserConfig
  understood_getFileBadges understood_getFileActions understood_runFileAction understood_getThumbnail
  understood_reindexFile understood_listMounts understood_listSavedSearches understood_pinSearch
  understood_unpinSearch understood_copy understood_paste understood_createFile understood_createDirectory

lemma api_payload_plain: "\<exists>ps. api_payload c = plain ps"
  by (cases c) (simp_all add: literal_def api_listDirectory_def api_statFile_def api_search_def
      api_globSearch_def api_getMetadata_def api_setMetadata_def api_modifyTags_def api_hydrateTags_def
      api_listTags_def api_renameFile_def api_deleteFile_def api_chmodFile_def api_listPlaces_def
      api_pinPlace_def api_unpinPlace_def api_trashFile_def api_listTrash_def api_restoreTrash_def
      api_emptyTrash_def api_listAppsForFile_def api_openWithApp_def api_getBrowserConfig_def
      api_getFileBadges_def api_getFileActions_def api_runFileAction_def api_getThumbnail_def
      api_reindexFile_def api_listMounts_def api_listSavedSearches_def api_pinSearch_def api_unpinSearch_def
      api_copy_def api_paste_def api_createFile_def api_createDirectory_def)

text \<open>C13. The daemon understands every call: the frame \<open>_call\<close> writes for any of the 35 functions, with arguments
  of their types, is the JSON of an envelope. \<open>fromObject\<close> reads it without an error as the number of the call
  and the request meant, with the defaults (a limit of 50 or 1000, the icon of a folder) in place of 0 and of empty strings.\<close>

theorem calls_understood:
  assumes "api_ok c" "n < 2 ^ 31"
  shows "Envelope_fromObject (call_frame (dec_string n) (api_payload c)) =
    ok (Envelope_obj (Envelope_new\<lparr>Envelope_requestId := Some (int n), Envelope_request := Some (api_message c)\<rparr>))"
proof -
  have r: "Request_fromObject (api_payload c) = ok (Request_obj (api_message c))"
    using assms(1) by (cases c) (simp_all only: understood)
  have o: "is_object (api_payload c)" "\<not> nullish (api_payload c)"
    using api_payload_plain [of c] by (auto simp: is_object_def nullish_def)
  have "parse_int10 (dec_string n) = Fin (of_nat n)"
    using parse_int10_nat(1) [of n] assms(2) by simp
  then show ?thesis
    by (simp add: Envelope_fromObject_def Envelope_setters_def call_frame_def from_object_def build_steps c_long_def r o
        always_sets_def c_message_def put_new plain_keys Envelope_obj_def Envelope_props_def Envelope_new_def opt_prop_def
        del: build.simps) (simp add: nullish_def)
qed

theorem calls_understood_witness:
  "Envelope_fromObject (call_frame (dec_string 1) (api_payload (CallModifyTags [js_str ''/a''] [js_str ''red''] (js_str ''add'')))) =
    ok (Envelope_obj (Envelope_new\<lparr>Envelope_requestId := Some 1,
      Envelope_request := Some (Request_new\<lparr>Request_tag := Some (TagRequest_new\<lparr>TagRequest_paths := [js_str ''/a''],
        TagRequest_tags := [js_str ''red''], TagRequest_operation := Some 1\<rparr>)\<rparr>)\<rparr>))"
  using calls_understood [of "CallModifyTags [js_str ''/a''] [js_str ''red''] (js_str ''add'')" 1]
  by (simp add: inherited_def operation_number_def)

section \<open>Responses reach the callers\<close>

lemma DirEntry_plain_fields:
  assumes "DirEntry_good m" "\<not> to_defaults opts"
  shows "\<exists>ps. DirEntry_toObject (DirEntry_obj m) (Some opts) = ok (plain ps) \<and>
    lookup ps ''name'' = map_option (string_plain.out opts) (DirEntry_name m) \<and>
    lookup ps ''path'' = map_option (string_plain.out opts) (DirEntry_path m) \<and>
    lookup ps ''isDir'' = map_option (bool_plain.out opts) (DirEntry_isDir m) \<and>
    lookup ps ''sizeBytes'' = map_option (int64_plain.out opts) (DirEntry_sizeBytes m) \<and>
    lookup ps ''mtime'' = map_option (int64_plain.out opts) (DirEntry_mtime m) \<and>
    lookup ps ''mode'' = map_option (uint32_plain.out opts) (DirEntry_mode m) \<and>
    lookup ps ''hidden'' = map_option (bool_plain.out opts) (DirEntry_hidden m) \<and>
    lookup ps ''mimeType'' = map_option (string_plain.out opts) (DirEntry_mimeType m) \<and>
    lookup ps ''iconName'' = map_option (string_plain.out opts) (DirEntry_iconName m) \<and>
    lookup ps ''isLink'' = map_option (bool_plain.out opts) (DirEntry_isLink m) \<and>
    lookup ps ''linkTarget'' = map_option (string_plain.out opts) (DirEntry_linkTarget m)"
  unfolding DirEntry_toObject_def DirEntry_writers_def DirEntry_obj_def
  by (rule plain_fields,
      rule all_yield_Cons, rule all_yield_Cons, rule all_yield_Cons, rule all_yield_Cons,
      rule all_yield_Cons, rule all_yield_Cons, rule all_yield_Cons, rule all_yield_Cons,
      rule all_yield_Cons, rule all_yield_Cons, rule all_yield_Cons, rule all_yield_Cons,
      rule all_yield_Cons, rule all_yield_Cons, rule all_yield_Cons, rule all_yield_Cons,
      rule all_yield_Cons, rule all_yield_Cons, rule all_yield_Cons, rule all_yield_Cons,
      rule all_yield_Cons, rule all_yield_Cons, rule all_yield_Nil,
      (rule string_plain.yields_opt [where x = "DirEntry_linkTarget m"]; simp add: assms [unfolded DirEntry_good_def] DirEntry_lookup plain_keys),
      (rule bool_plain.yields_opt [where x = "DirEntry_isLink m"]; simp add: assms [unfolded DirEntry_good_def] DirEntry_lookup plain_keys),
      (rule string_plain.yields_opt [where x = "DirEntry_iconName m"]; simp add: assms [unfolded DirEntry_good_def] DirEntry_lookup plain_keys),
      (rule string_plain.yields_opt [where x = "DirEntry_mimeType m"]; simp add: assms [unfolded DirEntry_good_def] DirEntry_lookup plain_keys),
      (rule bool_plain.yields_opt [where x = "DirEntry_hidden m"]; simp add: assms [unfolded DirEntry_good_def] DirEntry_lookup plain_keys),
      (rule uint32_plain.yields_opt [where x = "DirEntry_mode m"]; simp add: assms [unfolded DirEntry_good_def] DirEntry_lookup plain_keys),
      (rule int64_plain.yields_opt [where x = "DirEntry_mtime m"]; simp add: assms [unfolded DirEntry_good_def] DirEntry_lookup plain_keys),
      (rule int64_plain.yields_opt [where x = "DirEntry_sizeBytes m"]; simp add: assms [unfolded DirEntry_good_def] DirEntry_lookup plain_keys),
      (rule bool_plain.yields_opt [where x = "DirEntry_isDir m"]; simp add: assms [unfolded DirEntry_good_def] DirEntry_lookup plain_keys),
      (rule string_plain.yields_opt [where x = "DirEntry_path m"]; simp add: assms [unfolded DirEntry_good_def] DirEntry_lookup plain_keys),
      (rule string_plain.yields_opt [where x = "DirEntry_name m"]; simp add: assms [unfolded DirEntry_good_def] DirEntry_lookup plain_keys),
      (rule yields_default(1); simp add: assms [unfolded DirEntry_good_def] DirEntry_lookup plain_keys),
      (rule yields_default(1); simp add: assms [unfolded DirEntry_good_def] DirEntry_lookup plain_keys),
      (rule yields_default(1); simp add: assms [unfolded DirEntry_good_def] DirEntry_lookup plain_keys),
      (rule yields_default(1); simp add: assms [unfolded DirEntry_good_def] DirEntry_lookup plain_keys),
      (rule yields_default(1); simp add: assms [unfolded DirEntry_good_def] DirEntry_lookup plain_keys),
      (rule yields_default(1); simp add: assms [unfolded DirEntry_good_def] DirEntry_lookup plain_keys),
      (rule yields_default(2); simp add: assms [unfolded DirEntry_good_def] DirEntry_lookup plain_keys),
      (rule yields_default(2); simp add: assms [unfolded DirEntry_good_def] DirEntry_lookup plain_keys),
      (rule yields_default(1); simp add: assms [unfolded DirEntry_good_def] DirEntry_lookup plain_keys),
      (rule yields_default(1); simp add: assms [unfolded DirEntry_good_def] DirEntry_lookup plain_keys),
      (rule yields_default(1); simp add: assms [unfolded DirEntry_good_def] DirEntry_lookup plain_keys)) simp

lemma ListDirectoryResponse_plain_fields:
  assumes "ListDirectoryResponse_good m" "\<not> to_defaults opts"
  shows "\<exists>ps. ListDirectoryResponse_toObject (ListDirectoryResponse_obj m) (Some opts) = ok (plain ps) \<and>
    lookup ps ''entries'' = unless_empty (ListDirectoryResponse_entries m) (Array (map (DirEntry_plain.sub.out opts) (ListDirectoryResponse_entries m))) (asked (to_arrays opts) (Array []) None)"
  unfolding ListDirectoryResponse_toObject_def ListDirectoryResponse_writers_def ListDirectoryResponse_obj_def
  by (rule plain_fields,
      rule all_yield_Cons, rule all_yield_Cons, rule all_yield_Nil,
      (rule DirEntry_plain.sub.yields_list [where xs = "ListDirectoryResponse_entries m"]; simp add: assms [unfolded ListDirectoryResponse_good_def] ListDirectoryResponse_lookup plain_keys),
      (rule yields_array; simp add: assms [unfolded ListDirectoryResponse_good_def] ListDirectoryResponse_lookup plain_keys)) simp

lemma FileResult_plain_fields:
  assumes "FileResult_good m" "\<not> to_defaults opts"
  shows "\<exists>ps. FileResult_toObject (FileResult_obj m) (Some opts) = ok (plain ps) \<and>
    lookup ps ''path'' = map_option (string_plain.out opts) (FileResult_path m) \<and>
    lookup ps ''tags'' = unless_empty (FileResult_tags m) (Array (map (string_plain.out opts) (FileResult_tags m))) (asked (to_arrays opts) (Array []) None) \<and>
    lookup ps ''metadata'' = unless_empty (FileResult_metadata m) (map_obj (FileResult_metadata m)) (asked (to_objects opts) (plain []) None) \<and>
    lookup ps ''score'' = map_option (double_plain.out opts) (FileResult_score m) \<and>
    lookup ps ''mtime'' = map_option (int64_plain.out opts) (FileResult_mtime m) \<and>
    lookup ps ''sizeBytes'' = map_option (int64_plain.out opts) (FileResult_sizeBytes m) \<and>
    lookup ps ''isLink'' = map_option (bool_plain.out opts) (FileResult_isLink m) \<and>
    lookup ps ''linkTarget'' = map_option (string_plain.out opts) (FileResult_linkTarget m)"
  unfolding FileResult_toObject_def FileResult_writers_def FileResult_obj_def
  by (rule plain_fields,
      rule all_yield_Cons, rule all_yield_Cons, rule all_yield_Cons, rule all_yield_Cons,
      rule all_yield_Cons, rule all_yield_Cons, rule all_yield_Cons, rule all_yield_Cons,
      rule all_yield_Cons, rule all_yield_Cons, rule all_yield_Cons, rule all_yield_Cons,
      rule all_yield_Cons, rule all_yield_Cons, rule all_yield_Cons, rule all_yield_Cons,
      rule all_yield_Nil,
      (rule string_plain.yields_opt [where x = "FileResult_linkTarget m"]; simp add: assms [unfolded FileResult_good_def] FileResult_lookup plain_keys),
      (rule bool_plain.yields_opt [where x = "FileResult_isLink m"]; simp add: assms [unfolded FileResult_good_def] FileResult_lookup plain_keys),
      (rule int64_plain.yields_opt [where x = "FileResult_sizeBytes m"]; simp add: assms [unfolded FileResult_good_def] FileResult_lookup plain_keys),
      (rule int64_plain.yields_opt [where x = "FileResult_mtime m"]; simp add: assms [unfolded FileResult_good_def] FileResult_lookup plain_keys),
      (rule double_plain.yields_opt [where x = "FileResult_score m"]; simp add: assms [unfolded FileResult_good_def] FileResult_lookup plain_keys),
      (rule yields_map [where kvs = "FileResult_metadata m"]; simp add: assms [unfolded FileResult_good_def] FileResult_lookup plain_keys),
      (rule string_plain.yields_list [where xs = "FileResult_tags m"]; simp add: assms [unfolded FileResult_good_def] FileResult_lookup plain_keys),
      (rule string_plain.yields_opt [where x = "FileResult_path m"]; simp add: assms [unfolded FileResult_good_def] FileResult_lookup plain_keys),
      (rule yields_default(1); simp add: assms [unfolded FileResult_good_def] FileResult_lookup plain_keys),
      (rule yields_default(1); simp add: assms [unfolded FileResult_good_def] FileResult_lookup plain_keys),
      (rule yields_default(2); simp add: assms [unfolded FileResult_good_def] FileResult_lookup plain_keys),
      (rule yields_default(2); simp add: assms [unfolded FileResult_good_def] FileResult_lookup plain_keys),
      (rule yields_default(1); simp add: assms [unfolded FileResult_good_def] FileResult_lookup plain_keys),
      (rule yields_default(1); simp add: assms [unfolded FileResult_good_def] FileResult_lookup plain_keys),
      (rule yields_object; simp add: assms [unfolded FileResult_good_def] FileResult_lookup plain_keys),
      (rule yields_array; simp add: assms [unfolded FileResult_good_def] FileResult_lookup plain_keys)) simp

lemma SearchResponse_plain_fields:
  assumes "SearchResponse_good m" "\<not> to_defaults opts"
  shows "\<exists>ps. SearchResponse_toObject (SearchResponse_obj m) (Some opts) = ok (plain ps) \<and>
    lookup ps ''files'' = unless_empty (SearchResponse_files m) (Array (map (FileResult_plain.sub.out opts) (SearchResponse_files m))) (asked (to_arrays opts) (Array []) None) \<and>
    lookup ps ''total'' = map_option (uint32_plain.out opts) (SearchResponse_total m)"
  unfolding SearchResponse_toObject_def SearchResponse_writers_def SearchResponse_obj_def
  by (rule plain_fields,
      rule all_yield_Cons, rule all_yield_Cons, rule all_yield_Cons, rule all_yield_Cons,
      rule all_yield_Nil,
      (rule uint32_plain.yields_opt [where x = "SearchResponse_total m"]; simp add: assms [unfolded SearchResponse_good_def] SearchResponse_lookup plain_keys),
      (rule FileResult_plain.sub.yields_list [where xs = "SearchResponse_files m"]; simp add: assms [unfolded SearchResponse_good_def] SearchResponse_lookup plain_keys),
      (rule yields_default(1); simp add: assms [unfolded SearchResponse_good_def] SearchResponse_lookup plain_keys),
      (rule yields_array; simp add: assms [unfolded SearchResponse_good_def] SearchResponse_lookup plain_keys)) simp

lemma GetBrowserConfigResponse_plain_fields:
  assumes "GetBrowserConfigResponse_good m" "\<not> to_defaults opts"
  shows "\<exists>ps. GetBrowserConfigResponse_toObject (GetBrowserConfigResponse_obj m) (Some opts) = ok (plain ps) \<and>
    lookup ps ''keybindings'' = unless_empty (GetBrowserConfigResponse_keybindings m) (map_obj (GetBrowserConfigResponse_keybindings m)) (asked (to_objects opts) (plain []) None) \<and>
    lookup ps ''useTrash'' = map_option (bool_plain.out opts) (GetBrowserConfigResponse_useTrash m) \<and>
    lookup ps ''inlineThumbnails'' = map_option (bool_plain.out opts) (GetBrowserConfigResponse_inlineThumbnails m) \<and>
    lookup ps ''autoPropertiesSlideout'' = map_option (bool_plain.out opts) (GetBrowserConfigResponse_autoPropertiesSlideout m) \<and>
    lookup ps ''theme'' = map_option (string_plain.out opts) (GetBrowserConfigResponse_theme m) \<and>
    lookup ps ''singleClick'' = map_option (bool_plain.out opts) (GetBrowserConfigResponse_singleClick m)"
  unfolding GetBrowserConfigResponse_toObject_def GetBrowserConfigResponse_writers_def GetBrowserConfigResponse_obj_def
  by (rule plain_fields,
      rule all_yield_Cons, rule all_yield_Cons, rule all_yield_Cons, rule all_yield_Cons,
      rule all_yield_Cons, rule all_yield_Cons, rule all_yield_Cons, rule all_yield_Cons,
      rule all_yield_Cons, rule all_yield_Cons, rule all_yield_Cons, rule all_yield_Cons,
      rule all_yield_Nil,
      (rule bool_plain.yields_opt [where x = "GetBrowserConfigResponse_singleClick m"]; simp add: assms [unfolded GetBrowserConfigResponse_good_def] GetBrowserConfigResponse_lookup plain_keys),
      (rule string_plain.yields_opt [where x = "GetBrowserConfigResponse_theme m"]; simp add: assms [unfolded GetBrowserConfigResponse_good_def] GetBrowserConfigResponse_lookup plain_keys),
      (rule bool_plain.yields_opt [where x = "GetBrowserConfigResponse_autoPropertiesSlideout m"]; simp add: assms [unfolded GetBrowserConfigResponse_good_def] GetBrowserConfigResponse_lookup plain_keys),
      (rule bool_plain.yields_opt [where x = "GetBrowserConfigResponse_inlineThumbnails m"]; simp add: assms [unfolded GetBrowserConfigResponse_good_def] GetBrowserConfigResponse_lookup plain_keys),
      (rule bool_plain.yields_opt [where x = "GetBrowserConfigResponse_useTrash m"]; simp add: assms [unfolded GetBrowserConfigResponse_good_def] GetBrowserConfigResponse_lookup plain_keys),
      (rule yields_map [where kvs = "GetBrowserConfigResponse_keybindings m"]; simp add: assms [unfolded GetBrowserConfigResponse_good_def] GetBrowserConfigResponse_lookup plain_keys),
      (rule yields_default(1); simp add: assms [unfolded GetBrowserConfigResponse_good_def] GetBrowserConfigResponse_lookup plain_keys),
      (rule yields_default(1); simp add: assms [unfolded GetBrowserConfigResponse_good_def] GetBrowserConfigResponse_lookup plain_keys),
      (rule yields_default(1); simp add: assms [unfolded GetBrowserConfigResponse_good_def] GetBrowserConfigResponse_lookup plain_keys),
      (rule yields_default(1); simp add: assms [unfolded GetBrowserConfigResponse_good_def] GetBrowserConfigResponse_lookup plain_keys),
      (rule yields_default(1); simp add: assms [unfolded GetBrowserConfigResponse_good_def] GetBrowserConfigResponse_lookup plain_keys),
      (rule yields_object; simp add: assms [unfolded GetBrowserConfigResponse_good_def] GetBrowserConfigResponse_lookup plain_keys)) simp

lemma ErrorResponse_plain_fields:
  assumes "ErrorResponse_good m" "\<not> to_defaults opts"
  shows "\<exists>ps. ErrorResponse_toObject (ErrorResponse_obj m) (Some opts) = ok (plain ps) \<and>
    lookup ps ''code'' = map_option (uint32_plain.out opts) (ErrorResponse_code m) \<and>
    lookup ps ''message'' = map_option (string_plain.out opts) (ErrorResponse_message m)"
  unfolding ErrorResponse_toObject_def ErrorResponse_writers_def ErrorResponse_obj_def
  by (rule plain_fields,
      rule all_yield_Cons, rule all_yield_Cons, rule all_yield_Cons, rule all_yield_Cons,
      rule all_yield_Nil,
      (rule string_plain.yields_opt [where x = "ErrorResponse_message m"]; simp add: assms [unfolded ErrorResponse_good_def] ErrorResponse_lookup plain_keys),
      (rule uint32_plain.yields_opt [where x = "ErrorResponse_code m"]; simp add: assms [unfolded ErrorResponse_good_def] ErrorResponse_lookup plain_keys),
      (rule yields_default(1); simp add: assms [unfolded ErrorResponse_good_def] ErrorResponse_lookup plain_keys),
      (rule yields_default(1); simp add: assms [unfolded ErrorResponse_good_def] ErrorResponse_lookup plain_keys)) simp

definition opt_js :: "('a \<Rightarrow> js) \<Rightarrow> 'a option \<Rightarrow> js" where
  "opt_js f x = (case x of None \<Rightarrow> Undefined | Some v \<Rightarrow> f v)"

definition or_else_js :: "('a \<Rightarrow> js) \<Rightarrow> 'a \<Rightarrow> 'a option \<Rightarrow> js" where
  "or_else_js f d x = f (case x of None \<Rightarrow> d | Some v \<Rightarrow> v)"

lemma string_out: "string_plain.out opts s = String s"
  by (simp add: string_plain.out_def t_same_def)

lemma bool_out: "bool_plain.out opts b = Boolean b"
  by (simp add: bool_plain.out_def t_same_def)

lemma uint32_out: "uint32_plain.out opts n = int_js n"
  by (simp add: uint32_plain.out_def t_same_def)

lemma int64_out: "int64_plain.out toJSONOptions n = String (number_to_string (Fin (of_int n)))"
  by (simp add: int64_plain.out_def t_long_def is_number_def c_string_def toJSONOptions_def)

definition text_or :: "jstring \<Rightarrow> jstring option \<Rightarrow> jstring" where
  "text_or d x = (case x of None \<Rightarrow> d | Some s \<Rightarrow> if s = [] then d else s)"

lemma json_string:
  assumes "lookup ps k = map_option (string_plain.out opts) x"
  shows "get_prop (plain ps) k = ok (opt_js String x)" "prop_or (plain ps) k (String d) = ok (String (text_or d x))"
  using assms
  by (auto simp: get_prop_plain prop_or_def opt_js_def text_or_def string_out or_value_def split: option.split)

lemma json_bool:
  assumes "lookup ps k = map_option (bool_plain.out opts) x"
  shows "get_prop (plain ps) k = ok (opt_js Boolean x)" "flag (plain ps) k = ok (Boolean (x = Some True))"
  using assms by (auto simp: get_prop_plain flag_def opt_js_def bool_out split: option.split)

lemma json_uint32:
  assumes "lookup ps k = map_option (uint32_plain.out opts) x"
  shows "get_prop (plain ps) k = ok (opt_js int_js x)"
  using assms by (auto simp: get_prop_plain opt_js_def uint32_out split: option.split)

lemma json_number:
  assumes "lookup ps k = map_option (int64_plain.out toJSONOptions) x" "opt_all int64_ok x"
  shows "number_or_0 (plain ps) k = ok (or_else_js int_js 0 x)"
proof (cases x)
  case (Some n)
  have "\<bar>n\<bar> \<le> 2 ^ 53" using assms(2) Some by (simp add: int64_ok_def)
  from string_to_number_print [OF this] have s: "string_to_number (number_to_string (Fin (of_int n))) = Fin (of_int n)" .
  then have "number_to_string (Fin (of_int n)) \<noteq> [] \<or> n = 0"
    by (auto simp: string_to_number_def trim_def)
  then show ?thesis
    using assms(1) Some s
    by (auto simp: number_or_0_def get_prop_plain int64_out or_value_def or_else_js_def to_number_def)
qed (use assms in \<open>simp add: number_or_0_def get_prop_plain or_value_def or_else_js_def\<close>)

text \<open>What the window gets for an entry of a directory.\<close>

definition directory_row :: "DirEntry \<Rightarrow> js" where
  "directory_row e = literal
     [(''name'', opt_js String (DirEntry_name e)), (''path'', opt_js String (DirEntry_path e)),
      (''isDir'', opt_js Boolean (DirEntry_isDir e)),
      (''size'', or_else_js int_js 0 (DirEntry_sizeBytes e)), (''mtime'', or_else_js int_js 0 (DirEntry_mtime e)),
      (''mode'', opt_js int_js (DirEntry_mode e)), (''hidden'', opt_js Boolean (DirEntry_hidden e)),
      (''mimeType'', String (text_or [] (DirEntry_mimeType e))),
      (''iconName'', String (text_or
         (js_str (if DirEntry_isDir e = Some True then ''inode-directory'' else ''application-x-generic''))
         (DirEntry_iconName e))),
      (''isLink'', Boolean (DirEntry_isLink e = Some True)),
      (''linkTarget'', String (text_or [] (DirEntry_linkTarget e))), (''tags'', Array [])]"

lemma directory_entry_row:
  assumes "DirEntry_good e"
  shows "directory_entry (DirEntry_plain.sub.out toJSONOptions e) = ok (directory_row e)"
proof -
  have d: "\<not> to_defaults toJSONOptions" by (simp add: toJSONOptions_def)
  obtain ps where ps: "DirEntry_toObject (DirEntry_obj e) (Some toJSONOptions) = ok (plain ps)"
    and f: "lookup ps ''name'' = map_option (string_plain.out toJSONOptions) (DirEntry_name e)"
      "lookup ps ''path'' = map_option (string_plain.out toJSONOptions) (DirEntry_path e)"
      "lookup ps ''isDir'' = map_option (bool_plain.out toJSONOptions) (DirEntry_isDir e)"
      "lookup ps ''sizeBytes'' = map_option (int64_plain.out toJSONOptions) (DirEntry_sizeBytes e)"
      "lookup ps ''mtime'' = map_option (int64_plain.out toJSONOptions) (DirEntry_mtime e)"
      "lookup ps ''mode'' = map_option (uint32_plain.out toJSONOptions) (DirEntry_mode e)"
      "lookup ps ''hidden'' = map_option (bool_plain.out toJSONOptions) (DirEntry_hidden e)"
      "lookup ps ''mimeType'' = map_option (string_plain.out toJSONOptions) (DirEntry_mimeType e)"
      "lookup ps ''iconName'' = map_option (string_plain.out toJSONOptions) (DirEntry_iconName e)"
      "lookup ps ''isLink'' = map_option (bool_plain.out toJSONOptions) (DirEntry_isLink e)"
      "lookup ps ''linkTarget'' = map_option (string_plain.out toJSONOptions) (DirEntry_linkTarget e)"
    using DirEntry_plain_fields [OF assms d] by blast
  have n: "number_or_0 (plain ps) ''sizeBytes'' = ok (or_else_js int_js 0 (DirEntry_sizeBytes e))"
    "number_or_0 (plain ps) ''mtime'' = ok (or_else_js int_js 0 (DirEntry_mtime e))"
    using assms by (simp_all add: json_number f DirEntry_good_def)
  have o: "DirEntry_plain.sub.out toJSONOptions e = plain ps"
    using ps by (simp add: DirEntry_plain.sub.out_def t_message_def)
  have "truthy (opt_js Boolean (DirEntry_isDir e)) \<longleftrightarrow> DirEntry_isDir e = Some True"
    by (auto simp: opt_js_def split: option.split)
  then show ?thesis unfolding o directory_entry_def object_of_def directory_row_def
    by (simp add: n json_string [OF f(1)] json_string [OF f(2)] json_bool [OF f(3)] json_uint32 [OF f(6)]
        json_bool [OF f(7)] json_string [OF f(8)] json_string [OF f(9)] json_bool [OF f(10)] json_string [OF f(11)])
qed

text \<open>
  The daemon's answer to the call number \<open>n\<close>, and what the callback of the call gets from its JSON.
\<close>

definition answer :: "nat \<Rightarrow> Response \<Rightarrow> Envelope" where
  "answer n r = Envelope_new\<lparr>Envelope_requestId := Some (int n), Envelope_response := Some r\<rparr>"

definition answer_args :: "api_call \<Rightarrow> nat \<Rightarrow> Response \<Rightarrow> js list res" where
  "answer_args c n r =
     bindr (Envelope_toJSON (Envelope_obj (answer n r))) (\<lambda>msg.
     bindr (reply_args msg) (\<lambda>(resp, err). api_reply c resp err))"

lemma json_options: "\<not> to_defaults toJSONOptions" "\<not> to_arrays toJSONOptions" "\<not> to_objects toJSONOptions"
  by (simp_all add: toJSONOptions_def)

lemma answer_json:
  assumes "Response_good r" "n < 2 ^ 31"
  shows "\<exists>ps. Envelope_toJSON (Envelope_obj (answer n r)) = ok (plain ps) \<and>
    lookup ps ''requestId'' = Some (String (dec_string n)) \<and>
    lookup ps ''response'' = Some (Response_plain.sub.out toJSONOptions r) \<and> lookup ps ''event'' = None"
proof -
  have "uint64_ok (int n)" using assms(2) by (simp add: uint64_ok_def)
  then have g: "Envelope_good (answer n r)"
    using assms(1) by (simp add: Envelope_good_def answer_def Envelope_new_def)
  have "uint64_plain.out toJSONOptions (int n) = String (number_to_string (Fin (of_int (int n))))"
    by (simp add: uint64_plain.out_def t_long_def is_number_def c_string_def toJSONOptions_def)
  moreover have "number_to_string (Fin (of_int (int n))) = dec_string n"
    using print_nat [of "int n"] assms(2) by simp
  ultimately show ?thesis
    using Envelope_plain_fields [OF g json_options(1)]
    unfolding Envelope_toJSON_def by (auto simp: answer_def Envelope_new_def)
qed

text \<open>A reply without an error hands its JSON to the handler of the call.\<close>

lemma answer_to_handler:
  assumes "Response_good r" "n < 2 ^ 31" "Response_error r = None"
    and "Response_toObject (Response_obj r) (Some toJSONOptions) = ok (plain qs)" "lookup qs ''error'' = None"
  shows "answer_args c n r = api_reply c (plain qs) Null"
proof -
  have o: "Response_plain.sub.out toJSONOptions r = plain qs"
    using assms(4) by (simp add: Response_plain.sub.out_def t_message_def)
  obtain ps where ps: "Envelope_toJSON (Envelope_obj (answer n r)) = ok (plain ps)"
      "lookup ps ''response'' = Some (plain qs)"
    using answer_json [OF assms(1,2)] unfolding o by blast
  show ?thesis
    using assms(5) by (simp add: answer_args_def ps reply_args_def get_prop_plain or_value_def)
qed

lemma response_json:
  assumes "Response_good m" "n < 2 ^ 31" "Response_error m = None"
    and "\<And>ps. answer_args c n m = api_reply c (plain ps) Null \<Longrightarrow>
      lookup ps ''listDirectory'' = map_option (ListDirectoryResponse_plain.sub.out toJSONOptions) (Response_listDirectory m) \<Longrightarrow>
      lookup ps ''search'' = map_option (SearchResponse_plain.sub.out toJSONOptions) (Response_search m) \<Longrightarrow>
      lookup ps ''getBrowserConfig'' =
        map_option (GetBrowserConfigResponse_plain.sub.out toJSONOptions) (Response_getBrowserConfig m) \<Longrightarrow> P"
  shows P
proof -
  obtain ps where "Response_toObject (Response_obj m) (Some toJSONOptions) = ok (plain ps)"
      "lookup ps ''error'' = None"
      "lookup ps ''listDirectory'' = map_option (ListDirectoryResponse_plain.sub.out toJSONOptions) (Response_listDirectory m)"
      "lookup ps ''search'' = map_option (SearchResponse_plain.sub.out toJSONOptions) (Response_search m)"
      "lookup ps ''getBrowserConfig'' =
        map_option (GetBrowserConfigResponse_plain.sub.out toJSONOptions) (Response_getBrowserConfig m)"
    using Response_plain_fields [OF assms(1) json_options(1)] assms(3) by auto
  then show P using assms(4) answer_to_handler [OF assms(1-3)] by blast
qed

definition listing_response :: "DirEntry list \<Rightarrow> Response" where
  "listing_response es =
     Response_new\<lparr>Response_listDirectory := Some (ListDirectoryResponse_new\<lparr>ListDirectoryResponse_entries := es\<rparr>)\<rparr>"

lemma listing_good: "list_all DirEntry_good es \<Longrightarrow> Response_good (listing_response es)"
  by (simp add: listing_response_def Response_good_def Response_new_def ListDirectoryResponse_good_def)

lemma map_all_outs:
  "list_all good xs \<Longrightarrow> (\<And>x. good x \<Longrightarrow> f (g x) = ok (h x)) \<Longrightarrow> map_all f (map g xs) = ok (map h xs)"
  by (induction xs) simp_all

text \<open>C14. A listing reaches the window unharmed: when the daemon answers \<open>listDirectory\<close> with any entries, the callback
  gets a row for each, in the same order, with every field where the window looks for it, sizes and times as
  numbers although the JSON writes them as strings, and an icon where the daemon named none.\<close>

theorem listing_reaches_caller:
  assumes "list_all DirEntry_good es" "n < 2 ^ 31"
  shows "answer_args (CallListDirectory path hidden) n (listing_response es) = ok [Array (map directory_row es), Null]"
proof (rule response_json [OF listing_good [OF assms(1)] assms(2), where c = "CallListDirectory path hidden"])
  show "Response_error (listing_response es) = None" by (simp add: listing_response_def Response_new_def)
  fix ps
  assume j: "answer_args (CallListDirectory path hidden) n (listing_response es) =
      api_reply (CallListDirectory path hidden) (plain ps) Null"
    and l: "lookup ps ''listDirectory'' =
      map_option (ListDirectoryResponse_plain.sub.out toJSONOptions) (Response_listDirectory (listing_response es))"
  let ?r = "ListDirectoryResponse_new\<lparr>ListDirectoryResponse_entries := es\<rparr>"
  have d: "\<not> to_defaults toJSONOptions" "\<not> to_arrays toJSONOptions" by (simp_all add: toJSONOptions_def)
  have "ListDirectoryResponse_good ?r" using assms(1) by (simp add: ListDirectoryResponse_good_def)
  then obtain qs where q: "ListDirectoryResponse_toObject (ListDirectoryResponse_obj ?r) (Some toJSONOptions) = ok (plain qs)"
      "lookup qs ''entries'' = unless_empty es (Array (map (DirEntry_plain.sub.out toJSONOptions) es)) None"
    using ListDirectoryResponse_plain_fields [OF _ d(1)] d(2) by (fastforce simp: asked_def)
  have "ListDirectoryResponse_plain.sub.out toJSONOptions ?r = plain qs"
    using q(1) by (simp add: ListDirectoryResponse_plain.sub.out_def t_message_def)
  then have l: "lookup ps ''listDirectory'' = Some (plain qs)" using l by (simp add: listing_response_def)
  have "bindr (listed (plain ps) ''listDirectory'' ''entries'') (js_map directory_entry) = ok (Array (map directory_row es))"
    using map_all_outs [where f = directory_entry and h = directory_row, OF assms(1) directory_entry_row]
    by (simp add: listed_def prop_or_def get_prop_plain l q(2) or_value_def js_map_def unless_empty_def)
  then show ?thesis using j by (simp add: reply_listDirectory_def or_fail_def)
qed

theorem listing_reaches_caller_witness:
  "answer_args (CallListDirectory (js_str ''/'') False) 1
     (listing_response [DirEntry_new\<lparr>DirEntry_name := Some (js_str ''a''), DirEntry_path := Some (js_str ''/a''),
        DirEntry_isDir := Some True, DirEntry_mtime := Some 5\<rparr>]) =
   ok [Array [literal
     [(''name'', String (js_str ''a'')), (''path'', String (js_str ''/a'')), (''isDir'', Boolean True),
      (''size'', int_js 0), (''mtime'', int_js 5), (''mode'', Undefined), (''hidden'', Undefined),
      (''mimeType'', String []), (''iconName'', String (js_str ''inode-directory'')), (''isLink'', Boolean False),
      (''linkTarget'', String []), (''tags'', Array [])]], Null]"
  using listing_reaches_caller [where n = 1 and path = "js_str ''/''" and hidden = False and
      es = "[DirEntry_new\<lparr>DirEntry_name := Some (js_str ''a''), DirEntry_path := Some (js_str ''/a''),
        DirEntry_isDir := Some True, DirEntry_mtime := Some 5\<rparr>]"]
  by (simp add: DirEntry_good_def DirEntry_new_def int64_ok_def directory_row_def opt_js_def or_else_js_def text_or_def)

text \<open>A file found by a search.\<close>

definition found_row :: "FileResult \<Rightarrow> js" where
  "found_row f = literal
     [(''path'', opt_js String (FileResult_path f)), (''tags'', Array (map String (FileResult_tags f))),
      (''metadata'', map_obj (FileResult_metadata f)),
      (''score'', case FileResult_score f of
         None \<Rightarrow> int_js 0
       | Some w \<Rightarrow> if is_finite (f64_val w) then or_value (Number (f64_val w)) (int_js 0)
                   else String (number_to_string (f64_val w))),
      (''mtime'', or_else_js int_js 0 (FileResult_mtime f)), (''size'', or_else_js int_js 0 (FileResult_sizeBytes f)),
      (''name'', String (case FileResult_path f of
         None \<Rightarrow> js_str ''undefined''
       | Some p \<Rightarrow> rev (takeWhile (\<lambda>c. c \<noteq> 47) (rev p)))),
      (''isDir'', Boolean False), (''isLink'', Boolean (FileResult_isLink f = Some True)),
      (''linkTarget'', String (text_or [] (FileResult_linkTarget f)))]"

lemma json_score:
  assumes "lookup ps k = map_option (double_plain.out toJSONOptions) x"
  shows "prop_or (plain ps) k (int_js 0) = ok (case x of
     None \<Rightarrow> int_js 0
   | Some w \<Rightarrow> if is_finite (f64_val w) then or_value (Number (f64_val w)) (int_js 0)
               else String (number_to_string (f64_val w)))"
proof (cases x)
  case (Some w)
  have "\<not> is_finite v \<Longrightarrow> number_to_string v \<noteq> []" for v
    by (cases v) (simp_all add: is_finite_def number_to_string_def js_str_def)
  then show ?thesis
    using assms Some
    by (simp add: prop_or_def get_prop_plain double_plain.out_def t_number_def toJSONOptions_def c_string_def or_value_def)
qed (use assms in \<open>simp add: prop_or_def get_prop_plain or_value_def\<close>)

lemma json_base_name:
  assumes "lookup ps k = map_option (string_plain.out opts) x"
  shows "bindr (get_prop (plain ps) k) base_name = ok (String (case x of
     None \<Rightarrow> js_str ''undefined'' | Some p \<Rightarrow> rev (takeWhile (\<lambda>c. c \<noteq> 47) (rev p))))"
  using json_string(1) [OF assms] by (cases x) (simp_all add: opt_js_def base_name_def js_str_def)

lemma json_strings:
  assumes "lookup ps k = unless_empty xs (Array (map (string_plain.out opts) xs)) (asked (to_arrays toJSONOptions) (Array []) None)"
  shows "prop_or (plain ps) k (Array []) = ok (Array (map String xs))"
  using assms
  by (auto simp: prop_or_def get_prop_plain or_value_def unless_empty_def asked_def toJSONOptions_def string_out [abs_def])

lemma json_map:
  assumes "lookup ps k = unless_empty kvs (map_obj kvs) (asked (to_objects toJSONOptions) (plain []) None)"
  shows "prop_or (plain ps) k (plain []) = ok (map_obj kvs)"
  using assms
  by (auto simp: prop_or_def get_prop_plain or_value_def unless_empty_def asked_def toJSONOptions_def map_obj_def)

lemma found_file_row:
  assumes "FileResult_good f"
  shows "found_file (FileResult_plain.sub.out toJSONOptions f) = ok (found_row f)"
proof -
  have d: "\<not> to_defaults toJSONOptions" by (simp add: toJSONOptions_def)
  obtain ps where ps: "FileResult_toObject (FileResult_obj f) (Some toJSONOptions) = ok (plain ps)"
    and f: "lookup ps ''path'' = map_option (string_plain.out toJSONOptions) (FileResult_path f)"
      "lookup ps ''tags'' = unless_empty (FileResult_tags f) (Array (map (string_plain.out toJSONOptions) (FileResult_tags f)))
         (asked (to_arrays toJSONOptions) (Array []) None)"
      "lookup ps ''metadata'' = unless_empty (FileResult_metadata f) (map_obj (FileResult_metadata f))
         (asked (to_objects toJSONOptions) (plain []) None)"
      "lookup ps ''score'' = map_option (double_plain.out toJSONOptions) (FileResult_score f)"
      "lookup ps ''mtime'' = map_option (int64_plain.out toJSONOptions) (FileResult_mtime f)"
      "lookup ps ''sizeBytes'' = map_option (int64_plain.out toJSONOptions) (FileResult_sizeBytes f)"
      "lookup ps ''isLink'' = map_option (bool_plain.out toJSONOptions) (FileResult_isLink f)"
      "lookup ps ''linkTarget'' = map_option (string_plain.out toJSONOptions) (FileResult_linkTarget f)"
    using FileResult_plain_fields [OF assms d] by blast
  have n: "number_or_0 (plain ps) ''sizeBytes'' = ok (or_else_js int_js 0 (FileResult_sizeBytes f))"
    "number_or_0 (plain ps) ''mtime'' = ok (or_else_js int_js 0 (FileResult_mtime f))"
    using assms by (simp_all add: json_number f FileResult_good_def)
  have o: "FileResult_plain.sub.out toJSONOptions f = plain ps"
    using ps by (simp add: FileResult_plain.sub.out_def t_message_def)
  show ?thesis unfolding o found_file_def object_of_def found_row_def
    using json_base_name [OF f(1)]
    by (simp add: n json_string(1) [OF f(1)] json_strings [OF f(2)] json_map [OF f(3)] json_score [OF f(4), simplified]
        json_bool(2) [OF f(7)] json_string(2) [OF f(8)])
qed

definition search_response :: "FileResult list \<Rightarrow> int option \<Rightarrow> Response" where
  "search_response fs n = Response_new\<lparr>Response_search :=
     Some (SearchResponse_new\<lparr>SearchResponse_files := fs, SearchResponse_total := n\<rparr>)\<rparr>"

lemma search_good: "list_all FileResult_good fs \<Longrightarrow> opt_all uint32_ok n \<Longrightarrow> Response_good (search_response fs n)"
  by (simp add: search_response_def Response_good_def Response_new_def SearchResponse_good_def)

lemma json_total:
  assumes "lookup ps k = map_option (uint32_plain.out opts) x"
  shows "number_or_0 (plain ps) k = ok (or_else_js int_js 0 x)"
  using assms by (auto simp: number_or_0_def get_prop_plain uint32_out or_value_def or_else_js_def to_number_def split: option.split)

text \<open>
  The same for a search: every file found becomes a row, in the same order, with the name cut from its path.
\<close>

theorem search_reaches_caller:
  assumes "list_all FileResult_good fs" "opt_all uint32_ok hits" "n < 2 ^ 31"
  shows "answer_args (CallSearch tags tagsAny tagExclude metaFilters ftsQuery limit offset sortBy) n
      (search_response fs hits) =
      ok [literal [(''files'', Array (map found_row fs)), (''total'', or_else_js int_js 0 hits)], Null]"
proof (rule response_json [OF search_good [OF assms(1,2)] assms(3), 
      where c = "CallSearch tags tagsAny tagExclude metaFilters ftsQuery limit offset sortBy"])
  show "Response_error (search_response fs hits) = None" by (simp add: search_response_def Response_new_def)
  fix ps
  assume j: "answer_args (CallSearch tags tagsAny tagExclude metaFilters ftsQuery limit offset sortBy) n
      (search_response fs hits) = api_reply (CallSearch tags tagsAny tagExclude metaFilters ftsQuery limit offset sortBy) (plain ps) Null"
    and l: "lookup ps ''search'' =
      map_option (SearchResponse_plain.sub.out toJSONOptions) (Response_search (search_response fs hits))"
  let ?r = "SearchResponse_new\<lparr>SearchResponse_files := fs, SearchResponse_total := hits\<rparr>"
  have d: "\<not> to_defaults toJSONOptions" "\<not> to_arrays toJSONOptions" by (simp_all add: toJSONOptions_def)
  have "SearchResponse_good ?r" using assms(1,2) by (simp add: SearchResponse_good_def)
  then obtain qs where q: "SearchResponse_toObject (SearchResponse_obj ?r) (Some toJSONOptions) = ok (plain qs)"
      "lookup qs ''files'' = unless_empty fs (Array (map (FileResult_plain.sub.out toJSONOptions) fs)) None"
      "lookup qs ''total'' = map_option (uint32_plain.out toJSONOptions) hits"
    using SearchResponse_plain_fields [OF _ d(1)] d(2) by (fastforce simp: asked_def)
  have "SearchResponse_plain.sub.out toJSONOptions ?r = plain qs"
    using q(1) by (simp add: SearchResponse_plain.sub.out_def t_message_def)
  then have l: "lookup ps ''search'' = Some (plain qs)" using l by (simp add: search_response_def)
  have "bindr (prop_or (plain qs) ''files'' (Array [])) (js_map found_file) = ok (Array (map found_row fs))"
    using map_all_outs [where f = found_file and h = found_row, OF assms(1) found_file_row]
    by (simp add: prop_or_def get_prop_plain q(2) or_value_def js_map_def unless_empty_def)
  moreover have "prop_or (plain ps) ''search'' (plain []) = ok (plain qs)"
    by (simp add: prop_or_def get_prop_plain l or_value_def)
  ultimately show ?thesis using j json_total [OF q(3)] by (simp add: reply_search_def or_fail_def)
qed

section \<open>The settings of the window\<close>

text \<open>
  What \<open>BrowserWindow.qml\<close> keeps of the configuration when it starts; \<open>preset\<close> is the theme it applies, if any.
\<close>

record settings =
  window_keybindings :: js
  window_useTrash :: bool
  window_autoPropertiesSlideout :: bool
  window_singleClick :: bool
  window_useInlineThumbnails :: bool
  window_preset :: "js option"

definition settings_start :: settings where
  "settings_start = \<lparr>window_keybindings = plain [], window_useTrash = True, window_autoPropertiesSlideout = False,
     window_singleClick = False, window_useInlineThumbnails = False, window_preset = None\<rparr>"

text \<open>\<open>cfg.k !== undefined ? cfg.k : true\<close>\<close>

definition flag_or_true :: "js \<Rightarrow> string \<Rightarrow> bool res" where
  "flag_or_true cfg k = bindr (get_prop cfg k) (\<lambda>v. ok (v \<noteq> Undefined \<longrightarrow> truthy v))"

definition apply_config :: "js \<Rightarrow> settings \<Rightarrow> settings res" where
  "apply_config cfg s =
     (if \<not> truthy cfg then ok s
      else bindr (prop_or cfg ''keybindings'' (plain [])) (\<lambda>keys.
           bindr (flag_or_true cfg ''useTrash'') (\<lambda>trash.
           bindr (get_prop cfg ''autoPropertiesSlideout'') (\<lambda>slideout.
           bindr (get_prop cfg ''singleClick'') (\<lambda>single.
           bindr (flag_or_true cfg ''inlineThumbnails'') (\<lambda>thumbs.
           bindr (get_prop cfg ''theme'') (\<lambda>theme.
             ok (s\<lparr>window_keybindings := keys, window_useTrash := trash,
                   window_autoPropertiesSlideout := truthy slideout, window_singleClick := truthy single,
                   window_useInlineThumbnails := thumbs,
                   window_preset := (if truthy theme then Some theme else window_preset s)\<rparr>))))))))"

definition config_response :: "GetBrowserConfigResponse \<Rightarrow> Response" where
  "config_response c = Response_new\<lparr>Response_getBrowserConfig := Some c\<rparr>"

lemma config_good: "GetBrowserConfigResponse_good c \<Longrightarrow> Response_good (config_response c)"
  by (simp add: config_response_def Response_good_def Response_new_def)

text \<open>C15. The settings of the daemon reach the window, with a setting that is missing read as the code means it,
  except for one: whatever the configuration says, single-click mode stays off, since the reply of
  \<open>getBrowserConfig\<close> leaves \<open>singleClick\<close> out.\<close>

theorem config_reaches_window:
  assumes "GetBrowserConfigResponse_good c" "n < 2 ^ 31"
  shows "\<exists>cfg. answer_args CallGetBrowserConfig n (config_response c) = ok [cfg, Null] \<and>
    apply_config cfg settings_start = ok
      \<lparr>window_keybindings = map_obj (GetBrowserConfigResponse_keybindings c),
       window_useTrash = (GetBrowserConfigResponse_useTrash c = Some True),
       window_autoPropertiesSlideout = (GetBrowserConfigResponse_autoPropertiesSlideout c = Some True),
       window_singleClick = False,
       window_useInlineThumbnails = (GetBrowserConfigResponse_inlineThumbnails c \<noteq> Some False),
       window_preset = (case GetBrowserConfigResponse_theme c of
          Some (x # xs) \<Rightarrow> Some (String (x # xs)) | _ \<Rightarrow> None)\<rparr>"
proof (rule response_json [OF config_good [OF assms(1)] assms(2), where c = CallGetBrowserConfig])
  show "Response_error (config_response c) = None" by (simp add: config_response_def Response_new_def)
  fix ps
  assume j: "answer_args CallGetBrowserConfig n (config_response c) = api_reply CallGetBrowserConfig (plain ps) Null"
    and l: "lookup ps ''getBrowserConfig'' =
      map_option (GetBrowserConfigResponse_plain.sub.out toJSONOptions) (Response_getBrowserConfig (config_response c))"
  have d: "\<not> to_defaults toJSONOptions" by (simp add: toJSONOptions_def)
  obtain qs where q: "GetBrowserConfigResponse_toObject (GetBrowserConfigResponse_obj c) (Some toJSONOptions) = ok (plain qs)"
    and f: "lookup qs ''keybindings'' = unless_empty (GetBrowserConfigResponse_keybindings c)
         (map_obj (GetBrowserConfigResponse_keybindings c)) (asked (to_objects toJSONOptions) (plain []) None)"
      "lookup qs ''useTrash'' = map_option (bool_plain.out toJSONOptions) (GetBrowserConfigResponse_useTrash c)"
      "lookup qs ''inlineThumbnails'' = map_option (bool_plain.out toJSONOptions) (GetBrowserConfigResponse_inlineThumbnails c)"
      "lookup qs ''autoPropertiesSlideout'' =
         map_option (bool_plain.out toJSONOptions) (GetBrowserConfigResponse_autoPropertiesSlideout c)"
      "lookup qs ''theme'' = map_option (string_plain.out toJSONOptions) (GetBrowserConfigResponse_theme c)"
    using GetBrowserConfigResponse_plain_fields [OF assms(1) d] by blast
  have "GetBrowserConfigResponse_plain.sub.out toJSONOptions c = plain qs"
    using q by (simp add: GetBrowserConfigResponse_plain.sub.out_def t_message_def)
  then have l: "prop_or (plain ps) ''getBrowserConfig'' (plain []) = ok (plain qs)"
    using l by (simp add: config_response_def prop_or_def get_prop_plain or_value_def)
  let ?cfg = "literal [(''keybindings'', map_obj (GetBrowserConfigResponse_keybindings c)),
    (''useTrash'', Boolean (GetBrowserConfigResponse_useTrash c = Some True)),
    (''inlineThumbnails'', Boolean (GetBrowserConfigResponse_inlineThumbnails c \<noteq> Some False)),
    (''autoPropertiesSlideout'', Boolean (GetBrowserConfigResponse_autoPropertiesSlideout c = Some True)),
    (''theme'', String (text_or [] (GetBrowserConfigResponse_theme c)))]"
  have t: "(opt_js Boolean x \<noteq> Undefined \<longrightarrow> truthy (opt_js Boolean x)) = (x \<noteq> Some False)" for x
    by (auto simp: opt_js_def split: option.split)
  have "browser_config (plain qs) = ok ?cfg"
    unfolding browser_config_def object_of_def
    using t by (simp add: json_map [OF f(1)] json_bool [OF f(2)] json_bool [OF f(3)] json_bool [OF f(4)]
        json_string(2) [OF f(5)])
  then have "reply_getBrowserConfig (plain ps) Null = ok [?cfg, Null]"
    by (simp add: reply_getBrowserConfig_def or_fail_def l)
  moreover have "apply_config ?cfg settings_start = ok
      \<lparr>window_keybindings = map_obj (GetBrowserConfigResponse_keybindings c),
       window_useTrash = (GetBrowserConfigResponse_useTrash c = Some True),
       window_autoPropertiesSlideout = (GetBrowserConfigResponse_autoPropertiesSlideout c = Some True),
       window_singleClick = False,
       window_useInlineThumbnails = (GetBrowserConfigResponse_inlineThumbnails c \<noteq> Some False),
       window_preset = (case GetBrowserConfigResponse_theme c of
          Some (x # xs) \<Rightarrow> Some (String (x # xs)) | _ \<Rightarrow> None)\<rparr>"
    by (simp add: apply_config_def literal_def prop_or_def flag_or_true_def get_prop_plain or_value_def settings_start_def
        map_obj_def text_or_def split: option.split list.split)
  ultimately show ?thesis using j by auto
qed

theorem config_reaches_window_witness:
  "\<exists>cfg. answer_args CallGetBrowserConfig 3 (config_response
      (GetBrowserConfigResponse_new\<lparr>GetBrowserConfigResponse_useTrash := Some True,
        GetBrowserConfigResponse_inlineThumbnails := Some False, GetBrowserConfigResponse_singleClick := Some True,
        GetBrowserConfigResponse_theme := Some (js_str ''nord'')\<rparr>)) = ok [cfg, Null] \<and>
    apply_config cfg settings_start = ok
      \<lparr>window_keybindings = plain [], window_useTrash = True, window_autoPropertiesSlideout = False,
       window_singleClick = False, window_useInlineThumbnails = False,
       window_preset = Some (String (js_str ''nord''))\<rparr>"
  using config_reaches_window [of "GetBrowserConfigResponse_new\<lparr>GetBrowserConfigResponse_useTrash := Some True,
        GetBrowserConfigResponse_inlineThumbnails := Some False, GetBrowserConfigResponse_singleClick := Some True,
        GetBrowserConfigResponse_theme := Some (js_str ''nord'')\<rparr>" 3]
  by (simp add: GetBrowserConfigResponse_good_def GetBrowserConfigResponse_new_def js_object_def map_obj_def js_str_def)

section \<open>Errors reach the callers\<close>

definition error_response :: "ErrorResponse \<Rightarrow> Response" where
  "error_response e = Response_new\<lparr>Response_error := Some e\<rparr>"

lemma api_errors: "truthy err \<Longrightarrow> api_reply c Null err = ok (api_failure c @ [err])"
  by (cases c)
    (simp_all add: or_fail_def path_of_def reply_listDirectory_def reply_statFile_def reply_search_def reply_globSearch_def
      reply_getMetadata_def reply_setMetadata_def reply_modifyTags_def reply_hydrateTags_def reply_listTags_def
      reply_renameFile_def reply_deleteFile_def reply_chmodFile_def reply_listPlaces_def reply_pinPlace_def
      reply_unpinPlace_def reply_trashFile_def reply_listTrash_def reply_restoreTrash_def reply_emptyTrash_def
      reply_listAppsForFile_def reply_openWithApp_def reply_getBrowserConfig_def reply_getFileBadges_def
      reply_getFileActions_def reply_runFileAction_def reply_getThumbnail_def reply_reindexFile_def reply_listMounts_def
      reply_listSavedSearches_def reply_pinSearch_def reply_unpinSearch_def reply_copy_def reply_paste_def
      reply_createFile_def reply_createDirectory_def)

text \<open>C16. An error of the daemon reaches the callback of every one of the 35 functions, with its message (or
  \<open>unknown error\<close> where it is empty) last, behind the empty result the function promises, and no handler throws.\<close>

theorem error_reaches_caller:
  assumes "ErrorResponse_good e" "n < 2 ^ 31"
  shows "answer_args c n (error_response e) =
    ok (api_failure c @ [String (text_or (js_str ''unknown error'') (ErrorResponse_message e))])"
proof -
  have g: "Response_good (error_response e)"
    using assms(1) by (simp add: error_response_def Response_good_def Response_new_def)
  obtain es where es: "ErrorResponse_toObject (ErrorResponse_obj e) (Some toJSONOptions) = ok (plain es)"
      "lookup es ''message'' = map_option (string_plain.out toJSONOptions) (ErrorResponse_message e)"
    using ErrorResponse_plain_fields [OF assms(1) json_options(1)] by blast
  have o: "ErrorResponse_plain.sub.out toJSONOptions e = plain es"
    using es(1) by (simp add: ErrorResponse_plain.sub.out_def t_message_def)
  obtain qs where qs: "Response_toObject (Response_obj (error_response e)) (Some toJSONOptions) = ok (plain qs)"
      "lookup qs ''error'' = Some (plain es)"
    using Response_plain_fields [OF g json_options(1)] o by (auto simp: error_response_def)
  have o: "Response_plain.sub.out toJSONOptions (error_response e) = plain qs"
    using qs(1) by (simp add: Response_plain.sub.out_def t_message_def)
  obtain ps where ps: "Envelope_toJSON (Envelope_obj (answer n (error_response e))) = ok (plain ps)"
      "lookup ps ''response'' = Some (plain qs)"
    using answer_json [OF g assms(2)] unfolding o by blast
  have "text_or (js_str ''unknown error'') x \<noteq> []" for x
    by (simp add: text_or_def js_str_def split: option.split)
  then show ?thesis
    by (simp add: answer_args_def ps reply_args_def get_prop_plain or_value_def qs(2) json_string(2) [OF es(2)] api_errors)
qed

theorem error_reaches_caller_witness:
  "answer_args (CallRenameFile (js_str ''/a'') (js_str ''b'')) 7
     (error_response (ErrorResponse_new\<lparr>ErrorResponse_message := Some (js_str ''exists'')\<rparr>)) =
   ok [String [], String (js_str ''exists'')]"
  using error_reaches_caller [of "ErrorResponse_new\<lparr>ErrorResponse_message := Some (js_str ''exists'')\<rparr>" 7
      "CallRenameFile (js_str ''/a'') (js_str ''b'')"]
  by (simp add: ErrorResponse_good_def ErrorResponse_new_def text_or_def js_str_def)

end
