(* ===== verification/FileOps.thy ===== *)
theory FileOps
  imports Navigation Api
begin

text \<open>
  The file operations of the browser window, \<open>windows/browser/BrowserFileOperations.qml\<close>: the selection
  with the details of the selected file, deleting, the clipboard, creating, dropping and the zoom. A
  command changes the state and makes calls; a reply, to any of the calls in flight, runs the code
  that waits for it, which may make further calls and ask for the view to be loaded again.

  The theorems: the details shown belong to the file selected, whatever replies come late; a deletion
  leaves exactly the files that could not be deleted selected, in whatever order the replies come; the
  icons keep their bounds.
\<close>

section \<open>State\<close>

record file_ops =
  ops_currentPath :: jstring
  ops_isTrashView :: bool
  ops_isSearchMode :: bool
  selectedFile :: "entry option"
  selectedFileMeta :: "js_map option"
  selectedPaths :: "jstring list"
  selectionMode :: bool
  gridIconSize :: int

definition ops_start :: file_ops where
  "ops_start =
     \<lparr>ops_currentPath = [slash], ops_isTrashView = False, ops_isSearchMode = False, selectedFile = None,
      selectedFileMeta = None, selectedPaths = [], selectionMode = False, gridIconSize = 48\<rparr>"

text \<open>The calls to the daemon, each with what its callback captures.\<close>

datatype file_call =
    StatFile jstring
  | GetMetadata jstring
  | DeleteFile jstring
  | CopyFiles "jstring list" bool
  | PasteFiles jstring
  | CreateDirectory jstring jstring
  | CreateFile jstring jstring
  | DropFiles "jstring list" bool jstring
  | PasteDropped jstring

datatype file_reply =
    Failed
  | Stat int int
  | Metadata js_map
  | Done

datatype file_signal = RefreshNeeded | TrashRefreshNeeded

section \<open>Commands\<close>

text \<open>Each gives the new state and the calls it makes.\<close>

definition selectFile :: "entry option \<Rightarrow> file_ops \<Rightarrow> file_ops \<times> file_call list" where
  "selectFile fileData ops =
     (ops\<lparr>selectedFile := fileData, selectedFileMeta := None\<rparr>,
      case fileData of None \<Rightarrow> [] | Some f \<Rightarrow> [StatFile (e_path f), GetMetadata (e_path f)])"

definition clearSelection :: "file_ops \<Rightarrow> file_ops" where
  "clearSelection ops = ops\<lparr>selectedFile := None, selectedFileMeta := None, selectedPaths := []\<rparr>"

definition delete_targets :: "file_ops \<Rightarrow> jstring list" where
  "delete_targets ops =
     (if length (selectedPaths ops) > 0 then selectedPaths ops
      else case selectedFile ops of Some f \<Rightarrow> [e_path f] | None \<Rightarrow> [])"

definition deleteSelected :: "file_ops \<Rightarrow> file_call list" where
  "deleteSelected ops = map DeleteFile (delete_targets ops)"

definition permanent_targets :: "file_ops \<Rightarrow> jstring list" where
  "permanent_targets ops =
     (if length (selectedPaths ops) > 0 then selectedPaths ops
      else case selectedFile ops of Some f \<Rightarrow> [e_path f] | None \<Rightarrow> [])"

definition permanentDeleteSelected :: "file_ops \<Rightarrow> file_call list" where
  "permanentDeleteSelected ops = map DeleteFile (permanent_targets ops)"

definition copySelected :: "bool \<Rightarrow> file_ops \<Rightarrow> file_call list" where
  "copySelected isMove ops =
     (let targets =
        (if length (selectedPaths ops) > 0 then selectedPaths ops
         else case selectedFile ops of Some f \<Rightarrow> [e_path f] | None \<Rightarrow> [])
      in if length targets = 0 then [] else [CopyFiles targets isMove])"

definition paste :: "file_ops \<Rightarrow> file_call list" where
  "paste ops = (if ops_isTrashView ops \<or> ops_isSearchMode ops then [] else [PasteFiles (ops_currentPath ops)])"

definition createNew :: "bool \<Rightarrow> file_ops \<Rightarrow> file_call list" where
  "createNew isDir ops =
     (if ops_isTrashView ops \<or> ops_isSearchMode ops then []
      else let defaultName = (if isDir then js_str ''New Folder'' else js_str ''New File'')
           in if isDir then [CreateDirectory (ops_currentPath ops) defaultName]
              else [CreateFile (ops_currentPath ops) defaultName])"

definition dropped_path :: "jstring \<Rightarrow> jstring" where
  "dropped_path s = (if take 7 s = js_str ''file://'' then drop 7 s else s)"

definition handleFilesDropped :: "jstring list \<Rightarrow> jstring \<Rightarrow> bool \<Rightarrow> file_ops \<Rightarrow> file_call list" where
  "handleFilesDropped urls targetPath isCopy ops =
     (let paths = map dropped_path urls;
          dest = (if targetPath \<noteq> [] then targetPath else ops_currentPath ops)
      in [DropFiles paths (\<not> isCopy) dest])"

definition zoomIn :: "file_ops \<Rightarrow> file_ops" where
  "zoomIn ops = (if gridIconSize ops < 256 then ops\<lparr>gridIconSize := gridIconSize ops + 16\<rparr> else ops)"

definition zoomOut :: "file_ops \<Rightarrow> file_ops" where
  "zoomOut ops = (if gridIconSize ops > 32 then ops\<lparr>gridIconSize := gridIconSize ops - 16\<rparr> else ops)"

definition zoomReset :: "file_ops \<Rightarrow> file_ops" where
  "zoomReset ops = ops\<lparr>gridIconSize := 48\<rparr>"

text \<open>\<open>Place\<close> stands for the bindings to the navigation, \<open>SelectPaths\<close> for the selection of the file views;
  the settings of the window, among them \<open>_useInlineThumbnails\<close>, are in \<open>Api\<close>.\<close>

datatype file_command =
    SelectFile "entry option"
  | SelectPaths "jstring list"
  | ClearSelection
  | ToggleSelectionMode
  | DeleteSelected
  | PermanentDeleteSelected
  | CopySelected bool
  | Paste
  | CreateNew bool
  | FilesDropped "jstring list" jstring bool
  | ZoomIn
  | ZoomOut
  | ZoomReset
  | Place jstring bool bool

fun ops_command :: "file_command \<Rightarrow> file_ops \<Rightarrow> file_ops \<times> file_call list" where
  "ops_command (SelectFile f) ops = selectFile f ops"
| "ops_command (SelectPaths ps) ops = (ops\<lparr>selectedPaths := ps\<rparr>, [])"
| "ops_command ClearSelection ops = (clearSelection ops, [])"
| "ops_command ToggleSelectionMode ops = (ops\<lparr>selectionMode := \<not> selectionMode ops\<rparr>, [])"
| "ops_command DeleteSelected ops = (ops, deleteSelected ops)"
| "ops_command PermanentDeleteSelected ops = (ops, permanentDeleteSelected ops)"
| "ops_command (CopySelected isMove) ops = (ops, copySelected isMove ops)"
| "ops_command Paste ops = (ops, paste ops)"
| "ops_command (CreateNew isDir) ops = (ops, createNew isDir ops)"
| "ops_command (FilesDropped urls target isCopy) ops = (ops, handleFilesDropped urls target isCopy ops)"
| "ops_command ZoomIn ops = (zoomIn ops, [])"
| "ops_command ZoomOut ops = (zoomOut ops, [])"
| "ops_command ZoomReset ops = (zoomReset ops, [])"
| "ops_command (Place p trash search) ops =
     (ops\<lparr>ops_currentPath := p, ops_isTrashView := trash, ops_isSearchMode := search\<rparr>, [])"

section \<open>Replies\<close>

definition is_selected :: "jstring \<Rightarrow> file_ops \<Rightarrow> bool" where
  "is_selected p ops = (case selectedFile ops of Some f \<Rightarrow> e_path f = p | None \<Rightarrow> False)"

definition stat_done :: "jstring \<Rightarrow> int \<Rightarrow> int \<Rightarrow> file_ops \<Rightarrow> file_ops" where
  "stat_done p sz mtime ops =
     (if is_selected p ops
      then ops\<lparr>selectedFile := map_option (\<lambda>f. f\<lparr>e_size := Some sz, e_mtime := Some mtime\<rparr>) (selectedFile ops)\<rparr>
      else ops)"

definition metadata_done :: "jstring \<Rightarrow> js_map \<Rightarrow> file_ops \<Rightarrow> file_ops" where
  "metadata_done p m ops = (if is_selected p ops then ops\<lparr>selectedFileMeta := Some m\<rparr> else ops)"

definition deleted :: "jstring \<Rightarrow> file_ops \<Rightarrow> file_ops" where
  "deleted p ops =
     (let ops = (if is_selected p ops then ops\<lparr>selectedFile := None\<rparr> else ops)
      in if p \<in> set (selectedPaths ops) then ops\<lparr>selectedPaths := remove1 p (selectedPaths ops)\<rparr> else ops)"

definition refresh_signal :: "file_ops \<Rightarrow> file_signal" where
  "refresh_signal ops = (if ops_isTrashView ops then TrashRefreshNeeded else RefreshNeeded)"

text \<open>The new state, the calls made and the signals emitted; a failure is logged and changes nothing.\<close>

fun ops_reply :: "file_call \<Rightarrow> file_reply \<Rightarrow> file_ops \<Rightarrow> file_ops \<times> file_call list \<times> file_signal list" where
  "ops_reply (StatFile p) (Stat sz mtime) ops = (stat_done p sz mtime ops, [], [])"
| "ops_reply (GetMetadata p) (Metadata m) ops = (metadata_done p m ops, [], [])"
| "ops_reply (DeleteFile p) Done ops = (let ops = deleted p ops in (ops, [], [refresh_signal ops]))"
| "ops_reply (PasteFiles p) Done ops = (ops, [], [RefreshNeeded])"
| "ops_reply (CreateDirectory p n) Done ops = (ops, [], [RefreshNeeded])"
| "ops_reply (CreateFile p n) Done ops = (ops, [], [RefreshNeeded])"
| "ops_reply (DropFiles ps isMove dest) Done ops = (ops, [PasteDropped dest], [])"
| "ops_reply (PasteDropped dest) Done ops = (ops, [], [RefreshNeeded])"
| "ops_reply _ _ ops = (ops, [], [])"

text \<open>
  What the daemon may answer: \<open>stats\<close> and \<open>metas\<close> say which details a file may have.
\<close>

fun reply_fits :: "(jstring \<Rightarrow> int \<Rightarrow> int \<Rightarrow> bool) \<Rightarrow> (jstring \<Rightarrow> js_map \<Rightarrow> bool) \<Rightarrow> file_call \<Rightarrow> file_reply \<Rightarrow> bool" where
  "reply_fits stats metas call Failed \<longleftrightarrow> True"
| "reply_fits stats metas (StatFile p) (Stat sz mtime) \<longleftrightarrow> stats p sz mtime"
| "reply_fits stats metas (GetMetadata p) (Metadata m) \<longleftrightarrow> metas p m"
| "reply_fits stats metas (StatFile p) _ \<longleftrightarrow> False"
| "reply_fits stats metas (GetMetadata p) _ \<longleftrightarrow> False"
| "reply_fits stats metas call Done \<longleftrightarrow> True"
| "reply_fits stats metas call _ \<longleftrightarrow> False"

definition entry_fits :: "(jstring \<Rightarrow> int \<Rightarrow> int \<Rightarrow> bool) \<Rightarrow> entry \<Rightarrow> bool" where
  "entry_fits stats e \<longleftrightarrow> (\<forall>sz mtime. e_size e = Some sz \<longrightarrow> e_mtime e = Some mtime \<longrightarrow> stats (e_path e) sz mtime)"

fun command_fits :: "(jstring \<Rightarrow> int \<Rightarrow> int \<Rightarrow> bool) \<Rightarrow> file_command \<Rightarrow> bool" where
  "command_fits stats (SelectFile f) \<longleftrightarrow> (case f of None \<Rightarrow> True | Some e \<Rightarrow> entry_fits stats e)"
| "command_fits stats c \<longleftrightarrow> True"

text \<open>Any of the calls in flight may be answered next.\<close>

inductive ops_reach ::
  "(jstring \<Rightarrow> int \<Rightarrow> int \<Rightarrow> bool) \<Rightarrow> (jstring \<Rightarrow> js_map \<Rightarrow> bool) \<Rightarrow> file_ops \<Rightarrow> file_call list \<Rightarrow> bool"
  for stats metas where
  Start: "ops_reach stats metas ops_start []"
| Command: "ops_reach stats metas ops calls \<Longrightarrow> command_fits stats c \<Longrightarrow> ops_command c ops = (ops', new) \<Longrightarrow>
    ops_reach stats metas ops' (calls @ new)"
| Reply: "ops_reach stats metas ops (earlier @ call # later) \<Longrightarrow> reply_fits stats metas call r \<Longrightarrow>
    ops_reply call r ops = (ops', new, signals) \<Longrightarrow> ops_reach stats metas ops' (earlier @ later @ new)"

text \<open>The calls as the daemon client makes them.\<close>

fun file_api :: "file_call \<Rightarrow> api_call" where
  "file_api (StatFile p) = CallStatFile p"
| "file_api (GetMetadata p) = CallGetMetadata p"
| "file_api (DeleteFile p) = CallDeleteFile p"
| "file_api (CopyFiles ps isMove) = CallCopy ps isMove"
| "file_api (PasteFiles dest) = CallPaste dest"
| "file_api (CreateDirectory dir name) = CallCreateDirectory dir name"
| "file_api (CreateFile dir name) = CallCreateFile dir name"
| "file_api (DropFiles ps isMove dest) = CallCopy ps isMove"
| "file_api (PasteDropped dest) = CallPaste dest"

lemma file_api_ok: "api_ok (file_api call)"
  by (cases call) simp_all

section \<open>The icons\<close>

lemma zoom_bounds:
  "(16 :: int) dvd n \<Longrightarrow> n < 256 \<Longrightarrow> n + 16 \<le> 256"
  "(16 :: int) dvd n \<Longrightarrow> 32 < n \<Longrightarrow> 32 \<le> n - 16"
  by presburger+

lemma icon_command:
  assumes "32 \<le> gridIconSize ops \<and> gridIconSize ops \<le> 256 \<and> 16 dvd gridIconSize ops"
    and "ops_command c ops = (ops', new)"
  shows "32 \<le> gridIconSize ops' \<and> gridIconSize ops' \<le> 256 \<and> 16 dvd gridIconSize ops'"
  using assms zoom_bounds [of "gridIconSize ops"]
  by (cases c) (auto simp: selectFile_def clearSelection_def zoomIn_def zoomOut_def zoomReset_def split: if_splits)

lemma icon_reply: "ops_reply call r ops = (ops', new, signals) \<Longrightarrow> gridIconSize ops' = gridIconSize ops"
  by (cases "(call, r, ops)" rule: ops_reply.cases)
    (auto simp: stat_done_def metadata_done_def deleted_def Let_def split: if_splits)

text \<open>The icons of the grid keep their bounds: whatever is done and answered, their size is a multiple of 16
  between 32 and 256.\<close>

theorem icon_size_bounds:
  assumes "ops_reach stats metas ops calls"
  shows "32 \<le> gridIconSize ops \<and> gridIconSize ops \<le> 256 \<and> 16 dvd gridIconSize ops"
  using assms
proof (induction rule: ops_reach.induct)
  case (Command ops calls c ops' new)
  then show ?case using icon_command by blast
next
  case (Reply ops earlier call later r ops' new signals)
  then show ?case using icon_reply by metis
qed (simp add: ops_start_def)

theorem icon_size_bounds_witness:
  "32 \<le> gridIconSize (zoomIn ops_start) \<and> gridIconSize (zoomIn ops_start) \<le> 256 \<and> 16 dvd gridIconSize (zoomIn ops_start)"
proof (rule icon_size_bounds)
  show "ops_reach (\<lambda>p a b. True) (\<lambda>p m. True) (zoomIn ops_start) ([] @ [])"
    by (rule ops_reach.Command [OF ops_reach.Start, where c = ZoomIn]) simp_all
qed

section \<open>The details of the selected file\<close>

definition details_ok ::
  "(jstring \<Rightarrow> int \<Rightarrow> int \<Rightarrow> bool) \<Rightarrow> (jstring \<Rightarrow> js_map \<Rightarrow> bool) \<Rightarrow> file_ops \<Rightarrow> bool" where
  "details_ok stats metas ops \<longleftrightarrow>
     (\<forall>f. selectedFile ops = Some f \<longrightarrow>
        entry_fits stats f \<and> (\<forall>m. selectedFileMeta ops = Some m \<longrightarrow> metas (e_path f) m))"

lemma details_command:
  assumes "details_ok stats metas ops" "command_fits stats c" "ops_command c ops = (ops', new)"
  shows "details_ok stats metas ops'"
  using assms
  by (cases c)
    (auto simp: details_ok_def selectFile_def clearSelection_def zoomIn_def zoomOut_def zoomReset_def split: option.splits if_splits)

lemma details_reply:
  assumes "details_ok stats metas ops" "reply_fits stats metas call r" "ops_reply call r ops = (ops', new, signals)"
  shows "details_ok stats metas ops'"
  using assms
  by (cases "(call, r, ops)" rule: ops_reply.cases)
    (auto simp: details_ok_def entry_fits_def stat_done_def metadata_done_def deleted_def is_selected_def Let_def
      split: if_splits option.splits)

text \<open>C20. The details shown belong to the file selected: replies to the calls of an earlier selection, in
  whatever order they come, never show their metadata, size or time under another file.\<close>

theorem details_belong:
  assumes "ops_reach stats metas ops calls" "selectedFile ops = Some f"
  shows "entry_fits stats f \<and> pred_option (metas (e_path f)) (selectedFileMeta ops)"
proof -
  have "details_ok stats metas ops"
    using assms(1)
  proof (induction rule: ops_reach.induct)
    case (Command ops calls c ops' new)
    then show ?case using details_command by blast
  next
    case (Reply ops earlier call later r ops' new signals)
    then show ?case using details_reply by blast
  qed (simp add: details_ok_def ops_start_def)
  then show ?thesis using assms(2) by (auto simp: details_ok_def option.pred_set set_eq_iff elem_set)
qed

definition sample_file :: "jstring \<Rightarrow> entry" where
  "sample_file p = \<lparr>e_name = p, e_path = p, e_isDir = False, e_size = Some 3, e_mtime = Some 0, e_tags = []\<rparr>"

text \<open>
  One file is selected, then another; the metadata of the first comes late and is dropped.
\<close>

theorem details_belong_witness:
  "entry_fits (\<lambda>p sz mtime. True) (sample_file [98]) \<and>
   pred_option (\<lambda>m. m = [([107], [98])]) (selectedFileMeta (fst (selectFile (Some (sample_file [98])) ops_start)))"
proof -
  let ?stats = "\<lambda>p sz mtime. True" and ?metas = "\<lambda>p m. m = [([107], p)]"
  let ?a = "fst (selectFile (Some (sample_file [97])) ops_start)"
  let ?b = "fst (selectFile (Some (sample_file [98])) ops_start)"
  have a: "ops_reach ?stats ?metas ?a ([] @ [StatFile [97], GetMetadata [97]])"
    by (rule ops_reach.Command [OF ops_reach.Start, where c = "SelectFile (Some (sample_file [97]))"])
      (simp_all add: entry_fits_def selectFile_def sample_file_def)
  have "ops_reach ?stats ?metas ?b
      (([] @ [StatFile [97], GetMetadata [97]]) @ [StatFile [98], GetMetadata [98]])"
    by (rule ops_reach.Command [OF a, where c = "SelectFile (Some (sample_file [98]))"])
      (simp_all add: entry_fits_def selectFile_def sample_file_def ops_start_def)
  then have b: "ops_reach ?stats ?metas ?b ([StatFile [97]] @ GetMetadata [97] # [StatFile [98], GetMetadata [98]])"
    by simp
  have "ops_reach ?stats ?metas ?b ([StatFile [97]] @ [StatFile [98], GetMetadata [98]] @ [])"
    by (rule ops_reach.Reply [OF b, where r = "Metadata [([107], [97])]"])
      (simp_all add: metadata_done_def is_selected_def selectFile_def sample_file_def)
  from details_belong [OF this, of "sample_file [98]"]
  show ?thesis by (simp add: selectFile_def sample_file_def)
qed

section \<open>Deleting\<close>

text \<open>The replies to deletions, in the order they come, with their outcomes.\<close>

fun deliver :: "(file_call \<times> file_reply) list \<Rightarrow> file_ops \<Rightarrow> file_ops \<times> file_call list \<times> file_signal list" where
  "deliver [] ops = (ops, [], [])"
| "deliver ((call, r) # rs) ops =
     (let (ops, new, signals) = ops_reply call r ops; (ops, news, more) = deliver rs ops
      in (ops, new @ news, signals @ more))"

definition outcome :: "(jstring \<Rightarrow> bool) \<Rightarrow> jstring \<Rightarrow> file_reply" where
  "outcome succeeds p = (if succeeds p then Done else Failed)"

definition deletion_replies :: "(jstring \<Rightarrow> bool) \<Rightarrow> jstring list \<Rightarrow> (file_call \<times> file_reply) list" where
  "deletion_replies succeeds ps = map (\<lambda>p. (DeleteFile p, outcome succeeds p)) ps"

lemma deliver_deletions:
  assumes "distinct (selectedPaths ops)"
  shows "deliver (deletion_replies succeeds ps) ops =
    (ops\<lparr>selectedPaths := filter (\<lambda>p. p \<notin> set ps \<or> \<not> succeeds p) (selectedPaths ops),
         selectedFile := (case selectedFile ops of
             Some f \<Rightarrow> if e_path f \<in> set ps \<and> succeeds (e_path f) then None else Some f
           | None \<Rightarrow> None)\<rparr>,
     [], replicate (length (filter succeeds ps)) (refresh_signal ops))"
  using assms
proof (induction ps arbitrary: ops)
  case Nil
  have "ops\<lparr>selectedPaths := selectedPaths ops, selectedFile := selectedFile ops\<rparr> = ops" by simp
  then show ?case by (simp add: deletion_replies_def split: option.split)
next
  case (Cons p ps)
  show ?case
  proof (cases "succeeds p")
    case False
    have paths: "filter (\<lambda>q. q \<notin> set (p # ps) \<or> \<not> succeeds q) xs = filter (\<lambda>q. q \<notin> set ps \<or> \<not> succeeds q) xs" for xs
      using False by (auto intro!: filter_cong)
    have sel: "e_path f \<in> set (p # ps) \<and> succeeds (e_path f) \<longleftrightarrow> e_path f \<in> set ps \<and> succeeds (e_path f)" for f :: entry
      using False by auto
    show ?thesis
      using Cons.IH [OF Cons.prems] False unfolding paths sel by (simp add: deletion_replies_def outcome_def)
  next
    case True
    have paths: "selectedPaths (deleted p ops) = filter (\<lambda>q. q \<noteq> p) (selectedPaths ops)"
    proof -
      have "remove1 p xs = filter (\<lambda>q. q \<noteq> p) xs" if "distinct xs" for xs
        using that by (simp add: distinct_remove1_removeAll removeAll_filter_not_eq) (auto intro!: filter_cong)
      moreover have "p \<notin> set (selectedPaths ops) \<Longrightarrow> filter (\<lambda>q. q \<noteq> p) (selectedPaths ops) = selectedPaths ops"
        by (auto simp: filter_id_conv)
      ultimately show ?thesis using Cons.prems by (simp add: deleted_def Let_def)
    qed
    have sel: "selectedFile (deleted p ops) =
        (case selectedFile ops of Some f \<Rightarrow> if e_path f = p then None else Some f | None \<Rightarrow> None)"
      by (auto simp: deleted_def is_selected_def Let_def split: option.split)
    have rest: "(deleted p ops)\<lparr>selectedPaths := xs, selectedFile := y\<rparr> = ops\<lparr>selectedPaths := xs, selectedFile := y\<rparr>" for xs y
      by (simp add: deleted_def Let_def)
    have signal: "refresh_signal (deleted p ops) = refresh_signal ops"
      by (simp add: deleted_def refresh_signal_def Let_def)
    have d: "distinct (selectedPaths (deleted p ops))" using Cons.prems paths by simp
    have "deliver (deletion_replies succeeds (p # ps)) ops =
      (ops\<lparr>selectedPaths := filter (\<lambda>q. q \<notin> set ps \<or> \<not> succeeds q) (filter (\<lambda>q. q \<noteq> p) (selectedPaths ops)),
           selectedFile := (case selectedFile (deleted p ops) of
               Some f \<Rightarrow> if e_path f \<in> set ps \<and> succeeds (e_path f) then None else Some f
             | None \<Rightarrow> None)\<rparr>,
       [], replicate (length (filter succeeds (p # ps))) (refresh_signal ops))"
      using Cons.IH [OF d] True
      by (simp add: deletion_replies_def outcome_def Let_def signal rest paths)
    moreover have "filter (\<lambda>q. q \<notin> set ps \<or> \<not> succeeds q) (filter (\<lambda>q. q \<noteq> p) xs) =
        filter (\<lambda>q. q \<notin> set (p # ps) \<or> \<not> succeeds q) xs" for xs
      using True by (auto intro!: filter_cong)
    moreover have "(case selectedFile (deleted p ops) of
          Some f \<Rightarrow> if e_path f \<in> set ps \<and> succeeds (e_path f) then None else Some f | None \<Rightarrow> None) =
        (case selectedFile ops of
          Some f \<Rightarrow> if e_path f \<in> set (p # ps) \<and> succeeds (e_path f) then None else Some f | None \<Rightarrow> None)"
      using True by (auto simp: sel split: option.split)
    ultimately show ?thesis by simp
  qed
qed

text \<open>C21. A deletion leaves what could not be deleted: when the replies to the calls of \<open>deleteSelected\<close> have
  come, in any order, with no path selected twice and nothing else done meanwhile, exactly the files whose deletion
  failed are still selected, in their order, a deleted file is no longer the selected one, no further call is made,
  and the view is loaded again once for every file deleted. The metadata in \<open>selectedFileMeta\<close> stay as they were,
  those of a deleted file too, until the next selection.\<close>

theorem deletion_keeps_failures:
  fixes ops succeeds order
  defines "result \<equiv> deliver (deletion_replies succeeds order) ops"
  assumes "distinct (selectedPaths ops)" "mset (map fst (deletion_replies succeeds order)) = mset (deleteSelected ops)"
  shows "selectedPaths (fst result) = filter (\<lambda>p. \<not> succeeds p) (selectedPaths ops) \<and>
    (\<forall>p. is_selected p (fst result) \<longleftrightarrow> is_selected p ops \<and> \<not> (p \<in> set (delete_targets ops) \<and> succeeds p)) \<and>
    selectedFileMeta (fst result) = selectedFileMeta ops \<and>
    snd result = ([], replicate (length (filter succeeds (delete_targets ops))) (refresh_signal ops))"
proof -
  have "image_mset (\<lambda>c. case c of DeleteFile p \<Rightarrow> p | _ \<Rightarrow> []) (mset (map fst (deletion_replies succeeds order))) = mset order"
    by (simp add: deletion_replies_def comp_def multiset.map_comp)
  moreover have "image_mset (\<lambda>c. case c of DeleteFile p \<Rightarrow> p | _ \<Rightarrow> []) (mset (deleteSelected ops)) = mset (delete_targets ops)"
    by (simp add: deleteSelected_def comp_def multiset.map_comp)
  ultimately have m: "mset order = mset (delete_targets ops)" using assms(3) by metis
  have s: "set order = set (delete_targets ops)" using m by (rule mset_eq_setD)
  have l: "length (filter succeeds order) = length (filter succeeds (delete_targets ops))"
    using m by (metis mset_filter size_mset)
  have t: "selectedPaths ops \<noteq> [] \<Longrightarrow> delete_targets ops = selectedPaths ops" by (simp add: delete_targets_def)
  have "filter (\<lambda>p. p \<notin> set order \<or> \<not> succeeds p) (selectedPaths ops) = filter (\<lambda>p. \<not> succeeds p) (selectedPaths ops)"
    using t by (cases "selectedPaths ops = []") (auto simp: s intro!: filter_cong)
  then show ?thesis
    unfolding result_def deliver_deletions [OF assms(2)]
    by (auto simp: l s is_selected_def split: option.split)
qed

text \<open>The replies come in the opposite order and the deletion of the second file fails.\<close>

definition sample_selection :: file_ops where
  "sample_selection = ops_start\<lparr>selectedPaths := [[97], [98]], selectedFile := Some (sample_file [97]),
     selectedFileMeta := Some [([107], [97])]\<rparr>"

theorem deletion_keeps_failures_witness:
  "selectedPaths (fst (deliver [(DeleteFile [98], Failed), (DeleteFile [97], Done)] sample_selection)) = [[98]] \<and>
   \<not> is_selected [97] (fst (deliver [(DeleteFile [98], Failed), (DeleteFile [97], Done)] sample_selection)) \<and>
   selectedFileMeta (fst (deliver [(DeleteFile [98], Failed), (DeleteFile [97], Done)] sample_selection)) = Some [([107], [97])] \<and>
   snd (deliver [(DeleteFile [98], Failed), (DeleteFile [97], Done)] sample_selection) = ([], [RefreshNeeded])"
proof -
  let ?ops = sample_selection
  have d: "distinct (selectedPaths ?ops)" by (simp add: sample_selection_def)
  have t: "delete_targets ?ops = [[97], [98]]" by (simp add: sample_selection_def delete_targets_def)
  have r: "deletion_replies (\<lambda>p. p = [97]) [[98], [97]] = [(DeleteFile [98], Failed), (DeleteFile [97], Done)]"
    by (simp add: deletion_replies_def outcome_def)
  have m: "mset (map fst (deletion_replies (\<lambda>p. p = [97]) [[98], [97]])) = mset (deleteSelected ?ops)"
    by (simp add: r deleteSelected_def t)
  show ?thesis
    using deletion_keeps_failures [OF d m] unfolding r
    by (simp add: t) (simp add: sample_selection_def refresh_signal_def ops_start_def)
qed

text \<open>
  \<open>permanentDeleteSelected\<close> asks for the same as \<open>deleteSelected\<close>: the daemon, which moves files to the trash
  unless it is configured not to, cannot tell them apart.
\<close>

lemma permanent_is_delete: "ops_command PermanentDeleteSelected ops = ops_command DeleteSelected ops"
  by (simp add: permanentDeleteSelected_def deleteSelected_def permanent_targets_def delete_targets_def)

end
