(* ===== verification/Floats.thy ===== *)
theory Floats
  imports JsValue Reader
begin

text \<open>
  \<open>@protobufjs/float\<close> for an engine without typed floats: the readers that take a float or a double
  apart by hand, and the writers that put one together, in both byte orders. Multiplication is that of doubles in
  the readers and in the writer of doubles, rounding included, and the literals are rounded as the parser does;
  in the writer of floats, and for subnormal doubles, every product and quotient is by a power of two, which
  doubles compute exactly. \<open>Math.pow(2, n)\<close> is exact for integers in the range of a double;
  \<open>Math.floor(Math.log(v) / Math.LN2)\<close> is a parameter, since the engine only approximates the logarithm. The
  theorems: the readers give exactly the number the typed arrays give, for all bits; the writer of doubles stores
  the bits the typed arrays store exactly where this parameter is the integer part of the logarithm; the writer of
  floats stores them given the exact exponents. Two theorems show where they differ: a float whose significand
  rounds up to a power of two loses the carry, and a logarithm that is rounded up doubles the value.
\<close>

section \<open>Bytes\<close>

definition readUintLE :: "u8 list \<Rightarrow> nat \<Rightarrow> u32" where
  "readUintLE buf pos =
     byte_at buf pos OR push_bit 8 (byte_at buf (pos + 1)) OR push_bit 16 (byte_at buf (pos + 2))
       OR push_bit 24 (byte_at buf (pos + 3))"

definition readUintBE :: "u8 list \<Rightarrow> nat \<Rightarrow> u32" where
  "readUintBE buf pos =
     push_bit 24 (byte_at buf pos) OR push_bit 16 (byte_at buf (pos + 1)) OR push_bit 8 (byte_at buf (pos + 2))
       OR byte_at buf (pos + 3)"

definition writeUintLE :: "u32 \<Rightarrow> u8 list \<Rightarrow> nat \<Rightarrow> u8 list" where
  "writeUintLE val buf pos =
     buf[pos := ucast (val AND 255), pos + 1 := ucast (drop_bit 8 val AND 255),
         pos + 2 := ucast (drop_bit 16 val AND 255), pos + 3 := ucast (drop_bit 24 val)]"

definition writeUintBE :: "u32 \<Rightarrow> u8 list \<Rightarrow> nat \<Rightarrow> u8 list" where
  "writeUintBE val buf pos =
     buf[pos := ucast (drop_bit 24 val), pos + 1 := ucast (drop_bit 16 val AND 255),
         pos + 2 := ucast (drop_bit 8 val AND 255), pos + 3 := ucast (val AND 255)]"

text \<open>The functions for typed arrays whose bytes come in the other order; \<open>writeFloatLE\<close> and its like
  are those for the order of the Writer.\<close>

definition writeFloatBE :: "u32 \<Rightarrow> u8 list \<Rightarrow> nat \<Rightarrow> u8 list" where
  "writeFloatBE v buf pos =
     buf[pos := ucast (drop_bit 24 v), pos + 1 := ucast (drop_bit 16 v),
         pos + 2 := ucast (drop_bit 8 v), pos + 3 := ucast v]"

definition readFloatBE :: "u8 list \<Rightarrow> nat \<Rightarrow> u32" where
  "readFloatBE buf pos =
     byte_at buf (pos + 3) OR push_bit 8 (byte_at buf (pos + 2)) OR push_bit 16 (byte_at buf (pos + 1))
       OR push_bit 24 (byte_at buf pos)"

definition writeDoubleBE :: "64 word \<Rightarrow> u8 list \<Rightarrow> nat \<Rightarrow> u8 list" where
  "writeDoubleBE v buf pos =
     buf[pos := ucast (drop_bit 56 v), pos + 1 := ucast (drop_bit 48 v),
         pos + 2 := ucast (drop_bit 40 v), pos + 3 := ucast (drop_bit 32 v),
         pos + 4 := ucast (drop_bit 24 v), pos + 5 := ucast (drop_bit 16 v),
         pos + 6 := ucast (drop_bit 8 v), pos + 7 := ucast v]"

definition readDoubleBE :: "u8 list \<Rightarrow> nat \<Rightarrow> 64 word" where
  "readDoubleBE buf pos =
     ucast (readFloatBE buf (pos + 4)) OR push_bit 32 (ucast (readFloatBE buf pos))"

section \<open>Arithmetic of doubles\<close>

definition num_neg :: "number \<Rightarrow> bool" where
  "num_neg x = (case x of NaN \<Rightarrow> False | Infinity s \<Rightarrow> s | NegZero \<Rightarrow> True | Fin r \<Rightarrow> r < 0)"

definition num_abs :: "number \<Rightarrow> rat" where
  "num_abs x = (case x of Fin r \<Rightarrow> \<bar>r\<bar> | _ \<Rightarrow> 0)"

definition num_infinite :: "number \<Rightarrow> bool" where
  "num_infinite x = (case x of Infinity s \<Rightarrow> True | _ \<Rightarrow> False)"

definition num_signed :: "bool \<Rightarrow> number \<Rightarrow> number" where
  "num_signed s x = (if s then number_uminus x else x)"

definition num_times :: "number \<Rightarrow> number \<Rightarrow> number" where
  "num_times x y =
     (if x = NaN \<or> y = NaN then NaN
      else num_signed (num_neg x \<noteq> num_neg y)
        (if num_infinite x \<or> num_infinite y
         then if \<not> num_infinite x \<and> num_abs x = 0 \<or> \<not> num_infinite y \<and> num_abs y = 0 then NaN else Infinity False
         else f64_of_rat (num_abs x * num_abs y)))"

definition num_int :: "int \<Rightarrow> number" where
  "num_int n = f64_of_rat (of_int n)"

text \<open>\<open>Math.pow(2, n)\<close>\<close>

definition pow2 :: "int \<Rightarrow> number" where
  "pow2 n = f64_of_rat (scale 2 n)"

section \<open>Reading\<close>

definition float_tiny :: number where
  "float_tiny = f64_of_rat (1401298464324817 / 10 ^ 60)"

definition double_tiny :: number where
  "double_tiny = f64_of_rat (5 / 10 ^ 324)"

definition readFloat_ieee754 :: "(u8 list \<Rightarrow> nat \<Rightarrow> u32) \<Rightarrow> u8 list \<Rightarrow> nat \<Rightarrow> number" where
  "readFloat_ieee754 readUint buf pos =
     (let bits = readUint buf pos;
          sign = drop_bit 31 (sint bits) * 2 + 1;
          exponent = uint (drop_bit 23 bits AND 255);
          mantissa = uint (bits AND 8388607)
      in if exponent = 255 then if mantissa \<noteq> 0 then NaN else num_times (num_int sign) (Infinity False)
         else if exponent = 0 then num_times (num_times (num_int sign) float_tiny) (num_int mantissa)
         else num_times (num_times (num_int sign) (pow2 (exponent - 150))) (num_int (mantissa + 8388608)))"

definition readDouble_ieee754 :: "(u8 list \<Rightarrow> nat \<Rightarrow> u32) \<Rightarrow> nat \<Rightarrow> nat \<Rightarrow> u8 list \<Rightarrow> nat \<Rightarrow> number" where
  "readDouble_ieee754 readUint off0 off1 buf pos =
     (let lo = readUint buf (pos + off0); hi = readUint buf (pos + off1);
          sign = drop_bit 31 (sint hi) * 2 + 1;
          exponent = uint (drop_bit 20 hi AND 2047);
          mantissa = 4294967296 * uint (hi AND 1048575) + uint lo
      in if exponent = 2047 then if mantissa \<noteq> 0 then NaN else num_times (num_int sign) (Infinity False)
         else if exponent = 0 then num_times (num_times (num_int sign) double_tiny) (num_int mantissa)
         else num_times (num_times (num_int sign) (pow2 (exponent - 1075))) (num_int (mantissa + 4503599627370496)))"

section \<open>Exact products\<close>

lemma scale_powi: "scale b e = of_nat b powi e"
  by (simp add: scale_def power_int_def inverse_eq_divide power_divide)

lemma scale_add: "0 < b \<Longrightarrow> scale b (d + e) = scale b d * scale b e"
  by (simp add: scale_powi power_int_add)

lemma scale_0 [simp]: "scale b 0 = 1"
  by (simp add: scale_def)

lemma scale_mono:
  assumes "d \<le> e"
  shows "scale 2 d \<le> scale 2 e"
proof -
  have "1 \<le> scale 2 (e - d)" using assms by (simp add: scale_def)
  then show ?thesis using scale_add [of 2 "e - d" d] scale_pos [of 2 d] by (simp add: less_imp_le)
qed

lemma digits_le:
  assumes "0 < r" "r < scale 2 D"
  shows "digits 2 r \<le> D"
proof (cases "1 \<le> r")
  case True
  have D: "0 < D"
  proof (rule ccontr)
    assume "\<not> 0 < D"
    then have "scale 2 D \<le> 1" by (simp add: scale_def divide_le_eq)
    then show False using assms(2) True by simp
  qed
  have "of_nat (nat \<lfloor>r\<rfloor>) \<le> r" using True by simp
  also have "r < of_nat (2 ^ nat D)" using assms(2) D by (simp add: scale_def)
  finally have "nat \<lfloor>r\<rfloor> < 2 ^ nat D" by (simp only: of_nat_less_iff)
  then have "floorlog 2 (nat \<lfloor>r\<rfloor>) \<le> nat D" by (simp add: floorlog_le_iff)
  then show ?thesis using True D by (simp add: digits_def)
next
  case False
  show ?thesis
  proof (cases "0 < D")
    case True
    then show ?thesis using False by (simp add: digits_def)
  next
    case neg: False
    have "of_nat (2 ^ nat (- D)) < 1 / r"
      using assms neg by (simp add: scale_def field_simps split: if_splits)
    then have "of_int (2 ^ nat (- D)) < 1 / r" by simp
    then have "2 ^ nat (- D) < \<lceil>1 / r\<rceil>" by (simp only: less_ceiling_iff)
    then have "2 ^ nat (- D) \<le> nat (\<lceil>1 / r\<rceil> - 1)" by (simp add: nat_le_eq_zle flip: nat_power_eq)
    then have "\<not> floorlog 2 (nat (\<lceil>1 / r\<rceil> - 1)) \<le> nat (- D)" by (simp add: floorlog_le_iff)
    then show ?thesis using False neg by (simp add: digits_def)
  qed
qed

lemma f64_exact:
  assumes "0 < k" "k < 2 ^ 53" "- 1074 \<le> e" "of_int k * scale 2 e < 2 ^ 1024"
  shows "f64_of_rat (of_int k * scale 2 e) = Fin (of_int k * scale 2 e)"
proof -
  let ?r = "of_int k * scale 2 e"
  define d where "d = max (- 1074) (digits 2 ?r - 53)"
  have r: "0 < ?r" using assms(1) by simp
  have "of_int k < (of_int (2 ^ 53) :: rat)" using assms(2) by (simp only: of_int_less_iff)
  then have "?r < of_int (2 ^ 53) * scale 2 e" by (intro mult_strict_right_mono) simp_all
  then have "?r < scale 2 53 * scale 2 e" by (simp add: scale_def [of 2 53])
  then have "?r < scale 2 (53 + e)" by (simp only: scale_add [of 2 53 e])
  then have "d \<le> e" using digits_le [OF r, of "53 + e"] assms(3) by (auto simp: d_def)
  then have s: "scale 2 e = of_int (2 ^ nat (e - d)) * scale 2 d"
    using scale_add [of 2 "e - d" d] by (simp add: scale_def)
  have z: "scale 2 d \<noteq> 0" using scale_pos [of 2 d] by linarith
  have q: "?r / scale 2 d = of_int (k * 2 ^ nat (e - d))" unfolding s using z by simp
  have "of_int (round_even (?r / scale 2 d)) * scale 2 d = ?r" unfolding q round_even_int by (simp add: s)
  then show ?thesis using r assms(4) by (simp add: f64_of_rat_def f64_pos_def Let_def d_def [symmetric])
qed

lemma num_int_nat:
  assumes "0 \<le> n" "n \<le> 2 ^ 53"
  shows "num_int n = Fin (of_int n)"
  using f64_of_nat [of "nat n"] assms by (simp add: num_int_def nat_le_iff)

lemma num_int_sign: "num_int (if s then - 1 else 1) = num_signed s (Fin 1)"
  using num_int_nat [of 1] by (simp add: num_int_def num_signed_def f64_of_rat_def)

lemma pow2_exact:
  assumes "- 1074 \<le> n" "n < 1024"
  shows "pow2 n = Fin (scale 2 n)"
proof -
  have "scale 2 n * scale 2 (1024 - n) = scale 2 1024" using scale_add [of 2 n "1024 - n"] by simp
  moreover have "1 < scale 2 (1024 - n)" using assms(2) by (simp add: scale_def)
  ultimately have "scale 2 n < scale 2 1024" using scale_pos [of 2 n] by (metis mult_less_cancel_left_pos mult.right_neutral zero_less_numeral)
  then have "scale 2 n < 2 ^ 1024" by (simp add: scale_def [of 2 1024])
  then show ?thesis using f64_exact [of 1 n] assms by (simp add: pow2_def)
qed

lemma signed_times:
  assumes "0 < c" "0 \<le> m"
  shows "num_times (num_signed s (Fin c)) (Fin m) = num_signed s (f64_of_rat (c * m))"
  using assms by (simp add: num_times_def num_signed_def number_uminus_def num_neg_def num_abs_def num_infinite_def)

lemma signed_infinity: "num_times (num_int (if s then - 1 else 1)) (Infinity False) = Infinity s"
  unfolding num_int_sign
  by (simp add: num_times_def num_signed_def number_uminus_def num_neg_def num_abs_def num_infinite_def)

text \<open>The product the readers compute: the sign, a power of two and the significand.\<close>

lemma product_exact:
  assumes "- 1074 \<le> e" "e \<le> 971" "0 \<le> k" "k < 2 ^ 53"
  shows "num_times (num_times (num_int (if s then - 1 else 1)) (Fin (scale 2 e))) (num_int k) =
    num_signed s (Fin (of_int k * scale 2 e))"
proof -
  have "pow2 e = Fin (scale 2 e)" using assms by (intro pow2_exact) simp_all
  then have c: "num_times (num_int (if s then - 1 else 1)) (Fin (scale 2 e)) = num_signed s (Fin (scale 2 e))"
    using signed_times [of 1 "scale 2 e" s] scale_pos [of 2 e] by (simp add: num_int_sign pow2_def less_imp_le)
  have "f64_of_rat (scale 2 e * of_int k) = Fin (of_int k * scale 2 e)"
  proof (cases "k = 0")
    case False
    have "of_int k < (of_int (2 ^ 53) :: rat)" using assms(4) by (simp only: of_int_less_iff)
    then have "of_int k * scale 2 e < of_int (2 ^ 53) * scale 2 e" by (intro mult_strict_right_mono) simp_all
    also have "\<dots> = scale 2 (53 + e)" using scale_add [of 2 53 e] by (simp add: scale_def [of 2 53])
    also have "\<dots> \<le> scale 2 (53 + e) * scale 2 (971 - e)"
      using assms(2) by (simp add: scale_def [of 2 "971 - e"])
    also have "\<dots> = 2 ^ 1024" using scale_add [of 2 "53 + e" "971 - e"] by (simp add: scale_def [of 2 1024])
    finally have "of_int k * scale 2 e < 2 ^ 1024" .
    then show ?thesis using f64_exact [of k e] assms False by (simp add: mult.commute)
  qed (simp add: f64_of_rat_def)
  then show ?thesis
    using signed_times [of "scale 2 e" "of_int k" s] assms num_int_nat [of k] by (simp add: c)
qed

section \<open>The literals\<close>

lemma digits_ge:
  assumes "0 < r" "scale 2 (D - 1) \<le> r"
  shows "D \<le> digits 2 r"
proof (cases "1 \<le> r")
  case True
  show ?thesis
  proof (cases "0 < D")
    case True
    have "of_nat (2 ^ nat (D - 1)) \<le> r" using assms(2) True by (simp add: scale_def)
    then have "of_int (2 ^ nat (D - 1)) \<le> r" by simp
    then have "2 ^ nat (D - 1) \<le> \<lfloor>r\<rfloor>" by (simp only: le_floor_iff)
    then have "2 ^ nat (D - 1) \<le> nat \<lfloor>r\<rfloor>" by (simp add: nat_le_eq_zle flip: nat_power_eq)
    then have "\<not> floorlog 2 (nat \<lfloor>r\<rfloor>) \<le> nat (D - 1)" by (simp add: floorlog_le_iff)
    then show ?thesis using \<open>1 \<le> r\<close> True by (simp add: digits_def)
  qed (use True in \<open>simp add: digits_def\<close>)
next
  case False
  have D: "D \<le> 0"
  proof (rule ccontr)
    assume "\<not> D \<le> 0"
    then have "1 \<le> scale 2 (D - 1)" by (simp add: scale_def)
    then show False using assms(2) False by simp
  qed
  have "1 / r \<le> of_int (2 ^ nat (1 - D))"
    using assms D by (simp add: scale_def field_simps split: if_splits)
  then have "\<lceil>1 / r\<rceil> \<le> 2 ^ nat (1 - D)" by (simp only: ceiling_le_iff)
  moreover have "0 < \<lceil>1 / r\<rceil>" using assms(1) by simp
  ultimately have "nat (\<lceil>1 / r\<rceil> - 1) < 2 ^ nat (1 - D)" by (simp add: nat_less_iff)
  then have "floorlog 2 (nat (\<lceil>1 / r\<rceil> - 1)) \<le> nat (1 - D)" by (simp add: floorlog_le_iff)
  then show ?thesis using False D by (simp add: digits_def)
qed

text \<open>A decimal literal is the double whose significand is \<open>n\<close>.\<close>

lemma literal_value:
  assumes "0 < r" "scale 2 (D - 1) \<le> r" "r < scale 2 D" "- 1021 \<le> D"
    and "\<bar>r / scale 2 (D - 53) - of_int n\<bar> < 1 / 2" "of_int n * scale 2 (D - 53) < 2 ^ 1024"
  shows "f64_of_rat r = Fin (of_int n * scale 2 (D - 53))"
proof -
  have d: "digits 2 r = D" using digits_le [OF assms(1,3)] digits_ge [OF assms(1,2)] by simp
  have "round_even q = n" if "\<bar>q - of_int n\<bar> < 1 / 2" for q
  proof (cases "of_int n \<le> q")
    case True
    then have "\<lfloor>q\<rfloor> = n" using that by (simp add: floor_eq_iff abs_if split: if_splits)
    then show ?thesis using that True by (simp add: round_even_def Let_def)
  next
    case False
    then have "\<lfloor>q\<rfloor> = n - 1" using that by (simp add: floor_eq_iff abs_if split: if_splits)
    then show ?thesis using that False by (simp add: round_even_def Let_def abs_if split: if_splits)
  qed
  then show ?thesis using assms d by (simp add: f64_of_rat_def f64_pos_def Let_def)
qed

lemma float_tiny_value: "float_tiny = Fin (scale 2 (- 149))"
proof -
  have "f64_of_rat (1401298464324817 / 10 ^ 60) = Fin (of_int (2 ^ 53) * scale 2 (- 149 - 53))"
    by (rule literal_value) (simp_all add: scale_def)
  then show ?thesis using scale_add [of 2 53 "- 202"] by (simp add: float_tiny_def scale_def)
qed

lemma double_tiny_value: "double_tiny = Fin (scale 2 (- 1074))"
proof -
  have p: "(5 / 10 ^ 324 :: rat) < scale 2 (- 1021)" by (simp add: scale_def)
  have "digits 2 (5 / 10 ^ 324) \<le> - 1021" by (rule digits_le [OF _ p]) simp
  then have e: "max (- 1074) (digits 2 (5 / 10 ^ 324) - 53) = - 1074" by simp
  have f: "\<lfloor>5 / 10 ^ 324 / scale 2 (- 1074)\<rfloor> = 1" by (simp add: scale_def floor_eq_iff)
  have "round_even (5 / 10 ^ 324 / scale 2 (- 1074)) = 1"
    unfolding round_even_def Let_def f by (simp add: scale_def)
  then have "f64_pos (5 / 10 ^ 324) = Fin (scale 2 (- 1074))"
    unfolding f64_pos_def e Let_def by (simp add: scale_def)
  then show ?thesis by (simp add: double_tiny_def f64_of_rat_def)
qed

section \<open>The readers agree with the typed arrays\<close>

lemma sign_bits:
  fixes w :: u32
  shows "drop_bit 31 (sint w) * 2 + 1 = (if bit w 31 then - 1 else 1)"
proof -
  have "drop_bit 31 v = (if v < 0 then - 1 else 0)" if "- (2 ^ 31) \<le> v" "v < 2 ^ 31" for v :: int
  proof (cases "v < 0")
    case True
    then show ?thesis using that int_div_pos_eq [of v "2 ^ 31" "- 1" "v + 2 ^ 31"] by (simp add: drop_bit_eq_div)
  qed (use that in \<open>simp add: drop_bit_eq_div div_pos_pos_trivial\<close>)
  moreover have "- (2 ^ 31) \<le> sint w" "sint w < 2 ^ 31" using sint_ge [of w] sint_lt [of w] by simp_all
  moreover have "bit w 31 \<longleftrightarrow> sint w < 0" using bit_last_iff [of w] by simp
  ultimately show ?thesis by simp
qed

lemma masks:
  fixes w :: "'a::len word"
  shows "w AND 255 = take_bit 8 w" "w AND 2047 = take_bit 11 w" "w AND 8388607 = take_bit 23 w"
    "w AND 1048575 = take_bit 20 w"
  by (simp_all add: take_bit_eq_mask mask_eq_exp_minus_1)

lemma uint_take: "uint (take_bit n (w :: 'a::len word)) = uint w mod 2 ^ n"
  unfolding unsigned_take_bit_eq by (rule take_bit_eq_mod)

lemma uint_drop: "uint (drop_bit n (w :: 'a::len word)) = uint w div 2 ^ n"
  unfolding unsigned_drop_bit_eq by (simp add: drop_bit_eq_div take_bit_int_eq_self)

lemma uint_take_less: "uint (take_bit n (w :: 'a::len word)) < 2 ^ n"
  by (simp add: unsigned_take_bit_eq)

lemma readUint_float: "readUintLE buf pos = readFloatLE buf pos" "readUintBE buf pos = readFloatBE buf pos"
  by (simp_all add: readUintLE_def readFloatLE_def readUintBE_def readFloatBE_def ac_simps)

lemma readFloat_agrees: "readFloat_ieee754 readUint buf pos = f32_val (readUint buf pos)"
proof -
  let ?w = "readUint buf pos"
  define m where "m = uint (take_bit 23 ?w)"
  define e where "e = uint (take_bit 8 (drop_bit 23 ?w))"
  have m: "0 \<le> m" "m < 2 ^ 23" using uint_take_less [of 23 ?w] by (simp_all add: m_def)
  have e: "0 \<le> e" "e < 2 ^ 8" using uint_take_less [of 8 "drop_bit 23 ?w"] by (simp_all add: e_def)
  have "e - 150 \<le> 971" "- 1074 \<le> e - 150" using e by simp_all
  then have p: "pow2 (e - 150) = Fin (scale 2 (e - 150))" by (intro pow2_exact) simp_all
  show ?thesis
    using m e product_exact [of "e - 150" "m + 2 ^ 23" "bit ?w 31"] product_exact [of "- 149" m "bit ?w 31"]
      signed_infinity [of "bit ?w 31"]
    by (cases "bit ?w 31")
      (simp_all add: readFloat_ieee754_def f32_val_def masks sign_bits m_def [symmetric] e_def [symmetric] Let_def p
        float_tiny_value num_signed_def)
qed

lemma uint_double:
  fixes lo hi :: u32
  shows "uint (ucast lo OR push_bit 32 (ucast hi) :: 64 word) = uint lo + 2 ^ 32 * uint hi"
proof -
  have d: "(ucast lo :: 64 word) AND push_bit 32 (ucast hi) = 0"
    by (rule bit_word_eqI) (auto simp: bit_simps dest: bit_imp_le_length)
  have h: "uint lo + 2 ^ 32 * uint hi < 2 ^ 64"
    using uint_lt2p [of lo] uint_lt2p [of hi] by simp
  have c: "uint (ucast hi :: 64 word) = uint hi"
    using uint_lt2p [of hi] by (simp add: unsigned_ucast_eq take_bit_int_eq_self)
  have "uint (push_bit 32 (ucast hi) :: 64 word) = 2 ^ 32 * uint hi"
    unfolding unsigned_push_bit_eq unfolding c push_bit_eq_mult
    using uint_lt2p [of hi] by (simp add: take_bit_int_eq_self)
  moreover have "uint (ucast lo :: 64 word) = uint lo"
    using uint_lt2p [of lo] by (simp add: unsigned_ucast_eq take_bit_int_eq_self)
  ultimately show ?thesis
    using h by (simp add: disjunctive_add_eq_or [OF d, symmetric] uint_word_ariths(1))
qed

lemma readDouble_agrees:
  "readDouble_ieee754 readUint off0 off1 buf pos =
    f64_val (ucast (readUint buf (pos + off0)) OR push_bit 32 (ucast (readUint buf (pos + off1))))"
proof -
  define lo where "lo = readUint buf (pos + off0)"
  define hi where "hi = readUint buf (pos + off1)"
  define w where "w = (ucast lo OR push_bit 32 (ucast hi) :: 64 word)"
  have r: "readUint buf (pos + off0) = lo" "readUint buf (pos + off1) = hi"
    by (simp_all add: lo_def hi_def)
  have w: "ucast (readUint buf (pos + off0)) OR push_bit 32 (ucast (readUint buf (pos + off1))) = w"
    by (simp add: w_def r)
  have u: "uint w = uint lo + 2 ^ 32 * uint hi" unfolding w_def by (rule uint_double)
  have l: "0 \<le> uint lo" "uint lo < 2 ^ 32" using uint_lt2p [of lo] by simp_all
  have w32: "uint w div 2 ^ 32 = uint hi" "uint w mod 2 ^ 32 = uint lo" unfolding u using l by simp_all
  define m where "m = uint (take_bit 52 w)"
  define e where "e = uint (take_bit 11 (drop_bit 52 w))"
  have m_eq: "4294967296 * uint (take_bit 20 hi) + uint lo = m"
    using zmod_zmult2_eq [of "2 ^ 20" "uint w" "2 ^ 32"] w32
    by (simp add: m_def uint_take)
  have e_eq: "uint (take_bit 11 (drop_bit 20 hi)) = e"
    using zdiv_zmult2_eq [of "2 ^ 20" "uint w" "2 ^ 32"] w32
    by (simp add: e_def uint_take uint_drop)
  have b: "bit w 63 = bit hi 31"
    by (auto simp: w_def bit_simps dest: bit_imp_le_length)
  have m: "0 \<le> m" "m < 2 ^ 52" using uint_take_less [of 52 w] by (simp_all add: m_def)
  have e: "0 \<le> e" "e < 2 ^ 11" using uint_take_less [of 11 "drop_bit 52 w"] by (simp_all add: e_def)
  have p: "pow2 (e - 1075) = Fin (scale 2 (e - 1075))" if "e \<noteq> 0" using e that by (intro pow2_exact) simp_all
  have n: "num_times (num_times (num_int (if bit hi 31 then - 1 else 1)) (Fin (scale 2 (e - 1075)))) (num_int (m + 2 ^ 52)) =
      num_signed (bit hi 31) (Fin (of_int (m + 2 ^ 52) * scale 2 (e - 1075)))" if "e \<noteq> 0" "e \<noteq> 2047"
    using e m that by (intro product_exact) simp_all
  show ?thesis
    unfolding w
    using m e n product_exact [of "- 1074" m "bit hi 31"] signed_infinity [of "bit hi 31"]
    by (cases "bit hi 31")
      (simp_all add: readDouble_ieee754_def f64_val_def r masks sign_bits b m_def [symmetric] e_def [symmetric] Let_def p
        m_eq e_eq double_tiny_value num_signed_def)
qed

section \<open>Writing a float\<close>

text \<open>\<open>Math.round\<close>; the products with powers of two in it are exact.\<close>

definition math_round :: "rat \<Rightarrow> int" where
  "math_round x = \<lfloor>x + 1 / 2\<rfloor>"

definition float_max :: rat where
  "float_max = of_int ((2 ^ 24 - 1) * 2 ^ 29) * scale 2 75"

lemma float_max_literal: "f64_of_rat (34028234663852886 * 10 ^ 22) = Fin float_max"
  unfolding float_max_def by (rule literal_value [where D = 128, simplified]) (simp_all add: scale_def)

definition float_min :: rat where
  "float_min = of_int (2 ^ 53) * scale 2 (- 179)"

lemma float_min_literal: "f64_of_rat (11754943508222875 / 10 ^ 54) = Fin float_min"
  unfolding float_min_def by (rule literal_value [where D = "- 126", simplified]) (simp_all add: scale_def)

definition writeFloat_ieee754 ::
  "(rat \<Rightarrow> int) \<Rightarrow> (u32 \<Rightarrow> u8 list \<Rightarrow> nat \<Rightarrow> u8 list) \<Rightarrow> number \<Rightarrow> u8 list \<Rightarrow> nat \<Rightarrow> u8 list" where
  "writeFloat_ieee754 floor_log2 writeUint val buf pos =
     (case val of
        NegZero \<Rightarrow> writeUint 2147483648 buf pos
      | NaN \<Rightarrow> writeUint 2143289344 buf pos
      | Infinity s \<Rightarrow> writeUint (push_bit 31 (of_bool s) OR 2139095040) buf pos
      | Fin r \<Rightarrow>
          if r = 0 then writeUint 0 buf pos
          else let sign = of_bool (r < 0); v = \<bar>r\<bar>
               in if v > float_max then writeUint (push_bit 31 sign OR 2139095040) buf pos
                  else if v < float_min
                  then writeUint (push_bit 31 sign OR word_of_int (math_round (v / scale 2 (- 149)))) buf pos
                  else let exponent = floor_log2 v;
                           mantissa = word_of_int (math_round (v * scale 2 (- exponent) * 8388608)) AND 8388607
                       in writeUint (push_bit 31 sign OR push_bit 23 (word_of_int (exponent + 127)) OR mantissa) buf pos)"

text \<open>The parts of a float put together again.\<close>

lemma float_parts:
  fixes w :: u32
  shows "push_bit 31 (of_bool (bit w 31)) OR push_bit 23 (take_bit 8 (drop_bit 23 w)) OR take_bit 23 w = w"
proof (rule bit_word_eqI)
  fix n assume "n < LENGTH(32)"
  then have "n < 23 \<or> 23 \<le> n \<and> n < 31 \<or> n = 31" by auto
  then show "bit (push_bit 31 (of_bool (bit w 31)) OR push_bit 23 (take_bit 8 (drop_bit 23 w)) OR take_bit 23 w) n = bit w n"
    by (auto simp: bit_simps)
qed

lemma math_round_int [simp]: "math_round (of_int n) = n"
  by (simp add: math_round_def floor_eq_iff)

lemma byte_255: "(ucast (x AND 255) :: u8) = ucast (x :: u32)"
  by (rule bit_word_eqI) (simp add: masks(1) bit_simps)

lemma writeUint_float: "writeUintLE w buf pos = writeFloatLE w buf pos" "writeUintBE w buf pos = writeFloatBE w buf pos"
  by (simp_all add: writeUintLE_def writeFloatLE_def writeUintBE_def writeFloatBE_def byte_255)

text \<open>The logarithm is exact for the significands of \<open>b\<close> bits behind the point.\<close>

definition exact_log2 :: "nat \<Rightarrow> (rat \<Rightarrow> int) \<Rightarrow> bool" where
  "exact_log2 b f \<longleftrightarrow>
     (\<forall>k :: int. \<forall>e. 2 ^ b \<le> k \<and> k < 2 ^ (b + 1) \<and> e + int b < 1024 \<longrightarrow> f (of_int k * scale 2 e) = e + int b)"

text \<open>A significand of \<open>b\<close> bits behind the point.\<close>

lemma significand_range:
  assumes "0 \<le> m" "m < 2 ^ b" "l \<le> e" "e \<le> h"
  shows "of_int (2 ^ b) * scale 2 l \<le> of_int (m + 2 ^ b) * scale 2 e"
    "of_int (m + 2 ^ b) * scale 2 e \<le> of_int (2 ^ (b + 1) - 1) * scale 2 h"
proof -
  have "2 ^ b \<le> m + 2 ^ b" "m + 2 ^ b \<le> 2 ^ (b + 1) - 1" using assms by simp_all
  then have k: "of_int (2 ^ b) \<le> (of_int (m + 2 ^ b) :: rat)" "of_int (m + 2 ^ b) \<le> (of_int (2 ^ (b + 1) - 1) :: rat)"
    by (simp_all only: of_int_le_iff)
  have z: "0 \<le> (of_int (2 ^ b) :: rat)" "0 \<le> (of_int (m + 2 ^ b) :: rat)" using assms(1) by simp_all
  have one: "(1 :: int) \<le> 2 ^ (b + 1)" by (rule one_le_power) simp
  have p: "0 \<le> (of_int (2 ^ (b + 1) - 1) :: rat)" by (subst of_int_0_le_iff) (use one in linarith)
  show "of_int (2 ^ b) * scale 2 l \<le> of_int (m + 2 ^ b) * scale 2 e"
    using k(1) scale_mono [OF assms(3)] z(2) less_imp_le [OF scale_pos [OF pos2, of l]] by (rule mult_mono)
  show "of_int (m + 2 ^ b) * scale 2 e \<le> of_int (2 ^ (b + 1) - 1) * scale 2 h"
    using k(2) scale_mono [OF assms(4)] p less_imp_le [OF scale_pos [OF pos2, of e]] by (rule mult_mono)
qed

lemma normalised: "of_int k * scale 2 e * scale 2 (- (e + int b)) * of_int (2 ^ b) = of_int k"
proof -
  have "scale 2 e * scale 2 (- (e + int b)) * scale 2 (int b) = 1"
    using scale_add [of 2 e "- (e + int b)"] scale_add [of 2 "- int b" "int b"] by simp
  then show ?thesis by (simp add: scale_def [of 2 "int b"] mult.assoc)
qed

lemma masked:
  assumes "0 \<le> n" "n < 2 ^ b" "b < 32"
  shows "take_bit b (word_of_int (n + 2 ^ b) :: u32) = word_of_int n"
proof (rule word_uint_eqI)
  have "(2 :: int) ^ (b + 1) \<le> 2 ^ 32" using assms(3) by (intro power_increasing) simp_all
  then have u: "uint (word_of_int (n + 2 ^ b) :: u32) = n + 2 ^ b" "uint (word_of_int n :: u32) = n"
    unfolding uint_word_of_int using assms by (simp_all add: take_bit_int_eq_self)
  show "uint (take_bit b (word_of_int (n + 2 ^ b) :: u32)) = uint (word_of_int n :: u32)"
    unfolding uint_take u using assms by simp
qed

lemma writeFloat_agrees:
  assumes "exact_log2 23 floor_log2" "f32_val w \<noteq> NaN"
  shows "writeFloat_ieee754 floor_log2 writeUint (f32_val w) buf pos = writeUint w buf pos"
proof -
  define m where "m = uint (take_bit 23 w)"
  define e where "e = uint (take_bit 8 (drop_bit 23 w))"
  define s where "s = bit w 31"
  have m: "0 \<le> m" "m < 2 ^ 23" using uint_take_less [of 23 w] by (simp_all add: m_def)
  have e: "0 \<le> e" "e < 2 ^ 8" using uint_take_less [of 8 "drop_bit 23 w"] by (simp_all add: e_def)
  have mw: "word_of_int m = take_bit 23 w" and ew: "word_of_int e = take_bit 8 (drop_bit 23 w)"
    by (simp_all add: m_def e_def)
  have w: "push_bit 31 (of_bool s) OR push_bit 23 (word_of_int e) OR word_of_int m = w"
    unfolding mw ew s_def by (rule float_parts)
  have small: "scale 2 (- 149) > 0" "float_min = of_int (2 ^ 23) * scale 2 (- 149)"
    using scale_add [of 2 30 "- 179"] by (simp_all add: float_min_def scale_def [of 2 30])
  have val: "f32_val w = (if e = 255 then if m = 0 then Infinity s else NaN
      else num_signed s (Fin (if e = 0 then of_int m * scale 2 (- 149) else of_int (m + 2 ^ 23) * scale 2 (e - 150))))"
    by (simp add: f32_val_def m_def e_def s_def Let_def num_signed_def)
  have signed: "writeFloat_ieee754 floor_log2 writeUint (num_signed s (Fin v)) buf pos =
      (if v > float_max then writeUint (push_bit 31 (of_bool s) OR 2139095040) buf pos
       else if v < float_min
       then writeUint (push_bit 31 (of_bool s) OR word_of_int (math_round (v / scale 2 (- 149)))) buf pos
       else writeUint (push_bit 31 (of_bool s) OR push_bit 23 (word_of_int (floor_log2 v + 127)) OR
          word_of_int (math_round (v * scale 2 (- floor_log2 v) * 8388608)) AND 8388607) buf pos)" if "0 < v" for v
    using that by (simp add: writeFloat_ieee754_def num_signed_def number_uminus_def Let_def)
  consider (inf) "e = 255" "m = 0" | (zero) "e = 0" "m = 0" | (sub) "e = 0" "m > 0" | (normal) "0 < e" "e < 255"
    using assms(2) e m unfolding val by fastforce
  then show ?thesis
  proof cases
    case inf
    then show ?thesis using w by (simp add: val writeFloat_ieee754_def)
  next
    case zero
    have f: "f32_val w = num_signed s (Fin 0)" using zero by (simp add: val)
    show ?thesis unfolding f using w zero
      by (cases s) (simp_all add: writeFloat_ieee754_def num_signed_def number_uminus_def)
  next
    case sub
    have v: "0 < of_int m * scale 2 (- 149)" using sub by simp
    have "of_int m < (of_int (2 ^ 23) :: rat)" using m(2) by (simp only: of_int_less_iff)
    then have l: "of_int m * scale 2 (- 149) < float_min"
      unfolding small(2) by (intro mult_strict_right_mono) simp_all
    moreover have "float_min \<le> float_max" by (simp add: float_min_def float_max_def scale_def)
    ultimately have "\<not> of_int m * scale 2 (- 149) > float_max" by simp
    moreover have "of_int m * scale 2 (- 149) / scale 2 (- 149) = (of_int m :: rat)" using less_imp_neq [OF small(1)] by simp
    ultimately show ?thesis using sub l w v by (simp add: val signed)
  next
    case normal
    let ?v = "of_int (m + 2 ^ 23) * scale 2 (e - 150)"
    have v: "0 < ?v" using m by simp
    have lg: "floor_log2 ?v = e - 127"
      using assms(1) m normal unfolding exact_log2_def by (auto dest: spec [of _ "m + 2 ^ 23"])
    note range = significand_range [of m 23 "- 149" "e - 150" 104]
    have "float_max = of_int (2 ^ 24 - 1) * scale 2 104"
      using scale_add [of 2 29 75] by (simp add: float_max_def scale_def [of 2 29])
    then have big: "\<not> ?v > float_max" using range(2) m normal by simp
    have low: "\<not> ?v < float_min" using range(1) m normal by (simp add: small(2))
    have "?v * scale 2 (- (e - 127)) * 8388608 = of_int (m + 2 ^ 23)"
      using normalised [of "m + 2 ^ 23" "e - 150" 23] by simp
    then have "math_round (?v * scale 2 (- (e - 127)) * 8388608) = m + 2 ^ 23" by (simp only: math_round_int)
    moreover have "(word_of_int (m + 2 ^ 23) AND 8388607 :: u32) = word_of_int m"
      unfolding masks by (rule masked [OF m]) simp
    ultimately show ?thesis using v lg w normal big low by (simp add: val signed)
  qed
qed

lemma exact_digits: "exact_log2 b (\<lambda>v. digits 2 v - 1)"
  unfolding exact_log2_def
proof (intro allI impI)
  fix k e :: int
  assume k: "2 ^ b \<le> k \<and> k < 2 ^ (b + 1) \<and> e + int b < 1024"
  have "of_int (2 ^ b) \<le> (of_int k :: rat)" "of_int k < (of_int (2 ^ (b + 1)) :: rat)"
    using k by (simp_all only: of_int_le_iff of_int_less_iff)
  then have o: "of_int (2 ^ b) * scale 2 e \<le> of_int k * scale 2 e" "of_int k * scale 2 e < of_int (2 ^ (b + 1)) * scale 2 e"
    by (simp_all only: mult_right_mono mult_strict_right_mono scale_pos less_imp_le pos2)
  have p: "of_int (2 ^ b) * scale 2 e = scale 2 (e + (int b + 1) - 1)"
    "of_int (2 ^ (b + 1)) * scale 2 e = scale 2 (e + (int b + 1))"
    using scale_add [of 2 "int b" e] scale_add [of 2 "int (b + 1)" e]
    by (simp_all add: scale_def [of 2 "int b"] scale_def [of 2 "1 + int b"] nat_add_distrib algebra_simps)
  have "(0 :: int) < 2 ^ b" by simp
  then have "0 < of_int k * scale 2 e" using k by simp
  then have "digits 2 (of_int k * scale 2 e) = e + (int b + 1)"
    using digits_le [of _ "e + (int b + 1)"] digits_ge [of _ "e + (int b + 1)"] o unfolding p by (intro antisym)
  then show "digits 2 (of_int k * scale 2 e) - 1 = e + int b" by simp
qed

text \<open>The writer for engines without typed floats agrees with them on floats: given the exact exponent, writing
  the value of any float that is a number stores the bits of this float, infinities, zeros of both signs and
  subnormal floats included.\<close>

theorem float_fallback_writes:
  assumes "exact_log2 23 floor_log2" "f32_val w \<noteq> NaN"
  shows "writeFloat_ieee754 floor_log2 writeUintLE (f32_val w) buf pos = writeFloatLE w buf pos \<and>
    writeFloat_ieee754 floor_log2 writeUintBE (f32_val w) buf pos = writeFloatBE w buf pos"
  by (simp only: writeFloat_agrees [OF assms] writeUint_float)

theorem float_fallback_writes_witness:
  "writeFloat_ieee754 (\<lambda>v. digits 2 v - 1) writeUintLE (Fin (- 1)) [0, 0, 0, 0] 0 = [0, 0, 128, 191]"
proof -
  have v: "f32_val 3212836864 = Fin (- 1)"
    by (simp add: f32_val_def Let_def take_bit_eq_mod scale_def drop_bit_eq_div number_uminus_def bit_iff_odd_drop_bit)
  have "f32_val 3212836864 \<noteq> NaN" by (simp add: v)
  then have "writeFloat_ieee754 (\<lambda>v. digits 2 v - 1) writeUintLE (f32_val 3212836864) [0, 0, 0, 0] 0 =
      writeFloatLE 3212836864 [0, 0, 0, 0] 0"
    using float_fallback_writes [OF exact_digits] by simp
  then show ?thesis by (simp add: v writeFloatLE_def drop_bit_eq_div)
qed

text \<open>
  A double that is no float may lose its carry: the significand of the largest double below 2 rounds up to
  \<open>2 ^ 24\<close>, of which the mask keeps nothing, and the exponent stays. What is stored is 1, not 2.
\<close>

theorem float_writer_loses_carry:
  assumes "floor_log2 (2 - 1 / 2 ^ 52) = 0"
  shows "writeFloat_ieee754 floor_log2 writeUintLE (Fin (2 - 1 / 2 ^ 52)) buf pos = writeFloatLE 1065353216 buf pos"
    "f32_val 1065353216 = Fin 1"
proof -
  have r: "math_round ((2 - 1 / 2 ^ 52) * 8388608) = 16777216"
    by (simp add: math_round_def floor_eq_iff)
  have "\<not> (2 - 1 / 2 ^ 52 :: rat) > float_max" "\<not> (2 - 1 / 2 ^ 52 :: rat) < float_min"
    by (simp_all add: float_max_def float_min_def scale_def)
  then show "writeFloat_ieee754 floor_log2 writeUintLE (Fin (2 - 1 / 2 ^ 52)) buf pos = writeFloatLE 1065353216 buf pos"
    using assms r by (simp add: writeFloat_ieee754_def Let_def writeUint_float)
  show "f32_val 1065353216 = Fin 1"
    by (simp add: f32_val_def Let_def take_bit_eq_mod scale_def drop_bit_eq_div bit_iff_odd_drop_bit)
qed

section \<open>Writing a double\<close>

definition double_max :: rat where
  "double_max = of_int (2 ^ 53 - 1) * scale 2 971"

lemma double_max_literal: "f64_of_rat (17976931348623157 * 10 ^ 292) = Fin double_max"
  unfolding double_max_def by (rule literal_value [where D = 1024, simplified]) (simp_all add: scale_def)

definition double_min :: rat where
  "double_min = of_int (2 ^ 52) * scale 2 (- 1074)"

lemma double_min_literal: "f64_of_rat (22250738585072014 / 10 ^ 324) = Fin double_min"
  unfolding double_min_def by (rule literal_value [where D = "- 1021", simplified]) (simp_all add: scale_def)

definition exponent_of :: "(rat \<Rightarrow> int) \<Rightarrow> rat \<Rightarrow> int" where
  "exponent_of floor_log2 v = (let exponent = floor_log2 v in if exponent = 1024 then 1023 else exponent)"

text \<open>\<open>x >>> 0\<close> of a number that is not negative, and bitwise operators on it.\<close>

definition number_u32 :: "number \<Rightarrow> u32" where
  "number_u32 x = (case x of Fin r \<Rightarrow> word_of_int \<lfloor>r\<rfloor> | _ \<Rightarrow> 0)"

definition writeDouble_ieee754 ::
  "(rat \<Rightarrow> int) \<Rightarrow> (u32 \<Rightarrow> u8 list \<Rightarrow> nat \<Rightarrow> u8 list) \<Rightarrow> nat \<Rightarrow> nat \<Rightarrow> number \<Rightarrow> u8 list \<Rightarrow> nat \<Rightarrow> u8 list" where
  "writeDouble_ieee754 floor_log2 writeUint off0 off1 val buf pos =
     (let store = (\<lambda>lo hi. writeUint hi (writeUint lo buf (pos + off0)) (pos + off1))
      in case val of
           NegZero \<Rightarrow> store 0 2147483648
         | NaN \<Rightarrow> store 0 2146959360
         | Infinity s \<Rightarrow> store 0 (push_bit 31 (of_bool s) OR 2146435072)
         | Fin r \<Rightarrow>
             if r = 0 then store 0 0
             else let sign = of_bool (r < 0); v = \<bar>r\<bar>
                  in if v > double_max then store 0 (push_bit 31 sign OR 2146435072)
                     else if v < double_min
                     then let mantissa = v / scale 2 (- 1074)
                          in store (word_of_int \<lfloor>mantissa\<rfloor>)
                               (push_bit 31 sign OR word_of_int \<lfloor>mantissa / 4294967296\<rfloor>)
                     else let exponent = exponent_of floor_log2 v; mantissa = num_times (Fin v) (pow2 (- exponent))
                          in store (number_u32 (num_times mantissa (Fin 4503599627370496)))
                               (push_bit 31 sign OR push_bit 20 (word_of_int (exponent + 1023)) OR
                                  number_u32 (num_times mantissa (Fin 1048576)) AND 1048575))"

lemma times_exact:
  assumes "0 < k" "k < 2 ^ 53" "- 1074 \<le> d + e" "d + e \<le> 971"
  shows "num_times (Fin (of_int k * scale 2 d)) (Fin (scale 2 e)) = Fin (of_int k * scale 2 (d + e))"
proof -
  have "of_int k < (of_int (2 ^ 53) :: rat)" using assms(2) by (simp only: of_int_less_iff)
  then have "of_int k * scale 2 (d + e) < of_int (2 ^ 53) * scale 2 (d + e)" by (intro mult_strict_right_mono) simp_all
  also have "\<dots> \<le> of_int (2 ^ 53) * scale 2 971" using scale_mono [OF assms(4)] by (intro mult_left_mono) simp_all
  also have "\<dots> = 2 ^ 1024" by (simp add: scale_def)
  finally have b: "of_int k * scale 2 (d + e) < 2 ^ 1024" .
  have "num_times (Fin (of_int k * scale 2 d)) (Fin (scale 2 e)) = f64_of_rat (of_int k * scale 2 d * scale 2 e)"
    using signed_times [of "of_int k * scale 2 d" "scale 2 e" False] assms(1) scale_pos [of 2 e]
    by (simp add: num_signed_def less_imp_le)
  also have "of_int k * scale 2 d * scale 2 e = of_int k * scale 2 (d + e)"
    using scale_add [of 2 d e] by (simp add: mult.assoc)
  also have "f64_of_rat \<dots> = Fin (of_int k * scale 2 (d + e))" by (rule f64_exact [OF assms(1-3) b])
  finally show ?thesis .
qed

lemma scales: "scale 2 52 = 4503599627370496" "scale 2 20 = 1048576" "scale 2 (- 32) = 1 / 4294967296"
  by (simp_all add: scale_def)

text \<open>The products of a number \<open>k\<close> of 53 bits, given its exponent.\<close>

lemma mantissa_products:
  assumes "2 ^ 52 \<le> k" "k < 2 ^ 53" "- 1022 \<le> x" "x \<le> 1023"
  defines "mantissa \<equiv> num_times (Fin (of_int k * scale 2 (x - 52))) (pow2 (- x))"
  shows "number_u32 (num_times mantissa (Fin 4503599627370496)) = word_of_int k"
    "number_u32 (num_times mantissa (Fin 1048576)) = word_of_int (k div 2 ^ 32)"
proof -
  have k: "0 < k" using assms(1) by (rule less_le_trans [rotated]) simp
  have "pow2 (- x) = Fin (scale 2 (- x))" using assms(3,4) by (intro pow2_exact) simp_all
  then have m: "mantissa = Fin (of_int k * scale 2 (- 52))"
    using times_exact [OF k assms(2), of "x - 52" "- x"] by (simp add: mantissa_def)
  have "num_times mantissa (Fin (scale 2 52)) = Fin (of_int k)"
    using times_exact [OF k assms(2), of "- 52" 52] by (simp add: m)
  then show "number_u32 (num_times mantissa (Fin 4503599627370496)) = word_of_int k"
    by (simp add: scales number_u32_def)
  have "num_times mantissa (Fin (scale 2 20)) = Fin (of_int k * scale 2 (- 32))"
    using times_exact [OF k assms(2), of "- 52" 20] by (simp add: m)
  moreover have "\<lfloor>of_int k * scale 2 (- 32)\<rfloor> = k div 2 ^ 32"
    using floor_divide_of_int_eq [of k "2 ^ 32", where ?'a = rat] by (simp add: scales)
  ultimately show "number_u32 (num_times mantissa (Fin 1048576)) = word_of_int (k div 2 ^ 32)"
    by (simp add: scales number_u32_def)
qed

text \<open>The exponent of a double, and what the parameter should be: the integer part of the logarithm.\<close>

definition exponent_field :: "64 word \<Rightarrow> int" where
  "exponent_field w = uint (take_bit 11 (drop_bit 52 w))"

definition normal_double :: "64 word \<Rightarrow> bool" where
  "normal_double w \<longleftrightarrow> 0 < exponent_field w \<and> exponent_field w < 2047"

definition is_floor_log2 :: "int \<Rightarrow> rat \<Rightarrow> bool" where
  "is_floor_log2 n v \<longleftrightarrow> scale 2 n \<le> v \<and> v < scale 2 (n + 1)"

lemma byte_of_half:
  fixes w :: "64 word"
  assumes "n + 8 \<le> 32"
  shows "(ucast (drop_bit n (ucast w :: u32)) :: u8) = ucast (drop_bit n w)"
    "(ucast (drop_bit n (ucast (drop_bit 32 w) :: u32)) :: u8) = ucast (drop_bit (n + 32) w)"
  using assms by (auto simp: bit_simps ac_simps intro!: bit_word_eqI)

lemma writeUint_double:
  "writeUintLE (ucast (drop_bit 32 w)) (writeUintLE (ucast w) buf (pos + 0)) (pos + 4) = writeDoubleLE w buf pos"
  "writeUintBE (ucast (drop_bit 32 w)) (writeUintBE (ucast w) buf (pos + 4)) (pos + 0) = writeDoubleBE w buf pos"
  using byte_of_half [of 0 w]
  by (simp_all add: writeUintLE_def writeDoubleLE_def writeUintBE_def writeDoubleBE_def byte_255 byte_of_half
      add.commute [of _ pos] list_update_swap)

lemma halves:
  fixes w :: "64 word"
  defines "m \<equiv> uint (take_bit 52 w)" and "e \<equiv> uint (take_bit 11 (drop_bit 52 w))"
  shows "(word_of_int m :: u32) = ucast w"
    "push_bit 31 (of_bool (bit w 63)) OR push_bit 20 (word_of_int e) OR word_of_int (m div 2 ^ 32) =
      (ucast (drop_bit 32 w) :: u32)"
proof -
  have h: "uint (ucast (drop_bit 32 w) :: u32) = uint w div 2 ^ 32" (is "uint ?h = _")
  proof -
    have "uint w div 2 ^ 32 < 2 ^ 32" using uint_lt2p [of w] by simp
    then have "take_bit 32 (uint w div 2 ^ 32) = uint w div 2 ^ 32" by (intro take_bit_int_eq_self) (simp_all add: pos_imp_zdiv_nonneg_iff)
    then show ?thesis by (simp add: unsigned_ucast_eq uint_drop)
  qed
  have m: "m = uint w mod 2 ^ 52" by (simp add: m_def uint_take)
  show "(word_of_int m :: u32) = ucast w"
    by (rule word_uint_eqI) (simp add: m uint_word_of_int unsigned_ucast_eq take_bit_eq_mod mod_mod_cancel)
  have "word_of_int (m div 2 ^ 32) = take_bit 20 ?h"
    using uint_take_less [of 20 ?h] zmod_zmult2_eq [of "2 ^ 20" "uint w" "2 ^ 32"]
    by (intro word_uint_eqI) (simp add: m_def uint_take uint_word_of_int h)
  moreover have "word_of_int e = take_bit 11 (drop_bit 20 ?h)"
    using uint_take_less [of 11 "drop_bit 52 w"] zdiv_zmult2_eq [of "2 ^ 20" "uint w" "2 ^ 32"]
    by (intro word_uint_eqI) (simp add: e_def uint_take uint_drop uint_word_of_int h)
  moreover have "push_bit 31 (of_bool (bit w 63)) OR push_bit 20 (take_bit 11 (drop_bit 20 ?h)) OR take_bit 20 ?h = ?h"
  proof (rule bit_word_eqI)
    fix n assume "n < LENGTH(32)"
    then have "n < 20 \<or> 20 \<le> n \<and> n < 31 \<or> n = 31" by auto
    then show "bit (push_bit 31 (of_bool (bit w 63)) OR push_bit 20 (take_bit 11 (drop_bit 20 ?h)) OR take_bit 20 ?h) n = bit ?h n"
      by (auto simp: bit_simps)
  qed
  ultimately show "push_bit 31 (of_bool (bit w 63)) OR push_bit 20 (word_of_int e) OR word_of_int (m div 2 ^ 32) = ?h"
    by simp
qed

lemma normal_value:
  assumes "normal_double w"
  shows "f64_val w = num_signed (bit w 63) (Fin (of_int (uint (take_bit 52 w) + 2 ^ 52) * scale 2 (exponent_field w - 1075)))"
    "num_abs (f64_val w) = of_int (uint (take_bit 52 w) + 2 ^ 52) * scale 2 (exponent_field w - 1075)"
proof -
  show f: "f64_val w = num_signed (bit w 63) (Fin (of_int (uint (take_bit 52 w) + 2 ^ 52) * scale 2 (exponent_field w - 1075)))"
    using assms by (simp add: f64_val_def normal_double_def exponent_field_def Let_def num_signed_def)
  have "0 < (of_int (uint (take_bit 52 w) + 2 ^ 52) :: rat)" by (subst of_int_0_less_iff) (simp add: add_nonneg_pos)
  then have "0 < of_int (uint (take_bit 52 w) + 2 ^ 52) * scale 2 (exponent_field w - 1075)" by simp
  then show "num_abs (f64_val w) = of_int (uint (take_bit 52 w) + 2 ^ 52) * scale 2 (exponent_field w - 1075)"
    unfolding f by (cases "bit w 63") (simp_all add: num_abs_def num_signed_def number_uminus_def)
qed

text \<open>The exponent of a normal double is the integer part of its logarithm, and nothing else is.\<close>

lemma floor_log2_field:
  assumes "normal_double w"
  shows "is_floor_log2 n (num_abs (f64_val w)) \<longleftrightarrow> n = exponent_field w - 1023"
proof -
  define k where "k = uint (take_bit 52 w) + 2 ^ 52"
  let ?x = "exponent_field w - 1023"
  have v: "num_abs (f64_val w) = of_int k * scale 2 (?x - 52)" using normal_value(2) [OF assms] by (simp add: k_def)
  have "2 ^ 52 \<le> k" "k < 2 ^ 53" using uint_take_less [of 52 w] by (simp_all add: k_def)
  then have "of_int (2 ^ 52) \<le> (of_int k :: rat)" "of_int k < (of_int (2 ^ 53) :: rat)"
    by (simp_all only: of_int_le_iff of_int_less_iff)
  then have o: "of_int (2 ^ 52) * scale 2 (?x - 52) \<le> of_int k * scale 2 (?x - 52)"
    "of_int k * scale 2 (?x - 52) < of_int (2 ^ 53) * scale 2 (?x - 52)"
    by (simp_all only: mult_right_mono mult_strict_right_mono scale_pos less_imp_le pos2)
  have p: "of_int (2 ^ 52) * scale 2 (?x - 52) = scale 2 ?x" "of_int (2 ^ 53) * scale 2 (?x - 52) = scale 2 (?x + 1)"
    using scale_add [of 2 52 "?x - 52"] scale_add [of 2 53 "?x - 52"]
    by (simp_all add: scale_def [of 2 52] scale_def [of 2 53] add.commute)
  have b: "scale 2 ?x \<le> num_abs (f64_val w)" "num_abs (f64_val w) < scale 2 (?x + 1)" using o unfolding p v by simp_all
  have "n = ?x" if n: "scale 2 n \<le> num_abs (f64_val w)" "num_abs (f64_val w) < scale 2 (n + 1)"
  proof (rule ccontr)
    assume "n \<noteq> ?x"
    then consider "n + 1 \<le> ?x" | "?x + 1 \<le> n" by linarith
    then show False
    proof cases
      case 1
      then show False using scale_mono [OF 1] n(2) b(1) by linarith
    next
      case 2
      then show False using scale_mono [OF 2] n(1) b(2) by linarith
    qed
  qed
  then show ?thesis using b by (auto simp: is_floor_log2_def)
qed

lemma writeDouble_agrees:
  assumes "normal_double w \<longrightarrow> exponent_of floor_log2 (num_abs (f64_val w)) = exponent_field w - 1023" "f64_val w \<noteq> NaN"
  shows "writeDouble_ieee754 floor_log2 writeUint off0 off1 (f64_val w) buf pos =
    writeUint (ucast (drop_bit 32 w)) (writeUint (ucast w) buf (pos + off0)) (pos + off1)"
proof -
  define m where "m = uint (take_bit 52 w)"
  define e where "e = uint (take_bit 11 (drop_bit 52 w))"
  define s where "s = bit w 63"
  define hi where "hi = (push_bit 31 (of_bool s) OR push_bit 20 (word_of_int e) OR word_of_int (m div 2 ^ 32) :: u32)"
  have m: "0 \<le> m" "m < 2 ^ 52" using uint_take_less [of 52 w] by (simp_all add: m_def)
  have e: "0 \<le> e" "e < 2 ^ 11" using uint_take_less [of 11 "drop_bit 52 w"] by (simp_all add: e_def)
  have small: "scale 2 (- 1074) > 0" by simp
  have val: "f64_val w = (if e = 2047 then if m = 0 then Infinity s else NaN
      else num_signed s (Fin (if e = 0 then of_int m * scale 2 (- 1074) else of_int (m + 2 ^ 52) * scale 2 (e - 1075))))"
    by (simp add: f64_val_def m_def e_def s_def Let_def num_signed_def)
  let ?store = "\<lambda>lo hi. writeUint hi (writeUint lo buf (pos + off0)) (pos + off1)"
  have two: "?store (ucast w) (ucast (drop_bit 32 w)) = ?store (word_of_int m) hi"
    using halves [of w] by (simp add: hi_def s_def m_def e_def)
  have signed: "writeDouble_ieee754 floor_log2 writeUint off0 off1 (num_signed s (Fin v)) buf pos =
      (if v > double_max then ?store 0 (push_bit 31 (of_bool s) OR 2146435072)
       else if v < double_min
       then ?store (word_of_int \<lfloor>v / scale 2 (- 1074)\<rfloor>)
         (push_bit 31 (of_bool s) OR word_of_int \<lfloor>v / scale 2 (- 1074) / of_int (2 ^ 32)\<rfloor>)
       else ?store (number_u32 (num_times (num_times (Fin v) (pow2 (- exponent_of floor_log2 v))) (Fin 4503599627370496)))
         (push_bit 31 (of_bool s) OR push_bit 20 (word_of_int (exponent_of floor_log2 v + 1023)) OR
          number_u32 (num_times (num_times (Fin v) (pow2 (- exponent_of floor_log2 v))) (Fin 1048576)) AND 1048575))"
    if "0 < v" for v
    using that by (simp add: writeDouble_ieee754_def num_signed_def number_uminus_def Let_def)
  consider (inf) "e = 2047" "m = 0" | (zero) "e = 0" "m = 0" | (sub) "e = 0" "m > 0" | (normal) "0 < e" "e < 2047"
    using assms(2) e m unfolding val by fastforce
  then show ?thesis
  proof cases
    case inf
    then show ?thesis using two by (simp add: val writeDouble_ieee754_def hi_def)
  next
    case zero
    have f: "f64_val w = num_signed s (Fin 0)" using zero by (simp add: val)
    show ?thesis unfolding f using two zero
      by (cases s) (simp_all add: writeDouble_ieee754_def num_signed_def number_uminus_def hi_def)
  next
    case sub
    let ?v = "of_int m * scale 2 (- 1074) :: rat"
    have v: "0 < ?v" using sub by simp
    have "of_int m < (of_int (2 ^ 52) :: rat)" using m(2) by (simp only: of_int_less_iff)
    then have l: "?v < double_min" unfolding double_min_def by (intro mult_strict_right_mono) simp_all
    moreover have "double_min \<le> double_max" by (simp add: double_min_def double_max_def scale_def)
    ultimately have b: "\<not> ?v > double_max" by simp
    have q: "?v / scale 2 (- 1074) = of_int m" using less_imp_neq [OF small] by simp
    have "\<lfloor>of_int m / of_int (2 ^ 32) :: rat\<rfloor> = m div 2 ^ 32" by (rule floor_divide_of_int_eq)
    then show ?thesis using two sub l b unfolding val by (simp add: signed [OF v] q hi_def)
  next
    case normal
    let ?k = "m + 2 ^ 52" and ?v = "of_int (m + 2 ^ 52) * scale 2 (e - 1075)"
    have v: "0 < ?v" using m by simp
    have n: "normal_double w" "exponent_field w = e" using normal by (simp_all add: normal_double_def exponent_field_def e_def)
    have lg: "exponent_of floor_log2 ?v = e - 1023"
      using assms(1) n normal_value(2) [OF n(1)] by (simp add: m_def)
    note range = significand_range [of m 52 "- 1074" "e - 1075" 971]
    have big: "\<not> ?v > double_max" using range(2) m normal by (simp add: double_max_def)
    have low: "\<not> ?v < double_min" using range(1) m normal by (simp add: double_min_def)
    have "of_int ?k * scale 2 (e - 1023 - 52) = ?v" by simp
    note products = mantissa_products [of ?k "e - 1023", unfolded this]
    have up: "?k div 2 ^ 32 = m div 2 ^ 32 + 2 ^ 20" by simp
    have prod: "number_u32 (num_times (num_times (Fin ?v) (pow2 (- (e - 1023)))) (Fin 4503599627370496)) = word_of_int ?k"
      "number_u32 (num_times (num_times (Fin ?v) (pow2 (- (e - 1023)))) (Fin 1048576)) = word_of_int (m div 2 ^ 32 + 2 ^ 20)"
      unfolding up [symmetric] by (rule products; use m normal in simp)+
    have d: "0 \<le> m div 2 ^ 32" "m div 2 ^ 32 < 2 ^ 20" using m by simp_all
    have w: "(word_of_int ?k :: u32) = word_of_int m"
      using mod_mult_self1 [of m "2 ^ 20" "2 ^ 32"] by (intro word_uint_eqI) (unfold uint_word_of_int, simp)
    have "(word_of_int (m div 2 ^ 32 + 2 ^ 20) AND 1048575 :: u32) = word_of_int (m div 2 ^ 32)"
      unfolding masks by (rule masked [OF d]) simp
    moreover have "writeDouble_ieee754 floor_log2 writeUint off0 off1 (num_signed s (Fin ?v)) buf pos =
        ?store (word_of_int ?k) (push_bit 31 (of_bool s) OR push_bit 20 (word_of_int (e - 1023 + 1023)) OR
          word_of_int (m div 2 ^ 32 + 2 ^ 20) AND 1048575)"
      unfolding signed [OF v] lg prod using big low by (simp only: if_False)
    ultimately have "writeDouble_ieee754 floor_log2 writeUint off0 off1 (num_signed s (Fin ?v)) buf pos = ?store (word_of_int m) hi"
      unfolding w hi_def by (simp only: diff_add_cancel)
    moreover have "f64_val w = num_signed s (Fin ?v)" using normal by (simp add: val)
    ultimately show ?thesis by (simp only: two)
  qed
qed

text \<open>What was stored can be read back.\<close>

lemma length_writeUint [simp]:
  "length (writeUintLE w buf pos) = length buf" "length (writeUintBE w buf pos) = length buf"
  by (simp_all add: writeUintLE_def writeUintBE_def)

lemma bytes_of_half:
  fixes w :: u32
  defines "b \<equiv> \<lambda>n. ucast (ucast (drop_bit n w) :: u8) :: u32"
  shows "b 0 OR push_bit 8 (b 8) OR push_bit 16 (b 16) OR push_bit 24 (b 24) = w"
proof (rule bit_word_eqI)
  fix n assume "n < LENGTH(32)"
  then have "n < 8 \<or> 8 \<le> n \<and> n < 16 \<or> 16 \<le> n \<and> n < 24 \<or> 24 \<le> n \<and> n < 32" by auto
  then show "bit (b 0 OR push_bit 8 (b 8) OR push_bit 16 (b 16) OR push_bit 24 (b 24)) n = bit w n"
    unfolding b_def by (elim disjE) (auto simp: bit_simps)
qed

lemma read_writeUint:
  assumes "pos + 4 \<le> length buf"
  shows "readUintLE (writeUintLE w buf pos) pos = w" "readUintBE (writeUintBE w buf pos) pos = w"
  using assms
  by (simp_all add: readUintLE_def writeUintLE_def readUintBE_def writeUintBE_def byte_at_def nth_list_update byte_255)
    (use bytes_of_half [of w] in \<open>simp_all add: ac_simps\<close>)

lemma field_bits:
  "take_bit 11 (drop_bit 20 (push_bit 31 (of_bool s) OR push_bit 20 x OR y AND 1048575 :: u32)) = take_bit 11 x"
  unfolding masks by (rule bit_word_eqI) (auto simp: bit_simps)

lemma exponent_of_upper: "uint (take_bit 11 (drop_bit 20 (ucast (drop_bit 32 w) :: u32))) = exponent_field w"
proof -
  have "ucast (take_bit 11 (drop_bit 20 (ucast (drop_bit 32 w) :: u32))) = take_bit 11 (drop_bit 52 w)"
    by (rule bit_word_eqI) (auto simp: bit_simps ac_simps)
  moreover have "uint (ucast (take_bit 11 x) :: 64 word) = uint (take_bit 11 x)" for x :: u32
    by (simp add: unsigned_ucast_eq take_bit_int_eq_self uint_take_less less_le_trans [OF uint_lt2p])
  ultimately show ?thesis by (metis exponent_field_def)
qed

text \<open>For a normal double the upper half is stored with the exponent of the parameter.\<close>

lemma writeDouble_upper:
  assumes "normal_double w"
  shows "\<exists>lo y. writeDouble_ieee754 floor_log2 writeUint off0 off1 (f64_val w) buf pos =
    writeUint (push_bit 31 (of_bool (bit w 63)) OR
        push_bit 20 (word_of_int (exponent_of floor_log2 (num_abs (f64_val w)) + 1023)) OR y AND 1048575)
      (writeUint lo buf (pos + off0)) (pos + off1)"
proof -
  define m where "m = uint (take_bit 52 w)"
  define e where "e = exponent_field w"
  let ?v = "of_int (m + 2 ^ 52) * scale 2 (e - 1075) :: rat"
  have m: "0 \<le> m" "m < 2 ^ 52" using uint_take_less [of 52 w] by (simp_all add: m_def)
  have e: "0 < e" "e < 2047" using assms by (simp_all add: normal_double_def e_def)
  have f: "f64_val w = num_signed (bit w 63) (Fin ?v)" "num_abs (f64_val w) = ?v"
    using normal_value [OF assms] by (simp_all only: m_def e_def)
  have v: "0 < ?v" using m by simp
  note range = significand_range [of m 52 "- 1074" "e - 1075" 971]
  have big: "\<not> ?v > double_max" using range(2) m e by (simp add: double_max_def)
  have low: "\<not> ?v < double_min" using range(1) m e by (simp add: double_min_def)
  have s: "num_signed b (Fin r) = Fin (if b then - r else r)" if "0 < r" for b and r :: rat
    using that by (simp add: num_signed_def number_uminus_def)
  have n: "\<bar>if b then - r else r\<bar> = r" "(if b then - r else r) = 0 \<longleftrightarrow> False" "(if b then - r else r) < 0 \<longleftrightarrow> b"
    if "0 < r" for b and r :: rat using that by simp_all
  show ?thesis
    unfolding f(2) unfolding f(1) s [OF v] writeDouble_ieee754_def Let_def number.case n [OF v]
    using big low by (intro exI) (simp only: if_False)
qed

lemma same_field:
  assumes "- 1 \<le> i" "i < 2047" "0 < j" "j < 2047" "take_bit 11 (word_of_int i :: u32) = word_of_int j"
  shows "i = j"
proof -
  have "uint (take_bit 11 (word_of_int i :: u32)) = i mod 2 ^ 11"
    by (simp only: uint_take uint_word_of_int) (simp add: take_bit_eq_mod mod_mod_cancel)
  moreover have "uint (word_of_int j :: u32) = j"
    using assms(3,4) by (simp add: uint_word_of_int take_bit_int_eq_self)
  ultimately have "i mod 2048 = j" using assms(5) by simp
  then show ?thesis using assms(1-4) by (cases "i = - 1") simp_all
qed

text \<open>C33. The writer for engines without typed doubles stores the bits of a double exactly where its exponent is right:
  zeros of both signs, subnormal doubles and infinities always, a normal double if and only if the exponent the
  code computes from \<open>Math.log\<close> is the integer part of the binary logarithm; in both byte orders. Of this exponent
  it is only assumed that it lies between - 1024 and 1023, where doubles have theirs, and of the buffer that it has
  room for the double.\<close>

theorem double_fallback_writes:
  fixes floor_log2 w
  defines "computed \<equiv> exponent_of floor_log2 (num_abs (f64_val w))"
  assumes "f64_val w \<noteq> NaN" "pos + 8 \<le> length buf" "normal_double w \<longrightarrow> - 1024 \<le> computed \<and> computed \<le> 1023"
  shows "(writeDouble_ieee754 floor_log2 writeUintLE 0 4 (f64_val w) buf pos = writeDoubleLE w buf pos \<longleftrightarrow>
      (normal_double w \<longrightarrow> is_floor_log2 computed (num_abs (f64_val w)))) \<and>
    (writeDouble_ieee754 floor_log2 writeUintBE 4 0 (f64_val w) buf pos = writeDoubleBE w buf pos \<longleftrightarrow>
      (normal_double w \<longrightarrow> is_floor_log2 computed (num_abs (f64_val w))))"
proof (cases "normal_double w \<longrightarrow> computed = exponent_field w - 1023")
  case True
  note agrees = writeDouble_agrees [OF True [unfolded computed_def] assms(2)]
  have "writeDouble_ieee754 floor_log2 writeUintLE 0 4 (f64_val w) buf pos = writeDoubleLE w buf pos"
    "writeDouble_ieee754 floor_log2 writeUintBE 4 0 (f64_val w) buf pos = writeDoubleBE w buf pos"
    by (simp_all only: agrees writeUint_double)
  then show ?thesis using True floor_log2_field [of w] by blast
next
  case False
  then have n: "normal_double w" and x: "computed \<noteq> exponent_field w - 1023" by simp_all
  have differs: "push_bit 31 (of_bool (bit w 63)) OR push_bit 20 (word_of_int (computed + 1023)) OR y AND 1048575 \<noteq>
      (ucast (drop_bit 32 w) :: u32)" for y
  proof
    assume e: "push_bit 31 (of_bool (bit w 63)) OR push_bit 20 (word_of_int (computed + 1023)) OR y AND 1048575 =
      (ucast (drop_bit 32 w) :: u32)"
    have "take_bit 11 (word_of_int (computed + 1023) :: u32) = take_bit 11 (drop_bit 20 (ucast (drop_bit 32 w)))"
      unfolding e [symmetric] field_bits ..
    then have "take_bit 11 (word_of_int (computed + 1023) :: u32) = word_of_int (exponent_field w)"
      by (simp only: exponent_of_upper [symmetric] word_of_int_uint)
    then have "computed + 1023 = exponent_field w"
      using assms(4) n by (intro same_field) (simp_all add: normal_double_def)
    then show False using x by simp
  qed
  obtain lo y where le: "writeDouble_ieee754 floor_log2 writeUintLE 0 4 (f64_val w) buf pos =
    writeUintLE (push_bit 31 (of_bool (bit w 63)) OR push_bit 20 (word_of_int (computed + 1023)) OR y AND 1048575)
      (writeUintLE lo buf (pos + 0)) (pos + 4)"
    using writeDouble_upper [OF n] unfolding computed_def by blast
  obtain lo' y' where be: "writeDouble_ieee754 floor_log2 writeUintBE 4 0 (f64_val w) buf pos =
    writeUintBE (push_bit 31 (of_bool (bit w 63)) OR push_bit 20 (word_of_int (computed + 1023)) OR y' AND 1048575)
      (writeUintBE lo' buf (pos + 4)) (pos + 0)"
    using writeDouble_upper [OF n] unfolding computed_def by blast
  have "readUintLE (writeUintLE h (writeUintLE l buf (pos + 0)) (pos + 4)) (pos + 4) = h"
    "readUintBE (writeUintBE h (writeUintBE l buf (pos + 4)) (pos + 0)) (pos + 0) = h" for h l
    using assms(3) by (simp_all add: read_writeUint)
  then have "writeDouble_ieee754 floor_log2 writeUintLE 0 4 (f64_val w) buf pos \<noteq> writeDoubleLE w buf pos"
    "writeDouble_ieee754 floor_log2 writeUintBE 4 0 (f64_val w) buf pos \<noteq> writeDoubleBE w buf pos"
    unfolding le be writeUint_double [symmetric] using differs by metis+
  then show ?thesis using n x floor_log2_field [OF n] by simp
qed

theorem double_fallback_writes_witness:
  "writeDouble_ieee754 (\<lambda>v. digits 2 v - 1) writeUintLE 0 4 (Fin (- 2)) [0, 0, 0, 0, 0, 0, 0, 0] 0 =
    [0, 0, 0, 0, 0, 0, 0, 192] \<and>
   writeDouble_ieee754 (\<lambda>v. 2) writeUintLE 0 4 (Fin (- 2)) [0, 0, 0, 0, 0, 0, 0, 0] 0 \<noteq> [0, 0, 0, 0, 0, 0, 0, 192]"
proof -
  let ?w = "13835058055282163712 :: 64 word"
  have v: "f64_val ?w = Fin (- 2)"
    by (simp add: f64_val_def Let_def take_bit_eq_mod scale_def drop_bit_eq_div number_uminus_def bit_iff_odd_drop_bit)
  have a: "num_abs (Fin (- 2)) = 2" by (simp add: num_abs_def)
  have "digits 2 (2 :: rat) = 2"
    by (intro antisym digits_le digits_ge) (simp_all add: scale_def)
  then have e: "exponent_of (\<lambda>v. digits 2 v - 1) 2 = 1" "exponent_of (\<lambda>v. 2) 2 = 2" by (simp_all add: exponent_of_def)
  have l: "is_floor_log2 1 2" "\<not> is_floor_log2 2 2" by (simp_all add: is_floor_log2_def scale_def)
  have n: "normal_double ?w"
    by (simp add: normal_double_def exponent_field_def take_bit_eq_mod drop_bit_eq_div)
  have b: "writeDoubleLE ?w [0, 0, 0, 0, 0, 0, 0, 0] 0 = [0, 0, 0, 0, 0, 0, 0, 192]"
    by (simp add: writeDoubleLE_def drop_bit_eq_div)
  show ?thesis
    using double_fallback_writes [of ?w 0 "[0, 0, 0, 0, 0, 0, 0, 0]" "\<lambda>v. digits 2 v - 1"]
      double_fallback_writes [of ?w 0 "[0, 0, 0, 0, 0, 0, 0, 0]" "\<lambda>v. 2"]
    by (simp add: v a e l n b)
qed

text \<open>
  An inexact logarithm is not noticed: if the engine gives 10 for the largest double below 1024, whose logarithm in
  double precision is that of 1024, what is stored is the largest double below 2048.
\<close>

theorem double_writer_doubles:
  assumes "floor_log2 (1024 - 1 / 2 ^ 43) = 10"
  shows "writeDouble_ieee754 floor_log2 writeUintLE 0 4 (Fin (1024 - 1 / 2 ^ 43)) buf pos =
      writeDoubleLE 4656722014701092863 buf pos"
    "f64_val 4656722014701092863 = Fin (2048 - 1 / 2 ^ 42)"
proof -
  let ?v = "1024 - 1 / 2 ^ 43 :: rat"
  have "\<not> ?v > double_max" "\<not> ?v < double_min" by (simp_all add: double_max_def double_min_def scale_def)
  moreover have "number_u32 (num_times (num_times (Fin ?v) (pow2 (- 10))) (Fin 4503599627370496)) = word_of_int 4503599627370495"
    "number_u32 (num_times (num_times (Fin ?v) (pow2 (- 10))) (Fin 1048576)) = 1048575"
  proof -
    have v: "?v = of_int (2 ^ 53 - 1) * scale 2 (- 43)" by (simp add: scale_def)
    have floors: "\<lfloor>9007199254740991 / 2 :: rat\<rfloor> = 4503599627370495" "\<lfloor>9007199254740991 / 8589934592 :: rat\<rfloor> = 1048575"
      by (simp_all add: floor_eq_iff)
    have "pow2 (- 10) = Fin (scale 2 (- 10))" by (rule pow2_exact) simp_all
    then have m: "num_times (Fin ?v) (pow2 (- 10)) = Fin (of_int (2 ^ 53 - 1) * scale 2 (- 53))"
      using times_exact [of "2 ^ 53 - 1" "- 43" "- 10"] unfolding v by simp
    show "number_u32 (num_times (num_times (Fin ?v) (pow2 (- 10))) (Fin 4503599627370496)) = word_of_int 4503599627370495"
      "number_u32 (num_times (num_times (Fin ?v) (pow2 (- 10))) (Fin 1048576)) = 1048575"
      unfolding m using times_exact [of "2 ^ 53 - 1" "- 53" 52] times_exact [of "2 ^ 53 - 1" "- 53" 20]
      by (simp_all add: scales number_u32_def floors) (simp_all add: scale_def floors)
  qed
  moreover have "writeUintLE 4503599627370495 buf pos = writeUintLE 4294967295 buf pos"
    by (rule arg_cong [where f = "\<lambda>x. writeUintLE x buf pos"]) (rule word_uint_eqI, simp)
  ultimately have "writeDouble_ieee754 floor_log2 writeUintLE 0 4 (Fin ?v) buf pos =
      writeUintLE 1084227583 (writeUintLE 4294967295 buf (pos + 0)) (pos + 4)"
    using assms by (simp add: writeDouble_ieee754_def exponent_of_def Let_def)
  also have "\<dots> = writeDoubleLE 4656722014701092863 buf pos"
  proof -
    have "(ucast (4656722014701092863 :: 64 word) :: u32) = 4294967295"
      "(ucast (drop_bit 32 (4656722014701092863 :: 64 word)) :: u32) = 1084227583"
      by (simp_all add: ucast_eq drop_bit_eq_div word_of_int_eq_iff take_bit_eq_mod)
    then show ?thesis using writeUint_double(1) [of 4656722014701092863 buf pos] by (simp only:)
  qed
  finally show "writeDouble_ieee754 floor_log2 writeUintLE 0 4 (Fin ?v) buf pos =
      writeDoubleLE 4656722014701092863 buf pos" .
  show "f64_val 4656722014701092863 = Fin (2048 - 1 / 2 ^ 42)"
    by (simp add: f64_val_def Let_def take_bit_eq_mod scale_def drop_bit_eq_div bit_iff_odd_drop_bit)
qed

section \<open>Reading, for floats and doubles\<close>

text \<open>C32. The readers for engines without typed floats agree with them: whatever the bytes, the sign, exponent and
  significand they take apart and multiply, rounding each product as doubles do, give exactly the number the
  bits stand for: subnormals, zeros of both signs, infinities and NaN included.\<close>

theorem float_fallback_reads:
  "readFloat_ieee754 readUintLE buf pos = f32_val (readFloatLE buf pos) \<and>
   readFloat_ieee754 readUintBE buf pos = f32_val (readFloatBE buf pos) \<and>
   readDouble_ieee754 readUintLE 0 4 buf pos = f64_val (readDoubleLE buf pos) \<and>
   readDouble_ieee754 readUintBE 4 0 buf pos = f64_val (readDoubleBE buf pos)"
  by (simp add: readFloat_agrees readDouble_agrees readUint_float readDoubleLE_def readDoubleBE_def)

end
