(* ===== verification/Rpc.thy ===== *)
theory Rpc
  imports JsValue Protocol
begin

text \<open>
  The rpc service of the runtime and the promises it returns (\<open>src/rpc/service.js\<close>,
  \<open>@protobufjs/aspromise\<close>). A service passes the bytes of a request to \<open>rpcImpl\<close>, which answers by calling
  back at once or later, once or more often, with an error, with nothing, with an instance or with bytes.

  The code the service calls, which is \<open>rpcImpl\<close>, the listeners and the callbacks, may itself use the service
  while it runs: \<open>rpcImpl\<close> answers calls, also while it is told to end, and a callback makes the next call.
  So the operations have a parameter \<open>world\<close>, what the called code makes of the service, whose trace ends with
  the entry that tells which code is called. \<open>script\<close> gives the actions of that code for each trace, each with
  whether its exceptions are caught, and what it throws at the end; \<open>play n script\<close> performs them, calls nested
  up to \<open>n\<close> deep. The properties hold for every \<open>n\<close>, and so for every run that comes to an end.
  An event stands for the calls of all its listeners, of which there are none after \<open>off\<close>; the \<open>encode\<close> of
  a request is taken to return.

  The theorems: a service gets no request after its end event, and one end event unless its implementation uses
  the service while it is told to end; a request reaches the implementation and its response the caller
  unchanged; a callback that throws at once is called a second time; a promise is settled by the first call of
  its callback.
\<close>

section \<open>Promises\<close>

datatype settlement = Waiting | Resolved js | Rejected js

record promise =
  pr_pending :: bool
  pr_outcome :: settlement

text \<open>The callback given to the function, and whether it throws: the arguments but the first go to
  \<open>new Array(arguments.length - 1)\<close>, a RangeError where there are none.\<close>

definition promise_callback :: "js list \<Rightarrow> promise \<Rightarrow> promise \<times> bool" where
  "promise_callback arguments p =
     (if pr_pending p
      then let p = p\<lparr>pr_pending := False\<rparr>; err = (case arguments of [] \<Rightarrow> Undefined | err # _ \<Rightarrow> err)
           in if truthy err then (p\<lparr>pr_outcome := Rejected err\<rparr>, False)
              else if arguments = [] then (p, True)
              else (p\<lparr>pr_outcome := Resolved (case tl arguments of [] \<Rightarrow> Undefined | v # _ \<Rightarrow> v)\<rparr>, False)
      else (p, False))"

definition promise_start :: promise where
  "promise_start = \<lparr>pr_pending = True, pr_outcome = Waiting\<rparr>"

text \<open>What the function does: it calls the callback some times and returns or throws. An exception of the callback
  ends it.\<close>

fun promise_calls :: "js list list \<Rightarrow> js option \<Rightarrow> promise \<Rightarrow> promise \<times> js option" where
  "promise_calls [] thrown p = (p, thrown)"
| "promise_calls (args # calls) thrown p =
     (case promise_callback args p of
        (p, False) \<Rightarrow> promise_calls calls thrown p
      | (p, True) \<Rightarrow> (p, Some (Object ''RangeError'' [])))"

definition asPromise :: "js list list \<Rightarrow> js option \<Rightarrow> promise" where
  "asPromise calls thrown =
     (case promise_calls calls thrown promise_start of
        (p, None) \<Rightarrow> p
      | (p, Some e) \<Rightarrow> if pr_pending p then p\<lparr>pr_pending := False, pr_outcome := Rejected e\<rparr> else p)"

section \<open>The service\<close>

datatype 'e failure =
    Failed js_error
  | AlreadyEnded
  | Reported 'e

datatype ('e, 'm) rpc_event =
    ErrorEvent "'e failure" jstring
  | DataEvent 'm jstring
  | EndEvent

datatype 'm rpc_answer =
    NoAnswer
  | Instance 'm
  | Encoded "u8 list"

text \<open>What happens to others: the implementation is called, with a request or to end; an event is emitted; the
  listeners are taken off; the callback of a call runs.\<close>

datatype ('e, 'm) rpc_effect =
    Requested jstring "u8 list" nat
  | EndRequested
  | Emits "('e, 'm) rpc_event"
  | ListenersOff
  | Answered nat "'e failure + 'm"

record ('e, 'm) service =
  rpcImpl :: bool
  requestDelimited :: bool
  responseDelimited :: bool
  methods :: "jstring list"
  timers :: "(nat \<times> 'e failure) list"
  trace :: "('e, 'm) rpc_effect list"

text \<open>What code outside can do with the service: a call, a reply to a request, the end.\<close>

type_synonym ('e, 'm) reply = "'e failure option \<times> 'm rpc_answer"

datatype ('e, 'q, 'm) action =
    Call jstring "'q option"
  | Reply nat "('e, 'm) reply"
  | End bool

type_synonym ('e, 'q, 'm) script =
  "('e, 'm) rpc_effect list \<Rightarrow> (('e, 'q, 'm) action \<times> bool) list \<times> 'e failure option"

text \<open>The classes of the request and the response.\<close>

record ('q, 'm) ctor =
  ct_encode :: "'q \<Rightarrow> u8 list"
  ct_encodeDelimited :: "'q \<Rightarrow> u8 list"
  ct_decode :: "u8 list \<Rightarrow> js_error + 'm"
  ct_decodeDelimited :: "u8 list \<Rightarrow> js_error + 'm"

type_synonym ('e, 'm) run = "('e, 'm) service \<times> 'e failure option"

type_synonym ('e, 'm) outside = "('e, 'm) service \<Rightarrow> ('e, 'm) run"

definition Service :: "bool \<Rightarrow> bool \<Rightarrow> bool \<Rightarrow> js_error + ('e, 'm) service" where
  "Service is_function delimited delimited' =
     (if \<not> is_function then Inl (TypeError ''rpcImpl must be a function'')
      else Inr \<lparr>rpcImpl = True, requestDelimited = delimited, responseDelimited = delimited',
                methods = [], timers = [], trace = []\<rparr>)"

definition logged :: "('e, 'm) rpc_effect \<Rightarrow> ('e, 'm) service \<Rightarrow> ('e, 'm) service" where
  "logged x s = s\<lparr>trace := trace s @ [x]\<rparr>"

lemma logged_simps [simp]:
  "rpcImpl (logged x s) = rpcImpl s" "trace (logged x s) = trace s @ [x]" "methods (logged x s) = methods s"
  "timers (logged x s) = timers s" "requestDelimited (logged x s) = requestDelimited s"
  by (simp_all add: logged_def)

text \<open>The next statement, unless the last one threw.\<close>

definition andthen :: "('e, 'm) run \<Rightarrow> (('e, 'm) service \<Rightarrow> ('e, 'm) run) \<Rightarrow> ('e, 'm) run" where
  "andthen r f = (case r of (s, None) \<Rightarrow> f s | (s, Some e) \<Rightarrow> (s, Some e))"

definition emit_event :: "('e, 'm) outside \<Rightarrow> ('e, 'm) rpc_event \<Rightarrow> ('e, 'm) service \<Rightarrow> ('e, 'm) run" where
  "emit_event world ev s = world (logged (Emits ev) s)"

definition invoke_callback :: "('e, 'm) outside \<Rightarrow> nat \<Rightarrow> 'e failure + 'm \<Rightarrow> ('e, 'm) service \<Rightarrow> ('e, 'm) run" where
  "invoke_callback world i r s = world (logged (Answered i r) s)"

definition end_service :: "('e, 'm) outside \<Rightarrow> bool \<Rightarrow> ('e, 'm) service \<Rightarrow> ('e, 'm) run" where
  "end_service world endedByRPC s =
     (if rpcImpl s
      then andthen (if endedByRPC then (s, None) else world (logged EndRequested s))
        (\<lambda>s. andthen (emit_event world EndEvent (s\<lparr>rpcImpl := False\<rparr>)) (\<lambda>s. (logged ListenersOff s, None)))
      else (s, None))"

definition decoded :: "('q, 'm) ctor \<Rightarrow> ('e, 'm) service \<Rightarrow> 'm rpc_answer \<Rightarrow> js_error + 'm" where
  "decoded ctor s response =
     (case response of
        Instance m \<Rightarrow> Inr m
      | Encoded bs \<Rightarrow> if responseDelimited s then ct_decodeDelimited ctor bs else ct_decode ctor bs
      | NoAnswer \<Rightarrow> Inl (TypeError []))"

definition rpcCallback ::
  "('e, 'm) outside \<Rightarrow> ('q, 'm) ctor \<Rightarrow> nat \<Rightarrow> jstring \<Rightarrow> ('e, 'm) reply \<Rightarrow> ('e, 'm) service \<Rightarrow> ('e, 'm) run" where
  "rpcCallback world ctor i method reply s =
     (case reply of
        (Some err, response) \<Rightarrow> andthen (emit_event world (ErrorEvent err method) s) (invoke_callback world i (Inl err))
      | (None, NoAnswer) \<Rightarrow> end_service world True s
      | (None, response) \<Rightarrow>
          (case decoded ctor s response of
             Inl err \<Rightarrow> andthen (emit_event world (ErrorEvent (Failed err) method) s) (invoke_callback world i (Inl (Failed err)))
           | Inr m \<Rightarrow> andthen (emit_event world (DataEvent m method) s) (invoke_callback world i (Inr m))))"

definition setTimeout :: "nat \<Rightarrow> 'e failure \<Rightarrow> ('e, 'm) service \<Rightarrow> ('e, 'm) service" where
  "setTimeout i err s = s\<lparr>timers := timers s @ [(i, err)]\<rparr>"

text \<open>A call with a callback; its number is how many calls there were before it.\<close>

definition rpcCall ::
  "('e, 'm) outside \<Rightarrow> ('q, 'm) ctor \<Rightarrow> jstring \<Rightarrow> 'q option \<Rightarrow> ('e, 'm) service \<Rightarrow> ('e, 'm) run" where
  "rpcCall world ctor method request s =
     (case request of
        None \<Rightarrow> (s, Some (Failed (TypeError ''request must be specified'')))
      | Some q \<Rightarrow>
          (let i = length (methods s); s = s\<lparr>methods := methods s @ [method]\<rparr>
           in if \<not> rpcImpl s then (setTimeout i AlreadyEnded s, None)
              else let bs = (if requestDelimited s then ct_encodeDelimited ctor q else ct_encode ctor q)
                   in case world (logged (Requested method bs i) s) of
                        (s, None) \<Rightarrow> (s, None)
                      | (s, Some err) \<Rightarrow>
                          andthen (emit_event world (ErrorEvent err method) s) (\<lambda>s. (setTimeout i err s, None))))"

section \<open>The code outside\<close>

text \<open>The implementation has the callbacks of the requests it got, and nobody has others.\<close>

definition can_happen :: "('e, 'q, 'm) action \<Rightarrow> ('e, 'm) service \<Rightarrow> bool" where
  "can_happen x s =
     (case x of Reply i reply \<Rightarrow> list_ex (\<lambda>y. case y of Requested method bs j \<Rightarrow> j = i | _ \<Rightarrow> False) (trace s) | _ \<Rightarrow> True)"

definition perform :: "('e, 'm) outside \<Rightarrow> ('q, 'm) ctor \<Rightarrow> ('e, 'q, 'm) action \<Rightarrow> ('e, 'm) service \<Rightarrow> ('e, 'm) run" where
  "perform world ctor x s =
     (if \<not> can_happen x s then (s, None)
      else case x of
        Call method request \<Rightarrow> rpcCall world ctor method request s
      | Reply i reply \<Rightarrow> rpcCallback world ctor i (methods s ! i) reply s
      | End endedByRPC \<Rightarrow> end_service world endedByRPC s)"

fun acts ::
  "(('e, 'q, 'm) action \<Rightarrow> ('e, 'm) service \<Rightarrow> ('e, 'm) run) \<Rightarrow> (('e, 'q, 'm) action \<times> bool) list \<Rightarrow> 'e failure option \<Rightarrow>
   ('e, 'm) service \<Rightarrow> ('e, 'm) run" where
  "acts act [] thrown s = (s, thrown)"
| "acts act ((x, catches) # xs) thrown s =
     (case act x s of
        (s, None) \<Rightarrow> acts act xs thrown s
      | (s, Some err) \<Rightarrow> if catches then acts act xs thrown s else (s, Some err))"

fun play :: "nat \<Rightarrow> ('e, 'q, 'm) script \<Rightarrow> ('q, 'm) ctor \<Rightarrow> ('e, 'm) outside" where
  "play 0 script ctor s = (s, snd (script (trace s)))"
| "play (Suc n) script ctor s =
     acts (perform (play n script ctor) ctor) (fst (script (trace s))) (snd (script (trace s))) s"

text \<open>The turns of the event loop: some code uses the service, or a timer runs out.\<close>

datatype ('e, 'q, 'm) turn =
    Act "('e, 'q, 'm) action"
  | Timer

definition rpc_step :: "('e, 'm) outside \<Rightarrow> ('q, 'm) ctor \<Rightarrow> ('e, 'q, 'm) turn \<Rightarrow> ('e, 'm) service \<Rightarrow> ('e, 'm) run" where
  "rpc_step world ctor x s =
     (case x of
        Act x \<Rightarrow> perform world ctor x s
      | Timer \<Rightarrow>
          (case timers s of [] \<Rightarrow> (s, None) | (i, err) # ts \<Rightarrow> invoke_callback world i (Inl err) (s\<lparr>timers := ts\<rparr>)))"

inductive rpc_reach :: "nat \<Rightarrow> ('e, 'q, 'm) script \<Rightarrow> ('q, 'm) ctor \<Rightarrow> ('e, 'm) service \<Rightarrow> bool"
  for n :: nat and script :: "('e, 'q, 'm) script" and ctor :: "('q, 'm) ctor" where
  created: "Service True d d' = Inr s \<Longrightarrow> rpc_reach n script ctor s"
| stepped: "rpc_reach n script ctor s \<Longrightarrow> rpc_reach n script ctor (fst (rpc_step (play n script ctor) ctor x s))"

section \<open>A promise is settled once\<close>

lemma settled_callback: "\<not> pr_pending p \<Longrightarrow> promise_callback args p = (p, False)"
  by (simp add: promise_callback_def)

lemma settled_calls: "\<not> pr_pending p \<Longrightarrow> fst (promise_calls calls thrown p) = p"
  by (induction calls) (simp_all add: settled_callback)

lemma callback_settles: "\<not> pr_pending (fst (promise_callback args p))"
  by (simp add: promise_callback_def Let_def)

text \<open>The first call of the callback decides: whatever the function does after it, and whatever calls come
  later. A call without any argument settles nothing: the promise waits forever.\<close>

theorem promise_settled_once:
  "asPromise (args # calls) thrown = fst (promise_callback args promise_start)"
  "promise_callback args' (asPromise (args # calls) thrown) = (asPromise (args # calls) thrown, False)"
  "pr_outcome (asPromise ([] # calls) thrown) = Waiting"
proof -
  show first: "asPromise (args # calls) thrown = fst (promise_callback args promise_start)" for args calls thrown
  proof -
    obtain p t where p: "promise_callback args promise_start = (p, t)" by fastforce
    then have n: "\<not> pr_pending p" using callback_settles [of args promise_start] by simp
    then show ?thesis using settled_calls [OF n, of calls thrown]
      by (cases t; cases "promise_calls calls thrown p") (auto simp: asPromise_def p split: option.split)
  qed
  show "promise_callback args' (asPromise (args # calls) thrown) = (asPromise (args # calls) thrown, False)"
    unfolding first by (rule settled_callback [OF callback_settles])
  show "pr_outcome (asPromise ([] # calls) thrown) = Waiting"
    unfolding first by (simp add: promise_callback_def promise_start_def)
qed

section \<open>What every operation keeps\<close>

text \<open>
  A relation between the states before and after, kept by the operations whatever the code outside does with
  them: it is enough that it holds for the single changes. When the implementation is asked to end, the last
  change comes after whatever it has done; if its script says nothing then that is nothing.
\<close>

locale service_law =
  fixes script :: "('e, 'q, 'm) script" and law :: "('e, 'm) service \<Rightarrow> ('e, 'm) service \<Rightarrow> bool"
  assumes law_refl: "law s s"
    and law_trans: "law s s1 \<Longrightarrow> law s1 s2 \<Longrightarrow> law s s2"
    and law_methods: "law s (s\<lparr>methods := ms\<rparr>)"
    and law_timers: "law s (s\<lparr>timers := ts\<rparr>)"
    and law_requested: "rpcImpl s \<Longrightarrow> law s (logged (Requested method bs i) s)"
    and law_emits: "ev \<noteq> EndEvent \<Longrightarrow> law s (logged (Emits ev) s)"
    and law_answered: "law s (logged (Answered i r) s)"
    and law_off: "law s (logged ListenersOff s)"
    and law_end: "rpcImpl s \<Longrightarrow> law s (logged (Emits EndEvent) (s\<lparr>rpcImpl := False\<rparr>))"
    and law_asked: "rpcImpl s \<Longrightarrow> law (logged EndRequested s) s1 \<Longrightarrow>
      (fst (script (trace (logged EndRequested s))) = [] \<longrightarrow> s1 = logged EndRequested s) \<Longrightarrow>
      law s s1 \<and> law s (logged (Emits EndEvent) (s1\<lparr>rpcImpl := False\<rparr>))"
begin

text \<open>Code outside keeps the law, and code that does nothing changes nothing.\<close>

definition lawful :: "('e, 'm) outside \<Rightarrow> bool" where
  "lawful w \<longleftrightarrow> (\<forall>s. law s (fst (w s)) \<and> (fst (script (trace s)) = [] \<longrightarrow> fst (w s) = s))"

lemma lawful_law: "lawful w \<Longrightarrow> law s (fst (w s))"
  by (simp add: lawful_def)

lemma law_then:
  assumes "law s (fst r)" "\<And>s1. law s1 (fst (f s1))"
  shows "law s (fst (andthen r f))"
  using assms law_trans by (cases r; cases "snd r") (auto simp: andthen_def)

lemma law_emit: "lawful w \<Longrightarrow> ev \<noteq> EndEvent \<Longrightarrow> law s (fst (emit_event w ev s))"
  unfolding emit_event_def using law_emits lawful_law law_trans by blast

lemma law_callback: "lawful w \<Longrightarrow> law s (fst (invoke_callback w i r s))"
  unfolding invoke_callback_def using law_answered lawful_law law_trans by blast

lemma law_ended:
  assumes w: "lawful w" and e: "law s (logged (Emits EndEvent) (s1\<lparr>rpcImpl := False\<rparr>))"
  shows "law s (fst (andthen (emit_event w EndEvent (s1\<lparr>rpcImpl := False\<rparr>)) (\<lambda>s. (logged ListenersOff s, None))))"
  by (rule law_then)
    (use law_trans [OF e lawful_law [OF w]] law_off in \<open>simp_all add: emit_event_def\<close>)

lemma law_end_service:
  assumes w: "lawful w"
  shows "law s (fst (end_service w by_rpc s))"
proof (cases "rpcImpl s")
  case False
  then show ?thesis by (simp add: end_service_def law_refl)
next
  case impl: True
  show ?thesis
  proof (cases by_rpc)
    case True
    then show ?thesis using impl law_ended [OF w law_end [OF impl]] by (simp add: end_service_def andthen_def)
  next
    case False
    obtain s1 t where r: "w (logged EndRequested s) = (s1, t)" by fastforce
    then have "law (logged EndRequested s) s1"
      "fst (script (trace (logged EndRequested s))) = [] \<longrightarrow> s1 = logged EndRequested s"
      using w unfolding lawful_def by (metis fst_conv)+
    from law_asked [OF impl this] show ?thesis
      using False impl law_ended [OF w] by (cases t) (simp_all add: end_service_def r andthen_def)
  qed
qed

lemma law_rpcCallback: "lawful w \<Longrightarrow> law s (fst (rpcCallback w ctor i method reply s))"
  by (auto simp: rpcCallback_def law_end_service split: prod.split option.split rpc_answer.split sum.split
      intro!: law_then law_emit law_callback)

lemma law_rpcCall:
  assumes w: "lawful w"
  shows "law s (fst (rpcCall w ctor method request s))"
proof (cases request)
  case None
  then show ?thesis by (simp add: rpcCall_def law_refl)
next
  case (Some q)
  let ?s = "s\<lparr>methods := methods s @ [method]\<rparr>"
  let ?bs = "if requestDelimited s then ct_encodeDelimited ctor q else ct_encode ctor q"
  show ?thesis
  proof (cases "rpcImpl s")
    case True
    let ?r = "logged (Requested method ?bs (length (methods s))) ?s"
    obtain s1 t where r: "w ?r = (s1, t)" by fastforce
    have "law ?s ?r" using True by (intro law_requested) simp
    moreover have "law ?r s1" using lawful_law [OF w, of ?r] by (simp only: r fst_conv)
    ultimately have "law ?s s1" by (rule law_trans)
    with law_methods have "law s s1" by (rule law_trans)
    moreover have "law s1 (fst (andthen (emit_event w (ErrorEvent err method) s1) (\<lambda>s. (setTimeout i err s, None))))"
      for err i unfolding setTimeout_def by (intro law_then law_emit w) (simp_all add: law_timers)
    ultimately have "law s (fst (andthen (emit_event w (ErrorEvent err method) s1) (\<lambda>s. (setTimeout i err s, None))))"
      for err i by (rule law_trans)
    then show ?thesis
      using True Some r \<open>law s s1\<close> by (cases t) (simp_all add: rpcCall_def Let_def)
  next
    case False
    then show ?thesis using Some law_trans [OF law_methods law_timers] by (simp add: rpcCall_def setTimeout_def)
  qed
qed

lemma law_perform: "lawful w \<Longrightarrow> law s (fst (perform w ctor x s))"
  by (cases x) (simp_all add: perform_def law_refl law_rpcCall law_rpcCallback law_end_service)

lemma law_acts: "lawful w \<Longrightarrow> law s (fst (acts (perform w ctor) xs thrown s))"
proof (induction xs arbitrary: s)
  case (Cons x xs)
  obtain y c where x: "x = (y, c)" by (cases x)
  obtain s1 t where r: "perform w ctor y s = (s1, t)" by fastforce
  then have "law s s1" using law_perform [OF Cons.prems] by (metis fst_conv)
  then show ?case using law_trans Cons.IH [OF Cons.prems] by (cases t) (auto simp: x r)
qed (simp add: law_refl)

lemma lawful_play: "lawful (play n script ctor)"
proof (induction n)
  case 0
  then show ?case by (simp add: lawful_def law_refl)
next
  case (Suc n)
  have "law s (fst (play (Suc n) script ctor s))" for s using law_acts [OF Suc.IH] by simp
  then show ?case by (simp add: lawful_def)
qed

lemma law_step: "law s (fst (rpc_step (play n script ctor) ctor x s))"
proof (cases x)
  case (Act y)
  then show ?thesis by (simp add: rpc_step_def law_perform [OF lawful_play])
next
  case Timer
  then show ?thesis
    by (auto simp: rpc_step_def law_refl split: list.split intro!: law_trans [OF law_timers law_callback [OF lawful_play]])
qed

text \<open>So the law holds between a new service and every state it reaches.\<close>

lemma law_reach:
  "rpc_reach n script ctor s \<Longrightarrow> \<exists>d d' s0. Service True d d' = Inr s0 \<and> law s0 s"
proof (induction rule: rpc_reach.induct)
  case (created d d' s)
  then show ?case using law_refl by blast
next
  case (stepped s x)
  then show ?case using law_trans [OF _ law_step] by blast
qed

end

section \<open>A service ends once\<close>

text \<open>What is in the trace after the end.\<close>

definition after_end :: "('e, 'm) rpc_effect list \<Rightarrow> ('e, 'm) rpc_effect list" where
  "after_end tr = tl (dropWhile (\<lambda>x. x \<noteq> Emits EndEvent) tr)"

fun is_request :: "('e, 'm) rpc_effect \<Rightarrow> bool" where
  "is_request (Requested method bs i) = True"
| "is_request EndRequested = True"
| "is_request _ = False"

definition ends :: "('e, 'm) service \<Rightarrow> nat" where
  "ends s = count_list (trace s) (Emits EndEvent)"

definition end_requests :: "('e, 'm) service \<Rightarrow> nat" where
  "end_requests s = count_list (trace s) EndRequested"

lemma after_end_simps [simp]:
  "after_end [] = []"
  "after_end (x # xs) = (if x = Emits EndEvent then xs else after_end xs)"
  by (simp_all add: after_end_def)

lemma after_end_append:
  "after_end (tr @ xs) = (if Emits EndEvent \<in> set tr then after_end tr @ xs else after_end xs)"
  by (induction tr) auto

text \<open>The three laws: no request after the end; an end event for each request to end, and one more at most; no
  more than one if the implementation does nothing with the service when it is asked to end.\<close>

definition ended :: "('e, 'm) service \<Rightarrow> bool" where
  "ended s \<longleftrightarrow> (rpcImpl s \<longleftrightarrow> Emits EndEvent \<notin> set (trace s)) \<and>
     list_all (\<lambda>x. \<not> is_request x) (after_end (trace s))"

definition keeps_ended :: "('e, 'm) service \<Rightarrow> ('e, 'm) service \<Rightarrow> bool" where
  "keeps_ended s s' \<longleftrightarrow> (ended s \<longrightarrow> ended s')"

definition ends_counted :: "('e, 'm) service \<Rightarrow> ('e, 'm) service \<Rightarrow> bool" where
  "ends_counted s s' \<longleftrightarrow> (rpcImpl s' \<longrightarrow> rpcImpl s) \<and>
     ends s' + end_requests s \<le> ends s + end_requests s' + (if rpcImpl s \<and> \<not> rpcImpl s' then 1 else 0)"

definition silent_end :: "('e, 'q, 'm) script \<Rightarrow> bool" where
  "silent_end script \<longleftrightarrow> (\<forall>tr. fst (script (tr @ [EndRequested])) = [])"

definition ends_single :: "('e, 'q, 'm) script \<Rightarrow> ('e, 'm) service \<Rightarrow> ('e, 'm) service \<Rightarrow> bool" where
  "ends_single script s s' \<longleftrightarrow>
     (silent_end script \<and> (if rpcImpl s then ends s = 0 else ends s \<le> 1) \<longrightarrow> (if rpcImpl s' then ends s' = 0 else ends s' \<le> 1))"

interpretation no_requests: service_law script keeps_ended for script
  by unfold_locales (auto simp: keeps_ended_def ended_def after_end_append)

lemma ends_logged [simp]:
  "ends (logged x s) = ends s + (if x = Emits EndEvent then 1 else 0)"
  "end_requests (logged x s) = end_requests s + (if x = EndRequested then 1 else 0)"
  "ends (s\<lparr>rpcImpl := b\<rparr>) = ends s" "end_requests (s\<lparr>rpcImpl := b\<rparr>) = end_requests s"
  "ends (s\<lparr>methods := ms\<rparr>) = ends s" "end_requests (s\<lparr>methods := ms\<rparr>) = end_requests s"
  "ends (s\<lparr>timers := ts\<rparr>) = ends s" "end_requests (s\<lparr>timers := ts\<rparr>) = end_requests s"
  by (simp_all add: ends_def end_requests_def)

lemma ends_counted_trans: "ends_counted s s1 \<Longrightarrow> ends_counted s1 s2 \<Longrightarrow> ends_counted s s2"
  unfolding ends_counted_def by (cases "rpcImpl s"; cases "rpcImpl s1"; cases "rpcImpl s2") simp_all

lemma ends_counted_asked:
  "rpcImpl s \<Longrightarrow> ends_counted (logged EndRequested s) s1 \<Longrightarrow>
   ends_counted s s1 \<and> ends_counted s (logged (Emits EndEvent) (s1\<lparr>rpcImpl := False\<rparr>))"
  unfolding ends_counted_def by (cases "rpcImpl s1") simp_all

interpretation counted: service_law script ends_counted for script
  by (unfold_locales; (rule ends_counted_trans, assumption+ | rule ends_counted_asked, assumption+
    | simp add: ends_counted_def))

interpretation single: service_law script "ends_single script" for script
  by unfold_locales (auto simp: ends_single_def silent_end_def split: if_splits)

text \<open>C37. A service ends once: whatever is called, answered and ended in whatever order, by code outside or by the
  implementation, the listeners and the callbacks while the service calls them, and whatever these throw or
  catch, the service has its implementation as long as no end event was emitted, and after the first one the
  implementation gets no request, neither an ordinary one nor the one to end. There are at most as many end
  events as requests to end, and one more; a second one needs an implementation that uses the service while it
  is asked to end: if it does not, there is one end event at most.\<close>

theorem service_ends_once:
  assumes "rpc_reach n script ctor s"
  shows "(rpcImpl s \<longleftrightarrow> Emits EndEvent \<notin> set (trace s)) \<and>
    list_all (\<lambda>x. \<not> is_request x) (after_end (trace s)) \<and>
    count_list (trace s) (Emits EndEvent) \<le> count_list (trace s) EndRequested + 1 \<and>
    ((\<forall>tr. fst (script (tr @ [EndRequested])) = []) \<longrightarrow> count_list (trace s) (Emits EndEvent) \<le> 1)"
  using no_requests.law_reach [OF assms] counted.law_reach [OF assms] single.law_reach [OF assms]
  by (auto simp: Service_def keeps_ended_def ended_def ends_counted_def ends_single_def silent_end_def ends_def
      end_requests_def split: if_splits)

section \<open>Requests and responses\<close>

text \<open>Listeners, callbacks, or both do nothing with the service and throw nothing.\<close>

definition idle_listeners :: "('e, 'q, 'm) script \<Rightarrow> bool" where
  "idle_listeners script \<longleftrightarrow> (\<forall>tr ev. script (tr @ [Emits ev]) = ([], None))"

definition idle_callbacks :: "('e, 'q, 'm) script \<Rightarrow> bool" where
  "idle_callbacks script \<longleftrightarrow> (\<forall>tr i r. script (tr @ [Answered i r]) = ([], None))"

lemma play_idle: "script (trace s) = ([], thrown) \<Longrightarrow> play n script ctor s = (s, thrown)"
  by (cases n) simp_all

lemma idle_emit: "idle_listeners script \<Longrightarrow> emit_event (play n script ctor) ev s = (logged (Emits ev) s, None)"
  by (simp add: emit_event_def idle_listeners_def play_idle)

lemma idle_invoke: "idle_callbacks script \<Longrightarrow> invoke_callback (play n script ctor) i r s = (logged (Answered i r) s, None)"
  by (simp add: invoke_callback_def idle_callbacks_def play_idle)

text \<open>The classes of the protocol; their \<open>decode\<close> returns on all bytes.\<close>

definition returned_value :: "('a \<times> Reader) res \<Rightarrow> js_error + 'a" where
  "returned_value r = (case returned r of Some x \<Rightarrow> x | None \<Rightarrow> Inl (TypeError []))"

lemma returned_value_ok: "returned r = ok m \<Longrightarrow> returned_value r = Inr m"
  by (simp only: returned_value_def option.case)

definition protocol_ctor :: "(Request, Response) ctor" where
  "protocol_ctor =
     \<lparr>ct_encode = (\<lambda>q. written (Request_encode q)), ct_encodeDelimited = (\<lambda>q. written (Request_encodeDelimited q)),
      ct_decode = (\<lambda>bs. returned_value (Response_decode (Reader_create bs) None)),
      ct_decodeDelimited = (\<lambda>bs. returned_value (Response_decodeDelimited (Reader_create bs)))\<rparr>"

text \<open>An implementation that decodes the request, handles it and calls back with the bytes of the response.\<close>

definition serve :: "bool \<Rightarrow> bool \<Rightarrow> (jstring \<Rightarrow> Request \<Rightarrow> Response) \<Rightarrow> jstring \<Rightarrow> u8 list \<Rightarrow> ('e, Response) reply" where
  "serve delimited delimited' handler method bs =
     (case returned_value (if delimited then Request_decodeDelimited (Reader_create bs)
                           else Request_decode (Reader_create bs) None) of
        Inl err \<Rightarrow> (Some (Failed err), NoAnswer)
      | Inr q \<Rightarrow>
          (None, Encoded (if delimited' then written (Response_encodeDelimited (handler method q))
                          else written (Response_encode (handler method q)))))"

definition serves_at_once ::
  "bool \<Rightarrow> bool \<Rightarrow> (jstring \<Rightarrow> Request \<Rightarrow> Response) \<Rightarrow> ('e, Request, Response) script \<Rightarrow> bool" where
  "serves_at_once d d' handler script \<longleftrightarrow>
     (\<forall>tr method bs i. script (tr @ [Requested method bs i]) = ([(Reply i (serve d d' handler method bs), False)], None))"

lemma request_received:
  assumes "Request_valid q" "d \<longrightarrow> length (Request_bytes q) < 4294967296"
  shows "serve d d' handler method (if d then ct_encodeDelimited protocol_ctor q else ct_encode protocol_ctor q) =
    (None, Encoded (if d' then written (Response_encodeDelimited (handler method q))
                    else written (Response_encode (handler method q))))"
  using assms returned_value_ok [OF Request_codec.decode_encode [of q]] returned_value_ok [OF Request_codec.delimited [of q]]
  by (auto simp: serve_def protocol_ctor_def Request_encodeDelimited_def Request_decodeDelimited_def)

lemma response_decoded:
  assumes "Response_valid m" "responseDelimited s \<longrightarrow> length (Response_bytes m) < 4294967296"
  shows "decoded protocol_ctor s (Encoded (if responseDelimited s then written (Response_encodeDelimited m)
      else written (Response_encode m))) = Inr m"
  using assms returned_value_ok [OF Response_codec.decode_encode [of m]] returned_value_ok [OF Response_codec.delimited [of m]]
  by (auto simp: decoded_def protocol_ctor_def Response_encodeDelimited_def Response_decodeDelimited_def)

lemma decoded_frame [simp]:
  "decoded ctor (s\<lparr>methods := ms\<rparr>) r = decoded ctor s r" "decoded ctor (logged x s) r = decoded ctor s r"
  by (simp_all add: decoded_def logged_def split: rpc_answer.split)

lemma reply_can_happen: "Requested method bs i \<in> set (trace s) \<Longrightarrow> can_happen (Reply i r) s"
  by (force simp: can_happen_def list_ex_iff)

lemma method_of_call: "(ms @ [m]) ! length ms = m"
  by simp

lemma answered_at_once:
  assumes "rpcImpl s" "idle_listeners script" "idle_callbacks script" "decoded ctor s (Encoded bs') = Inr m"
    and bs: "bs = (if requestDelimited s then ct_encodeDelimited ctor q else ct_encode ctor q)"
    and script: "script (trace s @ [Requested method bs (length (methods s))]) =
      ([(Reply (length (methods s)) (None, Encoded bs'), False)], None)"
  shows "rpc_step (play (Suc n) script ctor) ctor (Act (Call method (Some q))) s =
    (s\<lparr>methods := methods s @ [method],
       trace := trace s @ [Requested method bs (length (methods s)), Emits (DataEvent m method),
         Answered (length (methods s)) (Inr m)]\<rparr>, None)"
proof -
  let ?i = "length (methods s)"
  let ?s = "logged (Requested method bs ?i) (s\<lparr>methods := methods s @ [method]\<rparr>)"
  have m: "methods ?s ! ?i = method" by (simp add: logged_def)
  have "perform (play n script ctor) ctor (Reply ?i (None, Encoded bs')) ?s =
    (logged (Answered ?i (Inr m)) (logged (Emits (DataEvent m method)) ?s), None)"
    using assms(2-4)
    by (simp add: perform_def m can_happen_def rpcCallback_def andthen_def idle_emit idle_invoke)
  then have "play (Suc n) script ctor ?s = (logged (Answered ?i (Inr m)) (logged (Emits (DataEvent m method)) ?s), None)"
    by (simp add: script)
  then show ?thesis
    using assms(1) by (simp add: rpc_step_def perform_def can_happen_def rpcCall_def Let_def bs [symmetric] del: play.simps)
      (simp add: logged_def)
qed

text \<open>C38. A call through a service of the protocol's classes whose implementation answers at once, with listeners and
  callbacks that leave the service alone and throw nothing: the implementation gets exactly the request, and the caller's callback gets, once and without an error, exactly the response it gives,
  after the data event; with either framing of the requests and of the responses.\<close>

theorem rpc_roundtrip:
  assumes "rpcImpl s" "idle_listeners script" "idle_callbacks script"
    and "serves_at_once (requestDelimited s) (responseDelimited s) handler script"
    and "Request_valid q" "requestDelimited s \<longrightarrow> length (Request_bytes q) < 4294967296"
    and "Response_valid (handler method q)" "responseDelimited s \<longrightarrow> length (Response_bytes (handler method q)) < 4294967296"
  shows "\<exists>bs. rpc_step (play (Suc n) script protocol_ctor) protocol_ctor (Act (Call method (Some q))) s =
    (s\<lparr>methods := methods s @ [method],
       trace := trace s @ [Requested method bs (length (methods s)), Emits (DataEvent (handler method q) method),
         Answered (length (methods s)) (Inr (handler method q))]\<rparr>, None)"
  using answered_at_once [OF assms(1-3) response_decoded [OF assms(7), of s] refl]
    request_received [OF assms(5,6), of "responseDelimited s" handler "method"] assms(4,8)
  by (intro exI) (simp add: serves_at_once_def)

definition sample_service :: "(unit, Response) service" where
  "sample_service = \<lparr>rpcImpl = True, requestDelimited = False, responseDelimited = False, methods = [], timers = [], trace = []\<rparr>"

definition sample_script :: "(unit, Request, Response) script" where
  "sample_script tr =
     (if tr = [] then ([], None)
      else case last tr of
        Requested method bs i \<Rightarrow> ([(Reply i (serve False False (\<lambda>_ _. Response_new) method bs), False)], None)
      | _ \<Rightarrow> ([], None))"

lemma sample_idle:
  "idle_listeners sample_script" "idle_callbacks sample_script"
  "serves_at_once False False (\<lambda>_ _. Response_new) sample_script" "silent_end sample_script"
  by (simp_all add: idle_listeners_def idle_callbacks_def serves_at_once_def silent_end_def sample_script_def)

theorem rpc_roundtrip_witness:
  "\<exists>bs. rpc_step (play 1 sample_script protocol_ctor) protocol_ctor (Act (Call [] (Some Request_new))) sample_service =
    (sample_service\<lparr>methods := [[]], trace := [Requested [] bs 0, Emits (DataEvent Response_new []),
       Answered 0 (Inr Response_new)]\<rparr>, None)"
  using rpc_roundtrip [of sample_service sample_script "\<lambda>_ _. Response_new" Request_new "[]" 0] sample_idle
  by (simp add: sample_service_def opt_ok_def Request_valid_def Request_new_def Response_valid_def Response_new_def
      del: play.simps)

text \<open>A service that is called, ended, called after that, and whose timer runs out.\<close>

definition sample_run :: "(unit, Response) service" where
  "sample_run =
     fold (\<lambda>x s. fst (rpc_step (play 1 sample_script protocol_ctor) protocol_ctor x s))
       [Act (End False), Act (Call [] (Some Request_new)), Timer] sample_service"

lemma sample_run_reach: "rpc_reach 1 sample_script protocol_ctor sample_run"
  unfolding sample_run_def fold_simps
  by (intro rpc_reach.stepped rpc_reach.created [of False False]) (simp add: Service_def sample_service_def)

lemma sample_play:
  "play n sample_script ctor (logged EndRequested s) = (logged EndRequested s, None)"
  by (rule play_idle) (simp add: sample_script_def)

lemma sample_run_trace:
  "trace sample_run = [EndRequested, Emits EndEvent, ListenersOff, Answered 0 (Inl AlreadyEnded)]"
  by (simp add: sample_run_def sample_service_def rpc_step_def perform_def can_happen_def end_service_def andthen_def
      idle_emit idle_invoke sample_idle sample_play rpcCall_def setTimeout_def del: play.simps)

theorem service_ends_once_witness:
  "\<not> rpcImpl sample_run \<and> count_list (trace sample_run) (Emits EndEvent) = 1 \<and>
   list_all (\<lambda>x. \<not> is_request x) [ListenersOff, Answered 0 (Inl AlreadyEnded) :: (unit, Response) rpc_effect]"
  using service_ends_once [OF sample_run_reach] by (simp add: sample_run_trace)

text \<open>The case that is left out: an implementation that answers a call with nothing while it is asked to end makes
  the service end twice, since \<open>end\<close> does not look again whether it still has its implementation.\<close>

theorem end_event_twice:
  assumes "rpcImpl s" "Requested method bs i \<in> set (trace s)" "idle_listeners script"
    and "script (trace s @ [EndRequested]) = ([(Reply i (None, NoAnswer), False)], None)"
  shows "rpc_step (play (Suc n) script ctor) ctor (Act (End False)) s =
    (s\<lparr>rpcImpl := False,
       trace := trace s @ [EndRequested, Emits EndEvent, ListenersOff, Emits EndEvent, ListenersOff]\<rparr>, None)"
proof -
  have c: "Requested method bs i \<in> set (trace (logged EndRequested s))" using assms(2) by simp
  have "play (Suc n) script ctor (logged EndRequested s) =
    (logged ListenersOff (logged (Emits EndEvent) ((logged EndRequested s)\<lparr>rpcImpl := False\<rparr>)), None)"
    using assms(1,3,4) by (simp add: perform_def reply_can_happen [OF c] rpcCallback_def end_service_def andthen_def idle_emit)
  then show ?thesis
    using assms(1,3) by (simp add: rpc_step_def perform_def can_happen_def end_service_def andthen_def idle_emit
        del: play.simps) (simp add: logged_def)
qed

section \<open>Callbacks that throw, answers that are none\<close>

text \<open>C39. A callback that throws runs twice: if the implementation answers at once, and the listeners do nothing and
  the callback nothing but throw, the exception of the callback
  passes through it into the \<open>catch\<close> of \<open>rpcCall\<close>, which takes it for a failure of the implementation,
  emits it as an error and schedules the same callback with it, although the call had succeeded.\<close>

theorem throwing_callback_runs_twice:
  assumes "rpcImpl s" "timers s = []" "idle_listeners script"
    and "\<And>tr bs i. script (tr @ [Requested method bs i]) = ([(Reply i (None, Instance m), False)], None)"
    and "\<And>tr. script (tr @ [Answered (length (methods s)) (Inr m)]) = ([], Some e)"
    and "\<And>tr. script (tr @ [Answered (length (methods s)) (Inl e)]) = ([], thrown)"
  shows "\<exists>bs. trace (fst (rpc_step (play (Suc n) script ctor) ctor Timer
      (fst (rpc_step (play (Suc n) script ctor) ctor (Act (Call method (Some q))) s)))) =
    trace s @ [Requested method bs (length (methods s)), Emits (DataEvent m method), Answered (length (methods s)) (Inr m),
      Emits (ErrorEvent e method), Answered (length (methods s)) (Inl e)]"
proof -
  let ?i = "length (methods s)"
  let ?bs = "if requestDelimited s then ct_encodeDelimited ctor q else ct_encode ctor q"
  let ?s = "logged (Requested method ?bs ?i) (s\<lparr>methods := methods s @ [method]\<rparr>)"
  have m: "methods ?s ! ?i = method" by (simp add: logged_def)
  have t: "play k script ctor (logged (Answered ?i (Inr m)) s') = (logged (Answered ?i (Inr m)) s', Some e)"
    "play k script ctor (logged (Answered ?i (Inl e)) s') = (logged (Answered ?i (Inl e)) s', thrown)" for k s'
    using assms(5,6) by (simp_all add: play_idle)
  have "perform (play n script ctor) ctor (Reply ?i (None, Instance m)) ?s =
    (logged (Answered ?i (Inr m)) (logged (Emits (DataEvent m method)) ?s), Some e)"
    using assms(3)
    by (simp add: perform_def m can_happen_def rpcCallback_def decoded_def andthen_def idle_emit invoke_callback_def t)
  then have w: "play (Suc n) script ctor ?s = (logged (Answered ?i (Inr m)) (logged (Emits (DataEvent m method)) ?s), Some e)"
    by (simp add: assms(4))
  let ?t = "logged (Emits (ErrorEvent e method)) (logged (Answered ?i (Inr m)) (logged (Emits (DataEvent m method)) ?s))"
  have 1: "rpc_step (play (Suc n) script ctor) ctor (Act (Call method (Some q))) s = (setTimeout ?i e ?t, None)"
    using assms(1,3) w
    by (simp add: rpc_step_def perform_def can_happen_def rpcCall_def Let_def andthen_def idle_emit del: play.simps)
  have "setTimeout ?i e ?t = ?t\<lparr>timers := [(?i, e)]\<rparr>" using assms(2) by (simp add: setTimeout_def)
  then have 2: "rpc_step (play (Suc n) script ctor) ctor Timer (setTimeout ?i e ?t) =
    (logged (Answered ?i (Inl e)) (?t\<lparr>timers := []\<rparr>), thrown)"
    by (simp add: rpc_step_def invoke_callback_def t del: play.simps)
  show ?thesis by (rule exI [of _ ?bs]) (simp add: 1 2 del: play.simps)
qed

definition throwing_script :: "(nat, Request, Response) script" where
  "throwing_script tr =
     (if tr = [] then ([], None)
      else case last tr of
        Requested method bs i \<Rightarrow> ([(Reply i (None, Instance Response_new), False)], None)
      | Answered i (Inr m) \<Rightarrow> ([], Some (Reported 7))
      | _ \<Rightarrow> ([], None))"

theorem throwing_callback_runs_twice_witness:
  "\<exists>bs. trace (fst (rpc_step (play 1 throwing_script protocol_ctor) protocol_ctor Timer
      (fst (rpc_step (play 1 throwing_script protocol_ctor) protocol_ctor (Act (Call [] (Some Request_new)))
      \<lparr>rpcImpl = True, requestDelimited = False, responseDelimited = False, methods = [], timers = [], trace = []\<rparr>)))) =
    [Requested [] bs 0, Emits (DataEvent Response_new []), Answered 0 (Inr Response_new),
     Emits (ErrorEvent (Reported 7) []), Answered 0 (Inl (Reported 7))]"
  using throwing_callback_runs_twice [of "\<lparr>rpcImpl = True, requestDelimited = False, responseDelimited = False,
      methods = [], timers = [], trace = []\<rparr>" throwing_script "[]" Response_new "Reported 7" None 0 protocol_ctor Request_new]
  by (simp add: throwing_script_def idle_listeners_def del: play.simps)

text \<open>An answer that is \<open>null\<close> ends the service and leaves the callback of the call uncalled.\<close>

theorem null_answer_drops_call:
  assumes "rpcImpl s" "Requested method bs i \<in> set (trace s)" "idle_listeners script"
  shows "rpc_step (play n script ctor) ctor (Act (Reply i (None, NoAnswer))) s =
    (s\<lparr>rpcImpl := False, trace := trace s @ [Emits EndEvent, ListenersOff]\<rparr>, None)"
  using assms(1,3) by (simp add: rpc_step_def perform_def reply_can_happen [OF assms(2)] rpcCallback_def end_service_def
      andthen_def idle_emit del: play.simps) (simp add: logged_def)

end
