(* ===== verification/Spec2Isabelle.thy ===== *)
theory Spec2Isabelle
  imports Unknown ProtocolPlain Base64 Pool Emitter Client Navigation Api FileOps Floats Rpc
begin

text \<open>
  The JavaScript of tilbo's graphical file browser that talks to the daemon. Two files hold the protobuf
  client library: \<open>src/internal/ipc/gen/ipc_generated.js\<close>, the message classes generated from
  \<open>src/proto\<close>, and \<open>src/internal/quickshell/services/qml_ipc.mjs\<close>, the bundle of the same classes
  with the minimal runtime of protobufjs. The Quickshell window itself speaks the JSON form of the
  protocol: \<open>services/TilboDaemon.qml\<close> is its client, and \<open>windows/browser/BrowserNavigation.qml\<close>
  decides what to ask for and what to show, \<open>windows/browser/BrowserFileOperations.qml\<close> what to do with files.

  \<^bold>\<open>The program.\<close> A message is an object. \<open>X.encode(message, writer)\<close> appends its fields to a
  \<open>Writer\<close>, a list of pending operations, and \<open>finish\<close> runs them into one \<open>Uint8Array\<close>.
  \<open>X.decode(reader, length)\<close> loops over the tags a \<open>Reader\<close> finds and fills a new object.
  \<open>X.verify\<close>, \<open>X.fromObject\<close>, \<open>X.toObject\<close> and \<open>toJSON\<close> check arbitrary values and convert
  them to instances and back. The envelope that goes over the socket nests a request, a response or an
  event, which nest the messages proper. The client numbers its requests, keeps the callback of each until
  the response with its number comes, and answers them when the connection is lost; the navigation
  makes such calls and changes its lists when they are answered, and the file operations do the same with the
  selection.

  \<^bold>\<open>The theories of the wire format.\<close>
  \<^item> \<open>Prelude\<close>: the integer types, results (\<open>None\<close>: does not return, \<open>Inl\<close>: throws,
    \<open>Inr\<close>: returns), typed arrays, and the lemmas on words and buffers all others use.
    \<open>JsObject\<close>: plain objects as lists of properties in the order of \<open>Object.keys\<close>.
  \<^item> \<open>LongBits\<close>: 64-bit integers as two halves (\<open>require_longbits\<close>), with two's complement,
    doubles, zig-zag, lengths and hashes.
  \<^item> \<open>Varint\<close>: the loops \<open>writeVarint32\<close> and \<open>writeVarint64\<close> against the specification
    \<open>varint_bytes\<close>.
  \<^item> \<open>Utf8\<close>: \<open>utf8.length\<close>, \<open>utf8.write\<close> and \<open>utf8.read\<close> (\<open>require_utf8\<close>) against
    the specification \<open>utf8_bytes\<close>.
  \<^item> \<open>Writer\<close> (\<open>require_writer\<close>): \<open>emits f bs\<close> says what a method appends; the invariant
    \<open>w_ok\<close> ties every length the writer keeps to the bytes behind it.
  \<^item> \<open>Reader\<close> (\<open>require_reader\<close>): every method, with the proofs that it returns and moves
    forward (\<open>advances\<close>, \<open>skips\<close>); \<open>Wire\<close>: \<open>reads rd bs v\<close>, what a method returns for
    the bytes the writer makes.
  \<^item> \<open>Codec\<close>: the forms the generated methods are made of, the decoding loop and its termination,
    and the two interfaces \<open>field_codec\<close> and \<open>message_codec\<close> with their instances for the scalar types.
  \<^item> \<open>Daemon\<close>, \<open>Query\<close>, \<open>Files\<close>, \<open>Desktop\<close>, \<open>Protocol\<close>: the 99 message classes,
    each a record with its constructor, \<open>encode\<close>, \<open>decode\<close> and the delimited variants, its
    specification, and the interpretation of \<open>message_codec\<close>. The dependencies follow the nesting.
  \<^item> \<open>Unknown\<close>: fields a class does not know, and that every wire type is skipped exactly.
  \<^item> \<open>Base64\<close>, \<open>Pool\<close>, \<open>Emitter\<close>: the rest of the runtime, \<open>@protobufjs/base64\<close> with
    \<open>Writer.bytes\<close> of a text, \<open>@protobufjs/pool\<close> behind \<open>Writer.alloc\<close> with its 32-bit
    arithmetic, and \<open>@protobufjs/eventemitter\<close>, whose listeners may call it while they are called.
  \<^item> \<open>Floats\<close>: \<open>@protobufjs/float\<close> for an engine without typed arrays, against the formats of IEEE 754:
    the readers agree with the typed arrays, the writer of doubles exactly where the exponent it computes is right
    (\<open>is_floor_log2\<close>; the logarithm of the engine is a parameter), the writer of floats given the exact
    exponents (\<open>exact_log2\<close>).
  \<^item> \<open>Rpc\<close>: the rpc service and \<open>asPromise\<close>, as operations on the state of a service with a parameter for
    what the code they call makes of it; \<open>play\<close> gives this for a script of the implementation, the listeners and
    the callbacks, which may use the service while it calls them, up to any depth. \<open>rpc_reach\<close> are the states
    any order of calls, replies, timers and \<open>end\<close> leads to; \<open>service_law\<close> is the interface by which a relation
    kept by the single changes is kept by all operations.

  \<^bold>\<open>The theories of plain objects.\<close>
  \<^item> \<open>JsValue\<close>: the values of JavaScript with its numbers, and the conversions the classes rely on
    (\<open>String\<close>, \<open>Number\<close>, \<open>parseInt\<close>, truth); \<open>Prototypes\<close>: the defaults the prototypes of the
    99 classes hold, and the lookup of a property.
  \<^item> \<open>Plain\<close>: the forms the generated constructors, \<open>verify\<close>, \<open>fromObject\<close> and \<open>toObject\<close> are
    made of, with the accessors of the oneofs; \<open>PlainLaws\<close>: their laws, and the interfaces
    \<open>value_plain\<close>, \<open>item_plain\<close> and \<open>message_plain\<close> (an instance verifies, survives the round trip
    through every form of \<open>toObject\<close> without defaults, and \<open>verify\<close> guards \<open>fromObject\<close>);
    \<open>PlainFields\<close>: the interpretations for the types of the fields.
  \<^item> \<open>DaemonPlain\<close>, \<open>QueryPlain\<close>, \<open>FilesPlain\<close>, \<open>DesktopPlain\<close>, \<open>ProtocolPlain\<close>: the
    methods of the 99 classes and the interpretation of \<open>message_plain\<close> for each.

  \<^bold>\<open>The theories of the window.\<close>
  \<^item> \<open>Client\<close> (\<open>TilboDaemon.qml\<close>): the registry of pending calls, every line from the daemon, the loss
    of the connection, where a callback may throw; \<open>balanced\<close> and \<open>accounts\<close> keep the books of the calls
    sent, waiting, answered and lost.
  \<^item> \<open>Navigation\<close> (\<open>BrowserNavigation.qml\<close> and what drives it): history, views, loading, search, sorting
    and tags as steps on one state, with the calls in flight; \<open>browse_step\<close> is the specification of the
    history, \<open>arriving\<close> the invariant by which the directory view settles, \<open>on_the_way\<close> that with the tags.
  \<^item> \<open>Api\<close> (the public functions of \<open>TilboDaemon.qml\<close>, the settings of \<open>BrowserWindow.qml\<close>): the request
    each of the 35 functions sends and what its callback gets for a response, against the message classes
    (\<open>api_message\<close>, \<open>answer_args\<close>).
  \<^item> \<open>FileOps\<close> (\<open>BrowserFileOperations.qml\<close>): selection, deletion, clipboard, drops and zoom as commands and
    replies; \<open>ops_reach\<close> are the states any interleaving of them leads to, \<open>details_ok\<close> their invariant.
  \<^item> this theory: the properties of the protocol and of its parts.

  \<^bold>\<open>Choices.\<close> The window runs in Qt's engine, without Node's \<open>Buffer\<close> and without \<open>Long\<close>:
  \<open>Writer\<close> and \<open>Reader\<close> are the plain ones and 64-bit fields are numbers. An integer field is an
  \<open>int\<close>, a \<open>float\<close> or \<open>double\<close> field its bit pattern (the typed arrays that convert them are
  the engine's). A field the object does not own (it reads the default of the prototype) is \<open>None\<close>.
  A map field is the list of the entries in the order \<open>Object.keys\<close> gives. Array indices are natural
  numbers; a read past the end of a typed array gives \<open>undefined\<close>, which is 0 under a bitwise operator
  and fails every comparison. The decoding loop, \<open>skipType\<close> and the emitter are \<open>partial_function\<close>s
  with no bound; that they return is proved from the progress of the cursor and the length of the list.
  The depth of the call stack is not bounded in the model. The code that is called back, what it throws,
  \<open>JSON.parse\<close>, \<open>toLowerCase\<close>, the logarithm, the longest array an engine allocates and the daemon's answers
  are parameters. The number of a call is a QML \<open>int\<close>,
  so the theorems on the client speak of fewer than \<open>2\<^sup>31\<close> calls.

  \<^bold>\<open>Not modelled.\<close> \<open>BufferWriter\<close> and \<open>BufferReader\<close>, which need Node;
  the loader of modules and the classes of errors; strings in 64-bit fields; the socket
  and its timer; the declarations of what the window looks like. The daemon is written in Go.
\<close>

section \<open>Samples\<close>

text \<open>An envelope with a search in it, for the witnesses: a repeated field, a map whose keys are an
  array index and a name, a surrogate pair, and the largest number of a request.\<close>

definition sample_search :: SearchRequest where
  "sample_search = SearchRequest_new
     \<lparr>SearchRequest_tags := [[114, 101, 100]], SearchRequest_tagsAny := Some True,
      SearchRequest_metaFilters := [([49], [120]), ([107, 101, 121], [])],
      SearchRequest_ftsQuery := Some [0xD83D, 0xDE00], SearchRequest_limit := Some 300\<rparr>"

definition sample_request :: Request where
  "sample_request = Request_new\<lparr>Request_search := Some sample_search\<rparr>"

definition sample_envelope :: Envelope where
  "sample_envelope = Envelope_new
     \<lparr>Envelope_requestId := Some 9007199254740992, Envelope_request := Some sample_request\<rparr>"

definition sample_answer :: Envelope where
  "sample_answer = Envelope_new\<lparr>Envelope_response := Some Response_new\<rparr>"

lemmas sample_bytes = sample_search_def SearchRequest_bytes_def SearchRequest_new_def
  opt_bytes_def all_bytes_def field_bytes_def entry_bytes_def delim_def string_bytes_def
  uint32_bytes_def int64_bytes_def bool_bytes_def varint_bytes_small varint_bytes_big utf8_bytes.simps
  is_pair_def unit_bytes_def pair_bytes_def pair_nat_def low_follows_def

lemma sample_search_bytes:
  "SearchRequest_bytes sample_search =
   [10, 3, 114, 101, 100, 16, 1, 34, 6, 10, 1, 49, 18, 1, 120, 34, 7, 10, 3, 107, 101, 121, 18, 0,
    42, 4, 240, 159, 152, 128, 48, 172, 2]"
  by (simp add: sample_bytes)

lemma sample_request_bytes:
  "Request_bytes sample_request = 10 # 33 # SearchRequest_bytes sample_search"
  by (simp add: Request_bytes_def sample_request_def Request_new_def sample_search_bytes opt_bytes_def
      field_bytes_def delim_def uint32_bytes_def varint_bytes_small)

lemma sample_search_valid: "SearchRequest_valid sample_search"
  by (simp add: SearchRequest_valid_def sample_search_def SearchRequest_new_def string_ok_def chunk_safe_def
      opt_ok_def uint32_ok_def map_ok_def entry_ok_def entry_bytes_def field_bytes_def string_bytes_def delim_def
      uint32_bytes_def varint_bytes_small utf8_bytes.simps is_pair_def unit_bytes_def low_follows_def
      js_object_def js_put_def proto_key_def array_index_def decimal_def)

lemma sample_valid: "Envelope_valid sample_envelope"
  by (simp add: Envelope_valid_def sample_envelope_def Envelope_new_def opt_ok_def uint64_ok_def
      Request_valid_def sample_request_bytes sample_search_bytes)
    (simp add: sample_request_def Request_new_def sample_search_valid sample_search_bytes)

lemma sample_answer_valid: "Envelope_valid sample_answer"
  by (simp add: Envelope_valid_def sample_answer_def Envelope_new_def opt_ok_def Response_valid_def
      Response_bytes_def Response_new_def opt_bytes_def)

section \<open>Messages on the wire\<close>

text \<open>C1. The round trip of the protocol: what \<open>Envelope.encode\<close> and \<open>finish\<close> make of an
  envelope, \<open>Envelope.decode\<close> reads back unchanged, whatever requests, responses and events are
  nested in it. The hypothesis bounds the values (strings the reader's chunks hold, integers a
  double represents, objects with keys of their own) and nothing else.\<close>

theorem envelope_roundtrip:
  assumes "Envelope_valid m"
  shows "returned
    (Envelope_decode (Reader_create (written (Envelope_encode m))) None) = ok m"
  by (rule Envelope_codec.decode_encode [OF assms])

theorem envelope_roundtrip_witness:
  "returned
    (Envelope_decode (Reader_create (written (Envelope_encode sample_envelope))) None) =
   ok sample_envelope"
  by (rule envelope_roundtrip [OF sample_valid])

text \<open>C2. \<open>Envelope.decode\<close> returns on every input, well-formed or not: it throws or gives a
  message, whatever the bytes and whatever length the caller passes.\<close>

theorem envelope_decode_returns:
  "\<exists>result. Envelope_decode (Reader_create bs) bound = Some result"
  using Envelope_codec.decode_total [of bs bound] by simp

text \<open>C3. When \<open>Envelope.decode\<close> returns a message it has used the whole buffer: the reader it leaves
  behind still has the same bytes, and its position is the end of the buffer or one byte behind it. Nothing is
  said of the position where it throws.\<close>

theorem envelope_decode_bounds:
  assumes "Envelope_decode (Reader_create bs) None = ok (m, r)"
  shows "length bs \<le> r_pos r \<and> r_pos r \<le> length bs + 1 \<and> r_buf r = bs"
  using Envelope_codec.decode_end [OF assms] by simp

theorem envelope_decode_bounds_witness:
  "length (Envelope_bytes sample_envelope) \<le> r_pos (r_move (length (Envelope_bytes sample_envelope))
     (Reader_create (Envelope_bytes sample_envelope)))"
  using envelope_decode_bounds [OF Envelope_codec.decode_bytes [OF sample_valid]] by blast

lemma put_all_lookup:
  "distinct (map fst s) \<Longrightarrow>
   map_of (fold js_put ps s) k = (if k = proto_key then map_of s k else (map_of s ++ map_of (rev ps)) k)"
proof (induction ps arbitrary: s)
  case (Cons p ps)
  have d: "distinct (map fst (js_put p s))" using Cons.prems by (rule js_put_distinct)
  show ?case
  proof (cases "fst p = proto_key")
    case True
    then have "js_put p s = s" by (simp add: js_put_def)
    then show ?thesis using Cons.IH [OF Cons.prems] True by (cases p) (auto simp: map_add_def split: option.split)
  next
    case False
    then show ?thesis
      using Cons.IH [OF d] js_put_lookup [OF Cons.prems False] by (cases p) (auto simp: map_add_def split: option.split)
  qed
qed simp

lemma put_object:
  assumes "js_object ps" "js_object s"
  shows "map_of (fold js_put ps s) = map_of s ++ map_of ps"
proof
  fix k
  have e: "distinct (map fst ([] :: (jstring \<times> 'a) list))" by simp
  have "distinct (map fst (fold js_put ps s))" if "distinct (map fst s)" for ps and s :: "(jstring \<times> 'a) list"
    using that by (induction ps arbitrary: s) (simp_all add: js_put_distinct)
  then have d: "distinct (map fst s)" using assms(2) e unfolding js_object_def by metis
  have "map_of ps k = (if k = proto_key then None else map_of (rev ps) k)"
    using put_all_lookup [OF e, of ps k] assms(1) by (simp add: js_object_def)
  then show "map_of (fold js_put ps s) k = (map_of s ++ map_of ps) k"
    using put_all_lookup [OF d, of ps k] by (simp add: map_add_def)
qed

text \<open>C4. Decoding the bytes of two messages one after the other merges them: a field of the second one
  replaces that of the first, a nested message as a whole, as in an envelope; repeated fields are appended and maps
  updated entry by entry, as in a search result, which has tags and metadata.\<close>

theorem envelope_decode_concat:
  assumes "Envelope_valid a" "Envelope_valid b" "FileResult_valid c" "FileResult_valid d"
  shows "returned (Envelope_decode (Reader_create (Envelope_bytes a @ Envelope_bytes b)) None) = ok
      \<lparr>Envelope_requestId = (case Envelope_requestId b of None \<Rightarrow> Envelope_requestId a | Some n \<Rightarrow> Some n),
       Envelope_request = (case Envelope_request b of None \<Rightarrow> Envelope_request a | Some q \<Rightarrow> Some q),
       Envelope_response = (case Envelope_response b of None \<Rightarrow> Envelope_response a | Some r \<Rightarrow> Some r),
       Envelope_event = (case Envelope_event b of None \<Rightarrow> Envelope_event a | Some e \<Rightarrow> Some e)\<rparr> \<and>
    (\<exists>m. returned (FileResult_decode (Reader_create (FileResult_bytes c @ FileResult_bytes d)) None) = ok m \<and>
      FileResult_tags m = FileResult_tags c @ FileResult_tags d \<and>
      map_of (FileResult_metadata m) = map_of (FileResult_metadata c) ++ map_of (FileResult_metadata d) \<and>
      FileResult_path m = (case FileResult_path d of None \<Rightarrow> FileResult_path c | Some p \<Rightarrow> Some p) \<and>
      FileResult_score m = (case FileResult_score d of None \<Rightarrow> FileResult_score c | Some x \<Rightarrow> Some x))"
proof (rule conjI)
  show "returned (Envelope_decode (Reader_create (Envelope_bytes a @ Envelope_bytes b)) None) = ok
      \<lparr>Envelope_requestId = (case Envelope_requestId b of None \<Rightarrow> Envelope_requestId a | Some n \<Rightarrow> Some n),
       Envelope_request = (case Envelope_request b of None \<Rightarrow> Envelope_request a | Some q \<Rightarrow> Some q),
       Envelope_response = (case Envelope_response b of None \<Rightarrow> Envelope_response a | Some r \<Rightarrow> Some r),
       Envelope_event = (case Envelope_event b of None \<Rightarrow> Envelope_event a | Some e \<Rightarrow> Some e)\<rparr>"
    unfolding Envelope_codec.decode_append [OF assms(1,2)] by (simp add: Envelope_merge_def or_else_def)
  have "js_object (FileResult_metadata c)" "js_object (FileResult_metadata d)"
    using assms(3,4) by (simp_all add: FileResult_valid_def map_ok_def)
  then have "map_of (FileResult_metadata (FileResult_merge c d)) = map_of (FileResult_metadata c) ++ map_of (FileResult_metadata d)"
    by (simp add: FileResult_merge_def put_object)
  then show "\<exists>m. returned (FileResult_decode (Reader_create (FileResult_bytes c @ FileResult_bytes d)) None) = ok m \<and>
      FileResult_tags m = FileResult_tags c @ FileResult_tags d \<and>
      map_of (FileResult_metadata m) = map_of (FileResult_metadata c) ++ map_of (FileResult_metadata d) \<and>
      FileResult_path m = (case FileResult_path d of None \<Rightarrow> FileResult_path c | Some p \<Rightarrow> Some p) \<and>
      FileResult_score m = (case FileResult_score d of None \<Rightarrow> FileResult_score c | Some x \<Rightarrow> Some x)"
    unfolding FileResult_codec.decode_append [OF assms(3,4)]
    by (intro exI [of _ "FileResult_merge c d"]) (simp add: FileResult_merge_def or_else_def)
qed

definition tagged_result :: FileResult where
  "tagged_result = FileResult_new\<lparr>FileResult_tags := [[120]], FileResult_metadata := [([107], [118])]\<rparr>"

definition other_result :: FileResult where
  "other_result = FileResult_new\<lparr>FileResult_tags := [[121]], FileResult_metadata := [([107], [119])]\<rparr>"

lemma results_valid: "FileResult_valid tagged_result" "FileResult_valid other_result"
  by (simp_all add: FileResult_valid_def tagged_result_def other_result_def FileResult_new_def string_ok_def chunk_safe_def
      opt_ok_def map_ok_def entry_ok_def entry_bytes_def field_bytes_def string_bytes_def delim_def uint32_bytes_def
      varint_bytes_small utf8_bytes.simps is_pair_def unit_bytes_def low_follows_def js_object_def js_put_def proto_key_def
      array_index_def decimal_def)

theorem envelope_decode_concat_witness:
  "returned
    (Envelope_decode (Reader_create (Envelope_bytes sample_envelope @ Envelope_bytes sample_answer)) None) =
   ok (sample_envelope\<lparr>Envelope_response := Some Response_new\<rparr>) \<and>
   (\<exists>m. returned (FileResult_decode (Reader_create (FileResult_bytes tagged_result @ FileResult_bytes other_result)) None) = ok m \<and>
     FileResult_tags m = [[120], [121]] \<and> map_of (FileResult_metadata m) [107] = Some [119])"
  using envelope_decode_concat [OF sample_valid sample_answer_valid results_valid]
  by (auto simp: sample_envelope_def sample_answer_def Envelope_new_def tagged_result_def other_result_def FileResult_new_def)

text \<open>C5. Forward compatibility: a field with a number the client does not know, of any wire type
  and with groups nested to any depth, is skipped, and the fields around it are read as if it
  were not there.\<close>

theorem envelope_ignores_unknown:
  assumes "Envelope_valid a" "Envelope_valid b" "4 < number" "number < 536870912" "unknown_ok u"
  shows "returned
    (Envelope_decode (Reader_create (Envelope_bytes a @ unknown_bytes number u @ Envelope_bytes b)) None) =
    ok (Envelope_merge a b)"
proof -
  let ?tag = "word_of_nat (tag_of number (wire_type u)) :: u32"
  have no: "tag_no ?tag = word_of_nat number" using assms(4) wire_type_less by (intro tag_no_of)
  have "tag_no ?tag \<noteq> 1" "tag_no ?tag \<noteq> 2" "tag_no ?tag \<noteq> 3" "tag_no ?tag \<noteq> 4"
    using number_eq [OF assms(4), of 1] number_eq [OF assms(4), of 2] number_eq [OF assms(4), of 3]
      number_eq [OF assms(4), of 4] assms(3)
    unfolding no by simp_all
  then have "parses Envelope_decode_field (unknown_bytes number u) c c" for c
    by (intro parses_unknown assms) (simp add: Envelope_decode_field_def)
  then show ?thesis
    using Envelope_codec.decode_around assms(1,2) by blast
qed

theorem envelope_ignores_unknown_witness:
  "returned
    (Envelope_decode (Reader_create (Envelope_bytes sample_envelope @
       unknown_bytes 7 (UGroup [(1, UVarint 300), (2, UGroup [(3, UDelim [1, 2])])]) @
       Envelope_bytes sample_answer)) None) =
   ok (Envelope_merge sample_envelope sample_answer)"
  by (rule envelope_ignores_unknown [OF sample_valid sample_answer_valid]) simp_all

text \<open>The members of a \<open>oneof\<close> do not exclude each other: an envelope that carries first a
  request and then a response comes out with both set, where the protocol says that the last
  one wins.\<close>

theorem envelope_oneof_keeps_both:
  assumes "Envelope_valid a" "Envelope_valid b" "Envelope_request a = Some q"
    "Envelope_request b = None" "Envelope_response b = Some p"
  shows "\<exists>m. returned
      (Envelope_decode (Reader_create (Envelope_bytes a @ Envelope_bytes b)) None) = ok m \<and>
    Envelope_request m = Some q \<and> Envelope_response m = Some p"
  using Envelope_codec.decode_append [OF assms(1,2)] assms(3-5)
  by (intro exI [of _ "Envelope_merge a b"]) (simp add: Envelope_merge_def)

theorem envelope_oneof_keeps_both_witness:
  "\<exists>m. returned
      (Envelope_decode (Reader_create (Envelope_bytes sample_envelope @ Envelope_bytes sample_answer)) None) = ok m \<and>
    Envelope_request m = Some sample_request \<and> Envelope_response m = Some Response_new"
  by (rule envelope_oneof_keeps_both [OF sample_valid sample_answer_valid])
    (simp_all add: sample_envelope_def sample_answer_def Envelope_new_def)

text \<open>\<open>encodeDelimited\<close> puts the length of the message in front of its bytes and
  \<open>decodeDelimited\<close> reads the message back.\<close>

theorem envelope_delimited_roundtrip:
  assumes "Envelope_valid m" "length (Envelope_bytes m) < 4294967296"
  shows "returned
    (Envelope_decodeDelimited (Reader_create (written (Envelope_encodeDelimited m)))) = ok m"
  unfolding Envelope_encodeDelimited_def Envelope_decodeDelimited_def
  by (rule Envelope_codec.delimited [OF assms])

theorem envelope_delimited_roundtrip_witness:
  "returned
    (Envelope_decodeDelimited (Reader_create (written (Envelope_encodeDelimited sample_answer)))) =
   ok sample_answer"
  by (rule envelope_delimited_roundtrip [OF sample_answer_valid])
    (simp add: Envelope_bytes_def sample_answer_def Envelope_new_def opt_bytes_def field_bytes_def delim_def
      uint32_bytes_def varint_bytes_small Response_bytes_def Response_new_def)

text \<open>C30. What travels: the bytes \<open>finish\<close> returns for an envelope are the tag and the value of
  each field that is set, in the order of the field numbers, a nested message behind its length.\<close>

theorem envelope_bytes:
  assumes "Envelope_valid m"
  shows "written (Envelope_encode m) =
    opt_bytes 8 int64_bytes (Envelope_requestId m) @
    opt_bytes 18 (\<lambda>v. delim (Request_bytes v)) (Envelope_request m) @
    opt_bytes 26 (\<lambda>v. delim (Response_bytes v)) (Envelope_response m) @
    opt_bytes 34 (\<lambda>v. delim (Event_bytes v)) (Envelope_event m)"
  using Envelope_codec.finish_encode [OF assms] by (simp add: Envelope_bytes_def)

theorem envelope_bytes_witness:
  "written (Envelope_encode sample_answer) = [26, 0]"
  unfolding envelope_bytes [OF sample_answer_valid]
  by (simp add: sample_answer_def Envelope_new_def opt_bytes_def field_bytes_def delim_def
      uint32_bytes_def varint_bytes_small Response_bytes_def Response_new_def)

text \<open>A directory listing of any length survives the wire entry by entry, in order.\<close>

theorem listing_roundtrip:
  assumes "ListDirectoryResponse_valid m"
  shows "map_option (map_sum id (ListDirectoryResponse_entries \<circ> fst))
    (ListDirectoryResponse_decode (Reader_create
       (written (ListDirectoryResponse_encode m))) None) =
    ok (ListDirectoryResponse_entries m)"
  using ListDirectoryResponse_codec.decode_bytes [OF assms]
  by (simp add: ListDirectoryResponse_codec.finish_encode [OF assms])

definition sample_entry :: DirEntry where
  "sample_entry = DirEntry_new\<lparr>DirEntry_name := Some [97], DirEntry_isDir := Some True, DirEntry_mtime := Some (- 1)\<rparr>"

theorem listing_roundtrip_witness:
  "map_option (map_sum id (ListDirectoryResponse_entries \<circ> fst))
    (ListDirectoryResponse_decode (Reader_create (fst (w_finish (ListDirectoryResponse_encode
       (ListDirectoryResponse_new\<lparr>ListDirectoryResponse_entries := [sample_entry, DirEntry_new]\<rparr>)
       Writer_create)))) None) =
   ok [sample_entry, DirEntry_new]"
  by (subst listing_roundtrip)
    (simp_all add: ListDirectoryResponse_valid_def ListDirectoryResponse_new_def sample_entry_def DirEntry_valid_def
      DirEntry_new_def opt_ok_def string_ok_def chunk_safe_def int64_ok_def DirEntry_bytes_def opt_bytes_def
      field_bytes_def delim_def string_bytes_def uint32_bytes_def int64_bytes_def bool_bytes_def
      varint_bytes_small varint_bytes_big utf8_bytes.simps is_pair_def unit_bytes_def)

text \<open>C40. An object that crosses the wire loses a key named \<open>__proto__\<close>: a result whose only
  metadata is that key is read back with none.\<close>

theorem proto_key_is_lost:
  assumes "entry_ok (proto_key, v)"
  shows "returned
    (FileResult_decode (Reader_create (fst (w_finish (FileResult_encode
       (FileResult_new\<lparr>FileResult_metadata := [(proto_key, v)]\<rparr>) Writer_create)))) None) = ok FileResult_new"
proof -
  let ?bs = "all_bytes 26 (\<lambda>kv. delim (entry_bytes kv)) [(proto_key, v)]"
  have "emits (FileResult_encode (FileResult_new\<lparr>FileResult_metadata := [(proto_key, v)]\<rparr>)) ?bs"
    using entry.emits_all [of "[(proto_key, v)]" 26] assms
    by (simp add: FileResult_encode_def [abs_def] FileResult_new_def put_opt_def put_all_def [abs_def])
  from emits_finish [OF this]
  have e: "fst (w_finish (FileResult_encode (FileResult_new\<lparr>FileResult_metadata := [(proto_key, v)]\<rparr>)
      Writer_create)) = ?bs" .
  have "parses FileResult_decode_field ?bs FileResult_new
      (merge_into FileResult_metadata (\<lambda>x m. m\<lparr>FileResult_metadata := x\<rparr>) js_put [(proto_key, v)] FileResult_new)"
    by (rule entry.parses_into) (use assms in \<open>simp_all add: lens_def FileResult_decode_field_def tag_no_def\<close>)
  then have "parses FileResult_decode_field ?bs FileResult_new FileResult_new"
    by (simp add: merge_into_def js_put_def FileResult_new_def)
  from parses_decode(2) [OF this] show ?thesis
    unfolding e by (simp add: FileResult_decode_def)
qed

theorem proto_key_is_lost_witness:
  "returned
    (FileResult_decode (Reader_create (fst (w_finish (FileResult_encode
       (FileResult_new\<lparr>FileResult_metadata := [(proto_key, [120])]\<rparr>) Writer_create)))) None) = ok FileResult_new"
  by (rule proto_key_is_lost)
    (simp add: entry_ok_def string_ok_def chunk_safe_def proto_key_def entry_bytes_def field_bytes_def
      string_bytes_def delim_def uint32_bytes_def varint_bytes_small utf8_bytes.simps is_pair_def unit_bytes_def)

text \<open>Assigning a key of an object: the key reads back the new value, every other key what
  it had, and no key is listed twice.\<close>

theorem object_assignment:
  assumes "distinct (map fst obj)" "key \<noteq> proto_key"
  shows "map_of (js_put (key, v) obj) = (map_of obj)(key \<mapsto> v) \<and> distinct (map fst (js_put (key, v) obj))"
  using js_put_lookup [OF assms(1), of "(key, v)"] js_put_distinct [OF assms(1)] assms(2) by simp

theorem object_assignment_witness:
  "map_of (js_put ([49], [120 :: u16]) [([107], [])]) = (map_of [([107], [])])([49] \<mapsto> [120]) \<and>
   distinct (map fst (js_put ([49], [120 :: u16]) [([107], [])]))"
  by (rule object_assignment) (simp_all add: proto_key_def)

section \<open>Messages as plain objects\<close>

lemma sample_good: "Envelope_good sample_envelope"
  by (simp add: Envelope_good_def sample_envelope_def Envelope_new_def uint64_ok_def Request_good_def
      sample_request_def Request_new_def SearchRequest_good_def sample_search_def SearchRequest_new_def
      uint32_ok_def js_object_def js_put_def proto_key_def array_index_def decimal_def)

text \<open>C6. The plain form of an envelope that the daemon and the client exchange loses nothing: whatever
  \<open>toObject\<close> is asked to write as strings or names (64-bit numbers, enums, numbers that are not finite) and however
  it treats empty lists and oneofs, \<open>fromObject\<close> takes the object back to the instance it came from. This is
  for envelopes with at most one member of each oneof, integers of their types, those of 64 bits up to \<open>2\<^sup>53\<close>,
  enum numbers of their lists and metadata with ordinary keys; and without explicit defaults, which add properties of
  their own.\<close>

theorem envelope_plain_roundtrip:
  assumes "Envelope_good m" "\<not> to_defaults opts"
  shows "\<exists>ps. Envelope_toObject (Envelope_obj m) (Some opts) = ok (plain ps) \<and>
    Envelope_fromObject (plain ps) = ok (Envelope_obj m)"
  by (rule Envelope_plain.round [OF assms])

theorem envelope_plain_roundtrip_witness:
  "\<exists>ps. Envelope_toObject (Envelope_obj sample_envelope) (Some toJSONOptions) = ok (plain ps) \<and>
    Envelope_fromObject (plain ps) = ok (Envelope_obj sample_envelope)"
  by (rule envelope_plain_roundtrip [OF sample_good]) (simp add: toJSONOptions_def)

text \<open>C8. On an envelope whose fields have their types \<open>verify\<close> decides the oneof: it accepts the
  instance when at most one of request, response and event is set, and otherwise complains about
  the second.\<close>

theorem envelope_verify_oneof:
  assumes "opt_all uint64_ok (Envelope_requestId m)" "opt_all Request_good (Envelope_request m)"
    "opt_all Response_good (Envelope_response m)" "opt_all Event_good (Envelope_event m)"
  shows "Envelope_verify (Envelope_obj m) =
    ok (if at_most_one False [Envelope_request m \<noteq> None, Envelope_response m \<noteq> None, Envelope_event m \<noteq> None]
        then None else Some ''payload: multiple values'')"
proof -
  note accepted = assms Request_plain.sub.checks Response_plain.sub.checks Event_plain.sub.checks uint64_plain.checks
  note seen = Envelope_lookup uint64_plain.present_opt Request_plain.sub.present_opt
    Response_plain.sub.present_opt Event_plain.sub.present_opt
  show ?thesis
    unfolding Envelope_verify_def Envelope_checks_def Envelope_obj_def verify_with_def
    using accepted
    by (cases "Envelope_requestId m"; cases "Envelope_request m"; cases "Envelope_response m"; cases "Envelope_event m")
      (simp_all add: is_object_def v_field_def v_member_def seen)
qed

theorem envelope_verify_oneof_witness:
  "Envelope_verify (Envelope_obj (sample_envelope\<lparr>Envelope_response := Some Response_new\<rparr>)) =
   ok (Some ''payload: multiple values'')"
  using envelope_verify_oneof [of "sample_envelope\<lparr>Envelope_response := Some Response_new\<rparr>"] sample_good
  by (simp add: Envelope_good_def Response_good_def Response_new_def sample_envelope_def Envelope_new_def)

text \<open>C7. \<open>verify\<close> guards \<open>fromObject\<close>: on a value as \<open>JSON.parse\<close> makes it, with any nesting of
  any types, either \<open>verify\<close> complains (or throws) or \<open>fromObject\<close> returns an instance.\<close>

theorem envelope_verify_guards:
  assumes "all_plain v" "Envelope_verify v = ok None"
  shows "\<exists>m. Envelope_fromObject v = ok m"
  by (rule Envelope_plain.guarded [OF assms(2,1)])

definition sample_json :: js where
  "sample_json = plain [(js_str ''requestId'', int_js 7), (js_str ''request'', plain [(js_str ''status'', plain [])])]"

theorem envelope_verify_guards_witness:
  "Envelope_verify sample_json = ok None \<and> (\<exists>m. Envelope_fromObject sample_json = ok m)"
proof -
  have c: "Request_verify (plain [(js_str ''status'', plain [])]) = ok None"
    by (simp add: Request_verify_def Request_checks_def verify_with_def is_object_def v_member_def present_own shadows_def
        nullish_def v_message_def StatusRequest_verify_def)
  have "Envelope_verify sample_json = ok None"
    by (simp add: sample_json_def Envelope_verify_def Envelope_checks_def verify_with_def is_object_def v_field_def v_member_def
        present_own shadows_def nullish_def v_message_def v_long_def expect_def is_integer_def c)
  then show ?thesis using envelope_verify_guards [of sample_json] by (simp add: sample_json_def)
qed

text \<open>C9. The JSON form is for \<open>fromObject\<close> only: \<open>toJSON\<close> writes 64-bit numbers as strings, and
  \<open>verify\<close> rejects a numbered envelope in that form.\<close>

theorem envelope_json_rejected:
  assumes "Envelope_good m" "Envelope_requestId m = Some n"
  shows "\<exists>p. Envelope_toJSON (Envelope_obj m) = ok p \<and>
    Envelope_verify p = ok (Some ''requestId: integer|Long expected'')"
proof -
  obtain ps where ps: "Envelope_toObject (Envelope_obj m) (Some toJSONOptions) = ok (plain ps)"
    and i: "lookup ps ''requestId'' = Some (uint64_plain.out toJSONOptions n)" and h: "\<not> shadows ps"
    using Envelope_plain_fields [OF assms(1), of toJSONOptions] assms(2) by (auto simp: toJSONOptions_def)
  have "uint64_plain.out toJSONOptions n = String (number_to_string (Fin (of_int n)))"
    by (simp add: uint64_plain.out_def t_long_def is_number_def toJSONOptions_def c_string_def)
  then have "Envelope_verify (plain ps) = ok (Some ''requestId: integer|Long expected'')"
    using i h by (simp add: Envelope_verify_def Envelope_checks_def verify_with_def is_object_def v_field_def present_own nullish_def
        v_long_def is_integer_def expect_def get_prop_def)
  then show ?thesis using ps by (simp add: Envelope_toJSON_def)
qed

theorem envelope_json_rejected_witness:
  "\<exists>p. Envelope_toJSON (Envelope_obj sample_envelope) = ok p \<and>
    Envelope_verify p = ok (Some ''requestId: integer|Long expected'')"
  by (rule envelope_json_rejected [OF sample_good, of 9007199254740992]) (simp add: sample_envelope_def Envelope_new_def)

lemma find_only: "x \<in> set xs \<Longrightarrow> P x \<Longrightarrow> (\<And>y. y \<in> set xs \<Longrightarrow> P y \<Longrightarrow> y = x) \<Longrightarrow> find P xs = Some x"
proof (induction xs)
  case (Cons a xs)
  show ?case
  proof (cases "P a")
    case True
    then show ?thesis using Cons.prems(3) [of a] by simp
  next
    case False
    then have "x \<in> set xs" using Cons.prems(1,2) by (metis set_ConsD)
    then have "find P xs = Some x" by (rule Cons.IH) (auto intro: Cons.prems)
    then show ?thesis using False by simp
  qed
qed simp

lemma oneOfSetter_mem:
  "(js_str k, w) \<in> set (oneOfSetter fieldNames (String (js_str name)) ps) \<longleftrightarrow>
     (js_str k, w) \<in> set ps \<and> \<not> (k \<in> set fieldNames \<and> k \<noteq> name)"
  by (auto simp: oneOfSetter_def list_ex_iff)

lemma oneOfSetter_distinct:
  "distinct (map fst ps) \<Longrightarrow> distinct (map fst (oneOfSetter fieldNames name ps))"
  unfolding oneOfSetter_def by (rule distinct_map_filter)

lemma oneOfSetter_lookup:
  assumes "distinct (map fst ps)"
  shows "lookup (oneOfSetter fieldNames (String (js_str name)) ps) k =
    (if k \<in> set fieldNames \<and> k \<noteq> name then None else lookup ps k)"
proof -
  have s: "lookup (oneOfSetter fieldNames (String (js_str name)) ps) k = Some w \<longleftrightarrow>
      (js_str k, w) \<in> set ps \<and> \<not> (k \<in> set fieldNames \<and> k \<noteq> name)" for w
    unfolding lookup_def map_of_eq_Some_iff [OF oneOfSetter_distinct [OF assms]] oneOfSetter_mem ..
  have t: "lookup ps k = Some w \<longleftrightarrow> (js_str k, w) \<in> set ps" for w
    unfolding lookup_def map_of_eq_Some_iff [OF assms] ..
  have eqI: "x = y" if "\<And>w. x = Some w \<longleftrightarrow> y = Some w" for x y :: "js option"
    using that by (metis option.exhaust)
  show ?thesis by (rule eqI) (simp add: s t)
qed

text \<open>The accessor of a oneof: assigning the name of a member that is set deletes the other
  members and leaves everything else, and the getter then gives this name.\<close>

theorem oneof_accessor:
  assumes "name \<in> set fieldNames" "distinct (map fst ps)" "lookup ps name = Some v" "\<not> nullish v"
  shows "oneOfGetter fieldNames (oneOfSetter fieldNames (String (js_str name)) ps) = Some (js_str name) \<and>
    (\<forall>k. lookup (oneOfSetter fieldNames (String (js_str name)) ps) k =
      (if k \<in> set fieldNames \<and> k \<noteq> name then None else lookup ps k))"
proof -
  let ?ps = "oneOfSetter fieldNames (String (js_str name)) ps"
  let ?P = "\<lambda>kv. list_ex (\<lambda>f. fst kv = js_str f) fieldNames \<and> \<not> nullish (snd kv)"
  note d = oneOfSetter_distinct [OF assms(2)]
  have v: "(js_str name, v) \<in> set ?ps"
    unfolding oneOfSetter_mem using assms(3) unfolding lookup_def by (simp add: map_of_SomeD)
  have "find ?P (rev ?ps) = Some (js_str name, v)"
  proof (rule find_only)
    show "(js_str name, v) \<in> set (rev ?ps)" using v by simp
    show "?P (js_str name, v)" using assms(1,4) by (simp add: list_ex_iff)
    fix kv assume kv: "kv \<in> set (rev ?ps)" "?P kv"
    obtain f where f: "f \<in> set fieldNames" "fst kv = js_str f"
      using kv(2) by (auto simp: list_ex_iff)
    have m: "(js_str f, snd kv) \<in> set ?ps"
      using kv(1) f(2) by (metis set_rev prod.collapse)
    then have "f = name" unfolding oneOfSetter_mem using f(1) by blast
    moreover have "snd kv = v" using eq_key_imp_eq_value [OF d m] v \<open>f = name\<close> by blast
    ultimately show "kv = (js_str name, v)" using f(2) by (simp add: prod_eq_iff)
  qed
  then show ?thesis by (simp add: oneOfGetter_def oneOfSetter_lookup [OF assms(2)])
qed

theorem oneof_accessor_witness:
  "oneOfGetter [''request'', ''response''] (oneOfSetter [''request'', ''response''] (String (js_str ''request''))
     [(js_str ''request'', plain []), (js_str ''response'', plain [])]) = Some (js_str ''request'')"
  by (rule oneof_accessor [of "''request''" "[''request'', ''response'']"
      "[(js_str ''request'', plain []), (js_str ''response'', plain [])]" "plain []", THEN conjunct1])
    (simp_all add: nullish_def)

section \<open>The writer\<close>

text \<open>C22. \<open>finish\<close> returns exactly the bytes of the operations, in the order they were pushed, in
  a buffer of the length the writer has counted: no store falls outside it and none is missing.\<close>

theorem finish_is_concatenation:
  assumes "w_ok w"
  shows "fst (w_finish w) = concat (map (\<lambda>x. op_bytes (op_fn x)) (w_ops w)) \<and>
    length (fst (w_finish w)) = w_len w"
  using w_finish_out [OF assms] assms by (simp add: w_out_def ops_out_def w_ok_def level_ok_def)

theorem finish_is_concatenation_witness:
  "fst (w_finish (w_string [104, 105] (w_uint32 10 Writer_create))) = [10, 2, 104, 105]"
proof -
  have "w_ok (w_string [104, 105] (w_uint32 10 Writer_create))"
    using emits_string emits_uint32 by (simp add: emits_def)
  from finish_is_concatenation [OF this] show ?thesis
    by (simp add: w_string_def w_uint32_def w_push_def Writer_create_def varint_bytes_small
        utf8_bytes.simps is_pair_def unit_bytes_def)
qed

text \<open>C23. The invariant of the writer, that every length it keeps (its own, those of the forked
  states, that of each operation) is the number of bytes behind it, holds at the start and after
  every method.\<close>

theorem writer_invariant:
  assumes "w_ok w" "length bs < 4294967296" "- 9223372036854775808 \<le> i"
  shows "w_ok Writer_create \<and> w_ok (w_uint32 n w) \<and> w_ok (w_int32 i w) \<and> w_ok (w_sint32 n w) \<and>
    w_ok (w_uint64 n w) \<and> w_ok (w_int64 n w) \<and> w_ok (w_sint64 n w) \<and> w_ok (w_bool b w) \<and>
    w_ok (w_fixed32 n w) \<and> w_ok (w_fixed64 n w) \<and> w_ok (w_float f w) \<and> w_ok (w_double d w) \<and>
    w_ok (w_bytes bs w) \<and> w_ok (w_string s w) \<and> w_ok (w_fork w) \<and> w_ok (w_reset w) \<and> w_ok (w_ldelim w)"
proof -
  note ok = emits_ok [OF _ assms(1)]
  note oks = ok [OF emits_uint32] ok [OF emits_int32] ok [OF emits_sint32] ok [OF emits_uint64]
    ok [OF emits_int64] ok [OF emits_sint64] ok [OF emits_bool] ok [OF emits_fixed32]
    ok [OF emits_fixed64] ok [OF emits_float] ok [OF emits_double] ok [OF emits_bytes]
    ok [OF emits_string]
  show ?thesis using assms by (simp add: oks w_ok_fork w_ok_reset w_ok_ldelim)
qed

theorem writer_invariant_witness:
  "w_ok (w_ldelim Writer_create)"
  using writer_invariant [of Writer_create "[]" 0] by simp

text \<open>C24. A forked section, with forks nested in it as deep as they go, comes out behind its length,
  and the writer is back on the level of the fork.\<close>

theorem fork_ldelim:
  assumes "emits body bs"
  shows "fst (w_finish (w_ldelim (body (w_fork Writer_create)))) = delim bs \<and>
    w_states (w_ldelim (body (w_fork w))) = w_states w"
  using emits_finish [OF emits_delim [OF assms]] emits_delim [OF assms] by (simp add: emits_def)

theorem fork_ldelim_witness:
  "fst (w_finish (w_ldelim (w_ldelim (w_bool True (w_fork (w_fork Writer_create)))))) = [2, 1, 1]"
  using conjunct1 [OF fork_ldelim [OF emits_delim [OF emits_bool [of True]]]]
  by (simp add: delim_def uint32_bytes_def varint_bytes_small)

lemma replicate_two: "replicate 2 x = [x, x]"
  by (simp add: numeral_2_eq_2)

text \<open>\<open>finish\<close> cannot be called twice: writing a 64-bit number shifts its \<open>LongBits\<close> object
  away, and a second call returns other bytes.\<close>

theorem finish_twice_differs:
  "fst (w_finish (w_uint64 300 Writer_create)) = [172, 2] \<and>
   fst (w_finish (snd (w_finish (w_uint64 300 Writer_create)))) = [2, 0]"
  by (simp add: w_finish_def w_uint64_def w_push_def Writer_create_def LongBits_from_def
      LongBits_fromNumber_def LongBits_length_def writeVarint64.simps writeVarint64_lo.simps
      replicate_two)

section \<open>Strings\<close>

text \<open>C26. Every string survives a write into a buffer and the read of that buffer, as long as
  it fits in two chunks of the reader or holds no surrogate pair.\<close>

theorem utf8_roundtrip:
  assumes "chunk_safe s"
  shows "utf8_read (fst (utf8_write s (replicate (utf8_length s) 0) 0)) 0 (utf8_length s) = s"
  using assms utf8_read_bytes [of "utf8_bytes s" 0 s]
  by (simp add: utf8_write_eq utf8_length_eq splice_all)

theorem utf8_roundtrip_witness:
  "utf8_read (fst (utf8_write [65, 233, 0xD83D, 0xDE00] (replicate (utf8_length [65, 233, 0xD83D, 0xDE00]) 0) 0)) 0
     (utf8_length [65, 233, 0xD83D, 0xDE00]) = [65, 233, 0xD83D, 0xDE00]"
  by (rule utf8_roundtrip) (simp add: chunk_safe_def)

text \<open>C28. The bound of the round trip is sharp: the chunk array of \<open>utf8.read\<close> is not cut
  back between chunks, so a string of 16385 code units whose only pair sits on the chunk boundary
  comes back with its low surrogate once more at the end.\<close>

theorem utf8_read_repeats_surrogate:
  assumes "a < 128" "is_high h" "is_low l" "n \<le> 8191" "8191 \<le> n"
  shows "utf8_read (utf8_bytes (replicate n a @ [h, l] @ replicate (Suc n) a)) 0
      (length (utf8_bytes (replicate n a @ [h, l] @ replicate (Suc n) a))) =
    (replicate n a @ [h, l] @ replicate (Suc n) a) @ [l]"
  by (rule utf8_read_leftover [OF assms])

theorem utf8_read_repeats_surrogate_witness:
  "\<exists>s. utf8_read (utf8_bytes s) 0 (length (utf8_bytes s)) = s @ [0xDE00]"
  by (rule exI) (rule utf8_read_repeats_surrogate [of 97 "0xD83D" "0xDE00" 8191]; simp)

text \<open>\<open>utf8.write\<close> stores exactly as many bytes as \<open>utf8.length\<close> announces, at the
  offset it is given, and touches nothing else of the buffer.\<close>

theorem utf8_write_extent:
  assumes "offset + utf8_length s \<le> length buf"
  shows "utf8_write s buf offset =
    (take offset buf @ utf8_bytes s @ drop (offset + utf8_length s) buf, utf8_length s)"
  using assms utf8_write_eq [of offset s buf] by (simp add: utf8_length_eq splice_def)

theorem utf8_write_extent_witness:
  "utf8_write [233] [1, 2, 3, 4] 1 = (take 1 [1, 2, 3, 4] @ utf8_bytes [233] @ drop (1 + utf8_length [233]) [1, 2, 3, 4],
     utf8_length [233])"
  by (rule utf8_write_extent) (simp add: low_follows_def)

section \<open>Numbers\<close>

text \<open>A \<open>uint32\<close> is at most five bytes, and the length \<open>write_uint32\<close> computes by comparing is
  the number of bytes \<open>writeVarint32\<close> then stores at its offset.\<close>

theorem varint32_extent:
  assumes "pos + varint32_length v \<le> length buf"
  shows "\<exists>bs. writeVarint32 v buf pos = take pos buf @ bs @ drop (pos + varint32_length v) buf \<and>
    length bs = varint32_length v \<and> varint32_length v \<le> 5"
  using assms writeVarint32_splice [of pos v buf]
  by (intro exI [of _ "varint_bytes (unat v)"]) (simp add: varint32_length_eq [symmetric] splice_def varint32_length_def)

theorem varint32_extent_witness:
  "\<exists>bs. writeVarint32 300 [1, 2, 3, 4] 1 = take 1 [1, 2, 3, 4] @ bs @ drop (1 + varint32_length 300) [1, 2, 3, 4] \<and>
    length bs = varint32_length 300 \<and> varint32_length 300 \<le> 5"
  by (rule varint32_extent) (simp add: varint32_length_def)

text \<open>\<open>LongBits.length\<close>, computed from three parts of the two halves, is the number of bytes
  of the varint, between 1 and 10.\<close>

theorem longbits_length_bytes:
  "LongBits_length b = length (varint_bytes (LongBits_val b)) \<and> 1 \<le> LongBits_length b \<and> LongBits_length b \<le> 10"
proof -
  have "LongBits_val b < 128 ^ Suc 9" using LongBits_val_less [of b] by simp
  from length_varint_bytes_bound [OF this] length_varint_bytes_pos [of "LongBits_val b"]
  show ?thesis by (simp add: LongBits_length_eq Suc_le_eq)
qed

text \<open>C31. \<open>LongBits.fromNumber\<close>, with its complement and carries by hand, is two's complement in 64
  bits for every integer.\<close>

theorem fromNumber_twos_complement:
  "int (LongBits_val (LongBits_fromNumber v)) = v mod 2 ^ 64"
  by (simp add: LongBits_val_fromNumber)

text \<open>\<open>toNumber\<close> gives the nearest double: it is off by at most half a unit in the last of
  53 places, and exact up to \<open>2 ^ 53\<close>.\<close>

theorem toNumber_nearest:
  "\<bar>LongBits_toNumber True b - int (LongBits_val b)\<bar> * 2 \<le> 2 ^ f64_shift (LongBits_val b) \<and>
   (LongBits_val b \<le> 2 ^ 53 \<longrightarrow> LongBits_toNumber True b = int (LongBits_val b))"
  using f64_round_error [of "LongBits_val b"] by (simp add: LongBits_toNumber_val)

theorem toNumber_nearest_witness:
  "LongBits_toNumber True \<lparr>lo = 300, hi = 0\<rparr> = 300"
  using toNumber_nearest [of "\<lparr>lo = 300, hi = 0\<rparr>"] by (simp add: LongBits_val_def)

text \<open>Beyond \<open>2 ^ 53\<close> a number of the daemon changes on the way: the bytes of
  \<open>2 ^ 53 + 1\<close> are read as \<open>2 ^ 53\<close>.\<close>

theorem uint64_precision_loss:
  "returned (r_uint64 (Reader_create (varint_bytes (2 ^ 53 + 1)))) = ok (2 ^ 53)"
proof -
  have n: "(9007199254740993 :: nat) < 2 ^ 64" by simp
  have "r_uint64 (Reader_create (varint_bytes 9007199254740993)) =
      map_res (LongBits_toNumber True) (ok (LongBits_of 9007199254740993,
        r_move (length (varint_bytes 9007199254740993)) (Reader_create (varint_bytes 9007199254740993))))"
    using readsD [OF reads_readLongVarint [OF n], of "Reader_create (varint_bytes 9007199254740993)"]
    by (simp add: r_uint64_def Reader_create_def)
  moreover have "f64_round 9007199254740993 = 9007199254740992"
    by (simp add: f64_round_def f64_shift.simps)
  ultimately show ?thesis
    by (simp add: map_res_def LongBits_toNumber_val LongBits_val_of)
qed

text \<open>Zig-zag encoding and decoding of 64-bit values are inverse to each other, both ways.\<close>

theorem zig_zag_bijection:
  "LongBits_zzDecode (LongBits_zzEncode b) = b \<and> LongBits_zzEncode (LongBits_zzDecode b) = b"
  by (simp add: zzDecode_zzEncode zzEncode_zzDecode)

text \<open>The eight-character hash of a 64-bit value determines it.\<close>

theorem hash_roundtrip:
  "LongBits_fromHash (LongBits_toHash b) = b \<and> length (LongBits_toHash b) = 8"
  by (rule conjI [OF fromHash_toHash]) (simp add: LongBits_toHash_def)

text \<open>C25. Every scalar type of the wire: what a method of the writer stores, the method of the
  reader with the same name returns; for the types of 32 bits over their whole range, for those of 64 bits up to
  \<open>2\<^sup>53\<close> in magnitude, beyond which a number is rounded, for floats and doubles with all bits, for strings that
  the reader's chunks hold, and for strings and bytes shorter than \<open>2\<^sup>32\<close>.\<close>

theorem scalar_roundtrips:
  assumes "0 \<le> u" "u < 4294967296" "- 2147483648 \<le> i" "i < 2147483648"
    "0 \<le> ul" "ul \<le> 9007199254740992" "\<bar>il\<bar> \<le> 9007199254740992"
    "chunk_safe s" "utf8_length s < 4294967296" "length bs < 4294967296"
  shows "returned (r_uint32_number (Reader_create (written (w_uint32 u)))) = ok u \<and>
    returned (r_int32 (Reader_create (written (w_int32 i)))) = ok i \<and>
    returned (r_sint32 (Reader_create (written (w_sint32 i)))) = ok i \<and>
    returned (r_uint64 (Reader_create (written (w_uint64 ul)))) = ok ul \<and>
    returned (r_int64 (Reader_create (written (w_int64 il)))) = ok il \<and>
    returned (r_sint64 (Reader_create (written (w_sint64 il)))) = ok il \<and>
    returned (r_bool (Reader_create (written (w_bool b)))) = ok b \<and>
    returned (r_fixed32 (Reader_create (written (w_fixed32 u)))) = ok u \<and>
    returned (r_sfixed32 (Reader_create (written (w_fixed32 i)))) = ok i \<and>
    returned (r_fixed64 (Reader_create (written (w_fixed64 ul)))) = ok ul \<and>
    returned (r_sfixed64 (Reader_create (written (w_fixed64 il)))) = ok il \<and>
    returned (r_float (Reader_create (written (w_float f)))) = ok f \<and>
    returned (r_double (Reader_create (written (w_double d)))) = ok d \<and>
    returned (r_bytes (Reader_create (written (w_bytes bs)))) = ok bs \<and>
    returned (r_string (Reader_create (written (w_string s)))) = ok s"
  using assms
  by (intro conjI write_read [OF emits_uint32 reads_uint32_number] write_read [OF emits_int32 reads_int32]
      write_read [OF emits_sint32 reads_sint32] write_read [OF emits_uint64 reads_uint64]
      write_read [OF emits_int64 reads_int64] write_read [OF emits_sint64 reads_sint64]
      write_read [OF emits_bool reads_bool] write_read [OF emits_fixed32 reads_fixed32]
      write_read [OF emits_fixed32 reads_sfixed32] write_read [OF emits_fixed64 reads_fixed64]
      write_read [OF emits_fixed64 reads_sfixed64]
      write_read [OF emits_float reads_float] write_read [OF emits_double reads_double]
      write_read [OF emits_bytes reads_bytes] write_read [OF emits_string reads_string]) simp_all

theorem scalar_roundtrips_witness:
  "returned (r_int32 (Reader_create (written (w_int32 (- 5))))) = ok (- 5)"
  using scalar_roundtrips [of 7 "- 5" 7 "- 7" "[104]" "[]"] by (simp add: chunk_safe_def)

text \<open>A negative \<open>int32\<close> takes ten bytes, the sign extended to 64 bits, a non-negative one at
  most five.\<close>

theorem int32_size:
  assumes "- 2147483648 \<le> v" "v < 2147483648"
  shows "if v < 0 then length (written (w_int32 v)) = 10 else length (written (w_int32 v)) \<le> 5"
proof -
  have w: "written (w_int32 v) = int32_bytes v"
    using assms by (intro emits_finish emits_int32) simp
  have n: "128 ^ 9 \<le> nat (v mod 18446744073709551616) \<and> nat (v mod 18446744073709551616) < 128 ^ Suc 9" if "v < 0"
    using that assms mod_pos_pos_trivial [of "v + 18446744073709551616" 18446744073709551616]
    by (simp add: le_nat_iff nat_less_iff)
  have "nat (v mod 4294967296) < 4294967296" by (simp add: nat_less_iff)
  then have "nat (v mod 4294967296) < 128 ^ Suc 4" by simp
  from length_varint_bytes_bound [OF this] show ?thesis
    using length_varint_bytes_exact [of 9 "nat (v mod 18446744073709551616)"] n
    by (simp add: w int32_bytes_def int64_bytes_def uint32_bytes_def)
qed

theorem int32_size_witness: "length (written (w_int32 (- 1))) = 10"
  using int32_size [of "- 1"] by simp

section \<open>Errors of the reader\<close>

text \<open>C29. \<open>skipType\<close> returns for every wire type and every buffer, groups included, and when it
  does not throw it has moved forward and stayed inside the buffer.\<close>

theorem skipType_returns:
  assumes "r_len r = length (r_buf r)" "r_pos r \<le> r_len r + 1"
  shows "\<exists>result. r_skipType w r = Some result \<and>
    (\<forall>r'. result = Inr r' \<longrightarrow> r_pos r < r_pos r' \<and> r_pos r' \<le> r_len r \<and> r_buf r' = r_buf r)"
  using skips_skipType [of r w] assms by (auto simp: r_wf_def skips_def same_buf_def)

theorem skipType_returns_witness:
  "\<exists>result. r_skipType 3 (Reader_create [11, 8, 150, 1, 12]) = Some result"
  using skipType_returns [of "Reader_create [11, 8, 150, 1, 12]" 3] by (auto simp: Reader_create_def)

text \<open>A \<open>uint32\<close> that is cut off is an error: when every byte left asks for another and there are
  fewer than ten, the reader throws its RangeError with the position at the end.\<close>

theorem truncated_uint32:
  assumes "\<forall>b \<in> set bs. 128 \<le> b" "length bs < 10"
  shows "r_uint32 (Reader_create bs) = throw (RangeError (length bs) 10 (length bs))"
proof -
  have "\<not> byte_lt128 bs i" for i
    using assms(1) nth_mem [of i bs] by (auto simp: byte_lt128_def not_less [symmetric])
  then show ?thesis
    using assms(2) by (simp add: r_uint32_def Reader_create_def Let_def out_of_range_def r_move_def)
qed

theorem truncated_uint32_witness:
  "r_uint32 (Reader_create [128, 255]) = throw (RangeError 2 10 2)"
  using truncated_uint32 [of "[128, 255]"] by simp

text \<open>A 64-bit number that is cut off after three or four bytes is no error: the fourth byte is
  read without a check, the number comes out and the cursor can stand behind the end.\<close>

theorem truncated_uint64_accepted:
  "r_uint64 (Reader_create [129, 128, 128]) = ok (1, \<lparr>r_buf = [129, 128, 128], r_pos = 4, r_len = 3\<rparr>) \<and>
   r_uint64 (Reader_create [129, 128, 128, 128]) = ok (1, \<lparr>r_buf = [129, 128, 128, 128], r_pos = 4, r_len = 4\<rparr>)"
  by (simp add: r_uint64_def readLongVarint_def Reader_create_def long_loop.simps byte_lt128_def byte_at_def
      put_lo_def LongBits_zero_def r_move_def map_res_def LongBits_toNumber_val LongBits_val_def)

text \<open>A length that reaches beyond the buffer is an error of \<open>bytes\<close>, and so of \<open>string\<close>.\<close>

theorem bytes_out_of_range:
  assumes "length bs < n" "n < 4294967296"
  defines "hd_bytes \<equiv> uint32_bytes (int n)"
  shows "r_bytes (Reader_create (hd_bytes @ bs)) =
      throw (RangeError (length hd_bytes) n (length hd_bytes + length bs)) \<and>
    r_string (Reader_create (hd_bytes @ bs)) =
      throw (RangeError (length hd_bytes) n (length hd_bytes + length bs))"
proof -
  have "reads r_uint32 hd_bytes (word_of_int (int n))"
    unfolding hd_bytes_def by (rule reads_varint32)
  from readsD [OF this, of "Reader_create (hd_bytes @ bs)"]
  have "r_uint32 (Reader_create (hd_bytes @ bs)) =
      ok (word_of_nat n, r_move (length hd_bytes) (Reader_create (hd_bytes @ bs)))"
    by (simp add: Reader_create_def bytes_at_prefix)
  moreover have "unat (word_of_nat n :: u32) = n"
    using assms(2) by (simp add: unat_of_nat take_bit_nat_eq_self_iff)
  ultimately show ?thesis
    using assms(1) by (simp add: r_bytes_def r_string_def map_res_def out_of_range_def Reader_create_def Let_def)
qed

theorem bytes_out_of_range_witness:
  "r_bytes (Reader_create [5, 104, 105]) = throw (RangeError 1 5 3)"
  using bytes_out_of_range [of "[104, 105]" 5] by (simp add: uint32_bytes_def varint_bytes_small)

end
